(* ===== verification/Prelude.thy ===== *)
theory Prelude
  imports Complex_Main "HOL-Library.Word"
begin

text \<open>
  What the components share: the names of the C integer types, the result type
  of the fallible C code (every access out of bounds, shift by a bad amount,
  division by zero and failing assertion of the source is an \<open>Inl\<close>), the
  sequencing of such results, arrays of a fixed length, the bit operations the
  C code uses and the lemmas about them that several theories need.
\<close>

unbundle bit_operations_syntax

type_synonym u8 = "8 word"
type_synonym u16 = "16 word"
type_synonym u32 = "32 word"

named_theorems res_simps "sequencing of fallible steps"
named_theorems arr_simps "checked array accesses"

section \<open>Results\<close>

datatype c_error =
    Out_of_bounds
  | Bad_shift
  | Bsf_zero
  | Div_zero
  | Signed_overflow
  | Assert_failed
  | Null_pointer
  | Out_of_memory
  | Program_exit
  | No_return

type_synonym 'a res = "c_error + 'a"

definition bindE :: "'a res \<Rightarrow> ('a \<Rightarrow> 'b res) \<Rightarrow> 'b res" where
  "bindE m f = (case m of Inl e \<Rightarrow> Inl e | Inr a \<Rightarrow> f a)"

definition is_ok :: "'a res \<Rightarrow> bool" where
  "is_ok r = (case r of Inl _ \<Rightarrow> False | Inr _ \<Rightarrow> True)"

definition guardE :: "c_error \<Rightarrow> bool \<Rightarrow> unit res" where
  "guardE e b = (if b then Inr () else Inl e)"

lemma bindE_simps [simp, res_simps]:
  "bindE (Inl e) f = Inl e"
  "bindE (Inr a) f = f a"
  by (simp_all add: bindE_def)

lemma bindE_eq_Inr [simp]: "bindE m f = Inr b \<longleftrightarrow> (\<exists>a. m = Inr a \<and> f a = Inr b)"
  by (cases m) auto

lemma bindE_if: "bindE (if b then m else n) f = (if b then bindE m f else bindE n f)"
  by simp

lemma is_ok_simps [simp, res_simps]: "is_ok (Inr a)" "\<not> is_ok (Inl e)"
  by (simp_all add: is_ok_def)

lemma is_ok_iff: "is_ok r \<longleftrightarrow> (\<exists>a. r = Inr a)"
  by (cases r) auto

lemma guardE_simps [simp, res_simps]:
  "guardE e True = Inr ()" "guardE e False = Inl e"
  by (simp_all add: guardE_def)

lemma guardE_eq_Inr [simp]: "guardE e b = Inr u \<longleftrightarrow> b"
  by (simp add: guardE_def)

text \<open>A property of the value of a result, if it has one.\<close>

definition res_all :: "('a \<Rightarrow> bool) \<Rightarrow> 'a res \<Rightarrow> bool" where
  "res_all P r = (case r of Inl _ \<Rightarrow> True | Inr a \<Rightarrow> P a)"

lemma res_all_simps [simp, res_simps]:
  "res_all P (Inl e)" "res_all P (Inr a) = P a"
  "res_all P (bindE m f) = res_all (\<lambda>a. res_all P (f a)) m"
  by (simp_all add: res_all_def bindE_def split: sum.split)

lemma res_allD: "res_all P r \<Longrightarrow> r = Inr a \<Longrightarrow> P a"
  by simp

lemma res_all_mono: "res_all P r \<Longrightarrow> (\<And>a. r = Inr a \<Longrightarrow> P a \<Longrightarrow> Q a) \<Longrightarrow> res_all Q r"
  by (cases r) simp_all

lemma res_allI: "(\<And>a. r = Inr a \<Longrightarrow> P a) \<Longrightarrow> res_all P r"
  by (cases r) simp_all

section \<open>Arrays\<close>

text \<open>A C array of \<open>n\<close> cells is a function on indices; only the indices
  from 0 below \<open>n\<close> are ever accessed, any other access is an error.\<close>

definition arr_get :: "int \<Rightarrow> (int \<Rightarrow> 'a) \<Rightarrow> int \<Rightarrow> 'a res" where
  "arr_get n f i = (if 0 \<le> i \<and> i < n then Inr (f i) else Inl Out_of_bounds)"

definition arr_set :: "int \<Rightarrow> (int \<Rightarrow> 'a) \<Rightarrow> int \<Rightarrow> 'a \<Rightarrow> (int \<Rightarrow> 'a) res" where
  "arr_set n f i v = (if 0 \<le> i \<and> i < n then Inr (f(i := v)) else Inl Out_of_bounds)"

lemma arr_get_in [simp, arr_simps]: "0 \<le> i \<Longrightarrow> i < n \<Longrightarrow> arr_get n f i = Inr (f i)"
  by (simp add: arr_get_def)

lemma arr_set_in [simp, arr_simps]: "0 \<le> i \<Longrightarrow> i < n \<Longrightarrow> arr_set n f i v = Inr (f(i := v))"
  by (simp add: arr_set_def)

lemma arr_get_out [simp, arr_simps]: "\<not> (0 \<le> i \<and> i < n) \<Longrightarrow> arr_get n f i = Inl Out_of_bounds"
  by (auto simp: arr_get_def)

lemma arr_set_out [simp, arr_simps]: "\<not> (0 \<le> i \<and> i < n) \<Longrightarrow> arr_set n f i v = Inl Out_of_bounds"
  by (auto simp: arr_set_def)

section \<open>C arithmetic\<close>

definition cdiv :: "int \<Rightarrow> int \<Rightarrow> int" where
  "cdiv a b = (if (a < 0) = (b < 0) then \<bar>a\<bar> div \<bar>b\<bar> else - (\<bar>a\<bar> div \<bar>b\<bar>))"

definition cmod :: "int \<Rightarrow> int \<Rightarrow> int" where
  "cmod a b = a - b * cdiv a b"

lemma cdiv_nonneg [simp]: "0 \<le> a \<Longrightarrow> 0 < b \<Longrightarrow> cdiv a b = a div b"
  by (simp add: cdiv_def)

lemma cmod_nonneg [simp]: "0 \<le> a \<Longrightarrow> 0 < b \<Longrightarrow> cmod a b = a mod b"
  by (simp add: cmod_def minus_mult_div_eq_mod)

lemma cdiv_dvd: "0 < b \<Longrightarrow> b dvd a \<Longrightarrow> cdiv a b * b = a"
  by (auto simp: cdiv_def abs_if elim!: dvdE)

definition i32_ok :: "int \<Rightarrow> bool" where
  "i32_ok x = (- 2147483648 \<le> x \<and> x \<le> 2147483647)"

definition i32 :: "int \<Rightarrow> int res" where
  "i32 x = (if i32_ok x then Inr x else Inl Signed_overflow)"

text \<open>\<open>1 << n\<close> in C, defined for shift amounts below the width of an \<open>int\<close>.\<close>

definition shl1 :: "int \<Rightarrow> u32 res" where
  "shl1 n = (if 0 \<le> n \<and> n < 32 then Inr (push_bit (nat n) 1) else Inl Bad_shift)"

lemma shl1_in [simp]: "0 \<le> n \<Longrightarrow> n < 32 \<Longrightarrow> shl1 n = Inr (push_bit (nat n) 1)"
  by (simp add: shl1_def)

lemma shl1_out [simp]: "\<not> (0 \<le> n \<and> n < 32) \<Longrightarrow> shl1 n = Inl Bad_shift"
  by (auto simp: shl1_def)

text \<open>The \<open>bsf\<close> instruction: the index of the lowest set bit; the result for
  a zero operand is undefined, so it is an error here.\<close>

definition bsf :: "u32 \<Rightarrow> nat res" where
  "bsf x = (case find (bit x) [0..<32] of None \<Rightarrow> Inl Bsf_zero | Some n \<Rightarrow> Inr n)"

lemma bsf_zero [simp]: "bsf 0 = Inl Bsf_zero"
proof -
  have "find (bit (0::u32)) [0..<32] = None"
    by (simp add: find_None_iff)
  then show ?thesis by (simp add: bsf_def)
qed

lemma bsf_eq_Inr: "bsf x = Inr n \<longleftrightarrow> bit x n \<and> (\<forall>m<n. \<not> bit x m)"
proof
  assume "bsf x = Inr n"
  then have "find (bit x) [0..<32] = Some n"
    by (simp add: bsf_def split: option.splits)
  then obtain i where "i < 32" "bit x i" "n = i" "\<forall>j<i. \<not> bit x j"
    by (auto simp: find_Some_iff)
  then show "bit x n \<and> (\<forall>m<n. \<not> bit x m)" by simp
next
  assume a: "bit x n \<and> (\<forall>m<n. \<not> bit x m)"
  then have "n < 32" using bit_imp_le_length [of x n] by simp
  then have "find (bit x) [0..<32] = Some n"
    using a by (auto simp: find_Some_iff intro!: exI [of _ n])
  then show "bsf x = Inr n" by (simp add: bsf_def)
qed

lemma bsf_ok: "x \<noteq> 0 \<Longrightarrow> \<exists>n<32. bsf x = Inr n \<and> bit x n"
proof -
  assume "x \<noteq> 0"
  then obtain k where k: "bit x k" by (metis bit_eqI bit_0_eq bot_apply bot_bool_def)
  then have "k < 32" using bit_imp_le_length [of x k] by simp
  with k have "find (bit x) [0..<32] \<noteq> None" by (auto simp: find_None_iff)
  then obtain n where n: "find (bit x) [0..<32] = Some n" by auto
  then have "n < 32" "bit x n" by (auto simp: find_Some_iff)
  with n show ?thesis by (auto simp: bsf_def)
qed

lemma bsf_push_bit [simp]: "n < 32 \<Longrightarrow> bsf (push_bit n 1) = Inr n"
  by (auto simp: bsf_eq_Inr bit_simps)

section \<open>Bytes and words\<close>

lemma sint_of_int_u32: "- 2147483648 \<le> x \<Longrightarrow> x < 2147483648 \<Longrightarrow> sint (word_of_int x :: u32) = x"
  using signed_take_bit_int_eq_self [of 31 x] by (simp add: sint_sbintrunc')

definition b2w :: "u8 \<Rightarrow> u16" where "b2w b = ucast b"

definition lo8 :: "u16 \<Rightarrow> u8" where "lo8 w = ucast w"

definition hi8 :: "u16 \<Rightarrow> u8" where "hi8 w = ucast (drop_bit 8 w)"

lemma lo8_hi8_join: "push_bit 8 (b2w (hi8 w)) OR b2w (lo8 w) = w"
  by (rule bit_word_eqI) (auto simp: b2w_def lo8_def hi8_def bit_simps)

lemma lo8_b2w [simp]: "lo8 (b2w x) = x"
  by (rule bit_word_eqI) (auto simp: b2w_def lo8_def bit_simps)

lemma hi8_b2w [simp]: "hi8 (b2w x) = 0"
  by (rule bit_word_eqI) (auto simp: b2w_def hi8_def bit_simps dest: bit_imp_le_length)

lemma lo8_join [simp]: "lo8 (push_bit 8 h OR b2w l) = l"
  by (rule bit_word_eqI) (auto simp: b2w_def lo8_def bit_simps)

lemma hi8_join [simp]: "hi8 (push_bit 8 (b2w h) OR b2w l) = h"
  by (rule bit_word_eqI) (auto simp: b2w_def hi8_def bit_simps dest: bit_imp_le_length)

lemma u8_below: "unat (x :: u8) < n \<Longrightarrow> x \<in> set (map of_nat [0..<n])"
  by (auto intro!: image_eqI [of x _ "unat x"])

text \<open>Replacing one byte of a 16-bit register.\<close>

definition set_lo8 :: "u16 \<Rightarrow> u8 \<Rightarrow> u16" where
  "set_lo8 w b = (w AND NOT 0xFF) OR b2w b"

definition set_hi8 :: "u16 \<Rightarrow> u8 \<Rightarrow> u16" where
  "set_hi8 w b = (w AND NOT 0xFF00) OR push_bit 8 (b2w b)"

lemma mask8_u16: "(0xFF :: u16) = mask 8"
  by (simp add: mask_eq_exp_minus_1)

lemma not_hi_u16: "NOT (0xFF00 :: u16) = mask 8"
  by (simp add: mask_eq_exp_minus_1)

lemma mask16_u32: "(0xFFFF :: u32) = mask 16"
  by (simp add: mask_eq_exp_minus_1)

lemma set_lo8_join: "set_lo8 w b = push_bit 8 (b2w (hi8 w)) OR b2w b"
  unfolding set_lo8_def mask8_u16
  by (rule bit_word_eqI) (auto simp: b2w_def hi8_def bit_simps dest: bit_imp_le_length)

lemma set_hi8_join: "set_hi8 w b = push_bit 8 (b2w b) OR b2w (lo8 w)"
  unfolding set_hi8_def not_hi_u16
  by (rule bit_word_eqI) (auto simp: b2w_def lo8_def bit_simps dest: bit_imp_le_length)

lemma lo8_set_lo8 [simp]: "lo8 (set_lo8 w b) = b" by (simp add: set_lo8_join)
lemma hi8_set_lo8 [simp]: "hi8 (set_lo8 w b) = hi8 w" by (simp add: set_lo8_join)
lemma lo8_set_hi8 [simp]: "lo8 (set_hi8 w b) = lo8 w" by (simp add: set_hi8_join)
lemma hi8_set_hi8 [simp]: "hi8 (set_hi8 w b) = b" by (simp add: set_hi8_join)

lemma set_hi8_set_lo8: "set_hi8 (set_lo8 w l) h = push_bit 8 (b2w h) OR b2w l"
  by (simp add: set_hi8_join)

lemma u16_eqI: "lo8 v = lo8 w \<Longrightarrow> hi8 v = hi8 w \<Longrightarrow> v = w"
  by (metis lo8_hi8_join)

text \<open>The low and high half of a 32-bit address.\<close>

definition set_lo16 :: "u32 \<Rightarrow> u16 \<Rightarrow> u32" where
  "set_lo16 a w = (a AND NOT 0xFFFF) OR ucast w"

definition set_page :: "u32 \<Rightarrow> u8 \<Rightarrow> u32" where
  "set_page a b = (a AND 0xFFFF) OR push_bit 16 (ucast b)"

lemma bit_u8_less: "bit (w :: u8) n \<Longrightarrow> n < 8"
  using bit_imp_le_length [of w n] by simp

lemma bit_u16_less: "bit (w :: u16) n \<Longrightarrow> n < 16"
  using bit_imp_le_length [of w n] by simp

lemma bit_u32_less: "bit (w :: u32) n \<Longrightarrow> n < 32"
  using bit_imp_le_length [of w n] by simp

lemma bit_ucast16_u32: "bit (ucast (w :: u16) :: u32) n \<longleftrightarrow> bit w n"
  using bit_u16_less [of w n] by (auto simp: bit_ucast_iff)

lemma bit_ucast8_u32: "bit (ucast (w :: u8) :: u32) n \<longleftrightarrow> bit w n"
  using bit_u8_less [of w n] by (auto simp: bit_ucast_iff)

lemma bit_set_lo16: "bit (set_lo16 a w) n \<longleftrightarrow> (if n < 16 then bit w n else bit a n)"
  unfolding set_lo16_def mask16_u32 using bit_u16_less [of w n] bit_u32_less [of a n]
  by (cases "n < 16") (auto simp: bit_and_iff bit_or_iff bit_not_iff bit_mask_iff bit_ucast16_u32)

lemma bit_set_page: "bit (set_page a b) n \<longleftrightarrow> (if n < 16 then bit a n else bit b (n - 16))"
  unfolding set_page_def mask16_u32 using bit_u8_less [of b "n - 16"] bit_u32_less [of a n]
  by (cases "n < 16") (auto simp: bit_and_iff bit_or_iff bit_push_bit_iff bit_mask_iff bit_ucast8_u32)

lemma bit_page_join:
  "bit (push_bit 16 (ucast (b :: u8)) OR ucast (w :: u16) :: u32) n
    \<longleftrightarrow> (if n < 16 then bit w n else bit b (n - 16))"
  using bit_u8_less [of b "n - 16"] bit_u16_less [of w n]
  by (cases "n < 16") (auto simp: bit_or_iff bit_push_bit_iff bit_ucast16_u32 bit_ucast8_u32)

lemma set_page_set_lo16: "set_page (set_lo16 a w) b = push_bit 16 (ucast b) OR ucast w"
  by (rule bit_word_eqI) (simp add: bit_set_page bit_set_lo16 bit_page_join)

lemma set_lo16_set_page: "set_lo16 (set_page a b) w = push_bit 16 (ucast b) OR ucast w"
  by (rule bit_word_eqI) (simp add: bit_set_page bit_set_lo16 bit_page_join)

lemma set_lo16_set_lo16: "set_lo16 (set_lo16 a w) v = set_lo16 a v"
  by (rule bit_word_eqI) (simp add: bit_set_lo16)

text \<open>Bytes of a nonnegative integer.\<close>

lemma and_not_ff_int: "(a :: int) AND NOT 0xFF = 256 * (a div 256)"
proof -
  have "a AND NOT (mask 8) = push_bit 8 (drop_bit 8 a)"
    by (rule bit_eqI) (auto simp: bit_simps)
  then show ?thesis by (simp add: mask_eq_exp_minus_1 push_bit_eq_mult drop_bit_eq_div)
qed

lemma or_byte_int: "0 \<le> (v :: int) \<Longrightarrow> v < 256 \<Longrightarrow> (256 * h) OR v = 256 * h + v"
proof -
  assume "0 \<le> v" "v < 256"
  then have "v = take_bit 8 v" by (simp add: take_bit_int_eq_self)
  then have "push_bit 8 h AND v = 0"
    by (metis bit_eqI bit_and_iff bit_0_eq bit_push_bit_iff bit_take_bit_iff bot_apply bot_bool_def linorder_not_less)
  then show ?thesis
    using disjunctive_add_eq_or [of "256 * h" v] by (simp add: push_bit_eq_mult mult.commute)
qed

lemma uint_u8_range [simp]: "0 \<le> uint (v :: u8)" "uint (v :: u8) < 256" "uint (v :: u8) \<le> 255"
  using uint_bounded [of v] by (simp_all add: unsigned_less)

lemma uint_u16_range [simp]: "0 \<le> uint (v :: u16)" "uint (v :: u16) < 65536" "uint (v :: u16) \<le> 65535"
  using uint_bounded [of v] by (simp_all add: unsigned_less)

lemma or_u16_int: "0 \<le> (x :: int) \<Longrightarrow> x \<le> 65535 \<Longrightarrow> 0 \<le> y \<Longrightarrow> y \<le> 65535 \<Longrightarrow> x OR y \<le> 65535"
  using OR_upper [of x 16 y] by simp

lemma unat_u32_less: "unat (x :: u32) < 4294967296"
  using unsigned_less [of x] by simp

lemma unat_u8_less: "unat (x :: u8) < 256"
  using unsigned_less [of x] by simp

lemma unat_u16_less: "unat (x :: u16) < 65536"
  using unsigned_less [of x] by simp

end
