(* ===== verification/Adpcm.thy ===== *)
theory Adpcm
  imports Prelude
begin

text \<open>
  \<open>src/sbemu/ctadpcm.h\<close>: the three Creative ADPCM decoders. Each keeps an 8-bit
  reference and a scale that is an offset into its tables; a sample code plus the
  scale indexes both tables. The locale \<open>adpcm_codec\<close> is the contract by which
  the block decoder of the DSP uses them: the scales that occur, and that they keep
  every table index in range, so that the clamping branch is never taken.
\<close>

definition scaleMap4 :: "int list" where
  "scaleMap4 =
    [0,  1,  2,  3,  4,  5,  6,  7,  0,  -1,  -2,  -3,  -4,  -5,  -6,  -7,
     1,  3,  5,  7,  9, 11, 13, 15, -1,  -3,  -5,  -7,  -9, -11, -13, -15,
     2,  6, 10, 14, 18, 22, 26, 30, -2,  -6, -10, -14, -18, -22, -26, -30,
     4, 12, 20, 28, 36, 44, 52, 60, -4, -12, -20, -28, -36, -44, -52, -60]"

definition adjustMap4 :: "int list" where
  "adjustMap4 =
    [  0, 0, 0, 0, 0, 16, 16, 16,
       0, 0, 0, 0, 0, 16, 16, 16,
     240, 0, 0, 0, 0, 16, 16, 16,
     240, 0, 0, 0, 0, 16, 16, 16,
     240, 0, 0, 0, 0, 16, 16, 16,
     240, 0, 0, 0, 0, 16, 16, 16,
     240, 0, 0, 0, 0,  0,  0,  0,
     240, 0, 0, 0, 0,  0,  0,  0]"

definition scaleMap2 :: "int list" where
  "scaleMap2 =
    [0,  1,  0,  -1,  1,  3,  -1,  -3,
     2,  6, -2,  -6,  4, 12,  -4, -12,
     8, 24, -8, -24, 16, 48, -16, -48]"

definition adjustMap2 :: "int list" where
  "adjustMap2 =
    [  0, 4,   0, 4,
     252, 4, 252, 4, 252, 4, 252, 4,
     252, 4, 252, 4, 252, 4, 252, 4,
     252, 0, 252, 0]"

definition scaleMap3 :: "int list" where
  "scaleMap3 =
    [0,  1,  2,  3,  0,  -1,  -2,  -3,
     1,  3,  5,  7, -1,  -3,  -5,  -7,
     2,  6, 10, 14, -2,  -6, -10, -14,
     4, 12, 20, 28, -4, -12, -20, -28,
     5, 15, 25, 35, -5, -15, -25, -35]"

definition adjustMap3 :: "int list" where
  "adjustMap3 =
    [  0, 0, 0, 8,   0, 0, 0, 8,
     248, 0, 0, 8, 248, 0, 0, 8,
     248, 0, 0, 8, 248, 0, 0, 8,
     248, 0, 0, 8, 248, 0, 0, 8,
     248, 0, 0, 0, 248, 0, 0, 0]"

text \<open>The body the three decoders share: \<open>upper\<close> is the last index of the tables.
  The result is the new reference, which is also the decoded sample, and the new scale.\<close>

definition decode_ADPCM_sample :: "int list \<Rightarrow> int list \<Rightarrow> int \<Rightarrow> u8 \<Rightarrow> u8 \<Rightarrow> int \<Rightarrow> u8 \<times> int" where
  "decode_ADPCM_sample scaleMap adjustMap upper sample reference scale =
    (let samp = uint sample + scale;
         samp = (if samp < 0 then 0 else samp);
         samp = (if samp > upper then upper else samp);
         ref = uint reference + scaleMap ! nat samp;
         newref = (if ref > 0xff then 0xff else if ref < 0 then 0 else word_of_int (ref AND 0xff));
         newscale = (scale + adjustMap ! nat samp) AND 0xff
     in (newref, newscale))"

definition decode_ADPCM_4_sample :: "u8 \<Rightarrow> u8 \<Rightarrow> int \<Rightarrow> u8 \<times> int" where
  "decode_ADPCM_4_sample = decode_ADPCM_sample scaleMap4 adjustMap4 63"

definition decode_ADPCM_2_sample :: "u8 \<Rightarrow> u8 \<Rightarrow> int \<Rightarrow> u8 \<times> int" where
  "decode_ADPCM_2_sample = decode_ADPCM_sample scaleMap2 adjustMap2 23"

definition decode_ADPCM_3_sample :: "u8 \<Rightarrow> u8 \<Rightarrow> int \<Rightarrow> u8 \<times> int" where
  "decode_ADPCM_3_sample = decode_ADPCM_sample scaleMap3 adjustMap3 39"

section \<open>The contract\<close>

text \<open>What a decoder is to compute, without its tables: \<open>delta\<close> is the step of a code at a
  scale, \<open>grow\<close> the next scale; every sample is the previous one plus the step, kept within
  0 and 255. The result is the list of samples with the last sample and scale.\<close>

fun adpcm_track :: "(int \<Rightarrow> int \<Rightarrow> int) \<Rightarrow> (int \<Rightarrow> int \<Rightarrow> int) \<Rightarrow> int list \<Rightarrow> int \<times> int \<Rightarrow> int list \<times> int \<times> int" where
  "adpcm_track delta grow [] (r, sc) = ([], r, sc)"
| "adpcm_track delta grow (c # cs) (r, sc) =
    (let v = max 0 (min 255 (r + delta c sc)); (out, st) = adpcm_track delta grow cs (v, grow c sc)
     in (v # out, st))"

locale adpcm_codec =
  fixes dec :: "u8 \<Rightarrow> u8 \<Rightarrow> int \<Rightarrow> u8 \<times> int" and codes :: nat and upper :: int
    and ok :: "int \<Rightarrow> bool" and delta :: "int \<Rightarrow> int \<Rightarrow> int" and grow :: "int \<Rightarrow> int \<Rightarrow> int"
  assumes ok_0: "ok 0"
    and ok_dec: "unat s < codes \<Longrightarrow> ok sc \<Longrightarrow> ok (snd (dec s r sc))"
    and in_table: "unat s < codes \<Longrightarrow> ok sc \<Longrightarrow> 0 \<le> uint s + sc \<and> uint s + sc \<le> upper"
    and dec_delta: "unat s < codes \<Longrightarrow> ok sc \<Longrightarrow>
        uint (fst (dec s r sc)) = max 0 (min 255 (uint r + delta (uint s) sc))"
    and dec_grow: "unat s < codes \<Longrightarrow> ok sc \<Longrightarrow> snd (dec s r sc) = grow (uint s) sc"
begin

fun run :: "u8 list \<Rightarrow> u8 \<times> int \<Rightarrow> u8 list \<times> u8 \<times> int" where
  "run [] st = ([], st)"
| "run (s # ss) st =
    (let st = dec s (fst st) (snd st); (out, st2) = run ss st in (fst st # out, st2))"

lemma run_length: "length (fst (run ss st)) = length ss"
  by (induction ss arbitrary: st) (auto simp: split_beta Let_def)

lemma run_append:
  "run (xs @ ys) st =
    (fst (run xs st) @ fst (run ys (snd (run xs st))), snd (run ys (snd (run xs st))))"
  by (induction xs arbitrary: st) (auto simp: split_beta Let_def)

lemma run_ok:
  "\<forall>s\<in>set ss. unat s < codes \<Longrightarrow> ok (snd st) \<Longrightarrow> ok (snd (snd (run ss st)))"
  by (induction ss arbitrary: st) (auto simp: split_beta Let_def ok_dec)

lemma run_track:
  "\<forall>s\<in>set ss. unat s < codes \<Longrightarrow> ok (snd st) \<Longrightarrow>
    adpcm_track delta grow (map uint ss) (uint (fst st), snd st) =
      (map uint (fst (run ss st)), uint (fst (snd (run ss st))), snd (snd (run ss st)))"
proof (induction ss arbitrary: st)
  case (Cons s ss)
  let ?st = "dec s (fst st) (snd st)"
  have s: "unat s < codes" using Cons.prems(1) by simp
  have "ok (snd ?st)" using ok_dec [OF s Cons.prems(2)] .
  from Cons.IH [OF _ this] Cons.prems(1) show ?case
    using dec_delta [OF s Cons.prems(2), of "fst st"] dec_grow [OF s Cons.prems(2), of "fst st"]
    by (simp add: split_beta Let_def)
qed simp

end

section \<open>The decoders satisfy it\<close>

definition adpcm_ok4 :: "int \<Rightarrow> bool" where "adpcm_ok4 sc = (sc \<in> {0, 16, 32, 48})"
definition adpcm_ok2 :: "int \<Rightarrow> bool" where "adpcm_ok2 sc = (sc \<in> {0, 4, 8, 12, 16, 20})"
definition adpcm_ok3 :: "int \<Rightarrow> bool" where "adpcm_ok3 sc = (sc \<in> {0, 8, 16, 24, 32})"

text \<open>The arithmetic the tables encode: a sign bit, a magnitude \<open>m\<close> and the step
  \<open>2 ^ (k - 1)\<close> of scale \<open>k\<close>; the 3-bit code uses 5 instead of 8 for its last scale.\<close>

definition adpcm_delta :: "int \<Rightarrow> (int \<Rightarrow> int) \<Rightarrow> int \<Rightarrow> int \<Rightarrow> int" where
  "adpcm_delta half step s sc =
    (let m = s mod half; k = sc div (2 * half);
         mag = (if k = 0 then m else (2 * m + 1) * step k)
     in if half \<le> s then - mag else mag)"

definition adpcm_step :: "int \<Rightarrow> int" where "adpcm_step k = 2 ^ nat (k - 1)"
definition adpcm_step3 :: "int \<Rightarrow> int" where "adpcm_step3 k = (if k = 4 then 5 else 2 ^ nat (k - 1))"

text \<open>The scale after a code: one up for a magnitude of at least \<open>up\<close> as long as it is below
  \<open>top\<close>, one down for magnitude 0 as long as it is not 0.\<close>

definition adpcm_grow :: "int \<Rightarrow> int \<Rightarrow> int \<Rightarrow> int \<Rightarrow> int \<Rightarrow> int" where
  "adpcm_grow half up top_k s sc =
    (let m = s mod half; k = sc div (2 * half)
     in 2 * half * (if up \<le> m then min top_k (k + 1) else if m = 0 then max 0 (k - 1) else k))"

definition adpcm_entry ::
    "int list \<Rightarrow> int list \<Rightarrow> int \<Rightarrow> (int \<Rightarrow> bool) \<Rightarrow> (int \<Rightarrow> int \<Rightarrow> int) \<Rightarrow> (int \<Rightarrow> int \<Rightarrow> int) \<Rightarrow> int \<Rightarrow> int \<Rightarrow> bool" where
  "adpcm_entry scaleMap adjustMap upper ok delta grow sc s =
    (0 \<le> s + sc \<and> s + sc \<le> upper
     \<and> scaleMap ! nat (s + sc) = delta s sc
     \<and> (sc + adjustMap ! nat (s + sc)) mod 256 = grow s sc \<and> ok (grow s sc))"

lemma and_ff: "x AND 0xff = x mod 256" for x :: int
  using take_bit_eq_mask [of 8 x] by (simp add: take_bit_eq_mod mask_eq_exp_minus_1)

lemma uint_of_int_u8: "0 \<le> x \<Longrightarrow> x < 256 \<Longrightarrow> uint (word_of_int x :: u8) = x"
  by (simp add: uint_word_of_int)

lemma adpcm_entry_dec:
  assumes "adpcm_entry scaleMap adjustMap upper ok delta grow sc (uint s)"
  shows "ok (snd (decode_ADPCM_sample scaleMap adjustMap upper s r sc))"
    and "uint (fst (decode_ADPCM_sample scaleMap adjustMap upper s r sc)) =
      max 0 (min 255 (uint r + delta (uint s) sc))"
    and "snd (decode_ADPCM_sample scaleMap adjustMap upper s r sc) = grow (uint s) sc"
proof -
  have d: "decode_ADPCM_sample scaleMap adjustMap upper s r sc =
     (let ref = uint r + delta (uint s) sc
      in (if ref > 0xff then 0xff else if ref < 0 then 0 else word_of_int (ref AND 0xff),
          (sc + adjustMap ! nat (uint s + sc)) AND 0xff))"
    using assms by (simp add: decode_ADPCM_sample_def adpcm_entry_def Let_def)
  show "ok (snd (decode_ADPCM_sample scaleMap adjustMap upper s r sc))"
    using assms by (simp add: d Let_def adpcm_entry_def and_ff)
  show "snd (decode_ADPCM_sample scaleMap adjustMap upper s r sc) = grow (uint s) sc"
    using assms by (simp add: d Let_def adpcm_entry_def and_ff)
  show "uint (fst (decode_ADPCM_sample scaleMap adjustMap upper s r sc)) =
      max 0 (min 255 (uint r + delta (uint s) sc))"
    using uint_of_int_u8 [of "uint r + delta (uint s) sc"]
    by (auto simp: d Let_def and_ff max_def min_def simp del: word_of_int_uint of_int_add)
qed

lemma adpcm_enum:
  assumes "unat (s :: u8) < n" "list_all P (map int [0..<n])"
  shows "P (uint s)"
proof -
  have "int (unat s) \<in> set (map int [0..<n])"
    unfolding set_map by (rule imageI) (use assms(1) in simp)
  then have "P (int (unat s))" using assms(2) by (simp only: list_all_iff)
  then show ?thesis by simp
qed

lemma adpcm_table4:
  "list_all (\<lambda>sc. list_all (adpcm_entry scaleMap4 adjustMap4 63 adpcm_ok4 (adpcm_delta 8 adpcm_step) (adpcm_grow 8 5 3) sc)
     (map int [0..<16])) [0, 16, 32, 48]"
  by code_simp

lemma adpcm_entry4:
  assumes "unat (s :: u8) < 16" "adpcm_ok4 sc"
  shows "adpcm_entry scaleMap4 adjustMap4 63 adpcm_ok4 (adpcm_delta 8 adpcm_step) (adpcm_grow 8 5 3) sc (uint s)"
proof (rule adpcm_enum [OF assms(1)])
  have "sc \<in> set [0, 16, 32, 48]" using assms(2) by (simp add: adpcm_ok4_def)
  then show "list_all (adpcm_entry scaleMap4 adjustMap4 63 adpcm_ok4 (adpcm_delta 8 adpcm_step) (adpcm_grow 8 5 3) sc) (map int [0..<16])"
    using adpcm_table4 by (meson list_all_iff)
qed

lemma adpcm_table2:
  "list_all (\<lambda>sc. list_all (adpcm_entry scaleMap2 adjustMap2 23 adpcm_ok2 (adpcm_delta 2 adpcm_step) (adpcm_grow 2 1 5) sc)
     (map int [0..<4])) [0, 4, 8, 12, 16, 20]"
  by code_simp

lemma adpcm_entry2:
  assumes "unat (s :: u8) < 4" "adpcm_ok2 sc"
  shows "adpcm_entry scaleMap2 adjustMap2 23 adpcm_ok2 (adpcm_delta 2 adpcm_step) (adpcm_grow 2 1 5) sc (uint s)"
proof (rule adpcm_enum [OF assms(1)])
  have "sc \<in> set [0, 4, 8, 12, 16, 20]" using assms(2) by (simp add: adpcm_ok2_def)
  then show "list_all (adpcm_entry scaleMap2 adjustMap2 23 adpcm_ok2 (adpcm_delta 2 adpcm_step) (adpcm_grow 2 1 5) sc) (map int [0..<4])"
    using adpcm_table2 by (meson list_all_iff)
qed

lemma adpcm_table3:
  "list_all (\<lambda>sc. list_all (adpcm_entry scaleMap3 adjustMap3 39 adpcm_ok3 (adpcm_delta 4 adpcm_step3) (adpcm_grow 4 3 4) sc)
     (map int [0..<8])) [0, 8, 16, 24, 32]"
  by code_simp

lemma adpcm_entry3:
  assumes "unat (s :: u8) < 8" "adpcm_ok3 sc"
  shows "adpcm_entry scaleMap3 adjustMap3 39 adpcm_ok3 (adpcm_delta 4 adpcm_step3) (adpcm_grow 4 3 4) sc (uint s)"
proof (rule adpcm_enum [OF assms(1)])
  have "sc \<in> set [0, 8, 16, 24, 32]" using assms(2) by (simp add: adpcm_ok3_def)
  then show "list_all (adpcm_entry scaleMap3 adjustMap3 39 adpcm_ok3 (adpcm_delta 4 adpcm_step3) (adpcm_grow 4 3 4) sc) (map int [0..<8])"
    using adpcm_table3 by (meson list_all_iff)
qed

interpretation adpcm4: adpcm_codec decode_ADPCM_4_sample 16 63 adpcm_ok4 "adpcm_delta 8 adpcm_step" "adpcm_grow 8 5 3"
proof unfold_locales
  show "adpcm_ok4 0" by (simp add: adpcm_ok4_def)
next
  fix s sc r assume a: "unat (s :: u8) < 16" "adpcm_ok4 sc"
  note e = adpcm_entry4 [OF a]
  show "adpcm_ok4 (snd (decode_ADPCM_4_sample s r sc))"
    "uint (fst (decode_ADPCM_4_sample s r sc)) = max 0 (min 255 (uint r + adpcm_delta 8 adpcm_step (uint s) sc))"
    "snd (decode_ADPCM_4_sample s r sc) = adpcm_grow 8 5 3 (uint s) sc"
    unfolding decode_ADPCM_4_sample_def using adpcm_entry_dec [OF e] by simp_all
  show "0 \<le> uint s + sc \<and> uint s + sc \<le> 63" using e by (simp add: adpcm_entry_def)
qed

interpretation adpcm2: adpcm_codec decode_ADPCM_2_sample 4 23 adpcm_ok2 "adpcm_delta 2 adpcm_step" "adpcm_grow 2 1 5"
proof unfold_locales
  show "adpcm_ok2 0" by (simp add: adpcm_ok2_def)
next
  fix s sc r assume a: "unat (s :: u8) < 4" "adpcm_ok2 sc"
  note e = adpcm_entry2 [OF a]
  show "adpcm_ok2 (snd (decode_ADPCM_2_sample s r sc))"
    "uint (fst (decode_ADPCM_2_sample s r sc)) = max 0 (min 255 (uint r + adpcm_delta 2 adpcm_step (uint s) sc))"
    "snd (decode_ADPCM_2_sample s r sc) = adpcm_grow 2 1 5 (uint s) sc"
    unfolding decode_ADPCM_2_sample_def using adpcm_entry_dec [OF e] by simp_all
  show "0 \<le> uint s + sc \<and> uint s + sc \<le> 23" using e by (simp add: adpcm_entry_def)
qed

interpretation adpcm3: adpcm_codec decode_ADPCM_3_sample 8 39 adpcm_ok3 "adpcm_delta 4 adpcm_step3" "adpcm_grow 4 3 4"
proof unfold_locales
  show "adpcm_ok3 0" by (simp add: adpcm_ok3_def)
next
  fix s sc r assume a: "unat (s :: u8) < 8" "adpcm_ok3 sc"
  note e = adpcm_entry3 [OF a]
  show "adpcm_ok3 (snd (decode_ADPCM_3_sample s r sc))"
    "uint (fst (decode_ADPCM_3_sample s r sc)) = max 0 (min 255 (uint r + adpcm_delta 4 adpcm_step3 (uint s) sc))"
    "snd (decode_ADPCM_3_sample s r sc) = adpcm_grow 4 3 4 (uint s) sc"
    unfolding decode_ADPCM_3_sample_def using adpcm_entry_dec [OF e] by simp_all
  show "0 \<le> uint s + sc \<and> uint s + sc \<le> 39" using e by (simp add: adpcm_entry_def)
qed

end
