(* ===== verification/Sbemu.thy ===== *)
theory Sbemu
  imports Adpcm
begin

text \<open>
  \<open>src/sbemu/sbemu.c\<close>: the Sound Blaster itself, its mixer chip and its DSP. The
  file-scope variables are one record; an \<open>int\<close> used as a flag is a \<open>bool\<close>, the
  register file a function on byte indices. Shifts by a bad amount, the undefined
  result of \<open>bsf\<close> and the overflow of the direct-sample counter are errors. The two
  functions the DSP calls through \<open>SBEMU_ExtFuns\<close> are a record over the state of
  whatever provides them.
\<close>

section \<open>Registers and commands\<close>

abbreviation (input) SBEMU_MIXERREG_RESET :: u8 where "SBEMU_MIXERREG_RESET \<equiv> 0x00"
abbreviation (input) SBEMU_MIXERREG_MASTERVOL :: u8 where "SBEMU_MIXERREG_MASTERVOL \<equiv> 0x02"
abbreviation (input) SBEMU_MIXERREG_MIDIVOL :: u8 where "SBEMU_MIXERREG_MIDIVOL \<equiv> 0x06"
abbreviation (input) SBEMU_MIXERREG_CDVOL :: u8 where "SBEMU_MIXERREG_CDVOL \<equiv> 0x08"
abbreviation (input) SBEMU_MIXERREG_VOICEVOL :: u8 where "SBEMU_MIXERREG_VOICEVOL \<equiv> 0x0A"
abbreviation (input) SBEMU_MIXERREG_VOICESTEREO :: u8 where "SBEMU_MIXERREG_VOICESTEREO \<equiv> 0x04"
abbreviation (input) SBEMU_MIXERREG_MODEFILTER :: u8 where "SBEMU_MIXERREG_MODEFILTER \<equiv> 0x0E"
abbreviation (input) SBEMU_MIXERREG_MASTERSTEREO :: u8 where "SBEMU_MIXERREG_MASTERSTEREO \<equiv> 0x22"
abbreviation (input) SBEMU_MIXERREG_MIDISTEREO :: u8 where "SBEMU_MIXERREG_MIDISTEREO \<equiv> 0x26"
abbreviation (input) SBEMU_MIXERREG_CDSTEREO :: u8 where "SBEMU_MIXERREG_CDSTEREO \<equiv> 0x28"
abbreviation (input) SBEMU_MIXRREG_MASTERL :: u8 where "SBEMU_MIXRREG_MASTERL \<equiv> 0x30"
abbreviation (input) SBEMU_MIXRREG_MASTERR :: u8 where "SBEMU_MIXRREG_MASTERR \<equiv> 0x31"
abbreviation (input) SBEMU_MIXRREG_VOICEL :: u8 where "SBEMU_MIXRREG_VOICEL \<equiv> 0x32"
abbreviation (input) SBEMU_MIXRREG_VOICER :: u8 where "SBEMU_MIXRREG_VOICER \<equiv> 0x33"
abbreviation (input) SBEMU_MIXRREG_MIDIL :: u8 where "SBEMU_MIXRREG_MIDIL \<equiv> 0x34"
abbreviation (input) SBEMU_MIXRREG_MIDIR :: u8 where "SBEMU_MIXRREG_MIDIR \<equiv> 0x35"
abbreviation (input) SBEMU_MIXRREG_CDL :: u8 where "SBEMU_MIXRREG_CDL \<equiv> 0x36"
abbreviation (input) SBEMU_MIXRREG_CDR :: u8 where "SBEMU_MIXRREG_CDR \<equiv> 0x37"
abbreviation (input) SBEMU_MIXERREG_INT_SETUP :: u8 where "SBEMU_MIXERREG_INT_SETUP \<equiv> 0x80"
abbreviation (input) SBEMU_MIXERREG_DMA_SETUP :: u8 where "SBEMU_MIXERREG_DMA_SETUP \<equiv> 0x81"
abbreviation (input) SBEMU_MIXERREG_INT_STS :: u8 where "SBEMU_MIXERREG_INT_STS \<equiv> 0x82"

text \<open>The current DSP command is an \<open>int\<close>: a command byte, or one of two internal values.\<close>

abbreviation (input) SBEMU_DSPCMD_INVALID :: int where "SBEMU_DSPCMD_INVALID \<equiv> -1"
abbreviation (input) SBEMU_DSPCMD_SKIP1 :: int where "SBEMU_DSPCMD_SKIP1 \<equiv> -2"
abbreviation (input) SBEMU_DSPCMD_SKIP2 :: int where "SBEMU_DSPCMD_SKIP2 \<equiv> -3"
abbreviation (input) SBEMU_DSPCMD_DIRECT :: int where "SBEMU_DSPCMD_DIRECT \<equiv> -4"
abbreviation (input) SBEMU_CMD_SET_TIMECONST :: int where "SBEMU_CMD_SET_TIMECONST \<equiv> 0x40"
abbreviation (input) SBEMU_CMD_SET_SIZE :: int where "SBEMU_CMD_SET_SIZE \<equiv> 0x48"
abbreviation (input) SBEMU_CMD_SET_SAMPLERATE :: int where "SBEMU_CMD_SET_SAMPLERATE \<equiv> 0x41"
abbreviation (input) SBEMU_CMD_SET_SAMPLERATE_I :: int where "SBEMU_CMD_SET_SAMPLERATE_I \<equiv> 0x42"
abbreviation (input) SBEMU_CMD_CONTINUE_AUTO :: int where "SBEMU_CMD_CONTINUE_AUTO \<equiv> 0x45"
abbreviation (input) SBEMU_CMD_HALT_DMA :: int where "SBEMU_CMD_HALT_DMA \<equiv> 0xD0"
abbreviation (input) SBEMU_CMD_DAC_SPEAKER_ON :: int where "SBEMU_CMD_DAC_SPEAKER_ON \<equiv> 0xD1"
abbreviation (input) SBEMU_CMD_DAC_SPEAKER_OFF :: int where "SBEMU_CMD_DAC_SPEAKER_OFF \<equiv> 0xD3"
abbreviation (input) SBEMU_CMD_CONTINUE_DMA :: int where "SBEMU_CMD_CONTINUE_DMA \<equiv> 0xD4"
abbreviation (input) SBEMU_CMD_HALT_DMA16 :: int where "SBEMU_CMD_HALT_DMA16 \<equiv> 0xD5"
abbreviation (input) SBEMU_CMD_CONTINUE_DMA16 :: int where "SBEMU_CMD_CONTINUE_DMA16 \<equiv> 0xD6"
abbreviation (input) SBEMU_CMD_EXIT_16BIT_AUTO :: int where "SBEMU_CMD_EXIT_16BIT_AUTO \<equiv> 0xD9"
abbreviation (input) SBEMU_CMD_EXIT_8BIT_AUTO :: int where "SBEMU_CMD_EXIT_8BIT_AUTO \<equiv> 0xDA"
abbreviation (input) SBEMU_CMD_DSP_ID :: int where "SBEMU_CMD_DSP_ID \<equiv> 0xE0"
abbreviation (input) SBEMU_CMD_DSP_GETVER :: int where "SBEMU_CMD_DSP_GETVER \<equiv> 0xE1"
abbreviation (input) SBEMU_CMD_DSP_DMA_ID :: int where "SBEMU_CMD_DSP_DMA_ID \<equiv> 0xE2"
abbreviation (input) SBEMU_CMD_DSP_COPYRIGHT :: int where "SBEMU_CMD_DSP_COPYRIGHT \<equiv> 0xE3"
abbreviation (input) SBEMU_CMD_DSP_WRITE_TESTREG :: int where "SBEMU_CMD_DSP_WRITE_TESTREG \<equiv> 0xE4"
abbreviation (input) SBEMU_CMD_DSP_READ_TESTREG :: int where "SBEMU_CMD_DSP_READ_TESTREG \<equiv> 0xE8"
abbreviation (input) SBEMU_CMD_TRIGGER_IRQ :: int where "SBEMU_CMD_TRIGGER_IRQ \<equiv> 0xF2"
abbreviation (input) SBEMU_CMD_TRIGGER_IRQ16 :: int where "SBEMU_CMD_TRIGGER_IRQ16 \<equiv> 0xF3"
abbreviation (input) SBEMU_CMD_8BIT_DIRECT :: int where "SBEMU_CMD_8BIT_DIRECT \<equiv> 0x10"
abbreviation (input) SBEMU_CMD_8BIT_OUT_1 :: int where "SBEMU_CMD_8BIT_OUT_1 \<equiv> 0x14"
abbreviation (input) SBEMU_CMD_8BIT_OUT_AUTO :: int where "SBEMU_CMD_8BIT_OUT_AUTO \<equiv> 0x1C"
abbreviation (input) SBEMU_CMD_8BIT_OUT_1_HS :: int where "SBEMU_CMD_8BIT_OUT_1_HS \<equiv> 0x91"
abbreviation (input) SBEMU_CMD_8BIT_OUT_AUTO_HS :: int where "SBEMU_CMD_8BIT_OUT_AUTO_HS \<equiv> 0x90"
abbreviation (input) SBEMU_CMD_4BIT_OUT_1 :: int where "SBEMU_CMD_4BIT_OUT_1 \<equiv> 0x75"
abbreviation (input) SBEMU_CMD_4BIT_OUT_1_NREF :: int where "SBEMU_CMD_4BIT_OUT_1_NREF \<equiv> 0x74"
abbreviation (input) SBEMU_CMD_4BIT_OUT_AUTO :: int where "SBEMU_CMD_4BIT_OUT_AUTO \<equiv> 0x7D"
abbreviation (input) SBEMU_CMD_3BIT_OUT_1 :: int where "SBEMU_CMD_3BIT_OUT_1 \<equiv> 0x77"
abbreviation (input) SBEMU_CMD_3BIT_OUT_1_NREF :: int where "SBEMU_CMD_3BIT_OUT_1_NREF \<equiv> 0x76"
abbreviation (input) SBEMU_CMD_3BIT_OUT_AUTO :: int where "SBEMU_CMD_3BIT_OUT_AUTO \<equiv> 0x7F"
abbreviation (input) SBEMU_CMD_2BIT_OUT_1 :: int where "SBEMU_CMD_2BIT_OUT_1 \<equiv> 0x17"
abbreviation (input) SBEMU_CMD_2BIT_OUT_1_NREF :: int where "SBEMU_CMD_2BIT_OUT_1_NREF \<equiv> 0x16"
abbreviation (input) SBEMU_CMD_2BIT_OUT_AUTO :: int where "SBEMU_CMD_2BIT_OUT_AUTO \<equiv> 0x1F"
abbreviation (input) SBEMU_CMD_8OR16_8_OUT_1 :: int where "SBEMU_CMD_8OR16_8_OUT_1 \<equiv> 0xC0"
abbreviation (input) SBEMU_CMD_8OR16_8_OUT_AUTO :: int where "SBEMU_CMD_8OR16_8_OUT_AUTO \<equiv> 0xC6"
abbreviation (input) SBEMU_CMD_8OR16_8_OUT_AUTO_NOFIFO :: int where "SBEMU_CMD_8OR16_8_OUT_AUTO_NOFIFO \<equiv> 0xC4"
abbreviation (input) SBEMU_CMD_8OR16_16_OUT_1 :: int where "SBEMU_CMD_8OR16_16_OUT_1 \<equiv> 0xB0"
abbreviation (input) SBEMU_CMD_8OR16_16_OUT_AUTO :: int where "SBEMU_CMD_8OR16_16_OUT_AUTO \<equiv> 0xB6"
abbreviation (input) SBEMU_CMD_8OR16_16_OUT_AUTO_NOFIFO :: int where "SBEMU_CMD_8OR16_16_OUT_AUTO_NOFIFO \<equiv> 0xB4"
abbreviation (input) SBEMU_CMD_MODE_PCM8_MONO :: int where "SBEMU_CMD_MODE_PCM8_MONO \<equiv> 0x00"
abbreviation (input) SBEMU_CMD_MODE_PCM8_STEREO :: int where "SBEMU_CMD_MODE_PCM8_STEREO \<equiv> 0x20"
abbreviation (input) SBEMU_CMD_MODE_PCM16_MONO :: int where "SBEMU_CMD_MODE_PCM16_MONO \<equiv> 0x10"
abbreviation (input) SBEMU_CMD_MODE_PCM16_STEREO :: int where "SBEMU_CMD_MODE_PCM16_STEREO \<equiv> 0x30"

section \<open>State\<close>

datatype sbemu_reset = SBEMU_RESET_START | SBEMU_RESET_END | SBEMU_RESET_POLL

record adpcm_state =
  adpcm_scale :: int
  adpcm_ref :: u8
  adpcm_useRef :: bool

record sbemu =
  SBEMU_ResetState :: sbemu_reset
  SBEMU_Started :: bool
  SBEMU_IRQ :: int
  SBEMU_DMA :: int
  SBEMU_HDMA :: int
  SBEMU_DACSpeaker :: int
  SBEMU_Bits :: int
  SBEMU_SampleRate :: int
  SBEMU_Samples :: int
  SBEMU_Auto :: bool
  SBEMU_HighSpeed :: bool
  SBEMU_DSPCMD :: int
  SBEMU_DSPCMD_Subindex :: int
  SBEMU_DSPDATA_Subindex :: int
  SBEMU_TriggerIRQ :: int
  SBEMU_Pos :: int
  SBEMU_DetectionCounter :: int
  SBEMU_DirectCount :: int
  SBEMU_FixTC :: int
  SBEMU_MixerRegIndex :: u8
  SBEMU_idbyte :: u8
  SBEMU_WS :: u8
  SBEMU_RS :: u8
  SBEMU_TestReg :: u8
  SBEMU_DMAID_A :: u8
  SBEMU_DMAID_X :: u8
  SBEMU_UseTimeConst :: u8
  SBEMU_TimeConst :: u8
  SBEMU_DSPVER :: u16
  SBEMU_ADPCM :: adpcm_state
  SBEMU_MixerRegs :: "u8 \<Rightarrow> u8"
  SBEMU_DirectBuffer :: "int \<Rightarrow> u8"

definition sbemu_initial :: sbemu where
  "sbemu_initial = \<lparr>SBEMU_ResetState = SBEMU_RESET_END, SBEMU_Started = False, SBEMU_IRQ = 5,
     SBEMU_DMA = 1, SBEMU_HDMA = 5, SBEMU_DACSpeaker = 1, SBEMU_Bits = 8, SBEMU_SampleRate = 22050,
     SBEMU_Samples = 0, SBEMU_Auto = False, SBEMU_HighSpeed = False,
     SBEMU_DSPCMD = SBEMU_DSPCMD_INVALID, SBEMU_DSPCMD_Subindex = 0, SBEMU_DSPDATA_Subindex = 0,
     SBEMU_TriggerIRQ = 0, SBEMU_Pos = 0, SBEMU_DetectionCounter = 0, SBEMU_DirectCount = 0,
     SBEMU_FixTC = 0, SBEMU_MixerRegIndex = 0, SBEMU_idbyte = 0, SBEMU_WS = 0, SBEMU_RS = 0x2A,
     SBEMU_TestReg = 0, SBEMU_DMAID_A = 0, SBEMU_DMAID_X = 0, SBEMU_UseTimeConst = 0,
     SBEMU_TimeConst = 0, SBEMU_DSPVER = 0x0302,
     SBEMU_ADPCM = \<lparr>adpcm_scale = 0, adpcm_ref = 0, adpcm_useRef = False\<rparr>,
     SBEMU_MixerRegs = (\<lambda>_. 0), SBEMU_DirectBuffer = (\<lambda>_. 0)\<rparr>"

definition SBEMU_IRQMap :: "u8 list" where "SBEMU_IRQMap = [2, 5, 7, 10]"

definition SBEMU_TimeConstantMapMono :: "(int \<times> int) list" where
  "SBEMU_TimeConstantMapMono = [(0xA5, 11025), (0xD2, 22050), (0xE9, 44100)]"

text \<open>The 45 bytes of the copyright string, its terminator included.\<close>

definition SBEMU_Copyright :: "u8 list" where
  "SBEMU_Copyright = map (\<lambda>c. of_char c) ''COPYRIGHT (C) CREATIVE TECHNOLOGY LTD, 1992.'' @ [0]"

definition SBEMU_DIRECT_BUFFER_SIZE :: int where "SBEMU_DIRECT_BUFFER_SIZE = 1024"

section \<open>The mixer\<close>

definition mreg_set :: "u8 \<Rightarrow> u8 \<Rightarrow> sbemu \<Rightarrow> sbemu" where
  "mreg_set i v s = s\<lparr>SBEMU_MixerRegs := (SBEMU_MixerRegs s)(i := v)\<rparr>"

definition SBEMU_GetChannels :: "sbemu \<Rightarrow> int" where
  "SBEMU_GetChannels s = (if SBEMU_MixerRegs s SBEMU_MIXERREG_MODEFILTER AND 0x2 \<noteq> 0 then 2 else 1)"

definition SBEMU_TC_limit :: "sbemu \<Rightarrow> u8" where
  "SBEMU_TC_limit s =
    (let bits = SBEMU_Bits s in
     if SBEMU_DSPVER s \<ge> 0x0400 then
       (if bits = 2 then 165 else if bits = 3 then 179 else if bits = 4 then 172 else 234)
     else if SBEMU_DSPVER s \<ge> 0x0200 \<and> SBEMU_DSPVER s < 0x300 then
       (if bits = 2 then 189 else if bits \<le> 4 then 172 else if SBEMU_HighSpeed s then 234 else 210)
     else
       (if bits = 2 then 165 else if bits = 3 then 179 else if bits = 4 then 172
        else if SBEMU_HighSpeed s then 234 else 212))"

definition SBMEU_UpdateTCSampleRate :: "sbemu \<Rightarrow> sbemu" where
  "SBMEU_UpdateTCSampleRate s =
    (if SBEMU_UseTimeConst s = 0 then s
     else
       let tc = min (SBEMU_TimeConst s) (SBEMU_TC_limit s)
       in s\<lparr>SBEMU_SampleRate := cdiv (cdiv 256000000 (65536 - push_bit 8 (uint tc))) (SBEMU_GetChannels s),
            SBEMU_UseTimeConst := word_of_int (SBEMU_GetChannels s)\<rparr>)"

definition SBEMU_Mixer_WriteAddr :: "u8 \<Rightarrow> sbemu \<Rightarrow> sbemu" where
  "SBEMU_Mixer_WriteAddr v s = s\<lparr>SBEMU_MixerRegIndex := v\<rparr>"

definition SBEMU_Mixer_defaults :: "sbemu \<Rightarrow> sbemu" where
  "SBEMU_Mixer_defaults s =
    (let s = mreg_set SBEMU_MIXERREG_MASTERVOL 14 s;
         s = mreg_set SBEMU_MIXERREG_MIDIVOL 14 s;
         s = mreg_set SBEMU_MIXERREG_CDVOL 14 s;
         s = mreg_set SBEMU_MIXERREG_VOICEVOL 6 s
     in if SBEMU_DSPVER s < 0x0400 then
          let s = mreg_set SBEMU_MIXERREG_VOICESTEREO 0xEE s;
              s = mreg_set SBEMU_MIXERREG_MASTERSTEREO 0xEE s;
              s = mreg_set SBEMU_MIXERREG_MIDISTEREO 0xEE s
          in mreg_set SBEMU_MIXERREG_CDSTEREO 0xEE s
        else
          let s = mreg_set SBEMU_MIXERREG_VOICESTEREO 0xFF s;
              s = mreg_set SBEMU_MIXERREG_MASTERSTEREO 0xFF s;
              s = mreg_set SBEMU_MIXERREG_MIDISTEREO 0xFF s;
              s = mreg_set SBEMU_MIXERREG_CDSTEREO 0xFF s;
              s = mreg_set SBEMU_MIXRREG_MASTERL 0xF8 s;
              s = mreg_set SBEMU_MIXRREG_MASTERR 0xF8 s;
              s = mreg_set SBEMU_MIXRREG_VOICEL 0xF8 s;
              s = mreg_set SBEMU_MIXRREG_VOICER 0xF8 s;
              s = mreg_set SBEMU_MIXRREG_MIDIL 0xF8 s;
              s = mreg_set SBEMU_MIXRREG_MIDIR 0xF8 s;
              s = mreg_set SBEMU_MIXRREG_CDL 0xF8 s
          in mreg_set SBEMU_MIXRREG_CDR 0xF8 s)"

text \<open>One 5-bit SB16 volume register, mirrored into a nibble of the stereo register.\<close>

definition mreg_left :: "u8 \<Rightarrow> u8 \<Rightarrow> sbemu \<Rightarrow> sbemu" where
  "mreg_left i v s = mreg_set i ((SBEMU_MixerRegs s i AND 0x0F) OR push_bit 4 v) s"

definition mreg_right :: "u8 \<Rightarrow> u8 \<Rightarrow> sbemu \<Rightarrow> sbemu" where
  "mreg_right i v s = mreg_set i ((SBEMU_MixerRegs s i AND 0xF0) OR v) s"

definition SBEMU_Mixer_sb16 :: "u8 \<Rightarrow> sbemu \<Rightarrow> sbemu" where
  "SBEMU_Mixer_sb16 v s =
    (let i = SBEMU_MixerRegIndex s; v = drop_bit 4 v AND 0xF in
     if i = SBEMU_MIXRREG_MASTERL then mreg_left SBEMU_MIXERREG_MASTERSTEREO v s
     else if i = SBEMU_MIXRREG_MASTERR then mreg_right SBEMU_MIXERREG_MASTERSTEREO v s
     else if i = SBEMU_MIXRREG_VOICEL then mreg_left SBEMU_MIXERREG_VOICESTEREO v s
     else if i = SBEMU_MIXRREG_VOICER then mreg_right SBEMU_MIXERREG_VOICESTEREO v s
     else if i = SBEMU_MIXRREG_MIDIL then mreg_left SBEMU_MIXERREG_MIDISTEREO v s
     else if i = SBEMU_MIXRREG_MIDIR then mreg_right SBEMU_MIXERREG_MIDISTEREO v s
     else if i = SBEMU_MIXRREG_CDL then mreg_left SBEMU_MIXERREG_CDSTEREO v s
     else if i = SBEMU_MIXRREG_CDR then mreg_right SBEMU_MIXERREG_CDSTEREO v s
     else s)"

definition SBEMU_Mixer_Write :: "u8 \<Rightarrow> sbemu \<Rightarrow> sbemu" where
  "SBEMU_Mixer_Write v s =
    (let i = SBEMU_MixerRegIndex s;
         s = mreg_set i v s;
         s = (if i = SBEMU_MIXERREG_RESET then SBEMU_Mixer_defaults s else s);
         s = (if SBEMU_DSPVER s \<ge> 0x0400 \<and> SBEMU_MIXRREG_MASTERL \<le> i \<and> i \<le> SBEMU_MIXRREG_CDR
              then SBEMU_Mixer_sb16 v s else s)
     in if i = SBEMU_MIXERREG_MODEFILTER then SBMEU_UpdateTCSampleRate s else s)"

definition SBEMU_Mixer_Read :: "sbemu \<Rightarrow> u8" where
  "SBEMU_Mixer_Read s = SBEMU_MixerRegs s (SBEMU_MixerRegIndex s)"

definition SBEMU_GetMixerReg :: "u8 \<Rightarrow> sbemu \<Rightarrow> u8" where
  "SBEMU_GetMixerReg index s = SBEMU_MixerRegs s index"

section \<open>Resources\<close>

fun SBEMU_Indexof_from :: "int \<Rightarrow> u8 list \<Rightarrow> u8 \<Rightarrow> int" where
  "SBEMU_Indexof_from i [] v = -1"
| "SBEMU_Indexof_from i (x # xs) v = (if x = v then i else SBEMU_Indexof_from (i + 1) xs v)"

definition SBEMU_Indexof :: "u8 list \<Rightarrow> u8 \<Rightarrow> int" where
  "SBEMU_Indexof xs v = SBEMU_Indexof_from 0 xs v"

definition SBEMU_GetIRQ :: "sbemu \<Rightarrow> u8 res" where
  "SBEMU_GetIRQ s =
    (let r = SBEMU_MixerRegs s SBEMU_MIXERREG_INT_SETUP in
     if r = 0 then Inr 0xFF
     else bindE (bsf (ucast r)) (\<lambda>b. if b \<ge> 4 then Inr 0xFF else Inr (SBEMU_IRQMap ! b)))"

definition SBEMU_GetDMA :: "sbemu \<Rightarrow> u8 res" where
  "SBEMU_GetDMA s =
    (let r = SBEMU_MixerRegs s SBEMU_MIXERREG_DMA_SETUP in
     if r = 0 then Inr 0xFF else bindE (bsf (ucast r)) (\<lambda>b. Inr (of_nat b)))"

definition SBEMU_GetHDMA :: "sbemu \<Rightarrow> u8 res" where
  "SBEMU_GetHDMA s =
    (let r = SBEMU_MixerRegs s SBEMU_MIXERREG_DMA_SETUP in
     if r = 0 then Inr 0xFF else bindE (bsf (ucast (drop_bit 4 r))) (\<lambda>b. Inr (of_nat (b + 4))))"

definition SBEMU_Init :: "int \<Rightarrow> int \<Rightarrow> int \<Rightarrow> int \<Rightarrow> int \<Rightarrow> sbemu \<Rightarrow> sbemu" where
  "SBEMU_Init irq dma hdma DSPVer FixTC s =
    (let s = s\<lparr>SBEMU_IRQ := irq, SBEMU_DMA := dma, SBEMU_HDMA := hdma,
               SBEMU_DSPVER := word_of_int DSPVer, SBEMU_FixTC := FixTC\<rparr>;
         s = SBEMU_Mixer_WriteAddr SBEMU_MIXERREG_RESET s
     in SBEMU_Mixer_Write 1 s)"

section \<open>The DSP\<close>

definition SBEMU_reset_setup :: "sbemu \<Rightarrow> sbemu res" where
  "SBEMU_reset_setup s =
    bindE (shl1 (SBEMU_Indexof SBEMU_IRQMap (word_of_int (SBEMU_IRQ s)))) (\<lambda>int_setup.
    bindE (shl1 (SBEMU_DMA s)) (\<lambda>dma.
    bindE (if SBEMU_HDMA s \<noteq> 0 then shl1 (SBEMU_HDMA s) else Inr 0) (\<lambda>hdma.
      Inr (mreg_set SBEMU_MIXERREG_MODEFILTER 0xFD
            (mreg_set SBEMU_MIXERREG_DMA_SETUP (ucast ((dma OR hdma) AND 0xEB))
              (mreg_set SBEMU_MIXERREG_INT_SETUP (ucast int_setup) s))))))"

definition SBEMU_DSP_Reset :: "u8 \<Rightarrow> sbemu \<Rightarrow> sbemu res" where
  "SBEMU_DSP_Reset v s =
    bindE
      (if v = 1 then
         bindE (SBEMU_reset_setup s) (\<lambda>s.
           Inr (s\<lparr>SBEMU_ResetState := SBEMU_RESET_START,
                  SBEMU_MixerRegIndex := 0,
                  SBEMU_DSPCMD := SBEMU_DSPCMD_INVALID,
                  SBEMU_DSPCMD_Subindex := 0,
                  SBEMU_DSPDATA_Subindex := 0,
                  SBEMU_Started := False,
                  SBEMU_Samples := 0,
                  SBEMU_Auto := False,
                  SBEMU_Bits := 8,
                  SBEMU_Pos := 0,
                  SBEMU_HighSpeed := False,
                  SBEMU_TriggerIRQ := 0,
                  SBEMU_DetectionCounter := 0,
                  SBEMU_DirectCount := 0,
                  SBEMU_DirectBuffer := (SBEMU_DirectBuffer s)(0 := 0),
                  SBEMU_DMAID_A := 0xAA,
                  SBEMU_DMAID_X := 0x96,
                  SBEMU_UseTimeConst := 0\<rparr>))
       else Inr s)
      (\<lambda>s. Inr (if v = 0 \<and> SBEMU_ResetState s = SBEMU_RESET_START
                then s\<lparr>SBEMU_ResetState := SBEMU_RESET_POLL\<rparr> else s))"

definition SBEMU_adpcm_bits :: "int \<Rightarrow> int" where
  "SBEMU_adpcm_bits cmd =
    (if cmd \<le> SBEMU_CMD_2BIT_OUT_1_NREF then 2
     else if cmd \<ge> SBEMU_CMD_3BIT_OUT_1_NREF then 3 else 4)"

definition SBEMU_clear_stereo :: "sbemu \<Rightarrow> sbemu" where
  "SBEMU_clear_stereo s =
    mreg_set SBEMU_MIXERREG_MODEFILTER (SBEMU_MixerRegs s SBEMU_MIXERREG_MODEFILTER AND NOT 0x2) s"

text \<open>The first byte of a command.\<close>

definition SBEMU_DSP_dispatch :: "int \<Rightarrow> sbemu \<Rightarrow> sbemu" where
  "SBEMU_DSP_dispatch cmd s =
    (if cmd \<in> {SBEMU_CMD_TRIGGER_IRQ, SBEMU_CMD_TRIGGER_IRQ16} then
       (mreg_set SBEMU_MIXERREG_INT_STS
         (SBEMU_MixerRegs s SBEMU_MIXERREG_INT_STS OR (if cmd = SBEMU_CMD_TRIGGER_IRQ then 0x1 else 0x2)) s)
         \<lparr>SBEMU_TriggerIRQ := 1, SBEMU_DSPCMD := SBEMU_DSPCMD_INVALID\<rparr>
     else if cmd \<in> {SBEMU_CMD_DAC_SPEAKER_ON, SBEMU_CMD_DAC_SPEAKER_OFF} then
       s\<lparr>SBEMU_DSPCMD := SBEMU_DSPCMD_INVALID\<rparr>
     else if cmd \<in> {SBEMU_CMD_HALT_DMA, SBEMU_CMD_CONTINUE_DMA, SBEMU_CMD_CONTINUE_AUTO} then
       s\<lparr>SBEMU_Started := cmd \<in> {SBEMU_CMD_CONTINUE_DMA, SBEMU_CMD_CONTINUE_AUTO},
         SBEMU_DSPCMD := SBEMU_DSPCMD_INVALID\<rparr>
     else if cmd \<in> {SBEMU_CMD_CONTINUE_DMA16, SBEMU_CMD_HALT_DMA16} then
       s\<lparr>SBEMU_Started := cmd = SBEMU_CMD_CONTINUE_DMA16, SBEMU_DSPCMD := SBEMU_DSPCMD_INVALID\<rparr>
     else if cmd \<in> {SBEMU_CMD_8BIT_OUT_AUTO_HS, SBEMU_CMD_8BIT_OUT_AUTO, SBEMU_CMD_8BIT_OUT_1_HS} then
       (SBMEU_UpdateTCSampleRate
         (s\<lparr>SBEMU_Auto := cmd \<in> {SBEMU_CMD_8BIT_OUT_AUTO_HS, SBEMU_CMD_8BIT_OUT_AUTO},
            SBEMU_Bits := 8,
            SBEMU_HighSpeed := cmd \<in> {SBEMU_CMD_8BIT_OUT_AUTO_HS, SBEMU_CMD_8BIT_OUT_1_HS}\<rparr>))
         \<lparr>SBEMU_Started := True, SBEMU_DSPCMD := SBEMU_DSPCMD_INVALID, SBEMU_Pos := 0\<rparr>
     else if cmd \<in> {SBEMU_CMD_2BIT_OUT_AUTO, SBEMU_CMD_3BIT_OUT_AUTO, SBEMU_CMD_4BIT_OUT_AUTO} then
       (SBEMU_clear_stereo
         (s\<lparr>SBEMU_Auto := True,
            SBEMU_ADPCM := (SBEMU_ADPCM s)\<lparr>adpcm_useRef := True, adpcm_scale := 0\<rparr>,
            SBEMU_Bits := SBEMU_adpcm_bits cmd\<rparr>))
         \<lparr>SBEMU_Started := True, SBEMU_DSPCMD := SBEMU_DSPCMD_INVALID, SBEMU_Pos := 0\<rparr>
     else if cmd \<in> {SBEMU_CMD_EXIT_16BIT_AUTO, SBEMU_CMD_EXIT_8BIT_AUTO} then
       (if SBEMU_Auto s then s\<lparr>SBEMU_Auto := False, SBEMU_Started := False\<rparr> else s)
         \<lparr>SBEMU_DSPCMD := SBEMU_DSPCMD_INVALID\<rparr>
     else if cmd = SBEMU_CMD_8BIT_DIRECT then s\<lparr>SBEMU_DSPCMD := SBEMU_DSPCMD_DIRECT\<rparr>
     else if cmd = 0x2A then s\<lparr>SBEMU_DSPCMD := SBEMU_DSPCMD_INVALID\<rparr>
     else s)"

definition SBEMU_DSP_command :: "u8 \<Rightarrow> sbemu \<Rightarrow> sbemu" where
  "SBEMU_DSP_command v s =
    SBEMU_DSP_dispatch (uint v) (s\<lparr>SBEMU_DSPCMD := uint v, SBEMU_DSPCMD_Subindex := 0\<rparr>)"

text \<open>A later byte of a command: the argument bytes, one clause per group of commands.\<close>

record 'x sbemu_ext =
  DMA_Write :: "int \<Rightarrow> u8 \<Rightarrow> 'x \<Rightarrow> 'x res"
  DMA_Size :: "int \<Rightarrow> 'x \<Rightarrow> u32 res"

definition SBEMU_GetSampleBytes :: "sbemu \<Rightarrow> int" where
  "SBEMU_GetSampleBytes s = cdiv ((SBEMU_Samples s + 1) * max 8 (SBEMU_Bits s)) 8"

definition SBEMU_arg_timeconst :: "u8 \<Rightarrow> sbemu \<Rightarrow> sbemu" where
  "SBEMU_arg_timeconst v s =
    (let rate = (if SBEMU_FixTC s \<noteq> 0 then
                   case find (\<lambda>(tc, r). tc - 3 \<le> uint v \<and> uint v \<le> tc + 3) SBEMU_TimeConstantMapMono of
                     None \<Rightarrow> 0 | Some (tc, r) \<Rightarrow> cdiv r (SBEMU_GetChannels s)
                 else 0);
         s = s\<lparr>SBEMU_SampleRate := rate, SBEMU_UseTimeConst := word_of_int (SBEMU_GetChannels s),
               SBEMU_TimeConst := v\<rparr>;
         s = (if SBEMU_SampleRate s = 0 then SBMEU_UpdateTCSampleRate s else s)
     in s\<lparr>SBEMU_DSPCMD_Subindex := 2\<rparr>)"

text \<open>The two bytes of a 16-bit argument: the first (low) byte replaces \<open>SBEMU_Samples\<close>.\<close>

definition SBEMU_arg_samples :: "u8 \<Rightarrow> (sbemu \<Rightarrow> sbemu) \<Rightarrow> sbemu \<Rightarrow> sbemu" where
  "SBEMU_arg_samples v start s =
    (let i = SBEMU_DSPCMD_Subindex s; s = s\<lparr>SBEMU_DSPCMD_Subindex := i + 1\<rparr> in
     if i = 0 then s\<lparr>SBEMU_Samples := uint v\<rparr>
     else start (s\<lparr>SBEMU_Samples := SBEMU_Samples s OR push_bit 8 (uint v)\<rparr>))"

definition SBEMU_start_8bit :: "sbemu \<Rightarrow> sbemu" where
  "SBEMU_start_8bit s =
    (let started = (SBEMU_DSPCMD s = SBEMU_CMD_8BIT_OUT_1);
         s = s\<lparr>SBEMU_Started := started, SBEMU_HighSpeed := False, SBEMU_Auto := False\<rparr>
     in if started then s\<lparr>SBEMU_Bits := 8, SBEMU_Pos := 0\<rparr> else s)"

definition SBEMU_start_adpcm :: "sbemu \<Rightarrow> sbemu" where
  "SBEMU_start_adpcm s =
    (let cmd = SBEMU_DSPCMD s in
     (SBEMU_clear_stereo
       (s\<lparr>SBEMU_Auto := False,
          SBEMU_ADPCM := (SBEMU_ADPCM s)
            \<lparr>adpcm_useRef := cmd \<in> {SBEMU_CMD_2BIT_OUT_1, SBEMU_CMD_3BIT_OUT_1, SBEMU_CMD_4BIT_OUT_1},
             adpcm_scale := 0\<rparr>,
          SBEMU_Bits := SBEMU_adpcm_bits cmd\<rparr>))
       \<lparr>SBEMU_Started := True, SBEMU_Pos := 0\<rparr>)"

definition SBEMU_start_mode :: "sbemu \<Rightarrow> sbemu" where
  "SBEMU_start_mode s =
    (let cmd = SBEMU_DSPCMD s;
         s = s\<lparr>SBEMU_Bits := (if cmd \<in> {SBEMU_CMD_MODE_PCM8_MONO, SBEMU_CMD_MODE_PCM8_STEREO} then 8 else 16)\<rparr>;
         s = SBEMU_clear_stereo s;
         s = mreg_set SBEMU_MIXERREG_MODEFILTER
              (SBEMU_MixerRegs s SBEMU_MIXERREG_MODEFILTER
                OR (if cmd \<in> {SBEMU_CMD_MODE_PCM8_STEREO, SBEMU_CMD_MODE_PCM16_STEREO} then 0x2 else 0)) s
     in s\<lparr>SBEMU_Started := True, SBEMU_Pos := 0\<rparr>)"

definition SBEMU_arg_samplerate :: "u8 \<Rightarrow> sbemu \<Rightarrow> sbemu" where
  "SBEMU_arg_samplerate v s =
    (let i = SBEMU_DSPCMD_Subindex s; s = s\<lparr>SBEMU_DSPCMD_Subindex := i + 1\<rparr> in
     if i = 0 then s\<lparr>SBEMU_SampleRate := push_bit 8 (uint v)\<rparr>
     else s\<lparr>SBEMU_SampleRate := (SBEMU_SampleRate s AND NOT 0xFF) OR uint v,
            SBEMU_UseTimeConst := 0\<rparr>)"

definition SBEMU_arg_direct :: "u8 \<Rightarrow> sbemu \<Rightarrow> sbemu res" where
  "SBEMU_arg_direct v s =
    bindE (i32 (SBEMU_DirectCount s + 1)) (\<lambda>n.
    bindE (arr_set SBEMU_DIRECT_BUFFER_SIZE (SBEMU_DirectBuffer s)
             (cmod (SBEMU_DirectCount s) SBEMU_DIRECT_BUFFER_SIZE) v) (\<lambda>buf.
      Inr (s\<lparr>SBEMU_DirectBuffer := buf, SBEMU_DirectCount := n, SBEMU_DSPCMD_Subindex := 2\<rparr>)))"

definition SBEMU_arg_dma_id :: "u8 \<Rightarrow> sbemu \<Rightarrow> sbemu" where
  "SBEMU_arg_dma_id v s =
    (let x = SBEMU_DMAID_X s in
     s\<lparr>SBEMU_DMAID_A := SBEMU_DMAID_A s + (v XOR x),
       SBEMU_DMAID_X := drop_bit 2 x OR push_bit 6 x,
       SBEMU_DSPCMD_Subindex := 2\<rparr>)"

definition SBEMU_DSP_arg_dispatch :: "'x sbemu_ext \<Rightarrow> int \<Rightarrow> u8 \<Rightarrow> sbemu \<times> 'x \<Rightarrow> (sbemu \<times> 'x) res" where
  "SBEMU_DSP_arg_dispatch ext cmd v = (\<lambda>(s, x).
       if cmd = SBEMU_CMD_SET_TIMECONST then Inr (SBEMU_arg_timeconst v s, x)
       else if cmd \<in> {SBEMU_CMD_SET_SIZE, SBEMU_CMD_8BIT_OUT_1} then
         Inr (SBEMU_arg_samples v SBEMU_start_8bit s, x)
       else if cmd \<in> {SBEMU_CMD_2BIT_OUT_1, SBEMU_CMD_2BIT_OUT_1_NREF, SBEMU_CMD_3BIT_OUT_1,
                       SBEMU_CMD_3BIT_OUT_1_NREF, SBEMU_CMD_4BIT_OUT_1, SBEMU_CMD_4BIT_OUT_1_NREF} then
         Inr (SBEMU_arg_samples v SBEMU_start_adpcm s, x)
       else if cmd = SBEMU_CMD_SET_SAMPLERATE_I then
         Inr (s\<lparr>SBEMU_DSPCMD_Subindex := SBEMU_DSPCMD_Subindex s + 1\<rparr>, x)
       else if cmd = SBEMU_CMD_SET_SAMPLERATE then Inr (SBEMU_arg_samplerate v s, x)
       else if cmd \<in> {SBEMU_CMD_8OR16_8_OUT_1, SBEMU_CMD_8OR16_8_OUT_AUTO,
                       SBEMU_CMD_8OR16_8_OUT_AUTO_NOFIFO, SBEMU_CMD_8OR16_16_OUT_1,
                       SBEMU_CMD_8OR16_16_OUT_AUTO, SBEMU_CMD_8OR16_16_OUT_AUTO_NOFIFO} then
         Inr (s\<lparr>SBEMU_Auto := cmd \<in> {SBEMU_CMD_8OR16_8_OUT_AUTO, SBEMU_CMD_8OR16_16_OUT_AUTO,
                                     SBEMU_CMD_8OR16_8_OUT_AUTO_NOFIFO},
                SBEMU_DSPCMD := uint v, SBEMU_DSPCMD_Subindex := 0\<rparr>, x)
       else if cmd \<in> {SBEMU_CMD_MODE_PCM8_MONO, SBEMU_CMD_MODE_PCM8_STEREO,
                       SBEMU_CMD_MODE_PCM16_MONO, SBEMU_CMD_MODE_PCM16_STEREO} then
         Inr (SBEMU_arg_samples v SBEMU_start_mode s, x)
       else if cmd = SBEMU_CMD_DSP_ID then Inr (s\<lparr>SBEMU_idbyte := v\<rparr>, x)
       else if cmd = SBEMU_DSPCMD_DIRECT then bindE (SBEMU_arg_direct v s) (\<lambda>s. Inr (s, x))
       else if cmd = SBEMU_CMD_DSP_WRITE_TESTREG then
         Inr (s\<lparr>SBEMU_TestReg := v, SBEMU_DSPCMD_Subindex := 2\<rparr>, x)
       else if cmd = SBEMU_CMD_DSP_DMA_ID then
         let s = SBEMU_arg_dma_id v s
         in bindE (DMA_Write ext (SBEMU_DMA s) (SBEMU_DMAID_A s) x) (\<lambda>x. Inr (s, x))
       else if cmd = SBEMU_DSPCMD_SKIP1 then Inr (s\<lparr>SBEMU_DSPCMD_Subindex := 2\<rparr>, x)
       else if cmd = SBEMU_DSPCMD_SKIP2 then
         Inr (s\<lparr>SBEMU_DSPCMD_Subindex := SBEMU_DSPCMD_Subindex s + 1\<rparr>, x)
       else Inr (s, x))"

definition SBEMU_DSP_argument :: "'x sbemu_ext \<Rightarrow> u8 \<Rightarrow> sbemu \<times> 'x \<Rightarrow> (sbemu \<times> 'x) res" where
  "SBEMU_DSP_argument ext v w =
    bindE (SBEMU_DSP_arg_dispatch ext (SBEMU_DSPCMD (fst w)) v w)
      (\<lambda>(s, x). Inr (if SBEMU_DSPCMD_Subindex s \<ge> 2 then s\<lparr>SBEMU_DSPCMD := SBEMU_DSPCMD_INVALID\<rparr> else s, x))"

text \<open>A write to the command port. A transfer that has just started with at most 32 bytes
  consults the size of the DMA transfer (only to decide on a delay).\<close>

definition SBEMU_DSP_Write :: "'x sbemu_ext \<Rightarrow> u8 \<Rightarrow> sbemu \<times> 'x \<Rightarrow> (sbemu \<times> 'x) res" where
  "SBEMU_DSP_Write ext v = (\<lambda>(s, x).
    if SBEMU_HighSpeed s then Inr (s, x)
    else
      let OldStarted = SBEMU_Started s in
      bindE (if SBEMU_DSPCMD s = SBEMU_DSPCMD_INVALID then Inr (SBEMU_DSP_command v s, x)
             else SBEMU_DSP_argument ext v (s, x))
        (\<lambda>(s, x).
          if SBEMU_Started s \<and> \<not> OldStarted \<and> SBEMU_GetSampleBytes s \<le> 32 then
            bindE (SBEMU_GetDMA s) (\<lambda>dma.
            bindE (DMA_Size ext (uint dma) x) (\<lambda>_. Inr (s, x)))
          else Inr (s, x)))"

definition SBEMU_DSP_Read :: "sbemu \<Rightarrow> (u8 \<times> sbemu) res" where
  "SBEMU_DSP_Read s =
    (if SBEMU_ResetState s = SBEMU_RESET_POLL \<or> SBEMU_ResetState s = SBEMU_RESET_START then
       Inr (0xAA, s\<lparr>SBEMU_ResetState := SBEMU_RESET_END\<rparr>)
     else if SBEMU_DSPCMD s = SBEMU_CMD_DSP_GETVER then
       let i = SBEMU_DSPDATA_Subindex s; s = s\<lparr>SBEMU_DSPDATA_Subindex := i + 1\<rparr> in
       if i = 0 then Inr (hi8 (SBEMU_DSPVER s), s)
       else Inr (lo8 (SBEMU_DSPVER s),
                 s\<lparr>SBEMU_DSPDATA_Subindex := 0, SBEMU_DSPCMD := SBEMU_DSPCMD_INVALID\<rparr>)
     else if SBEMU_DSPCMD s = SBEMU_CMD_DSP_READ_TESTREG then
       Inr (SBEMU_TestReg s, s\<lparr>SBEMU_DSPDATA_Subindex := 0, SBEMU_DSPCMD := SBEMU_DSPCMD_INVALID\<rparr>)
     else if SBEMU_DSPCMD s = SBEMU_CMD_DSP_ID then
       Inr (SBEMU_idbyte s XOR 0xFF,
            s\<lparr>SBEMU_DSPCMD := SBEMU_DSPCMD_INVALID, SBEMU_DSPDATA_Subindex := 0\<rparr>)
     else if SBEMU_DSPCMD s = SBEMU_CMD_DSP_COPYRIGHT then
       let i = SBEMU_DSPDATA_Subindex s in
       if i = int (length SBEMU_Copyright) - 1 then
         Inr (0xFF, s\<lparr>SBEMU_DSPCMD := SBEMU_DSPCMD_INVALID, SBEMU_DSPDATA_Subindex := 0\<rparr>)
       else
         bindE (arr_get (int (length SBEMU_Copyright)) (\<lambda>i. SBEMU_Copyright ! nat i) i) (\<lambda>c.
           Inr (c, s\<lparr>SBEMU_DSPDATA_Subindex := i + 1\<rparr>))
     else Inr (0xFF, s))"

definition SBEMU_DSP_WriteStatus :: "sbemu \<Rightarrow> u8 \<times> sbemu" where
  "SBEMU_DSP_WriteStatus s = (let v = SBEMU_WS s + 0x80 in (v, s\<lparr>SBEMU_WS := v\<rparr>))"

definition SBEMU_DSP_ReadStatus :: "sbemu \<Rightarrow> u8 \<times> sbemu" where
  "SBEMU_DSP_ReadStatus s =
    (let v = SBEMU_RS s + 0x80;
         s = s\<lparr>SBEMU_RS := v\<rparr>
     in (v, mreg_set SBEMU_MIXERREG_INT_STS (SBEMU_MixerRegs s SBEMU_MIXERREG_INT_STS AND NOT 0x1) s))"

definition SBEMU_DSP_INT16ACK :: "sbemu \<Rightarrow> u8 \<times> sbemu" where
  "SBEMU_DSP_INT16ACK s =
    (0xFF, mreg_set SBEMU_MIXERREG_INT_STS (SBEMU_MixerRegs s SBEMU_MIXERREG_INT_STS AND NOT 0x2) s)"

section \<open>Operations for the mixer loop\<close>

definition SBEMU_HasStarted :: "sbemu \<Rightarrow> bool" where "SBEMU_HasStarted s = SBEMU_Started s"

definition SBEMU_Stop :: "sbemu \<Rightarrow> sbemu" where
  "SBEMU_Stop s = s\<lparr>SBEMU_Started := False, SBEMU_HighSpeed := False, SBEMU_Pos := 0\<rparr>"

definition SBEMU_GetDACSpeaker :: "sbemu \<Rightarrow> int" where
  "SBEMU_GetDACSpeaker s = SBEMU_DACSpeaker s"

definition SBEMU_GetBits :: "sbemu \<Rightarrow> int" where "SBEMU_GetBits s = SBEMU_Bits s"

definition SBEMU_GetSampleRate :: "sbemu \<Rightarrow> int" where "SBEMU_GetSampleRate s = SBEMU_SampleRate s"

definition SBEMU_GetAuto :: "sbemu \<Rightarrow> bool" where "SBEMU_GetAuto s = SBEMU_Auto s"

definition SBEMU_GetPos :: "sbemu \<Rightarrow> int" where "SBEMU_GetPos s = SBEMU_Pos s"

definition SBEMU_SetPos :: "int \<Rightarrow> sbemu \<Rightarrow> int \<times> sbemu" where
  "SBEMU_SetPos pos s =
    (let s = (if pos \<ge> SBEMU_GetSampleBytes s
              then mreg_set SBEMU_MIXERREG_INT_STS
                    (SBEMU_MixerRegs s SBEMU_MIXERREG_INT_STS OR (if SBEMU_Bits s \<le> 8 then 0x01 else 0x02)) s
              else s)
     in (pos, s\<lparr>SBEMU_Pos := pos\<rparr>))"

definition SBEMU_IRQTriggered :: "sbemu \<Rightarrow> int" where "SBEMU_IRQTriggered s = SBEMU_TriggerIRQ s"

definition SBEMU_SetIRQTriggered :: "int \<Rightarrow> sbemu \<Rightarrow> sbemu" where
  "SBEMU_SetIRQTriggered t s = s\<lparr>SBEMU_TriggerIRQ := t\<rparr>"

text \<open>The samples of one ADPCM byte, as the three branches of the decoding loop.\<close>

definition SBEMU_adpcm_byte :: "int \<Rightarrow> u8 \<Rightarrow> u8 \<times> int \<Rightarrow> u8 list \<times> u8 \<times> int" where
  "SBEMU_adpcm_byte bits b st =
    (if bits = 2 then
       let (p1, c) = decode_ADPCM_2_sample (drop_bit 6 b AND 0x3) (fst st) (snd st);
           (p2, c) = decode_ADPCM_2_sample (drop_bit 4 b AND 0x3) p1 c;
           (p3, c) = decode_ADPCM_2_sample (drop_bit 2 b AND 0x3) p2 c;
           (p4, c) = decode_ADPCM_2_sample (b AND 0x3) p3 c
       in ([p1, p2, p3, p4], p4, c)
     else if bits = 3 then
       let (p1, c) = decode_ADPCM_3_sample (drop_bit 5 b AND 0x7) (fst st) (snd st);
           (p2, c) = decode_ADPCM_3_sample (drop_bit 2 b AND 0x7) p1 c;
           (p3, c) = decode_ADPCM_3_sample (push_bit 1 (b AND 0x3)) p2 c
       in ([p1, p2, p3], p3, c)
     else if bits = 4 then
       let (p1, c) = decode_ADPCM_4_sample (drop_bit 4 b) (fst st) (snd st);
           (p2, c) = decode_ADPCM_4_sample (b AND 0xf) p1 c
       in ([p1, p2], p2, c)
     else ([], st))"

fun SBEMU_adpcm_loop :: "int \<Rightarrow> u8 list \<Rightarrow> u8 \<times> int \<Rightarrow> u8 list \<times> u8 \<times> int" where
  "SBEMU_adpcm_loop bits [] st = ([], st)"
| "SBEMU_adpcm_loop bits (b # bs) st =
    (let (out, st) = SBEMU_adpcm_byte bits b st; (rest, st) = SBEMU_adpcm_loop bits bs st
     in (out @ rest, st))"

text \<open>Decoding a block in place: the samples are collected in a buffer of \<open>outbytes\<close>
  bytes and copied over the input; writing more than that is an error.\<close>

definition SBEMU_DecodeADPCM :: "u8 list \<Rightarrow> sbemu \<Rightarrow> (u8 list \<times> sbemu) res" where
  "SBEMU_DecodeADPCM adpcm s =
    (let a = SBEMU_ADPCM s in
     bindE (if adpcm_useRef a then
              (case adpcm of [] \<Rightarrow> Inl Out_of_bounds
               | b # bs \<Rightarrow> Inr (bs, \<lparr>adpcm_scale = 0, adpcm_ref = b, adpcm_useRef = False\<rparr>))
            else Inr (adpcm, a)) (\<lambda>(codes, a).
     bindE (if SBEMU_Bits s = 0 then Inl Div_zero else Inr (int (length adpcm) * cdiv 9 (SBEMU_Bits s))) (\<lambda>outbytes.
       let (pcm, ref, scale) = SBEMU_adpcm_loop (SBEMU_Bits s) codes (adpcm_ref a, adpcm_scale a)
       in bindE (guardE Out_of_bounds (int (length pcm) \<le> outbytes)) (\<lambda>_.
            Inr (pcm, s\<lparr>SBEMU_ADPCM := a\<lparr>adpcm_ref := ref, adpcm_scale := scale\<rparr>\<rparr>)))))"

definition SBEMU_GetDirectCount :: "sbemu \<Rightarrow> int" where "SBEMU_GetDirectCount s = SBEMU_DirectCount s"

definition SBEMU_ResetDirect :: "sbemu \<Rightarrow> sbemu" where
  "SBEMU_ResetDirect s = s\<lparr>SBEMU_DirectCount := 0\<rparr>"

definition SBEMU_GetDirectPCM8 :: "sbemu \<Rightarrow> int \<Rightarrow> u8" where
  "SBEMU_GetDirectPCM8 s = SBEMU_DirectBuffer s"

definition SBEMU_GetDetectionCounter :: "sbemu \<Rightarrow> int" where
  "SBEMU_GetDetectionCounter s = SBEMU_DetectionCounter s"

definition SBEMU_SetDetectionCounter :: "int \<Rightarrow> sbemu \<Rightarrow> sbemu" where
  "SBEMU_SetDetectionCounter c s = s\<lparr>SBEMU_DetectionCounter := c\<rparr>"

end
