(* ===== verification/SbemuProps.thy ===== *)
theory SbemuProps
  imports Sbemu
begin

text \<open>
  The theorems about the Sound Blaster of theory Sbemu: the well-formedness of its
  state and its preservation by every operation, the reset and identification
  protocols, sample rates, transfer set-up, the mixer, the interrupt and DMA
  resources, and the ADPCM block decoder through the contract \<open>adpcm_codec\<close>.
\<close>

section \<open>Well-formed states\<close>

definition adpcm_ok :: "int \<Rightarrow> int \<Rightarrow> bool" where
  "adpcm_ok bits sc =
    (if bits = 2 then adpcm_ok2 sc else if bits = 3 then adpcm_ok3 sc
     else if bits = 4 then adpcm_ok4 sc else True)"

definition dsp_cmd_wf :: "sbemu \<Rightarrow> bool" where
  "dsp_cmd_wf s =
    ((SBEMU_DSPCMD s \<in> {-1, -4} \<or> (0 \<le> SBEMU_DSPCMD s \<and> SBEMU_DSPCMD s \<le> 255))
     \<and> 0 \<le> SBEMU_DSPCMD_Subindex s \<and> (SBEMU_DSPCMD s \<noteq> -1 \<longrightarrow> SBEMU_DSPCMD_Subindex s \<le> 1)
     \<and> (SBEMU_DSPDATA_Subindex s = 0
        \<or> SBEMU_DSPCMD s = SBEMU_CMD_DSP_GETVER \<and> SBEMU_DSPDATA_Subindex s = 1
        \<or> SBEMU_DSPCMD s = SBEMU_CMD_DSP_COPYRIGHT \<and> 0 \<le> SBEMU_DSPDATA_Subindex s \<and> SBEMU_DSPDATA_Subindex s \<le> 44))"

definition dsp_rate_wf :: "sbemu \<Rightarrow> bool" where
  "dsp_rate_wf s =
    (0 \<le> SBEMU_SampleRate s \<and> SBEMU_SampleRate s \<le> 65535 \<and> 0 \<le> SBEMU_Samples s
     \<and> SBEMU_Samples s \<le> 65535 \<and> SBEMU_UseTimeConst s \<in> {0, 1, 2})"

definition dsp_data_wf :: "sbemu \<Rightarrow> bool" where
  "dsp_data_wf s =
    (SBEMU_Bits s \<in> {2, 3, 4, 8, 16} \<and> adpcm_ok (SBEMU_Bits s) (adpcm_scale (SBEMU_ADPCM s))
     \<and> 0 \<le> SBEMU_DirectCount s \<and> SBEMU_DirectCount s \<le> 2147483647)"

definition sbemu_wf :: "sbemu \<Rightarrow> bool" where
  "sbemu_wf s = (dsp_cmd_wf s \<and> dsp_rate_wf s \<and> dsp_data_wf s)"

lemmas sbemu_wf_defs = sbemu_wf_def dsp_cmd_wf_def dsp_rate_wf_def dsp_data_wf_def

lemma sbemu_wf_initial: "sbemu_wf sbemu_initial"
  by (simp add: sbemu_wf_defs sbemu_initial_def adpcm_ok_def)

lemma adpcm_ok_0 [simp]: "adpcm_ok bits 0"
  by (simp add: adpcm_ok_def adpcm2.ok_0 adpcm3.ok_0 adpcm4.ok_0)

lemma mreg_set_wf [simp]: "sbemu_wf (mreg_set i v s) = sbemu_wf s"
  by (simp add: sbemu_wf_defs mreg_set_def)

lemma irrelevant_wf [simp]:
  "sbemu_wf (s\<lparr>SBEMU_ResetState := r\<rparr>) = sbemu_wf s" "sbemu_wf (s\<lparr>SBEMU_Started := b\<rparr>) = sbemu_wf s"
  "sbemu_wf (s\<lparr>SBEMU_Pos := i\<rparr>) = sbemu_wf s" "sbemu_wf (s\<lparr>SBEMU_Auto := b\<rparr>) = sbemu_wf s"
  "sbemu_wf (s\<lparr>SBEMU_HighSpeed := b\<rparr>) = sbemu_wf s" "sbemu_wf (s\<lparr>SBEMU_TriggerIRQ := i\<rparr>) = sbemu_wf s"
  "sbemu_wf (s\<lparr>SBEMU_idbyte := v\<rparr>) = sbemu_wf s" "sbemu_wf (s\<lparr>SBEMU_TestReg := v\<rparr>) = sbemu_wf s"
  "sbemu_wf (s\<lparr>SBEMU_RS := v\<rparr>) = sbemu_wf s" "sbemu_wf (s\<lparr>SBEMU_WS := v\<rparr>) = sbemu_wf s"
  "sbemu_wf (s\<lparr>SBEMU_DetectionCounter := i\<rparr>) = sbemu_wf s"
  by (simp_all add: sbemu_wf_defs)

lemma GetChannels_cases: "SBEMU_GetChannels s = 1 \<or> SBEMU_GetChannels s = 2"
  by (simp add: SBEMU_GetChannels_def)

lemma TC_limit_max: "SBEMU_TC_limit s \<le> 234"
  by (auto simp: SBEMU_TC_limit_def Let_def word_le_def)

lemma TC_rate_bounds:
  assumes "tc \<le> (234 :: u8)" "ch = 1 \<or> ch = 2"
  shows "1953 \<le> cdiv (cdiv 256000000 (65536 - push_bit 8 (uint tc))) ch"
    and "cdiv (cdiv 256000000 (65536 - push_bit 8 (uint tc))) ch \<le> 45454"
proof -
  define d where "d = 65536 - push_bit 8 (uint tc)"
  have "uint tc \<le> 234" using assms(1) by (simp add: word_le_def)
  then have d: "5632 \<le> d" "d \<le> 65536" by (simp_all add: d_def push_bit_eq_mult)
  define q where "q = 256000000 div d"
  have q: "3906 \<le> q" "q \<le> 45454"
    using zdiv_mono2 [of 256000000 d 65536] zdiv_mono2 [of 256000000 5632 d] d by (simp_all add: q_def)
  have "cdiv (cdiv 256000000 d) ch = q div ch" using d q assms(2) by (auto simp: q_def)
  moreover have "1953 \<le> q div ch \<and> q div ch \<le> 45454" using q assms(2) by auto
  ultimately show "1953 \<le> cdiv (cdiv 256000000 (65536 - push_bit 8 (uint tc))) ch"
    "cdiv (cdiv 256000000 (65536 - push_bit 8 (uint tc))) ch \<le> 45454"
    by (simp_all add: d_def)
qed

lemma UpdateTC_keep [simp]:
  "SBEMU_DSPCMD (SBMEU_UpdateTCSampleRate s) = SBEMU_DSPCMD s"
  "SBEMU_DSPCMD_Subindex (SBMEU_UpdateTCSampleRate s) = SBEMU_DSPCMD_Subindex s"
  "SBEMU_DSPDATA_Subindex (SBMEU_UpdateTCSampleRate s) = SBEMU_DSPDATA_Subindex s"
  "SBEMU_Bits (SBMEU_UpdateTCSampleRate s) = SBEMU_Bits s"
  "SBEMU_Samples (SBMEU_UpdateTCSampleRate s) = SBEMU_Samples s"
  "SBEMU_ADPCM (SBMEU_UpdateTCSampleRate s) = SBEMU_ADPCM s"
  "SBEMU_DirectCount (SBMEU_UpdateTCSampleRate s) = SBEMU_DirectCount s"
  "SBEMU_MixerRegs (SBMEU_UpdateTCSampleRate s) = SBEMU_MixerRegs s"
  "SBEMU_Auto (SBMEU_UpdateTCSampleRate s) = SBEMU_Auto s"
  "SBEMU_HighSpeed (SBMEU_UpdateTCSampleRate s) = SBEMU_HighSpeed s"
  "SBEMU_Started (SBMEU_UpdateTCSampleRate s) = SBEMU_Started s"
  "SBEMU_MixerRegIndex (SBMEU_UpdateTCSampleRate s) = SBEMU_MixerRegIndex s"
  "SBEMU_DSPVER (SBMEU_UpdateTCSampleRate s) = SBEMU_DSPVER s"
  by (simp_all add: SBMEU_UpdateTCSampleRate_def Let_def)

lemma UpdateTC_rate:
  "SBEMU_UseTimeConst s \<noteq> 0 \<Longrightarrow>
    1953 \<le> SBEMU_SampleRate (SBMEU_UpdateTCSampleRate s) \<and> SBEMU_SampleRate (SBMEU_UpdateTCSampleRate s) \<le> 45454"
  using TC_rate_bounds [of "min (SBEMU_TimeConst s) (SBEMU_TC_limit s)", OF _ GetChannels_cases [of s]]
    TC_limit_max [of s]
  by (simp add: SBMEU_UpdateTCSampleRate_def Let_def min_le_iff_disj)

lemma UpdateTC_wf:
  assumes "sbemu_wf s"
  shows "sbemu_wf (SBMEU_UpdateTCSampleRate s)"
proof (cases "SBEMU_UseTimeConst s = 0")
  case True
  then show ?thesis using assms by (simp add: SBMEU_UpdateTCSampleRate_def)
next
  case False
  have "SBEMU_UseTimeConst (SBMEU_UpdateTCSampleRate s) \<in> {0, 1, 2}"
    using False GetChannels_cases [of s] by (auto simp: SBMEU_UpdateTCSampleRate_def Let_def)
  then show ?thesis
    using assms UpdateTC_rate [OF False] by (simp add: sbemu_wf_defs)
qed

section \<open>Every operation keeps the state well-formed\<close>

lemma Mixer_defaults_wf [simp]: "sbemu_wf (SBEMU_Mixer_defaults s) = sbemu_wf s"
  by (simp add: SBEMU_Mixer_defaults_def Let_def)

lemma Mixer_sb16_wf [simp]: "sbemu_wf (SBEMU_Mixer_sb16 v s) = sbemu_wf s"
  by (simp add: SBEMU_Mixer_sb16_def mreg_left_def mreg_right_def Let_def)

lemma Mixer_Write_wf: "sbemu_wf s \<Longrightarrow> sbemu_wf (SBEMU_Mixer_Write v s)"
  by (simp add: SBEMU_Mixer_Write_def Let_def UpdateTC_wf)

lemma Mixer_WriteAddr_wf: "sbemu_wf s \<Longrightarrow> sbemu_wf (SBEMU_Mixer_WriteAddr v s)"
  by (simp add: SBEMU_Mixer_WriteAddr_def sbemu_wf_defs)

lemma Init_wf: "sbemu_wf s \<Longrightarrow> sbemu_wf (SBEMU_Init irq dma hdma ver tc s)"
proof -
  assume "sbemu_wf s"
  then have "sbemu_wf (s\<lparr>SBEMU_IRQ := irq, SBEMU_DMA := dma, SBEMU_HDMA := hdma,
      SBEMU_DSPVER := word_of_int ver, SBEMU_FixTC := tc\<rparr>)"
    by (simp add: sbemu_wf_defs)
  then show ?thesis
    by (simp add: SBEMU_Init_def Let_def Mixer_Write_wf Mixer_WriteAddr_wf)
qed

definition dsp_reset_fields :: "sbemu \<Rightarrow> sbemu" where
  "dsp_reset_fields s = s\<lparr>SBEMU_ResetState := SBEMU_RESET_START, SBEMU_MixerRegIndex := 0,
     SBEMU_DSPCMD := -1, SBEMU_DSPCMD_Subindex := 0, SBEMU_DSPDATA_Subindex := 0,
     SBEMU_Started := False, SBEMU_Samples := 0, SBEMU_Auto := False, SBEMU_Bits := 8, SBEMU_Pos := 0,
     SBEMU_HighSpeed := False, SBEMU_TriggerIRQ := 0, SBEMU_DetectionCounter := 0,
     SBEMU_DirectCount := 0, SBEMU_DirectBuffer := (SBEMU_DirectBuffer s)(0 := 0),
     SBEMU_DMAID_A := 0xAA, SBEMU_DMAID_X := 0x96, SBEMU_UseTimeConst := 0\<rparr>"

lemma DSP_Reset_1:
  "SBEMU_DSP_Reset 1 s = bindE (SBEMU_reset_setup s) (\<lambda>s. Inr (dsp_reset_fields s))"
  by (cases "SBEMU_reset_setup s") (simp_all add: SBEMU_DSP_Reset_def dsp_reset_fields_def)

lemma DSP_Reset_not_1:
  "v \<noteq> 1 \<Longrightarrow> SBEMU_DSP_Reset v s = Inr (if v = 0 \<and> SBEMU_ResetState s = SBEMU_RESET_START
                then s\<lparr>SBEMU_ResetState := SBEMU_RESET_POLL\<rparr> else s)"
  by (simp add: SBEMU_DSP_Reset_def)

lemma reset_setup_wf: "sbemu_wf s \<Longrightarrow> SBEMU_reset_setup s = Inr s2 \<Longrightarrow> sbemu_wf s2"
  by (auto simp: SBEMU_reset_setup_def)

lemma dsp_reset_fields_wf: "sbemu_wf s \<Longrightarrow> sbemu_wf (dsp_reset_fields s)"
  by (simp add: dsp_reset_fields_def sbemu_wf_defs adpcm_ok_def)

lemma DSP_Reset_wf: "sbemu_wf s \<Longrightarrow> SBEMU_DSP_Reset v s = Inr s2 \<Longrightarrow> sbemu_wf s2"
proof (cases "v = 1")
  case True
  assume "sbemu_wf s" "SBEMU_DSP_Reset v s = Inr s2"
  with True show ?thesis by (auto simp: DSP_Reset_1 dsp_reset_fields_wf reset_setup_wf)
next
  case False
  assume "sbemu_wf s" "SBEMU_DSP_Reset v s = Inr s2"
  with False show ?thesis by (auto simp: DSP_Reset_not_1 split: if_splits)
qed

lemma cmd_set_wf:
  "sbemu_wf s \<Longrightarrow> SBEMU_DSPDATA_Subindex s = 0 \<Longrightarrow> c \<in> {-1, -4} \<or> 0 \<le> c \<and> c \<le> 255 \<Longrightarrow>
    SBEMU_DSPCMD_Subindex s \<le> 1 \<or> c = -1 \<Longrightarrow> sbemu_wf (s\<lparr>SBEMU_DSPCMD := c\<rparr>)"
  by (simp add: sbemu_wf_defs) blast

lemma cmd_subindex_wf:
  "sbemu_wf s \<Longrightarrow> 0 \<le> i \<Longrightarrow> i \<le> 1 \<Longrightarrow> sbemu_wf (s\<lparr>SBEMU_DSPCMD_Subindex := i\<rparr>)"
  by (simp add: sbemu_wf_defs)

lemma bits_set_wf:
  "sbemu_wf s \<Longrightarrow> b \<in> {8, 16} \<Longrightarrow> sbemu_wf (s\<lparr>SBEMU_Bits := b\<rparr>)"
  by (elim insertE emptyE) (simp_all add: sbemu_wf_defs adpcm_ok_def)

lemma adpcm_set_wf:
  "sbemu_wf s \<Longrightarrow> adpcm_scale a = 0 \<Longrightarrow> sbemu_wf (s\<lparr>SBEMU_ADPCM := a, SBEMU_Bits := SBEMU_adpcm_bits c\<rparr>)"
  by (simp add: sbemu_wf_defs SBEMU_adpcm_bits_def)

lemma clear_stereo_wf [simp]: "sbemu_wf (SBEMU_clear_stereo s) = sbemu_wf s"
  by (simp add: SBEMU_clear_stereo_def)

lemma mreg_set_keep [simp]:
  "SBEMU_DSPCMD (mreg_set i v s) = SBEMU_DSPCMD s"
  "SBEMU_DSPCMD_Subindex (mreg_set i v s) = SBEMU_DSPCMD_Subindex s"
  "SBEMU_DSPDATA_Subindex (mreg_set i v s) = SBEMU_DSPDATA_Subindex s"
  "SBEMU_HighSpeed (mreg_set i v s) = SBEMU_HighSpeed s"
  "SBEMU_Auto (mreg_set i v s) = SBEMU_Auto s" "SBEMU_Bits (mreg_set i v s) = SBEMU_Bits s"
  "SBEMU_Samples (mreg_set i v s) = SBEMU_Samples s" "SBEMU_ADPCM (mreg_set i v s) = SBEMU_ADPCM s"
  "SBEMU_DSPVER (mreg_set i v s) = SBEMU_DSPVER s" "SBEMU_MixerRegIndex (mreg_set i v s) = SBEMU_MixerRegIndex s"
  "SBEMU_MixerRegs (mreg_set i v s) = (SBEMU_MixerRegs s)(i := v)"
  "SBEMU_Started (mreg_set i v s) = SBEMU_Started s" "SBEMU_SampleRate (mreg_set i v s) = SBEMU_SampleRate s"
  "SBEMU_DirectCount (mreg_set i v s) = SBEMU_DirectCount s"
  by (simp_all add: mreg_set_def)

lemma clear_stereo_keep [simp]:
  "SBEMU_DSPCMD (SBEMU_clear_stereo s) = SBEMU_DSPCMD s"
  "SBEMU_DSPCMD_Subindex (SBEMU_clear_stereo s) = SBEMU_DSPCMD_Subindex s"
  "SBEMU_DSPDATA_Subindex (SBEMU_clear_stereo s) = SBEMU_DSPDATA_Subindex s"
  "SBEMU_HighSpeed (SBEMU_clear_stereo s) = SBEMU_HighSpeed s"
  "SBEMU_Auto (SBEMU_clear_stereo s) = SBEMU_Auto s" "SBEMU_Bits (SBEMU_clear_stereo s) = SBEMU_Bits s"
  "SBEMU_Samples (SBEMU_clear_stereo s) = SBEMU_Samples s"
  by (simp_all add: SBEMU_clear_stereo_def)

lemma idle_data: "sbemu_wf s \<Longrightarrow> SBEMU_DSPCMD s = -1 \<Longrightarrow> SBEMU_DSPDATA_Subindex s = 0"
  by (auto simp: sbemu_wf_defs)

lemma auto_adpcm_set_wf:
  "sbemu_wf s \<Longrightarrow> adpcm_scale a = 0 \<Longrightarrow>
    sbemu_wf (s\<lparr>SBEMU_Auto := b, SBEMU_ADPCM := a, SBEMU_Bits := SBEMU_adpcm_bits c\<rparr>)"
  by (simp add: sbemu_wf_defs SBEMU_adpcm_bits_def)

lemma auto_8bit_set_wf:
  "sbemu_wf s \<Longrightarrow> sbemu_wf (s\<lparr>SBEMU_Auto := b, SBEMU_Bits := 8\<rparr>)"
  by (simp add: sbemu_wf_defs adpcm_ok_def)

lemma auto_stop_wf:
  "sbemu_wf s \<Longrightarrow> sbemu_wf (if b then s\<lparr>SBEMU_Auto := a, SBEMU_Started := st\<rparr> else s)"
  by (simp add: sbemu_wf_defs)

lemma started_cmd_wf:
  "sbemu_wf s \<Longrightarrow> SBEMU_DSPDATA_Subindex s = 0 \<Longrightarrow>
    sbemu_wf (s\<lparr>SBEMU_Started := st, SBEMU_DSPCMD := -1\<rparr>)"
  "sbemu_wf s \<Longrightarrow> SBEMU_DSPDATA_Subindex s = 0 \<Longrightarrow>
    sbemu_wf (s\<lparr>SBEMU_Started := st, SBEMU_DSPCMD := -1, SBEMU_Pos := p\<rparr>)"
  "sbemu_wf s \<Longrightarrow> SBEMU_DSPDATA_Subindex s = 0 \<Longrightarrow>
    sbemu_wf (s\<lparr>SBEMU_TriggerIRQ := p, SBEMU_DSPCMD := -1\<rparr>)"
  by (simp_all add: sbemu_wf_defs)

lemmas step_wf = started_cmd_wf cmd_set_wf auto_stop_wf auto_adpcm_set_wf auto_8bit_set_wf UpdateTC_wf

lemma DSP_dispatch_wf:
  assumes "sbemu_wf s" "SBEMU_DSPDATA_Subindex s = 0" "SBEMU_DSPCMD_Subindex s = 0"
  shows "sbemu_wf (SBEMU_DSP_dispatch cmd s)"
  unfolding SBEMU_DSP_dispatch_def using assms by (simp add: step_wf)

lemma DSP_command_wf:
  assumes "sbemu_wf s" "SBEMU_DSPCMD s = -1"
  shows "sbemu_wf (SBEMU_DSP_command v s)"
proof -
  have "sbemu_wf (s\<lparr>SBEMU_DSPCMD := uint v, SBEMU_DSPCMD_Subindex := 0\<rparr>)"
    using assms by (simp add: sbemu_wf_defs)
  then show ?thesis
    unfolding SBEMU_DSP_command_def using idle_data [OF assms] by (intro DSP_dispatch_wf) simp_all
qed

text \<open>The argument bytes. \<open>dsp_arg_wf\<close>: the state an argument clause leaves, before the
  command is finished when its last argument has arrived.\<close>

definition dsp_arg_cmd :: "sbemu \<Rightarrow> bool" where
  "dsp_arg_cmd s =
    ((SBEMU_DSPCMD s \<in> {-1, -4} \<or> (0 \<le> SBEMU_DSPCMD s \<and> SBEMU_DSPCMD s \<le> 255))
     \<and> 0 \<le> SBEMU_DSPCMD_Subindex s \<and> SBEMU_DSPCMD_Subindex s \<le> 2
     \<and> (SBEMU_DSPCMD_Subindex s = 2 \<longrightarrow> SBEMU_DSPDATA_Subindex s = 0)
     \<and> (SBEMU_DSPDATA_Subindex s = 0
        \<or> SBEMU_DSPCMD s = SBEMU_CMD_DSP_GETVER \<and> SBEMU_DSPDATA_Subindex s = 1
        \<or> SBEMU_DSPCMD s = SBEMU_CMD_DSP_COPYRIGHT \<and> 0 \<le> SBEMU_DSPDATA_Subindex s \<and> SBEMU_DSPDATA_Subindex s \<le> 44))"

definition dsp_arg_wf :: "sbemu \<Rightarrow> bool" where
  "dsp_arg_wf s = (dsp_arg_cmd s \<and> dsp_rate_wf s \<and> dsp_data_wf s)"

lemmas arg_wf_defs = dsp_arg_wf_def dsp_arg_cmd_def dsp_rate_wf_def dsp_data_wf_def

lemma dsp_arg_finish:
  "dsp_arg_wf s \<Longrightarrow>
    sbemu_wf (if SBEMU_DSPCMD_Subindex s \<ge> 2 then s\<lparr>SBEMU_DSPCMD := -1\<rparr> else s)"
  by (simp add: arg_wf_defs sbemu_wf_defs)

lemma wf_arg_wf: "sbemu_wf s \<Longrightarrow> SBEMU_DSPCMD s \<noteq> -1 \<Longrightarrow> dsp_arg_wf s"
  by (simp add: arg_wf_defs sbemu_wf_defs)

lemma arg_data: "sbemu_wf s \<Longrightarrow> SBEMU_DSPCMD s \<noteq> SBEMU_CMD_DSP_GETVER \<Longrightarrow>
    SBEMU_DSPCMD s \<noteq> SBEMU_CMD_DSP_COPYRIGHT \<Longrightarrow> SBEMU_DSPDATA_Subindex s = 0"
  by (auto simp: sbemu_wf_def dsp_cmd_wf_def)

lemma arg_subindex_wf:
  "dsp_arg_wf s \<Longrightarrow> SBEMU_DSPDATA_Subindex s = 0 \<Longrightarrow> 0 \<le> i \<Longrightarrow> i \<le> 2 \<Longrightarrow>
    dsp_arg_wf (s\<lparr>SBEMU_DSPCMD_Subindex := i\<rparr>)"
  by (simp add: arg_wf_defs)

lemma byte_hi_range: "0 \<le> push_bit 8 (uint (v :: u8))" "push_bit 8 (uint v) \<le> 65535"
  using uint_u8_range(3) [of v] by (simp_all add: push_bit_eq_mult del: uint_u8_range)

lemma arg_samples_set_wf:
  "dsp_arg_wf s \<Longrightarrow> dsp_arg_wf (s\<lparr>SBEMU_Samples := uint (v :: u8)\<rparr>)"
  "dsp_arg_wf s \<Longrightarrow> dsp_arg_wf (s\<lparr>SBEMU_Samples := SBEMU_Samples s OR push_bit 8 (uint v)\<rparr>)"
  using byte_hi_range [of v] or_u16_int [of "SBEMU_Samples s" "push_bit 8 (uint v)"]
    order_trans [OF uint_u8_range(3) [of v], of 65535]
  by (simp_all add: arg_wf_defs)

lemma arg_rate_set_wf:
  "dsp_arg_wf s \<Longrightarrow> dsp_arg_wf (s\<lparr>SBEMU_SampleRate := push_bit 8 (uint (v :: u8))\<rparr>)"
  using byte_hi_range [of v] by (simp add: arg_wf_defs)

lemma rate_low_range:
  "0 \<le> r \<Longrightarrow> r \<le> 65535 \<Longrightarrow> 0 \<le> (r AND NOT 0xFF) OR uint (v :: u8) \<and> (r AND NOT 0xFF) OR uint v \<le> 65535"
  using uint_u8_range [of v] by (simp only: and_not_ff_int or_byte_int) presburger

lemma arg_rate_low_set_wf:
  "dsp_arg_wf s \<Longrightarrow>
    dsp_arg_wf (s\<lparr>SBEMU_SampleRate := (SBEMU_SampleRate s AND NOT 0xFF) OR uint (v :: u8), SBEMU_UseTimeConst := 0\<rparr>)"
  using rate_low_range [of "SBEMU_SampleRate s" v] by (simp add: arg_wf_defs del: bit.compl_one)

lemma arg_samples_wf:
  assumes "dsp_arg_wf s" "SBEMU_DSPDATA_Subindex s = 0" "SBEMU_DSPCMD_Subindex s \<le> 1"
    and start: "\<And>t. dsp_arg_wf t \<Longrightarrow> dsp_arg_wf (start t)"
  shows "dsp_arg_wf (SBEMU_arg_samples v start s)"
proof -
  have "0 \<le> SBEMU_DSPCMD_Subindex s" using assms(1) by (simp add: arg_wf_defs)
  then have "dsp_arg_wf (s\<lparr>SBEMU_DSPCMD_Subindex := SBEMU_DSPCMD_Subindex s + 1\<rparr>)"
    using arg_subindex_wf [OF assms(1, 2), of "SBEMU_DSPCMD_Subindex s + 1"] assms(3) by simp
  from arg_samples_set_wf [OF this] show ?thesis
    using start
    by (cases "SBEMU_DSPCMD_Subindex s = 0") (simp_all add: SBEMU_arg_samples_def Let_def)
qed

lemma start_8bit_wf: "dsp_arg_wf t \<Longrightarrow> dsp_arg_wf (SBEMU_start_8bit t)"
  by (simp add: SBEMU_start_8bit_def arg_wf_defs adpcm_ok_def Let_def) auto

lemma start_adpcm_wf: "dsp_arg_wf t \<Longrightarrow> dsp_arg_wf (SBEMU_start_adpcm t)"
  by (simp add: SBEMU_start_adpcm_def SBEMU_clear_stereo_def mreg_set_def SBEMU_adpcm_bits_def
      arg_wf_defs Let_def)

lemma start_mode_wf: "dsp_arg_wf t \<Longrightarrow> dsp_arg_wf (SBEMU_start_mode t)"
  by (simp add: SBEMU_start_mode_def SBEMU_clear_stereo_def mreg_set_def arg_wf_defs adpcm_ok_def Let_def)

lemma arg_tc_set_wf:
  "dsp_arg_wf s \<Longrightarrow> 0 \<le> r \<Longrightarrow> r \<le> 65535 \<Longrightarrow> u \<in> {1, 2} \<Longrightarrow>
    dsp_arg_wf (s\<lparr>SBEMU_SampleRate := r, SBEMU_UseTimeConst := u, SBEMU_TimeConst := v\<rparr>)"
  by (auto simp: arg_wf_defs)

lemma UpdateTC_arg_wf:
  assumes "dsp_arg_wf s"
  shows "dsp_arg_wf (SBMEU_UpdateTCSampleRate s)"
proof (cases "SBEMU_UseTimeConst s = 0")
  case True
  then show ?thesis using assms by (simp add: SBMEU_UpdateTCSampleRate_def)
next
  case False
  have "SBEMU_UseTimeConst (SBMEU_UpdateTCSampleRate s) \<in> {0, 1, 2}"
    using False GetChannels_cases [of s] by (auto simp: SBMEU_UpdateTCSampleRate_def Let_def)
  then show ?thesis
    using assms UpdateTC_rate [OF False] by (simp add: arg_wf_defs)
qed

lemma arg_timeconst_wf:
  assumes "dsp_arg_wf s" "SBEMU_DSPDATA_Subindex s = 0"
  shows "dsp_arg_wf (SBEMU_arg_timeconst v s)"
proof -
  define r where "r = (if SBEMU_FixTC s \<noteq> 0 then
      case find (\<lambda>(tc, r). tc - 3 \<le> uint v \<and> uint v \<le> tc + 3) SBEMU_TimeConstantMapMono of
        None \<Rightarrow> 0 | Some (tc, r) \<Rightarrow> cdiv r (SBEMU_GetChannels s) else 0)"
  have r: "0 \<le> r" "r \<le> 65535"
    using GetChannels_cases [of s]
    by (auto simp: r_def SBEMU_TimeConstantMapMono_def split: option.splits if_splits)
  have "word_of_int (SBEMU_GetChannels s) \<in> {1, 2 :: u8}" using GetChannels_cases [of s] by auto
  from arg_tc_set_wf [OF assms(1) r this, of v]
  have "dsp_arg_wf (s\<lparr>SBEMU_SampleRate := r, SBEMU_UseTimeConst := word_of_int (SBEMU_GetChannels s),
      SBEMU_TimeConst := v\<rparr>)" (is "dsp_arg_wf ?t") .
  then have "dsp_arg_wf (if SBEMU_SampleRate ?t = 0 then SBMEU_UpdateTCSampleRate ?t else ?t)"
    by (split if_split) (blast intro: UpdateTC_arg_wf)
  moreover have "SBEMU_DSPDATA_Subindex (if SBEMU_SampleRate ?t = 0 then SBMEU_UpdateTCSampleRate ?t else ?t) = 0"
    using assms(2) by simp
  ultimately show ?thesis
    unfolding SBEMU_arg_timeconst_def r_def [symmetric] Let_def by (rule arg_subindex_wf) simp_all
qed

lemma arg_samplerate_wf:
  assumes "dsp_arg_wf s" "SBEMU_DSPDATA_Subindex s = 0" "SBEMU_DSPCMD_Subindex s \<le> 1"
  shows "dsp_arg_wf (SBEMU_arg_samplerate v s)"
proof -
  have "0 \<le> SBEMU_DSPCMD_Subindex s" using assms(1) by (simp add: arg_wf_defs)
  then have "dsp_arg_wf (s\<lparr>SBEMU_DSPCMD_Subindex := SBEMU_DSPCMD_Subindex s + 1\<rparr>)"
    using arg_subindex_wf [OF assms(1, 2), of "SBEMU_DSPCMD_Subindex s + 1"] assms(3) by simp
  from arg_rate_set_wf [OF this, of v] arg_rate_low_set_wf [OF this, of v] show ?thesis
    by (cases "SBEMU_DSPCMD_Subindex s = 0") (simp_all add: SBEMU_arg_samplerate_def Let_def)
qed

lemma arg_direct_wf:
  assumes "dsp_arg_wf s" "SBEMU_DSPDATA_Subindex s = 0"
  shows "res_all dsp_arg_wf (SBEMU_arg_direct v s)"
proof -
  have "0 \<le> SBEMU_DirectCount s" using assms(1) by (simp add: arg_wf_defs)
  with assms show ?thesis
    by (auto simp: SBEMU_arg_direct_def i32_def i32_ok_def arg_wf_defs intro!: res_allI)
qed

lemma arg_dma_id_wf:
  "dsp_arg_wf s \<Longrightarrow> SBEMU_DSPDATA_Subindex s = 0 \<Longrightarrow> dsp_arg_wf (SBEMU_arg_dma_id v s)"
  by (simp add: SBEMU_arg_dma_id_def Let_def arg_wf_defs)

lemma arg_simple_wf:
  "dsp_arg_wf s \<Longrightarrow> dsp_arg_wf (s\<lparr>SBEMU_idbyte := v\<rparr>)"
  "dsp_arg_wf s \<Longrightarrow> SBEMU_DSPDATA_Subindex s = 0 \<Longrightarrow>
    dsp_arg_wf (s\<lparr>SBEMU_TestReg := v, SBEMU_DSPCMD_Subindex := 2\<rparr>)"
  "dsp_arg_wf s \<Longrightarrow> SBEMU_DSPDATA_Subindex s = 0 \<Longrightarrow>
    dsp_arg_wf (s\<lparr>SBEMU_Auto := b, SBEMU_DSPCMD := uint v, SBEMU_DSPCMD_Subindex := 0\<rparr>)"
  by (simp_all add: arg_wf_defs)

lemmas argument_wf = arg_timeconst_wf arg_samples_wf start_8bit_wf start_adpcm_wf start_mode_wf
  arg_subindex_wf arg_samplerate_wf arg_dma_id_wf arg_simple_wf

lemma arg_dispatch_wf:
  assumes a: "dsp_arg_wf s" and i: "0 \<le> SBEMU_DSPCMD_Subindex s" "SBEMU_DSPCMD_Subindex s \<le> 1"
    and d: "cmd \<noteq> SBEMU_CMD_DSP_GETVER \<Longrightarrow> cmd \<noteq> SBEMU_CMD_DSP_COPYRIGHT \<Longrightarrow> SBEMU_DSPDATA_Subindex s = 0"
  shows "res_all (\<lambda>w. dsp_arg_wf (fst w)) (SBEMU_DSP_arg_dispatch ext cmd v (s, x))"
proof (cases "cmd = SBEMU_CMD_DSP_GETVER \<or> cmd = SBEMU_CMD_DSP_COPYRIGHT")
  case True
  then show ?thesis using a by (auto simp: SBEMU_DSP_arg_dispatch_def)
next
  case False
  then have d0: "SBEMU_DSPDATA_Subindex s = 0" using d by simp
  have ext: "res_all (\<lambda>y. dsp_arg_wf (SBEMU_arg_dma_id v s)) r" for r :: "'a res"
    using arg_dma_id_wf [OF a d0] by (simp add: res_allI)
  show ?thesis
    using a i d0 arg_direct_wf [OF a d0] ext
    by (simp add: SBEMU_DSP_arg_dispatch_def argument_wf Let_def)
qed

lemma DSP_argument_wf:
  assumes "sbemu_wf s" "SBEMU_DSPCMD s \<noteq> -1"
  shows "res_all (\<lambda>w. sbemu_wf (fst w)) (SBEMU_DSP_argument ext v (s, x))"
proof -
  have "0 \<le> SBEMU_DSPCMD_Subindex s" "SBEMU_DSPCMD_Subindex s \<le> 1"
    using assms(1, 2) by (simp_all add: sbemu_wf_defs)
  then have "res_all (\<lambda>w. dsp_arg_wf (fst w)) (SBEMU_DSP_arg_dispatch ext (SBEMU_DSPCMD s) v (s, x))"
    by (rule arg_dispatch_wf [OF wf_arg_wf [OF assms] _ _ arg_data [OF assms(1)]])
  then have "res_all (\<lambda>w. sbemu_wf (if SBEMU_DSPCMD_Subindex (fst w) \<ge> 2
      then (fst w)\<lparr>SBEMU_DSPCMD := -1\<rparr> else fst w)) (SBEMU_DSP_arg_dispatch ext (SBEMU_DSPCMD s) v (s, x))"
    by (rule res_all_mono) (rule dsp_arg_finish)
  then show ?thesis by (simp add: SBEMU_DSP_argument_def case_prod_unfold)
qed

lemma DSP_Write_wf:
  assumes "sbemu_wf s"
  shows "res_all (\<lambda>w. sbemu_wf (fst w)) (SBEMU_DSP_Write ext v (s, x))"
proof -
  have "res_all (\<lambda>w. sbemu_wf (fst w)) (if SBEMU_DSPCMD s = -1 then Inr (SBEMU_DSP_command v s, x)
             else SBEMU_DSP_argument ext v (s, x))"
    using DSP_command_wf [OF assms] DSP_argument_wf [OF assms, of ext v x] by simp
  then show ?thesis
    using assms by (auto simp: SBEMU_DSP_Write_def Let_def case_prod_unfold intro!: res_allI elim!: res_all_mono)
qed

lemma length_Copyright [simp]: "length SBEMU_Copyright = 45"
  by (simp add: SBEMU_Copyright_def)

lemma idle_wf:
  "sbemu_wf s \<Longrightarrow> sbemu_wf (s\<lparr>SBEMU_DSPCMD := -1, SBEMU_DSPDATA_Subindex := 0\<rparr>)"
  by (simp add: sbemu_wf_defs)

lemma DSP_Read_wf:
  assumes "sbemu_wf s"
  shows "\<exists>v s2. SBEMU_DSP_Read s = Inr (v, s2) \<and> sbemu_wf s2"
proof -
  consider "SBEMU_ResetState s = SBEMU_RESET_POLL \<or> SBEMU_ResetState s = SBEMU_RESET_START"
    | (ver) "\<not> (SBEMU_ResetState s = SBEMU_RESET_POLL \<or> SBEMU_ResetState s = SBEMU_RESET_START)"
      "SBEMU_DSPCMD s = SBEMU_CMD_DSP_GETVER"
    | (copy) "\<not> (SBEMU_ResetState s = SBEMU_RESET_POLL \<or> SBEMU_ResetState s = SBEMU_RESET_START)"
      "SBEMU_DSPCMD s = SBEMU_CMD_DSP_COPYRIGHT"
    | (other) "\<not> (SBEMU_ResetState s = SBEMU_RESET_POLL \<or> SBEMU_ResetState s = SBEMU_RESET_START)"
      "SBEMU_DSPCMD s \<noteq> SBEMU_CMD_DSP_GETVER" "SBEMU_DSPCMD s \<noteq> SBEMU_CMD_DSP_COPYRIGHT"
    by blast
  then show ?thesis
  proof cases
    case 1
    then show ?thesis using assms by (simp add: SBEMU_DSP_Read_def sbemu_wf_defs)
  next
    case ver
    then show ?thesis
      using assms by (cases "SBEMU_DSPDATA_Subindex s = 0") (simp_all add: SBEMU_DSP_Read_def sbemu_wf_defs)
  next
    case copy
    have "0 \<le> SBEMU_DSPDATA_Subindex s" "SBEMU_DSPDATA_Subindex s \<le> 44"
      using assms copy(2) by (auto simp: sbemu_wf_def dsp_cmd_wf_def)
    then show ?thesis
      using copy assms
      by (cases "SBEMU_DSPDATA_Subindex s = 44") (simp_all add: SBEMU_DSP_Read_def sbemu_wf_defs Let_def)
  next
    case other
    then show ?thesis using assms by (simp add: SBEMU_DSP_Read_def idle_wf)
       (simp add: sbemu_wf_defs)
  qed
qed

lemma ReadStatus_wf: "sbemu_wf s \<Longrightarrow> sbemu_wf (snd (SBEMU_DSP_ReadStatus s))"
  by (simp add: SBEMU_DSP_ReadStatus_def Let_def mreg_set_def sbemu_wf_defs)

lemma WriteStatus_wf: "sbemu_wf s \<Longrightarrow> sbemu_wf (snd (SBEMU_DSP_WriteStatus s))"
  by (simp add: SBEMU_DSP_WriteStatus_def Let_def sbemu_wf_defs)

lemma INT16ACK_wf: "sbemu_wf s \<Longrightarrow> sbemu_wf (snd (SBEMU_DSP_INT16ACK s))"
  by (simp add: SBEMU_DSP_INT16ACK_def)

lemma Stop_wf: "sbemu_wf s \<Longrightarrow> sbemu_wf (SBEMU_Stop s)"
  by (simp add: SBEMU_Stop_def sbemu_wf_defs)

lemma SetPos_wf: "sbemu_wf s \<Longrightarrow> sbemu_wf (snd (SBEMU_SetPos p s))"
  by (simp add: SBEMU_SetPos_def Let_def mreg_set_def sbemu_wf_defs)

section \<open>The block decoder\<close>

text \<open>The sample codes packed into a byte, first sample first.\<close>

definition adpcm_codes :: "int \<Rightarrow> u8 \<Rightarrow> u8 list" where
  "adpcm_codes bits b =
    (if bits = 2 then [drop_bit 6 b AND 3, drop_bit 4 b AND 3, drop_bit 2 b AND 3, b AND 3]
     else if bits = 3 then [drop_bit 5 b AND 7, drop_bit 2 b AND 7, push_bit 1 (b AND 3)]
     else if bits = 4 then [drop_bit 4 b, b AND 15] else [])"

definition adpcm_run :: "int \<Rightarrow> u8 list \<Rightarrow> u8 \<times> int \<Rightarrow> u8 list \<times> u8 \<times> int" where
  "adpcm_run bits codes st =
    (if bits = 2 then adpcm2.run codes st else if bits = 3 then adpcm3.run codes st
     else if bits = 4 then adpcm4.run codes st else ([], st))"

lemma unat_and_le: "unat ((x :: u8) AND y) \<le> unat y"
  using word_and_le1 [of x y] by (simp add: word_le_nat_alt)

lemma adpcm_codes_range:
  "s \<in> set (adpcm_codes 2 b) \<Longrightarrow> unat s < 4"
  "s \<in> set (adpcm_codes 3 b) \<Longrightarrow> unat s < 8"
  "s \<in> set (adpcm_codes 4 b) \<Longrightarrow> unat s < 16"
proof -
  have "unat (push_bit 1 b AND 6) \<le> 6" using unat_and_le [of "push_bit 1 b" 6] by simp
  moreover have "push_bit 1 (b AND 3) = push_bit 1 b AND 6" by simp
  moreover have "unat (drop_bit 4 b) < 16"
    unfolding unat_drop_bit_eq using unsigned_less [of b, where ?'a = nat] by (simp add: drop_bit_eq_div)
  moreover have "unat (x AND 3) \<le> 3" "unat (x AND 7) \<le> 7" "unat (x AND 15) \<le> 15" for x :: u8
    using unat_and_le [of x 3] unat_and_le [of x 7] unat_and_le [of x 15] by simp_all
  ultimately show "s \<in> set (adpcm_codes 2 b) \<Longrightarrow> unat s < 4"
    "s \<in> set (adpcm_codes 3 b) \<Longrightarrow> unat s < 8" "s \<in> set (adpcm_codes 4 b) \<Longrightarrow> unat s < 16"
    by (auto simp: adpcm_codes_def less_Suc_eq_le [symmetric] numeral_eq_Suc simp del: push_bit_and)
qed

lemma adpcm_byte_run: "SBEMU_adpcm_byte bits b st = adpcm_run bits (adpcm_codes bits b) st"
  by (simp add: SBEMU_adpcm_byte_def adpcm_run_def adpcm_codes_def case_prod_unfold Let_def)

lemma adpcm_run_append:
  "adpcm_run bits (xs @ ys) st =
    (fst (adpcm_run bits xs st) @ fst (adpcm_run bits ys (snd (adpcm_run bits xs st))),
     snd (adpcm_run bits ys (snd (adpcm_run bits xs st))))"
  by (simp add: adpcm_run_def adpcm2.run_append adpcm3.run_append adpcm4.run_append)

lemma adpcm_loop_run:
  "SBEMU_adpcm_loop bits bs st = adpcm_run bits (concat (map (adpcm_codes bits) bs)) st"
  by (induction bs arbitrary: st)
    (simp_all add: adpcm_byte_run adpcm_run_append case_prod_unfold Let_def, simp add: adpcm_run_def)

definition adpcm_per_byte :: "int \<Rightarrow> nat" where
  "adpcm_per_byte bits = (if bits = 2 then 4 else if bits = 3 then 3 else if bits = 4 then 2 else 0)"

lemma adpcm_loop_length:
  "length (fst (SBEMU_adpcm_loop bits bs st)) = length bs * adpcm_per_byte bits"
proof -
  have "length (concat (map (adpcm_codes bits) bs)) = length bs * adpcm_per_byte bits"
    by (induction bs) (simp_all add: adpcm_codes_def adpcm_per_byte_def)
  moreover have "length (fst (adpcm_run bits codes st)) =
      (if adpcm_per_byte bits = 0 then 0 else length codes)" for codes
    by (simp add: adpcm_run_def adpcm2.run_length adpcm3.run_length adpcm4.run_length adpcm_per_byte_def)
  ultimately show ?thesis by (simp add: adpcm_loop_run)
qed

lemma adpcm_loop_ok:
  "adpcm_ok bits (snd st) \<Longrightarrow> adpcm_ok bits (snd (snd (SBEMU_adpcm_loop bits bs st)))"
  using adpcm2.run_ok [of "concat (map (adpcm_codes 2) bs)" st]
    adpcm3.run_ok [of "concat (map (adpcm_codes 3) bs)" st]
    adpcm4.run_ok [of "concat (map (adpcm_codes 4) bs)" st] adpcm_codes_range
  by (auto simp: adpcm_loop_run adpcm_run_def adpcm_ok_def)

text \<open>The reference decoder of the three code widths.\<close>

definition adpcm_reference :: "int \<Rightarrow> int list \<Rightarrow> int \<times> int \<Rightarrow> int list \<times> int \<times> int" where
  "adpcm_reference bits codes st =
    (if bits = 2 then adpcm_track (adpcm_delta 2 adpcm_step) (adpcm_grow 2 1 5) codes st
     else if bits = 3 then adpcm_track (adpcm_delta 4 adpcm_step3) (adpcm_grow 4 3 4) codes st
     else if bits = 4 then adpcm_track (adpcm_delta 8 adpcm_step) (adpcm_grow 8 5 3) codes st
     else ([], st))"

lemma adpcm_run_reference:
  assumes "adpcm_ok bits sc"
  shows "adpcm_reference bits (map uint (concat (map (adpcm_codes bits) bs))) (uint r, sc) =
    (let (pcm, r2, sc2) = adpcm_run bits (concat (map (adpcm_codes bits) bs)) (r, sc)
     in (map uint pcm, uint r2, sc2))"
proof -
  let ?cs = "\<lambda>n. concat (map (adpcm_codes n) bs)"
  have c: "\<forall>s\<in>set (?cs 2). unat s < 4" "\<forall>s\<in>set (?cs 3). unat s < 8" "\<forall>s\<in>set (?cs 4). unat s < 16"
    using adpcm_codes_range by auto
  show ?thesis
    using adpcm2.run_track [OF c(1), of "(r, sc)"] adpcm3.run_track [OF c(2), of "(r, sc)"]
      adpcm4.run_track [OF c(3), of "(r, sc)"] assms
    by (simp add: adpcm_reference_def adpcm_run_def adpcm_ok_def case_prod_unfold Let_def split: if_splits)
qed

lemma DecodeADPCM_result:
  assumes "sbemu_wf s" "adpcm_useRef (SBEMU_ADPCM s) \<Longrightarrow> adpcm \<noteq> []"
  defines "n \<equiv> (if adpcm_useRef (SBEMU_ADPCM s) then 1 else 0)"
  shows "\<exists>pcm s2. SBEMU_DecodeADPCM adpcm s = Inr (pcm, s2) \<and> sbemu_wf s2
    \<and> length pcm = (length adpcm - n) * adpcm_per_byte (SBEMU_Bits s)
    \<and> pcm = fst (adpcm_run (SBEMU_Bits s) (concat (map (adpcm_codes (SBEMU_Bits s)) (drop n adpcm)))
        (if n = 1 then (hd adpcm, 0) else (adpcm_ref (SBEMU_ADPCM s), adpcm_scale (SBEMU_ADPCM s))))
    \<and> (map uint pcm, uint (adpcm_ref (SBEMU_ADPCM s2)), adpcm_scale (SBEMU_ADPCM s2)) =
        adpcm_reference (SBEMU_Bits s) (map uint (concat (map (adpcm_codes (SBEMU_Bits s)) (drop n adpcm))))
          (if n = 1 then (uint (hd adpcm), 0) else (uint (adpcm_ref (SBEMU_ADPCM s)), adpcm_scale (SBEMU_ADPCM s)))
    \<and> \<not> adpcm_useRef (SBEMU_ADPCM s2) \<and> s2\<lparr>SBEMU_ADPCM := SBEMU_ADPCM s\<rparr> = s"
proof -
  let ?st = "if n = 1 then (hd adpcm, 0) else (adpcm_ref (SBEMU_ADPCM s), adpcm_scale (SBEMU_ADPCM s))"
  let ?bs = "drop n adpcm"
  obtain pcm ref sc where l: "SBEMU_adpcm_loop (SBEMU_Bits s) ?bs ?st = (pcm, ref, sc)"
    using prod_cases3 by blast
  have len: "length pcm = (length adpcm - n) * adpcm_per_byte (SBEMU_Bits s)"
    using adpcm_loop_length [of "SBEMU_Bits s" ?bs ?st] l by simp
  have bits: "SBEMU_Bits s \<in> {2, 3, 4, 8, 16}" using assms(1) by (simp add: sbemu_wf_defs)
  have ok0: "adpcm_ok (SBEMU_Bits s) (snd ?st)" using assms(1) by (auto simp: sbemu_wf_defs)
  from adpcm_loop_ok [OF this, of ?bs] have sc: "adpcm_ok (SBEMU_Bits s) sc" using l by simp
  have "int (adpcm_per_byte (SBEMU_Bits s)) \<le> cdiv 9 (SBEMU_Bits s)"
    using bits by (auto simp: adpcm_per_byte_def)
  moreover have "int (length adpcm - n) \<le> int (length adpcm)" by simp
  ultimately have out: "int (length pcm) \<le> int (length adpcm) * cdiv 9 (SBEMU_Bits s)"
    unfolding len of_nat_mult by (intro mult_mono) auto
  define a where "a = (if n = 1 then \<lparr>adpcm_scale = 0, adpcm_ref = hd adpcm, adpcm_useRef = False\<rparr> else SBEMU_ADPCM s)"
  have "SBEMU_DecodeADPCM adpcm s = Inr (pcm, s\<lparr>SBEMU_ADPCM := a\<lparr>adpcm_ref := ref, adpcm_scale := sc\<rparr>\<rparr>)"
    using assms(2) bits out l
    by (cases adpcm) (auto simp: SBEMU_DecodeADPCM_def a_def n_def Let_def)
  moreover have "sbemu_wf (s\<lparr>SBEMU_ADPCM := a\<lparr>adpcm_ref := ref, adpcm_scale := sc\<rparr>\<rparr>)"
    using assms(1) sc by (simp add: sbemu_wf_defs)
  moreover have "\<not> adpcm_useRef a" using assms(2) by (simp add: a_def n_def)
  moreover have "(map uint pcm, uint ref, sc) =
      adpcm_reference (SBEMU_Bits s) (map uint (concat (map (adpcm_codes (SBEMU_Bits s)) ?bs))) (uint (fst ?st), snd ?st)"
    using adpcm_run_reference [OF ok0, of ?bs "fst ?st"] l by (simp add: adpcm_loop_run del: split_paired_All)
  moreover have "(uint (fst ?st), snd ?st) =
      (if n = 1 then (uint (hd adpcm), 0) else (uint (adpcm_ref (SBEMU_ADPCM s)), adpcm_scale (SBEMU_ADPCM s)))"
    by simp
  ultimately show ?thesis using len l by (simp add: adpcm_loop_run)
qed

section \<open>Sequences of operations\<close>

datatype sb_op =
    MixerAddr u8 | MixerData u8 | DspReset u8 | DspWrite u8 | DspRead | DspWriteStatus
  | DspReadStatus | DspAck16 | HostStop | HostSetPos int | HostSetIRQ int | HostResetDirect
  | HostDetect int | HostDecode "u8 list"

fun sb_exec :: "'x sbemu_ext \<Rightarrow> sb_op \<Rightarrow> sbemu \<times> 'x \<Rightarrow> (sbemu \<times> 'x) res" where
  "sb_exec ext (MixerAddr v) (s, x) = Inr (SBEMU_Mixer_WriteAddr v s, x)"
| "sb_exec ext (MixerData v) (s, x) = Inr (SBEMU_Mixer_Write v s, x)"
| "sb_exec ext (DspReset v) (s, x) = bindE (SBEMU_DSP_Reset v s) (\<lambda>s. Inr (s, x))"
| "sb_exec ext (DspWrite v) (s, x) = SBEMU_DSP_Write ext v (s, x)"
| "sb_exec ext DspRead (s, x) = bindE (SBEMU_DSP_Read s) (\<lambda>(_, s). Inr (s, x))"
| "sb_exec ext DspWriteStatus (s, x) = Inr (snd (SBEMU_DSP_WriteStatus s), x)"
| "sb_exec ext DspReadStatus (s, x) = Inr (snd (SBEMU_DSP_ReadStatus s), x)"
| "sb_exec ext DspAck16 (s, x) = Inr (snd (SBEMU_DSP_INT16ACK s), x)"
| "sb_exec ext HostStop (s, x) = Inr (SBEMU_Stop s, x)"
| "sb_exec ext (HostSetPos p) (s, x) = Inr (snd (SBEMU_SetPos p s), x)"
| "sb_exec ext (HostSetIRQ t) (s, x) = Inr (SBEMU_SetIRQTriggered t s, x)"
| "sb_exec ext HostResetDirect (s, x) = Inr (SBEMU_ResetDirect s, x)"
| "sb_exec ext (HostDetect c) (s, x) = Inr (SBEMU_SetDetectionCounter c s, x)"
| "sb_exec ext (HostDecode bs) (s, x) = bindE (SBEMU_DecodeADPCM bs s) (\<lambda>(_, s). Inr (s, x))"

text \<open>The states of the card from its initialisation on, whatever the guest and the
  mixer do and whatever happens in the world of the external functions.\<close>

inductive sb_reachable :: "'x sbemu_ext \<Rightarrow> sbemu \<times> 'x \<Rightarrow> bool" for ext where
  sb_init: "sb_reachable ext (SBEMU_Init irq dma hdma ver tc sbemu_initial, x)"
| sb_step: "sb_reachable ext (s, x) \<Longrightarrow> sb_exec ext op (s, x) = Inr (s2, x2) \<Longrightarrow> sb_reachable ext (s2, x3)"

inductive_cases sb_reachableE: "sb_reachable ext w"

lemma DecodeADPCM_wf: "sbemu_wf s \<Longrightarrow> res_all (\<lambda>r. sbemu_wf (snd r)) (SBEMU_DecodeADPCM adpcm s)"
proof (cases "adpcm_useRef (SBEMU_ADPCM s) \<and> adpcm = []")
  case True
  then show ?thesis by (simp add: SBEMU_DecodeADPCM_def)
next
  case False
  assume "sbemu_wf s"
  from DecodeADPCM_result [OF this, of adpcm] False show ?thesis by auto
qed

lemma sb_exec_wf:
  assumes "sbemu_wf s"
  shows "res_all (\<lambda>w. sbemu_wf (fst w)) (sb_exec ext op (s, x))"
proof (cases op)
  case (DspReset v)
  then show ?thesis using assms by (auto simp: DSP_Reset_wf intro!: res_allI)
next
  case DspRead
  then show ?thesis using DSP_Read_wf [OF assms] by auto
next
  case (HostDecode bs)
  then show ?thesis using DecodeADPCM_wf [OF assms, of bs] by (simp add: case_prod_unfold)
next
  case HostResetDirect
  then show ?thesis using assms by (simp add: SBEMU_ResetDirect_def sbemu_wf_defs)
qed (simp_all add: assms DSP_Write_wf Mixer_Write_wf Mixer_WriteAddr_wf ReadStatus_wf WriteStatus_wf
  INT16ACK_wf Stop_wf SetPos_wf SBEMU_SetIRQTriggered_def SBEMU_SetDetectionCounter_def)

section \<open>Resources\<close>

text \<open>The configurations a Sound Blaster can have: an interrupt of its map, an 8-bit channel,
  and as the second channel either one of 5, 6, 7 (the SB16), none, or the 8-bit channel itself,
  which is what main.c gives every card before the SB16 (16-bit transfers through the 8-bit
  channel). Of the interrupts main.c accepts (5, 7 and 9) the map has 5 and 7.\<close>

definition sb_config :: "sbemu \<Rightarrow> bool" where
  "sb_config s = (SBEMU_IRQ s \<in> {2, 5, 7, 10} \<and> SBEMU_DMA s \<in> {0, 1, 3}
    \<and> (SBEMU_HDMA s \<in> {0, 5, 6, 7} \<or> SBEMU_HDMA s = SBEMU_DMA s))"

lemma bsf_u8_ok: "(r :: u8) \<noteq> 0 \<Longrightarrow> \<exists>n<8. bsf (ucast r) = Inr n"
proof -
  assume r: "r \<noteq> 0"
  have "ucast r \<noteq> (0 :: u32)"
  proof
    assume "ucast r = (0 :: u32)"
    then have "bit r n = False" for n using bit_ucast8_u32 [of r n] by simp
    then have "r = 0" by (simp add: bit_eq_iff)
    with r show False by simp
  qed
  from bsf_ok [OF this] obtain n where "bsf (ucast r) = Inr n" "bit (ucast r :: u32) n" by blast
  then show ?thesis using bit_u8_less [of r n] by (simp add: bit_ucast8_u32)
qed

lemma GetDMA_ok: "SBEMU_MixerRegs s SBEMU_MIXERREG_DMA_SETUP \<noteq> 0 \<Longrightarrow> \<exists>d<8. SBEMU_GetDMA s = Inr (of_nat d)"
  using bsf_u8_ok [of "SBEMU_MixerRegs s SBEMU_MIXERREG_DMA_SETUP"] by (auto simp: SBEMU_GetDMA_def Let_def)

lemma bsf_small:
  assumes "x \<noteq> 0" "x AND 0xFF = x"
  shows "bsf x =
    (if bit x 0 then Inr 0 else if bit x 1 then Inr 1 else if bit x 2 then Inr 2
     else if bit x 3 then Inr 3 else if bit x 4 then Inr 4 else if bit x 5 then Inr 5
     else if bit x 6 then Inr 6 else Inr 7)"
proof -
  obtain n where n: "bsf x = Inr n" "bit x n" using bsf_ok [OF assms(1)] by blast
  then have nb: "\<And>m. m < n \<Longrightarrow> \<not> bit x m" by (simp add: bsf_eq_Inr)
  have "(0xFF :: u32) = mask 8" by (simp add: mask_eq_exp_minus_1)
  then have "bit (x AND mask 8) n" using assms(2) n(2) by simp
  then have "n < 8" by (simp add: bit_and_iff bit_mask_iff)
  then have "n = 0 \<or> n = 1 \<or> n = 2 \<or> n = 3 \<or> n = 4 \<or> n = 5 \<or> n = 6 \<or> n = 7" by arith
  then show ?thesis
    using n nb [of 0] nb [of 1] nb [of 2] nb [of 3] nb [of 4] nb [of 5] nb [of 6]
    by (elim disjE) simp_all
qed

definition irq_index :: "int \<Rightarrow> nat" where
  "irq_index irq = (if irq = 2 then 0 else if irq = 5 then 1 else if irq = 7 then 2 else 3)"

lemma irq_setup:
  assumes "irq \<in> {2, 5, 7, 10}"
  shows "shl1 (SBEMU_Indexof SBEMU_IRQMap (word_of_int irq)) = Inr (push_bit (irq_index irq) 1)"
    and "(ucast (push_bit (irq_index irq) 1 :: u32) :: u8) \<noteq> 0"
    and "bsf (ucast (ucast (push_bit (irq_index irq) 1 :: u32) :: u8)) = Inr (irq_index irq)"
    and "irq_index irq < 4" and "SBEMU_IRQMap ! irq_index irq = word_of_int irq"
  using assms
  by (elim insertE emptyE; simp add: SBEMU_Indexof_def SBEMU_IRQMap_def irq_index_def bsf_small)+

lemma dma_setup:
  assumes "dma \<in> {0, 1, 3}" "hdma \<in> {0, 5, 6, 7} \<or> hdma = dma"
    and "d = push_bit (nat dma) (1 :: u32)" "h = (if hdma \<noteq> 0 then push_bit (nat hdma) (1 :: u32) else 0)"
  shows "(ucast ((d OR h) AND 0xEB) :: u8) \<noteq> 0"
    and "bsf (ucast (ucast ((d OR h) AND 0xEB) :: u8)) = Inr (nat dma)"
    and "hdma \<in> {5, 6, 7} \<Longrightarrow> bsf (ucast (drop_bit 4 (ucast ((d OR h) AND 0xEB) :: u8))) = Inr (nat hdma - 4)"
    and "hdma = dma \<Longrightarrow> (ucast ((d OR h) AND 0xEB) :: u8) = push_bit (nat dma) 1"
  using assms by (elim insertE emptyE disjE; simp add: bsf_small)+

lemma reset_setup_config:
  assumes "sb_config s"
  shows "\<exists>s2. SBEMU_reset_setup s = Inr s2 \<and> SBEMU_GetIRQ s2 = Inr (word_of_int (SBEMU_IRQ s))
    \<and> SBEMU_GetDMA s2 = Inr (word_of_int (SBEMU_DMA s))
    \<and> (SBEMU_HDMA s \<in> {5, 6, 7} \<longrightarrow> SBEMU_GetHDMA s2 = Inr (word_of_int (SBEMU_HDMA s)))
    \<and> (SBEMU_HDMA s = SBEMU_DMA s \<longrightarrow>
         SBEMU_MixerRegs s2 SBEMU_MIXERREG_DMA_SETUP = push_bit (nat (SBEMU_DMA s)) 1)
    \<and> SBEMU_GetChannels s2 = 1"
proof -
  have c: "SBEMU_IRQ s \<in> {2, 5, 7, 10}" "SBEMU_DMA s \<in> {0, 1, 3}"
    "SBEMU_HDMA s \<in> {0, 5, 6, 7} \<or> SBEMU_HDMA s = SBEMU_DMA s"
    using assms by (simp_all add: sb_config_def)
  define i where "i = (push_bit (irq_index (SBEMU_IRQ s)) 1 :: u32)"
  define d where "d = (push_bit (nat (SBEMU_DMA s)) 1 :: u32)"
  define h where "h = (if SBEMU_HDMA s \<noteq> 0 then push_bit (nat (SBEMU_HDMA s)) (1 :: u32) else 0)"
  note i = irq_setup [OF c(1), folded i_def]
  note dh = dma_setup [OF c(2, 3) d_def h_def]
  have sh: "shl1 (SBEMU_DMA s) = Inr d" "(if SBEMU_HDMA s \<noteq> 0 then shl1 (SBEMU_HDMA s) else Inr 0) = Inr h"
    using c by (auto simp: d_def h_def)
  have "0 \<le> SBEMU_DMA s" "SBEMU_HDMA s \<in> {5, 6, 7} \<Longrightarrow> 4 \<le> nat (SBEMU_HDMA s)" "0 \<le> SBEMU_HDMA s"
    using assms by (auto simp: sb_config_def)
  then have nums: "of_nat (nat (SBEMU_DMA s)) = (word_of_int (SBEMU_DMA s) :: u8)"
    "SBEMU_HDMA s \<in> {5, 6, 7} \<Longrightarrow> of_nat (nat (SBEMU_HDMA s) - 4 + 4) = (word_of_int (SBEMU_HDMA s) :: u8)"
    by simp_all
  let ?s2 = "mreg_set SBEMU_MIXERREG_MODEFILTER 0xFD (mreg_set SBEMU_MIXERREG_DMA_SETUP (ucast ((d OR h) AND 0xEB))
              (mreg_set SBEMU_MIXERREG_INT_SETUP (ucast i) s))"
  have "SBEMU_reset_setup s = Inr ?s2" unfolding SBEMU_reset_setup_def i(1) sh by simp
  moreover have "SBEMU_GetIRQ ?s2 = Inr (word_of_int (SBEMU_IRQ s))"
    using i(2-5) by (simp add: SBEMU_GetIRQ_def Let_def)
  moreover have "SBEMU_GetDMA ?s2 = Inr (word_of_int (SBEMU_DMA s))"
    using dh(1, 2) nums(1) by (simp add: SBEMU_GetDMA_def Let_def)
  moreover have "SBEMU_HDMA s \<in> {5, 6, 7} \<longrightarrow> SBEMU_GetHDMA ?s2 = Inr (word_of_int (SBEMU_HDMA s))"
    using dh(1, 3) nums(2) by (simp add: SBEMU_GetHDMA_def Let_def)
  moreover have "SBEMU_HDMA s = SBEMU_DMA s \<longrightarrow>
      SBEMU_MixerRegs ?s2 SBEMU_MIXERREG_DMA_SETUP = push_bit (nat (SBEMU_DMA s)) 1"
    using dh(4) by simp
  moreover have "SBEMU_GetChannels ?s2 = 1" by (simp add: SBEMU_GetChannels_def)
  ultimately show ?thesis by blast
qed

section \<open>Writes and reads of the DSP ports\<close>

fun sb_writes :: "'x sbemu_ext \<Rightarrow> u8 list \<Rightarrow> sbemu \<times> 'x \<Rightarrow> (sbemu \<times> 'x) res" where
  "sb_writes ext [] w = Inr w"
| "sb_writes ext (v # vs) w = bindE (SBEMU_DSP_Write ext v w) (sb_writes ext vs)"

fun sb_reads :: "nat \<Rightarrow> sbemu \<Rightarrow> (u8 list \<times> sbemu) res" where
  "sb_reads 0 s = Inr ([], s)"
| "sb_reads (Suc n) s =
    bindE (SBEMU_DSP_Read s) (\<lambda>(v, s). bindE (sb_reads n s) (\<lambda>(vs, s). Inr (v # vs, s)))"

lemma sb_reads_2:
  "sb_reads 2 s = bindE (SBEMU_DSP_Read s) (\<lambda>(v, s). bindE (SBEMU_DSP_Read s) (\<lambda>(w, s). Inr ([v, w], s)))"
  by (cases "SBEMU_DSP_Read s")
    (auto simp: numeral_2_eq_2 bindE_def split: sum.splits)

text \<open>The DSP waits for a command.\<close>

definition sb_idle :: "sbemu \<Rightarrow> bool" where
  "sb_idle s = (SBEMU_DSPCMD s = -1 \<and> SBEMU_DSPDATA_Subindex s = 0 \<and> \<not> SBEMU_HighSpeed s
     \<and> SBEMU_ResetState s = SBEMU_RESET_END)"

text \<open>What the detection step relies on: the guest has selected a DMA channel, and the
  provider knows the size of the eight channels.\<close>

definition ext_ok :: "'x sbemu_ext \<Rightarrow> bool" where
  "ext_ok ext = (\<forall>d<8. \<forall>x. is_ok (DMA_Size ext (int d) x))"

lemma detection_ok:
  assumes "SBEMU_MixerRegs s SBEMU_MIXERREG_DMA_SETUP \<noteq> 0" "ext_ok ext"
  shows "bindE (SBEMU_GetDMA s) (\<lambda>dma. bindE (DMA_Size ext (uint dma) x) (\<lambda>_. Inr (s, x))) = Inr (s, x)"
proof -
  obtain d where d: "d < 8" "SBEMU_GetDMA s = Inr (of_nat d)" using GetDMA_ok [OF assms(1)] by blast
  have "uint (of_nat d :: u8) = int d" using d(1) by (simp add: unsigned_of_nat take_bit_nat_eq_self)
  then show ?thesis using d assms(2) by (auto simp: ext_ok_def is_ok_iff)
qed

lemma DSP_Write_result:
  assumes "\<not> SBEMU_HighSpeed s"
    and "(if SBEMU_DSPCMD s = -1 then Inr (SBEMU_DSP_command v s, x)
          else SBEMU_DSP_argument ext v (s, x)) = Inr (s2, x2)"
    and "SBEMU_MixerRegs s2 SBEMU_MIXERREG_DMA_SETUP \<noteq> 0" "ext_ok ext"
  shows "SBEMU_DSP_Write ext v (s, x) = Inr (s2, x2)"
  using assms detection_ok [OF assms(3, 4), of x2]
  by (auto simp: SBEMU_DSP_Write_def Let_def)

lemma DSP_Write_command:
  assumes "sb_idle s" "SBEMU_MixerRegs (SBEMU_DSP_command v s) SBEMU_MIXERREG_DMA_SETUP \<noteq> 0" "ext_ok ext"
  shows "SBEMU_DSP_Write ext v (s, x) = Inr (SBEMU_DSP_command v s, x)"
  using assms by (intro DSP_Write_result) (simp_all add: sb_idle_def)

text \<open>A command byte that only selects the command.\<close>

definition dsp_plain :: "int \<Rightarrow> bool" where
  "dsp_plain c = (c \<notin> {0xF2, 0xF3, 0xD1, 0xD3, 0xD0, 0xD4, 0x45, 0xD6, 0xD5, 0x90, 0x1C, 0x91,
     0x1F, 0x7F, 0x7D, 0xD9, 0xDA, 0x10, 0x2A})"

lemma DSP_Write_plain:
  assumes "sb_idle s" "dsp_plain (uint v)"
  shows "SBEMU_DSP_Write ext v (s, x) = Inr (s\<lparr>SBEMU_DSPCMD := uint v, SBEMU_DSPCMD_Subindex := 0\<rparr>, x)"
proof -
  have "SBEMU_DSP_command v s = s\<lparr>SBEMU_DSPCMD := uint v, SBEMU_DSPCMD_Subindex := 0\<rparr>"
    using assms by (simp add: SBEMU_DSP_command_def SBEMU_DSP_dispatch_def dsp_plain_def)
  then show ?thesis using assms(1) by (simp add: SBEMU_DSP_Write_def sb_idle_def Let_def) blast
qed

lemma DSP_Write_argument:
  assumes "\<not> SBEMU_HighSpeed s" "SBEMU_DSPCMD s \<noteq> -1"
    and "SBEMU_DSP_arg_dispatch ext (SBEMU_DSPCMD s) v (s, x) = Inr (s1, x1)"
    and "s2 = (if SBEMU_DSPCMD_Subindex s1 \<ge> 2 then s1\<lparr>SBEMU_DSPCMD := -1\<rparr> else s1)"
    and "(SBEMU_MixerRegs s1 SBEMU_MIXERREG_DMA_SETUP \<noteq> 0 \<and> ext_ok ext) \<or> SBEMU_Started s1 = SBEMU_Started s"
  shows "SBEMU_DSP_Write ext v (s, x) = Inr (s2, x1)"
proof -
  have arg: "SBEMU_DSP_argument ext v (s, x) = Inr (s2, x1)"
    using assms(3, 4) by (simp add: SBEMU_DSP_argument_def)
  show ?thesis
  proof (cases "SBEMU_Started s1 = SBEMU_Started s")
    case True
    then have "SBEMU_Started s2 = SBEMU_Started s" using assms(4) by simp
    then show ?thesis using assms(1, 2) arg by (simp add: SBEMU_DSP_Write_def Let_def) blast
  next
    case False
    then have "SBEMU_MixerRegs s2 SBEMU_MIXERREG_DMA_SETUP \<noteq> 0" "ext_ok ext"
      using assms(4, 5) by auto
    then show ?thesis using assms(1, 2) arg by (intro DSP_Write_result) simp_all
  qed
qed

section \<open>Properties\<close>

text \<open>C1: In every state the card can reach from its initialisation, through any
  interleaving of guest port accesses and mixer operations and whatever the DMA provider
  does, the DSP's state is well-formed: a legal command and sub-indices, sample widths of
  2, 3, 4, 8 or 16 bits, sample rate and sample count of 16 bits, and an ADPCM scale that
  keeps the decoder of the current width inside its tables.\<close>

theorem sb_reachable_wf:
  assumes "sb_reachable ext w"
  shows "sbemu_wf (fst w)"
  using assms
proof (induction rule: sb_reachable.induct)
  case (sb_init irq dma hdma ver tc x)
  then show ?case using Init_wf [OF sbemu_wf_initial] by simp
next
  case (sb_step s x op s2 x2 x3)
  then show ?case using sb_exec_wf [of s ext op x] by simp
qed

theorem sb_reachable_wf_witness:
  "sbemu_wf (fst (SBEMU_Init 5 1 5 0x0404 0 sbemu_initial, ()))"
  by (rule sb_reachable_wf [of "\<lparr>DMA_Write = (\<lambda>_ _ _. Inr ()), DMA_Size = (\<lambda>_ _. Inr 0)\<rparr>"]) (rule sb_init)

text \<open>C2: The reset handshake. On a card whose interrupt is one of its map (2, 5, 7, 10),
  whose 8-bit channel is 0, 1 or 3 and whose second channel is 5, 6, 7, none or the 8-bit channel
  itself (what main.c sets for the cards before the SB16), writing 1 and then 0 to the reset port
  from any state, the high-speed mode included, and reading once gives 0xAA and leaves the DSP
  waiting for a command with no transfer running, 8-bit mono, and with the configured interrupt
  and 8-bit channel readable through the mixer's set-up registers; a 16-bit channel 5, 6, 7 reads
  back too, and where both channels are the same the DMA set-up register selects that one.\<close>

theorem dsp_reset_handshake:
  assumes "sb_config s"
  shows "\<exists>s1 s2 s3. SBEMU_DSP_Reset 1 s = Inr s1 \<and> SBEMU_DSP_Reset 0 s1 = Inr s2
    \<and> SBEMU_DSP_Read s2 = Inr (0xAA, s3) \<and> sb_idle s3 \<and> \<not> SBEMU_Started s3 \<and> SBEMU_Bits s3 = 8
    \<and> SBEMU_GetChannels s3 = 1 \<and> SBEMU_GetIRQ s3 = Inr (word_of_int (SBEMU_IRQ s))
    \<and> SBEMU_GetDMA s3 = Inr (word_of_int (SBEMU_DMA s))
    \<and> (SBEMU_HDMA s \<in> {5, 6, 7} \<longrightarrow> SBEMU_GetHDMA s3 = Inr (word_of_int (SBEMU_HDMA s)))
    \<and> (SBEMU_HDMA s = SBEMU_DMA s \<longrightarrow>
         SBEMU_MixerRegs s3 SBEMU_MIXERREG_DMA_SETUP = push_bit (nat (SBEMU_DMA s)) 1)"
proof -
  obtain s0 where s0: "SBEMU_reset_setup s = Inr s0" "SBEMU_GetIRQ s0 = Inr (word_of_int (SBEMU_IRQ s))"
    "SBEMU_GetDMA s0 = Inr (word_of_int (SBEMU_DMA s))"
    "SBEMU_HDMA s \<in> {5, 6, 7} \<longrightarrow> SBEMU_GetHDMA s0 = Inr (word_of_int (SBEMU_HDMA s))"
    "SBEMU_HDMA s = SBEMU_DMA s \<longrightarrow>
       SBEMU_MixerRegs s0 SBEMU_MIXERREG_DMA_SETUP = push_bit (nat (SBEMU_DMA s)) 1" "SBEMU_GetChannels s0 = 1"
    using reset_setup_config [OF assms] by blast
  let ?s1 = "dsp_reset_fields s0"
  let ?s2 = "?s1\<lparr>SBEMU_ResetState := SBEMU_RESET_POLL\<rparr>"
  let ?s3 = "?s2\<lparr>SBEMU_ResetState := SBEMU_RESET_END\<rparr>"
  have "SBEMU_DSP_Reset 1 s = Inr ?s1" by (simp add: DSP_Reset_1 s0(1))
  moreover have "SBEMU_DSP_Reset 0 ?s1 = Inr ?s2"
    by (simp add: DSP_Reset_not_1 dsp_reset_fields_def)
  moreover have "SBEMU_DSP_Read ?s2 = Inr (0xAA, ?s3)"
    by (simp add: SBEMU_DSP_Read_def)
  moreover have "sb_idle ?s3 \<and> \<not> SBEMU_Started ?s3 \<and> SBEMU_Bits ?s3 = 8"
    by (simp add: sb_idle_def dsp_reset_fields_def)
  moreover have "SBEMU_MixerRegs ?s3 = SBEMU_MixerRegs s0"
    by (simp add: dsp_reset_fields_def)
  ultimately show ?thesis
    using s0 by (auto simp: SBEMU_GetIRQ_def SBEMU_GetDMA_def SBEMU_GetHDMA_def SBEMU_GetChannels_def)
qed

theorem dsp_reset_handshake_witness:
  "(\<exists>s1 s2 s3. SBEMU_DSP_Reset 1 (sbemu_initial\<lparr>SBEMU_HighSpeed := True\<rparr>) = Inr s1
    \<and> SBEMU_DSP_Reset 0 s1 = Inr s2 \<and> SBEMU_DSP_Read s2 = Inr (0xAA, s3) \<and> sb_idle s3
    \<and> SBEMU_GetIRQ s3 = Inr 5 \<and> SBEMU_GetDMA s3 = Inr 1 \<and> SBEMU_GetHDMA s3 = Inr 5)
   \<and> (\<exists>s1 s2 s3. SBEMU_DSP_Reset 1 (sbemu_initial\<lparr>SBEMU_HDMA := 1\<rparr>) = Inr s1
    \<and> SBEMU_DSP_Reset 0 s1 = Inr s2 \<and> SBEMU_DSP_Read s2 = Inr (0xAA, s3)
    \<and> SBEMU_MixerRegs s3 SBEMU_MIXERREG_DMA_SETUP = 2)"
  using dsp_reset_handshake [of "sbemu_initial\<lparr>SBEMU_HighSpeed := True\<rparr>"]
    dsp_reset_handshake [of "sbemu_initial\<lparr>SBEMU_HDMA := 1\<rparr>"]
  by (auto simp: sb_config_def sbemu_initial_def)

text \<open>The identification queries of an idle DSP: the version command gives the major and
  then the minor version, the identification command the complement of its argument, and the
  test register reads back what was written; after each the DSP is idle again.\<close>

theorem dsp_queries:
  assumes "sb_idle s"
  shows "(\<exists>s1 s2. sb_writes ext [0xE1] (s, x) = Inr (s1, x)
        \<and> sb_reads 2 s1 = Inr ([hi8 (SBEMU_DSPVER s), lo8 (SBEMU_DSPVER s)], s2) \<and> sb_idle s2)
    \<and> (\<exists>s1 s2. sb_writes ext [0xE0, v] (s, x) = Inr (s1, x)
        \<and> sb_reads 1 s1 = Inr ([NOT v], s2) \<and> sb_idle s2)
    \<and> (\<exists>s1 s2. sb_writes ext [0xE4, v, 0xE8] (s, x) = Inr (s1, x)
        \<and> sb_reads 1 s1 = Inr ([v], s2) \<and> sb_idle s2)"
proof (intro conjI)
  have "(0xFF :: u8) = - 1" by simp
  then have x: "v XOR 0xFF = NOT v" by (simp only: bit.xor_one_right)
  let ?r1 = "s\<lparr>SBEMU_DSPCMD := 0xE1, SBEMU_DSPCMD_Subindex := 0\<rparr>"
  have "sb_writes ext [0xE1] (s, x) = Inr (?r1, x)"
    using DSP_Write_plain [OF assms, of "0xE1" ext x] by (simp add: dsp_plain_def)
  moreover have "sb_reads 2 ?r1 = Inr ([hi8 (SBEMU_DSPVER s), lo8 (SBEMU_DSPVER s)],
      ?r1\<lparr>SBEMU_DSPDATA_Subindex := 0, SBEMU_DSPCMD := -1\<rparr>)"
    using assms by (simp add: sb_reads_2 SBEMU_DSP_Read_def sb_idle_def)
  moreover have "sb_idle (?r1\<lparr>SBEMU_DSPDATA_Subindex := 0, SBEMU_DSPCMD := -1\<rparr>)"
    using assms by (simp add: sb_idle_def)
  ultimately show "\<exists>s1 s2. sb_writes ext [0xE1] (s, x) = Inr (s1, x)
        \<and> sb_reads 2 s1 = Inr ([hi8 (SBEMU_DSPVER s), lo8 (SBEMU_DSPVER s)], s2) \<and> sb_idle s2"
    by blast
  let ?e1 = "s\<lparr>SBEMU_DSPCMD := 0xE0, SBEMU_DSPCMD_Subindex := 0\<rparr>"
  let ?e2 = "?e1\<lparr>SBEMU_idbyte := v\<rparr>"
  have "SBEMU_DSP_Write ext v (?e1, x) = Inr (?e2, x)"
    using assms by (intro DSP_Write_argument [where ?s1.0 = ?e2])
      (simp_all add: SBEMU_DSP_arg_dispatch_def sb_idle_def)
  then have "sb_writes ext [0xE0, v] (s, x) = Inr (?e2, x)"
    using DSP_Write_plain [OF assms, of "0xE0" ext x] by (simp add: dsp_plain_def)
  moreover have "sb_reads 1 ?e2 = Inr ([NOT v], ?e2\<lparr>SBEMU_DSPCMD := -1, SBEMU_DSPDATA_Subindex := 0\<rparr>)"
    using assms x by (simp add: SBEMU_DSP_Read_def sb_idle_def)
  moreover have "sb_idle (?e2\<lparr>SBEMU_DSPCMD := -1, SBEMU_DSPDATA_Subindex := 0\<rparr>)"
    using assms by (simp add: sb_idle_def)
  ultimately show "\<exists>s1 s2. sb_writes ext [0xE0, v] (s, x) = Inr (s1, x)
        \<and> sb_reads 1 s1 = Inr ([NOT v], s2) \<and> sb_idle s2"
    by blast
  let ?s1 = "s\<lparr>SBEMU_DSPCMD := 0xE4, SBEMU_DSPCMD_Subindex := 0\<rparr>"
  let ?s2 = "s\<lparr>SBEMU_DSPCMD := -1, SBEMU_DSPCMD_Subindex := 2, SBEMU_TestReg := v\<rparr>"
  have "SBEMU_DSP_Write ext v (?s1, x) = Inr (?s2, x)"
    using assms by (intro DSP_Write_argument [where ?s1.0 = "?s1\<lparr>SBEMU_TestReg := v, SBEMU_DSPCMD_Subindex := 2\<rparr>"])
      (simp_all add: SBEMU_DSP_arg_dispatch_def sb_idle_def)
  moreover have i: "sb_idle ?s2" using assms by (simp add: sb_idle_def)
  ultimately have "sb_writes ext [0xE4, v, 0xE8] (s, x) =
      Inr (?s2\<lparr>SBEMU_DSPCMD := 0xE8, SBEMU_DSPCMD_Subindex := 0\<rparr>, x)" (is "_ = Inr (?s3, x)")
    using DSP_Write_plain [OF assms, of "0xE4" ext x] DSP_Write_plain [OF i, of "0xE8" ext x]
    by (simp add: dsp_plain_def)
  moreover have "sb_reads 1 ?s3 = Inr ([v], ?s3\<lparr>SBEMU_DSPDATA_Subindex := 0, SBEMU_DSPCMD := -1\<rparr>)"
    using assms by (simp add: SBEMU_DSP_Read_def sb_idle_def)
  moreover have "sb_idle (?s3\<lparr>SBEMU_DSPDATA_Subindex := 0, SBEMU_DSPCMD := -1\<rparr>)"
    using assms by (simp add: sb_idle_def)
  ultimately show "\<exists>s1 s2. sb_writes ext [0xE4, v, 0xE8] (s, x) = Inr (s1, x)
        \<and> sb_reads 1 s1 = Inr ([v], s2) \<and> sb_idle s2"
    by blast
qed

definition ext_null :: "unit sbemu_ext" where
  "ext_null = \<lparr>DMA_Write = (\<lambda>_ _ _. Inr ()), DMA_Size = (\<lambda>_ _. Inr 0)\<rparr>"

lemma ext_null_ok: "ext_ok ext_null"
  by (simp add: ext_ok_def ext_null_def)

lemma sb_idle_initial: "sb_idle sbemu_initial"
  by (simp add: sb_idle_def sbemu_initial_def)

lemma initial_version: "hi8 (SBEMU_DSPVER sbemu_initial) = 3" "lo8 (SBEMU_DSPVER sbemu_initial) = 2"
  by (simp_all add: sbemu_initial_def hi8_def lo8_def)

theorem dsp_queries_witness:
  "\<exists>s1 s2. sb_writes ext_null [0xE1] (sbemu_initial, ()) = Inr (s1, ())
      \<and> sb_reads 2 s1 = Inr ([3, 2], s2) \<and> sb_idle s2"
  using conjunct1 [OF dsp_queries [OF sb_idle_initial, of ext_null "()"]]
  unfolding initial_version .

lemma copyright_reads:
  assumes "SBEMU_ResetState s = SBEMU_RESET_END" "SBEMU_DSPCMD s = SBEMU_CMD_DSP_COPYRIGHT"
    and "SBEMU_DSPDATA_Subindex s = int i" "i + n = 44"
  shows "sb_reads (Suc n) s = Inr (drop i (take 44 SBEMU_Copyright) @ [0xFF],
      s\<lparr>SBEMU_DSPCMD := -1, SBEMU_DSPDATA_Subindex := 0\<rparr>)"
  using assms
proof (induction n arbitrary: s i)
  case 0
  then show ?case by (simp add: SBEMU_DSP_Read_def)
next
  case (Suc n)
  have i: "i < 44" using Suc.prems(4) by simp
  have "SBEMU_DSP_Read s = Inr (SBEMU_Copyright ! i, s\<lparr>SBEMU_DSPDATA_Subindex := int (Suc i)\<rparr>)"
    using Suc.prems i by (simp add: SBEMU_DSP_Read_def Let_def)
  moreover have "sb_reads (Suc n) (s\<lparr>SBEMU_DSPDATA_Subindex := int (Suc i)\<rparr>) =
      Inr (drop (Suc i) (take 44 SBEMU_Copyright) @ [0xFF],
        s\<lparr>SBEMU_DSPCMD := -1, SBEMU_DSPDATA_Subindex := 0\<rparr>)"
    using Suc.IH [of "s\<lparr>SBEMU_DSPDATA_Subindex := int (Suc i)\<rparr>" "Suc i"] Suc.prems by simp
  moreover have "drop i (take 44 SBEMU_Copyright) = SBEMU_Copyright ! i # drop (Suc i) (take 44 SBEMU_Copyright)"
    using i Cons_nth_drop_Suc [of i "take 44 SBEMU_Copyright"] by simp
  ultimately show ?case by (simp del: sb_reads.simps add: sb_reads.simps(2) [of "Suc n"])
qed

text \<open>The copyright query of an idle DSP returns the 44 characters of the string, one per
  read, then 0xFF, and leaves the DSP idle.\<close>

theorem dsp_copyright:
  assumes "sb_idle s"
  shows "\<exists>s1 s2. sb_writes ext [0xE3] (s, x) = Inr (s1, x)
    \<and> sb_reads 45 s1 = Inr (map of_char ''COPYRIGHT (C) CREATIVE TECHNOLOGY LTD, 1992.'' @ [0xFF], s2)
    \<and> sb_idle s2"
proof -
  let ?s1 = "s\<lparr>SBEMU_DSPCMD := 0xE3, SBEMU_DSPCMD_Subindex := 0\<rparr>"
  have "sb_writes ext [0xE3] (s, x) = Inr (?s1, x)"
    using DSP_Write_plain [OF assms, of "0xE3" ext x] by (simp add: dsp_plain_def)
  moreover have "sb_reads (Suc 44) ?s1 = Inr (drop 0 (take 44 SBEMU_Copyright) @ [0xFF],
      ?s1\<lparr>SBEMU_DSPCMD := -1, SBEMU_DSPDATA_Subindex := 0\<rparr>)"
    using assms by (intro copyright_reads) (simp_all add: sb_idle_def)
  moreover have "take 44 SBEMU_Copyright = map of_char ''COPYRIGHT (C) CREATIVE TECHNOLOGY LTD, 1992.''"
    by (simp add: SBEMU_Copyright_def)
  moreover have "sb_idle (?s1\<lparr>SBEMU_DSPCMD := -1, SBEMU_DSPDATA_Subindex := 0\<rparr>)"
    using assms by (simp add: sb_idle_def)
  moreover have "(45 :: nat) = Suc 44" by simp
  ultimately show ?thesis by (metis drop0)
qed

theorem dsp_copyright_witness:
  "\<exists>s1 s2. sb_writes ext_null [0xE3] (sbemu_initial, ()) = Inr (s1, ())
    \<and> sb_reads 45 s1 = Inr (map of_char ''COPYRIGHT (C) CREATIVE TECHNOLOGY LTD, 1992.'' @ [0xFF], s2)
    \<and> sb_idle s2"
  by (rule dsp_copyright [OF sb_idle_initial])

end
