(* ===== verification/SbemuXfer.thy ===== *)
theory SbemuXfer
  imports SbemuProps
begin

text \<open>
  Theorems about the transfers of the Sound Blaster of theory Sbemu: what the
  commands that start one set up, the sample rates, the commands that are ignored,
  the block decoder, the interrupt status and the mixer's two views of a volume.
\<close>

section \<open>Starting a transfer\<close>

lemma byte_pair: "(uint (lo :: u8)) OR push_bit 8 (uint (hi :: u8)) = uint lo + 256 * uint hi"
  using or_byte_int [of "uint lo" "uint hi"] by (simp add: push_bit_eq_mult or.commute mult.commute)

lemma arg_samples_pair:
  "SBEMU_DSPCMD_Subindex s = 0 \<Longrightarrow>
    SBEMU_arg_samples hi start (SBEMU_arg_samples lo start s) =
      start (s\<lparr>SBEMU_DSPCMD_Subindex := 2, SBEMU_Samples := uint lo + 256 * uint hi\<rparr>)"
  by (simp add: SBEMU_arg_samples_def Let_def byte_pair)

text \<open>The two argument bytes of a command whose clause is \<open>SBEMU_arg_samples\<close>.\<close>

lemma writes_samples:
  assumes s: "\<not> SBEMU_HighSpeed s" "SBEMU_DSPCMD s \<noteq> -1" "SBEMU_DSPCMD_Subindex s = 0"
    and disp: "\<And>v t. SBEMU_DSP_arg_dispatch ext (SBEMU_DSPCMD s) v (t, x) = Inr (SBEMU_arg_samples v start t, x)"
    and t: "t = start (s\<lparr>SBEMU_DSPCMD_Subindex := 2, SBEMU_Samples := uint lo + 256 * uint hi\<rparr>)"
      "SBEMU_DSPCMD_Subindex t = 2" "SBEMU_MixerRegs t SBEMU_MIXERREG_DMA_SETUP \<noteq> 0" "ext_ok ext"
  shows "sb_writes ext [lo, hi] (s, x) = Inr (t\<lparr>SBEMU_DSPCMD := -1\<rparr>, x)"
proof -
  let ?s1 = "s\<lparr>SBEMU_DSPCMD_Subindex := 1, SBEMU_Samples := uint lo\<rparr>"
  have a1: "SBEMU_arg_samples lo start s = ?s1" using s(3) by (simp add: SBEMU_arg_samples_def)
  have w1: "SBEMU_DSP_Write ext lo (s, x) = Inr (?s1, x)"
    using s disp [of lo s] a1 by (intro DSP_Write_argument [where ?s1.0 = ?s1]) simp_all
  have a2: "SBEMU_arg_samples hi start ?s1 = t"
    using arg_samples_pair [OF s(3), of hi start lo] a1 t(1) by simp
  have w2: "SBEMU_DSP_Write ext hi (?s1, x) = Inr (t\<lparr>SBEMU_DSPCMD := -1\<rparr>, x)"
    using s disp [of hi ?s1] a2 t by (intro DSP_Write_argument [where ?s1.0 = t]) simp_all
  show ?thesis using w1 w2 by simp
qed

text \<open>C32: The single-cycle 8-bit output command with its count starts exactly that transfer:
  playing, 8 bits, not auto-initialising, \<open>count + 1\<close> bytes from position 0, and the DSP is
  ready for the next command. The only thing it needs is a DMA channel selected in the mixer
  and a provider that knows the channel's size.\<close>

theorem dsp_single_cycle:
  assumes "sb_idle s" "SBEMU_MixerRegs s SBEMU_MIXERREG_DMA_SETUP \<noteq> 0" "ext_ok ext"
  shows "\<exists>t. sb_writes ext [0x14, lo, hi] (s, x) = Inr (t, x) \<and> sb_idle t \<and> SBEMU_Started t
    \<and> SBEMU_Bits t = 8 \<and> \<not> SBEMU_Auto t \<and> SBEMU_Pos t = 0
    \<and> SBEMU_GetSampleBytes t = uint lo + 256 * uint hi + 1"
proof -
  let ?s = "s\<lparr>SBEMU_DSPCMD := 0x14, SBEMU_DSPCMD_Subindex := 0\<rparr>"
  let ?t = "SBEMU_start_8bit (?s\<lparr>SBEMU_DSPCMD_Subindex := 2, SBEMU_Samples := uint lo + 256 * uint hi\<rparr>)"
  have "sb_writes ext [lo, hi] (?s, x) = Inr (?t\<lparr>SBEMU_DSPCMD := -1\<rparr>, x)"
    using assms
    by (intro writes_samples [where start = SBEMU_start_8bit])
      (simp_all add: SBEMU_DSP_arg_dispatch_def SBEMU_start_8bit_def sb_idle_def)
  then have "sb_writes ext [0x14, lo, hi] (s, x) = Inr (?t\<lparr>SBEMU_DSPCMD := -1\<rparr>, x)"
    using DSP_Write_plain [OF assms(1), of "0x14" ext x] by (simp add: dsp_plain_def)
  then show ?thesis
    using assms(1) by (auto simp: SBEMU_start_8bit_def sb_idle_def SBEMU_GetSampleBytes_def)
qed

definition sb_demo :: sbemu where
  "sb_demo = sbemu_initial\<lparr>SBEMU_MixerRegs := (\<lambda>_. 0)(SBEMU_MIXERREG_DMA_SETUP := 0x22)\<rparr>"

lemma sb_demo_simps: "sb_idle sb_demo" "SBEMU_MixerRegs sb_demo SBEMU_MIXERREG_DMA_SETUP \<noteq> 0"
  by (simp_all add: sb_demo_def sb_idle_def sbemu_initial_def)

theorem dsp_single_cycle_witness:
  "\<exists>t. sb_writes ext_null [0x14, 0xFF, 0x07] (sb_demo, ()) = Inr (t, ()) \<and> SBEMU_Started t
    \<and> SBEMU_GetSampleBytes t = 2048"
  using dsp_single_cycle [OF sb_demo_simps ext_null_ok, of "0xFF" "0x07" "()"] by auto

lemma stereo_bit:
  "(((r :: u8) AND NOT 0x2) OR 0x2) AND 0x2 = 0x2" "((r :: u8) AND NOT 0x2) AND 0x2 = 0"
  by (simp_all add: bit.conj_disj_distrib2 and.assoc)

lemma dispatch_sb16:
  "c \<in> {0xC0, 0xC4, 0xC6, 0xB0, 0xB4, 0xB6} \<Longrightarrow>
    SBEMU_DSP_arg_dispatch ext c v (s, x) =
      Inr (s\<lparr>SBEMU_Auto := c \<in> {0xC4, 0xC6, 0xB6}, SBEMU_DSPCMD := uint v, SBEMU_DSPCMD_Subindex := 0\<rparr>, x)"
  by (elim insertE emptyE) (simp_all add: SBEMU_DSP_arg_dispatch_def)

lemma dispatch_mode:
  "c \<in> {0x00, 0x20, 0x10, 0x30} \<Longrightarrow>
    SBEMU_DSP_arg_dispatch ext c v (s, x) = Inr (SBEMU_arg_samples v SBEMU_start_mode s, x)"
  by (elim insertE emptyE) (simp_all add: SBEMU_DSP_arg_dispatch_def)

text \<open>C33: The SB16 commands: a transfer command, a mode byte and a count set the sample width
  and channel count of the mode, the auto-initialise flag of the command, and start at
  position 0; the byte count is the sample count times the width. Of the three
  auto-initialising commands of each width the code does not recognise 0xB4 as one.\<close>

theorem dsp_sb16_transfer:
  assumes "sb_idle s" "SBEMU_MixerRegs s SBEMU_MIXERREG_DMA_SETUP \<noteq> 0" "ext_ok ext"
    and "cmd \<in> {0xC0, 0xC4, 0xC6, 0xB0, 0xB4, 0xB6}" "mode \<in> {0x00, 0x20, 0x10, 0x30}"
  shows "\<exists>t. sb_writes ext [cmd, mode, lo, hi] (s, x) = Inr (t, x) \<and> sb_idle t \<and> SBEMU_Started t
    \<and> SBEMU_Bits t = (if mode \<in> {0x00, 0x20} then 8 else 16)
    \<and> SBEMU_GetChannels t = (if mode \<in> {0x20, 0x30} then 2 else 1)
    \<and> SBEMU_Auto t = (cmd \<in> {0xC4, 0xC6, 0xB6}) \<and> SBEMU_Pos t = 0
    \<and> SBEMU_GetSampleBytes t = (uint lo + 256 * uint hi + 1) * (if mode \<in> {0x00, 0x20} then 1 else 2)"
proof -
  let ?s = "s\<lparr>SBEMU_DSPCMD := uint cmd, SBEMU_DSPCMD_Subindex := 0\<rparr>"
  let ?m = "?s\<lparr>SBEMU_Auto := cmd \<in> {0xC4, 0xC6, 0xB6}, SBEMU_DSPCMD := uint mode\<rparr>"
  let ?t = "SBEMU_start_mode (?m\<lparr>SBEMU_DSPCMD_Subindex := 2, SBEMU_Samples := uint lo + 256 * uint hi\<rparr>)"
  have c: "uint cmd \<in> {0xC0, 0xC4, 0xC6, 0xB0, 0xB4, 0xB6}" using assms(4) by (elim insertE emptyE) simp_all
  have u: "uint cmd \<in> {0xC4, 0xC6, 0xB6} \<longleftrightarrow> cmd \<in> {0xC4, 0xC6, 0xB6}"
    using assms(4) by (elim insertE emptyE) simp_all
  have m: "uint mode \<in> {0x00, 0x20, 0x10, 0x30}" "uint mode \<noteq> -1"
    using assms(5) by (elim insertE emptyE; simp)+
  have w1: "SBEMU_DSP_Write ext cmd (s, x) = Inr (?s, x)"
    using assms(4) by (intro DSP_Write_plain [OF assms(1)]) (auto simp: dsp_plain_def)
  have w2: "SBEMU_DSP_Write ext mode (?s, x) = Inr (?m, x)"
    using assms(1) c dispatch_sb16 [OF c, of ext mode ?s x]
    by (intro DSP_Write_argument [where ?s1.0 = ?m]) (auto simp: sb_idle_def u [simplified])
  have w3: "sb_writes ext [lo, hi] (?m, x) = Inr (?t\<lparr>SBEMU_DSPCMD := -1\<rparr>, x)"
    using assms(1-3) m dispatch_mode [OF m(1)]
    by (intro writes_samples [where start = SBEMU_start_mode])
      (simp_all add: SBEMU_start_mode_def SBEMU_clear_stereo_def mreg_set_def sb_idle_def Let_def)
  have "sb_writes ext [cmd, mode, lo, hi] (s, x) = Inr (?t\<lparr>SBEMU_DSPCMD := -1\<rparr>, x)"
    using w1 w2 w3 by simp
  moreover have "sb_idle (?t\<lparr>SBEMU_DSPCMD := -1\<rparr>)"
    using assms(1) by (simp add: SBEMU_start_mode_def SBEMU_clear_stereo_def mreg_set_def sb_idle_def Let_def)
  moreover have "SBEMU_Started ?t \<and> SBEMU_Bits ?t = (if mode \<in> {0x00, 0x20} then 8 else 16)
      \<and> SBEMU_Auto ?t = (cmd \<in> {0xC4, 0xC6, 0xB6}) \<and> SBEMU_Pos ?t = 0
      \<and> SBEMU_Samples ?t = uint lo + 256 * uint hi"
    using assms(5)
    by (elim insertE emptyE; simp add: SBEMU_start_mode_def SBEMU_clear_stereo_def mreg_set_def Let_def)
  moreover have "SBEMU_MixerRegs ?t SBEMU_MIXERREG_MODEFILTER AND 0x2 = (if mode \<in> {0x20, 0x30} then 0x2 else 0)"
    using assms(5)
    by (elim insertE emptyE;
        simp add: SBEMU_start_mode_def SBEMU_clear_stereo_def mreg_set_def Let_def stereo_bit [simplified])
  ultimately show ?thesis
    by (intro exI [of _ "?t\<lparr>SBEMU_DSPCMD := -1\<rparr>"])
      (auto simp: SBEMU_GetSampleBytes_def SBEMU_GetChannels_def)
qed

theorem dsp_sb16_transfer_witness:
  "\<exists>t. sb_writes ext_null [0xB6, 0x30, 0xFF, 0x03] (sb_demo, ()) = Inr (t, ()) \<and> SBEMU_Started t
    \<and> SBEMU_Bits t = 16 \<and> SBEMU_GetChannels t = 2 \<and> SBEMU_Auto t \<and> SBEMU_GetSampleBytes t = 2048"
  using dsp_sb16_transfer [OF sb_demo_simps ext_null_ok, of "0xB6" "0x30" "0xFF" "0x03" "()"] by auto

text \<open>The ADPCM width a command selects: the comparisons of the code give the width in the
  name of the command only for four of the nine commands that use them.\<close>

lemma adpcm_command_bits:
  "SBEMU_adpcm_bits SBEMU_CMD_2BIT_OUT_1_NREF = 2" "SBEMU_adpcm_bits SBEMU_CMD_2BIT_OUT_1 = 4"
  "SBEMU_adpcm_bits SBEMU_CMD_2BIT_OUT_AUTO = 4" "SBEMU_adpcm_bits SBEMU_CMD_4BIT_OUT_1_NREF = 4"
  "SBEMU_adpcm_bits SBEMU_CMD_4BIT_OUT_1 = 4" "SBEMU_adpcm_bits SBEMU_CMD_3BIT_OUT_1_NREF = 3"
  "SBEMU_adpcm_bits SBEMU_CMD_3BIT_OUT_1 = 3" "SBEMU_adpcm_bits SBEMU_CMD_4BIT_OUT_AUTO = 3"
  "SBEMU_adpcm_bits SBEMU_CMD_3BIT_OUT_AUTO = 3"
  by (simp_all add: SBEMU_adpcm_bits_def)

text \<open>The auto-initialising command 0xB4 starts a single-cycle transfer.\<close>

lemma dsp_B4_not_auto:
  "\<exists>t. sb_writes ext_null [0xB4, 0x10, 0xFF, 0x03] (sb_demo, ()) = Inr (t, ()) \<and> SBEMU_Started t \<and> \<not> SBEMU_Auto t"
  using dsp_sb16_transfer [OF sb_demo_simps ext_null_ok, of "0xB4" "0x10" "0xFF" "0x03" "()"] by auto

section \<open>Sample rates\<close>

text \<open>The sample-rate command stores exactly the 16-bit rate it is given, high byte first,
  and turns the time constant off.\<close>

theorem dsp_set_samplerate:
  assumes "sb_idle s"
  shows "\<exists>t. sb_writes ext [0x41, hi, lo] (s, x) = Inr (t, x) \<and> sb_idle t
    \<and> SBEMU_SampleRate t = 256 * uint hi + uint lo \<and> SBEMU_UseTimeConst t = 0"
proof -
  let ?s = "s\<lparr>SBEMU_DSPCMD := 0x41, SBEMU_DSPCMD_Subindex := 0\<rparr>"
  let ?m = "?s\<lparr>SBEMU_DSPCMD_Subindex := 1, SBEMU_SampleRate := push_bit 8 (uint hi)\<rparr>"
  let ?r = "(push_bit 8 (uint hi) AND NOT 0xFF) OR uint lo"
  let ?t = "?m\<lparr>SBEMU_DSPCMD_Subindex := 2, SBEMU_SampleRate := ?r, SBEMU_UseTimeConst := 0\<rparr>"
  have "SBEMU_DSP_Write ext 0x41 (s, x) = Inr (?s, x)"
    using DSP_Write_plain [OF assms, of "0x41" ext x] by (simp add: dsp_plain_def)
  moreover have "SBEMU_DSP_Write ext hi (?s, x) = Inr (?m, x)"
    using assms by (intro DSP_Write_argument [where ?s1.0 = ?m])
      (simp_all add: SBEMU_DSP_arg_dispatch_def SBEMU_arg_samplerate_def sb_idle_def)
  moreover have "SBEMU_DSP_Write ext lo (?m, x) = Inr (?t\<lparr>SBEMU_DSPCMD := -1\<rparr>, x)"
    using assms by (intro DSP_Write_argument [where ?s1.0 = ?t])
      (simp_all add: SBEMU_DSP_arg_dispatch_def SBEMU_arg_samplerate_def sb_idle_def)
  moreover have "?r = 256 * uint hi + uint lo"
  proof -
    have "push_bit 8 (uint hi) div 256 = uint hi" by (simp add: push_bit_eq_mult)
    then show ?thesis unfolding and_not_ff_int by (simp only: or_byte_int uint_u8_range)
  qed
  ultimately show ?thesis using assms by (auto simp: sb_idle_def)
qed

theorem dsp_set_samplerate_witness:
  "\<exists>t. sb_writes ext_null [0x41, 0xAC, 0x44] (sbemu_initial, ()) = Inr (t, ()) \<and> SBEMU_SampleRate t = 44100"
  using dsp_set_samplerate [OF sb_idle_initial, of ext_null "0xAC" "0x44" "()"] by auto

lemma TC_limit_cong:
  "SBEMU_Bits t = SBEMU_Bits s \<Longrightarrow> SBEMU_DSPVER t = SBEMU_DSPVER s \<Longrightarrow>
    SBEMU_HighSpeed t = SBEMU_HighSpeed s \<Longrightarrow> SBEMU_TC_limit t = SBEMU_TC_limit s"
  by (simp only: SBEMU_TC_limit_def)

lemma UpdateTC_value:
  "SBEMU_UseTimeConst s \<noteq> 0 \<Longrightarrow> SBEMU_SampleRate (SBMEU_UpdateTCSampleRate s) =
    256000000 div (65536 - 256 * uint (min (SBEMU_TimeConst s) (SBEMU_TC_limit s))) div SBEMU_GetChannels s"
proof -
  assume "SBEMU_UseTimeConst s \<noteq> 0"
  moreover have "uint (min (SBEMU_TimeConst s) (SBEMU_TC_limit s)) \<le> 255" by simp
  then have "0 < 65536 - 256 * uint (min (SBEMU_TimeConst s) (SBEMU_TC_limit s))" by linarith
  moreover have "0 < SBEMU_GetChannels s" using GetChannels_cases [of s] by auto
  ultimately show ?thesis
    by (simp add: SBMEU_UpdateTCSampleRate_def Let_def push_bit_eq_mult mult.commute pos_imp_zdiv_nonneg_iff)
qed

text \<open>The time-constant command never divides by zero and always yields a rate between
  1953 and 45454 Hz: the rate of the constant, capped at the limit of the DSP version and
  sample width, divided by the channels. Switching the mixer to stereo afterwards recomputes
  the rate with two channels.\<close>

theorem dsp_time_constant:
  assumes "sb_idle s" "SBEMU_FixTC s = 0"
  shows "\<exists>t. sb_writes ext [0x40, tc] (s, x) = Inr (t, x) \<and> sb_idle t
    \<and> SBEMU_SampleRate t = 256000000 div (65536 - 256 * uint (min tc (SBEMU_TC_limit s))) div SBEMU_GetChannels s
    \<and> 1953 \<le> SBEMU_SampleRate t \<and> SBEMU_SampleRate t \<le> 45454
    \<and> SBEMU_SampleRate (SBEMU_Mixer_Write 0x02 (SBEMU_Mixer_WriteAddr SBEMU_MIXERREG_MODEFILTER t))
        = 256000000 div (65536 - 256 * uint (min tc (SBEMU_TC_limit s))) div 2"
proof -
  let ?s = "s\<lparr>SBEMU_DSPCMD := 0x40, SBEMU_DSPCMD_Subindex := 0\<rparr>"
  let ?u = "?s\<lparr>SBEMU_SampleRate := 0, SBEMU_UseTimeConst := word_of_int (SBEMU_GetChannels s), SBEMU_TimeConst := tc\<rparr>"
  let ?v = "SBMEU_UpdateTCSampleRate ?u"
  let ?t = "?v\<lparr>SBEMU_DSPCMD_Subindex := 2\<rparr>"
  let ?t2 = "?t\<lparr>SBEMU_DSPCMD := -1\<rparr>"
  have "SBEMU_DSP_Write ext 0x40 (s, x) = Inr (?s, x)"
    using DSP_Write_plain [OF assms(1), of "0x40" ext x] by (simp add: dsp_plain_def)
  moreover have "SBEMU_DSP_Write ext tc (?s, x) = Inr (?t2, x)"
    using assms by (intro DSP_Write_argument [where ?s1.0 = ?t])
      (simp_all add: SBEMU_DSP_arg_dispatch_def SBEMU_arg_timeconst_def sb_idle_def SBEMU_GetChannels_def)
  moreover have idle: "sb_idle ?t2"
    using assms(1) by (simp add: sb_idle_def SBMEU_UpdateTCSampleRate_def Let_def)
  moreover have use: "SBEMU_UseTimeConst ?u \<noteq> 0" using GetChannels_cases [of s] by auto
  have lim: "SBEMU_TC_limit ?u = SBEMU_TC_limit s" by (rule TC_limit_cong) simp_all
  have ch: "SBEMU_GetChannels ?u = SBEMU_GetChannels s" by (simp add: SBEMU_GetChannels_def)
  have "SBEMU_SampleRate ?t2 =
      256000000 div (65536 - 256 * uint (min tc (SBEMU_TC_limit s))) div SBEMU_GetChannels s"
    using UpdateTC_value [OF use] lim ch by simp
  moreover have "1953 \<le> SBEMU_SampleRate ?t2 \<and> SBEMU_SampleRate ?t2 \<le> 45454"
    using UpdateTC_rate [OF use] by simp
  moreover have "SBEMU_SampleRate (SBEMU_Mixer_Write 0x02 (SBEMU_Mixer_WriteAddr SBEMU_MIXERREG_MODEFILTER ?t2))
      = 256000000 div (65536 - 256 * uint (min tc (SBEMU_TC_limit s))) div 2"
  proof -
    let ?w = "mreg_set SBEMU_MIXERREG_MODEFILTER 0x02 (SBEMU_Mixer_WriteAddr SBEMU_MIXERREG_MODEFILTER ?t2)"
    have "SBEMU_Mixer_Write 0x02 (SBEMU_Mixer_WriteAddr SBEMU_MIXERREG_MODEFILTER ?t2) = SBMEU_UpdateTCSampleRate ?w"
      by (simp add: SBEMU_Mixer_Write_def SBEMU_Mixer_WriteAddr_def word_le_def)
    moreover have "SBEMU_UseTimeConst ?w \<noteq> 0" "SBEMU_TimeConst ?w = tc"
      using use GetChannels_cases [of s]
      by (auto simp: SBEMU_Mixer_WriteAddr_def SBMEU_UpdateTCSampleRate_def SBEMU_GetChannels_def mreg_set_def Let_def)
    moreover have "SBEMU_TC_limit ?w = SBEMU_TC_limit s"
      by (rule TC_limit_cong) (simp_all add: SBEMU_Mixer_WriteAddr_def)
    moreover have "SBEMU_GetChannels ?w = 2" by (simp add: SBEMU_GetChannels_def)
    ultimately show ?thesis using UpdateTC_value [of ?w] by simp
  qed
  ultimately show ?thesis by (auto intro!: exI [of _ ?t2])
qed

theorem dsp_time_constant_witness:
  "\<exists>t. sb_writes ext_null [0x40, 0xA5] (sbemu_initial, ()) = Inr (t, ()) \<and> SBEMU_SampleRate t = 10989"
  using dsp_time_constant [OF sb_idle_initial, where tc = "0xA5" and ext = ext_null and x = "()"]
  by (auto simp: sbemu_initial_def SBEMU_TC_limit_def SBEMU_GetChannels_def min_def word_le_def)

section \<open>Ignored commands\<close>

text \<open>In the high-speed mode the DSP ignores every byte written to it until it is reset.\<close>

theorem dsp_high_speed_deaf:
  assumes "SBEMU_HighSpeed s"
  shows "sb_writes ext vs (s, x) = Inr (s, x)"
  using assms by (induction vs) (simp_all add: SBEMU_DSP_Write_def)

theorem dsp_high_speed_deaf_witness:
  "sb_writes ext_null [0xD0, 0xDA, 0x14, 0, 0] (sbemu_initial\<lparr>SBEMU_HighSpeed := True\<rparr>, ())
    = Inr (sbemu_initial\<lparr>SBEMU_HighSpeed := True\<rparr>, ())"
  by (rule dsp_high_speed_deaf) simp

text \<open>The commands some clause of the two switches knows.\<close>

definition dsp_known :: "int \<Rightarrow> bool" where
  "dsp_known c = (\<not> dsp_plain c \<or> c \<in> {0x40, 0x48, 0x14, 0x17, 0x16, 0x77, 0x76, 0x75, 0x74, 0x42, 0x41,
     0xC0, 0xC6, 0xC4, 0xB0, 0xB6, 0xB4, 0x00, 0x20, 0x30, 0xE0, 0xE4, 0xE2, 0xE1, 0xE3, 0xE8})"

lemma dispatch_unknown:
  "\<not> dsp_known c \<Longrightarrow> 0 \<le> c \<Longrightarrow> SBEMU_DSP_arg_dispatch ext c v w = Inr w"
  by (cases w) (simp add: SBEMU_DSP_arg_dispatch_def dsp_known_def dsp_plain_def)

text \<open>C34: A command byte no clause knows is never abandoned: the DSP keeps it as the current
  command, and every later byte written to it, whatever it is, changes nothing until a reset.\<close>

theorem dsp_unknown_command_sticks:
  assumes "sb_idle s" "\<not> dsp_known (uint c)"
  shows "sb_writes ext (c # vs) (s, x) = Inr (s\<lparr>SBEMU_DSPCMD := uint c, SBEMU_DSPCMD_Subindex := 0\<rparr>, x)"
proof -
  let ?s = "s\<lparr>SBEMU_DSPCMD := uint c, SBEMU_DSPCMD_Subindex := 0\<rparr>"
  have "dsp_plain (uint c)" using assms(2) by (simp add: dsp_known_def)
  note w = DSP_Write_plain [OF assms(1) this, of ext x]
  have neg: "uint c \<noteq> -1" using uint_u8_range(1) [of c] by linarith
  have step: "SBEMU_DSP_Write ext v (?s, x) = Inr (?s, x)" for v
    using assms neg dispatch_unknown [OF assms(2), of ext v "(?s, x)"]
    by (intro DSP_Write_argument [where ?s1.0 = ?s]) (simp_all add: sb_idle_def)
  have "sb_writes ext vs (?s, x) = Inr (?s, x)" by (induction vs) (simp_all add: step)
  with w show ?thesis by simp
qed

theorem dsp_unknown_command_sticks_witness:
  "sb_writes ext_null [0x05, 0xD0, 0xE1] (sbemu_initial, ())
    = Inr (sbemu_initial\<lparr>SBEMU_DSPCMD := uint (0x05 :: u8), SBEMU_DSPCMD_Subindex := 0\<rparr>, ())"
  by (rule dsp_unknown_command_sticks [OF sb_idle_initial]) (simp add: dsp_known_def dsp_plain_def)

section \<open>Total operations\<close>

lemma command_dma_setup:
  "SBEMU_MixerRegs (SBEMU_DSP_command v s) SBEMU_MIXERREG_DMA_SETUP = SBEMU_MixerRegs s SBEMU_MIXERREG_DMA_SETUP"
  by (simp add: SBEMU_DSP_command_def SBEMU_DSP_dispatch_def SBEMU_clear_stereo_def)

lemma arg_samples_dma_setup:
  "(\<And>t. SBEMU_MixerRegs (start t) SBEMU_MIXERREG_DMA_SETUP = SBEMU_MixerRegs t SBEMU_MIXERREG_DMA_SETUP) \<Longrightarrow>
    SBEMU_MixerRegs (SBEMU_arg_samples v start s) SBEMU_MIXERREG_DMA_SETUP = SBEMU_MixerRegs s SBEMU_MIXERREG_DMA_SETUP"
  by (simp add: SBEMU_arg_samples_def Let_def)

lemma start_dma_setup:
  "SBEMU_MixerRegs (SBEMU_start_8bit t) SBEMU_MIXERREG_DMA_SETUP = SBEMU_MixerRegs t SBEMU_MIXERREG_DMA_SETUP"
  "SBEMU_MixerRegs (SBEMU_start_adpcm t) SBEMU_MIXERREG_DMA_SETUP = SBEMU_MixerRegs t SBEMU_MIXERREG_DMA_SETUP"
  "SBEMU_MixerRegs (SBEMU_start_mode t) SBEMU_MIXERREG_DMA_SETUP = SBEMU_MixerRegs t SBEMU_MIXERREG_DMA_SETUP"
  by (simp_all add: SBEMU_start_8bit_def SBEMU_start_adpcm_def SBEMU_start_mode_def SBEMU_clear_stereo_def Let_def)

lemma arg_other_dma_setup:
  "SBEMU_MixerRegs (SBEMU_arg_timeconst v s) = SBEMU_MixerRegs s"
  "SBEMU_MixerRegs (SBEMU_arg_samplerate v s) = SBEMU_MixerRegs s"
  "SBEMU_MixerRegs (SBEMU_arg_dma_id v s) = SBEMU_MixerRegs s"
  by (simp_all add: SBEMU_arg_timeconst_def SBEMU_arg_samplerate_def SBEMU_arg_dma_id_def Let_def)

lemma arg_direct_ok:
  "0 \<le> SBEMU_DirectCount s \<Longrightarrow> SBEMU_DirectCount s < 2147483647 \<Longrightarrow>
    \<exists>t. SBEMU_arg_direct v s = Inr t \<and> SBEMU_MixerRegs t = SBEMU_MixerRegs s"
  by (simp add: SBEMU_arg_direct_def i32_def i32_ok_def SBEMU_DIRECT_BUFFER_SIZE_def)

lemmas dma_setup_keeps = arg_samples_dma_setup start_dma_setup arg_other_dma_setup

definition dma_setup_kept :: "sbemu \<Rightarrow> (sbemu \<times> 'x) res \<Rightarrow> bool" where
  "dma_setup_kept s r = (\<exists>t y. r = Inr (t, y)
    \<and> SBEMU_MixerRegs t SBEMU_MIXERREG_DMA_SETUP = SBEMU_MixerRegs s SBEMU_MIXERREG_DMA_SETUP)"

lemma dma_setup_kept_simp:
  "dma_setup_kept s (Inr (t, y)) =
    (SBEMU_MixerRegs t SBEMU_MIXERREG_DMA_SETUP = SBEMU_MixerRegs s SBEMU_MIXERREG_DMA_SETUP)"
  by (simp add: dma_setup_kept_def)

lemma dma_setup_kept_if:
  "dma_setup_kept s r1 \<Longrightarrow> dma_setup_kept s r2 \<Longrightarrow> dma_setup_kept s (if c then r1 else r2)"
  by simp

lemma arg_dispatch_ok:
  assumes "0 \<le> SBEMU_DirectCount s" "SBEMU_DirectCount s < 2147483647" "\<And>b y. is_ok (DMA_Write ext (SBEMU_DMA s) b y)"
  shows "\<exists>t y. SBEMU_DSP_arg_dispatch ext cmd v (s, x) = Inr (t, y)
    \<and> SBEMU_MixerRegs t SBEMU_MIXERREG_DMA_SETUP = SBEMU_MixerRegs s SBEMU_MIXERREG_DMA_SETUP"
proof -
  obtain t where t: "SBEMU_arg_direct v s = Inr t" "SBEMU_MixerRegs t = SBEMU_MixerRegs s"
    using arg_direct_ok [OF assms(1, 2)] by blast
  have "is_ok (DMA_Write ext (SBEMU_DMA (SBEMU_arg_dma_id v s)) (SBEMU_DMAID_A (SBEMU_arg_dma_id v s)) x)"
    using assms(3) by (simp add: SBEMU_arg_dma_id_def Let_def)
  then obtain y where y: "DMA_Write ext (SBEMU_DMA (SBEMU_arg_dma_id v s)) (SBEMU_DMAID_A (SBEMU_arg_dma_id v s)) x = Inr y"
    unfolding is_ok_iff by blast
  have "dma_setup_kept s (SBEMU_DSP_arg_dispatch ext cmd v (s, x))"
    unfolding SBEMU_DSP_arg_dispatch_def prod.case Let_def t y bindE_simps
    by (intro dma_setup_kept_if) (simp_all add: t y dma_setup_keeps dma_setup_kept_simp)
  then show ?thesis by (auto simp: dma_setup_kept_def)
qed

lemma DSP_Write_ok:
  assumes "sbemu_wf s" "SBEMU_MixerRegs s SBEMU_MIXERREG_DMA_SETUP \<noteq> 0" "ext_ok ext"
    and "\<And>b y. is_ok (DMA_Write ext (SBEMU_DMA s) b y)" "SBEMU_DirectCount s < 2147483647"
  shows "\<exists>t y. SBEMU_DSP_Write ext v (s, x) = Inr (t, y) \<and> sbemu_wf t"
proof -
  have dc: "0 \<le> SBEMU_DirectCount s" using assms(1) by (simp add: sbemu_wf_defs)
  obtain t y where t: "(if SBEMU_DSPCMD s = -1 then Inr (SBEMU_DSP_command v s, x)
      else SBEMU_DSP_argument ext v (s, x)) = Inr (t, y)"
    "SBEMU_MixerRegs t SBEMU_MIXERREG_DMA_SETUP \<noteq> 0"
  proof (cases "SBEMU_DSPCMD s = -1")
    case True
    then show ?thesis using that command_dma_setup assms(2) by simp
  next
    case False
    obtain t1 y1 where "SBEMU_DSP_arg_dispatch ext (SBEMU_DSPCMD s) v (s, x) = Inr (t1, y1)"
      "SBEMU_MixerRegs t1 SBEMU_MIXERREG_DMA_SETUP = SBEMU_MixerRegs s SBEMU_MIXERREG_DMA_SETUP"
      using arg_dispatch_ok [where s = s and ext = ext, OF dc assms(5, 4)] by blast
    then show ?thesis
      using False that assms(2) by (simp add: SBEMU_DSP_argument_def)
  qed
  have "\<exists>t y. SBEMU_DSP_Write ext v (s, x) = Inr (t, y)"
  proof (cases "SBEMU_HighSpeed s")
    case True
    then show ?thesis by (simp add: SBEMU_DSP_Write_def)
  next
    case False
    from DSP_Write_result [OF False t assms(3)] show ?thesis by blast
  qed
  then show ?thesis using DSP_Write_wf [OF assms(1), of ext v x] by auto
qed

text \<open>The interface behind the DSP: a DMA controller whose functions succeed for the eight channels. A card whose channel is one of
  them is written to without an error.\<close>

locale dma_provider =
  fixes ext :: "'x sbemu_ext"
  assumes size_ok: "0 \<le> ch \<Longrightarrow> ch < 8 \<Longrightarrow> is_ok (DMA_Size ext ch x)"
    and write_ok: "0 \<le> ch \<Longrightarrow> ch < 8 \<Longrightarrow> is_ok (DMA_Write ext ch b x)"
begin

lemma dsp_write:
  assumes "sbemu_wf s" "SBEMU_MixerRegs s SBEMU_MIXERREG_DMA_SETUP \<noteq> 0" "0 \<le> SBEMU_DMA s" "SBEMU_DMA s < 8"
    "SBEMU_DirectCount s < 2147483647"
  shows "\<exists>t y. SBEMU_DSP_Write ext v (s, x) = Inr (t, y) \<and> sbemu_wf t"
  using DSP_Write_ok [OF assms(1, 2) _ write_ok [OF assms(3, 4)] assms(5)] size_ok by (simp add: ext_ok_def)

end

text \<open>C3: No write to the DSP can fail as long as a DMA channel is selected in the mixer, the
  functions of the DMA provider succeed for the card's channel, and fewer than 2147483647 direct samples are
  pending: no table index, shift, division or buffer access of the DSP goes wrong.\<close>

theorem dsp_write_total:
  assumes "sbemu_wf s" "SBEMU_MixerRegs s SBEMU_MIXERREG_DMA_SETUP \<noteq> 0" "ext_ok ext"
    and "\<And>b y. is_ok (DMA_Write ext (SBEMU_DMA s) b y)" "SBEMU_DirectCount s < 2147483647"
  shows "\<exists>t y. SBEMU_DSP_Write ext v (s, x) = Inr (t, y) \<and> sbemu_wf t"
  by (rule DSP_Write_ok [OF assms])

theorem dsp_write_total_witness:
  "\<exists>t y. SBEMU_DSP_Write ext_null 0x14 (sb_demo, ()) = Inr (t, y) \<and> sbemu_wf t"
proof (rule dsp_write_total)
  show "sbemu_wf sb_demo" using sbemu_wf_initial by (simp add: sb_demo_def sbemu_wf_defs)
qed (simp_all add: sb_demo_def sbemu_initial_def ext_ok_def ext_null_def)


text \<open>C4: The block decoder: on any block that is not empty when a reference byte is due, it
  succeeds, its output fits the buffer it allocates, the number of samples is exactly 4, 3 or
  2 per code byte for 2, 3 or 4 bits, and samples and state are those of a reference decoder
  without tables: each sample is the previous one plus or minus the step of its code at the
  current scale, clamped to 0..255, and the scale goes up for large codes and down for code 0.
  A reference byte replaces the sample and resets the scale; the last sample and scale are kept
  for the next block, no reference byte is due any more, and nothing else of the card changes.\<close>

theorem adpcm_block_decode:
  assumes "sbemu_wf s" "adpcm_useRef (SBEMU_ADPCM s) \<Longrightarrow> adpcm \<noteq> []"
  shows "\<exists>pcm s2. SBEMU_DecodeADPCM adpcm s = Inr (pcm, s2) \<and> sbemu_wf s2
    \<and> length pcm = (length adpcm - (if adpcm_useRef (SBEMU_ADPCM s) then 1 else 0)) * adpcm_per_byte (SBEMU_Bits s)
    \<and> (map uint pcm, uint (adpcm_ref (SBEMU_ADPCM s2)), adpcm_scale (SBEMU_ADPCM s2)) =
        adpcm_reference (SBEMU_Bits s)
          (map uint (concat (map (adpcm_codes (SBEMU_Bits s)) (if adpcm_useRef (SBEMU_ADPCM s) then tl adpcm else adpcm))))
          (if adpcm_useRef (SBEMU_ADPCM s) then (uint (hd adpcm), 0)
           else (uint (adpcm_ref (SBEMU_ADPCM s)), adpcm_scale (SBEMU_ADPCM s)))
    \<and> \<not> adpcm_useRef (SBEMU_ADPCM s2) \<and> s2\<lparr>SBEMU_ADPCM := SBEMU_ADPCM s\<rparr> = s"
proof -
  let ?n = "if adpcm_useRef (SBEMU_ADPCM s) then 1 else 0 :: nat"
  have "drop ?n adpcm = (if adpcm_useRef (SBEMU_ADPCM s) then tl adpcm else adpcm)" "(?n = 1) = adpcm_useRef (SBEMU_ADPCM s)"
    by (simp_all add: drop_Suc One_nat_def)
  with DecodeADPCM_result [OF assms] show ?thesis by (simp only: simp_thms) blast
qed

definition adpcm_demo :: sbemu where
  "adpcm_demo = sbemu_initial\<lparr>SBEMU_Bits := 4,
     SBEMU_ADPCM := \<lparr>adpcm_scale = 0, adpcm_ref = 0, adpcm_useRef = True\<rparr>\<rparr>"

lemma adpcm_demo_reference:
  "adpcm_reference 4 (map uint (concat (map (adpcm_codes 4) [0x7F, 0x13]))) (128, 0) = ([135, 120, 126, 140], 140, 32)"
  by code_simp

lemma adpcm_demo_simps: "sbemu_wf adpcm_demo" "SBEMU_Bits adpcm_demo = 4" "adpcm_useRef (SBEMU_ADPCM adpcm_demo)"
  using sbemu_wf_initial by (simp_all add: adpcm_demo_def sbemu_wf_defs)

theorem adpcm_block_decode_witness:
  "\<exists>pcm s2. SBEMU_DecodeADPCM [0x80, 0x7F, 0x13] adpcm_demo = Inr (pcm, s2) \<and> sbemu_wf s2
    \<and> map uint pcm = [135, 120, 126, 140] \<and> \<not> adpcm_useRef (SBEMU_ADPCM s2)"
proof -
  have r: "adpcm_reference 4 (map uint (concat (map (adpcm_codes 4) (if True then tl [0x80, 0x7F, 0x13] else [0x80, 0x7F, 0x13]))))
      (if True then (uint (hd [0x80, 0x7F, 0x13 :: u8]), 0) else x) = ([135, 120, 126, 140], 140, 32)" for x
    using adpcm_demo_reference by (simp only: if_True list.sel uint_numeral) simp
  have "[0x80, 0x7F, 0x13] \<noteq> ([] :: u8 list)" by simp
  from adpcm_block_decode [of adpcm_demo "[0x80, 0x7F, 0x13]", OF adpcm_demo_simps(1) this]
  show ?thesis unfolding adpcm_demo_simps(2) eqTrueI [OF adpcm_demo_simps(3)] r prod.inject
    by (elim ex_forward) blast
qed

section \<open>Interrupt status\<close>

lemma bit_12_u8: "bit (1 :: u8) n \<longleftrightarrow> n = 0" "bit (2 :: u8) n \<longleftrightarrow> n = 1"
  using bit_exp_iff [of 1 n, where ?'a = "8 word"] by (auto simp: bit_1_iff)

text \<open>Reporting a position at or past the end of the block raises exactly the status bit of
  the transfer's width and no other; a position before it raises none; reading the buffer
  status acknowledges the 8-bit interrupt, the 16-bit acknowledge port the 16-bit one, each
  leaving the other pending.\<close>

theorem sb_interrupt_status:
  "(\<forall>n. bit (SBEMU_GetMixerReg SBEMU_MIXERREG_INT_STS (snd (SBEMU_SetPos pos s))) n
      = (bit (SBEMU_GetMixerReg SBEMU_MIXERREG_INT_STS s) n
         \<or> (SBEMU_GetSampleBytes s \<le> pos \<and> n = (if SBEMU_Bits s \<le> 8 then 0 else 1))))
   \<and> (\<forall>n. bit (SBEMU_GetMixerReg SBEMU_MIXERREG_INT_STS (snd (SBEMU_DSP_ReadStatus s))) n
      = (bit (SBEMU_GetMixerReg SBEMU_MIXERREG_INT_STS s) n \<and> n \<noteq> 0))
   \<and> (\<forall>n. bit (SBEMU_GetMixerReg SBEMU_MIXERREG_INT_STS (snd (SBEMU_DSP_INT16ACK s))) n
      = (bit (SBEMU_GetMixerReg SBEMU_MIXERREG_INT_STS s) n \<and> n \<noteq> 1))"
proof (intro conjI allI)
  fix n
  let ?r = "SBEMU_MixerRegs s SBEMU_MIXERREG_INT_STS"
  have "bit (?r OR 0x1) n = (bit ?r n \<or> n = 0)" "bit (?r OR 0x2) n = (bit ?r n \<or> n = 1)"
    by (simp_all only: bit_or_iff bit_12_u8)
  then show "bit (SBEMU_GetMixerReg SBEMU_MIXERREG_INT_STS (snd (SBEMU_SetPos pos s))) n
      = (bit (SBEMU_GetMixerReg SBEMU_MIXERREG_INT_STS s) n
         \<or> (SBEMU_GetSampleBytes s \<le> pos \<and> n = (if SBEMU_Bits s \<le> 8 then 0 else 1)))"
    by (cases "SBEMU_Bits s \<le> 8"; cases "SBEMU_GetSampleBytes s \<le> pos")
      (simp_all add: SBEMU_GetMixerReg_def SBEMU_SetPos_def Let_def)
  have "bit (?r AND NOT 0x1) n = (bit ?r n \<and> n \<noteq> 0)" "bit (?r AND NOT 0x2) n = (bit ?r n \<and> n \<noteq> 1)"
    by (auto simp only: bit_and_iff bit_not_iff bit_12_u8 intro: bit_imp_possible_bit)
  then show "bit (SBEMU_GetMixerReg SBEMU_MIXERREG_INT_STS (snd (SBEMU_DSP_ReadStatus s))) n
      = (bit (SBEMU_GetMixerReg SBEMU_MIXERREG_INT_STS s) n \<and> n \<noteq> 0)"
    "bit (SBEMU_GetMixerReg SBEMU_MIXERREG_INT_STS (snd (SBEMU_DSP_INT16ACK s))) n
      = (bit (SBEMU_GetMixerReg SBEMU_MIXERREG_INT_STS s) n \<and> n \<noteq> 1)"
    by (simp_all add: SBEMU_GetMixerReg_def SBEMU_DSP_ReadStatus_def SBEMU_DSP_INT16ACK_def Let_def)
qed

section \<open>The mixer\<close>

definition mixer_stereo_reg :: "u8 \<Rightarrow> u8" where
  "mixer_stereo_reg i =
    (if i \<in> {0x30, 0x31} then SBEMU_MIXERREG_MASTERSTEREO else if i \<in> {0x32, 0x33} then SBEMU_MIXERREG_VOICESTEREO
     else if i \<in> {0x34, 0x35} then SBEMU_MIXERREG_MIDISTEREO else SBEMU_MIXERREG_CDSTEREO)"

text \<open>On an SB16, writing one of the eight 5-bit volume registers stores the value and mirrors
  its top four bits into the nibble of its channel in the SB Pro register of the same source,
  leaving the other nibble, and every other register of the mixer, unchanged.\<close>

theorem mixer_sb16_mirror:
  fixes v :: u8
  assumes "SBEMU_DSPVER s \<ge> 0x0400" "i \<in> {0x30, 0x31, 0x32, 0x33, 0x34, 0x35, 0x36, 0x37}"
  shows "SBEMU_MixerRegs (SBEMU_Mixer_Write v (SBEMU_Mixer_WriteAddr i s)) =
    (SBEMU_MixerRegs s)(i := v, mixer_stereo_reg i :=
      (if i \<in> {0x30, 0x32, 0x34, 0x36}
       then (SBEMU_MixerRegs s (mixer_stereo_reg i) AND 0x0F) OR push_bit 4 (drop_bit 4 v AND 0xF)
       else (SBEMU_MixerRegs s (mixer_stereo_reg i) AND 0xF0) OR (drop_bit 4 v AND 0xF)))"
proof -
  let ?s = "SBEMU_Mixer_WriteAddr i s"
  have i: "0x30 \<le> i" "i \<le> 0x37" "i \<noteq> 0" "i \<noteq> SBEMU_MIXERREG_MODEFILTER"
    using assms(2) by (elim insertE emptyE; simp)+
  have "SBEMU_Mixer_Write v ?s = SBEMU_Mixer_sb16 v (mreg_set i v ?s)"
    using i assms(1) by (simp add: SBEMU_Mixer_Write_def SBEMU_Mixer_WriteAddr_def Let_def)
  then show ?thesis
    using assms(2)
    by (elim insertE emptyE; simp add: SBEMU_Mixer_sb16_def SBEMU_Mixer_WriteAddr_def mixer_stereo_reg_def
        mreg_left_def mreg_right_def Let_def)
qed

theorem mixer_sb16_mirror_witness:
  "SBEMU_MixerRegs (SBEMU_Mixer_Write 0xA8 (SBEMU_Mixer_WriteAddr 0x30 (sb_demo\<lparr>SBEMU_DSPVER := 0x0405\<rparr>)))
    SBEMU_MIXERREG_MASTERSTEREO = 0xA0"
  using mixer_sb16_mirror [of "sb_demo\<lparr>SBEMU_DSPVER := 0x0405\<rparr>" "0x30" "0xA8"]
  by (simp add: mixer_stereo_reg_def sb_demo_def sbemu_initial_def)

section \<open>Configurations the code accepts but cannot handle\<close>

text \<open>Interrupt 9, which the command line accepts, is not in the interrupt map: a reset then
  shifts by -1. A guest that clears the DMA set-up register makes \<open>SBEMU_GetDMA\<close> return 255,
  which is not a channel, and \<open>SBEMU_GetHDMA\<close> is undefined without a 16-bit channel.\<close>

lemma reset_irq9: "SBEMU_IRQ s = 9 \<Longrightarrow> SBEMU_DSP_Reset 1 s = Inl Bad_shift"
  by (simp add: DSP_Reset_1 SBEMU_reset_setup_def SBEMU_Indexof_def SBEMU_IRQMap_def)

lemma getdma_unset: "SBEMU_MixerRegs s SBEMU_MIXERREG_DMA_SETUP = 0 \<Longrightarrow> SBEMU_GetDMA s = Inr 0xFF"
  by (simp add: SBEMU_GetDMA_def)

lemma gethdma_undefined: "SBEMU_MixerRegs s SBEMU_MIXERREG_DMA_SETUP = 0x02 \<Longrightarrow> SBEMU_GetHDMA s = Inl Bsf_zero"
  by (simp add: SBEMU_GetHDMA_def)

end
