(* ===== verification/Untrapio.thy ===== *)
theory Untrapio
  imports Prelude
begin

text \<open>
  \<open>src/sbemu/untrapio.c\<close>: the untrapped port access of the emulator. The two
  handlers are function pointers that the trap layer (QEMM, HDPMI) replaces, so
  they are a record of two functions over the state \<open>'h\<close> of the machine they
  reach; everything the program sends to real hardware goes through it.
\<close>

record 'h io_ops =
  io_out :: "u16 \<Rightarrow> u8 \<Rightarrow> 'h \<Rightarrow> 'h"
  io_in :: "u16 \<Rightarrow> 'h \<Rightarrow> u8 \<times> 'h"

definition UntrappedIO_OUT :: "'h io_ops \<Rightarrow> u16 \<Rightarrow> u8 \<Rightarrow> 'h \<Rightarrow> 'h" where
  "UntrappedIO_OUT io port v h = io_out io port v h"

definition UntrappedIO_IN :: "'h io_ops \<Rightarrow> u16 \<Rightarrow> 'h \<Rightarrow> u8 \<times> 'h" where
  "UntrappedIO_IN io port h = io_in io port h"

text \<open>Before a trap layer is initialised the handlers are the port instructions themselves.\<close>

definition UntrappedIO_Default :: "(u16 \<Rightarrow> u8 \<Rightarrow> 'h \<Rightarrow> 'h) \<Rightarrow> (u16 \<Rightarrow> 'h \<Rightarrow> u8 \<times> 'h) \<Rightarrow> 'h io_ops" where
  "UntrappedIO_Default outp inp = \<lparr>io_out = outp, io_in = inp\<rparr>"

text \<open>A machine that ignores every access and reads as zero, for the examples.\<close>

definition quiet_io :: "unit io_ops" where
  "quiet_io = \<lparr>io_out = (\<lambda>_ _ h. h), io_in = (\<lambda>_ h. (0, h))\<rparr>"

end
