(* ===== verification/Vdma.thy ===== *)
theory Vdma
  imports Untrapio
begin

text \<open>
  \<open>src/sbemu/vdma.c\<close>: the virtual ISA DMA controller pair. It shadows every
  register the guest programs (\<open>VDMA_Regs\<close>: 16 registers of the 8-bit controller,
  then 16 of the 16-bit one), answers reads of the channels the emulator
  virtualises from the shadow, and is advanced by the mixer through
  \<open>VDMA_SetIndexCounter\<close>. A read of a 16-bit register takes two accesses;
  \<open>VDMA_InIO\<close> marks a guest that is between the two and \<open>VDMA_DelayUpdate\<close>
  an update that had to wait for it.
\<close>

record vdma =
  VDMA_Regs :: "int \<Rightarrow> u16"
  VDMA_PageRegs :: "int \<Rightarrow> u8"
  VDMA_Modes :: "int \<Rightarrow> u8"
  VDMA_VMask :: "int \<Rightarrow> bool"
  VDMA_Addr :: "int \<Rightarrow> u32"
  VDMA_Index :: "int \<Rightarrow> int"
  VDMA_Counter :: "int \<Rightarrow> int"
  VDMA_CurCounter :: "int \<Rightarrow> int"
  VDMA_InIO :: "int \<Rightarrow> bool"
  VDMA_DelayUpdate :: "int \<Rightarrow> bool"
  VDMA_Complete :: "int \<Rightarrow> bool"

definition vdma_initial :: vdma where
  "vdma_initial = \<lparr>VDMA_Regs = (\<lambda>_. 0), VDMA_PageRegs = (\<lambda>_. 0), VDMA_Modes = (\<lambda>_. 0),
     VDMA_VMask = (\<lambda>_. False), VDMA_Addr = (\<lambda>_. 0), VDMA_Index = (\<lambda>_. 0),
     VDMA_Counter = (\<lambda>_. 0), VDMA_CurCounter = (\<lambda>_. 0), VDMA_InIO = (\<lambda>_. False),
     VDMA_DelayUpdate = (\<lambda>_. False), VDMA_Complete = (\<lambda>_. False)\<rparr>"

text \<open>The port numbers, as integers.\<close>

abbreviation (input) VDMA_REG_CH3_COUNTER :: int where "VDMA_REG_CH3_COUNTER \<equiv> 0x07"
abbreviation (input) VDMA_REG_STATUS_CMD :: int where "VDMA_REG_STATUS_CMD \<equiv> 0x08"
abbreviation (input) VDMA_REG_MODE :: int where "VDMA_REG_MODE \<equiv> 0x0B"
abbreviation (input) VDMA_REG_FLIPFLOP :: int where "VDMA_REG_FLIPFLOP \<equiv> 0x0C"
abbreviation (input) VDMA_REG_MULTIMASK :: int where "VDMA_REG_MULTIMASK \<equiv> 0x0F"
abbreviation (input) VDMA_REG_CH4_ADDR :: int where "VDMA_REG_CH4_ADDR \<equiv> 0xC0"
abbreviation (input) VDMA_REG_CH7_COUNTER :: int where "VDMA_REG_CH7_COUNTER \<equiv> 0xCE"
abbreviation (input) VDMA_REG_STATUS_CMD16 :: int where "VDMA_REG_STATUS_CMD16 \<equiv> 0xD0"
abbreviation (input) VDMA_REG_MULTIMASK16 :: int where "VDMA_REG_MULTIMASK16 \<equiv> 0xDE"

text \<open>\<open>VDMA_PortChannelMap\<close> has \<open>uint8_t\<close> entries, so the entries written -1 are 255.\<close>

definition VDMA_PortChannelMap :: "int list" where
  "VDMA_PortChannelMap = [255, 2, 3, 1, 255, 255, 255, 0, 255, 6, 7, 5, 255, 255, 255, 4]"

definition vdma_ctrl_port :: "int \<Rightarrow> bool" where
  "vdma_ctrl_port p = ((VDMA_REG_STATUS_CMD \<le> p \<and> p \<le> VDMA_REG_MULTIMASK)
     \<or> (VDMA_REG_STATUS_CMD16 \<le> p \<and> p \<le> VDMA_REG_MULTIMASK16))"

definition vdma_chan_port :: "int \<Rightarrow> bool" where
  "vdma_chan_port p = ((0 \<le> p \<and> p \<le> VDMA_REG_CH3_COUNTER)
     \<or> (VDMA_REG_CH4_ADDR \<le> p \<and> p \<le> VDMA_REG_CH7_COUNTER))"

definition vdma_page_port :: "int \<Rightarrow> bool" where
  "vdma_page_port p = (0x80 \<le> p \<and> p \<le> 0x8F)"

text \<open>The three branches of \<open>VDMA_Write\<close>; each gives the port number that the
  final forwarding uses, which the 16-bit remapping has overwritten by then.\<close>

definition VDMA_Write_ctrl :: "int \<Rightarrow> u8 \<Rightarrow> vdma \<Rightarrow> int \<times> vdma" where
  "VDMA_Write_ctrl p b s =
    (let is16 = (VDMA_REG_STATUS_CMD16 \<le> p \<and> p \<le> VDMA_REG_MULTIMASK16);
         base = (if is16 then 16 else 0);
         channelbase = (if is16 then 4 else 0);
         p = (if is16 then (p - VDMA_REG_STATUS_CMD16) div 2 + 8 else p)
     in (p,
         if p = VDMA_REG_FLIPFLOP then s\<lparr>VDMA_Regs := (VDMA_Regs s)(base + p := 0)\<rparr>
         else if p = VDMA_REG_MODE then
           s\<lparr>VDMA_Modes := (VDMA_Modes s)(channelbase + uint (b AND 0x3) := b AND NOT 0x3)\<rparr>
         else s\<lparr>VDMA_Regs := (VDMA_Regs s)(base + p := b2w b)\<rparr>))"

definition VDMA_Write_chan :: "int \<Rightarrow> u8 \<Rightarrow> vdma \<Rightarrow> int \<times> vdma" where
  "VDMA_Write_chan p b s =
    (let is16 = (VDMA_REG_CH4_ADDR \<le> p \<and> p \<le> VDMA_REG_CH7_COUNTER);
         base = (if is16 then 16 else 0);
         channel = (if is16 then (p - VDMA_REG_CH4_ADDR) div 2 div 2 + 4 else p div 2);
         p = (if is16 then (p - VDMA_REG_CH4_ADDR) div 2 else p);
         ff = VDMA_Regs s (base + VDMA_REG_FLIPFLOP);
         s = s\<lparr>VDMA_Regs := (VDMA_Regs s)(base + VDMA_REG_FLIPFLOP := ff + 1)\<rparr>;
         s = (if ff AND 0x1 = 0 then
                s\<lparr>VDMA_InIO := (VDMA_InIO s)(channel := True),
                  VDMA_Regs := (VDMA_Regs s)(base + p := set_lo8 (VDMA_Regs s (base + p)) b)\<rparr>
              else
                s\<lparr>VDMA_Regs := (VDMA_Regs s)(base + p := set_hi8 (VDMA_Regs s (base + p)) b),
                  VDMA_InIO := (VDMA_InIO s)(channel := False),
                  VDMA_DelayUpdate := (VDMA_DelayUpdate s)(channel := False)\<rparr>);
         s = (if p mod 2 = 0 then
                s\<lparr>VDMA_Index := (VDMA_Index s)(channel := 0),
                  VDMA_Addr := (VDMA_Addr s)(channel := set_lo16 (VDMA_Addr s channel) (VDMA_Regs s (base + p)))\<rparr>
              else
                s\<lparr>VDMA_Counter := (VDMA_Counter s)(channel := uint (VDMA_Regs s (base + p)) + 1),
                  VDMA_CurCounter := (VDMA_CurCounter s)(channel := uint (VDMA_Regs s (base + p)) + 1)\<rparr>)
     in (p, s))"

definition VDMA_Write_page :: "int \<Rightarrow> u8 \<Rightarrow> vdma \<Rightarrow> vdma res" where
  "VDMA_Write_page p b s =
    (let channel = VDMA_PortChannelMap ! nat (p - 0x80)
     in bindE (guardE Out_of_bounds (channel < 8)) (\<lambda>_.
        Inr (s\<lparr>VDMA_PageRegs := (VDMA_PageRegs s)(channel := b),
               VDMA_Index := (VDMA_Index s)(channel := 0),
               VDMA_Addr := (VDMA_Addr s)(channel := set_page (VDMA_Addr s channel) b)\<rparr>)))"

definition VDMA_Write :: "'h io_ops \<Rightarrow> u16 \<Rightarrow> u8 \<Rightarrow> vdma \<times> 'h \<Rightarrow> (vdma \<times> 'h) res" where
  "VDMA_Write io port b = (\<lambda>(s, h).
    let p = uint port in
    bindE (if vdma_ctrl_port p then Inr (VDMA_Write_ctrl p b s)
           else if vdma_chan_port p then Inr (VDMA_Write_chan p b s)
           else if vdma_page_port p then bindE (VDMA_Write_page p b s) (\<lambda>s. Inr (p, s))
           else Inr (p, s))
      (\<lambda>(p, s). Inr (s, UntrappedIO_OUT io (word_of_int p) b h)))"

text \<open>Reads. The status port is the one read that is never answered from the
  shadow: the terminal-count bits of the virtualised channels replace those of
  the machine and are cleared by the read.\<close>

definition VDMA_chan_of_port :: "int \<Rightarrow> int" where
  "VDMA_chan_of_port p =
    (if p \<le> VDMA_REG_CH3_COUNTER then p div 2
     else if VDMA_REG_CH4_ADDR \<le> p \<and> p \<le> VDMA_REG_CH7_COUNTER then (p - VDMA_REG_CH4_ADDR) div 4 + 4
     else if vdma_page_port p then VDMA_PortChannelMap ! nat (p - 0x80) else -1)"

definition VDMA_update_regs :: "int \<Rightarrow> vdma \<Rightarrow> vdma" where
  "VDMA_update_regs channel s =
    (let base = (if channel \<le> 3 then channel * 2 else 16 + (channel - 4) * 2);
         cur = VDMA_Addr s channel + word_of_int (VDMA_Index s channel)
     in s\<lparr>VDMA_Regs := (VDMA_Regs s)(base + 1 := word_of_int (VDMA_CurCounter s channel - 1),
                                     base := ucast cur),
          VDMA_PageRegs := (VDMA_PageRegs s)(channel := ucast (drop_bit 16 cur))\<rparr>)"

definition VDMA_Read_chan :: "int \<Rightarrow> int \<Rightarrow> vdma \<Rightarrow> u8 \<times> vdma" where
  "VDMA_Read_chan p channel s =
    (let is16 = (VDMA_REG_CH4_ADDR \<le> p \<and> p \<le> VDMA_REG_CH7_COUNTER);
         base = (if is16 then 16 else 0);
         p = (if is16 then (p - VDMA_REG_CH4_ADDR) div 2 else p);
         v = VDMA_Regs s (base + p);
         ff = VDMA_Regs s (base + VDMA_REG_FLIPFLOP);
         s = s\<lparr>VDMA_Regs := (VDMA_Regs s)(base + VDMA_REG_FLIPFLOP := ff + 1)\<rparr>
     in if ff AND 0x1 = 0 then
          (lo8 v, s\<lparr>VDMA_InIO := (VDMA_InIO s)(channel := True)\<rparr>)
        else
          let s = (if VDMA_DelayUpdate s channel then VDMA_update_regs channel s else s)
          in (hi8 v, s\<lparr>VDMA_InIO := (VDMA_InIO s)(channel := False),
                       VDMA_DelayUpdate := (VDMA_DelayUpdate s)(channel := False)\<rparr>))"

definition VDMA_status_step :: "nat \<Rightarrow> u8 \<times> vdma \<Rightarrow> u8 \<times> vdma" where
  "VDMA_status_step i = (\<lambda>(r, s).
    if VDMA_VMask s (int i) then
      ((r AND NOT (push_bit i 1 OR push_bit (i + 4) 1))
         OR (if VDMA_Complete s (int i) then push_bit i 1 else 0),
       s\<lparr>VDMA_Complete := (VDMA_Complete s)(int i := False)\<rparr>)
    else (r, s))"

definition VDMA_Read_status :: "u8 \<Rightarrow> vdma \<Rightarrow> u8 \<times> vdma" where
  "VDMA_Read_status r s = fold VDMA_status_step [0..<8] (r, s)"

definition VDMA_Read :: "'h io_ops \<Rightarrow> u16 \<Rightarrow> vdma \<times> 'h \<Rightarrow> (u8 \<times> vdma \<times> 'h) res" where
  "VDMA_Read io port = (\<lambda>(s, h).
    let p = uint port; channel = VDMA_chan_of_port p in
    bindE (if channel = -1 then Inr False else arr_get 8 (VDMA_VMask s) channel) (\<lambda>virt.
      if virt then
        if vdma_chan_port p then
          let (v, s) = VDMA_Read_chan p channel s in Inr (v, s, h)
        else Inr (VDMA_PageRegs s channel, s, h)
      else
        let (result, h) = UntrappedIO_IN io port h in
        if p = VDMA_REG_STATUS_CMD then
          let (result, s) = VDMA_Read_status result s in Inr (result, s, h)
        else Inr (result, s, h)))"

section \<open>Operations of the emulator\<close>

definition VDMA_Virtualize :: "int \<Rightarrow> bool \<Rightarrow> vdma \<Rightarrow> vdma" where
  "VDMA_Virtualize channel enable s =
    (if 0 \<le> channel \<and> channel \<le> 7
     then s\<lparr>VDMA_VMask := (VDMA_VMask s)(channel := enable)\<rparr> else s)"

definition VDMA_size :: "int \<Rightarrow> int" where
  "VDMA_size channel = (if channel \<le> 3 then 1 else 2)"

definition VDMA_GetAddress :: "int \<Rightarrow> vdma \<Rightarrow> u32 res" where
  "VDMA_GetAddress channel s =
    bindE (arr_get 8 (VDMA_Addr s) channel) (\<lambda>a.
      Inr ((a AND 0xFF0000) OR ((a AND 0xFFFF) * word_of_int (VDMA_size channel))))"

definition VDMA_GetCounter :: "int \<Rightarrow> vdma \<Rightarrow> u32 res" where
  "VDMA_GetCounter channel s =
    bindE (arr_get 8 (VDMA_CurCounter s) channel) (\<lambda>c. Inr (word_of_int (c * VDMA_size channel)))"

definition VDMA_GetIndex :: "int \<Rightarrow> vdma \<Rightarrow> int res" where
  "VDMA_GetIndex channel s =
    bindE (arr_get 8 (VDMA_Index s) channel) (\<lambda>i. Inr (i * VDMA_size channel))"

definition VDMA_GetAuto :: "int \<Rightarrow> vdma \<Rightarrow> bool res" where
  "VDMA_GetAuto channel s =
    bindE (arr_get 8 (VDMA_Modes s) channel) (\<lambda>m. Inr (m AND push_bit 4 1 \<noteq> 0))"

definition VDMA_GetWriteMode :: "int \<Rightarrow> vdma \<Rightarrow> bool res" where
  "VDMA_GetWriteMode channel s =
    bindE (arr_get 8 (VDMA_Modes s) channel) (\<lambda>m. Inr (m AND 0x0C = 0x04))"

definition VDMA_ToggleComplete :: "int \<Rightarrow> vdma \<Rightarrow> vdma res" where
  "VDMA_ToggleComplete channel s =
    bindE (arr_set 8 (VDMA_Complete s) channel True) (\<lambda>c. Inr (s\<lparr>VDMA_Complete := c\<rparr>))"

definition VDMA_SetIndexCounter :: "int \<Rightarrow> int \<Rightarrow> int \<Rightarrow> vdma \<Rightarrow> (int \<times> vdma) res" where
  "VDMA_SetIndexCounter channel index counter s =
    bindE
      (if counter \<le> 0 then
         bindE (VDMA_ToggleComplete channel s) (\<lambda>s.
         bindE (VDMA_GetAuto channel s) (\<lambda>auto.
           Inr (if auto then (0, VDMA_Counter s channel * VDMA_size channel, s)
                else (index, 0x10000 * VDMA_size channel, s))))
       else bindE (guardE Out_of_bounds (0 \<le> channel \<and> channel < 8)) (\<lambda>_. Inr (index, counter, s)))
      (\<lambda>(index, counter, s).
        let s = s\<lparr>VDMA_CurCounter := (VDMA_CurCounter s)(channel := cdiv counter (VDMA_size channel)),
                  VDMA_Index := (VDMA_Index s)(channel := cdiv index (VDMA_size channel))\<rparr>;
            s = (if \<not> VDMA_InIO s channel then VDMA_update_regs channel s
                 else s\<lparr>VDMA_DelayUpdate := (VDMA_DelayUpdate s)(channel := True)\<rparr>)
        in Inr (VDMA_Index s channel * VDMA_size channel, s))"

text \<open>The memory services of the DPMI layer that \<open>VDMA_WriteData\<close> calls.\<close>

record 'h dma_mem =
  MapMemory :: "u32 \<Rightarrow> u32 \<Rightarrow> 'h \<Rightarrow> u32 \<times> 'h"
  UnmappMemory :: "u32 \<Rightarrow> 'h \<Rightarrow> 'h"
  StoreByte :: "u32 \<Rightarrow> u8 \<Rightarrow> 'h \<Rightarrow> 'h"

definition VDMA_WriteData :: "'h dma_mem \<Rightarrow> int \<Rightarrow> u8 \<Rightarrow> vdma \<times> 'h \<Rightarrow> (vdma \<times> 'h) res" where
  "VDMA_WriteData dm channel data = (\<lambda>(s, h).
    bindE (VDMA_GetWriteMode channel s) (\<lambda>wm.
      if wm then
        bindE (VDMA_GetAddress channel s) (\<lambda>addr.
        bindE (VDMA_GetIndex channel s) (\<lambda>index.
          let (addr, h) = (if addr > 1024 * 1024 then MapMemory dm addr 65536 h else (addr, h));
              h = StoreByte dm (addr + word_of_int index) data h;
              h = (if addr > 1024 * 1024 then UnmappMemory dm addr h else h)
          in bindE (VDMA_GetCounter channel s) (\<lambda>c.
             bindE (VDMA_SetIndexCounter channel (index + 1) (sint (c - 1)) s) (\<lambda>(_, s).
               Inr (s, h)))))
      else Inr (s, h)))"

section \<open>The ports of a channel\<close>

definition vdma_base :: "int \<Rightarrow> int" where
  "vdma_base c = (if c \<le> 3 then 0 else 16)"

definition vdma_reg :: "int \<Rightarrow> bool \<Rightarrow> int" where
  "vdma_reg c cnt = (if c \<le> 3 then 2 * c else 16 + 2 * (c - 4)) + (if cnt then 1 else 0)"

definition vdma_port :: "int \<Rightarrow> bool \<Rightarrow> u16" where
  "vdma_port c cnt = word_of_int (if c \<le> 3 then 2 * c + (if cnt then 1 else 0)
                                  else 0xC0 + 4 * (c - 4) + (if cnt then 2 else 0))"

definition vdma_ff_port :: "int \<Rightarrow> u16" where
  "vdma_ff_port c = (if c \<le> 3 then 0x0C else 0xD8)"

definition vdma_pg_port :: "int \<Rightarrow> u16" where
  "vdma_pg_port c = [0x87, 0x83, 0x81, 0x82, 0x8F, 0x8B, 0x89, 0x8A] ! nat c"

lemma chan_cases:
  assumes "0 \<le> (c :: int)" "c < 8"
  obtains "c = 0" | "c = 1" | "c = 2" | "c = 3" | "c = 4" | "c = 5" | "c = 6" | "c = 7"
proof -
  have "c = 0 \<or> c = 1 \<or> c = 2 \<or> c = 3 \<or> c = 4 \<or> c = 5 \<or> c = 6 \<or> c = 7"
    using assms by arith
  then show ?thesis using that by blast
qed

lemmas vdma_port_defs = vdma_base_def vdma_reg_def vdma_port_def vdma_ff_port_def vdma_pg_port_def

lemmas vdma_branch_defs = vdma_ctrl_port_def vdma_chan_port_def vdma_page_port_def

text \<open>Each access of a channel's ports, in terms of the channel.\<close>

lemma write_ff:
  assumes "0 \<le> c" "c < 8"
  shows "\<exists>h2. VDMA_Write io (vdma_ff_port c) b (s, h) =
    Inr (s\<lparr>VDMA_Regs := (VDMA_Regs s)(vdma_base c + 12 := 0)\<rparr>, h2)"
  by (rule chan_cases [OF assms])
    (simp_all add: VDMA_Write_def VDMA_Write_ctrl_def vdma_port_defs vdma_branch_defs)

definition vdma_latch :: "int \<Rightarrow> bool \<Rightarrow> u16 \<Rightarrow> vdma \<Rightarrow> vdma" where
  "vdma_latch c cnt v s =
    (if cnt then s\<lparr>VDMA_Counter := (VDMA_Counter s)(c := uint v + 1),
                   VDMA_CurCounter := (VDMA_CurCounter s)(c := uint v + 1)\<rparr>
     else s\<lparr>VDMA_Index := (VDMA_Index s)(c := 0),
            VDMA_Addr := (VDMA_Addr s)(c := set_lo16 (VDMA_Addr s c) v)\<rparr>)"

definition vdma_put :: "int \<Rightarrow> bool \<Rightarrow> u8 \<Rightarrow> vdma \<Rightarrow> vdma" where
  "vdma_put c cnt b s =
    (let ff = VDMA_Regs s (vdma_base c + 12);
         v = (if ff AND 1 = 0 then set_lo8 (VDMA_Regs s (vdma_reg c cnt)) b
              else set_hi8 (VDMA_Regs s (vdma_reg c cnt)) b);
         s = s\<lparr>VDMA_Regs := (VDMA_Regs s)(vdma_base c + 12 := ff + 1, vdma_reg c cnt := v),
               VDMA_InIO := (VDMA_InIO s)(c := (ff AND 1 = 0)),
               VDMA_DelayUpdate := (VDMA_DelayUpdate s)(c := (ff AND 1 = 0) \<and> VDMA_DelayUpdate s c)\<rparr>
     in vdma_latch c cnt v s)"

lemma Write_chan_put:
  assumes "(if VDMA_REG_CH4_ADDR \<le> p \<and> p \<le> VDMA_REG_CH7_COUNTER then 16 else 0) = vdma_base c"
    and "(if VDMA_REG_CH4_ADDR \<le> p \<and> p \<le> VDMA_REG_CH7_COUNTER
          then (p - VDMA_REG_CH4_ADDR) div 2 div 2 + 4 else p div 2) = c"
    and "(if VDMA_REG_CH4_ADDR \<le> p \<and> p \<le> VDMA_REG_CH7_COUNTER
          then (p - VDMA_REG_CH4_ADDR) div 2 else p) = q"
    and "vdma_base c + q = vdma_reg c cnt" "q mod 2 = (if cnt then 1 else 0)" "q < 12"
  shows "VDMA_Write_chan p b s = (q, vdma_put c cnt b s)"
proof -
  have "vdma_reg c cnt \<noteq> vdma_base c + 12" using assms(4, 6) by auto
  then show ?thesis
    unfolding VDMA_Write_chan_def assms(1-4) vdma_put_def vdma_latch_def Let_def
    using assms(5)
    by (cases "VDMA_Regs s (vdma_base c + 12) AND 1 = 0"; cases cnt) simp_all
qed

lemma write_chan:
  assumes "0 \<le> c" "c < 8"
  shows "\<exists>h2. VDMA_Write io (vdma_port c cnt) b (s, h) = Inr (vdma_put c cnt b s, h2)"
proof -
  have "\<exists>q. VDMA_Write_chan (uint (vdma_port c cnt)) b s = (q, vdma_put c cnt b s)"
    by (rule chan_cases [OF assms]; cases cnt; rule exI, rule Write_chan_put [OF _ _ refl])
      (simp_all add: vdma_port_defs)
  moreover have "vdma_chan_port (uint (vdma_port c cnt))" "\<not> vdma_ctrl_port (uint (vdma_port c cnt))"
    by (rule chan_cases [OF assms]; cases cnt; simp add: vdma_port_defs vdma_branch_defs)+
  ultimately show ?thesis by (auto simp: VDMA_Write_def)
qed

lemma write_page:
  assumes "0 \<le> c" "c < 8"
  shows "\<exists>h2. VDMA_Write io (vdma_pg_port c) b (s, h) =
    Inr (s\<lparr>VDMA_PageRegs := (VDMA_PageRegs s)(c := b),
           VDMA_Index := (VDMA_Index s)(c := 0),
           VDMA_Addr := (VDMA_Addr s)(c := set_page (VDMA_Addr s c) b)\<rparr>, h2)"
  by (rule chan_cases [OF assms])
    (simp_all add: VDMA_Write_def VDMA_Write_page_def VDMA_PortChannelMap_def vdma_port_defs
      vdma_branch_defs)

lemma read_chan:
  assumes "0 \<le> c" "c < 8" "VDMA_VMask s c"
  shows "VDMA_Read io (vdma_port c cnt) (s, h) =
    (let v = VDMA_Regs s (vdma_reg c cnt);
         ff = VDMA_Regs s (vdma_base c + 12);
         s = s\<lparr>VDMA_Regs := (VDMA_Regs s)(vdma_base c + 12 := ff + 1)\<rparr>
     in if ff AND 1 = 0 then Inr (lo8 v, s\<lparr>VDMA_InIO := (VDMA_InIO s)(c := True)\<rparr>, h)
        else let s = (if VDMA_DelayUpdate s c then VDMA_update_regs c s else s)
             in Inr (hi8 v, s\<lparr>VDMA_InIO := (VDMA_InIO s)(c := False),
                              VDMA_DelayUpdate := (VDMA_DelayUpdate s)(c := False)\<rparr>, h))"
  using assms(3)
  by (rule_tac chan_cases [OF assms(1, 2)]; cases cnt)
    (simp_all add: VDMA_Read_def VDMA_Read_chan_def VDMA_chan_of_port_def vdma_port_defs
      vdma_branch_defs Let_def)

section \<open>Programming a channel\<close>

fun vdma_outs :: "'h io_ops \<Rightarrow> (u16 \<times> u8) list \<Rightarrow> vdma \<times> 'h \<Rightarrow> (vdma \<times> 'h) res" where
  "vdma_outs io [] w = Inr w"
| "vdma_outs io ((p, b) # xs) w = bindE (VDMA_Write io p b w) (vdma_outs io xs)"

definition vdma_program :: "int \<Rightarrow> u16 \<Rightarrow> u16 \<Rightarrow> u8 \<Rightarrow> (u16 \<times> u8) list" where
  "vdma_program c addr cnt page =
    [(vdma_ff_port c, 0), (vdma_port c False, lo8 addr), (vdma_port c False, hi8 addr),
     (vdma_port c True, lo8 cnt), (vdma_port c True, hi8 cnt), (vdma_pg_port c, page)]"

lemma set_bytes [simp]: "set_hi8 (set_lo8 w (lo8 v)) (hi8 v) = v"
  by (simp add: set_hi8_set_lo8 lo8_hi8_join)

lemma vdma_reg_neq [simp]:
  "0 \<le> c \<Longrightarrow> c < 8 \<Longrightarrow> vdma_reg c cnt \<noteq> vdma_base c + 12"
  "0 \<le> c \<Longrightarrow> c < 8 \<Longrightarrow> vdma_base c + 12 \<noteq> vdma_reg c cnt"
  "vdma_reg c True \<noteq> vdma_reg c False" "vdma_reg c False \<noteq> vdma_reg c True"
  by (auto simp: vdma_reg_def vdma_base_def)

lemma vdma_outs_step:
  "(\<exists>h2. VDMA_Write io p b (s, h) = Inr (s2, h2)) \<Longrightarrow> (\<And>h2. \<exists>h3. vdma_outs io xs (s2, h2) = Inr (s3, h3))
    \<Longrightarrow> \<exists>h3. vdma_outs io ((p, b) # xs) (s, h) = Inr (s3, h3)"
  by fastforce

lemma vdma_program_result:
  assumes "0 \<le> c" "c < 8"
  shows "\<exists>s3 h3. vdma_outs io (vdma_program c addr cnt page) (s, h) = Inr (s3, h3)
    \<and> VDMA_Addr s3 = (VDMA_Addr s)(c := push_bit 16 (ucast page) OR ucast addr)
    \<and> VDMA_Index s3 = (VDMA_Index s)(c := 0)
    \<and> VDMA_CurCounter s3 = (VDMA_CurCounter s)(c := uint cnt + 1)
    \<and> VDMA_Counter s3 = (VDMA_Counter s)(c := uint cnt + 1)
    \<and> VDMA_Regs s3 (vdma_reg c False) = addr \<and> VDMA_Regs s3 (vdma_reg c True) = cnt
    \<and> VDMA_PageRegs s3 c = page \<and> \<not> VDMA_InIO s3 c \<and> VDMA_VMask s3 = VDMA_VMask s"
proof -
  let ?s1 = "s\<lparr>VDMA_Regs := (VDMA_Regs s)(vdma_base c + 12 := 0)\<rparr>"
  let ?s2 = "vdma_put c False (hi8 addr) (vdma_put c False (lo8 addr) ?s1)"
  let ?s3 = "vdma_put c True (hi8 cnt) (vdma_put c True (lo8 cnt) ?s2)"
  let ?s4 = "?s3\<lparr>VDMA_PageRegs := (VDMA_PageRegs ?s3)(c := page), VDMA_Index := (VDMA_Index ?s3)(c := 0),
      VDMA_Addr := (VDMA_Addr ?s3)(c := set_page (VDMA_Addr ?s3 c) page)\<rparr>"
  have "\<exists>h3. vdma_outs io (vdma_program c addr cnt page) (s, h) = Inr (?s4, h3)"
    unfolding vdma_program_def
    by (intro vdma_outs_step [OF write_ff [OF assms]] vdma_outs_step [OF write_chan [OF assms]]
        vdma_outs_step [OF write_page [OF assms]]) simp
  then show ?thesis
    by (auto simp: vdma_put_def vdma_latch_def Let_def assms set_page_set_lo16 set_lo16_set_lo16
      fun_eq_iff)
qed

lemma VDMA_size_pos [simp]: "0 < VDMA_size c" by (simp add: VDMA_size_def)

lemma page_of_join: "(push_bit 16 (ucast (b :: u8)) OR ucast (w :: u16) :: u32) AND 0xFF0000 = push_bit 16 (ucast b)"
proof -
  have m: "(0xFF0000 :: u32) = push_bit 16 (mask 8)"
    by (simp add: mask_eq_exp_minus_1 push_bit_eq_mult)
  show ?thesis
    unfolding m
    by (rule bit_word_eqI)
      (auto simp: bit_and_iff bit_or_iff bit_push_bit_iff bit_mask_iff bit_ucast8_u32 bit_ucast16_u32
        dest: bit_u8_less bit_u16_less)
qed

lemma low_of_join: "(push_bit 16 (ucast (b :: u8)) OR ucast (w :: u16) :: u32) AND 0xFFFF = ucast w"
  unfolding mask16_u32
  by (rule bit_word_eqI)
    (auto simp: bit_and_iff bit_or_iff bit_push_bit_iff bit_mask_iff bit_ucast16_u32 dest: bit_u16_less)

lemmas vdma_getter_defs = VDMA_GetAddress_def VDMA_GetCounter_def VDMA_GetIndex_def

section \<open>Progress of a transfer\<close>

fun vdma_updates :: "int \<Rightarrow> (int \<times> int) list \<Rightarrow> vdma \<Rightarrow> vdma res" where
  "vdma_updates c [] s = Inr s"
| "vdma_updates c ((i, n) # us) s = bindE (VDMA_SetIndexCounter c i n s) (\<lambda>(_, s). vdma_updates c us s)"

lemma SetIndexCounter_ok:
  "0 \<le> c \<Longrightarrow> c < 8 \<Longrightarrow> \<exists>r. VDMA_SetIndexCounter c i n s = Inr r"
  by (simp add: VDMA_SetIndexCounter_def VDMA_ToggleComplete_def VDMA_GetAuto_def Let_def)

lemma SetIndexCounter_InIO:
  assumes "0 \<le> c" "c < 8" "VDMA_InIO s c" "VDMA_SetIndexCounter c i n s = Inr (r, s2)"
  shows "VDMA_Regs s2 = VDMA_Regs s" "VDMA_InIO s2 = VDMA_InIO s" "VDMA_VMask s2 = VDMA_VMask s"
    "VDMA_DelayUpdate s2 c"
  using assms
  by (auto simp: VDMA_SetIndexCounter_def VDMA_ToggleComplete_def VDMA_GetAuto_def Let_def split: if_splits)

lemma vdma_updates_InIO:
  assumes "0 \<le> c" "c < 8" "VDMA_InIO s c"
  shows "\<exists>s2. vdma_updates c us s = Inr s2 \<and> VDMA_Regs s2 = VDMA_Regs s
    \<and> VDMA_InIO s2 = VDMA_InIO s \<and> VDMA_VMask s2 = VDMA_VMask s"
  using assms
proof (induction c us s rule: vdma_updates.induct)
  case (1 c s)
  then show ?case by simp
next
  case (2 c i n us s)
  obtain r s1 where u: "VDMA_SetIndexCounter c i n s = Inr (r, s1)"
    using SetIndexCounter_ok [OF 2(2, 3), of i n s] by (metis surj_pair)
  note io = SetIndexCounter_InIO [OF 2(2-4) u]
  have "VDMA_InIO s1 c" using 2(4) io(2) by simp
  from "2.IH" [OF 2(2, 3) this] show ?case using u io by auto
qed

lemma ff_flip: "(ff :: u16) AND 1 = 0 \<Longrightarrow> (ff + 1) AND 1 \<noteq> 0"
  by (simp add: and_one_eq mod_2_eq_odd)

lemma vdma_update_regs_keep:
  "VDMA_Addr (VDMA_update_regs c s) = VDMA_Addr s" "VDMA_Index (VDMA_update_regs c s) = VDMA_Index s"
  "VDMA_CurCounter (VDMA_update_regs c s) = VDMA_CurCounter s"
  "VDMA_Counter (VDMA_update_regs c s) = VDMA_Counter s"
  "VDMA_Complete (VDMA_update_regs c s) = VDMA_Complete s"
  "VDMA_Modes (VDMA_update_regs c s) = VDMA_Modes s" "VDMA_VMask (VDMA_update_regs c s) = VDMA_VMask s"
  "VDMA_InIO (VDMA_update_regs c s) = VDMA_InIO s"
  "VDMA_DelayUpdate (VDMA_update_regs c s) = VDMA_DelayUpdate s"
  by (simp_all add: VDMA_update_regs_def Let_def)

lemma vdma_update_regs_regs:
  "VDMA_Regs (VDMA_update_regs c s) (vdma_reg c True) = word_of_int (VDMA_CurCounter s c - 1)"
  "VDMA_Regs (VDMA_update_regs c s) (vdma_reg c False) =
    ucast (VDMA_Addr s c + word_of_int (VDMA_Index s c))"
  by (auto simp: VDMA_update_regs_def vdma_reg_def Let_def)

section \<open>The status port\<close>

lemma status_step_vmask:
  "VDMA_VMask (snd (fold VDMA_status_step is (r, s))) = VDMA_VMask s"
  by (induction "is" arbitrary: r s) (auto simp: VDMA_status_step_def)

lemma bit_push_one_u8: "bit ((2 :: u8) ^ i) n \<longleftrightarrow> n = i \<and> n < 8"
  by (auto simp: bit_exp_iff)

lemma status_step_bit:
  assumes "n < 8"
  shows "bit (fst (VDMA_status_step i (r, s))) n =
    (if VDMA_VMask s (int i) \<and> n = i then VDMA_Complete s (int i)
     else if VDMA_VMask s (int i) \<and> n = i + 4 then False else bit r n)"
  using assms
  by (simp add: VDMA_status_step_def bit_and_iff bit_or_iff bit_not_iff bit_push_one_u8)

lemma status_step_complete:
  "VDMA_Complete (snd (VDMA_status_step j w)) (int i) =
    (VDMA_Complete (snd w) (int i) \<and> \<not> (i = j \<and> VDMA_VMask (snd w) (int j)))"
  by (cases w) (simp add: VDMA_status_step_def)

lemma status_upto:
  assumes "j \<le> 8" "n < 8"
  shows "bit (fst (fold VDMA_status_step [0..<j] (r, s))) n =
      (if n < j \<and> VDMA_VMask s (int n) then VDMA_Complete s (int n)
       else bit r n \<and> \<not> (4 \<le> n \<and> n - 4 < j \<and> VDMA_VMask s (int n - 4)))
    \<and> (\<forall>i<8. VDMA_Complete (snd (fold VDMA_status_step [0..<j] (r, s))) (int i) =
         (VDMA_Complete s (int i) \<and> \<not> (i < j \<and> VDMA_VMask s (int i))))"
  using assms
proof (induction j)
  case 0
  then show ?case by simp
next
  case (Suc j)
  let ?w = "fold VDMA_status_step [0..<j] (r, s)"
  have w: "?w = (fst ?w, snd ?w)" by simp
  have vm: "VDMA_VMask (snd ?w) = VDMA_VMask s" by (rule status_step_vmask)
  have step: "fold VDMA_status_step [0..<Suc j] (r, s) = VDMA_status_step j (fst ?w, snd ?w)" by simp
  have b: "bit (fst (VDMA_status_step j (fst ?w, snd ?w))) n =
    (if VDMA_VMask s (int j) \<and> n = j then VDMA_Complete (snd ?w) (int j)
     else if VDMA_VMask s (int j) \<and> n = j + 4 then False else bit (fst ?w) n)"
    using status_step_bit [OF Suc.prems(2), of j "fst ?w" "snd ?w"] vm by simp
  have c: "VDMA_Complete (snd (VDMA_status_step j (fst ?w, snd ?w))) (int i) =
    (VDMA_Complete (snd ?w) (int i) \<and> \<not> (i = j \<and> VDMA_VMask s (int j)))" for i
    using vm by (simp add: status_step_complete)
  note IH = Suc.IH [OF Suc_leD [OF Suc.prems(1)] Suc.prems(2)]
  have IHb: "bit (fst ?w) n = (if n < j \<and> VDMA_VMask s (int n) then VDMA_Complete s (int n)
       else bit r n \<and> \<not> (4 \<le> n \<and> n - 4 < j \<and> VDMA_VMask s (int n - 4)))"
    and IHc: "\<And>i. i < 8 \<Longrightarrow> VDMA_Complete (snd ?w) (int i) =
         (VDMA_Complete s (int i) \<and> \<not> (i < j \<and> VDMA_VMask s (int i)))"
    using IH by blast+
  have "j < 8" using Suc.prems(1) by simp
  have "bit (fst (VDMA_status_step j (fst ?w, snd ?w))) n =
      (if n < Suc j \<and> VDMA_VMask s (int n) then VDMA_Complete s (int n)
       else bit r n \<and> \<not> (4 \<le> n \<and> n - 4 < Suc j \<and> VDMA_VMask s (int n - 4)))"
  proof (cases "n = j \<or> n = j + 4")
    case True
    then show ?thesis
    proof
      assume n: "n = j"
      show ?thesis
      proof (cases "VDMA_VMask s (int j)")
        case True
        then show ?thesis unfolding b using IHc [OF \<open>j < 8\<close>] by (simp add: n)
      next
        case False
        then show ?thesis unfolding b using IHb by (cases "4 \<le> j") (simp_all add: n less_Suc_eq)
      qed
    next
      assume n: "n = j + 4"
      show ?thesis unfolding b using IHb by (simp add: n)
    qed
  next
    case False
    then have "n < Suc j \<longleftrightarrow> n < j" "4 \<le> n \<Longrightarrow> n - 4 < Suc j \<longleftrightarrow> n - 4 < j" by auto
    then show ?thesis
      using False b IHb by (cases "4 \<le> n") (simp_all split: if_splits)
  qed
  moreover have "\<forall>i<8. VDMA_Complete (snd (VDMA_status_step j (fst ?w, snd ?w))) (int i) =
         (VDMA_Complete s (int i) \<and> \<not> (i < Suc j \<and> VDMA_VMask s (int i)))"
    using c IHc by (auto simp: less_Suc_eq)
  ultimately show ?case unfolding step by blast
qed

section \<open>Properties\<close>

text \<open>C30: Programming a channel (clear the flip-flop, address low and high, count low and
  high, page) is never out of bounds, on either controller, from any state: afterwards the
  emulator reads back exactly the programmed physical address, byte count and a zero
  progress, and no other channel has changed.\<close>

theorem vdma_program_roundtrip:
  assumes "0 \<le> c" "c < 8"
  shows "\<exists>s3 h3. vdma_outs io (vdma_program c addr cnt page) (s, h) = Inr (s3, h3)
    \<and> VDMA_GetAddress c s3 = Inr (push_bit 16 (ucast page) OR ucast addr * word_of_int (VDMA_size c))
    \<and> VDMA_GetCounter c s3 = Inr (word_of_int ((uint cnt + 1) * VDMA_size c))
    \<and> VDMA_GetIndex c s3 = Inr 0
    \<and> (\<forall>d. d \<noteq> c \<longrightarrow> VDMA_GetAddress d s3 = VDMA_GetAddress d s
          \<and> VDMA_GetCounter d s3 = VDMA_GetCounter d s \<and> VDMA_GetIndex d s3 = VDMA_GetIndex d s)"
proof -
  obtain s3 h3 where p: "vdma_outs io (vdma_program c addr cnt page) (s, h) = Inr (s3, h3)"
    "VDMA_Addr s3 = (VDMA_Addr s)(c := push_bit 16 (ucast page) OR ucast addr)"
    "VDMA_Index s3 = (VDMA_Index s)(c := 0)"
    "VDMA_CurCounter s3 = (VDMA_CurCounter s)(c := uint cnt + 1)"
    using vdma_program_result [OF assms, of io addr cnt page s h] by blast
  show ?thesis
    by (intro exI conjI, rule p(1))
      (auto simp: vdma_getter_defs p(2-4) assms page_of_join low_of_join arr_get_def)
qed

theorem vdma_program_roundtrip_witness:
  "\<exists>s3 h3. vdma_outs quiet_io
      (vdma_program 5 0x8000 0x03FF 0x12) (vdma_initial, ()) = Inr (s3, h3)
    \<and> VDMA_GetAddress 5 s3 = Inr (push_bit 16 (ucast (0x12 :: u8)) OR ucast (0x8000 :: u16) * word_of_int (VDMA_size 5))"
  using vdma_program_roundtrip [where c = 5 and io = quiet_io and addr = "0x8000" and cnt = "0x03FF"
      and page = "0x12" and s = vdma_initial and h = "()"] by auto

text \<open>C29: A guest that reads the 16-bit address or count register of a virtualised channel in
  two accesses gets the two halves of one value, the one the register held at the first
  access, however often the mixer advances the transfer in between.\<close>

theorem vdma_read_atomic:
  assumes "0 \<le> c" "c < 8" "VDMA_VMask s c" "VDMA_Regs s (vdma_base c + 12) AND 1 = 0"
  shows "\<exists>lo hi s1 s2 s3. VDMA_Read io (vdma_port c cnt) (s, h) = Inr (lo, s1, h)
    \<and> vdma_updates c us s1 = Inr s2
    \<and> VDMA_Read io (vdma_port c cnt) (s2, h) = Inr (hi, s3, h)
    \<and> push_bit 8 (b2w hi) OR b2w lo = VDMA_Regs s (vdma_reg c cnt)"
proof -
  let ?v = "VDMA_Regs s (vdma_reg c cnt)"
  let ?s1 = "s\<lparr>VDMA_Regs := (VDMA_Regs s)(vdma_base c + 12 := VDMA_Regs s (vdma_base c + 12) + 1),
      VDMA_InIO := (VDMA_InIO s)(c := True)\<rparr>"
  have r1: "VDMA_Read io (vdma_port c cnt) (s, h) = Inr (lo8 ?v, ?s1, h)"
    by (simp add: read_chan [of c s io cnt h, OF assms(1-3)] assms(4))
  have "VDMA_InIO ?s1 c" by simp
  then obtain s2 where s2: "vdma_updates c us ?s1 = Inr s2" "VDMA_Regs s2 = VDMA_Regs ?s1"
      "VDMA_VMask s2 = VDMA_VMask ?s1"
    using vdma_updates_InIO [OF assms(1, 2)] by blast
  have vm: "VDMA_VMask s2 c" using s2(3) assms(3) by simp
  have ff: "VDMA_Regs s2 (vdma_base c + 12) AND 1 \<noteq> 0"
    using ff_flip [OF assms(4)] s2(2) by simp
  have v: "VDMA_Regs s2 (vdma_reg c cnt) = ?v" using s2(2) assms(1, 2) by simp
  have "\<exists>s3. VDMA_Read io (vdma_port c cnt) (s2, h) = Inr (hi8 ?v, s3, h)"
    using ff v by (simp add: read_chan [of c s2 io cnt h, OF assms(1, 2) vm] Let_def)
  with r1 s2(1) show ?thesis using lo8_hi8_join by blast
qed

theorem vdma_read_atomic_witness:
  "\<exists>lo hi s1 s2 s3. VDMA_Read quiet_io (vdma_port 1 True)
      (vdma_initial\<lparr>VDMA_VMask := (\<lambda>_. True), VDMA_Regs := (\<lambda>i. if i = 3 then 0x01FF else 0)\<rparr>, ()) = Inr (lo, s1, ())
    \<and> vdma_updates 1 [(1, 0x100), (2, 0xFF)] s1 = Inr s2
    \<and> VDMA_Read quiet_io (vdma_port 1 True) (s2, ()) = Inr (hi, s3, ())
    \<and> push_bit 8 (b2w hi) OR b2w lo = 0x01FF"
  using vdma_read_atomic [where c = 1 and io = quiet_io and cnt = True and h = "()"
      and s = "vdma_initial\<lparr>VDMA_VMask := (\<lambda>_. True), VDMA_Regs := (\<lambda>i. if i = 3 then 0x01FF else 0)\<rparr>"
      and us = "[(1, 0x100), (2, 0xFF)]"]
  by (simp add: vdma_reg_def vdma_base_def)

text \<open>A read of the status port reports, for every virtualised channel, whether the
  emulator has completed the transfer and nothing the machine says, and for the other
  channels of the 8-bit controller what the machine says; the completion flags of the
  virtualised channels are cleared by the read.\<close>

theorem vdma_status_read:
  assumes "io_in io 8 h = (r, h2)"
  shows "\<exists>v s2. VDMA_Read io 8 (s, h) = Inr (v, s2, h2)
    \<and> (\<forall>n<8. bit v n = (if VDMA_VMask s (int n) then VDMA_Complete s (int n)
                   else bit r n \<and> \<not> (4 \<le> n \<and> VDMA_VMask s (int n - 4))))
    \<and> (\<forall>i<8. VDMA_Complete s2 (int i) = (VDMA_Complete s (int i) \<and> \<not> VDMA_VMask s (int i)))"
proof -
  let ?w = "fold VDMA_status_step [0..<8] (r, s)"
  have rd: "VDMA_Read io 8 (s, h) = Inr (fst ?w, snd ?w, h2)"
    using assms by (simp add: VDMA_Read_def VDMA_chan_of_port_def VDMA_Read_status_def
      UntrappedIO_IN_def vdma_page_port_def case_prod_unfold Let_def del: upt_rec_numeral)
  have "\<forall>n<8. bit (fst ?w) n = (if VDMA_VMask s (int n) then VDMA_Complete s (int n)
                   else bit r n \<and> \<not> (4 \<le> n \<and> VDMA_VMask s (int n - 4)))"
  proof (intro allI impI)
    fix n :: nat assume "n < 8"
    then show "bit (fst ?w) n = (if VDMA_VMask s (int n) then VDMA_Complete s (int n)
                   else bit r n \<and> \<not> (4 \<le> n \<and> VDMA_VMask s (int n - 4)))"
      using status_upto [of 8 n r s] by (auto simp del: upt_rec_numeral)
  qed
  moreover have "\<forall>i<8. VDMA_Complete (snd ?w) (int i) = (VDMA_Complete s (int i) \<and> \<not> VDMA_VMask s (int i))"
    using status_upto [of 8 0 r s] by (auto simp del: upt_rec_numeral)
  ultimately show ?thesis using rd by blast
qed

theorem vdma_status_read_witness:
  "\<exists>v s2. VDMA_Read quiet_io 8 (vdma_initial\<lparr>VDMA_VMask := (\<lambda>i. i = 1), VDMA_Complete := (\<lambda>i. i = 1)\<rparr>, ())
      = Inr (v, s2, ()) \<and> bit v 1"
proof -
  have "io_in quiet_io 8 () = (0, ())" by (simp add: quiet_io_def)
  from vdma_status_read [OF this, of "vdma_initial\<lparr>VDMA_VMask := (\<lambda>i. i = 1), VDMA_Complete := (\<lambda>i. i = 1)\<rparr>"]
  show ?thesis by force
qed

lemma VDMA_Write_ok_iff:
  "is_ok (VDMA_Write io port b (s, h)) \<longleftrightarrow>
    port \<notin> {0x80, 0x84, 0x85, 0x86, 0x88, 0x8C, 0x8D, 0x8E}"
proof (cases "vdma_page_port (uint port)")
  case False
  then have "port \<notin> {0x80, 0x84, 0x85, 0x86, 0x88, 0x8C, 0x8D, 0x8E}"
    by (auto simp: vdma_page_port_def)
  with False show ?thesis by (auto simp: VDMA_Write_def Let_def split: prod.splits)
next
  case True
  then have "uint port \<in> {0x80, 0x81, 0x82, 0x83, 0x84, 0x85, 0x86, 0x87, 0x88, 0x89, 0x8A, 0x8B, 0x8C, 0x8D, 0x8E, 0x8F}"
    unfolding vdma_page_port_def by auto arith
  then have "port \<in> word_of_int ` {0x80, 0x81, 0x82, 0x83, 0x84, 0x85, 0x86, 0x87, 0x88, 0x89, 0x8A, 0x8B, 0x8C, 0x8D, 0x8E, 0x8F}"
    by (metis image_eqI word_of_int_uint)
  then show ?thesis
    by (elim imageE insertE emptyE)
      (simp_all add: VDMA_Write_def VDMA_Write_page_def VDMA_PortChannelMap_def vdma_branch_defs)
qed

text \<open>Writes are in bounds for exactly the ports outside the holes of the page-register
  map: the emulator fails on a write to 0x80, 0x84-0x86, 0x88 or 0x8C-0x8E (whose map
  entry -1 is stored in an unsigned byte and so not recognised), and on no other port.\<close>

theorem vdma_write_in_bounds:
  "is_ok (VDMA_Write io port b (s, h)) \<longleftrightarrow>
    port \<notin> {0x80, 0x84, 0x85, 0x86, 0x88, 0x8C, 0x8D, 0x8E}"
  by (rule VDMA_Write_ok_iff)

text \<open>The mixer's report of a transfer's progress. While bytes remain, the channel's
  progress and remaining count are exactly the reported ones and, unless the guest is in the
  middle of a read, the registers show the current address and count. At the end, the
  completion flag is set; an auto-initialising channel starts over with the programmed count,
  a single-cycle channel stays with a full 64K count.\<close>

theorem vdma_progress:
  assumes "0 \<le> c" "c < 8" "VDMA_size c dvd index" "VDMA_size c dvd counter"
    "auto = (VDMA_Modes s c AND push_bit 4 1 \<noteq> 0)"
  shows "\<exists>r s2. VDMA_SetIndexCounter c index counter s = Inr (r, s2)
    \<and> VDMA_GetIndex c s2 = Inr r
    \<and> r = (if counter \<le> 0 \<and> auto then 0 else index)
    \<and> VDMA_GetCounter c s2 = Inr (word_of_int
        (if 0 < counter then counter else if auto then VDMA_Counter s c * VDMA_size c
         else 0x10000 * VDMA_size c))
    \<and> VDMA_Complete s2 c = (VDMA_Complete s c \<or> counter \<le> 0)
    \<and> (if VDMA_InIO s c then VDMA_Regs s2 = VDMA_Regs s
       else VDMA_Regs s2 (vdma_reg c True) = word_of_int (VDMA_CurCounter s2 c - 1)
         \<and> VDMA_Regs s2 (vdma_reg c False) = ucast (VDMA_Addr s c + word_of_int (VDMA_Index s2 c)))"
proof -
  have ch [simp]: "\<And>n f. n = 8 \<Longrightarrow> arr_get n f c = Inr (f c)" using assms(1, 2) by simp
  have cs [simp]: "\<And>n f v. n = 8 \<Longrightarrow> arr_set n f c v = Inr (f(c := v))" using assms(1, 2) by simp
  define idx where "idx = (if counter \<le> 0 \<and> auto then 0 else index)"
  define cnt where "cnt = (if 0 < counter then counter else if auto then VDMA_Counter s c * VDMA_size c
         else 0x10000 * VDMA_size c)"
  define s1 where "s1 = s\<lparr>VDMA_Complete := (VDMA_Complete s)(c := VDMA_Complete s c \<or> counter \<le> 0),
      VDMA_CurCounter := (VDMA_CurCounter s)(c := cdiv cnt (VDMA_size c)),
      VDMA_Index := (VDMA_Index s)(c := cdiv idx (VDMA_size c))\<rparr>"
  define s2 where "s2 = (if \<not> VDMA_InIO s c then VDMA_update_regs c s1
                 else s1\<lparr>VDMA_DelayUpdate := (VDMA_DelayUpdate s1)(c := True)\<rparr>)"
  have "VDMA_SetIndexCounter c index counter s = Inr (VDMA_Index s2 c * VDMA_size c, s2)"
    using assms(1, 2, 5)
    by (cases "counter \<le> 0"; cases auto)
      (simp_all add: VDMA_SetIndexCounter_def VDMA_ToggleComplete_def VDMA_GetAuto_def
        idx_def cnt_def s1_def s2_def vdma_update_regs_keep Let_def fun_upd_idem)
  moreover have "VDMA_Index s2 c * VDMA_size c = idx" "VDMA_CurCounter s2 c * VDMA_size c = cnt"
  proof -
    have "VDMA_size c dvd idx" "VDMA_size c dvd cnt" using assms(3, 4) by (simp_all add: idx_def cnt_def)
    then show "VDMA_Index s2 c * VDMA_size c = idx" "VDMA_CurCounter s2 c * VDMA_size c = cnt"
      by (simp_all add: s2_def s1_def vdma_update_regs_keep cdiv_dvd)
  qed
  moreover have "VDMA_Complete s2 c = (VDMA_Complete s c \<or> counter \<le> 0)"
    by (simp add: s2_def s1_def vdma_update_regs_keep)
  moreover have "if VDMA_InIO s c then VDMA_Regs s2 = VDMA_Regs s
       else VDMA_Regs s2 (vdma_reg c True) = word_of_int (VDMA_CurCounter s2 c - 1)
         \<and> VDMA_Regs s2 (vdma_reg c False) = ucast (VDMA_Addr s c + word_of_int (VDMA_Index s2 c))"
    by (simp add: s2_def s1_def vdma_update_regs_keep vdma_update_regs_regs)
  ultimately show ?thesis
    unfolding VDMA_GetIndex_def VDMA_GetCounter_def idx_def [symmetric] cnt_def [symmetric]
    by (simp flip: of_int_mult)
qed

theorem vdma_progress_witness:
  "\<exists>r s2. VDMA_SetIndexCounter 1 512 0 (vdma_initial\<lparr>VDMA_Modes := (\<lambda>_. 0x58), VDMA_Counter := (\<lambda>_. 2048)\<rparr>)
      = Inr (r, s2) \<and> VDMA_GetIndex 1 s2 = Inr r \<and> r = 0"
  using vdma_progress [of 1 512 0 True "vdma_initial\<lparr>VDMA_Modes := (\<lambda>_. 0x58), VDMA_Counter := (\<lambda>_. 2048)\<rparr>"]
  by (auto simp: VDMA_size_def)

text \<open>The port a write is forwarded to is the remapped one, so a write to a port of
  the 16-bit controller reaches a port of the 8-bit controller instead.\<close>

lemma vdma_forward_16:
  "\<exists>s2. VDMA_Write io 0xC4 b (s, h) = Inr (s2, io_out io 2 b h)"
  "\<exists>s2. VDMA_Write io 0xD4 b (s, h) = Inr (s2, io_out io 0x0A b h)"
  by (simp_all add: VDMA_Write_def VDMA_Write_chan_def VDMA_Write_ctrl_def vdma_branch_defs
      UntrappedIO_OUT_def Let_def)

text \<open>On a 16-bit channel a byte written by the device leaves the position where it was.\<close>

lemma vdma_writedata_16_stuck:
  assumes "4 \<le> c" "c < 8" "VDMA_GetWriteMode c s = Inr True" "VDMA_Index s c = i" "0 \<le> i"
    "1 < VDMA_CurCounter s c" "VDMA_CurCounter s c \<le> 65536"
  shows "\<exists>s2 h2. VDMA_WriteData dm c data (s, h) = Inr (s2, h2) \<and> VDMA_Index s2 c = i"
proof -
  have sz: "VDMA_size c = 2" using assms(1) by (simp add: VDMA_size_def)
  have "sint (word_of_int (VDMA_CurCounter s c * 2) - 1 :: u32) = VDMA_CurCounter s c * 2 - 1"
  proof -
    have "word_of_int (VDMA_CurCounter s c * 2) - 1 = (word_of_int (VDMA_CurCounter s c * 2 - 1) :: u32)"
      by simp
    then show ?thesis
      using sint_of_int_u32 [of "VDMA_CurCounter s c * 2 - 1"] assms(6, 7) by (simp only:)
  qed
  then obtain r s2 where u: "VDMA_SetIndexCounter c (i * 2 + 1)
      (sint (word_of_int (VDMA_CurCounter s c * 2) - 1 :: u32)) s = Inr (r, s2)"
    and p: "0 < sint (word_of_int (VDMA_CurCounter s c * 2) - 1 :: u32)"
    using SetIndexCounter_ok [of c "i * 2 + 1"] assms(1, 2, 6) by fastforce
  have "VDMA_Index s2 c = i"
    using u p assms(1, 2, 5) sz
    by (auto simp: VDMA_SetIndexCounter_def vdma_update_regs_keep Let_def)
  then show ?thesis
    using assms u by (auto simp: VDMA_WriteData_def vdma_getter_defs sz case_prod_unfold Let_def)
qed

end
