(* ===== verification/Pic.thy ===== *)
theory Pic
  imports Untrapio
begin

text \<open>
  \<open>src/sbemu/pic.c\<close>: the driver of the 8259 interrupt controllers. Each
  routine is a sequence of untrapped port accesses, so it takes the port
  operations and threads the state of the machine behind them. The locale
  \<open>pic_controller\<close> states what the routines rely on: an in-service register
  per controller that command 0x0B selects for reading and command 0x20 clears.
\<close>

abbreviation (input) PIC_PORT1 :: u16 where "PIC_PORT1 \<equiv> 0x20"
abbreviation (input) PIC_DATA1 :: u16 where "PIC_DATA1 \<equiv> 0x21"
abbreviation (input) PIC_PORT2 :: u16 where "PIC_PORT2 \<equiv> 0xA0"
abbreviation (input) PIC_DATA2 :: u16 where "PIC_DATA2 \<equiv> 0xA1"
abbreviation (input) PIC_READISR :: u8 where "PIC_READISR \<equiv> 0x0B"

definition PIC_IRQ2VEC :: "u8 \<Rightarrow> u8" where
  "PIC_IRQ2VEC irq = (if irq < 8 then 0x08 + irq else 0x70 + (irq - 8))"

definition PIC_VEC2IRQ :: "u8 \<Rightarrow> u8" where
  "PIC_VEC2IRQ ivec = (if ivec < 0x08 + 8 then ivec - 8 else ivec - 0x70 + 8)"

definition PIC_SendEOI :: "'h io_ops \<Rightarrow> 'h \<Rightarrow> 'h" where
  "PIC_SendEOI io h =
    (let h = UntrappedIO_OUT io PIC_PORT1 PIC_READISR h;
         (mask, h) = UntrappedIO_IN io PIC_PORT1 h;
         h = (if mask AND 0x4 \<noteq> 0 then
                let h = UntrappedIO_OUT io PIC_PORT2 PIC_READISR h;
                    (s, h) = UntrappedIO_IN io PIC_PORT2 h
                in if s \<noteq> 0 then UntrappedIO_OUT io PIC_PORT2 0x20 h else h
              else h)
     in if mask \<noteq> 0 then UntrappedIO_OUT io PIC_PORT1 0x20 h else h)"

definition PIC_GetIRQ :: "'h io_ops \<Rightarrow> 'h \<Rightarrow> (u8 \<times> 'h) res" where
  "PIC_GetIRQ io h =
    (let h = UntrappedIO_OUT io PIC_PORT1 PIC_READISR h;
         (m1, h) = UntrappedIO_IN io PIC_PORT1 h;
         mask = b2w m1;
         (mask, h) = (if mask AND 0x4 \<noteq> 0 then
                        let h = UntrappedIO_OUT io PIC_PORT2 PIC_READISR h;
                            mask = mask AND NOT 0x04;
                            (s, h) = UntrappedIO_IN io PIC_PORT2 h
                        in (push_bit 8 (b2w s) OR mask, h)
                      else (mask, h))
     in if mask = 0 then Inr (0xFF, h)
        else bindE (bsf (ucast mask)) (\<lambda>n. Inr (of_nat n, h)))"

definition PIC_SendEOIWithIRQ :: "'h io_ops \<Rightarrow> u8 \<Rightarrow> 'h \<Rightarrow> 'h res" where
  "PIC_SendEOIWithIRQ io irq h =
    bindE (PIC_GetIRQ io h) (\<lambda>(cur, h).
      if cur \<noteq> irq then Inr h
      else if irq = 7 \<or> irq = 15 then Inr (PIC_SendEOI io h)
      else let h = (if irq \<ge> 8 then UntrappedIO_OUT io PIC_PORT2 0x20 h else h)
           in Inr (UntrappedIO_OUT io PIC_PORT1 0x20 h))"

definition PIC_RemapMaster :: "'h io_ops \<Rightarrow> u8 \<Rightarrow> 'h \<Rightarrow> 'h" where
  "PIC_RemapMaster io vector h =
    (let (oldmask, h) = UntrappedIO_IN io PIC_DATA1 h;
         h = UntrappedIO_OUT io PIC_PORT1 0x11 h;
         h = UntrappedIO_OUT io PIC_DATA1 vector h;
         h = UntrappedIO_OUT io PIC_DATA1 4 h;
         h = UntrappedIO_OUT io PIC_DATA1 1 h
     in UntrappedIO_OUT io PIC_DATA1 oldmask h)"

definition PIC_RemapSlave :: "'h io_ops \<Rightarrow> u8 \<Rightarrow> 'h \<Rightarrow> 'h" where
  "PIC_RemapSlave io vector h =
    (let (oldmask, h) = UntrappedIO_IN io PIC_DATA2 h;
         h = UntrappedIO_OUT io PIC_PORT2 0x11 h;
         h = UntrappedIO_OUT io PIC_DATA2 vector h;
         h = UntrappedIO_OUT io PIC_DATA2 2 h;
         h = UntrappedIO_OUT io PIC_DATA2 1 h
     in UntrappedIO_OUT io PIC_DATA2 oldmask h)"

definition PIC_MaskIRQ :: "'h io_ops \<Rightarrow> u8 \<Rightarrow> 'h \<Rightarrow> 'h res" where
  "PIC_MaskIRQ io irq h =
    (let (port, irq) = (if irq \<ge> 8 then (PIC_DATA2, irq - 8) else (PIC_DATA1, irq));
         (m, h) = UntrappedIO_IN io port h
     in bindE (shl1 (uint irq)) (\<lambda>bt. Inr (UntrappedIO_OUT io port (m OR ucast bt) h)))"

definition PIC_UnmaskIRQ :: "'h io_ops \<Rightarrow> u8 \<Rightarrow> 'h \<Rightarrow> 'h res" where
  "PIC_UnmaskIRQ io irq h =
    (let (port, irq, h) =
       (if irq \<ge> 8 then
          let (master, h) = UntrappedIO_IN io PIC_DATA1 h;
              h = (if master AND 0x4 \<noteq> 0
                   then UntrappedIO_OUT io PIC_DATA1 (master AND NOT 0x4) h else h)
          in (PIC_DATA2, irq - 8, h)
        else (PIC_DATA1, irq, h));
         (m, h) = UntrappedIO_IN io port h
     in bindE (shl1 (uint irq)) (\<lambda>bt. Inr (UntrappedIO_OUT io port (m AND NOT (ucast bt)) h)))"

definition PIC_GetIRQMask :: "'h io_ops \<Rightarrow> 'h \<Rightarrow> u16 \<times> 'h" where
  "PIC_GetIRQMask io h =
    (let (m2, h) = UntrappedIO_IN io PIC_DATA2 h;
         (m1, h) = UntrappedIO_IN io PIC_DATA1 h
     in (push_bit 8 (b2w m2) OR b2w m1, h))"

definition PIC_SetIRQMask :: "'h io_ops \<Rightarrow> u16 \<Rightarrow> 'h \<Rightarrow> 'h" where
  "PIC_SetIRQMask io msk h =
    (let h = UntrappedIO_OUT io PIC_DATA1 (lo8 msk) h
     in UntrappedIO_OUT io PIC_DATA2 (hi8 msk) h)"

section \<open>A controller pair as the driver sees it\<close>

text \<open>\<open>PIC_serving irq m s\<close>: the in-service registers \<open>m\<close> of the master and
  \<open>s\<close> of the slave show exactly the request \<open>irq\<close>, a slave request through the
  cascade line 2.\<close>

definition PIC_serving :: "u8 \<Rightarrow> u8 \<Rightarrow> u8 \<Rightarrow> bool" where
  "PIC_serving irq m s =
    (if irq < 8 then irq \<noteq> 2 \<and> m = push_bit (unat irq) 1 \<and> s = 0
     else irq < 16 \<and> m = 4 \<and> s = push_bit (unat irq - 8) 1)"

lemma PIC_serving_cases:
  assumes "PIC_serving irq m s"
  obtains "m = push_bit (unat irq) 1" "s = 0" "irq \<in> {0, 1, 3, 4, 5, 6, 7}"
  | "m = 4" "s = push_bit (unat irq - 8) 1" "irq \<in> {8, 9, 10, 11, 12, 13, 14, 15}"
proof (cases "irq < 8")
  case True
  then have "irq \<in> {0, 1, 2, 3, 4, 5, 6, 7}"
    using u8_below [of irq 8] by (auto simp: word_less_nat_alt upt_rec)
  with assms True that(1) show ?thesis by (auto simp: PIC_serving_def)
next
  case False
  with assms have "\<not> irq < 8" "irq < 16" by (simp_all add: PIC_serving_def)
  then have "irq \<in> {8, 9, 10, 11, 12, 13, 14, 15}"
    using u8_below [of irq 16] by (auto simp: word_less_nat_alt upt_rec)
  with assms False that(2) show ?thesis by (auto simp: PIC_serving_def)
qed

locale pic_controller =
  fixes io :: "'h io_ops" and isr1 :: "'h \<Rightarrow> u8" and isr2 :: "'h \<Rightarrow> u8" and ok :: "'h \<Rightarrow> bool"
  assumes read_isr1: "ok h \<Longrightarrow>
      \<exists>h2. io_in io PIC_PORT1 (io_out io PIC_PORT1 PIC_READISR h) = (isr1 h, h2)
         \<and> isr1 h2 = isr1 h \<and> isr2 h2 = isr2 h \<and> ok h2"
    and read_isr2: "ok h \<Longrightarrow>
      \<exists>h2. io_in io PIC_PORT2 (io_out io PIC_PORT2 PIC_READISR h) = (isr2 h, h2)
         \<and> isr1 h2 = isr1 h \<and> isr2 h2 = isr2 h \<and> ok h2"
    and eoi1: "ok h \<Longrightarrow> isr1 (io_out io PIC_PORT1 0x20 h) = 0
         \<and> isr2 (io_out io PIC_PORT1 0x20 h) = isr2 h \<and> ok (io_out io PIC_PORT1 0x20 h)"
    and eoi2: "ok h \<Longrightarrow> isr2 (io_out io PIC_PORT2 0x20 h) = 0
         \<and> isr1 (io_out io PIC_PORT2 0x20 h) = isr1 h \<and> ok (io_out io PIC_PORT2 0x20 h)"
begin

lemma GetIRQ_serving:
  assumes "ok h" "PIC_serving irq (isr1 h) (isr2 h)"
  shows "\<exists>h2. PIC_GetIRQ io h = Inr (irq, h2) \<and> isr1 h2 = isr1 h \<and> isr2 h2 = isr2 h \<and> ok h2"
proof -
  obtain h2 where h2: "io_in io PIC_PORT1 (io_out io PIC_PORT1 PIC_READISR h) = (isr1 h, h2)"
      "isr1 h2 = isr1 h" "isr2 h2 = isr2 h" "ok h2"
    using read_isr1 [OF assms(1)] by blast
  obtain h4 where h4: "io_in io PIC_PORT2 (io_out io PIC_PORT2 PIC_READISR h2) = (isr2 h2, h4)"
      "isr1 h4 = isr1 h2" "isr2 h4 = isr2 h2" "ok h4"
    using read_isr2 [OF h2(4)] by blast
  from assms(2) show ?thesis
  proof (cases rule: PIC_serving_cases)
    case 1
    have "b2w (isr1 h) = push_bit (unat irq) 1" "b2w (isr1 h) AND 4 = 0" "b2w (isr1 h) \<noteq> 0"
      "bsf (ucast (b2w (isr1 h))) = Inr (unat irq)"
      using 1(3) by (auto simp: 1(1) b2w_def bsf_eq_Inr bit_simps)
    then show ?thesis
      using h2 by (simp add: PIC_GetIRQ_def UntrappedIO_OUT_def UntrappedIO_IN_def Let_def)
  next
    case 2
    have m: "b2w (isr1 h) AND 4 \<noteq> 0" "b2w (isr1 h) AND NOT 4 = 0"
      by (simp_all add: 2(1) b2w_def)
    have s: "push_bit 8 (b2w (isr2 h)) \<noteq> 0"
      "bsf (ucast (push_bit 8 (b2w (isr2 h)))) = Inr (unat irq)"
      using 2(3) by (auto simp: 2(2) b2w_def bsf_eq_Inr bit_simps)
    show ?thesis
      using h2 h4 m s by (simp add: PIC_GetIRQ_def UntrappedIO_OUT_def UntrappedIO_IN_def Let_def)
  qed
qed

lemma SendEOI_serving:
  assumes "ok h" "PIC_serving irq (isr1 h) (isr2 h)"
  shows "isr1 (PIC_SendEOI io h) = 0 \<and> isr2 (PIC_SendEOI io h) = 0 \<and> ok (PIC_SendEOI io h)"
proof -
  obtain h2 where h2: "io_in io PIC_PORT1 (io_out io PIC_PORT1 PIC_READISR h) = (isr1 h, h2)"
      "isr1 h2 = isr1 h" "isr2 h2 = isr2 h" "ok h2"
    using read_isr1 [OF assms(1)] by blast
  obtain h4 where h4: "io_in io PIC_PORT2 (io_out io PIC_PORT2 PIC_READISR h2) = (isr2 h2, h4)"
      "isr1 h4 = isr1 h2" "isr2 h4 = isr2 h2" "ok h4"
    using read_isr2 [OF h2(4)] by blast
  from assms(2) show ?thesis
  proof (cases rule: PIC_serving_cases)
    case 1
    have "isr1 h AND 4 = 0" "isr1 h \<noteq> 0" using 1(3) by (auto simp: 1(1))
    then show ?thesis
      using h2 eoi1 [OF h2(4)] 1(2)
      by (simp add: PIC_SendEOI_def UntrappedIO_OUT_def UntrappedIO_IN_def Let_def)
  next
    case 2
    have "isr2 h \<noteq> 0" using 2(3) by (auto simp: 2(2))
    moreover have "isr1 h AND 4 \<noteq> 0" "isr1 h \<noteq> 0" by (simp_all add: 2(1))
    ultimately show ?thesis
      using h2 h4 eoi2 [OF h4(4)] eoi1 [of "io_out io PIC_PORT2 0x20 h4"]
      by (simp add: PIC_SendEOI_def UntrappedIO_OUT_def UntrappedIO_IN_def Let_def)
  qed
qed

lemma SendEOIWithIRQ_serving:
  assumes "ok h" "PIC_serving irq (isr1 h) (isr2 h)"
  shows "\<exists>h2. PIC_SendEOIWithIRQ io irq h = Inr h2 \<and> isr1 h2 = 0 \<and> isr2 h2 = 0 \<and> ok h2"
proof -
  obtain h2 where h2: "PIC_GetIRQ io h = Inr (irq, h2)" "isr1 h2 = isr1 h" "isr2 h2 = isr2 h" "ok h2"
    using GetIRQ_serving [OF assms] by blast
  have sv: "PIC_serving irq (isr1 h2) (isr2 h2)" using assms(2) h2 by simp
  show ?thesis
  proof (cases "irq = 7 \<or> irq = 15")
    case True
    then show ?thesis
      using h2 SendEOI_serving [OF h2(4) sv] by (simp add: PIC_SendEOIWithIRQ_def)
  next
    case False
    from sv show ?thesis
    proof (cases rule: PIC_serving_cases)
      case 1
      have "\<not> irq \<ge> 8" using 1(3) by (auto simp: word_le_nat_alt)
      with False 1 h2 eoi1 [OF h2(4)] show ?thesis
        by (auto simp: PIC_SendEOIWithIRQ_def UntrappedIO_OUT_def)
    next
      case 2
      have "irq \<ge> 8" using 2(3) by auto
      with False 2 h2 eoi2 [OF h2(4)] eoi1 [of "io_out io PIC_PORT2 0x20 h2"] show ?thesis
        by (auto simp: PIC_SendEOIWithIRQ_def UntrappedIO_OUT_def)
    qed
  qed
qed

end

end
