(* ===== verification/Regs.thy ===== *)
theory Regs
  imports Prelude
begin

text \<open>
  The real-mode register set of \<open>src/sbemu/dpmi/dpmi.h\<close>, through which the program
  calls real-mode code and is called back by it: the union of C with its 32-bit view
  as the fields, and its 16-bit and 8-bit views as functions.
\<close>

text \<open>The real-mode register set, its \<open>d\<close> view for the general registers.\<close>

record DPMI_REG =
  r_edi :: u32
  r_esi :: u32
  r_ebp :: u32
  r_reserved :: u32
  r_ebx :: u32
  r_edx :: u32
  r_ecx :: u32
  r_eax :: u32
  r_flags :: u16
  r_es :: u16
  r_ds :: u16
  r_fs :: u16
  r_gs :: u16
  r_ip :: u16
  r_cs :: u16
  r_sp :: u16
  r_ss :: u16

definition reg_zero :: DPMI_REG where
  "reg_zero = \<lparr>r_edi = 0, r_esi = 0, r_ebp = 0, r_reserved = 0, r_ebx = 0, r_edx = 0, r_ecx = 0,
     r_eax = 0, r_flags = 0, r_es = 0, r_ds = 0, r_fs = 0, r_gs = 0, r_ip = 0, r_cs = 0, r_sp = 0, r_ss = 0\<rparr>"

definition reg_ax :: "DPMI_REG \<Rightarrow> u16" where "reg_ax r = ucast (r_eax r)"
definition reg_al :: "DPMI_REG \<Rightarrow> u8" where "reg_al r = ucast (r_eax r)"
definition reg_ah :: "DPMI_REG \<Rightarrow> u8" where "reg_ah r = ucast (drop_bit 8 (r_eax r))"
definition reg_bx :: "DPMI_REG \<Rightarrow> u16" where "reg_bx r = ucast (r_ebx r)"
definition reg_bl :: "DPMI_REG \<Rightarrow> u8" where "reg_bl r = ucast (r_ebx r)"
definition reg_cx :: "DPMI_REG \<Rightarrow> u16" where "reg_cx r = ucast (r_ecx r)"
definition reg_cl :: "DPMI_REG \<Rightarrow> u8" where "reg_cl r = ucast (r_ecx r)"
definition reg_dx :: "DPMI_REG \<Rightarrow> u16" where "reg_dx r = ucast (r_edx r)"
definition reg_di :: "DPMI_REG \<Rightarrow> u16" where "reg_di r = ucast (r_edi r)"
definition reg_si :: "DPMI_REG \<Rightarrow> u16" where "reg_si r = ucast (r_esi r)"

text \<open>Writing a 16-bit or 8-bit part keeps the rest of the register.\<close>

definition low16 :: "u32 \<Rightarrow> u16 \<Rightarrow> u32" where
  "low16 x w = push_bit 16 (drop_bit 16 x) OR ucast w"

definition low8 :: "u32 \<Rightarrow> u8 \<Rightarrow> u32" where
  "low8 x b = push_bit 8 (drop_bit 8 x) OR ucast b"

definition high8 :: "u32 \<Rightarrow> u8 \<Rightarrow> u32" where
  "high8 x b = push_bit 16 (drop_bit 16 x) OR push_bit 8 (ucast b) OR (x AND 0xFF)"

definition set_ax :: "u16 \<Rightarrow> DPMI_REG \<Rightarrow> DPMI_REG" where "set_ax w r = r\<lparr>r_eax := low16 (r_eax r) w\<rparr>"
definition set_bx :: "u16 \<Rightarrow> DPMI_REG \<Rightarrow> DPMI_REG" where "set_bx w r = r\<lparr>r_ebx := low16 (r_ebx r) w\<rparr>"
definition set_cx :: "u16 \<Rightarrow> DPMI_REG \<Rightarrow> DPMI_REG" where "set_cx w r = r\<lparr>r_ecx := low16 (r_ecx r) w\<rparr>"
definition set_dx :: "u16 \<Rightarrow> DPMI_REG \<Rightarrow> DPMI_REG" where "set_dx w r = r\<lparr>r_edx := low16 (r_edx r) w\<rparr>"
definition set_di :: "u16 \<Rightarrow> DPMI_REG \<Rightarrow> DPMI_REG" where "set_di w r = r\<lparr>r_edi := low16 (r_edi r) w\<rparr>"
definition set_al :: "u8 \<Rightarrow> DPMI_REG \<Rightarrow> DPMI_REG" where "set_al b r = r\<lparr>r_eax := low8 (r_eax r) b\<rparr>"
definition set_ah :: "u8 \<Rightarrow> DPMI_REG \<Rightarrow> DPMI_REG" where "set_ah b r = r\<lparr>r_eax := high8 (r_eax r) b\<rparr>"
definition set_bl :: "u8 \<Rightarrow> DPMI_REG \<Rightarrow> DPMI_REG" where "set_bl b r = r\<lparr>r_ebx := low8 (r_ebx r) b\<rparr>"
definition set_cl :: "u8 \<Rightarrow> DPMI_REG \<Rightarrow> DPMI_REG" where "set_cl b r = r\<lparr>r_ecx := low8 (r_ecx r) b\<rparr>"

lemma ucast_low16 [simp]: "(ucast (low16 x w) :: u16) = w"
  by (rule bit_word_eqI) (auto simp: low16_def bit_simps)

lemma ucast_low8 [simp]: "(ucast (low8 x b) :: u8) = b"
  by (rule bit_word_eqI) (auto simp: low8_def bit_simps)

lemma bit_ff_u32: "bit (0xFF :: u32) n \<longleftrightarrow> n < 8"
proof -
  have "mask 8 = (0xFF :: u32)" by (simp add: mask_eq_exp_minus_1)
  then show ?thesis using bit_mask_iff [of 8 n, where ?'a = "32 word"] by (auto dest: bit_u32_less)
qed

lemma bit_high8:
  "bit (high8 x b) n \<longleftrightarrow> (if n < 8 then bit x n else if n < 16 then bit b (n - 8) else bit x n)"
  unfolding high8_def using bit_u8_less [of b "n - 8"] bit_u32_less [of x n]
  by (auto simp: bit_or_iff bit_and_iff bit_push_bit_iff bit_drop_bit_eq bit_ff_u32 bit_ucast8_u32
      simp del: bit_numeral_word_iff)

lemma high8_parts [simp]:
  "(ucast (high8 x b) :: u8) = ucast x" "(ucast (drop_bit 8 (high8 x b)) :: u8) = b"
proof -
  show "(ucast (high8 x b) :: u8) = ucast x"
    by (rule bit_word_eqI) (auto simp: bit_ucast_iff bit_high8)
  show "(ucast (drop_bit 8 (high8 x b)) :: u8) = b"
    by (rule bit_word_eqI) (auto simp: bit_ucast_iff bit_high8 bit_drop_bit_eq)
qed

lemma low8_high [simp]: "(ucast (drop_bit 8 (low8 x b)) :: u8) = ucast (drop_bit 8 x)"
  by (rule bit_word_eqI) (auto simp: low8_def bit_simps dest: bit_u8_less)

lemma reg_set_simps [simp]:
  "reg_ax (set_ax w r) = w" "reg_bx (set_bx w r) = w" "reg_cx (set_cx w r) = w" "reg_dx (set_dx w r) = w"
  "reg_di (set_di w r) = w" "reg_al (set_al b r) = b" "reg_ah (set_ah b r) = b" "reg_cl (set_cl b r) = b"
  "reg_al (set_ah b r) = reg_al r" "reg_ah (set_al b r) = reg_ah r"
  "reg_ah (set_bx w r) = reg_ah r" "reg_al (set_bx w r) = reg_al r" "reg_ax (set_bx w r) = reg_ax r"
  "reg_bx (set_ah b r) = reg_bx r" "reg_bx (set_al b r) = reg_bx r"
  by (simp_all add: reg_ax_def reg_bx_def reg_cx_def reg_dx_def reg_di_def reg_al_def reg_ah_def reg_cl_def
      set_ax_def set_bx_def set_cx_def set_dx_def set_di_def set_al_def set_ah_def set_cl_def)

section \<open>Calls into real mode\<close>

text \<open>
  What real mode runs (DOS, the XMS driver, TSRs) is not part of the program: an
  interrupt and a far call are functions of the registers and of the state of that
  world, and \<open>rm_code\<close> is the result code of the far call (0 for success). The two
  wrappers clear the reserved word first.
\<close>

record 'd rm_ops =
  rm_int :: "u8 \<Rightarrow> DPMI_REG \<Rightarrow> 'd \<Rightarrow> DPMI_REG \<times> 'd"
  rm_retf :: "DPMI_REG \<Rightarrow> 'd \<Rightarrow> DPMI_REG \<times> 'd"
  rm_code :: "DPMI_REG \<Rightarrow> 'd \<Rightarrow> u16"
  dos_alloc :: "u16 \<Rightarrow> 'd \<Rightarrow> (int \<times> int) \<times> 'd"
  dos_free :: "u16 \<Rightarrow> 'd \<Rightarrow> 'd"

definition DPMI_CallRealModeINT :: "'d rm_ops \<Rightarrow> u8 \<Rightarrow> DPMI_REG \<Rightarrow> 'd \<Rightarrow> DPMI_REG \<times> 'd" where
  "DPMI_CallRealModeINT ops i r d = rm_int ops i (r\<lparr>r_reserved := 0\<rparr>) d"

definition DPMI_CallRealModeRETF :: "'d rm_ops \<Rightarrow> DPMI_REG \<Rightarrow> 'd \<Rightarrow> DPMI_REG \<times> 'd" where
  "DPMI_CallRealModeRETF ops r d = rm_retf ops (r\<lparr>r_reserved := 0\<rparr>) d"

definition retf_code :: "'d rm_ops \<Rightarrow> DPMI_REG \<Rightarrow> 'd \<Rightarrow> u16" where
  "retf_code ops r d = rm_code ops (r\<lparr>r_reserved := 0\<rparr>) d"

text \<open>
  \<open>__dpmi_allocate_dos_memory\<close> answers the segment and stores the selector, or
  answers -1 and stores the size of the largest block. The source keeps the answer
  in a \<open>uint16_t\<close> and compares that with -1.
\<close>

definition DPMI_DOSMalloc :: "'d rm_ops \<Rightarrow> u16 \<Rightarrow> 'd \<Rightarrow> u32 \<times> 'd" where
  "DPMI_DOSMalloc ops paras d =
     (let ((ret, selector), d') = dos_alloc ops paras d;
          segment = (word_of_int ret :: u16)
      in if uint segment \<noteq> - 1
         then (push_bit 16 (word_of_int selector) OR ucast segment, d')
         else (0, d'))"

definition DPMI_DOSFree :: "'d rm_ops \<Rightarrow> u32 \<Rightarrow> 'd \<Rightarrow> 'd" where
  "DPMI_DOSFree ops segment d = dos_free ops (ucast (drop_bit 16 segment)) d"

text \<open>A failed allocation is not reported: the low half of the result is \<open>0xFFFF\<close>,
  never zero, since a 16-bit value is never -1.\<close>

lemma DPMI_DOSMalloc_fails:
  "dos_alloc ops paras d = ((- 1, largest), d') \<Longrightarrow>
   DPMI_DOSMalloc ops paras d = (push_bit 16 (word_of_int largest) OR 0xFFFF, d')"
  by (simp add: DPMI_DOSMalloc_def Let_def mask_eq_exp_minus_1 unsigned_minus_1_eq_mask)

lemma DPMI_DOSMalloc_fails_nonzero:
  assumes "dos_alloc ops paras d = ((- 1, largest), d')"
  shows "fst (DPMI_DOSMalloc ops paras d) \<noteq> 0"
proof -
  have "bit (fst (DPMI_DOSMalloc ops paras d)) 0"
    by (simp add: DPMI_DOSMalloc_fails [OF assms] bit_or_iff)
  then show ?thesis by auto
qed

end
