(* ===== verification/Virq.thy ===== *)
theory Virq
  imports Pic Regs
begin

text \<open>
  \<open>src/sbemu/virq.c\<close>: the virtual interrupt controller. While an interrupt is
  injected into the guest (\<open>VIRQ_Irq \<noteq> -1\<close>) the guest's accesses to the
  controller ports are answered from \<open>VIRQ_ISR\<close> and never reach the machine;
  otherwise they are forwarded, with the in-service bits of the emulator's own
  interrupts masked. The state of the emulator and the state \<open>'h\<close> of the
  machine behind the untrapped ports travel as a pair.
\<close>

record virq =
  VIRQ_Mask :: "int \<Rightarrow> u8"
  VIRQ_Irq :: int
  VIRQ_ISR :: "int \<Rightarrow> u8"
  VIRQ_OCW :: "int \<Rightarrow> u8"

definition virq_initial :: virq where
  "virq_initial = \<lparr>VIRQ_Mask = (\<lambda>_. 0), VIRQ_Irq = -1, VIRQ_ISR = (\<lambda>_. 0), VIRQ_OCW = (\<lambda>_. 0)\<rparr>"

definition VIRQ_IS_VIRTUALIZING :: "virq \<Rightarrow> bool" where
  "VIRQ_IS_VIRTUALIZING q = (VIRQ_Irq q \<noteq> -1)"

definition VIRQ_index :: "u16 \<Rightarrow> int" where
  "VIRQ_index port = (if port = 0x20 then 0 else 1)"

text \<open>\<open>inp\<close> is the direct port read of the C library, before any trap is installed.\<close>

definition VIRQ_Init :: "(u16 \<Rightarrow> 'h \<Rightarrow> u8 \<times> 'h) \<Rightarrow> virq \<Rightarrow> 'h \<Rightarrow> virq \<times> 'h" where
  "VIRQ_Init inp q h =
    (let (a, h) = inp 0x4D0 h;
         m0 = (a AND NOT 0x07) OR 0x04;
         (m1, h) = inp 0x4D1 h
     in (q\<lparr>VIRQ_Mask := (VIRQ_Mask q)(0 := NOT m0, 1 := NOT m1)\<rparr>, h))"

definition VIRQ_Write :: "'h io_ops \<Rightarrow> u16 \<Rightarrow> u8 \<Rightarrow> virq \<times> 'h \<Rightarrow> virq \<times> 'h" where
  "VIRQ_Write io port v = (\<lambda>(q, h).
    if VIRQ_IS_VIRTUALIZING q then
      if port AND 0x0F = 0 then
        let index = VIRQ_index port;
            q = q\<lparr>VIRQ_OCW := (VIRQ_OCW q)(index := v)\<rparr>
        in if v = 0x20 then (q\<lparr>VIRQ_ISR := (VIRQ_ISR q)(index := 0)\<rparr>, h) else (q, h)
      else (q, h)
    else
      let q = (if port AND 0x0F = 0
               then q\<lparr>VIRQ_OCW := (VIRQ_OCW q)(VIRQ_index port := v)\<rparr> else q)
      in (q, UntrappedIO_OUT io port v h))"

definition VIRQ_Read :: "'h io_ops \<Rightarrow> u16 \<Rightarrow> virq \<times> 'h \<Rightarrow> u8 \<times> virq \<times> 'h" where
  "VIRQ_Read io port = (\<lambda>(q, h).
    if VIRQ_IS_VIRTUALIZING q then
      if port AND 0x0F = 0 \<and> VIRQ_OCW q (VIRQ_index port) = 0x0B
      then (VIRQ_ISR q (VIRQ_index port), q, h) else (0, q, h)
    else
      let (v, h) = UntrappedIO_IN io port h
      in if port AND 0x0F = 0 \<and> VIRQ_OCW q (VIRQ_index port) = 0x0B
         then (v AND VIRQ_Mask q (VIRQ_index port), q, h) else (v, q, h))"

text \<open>The guest's handler is what the two DPMI calls run: a function of the
  vector and the registers over the whole world.\<close>

record 'h guest_calls =
  CallRealModeINT :: "u8 \<Rightarrow> DPMI_REG \<Rightarrow> virq \<times> 'h \<Rightarrow> virq \<times> 'h"
  CallProtectedModeINT :: "u8 \<Rightarrow> DPMI_REG \<Rightarrow> virq \<times> 'h \<Rightarrow> virq \<times> 'h"

definition VIRQ_set_isr :: "u8 \<Rightarrow> virq \<Rightarrow> virq res" where
  "VIRQ_set_isr irq q =
    (let q = q\<lparr>VIRQ_ISR := (VIRQ_ISR q)(0 := 0, 1 := 0)\<rparr>
     in if irq < 8 then
          bindE (shl1 (uint irq)) (\<lambda>b. Inr (q\<lparr>VIRQ_ISR := (VIRQ_ISR q)(0 := ucast b)\<rparr>))
        else
          bindE (shl1 (uint irq - 8)) (\<lambda>b.
            Inr (q\<lparr>VIRQ_ISR := (VIRQ_ISR q)(0 := 0x04, 1 := ucast b)\<rparr>)))"

definition VIRQ_run_guest :: "'h guest_calls \<Rightarrow> u8 \<Rightarrow> DPMI_REG \<Rightarrow> bool \<Rightarrow> virq \<times> 'h \<Rightarrow> virq \<times> 'h" where
  "VIRQ_run_guest g irq reg VM w =
    (if VM then CallRealModeINT g (PIC_IRQ2VEC irq) (reg\<lparr>r_sp := 0, r_ss := 0, r_flags := 0\<rparr>) w
     else if irq = 5 then CallProtectedModeINT g 0x0D reg w
     else CallProtectedModeINT g 0x0F reg w)"

definition VIRQ_Invoke ::
    "'h io_ops \<Rightarrow> 'h guest_calls \<Rightarrow> u8 \<Rightarrow> DPMI_REG \<Rightarrow> bool \<Rightarrow> virq \<times> 'h \<Rightarrow> (virq \<times> 'h) res" where
  "VIRQ_Invoke io g irq reg VM = (\<lambda>(q, h).
    let (msk, h) = PIC_GetIRQMask io h;
        h = PIC_SetIRQMask io 0xFFFF h
    in bindE (VIRQ_set_isr irq q) (\<lambda>q.
       let q = q\<lparr>VIRQ_Irq := uint irq\<rparr>;
           (q, h) = VIRQ_run_guest g irq reg VM (q, h);
           q = q\<lparr>VIRQ_Irq := -1\<rparr>
       in Inr (q, PIC_SetIRQMask io msk h)))"

section \<open>The virtual controller implements the controller interface\<close>

text \<open>The ports a guest sees.\<close>

definition virq_ops :: "'h io_ops \<Rightarrow> (virq \<times> 'h) io_ops" where
  "virq_ops io = \<lparr>io_out = VIRQ_Write io, io_in = VIRQ_Read io\<rparr>"

definition virq_isr1 :: "virq \<times> 'h \<Rightarrow> u8" where "virq_isr1 w = VIRQ_ISR (fst w) 0"

definition virq_isr2 :: "virq \<times> 'h \<Rightarrow> u8" where "virq_isr2 w = VIRQ_ISR (fst w) 1"

lemma virq_ops_simps [simp]:
  "io_out (virq_ops io) = VIRQ_Write io" "io_in (virq_ops io) = VIRQ_Read io"
  by (simp_all add: virq_ops_def)

lemma VIRQ_index_range: "0 \<le> VIRQ_index port" "VIRQ_index port < 2"
  by (simp_all add: VIRQ_index_def)

text \<open>\<open>virq_injecting k h\<close>: the interrupt \<open>k\<close> is being injected and the
  machine behind the ports is in state \<open>h\<close>; no access of the guest leaves it.\<close>

definition virq_injecting :: "int \<Rightarrow> 'h \<Rightarrow> virq \<times> 'h \<Rightarrow> bool" where
  "virq_injecting k h w = (k \<noteq> -1 \<and> VIRQ_Irq (fst w) = k \<and> snd w = h)"

interpretation vpic: pic_controller "virq_ops io" virq_isr1 virq_isr2 "virq_injecting k h" for io k h
  by unfold_locales
    (auto simp: virq_isr1_def virq_isr2_def virq_injecting_def VIRQ_Write_def VIRQ_Read_def
      VIRQ_IS_VIRTUALIZING_def VIRQ_index_def Let_def)

lemma VIRQ_set_isr_serving:
  assumes "irq < 16" "irq \<noteq> 2"
  shows "\<exists>q2. VIRQ_set_isr irq q = Inr q2 \<and> PIC_serving irq (VIRQ_ISR q2 0) (VIRQ_ISR q2 1)
    \<and> VIRQ_Mask q2 = VIRQ_Mask q \<and> VIRQ_OCW q2 = VIRQ_OCW q \<and> VIRQ_Irq q2 = VIRQ_Irq q"
proof -
  have "irq \<in> {0, 1, 2, 3, 4, 5, 6, 7, 8, 9, 10, 11, 12, 13, 14, 15}"
    using assms(1) u8_below [of irq 16] by (auto simp: word_less_nat_alt upt_rec)
  then show ?thesis
    using assms(2) by (auto simp: VIRQ_set_isr_def PIC_serving_def word_less_nat_alt)
qed

lemma VIRQ_set_isr_bad: "irq \<ge> 40 \<Longrightarrow> VIRQ_set_isr irq q = Inl Bad_shift"
  by (auto simp: VIRQ_set_isr_def word_le_def word_less_def uint_word_ariths)

section \<open>Sequences of guest accesses\<close>

datatype virq_access = Wr u16 u8 | Rd u16

primrec virq_access1 :: "'h io_ops \<Rightarrow> virq_access \<Rightarrow> virq \<times> 'h \<Rightarrow> virq \<times> 'h" where
  "virq_access1 io (Wr port v) w = VIRQ_Write io port v w"
| "virq_access1 io (Rd port) w = snd (VIRQ_Read io port w)"

lemma virq_access1_injecting:
  "virq_injecting k h w \<Longrightarrow> virq_injecting k h (virq_access1 io a w)"
  by (cases a; cases w)
    (auto simp: virq_injecting_def VIRQ_Write_def VIRQ_Read_def VIRQ_IS_VIRTUALIZING_def Let_def)

lemma virq_access1_isr_mono:
  "virq_injecting k h w \<Longrightarrow>
    VIRQ_ISR (fst (virq_access1 io a w)) i = VIRQ_ISR (fst w) i
    \<or> VIRQ_ISR (fst (virq_access1 io a w)) i = 0"
  by (cases a; cases w)
    (auto simp: virq_injecting_def VIRQ_Write_def VIRQ_Read_def VIRQ_IS_VIRTUALIZING_def Let_def)

lemma virq_accesses_injecting:
  "virq_injecting k h w \<Longrightarrow> virq_injecting k h (fold (virq_access1 io) accs w)
    \<and> (VIRQ_ISR (fst (fold (virq_access1 io) accs w)) i \<in> {VIRQ_ISR (fst w) i, 0})"
proof (induction accs arbitrary: w)
  case Nil
  then show ?case by simp
next
  case (Cons a accs)
  then show ?case
    using virq_access1_injecting [OF Cons.prems, of io a]
      virq_access1_isr_mono [OF Cons.prems, of io a i] by fastforce
qed

section \<open>The interrupt mask of the real controllers\<close>

text \<open>Documented behaviour of the 8259 pair behind the untrapped ports: the data
  ports read and write the mask registers \<open>imr1\<close> and \<open>imr2\<close>.\<close>

definition pic_imr_laws :: "'h io_ops \<Rightarrow> ('h \<Rightarrow> u8) \<Rightarrow> ('h \<Rightarrow> u8) \<Rightarrow> bool" where
  "pic_imr_laws io imr1 imr2 =
    (\<forall>h v. imr1 (io_out io PIC_DATA1 v h) = v \<and> imr2 (io_out io PIC_DATA1 v h) = imr2 h
       \<and> imr2 (io_out io PIC_DATA2 v h) = v \<and> imr1 (io_out io PIC_DATA2 v h) = imr1 h
       \<and> io_in io PIC_DATA1 h = (imr1 h, h) \<and> io_in io PIC_DATA2 h = (imr2 h, h))"

lemma PIC_GetIRQMask_laws:
  "pic_imr_laws io imr1 imr2 \<Longrightarrow>
    PIC_GetIRQMask io h = (push_bit 8 (b2w (imr2 h)) OR b2w (imr1 h), h)"
  by (simp add: pic_imr_laws_def PIC_GetIRQMask_def UntrappedIO_IN_def)

lemma PIC_SetIRQMask_laws:
  "pic_imr_laws io imr1 imr2 \<Longrightarrow>
    imr1 (PIC_SetIRQMask io msk h) = lo8 msk \<and> imr2 (PIC_SetIRQMask io msk h) = hi8 msk"
  by (simp add: pic_imr_laws_def PIC_SetIRQMask_def UntrappedIO_OUT_def)

text \<open>A machine with just the two mask registers, and a guest that does nothing.\<close>

definition pic_demo :: "(u8 \<times> u8) io_ops" where
  "pic_demo = \<lparr>io_out = (\<lambda>p v h. if p = PIC_DATA1 then (v, snd h)
                          else if p = PIC_DATA2 then (fst h, v) else h),
               io_in = (\<lambda>p h. (if p = PIC_DATA1 then fst h else if p = PIC_DATA2 then snd h else 0, h))\<rparr>"

definition guest_idle :: "'h guest_calls" where
  "guest_idle = \<lparr>CallRealModeINT = (\<lambda>_ _ w. w), CallProtectedModeINT = (\<lambda>_ _ w. w)\<rparr>"

section \<open>Properties\<close>

text \<open>C31: While an interrupt below 16 other than the cascade line is injected, a guest
  handler that asks the (virtual) controller which interrupt it serves gets exactly that
  interrupt, its end-of-interrupt clears both in-service registers, the injection stays
  active, and none of this reaches the real controller.\<close>

theorem virq_guest_isr:
  assumes "irq < 16" "irq \<noteq> 2"
  shows "\<exists>q2. VIRQ_set_isr irq q = Inr q2 \<and>
    (\<exists>w2. PIC_GetIRQ (virq_ops io) (q2\<lparr>VIRQ_Irq := uint irq\<rparr>, h) = Inr (irq, w2) \<and> snd w2 = h) \<and>
    (\<exists>q3. PIC_SendEOIWithIRQ (virq_ops io) irq (q2\<lparr>VIRQ_Irq := uint irq\<rparr>, h) = Inr (q3, h)
       \<and> VIRQ_ISR q3 0 = 0 \<and> VIRQ_ISR q3 1 = 0 \<and> VIRQ_Irq q3 = uint irq)"
proof -
  obtain q2 where q2: "VIRQ_set_isr irq q = Inr q2" "PIC_serving irq (VIRQ_ISR q2 0) (VIRQ_ISR q2 1)"
    using VIRQ_set_isr_serving [OF assms] by blast
  let ?w = "(q2\<lparr>VIRQ_Irq := uint irq\<rparr>, h)"
  have "uint irq \<noteq> -1" using uint_ge_0 [of irq] by linarith
  then have inj: "virq_injecting (uint irq) h ?w" by (simp add: virq_injecting_def)
  have sv: "PIC_serving irq (virq_isr1 ?w) (virq_isr2 ?w)"
    using q2 by (simp add: virq_isr1_def virq_isr2_def)
  show ?thesis
    using q2(1) vpic.GetIRQ_serving [OF inj sv, of io] vpic.SendEOIWithIRQ_serving [OF inj sv, of io]
    by (fastforce simp: virq_injecting_def virq_isr1_def virq_isr2_def)
qed

theorem virq_guest_isr_witness:
  "\<exists>q2. VIRQ_set_isr 7 virq_initial = Inr q2 \<and>
    (\<exists>w2. PIC_GetIRQ (virq_ops pic_demo) (q2\<lparr>VIRQ_Irq := uint (7 :: u8)\<rparr>, (0, 0)) = Inr (7, w2)
       \<and> snd w2 = (0, 0)) \<and>
    (\<exists>q3. PIC_SendEOIWithIRQ (virq_ops pic_demo) 7 (q2\<lparr>VIRQ_Irq := uint (7 :: u8)\<rparr>, (0, 0))
         = Inr (q3, (0, 0))
       \<and> VIRQ_ISR q3 0 = 0 \<and> VIRQ_ISR q3 1 = 0 \<and> VIRQ_Irq q3 = uint (7 :: u8))"
  by (rule virq_guest_isr) simp_all

text \<open>Whatever sequence of reads and writes of the controller ports the guest performs
  while an interrupt is injected, the machine behind the ports is untouched, the injection
  stays active, and the in-service registers only ever lose requests.\<close>

theorem virq_guest_isolated:
  assumes "VIRQ_IS_VIRTUALIZING q"
  shows "snd (fold (virq_access1 io) accs (q, h)) = h \<and>
    VIRQ_Irq (fst (fold (virq_access1 io) accs (q, h))) = VIRQ_Irq q \<and>
    VIRQ_ISR (fst (fold (virq_access1 io) accs (q, h))) i \<in> {VIRQ_ISR q i, 0}"
proof -
  have "virq_injecting (VIRQ_Irq q) h (q, h)"
    using assms by (simp add: virq_injecting_def VIRQ_IS_VIRTUALIZING_def)
  then show ?thesis
    using virq_accesses_injecting [of "VIRQ_Irq q" h "(q, h)" io accs i]
    by (simp add: virq_injecting_def)
qed

theorem virq_guest_isolated_witness:
  "snd (fold (virq_access1 pic_demo) [Wr 0x21 0xFF, Wr 0x20 0x20, Rd 0xA1]
      (virq_initial\<lparr>VIRQ_Irq := 5\<rparr>, (1, 2))) = (1, 2)"
  by (rule virq_guest_isolated [THEN conjunct1]) (simp add: VIRQ_IS_VIRTUALIZING_def)

text \<open>An injection always completes for the interrupts below 40 that the shift allows:
  it ends with no interrupt injected and the interrupt masks of both real controllers as they
  were, whatever the guest's handlers did; inside, the guest runs with all interrupts masked.\<close>

theorem VIRQ_Invoke_restores:
  assumes laws: "pic_imr_laws io imr1 imr2" and "irq < 40"
  shows "\<exists>q2 h2 q3 h3. VIRQ_set_isr irq q = Inr q2
    \<and> imr1 h2 = 0xFF \<and> imr2 h2 = 0xFF
    \<and> VIRQ_Invoke io g irq reg VM (q, h) = Inr (q3\<lparr>VIRQ_Irq := -1\<rparr>, h3)
    \<and> q3 = fst (VIRQ_run_guest g irq reg VM (q2\<lparr>VIRQ_Irq := uint irq\<rparr>, h2))
    \<and> imr1 h3 = imr1 h \<and> imr2 h3 = imr2 h"
proof -
  have "uint irq < 40" using assms(2) by (simp add: word_less_def)
  then obtain q2 where q2: "VIRQ_set_isr irq q = Inr q2"
    by (cases "irq < 8") (auto simp: VIRQ_set_isr_def word_less_def)
  let ?msk = "push_bit 8 (b2w (imr2 h)) OR b2w (imr1 h)"
  let ?h2 = "PIC_SetIRQMask io 0xFFFF h"
  obtain q3 h3 where run: "VIRQ_run_guest g irq reg VM (q2\<lparr>VIRQ_Irq := uint irq\<rparr>, ?h2) = (q3, h3)"
    by fastforce
  have "VIRQ_Invoke io g irq reg VM (q, h) = Inr (q3\<lparr>VIRQ_Irq := -1\<rparr>, PIC_SetIRQMask io ?msk h3)"
    by (simp add: VIRQ_Invoke_def PIC_GetIRQMask_laws [OF laws] q2 run)
  moreover have "imr1 ?h2 = 0xFF" "imr2 ?h2 = 0xFF"
    using PIC_SetIRQMask_laws [OF laws] by (simp_all add: lo8_def hi8_def)
  ultimately show ?thesis
    using q2 run PIC_SetIRQMask_laws [OF laws, of ?msk h3] by auto
qed

theorem VIRQ_Invoke_restores_witness:
  "\<exists>q2 h2 q3 h3. VIRQ_set_isr 7 virq_initial = Inr q2
    \<and> fst (h2 :: u8 \<times> u8) = 0xFF \<and> snd h2 = 0xFF
    \<and> VIRQ_Invoke pic_demo guest_idle 7 reg_zero False (virq_initial, (0xB8, 0x8F))
        = Inr (q3\<lparr>VIRQ_Irq := -1\<rparr>, h3)
    \<and> q3 = fst (VIRQ_run_guest guest_idle 7 reg_zero False (q2\<lparr>VIRQ_Irq := uint (7 :: u8)\<rparr>, h2))
    \<and> fst h3 = fst (0xB8 :: u8, 0x8F :: u8) \<and> snd h3 = snd (0xB8 :: u8, 0x8F :: u8)"
  by (rule VIRQ_Invoke_restores) (simp_all add: pic_imr_laws_def pic_demo_def)

text \<open>The vector of a protected-mode injection is the one of the interrupt only for 5
  and 7; interrupt 9, which the program accepts as well, is delivered at vector 0x0F.\<close>

lemma VIRQ_pm_vector:
  "irq \<in> {5, 7} \<Longrightarrow>
    VIRQ_run_guest g irq reg False w = CallProtectedModeINT g (PIC_IRQ2VEC irq) reg w"
  "VIRQ_run_guest g 9 reg False w = CallProtectedModeINT g 0x0F reg w"
  "PIC_IRQ2VEC 9 = 0x71"
  by (auto simp: VIRQ_run_guest_def PIC_IRQ2VEC_def word_less_def)

end
