(* ===== verification/Aucards.thy ===== *)
theory Aucards
  imports Prelude
begin

text \<open>
  The card-independent audio output (\<open>mpxplay/au_cards/au_cards.c\<close>, \<open>mpxplay/au_cards/dmairq.c\<close>):
  starting and stopping a card, the free space of its DMA buffer, the writing of samples into that
  ring, the setting of its rate and its mixer, and the installation of its interrupt. The
  functions of a card driver are the fields of \<open>one_sndcard_info\<close>; a driver can change
  its card, the audio state and the global state, so each maps the whole state. The DMA buffer
  is the list of its bytes. A pointer into the sample buffer is the list of the bytes from there.
\<close>

section \<open>State\<close>

record mpxplay_audioout_info =
  pcm_sample :: "u8 list"
  samplenum :: u32
  bytespersample_card :: u8
  freq_set :: u32
  freq_song :: u32
  freq_card :: u32
  chan_set :: u32
  chan_song :: u8
  chan_card :: u8
  bits_set :: u32
  bits_song :: u8
  bits_card :: u8
  card_wave_id :: u32
  card_controlbits :: u32
  card_infobits :: u32
  card_outbytes :: u32
  card_dmasize :: u32
  card_dmalastput :: u32
  card_dmaspace :: u32
  card_dmafilled :: u32
  card_dma_lastgoodpos :: u32
  card_bytespersign :: u32
  card_dmaout_under_int08 :: u32
  card_DMABUFF :: "u8 list option"
  card_irq :: u8
  card_master_volume :: int
  card_mixer_values :: "int \<Rightarrow> int"
  card_samples_per_int :: int
  fm :: bool
  mpu401 :: bool
  mpu401_softread :: bool

text \<open>The global variables of the output module, with the state of the hardware.\<close>

record 'd au_globals =
  playcontrol :: u32
  outmode :: u32
  intsoundcontrol :: u32
  allcpuusage :: u32
  allcputime :: u32
  device :: 'd

type_synonym 'd au = "mpxplay_audioout_info \<times> 'd au_globals"

record submixerchan =
  submixch_register :: u32
  submixch_max :: u32
  submixch_shift :: u32
  submixch_infobits :: u32

record onemixerchan =
  mixchan :: u32
  subchannelnum :: u32
  submixerchans :: "submixerchan list"

record 'd one_sndcard_info =
  infobits :: u32
  card_start :: "('d au \<Rightarrow> 'd au res) option"
  card_stop :: "('d au \<Rightarrow> 'd au res) option"
  card_close :: "('d au \<Rightarrow> 'd au res) option"
  card_setrate :: "('d au \<Rightarrow> 'd au res) option"
  cardbuf_writedata :: "u8 list \<Rightarrow> u32 \<Rightarrow> 'd au \<Rightarrow> 'd au res"
  cardbuf_pos :: "('d au \<Rightarrow> (u32 \<times> 'd au) res) option"
  cardbuf_clear :: "('d au \<Rightarrow> 'd au res) option"
  cardbuf_int_monitor :: "('d au \<Rightarrow> 'd au res) option"
  card_writemixer :: "(u32 \<Rightarrow> u32 \<Rightarrow> 'd au \<Rightarrow> 'd au res) option"
  card_readmixer :: "(u32 \<Rightarrow> 'd au \<Rightarrow> (u32 \<times> 'd au) res) option"
  card_mixerchans :: "onemixerchan list option"
  irq_routine :: "('d au \<Rightarrow> (bool \<times> 'd au) res) option"
  card_fm_write :: "(u32 \<Rightarrow> u8 \<Rightarrow> 'd au \<Rightarrow> 'd au res) option"
  card_fm_read :: "(u32 \<Rightarrow> 'd au \<Rightarrow> (u8 \<times> 'd au) res) option"
  card_mpu401_write :: "(u32 \<Rightarrow> u8 \<Rightarrow> 'd au \<Rightarrow> 'd au res) option"
  card_mpu401_read :: "(u32 \<Rightarrow> 'd au \<Rightarrow> (u8 \<times> 'd au) res) option"

definition AUINFOS_CARDCNTRLBIT_DMACLEAR :: u32 where "AUINFOS_CARDCNTRLBIT_DMACLEAR = 8"
definition AUINFOS_CARDCNTRLBIT_DMADONTWAIT :: u32 where "AUINFOS_CARDCNTRLBIT_DMADONTWAIT = 16"
definition AUINFOS_CARDCNTRLBIT_BITSTREAMOUT :: u32 where "AUINFOS_CARDCNTRLBIT_BITSTREAMOUT = 32"
definition AUINFOS_CARDCNTRLBIT_BITSTREAMNOFRH :: u32 where "AUINFOS_CARDCNTRLBIT_BITSTREAMNOFRH = 64"
definition AUINFOS_CARDCNTRLBIT_BITSTREAMHEAD :: u32 where "AUINFOS_CARDCNTRLBIT_BITSTREAMHEAD = 128"
definition AUINFOS_CARDCNTRLBIT_AUTOTAGLFN :: u32 where "AUINFOS_CARDCNTRLBIT_AUTOTAGLFN = 512"
definition AUINFOS_CARDCNTRLBIT_UPDATEFREQ :: u32 where "AUINFOS_CARDCNTRLBIT_UPDATEFREQ = 1024"
definition AUINFOS_CARDINFOBIT_PLAYING :: u32 where "AUINFOS_CARDINFOBIT_PLAYING = 1"
definition AUINFOS_CARDINFOBIT_IRQRUN :: u32 where "AUINFOS_CARDINFOBIT_IRQRUN = 2"
definition AUINFOS_CARDINFOBIT_IRQSTACKBUSY :: u32 where "AUINFOS_CARDINFOBIT_IRQSTACKBUSY = 4"
definition AUINFOS_CARDINFOBIT_DMAUNDERRUN :: u32 where "AUINFOS_CARDINFOBIT_DMAUNDERRUN = 8"
definition AUINFOS_CARDINFOBIT_DMAFULL :: u32 where "AUINFOS_CARDINFOBIT_DMAFULL = 16"
definition AUINFOS_CARDINFOBIT_BITSTREAMOUT :: u32 where "AUINFOS_CARDINFOBIT_BITSTREAMOUT = 64"
definition AUINFOS_CARDINFOBIT_BITSTREAMNOFRH :: u32 where "AUINFOS_CARDINFOBIT_BITSTREAMNOFRH = 128"
definition SNDCARD_CARDBUF_SPACE :: u32 where "SNDCARD_CARDBUF_SPACE = 4"
definition SNDCARD_SPECIAL_IRQ :: u32 where "SNDCARD_SPECIAL_IRQ = 8"
definition SNDCARD_SETRATE :: u32 where "SNDCARD_SETRATE = 16"
definition SNDCARD_LOWLEVELHAND :: u32 where "SNDCARD_LOWLEVELHAND = 32"
definition PLAYC_STARTNEXT :: u32 where "PLAYC_STARTNEXT = 32"
definition PLAYC_RUNNING :: u32 where "PLAYC_RUNNING = 64"
definition INTSOUND_DECODER :: u32 where "INTSOUND_DECODER = 1"
definition INTSOUND_NOINT08 :: u32 where "INTSOUND_NOINT08 = 8"
definition INTSOUND_NOBUSYWAIT :: u32 where "INTSOUND_NOBUSYWAIT = 32"

definition intsoundconfig :: u32 where "intsoundconfig = INTSOUND_NOINT08 OR INTSOUND_NOBUSYWAIT"

lemmas au_bits = AUINFOS_CARDCNTRLBIT_DMACLEAR_def AUINFOS_CARDCNTRLBIT_DMADONTWAIT_def
  AUINFOS_CARDCNTRLBIT_BITSTREAMOUT_def AUINFOS_CARDCNTRLBIT_BITSTREAMNOFRH_def
  AUINFOS_CARDCNTRLBIT_BITSTREAMHEAD_def AUINFOS_CARDCNTRLBIT_AUTOTAGLFN_def
  AUINFOS_CARDCNTRLBIT_UPDATEFREQ_def AUINFOS_CARDINFOBIT_PLAYING_def AUINFOS_CARDINFOBIT_IRQRUN_def
  AUINFOS_CARDINFOBIT_IRQSTACKBUSY_def AUINFOS_CARDINFOBIT_DMAUNDERRUN_def AUINFOS_CARDINFOBIT_DMAFULL_def
  AUINFOS_CARDINFOBIT_BITSTREAMOUT_def AUINFOS_CARDINFOBIT_BITSTREAMNOFRH_def

definition funcbit_test :: "u32 \<Rightarrow> u32 \<Rightarrow> bool" where
  "funcbit_test var b = (var AND b \<noteq> 0)"

definition funcbit_enable :: "u32 \<Rightarrow> u32 \<Rightarrow> u32" where
  "funcbit_enable var b = var OR b"

definition funcbit_disable :: "u32 \<Rightarrow> u32 \<Rightarrow> u32" where
  "funcbit_disable var b = var AND NOT b"

definition funcbit_copy :: "u32 \<Rightarrow> u32 \<Rightarrow> u32 \<Rightarrow> u32" where
  "funcbit_copy var1 var2 b = (var1 AND NOT b) OR (var2 AND b)"

text \<open>Unsigned remainder, which fails on 0.\<close>

definition umod :: "u32 \<Rightarrow> u32 \<Rightarrow> u32 res" where
  "umod a b = (if b = 0 then Inl Div_zero else Inr (a mod b))"

definition deref :: "'a option \<Rightarrow> 'a res" where
  "deref p = (case p of None \<Rightarrow> Inl Null_pointer | Some c \<Rightarrow> Inr c)"

text \<open>A call through a function pointer that is skipped when the pointer is null, and a
  change of the audio state or the global state alone.\<close>

definition call_if :: "('s \<Rightarrow> 's res) option \<Rightarrow> 's \<Rightarrow> 's res" where
  "call_if f s = (case f of None \<Rightarrow> Inr s | Some g \<Rightarrow> g s)"

definition upd_aui :: "(mpxplay_audioout_info \<Rightarrow> mpxplay_audioout_info) \<Rightarrow> 'd au \<Rightarrow> 'd au" where
  "upd_aui f s = (f (fst s), snd s)"

definition upd_glb :: "('d au_globals \<Rightarrow> 'd au_globals) \<Rightarrow> 'd au \<Rightarrow> 'd au" where
  "upd_glb f s = (fst s, f (snd s))"

abbreviation info_on :: "u32 \<Rightarrow> 'd au \<Rightarrow> 'd au" where
  "info_on b \<equiv> upd_aui (\<lambda>a. a\<lparr>card_infobits := funcbit_enable (card_infobits a) b\<rparr>)"

abbreviation info_off :: "u32 \<Rightarrow> 'd au \<Rightarrow> 'd au" where
  "info_off b \<equiv> upd_aui (\<lambda>a. a\<lparr>card_infobits := funcbit_disable (card_infobits a) b\<rparr>)"

abbreviation info_has :: "u32 \<Rightarrow> 'd au \<Rightarrow> bool" where
  "info_has b s \<equiv> funcbit_test (card_infobits (fst s)) b"

definition DISALLOW_INTSOUNDDECODER :: "'d au \<Rightarrow> u32 \<times> 'd au" where
  "DISALLOW_INTSOUNDDECODER s = (intsoundcontrol (snd s),
    upd_glb (\<lambda>g. g\<lparr>intsoundcontrol := funcbit_disable (intsoundcontrol g) INTSOUND_DECODER\<rparr>) s)"

definition ALLOW_INTSOUNDDECODER :: "u32 \<Rightarrow> 'd au \<Rightarrow> 'd au" where
  "ALLOW_INTSOUNDDECODER save s = (if funcbit_test intsoundconfig INTSOUND_DECODER
    then upd_glb (\<lambda>g. g\<lparr>intsoundcontrol := funcbit_copy (intsoundcontrol g) save INTSOUND_DECODER\<rparr>) s else s)"

section \<open>Starting and stopping\<close>

definition AU_clearbuffs :: "'d one_sndcard_info option \<Rightarrow> 'd au \<Rightarrow> 'd au res" where
  "AU_clearbuffs h s = bindE (deref h) (\<lambda>c. bindE (call_if (cardbuf_clear c) s) (\<lambda>s.
    Inr (upd_aui (\<lambda>a. a\<lparr>card_controlbits := funcbit_disable (card_controlbits a) AUINFOS_CARDCNTRLBIT_DMACLEAR\<rparr>) s)))"

definition AU_clear_if :: "'d one_sndcard_info option \<Rightarrow> 'd au \<Rightarrow> 'd au res" where
  "AU_clear_if h s = (if funcbit_test (card_controlbits (fst s)) AUINFOS_CARDCNTRLBIT_DMACLEAR
    then AU_clearbuffs h s else Inr s)"

definition AU_start :: "'d one_sndcard_info option \<Rightarrow> 'd au \<Rightarrow> 'd au res" where
  "AU_start h s = bindE
    (if \<not> info_has AUINFOS_CARDINFOBIT_PLAYING s then
       (let (save, s) = DISALLOW_INTSOUNDDECODER s in
        bindE (AU_clear_if h s) (\<lambda>s.
        bindE (deref h) (\<lambda>c.
        bindE (call_if (card_start c) s) (\<lambda>s.
        Inr (ALLOW_INTSOUNDDECODER save (info_on AUINFOS_CARDINFOBIT_PLAYING s))))))
     else Inr s)
    (\<lambda>s. Inr (info_on AUINFOS_CARDINFOBIT_DMAFULL
      (upd_glb (\<lambda>g. g\<lparr>playcontrol := funcbit_enable (playcontrol g) PLAYC_RUNNING\<rparr>) s)))"

definition AU_prestart :: "'d one_sndcard_info option \<Rightarrow> 'd au \<Rightarrow> 'd au res" where
  "AU_prestart h s = (if funcbit_test (intsoundcontrol (snd s)) INTSOUND_DECODER then AU_start h s
    else bindE (AU_clear_if h s) (\<lambda>s.
      Inr (upd_glb (\<lambda>g. g\<lparr>playcontrol := funcbit_enable (playcontrol g) PLAYC_RUNNING\<rparr>) s)))"

definition card_stop_if :: "'d one_sndcard_info option \<Rightarrow> 'd au \<Rightarrow> 'd au res" where
  "card_stop_if h s = (case h of None \<Rightarrow> Inr s | Some c \<Rightarrow> call_if (card_stop c) s)"

definition AU_stop :: "'d one_sndcard_info option \<Rightarrow> 'd au \<Rightarrow> 'd au res" where
  "AU_stop h s =
    (let s = upd_glb (\<lambda>g. g\<lparr>playcontrol := funcbit_disable (playcontrol g) PLAYC_RUNNING\<rparr>) s in
     if info_has AUINFOS_CARDINFOBIT_PLAYING s then
       (let (save, s) = DISALLOW_INTSOUNDDECODER (info_off AUINFOS_CARDINFOBIT_PLAYING s) in
        bindE (card_stop_if h s) (\<lambda>s.
        Inr (ALLOW_INTSOUNDDECODER save (info_off AUINFOS_CARDINFOBIT_DMAUNDERRUN
          (upd_aui (\<lambda>a. a\<lparr>card_dmafilled := card_dmalastput a,
             card_dmaspace := card_dmasize a - card_dmalastput a\<rparr>) s)))))
     else Inr s)"

definition AU_wait_and_stop :: "'d one_sndcard_info option \<Rightarrow> 'd au \<Rightarrow> 'd au res" where
  "AU_wait_and_stop h s = bindE
    (if info_has AUINFOS_CARDINFOBIT_PLAYING s then
       (let (save, s) = DISALLOW_INTSOUNDDECODER (info_off AUINFOS_CARDINFOBIT_PLAYING s) in
        bindE (card_stop_if h s) (\<lambda>s. Inr (ALLOW_INTSOUNDDECODER save s)))
     else Inr s)
    (\<lambda>s. Inr (upd_glb (\<lambda>g. g\<lparr>playcontrol := funcbit_disable (playcontrol g) PLAYC_RUNNING\<rparr>) s))"

text \<open>Closing the main card and the cards used for FM and for MIDI, each with its own
  audio state, over the same global state.\<close>

definition card_close_if :: "('d one_sndcard_info option \<times> mpxplay_audioout_info) option \<Rightarrow>
    'd au_globals \<Rightarrow> (('d one_sndcard_info option \<times> mpxplay_audioout_info) option \<times> 'd au_globals) res" where
  "card_close_if aui g = (case aui of Some (Some c, a) \<Rightarrow>
      bindE (call_if (card_close c) (a, g)) (\<lambda>s. Inr (Some (Some c, fst s), snd s))
    | _ \<Rightarrow> Inr (aui, g))"

definition AU_close :: "('d one_sndcard_info option \<times> mpxplay_audioout_info) option \<Rightarrow>
    ('d one_sndcard_info option \<times> mpxplay_audioout_info) option \<Rightarrow>
    ('d one_sndcard_info option \<times> mpxplay_audioout_info) option \<Rightarrow> 'd au_globals \<Rightarrow>
    (('d one_sndcard_info option \<times> mpxplay_audioout_info) option
      \<times> ('d one_sndcard_info option \<times> mpxplay_audioout_info) option
      \<times> ('d one_sndcard_info option \<times> mpxplay_audioout_info) option \<times> 'd au_globals) res" where
  "AU_close aui fm_aui mpu401_aui g = (case aui of None \<Rightarrow> Inr (aui, fm_aui, mpu401_aui, g)
    | Some (h, a) \<Rightarrow>
      bindE (AU_stop h (a, g)) (\<lambda>s.
      bindE (card_close_if (Some (h, fst s)) (snd s)) (\<lambda>(aui, g).
      bindE (card_close_if fm_aui g) (\<lambda>(fm_aui, g).
      bindE (card_close_if mpu401_aui g) (\<lambda>(mpu401_aui, g).
      Inr (aui, fm_aui, mpu401_aui, g))))))"

section \<open>The DMA buffer\<close>

definition memcpy_at :: "u8 list \<Rightarrow> nat \<Rightarrow> u8 list \<Rightarrow> nat \<Rightarrow> u8 list res" where
  "memcpy_at buf off src n = (if off + n \<le> length buf \<and> n \<le> length src
    then Inr (take off buf @ take n src @ drop (off + n) buf) else Inl Out_of_bounds)"

definition MDma_clearbuf :: "mpxplay_audioout_info \<Rightarrow> mpxplay_audioout_info res" where
  "MDma_clearbuf a = (case card_DMABUFF a of None \<Rightarrow> Inr a | Some buf \<Rightarrow>
    if card_dmasize a \<noteq> 0 then
      bindE (memcpy_at buf 0 (replicate (unat (card_dmasize a)) 0) (unat (card_dmasize a))) (\<lambda>buf.
      Inr (a\<lparr>card_DMABUFF := Some buf\<rparr>))
    else Inr a)"

definition dma_copy :: "u8 list \<Rightarrow> u32 \<Rightarrow> mpxplay_audioout_info \<Rightarrow> mpxplay_audioout_info res" where
  "dma_copy src n a = bindE (deref (card_DMABUFF a)) (\<lambda>buf.
    bindE (memcpy_at buf (unat (card_dmalastput a)) src (unat n)) (\<lambda>buf.
    Inr (a\<lparr>card_DMABUFF := Some buf\<rparr>)))"

definition MDma_writedata :: "u8 list \<Rightarrow> u32 \<Rightarrow> mpxplay_audioout_info \<Rightarrow> mpxplay_audioout_info res" where
  "MDma_writedata src left a =
    (let todo = card_dmasize a - card_dmalastput a in
     bindE (if todo \<le> left then
         bindE (dma_copy src todo a) (\<lambda>a.
         Inr (drop (unat todo) src, left - todo, a\<lparr>card_dmalastput := 0\<rparr>))
       else Inr (src, left, a)) (\<lambda>(src, left, a).
     if left \<noteq> 0 then
       bindE (dma_copy src left a) (\<lambda>a. Inr (a\<lparr>card_dmalastput := card_dmalastput a + left\<rparr>))
     else Inr a))"

definition MDma_interrupt_monitor :: "mpxplay_audioout_info \<Rightarrow> mpxplay_audioout_info res" where
  "MDma_interrupt_monitor a = (if card_dmafilled a < card_dmaout_under_int08 a * 2 then
      (if \<not> funcbit_test (card_infobits a) AUINFOS_CARDINFOBIT_DMAUNDERRUN then
        bindE (MDma_clearbuf a) (\<lambda>a.
        Inr (a\<lparr>card_infobits := funcbit_enable (card_infobits a) AUINFOS_CARDINFOBIT_DMAUNDERRUN\<rparr>))
       else Inr a)
    else Inr (a\<lparr>card_dmafilled := card_dmafilled a - card_dmaout_under_int08 a,
      card_infobits := funcbit_disable (card_infobits a) AUINFOS_CARDINFOBIT_DMAUNDERRUN\<rparr>))"

section \<open>Free space\<close>

definition buffer_protection :: "u32 \<Rightarrow> u32 res" where
  "buffer_protection bps = (let b = 32 + bps - 1 in bindE (umod b bps) (\<lambda>r. Inr (b - r)))"

definition space_from_card :: "('d au \<Rightarrow> (u32 \<times> 'd au) res) \<Rightarrow> 'd au \<Rightarrow> 'd au res" where
  "space_from_card pos s = (if info_has AUINFOS_CARDINFOBIT_PLAYING s then
      bindE (pos s) (\<lambda>(sp, s).
      bindE (umod sp (card_bytespersign (fst s))) (\<lambda>r. Inr (upd_aui (\<lambda>a. a\<lparr>card_dmaspace := sp - r\<rparr>) s)))
    else Inr (upd_aui (\<lambda>a. a\<lparr>card_dmaspace := (if card_outbytes a < card_dmaspace a
      then card_dmaspace a - card_outbytes a else 0)\<rparr>) s))"

definition put_after_underrun :: "u32 \<Rightarrow> 'd au \<Rightarrow> 'd au" where
  "put_after_underrun bufpos s = (if info_has AUINFOS_CARDINFOBIT_DMAUNDERRUN s then
      info_off AUINFOS_CARDINFOBIT_DMAUNDERRUN (upd_aui (\<lambda>a. a\<lparr>card_dmalastput :=
        (if card_outbytes a \<le> bufpos then bufpos - card_outbytes a
         else card_dmasize a + bufpos - card_outbytes a)\<rparr>) s)
    else s)"

definition space_from_pos :: "('d au \<Rightarrow> (u32 \<times> 'd au) res) \<Rightarrow> 'd au \<Rightarrow> 'd au res" where
  "space_from_pos pos s = bindE
    (if info_has AUINFOS_CARDINFOBIT_PLAYING s then
       bindE (pos s) (\<lambda>(bufpos, s).
       bindE (if card_dmasize (fst s) \<le> bufpos then Inr 0
          else bindE (umod bufpos (card_bytespersign (fst s))) (\<lambda>r. Inr (bufpos - r))) (\<lambda>bufpos.
       Inr (bufpos, put_after_underrun bufpos s)))
     else Inr (0, s))
    (\<lambda>(bufpos, s). Inr (upd_aui (\<lambda>a. a\<lparr>card_dmaspace := (if card_dmalastput a < bufpos
       then bufpos - card_dmalastput a else card_dmasize a - card_dmalastput a + bufpos)\<rparr>) s))"

definition AU_cardbuf_space :: "'d one_sndcard_info option \<Rightarrow> 'd au \<Rightarrow> (u32 \<times> 'd au) res" where
  "AU_cardbuf_space h s =
    bindE (buffer_protection (card_bytespersign (fst s))) (\<lambda>prot.
    (let s = upd_aui (\<lambda>a. if card_dmasize a \<le> card_dmalastput a then a\<lparr>card_dmalastput := 0\<rparr> else a) s in
     bindE (deref h) (\<lambda>c.
     bindE (case cardbuf_pos c of
         Some pos \<Rightarrow> if funcbit_test (infobits c) SNDCARD_CARDBUF_SPACE
           then space_from_card pos s else space_from_pos pos s
       | None \<Rightarrow> Inr (info_on AUINFOS_CARDINFOBIT_DMAFULL
           (upd_aui (\<lambda>a. a\<lparr>card_dmaspace := card_outbytes a + prot\<rparr>) s))) (\<lambda>s.
     (let s = upd_aui (\<lambda>a. if card_dmasize a < card_dmaspace a then a\<lparr>card_dmaspace := card_dmasize a\<rparr> else a) s;
          s = upd_aui (\<lambda>a. a\<lparr>card_dmafilled := card_dmasize a - card_dmaspace a\<rparr>) s in
      Inr (if prot < card_dmaspace (fst s) then card_dmaspace (fst s) - prot else 0, s))))))"

section \<open>Writing samples\<close>

text \<open>One round of a writing loop: a block that fits goes to the card.\<close>

definition put_block :: "'d one_sndcard_info option \<Rightarrow> u8 list \<Rightarrow> u32 \<Rightarrow> u32 \<Rightarrow> 'd au \<Rightarrow> (u8 list \<times> u32 \<times> u32 \<times> 'd au) res" where
  "put_block h pcm left space s =
    (let putblock = min space left in
     bindE (deref h) (\<lambda>c.
     bindE (cardbuf_writedata c pcm putblock s) (\<lambda>s.
     Inr (drop (unat putblock) pcm, left - putblock, putblock,
       upd_aui (\<lambda>a. a\<lparr>card_dmafilled := card_dmafilled a + putblock\<rparr>) s))))"

definition dma_account :: "u32 \<Rightarrow> 'd au \<Rightarrow> 'd au" where
  "dma_account putblock = upd_aui (\<lambda>a. a\<lparr>card_dmafilled := (if card_dmasize a < card_dmafilled a
       then card_dmasize a else card_dmafilled a),
     card_dmaspace := (if putblock < card_dmaspace a then card_dmaspace a - putblock else 0)\<rparr>)"

definition nowait_step :: "'d one_sndcard_info option \<Rightarrow> u8 list \<Rightarrow> u32 \<Rightarrow> u32 \<Rightarrow> 'd au \<Rightarrow>
    (u8 list \<times> u32 \<times> u32 \<times> 'd au) res" where
  "nowait_step h pcm left space s = (if card_bytespersign (fst s) \<le> space then
      bindE (put_block h pcm left space s) (\<lambda>(pcm, left, putblock, s).
      Inr (pcm, left, space - putblock, dma_account putblock s))
    else Inr (pcm, left, space, s))"

partial_function (option) nowait_loop :: "'d one_sndcard_info option \<Rightarrow> u8 list \<Rightarrow> u32 \<Rightarrow> u32 \<Rightarrow> 'd au \<Rightarrow>
    (u32 \<times> 'd au) res option" where
  "nowait_loop h pcm left space s = (case nowait_step h pcm left space s of
      Inl e \<Rightarrow> Some (Inl e)
    | Inr (pcm, left, space, s) \<Rightarrow>
        if left = 0 then Some (Inr (left, s))
        else if card_bytespersign (fst s) \<le> space then nowait_loop h pcm left space s
        else Some (Inr (left, s)))"

definition space_left :: "'d au \<Rightarrow> u32 \<Rightarrow> u32" where
  "space_left s prot = (if prot < card_dmaspace (fst s) then card_dmaspace (fst s) - prot else 0)"

definition aucards_writedata_nowait :: "'d one_sndcard_info option \<Rightarrow> u32 \<Rightarrow> 'd au \<Rightarrow> (u32 \<times> 'd au) res option" where
  "aucards_writedata_nowait h left s = (case buffer_protection (card_bytespersign (fst s)) of
      Inl e \<Rightarrow> Some (Inl e)
    | Inr prot \<Rightarrow> nowait_loop h (pcm_sample (fst s)) left (space_left s prot) s)"

text \<open>The waiting variant asks the card again until everything is written or the card stops.\<close>

partial_function (option) intsound_loop :: "'d one_sndcard_info option \<Rightarrow> u8 list \<Rightarrow> u32 \<Rightarrow> u32 \<Rightarrow> 'd au \<Rightarrow>
    (u32 \<times> 'd au) res option" where
  "intsound_loop h pcm left space s = (case nowait_step h pcm left space s of
      Inl e \<Rightarrow> Some (Inl e)
    | Inr (pcm, left, _, s) \<Rightarrow>
        if left = 0 then Some (Inr (0, s))
        else (case AU_cardbuf_space h s of
            Inl e \<Rightarrow> Some (Inl e)
          | Inr (space, s) \<Rightarrow>
              if info_has AUINFOS_CARDINFOBIT_PLAYING s then intsound_loop h pcm left space s
              else Some (Inr (0, s))))"

definition aucards_writedata_intsound :: "'d one_sndcard_info option \<Rightarrow> u32 \<Rightarrow> 'd au \<Rightarrow> (u32 \<times> 'd au) res option" where
  "aucards_writedata_intsound h left s = (case buffer_protection (card_bytespersign (fst s)) of
      Inl e \<Rightarrow> Some (Inl e)
    | Inr prot \<Rightarrow> intsound_loop h (pcm_sample (fst s)) left (space_left s prot) s)"

text \<open>The default variant starts the card when its buffer is full. A round gives the value
  to return, if it returns.\<close>

definition normal_start :: "'d one_sndcard_info option \<Rightarrow> u32 \<Rightarrow> 'd au \<Rightarrow> (u32 option \<times> 'd au) res" where
  "normal_start h space s = (if space \<le> card_outbytes (fst s) then
      bindE (AU_start h s) (\<lambda>s.
      if funcbit_test (card_controlbits (fst s)) AUINFOS_CARDCNTRLBIT_DMADONTWAIT then
        (let s = upd_aui (\<lambda>a. a\<lparr>card_controlbits := funcbit_disable (card_controlbits a) AUINFOS_CARDCNTRLBIT_DMADONTWAIT\<rparr>) s
         in Inr (Some (card_outbytes (fst s)), s))
      else Inr (None, s))
    else Inr (None, s))"

definition normal_step :: "'d one_sndcard_info option \<Rightarrow> u8 list \<Rightarrow> u32 \<Rightarrow> bool \<Rightarrow> 'd au \<Rightarrow>
    (u32 option \<times> u8 list \<times> u32 \<times> 'd au) res" where
  "normal_step h pcm left is_first s =
    bindE (AU_cardbuf_space h s) (\<lambda>(space, s).
    bindE (normal_start h space (if is_first then upd_glb (\<lambda>g. g\<lparr>allcpuusage := allcpuusage g + space\<rparr>) s else s))
    (\<lambda>(ret, s). case ret of
      Some r \<Rightarrow> Inr (Some r, pcm, left, s)
    | None \<Rightarrow>
        bindE (if card_bytespersign (fst s) \<le> space then
            bindE (put_block h pcm left space s) (\<lambda>(pcm, left, _, s). Inr (pcm, left, s))
          else Inr (pcm, left, s)) (\<lambda>(pcm, left, s).
        Inr (if left = 0 then Some 0 else None, pcm, left, s))))"

partial_function (option) normal_loop :: "'d one_sndcard_info option \<Rightarrow> u8 list \<Rightarrow> u32 \<Rightarrow> bool \<Rightarrow> 'd au \<Rightarrow>
    (u32 \<times> 'd au) res option" where
  "normal_loop h pcm left is_first s = (case normal_step h pcm left is_first s of
      Inl e \<Rightarrow> Some (Inl e)
    | Inr (Some r, _, _, s) \<Rightarrow> Some (Inr (r, s))
    | Inr (None, pcm, left, s) \<Rightarrow> normal_loop h pcm left False s)"

definition aucards_writedata_normal :: "'d one_sndcard_info option \<Rightarrow> u32 \<Rightarrow> 'd au \<Rightarrow> (u32 \<times> 'd au) res option" where
  "aucards_writedata_normal h left s =
    (let s = upd_glb (\<lambda>g. g\<lparr>allcputime := allcputime g + left\<rparr>) (info_off AUINFOS_CARDINFOBIT_DMAFULL s) in
     normal_loop h (pcm_sample (fst s)) left True s)"

definition AU_ini_interrupts :: "u32 \<Rightarrow> 'd one_sndcard_info option \<Rightarrow> u32 \<Rightarrow> 'd au \<Rightarrow> (u32 \<times> 'd au) res option" where
  "AU_ini_interrupts config = (if funcbit_test config INTSOUND_NOBUSYWAIT
    then aucards_writedata_nowait else aucards_writedata_normal)"

text \<open>\<open>func\<close> is the function that \<open>AU_ini_interrupts\<close> selected.\<close>

definition writedata_bytes :: "mpxplay_audioout_info \<Rightarrow> (u32 \<times> mpxplay_audioout_info) res" where
  "writedata_bytes a = (if \<not> funcbit_test (card_infobits a) AUINFOS_CARDINFOBIT_BITSTREAMOUT then
      bindE (umod (samplenum a) (ucast (chan_card a))) (\<lambda>r.
      (let a = a\<lparr>samplenum := samplenum a - r\<rparr> in
       Inr (samplenum a * ucast (bytespersample_card a), a)))
    else Inr (samplenum a, a))"

definition writedata_outbytes :: "u32 \<Rightarrow> mpxplay_audioout_info \<Rightarrow> mpxplay_audioout_info res" where
  "writedata_outbytes outbytes_left a =
    (let a = a\<lparr>card_outbytes := min outbytes_left (card_dmasize a)\<rparr> in
     if \<not> funcbit_test (card_infobits a) AUINFOS_CARDINFOBIT_BITSTREAMOUT then
       bindE (umod (card_outbytes a) (card_bytespersign a)) (\<lambda>r. Inr (a\<lparr>card_outbytes := card_outbytes a - r\<rparr>))
     else Inr a)"

definition AU_writedata :: "(u32 \<Rightarrow> 'd au \<Rightarrow> (u32 \<times> 'd au) res option) \<Rightarrow> 'd au \<Rightarrow> (int \<times> 'd au) res option" where
  "AU_writedata func s = (if samplenum (fst s) = 0 then Some (Inr (0, s)) else
    case bindE (writedata_bytes (fst s)) (\<lambda>(n, a). bindE (writedata_outbytes n a) (\<lambda>a. Inr (n, a))) of
      Inl e \<Rightarrow> Some (Inl e)
    | Inr (n, a) \<Rightarrow> (case func n (a, snd s) of
        None \<Rightarrow> None
      | Some (Inl e) \<Rightarrow> Some (Inl e)
      | Some (Inr (left, s)) \<Rightarrow>
          (let s = upd_aui (\<lambda>a. a\<lparr>samplenum := 0\<rparr>) s in
           Some (if bytespersample_card (fst s) = 0 then Inl Div_zero
             else Inr (cdiv (sint left) (uint (bytespersample_card (fst s))), s)))))"

end
