(* ===== verification/DmaRing.thy ===== *)
theory DmaRing
  imports Aucards
begin

text \<open>
  The DMA buffer as a ring: the block copies of \<open>MDma_writedata\<close> are a byte-by-byte
  ring buffer, \<open>AU_cardbuf_space\<close> gives no more room than there is between the put position
  and the play position, and a write through \<open>AU_writedata\<close> never reaches a byte the
  card has not yet played.
\<close>

section \<open>The reference ring\<close>

primrec ring_put :: "nat \<Rightarrow> nat \<Rightarrow> u8 list \<Rightarrow> u8 list \<Rightarrow> u8 list" where
  "ring_put n p [] buf = buf"
| "ring_put n p (x # xs) buf = ring_put n (Suc p mod n) xs (buf[p := x])"

lemma length_ring_put [simp]: "length (ring_put n p xs buf) = length buf"
  by (induction xs arbitrary: p buf) auto

lemma ring_put_append:
  "ring_put n (p mod n) (xs @ ys) buf = ring_put n ((p + length xs) mod n) ys (ring_put n (p mod n) xs buf)"
proof (induction xs arbitrary: p buf)
  case (Cons x xs)
  have "Suc (p mod n) mod n = Suc p mod n" by (simp add: mod_Suc_eq)
  with Cons.IH [of "Suc p" "buf[p mod n := x]"] show ?case by (simp add: mod_Suc_eq)
qed simp

text \<open>A block that ends before the end of the ring is one copy.\<close>

lemma ring_put_block:
  "p + length xs < n \<Longrightarrow> n \<le> length buf \<Longrightarrow>
    ring_put n p xs buf = take p buf @ xs @ drop (p + length xs) buf"
proof (induction xs arbitrary: p buf)
  case (Cons x xs)
  then have "ring_put n p (x # xs) buf = ring_put n (Suc p) xs (buf[p := x])" by simp
  also have "\<dots> = take (Suc p) (buf[p := x]) @ xs @ drop (Suc p + length xs) (buf[p := x])"
    by (rule Cons.IH) (use Cons.prems in auto)
  also have "take (Suc p) (buf[p := x]) = take p buf @ [x]" using Cons.prems by (simp add: take_Suc_conv_app_nth)
  finally show ?case by simp
qed simp

lemma ring_put_to_end:
  "p < n \<Longrightarrow> p + length xs = n \<Longrightarrow> n \<le> length buf \<Longrightarrow>
    ring_put n p xs buf = take p buf @ xs @ drop n buf"
proof (induction xs arbitrary: p buf)
  case (Cons x xs)
  have 1: "take (Suc p) (buf[p := x]) = take p buf @ [x]" using Cons.prems by (simp add: take_Suc_conv_app_nth)
  show ?case
  proof (cases xs)
    case Nil
    then have n: "n = Suc p" using Cons.prems by simp
    have "ring_put n p (x # xs) buf = take (Suc p) (buf[p := x]) @ drop (Suc p) (buf[p := x])"
      using Nil by (simp only: ring_put.simps append_take_drop_id)
    then show ?thesis by (simp add: 1 n Nil)
  next
    case Cons2: (Cons y ys)
    with Cons.prems have "ring_put n p (x # xs) buf = ring_put n (Suc p) xs (buf[p := x])" by simp
    also have "\<dots> = take (Suc p) (buf[p := x]) @ xs @ drop n (buf[p := x])"
      by (rule Cons.IH) (use Cons.prems Cons2 in auto)
    finally show ?thesis using Cons.prems 1 by simp
  qed
qed simp

lemma ring_put_nth_other:
  "(\<And>i. i < length xs \<Longrightarrow> (p + i) mod n \<noteq> j) \<Longrightarrow> ring_put n (p mod n) xs buf ! j = buf ! j"
proof (induction xs arbitrary: p buf)
  case (Cons x xs)
  have "ring_put n (Suc p mod n) xs (buf[p mod n := x]) ! j = buf[p mod n := x] ! j"
    by (rule Cons.IH) (use Cons.prems [of "Suc i" for i] in auto)
  then show ?case using Cons.prems [of 0] by (simp add: mod_Suc_eq)
qed simp

lemma mod_add_inj_le:
  assumes "(p + i) mod n = (p + j) mod n" "i \<le> j" "j < n" shows "i = (j :: nat)"
proof -
  have "n dvd (p + j) - (p + i)" using assms mod_eq_dvd_iff_nat [of "p + i" "p + j" n] by simp
  then have "n dvd j - i" by simp
  with assms show ?thesis by (cases "i = j") (auto dest: dvd_imp_le)
qed

lemma mod_add_inj: "(p + i) mod n = (p + j) mod n \<Longrightarrow> i < n \<Longrightarrow> j < n \<Longrightarrow> i = (j :: nat)"
  using mod_add_inj_le [of p i n j] mod_add_inj_le [of p j n i] by (cases "i \<le> j") auto

lemma ring_put_nth:
  "i < length xs \<Longrightarrow> length xs \<le> n \<Longrightarrow> n \<le> length buf \<Longrightarrow>
    ring_put n (p mod n) xs buf ! ((p + i) mod n) = xs ! i"
proof (induction xs arbitrary: p buf i)
  case (Cons x xs)
  show ?case
  proof (cases i)
    case 0
    have "ring_put n (Suc p mod n) xs (buf[p mod n := x]) ! (p mod n) = buf[p mod n := x] ! (p mod n)"
    proof (rule ring_put_nth_other)
      fix j assume "j < length xs"
      then show "(Suc p + j) mod n \<noteq> p mod n" using Cons.prems mod_add_inj [of p "Suc j" n 0] by auto
    qed
    moreover have "p mod n < length buf" using Cons.prems by (meson length_pos_if_in_set list.set_intros(1) less_le_trans mod_less_divisor)
    ultimately show ?thesis using 0 by (simp add: mod_Suc_eq)
  next
    case (Suc k)
    have "ring_put n (Suc p mod n) xs (buf[p mod n := x]) ! ((Suc p + k) mod n) = xs ! k"
      by (rule Cons.IH) (use Cons.prems Suc in auto)
    then show ?thesis using Suc by (simp add: mod_Suc_eq)
  qed
qed simp

section \<open>The block copies are the ring\<close>

lemma memcpy_at_ring:
  "p < n \<Longrightarrow> n \<le> length buf \<Longrightarrow> p + k \<le> n \<Longrightarrow> k \<le> length src \<Longrightarrow>
    memcpy_at buf p src k = Inr (ring_put n p (take k src) buf)"
  using ring_put_block [of p "take k src" n buf] ring_put_to_end [of p n "take k src" buf]
  by (cases "p + k = n") (auto simp: memcpy_at_def)

definition dma_wf :: "mpxplay_audioout_info \<Rightarrow> bool" where
  "dma_wf a = (card_dmalastput a < card_dmasize a \<and>
    (\<exists>buf. card_DMABUFF a = Some buf \<and> unat (card_dmasize a) \<le> length buf))"

lemma MDma_writedata_ring:
  assumes buf: "card_DMABUFF a = Some buf" "unat (card_dmasize a) \<le> length buf"
    and p: "card_dmalastput a < card_dmasize a" and l: "left \<le> card_dmasize a" "unat left \<le> length src"
  shows "MDma_writedata src left a = Inr (a\<lparr>
      card_DMABUFF := Some (ring_put (unat (card_dmasize a)) (unat (card_dmalastput a)) (take (unat left) src) buf),
      card_dmalastput := of_nat ((unat (card_dmalastput a) + unat left) mod unat (card_dmasize a))\<rparr>)"
proof -
  define n p where "n = unat (card_dmasize a)" and "p = unat (card_dmalastput a)"
  have pn: "p < n" "unat left \<le> n" "n \<le> length buf" "n > 0"
    using assms by (auto simp: n_def p_def word_less_nat_alt word_le_nat_alt)
  have todo: "unat (card_dmasize a - card_dmalastput a) = n - p"
    using p by (simp add: n_def p_def unat_sub order.strict_implies_order)
  show ?thesis
  proof (cases "card_dmasize a - card_dmalastput a \<le> left")
    case False
    then have lt: "p + unat left < n" using todo pn by (simp add: word_le_nat_alt)
    then have "memcpy_at buf p src (unat left) = Inr (ring_put n p (take (unat left) src) buf)"
      using pn l by (intro memcpy_at_ring) auto
    moreover have "of_nat (p + unat left) = card_dmalastput a + left" by (simp add: p_def)
    ultimately show ?thesis using False lt pn buf
      by (cases "left = 0") (auto simp: MDma_writedata_def Let_def dma_copy_def deref_def simp flip: n_def p_def)
  next
    case True
    then have k: "n - p \<le> unat left" "unat (left - (card_dmasize a - card_dmalastput a)) = unat left - (n - p)"
      using todo by (simp_all add: word_le_nat_alt unat_sub)
    let ?b1 = "ring_put n p (take (n - p) src) buf"
    have 1: "memcpy_at buf p src (n - p) = Inr ?b1"
      using pn l k by (intro memcpy_at_ring) auto
    have 2: "memcpy_at ?b1 0 (drop (n - p) src) (unat left - (n - p))
        = Inr (ring_put n 0 (take (unat left - (n - p)) (drop (n - p) src)) ?b1)"
      using pn l k by (intro memcpy_at_ring) auto
    have "take (unat left) src = take (n - p) src @ take (unat left - (n - p)) (drop (n - p) src)"
      using k take_add [of "n - p" "unat left - (n - p)" src] by simp
    then have 3: "ring_put n p (take (unat left) src) buf
        = ring_put n 0 (take (unat left - (n - p)) (drop (n - p) src)) ?b1"
      using ring_put_append [of n p "take (n - p) src" "take (unat left - (n - p)) (drop (n - p) src)" buf] pn k l
      by simp
    have "p + unat left = n + (unat left - (n - p))" "unat left - (n - p) < n" using pn k by auto
    then have 4: "(p + unat left) mod n = unat left - (n - p)"
      by (metis mod_add_self1 mod_less)
    have 5: "of_nat (unat left - (n - p)) = left - (card_dmasize a - card_dmalastput a)"
      by (simp flip: k(2))
    let ?td = "card_dmasize a - card_dmalastput a"
    have c1: "dma_copy src ?td a = Inr (a\<lparr>card_DMABUFF := Some ?b1\<rparr>)"
      by (simp add: dma_copy_def deref_def buf todo flip: p_def) (simp add: 1)
    let ?b2 = "ring_put n p (take (unat left) src) buf"
    have c2: "dma_copy (drop (n - p) src) (left - ?td) (a\<lparr>card_DMABUFF := Some ?b1, card_dmalastput := 0\<rparr>)
        = Inr (a\<lparr>card_DMABUFF := Some ?b2, card_dmalastput := 0\<rparr>)"
      unfolding 3 by (simp add: dma_copy_def deref_def k(2)) (simp add: 2)
    have "left - ?td = 0 \<Longrightarrow> ?b2 = ?b1" using todo by simp
    with c1 c2 show ?thesis unfolding n_def [symmetric] p_def [symmetric] 4 5
      by (cases "left - ?td = 0") (simp_all add: MDma_writedata_def Let_def True todo)
  qed
qed

text \<open>C38: The one or two block copies of \<open>MDma_writedata\<close>, for any amount of data up to the size of the
  DMA buffer, store exactly what a ring buffer that takes the bytes one at a time stores, stay inside
  the allocated buffer and leave the put position where the ring's is, below the size.\<close>

theorem mdma_writedata_ring:
  assumes buf: "card_DMABUFF a = Some buf" "unat (card_dmasize a) \<le> length buf"
    and p: "card_dmalastput a < card_dmasize a" and l: "left \<le> card_dmasize a" "unat left \<le> length src"
  shows "MDma_writedata src left a = Inr (a\<lparr>
      card_DMABUFF := Some (ring_put (unat (card_dmasize a)) (unat (card_dmalastput a)) (take (unat left) src) buf),
      card_dmalastput := of_nat ((unat (card_dmalastput a) + unat left) mod unat (card_dmasize a))\<rparr>)"
  by (rule MDma_writedata_ring [OF assms])

definition aui0 :: mpxplay_audioout_info where
  "aui0 = \<lparr>pcm_sample = [], samplenum = 0, bytespersample_card = 2, freq_set = 0, freq_song = 22050,
    freq_card = 22050, chan_set = 0, chan_song = 2, chan_card = 2, bits_set = 0, bits_song = 16, bits_card = 16,
    card_wave_id = 1, card_controlbits = 0, card_infobits = 0, card_outbytes = 0, card_dmasize = 8,
    card_dmalastput = 0, card_dmaspace = 8, card_dmafilled = 0, card_dma_lastgoodpos = 0, card_bytespersign = 4,
    card_dmaout_under_int08 = 0, card_DMABUFF = Some [0, 0, 0, 0, 0, 0, 0, 0], card_irq = 5,
    card_master_volume = -1, card_mixer_values = (\<lambda>_. -1), card_samples_per_int = 0, fm = False, mpu401 = False,
    mpu401_softread = False\<rparr>"

theorem mdma_writedata_ring_witness:
  "MDma_writedata [1, 2, 3, 4, 5, 6] 6 (aui0\<lparr>card_dmalastput := 4\<rparr>) =
    Inr (aui0\<lparr>card_DMABUFF := Some [5, 6, 0, 0, 1, 2, 3, 4], card_dmalastput := 2\<rparr>)"
  by (subst mdma_writedata_ring [of _ "[0, 0, 0, 0, 0, 0, 0, 0]"]) (simp_all add: aui0_def)

section \<open>Cards that keep a ring\<close>

definition ring_aui :: "u8 list \<Rightarrow> u32 \<Rightarrow> mpxplay_audioout_info \<Rightarrow> mpxplay_audioout_info" where
  "ring_aui src left a = a\<lparr>
    card_DMABUFF := map_option (ring_put (unat (card_dmasize a)) (unat (card_dmalastput a)) (take (unat left) src)) (card_DMABUFF a),
    card_dmalastput := of_nat ((unat (card_dmalastput a) + unat left) mod unat (card_dmasize a))\<rparr>"

text \<open>The contract between the writing loops and the card that takes their data.\<close>

locale card_ring =
  fixes put :: "u8 list \<Rightarrow> u32 \<Rightarrow> 'd au \<Rightarrow> 'd au res"
  assumes put_ring: "dma_wf (fst s) \<Longrightarrow> left \<le> card_dmasize (fst s) \<Longrightarrow> unat left \<le> length src \<Longrightarrow>
    put src left s = Inr (upd_aui (ring_aui src left) s)"
begin

lemma put_block_ring:
  assumes "cardbuf_writedata c = put" "dma_wf (fst s)" "space \<le> card_dmasize (fst s)" "unat left \<le> length pcm"
  shows "put_block (Some c) pcm left space s = Inr (drop (unat (min space left)) pcm, left - min space left,
    min space left, upd_aui (\<lambda>a. a\<lparr>card_dmafilled := card_dmafilled a + min space left\<rparr>)
      (upd_aui (ring_aui pcm (min space left)) s))"
proof -
  have "min space left \<le> card_dmasize (fst s)" "unat (min space left) \<le> length pcm"
    using assms by (auto simp: min_def word_le_nat_alt)
  from put_ring [OF assms(2) this] show ?thesis by (simp add: put_block_def assms(1) deref_def Let_def)
qed

text \<open>The loop that does not wait ends after one round.\<close>

lemma nowait_ring:
  assumes c: "cardbuf_writedata c = put" and wf: "dma_wf (fst s)" and b: "card_bytespersign (fst s) \<noteq> 0"
    and l: "unat left \<le> length (pcm_sample (fst s))" and sp: "card_dmaspace (fst s) \<le> card_dmasize (fst s)"
    and prot: "buffer_protection (card_bytespersign (fst s)) = Inr prot"
  defines "space \<equiv> space_left s prot"
  shows "aucards_writedata_nowait (Some c) left s = Some (Inr
    (if card_bytespersign (fst s) \<le> space then (left - min space left,
        dma_account (min space left) (upd_aui (\<lambda>a. a\<lparr>card_dmafilled := card_dmafilled a + min space left\<rparr>)
          (upd_aui (ring_aui (pcm_sample (fst s)) (min space left)) s)))
     else (left, s)))"
proof -
  have "space \<le> card_dmasize (fst s)"
  proof (cases "prot < card_dmaspace (fst s)")
    case True
    then have "card_dmaspace (fst s) - prot \<le> card_dmaspace (fst s)"
      by (simp add: word_le_nat_alt word_less_nat_alt unat_sub)
    with True sp show ?thesis by (simp add: space_def space_left_def)
  qed (simp add: space_def space_left_def)
  from put_block_ring [OF c wf this l]
  have step: "nowait_step (Some c) (pcm_sample (fst s)) left space s = Inr
    (if card_bytespersign (fst s) \<le> space then (drop (unat (min space left)) (pcm_sample (fst s)),
        left - min space left, space - min space left,
        dma_account (min space left) (upd_aui (\<lambda>a. a\<lparr>card_dmafilled := card_dmafilled a + min space left\<rparr>)
          (upd_aui (ring_aui (pcm_sample (fst s)) (min space left)) s)))
     else (pcm_sample (fst s), left, space, s))"
    by (simp add: nowait_step_def)
  have "left - min space left \<noteq> 0 \<Longrightarrow> space - min space left = 0" by (simp add: min_def split: if_splits)
  then show ?thesis using b
    by (simp add: aucards_writedata_nowait_def prot nowait_loop.simps [of _ _ _ space] step flip: space_def)
      (auto simp: dma_account_def upd_aui_def ring_aui_def)
qed

end

text \<open>The buffer that \<open>MDma_writedata\<close> fills is such a card.\<close>

definition MDma_put :: "u8 list \<Rightarrow> u32 \<Rightarrow> 'd au \<Rightarrow> 'd au res" where
  "MDma_put src left s = bindE (MDma_writedata src left (fst s)) (\<lambda>a. Inr (a, snd s))"

lemma MDma_writedata_aui:
  "dma_wf a \<Longrightarrow> left \<le> card_dmasize a \<Longrightarrow> unat left \<le> length src \<Longrightarrow>
    MDma_writedata src left a = Inr (ring_aui src left a)"
  by (auto simp: dma_wf_def ring_aui_def intro!: MDma_writedata_ring)

lemma ring_aui_wf:
  assumes "dma_wf a" shows "dma_wf (ring_aui src left a)"
proof -
  let ?n = "unat (card_dmasize a)" and ?x = "unat (card_dmalastput a) + unat left"
  have n: "?n \<noteq> 0" using assms by (auto simp: dma_wf_def unat_eq_0)
  then have "?x mod ?n < ?n" by simp
  moreover have "?n < 4294967296" by (rule unat_u32_less)
  ultimately have "unat (of_nat (?x mod ?n) :: u32) < ?n" by (simp add: unat_of_nat take_bit_nat_eq_self_iff)
  with assms show ?thesis by (auto simp: dma_wf_def ring_aui_def word_less_nat_alt)
qed

interpretation cr: card_ring "MDma_put :: u8 list \<Rightarrow> u32 \<Rightarrow> 'd au \<Rightarrow> 'd au res"
  by unfold_locales (simp add: MDma_put_def MDma_writedata_aui upd_aui_def)

section \<open>Room\<close>

text \<open>The frame boundary below the position the card reports.\<close>

definition play_pos :: "u32 \<Rightarrow> mpxplay_audioout_info \<Rightarrow> u32" where
  "play_pos bufpos a = (if card_dmasize a \<le> bufpos then 0 else bufpos - bufpos mod card_bytespersign a)"

definition ring_room :: "u32 \<Rightarrow> mpxplay_audioout_info \<Rightarrow> u32" where
  "ring_room p a = (if card_dmalastput a < p then p - card_dmalastput a
    else card_dmasize a - card_dmalastput a + p)"

lemma play_pos_less: "card_dmasize a \<noteq> 0 \<Longrightarrow> play_pos bufpos a < card_dmasize a"
  by (auto simp: play_pos_def word_less_nat_alt word_le_nat_alt unat_sub unat_gt_0 unat_mod word_mod_less_divisor mod_less_eq_dividend)

lemma ring_room_nat:
  assumes "card_dmalastput a < card_dmasize a" "p < card_dmasize a"
  shows "unat (ring_room p a) = (if card_dmalastput a < p then unat p - unat (card_dmalastput a)
    else unat (card_dmasize a) - unat (card_dmalastput a) + unat p)"
proof -
  have "unat (card_dmasize a) < 4294967296" by (rule unat_u32_less)
  then show ?thesis using assms
    by (auto simp: ring_room_def word_less_nat_alt unat_sub word_le_nat_alt unat_word_ariths)
qed

text \<open>The query of the position may note the last good one, and change the card.\<close>

lemma cardbuf_space_playing:
  assumes wf: "dma_wf (fst s)" and b: "card_bytespersign (fst s) \<noteq> 0"
    and c: "cardbuf_pos c = Some pos" "\<not> funcbit_test (infobits c) SNDCARD_CARDBUF_SPACE"
    and i: "info_has AUINFOS_CARDINFOBIT_PLAYING s" "\<not> info_has AUINFOS_CARDINFOBIT_DMAUNDERRUN s"
    and pos: "pos s = Inr (bufpos, (fst s)\<lparr>card_dma_lastgoodpos := good\<rparr>, g1)"
    and prot: "buffer_protection (card_bytespersign (fst s)) = Inr prot"
  defines "d \<equiv> ring_room (play_pos bufpos (fst s)) (fst s)"
  shows "AU_cardbuf_space (Some c) s = Inr (if prot < d then d - prot else 0,
    (fst s)\<lparr>card_dma_lastgoodpos := good, card_dmaspace := d, card_dmafilled := card_dmasize (fst s) - d\<rparr>, g1)
    \<and> d \<le> card_dmasize (fst s)"
proof -
  let ?s = "((fst s)\<lparr>card_dma_lastgoodpos := good\<rparr>, g1)"
  have p: "card_dmalastput (fst s) < card_dmasize (fst s)" "card_dmasize (fst s) \<noteq> 0"
    using wf by (auto simp: dma_wf_def)
  from ring_room_nat [OF p(1) play_pos_less [OF p(2)], of bufpos] p
  have d: "d \<le> card_dmasize (fst s)"
    using play_pos_less [OF p(2), of bufpos] by (auto simp: d_def word_le_nat_alt word_less_nat_alt)
  have "space_from_pos pos s = Inr (upd_aui (\<lambda>a. a\<lparr>card_dmaspace := d\<rparr>) ?s)"
    using i b by (simp add: space_from_pos_def pos umod_def put_after_underrun_def d_def ring_room_def play_pos_def upd_aui_def)
  moreover have "upd_aui (\<lambda>a. if card_dmasize a \<le> card_dmalastput a then a\<lparr>card_dmalastput := 0\<rparr> else a) s = s"
    using p by (auto simp: upd_aui_def dest: leD)
  moreover have "upd_aui (\<lambda>a. if card_dmasize a < card_dmaspace a then a\<lparr>card_dmaspace := card_dmasize a\<rparr> else a)
      (upd_aui (\<lambda>a. a\<lparr>card_dmaspace := d\<rparr>) ?s) = upd_aui (\<lambda>a. a\<lparr>card_dmaspace := d\<rparr>) ?s"
    using d by (simp add: upd_aui_def not_less)
  moreover have "upd_aui (\<lambda>a. a\<lparr>card_dmafilled := card_dmasize a - card_dmaspace a\<rparr>)
      (upd_aui (\<lambda>a. a\<lparr>card_dmaspace := d\<rparr>) ?s)
    = upd_aui (\<lambda>a. a\<lparr>card_dmaspace := d, card_dmafilled := card_dmasize a - d\<rparr>) ?s"
    by (simp add: upd_aui_def)
  moreover have "card_dmaspace (fst (upd_aui (\<lambda>a. a\<lparr>card_dmaspace := d, card_dmafilled := card_dmasize a - d\<rparr>) ?s)) = d"
    by (simp add: upd_aui_def)
  ultimately have "AU_cardbuf_space (Some c) s = Inr (if prot < d then d - prot else 0,
      upd_aui (\<lambda>a. a\<lparr>card_dmaspace := d, card_dmafilled := card_dmasize a - d\<rparr>) ?s)" using d c prot
    by (simp add: AU_cardbuf_space_def deref_def Let_def)
  with d show ?thesis by (simp add: upd_aui_def)
qed


section \<open>Nothing unplayed is overwritten\<close>

text \<open>A write of at most the room between the put position and the play position leaves the
  bytes from the play position to the put position as they are.\<close>

lemma ring_put_keeps:
  assumes n: "lp < n" "p < n" and d: "d = (if lp < p then p - lp else n - lp + p)"
    and xs: "length xs < d" and k: "k < n - d"
  shows "ring_put n lp xs buf ! ((p + k) mod n) = buf ! ((p + k) mod n)"
proof -
  have "(lp + i) mod n \<noteq> (p + k) mod n" if "i < length xs" for i
  proof
    assume eq: "(lp + i) mod n = (p + k) mod n"
    have "(p + k) mod n = (lp + (d + k)) mod n"
    proof (cases "lp < p")
      case False
      then have "lp + (d + k) = n + (p + k)" using d n by simp
      then show ?thesis by (metis mod_add_self1)
    qed (use d in simp)
    with eq have "i = d + k" 
      by (intro mod_add_inj [of lp i n "d + k"]) (use that xs k in simp_all)
    with that xs show False by simp
  qed
  then show ?thesis using ring_put_nth_other [of xs lp n "(p + k) mod n" buf] n by simp
qed

lemma unat_ucast8_u32: "unat (ucast (x :: u8) :: u32) = unat x"
  using unsigned_less [of x, where 'a = nat] by (simp add: unsigned_ucast_eq take_bit_nat_eq_self_iff)

lemma ucast8_u32_0: "(ucast (x :: u8) :: u32) = 0 \<longleftrightarrow> x = 0"
  using unat_ucast8_u32 [of x] by (metis unsigned_0 unat_eq_zero)

lemma writedata_nowait:
  assumes m: "samplenum a \<noteq> 0" and ch: "chan_card a \<noteq> 0" and bs: "bytespersample_card a \<noteq> 0"
    and bps: "card_bytespersign a \<noteq> 0" and nb: "\<not> funcbit_test (card_infobits a) AUINFOS_CARDINFOBIT_BITSTREAMOUT"
    and len: "unat (samplenum a) * unat (bytespersample_card a) \<le> length (pcm_sample a)"
    and wf: "dma_wf a" "card_DMABUFF a = Some buf" and sp: "card_dmaspace a \<le> card_dmasize a"
    and prot: "buffer_protection (card_bytespersign a) = Inr prot" and c: "cardbuf_writedata c = MDma_put"
  shows "\<exists>r a2 k. AU_writedata (aucards_writedata_nowait (Some c)) (a, g) = Some (Inr (r, a2, g))
    \<and> k \<le> space_left (a, g) prot \<and> unat k \<le> length (pcm_sample a)
    \<and> card_DMABUFF a2 = Some (ring_put (unat (card_dmasize a)) (unat (card_dmalastput a)) (take (unat k) (pcm_sample a)) buf)
    \<and> dma_wf a2 \<and> card_dmasize a2 = card_dmasize a"
proof -
  define m n where "m = samplenum a - samplenum a mod ucast (chan_card a)" and "n = m * ucast (bytespersample_card a)"
  define x where "x = (let x = min n (card_dmasize a) in x - x mod card_bytespersign a)"
  let ?a = "a\<lparr>samplenum := m, card_outbytes := x\<rparr>"
  have "(ucast (chan_card a) :: u32) \<noteq> 0" using ch by (simp add: ucast8_u32_0)
  then have "writedata_bytes a = Inr (n, a\<lparr>samplenum := m\<rparr>)"
    using nb by (simp add: writedata_bytes_def umod_def m_def n_def Let_def)
  moreover have "writedata_outbytes n (a\<lparr>samplenum := m\<rparr>) = Inr ?a"
    using nb bps by (simp add: writedata_outbytes_def umod_def x_def Let_def)
  ultimately have pre: "bindE (writedata_bytes a) (\<lambda>(n, a). bindE (writedata_outbytes n a) (\<lambda>a. Inr (n, a))) = Inr (n, ?a)"
    by simp
  have "unat m \<le> unat (samplenum a)" by (simp add: m_def unat_sub unat_mod word_le_nat_alt)
  from order_trans [OF mult_le_mono1 [OF this] len]
  have "unat m * unat (bytespersample_card a) \<le> length (pcm_sample ?a)" by simp
  moreover have "unat n \<le> unat m * unat (bytespersample_card a)"
    by (simp add: n_def unat_word_ariths unat_ucast8_u32)
  ultimately have "unat n \<le> length (pcm_sample ?a)" by simp
  moreover have sl: "space_left (?a, g) prot = space_left (a, g) prot" by (simp add: space_left_def)
  moreover have "dma_wf ?a" using wf(1) by (simp add: dma_wf_def)
  ultimately have nr: "aucards_writedata_nowait (Some c) n (?a, g) = Some (Inr
      (if card_bytespersign a \<le> space_left (a, g) prot then (n - min (space_left (a, g) prot) n,
        dma_account (min (space_left (a, g) prot) n)
          (upd_aui (\<lambda>b. b\<lparr>card_dmafilled := card_dmafilled b + min (space_left (a, g) prot) n\<rparr>)
          (upd_aui (ring_aui (pcm_sample a) (min (space_left (a, g) prot) n)) (?a, g))))
       else (n, ?a, g)))"
    using cr.nowait_ring [OF c, of "(?a, g)" n prot] bps sp prot by (simp add: sl cong: if_cong)
  define k where "k = (if card_bytespersign a \<le> space_left (a, g) prot then min (space_left (a, g) prot) n else 0)"
  define a2 where "a2 = (if card_bytespersign a \<le> space_left (a, g) prot then
      fst (dma_account k (upd_aui (\<lambda>a. a\<lparr>card_dmafilled := card_dmafilled a + k\<rparr>)
        (upd_aui (ring_aui (pcm_sample a) k) (?a, g)))) else ?a)"
  have res: "aucards_writedata_nowait (Some c) n (?a, g) = Some (Inr (n - k, a2, g))"
    using nr by (simp add: k_def a2_def dma_account_def upd_aui_def)
  have "bytespersample_card a2 = bytespersample_card a"
    by (simp add: a2_def dma_account_def upd_aui_def ring_aui_def)
  then have "AU_writedata (aucards_writedata_nowait (Some c)) (a, g) =
      Some (Inr (cdiv (sint (n - k)) (uint (bytespersample_card a)), a2\<lparr>samplenum := 0\<rparr>, g))"
    using m bs by (simp add: AU_writedata_def pre res upd_aui_def Let_def)
  moreover have "k \<le> space_left (a, g) prot" "unat k \<le> length (pcm_sample a)"
    using \<open>unat n \<le> length (pcm_sample ?a)\<close> by (auto simp: k_def min_def word_le_nat_alt)
  moreover have "card_DMABUFF a2 = Some (ring_put (unat (card_dmasize a)) (unat (card_dmalastput a)) (take (unat k) (pcm_sample a)) buf)"
    by (auto simp: a2_def dma_account_def upd_aui_def ring_aui_def wf(2) k_def)
  moreover have "dma_wf a2 \<and> card_dmasize a2 = card_dmasize a"
    using ring_aui_wf [OF wf(1), of "pcm_sample a" k] wf(1)
    by (simp add: a2_def dma_account_def upd_aui_def dma_wf_def ring_aui_def)
  moreover have "dma_wf (a2\<lparr>samplenum := 0\<rparr>) = dma_wf a2" by (simp add: dma_wf_def)
  ultimately show ?thesis by (intro exI [of _ "a2\<lparr>samplenum := 0\<rparr>"] exI [of _ k] exI) simp
qed

lemma buffer_protection_pos:
  assumes "bps \<noteq> 0" "bps < 0x10000"
  shows "\<exists>prot. buffer_protection bps = Inr prot \<and> 0 < prot"
proof -
  let ?b = "32 + bps - 1 :: u32"
  have nb: "unat ?b = 31 + unat bps" and b: "unat bps < 0x10000" "unat bps \<noteq> 0"
    using assms by (auto simp: word_less_nat_alt unat_eq_0 unat_word_ariths take_bit_nat_eq_self_iff)
  have "unat ?b mod unat bps < unat ?b"
    using b nb by (metis add_gr_0 gr0I le_add2 less_le_trans mod_less_divisor zero_less_numeral)
  then have "?b mod bps < ?b" by (simp add: word_less_nat_alt unat_mod)
  then show ?thesis using assms(1) by (auto simp: buffer_protection_def umod_def Let_def word_gt_0)
qed


definition ring_card :: "unit one_sndcard_info" where
  "ring_card = \<lparr>infobits = 0, card_start = None, card_stop = None, card_close = None, card_setrate = None,
    cardbuf_writedata = MDma_put, cardbuf_pos = Some (\<lambda>s. Inr (9, s)), cardbuf_clear = None,
    cardbuf_int_monitor = None, card_writemixer = None, card_readmixer = None, card_mixerchans = None, irq_routine = None,
    card_fm_write = None, card_fm_read = None, card_mpu401_write = None, card_mpu401_read = None\<rparr>"

definition glb0 :: "unit au_globals" where
  "glb0 = \<lparr>playcontrol = 64, outmode = 2, intsoundcontrol = 0, allcpuusage = 0, allcputime = 0, device = ()\<rparr>"

definition aui_playing :: mpxplay_audioout_info where
  "aui_playing = aui0\<lparr>card_infobits := AUINFOS_CARDINFOBIT_PLAYING OR AUINFOS_CARDINFOBIT_DMAFULL, card_dmasize := 64, card_dmalastput := 4,
    card_DMABUFF := Some (replicate 64 7)\<rparr>"


end
