(* ===== verification/Pcm.thy ===== *)
theory Pcm
  imports Prelude
begin

text \<open>
  The sample conversions of \<open>src/mpxplay/au_cards/au_base.c\<close>: sample width, channels and
  sample rate. The first two work in place on bytes; the buffer is a function of the
  offset from the pointer the routine is given. The loops are \<open>do ... while(--n)\<close> on an
  unsigned counter, so a count of 0 stands for 2 to the power of 32 rounds.
\<close>

type_synonym buf = "int \<Rightarrow> u8"

definition do_count :: "u32 \<Rightarrow> nat" where
  "do_count n = (if n = 0 then 4294967296 else unat n)"

lemma do_count_pos [simp]: "n \<noteq> 0 \<Longrightarrow> do_count n = unat n" by (simp add: do_count_def)

section \<open>Width\<close>

definition flip_sign :: "u8 \<Rightarrow> u8" where "flip_sign b = b + 128"

primrec cv_8bits_unsigned_to_signed :: "nat \<Rightarrow> int \<Rightarrow> buf \<Rightarrow> buf" where
  "cv_8bits_unsigned_to_signed 0 p m = m"
| "cv_8bits_unsigned_to_signed (Suc n) p m =
     cv_8bits_unsigned_to_signed n (p + 1) (m(p := word_of_int (uint (m p) - 128)))"

primrec cv_8bits_signed_to_unsigned :: "nat \<Rightarrow> int \<Rightarrow> buf \<Rightarrow> buf" where
  "cv_8bits_signed_to_unsigned 0 p m = m"
| "cv_8bits_signed_to_unsigned (Suc n) p m =
     cv_8bits_signed_to_unsigned n (p + 1) (m(p := word_of_int (sint (m p) + 128)))"

text \<open>Copying \<open>n\<close> bytes upwards, and filling \<open>n\<close> bytes with zero downwards.\<close>

primrec copy_up :: "nat \<Rightarrow> int \<times> int \<times> buf \<Rightarrow> int \<times> int \<times> buf" where
  "copy_up 0 w = w"
| "copy_up (Suc n) w = (let (i, out, m) = w in copy_up n (i + 1, out + 1, m(out := m i)))"

primrec copy_down :: "nat \<Rightarrow> int \<times> int \<times> buf \<Rightarrow> int \<times> int \<times> buf" where
  "copy_down 0 w = w"
| "copy_down (Suc n) w = (let (i, out, m) = w in copy_down n (i - 1, out - 1, m(out - 1 := m (i - 1))))"

primrec zero_down :: "nat \<Rightarrow> int \<times> buf \<Rightarrow> int \<times> buf" where
  "zero_down 0 w = w"
| "zero_down (Suc n) w = (let (out, m) = w in zero_down n (out - 1, m(out - 1 := 0)))"

primrec bits_down_loop :: "nat \<Rightarrow> u32 \<Rightarrow> u32 \<Rightarrow> int \<times> int \<times> buf \<Rightarrow> buf" where
  "bits_down_loop 0 instep outstep w = snd (snd w)"
| "bits_down_loop (Suc n) instep outstep w =
     (let (i, out, m) = w in
      bits_down_loop n instep outstep (copy_up (do_count outstep) (i + uint (instep - outstep), out, m)))"

definition cv_bits_down :: "u32 \<Rightarrow> u32 \<Rightarrow> u32 \<Rightarrow> buf \<Rightarrow> buf" where
  "cv_bits_down samplenum instep outstep m = bits_down_loop (do_count samplenum) instep outstep (0, 0, m)"

primrec bits_up_loop :: "nat \<Rightarrow> u32 \<Rightarrow> u32 \<Rightarrow> int \<times> int \<times> buf \<Rightarrow> buf" where
  "bits_up_loop 0 instep outstep w = snd (snd w)"
| "bits_up_loop (Suc n) instep outstep w =
     (let (i, out, m) = copy_down (do_count instep) w;
          (out, m) = zero_down (do_count (outstep - of_nat (do_count instep))) (out, m)
      in bits_up_loop n instep outstep (i, out, m))"

definition cv_bits_up :: "u32 \<Rightarrow> u32 \<Rightarrow> u32 \<Rightarrow> buf \<Rightarrow> buf" where
  "cv_bits_up samplenum instep outstep m =
     bits_up_loop (do_count samplenum) instep outstep (uint (samplenum * instep), uint (samplenum * outstep), m)"

definition cv_bits_n_to_m :: "u32 \<Rightarrow> u32 \<Rightarrow> u32 \<Rightarrow> buf \<Rightarrow> buf" where
  "cv_bits_n_to_m samplenum inbytes outbytes m =
     (if outbytes > inbytes
      then cv_bits_up samplenum inbytes outbytes
             (if inbytes = 1 then cv_8bits_unsigned_to_signed (do_count samplenum) 0 m else m)
      else if outbytes < inbytes
      then let m = cv_bits_down samplenum inbytes outbytes m in
             if outbytes = 1 then cv_8bits_signed_to_unsigned (do_count samplenum) 0 m else m
      else m)"

section \<open>Channels\<close>

primrec copy_frame :: "nat \<Rightarrow> nat \<Rightarrow> int \<Rightarrow> int \<Rightarrow> buf \<Rightarrow> buf" where
  "copy_frame 0 b s t m = m"
| "copy_frame (Suc n) b s t m = copy_frame n (b + 1) s t (m(t + int b := m (s + int b)))"

primrec channels_frame :: "nat \<Rightarrow> nat \<Rightarrow> int \<Rightarrow> int \<times> buf \<Rightarrow> int \<times> buf" where
  "channels_frame 0 bps s w = w"
| "channels_frame (Suc ch) bps s w =
     (let (t, m) = w; t = t - int bps in channels_frame ch bps s (t, copy_frame bps 0 s t m))"

primrec channels_loop :: "nat \<Rightarrow> nat \<Rightarrow> nat \<Rightarrow> int \<times> int \<times> buf \<Rightarrow> buf" where
  "channels_loop 0 nc bps w = snd (snd w)"
| "channels_loop (Suc i) nc bps w =
     (let (s, t, m) = w; s = s - int bps; (t, m) = channels_frame nc bps s (t, m)
      in channels_loop i nc bps (s, t, m))"

definition cv_channels_1_to_n :: "u32 \<Rightarrow> u32 \<Rightarrow> u32 \<Rightarrow> buf \<Rightarrow> u32 \<times> buf" where
  "cv_channels_1_to_n samplenum newchannels bytespersample m =
     (samplenum * newchannels,
      channels_loop (unat samplenum) (unat newchannels) (unat bytespersample)
        (uint (samplenum * bytespersample), uint (samplenum * bytespersample * newchannels), m))"

section \<open>Sample rate\<close>

text \<open>The unsigned arithmetic of the resampler, written out over integers.\<close>

definition w32 :: "int \<Rightarrow> int" where "w32 x = x mod 4294967296"

definition lq_instep :: "int \<Rightarrow> int \<Rightarrow> int" where
  "lq_instep samplerate newrate =
     w32 ((samplerate div newrate) * 4096) OR
     ((w32 (w32 (4096 * (samplerate mod newrate)) - 1) div (newrate - 1)) AND 0xFFF)"

definition lq_inend :: "int \<Rightarrow> int \<Rightarrow> int" where
  "lq_inend sourcesample channels = w32 (w32 (sourcesample div channels - 1) * 4096)"

definition lq_buffcount :: "int \<Rightarrow> int \<Rightarrow> int \<Rightarrow> int" where
  "lq_buffcount sourcesample samplerate newrate =
     w32 (max ((max sourcesample 512 * newrate + samplerate - 1) div samplerate) (max sourcesample 512) * 2 + 32)"

text \<open>One output sample between two input samples.\<close>

definition lq_sample :: "int \<Rightarrow> int \<Rightarrow> int \<Rightarrow> int" where
  "lq_sample inpos a b = (let m2 = inpos mod 4096; m1 = 4096 - m2 in cdiv (a * m1 + b * m2) 4096)"

text \<open>The channels of one output frame, each checked against both buffers.\<close>

primrec lq_frame :: "int \<Rightarrow> int \<Rightarrow> (int \<Rightarrow> int) \<Rightarrow> int \<Rightarrow> int \<Rightarrow> nat \<Rightarrow> int list \<Rightarrow> int list res" where
  "lq_frame destsample srcsize src inpos ch 0 out = Inr out"
| "lq_frame destsample srcsize src inpos ch (Suc c) out =
     (let i = (inpos div 4096) * ch + (ch - int (Suc c)) in
      bindE (arr_get srcsize src i) (\<lambda>a.
      bindE (arr_get srcsize src (i + ch)) (\<lambda>b.
      bindE (guardE Out_of_bounds (int (length out) < destsample)) (\<lambda>_.
      lq_frame destsample srcsize src inpos ch c (out @ [lq_sample inpos a b])))))"

lemma lq_frame_length:
  "lq_frame d s src inpos ch c out = Inr out' \<Longrightarrow> length out' = length out + c"
  by (induction c arbitrary: out) (fastforce simp: Let_def)+

function lq_loop :: "int \<Rightarrow> int \<Rightarrow> (int \<Rightarrow> int) \<Rightarrow> int \<Rightarrow> int \<Rightarrow> int \<Rightarrow> int \<Rightarrow> int list \<Rightarrow> int list res" where
  "lq_loop destsample srcsize src ch instep inend inpos out =
     (if ch \<le> 0 then Inl Div_zero
      else case lq_frame destsample srcsize src inpos ch (nat ch) out of
        Inl e \<Rightarrow> Inl e
      | Inr out \<Rightarrow>
          (let inpos = w32 (inpos + instep) in
           if int (length out) \<ge> destsample then Inl Assert_failed
           else if inpos < inend
             then lq_loop destsample srcsize src ch instep inend inpos out
             else Inr out))"
  by pat_completeness auto
termination
  by (relation "measure (\<lambda>(d, s, src, ch, instep, inend, inpos, out). nat (d - int (length out)))")
    (auto dest: lq_frame_length)

text \<open>\<open>srcsize\<close> is the size of the array the samples are read from, of which the first
  \<open>srcsize\<close> are to be converted.\<close>

definition mixer_speed_lq ::
  "int \<Rightarrow> int \<Rightarrow> (int \<Rightarrow> int) \<Rightarrow> int \<Rightarrow> int \<Rightarrow> int \<Rightarrow> int \<Rightarrow> int list res" where
  "mixer_speed_lq destsample srcsize src sourcesample channels samplerate newrate =
     (if newrate = 0 \<or> newrate = 1 \<or> channels = 0 then Inl Div_zero
      else let instep = lq_instep samplerate newrate; inend = lq_inend sourcesample channels in
      if sourcesample = 0 then Inr []
      else if (sourcesample div channels) AND 0xFFF00000 \<noteq> 0 then Inl Assert_failed
      else if samplerate = 0 then Inl Div_zero
      else let buffcount = lq_buffcount sourcesample samplerate newrate in
      if \<not> buffcount \<le> destsample then Inl Assert_failed
      else bindE (lq_loop destsample srcsize src channels instep inend 0 []) (\<lambda>out.
        if int (length out) \<le> buffcount then Inr out else Inl Assert_failed))"

section \<open>The step of the resampler\<close>

lemma int_div_less_iff:
  assumes b: "0 < b"
  shows "(a :: int) div b < c \<longleftrightarrow> a < c * b"
proof
  have "a mod b < b" using b by simp
  then have e: "a < (a div b + 1) * b" using div_mult_mod_eq [of a b] unfolding distrib_right mult_1 by linarith
  assume "a div b < c"
  then have "(a div b + 1) * b \<le> c * b" using b by (intro mult_right_mono) simp_all
  with e show "a < c * b" by linarith
next
  assume l: "a < c * b"
  show "a div b < c"
  proof (rule ccontr)
    assume "\<not> a div b < c"
    then have "c * b \<le> (a div b) * b" using b by (intro mult_right_mono) simp_all
    moreover have "0 \<le> a mod b" using b by simp
    then have "(a div b) * b \<le> a" using div_mult_mod_eq [of a b] by linarith
    ultimately show False using l by linarith
  qed
qed

lemma and_fff_int: "(a :: int) AND 0xFFF = a mod 4096"
proof -
  have "(0xFFF :: int) = mask 12" by (simp add: mask_eq_exp_minus_1)
  then have "a AND 0xFFF = take_bit 12 a" by (simp add: take_bit_eq_mask)
  then show ?thesis by (simp add: take_bit_eq_mod)
qed

lemma or_low12: "0 \<le> b \<Longrightarrow> b < 4096 \<Longrightarrow> (h * 4096) OR b = h * 4096 + (b :: int)"
proof -
  assume "0 \<le> b" "b < 4096"
  then have "b = take_bit 12 b" by (simp add: take_bit_int_eq_self)
  then have "push_bit 12 h AND b = 0"
    by (metis bit_eqI bit_and_iff bit_0_eq bit_push_bit_iff bit_take_bit_iff bot_apply bot_bool_def linorder_not_less)
  then show ?thesis using disjunctive_add_eq_or [of "h * 4096" b] by (simp add: push_bit_eq_mult)
qed

lemma high12_zero: "0 \<le> (n :: int) \<Longrightarrow> n < 1048576 \<Longrightarrow> n AND 0xFFF00000 = 0"
proof -
  assume "0 \<le> n" "n < 1048576"
  then have n: "take_bit 20 n = n" by (simp add: take_bit_int_eq_self)
  have "take_bit 20 n AND push_bit 20 m = 0" for m
    by (rule bit_eqI) (simp add: bit_and_iff bit_take_bit_iff bit_push_bit_iff)
  from this [of "0xFFF"] n show ?thesis by simp
qed

text \<open>The rates for which the step suffices: a step of at least one 4096th of a sample.\<close>

definition lq_rates :: "int \<Rightarrow> int \<Rightarrow> bool" where
  "lq_rates sr nr = (1 \<le> sr \<and> sr < 1048576 \<and> 2 \<le> nr \<and> nr < 1048576 \<and> nr \<le> 4096 * sr)"

lemma lq_instep_bounds:
  assumes "lq_rates sr nr"
  shows "4096 * sr \<le> 2 * nr * lq_instep sr nr" "0 < lq_instep sr nr" "lq_instep sr nr < (sr div nr + 1) * 4096"
proof -
  define q r x where "q = sr div nr" and "r = sr mod nr"
    and "x = (w32 (w32 (4096 * r) - 1) div (nr - 1)) mod 4096"
  have a: "1 \<le> sr" "sr < 1048576" "2 \<le> nr" "nr < 1048576" using assms by (simp_all add: lq_rates_def)
  have qr: "sr = q * nr + r" "0 \<le> r" "r < nr" using a by (simp_all add: q_def r_def)
  have q: "0 \<le> q" "q < 1048576"
    using a int_div_less_iff [of nr sr 1048576] by (simp_all add: q_def pos_imp_zdiv_nonneg_iff)
  have x: "0 \<le> x" "x < 4096" by (simp_all add: x_def)
  have s: "lq_instep sr nr = q * 4096 + x"
  proof -
    have "w32 (q * 4096) = q * 4096" using q by (simp add: w32_def)
    then show ?thesis using x or_low12 [of x q] by (simp add: lq_instep_def and_fff_int x_def q_def r_def)
  qed
  show "lq_instep sr nr < (sr div nr + 1) * 4096" using s x by (simp add: q_def)
  show 1: "4096 * sr \<le> 2 * nr * lq_instep sr nr"
  proof (cases "1 \<le> q")
    case True
    have "nr * 1 \<le> nr * q" using True a by (intro mult_left_mono) simp_all
    moreover have "2 * nr * (q * 4096) = 8192 * (nr * q)" "sr = nr * q + r" using qr(1) by simp_all
    ultimately have "4096 * sr \<le> 2 * nr * (q * 4096)" using qr(3) by linarith
    also have "\<dots> \<le> 2 * nr * lq_instep sr nr" using s x a by (intro mult_left_mono) simp_all
    finally show ?thesis .
  next
    case False
    then have "sr = r" using qr q by (cases "q = 0") simp_all
    then have r: "nr \<le> 4096 * r" using assms by (simp add: lq_rates_def)
    define y where "y = (4096 * r - 1) div (nr - 1)"
    have w: "w32 (w32 (4096 * r) - 1) = 4096 * r - 1" using qr a r by (simp add: w32_def)
    have y1: "1 \<le> y" unfolding y_def using a r by (simp add: pos_imp_zdiv_pos_iff int_one_le_iff_zero_less)
    have "4096 * r - 1 < (nr - 1) * 4096" using qr a by simp
    then have y2: "y < 4096" unfolding y_def using a by (simp add: int_div_less_iff)
    have xy: "x = y" using y1 y2 by (simp add: x_def y_def w)
    have "4096 * r - 1 < (y + 1) * (nr - 1)"
      using int_div_less_iff [of "nr - 1" "4096 * r - 1" "y + 1"] a by (simp add: y_def)
    then have "4096 * r \<le> (y + 1) * (nr - 1)" by simp
    also have "\<dots> \<le> (2 * y) * nr" using y1 a by (intro mult_mono) simp_all
    finally have "4096 * r \<le> 2 * nr * y" by (simp add: mult.commute mult.left_commute)
    moreover have "4096 * sr = nr * (q * 4096) + 4096 * r" using qr by (simp add: algebra_simps)
    moreover have "0 \<le> nr * (q * 4096)" using q a by simp
    ultimately show ?thesis unfolding s xy by (simp add: algebra_simps)
  qed
  show "0 < lq_instep sr nr"
  proof (rule ccontr)
    assume "\<not> 0 < lq_instep sr nr"
    then have "lq_instep sr nr = 0" using s x q by simp
    then show False using 1 a by simp
  qed
qed

section \<open>The frames of the resampler\<close>

lemma cdiv_4096_bounds:
  assumes "lo * 4096 \<le> v" "v \<le> hi * 4096"
  shows "lo \<le> cdiv v 4096" "cdiv v 4096 \<le> hi"
  using assms by (auto simp: cdiv_def abs_if) 

lemma lq_sample_between: "min a b \<le> lq_sample inpos a b \<and> lq_sample inpos a b \<le> max a b"
proof -
  define m2 where "m2 = inpos mod 4096"
  have m: "0 \<le> m2" "0 \<le> 4096 - m2" by (simp_all add: m2_def)
  have "min a b * (4096 - m2) \<le> a * (4096 - m2)" "min a b * m2 \<le> b * m2"
    "a * (4096 - m2) \<le> max a b * (4096 - m2)" "b * m2 \<le> max a b * m2"
    using m by (auto intro!: mult_right_mono)
  then have "min a b * 4096 \<le> a * (4096 - m2) + b * m2" "a * (4096 - m2) + b * m2 \<le> max a b * 4096"
    by (simp_all add: algebra_simps)
  then show ?thesis unfolding lq_sample_def Let_def m2_def [symmetric] using cdiv_4096_bounds by blast
qed

definition lq_out :: "(int \<Rightarrow> int) \<Rightarrow> int \<Rightarrow> int \<Rightarrow> int \<Rightarrow> int" where
  "lq_out src ch inpos c = (let i = (inpos div 4096) * ch + c in lq_sample inpos (src i) (src (i + ch)))"

definition lq_outs :: "(int \<Rightarrow> int) \<Rightarrow> int \<Rightarrow> int \<Rightarrow> nat \<Rightarrow> int list" where
  "lq_outs src ch instep k =
     concat (map (\<lambda>j. map (\<lambda>c. lq_out src ch (int j * instep) (int c)) [0..<nat ch]) [0..<k])"

lemma length_lq_outs [simp]: "length (lq_outs src ch instep k) = k * nat ch"
  by (induction k) (simp_all add: lq_outs_def)

lemma lq_outs_Suc:
  "lq_outs src ch instep (Suc k) =
     lq_outs src ch instep k @ map (\<lambda>c. lq_out src ch (int k * instep) (int c)) [0..<nat ch]"
  by (simp add: lq_outs_def)

lemma lq_frame_ok:
  assumes "0 \<le> inpos" "0 < ch" "(inpos div 4096) * ch + 2 * ch \<le> s"
  shows "int c \<le> ch \<Longrightarrow> int (length out) + int c \<le> d \<Longrightarrow>
    lq_frame d s src inpos ch c out =
      Inr (out @ map (\<lambda>c. lq_out src ch inpos (int c)) [nat ch - c..<nat ch])"
proof (induction c arbitrary: out)
  case (Suc c)
  let ?i = "(inpos div 4096) * ch + (ch - int (Suc c))"
  have i: "0 \<le> ?i" "?i + ch < s" "?i < s"
  proof -
    have "0 \<le> (inpos div 4096) * ch" using assms by (intro mult_nonneg_nonneg) (simp_all add: pos_imp_zdiv_nonneg_iff)
    then show "0 \<le> ?i" "?i + ch < s" "?i < s" using assms Suc.prems by simp_all
  qed
  have l: "[nat ch - Suc c..<nat ch] = (nat ch - Suc c) # [nat ch - c..<nat ch]"
    using Suc.prems assms(2) by (subst upt_conv_Cons) (simp_all add: Suc_diff_Suc)
  have e: "int (nat ch - Suc c) = ch - int (Suc c)" using Suc.prems assms(2) by simp
  have "lq_frame d s src inpos ch (Suc c) out =
      lq_frame d s src inpos ch c (out @ [lq_sample inpos (src ?i) (src (?i + ch))])"
    using i Suc.prems assms(2) by (simp add: Let_def)
  also have "\<dots> = Inr ((out @ [lq_sample inpos (src ?i) (src (?i + ch))]) @
      map (\<lambda>c. lq_out src ch inpos (int c)) [nat ch - c..<nat ch])"
    by (rule Suc.IH) (use Suc.prems in simp_all)
  also have "lq_sample inpos (src ?i) (src (?i + ch)) = lq_out src ch inpos (int (nat ch - Suc c))"
    unfolding lq_out_def Let_def e ..
  finally show ?case by (simp add: l)
qed simp

lemma lq_loop_ok:
  assumes ch: "0 < ch" and st: "0 < instep" and nw: "inend + instep \<le> 4294967296"
    and frames: "inend = 4096 * (n - 1)" "n * ch \<le> s"
    and room: "\<And>k. int k * instep < inend \<Longrightarrow> (int k + 1) * ch < d"
    and K: "inend \<le> int K * instep" "\<And>k. k < K \<Longrightarrow> int k * instep < inend"
  shows "k < K \<Longrightarrow> lq_loop d s src ch instep inend (int k * instep) (lq_outs src ch instep k)
      = Inr (lq_outs src ch instep K)"
proof (induction "K - k" arbitrary: k)
  case (Suc j)
  let ?p = "int k * instep"
  have p: "0 \<le> ?p" "?p < inend" using st K Suc.prems by simp_all
  have d: "(int k + 1) * ch < d" using room p by blast
  have "?p div 4096 < n - 1" using p frames by (simp add: int_div_less_iff mult.commute)
  then have "(?p div 4096) * ch + 2 * ch \<le> s"
    using frames(2) ch mult_right_mono [of "?p div 4096 + 2" n ch] by (simp add: algebra_simps)
  then have f: "lq_frame d s src ?p ch (nat ch) (lq_outs src ch instep k) = Inr (lq_outs src ch instep (Suc k))"
    using lq_frame_ok [OF p(1) ch, of s "nat ch" "lq_outs src ch instep k" d src] ch d
    by (simp add: lq_outs_Suc algebra_simps)
  have w: "w32 (?p + instep) = int (Suc k) * instep"
    using p nw st by (simp add: w32_def algebra_simps)
  have l: "int (length (lq_outs src ch instep (Suc k))) < d" using d ch by (simp add: algebra_simps)
  show ?case
  proof (cases "Suc k < K")
    case True
    then have "int (Suc k) * instep < inend" using K by blast
    then show ?thesis
      using Suc.hyps(1) [of "Suc k"] Suc.hyps(2) True ch f w l by (subst lq_loop.simps) (simp del: length_lq_outs of_nat_Suc)
  next
    case False
    then have "Suc k = K" using Suc.prems by simp
    then show ?thesis using K(1) ch f w l
      by (subst lq_loop.simps) (simp del: length_lq_outs of_nat_Suc)
  qed
qed simp

lemma concat_nth:
  "(\<And>j. j < k \<Longrightarrow> length (f j) = n) \<Longrightarrow> j < k \<Longrightarrow> c < n \<Longrightarrow> concat (map f [0..<k]) ! (j * n + c) = f j ! c"
proof (induction k)
  case (Suc k)
  have "(\<And>j. j < l \<Longrightarrow> length (f j) = n) \<Longrightarrow> length (concat (map f [0..<l])) = l * n" for l
    by (induction l) simp_all
  then have "length (concat (map f [0..<k])) = k * n" using Suc.prems by simp
  moreover have "j * n + c < k * n" if "j < k"
  proof -
    have "j * n + n \<le> k * n" using that by (metis Suc_leI add.commute mult_Suc mult_le_mono1)
    then show ?thesis using Suc.prems by linarith
  qed
  ultimately show ?case using Suc.IH Suc.prems by (cases "j < k") (auto simp: nth_append less_Suc_eq)
qed simp

lemma lq_outs_nth:
  "j < k \<Longrightarrow> c < nat ch \<Longrightarrow> lq_outs src ch instep k ! (j * nat ch + c) = lq_out src ch (int j * instep) (int c)"
  unfolding lq_outs_def by (subst concat_nth) simp_all

text \<open>The number of frames.\<close>

lemma lq_frames:
  assumes "0 < instep" "0 < inend"
  defines "K \<equiv> nat ((inend + instep - 1) div instep)"
  shows "inend \<le> int K * instep" "k < K \<Longrightarrow> int k * instep < inend" "0 < K"
proof -
  define c where "c = (inend + instep - 1) div instep"
  have c: "inend + instep - 1 < (c + 1) * instep" "0 < c"
    using int_div_less_iff [OF assms(1), of "inend + instep - 1" "c + 1"] int_div_less_iff [OF assms(1), of "inend + instep - 1" 1] assms
    by (simp_all add: c_def)
  have K: "int K = c" using c by (simp add: K_def c_def)
  show "inend \<le> int K * instep" "0 < K" using c K by (simp_all add: algebra_simps)
  assume "k < K"
  then have "int k + 1 \<le> c" using K by simp
  moreover have "c * instep \<le> inend + instep - 1"
    unfolding c_def using assms(1) by (metis div_mult_mod_eq le_add_same_cancel1 pos_mod_sign)
  moreover have "(int k + 1) * instep \<le> c * instep" using calculation(1) assms(1) by (intro mult_right_mono) simp_all
  ultimately show "int k * instep < inend" by (simp add: algebra_simps)
qed

lemma lq_room:
  assumes r: "lq_rates sr nr" and ch: "1 \<le> ch" "ch \<le> 32" and n: "1 \<le> n" "s = n * ch"
    and k: "0 \<le> k" "k * lq_instep sr nr < 4096 * (n - 1)"
  shows "(k + 1) * ch < max ((max s 512 * nr + sr - 1) div sr) (max s 512) * 2 + 32"
proof -
  define M where "M = max ((max s 512 * nr + sr - 1) div sr) (max s 512)"
  have a: "1 \<le> sr" "2 \<le> nr" using r by (simp_all add: lq_rates_def)
  have "k * (4096 * sr) \<le> k * (2 * nr * lq_instep sr nr)"
    using lq_instep_bounds(1) [OF r] k by (intro mult_left_mono)
  also have "\<dots> = 2 * nr * (k * lq_instep sr nr)" by (simp add: algebra_simps)
  also have "\<dots> < 2 * nr * (4096 * (n - 1))" using k a by (intro mult_strict_left_mono) simp_all
  finally have "k * sr < 2 * nr * (n - 1)" by (simp add: algebra_simps)
  then have "(k * sr) * ch < (2 * nr * (n - 1)) * ch" using ch by (intro mult_strict_right_mono) simp_all
  also have "\<dots> \<le> 2 * (nr * s)" using a ch n by (simp add: algebra_simps)
  finally have 1: "k * ch * sr < 2 * (nr * s)" by (simp add: algebra_simps)
  have "nr * s \<le> M * sr"
  proof -
    have "max s 512 * nr + sr - 1 < (M + 1) * sr"
      using int_div_less_iff [of sr "max s 512 * nr + sr - 1" "M + 1"] a by (simp add: M_def)
    then have "max s 512 * nr \<le> M * sr" by (simp add: algebra_simps)
    moreover have "s * nr \<le> max s 512 * nr" using a by (intro mult_right_mono) simp_all
    ultimately show ?thesis by (simp add: mult.commute)
  qed
  then have "k * ch * sr < (2 * M) * sr" using 1 by simp
  then have "k * ch < 2 * M" using a by simp
  then show ?thesis using ch unfolding M_def [symmetric] by (simp add: algebra_simps)
qed

section \<open>Properties\<close>

text \<open>C36: The resampler is safe and interpolates: for a source rate from 1 and a target rate from 2, both below 2 to the power of 20,
  the source rate not below a 4096th of the target rate; at most 32 channels; at least two whole input frames, their number plus the
  quotient of the rates below 2 to the power of 20; a room, as the function itself computes it, that fits 32 bits; and a target of at
  least this room: every access is inside the two buffers, no assertion fails and the loop ends. The output is a whole positive number
  of frames, not more samples than that room, and each sample lies between the two neighbouring input samples of its
  channel at its position.\<close>

theorem mixer_speed_lq_safe:
  assumes r: "lq_rates sr nr" and ch: "1 \<le> ch" "ch \<le> 32" and n: "2 \<le> n" "n + sr div nr < 1048576" "s = n * ch"
    and w: "max ((max s 512 * nr + sr - 1) div sr) (max s 512) * 2 + 32 < 4294967296"
    and d: "lq_buffcount s sr nr \<le> d" "s \<le> z"
  shows "\<exists>out K. mixer_speed_lq d z src s ch sr nr = Inr out \<and> 0 < K \<and> length out = K * nat ch
    \<and> int (length out) \<le> lq_buffcount s sr nr
    \<and> (\<forall>j<K. \<forall>c<nat ch. let i = (int j * lq_instep sr nr div 4096) * ch + int c in
          0 \<le> i \<and> i + ch < s \<and> min (src i) (src (i + ch)) \<le> out ! (j * nat ch + c)
          \<and> out ! (j * nat ch + c) \<le> max (src i) (src (i + ch)))"
proof -
  define instep inend where "instep = lq_instep sr nr" and "inend = 4096 * (n - 1)"
  define K where "K = nat ((inend + instep - 1) div instep)"
  let ?out = "lq_outs src ch instep K"
  have sr: "1 \<le> sr" "2 \<le> nr" using r by (simp_all add: lq_rates_def)
  have st: "0 < instep" "instep < (sr div nr + 1) * 4096" using lq_instep_bounds [OF r] by (simp_all add: instep_def)
  have q: "0 \<le> sr div nr" using sr by (simp add: pos_imp_zdiv_nonneg_iff)
  have ie: "0 < inend" "inend + instep \<le> 4294967296" using n st by (simp_all add: inend_def)
  have sn: "s div ch = n" using n ch by simp
  have bc: "lq_buffcount s sr nr = max ((max s 512 * nr + sr - 1) div sr) (max s 512) * 2 + 32"
    using w sr by (simp add: lq_buffcount_def w32_def)
  have room: "(int k + 1) * ch < lq_buffcount s sr nr" if "int k * instep < inend" for k
    using lq_room [OF r ch _ n(3), of "int k"] that n unfolding bc by (simp add: inend_def instep_def)
  have room_d: "(int k + 1) * ch < d" if "int k * instep < inend" for k
    using room [OF that] d(1) by linarith
  note fr = lq_frames [OF st(1) ie(1), folded K_def]
  have loop: "lq_loop d z src ch instep inend 0 [] = Inr ?out"
    using lq_loop_ok [of ch instep inend n z d K 0 src] ch st(1) ie(2) n(3) d(2) room_d fr
    by (simp add: inend_def lq_outs_def)
  have len: "int (length ?out) \<le> lq_buffcount s sr nr"
  proof -
    have "int (K - 1) * instep < inend" using fr(2) [of "K - 1"] fr(3) by simp
    then have "(int (K - 1) + 1) * ch < lq_buffcount s sr nr" by (rule room)
    then show ?thesis using fr(3) ch by (simp add: of_nat_diff)
  qed
  have "lq_inend s ch = inend" using n sn q by (simp add: lq_inend_def inend_def w32_def)
  then have m: "mixer_speed_lq d z src s ch sr nr = Inr ?out"
    using sr ch n d loop len high12_zero [of n] q
    by (simp add: mixer_speed_lq_def Let_def sn flip: instep_def)
  have b: "let i = (int j * instep div 4096) * ch + int c in 0 \<le> i \<and> i + ch < s
      \<and> min (src i) (src (i + ch)) \<le> ?out ! (j * nat ch + c) \<and> ?out ! (j * nat ch + c) \<le> max (src i) (src (i + ch))"
    if "j < K" "c < nat ch" for j c
  proof -
    define f where "f = int j * instep div 4096"
    have "f < n - 1" using fr(2) [OF that(1)] by (simp add: f_def int_div_less_iff inend_def mult.commute)
    then have "(f + 2) * ch \<le> s" unfolding n(3) using ch by (intro mult_right_mono) simp_all
    moreover have "0 \<le> f" using st by (simp add: f_def pos_imp_zdiv_nonneg_iff)
    ultimately show ?thesis
      unfolding lq_outs_nth [OF that] lq_out_def Let_def f_def [symmetric]
      using that ch lq_sample_between by (simp add: algebra_simps)
  qed
  show ?thesis using m fr(3) len b by (intro exI [of _ ?out] exI [of _ K]) (simp add: instep_def)
qed

theorem mixer_speed_lq_safe_witness:
  "\<exists>out K. mixer_speed_lq 2400 400 (\<lambda>i. i) 400 2 22050 44100 = Inr out \<and> 0 < K \<and> length out = K * 2
    \<and> int (length out) \<le> lq_buffcount 400 22050 44100"
  using mixer_speed_lq_safe [of 22050 44100 2 200 400 2400 400 "\<lambda>i. i"]
  by (simp add: lq_rates_def lq_buffcount_def w32_def) blast

text \<open>When the input rate is a multiple of the output rate the step is too large: the second
  part of the step is computed from \<open>4096 * 0 - 1\<close>. Halving a rate takes a step of
  10471 instead of 8192.\<close>

lemma lq_instep_multiple: "lq_instep 44100 22050 = 10471" "lq_instep 22050 44100 = 2048"
  by (simp_all add: lq_instep_def w32_def)

end
