(* ===== verification/Options.thy ===== *)
theory Options
  imports Prelude
begin

text \<open>
  The start of \<open>main.c\<close>: the table of options, the parsing of the \<open>BLASTER\<close> environment
  variable and of the command line, the checks on the values, and the \<open>BLASTER\<close> value the program
  writes back. Strings are lists of characters without their final zero. The C library's
  \<open>strtol\<close>, \<open>toupper\<close>, \<open>memicmp\<close> and the \<open>%x\<close> conversion are written out.
\<close>

section \<open>The C library\<close>

definition chr_code :: "char \<Rightarrow> nat" where "chr_code c = of_char c"

text \<open>A \<open>char\<close> is signed.\<close>

definition char_int :: "char \<Rightarrow> int" where
  "char_int c = (if 128 \<le> chr_code c then int (chr_code c) - 256 else int (chr_code c))"

definition toupper :: "char \<Rightarrow> char" where
  "toupper c = (if 97 \<le> chr_code c \<and> chr_code c \<le> 122 then char_of (chr_code c - 32) else c)"

definition isspace :: "char \<Rightarrow> bool" where
  "isspace c \<longleftrightarrow> chr_code c = 32 \<or> 9 \<le> chr_code c \<and> chr_code c \<le> 13"

definition digit_val :: "char \<Rightarrow> nat" where
  "digit_val c = (let n = chr_code c in if 48 \<le> n \<and> n \<le> 57 then n - 48
    else if 97 \<le> n \<and> n \<le> 122 then n - 87 else if 65 \<le> n \<and> n \<le> 90 then n - 55 else 99)"

definition skip_sign :: "string \<Rightarrow> bool \<times> string" where
  "skip_sign s = (case s of [] \<Rightarrow> (False, s)
    | c # cs \<Rightarrow> if chr_code c = 45 then (True, cs) else if chr_code c = 43 then (False, cs) else (False, s))"

definition skip_0x :: "nat \<Rightarrow> string \<Rightarrow> string" where
  "skip_0x base s = (case s of a # x # d # cs \<Rightarrow>
      if base = 16 \<and> chr_code a = 48 \<and> chr_code (toupper x) = 88 \<and> digit_val d < 16 then d # cs else s
    | _ \<Rightarrow> s)"

definition clamp_long :: "int \<Rightarrow> int" where
  "clamp_long v = (if 2147483647 < v then 2147483647 else if v < - 2147483648 then - 2147483648 else v)"

definition digits_value :: "nat \<Rightarrow> string \<Rightarrow> nat" where
  "digits_value base ds = foldl (\<lambda>v d. v * base + digit_val d) 0 ds"

text \<open>The value and the rest of the string.\<close>

definition strtol :: "nat \<Rightarrow> string \<Rightarrow> int \<times> string" where
  "strtol base s =
    (let (neg, t) = skip_sign (dropWhile isspace s); t = skip_0x base t;
         ds = takeWhile (\<lambda>c. digit_val c < base) t in
     if ds = [] then (0, s)
     else (clamp_long ((if neg then -1 else 1) * int (digits_value base ds)), dropWhile (\<lambda>c. digit_val c < base) t))"

definition hexdigit :: "nat \<Rightarrow> char" where
  "hexdigit d = char_of (if d < 10 then 48 + d else 87 + d)"

fun print_base :: "nat \<Rightarrow> nat \<Rightarrow> string" where
  "print_base base n = (if base < 2 \<or> n < base then [hexdigit n]
    else print_base base (n div base) @ [hexdigit (n mod base)])"

declare print_base.simps [simp del]

text \<open>\<open>%x\<close> shows an \<open>int\<close> as unsigned.\<close>

definition print_x :: "int \<Rightarrow> string" where
  "print_x v = print_base 16 (nat (v mod 4294967296))"

text \<open>\<open>memicmp\<close> over the length of its second string, which has no zero inside.\<close>

fun starts_ignore_case :: "string \<Rightarrow> string \<Rightarrow> bool" where
  "starts_ignore_case s [] = True"
| "starts_ignore_case [] (p # ps) = False"
| "starts_ignore_case (c # cs) (p # ps) = (toupper c = toupper p \<and> starts_ignore_case cs ps)"

section \<open>Options\<close>

datatype opt = OPT_Help | OPT_DEBUG_OUTPUT | OPT_PCI | OPT_ADDR | OPT_IRQ | OPT_DMA | OPT_TYPE | OPT_HDMA
  | OPT_OPL | OPT_PM | OPT_RM | OPT_OUTPUT | OPT_VOL | OPT_RATE | OPT_FIX_TC | OPT_SCLIST | OPT_SCFM
  | OPT_SCMPU | OPT_SC | OPT_RESET | OPT_MPUADDR | OPT_MPUCOMPORT | OPT_COMPORTLIST | OPT_MDBG

text \<open>The enumeration is ordered as its numbers are, which are the indices of the table.\<close>

primrec EOption :: "opt \<Rightarrow> nat" where
  "EOption OPT_Help = 0" | "EOption OPT_DEBUG_OUTPUT = 1" | "EOption OPT_PCI = 2" | "EOption OPT_ADDR = 3"
| "EOption OPT_IRQ = 4" | "EOption OPT_DMA = 5" | "EOption OPT_TYPE = 6" | "EOption OPT_HDMA = 7"
| "EOption OPT_OPL = 8" | "EOption OPT_PM = 9" | "EOption OPT_RM = 10" | "EOption OPT_OUTPUT = 11"
| "EOption OPT_VOL = 12" | "EOption OPT_RATE = 13" | "EOption OPT_FIX_TC = 14" | "EOption OPT_SCLIST = 15"
| "EOption OPT_SCFM = 16" | "EOption OPT_SCMPU = 17" | "EOption OPT_SC = 18" | "EOption OPT_RESET = 19"
| "EOption OPT_MPUADDR = 20" | "EOption OPT_MPUCOMPORT = 21" | "EOption OPT_COMPORTLIST = 22" | "EOption OPT_MDBG = 23"

lemma EOption_inj: "EOption a = EOption b \<Longrightarrow> a = b"
  by (cases a; cases b) simp_all

instantiation opt :: linorder
begin

definition less_eq_opt :: "opt \<Rightarrow> opt \<Rightarrow> bool" where "less_eq_opt a b = (EOption a \<le> EOption b)"

definition less_opt :: "opt \<Rightarrow> opt \<Rightarrow> bool" where "less_opt a b = (EOption a < EOption b)"

instance
  by standard (auto simp: less_eq_opt_def less_opt_def intro: EOption_inj)

end

record main_opt =
  opt_id :: opt
  opt_name :: string
  opt_default :: int
  opt_hidden :: bool
  opt_base10 :: bool

definition mk_opt :: "opt \<Rightarrow> string \<Rightarrow> int \<Rightarrow> bool \<Rightarrow> bool \<Rightarrow> main_opt" where
  "mk_opt i n v h b = \<lparr>opt_id = i, opt_name = n, opt_default = v, opt_hidden = h, opt_base10 = b\<rparr>"

definition MAIN_Options :: "main_opt list" where
  "MAIN_Options =
    [mk_opt OPT_Help ''/?'' 0 False False,
     mk_opt OPT_DEBUG_OUTPUT ''/DBG'' 0 False False,
     mk_opt OPT_PCI ''/PCI'' 0 True False,
     mk_opt OPT_ADDR ''/A'' 0x220 False False,
     mk_opt OPT_IRQ ''/I'' 7 False False,
     mk_opt OPT_DMA ''/D'' 1 False False,
     mk_opt OPT_TYPE ''/T'' 5 False False,
     mk_opt OPT_HDMA ''/H'' 5 False False,
     mk_opt OPT_OPL ''/OPL'' 1 False False,
     mk_opt OPT_PM ''/PM'' 1 False False,
     mk_opt OPT_RM ''/RM'' 1 False False,
     mk_opt OPT_OUTPUT ''/O'' 1 False False,
     mk_opt OPT_VOL ''/VOL'' 7 False False,
     mk_opt OPT_RATE ''/K'' 22050 False True,
     mk_opt OPT_FIX_TC ''/FIXTC'' 0 False False,
     mk_opt OPT_SCLIST ''/SCL'' 0 True False,
     mk_opt OPT_SCFM ''/SCFM'' 0 True True,
     mk_opt OPT_SCMPU ''/SCMPU'' 0 True True,
     mk_opt OPT_SC ''/SC'' 0 True True,
     mk_opt OPT_RESET ''/R'' 0 True False,
     mk_opt OPT_MPUADDR ''/P'' 0x330 False False,
     mk_opt OPT_MPUCOMPORT ''/MCOM'' 9 False False,
     mk_opt OPT_COMPORTLIST ''/COML'' 0 True False,
     mk_opt OPT_MDBG ''/MDBG'' 0 False False]"

lemma MAIN_Options_order: "map (EOption \<circ> opt_id) MAIN_Options = [0..<24]" "sorted_wrt (<) (map opt_id MAIN_Options)"
  by (simp_all add: MAIN_Options_def mk_opt_def less_opt_def upt_rec)

text \<open>The values, and which of them the command line set.\<close>

record options =
  opt_value :: "opt \<Rightarrow> int"
  opt_set :: "opt \<Rightarrow> bool"

abbreviation set_value :: "opt \<Rightarrow> int \<Rightarrow> options \<Rightarrow> options" where
  "set_value i v os \<equiv> os\<lparr>opt_value := (opt_value os)(i := v)\<rparr>"

definition default_options :: options where
  "default_options = \<lparr>opt_value = the \<circ> map_of (map (\<lambda>e. (opt_id e, opt_default e)) MAIN_Options),
    opt_set = (\<lambda>_. False)\<rparr>"

definition opt_base :: "opt \<Rightarrow> nat" where
  "opt_base i = (if i = OPT_RATE \<or> i = OPT_SCFM \<or> i = OPT_SCMPU \<or> i = OPT_SC then 10 else 16)"

section \<open>The environment variable\<close>

lemma skip_sign_shrinks: "length (snd (skip_sign s)) \<le> length s"
  by (simp add: skip_sign_def split: list.splits)

lemma strtol_shrinks: "length (snd (strtol base s)) \<le> length s"
proof -
  obtain neg t where t: "skip_sign (dropWhile isspace s) = (neg, t)" by fastforce
  have "length t \<le> length (dropWhile isspace s)"
    using skip_sign_shrinks [of "dropWhile isspace s"] t by simp
  moreover have "length (skip_0x base t) \<le> length t" by (auto simp: skip_0x_def split: list.splits)
  moreover have "length (dropWhile (\<lambda>c. digit_val c < base) (skip_0x base t)) \<le> length (skip_0x base t)"
    by (rule length_dropWhile_le)
  ultimately show ?thesis using length_dropWhile_le [of isspace s]
    by (simp add: strtol_def t Let_def)
qed

text \<open>The letters whose value is the one character that follows; at the end of the string the
  loop then reads past the terminating zero.\<close>

definition digit_opt :: "char \<Rightarrow> opt option" where
  "digit_opt u = (if u = CHR ''I'' then Some OPT_IRQ else if u = CHR ''D'' then Some OPT_DMA
    else if u = CHR ''T'' then Some OPT_TYPE else if u = CHR ''H'' then Some OPT_HDMA else None)"

definition number_opt :: "char \<Rightarrow> opt option" where
  "number_opt u = (if u = CHR ''A'' then Some OPT_ADDR else if u = CHR ''P'' then Some OPT_MPUADDR else None)"

function parse_blaster :: "string \<Rightarrow> options \<Rightarrow> options res" where
  "parse_blaster [] os = Inr os"
| "parse_blaster (c # s) os = (case digit_opt (toupper c) of
      Some i \<Rightarrow> (case s of [] \<Rightarrow> Inl Out_of_bounds
        | d # s' \<Rightarrow> parse_blaster s' (set_value i (char_int d - 48) os))
    | None \<Rightarrow> (case number_opt (toupper c) of
        Some i \<Rightarrow> parse_blaster (snd (strtol 16 s)) (set_value i (fst (strtol 16 s)) os)
      | None \<Rightarrow> parse_blaster s os))"
  by pat_completeness auto
termination
  by (relation "measure (length \<circ> fst)") (auto simp: less_Suc_eq_le strtol_shrinks)

definition MAIN_SetBlasterEnv :: "options \<Rightarrow> string" where
  "MAIN_SetBlasterEnv os = (let x = (\<lambda>i. print_x (opt_value os i)) in
    if opt_value os OPT_TYPE \<noteq> 6 then
      ''A'' @ x OPT_ADDR @ '' I'' @ x OPT_IRQ @ '' D'' @ x OPT_DMA @ '' P'' @ x OPT_MPUADDR
    else
      ''A'' @ x OPT_ADDR @ '' I'' @ x OPT_IRQ @ '' D'' @ x OPT_DMA @ '' T'' @ x OPT_TYPE @ '' H'' @ x OPT_HDMA
        @ '' P'' @ x OPT_MPUADDR)"

section \<open>The command line\<close>

definition apply_arg :: "string \<Rightarrow> main_opt \<Rightarrow> options \<Rightarrow> options" where
  "apply_arg arg e os =
    (let len = length (opt_name e); base = (if opt_base10 e then 10 else 16);
         v = (if length arg = len then 1 else fst (strtol base (drop len arg)))
     in (set_value (opt_id e) v os)\<lparr>opt_set := (opt_set os)(opt_id e := True)\<rparr>)"

fun match_arg :: "main_opt list \<Rightarrow> string \<Rightarrow> main_opt option" where
  "match_arg [] arg = None"
| "match_arg (e # es) arg = (if starts_ignore_case arg (opt_name e) then Some e else match_arg es arg)"

definition parse_arg :: "string \<Rightarrow> options \<Rightarrow> options" where
  "parse_arg arg os = (case match_arg MAIN_Options arg of None \<Rightarrow> os | Some e \<Rightarrow> apply_arg arg e os)"

definition parse_args :: "string list \<Rightarrow> options \<Rightarrow> options" where
  "parse_args argv os = fold parse_arg argv os"

section \<open>Checks\<close>

datatype option_error = Invalid_address | Invalid_irq | Invalid_dma | Invalid_type | Invalid_output
  | Invalid_volume | Invalid_rate

definition check_options :: "options \<Rightarrow> option_error + options" where
  "check_options os = (let v = opt_value os in
    if v OPT_ADDR \<noteq> 0x220 \<and> v OPT_ADDR \<noteq> 0x240 then Inl Invalid_address
    else if v OPT_IRQ \<noteq> 5 \<and> v OPT_IRQ \<noteq> 7 \<and> v OPT_IRQ \<noteq> 9 then Inl Invalid_irq
    else if v OPT_DMA \<noteq> 0 \<and> v OPT_DMA \<noteq> 1 \<and> v OPT_DMA \<noteq> 3 then Inl Invalid_dma
    else if v OPT_TYPE \<le> 0 \<or> 6 < v OPT_TYPE then Inl Invalid_type
    else if v OPT_OUTPUT \<noteq> 0 \<and> v OPT_OUTPUT \<noteq> 1 then Inl Invalid_output
    else if v OPT_VOL < 0 \<or> 9 < v OPT_VOL then Inl Invalid_volume
    else if v OPT_RATE < 4000 \<or> 192000 < v OPT_RATE then Inl Invalid_rate
    else Inr (if v OPT_TYPE \<noteq> 6 then set_value OPT_HDMA (v OPT_DMA) os else os))"

text \<open>The start of \<open>main\<close> up to the checks. \<open>serial\<close> is what the set-up of the serial ports answers
  for the parsed options: an exit code, or nothing to go on.\<close>

datatype startup = Show_help | Exit_code int | Rejected option_error | Accepted options

definition MAIN_startup :: "(options \<Rightarrow> int option) \<Rightarrow> string option \<Rightarrow> string list \<Rightarrow> startup res" where
  "MAIN_startup serial blaster argv =
    (if length argv = 1 \<and> length (hd argv) = 2 \<and> starts_ignore_case (hd argv) ''/?'' then Inr Show_help
     else bindE (case blaster of None \<Rightarrow> Inr default_options | Some s \<Rightarrow> parse_blaster s default_options) (\<lambda>os.
       (let os = parse_args argv os in
        Inr (case serial os of Some c \<Rightarrow> Exit_code c
          | None \<Rightarrow> (case check_options os of Inl e \<Rightarrow> Rejected e | Inr os \<Rightarrow> Accepted os)))))"

definition MAIN_SB_DSPVersion :: "int list" where
  "MAIN_SB_DSPVersion = [0, 0x0100, 0x0300, 0x0202, 0x0302, 0x0302, 0x0400]"

section \<open>Numbers written and read back\<close>

lemma hexdigit_val: "d < 16 \<Longrightarrow> digit_val (hexdigit d) = d"
proof -
  assume "d < 16"
  then have "d \<in> set [0..<16]" by simp
  moreover have "\<forall>d\<in>set [0..<16]. digit_val (hexdigit d) = d"
    by (simp add: upt_rec digit_val_def hexdigit_def chr_code_def)
  ultimately show ?thesis by blast
qed

lemma digits_value_append: "digits_value base (ds @ [c]) = digits_value base ds * base + digit_val c"
  by (simp add: digits_value_def)

lemma print_base_digits:
  assumes "2 \<le> base" "base \<le> 16"
  shows "digits_value base (print_base base n) = n \<and> (\<forall>c\<in>set (print_base base n). digit_val c < base) \<and> print_base base n \<noteq> []"
  using assms
proof (induction base n rule: print_base.induct)
  case (1 base n)
  show ?case
  proof (cases "n < base")
    case True
    then show ?thesis using 1 by (simp add: print_base.simps [of base n] hexdigit_val digits_value_def)
  next
    case False
    with 1 have IH: "digits_value base (print_base base (n div base)) = n div base"
      "\<forall>c\<in>set (print_base base (n div base)). digit_val c < base" "print_base base (n div base) \<noteq> []"
      by auto
    have m: "n mod base < base" "n mod base < 16" using 1 False by (auto intro: less_le_trans [OF mod_less_divisor])
    have "print_base base n = print_base base (n div base) @ [hexdigit (n mod base)]"
      using False 1 by (simp add: print_base.simps [of base n])
    then show ?thesis using IH m by (auto simp: digits_value_append hexdigit_val)
  qed
qed

lemma digit_not_space: "digit_val c < 16 \<Longrightarrow> \<not> isspace c \<and> chr_code c \<noteq> 45 \<and> chr_code c \<noteq> 43 \<and> chr_code (toupper c) \<noteq> 88"
  by (auto simp: digit_val_def isspace_def toupper_def chr_code_def Let_def split: if_splits)

lemma strtol_print:
  assumes b: "2 \<le> base" "base \<le> 16" and n: "n \<le> 2147483647" and r: "r = [] \<or> hd r = CHR '' ''"
  shows "strtol base (print_base base n @ r) = (int n, r)"
proof -
  let ?p = "print_base base n"
  note p = print_base_digits [OF b, of n]
  obtain c cs where c: "?p = c # cs" using p by (cases ?p) auto
  have cd: "digit_val c < 16" using p c b by (metis less_le_trans list.set_intros(1))
  have r0: "r \<noteq> [] \<Longrightarrow> \<not> digit_val (hd r) < base" using r b by (auto simp: digit_val_def chr_code_def Let_def)
  have 1: "dropWhile isspace (?p @ r) = ?p @ r" using digit_not_space [OF cd] by (simp add: c)
  have 2: "skip_sign (?p @ r) = (False, ?p @ r)" using digit_not_space [OF cd] by (simp add: c skip_sign_def)
  have 3: "skip_0x base (?p @ r) = ?p @ r"
  proof (cases "cs @ r")
    case (Cons d ds)
    have "chr_code (toupper d) \<noteq> 88"
    proof (cases cs)
      case Nil
      then have "d = CHR '' ''" using Cons r by auto
      then show ?thesis by (simp add: chr_code_def toupper_def)
    next
      case (Cons e es)
      then have "digit_val d < 16" using p c b \<open>cs @ r = d # ds\<close> by auto
      then show ?thesis using digit_not_space by blast
    qed
    then show ?thesis using Cons by (auto simp: c skip_0x_def split: list.splits)
  qed (simp add: c skip_0x_def)
  have 4: "takeWhile (\<lambda>c. digit_val c < base) (?p @ r) = ?p" "dropWhile (\<lambda>c. digit_val c < base) (?p @ r) = r"
    using p r0 by (cases r; simp add: takeWhile_append2 dropWhile_append2)+
  show ?thesis using p n
    by (simp add: strtol_def 1 2 3 4 Let_def clamp_long_def)
qed


section \<open>The environment variable round trip\<close>

lemma print_x_nat: "0 \<le> v \<Longrightarrow> v \<le> 2147483647 \<Longrightarrow> print_x v = print_base 16 (nat v)"
  by (simp add: print_x_def)

lemma print_x_digit: "0 \<le> v \<Longrightarrow> v \<le> 9 \<Longrightarrow> \<exists>d. print_x v = [d] \<and> char_int d - 48 = v"
proof -
  assume v: "0 \<le> v" "v \<le> 9"
  then have "nat v \<in> set [0..<10]" by auto
  moreover have "\<forall>n\<in>set [0..<10]. char_int (hexdigit n) - 48 = int n"
    by (simp add: upt_rec char_int_def hexdigit_def chr_code_def)
  ultimately have "char_int (hexdigit (nat v)) - 48 = int (nat v)" by blast
  with v show ?thesis by (simp add: print_x_nat print_base.simps [of 16])
qed

lemma strtol_print_x:
  "0 \<le> v \<Longrightarrow> v \<le> 2147483647 \<Longrightarrow> r = [] \<or> hd r = CHR '' '' \<Longrightarrow> strtol 16 (print_x v @ r) = (v, r)"
  using strtol_print [of 16 "nat v" r] by (simp add: print_x_nat)

lemma parse_space [simp]: "parse_blaster (CHR '' '' # s) os = parse_blaster s os"
  by (simp add: digit_opt_def number_opt_def toupper_def chr_code_def)

lemma parse_number:
  assumes "0 \<le> v" "v \<le> 2147483647" "r = [] \<or> hd r = CHR '' ''"
  shows "parse_blaster (CHR ''A'' # print_x v @ r) os = parse_blaster r (set_value OPT_ADDR v os)"
    "parse_blaster (CHR ''P'' # print_x v @ r) os = parse_blaster r (set_value OPT_MPUADDR v os)"
  by (simp_all add: digit_opt_def number_opt_def toupper_def chr_code_def strtol_print_x [OF assms])

lemma parse_digit:
  assumes "0 \<le> v" "v \<le> 9"
  shows "parse_blaster (CHR ''I'' # print_x v @ r) os = parse_blaster r (set_value OPT_IRQ v os)"
    "parse_blaster (CHR ''D'' # print_x v @ r) os = parse_blaster r (set_value OPT_DMA v os)"
    "parse_blaster (CHR ''T'' # print_x v @ r) os = parse_blaster r (set_value OPT_TYPE v os)"
    "parse_blaster (CHR ''H'' # print_x v @ r) os = parse_blaster r (set_value OPT_HDMA v os)"
proof -
  obtain d where d: "print_x v = [d]" "char_int d - 48 = v" using print_x_digit [OF assms] by blast
  show "parse_blaster (CHR ''I'' # print_x v @ r) os = parse_blaster r (set_value OPT_IRQ v os)"
    "parse_blaster (CHR ''D'' # print_x v @ r) os = parse_blaster r (set_value OPT_DMA v os)"
    "parse_blaster (CHR ''T'' # print_x v @ r) os = parse_blaster r (set_value OPT_TYPE v os)"
    "parse_blaster (CHR ''H'' # print_x v @ r) os = parse_blaster r (set_value OPT_HDMA v os)"
    using d by (simp_all add: digit_opt_def toupper_def chr_code_def)
qed

lemma check_optionsD:
  assumes "check_options os0 = Inr os"
  shows "opt_value os OPT_ADDR \<in> {0x220, 0x240}" "opt_value os OPT_IRQ \<in> {5, 7, 9}" "opt_value os OPT_DMA \<in> {0, 1, 3}"
    "1 \<le> opt_value os OPT_TYPE" "opt_value os OPT_TYPE \<le> 6"
    "opt_value os OPT_TYPE \<noteq> 6 \<Longrightarrow> opt_value os OPT_HDMA = opt_value os OPT_DMA"
    "0 \<le> opt_value os OPT_VOL" "opt_value os OPT_VOL \<le> 9" "4000 \<le> opt_value os OPT_RATE" "opt_value os OPT_RATE \<le> 192000"
  using assms unfolding check_options_def Let_def by (simp_all split: if_splits) (hypsubst, simp)+

text \<open>C40: The \<open>BLASTER\<close> value the program writes for settings that pass its checks is read back by the
  program as the same settings: address, interrupt, DMA channel and MIDI port always, the card type and
  16-bit channel exactly for the SB16 type, as only then they are written; nothing else changes. The MIDI port, which is not
  checked, must be a number from 0 to 2147483647, and for the SB16 the 16-bit channel, which is not checked either, one digit from 0 to 9:
  a longer one is accepted but read back as its first digit (\<open>blaster_two_digits\<close>).\<close>

theorem blaster_roundtrip:
  assumes chk: "check_options os0 = Inr os" and mpu: "0 \<le> opt_value os OPT_MPUADDR" "opt_value os OPT_MPUADDR \<le> 2147483647"
    and h6: "opt_value os OPT_TYPE = 6 \<Longrightarrow> opt_value os OPT_HDMA \<in> {0..9}"
  shows "parse_blaster (MAIN_SetBlasterEnv os) old = Inr (old\<lparr>opt_value := (\<lambda>i.
    if i \<in> {OPT_ADDR, OPT_IRQ, OPT_DMA, OPT_MPUADDR} \<or> opt_value os OPT_TYPE = 6 \<and> i \<in> {OPT_TYPE, OPT_HDMA}
    then opt_value os i else opt_value old i)\<rparr>)"
proof -
  let ?v = "opt_value os"
  have a: "0 \<le> ?v OPT_ADDR" "?v OPT_ADDR \<le> 2147483647" and i: "0 \<le> ?v OPT_IRQ" "?v OPT_IRQ \<le> 9"
    and d: "0 \<le> ?v OPT_DMA" "?v OPT_DMA \<le> 9" and t: "0 \<le> ?v OPT_TYPE" "?v OPT_TYPE \<le> 9"
    using check_optionsD [OF chk] by auto
  have hdma: "0 \<le> ?v OPT_HDMA" "?v OPT_HDMA \<le> 9" using h6 d check_optionsD(6) [OF chk] by (cases "?v OPT_TYPE = 6"; simp)+
  note parse = parse_number(1) [OF a] parse_digit(1) [OF i] parse_digit(2) [OF d] parse_digit(3) [OF t]
    parse_digit(4) [OF hdma] parse_number(2) [OF mpu]
  have p: "parse_blaster (CHR ''P'' # print_x (?v OPT_MPUADDR)) o1 = Inr (set_value OPT_MPUADDR (?v OPT_MPUADDR) o1)" for o1
    using parse_number(2) [OF mpu, of "[]" o1] by (simp del: parse_blaster.simps(2))
  show ?thesis
  proof (cases "?v OPT_TYPE = 6")
    case False
    then have "parse_blaster (MAIN_SetBlasterEnv os) old = Inr (old\<lparr>opt_value := (opt_value old)
        (OPT_ADDR := ?v OPT_ADDR, OPT_IRQ := ?v OPT_IRQ, OPT_DMA := ?v OPT_DMA, OPT_MPUADDR := ?v OPT_MPUADDR)\<rparr>)"
      by (simp add: MAIN_SetBlasterEnv_def Let_def parse p del: parse_blaster.simps(2))
    moreover have "(opt_value old)(OPT_ADDR := ?v OPT_ADDR, OPT_IRQ := ?v OPT_IRQ, OPT_DMA := ?v OPT_DMA,
        OPT_MPUADDR := ?v OPT_MPUADDR) = (\<lambda>i. if i \<in> {OPT_ADDR, OPT_IRQ, OPT_DMA, OPT_MPUADDR} then ?v i else opt_value old i)"
      by (rule ext) simp
    ultimately show ?thesis using False by simp
  next
    case True
    then have "parse_blaster (MAIN_SetBlasterEnv os) old = Inr (old\<lparr>opt_value := (opt_value old)
        (OPT_ADDR := ?v OPT_ADDR, OPT_IRQ := ?v OPT_IRQ, OPT_DMA := ?v OPT_DMA, OPT_TYPE := ?v OPT_TYPE,
         OPT_HDMA := ?v OPT_HDMA, OPT_MPUADDR := ?v OPT_MPUADDR)\<rparr>)"
      using parse p by (simp add: MAIN_SetBlasterEnv_def Let_def del: parse_blaster.simps(2))
    moreover have "(opt_value old)(OPT_ADDR := ?v OPT_ADDR, OPT_IRQ := ?v OPT_IRQ, OPT_DMA := ?v OPT_DMA,
        OPT_TYPE := ?v OPT_TYPE, OPT_HDMA := ?v OPT_HDMA, OPT_MPUADDR := ?v OPT_MPUADDR)
      = (\<lambda>i. if i \<in> {OPT_ADDR, OPT_IRQ, OPT_DMA, OPT_MPUADDR} \<or> i \<in> {OPT_TYPE, OPT_HDMA} then ?v i else opt_value old i)"
      by (rule ext) simp
    ultimately show ?thesis using True by simp
  qed
qed

definition sb16_options :: options where
  "sb16_options = set_value OPT_TYPE 6 (set_value OPT_IRQ 5 (set_value OPT_MPUADDR 0x300 default_options))"

theorem blaster_roundtrip_witness:
  "MAIN_SetBlasterEnv sb16_options = ''A220 I5 D1 T6 H5 P300''
    \<and> parse_blaster ''A220 I5 D1 T6 H5 P300'' default_options = Inr (default_options\<lparr>opt_value := (\<lambda>i.
      if i \<in> {OPT_ADDR, OPT_IRQ, OPT_DMA, OPT_MPUADDR} \<or> i \<in> {OPT_TYPE, OPT_HDMA}
      then opt_value sb16_options i else opt_value default_options i)\<rparr>)"
proof -
  have e: "MAIN_SetBlasterEnv sb16_options = ''A220 I5 D1 T6 H5 P300''"
    by code_simp
  have v: "opt_value sb16_options OPT_TYPE = 6" "opt_value sb16_options OPT_HDMA = 5"
    "opt_value sb16_options OPT_MPUADDR = 0x300" "opt_value sb16_options OPT_ADDR = 0x220"
    "opt_value sb16_options OPT_IRQ = 5" "opt_value sb16_options OPT_DMA = 1" "opt_value sb16_options OPT_OUTPUT = 1"
    "opt_value sb16_options OPT_VOL = 7" "opt_value sb16_options OPT_RATE = 22050"
    by (simp_all add: sb16_options_def default_options_def MAIN_Options_def mk_opt_def)
  have "check_options sb16_options = Inr sb16_options"
    by (simp add: check_options_def v)
  from blaster_roundtrip [OF this, of default_options] show ?thesis by (simp add: e v)
qed

text \<open>The 16-bit channel is not checked; with \<open>/H10\<close>, which is read as a hexadecimal number, the value written is read back with channel 1.\<close>

lemma blaster_two_digits:
  assumes "os = set_value OPT_HDMA 0x10 sb16_options"
  shows "check_options os = Inr os" "MAIN_SetBlasterEnv os = ''A220 I5 D1 T6 H10 P300''"
    "map_sum id (\<lambda>o2. opt_value o2 OPT_HDMA) (parse_blaster (MAIN_SetBlasterEnv os) default_options) = Inr 1"
proof -
  have v: "opt_value os OPT_TYPE = 6" "opt_value os OPT_ADDR = 0x220" "opt_value os OPT_IRQ = 5" "opt_value os OPT_DMA = 1"
    "opt_value os OPT_OUTPUT = 1" "opt_value os OPT_VOL = 7" "opt_value os OPT_RATE = 22050"
    by (simp_all add: assms sb16_options_def default_options_def MAIN_Options_def mk_opt_def)
  show "check_options os = Inr os" by (simp add: check_options_def v)
  show e: "MAIN_SetBlasterEnv os = ''A220 I5 D1 T6 H10 P300''" unfolding assms by code_simp
  show "map_sum id (\<lambda>o2. opt_value o2 OPT_HDMA) (parse_blaster (MAIN_SetBlasterEnv os) default_options) = Inr 1"
    unfolding e by code_simp
qed

text \<open>A value that ends in one of the one-character letters makes the loop read past its end.\<close>

lemma blaster_overrun: "parse_blaster ''A220 I'' os = Inl Out_of_bounds"
proof -
  have "print_x 0x220 = ''220''" by code_simp
  with parse_number(1) [of "0x220" "'' I''" os] show ?thesis
    by (simp add: digit_opt_def number_opt_def toupper_def chr_code_def del: parse_blaster.simps(2))
      (simp add: digit_opt_def number_opt_def toupper_def chr_code_def)
qed

section \<open>Options on the command line\<close>

definition is_hex :: "string \<Rightarrow> bool" where "is_hex ds = (\<forall>c\<in>set ds. digit_val c < 16)"

lemma toupper_digit: "digit_val (toupper c) = digit_val c"
  by (auto simp: digit_val_def toupper_def chr_code_def Let_def)

text \<open>A number never goes on like a longer option name: each has a letter beyond F.\<close>

lemma hex_not_name: "is_hex ds \<Longrightarrow> list_ex (\<lambda>c. 16 \<le> digit_val c) p \<Longrightarrow> starts_ignore_case ds p = False"
proof (induction ds p rule: starts_ignore_case.induct)
  case (3 c cs x ps)
  have "digit_val c < 16" using 3 by (simp add: is_hex_def)
  then have "toupper c = toupper x \<Longrightarrow> \<not> 16 \<le> digit_val x" by (metis toupper_digit not_less)
  with 3 show ?case by (auto simp: is_hex_def)
qed simp_all

fun never_starts :: "string \<Rightarrow> string \<Rightarrow> bool" where
  "never_starts [] p = list_ex (\<lambda>c. 16 \<le> digit_val c) p"
| "never_starts (c # cs) [] = False"
| "never_starts (c # cs) (x # ps) = (toupper c \<noteq> toupper x \<or> never_starts cs ps)"

lemma never_starts: "never_starts nm p \<Longrightarrow> is_hex ds \<Longrightarrow> starts_ignore_case (nm @ ds) p = False"
  by (induction nm p rule: never_starts.induct) (auto simp: hex_not_name)

fun names_ordered :: "main_opt list \<Rightarrow> bool" where
  "names_ordered [] = True"
| "names_ordered (e # es) = (list_all (\<lambda>f. never_starts (opt_name f) (opt_name e)) es \<and> names_ordered es)"

lemma starts_own: "starts_ignore_case (nm @ ds) nm"
  by (induction nm) auto

lemma match_ordered: "names_ordered es \<Longrightarrow> e \<in> set es \<Longrightarrow> is_hex ds \<Longrightarrow> match_arg es (opt_name e @ ds) = Some e"
  by (induction es) (auto simp: list_all_iff never_starts starts_own)

lemma names_ordered_MAIN: "names_ordered MAIN_Options"
  by (simp add: MAIN_Options_def mk_opt_def toupper_def chr_code_def digit_val_def)

lemma base_MAIN: "list_all (\<lambda>e. opt_base (opt_id e) = (if opt_base10 e then 10 else 16)) MAIN_Options"
  by code_simp

text \<open>Every option of the table is found by its own name although shorter names of other options are
  prefixes of it (the table lists \<open>/DBG\<close> before \<open>/D\<close>, \<open>/SCL\<close> before \<open>/SC\<close>): the
  name alone stores 1, and the name with a number stores that number, in the base the option uses.\<close>

theorem option_argument:
  assumes e: "e \<in> set MAIN_Options" and n: "n \<le> 2147483647"
  shows "parse_arg (opt_name e) os = (set_value (opt_id e) 1 os)\<lparr>opt_set := (opt_set os)(opt_id e := True)\<rparr>
    \<and> parse_arg (opt_name e @ print_base (opt_base (opt_id e)) n) os
      = (set_value (opt_id e) (int n) os)\<lparr>opt_set := (opt_set os)(opt_id e := True)\<rparr>"
proof -
  let ?ds = "print_base (opt_base (opt_id e)) n"
  have b: "opt_base (opt_id e) = (if opt_base10 e then 10 else 16)" using base_MAIN e by (auto simp: list_all_iff)
  then have r: "2 \<le> opt_base (opt_id e)" "opt_base (opt_id e) \<le> 16" by simp_all
  note p = print_base_digits [OF r, of n]
  have hex: "is_hex ?ds" using p r(2) by (auto simp: is_hex_def intro: less_le_trans)
  have "match_arg MAIN_Options (opt_name e @ []) = Some e"
    by (rule match_ordered [OF names_ordered_MAIN e]) (simp add: is_hex_def)
  moreover have "match_arg MAIN_Options (opt_name e @ ?ds) = Some e"
    by (rule match_ordered [OF names_ordered_MAIN e hex])
  moreover have "strtol (opt_base (opt_id e)) ?ds = (int n, [])" using strtol_print [OF r n, of "[]"] by simp
  ultimately show ?thesis using p by (simp add: parse_arg_def apply_arg_def Let_def flip: b)
qed

theorem option_argument_witness:
  "opt_value (parse_arg ''/SCFM12'' default_options) OPT_SCFM = 12"
proof -
  have "mk_opt OPT_SCFM ''/SCFM'' 0 True True \<in> set MAIN_Options" by (simp add: MAIN_Options_def)
  moreover have "print_base 10 12 = ''12''" by code_simp
  ultimately show ?thesis using option_argument [of "mk_opt OPT_SCFM ''/SCFM'' 0 True True" 12 default_options]
    by (simp add: mk_opt_def opt_base_def)
qed

end
