(* ===== verification/Serial.thy ===== *)
theory Serial
  imports Options Untrapio
begin

text \<open>
  The serial ports (\<open>sbemu/serial.c\<close>): finding the port of a COM number, setting it up, and writing bytes to it once
  its transmitter is empty, a wait that only ends when the hardware says so. Then how
  \<open>main.c\<close> sets the ports up from the options.
\<close>

record 'h serial =
  dbg_iobase :: u32
  midi_iobase :: u32
  ser_ports :: 'h

datatype serial_type = SBEMU_SERIAL_TYPE_DBG | SBEMU_SERIAL_TYPE_MIDI | SBEMU_SERIAL_TYPE_FASTDBG

definition UART_DATA :: u32 where "UART_DATA = 0"
definition UART_DIVLO :: u32 where "UART_DIVLO = 0"
definition UART_DIVHI :: u32 where "UART_DIVHI = 1"
definition UART_LCTL :: u32 where "UART_LCTL = 3"
definition UART_MCTL :: u32 where "UART_MCTL = 4"
definition UART_LSTAT :: u32 where "UART_LSTAT = 5"
definition LST_TRIG_EMPTY :: u8 where "LST_TRIG_EMPTY = 0x20"

lemmas uart_defs = UART_DATA_def UART_DIVLO_def UART_DIVHI_def UART_LCTL_def UART_MCTL_def UART_LSTAT_def

text \<open>\<open>bda\<close> is the BIOS table of the four ports' addresses.\<close>

definition get_com_port_address :: "(int \<Rightarrow> u16) \<Rightarrow> int \<Rightarrow> u16" where
  "get_com_port_address bda portno = bda (0x0400 + (portno - 1) * 2)"

definition ser_iobase :: "(int \<Rightarrow> u16) \<Rightarrow> serial_type \<Rightarrow> u32 \<Rightarrow> u32 \<times> u32" where
  "ser_iobase bda stype sdev = (if 1 \<le> sdev \<and> sdev \<le> 4 then (sdev, ucast (get_com_port_address bda (uint sdev)))
    else (let sdev = (if stype = SBEMU_SERIAL_TYPE_MIDI \<and> sdev = 9 then 0 else sdev)
      in (sdev, if 0xff < sdev then sdev else 0)))"

definition ser_baud :: "serial_type \<Rightarrow> u32" where
  "ser_baud stype = (case stype of SBEMU_SERIAL_TYPE_FASTDBG \<Rightarrow> 1 | SBEMU_SERIAL_TYPE_MIDI \<Rightarrow> 3 | SBEMU_SERIAL_TYPE_DBG \<Rightarrow> 1)"

definition ser_out :: "'h io_ops \<Rightarrow> u32 \<Rightarrow> u8 \<Rightarrow> 'h serial \<Rightarrow> 'h serial" where
  "ser_out io port v s = s\<lparr>ser_ports := io_out io (ucast port) v (ser_ports s)\<rparr>"

definition ser_program :: "'h io_ops \<Rightarrow> u32 \<Rightarrow> u32 \<Rightarrow> 'h serial \<Rightarrow> 'h serial" where
  "ser_program io iobase baud s =
    ser_out io (iobase OR UART_MCTL) 0x03 (ser_out io (iobase OR UART_LCTL) 0x03
    (ser_out io (iobase OR UART_DIVHI) (ucast (drop_bit 8 baud)) (ser_out io (iobase OR UART_DIVLO) (ucast (baud AND 0xff))
    (ser_out io (iobase OR UART_LCTL) 0x80 s))))"

definition ser_setup :: "'h io_ops \<Rightarrow> (int \<Rightarrow> u16) \<Rightarrow> serial_type \<Rightarrow> u32 \<Rightarrow> 'h serial \<Rightarrow> int \<times> 'h serial" where
  "ser_setup io bda stype sdev s =
    (let (sdev, iobase) = ser_iobase bda stype sdev;
         s = (if stype = SBEMU_SERIAL_TYPE_MIDI then s\<lparr>midi_iobase := iobase\<rparr> else s\<lparr>dbg_iobase := iobase\<rparr>) in
     if iobase = 0 then (if sdev \<noteq> 0 then 1 else 0, s)
     else (0, ser_program io iobase (ser_baud stype) s))"

text \<open>The wait for the transmitter, which may not end.\<close>

partial_function (option) ser_wait :: "'h io_ops \<Rightarrow> u32 \<Rightarrow> 'h serial \<Rightarrow> 'h serial option" where
  "ser_wait io iobase s = (let (st, h) = io_in io (ucast (iobase OR UART_LSTAT)) (ser_ports s); s = s\<lparr>ser_ports := h\<rparr> in
    if st AND LST_TRIG_EMPTY = 0 then ser_wait io iobase s else Some s)"

definition ser_putbyte :: "'h io_ops \<Rightarrow> u8 \<Rightarrow> 'h serial \<Rightarrow> 'h serial option" where
  "ser_putbyte io c s = (if midi_iobase s = 0 then Some s else
    map_option (ser_out io (midi_iobase s OR UART_DATA) c) (ser_wait io (midi_iobase s) s))"

definition ser_putchar :: "'h io_ops \<Rightarrow> u8 \<Rightarrow> 'h serial \<Rightarrow> 'h serial option" where
  "ser_putchar io c s = map_option (ser_out io (dbg_iobase s OR UART_DATA) c) (ser_wait io (dbg_iobase s) s)"

fun ser_put_all :: "'h io_ops \<Rightarrow> u8 list \<Rightarrow> 'h serial \<Rightarrow> 'h serial option" where
  "ser_put_all io [] s = Some s"
| "ser_put_all io (c # cs) s = (case ser_putchar io c s of None \<Rightarrow> None | Some s \<Rightarrow> ser_put_all io cs s)"

definition ser_puts :: "'h io_ops \<Rightarrow> u8 list \<Rightarrow> 'h serial \<Rightarrow> (bool \<times> 'h serial) option" where
  "ser_puts io str s = (if dbg_iobase s = 0 then Some (False, s) else map_option (Pair True) (ser_put_all io str s))"

section \<open>From the options\<close>

definition update_serial_debug_output :: "'h io_ops \<Rightarrow> (int \<Rightarrow> u16) \<Rightarrow> options \<Rightarrow> 'h serial \<Rightarrow> int \<times> 'h serial" where
  "update_serial_debug_output io bda os s = ser_setup io bda
    (if opt_value os OPT_MDBG \<noteq> 0 then SBEMU_SERIAL_TYPE_FASTDBG else SBEMU_SERIAL_TYPE_DBG)
    (word_of_int (opt_value os OPT_DEBUG_OUTPUT)) s"

definition update_serial_mpu_output :: "'h io_ops \<Rightarrow> (int \<Rightarrow> u16) \<Rightarrow> options \<Rightarrow> 'h serial \<Rightarrow> int \<times> 'h serial" where
  "update_serial_mpu_output io bda os s =
    ser_setup io bda SBEMU_SERIAL_TYPE_MIDI (word_of_int (opt_value os OPT_MPUCOMPORT)) s"

text \<open>What \<open>main\<close> does with the serial options: the exit code when it stops, and the ports.\<close>

definition MAIN_serial :: "'h io_ops \<Rightarrow> (int \<Rightarrow> u16) \<Rightarrow> options \<Rightarrow> 'h serial \<Rightarrow> int option \<times> 'h serial" where
  "MAIN_serial io bda os s =
    (let (err, s) = (if opt_value os OPT_DEBUG_OUTPUT \<noteq> 0 then update_serial_debug_output io bda os s else (0, s)) in
     if err \<noteq> 0 then (Some 1, s)
     else if opt_value os OPT_COMPORTLIST \<noteq> 0 then (Some 0, s)
     else (let (err, s) = (if opt_value os OPT_MPUCOMPORT \<noteq> 0 then update_serial_mpu_output io bda os s else (0, s))
       in (if err \<noteq> 0 then Some 1 else None, s)))"

section \<open>Lemmas\<close>

text \<open>A write returns as soon as the transmitter is empty.\<close>

lemma ser_wait_ready:
  assumes "io_in io (ucast (b OR UART_LSTAT)) (ser_ports s) = (st, h)" "st AND LST_TRIG_EMPTY \<noteq> 0"
  shows "ser_wait io b s = Some (s\<lparr>ser_ports := h\<rparr>)"
  using assms by (subst ser_wait.simps) simp

text \<open>The wait ends after the first of \<open>k\<close> polls that finds the transmitter empty.\<close>

lemma ser_wait_ends:
  assumes "\<And>i. i < k \<Longrightarrow> fst (io_in io (ucast (b OR UART_LSTAT)) (hs i)) AND LST_TRIG_EMPTY = 0"
    and "\<And>i. i < Suc k \<Longrightarrow> snd (io_in io (ucast (b OR UART_LSTAT)) (hs i)) = hs (Suc i)"
    and "fst (io_in io (ucast (b OR UART_LSTAT)) (hs k)) AND LST_TRIG_EMPTY \<noteq> 0" and "ser_ports s = hs 0"
  shows "ser_wait io b s = Some (s\<lparr>ser_ports := hs (Suc k)\<rparr>)"
  using assms
proof (induction k arbitrary: hs s)
  case 0
  then show ?case by (subst ser_wait.simps) (simp add: split_beta)
next
  case (Suc k)
  have "ser_wait io b s = ser_wait io b (s\<lparr>ser_ports := hs 1\<rparr>)"
    using Suc.prems(1) [of 0] Suc.prems(2) [of 0] Suc.prems(4) by (subst ser_wait.simps) (simp add: split_beta)
  also have "\<dots> = Some (s\<lparr>ser_ports := hs 1, ser_ports := hs (Suc (Suc k))\<rparr>)"
    by (rule Suc.IH [of "\<lambda>i. hs (Suc i)"]) (use Suc.prems in auto)
  finally show ?case by simp
qed

text \<open>The transmitter is found empty within \<open>k\<close> further polls: then the wait ends.\<close>

fun tx_empty :: "'h io_ops \<Rightarrow> u32 \<Rightarrow> nat \<Rightarrow> 'h \<Rightarrow> bool" where
  "tx_empty io b 0 h = (fst (io_in io (ucast (b OR UART_LSTAT)) h) AND LST_TRIG_EMPTY \<noteq> 0)"
| "tx_empty io b (Suc k) h = (fst (io_in io (ucast (b OR UART_LSTAT)) h) AND LST_TRIG_EMPTY \<noteq> 0
    \<or> tx_empty io b k (snd (io_in io (ucast (b OR UART_LSTAT)) h)))"

lemma ser_wait_tx_empty: "tx_empty io b k (ser_ports s) \<Longrightarrow> \<exists>s'. ser_wait io b s = Some s'"
proof (induction k arbitrary: s)
  case 0
  then show ?case by (subst ser_wait.simps) (simp add: split_beta)
next
  case (Suc k)
  let ?h = "snd (io_in io (ucast (b OR UART_LSTAT)) (ser_ports s))"
  show ?case
  proof (cases "fst (io_in io (ucast (b OR UART_LSTAT)) (ser_ports s)) AND LST_TRIG_EMPTY = 0")
    case True
    then have "\<exists>s'. ser_wait io b (s\<lparr>ser_ports := ?h\<rparr>) = Some s'" using Suc by (intro Suc.IH) simp
    then show ?thesis using True by (subst ser_wait.simps) (simp add: split_beta)
  next
    case False
    then show ?thesis by (subst ser_wait.simps) (simp add: split_beta)
  qed
qed

text \<open>For the hardware-only setting 9 of \<open>/MCOM\<close>, the default, no serial port is used.\<close>

lemma mcom_hardware_only: "ser_setup io bda SBEMU_SERIAL_TYPE_MIDI 9 s = (0, s\<lparr>midi_iobase := 0\<rparr>)"
  by (simp add: ser_setup_def ser_iobase_def)

end
