(* ===== verification/Opl3.thy ===== *)
theory Opl3
  imports Prelude
begin

text \<open>
  The front end of the FM emulation (\<open>sbemu/opl3emu.cpp\<close>): the index registers of the two register
  sets, the two timers a game uses to find out whether there is an FM chip, and the volume registers of the
  Adlib Gold. The synthesiser behind it (\<open>dbopl.cpp\<close>, from DOSBox) is a parameter, except for the
  way it forms a register number. The state of the synthesiser is part of the machine.
\<close>

section \<open>State\<close>

record opl3 =
  OPL3EMU_TimerCtrlReg :: "int \<Rightarrow> u32"
  OPL3EMU_IndexReg :: "int \<Rightarrow> u32"
  OPL3EMU_ADLG_CtrlEnable :: u32
  OPL3EMU_ADLG_Volume :: "int \<Rightarrow> u32"

definition opl3_initial :: opl3 where
  "opl3_initial = \<lparr>OPL3EMU_TimerCtrlReg = (\<lambda>_. 0), OPL3EMU_IndexReg = (\<lambda>_. 0), OPL3EMU_ADLG_CtrlEnable = 0,
     OPL3EMU_ADLG_Volume = (\<lambda>_. 0x08)\<rparr>"

record 'h opl_chip =
  chip_WriteReg :: "u32 \<Rightarrow> u8 \<Rightarrow> 'h \<Rightarrow> 'h"
  chip_Generate :: "int \<Rightarrow> 'h \<Rightarrow> int list \<times> 'h"
  chip_opl3Active :: "'h \<Rightarrow> bool"

abbreviation (input) OPL3EMU_PRIMARY :: int where "OPL3EMU_PRIMARY \<equiv> 0"
abbreviation (input) OPL3EMU_SECONDARY :: int where "OPL3EMU_SECONDARY \<equiv> 1"
abbreviation (input) OPL3EMU_TIMER_REG_INDEX :: u32 where "OPL3EMU_TIMER_REG_INDEX \<equiv> 4"
abbreviation (input) OPL3EMU_TIMER1_MASK :: u32 where "OPL3EMU_TIMER1_MASK \<equiv> 0xC0"
abbreviation (input) OPL3EMU_TIMER2_MASK :: u32 where "OPL3EMU_TIMER2_MASK \<equiv> 0xA0"
abbreviation (input) OPL3EMU_TIMER1_START :: u32 where "OPL3EMU_TIMER1_START \<equiv> 0x01"
abbreviation (input) OPL3EMU_TIMER2_START :: u32 where "OPL3EMU_TIMER2_START \<equiv> 0x02"
abbreviation (input) OPL3EMU_ADLG_VOLL_REG_INDEX :: u32 where "OPL3EMU_ADLG_VOLL_REG_INDEX \<equiv> 9"
abbreviation (input) OPL3EMU_ADLG_VOLR_REG_INDEX :: u32 where "OPL3EMU_ADLG_VOLR_REG_INDEX \<equiv> 10"

section \<open>Operations\<close>

definition OPL3EMU_GetMode :: "'h opl_chip \<Rightarrow> 'h \<Rightarrow> bool" where
  "OPL3EMU_GetMode chip h = chip_opl3Active chip h"

definition OPL3EMU_GenSamples :: "'h opl_chip \<Rightarrow> int \<Rightarrow> 'h \<Rightarrow> int list \<times> 'h" where
  "OPL3EMU_GenSamples chip n h = chip_Generate chip n h"

text \<open>\<open>Chip::WriteAddr\<close>: the register number an index write selects.\<close>

definition chip_WriteAddr :: "bool \<Rightarrow> u32 \<Rightarrow> u8 \<Rightarrow> u32" where
  "chip_WriteAddr opl3Active port v =
    (if port AND 3 = 0 then ucast v
     else if port AND 3 = 2 then (if opl3Active \<or> v = 0x05 then 0x100 OR ucast v else ucast v)
     else 0)"

definition OPL3EMU_PrimaryRead :: "u32 \<Rightarrow> opl3 \<Rightarrow> u32" where
  "OPL3EMU_PrimaryRead v s =
    (let v = v AND NOT 0xFF;
         v = (if OPL3EMU_TimerCtrlReg s 0 AND (OPL3EMU_TIMER1_MASK OR OPL3EMU_TIMER1_START) = OPL3EMU_TIMER1_START
              then v OR OPL3EMU_TIMER1_MASK else v)
     in if OPL3EMU_TimerCtrlReg s 1 AND (OPL3EMU_TIMER2_MASK OR OPL3EMU_TIMER2_START) = OPL3EMU_TIMER2_START
        then v OR OPL3EMU_TIMER2_MASK else v)"

definition set_index :: "int \<Rightarrow> u32 \<Rightarrow> opl3 \<Rightarrow> opl3" where
  "set_index i v s = s\<lparr>OPL3EMU_IndexReg := (OPL3EMU_IndexReg s)(i := v)\<rparr>"

definition OPL3EMU_PrimaryWriteIndex :: "'h opl_chip \<Rightarrow> u32 \<Rightarrow> opl3 \<times> 'h \<Rightarrow> u32 \<times> opl3 \<times> 'h" where
  "OPL3EMU_PrimaryWriteIndex chip v = (\<lambda>(s, h).
    (v, set_index OPL3EMU_PRIMARY (chip_WriteAddr (chip_opl3Active chip h) 0x388 (ucast v)) s, h))"

definition OPL3EMU_timer_write :: "u32 \<Rightarrow> opl3 \<Rightarrow> opl3" where
  "OPL3EMU_timer_write v s =
    (let t = OPL3EMU_TimerCtrlReg s;
         t = (if v AND (OPL3EMU_TIMER1_START OR OPL3EMU_TIMER1_MASK) \<noteq> 0 then t(0 := v) else t);
         t = (if v AND (OPL3EMU_TIMER2_START OR OPL3EMU_TIMER2_MASK) \<noteq> 0 then t(1 := v) else t)
     in s\<lparr>OPL3EMU_TimerCtrlReg := t\<rparr>)"

definition OPL3EMU_PrimaryWriteData :: "'h opl_chip \<Rightarrow> u32 \<Rightarrow> opl3 \<times> 'h \<Rightarrow> u32 \<times> opl3 \<times> 'h" where
  "OPL3EMU_PrimaryWriteData chip v = (\<lambda>(s, h).
    (v, (if OPL3EMU_IndexReg s OPL3EMU_PRIMARY = OPL3EMU_TIMER_REG_INDEX then OPL3EMU_timer_write v s else s),
     chip_WriteReg chip (OPL3EMU_IndexReg s OPL3EMU_PRIMARY) (ucast v) h))"

definition adlg_volume_reg :: "opl3 \<Rightarrow> bool" where
  "adlg_volume_reg s \<longleftrightarrow> OPL3EMU_IndexReg s OPL3EMU_SECONDARY = 0x100 + OPL3EMU_ADLG_VOLL_REG_INDEX
    \<or> OPL3EMU_IndexReg s OPL3EMU_SECONDARY = 0x100 + OPL3EMU_ADLG_VOLR_REG_INDEX"

definition adlg_index :: "opl3 \<Rightarrow> int" where
  "adlg_index s = uint (OPL3EMU_IndexReg s OPL3EMU_SECONDARY - OPL3EMU_ADLG_VOLL_REG_INDEX)"

definition OPL3EMU_SecondaryRead :: "u32 \<Rightarrow> opl3 \<Rightarrow> u32 res" where
  "OPL3EMU_SecondaryRead v s = (if adlg_volume_reg s then arr_get 2 (OPL3EMU_ADLG_Volume s) (adlg_index s)
    else Inr (OPL3EMU_PrimaryRead v s))"

definition OPL3EMU_SecondaryWriteIndex :: "'h opl_chip \<Rightarrow> u32 \<Rightarrow> opl3 \<times> 'h \<Rightarrow> u32 \<times> opl3 \<times> 'h" where
  "OPL3EMU_SecondaryWriteIndex chip v = (\<lambda>(s, h).
    (let s = (if v = 0xFF then s\<lparr>OPL3EMU_ADLG_CtrlEnable := 1\<rparr>
              else if v = 0xFE then s\<lparr>OPL3EMU_ADLG_CtrlEnable := 0\<rparr> else s)
     in (v, set_index OPL3EMU_SECONDARY (chip_WriteAddr (chip_opl3Active chip h) 0x38A (ucast v)) s, h)))"

definition OPL3EMU_SecondaryWriteData :: "'h opl_chip \<Rightarrow> u32 \<Rightarrow> opl3 \<times> 'h \<Rightarrow> (u32 \<times> opl3 \<times> 'h) res" where
  "OPL3EMU_SecondaryWriteData chip v = (\<lambda>(s, h).
    bindE (if adlg_volume_reg s then
        bindE (arr_set 2 (OPL3EMU_ADLG_Volume s) (adlg_index s) v) (\<lambda>a. Inr (s\<lparr>OPL3EMU_ADLG_Volume := a\<rparr>))
      else Inr s) (\<lambda>s.
    Inr (v, s, chip_WriteReg chip (OPL3EMU_IndexReg s OPL3EMU_SECONDARY) (ucast v) h)))"

section \<open>Lemmas\<close>

text \<open>The volume registers of the Adlib Gold are indexed from 0x100: any use of them is out of bounds.\<close>

lemma adlg_out_of_bounds:
  "adlg_volume_reg s \<Longrightarrow> OPL3EMU_SecondaryRead v s = Inl Out_of_bounds
    \<and> OPL3EMU_SecondaryWriteData chip v (s, h) = Inl Out_of_bounds"
  by (auto simp: adlg_volume_reg_def OPL3EMU_SecondaryRead_def OPL3EMU_SecondaryWriteData_def adlg_index_def arr_get_def arr_set_def)

text \<open>In OPL2 mode only register 5 of the second set can be selected.\<close>

lemma opl2_no_adlg:
  "\<not> chip_opl3Active chip h \<Longrightarrow> \<not> adlg_volume_reg (fst (snd (OPL3EMU_SecondaryWriteIndex chip v (s, h))))"
proof -
  have u: "uint (ucast (b :: u8) :: u32) < 256" for b
    unfolding unsigned_ucast_eq using uint_u8_range [of b]
    by (subst take_bit_int_eq_self) (auto intro: less_trans [of _ 256])
  have "(ucast (b :: u8) :: u32) \<noteq> 0x109 \<and> (ucast b :: u32) \<noteq> 0x10A" for b
    using u [of b] by auto
  then show "\<not> chip_opl3Active chip h \<Longrightarrow> ?thesis"
    by (auto simp: OPL3EMU_SecondaryWriteIndex_def adlg_volume_reg_def set_index_def chip_WriteAddr_def Let_def)
qed

fun opl_writes :: "'h opl_chip \<Rightarrow> (u32 \<times> u32) list \<Rightarrow> opl3 \<times> 'h \<Rightarrow> opl3 \<times> 'h" where
  "opl_writes chip [] w = w"
| "opl_writes chip ((i, v) # xs) w =
    opl_writes chip xs (snd (OPL3EMU_PrimaryWriteData chip v (snd (OPL3EMU_PrimaryWriteIndex chip i w))))"

text \<open>C28: The detection of an FM card: from any state, resetting both timers (register 4, 0x60 then 0x80) leaves the
  status clear; starting the first timer with its interrupt unmasked (register 2, then 0x21 in register 4) makes the
  status show exactly timer 1 and the interrupt, which is what games test for.\<close>

theorem adlib_detection:
  "(let w1 = opl_writes chip [(4, 0x60), (4, 0x80)] w;
        w2 = opl_writes chip [(2, t), (4, 0x21)] w1
    in OPL3EMU_PrimaryRead v (fst w1) AND 0xE0 = 0 \<and> OPL3EMU_PrimaryRead v (fst w2) AND 0xE0 = 0xC0
       \<and> OPL3EMU_PrimaryRead v (fst w2) AND NOT 0xFF = v AND NOT 0xFF)"
  by (cases w)
    (simp add: OPL3EMU_PrimaryWriteData_def OPL3EMU_PrimaryWriteIndex_def set_index_def chip_WriteAddr_def
      OPL3EMU_timer_write_def OPL3EMU_PrimaryRead_def Let_def and.assoc bit.conj_disj_distrib2)

end
