(* ===== verification/Ports.thy ===== *)
theory Ports
  imports SbemuXfer Vdma Virq DmaRing Pcm Serial Opl3
begin

text \<open>
  The state of the running program (\<open>main.c\<close>) and the handlers of the trapped ports: FM, MIDI, the DMA
  controllers, the interrupt controllers and the Sound Blaster, with the tables that say which
  port each serves. A world is the virtual interrupt controller beside everything else, which is
  the shape \<open>VIRQ_Invoke\<close> works on: the guest's interrupt handler, a parameter, can touch any of
  it through the ports. The FM synthesiser, the drivers of the cards, the port instructions, the guest's memory
  and the trap layer are parameters. A handler may fail, or wait for a serial port for
  ever, so its result is an option of a fallible result. The pointer to the synthesiser is NULL until
  \<open>OPL3EMU_Init\<close>, which the program calls when FM is on or the sample rate is changed: \<open>m_OPL3EMU_Chip\<close> says whether there is one.
\<close>

section \<open>State\<close>

record 'h main =
  m_sb :: sbemu
  m_opl :: opl3
  m_OPL3EMU_Chip :: bool
  m_vd :: vdma
  m_aui :: mpxplay_audioout_info
  m_fm_aui :: mpxplay_audioout_info
  m_mpu401_aui :: mpxplay_audioout_info
  m_glb :: "'h au_globals"
  m_options :: options
  m_dbg_iobase :: u32
  m_midi_iobase :: u32
  mpu_state :: int
  MAIN_OPLPCM :: buf
  MAIN_PCM :: buf
  MAIN_PCMResample :: buf
  MAIN_LastSBRate :: int
  MAIN_LastResample :: "int \<Rightarrow> int"
  MAIN_DMA_Addr :: u32
  MAIN_DMA_Size :: u32
  MAIN_DMA_MappedAddr :: u32
  last_cdvol :: int
  MAIN_InINT :: u8
  int_regs :: DPMI_REG
  int_eflags :: u32

type_synonym 'h world = "virq \<times> 'h main"

record 'h main_env =
  e_io :: "'h io_ops"
  e_mem :: "'h dma_mem"
  e_peek :: "u32 \<Rightarrow> 'h \<Rightarrow> u8"
  e_chip :: "'h opl_chip"
  e_card :: "'h one_sndcard_info option"
  e_fm_card :: "'h one_sndcard_info option"
  e_mpu_card :: "'h one_sndcard_info option"
  e_virq_traps :: "bool \<Rightarrow> 'h \<Rightarrow> 'h"
  e_irq_routing :: "bool \<Rightarrow> u8 \<Rightarrow> 'h \<Rightarrow> 'h"
  e_irqguard :: "bool \<Rightarrow> 'h \<Rightarrow> 'h"
  e_old_isr :: "bool \<Rightarrow> 'h \<Rightarrow> 'h"
  e_context :: "'h \<Rightarrow> (DPMI_REG \<times> u32) \<times> 'h"
  e_guest :: "'h main guest_calls"

definition hw :: "'h main \<Rightarrow> 'h" where "hw r = device (m_glb r)"

definition set_hw :: "'h \<Rightarrow> 'h main \<Rightarrow> 'h main" where
  "set_hw h r = r\<lparr>m_glb := m_glb r\<lparr>device := h\<rparr>\<rparr>"

definition on_hw :: "('h \<Rightarrow> 'h) \<Rightarrow> 'h main \<Rightarrow> 'h main" where "on_hw f r = set_hw (f (hw r)) r"

lemma hw_simps [simp]:
  "hw (set_hw h r) = h" "set_hw h (set_hw h' r) = set_hw h r" "m_sb (set_hw h r) = m_sb r" "m_vd (set_hw h r) = m_vd r"
  "m_options (set_hw h r) = m_options r" "set_hw (hw r) r = r" "MAIN_PCM (set_hw h r) = MAIN_PCM r"
  "hw (r\<lparr>m_sb := s\<rparr>) = hw r" "hw (r\<lparr>m_vd := v\<rparr>) = hw r" "m_aui (set_hw h r) = m_aui r"
  by (simp_all add: hw_def set_hw_def)

text \<open>The port accesses of the machine, and the audio state and serial ports of the program, as the components see them.\<close>

definition lift_io :: "'h io_ops \<Rightarrow> 'h main io_ops" where
  "lift_io io = \<lparr>io_out = (\<lambda>p v. on_hw (io_out io p v)),
     io_in = (\<lambda>p r. let (v, h) = io_in io p (hw r) in (v, set_hw h r))\<rparr>"

definition serial_of :: "'h main \<Rightarrow> 'h serial" where
  "serial_of r = \<lparr>dbg_iobase = m_dbg_iobase r, midi_iobase = m_midi_iobase r, ser_ports = hw r\<rparr>"

text \<open>The two external functions of the Sound Blaster are those of the DMA controller.\<close>

definition MAIN_SbemuExtFun :: "'h dma_mem \<Rightarrow> (vdma \<times> 'h) sbemu_ext" where
  "MAIN_SbemuExtFun dm = \<lparr>DMA_Write = VDMA_WriteData dm, DMA_Size = (\<lambda>c x. VDMA_GetCounter c (fst x))\<rparr>"

section \<open>Handlers\<close>

type_synonym 'h port_handler = "u32 \<Rightarrow> u32 \<Rightarrow> u32 \<Rightarrow> 'h world \<Rightarrow> (u32 \<times> 'h world) res option"

text \<open>A byte read replaces the low byte of the value.\<close>

definition set_low8 :: "u32 \<Rightarrow> u8 \<Rightarrow> u32" where "set_low8 v b = (v AND NOT 0xFF) OR ucast b"

definition of_sb :: "u32 \<Rightarrow> ('h main \<Rightarrow> 'h main res) \<Rightarrow> 'h world \<Rightarrow> (u32 \<times> 'h world) res option" where
  "of_sb v f = (\<lambda>(q, r). Some (bindE (f r) (\<lambda>r. Inr (v, q, r))))"

definition opl_result :: "'h main \<Rightarrow> (u32 \<times> opl3 \<times> 'h) res \<Rightarrow> virq \<Rightarrow> (u32 \<times> 'h world) res option" where
  "opl_result r x q = Some (bindE x (\<lambda>(v, s, h). Inr (v, q, set_hw h (r\<lparr>m_opl := s\<rparr>))))"

text \<open>A call of a method of the synthesiser, which there may not be.\<close>

definition need_chip :: "'h main \<Rightarrow> 'a \<Rightarrow> 'a res" where
  "need_chip r x = (if m_OPL3EMU_Chip r then Inr x else Inl Null_pointer)"

definition MAIN_OPL3_388 :: "'h main_env \<Rightarrow> 'h port_handler" where
  "MAIN_OPL3_388 env port val out = (\<lambda>(q, r). opl_result r (
    if out \<noteq> 0 then need_chip r (OPL3EMU_PrimaryWriteIndex (e_chip env) val (m_opl r, hw r))
    else Inr (OPL3EMU_PrimaryRead val (m_opl r), m_opl r, hw r)) q)"

definition MAIN_OPL3_389 :: "'h main_env \<Rightarrow> 'h port_handler" where
  "MAIN_OPL3_389 env port val out = (\<lambda>(q, r). opl_result r (
    if out \<noteq> 0 then need_chip r (OPL3EMU_PrimaryWriteData (e_chip env) val (m_opl r, hw r))
    else Inr (OPL3EMU_PrimaryRead val (m_opl r), m_opl r, hw r)) q)"

definition MAIN_OPL3_38A :: "'h main_env \<Rightarrow> 'h port_handler" where
  "MAIN_OPL3_38A env port val out = (\<lambda>(q, r). opl_result r (
    if out \<noteq> 0 then need_chip r (OPL3EMU_SecondaryWriteIndex (e_chip env) val (m_opl r, hw r))
    else bindE (OPL3EMU_SecondaryRead val (m_opl r)) (\<lambda>v. Inr (v, m_opl r, hw r))) q)"

definition MAIN_OPL3_38B :: "'h main_env \<Rightarrow> 'h port_handler" where
  "MAIN_OPL3_38B env port val out = (\<lambda>(q, r). opl_result r (
    if out \<noteq> 0 then bindE (OPL3EMU_SecondaryWriteData (e_chip env) val (m_opl r, hw r)) (need_chip r)
    else bindE (OPL3EMU_SecondaryRead val (m_opl r)) (\<lambda>v. Inr (v, m_opl r, hw r))) q)"

definition MAIN_HW_OPL3 :: "'h main_env \<Rightarrow> u32 \<Rightarrow> 'h port_handler" where
  "MAIN_HW_OPL3 env n port val out = (\<lambda>(q, r). Some (
    if \<not> fm (m_fm_aui r) then Inr (0, q, r)
    else bindE (Aucards.deref (e_fm_card env)) (\<lambda>c.
      if out \<noteq> 0 then (case card_fm_write c of None \<Rightarrow> Inr (0, q, r)
        | Some wr \<Rightarrow> bindE (wr n (ucast (val AND 0xFF)) (m_fm_aui r, m_glb r)) (\<lambda>(a, g).
            Inr (val, q, r\<lparr>m_fm_aui := a, m_glb := g\<rparr>)))
      else (case card_fm_read c of None \<Rightarrow> Inr (0, q, r)
        | Some rd \<Rightarrow> bindE (rd n (m_fm_aui r, m_glb r)) (\<lambda>(v, a, g).
            Inr (ucast v, q, r\<lparr>m_fm_aui := a, m_glb := g\<rparr>))))))"

definition MAIN_DMA :: "'h main_env \<Rightarrow> 'h port_handler" where
  "MAIN_DMA env port val out = (\<lambda>(q, r). Some (
    if out \<noteq> 0 then bindE (VDMA_Write (e_io env) (ucast port) (ucast val) (m_vd r, hw r)) (\<lambda>(vd, h).
      Inr (val, q, set_hw h (r\<lparr>m_vd := vd\<rparr>)))
    else bindE (VDMA_Read (e_io env) (ucast port) (m_vd r, hw r)) (\<lambda>(v, vd, h).
      Inr (set_low8 val v, q, set_hw h (r\<lparr>m_vd := vd\<rparr>)))))"

definition MAIN_IRQ :: "'h main_env \<Rightarrow> 'h port_handler" where
  "MAIN_IRQ env port val out = (\<lambda>w. Some (Inr (
    if out \<noteq> 0 then (val, VIRQ_Write (lift_io (e_io env)) (ucast port) (ucast val) w)
    else (let (v, w) = VIRQ_Read (lift_io (e_io env)) (ucast port) w in (set_low8 val v, w)))))"

definition MAIN_SB_MixerAddr :: "'h port_handler" where
  "MAIN_SB_MixerAddr port val out = of_sb val (\<lambda>r.
    Inr (if out \<noteq> 0 then r\<lparr>m_sb := SBEMU_Mixer_WriteAddr (ucast val) (m_sb r)\<rparr> else r))"

definition MAIN_SB_MixerData :: "'h port_handler" where
  "MAIN_SB_MixerData port val out = (\<lambda>(q, r). Some (Inr (
    if out \<noteq> 0 then (val, q, r\<lparr>m_sb := SBEMU_Mixer_Write (ucast val) (m_sb r)\<rparr>)
    else (set_low8 val (SBEMU_Mixer_Read (m_sb r)), q, r))))"

definition MAIN_SB_DSP_Reset :: "'h port_handler" where
  "MAIN_SB_DSP_Reset port val out = of_sb val (\<lambda>r.
    if out \<noteq> 0 then bindE (SBEMU_DSP_Reset (ucast val) (m_sb r)) (\<lambda>s. Inr (r\<lparr>m_sb := s\<rparr>)) else Inr r)"

definition MAIN_SB_DSP_Read :: "'h port_handler" where
  "MAIN_SB_DSP_Read port val out = (\<lambda>(q, r). Some (
    if out \<noteq> 0 then Inr (val, q, r)
    else bindE (SBEMU_DSP_Read (m_sb r)) (\<lambda>(v, s). Inr (set_low8 val v, q, r\<lparr>m_sb := s\<rparr>))))"

definition MAIN_SB_DSP_Write :: "'h main_env \<Rightarrow> 'h port_handler" where
  "MAIN_SB_DSP_Write env port val out = (\<lambda>(q, r). Some (
    if out \<noteq> 0 then bindE (SBEMU_DSP_Write (MAIN_SbemuExtFun (e_mem env)) (ucast val) (m_sb r, m_vd r, hw r)) (\<lambda>(s, vd, h).
      Inr (val, q, set_hw h (r\<lparr>m_sb := s, m_vd := vd\<rparr>)))
    else (let (v, s) = SBEMU_DSP_WriteStatus (m_sb r) in Inr (ucast v, q, r\<lparr>m_sb := s\<rparr>))))"

definition MAIN_SB_DSP_ReadStatus :: "'h port_handler" where
  "MAIN_SB_DSP_ReadStatus port val out = (\<lambda>(q, r). Some (Inr (
    if out \<noteq> 0 then (val, q, r)
    else (let (v, s) = SBEMU_DSP_ReadStatus (m_sb r) in (set_low8 val v, q, r\<lparr>m_sb := s\<rparr>)))))"

definition MAIN_SB_DSP_ReadINT16BitACK :: "'h port_handler" where
  "MAIN_SB_DSP_ReadINT16BitACK port val out = (\<lambda>(q, r). Some (Inr (
    if out \<noteq> 0 then (val, q, r)
    else (let (v, s) = SBEMU_DSP_INT16ACK (m_sb r) in (set_low8 val v, q, r\<lparr>m_sb := s\<rparr>)))))"

section \<open>MIDI\<close>

text \<open>The calls of the card that has a real MPU-401, when there is one.\<close>

definition mpu401_out :: "'h main_env \<Rightarrow> u32 \<Rightarrow> u32 \<Rightarrow> 'h main \<Rightarrow> 'h main res" where
  "mpu401_out env idx val r = (if \<not> mpu401 (m_mpu401_aui r) then Inr r
    else bindE (Aucards.deref (e_mpu_card env)) (\<lambda>c. case card_mpu401_write c of None \<Rightarrow> Inr r
      | Some wr \<Rightarrow> bindE (wr idx (ucast (val AND 0xFF)) (m_mpu401_aui r, m_glb r)) (\<lambda>(a, g).
          Inr (r\<lparr>m_mpu401_aui := a, m_glb := g\<rparr>))))"

text \<open>The byte the card gives is used unless it is the kind that reads in software.\<close>

definition mpu401_in :: "'h main_env \<Rightarrow> u32 \<Rightarrow> 'h main \<Rightarrow> (u8 option \<times> 'h main) res" where
  "mpu401_in env idx r = (if \<not> mpu401 (m_mpu401_aui r) then Inr (None, r)
    else bindE (Aucards.deref (e_mpu_card env)) (\<lambda>c. case card_mpu401_read c of None \<Rightarrow> Inr (None, r)
      | Some rd \<Rightarrow> bindE (rd idx (m_mpu401_aui r, m_glb r)) (\<lambda>(v, a, g).
          Inr (if mpu401_softread a then None else Some v, r\<lparr>m_mpu401_aui := a, m_glb := g\<rparr>))))"

definition MAIN_MPU_330 :: "'h main_env \<Rightarrow> 'h port_handler" where
  "MAIN_MPU_330 env port val out = (\<lambda>(q, r).
    if out \<noteq> 0 then (case mpu401_out env 0 val r of Inl e \<Rightarrow> Some (Inl e)
      | Inr r \<Rightarrow> map_option (\<lambda>s. Inr (0, q, set_hw (ser_ports s) r)) (ser_putbyte (e_io env) (ucast (val AND 0xFF)) (serial_of r)))
    else Some (bindE (mpu401_in env 0 r) (\<lambda>(hwval, r).
      let (v, st) = (if mpu_state r = 1 then (0xFE, 0) else if mpu_state r = 2 then (0xFE, 4) else (0, mpu_state r))
      in Inr (ucast (case hwval of Some b \<Rightarrow> b | None \<Rightarrow> v), q, r\<lparr>mpu_state := st\<rparr>))))"

definition MAIN_MPU_331 :: "'h main_env \<Rightarrow> 'h port_handler" where
  "MAIN_MPU_331 env port val out = (\<lambda>(q, r). Some (
    if out \<noteq> 0 then bindE (mpu401_out env 1 val r) (\<lambda>r.
      Inr (0, q, if val = 0xFF then r\<lparr>mpu_state := 1\<rparr> else if val = 0x3F then r\<lparr>mpu_state := 2\<rparr> else r))
    else bindE (mpu401_in env 1 r) (\<lambda>(hwval, r).
      Inr (case hwval of Some b \<Rightarrow> ucast b | None \<Rightarrow> if mpu_state r AND 3 = 0 then 0x80 else 0, q, r))))"

section \<open>Port tables\<close>

type_synonym 'h port_table = "(u32 \<times> 'h port_handler) list"

definition MAIN_MPUIODT :: "'h main_env \<Rightarrow> u32 \<Rightarrow> 'h port_table" where
  "MAIN_MPUIODT env base = [(base, MAIN_MPU_330 env), (base + 1, MAIN_MPU_331 env)]"

definition MAIN_OPL3IODT :: "'h main_env \<Rightarrow> 'h port_table" where
  "MAIN_OPL3IODT env = [(0x388, MAIN_OPL3_388 env), (0x389, MAIN_OPL3_389 env),
     (0x38A, MAIN_OPL3_38A env), (0x38B, MAIN_OPL3_38B env)]"

definition MAIN_HW_OPL3IODT :: "'h main_env \<Rightarrow> 'h port_table" where
  "MAIN_HW_OPL3IODT env = [(0x388, MAIN_HW_OPL3 env 0), (0x389, MAIN_HW_OPL3 env 1),
     (0x38A, MAIN_HW_OPL3 env 2), (0x38B, MAIN_HW_OPL3 env 3)]"

definition MAIN_VDMA_ports :: "u32 list" where
  "MAIN_VDMA_ports = [0x00, 0x01, 0x02, 0x03, 0x04, 0x05, 0x06, 0x07, 0x08, 0x09, 0x0A, 0x0B, 0x0C, 0x0D, 0x0E, 0x0F,
     0x81, 0x82, 0x83, 0x87, 0xC0, 0xC2, 0xC4, 0xC6, 0xC8, 0xCA, 0xCC, 0xCE, 0xD0, 0xD2, 0xD4, 0xD6, 0xD8, 0xDA, 0xDC, 0xDE,
     0x89, 0x8A, 0x8B, 0x8F]"

definition MAIN_VDMA_IODT :: "'h main_env \<Rightarrow> 'h port_table" where
  "MAIN_VDMA_IODT env = map (\<lambda>p. (p, MAIN_DMA env)) MAIN_VDMA_ports"

definition MAIN_VIRQ_IODT :: "'h main_env \<Rightarrow> 'h port_table" where
  "MAIN_VIRQ_IODT env = map (\<lambda>p. (p, MAIN_IRQ env)) [0x20, 0x21, 0xA0, 0xA1]"

definition MAIN_SB_IODT :: "'h main_env \<Rightarrow> u32 \<Rightarrow> 'h port_table" where
  "MAIN_SB_IODT env base = map (\<lambda>(p, f). (base + p, f))
    [(0x00, MAIN_OPL3_388 env), (0x01, MAIN_OPL3_389 env), (0x02, MAIN_OPL3_38A env),
     (0x03, MAIN_OPL3_38B env), (0x04, MAIN_SB_MixerAddr), (0x05, MAIN_SB_MixerData), (0x06, MAIN_SB_DSP_Reset),
     (0x08, MAIN_OPL3_388 env), (0x09, MAIN_OPL3_389 env), (0x0A, MAIN_SB_DSP_Read),
     (0x0C, MAIN_SB_DSP_Write env), (0x0E, MAIN_SB_DSP_ReadStatus), (0x0F, MAIN_SB_DSP_ReadINT16BitACK)]"

text \<open>The tables in the order they are installed for protected mode, depending on the options; with hardware FM at its
  own port nothing is trapped for FM.\<close>

definition MAIN_tables :: "'h main_env \<Rightarrow> bool \<Rightarrow> bool \<Rightarrow> options \<Rightarrow> 'h port_table" where
  "MAIN_tables env hwfm hwfm_at_388 os =
    (let v = opt_value os; base = word_of_int (v OPT_ADDR); opl = (v OPT_OPL \<noteq> 0) in
     (if opl \<and> \<not> (hwfm \<and> hwfm_at_388) then (if hwfm then MAIN_HW_OPL3IODT env else MAIN_OPL3IODT env) else [])
     @ (if v OPT_MPUADDR \<noteq> 0 \<and> v OPT_MPUCOMPORT \<noteq> 0 then MAIN_MPUIODT env (word_of_int (v OPT_MPUADDR)) else [])
     @ MAIN_VDMA_IODT env @ MAIN_VIRQ_IODT env
     @ (if opl then MAIN_SB_IODT env base else drop 4 (MAIN_SB_IODT env base)))"

text \<open>An access of the guest: the first table entry of the port, or the machine itself.\<close>

definition guest_access :: "'h main_env \<Rightarrow> 'h port_table \<Rightarrow> 'h port_handler" where
  "guest_access env tab port val out w = (case map_of tab port of Some f \<Rightarrow> f port val out w
    | None \<Rightarrow> (let (q, r) = w in Some (Inr (if out \<noteq> 0 then (val, q, on_hw (io_out (e_io env) (ucast port) (ucast val)) r)
        else (let (v, h) = io_in (e_io env) (ucast port) (hw r) in (set_low8 val v, q, set_hw h r))))))"

section \<open>Properties of the handlers\<close>

lemma VDMA_Write_trapped:
  "p \<in> set MAIN_VDMA_ports \<Longrightarrow> \<exists>vd h'. VDMA_Write io (ucast p) b (s, h) = Inr (vd, h')"
proof -
  assume "p \<in> set MAIN_VDMA_ports"
  then have "(ucast p :: u16) \<notin> {0x80, 0x84, 0x85, 0x86, 0x88, 0x8C, 0x8D, 0x8E}"
    by (auto simp: MAIN_VDMA_ports_def)
  then show ?thesis using VDMA_Write_ok_iff [of io "ucast p" b s h] by (auto simp: is_ok_iff)
qed

lemma VDMA_Read_in_bounds:
  assumes "VDMA_chan_of_port (uint port) \<in> {-1..<8}"
  shows "\<exists>v vd h'. VDMA_Read io port (s, h) = Inr (v, vd, h')"
proof -
  let ?c = "VDMA_chan_of_port (uint port)"
  have "is_ok (VDMA_Read io port (s, h))"
  proof (cases "?c = -1")
    case True
    then show ?thesis by (simp add: VDMA_Read_def Let_def split_beta)
  next
    case False
    then have "arr_get 8 (VDMA_VMask s) ?c = Inr (VDMA_VMask s ?c)" using assms by simp
    then show ?thesis using False by (simp add: VDMA_Read_def Let_def split_beta)
  qed
  then show ?thesis by (auto simp: is_ok_iff)
qed

lemma VDMA_Read_trapped:
  "p \<in> set MAIN_VDMA_ports \<Longrightarrow> \<exists>v vd h'. VDMA_Read io (ucast p) (s, h) = Inr (v, vd, h')"
proof -
  have "\<forall>p\<in>set MAIN_VDMA_ports. VDMA_chan_of_port (uint (ucast p :: u16)) \<in> {-1..<8}"
    by (simp add: MAIN_VDMA_ports_def VDMA_chan_of_port_def vdma_page_port_def VDMA_PortChannelMap_def)
  then show "p \<in> set MAIN_VDMA_ports \<Longrightarrow> \<exists>v vd h'. VDMA_Read io (ucast p) (s, h) = Inr (v, vd, h')"
    by (intro VDMA_Read_in_bounds) blast
qed

lemma VDMA_WriteData_ok:
  assumes "0 \<le> c" "c < 8"
  shows "is_ok (VDMA_WriteData dm c b x)"
proof -
  have i: "\<exists>w. VDMA_SetIndexCounter c j n s = Inr w" for j n s
    using assms by (simp add: VDMA_SetIndexCounter_def VDMA_ToggleComplete_def VDMA_GetAuto_def Let_def)
  obtain s h where x: "x = (s, h)" by (cases x)
  obtain w where "VDMA_SetIndexCounter c (VDMA_Index s c * VDMA_size c + 1) (sint (word_of_int (VDMA_CurCounter s c * VDMA_size c) - 1 :: u32)) s = Inr w"
    using i by blast
  then show ?thesis using assms
    by (simp add: VDMA_WriteData_def VDMA_GetWriteMode_def VDMA_GetAddress_def VDMA_GetIndex_def VDMA_GetCounter_def
      Let_def split_beta x del: of_int_mult of_int_add)
qed

text \<open>The virtual DMA controller keeps what the DSP asks of its provider.\<close>

interpretation vd: dma_provider "MAIN_SbemuExtFun dm" for dm
  by unfold_locales (simp_all add: MAIN_SbemuExtFun_def VDMA_GetCounter_def VDMA_WriteData_ok)


text \<open>A Sound Blaster the program set up for resources a card can have, with a DMA channel selected.\<close>

definition sb_serviceable :: "sbemu \<Rightarrow> bool" where
  "sb_serviceable s = (sbemu_wf s \<and> sb_config s \<and> SBEMU_MixerRegs s SBEMU_MIXERREG_DMA_SETUP \<noteq> 0
     \<and> SBEMU_DirectCount s < 2147483647)"

definition served :: "'h main \<Rightarrow> (u32 \<times> 'h world) res option \<Rightarrow> bool" where
  "served r x = (\<exists>v q' r'. x = Some (Inr (v, q', r')) \<and> sbemu_wf (m_sb r') \<and> m_options r' = m_options r)"

lemma served_simp [simp]:
  "served r (Some (Inr (v, q', r'))) = (sbemu_wf (m_sb r') \<and> m_options r' = m_options r)"
  by (simp add: served_def)

lemma served_dma:
  "p \<in> set MAIN_VDMA_ports \<Longrightarrow> sbemu_wf (m_sb r) \<Longrightarrow> served r (MAIN_DMA env p val out (q, r))"
  using VDMA_Write_trapped [of p "e_io env" "ucast val" "m_vd r" "hw r"] VDMA_Read_trapped [of p "e_io env" "m_vd r" "hw r"]
  by (auto simp: MAIN_DMA_def)

lemma served_irq: "sbemu_wf (m_sb r) \<Longrightarrow> served r (MAIN_IRQ env p val out (q, r))"
  by (auto simp: MAIN_IRQ_def VIRQ_Write_def VIRQ_Read_def lift_io_def on_hw_def Let_def split_beta
    UntrappedIO_OUT_def UntrappedIO_IN_def served_def)

lemma served_opl:
  assumes "sbemu_wf (m_sb r)" "\<not> adlg_volume_reg (m_opl r)" "out = 0 \<or> m_OPL3EMU_Chip r"
  shows "served r (MAIN_OPL3_388 env p val out (q, r))" "served r (MAIN_OPL3_389 env p val out (q, r))"
    "served r (MAIN_OPL3_38A env p val out (q, r))" "served r (MAIN_OPL3_38B env p val out (q, r))"
  using assms by (auto simp: MAIN_OPL3_388_def MAIN_OPL3_389_def MAIN_OPL3_38A_def MAIN_OPL3_38B_def opl_result_def
    OPL3EMU_SecondaryRead_def OPL3EMU_SecondaryWriteData_def need_chip_def split_beta)

lemma served_mixer:
  "sbemu_wf (m_sb r) \<Longrightarrow> served r (MAIN_SB_MixerAddr p val out (q, r))"
  "sbemu_wf (m_sb r) \<Longrightarrow> served r (MAIN_SB_MixerData p val out (q, r))"
  by (simp_all add: MAIN_SB_MixerAddr_def MAIN_SB_MixerData_def of_sb_def Mixer_WriteAddr_wf Mixer_Write_wf)

lemma served_read:
  assumes "sbemu_wf (m_sb r)"
  shows "served r (MAIN_SB_DSP_Read p val out (q, r))" "served r (MAIN_SB_DSP_ReadStatus p val out (q, r))"
    "served r (MAIN_SB_DSP_ReadINT16BitACK p val out (q, r))"
  using DSP_Read_wf [OF assms] ReadStatus_wf [OF assms] INT16ACK_wf [OF assms] assms
  by (auto simp: MAIN_SB_DSP_Read_def MAIN_SB_DSP_ReadStatus_def MAIN_SB_DSP_ReadINT16BitACK_def split_beta)

lemma served_reset: "sbemu_wf (m_sb r) \<Longrightarrow> sb_config (m_sb r) \<Longrightarrow> served r (MAIN_SB_DSP_Reset p val out (q, r))"
proof -
  assume wf: "sbemu_wf (m_sb r)" and c: "sb_config (m_sb r)"
  have "\<exists>t. SBEMU_DSP_Reset v (m_sb r) = Inr t" for v
    using reset_setup_config [OF c] by (cases "v = 1") (auto simp: SBEMU_DSP_Reset_def)
  then obtain t where "SBEMU_DSP_Reset (ucast val) (m_sb r) = Inr t" by blast
  then show ?thesis using DSP_Reset_wf [OF wf] wf by (simp add: MAIN_SB_DSP_Reset_def of_sb_def)
qed

lemma served_write: "sb_serviceable (m_sb r) \<Longrightarrow> served r (MAIN_SB_DSP_Write env p val out (q, r))"
proof -
  assume s: "sb_serviceable (m_sb r)"
  then obtain t vd h where "SBEMU_DSP_Write (MAIN_SbemuExtFun (e_mem env)) (ucast val) (m_sb r, m_vd r, hw r) = Inr (t, vd, h)"
      "sbemu_wf t"
    using vd.dsp_write [of "m_sb r" "e_mem env" "ucast val" "(m_vd r, hw r)"] by (auto simp: sb_serviceable_def sb_config_def)
  moreover have "sbemu_wf (snd (SBEMU_DSP_WriteStatus (m_sb r)))" using s by (simp add: sb_serviceable_def WriteStatus_wf)
  ultimately show ?thesis by (simp add: MAIN_SB_DSP_Write_def split_beta)
qed

lemma served_mpu:
  assumes "\<not> mpu401 (m_mpu401_aui r)" "m_midi_iobase r = 0 \<or> tx_empty (e_io env) (m_midi_iobase r) k (hw r)" "sbemu_wf (m_sb r)"
  shows "served r (MAIN_MPU_330 env p val out (q, r))" "served r (MAIN_MPU_331 env p val out (q, r))"
proof -
  have "\<exists>s. ser_wait (e_io env) (m_midi_iobase r) (serial_of r) = Some s" if "m_midi_iobase r \<noteq> 0"
    using assms(2) that by (intro ser_wait_tx_empty [of _ _ k]) (simp add: serial_of_def)
  then obtain s where "ser_putbyte (e_io env) (ucast (val AND 0xFF)) (serial_of r) = Some s"
    by (cases "m_midi_iobase r = 0") (auto simp: ser_putbyte_def serial_of_def)
  then show "served r (MAIN_MPU_330 env p val out (q, r))" "served r (MAIN_MPU_331 env p val out (q, r))"
    using assms by (simp_all add: MAIN_MPU_330_def MAIN_MPU_331_def mpu401_out_def mpu401_in_def split_beta Let_def)
qed

text \<open>The FM ports of the program: the four of the AdLib card, and those of the Sound Blaster at its base address.\<close>

definition fm_ports :: "options \<Rightarrow> u32 set" where
  "fm_ports os = {0x388, 0x389, 0x38A, 0x38B} \<union> (\<lambda>n. word_of_int (opt_value os OPT_ADDR) + n) ` {0, 1, 2, 3, 8, 9}"

text \<open>Without FM the ports at 8 and 9 above the base stay trapped, and writing to them uses the synthesiser that is not there.\<close>

lemma fm_off_null:
  assumes "opt_value os OPT_OPL = 0" "\<not> m_OPL3EMU_Chip r"
  shows "(word_of_int (opt_value os OPT_ADDR) + 8, MAIN_OPL3_388 env) \<in> set (MAIN_tables env hwfm at388 os)"
    and "MAIN_OPL3_388 env p val 1 (q, r) = Some (Inl Null_pointer)"
  using assms by (simp_all add: MAIN_tables_def MAIN_SB_IODT_def Let_def MAIN_OPL3_388_def opl_result_def need_chip_def)

text \<open>C8: With FM and MIDI emulated, every handler the program installs, called for its port with any value and
  direction by the guest, returns: no page-register port reaches the unchecked entries of the channel map, no table index,
  shift or buffer access fails, the Sound Blaster stays well-formed and the options are untouched. It
  needs a Sound Blaster of interrupt 2, 5, 7 or 10, 8-bit channel 0, 1 or 3 and second channel 5, 6, 7, none or the same as the first
  (\<open>sb_config\<close>), a DMA channel selected in its mixer and fewer than 2147483647 samples written directly; no volume register of the Adlib Gold selected, whose table the
  code indexes out of bounds; for a write to an FM port, the synthesiser to exist, which it does not when FM is off (\<open>fm_off_null\<close>);
  and, where MIDI goes to a serial port, that the transmitter of it is empty at some poll.\<close>

theorem trapped_ports_safe:
  assumes "(p, f) \<in> set (MAIN_tables env False at388 os)" "sb_serviceable (m_sb r)"
    and "\<not> mpu401 (m_mpu401_aui r)" "m_midi_iobase r = 0 \<or> tx_empty (e_io env) (m_midi_iobase r) k (hw r)"
    and "\<not> adlg_volume_reg (m_opl r)" "out \<noteq> 0 \<Longrightarrow> p \<in> fm_ports os \<Longrightarrow> m_OPL3EMU_Chip r"
  shows "\<exists>v q' r'. f p val out (q, r) = Some (Inr (v, q', r')) \<and> sbemu_wf (m_sb r') \<and> m_options r' = m_options r"
proof -
  have wf: "sbemu_wf (m_sb r)" and c: "sb_config (m_sb r)" using assms(2) by (simp_all add: sb_serviceable_def)
  note s = served_dma [OF _ wf] served_irq [OF wf] served_mixer [OF wf] served_read [OF wf]
    served_reset [OF wf c] served_write [OF assms(2)] served_mpu [OF assms(3, 4) wf]
  have o: "served r (MAIN_OPL3_388 env p val out (q, r))" "served r (MAIN_OPL3_389 env p val out (q, r))"
    "served r (MAIN_OPL3_38A env p val out (q, r))" "served r (MAIN_OPL3_38B env p val out (q, r))"
    if "out \<noteq> 0 \<longrightarrow> p \<in> fm_ports os \<longrightarrow> m_OPL3EMU_Chip r" "p \<in> fm_ports os" for p
    using that by (auto intro!: served_opl [OF wf assms(5)])
  have fm: "0x388 \<in> fm_ports os" "0x389 \<in> fm_ports os" "0x38A \<in> fm_ports os" "0x38B \<in> fm_ports os"
    "\<And>n. n \<in> {0, 1, 2, 3, 8, 9} \<Longrightarrow> word_of_int (opt_value os OPT_ADDR) + n \<in> fm_ports os"
    unfolding fm_ports_def by (rule UnI1, simp; fail)+ (rule UnI2, rule imageI)
  define good where "good = (\<lambda>(p, f). (out \<noteq> 0 \<longrightarrow> p \<in> fm_ports os \<longrightarrow> m_OPL3EMU_Chip r) \<longrightarrow> served r (f p val out (q, r)))"
  have g: "good (p, f) = ((out \<noteq> 0 \<longrightarrow> p \<in> fm_ports os \<longrightarrow> m_OPL3EMU_Chip r) \<longrightarrow> served r (f p val out (q, r)))" for p f
    by (simp add: good_def)
  have i: "served r (f p val out (q, r)) \<Longrightarrow> good (p, f)" for p f by (simp add: g)
  have go: "good (p, MAIN_OPL3_388 env)" "good (p, MAIN_OPL3_389 env)" "good (p, MAIN_OPL3_38A env)" "good (p, MAIN_OPL3_38B env)"
    if "p \<in> fm_ports os" for p
    unfolding g using o [OF _ that] by blast+
  have "list_all good (MAIN_SB_IODT env (word_of_int (opt_value os OPT_ADDR)))"
    unfolding MAIN_SB_IODT_def by (simp only: list.map list.pred_inject prod.case) (intro conjI TrueI; ((rule go, rule fm(5), simp; fail) | (rule i, rule s)))
  moreover have "list_all good (MAIN_OPL3IODT env)" unfolding MAIN_OPL3IODT_def
    by (simp only: list.pred_inject) (intro conjI TrueI go fm)
  moreover have "list_all good (MAIN_VDMA_IODT env)" "list_all good (MAIN_VIRQ_IODT env)" "list_all good (MAIN_MPUIODT env b)" for b
    by (auto simp: MAIN_VDMA_IODT_def MAIN_VIRQ_IODT_def MAIN_MPUIODT_def list_all_iff intro!: i s)
  moreover have "list_all good (drop 4 xs)" if "list_all good xs" for xs
    using that by (auto simp: list_all_iff dest: in_set_dropD)
  ultimately have "list_all good (MAIN_tables env False at388 os)" by (simp add: MAIN_tables_def Let_def)
  then have "good (p, f)" using assms(1) by (auto simp: list_all_iff)
  then have "served r (f p val out (q, r))" using assms(6) by (simp add: g)
  then show ?thesis by (auto simp: served_def)
qed


definition env_demo :: "unit main_env" where
  "env_demo = \<lparr>e_io = quiet_io, e_mem = \<lparr>MapMemory = (\<lambda>a n h. (a, h)), UnmappMemory = (\<lambda>a h. h), StoreByte = (\<lambda>a b h. h)\<rparr>,
    e_peek = (\<lambda>a h. ucast a), 
    e_chip = \<lparr>chip_WriteReg = (\<lambda>i v h. h), chip_Generate = (\<lambda>n h. (replicate (nat n) 0, h)), chip_opl3Active = (\<lambda>h. False)\<rparr>,
    e_card = Some ring_card, e_fm_card = None, e_mpu_card = None, e_virq_traps = (\<lambda>b h. h),
    e_irq_routing = (\<lambda>b i h. h), e_irqguard = (\<lambda>b h. h), e_old_isr = (\<lambda>b h. h), e_context = (\<lambda>h. ((reg_zero, 0), h)),
    e_guest = guest_idle\<rparr>"

definition main_demo :: "unit main" where
  "main_demo = \<lparr>m_sb = sb_demo, m_opl = opl3_initial, m_OPL3EMU_Chip = True, m_vd = vdma_initial, m_aui = aui0, m_fm_aui = aui0, m_mpu401_aui = aui0, m_glb = glb0,
    m_options = default_options, m_dbg_iobase = 0, m_midi_iobase = 0, mpu_state = 0, MAIN_OPLPCM = (\<lambda>_. 0),
    MAIN_PCM = (\<lambda>_. 0), MAIN_PCMResample = (\<lambda>_. 0), MAIN_LastSBRate = 0, MAIN_LastResample = (\<lambda>_. 0),
    MAIN_DMA_Addr = 0, MAIN_DMA_Size = 0, MAIN_DMA_MappedAddr = 0, last_cdvol = -1, MAIN_InINT = 0,
    int_regs = reg_zero, int_eflags = 0\<rparr>"

lemma sb_demo_serviceable: "sb_serviceable sb_demo"
  using sbemu_wf_initial
  by (simp add: sb_serviceable_def sb_demo_def sbemu_wf_defs sb_config_def sbemu_initial_def)

theorem trapped_ports_safe_witness:
  "\<exists>v q' r'. MAIN_SB_DSP_Write env_demo 0x22C 0x14 1 (virq_initial, main_demo) = Some (Inr (v, q', r'))
    \<and> sbemu_wf (m_sb r') \<and> m_options r' = m_options main_demo"
proof (rule trapped_ports_safe)
  show "(0x22C, MAIN_SB_DSP_Write env_demo) \<in> set (MAIN_tables env_demo False False (set_value OPT_ADDR 0x220 default_options))"
    by (simp add: MAIN_tables_def MAIN_SB_IODT_def Let_def)
  show "sb_serviceable (m_sb main_demo)" using sb_demo_serviceable by (simp add: main_demo_def)
qed (simp_all add: main_demo_def aui0_def adlg_volume_reg_def opl3_initial_def)

end
