(* ===== verification/Mixer.thy ===== *)
theory Mixer
  imports DmaRing
begin

text \<open>
  The rate and the mixer of the card (\<open>AU_setrate\<close>, \<open>AU_setmixer_one\<close> and the
  functions around it in \<open>mpxplay/au_cards/au_cards.c\<close>). The percent conversions are floating-point in the
  code; they are exact for the values the driver tables hold (a product below 2 to the power 24), and
  are written here as the integer division they round down to. The name of the wave format is not kept.
\<close>

section \<open>Rate\<close>

definition OUTMODE_CONTROL_FILE_FLOATOUT :: u32 where "OUTMODE_CONTROL_FILE_FLOATOUT = 32"
definition OUTMODE_CONTROL_FILE_TAGLFN :: u32 where "OUTMODE_CONTROL_FILE_TAGLFN = 64"
definition MPXPLAY_WAVEID_PCM_SLE :: u32 where "MPXPLAY_WAVEID_PCM_SLE = 1"
definition MPXPLAY_WAVEID_PCM_FLOAT :: u32 where "MPXPLAY_WAVEID_PCM_FLOAT = 3"
definition ADI_FLAG_FLOATOUT :: u32 where "ADI_FLAG_FLOATOUT = 1"
definition ADI_FLAG_BITSTREAMOUT :: u32 where "ADI_FLAG_BITSTREAMOUT = 8"
definition ADI_FLAG_BITSTREAMNOFRH :: u32 where "ADI_FLAG_BITSTREAMNOFRH = 16"
definition ADI_FLAG_BITSTREAMHEAD :: u32 where "ADI_FLAG_BITSTREAMHEAD = 32"
definition ADI_CNTRLBIT_BITSTREAMOUT :: u32 where "ADI_CNTRLBIT_BITSTREAMOUT = 256"
definition ADI_CNTRLBIT_BITSTREAMNOFRH :: u32 where "ADI_CNTRLBIT_BITSTREAMNOFRH = 512"
definition MIXER_SCALE_BITS :: u32 where "MIXER_SCALE_BITS = 16"

record audio_decoder_info =
  adi_infobits :: u32
  adi_wave_id :: u32
  adi_freq :: u32
  adi_outchannels :: u32
  adi_bits :: u32

text \<open>The long-file-name flags of the player, fixed while the program runs.\<close>

record lfn_config =
  is_lfn_support :: bool
  uselfn_enabled :: bool

definition setrate_controlbits :: "lfn_config \<Rightarrow> u32 \<Rightarrow> audio_decoder_info \<Rightarrow> u32 \<Rightarrow> u32" where
  "setrate_controlbits lfn om adi bits =
    (let bits = (if funcbit_test (adi_infobits adi) ADI_FLAG_BITSTREAMOUT then
          (let bits = funcbit_enable bits AUINFOS_CARDCNTRLBIT_BITSTREAMOUT;
               bits = (if funcbit_test (adi_infobits adi) ADI_FLAG_BITSTREAMHEAD
                 then funcbit_enable bits AUINFOS_CARDCNTRLBIT_BITSTREAMHEAD else bits)
           in if funcbit_test (adi_infobits adi) ADI_FLAG_BITSTREAMNOFRH
              then funcbit_enable bits AUINFOS_CARDCNTRLBIT_BITSTREAMNOFRH else bits)
        else funcbit_disable bits (AUINFOS_CARDCNTRLBIT_BITSTREAMOUT OR AUINFOS_CARDCNTRLBIT_BITSTREAMHEAD
          OR AUINFOS_CARDCNTRLBIT_BITSTREAMNOFRH))
     in if is_lfn_support lfn \<and> uselfn_enabled lfn then
          (if funcbit_test om OUTMODE_CONTROL_FILE_TAGLFN
           then funcbit_enable bits AUINFOS_CARDCNTRLBIT_AUTOTAGLFN else bits)
        else funcbit_disable bits AUINFOS_CARDCNTRLBIT_AUTOTAGLFN)"

definition setrate_needed :: "u32 \<Rightarrow> u32 \<Rightarrow> audio_decoder_info \<Rightarrow> mpxplay_audioout_info \<Rightarrow> bool" where
  "setrate_needed new_bits card_bits adi a \<longleftrightarrow>
    freq_set a \<noteq> 0 \<and> freq_set a \<noteq> freq_card a
    \<or> freq_set a = 0 \<and> freq_song a \<noteq> adi_freq adi
    \<or> funcbit_test (card_controlbits a) AUINFOS_CARDCNTRLBIT_UPDATEFREQ
    \<or> new_bits \<noteq> card_controlbits a
    \<or> funcbit_test (card_controlbits a) AUINFOS_CARDCNTRLBIT_BITSTREAMOUT \<and> card_wave_id a \<noteq> adi_wave_id adi
    \<or> funcbit_test card_bits SNDCARD_SETRATE"

definition setrate_stop :: "'d one_sndcard_info \<Rightarrow> 'd au \<Rightarrow> 'd au res" where
  "setrate_stop c s = (if funcbit_test (infobits c) SNDCARD_SETRATE then call_if (card_stop c) s
    else if funcbit_test (playcontrol (snd s)) PLAYC_RUNNING then
      bindE (AU_stop (Some c) s) (\<lambda>s.
      Inr (upd_glb (\<lambda>g. g\<lparr>playcontrol := funcbit_enable (playcontrol g) PLAYC_STARTNEXT\<rparr>) s))
    else Inr s)"

definition setrate_request :: "u32 \<Rightarrow> u32 \<Rightarrow> audio_decoder_info \<Rightarrow> mpxplay_audioout_info \<Rightarrow> mpxplay_audioout_info" where
  "setrate_request om new_bits adi a = a\<lparr>freq_song := adi_freq adi,
    freq_card := (if freq_set a \<noteq> 0 then freq_set a else adi_freq adi),
    chan_card := ucast (if chan_set a \<noteq> 0 then chan_set a else adi_outchannels adi),
    bits_card := ucast (if bits_set a \<noteq> 0 then bits_set a
      else if adi_bits adi \<le> 1 \<and> funcbit_test (adi_infobits adi) ADI_FLAG_FLOATOUT then MIXER_SCALE_BITS else adi_bits adi),
    card_wave_id := (if funcbit_test new_bits AUINFOS_CARDCNTRLBIT_BITSTREAMOUT then adi_wave_id adi
      else if funcbit_test om OUTMODE_CONTROL_FILE_FLOATOUT then MPXPLAY_WAVEID_PCM_FLOAT else MPXPLAY_WAVEID_PCM_SLE),
    bytespersample_card := 0, card_controlbits := new_bits,
    card_infobits := funcbit_disable (card_infobits a)
      (AUINFOS_CARDINFOBIT_BITSTREAMOUT OR AUINFOS_CARDINFOBIT_BITSTREAMNOFRH)\<rparr>"

definition setrate_width :: "mpxplay_audioout_info \<Rightarrow> mpxplay_audioout_info" where
  "setrate_width a = (if card_wave_id a = MPXPLAY_WAVEID_PCM_FLOAT then a\<lparr>bytespersample_card := 4\<rparr>
    else if bytespersample_card a = 0 then a\<lparr>bytespersample_card := word_of_int ((uint (bits_card a) + 7) div 8)\<rparr>
    else a)"

definition setrate_report :: "mpxplay_audioout_info \<Rightarrow> mpxplay_audioout_info" where
  "setrate_report a = a\<lparr>
    card_controlbits := funcbit_disable (funcbit_enable (card_controlbits a) AUINFOS_CARDCNTRLBIT_DMACLEAR)
      AUINFOS_CARDCNTRLBIT_UPDATEFREQ,
    freq_set := (if freq_set a \<noteq> 0 then freq_card a else freq_set a),
    chan_set := (if chan_set a \<noteq> 0 then ucast (chan_card a) else chan_set a),
    bits_set := (if bits_set a \<noteq> 0 then ucast (bits_card a) else bits_set a)\<rparr>"

definition setrate_bitstream :: "audio_decoder_info \<Rightarrow> mpxplay_audioout_info \<Rightarrow> audio_decoder_info \<times> mpxplay_audioout_info" where
  "setrate_bitstream adi a = (if funcbit_test (card_infobits a) AUINFOS_CARDINFOBIT_BITSTREAMOUT then
      (if \<not> funcbit_test (card_infobits a) AUINFOS_CARDINFOBIT_BITSTREAMNOFRH
       then adi\<lparr>adi_infobits := funcbit_disable (adi_infobits adi) ADI_CNTRLBIT_BITSTREAMNOFRH\<rparr> else adi,
       a\<lparr>bytespersample_card := 1\<rparr>)
    else (adi\<lparr>adi_infobits := funcbit_disable (adi_infobits adi) (ADI_FLAG_BITSTREAMOUT OR ADI_FLAG_BITSTREAMHEAD
          OR ADI_CNTRLBIT_BITSTREAMOUT OR ADI_CNTRLBIT_BITSTREAMNOFRH)\<rparr>,
       a\<lparr>card_controlbits := funcbit_disable (card_controlbits a)
          (AUINFOS_CARDCNTRLBIT_BITSTREAMOUT OR AUINFOS_CARDCNTRLBIT_BITSTREAMHEAD)\<rparr>))"

definition setrate_frame :: "mpxplay_audioout_info \<Rightarrow> mpxplay_audioout_info" where
  "setrate_frame a = a\<lparr>card_bytespersign := ucast (chan_card a) * ucast (bytespersample_card a),
    card_outbytes := card_dmasize a\<rparr>"

definition setrate_card :: "'d one_sndcard_info \<Rightarrow> 'd au \<Rightarrow> 'd au res" where
  "setrate_card c s = (let (save, s) = DISALLOW_INTSOUNDDECODER s in
    bindE (call_if (card_setrate c) s) (\<lambda>s. Inr (ALLOW_INTSOUNDDECODER save s)))"

definition AU_setrate :: "lfn_config \<Rightarrow> 'd one_sndcard_info option \<Rightarrow> audio_decoder_info \<Rightarrow> 'd au \<Rightarrow>
    (audio_decoder_info \<times> 'd au) res" where
  "AU_setrate lfn h adi s =
    (let s = upd_aui (\<lambda>a. a\<lparr>chan_song := ucast (adi_outchannels adi), bits_song := ucast (adi_bits adi)\<rparr>) s;
         om = outmode (snd s);
         new_bits = setrate_controlbits lfn om adi (card_controlbits (fst s)) in
     bindE (deref h) (\<lambda>c.
     bindE (if setrate_needed new_bits (infobits c) adi (fst s) then
         bindE (setrate_stop c s) (\<lambda>s.
         bindE (setrate_card c (upd_aui (setrate_request om new_bits adi) s)) (\<lambda>s.
         (let (adi, a) = setrate_bitstream adi (setrate_report (setrate_width (fst s)))
          in Inr (adi, setrate_frame a, snd s))))
       else Inr (adi, s)) (\<lambda>(adi, s).
     Inr (adi, upd_aui (\<lambda>a. a\<lparr>freq_song := adi_freq adi\<rparr>) s))))"

section \<open>Mixer\<close>

definition AU_MIXCHAN_MASTER :: u32 where "AU_MIXCHAN_MASTER = 0"
definition AU_MIXCHAN_BASS :: u32 where "AU_MIXCHAN_BASS = 9"
definition AU_MIXCHAN_TREBLE :: u32 where "AU_MIXCHAN_TREBLE = 10"
definition AU_MIXCHANS_NUM :: nat where "AU_MIXCHANS_NUM = 11"
definition AU_MIXCHANFUNC_VOLUME :: u32 where "AU_MIXCHANFUNC_VOLUME = 0"
definition AU_MIXCHANFUNC_MUTE :: u32 where "AU_MIXCHANFUNC_MUTE = 1"
definition AU_MIXCHANFUNCS_NUM :: u32 where "AU_MIXCHANFUNCS_NUM = 2"
definition AU_MIXERCHAN_MAX_SUBCHANNELS :: u32 where "AU_MIXERCHAN_MAX_SUBCHANNELS = 8"
definition AU_MIXERCHAN_MAX_REGISTER :: u32 where "AU_MIXERCHAN_MAX_REGISTER = 65535"
definition AU_MIXERCHAN_MAX_BITS :: u32 where "AU_MIXERCHAN_MAX_BITS = 32"
definition SUBMIXCH_INFOBIT_REVERSEDVALUE :: u32 where "SUBMIXCH_INFOBIT_REVERSEDVALUE = 1"

definition AU_MIXCHANFUNCS_PACK :: "u32 \<Rightarrow> u32 \<Rightarrow> u32" where
  "AU_MIXCHANFUNCS_PACK chan func = push_bit 8 func OR chan"

definition AU_MIXCHANFUNCS_GETCHAN :: "u32 \<Rightarrow> u32" where
  "AU_MIXCHANFUNCS_GETCHAN c = c AND 0xFF"

definition AU_MIXCHANFUNCS_GETFUNC :: "u32 \<Rightarrow> u32" where
  "AU_MIXCHANFUNCS_GETFUNC c = drop_bit 8 c AND 0xFF"

datatype setmode = MIXER_SETMODE_RELATIVE | MIXER_SETMODE_ABSOLUTE | MIXER_SETMODE_RESET

definition AU_setmixer_init :: "mpxplay_audioout_info \<Rightarrow> mpxplay_audioout_info" where
  "AU_setmixer_init a = a\<lparr>card_master_volume := -1,
    card_mixer_values := (\<lambda>c. if 0 \<le> c \<and> c < 11 then -1 else card_mixer_values a c)\<rparr>"

text \<open>The list of channels ends in a null pointer; the search gives up after 11 entries.\<close>

fun search_mixerchan :: "nat \<Rightarrow> onemixerchan list \<Rightarrow> u32 \<Rightarrow> onemixerchan option" where
  "search_mixerchan i [] n = None"
| "search_mixerchan i (ch # chs) n = (if mixchan ch = n then Some ch
     else if Suc i \<ge> AU_MIXCHANS_NUM then None else search_mixerchan (Suc i) chs n)"

definition AU_search_mixerchan :: "onemixerchan list \<Rightarrow> u32 \<Rightarrow> onemixerchan option" where
  "AU_search_mixerchan mixeri n = search_mixerchan 0 mixeri n"

definition maxpercentval :: "u32 \<Rightarrow> int" where
  "maxpercentval mixchannum = (if mixchannum = AU_MIXCHAN_BASS \<or> mixchannum = AU_MIXCHAN_TREBLE then 200 else 100)"

definition bounded_percent :: "int \<Rightarrow> int \<Rightarrow> int" where
  "bounded_percent m v = (if v < 0 then 0 else if m < v then m else v)"

definition new_percent :: "setmode \<Rightarrow> u32 \<Rightarrow> int \<Rightarrow> int \<Rightarrow> int \<Rightarrow> int option" where
  "new_percent mode func m moved newvalue = (case mode of
      MIXER_SETMODE_ABSOLUTE \<Rightarrow> Some (bounded_percent m newvalue)
    | MIXER_SETMODE_RELATIVE \<Rightarrow> Some (bounded_percent m
        (if func = AU_MIXCHANFUNC_VOLUME then moved else if newvalue < 0 then 0 else m))
    | MIXER_SETMODE_RESET \<Rightarrow> None)"

definition percent_to_chval :: "int \<Rightarrow> int \<Rightarrow> u32 \<Rightarrow> u32" where
  "percent_to_chval percent m chmax = word_of_int ((percent * uint chmax + (m div 2 - 1)) div m)"

definition shl32 :: "u32 \<Rightarrow> u32 \<Rightarrow> u32 res" where
  "shl32 v n = (if n < 32 then Inr (push_bit (unat n) v) else Inl Bad_shift)"

definition shr32 :: "u32 \<Rightarrow> u32 \<Rightarrow> u32 res" where
  "shr32 v n = (if n < 32 then Inr (drop_bit (unat n) v) else Inl Bad_shift)"

definition submix_bad :: "submixerchan \<Rightarrow> bool" where
  "submix_bad sub \<longleftrightarrow> AU_MIXERCHAN_MAX_REGISTER < submixch_register sub \<or> submixch_max sub = 0
    \<or> AU_MIXERCHAN_MAX_BITS < submixch_shift sub"

definition submix_value :: "int \<Rightarrow> int \<Rightarrow> submixerchan \<Rightarrow> u32" where
  "submix_value percent m sub =
    (let v = percent_to_chval percent m (submixch_max sub);
         v = (if submixch_max sub < v then submixch_max sub else v) in
     if funcbit_test (submixch_infobits sub) SUBMIXCH_INFOBIT_REVERSEDVALUE then submixch_max sub - v else v)"

definition submix_set :: "(u32 \<Rightarrow> u32 \<Rightarrow> 'd au \<Rightarrow> 'd au res) \<Rightarrow> (u32 \<Rightarrow> 'd au \<Rightarrow> (u32 \<times> 'd au) res) \<Rightarrow>
    int \<Rightarrow> int \<Rightarrow> submixerchan \<Rightarrow> 'd au \<Rightarrow> 'd au res" where
  "submix_set wr rd percent m sub s = (if submix_bad sub then Inr s else
    bindE (shl32 (submix_value percent m sub) (submixch_shift sub)) (\<lambda>new.
    bindE (rd (submixch_register sub) s) (\<lambda>(cur, s).
    bindE (shl32 (submixch_max sub) (submixch_shift sub)) (\<lambda>field.
    wr (submixch_register sub) ((cur AND NOT field) OR new) s))))"

text \<open>The subchannels of one channel; a table with fewer entries than it says is read out of bounds.\<close>

fun submix_set_all :: "(u32 \<Rightarrow> u32 \<Rightarrow> 'd au \<Rightarrow> 'd au res) \<Rightarrow> (u32 \<Rightarrow> 'd au \<Rightarrow> (u32 \<times> 'd au) res) \<Rightarrow>
    int \<Rightarrow> int \<Rightarrow> nat \<Rightarrow> submixerchan list \<Rightarrow> 'd au \<Rightarrow> 'd au res" where
  "submix_set_all wr rd percent m 0 subs s = Inr s"
| "submix_set_all wr rd percent m (Suc n) [] s = Inl Out_of_bounds"
| "submix_set_all wr rd percent m (Suc n) (sub # subs) s =
     bindE (submix_set wr rd percent m sub s) (submix_set_all wr rd percent m n subs)"

text \<open>The checks the two functions share: the channel number and its table entry.\<close>

definition mixer_lookup :: "onemixerchan list \<Rightarrow> u32 \<Rightarrow> onemixerchan option" where
  "mixer_lookup chans n = (case AU_search_mixerchan chans n of None \<Rightarrow> None
    | Some ch \<Rightarrow> if subchannelnum ch = 0 \<or> AU_MIXERCHAN_MAX_SUBCHANNELS < subchannelnum ch then None else Some ch)"

definition mixer_number_bad :: "u32 \<Rightarrow> bool" where
  "mixer_number_bad n \<longleftrightarrow> AU_MIXCHANFUNCS_NUM \<le> AU_MIXCHANFUNCS_GETFUNC n
    \<or> of_nat AU_MIXCHANS_NUM < AU_MIXCHANFUNCS_GETCHAN n"

definition mixer_value_get :: "u32 \<Rightarrow> mpxplay_audioout_info \<Rightarrow> int res" where
  "mixer_value_get ch a = arr_get 11 (card_mixer_values a) (uint ch)"

definition mixer_value_set :: "u32 \<Rightarrow> int \<Rightarrow> 'd au \<Rightarrow> 'd au res" where
  "mixer_value_set ch v s = bindE (arr_set 11 (card_mixer_values (fst s)) (uint ch) v) (\<lambda>vals.
    Inr (upd_aui (\<lambda>a. a\<lparr>card_mixer_values := vals\<rparr>) s))"

definition setmixer_apply :: "(u32 \<Rightarrow> u32 \<Rightarrow> 'd au \<Rightarrow> 'd au res) \<Rightarrow> (u32 \<Rightarrow> 'd au \<Rightarrow> (u32 \<times> 'd au) res) \<Rightarrow>
    onemixerchan \<Rightarrow> u32 \<Rightarrow> int \<Rightarrow> 'd au \<Rightarrow> 'd au res" where
  "setmixer_apply wr rd ch n percent s =
    (let (save, s) = DISALLOW_INTSOUNDDECODER s in
     bindE (submix_set_all wr rd percent (maxpercentval n) (unat (subchannelnum ch)) (submixerchans ch) s) (\<lambda>s.
     (let s = ALLOW_INTSOUNDDECODER save s in
      if AU_MIXCHANFUNCS_GETFUNC n = AU_MIXCHANFUNC_VOLUME
      then mixer_value_set (AU_MIXCHANFUNCS_GETCHAN n) percent s else Inr s)))"

definition AU_setmixer_one :: "'d one_sndcard_info option \<Rightarrow> u32 \<Rightarrow> setmode \<Rightarrow> int \<Rightarrow> 'd au \<Rightarrow> 'd au res" where
  "AU_setmixer_one h n mode newvalue s = (if mixer_number_bad n then Inr s else
    case h of None \<Rightarrow> Inr s | Some c \<Rightarrow>
    (case (card_writemixer c, card_readmixer c, card_mixerchans c) of
      (Some wr, Some rd, Some chans) \<Rightarrow>
        (case mixer_lookup chans n of None \<Rightarrow> Inr s | Some ch \<Rightarrow>
          bindE (if mode = MIXER_SETMODE_RELATIVE \<and> AU_MIXCHANFUNCS_GETFUNC n = AU_MIXCHANFUNC_VOLUME
              then bindE (mixer_value_get (AU_MIXCHANFUNCS_GETCHAN n) (fst s)) (\<lambda>old. i32 (old + newvalue)) else Inr 0) (\<lambda>moved.
          case new_percent mode (AU_MIXCHANFUNCS_GETFUNC n) (maxpercentval n) moved newvalue of
            None \<Rightarrow> Inr s
          | Some percent \<Rightarrow> setmixer_apply wr rd ch n percent s))
    | _ \<Rightarrow> Inr s))"

definition submix_get :: "(u32 \<Rightarrow> 'd au \<Rightarrow> (u32 \<times> 'd au) res) \<Rightarrow> int \<Rightarrow> submixerchan \<Rightarrow> 'd au \<Rightarrow> (int \<times> 'd au) res" where
  "submix_get rd m sub s = (if AU_MIXERCHAN_MAX_REGISTER < submixch_register sub
      \<or> AU_MIXERCHAN_MAX_BITS < submixch_shift sub then Inr (-1, s) else
    bindE (rd (submixch_register sub) s) (\<lambda>(v, s).
    if submixch_shift sub < 32 then
      (let v = word_of_int (sint v div 2 ^ unat (submixch_shift sub)) AND submixch_max sub;
           v = (if funcbit_test (submixch_infobits sub) SUBMIXCH_INFOBIT_REVERSEDVALUE then submixch_max sub - v else v)
       in if submixch_max sub = 0 then Inl Div_zero
          else Inr (let p = cdiv (sint v * m) (uint (submixch_max sub)) in if m < p then m else p, s))
    else Inl Bad_shift))"

definition AU_getmixer_one :: "'d one_sndcard_info option \<Rightarrow> u32 \<Rightarrow> 'd au \<Rightarrow> (int \<times> 'd au) res" where
  "AU_getmixer_one h n s = (if mixer_number_bad n then Inr (-1, s) else
    case h of None \<Rightarrow> Inr (-1, s) | Some c \<Rightarrow>
    (case (card_readmixer c, card_mixerchans c) of
      (Some rd, Some chans) \<Rightarrow>
        (case mixer_lookup chans n of None \<Rightarrow> Inr (-1, s)
         | Some ch \<Rightarrow> (case submixerchans ch of [] \<Rightarrow> Inl Out_of_bounds
             | sub # _ \<Rightarrow> submix_get rd (maxpercentval n) sub s))
    | _ \<Rightarrow> Inr (-1, s)))"

definition au_mixchan_outs :: "u32 list" where
  "au_mixchan_outs = [0, 1, 2, 3, 4]"

fun setmixer_outs :: "'d one_sndcard_info option \<Rightarrow> setmode \<Rightarrow> int \<Rightarrow> u32 list \<Rightarrow> 'd au \<Rightarrow> 'd au res" where
  "setmixer_outs h mode newvalue [] s = Inr s"
| "setmixer_outs h mode newvalue (ch # chs) s =
     bindE (AU_setmixer_one h (AU_MIXCHANFUNCS_PACK ch AU_MIXCHANFUNC_VOLUME) mode newvalue s)
       (setmixer_outs h mode newvalue chs)"

definition AU_setmixer_outs :: "'d one_sndcard_info option \<Rightarrow> setmode \<Rightarrow> int \<Rightarrow> 'd au \<Rightarrow> 'd au res" where
  "AU_setmixer_outs h mode newvalue s =
    bindE (setmixer_outs h mode newvalue au_mixchan_outs s) (\<lambda>s.
    Inr (upd_aui (\<lambda>a. a\<lparr>card_master_volume := card_mixer_values a 0\<rparr>) s))"

text \<open>All channels: the outputs without a value of their own take the master volume, channels with
  a value are unmuted and set, the others are read back.\<close>

definition setmixer_outs_default :: "int \<Rightarrow> (int \<Rightarrow> int) \<Rightarrow> int \<Rightarrow> int" where
  "setmixer_outs_default vol vals c = (if 0 \<le> vol \<and> 0 \<le> c \<and> c < 5 \<and> vals c < 0 then vol else vals c)"

definition setmixer_all_one :: "'d one_sndcard_info option \<Rightarrow> nat \<Rightarrow> 'd au \<Rightarrow> 'd au res" where
  "setmixer_all_one h i s =
    (let ch = of_nat i; vol = card_mixer_values (fst s) (int i) in
     if 0 \<le> vol then
       bindE (AU_setmixer_one h (AU_MIXCHANFUNCS_PACK ch AU_MIXCHANFUNC_MUTE) MIXER_SETMODE_ABSOLUTE (maxpercentval ch) s)
       (AU_setmixer_one h (AU_MIXCHANFUNCS_PACK ch AU_MIXCHANFUNC_VOLUME) MIXER_SETMODE_ABSOLUTE vol)
     else
       bindE (AU_getmixer_one h (AU_MIXCHANFUNCS_PACK ch AU_MIXCHANFUNC_VOLUME) s) (\<lambda>(vol, s).
       Inr (if 0 \<le> vol then upd_aui (\<lambda>a. a\<lparr>card_mixer_values := (card_mixer_values a)(int i := vol)\<rparr>) s else s)))"

fun setmixer_all_from :: "'d one_sndcard_info option \<Rightarrow> nat list \<Rightarrow> 'd au \<Rightarrow> 'd au res" where
  "setmixer_all_from h [] s = Inr s"
| "setmixer_all_from h (i # is) s = bindE (setmixer_all_one h i s) (setmixer_all_from h is)"

definition AU_setmixer_all :: "'d one_sndcard_info option \<Rightarrow> 'd au \<Rightarrow> 'd au res" where
  "AU_setmixer_all h s = setmixer_all_from h [0..<AU_MIXCHANS_NUM]
    (upd_aui (\<lambda>a. a\<lparr>card_mixer_values := setmixer_outs_default (card_master_volume a) (card_mixer_values a)\<rparr>) s)"

section \<open>The stored percentages\<close>

text \<open>Every volume is unset or a percentage in the range of its channel.\<close>

definition chan_percent :: "int \<Rightarrow> int" where
  "chan_percent c = (if c = 9 \<or> c = 10 then 200 else 100)"

definition mixer_values_ok :: "mpxplay_audioout_info \<Rightarrow> bool" where
  "mixer_values_ok a \<longleftrightarrow> card_master_volume a \<le> 100 \<and> (\<forall>c. 0 \<le> c \<longrightarrow> c < 11 \<longrightarrow> - 1 \<le> card_mixer_values a c \<and>
    card_mixer_values a c \<le> chan_percent c)"

text \<open>The mixer functions of the card read and write the device only.\<close>

definition reads_device :: "(u32 \<Rightarrow> 'd au \<Rightarrow> (u32 \<times> 'd au) res) \<Rightarrow> bool" where
  "reads_device rd \<longleftrightarrow> (\<forall>r s x s'. rd r s = Inr (x, s') \<longrightarrow> fst s' = fst s)"

definition writes_device :: "(u32 \<Rightarrow> u32 \<Rightarrow> 'd au \<Rightarrow> 'd au res) \<Rightarrow> bool" where
  "writes_device wr \<longleftrightarrow> (\<forall>r v s s'. wr r v s = Inr s' \<longrightarrow> fst s' = fst s)"

definition mixer_device :: "'d one_sndcard_info option \<Rightarrow> bool" where
  "mixer_device h \<longleftrightarrow> (\<forall>c. h = Some c \<longrightarrow> (\<forall>wr. card_writemixer c = Some wr \<longrightarrow> writes_device wr)
    \<and> (\<forall>rd. card_readmixer c = Some rd \<longrightarrow> reads_device rd))"

lemma new_percent_range: "new_percent mode func (maxpercentval n) moved v = Some p \<Longrightarrow> 0 \<le> p \<and> p \<le> maxpercentval n"
  by (auto simp: new_percent_def maxpercentval_def bounded_percent_def split: setmode.splits if_splits)

lemma fst_allow [simp]: "fst (ALLOW_INTSOUNDDECODER save s) = fst s"
  by (simp add: ALLOW_INTSOUNDDECODER_def upd_glb_def)

lemma fst_disallow [simp]: "fst (snd (DISALLOW_INTSOUNDDECODER s)) = fst s"
  by (simp add: DISALLOW_INTSOUNDDECODER_def upd_glb_def)

lemma chan_percent_ge: "100 \<le> chan_percent c" by (simp add: chan_percent_def)

lemma reads_deviceD: "reads_device rd \<Longrightarrow> rd r s = Inr (x, s') \<Longrightarrow> fst s' = fst s"
  unfolding reads_device_def by blast

lemma writes_deviceD: "writes_device wr \<Longrightarrow> wr r v s = Inr s' \<Longrightarrow> fst s' = fst s"
  unfolding writes_device_def by blast

lemma submix_set_aui:
  "writes_device wr \<Longrightarrow> reads_device rd \<Longrightarrow> submix_set wr rd p m sub s = Inr s' \<Longrightarrow> fst s' = fst s"
  by (auto simp: submix_set_def dest!: reads_deviceD writes_deviceD split: if_splits)

lemma submix_set_all_aui:
  "submix_set_all wr rd p m n subs s = Inr s' \<Longrightarrow> writes_device wr \<Longrightarrow> reads_device rd \<Longrightarrow> fst s' = fst s"
  by (induction wr rd p m n subs s rule: submix_set_all.induct) (auto dest: submix_set_aui)

text \<open>Only the tone channels have the larger range.\<close>

lemma maxpercent_chan: "maxpercentval n \<le> chan_percent (uint (AU_MIXCHANFUNCS_GETCHAN n))"
  by (auto simp: chan_percent_def maxpercentval_def AU_MIXCHAN_BASS_def AU_MIXCHAN_TREBLE_def AU_MIXCHANFUNCS_GETCHAN_def)

lemma mixer_values_ok_upd:
  "mixer_values_ok a \<Longrightarrow> 0 \<le> v \<Longrightarrow> v \<le> chan_percent c \<Longrightarrow>
    mixer_values_ok (a\<lparr>card_mixer_values := (card_mixer_values a)(c := v)\<rparr>)"
  by (simp add: mixer_values_ok_def)

lemma mixer_value_set_ok:
  assumes "mixer_value_set (AU_MIXCHANFUNCS_GETCHAN n) v s = Inr s'" "mixer_values_ok (fst s)" "0 \<le> v" "v \<le> maxpercentval n"
  shows "mixer_values_ok (fst s')"
proof -
  have "v \<le> chan_percent (uint (AU_MIXCHANFUNCS_GETCHAN n))"
    using assms(4) maxpercent_chan [of n] by simp
  from mixer_values_ok_upd [OF assms(2,3) this] assms(1) show ?thesis
    by (auto simp: mixer_value_set_def upd_aui_def arr_set_def split: if_splits)
qed

lemma setmixer_apply_ok:
  assumes "setmixer_apply wr rd ch n p s = Inr s'" "writes_device wr" "reads_device rd"
    and "mixer_values_ok (fst s)" "0 \<le> p" "p \<le> maxpercentval n"
  shows "mixer_values_ok (fst s')"
  using assms fst_disallow [of s]
  by (auto simp: setmixer_apply_def Let_def split_beta dest!: submix_set_all_aui dest: mixer_value_set_ok
      split: if_splits simp del: fst_disallow)

lemma AU_setmixer_one_ok:
  assumes "AU_setmixer_one h n mode v s = Inr s'" "mixer_device h" "mixer_values_ok (fst s)"
  shows "mixer_values_ok (fst s')"
  using assms
  by (auto simp: AU_setmixer_one_def mixer_device_def split: option.splits if_splits
      dest: setmixer_apply_ok new_percent_range)

lemma AU_getmixer_one_range:
  assumes "AU_getmixer_one h n s = Inr (v, s')" "mixer_device h"
  shows "fst s' = fst s \<and> v \<le> maxpercentval n"
  using assms
  by (auto simp: AU_getmixer_one_def mixer_device_def submix_get_def maxpercentval_def Let_def
      split: option.splits list.splits if_splits dest: reads_deviceD)

lemma pack_volume:
  assumes "i < 11"
  shows "maxpercentval (AU_MIXCHANFUNCS_PACK (of_nat i) AU_MIXCHANFUNC_VOLUME) \<le> chan_percent (int i)"
proof -
  have "\<forall>i\<in>set [0..<11]. maxpercentval (AU_MIXCHANFUNCS_PACK (of_nat i) AU_MIXCHANFUNC_VOLUME) \<le> chan_percent (int i)"
    by (simp add: AU_MIXCHANFUNCS_PACK_def AU_MIXCHANFUNC_VOLUME_def maxpercentval_def chan_percent_def
      AU_MIXCHAN_BASS_def AU_MIXCHAN_TREBLE_def upt_rec)
  with assms show ?thesis by simp
qed

lemma setmixer_outs_ok:
  "setmixer_outs h mode v chs s = Inr s' \<Longrightarrow> mixer_device h \<Longrightarrow> mixer_values_ok (fst s) \<Longrightarrow> mixer_values_ok (fst s')"
  by (induction h mode v chs s rule: setmixer_outs.induct) (auto dest: AU_setmixer_one_ok)

lemma AU_setmixer_outs_ok:
  assumes "AU_setmixer_outs h mode v s = Inr s'" "mixer_device h" "mixer_values_ok (fst s)"
  shows "mixer_values_ok (fst s')"
proof -
  obtain t where t: "setmixer_outs h mode v au_mixchan_outs s = Inr t"
    "s' = upd_aui (\<lambda>a. a\<lparr>card_master_volume := card_mixer_values a 0\<rparr>) t"
    using assms(1) by (auto simp: AU_setmixer_outs_def)
  have "mixer_values_ok (fst t)" using setmixer_outs_ok [OF t(1) assms(2,3)] .
  then show ?thesis by (auto simp: t(2) upd_aui_def mixer_values_ok_def chan_percent_def)
qed

lemma setmixer_all_one_ok:
  assumes "setmixer_all_one h i s = Inr s'" "i < 11" "mixer_device h" "mixer_values_ok (fst s)"
  shows "mixer_values_ok (fst s')"
proof (cases "0 \<le> card_mixer_values (fst s) (int i)")
  case True
  then show ?thesis using assms by (auto simp: setmixer_all_one_def Let_def dest: AU_setmixer_one_ok)
next
  case False
  then obtain v t where g: "AU_getmixer_one h (AU_MIXCHANFUNCS_PACK (of_nat i) AU_MIXCHANFUNC_VOLUME) s = Inr (v, t)"
    and s': "s' = (if 0 \<le> v then upd_aui (\<lambda>a. a\<lparr>card_mixer_values := (card_mixer_values a)(int i := v)\<rparr>) t else t)"
    using assms(1) by (auto simp: setmixer_all_one_def Let_def)
  from AU_getmixer_one_range [OF g assms(3)] pack_volume [OF assms(2)]
  have "fst t = fst s" "v \<le> chan_percent (int i)" by simp_all
  then show ?thesis using assms(4) mixer_values_ok_upd [OF assms(4), of v "int i"] by (simp add: s' upd_aui_def)
qed

lemma setmixer_all_from_ok:
  "setmixer_all_from h is s = Inr s' \<Longrightarrow> \<forall>i\<in>set is. i < 11 \<Longrightarrow> mixer_device h \<Longrightarrow> mixer_values_ok (fst s) \<Longrightarrow>
    mixer_values_ok (fst s')"
  by (induction h "is" s rule: setmixer_all_from.induct) (auto dest: setmixer_all_one_ok)

lemma AU_setmixer_all_ok:
  assumes "AU_setmixer_all h s = Inr s'" "mixer_device h" "mixer_values_ok (fst s)"
  shows "mixer_values_ok (fst s')"
  using assms(1) unfolding AU_setmixer_all_def
proof (rule setmixer_all_from_ok)
  show "\<forall>i\<in>set [0..<AU_MIXCHANS_NUM]. i < 11" by (simp add: AU_MIXCHANS_NUM_def)
  show "mixer_values_ok (fst (upd_aui (\<lambda>a. a\<lparr>card_mixer_values := setmixer_outs_default (card_master_volume a) (card_mixer_values a)\<rparr>) s))"
    using assms(3) by (auto simp: mixer_values_ok_def upd_aui_def setmixer_outs_default_def
        intro: order_trans [OF _ chan_percent_ge])
qed (rule assms(2))

text \<open>The calls the program makes on the mixer of a card, after its initialisation.\<close>

inductive mixer_run :: "'d one_sndcard_info option \<Rightarrow> 'd au \<Rightarrow> bool" for h where
  init: "mixer_run h (upd_aui AU_setmixer_init s)"
| one: "mixer_run h s \<Longrightarrow> AU_setmixer_one h n mode v s = Inr s' \<Longrightarrow> mixer_run h s'"
| outs: "mixer_run h s \<Longrightarrow> AU_setmixer_outs h mode v s = Inr s' \<Longrightarrow> mixer_run h s'"
| all: "mixer_run h s \<Longrightarrow> AU_setmixer_all h s = Inr s' \<Longrightarrow> mixer_run h s'"

text \<open>C39: After \<open>AU_setmixer_init\<close> and any sequence of mixer calls, with any channel numbers, modes and
  values, each stored volume is unset (-1) or a percentage of its channel (up to 100, for the tone channels 200)
  and the master volume is at most 100.\<close>

theorem mixer_values_range:
  assumes "mixer_run h s" "mixer_device h"
  shows "mixer_values_ok (fst s)"
  using assms
proof (induction rule: mixer_run.induct)
  case (init s)
  show ?case by (auto simp: mixer_values_ok_def upd_aui_def AU_setmixer_init_def chan_percent_def)
qed (blast intro: AU_setmixer_one_ok AU_setmixer_outs_ok AU_setmixer_all_ok)+

text \<open>A card with a master and a bass channel over a register file.\<close>

definition mixer_card :: "(u32 \<Rightarrow> u32) one_sndcard_info" where
  "mixer_card = \<lparr>infobits = 0, card_start = None, card_stop = None, card_close = None, card_setrate = None,
    cardbuf_writedata = (\<lambda>_ _ s. Inr s), cardbuf_pos = None, cardbuf_clear = None, cardbuf_int_monitor = None,
    card_writemixer = Some (\<lambda>r v s. Inr (upd_glb (\<lambda>g. g\<lparr>device := (device g)(r := v)\<rparr>) s)),
    card_readmixer = Some (\<lambda>r s. Inr (device (snd s) r, s)),
    card_mixerchans = Some [\<lparr>mixchan = 0, subchannelnum = 1, submixerchans =
        [\<lparr>submixch_register = 2, submixch_max = 31, submixch_shift = 8, submixch_infobits = 1\<rparr>]\<rparr>,
      \<lparr>mixchan = 9, subchannelnum = 1, submixerchans =
        [\<lparr>submixch_register = 8, submixch_max = 15, submixch_shift = 0, submixch_infobits = 0\<rparr>]\<rparr>],
    irq_routine = None, card_fm_write = None, card_fm_read = None, card_mpu401_write = None, card_mpu401_read = None\<rparr>"

lemma mixer_card_device: "mixer_device (Some mixer_card)"
  by (auto simp: mixer_device_def mixer_card_def writes_device_def reads_device_def upd_glb_def)

theorem mixer_values_range_witness:
  "\<exists>s. AU_setmixer_one (Some mixer_card) 9 MIXER_SETMODE_ABSOLUTE 250
      (upd_aui AU_setmixer_init (aui0, \<lparr>playcontrol = 0, outmode = 2, intsoundcontrol = 0, allcpuusage = 0,
        allcputime = 0, device = (\<lambda>_. 0)\<rparr>)) = Inr s
    \<and> card_mixer_values (fst s) 9 = 200 \<and> mixer_values_ok (fst s)"
proof -
  let ?s0 = "upd_aui AU_setmixer_init (aui0, \<lparr>playcontrol = 0, outmode = 2, intsoundcontrol = 0, allcpuusage = 0,
        allcputime = 0, device = (\<lambda>_. 0)\<rparr>)"
  obtain s where s: "AU_setmixer_one (Some mixer_card) 9 MIXER_SETMODE_ABSOLUTE 250 ?s0 = Inr s"
    "card_mixer_values (fst s) 9 = 200"
    by (simp add: AU_setmixer_one_def mixer_card_def mixer_lookup_def AU_search_mixerchan_def mixer_number_bad_def
        AU_MIXCHANFUNCS_GETFUNC_def AU_MIXCHANFUNCS_GETCHAN_def AU_MIXCHANFUNCS_NUM_def AU_MIXCHANS_NUM_def
        AU_MIXERCHAN_MAX_SUBCHANNELS_def new_percent_def bounded_percent_def maxpercentval_def AU_MIXCHAN_BASS_def
        setmixer_apply_def submix_set_def submix_bad_def AU_MIXERCHAN_MAX_REGISTER_def AU_MIXERCHAN_MAX_BITS_def
        shl32_def DISALLOW_INTSOUNDDECODER_def ALLOW_INTSOUNDDECODER_def upd_aui_def upd_glb_def
        mixer_value_set_def AU_MIXCHANFUNC_VOLUME_def Let_def split_beta)
  from mixer_values_range [OF mixer_run.one [OF mixer_run.init s(1)] mixer_card_device] s show ?thesis by blast
qed

text \<open>The checks let two bad table entries through: the channel number 11, one past the stored values, and
  a shift by the full width of the register value.\<close>

lemma mixer_channel_11: "\<not> mixer_number_bad 11" "mixer_value_set (AU_MIXCHANFUNCS_GETCHAN 11) v s = Inl Out_of_bounds"
  by (simp_all add: mixer_number_bad_def AU_MIXCHANFUNCS_GETFUNC_def AU_MIXCHANFUNCS_GETCHAN_def
      AU_MIXCHANFUNCS_NUM_def AU_MIXCHANS_NUM_def mixer_value_set_def)

lemma submix_shift_32:
  "submixch_shift sub = 32 \<Longrightarrow> \<not> submix_bad sub \<Longrightarrow> submix_set wr rd p m sub s = Inl Bad_shift"
  by (simp add: submix_set_def shl32_def)

text \<open>A percentage becomes a value of the register field, whatever its direction.\<close>

lemma submix_value_max: "submix_value p m sub \<le> submixch_max sub"
proof -
  have "\<And>a b :: u32. a \<le> b \<Longrightarrow> b - a \<le> b" by (simp add: word_le_nat_alt unat_sub)
  then show ?thesis by (simp add: submix_value_def Let_def not_less)
qed

end
