(* ===== verification/Mixing.thy ===== *)
theory Mixing
  imports Sbemu Pcm Opl3
begin

text \<open>
  What the sound interrupt of \<open>main.c\<close> does to samples: the volumes it takes from the mixer registers, and the
  mixing of the digital stream with the FM stream. A buffer of 16-bit samples is a function on
  byte offsets, as in the conversions; a sample is read and written as two bytes.
\<close>

section \<open>Sample buffers\<close>

definition MAIN_PCM_SAMPLESIZE :: int where "MAIN_PCM_SAMPLESIZE = 16384"

definition get16 :: "buf \<Rightarrow> int \<Rightarrow> int" where
  "get16 m i = sint (push_bit 8 (b2w (m (2 * i + 1))) OR b2w (m (2 * i)))"

definition put16 :: "int \<Rightarrow> int \<Rightarrow> buf \<Rightarrow> buf" where
  "put16 i v m = m(2 * i := lo8 (word_of_int v), 2 * i + 1 := hi8 (word_of_int v))"

text \<open>A routine that works at a pointer into a buffer, and \<open>n\<close> bytes stored there.\<close>

definition at_off :: "int \<Rightarrow> (buf \<Rightarrow> buf) \<Rightarrow> buf \<Rightarrow> buf" where
  "at_off off f m = (\<lambda>i. if off \<le> i then f (\<lambda>j. m (j + off)) (i - off) else m i)"

definition fill_bytes :: "int \<Rightarrow> int \<Rightarrow> (int \<Rightarrow> u8) \<Rightarrow> buf \<Rightarrow> buf" where
  "fill_bytes off n f m = (\<lambda>i. if off \<le> i \<and> i < off + n then f (i - off) else m i)"

definition store_samples :: "int \<Rightarrow> int list \<Rightarrow> buf \<Rightarrow> buf" where
  "store_samples i xs m = fold (\<lambda>j m. put16 (i + int j) (xs ! j) m) [0..<length xs] m"

text \<open>A loop over the first \<open>n\<close> samples of a buffer; the buffers have \<open>MAIN_PCM_SAMPLESIZE\<close>.\<close>

primrec map_samples :: "(int \<Rightarrow> int \<Rightarrow> int res) \<Rightarrow> nat \<Rightarrow> int \<Rightarrow> buf \<Rightarrow> buf res" where
  "map_samples f 0 i m = Inr m"
| "map_samples f (Suc n) i m = bindE (guardE Out_of_bounds (i < MAIN_PCM_SAMPLESIZE)) (\<lambda>_.
    bindE (f i (get16 m i)) (\<lambda>v. map_samples f n (i + 1) (put16 i v m)))"

section \<open>Volumes\<close>

text \<open>The master, voice and FM volumes (256 is unchanged) and the CD volume (a percentage), for the card types
  before the SB Pro, the SB16 and the others.\<close>

definition MAIN_volumes :: "int \<Rightarrow> sbemu \<Rightarrow> int \<times> int \<times> int \<times> int" where
  "MAIN_volumes ty s = (let r = (\<lambda>i. SBEMU_GetMixerReg i s) in
    if ty = 1 \<or> ty = 3 then
      (cdiv (uint (drop_bit 1 (r SBEMU_MIXERREG_MASTERVOL)) * 256) 7, cdiv (uint (drop_bit 1 (r SBEMU_MIXERREG_VOICEVOL)) * 256) 3,
       cdiv (uint (drop_bit 1 (r SBEMU_MIXERREG_MIDIVOL)) * 256) 7, cdiv (uint (drop_bit 1 (r SBEMU_MIXERREG_CDVOL)) * 100) 7)
    else if ty = 6 then
      (cdiv (uint (drop_bit 4 (r SBEMU_MIXERREG_MASTERSTEREO)) * 256) 15, cdiv (uint (drop_bit 4 (r SBEMU_MIXERREG_VOICESTEREO)) * 256) 15,
       cdiv (uint (drop_bit 4 (r SBEMU_MIXERREG_MIDISTEREO)) * 256) 15, cdiv (uint (drop_bit 4 (r SBEMU_MIXERREG_CDSTEREO)) * 100) 15)
    else
      (cdiv (uint (drop_bit 5 (r SBEMU_MIXERREG_MASTERSTEREO)) * 256) 7, cdiv (uint (drop_bit 5 (r SBEMU_MIXERREG_VOICESTEREO)) * 256) 7,
       cdiv (uint (drop_bit 5 (r SBEMU_MIXERREG_MIDISTEREO)) * 256) 7, cdiv (uint (drop_bit 5 (r SBEMU_MIXERREG_CDSTEREO)) * 100) 7))"

section \<open>Mixing\<close>

definition s16 :: "int \<Rightarrow> int" where "s16 x = (x + 32768) mod 65536 - 32768"

text \<open>One sample of the digital stream with one of the FM stream, whose amplitude is doubled. The two products that can leave the
  range of an \<open>int\<close> are checked; the others cannot with the volumes above.\<close>

definition mix_sample :: "int \<Rightarrow> int \<Rightarrow> int \<Rightarrow> int \<Rightarrow> int \<Rightarrow> int res" where
  "mix_sample voicevol midivol vol opl pcm =
    (let a = cdiv (pcm * voicevol) 256 + 32768;
         b = cdiv (opl * midivol) 256 * 2 + 32768 in
     bindE (i32 (a * b)) (\<lambda>ab.
     let mixed = (if a < 32768 \<or> b < 32768 then cdiv ab 32768 else (a + b) * 2 - cdiv ab 32768 - 65536);
         mixed = (if mixed = 65536 then 65535 else mixed) in
     bindE (i32 ((mixed - 32768) * vol)) (\<lambda>p. Inr (s16 (cdiv p 256)))))"

definition scale_sample :: "int \<Rightarrow> int \<Rightarrow> int \<Rightarrow> int res" where
  "scale_sample v vol x = bindE (i32 (cdiv (x * v) 256 * vol)) (\<lambda>p. Inr (s16 (cdiv p 256)))"

text \<open>The end of the sound interrupt: the FM stream is generated and mixed in, when FM is enabled. \<open>opl_pcm\<close> is the
  buffer FM goes to: its own when there is digital sound, and the main one otherwise.\<close>

definition MAIN_generate :: "'h opl_chip \<Rightarrow> int \<Rightarrow> buf \<Rightarrow> 'h \<Rightarrow> (buf \<times> 'h) res" where
  "MAIN_generate chip samples m h =
    (let (xs, h) = OPL3EMU_GenSamples chip samples h in
     bindE (guardE Out_of_bounds (int (length xs) \<le> MAIN_PCM_SAMPLESIZE)) (\<lambda>_.
     let m = store_samples 0 xs m in
     if OPL3EMU_GetMode chip h then Inr (m, h)
     else bindE (guardE Out_of_bounds (samples * 2 \<le> MAIN_PCM_SAMPLESIZE)) (\<lambda>_.
       Inr (snd (cv_channels_1_to_n (word_of_int samples) 2 2 m), h))))"

definition MAIN_mix :: "'h opl_chip \<Rightarrow> bool \<Rightarrow> bool \<Rightarrow> int \<Rightarrow> int \<times> int \<times> int \<Rightarrow> buf \<Rightarrow> buf \<Rightarrow> 'h \<Rightarrow> (buf \<times> buf \<times> 'h) res" where
  "MAIN_mix chip opl digital samples vols pcm oplpcm h =
    (let (vol, voicevol, midivol) = vols in
     if opl \<and> digital then
       bindE (MAIN_generate chip samples oplpcm h) (\<lambda>(oplpcm, h).
       bindE (map_samples (\<lambda>i. mix_sample voicevol midivol vol (get16 oplpcm i)) (nat (samples * 2)) 0 pcm) (\<lambda>pcm.
       Inr (pcm, oplpcm, h)))
     else if opl then
       bindE (MAIN_generate chip samples pcm h) (\<lambda>(pcm, h).
       bindE (map_samples (\<lambda>i. scale_sample midivol vol) (nat (samples * 2)) 0 pcm) (\<lambda>pcm. Inr (pcm, oplpcm, h)))
     else if digital then
       bindE (map_samples (\<lambda>i. scale_sample voicevol vol) (nat (samples * 2)) 0 pcm) (\<lambda>pcm. Inr (pcm, oplpcm, h))
     else Inr (pcm, oplpcm, h))"

section \<open>Lemmas on buffers\<close>

lemma get16_put16 [simp]: "get16 (put16 i v m) j = (if i = j then s16 v else get16 m j)"
proof -
  have "push_bit 8 (b2w (hi8 w)) OR b2w (lo8 w) = w" for w by (rule lo8_hi8_join)
  moreover have "sint (word_of_int v :: u16) = s16 v"
    by (simp add: s16_def sint_sbintrunc' signed_take_bit_int_eq_self_iff) 
      (simp add: signed_take_bit_eq_take_bit_shift take_bit_eq_mod)
  moreover have "2 * i \<noteq> 2 * j + 1" "2 * i + 1 \<noteq> 2 * j" by presburger+
  ultimately show ?thesis by (auto simp: get16_def put16_def)
qed

lemma s16_range: "- 32768 \<le> s16 v" "s16 v \<le> 32767"
  using pos_mod_bound [of 65536 "v + 32768"] by (simp_all add: s16_def)

lemma get16_range: "- 32768 \<le> get16 m i" "get16 m i \<le> 32767"
  using sint_range_size [of "push_bit 8 (b2w (m (2 * i + 1))) OR b2w (m (2 * i))"] by (simp_all add: get16_def word_size)

lemma s16_id: "- 32768 \<le> v \<Longrightarrow> v \<le> 32767 \<Longrightarrow> s16 v = v"
  by (simp add: s16_def)

section \<open>Properties of the mixer\<close>

lemma cdiv_between:
  assumes "0 < (d :: int)" "lo * d \<le> v" "v \<le> hi * d"
  shows "lo \<le> cdiv v d" "cdiv v d \<le> hi"
proof -
  have p: "k \<le> u div d \<longleftrightarrow> k * d \<le> u" for k u using int_div_less_iff [OF assms(1), of u k] by linarith
  have q: "u div d < k \<longleftrightarrow> u < k * d" for k u by (rule int_div_less_iff [OF assms(1)])
  have n: "u div d \<le> k \<longleftrightarrow> u < (k + 1) * d" for k u using q [of u "k + 1"] by linarith
  show "lo \<le> cdiv v d"
  proof (cases "v < 0")
    case True
    have "- v div d \<le> - lo" unfolding n using assms by (simp add: algebra_simps)
    then show ?thesis using True assms(1) by (simp add: cdiv_def)
  qed (use assms p in \<open>simp add: cdiv_def\<close>)
  show "cdiv v d \<le> hi"
  proof (cases "v < 0")
    case True
    have "- hi \<le> - v div d" unfolding p using assms by (simp add: algebra_simps)
    then show ?thesis using True assms(1) by (simp add: cdiv_def)
  next
    case False
    have "v div d \<le> hi" unfolding n using assms by (simp add: algebra_simps)
    then show ?thesis using False assms(1) by (simp add: cdiv_def)
  qed
qed

text \<open>A volume of at most 256 keeps a sample in range.\<close>

lemma scaled_between:
  assumes "0 \<le> vol" "vol \<le> 256" "lo \<le> 0" "0 \<le> hi" "lo \<le> x" "x \<le> hi"
  shows "lo \<le> cdiv (x * vol) 256" "cdiv (x * vol) 256 \<le> (hi :: int)"
proof -
  have "lo * 256 \<le> lo * vol" "lo * vol \<le> x * vol" "x * vol \<le> hi * vol" "hi * vol \<le> hi * 256"
    using assms by (auto intro: mult_right_mono mult_left_mono mult_left_mono_neg)
  then show "lo \<le> cdiv (x * vol) 256" "cdiv (x * vol) 256 \<le> hi" using cdiv_between [of 256 lo "x * vol" hi] by simp_all
qed

lemma mixed_range:
  assumes "0 \<le> a" "a \<le> 65535" "0 \<le> b" "b \<le> (65535 :: int)"
  defines "mixed \<equiv> (if a < 32768 \<or> b < 32768 then cdiv (a * b) 32768 else (a + b) * 2 - cdiv (a * b) 32768 - 65536)"
  shows "0 \<le> mixed" "mixed \<le> 65536"
proof -
  have ab: "0 \<le> a * b" using assms by simp
  have d: "cdiv (a * b) 32768 = a * b div 32768" using ab by simp
  have "0 \<le> mixed \<and> mixed \<le> 65536"
  proof (cases "a < 32768 \<or> b < 32768")
    case True
    have "a * b \<le> 32768 * 65535"
    proof (cases "a < 32768")
      case True
      then show ?thesis using assms by (intro mult_mono) simp_all
    next
      case False
      then have "a * b \<le> 65535 * 32768" using True assms by (intro mult_mono) simp_all
      then show ?thesis by simp
    qed
    then have "a * b div 32768 \<le> 65535" by simp
    then show ?thesis using True ab by (simp add: mixed_def d pos_imp_zdiv_nonneg_iff)
  next
    case False
    define x y where "x = a - 32768" and "y = b - 32768"
    have xy: "0 \<le> x" "x \<le> 32767" "0 \<le> y" "y \<le> 32767" using False assms by (simp_all add: x_def y_def)
    have "a * b = x * y + (32768 + x + y) * 32768" by (simp add: x_def y_def algebra_simps)
    then have e: "a * b div 32768 = x * y div 32768 + (32768 + x + y)" by simp
    have m: "mixed = 32768 + x + y - x * y div 32768"
      using False by (simp add: mixed_def d e) (simp add: x_def y_def)
    have "x * y \<le> x * 32768" using xy by (intro mult_left_mono) simp_all
    then have "x * y div 32768 \<le> x" by simp
    moreover have "0 \<le> (32768 - x) * (32768 - y)" using xy by (intro mult_nonneg_nonneg) simp_all
    then have "(x + y - 32768) * 32768 \<le> x * y" by (simp add: algebra_simps)
    then have "x + y - 32768 \<le> x * y div 32768" using int_div_less_iff [of 32768 "x * y" "x + y - 32768"] by linarith
    ultimately show ?thesis using m xy by simp
  qed
  then show "0 \<le> mixed" "mixed \<le> 65536" by auto
qed

text \<open>C27: Mixing a digital sample with an FM sample of at most half amplitude (it is doubled) gives a sample in the 16-bit range
  without any wrap-around, for volumes up to 256, as long as the product of the two biased
  amplitudes fits an \<open>int\<close>; a silent FM stream leaves the digital sample as it is but for the volumes, and a silent
  digital stream the doubled FM sample.\<close>

theorem mix_sample_clean:
  assumes v: "0 \<le> voicevol" "voicevol \<le> 256" "0 \<le> midivol" "midivol \<le> 256" "0 \<le> vol" "vol \<le> 256"
    and s: "- 32768 \<le> pcm" "pcm \<le> 32767" "- 16384 \<le> opl" "opl \<le> 16383"
  defines "x \<equiv> cdiv (pcm * voicevol) 256" and "y \<equiv> cdiv (opl * midivol) 256 * 2"
  assumes p: "(x + 32768) * (y + 32768) < 2147483648"
  shows "\<exists>out. mix_sample voicevol midivol vol opl pcm = Inr out \<and> - 32768 \<le> out \<and> out \<le> 32767
    \<and> (opl = 0 \<longrightarrow> out = cdiv (x * vol) 256) \<and> (pcm = 0 \<longrightarrow> out = cdiv (y * vol) 256)"
proof -
  define a b where "a = x + 32768" and "b = y + 32768"
  define m where "m = (if a < 32768 \<or> b < 32768 then cdiv (a * b) 32768 else (a + b) * 2 - cdiv (a * b) 32768 - 65536)"
  define m' where "m' = (if m = 65536 then 65535 else m) - 32768"
  have x: "- 32768 \<le> x" "x \<le> 32767" unfolding x_def using scaled_between [OF v(1, 2), of "-32768" 32767 pcm] s by simp_all
  have y: "- 32768 \<le> y" "y \<le> 32766" unfolding y_def using scaled_between [OF v(3, 4), of "-16384" 16383 opl] s by simp_all
  have ab: "0 \<le> a" "a \<le> 65535" "0 \<le> b" "b \<le> 65535" using x y by (simp_all add: a_def b_def)
  have "0 \<le> m" "m \<le> 65536" unfolding m_def using mixed_range [OF ab] by simp_all
  then have m': "- 32768 \<le> m'" "m' \<le> 32767" by (simp_all add: m'_def)
  have out: "- 32768 \<le> cdiv (m' * vol) 256" "cdiv (m' * vol) 256 \<le> 32767"
    using scaled_between [OF v(5, 6), of "-32768" 32767 m'] m' by simp_all
  have "(-32768) * 256 \<le> m' * vol \<and> m' * vol \<le> 32767 * 256"
  proof
    have "(-32768) * 256 \<le> (-32768) * vol" "(-32768) * vol \<le> m' * vol" using v m' by (simp, intro mult_right_mono) simp_all
    then show "(-32768) * 256 \<le> m' * vol" by linarith
    have "m' * vol \<le> 32767 * vol" using v m' by (intro mult_right_mono) simp_all
    then show "m' * vol \<le> 32767 * 256" using v by linarith
  qed
  then have i2: "i32 (m' * vol) = Inr (m' * vol)" by (simp add: i32_def i32_ok_def)
  have "0 \<le> a * b" "a * b < 2147483648" using ab p by (simp_all add: a_def b_def)
  then have i1: "i32 (a * b) = Inr (a * b)" by (simp add: i32_def i32_ok_def)
  have r: "mix_sample voicevol midivol vol opl pcm = Inr (cdiv (m' * vol) 256)"
    unfolding mix_sample_def Let_def x_def [symmetric] y_def [symmetric] a_def [symmetric] b_def [symmetric]
    unfolding i1 bindE_simps m_def [symmetric] m'_def [symmetric] using i2 out by (simp add: s16_id)
  have "m' = x" if "opl = 0"
  proof -
    have "b = 32768" using that by (simp add: b_def y_def)
    then show ?thesis using ab x by (simp add: m'_def m_def) (simp add: a_def)
  qed
  moreover have "m' = y" if "pcm = 0"
  proof -
    have "a = 32768" using that by (simp add: a_def x_def)
    then show ?thesis using ab y by (simp add: m'_def m_def) (simp add: b_def)
  qed
  ultimately show ?thesis using r out by auto
qed

theorem mix_sample_clean_witness:
  "\<exists>out. mix_sample 256 256 128 8000 (- 12000) = Inr out \<and> - 32768 \<le> out \<and> out \<le> 32767"
  using mix_sample_clean [of 256 256 128 "- 12000" 8000] by (auto simp: cdiv_def)

text \<open>Two loud samples overflow the product; and a loud FM sample alone leaves the 16-bit range when it is doubled.\<close>

lemma mix_sample_overflow: "mix_sample 256 256 256 10000 20000 = Inl Signed_overflow"
  by (simp add: mix_sample_def i32_def i32_ok_def)

lemma mix_sample_doubled: "mix_sample 256 256 256 (- 32768) 0 = Inr 0"
  by (simp add: mix_sample_def i32_def i32_ok_def cdiv_def s16_def)

lemma volume_in: "0 \<le> x \<Longrightarrow> x \<le> d \<Longrightarrow> 0 < d \<Longrightarrow> 0 \<le> k \<Longrightarrow> cdiv (x * k) d \<in> {0..k}"
  using cdiv_between [of d 0 "x * k" k] mult_right_mono [of x d k] by (simp add: mult.commute)

lemma uint_drop_u8: "uint (drop_bit n (w :: u8)) = uint w div 2 ^ n"
  unfolding unsigned_drop_bit_eq using uint_u8_range [of w] by (simp add: drop_bit_eq_div take_bit_int_eq_self)

lemma volume_reg:
  fixes w :: u8
  shows "cdiv (uint (drop_bit 4 w) * 256) 15 \<in> {0..256}" "cdiv (uint (drop_bit 4 w) * 100) 15 \<in> {0..100}"
    "cdiv (uint (drop_bit 5 w) * 256) 7 \<in> {0..256}" "cdiv (uint (drop_bit 5 w) * 100) 7 \<in> {0..100}"
    "w < 16 \<Longrightarrow> cdiv (uint (drop_bit 1 w) * 256) 7 \<in> {0..256}" "w < 16 \<Longrightarrow> cdiv (uint (drop_bit 1 w) * 100) 7 \<in> {0..100}"
    "w < 8 \<Longrightarrow> cdiv (uint (drop_bit 1 w) * 256) 3 \<in> {0..256}"
proof -
  have r: "0 \<le> uint w" "uint w < 256" by (simp_all add: uint_u8_range)
  have h: "uint w div 16 \<le> 15" "uint w div 32 \<le> 7" "w < 16 \<Longrightarrow> uint w div 2 \<le> 7" "w < 8 \<Longrightarrow> uint w div 2 \<le> 3"
    unfolding word_less_def using r by (presburger, presburger, simp, simp)
  show "cdiv (uint (drop_bit 4 w) * 256) 15 \<in> {0..256}" "cdiv (uint (drop_bit 4 w) * 100) 15 \<in> {0..100}"
    "cdiv (uint (drop_bit 5 w) * 256) 7 \<in> {0..256}" "cdiv (uint (drop_bit 5 w) * 100) 7 \<in> {0..100}"
    unfolding uint_drop_u8 by (rule volume_in; use r h in \<open>simp add: pos_imp_zdiv_nonneg_iff\<close>)+
  show "w < 16 \<Longrightarrow> cdiv (uint (drop_bit 1 w) * 256) 7 \<in> {0..256}" "w < 16 \<Longrightarrow> cdiv (uint (drop_bit 1 w) * 100) 7 \<in> {0..100}"
    "w < 8 \<Longrightarrow> cdiv (uint (drop_bit 1 w) * 256) 3 \<in> {0..256}"
    unfolding uint_drop_u8 by (rule volume_in; use r h in \<open>simp add: pos_imp_zdiv_nonneg_iff\<close>)+
qed

text \<open>The volumes taken from the mixer registers are between 0 and 256 (and the CD volume between 0 and 100) whatever
  the guest stored in them, for the SB Pro and the SB16; for the older types only if the registers hold no more than
  their 3 or 2 volume bits, for which the code does not mask.\<close>

theorem volumes_range:
  assumes "MAIN_volumes ty s = (vol, voicevol, midivol, cdvol)"
    and old: "ty = 1 \<or> ty = 3 \<Longrightarrow> SBEMU_GetMixerReg SBEMU_MIXERREG_MASTERVOL s < 16 \<and> SBEMU_GetMixerReg SBEMU_MIXERREG_VOICEVOL s < 8
      \<and> SBEMU_GetMixerReg SBEMU_MIXERREG_MIDIVOL s < 16 \<and> SBEMU_GetMixerReg SBEMU_MIXERREG_CDVOL s < 16"
  shows "vol \<in> {0..256} \<and> voicevol \<in> {0..256} \<and> midivol \<in> {0..256} \<and> cdvol \<in> {0..100}"
proof -
  consider "ty = 1 \<or> ty = 3" | "\<not> (ty = 1 \<or> ty = 3)" "ty = 6" | "\<not> (ty = 1 \<or> ty = 3)" "ty \<noteq> 6" by blast
  then show ?thesis
  proof cases
    case 1
    then show ?thesis using assms(1) old [OF 1] unfolding MAIN_volumes_def Let_def
      by (simp only: if_True prod.inject) (use volume_reg in blast)
  next
    case 2
    then show ?thesis using assms(1) unfolding MAIN_volumes_def Let_def
      by (simp only: if_True if_False prod.inject simp_thms) (use volume_reg in blast)
  next
    case 3
    then show ?thesis using assms(1) unfolding MAIN_volumes_def Let_def
      by (simp only: if_False prod.inject) (use volume_reg in blast)
  qed
qed

theorem volumes_range_witness:
  "MAIN_volumes 3 (sbemu_initial\<lparr>SBEMU_MixerRegs := (\<lambda>_. 7)\<rparr>) = (109, 256, 109, 42)
    \<and> (109 :: int) \<in> {0..256}"
proof -
  have "MAIN_volumes 3 (sbemu_initial\<lparr>SBEMU_MixerRegs := (\<lambda>_. 7)\<rparr>) = (109, 256, 109, 42)"
    by (simp add: MAIN_volumes_def SBEMU_GetMixerReg_def uint_drop_u8 Let_def)
  from volumes_range [OF this] show ?thesis using \<open>MAIN_volumes 3 _ = _\<close> by (simp add: SBEMU_GetMixerReg_def)
qed

lemma volumes_unmasked: "MAIN_volumes 3 (sbemu_initial\<lparr>SBEMU_MixerRegs := (\<lambda>_. 0xFF)\<rparr>) = (4644, 10837, 4644, 1814)"
  by (simp add: MAIN_volumes_def SBEMU_GetMixerReg_def uint_drop_u8 Let_def)

text \<open>Widening works from the end of the buffer down, so no sample is overwritten before it has been read.\<close>

definition widened :: "nat \<Rightarrow> buf \<Rightarrow> buf" where
  "widened n m = (\<lambda>j. if 0 \<le> j \<and> j < 2 * int n then (if even j then 0 else m (j div 2)) else m j)"

definition doubled :: "nat \<Rightarrow> buf \<Rightarrow> buf" where
  "doubled n m = (\<lambda>j. if 0 \<le> j \<and> j < 4 * int n then m (2 * (j div 4) + j mod 2) else m j)"

lemma bits_up_loop_widened: "bits_up_loop n 1 2 (int n, 2 * int n, m) = widened n m"
proof (induction n arbitrary: m)
  case 0
  show ?case by (auto simp: widened_def fun_eq_iff)
next
  case (Suc n)
  let ?m = "m(2 * int n + 1 := m (int n), 2 * int n := 0)"
  have "bits_up_loop (Suc n) 1 2 (int (Suc n), 2 * int (Suc n), m) = bits_up_loop n 1 2 (int n, 2 * int n, ?m)"
    by (simp add: do_count_def Let_def algebra_simps)
  also have "\<dots> = widened (Suc n) m"
    unfolding Suc widened_def
  proof (rule ext)
    fix j
    consider "j < 0" | "0 \<le> j" "j < 2 * int n" | "j = 2 * int n" | "j = 2 * int n + 1" | "2 * int n + 1 < j" by linarith
    then show "(if 0 \<le> j \<and> j < 2 * int n then if even j then 0 else ?m (j div 2) else ?m j)
        = (if 0 \<le> j \<and> j < 2 * int (Suc n) then if even j then 0 else m (j div 2) else m j)"
    proof cases
      case 2
      then have "j div 2 \<noteq> 2 * int n" "j div 2 \<noteq> 2 * int n + 1" by presburger+
      then show ?thesis using 2 by simp
    qed auto
  qed
  finally show ?case .
qed

lemma unsigned_to_signed:
  "cv_8bits_unsigned_to_signed n p m = (\<lambda>j. if p \<le> j \<and> j < p + int n then m j - 128 else m j)"
proof (induction n arbitrary: p m)
  case (Suc n)
  have "word_of_int (uint (m p) - 128) = m p - 128" by (simp add: word_of_int_minus)
  then show ?case by (auto simp: Suc fun_eq_iff)
qed auto

lemma cv_bits_1_to_2:
  assumes "k \<noteq> 0" "2 * unat k < 4294967296"
  shows "cv_bits_n_to_m k 1 2 m = widened (unat k) (\<lambda>j. if 0 \<le> j \<and> j < int (unat k) then m j - 128 else m j)"
proof -
  have "int (unat k) < 2147483648" using assms(2) by linarith
  then have "uint (k * 2) = 2 * int (unat k)" by (simp add: uint_word_ariths)
  then show ?thesis using assms
    using bits_up_loop_widened [of "unat k"] by (simp add: cv_bits_n_to_m_def cv_bits_up_def unsigned_to_signed)
qed

lemma channels_loop_doubled: "channels_loop n 2 2 (2 * int n, 4 * int n, m) = doubled n m"
proof (induction n arbitrary: m)
  case 0
  show ?case by (auto simp: doubled_def fun_eq_iff)
next
  case (Suc n)
  let ?n = "int n"
  let ?m = "m(4 * ?n + 2 := m (2 * ?n), 4 * ?n + 3 := m (2 * ?n + 1))"
  let ?m = "?m(4 * ?n := ?m (2 * ?n), 4 * ?n + 1 := (?m(4 * ?n := ?m (2 * ?n))) (2 * ?n + 1))"
  have "channels_loop (Suc n) 2 2 (2 * int (Suc n), 4 * int (Suc n), m) = channels_loop n 2 2 (2 * ?n, 4 * ?n, ?m)"
    by (simp add: numeral_2_eq_2 Let_def algebra_simps)
  also have "\<dots> = doubled (Suc n) m"
    unfolding Suc doubled_def
  proof (rule ext)
    fix j
    consider "j < 0" | "0 \<le> j" "j < 4 * ?n" | "j = 4 * ?n" | "j = 4 * ?n + 1" | "j = 4 * ?n + 2" | "j = 4 * ?n + 3" | "4 * ?n + 3 < j"
      by linarith
    then show "(if 0 \<le> j \<and> j < 4 * ?n then ?m (2 * (j div 4) + j mod 2) else ?m j)
        = (if 0 \<le> j \<and> j < 4 * int (Suc n) then m (2 * (j div 4) + j mod 2) else m j)"
    proof cases
      case 2
      let ?k = "2 * (j div 4) + j mod 2"
      have "?k < 2 * ?n" "0 \<le> ?k" using 2 by presburger+
      then show ?thesis using 2 by auto
    next
      case 4
      then have "j mod 2 = 1" "j div 4 = ?n" "2 * ?n \<noteq> 1" by presburger+
      then show ?thesis using 4 by simp
    next
      case 6
      then have "j mod 2 = 1" "j div 4 = ?n" by presburger+
      then show ?thesis using 6 by simp
    qed auto
  qed
  finally show ?case .
qed

lemma cv_channels_1_to_2:
  assumes "4 * unat k < 4294967296"
  shows "cv_channels_1_to_n k 2 2 m = (k * 2, doubled (unat k) m)"
proof -
  have "int (unat k) < 1073741824" using assms by linarith
  then have "uint (k * 2) = 2 * int (unat k)" "uint (k * 2 * 2) = 4 * int (unat k)" by (simp_all add: uint_word_ariths)
  then show ?thesis using channels_loop_doubled [of "unat k"] by (simp add: cv_channels_1_to_n_def)
qed


lemma sample_of_byte: "sint (push_bit 8 (b2w (b - 128)) OR b2w 0) = 256 * (uint b - 128)"
proof -
  have u: "uint (push_bit 8 (b2w x)) = 256 * uint x" for x :: u8
    using uint_bounded [of x] by (simp add: b2w_def push_bit_eq_mult uint_word_ariths uint_up_ucast is_up)
  have b: "0 \<le> uint b" "uint b < 256" using uint_bounded [of b] by simp_all
  have "uint (b - 128) = (uint b - 128) mod 256" by (simp add: uint_word_ariths)
  then have "uint (push_bit 8 (b2w (b - 128))) = 256 * ((uint b - 128) mod 256)" using u [of "b - 128"] by simp
  also have "\<dots> = uint (word_of_int (256 * (uint b - 128)) :: u16)" 
    using mult_mod_right [of 256 "uint b - 128" 256] by (simp only: uint_word_of_int) simp
  finally have "push_bit 8 (b2w (b - 128)) = word_of_int (256 * (uint b - 128))" by (simp only: word_uint_eq_iff)
  moreover have "sint (word_of_int (256 * (uint b - 128)) :: u16) = 256 * (uint b - 128)"
    unfolding sint_sbintrunc' using b by (simp add: signed_take_bit_int_eq_self_iff)
  ultimately show ?thesis by (simp add: b2w_def del: of_int_mult of_int_diff)
qed


text \<open>The two conversions of an 8-bit mono block one after the other.\<close>

lemma get16_stereo_of_mono8:
  assumes "0 \<le> i" "i < int n" "c \<in> {0, 1}"
  shows "get16 (doubled n (widened n (\<lambda>j. if 0 \<le> j \<and> j < int n then m j - 128 else m j))) (2 * i + c) = 256 * (uint (m i) - 128)"
proof -
  let ?w = "widened n (\<lambda>j. if 0 \<le> j \<and> j < int n then m j - 128 else m j)"
  have "(4 * i + 2 * c) div 4 = i" "(4 * i + 2 * c) mod 4 = 2 * c" "even (4 * i + 2 * c)"
    "(4 * i + 2 * c + 1) div 4 = i"
    using assms(3) by auto
  moreover have "(4 * i + 2 * c + 1) mod 2 = 1" by presburger
  ultimately have "doubled n ?w (2 * (2 * i + c)) = ?w (2 * i)" "doubled n ?w (2 * (2 * i + c) + 1) = ?w (2 * i + 1)"
    using assms by (auto simp: doubled_def algebra_simps)
  moreover have "?w (2 * i) = 0" "?w (2 * i + 1) = m i - 128" using assms by (simp_all add: widened_def)
  ultimately show ?thesis using sample_of_byte [of "m i"] by (simp add: get16_def)
qed

end
