(* ===== verification/Isr.thy ===== *)
theory Isr
  imports Ports Mixer Mixing
begin

text \<open>
  The interrupt of the sound card (\<open>main.c\<close>): the handlers for both processor modes, the injection of the virtual
  interrupt, and \<open>MAIN_Interrupt\<close>, which moves the guest's DMA data into the output buffer, converts and
  resamples it, advances the virtual DMA channel, tells the guest when a block has ended, mixes FM in and
  hands the samples to the card. Integers are kept as the code has them: an unsigned quantity is a
  word, an \<open>int\<close> an integer whose conversions are written out.
\<close>

definition CPU_VMFLAG :: u32 where "CPU_VMFLAG = 0x20000"
definition SBEMU_CHANNELS :: int where "SBEMU_CHANNELS = 2"
definition AU_MIXCHAN_CDIN :: u32 where "AU_MIXCHAN_CDIN = 7"

definition udiv :: "u32 \<Rightarrow> u32 \<Rightarrow> u32 res" where
  "udiv a b = (if b = 0 then Inl Div_zero else Inr (a div b))"

section \<open>The virtual interrupt\<close>

definition MAIN_InvokeIRQ :: "'h main_env \<Rightarrow> u8 \<Rightarrow> 'h world \<Rightarrow> 'h world res" where
  "MAIN_InvokeIRQ env irq = (\<lambda>(q, r).
    let r = (if opt_value (m_options r) OPT_RM \<noteq> 0 then on_hw (e_virq_traps env True) r else r);
        r = on_hw (e_irq_routing env False irq) r;
        r = on_hw (e_irqguard env True) r
    in bindE (VIRQ_Invoke (lift_io (e_io env)) (e_guest env) irq (int_regs r) (int_eflags r AND CPU_VMFLAG \<noteq> 0) (q, r)) (\<lambda>(q, r).
    let r = on_hw (e_irqguard env False) r;
        r = on_hw (e_irq_routing env True irq) r
    in Inr (q, if opt_value (m_options r) OPT_RM \<noteq> 0 then on_hw (e_virq_traps env False) r else r)))"

text \<open>The interrupt the Sound Blaster is set up for.\<close>

definition MAIN_InvokeSBIRQ :: "'h main_env \<Rightarrow> 'h world \<Rightarrow> 'h world res" where
  "MAIN_InvokeSBIRQ env w = bindE (SBEMU_GetIRQ (m_sb (snd w))) (\<lambda>irq. MAIN_InvokeIRQ env irq w)"

section \<open>Digital sound\<close>

text \<open>The variables of the loop over the guest's DMA buffer.\<close>

record digital =
  d_pos :: int
  d_DMA_Addr :: u32
  d_DMA_Index :: int
  d_DMA_Count :: int
  d_SB_Bytes :: u32
  d_SB_Pos :: u32
  d_SB_Rate :: u32

definition page_align :: "u32 \<Rightarrow> u32" where "page_align x = (x + 4095) AND NOT 4095"

definition dma_end :: "digital \<Rightarrow> u32" where
  "dma_end d = d_DMA_Addr d + word_of_int (d_DMA_Index d) + word_of_int (d_DMA_Count d)"

definition MAIN_map_dma :: "'h dma_mem \<Rightarrow> digital \<Rightarrow> 'h main \<Rightarrow> 'h main" where
  "MAIN_map_dma dm d r =
    (let a = d_DMA_Addr d;
         r = (if MAIN_DMA_MappedAddr r \<noteq> 0 \<and> \<not> (MAIN_DMA_Addr r \<le> a \<and> dma_end d \<le> MAIN_DMA_Addr r + MAIN_DMA_Size r)
              then (if 0x100000 < MAIN_DMA_MappedAddr r then on_hw (UnmappMemory dm (MAIN_DMA_MappedAddr r)) r else r)
                \<lparr>MAIN_DMA_MappedAddr := 0\<rparr>
              else r)
     in if MAIN_DMA_MappedAddr r = 0 then
          (let base = a AND NOT 0xFFF;
               sz = page_align (max (dma_end d - base) 0x20000)
           in if dma_end d \<le> 0x100000
              then r\<lparr>MAIN_DMA_Addr := base, MAIN_DMA_Size := sz, MAIN_DMA_MappedAddr := base\<rparr>
              else (let (mapped, h) = MapMemory dm base sz (hw r)
                    in (set_hw h r)\<lparr>MAIN_DMA_Addr := base, MAIN_DMA_Size := sz, MAIN_DMA_MappedAddr := mapped\<rparr>))
        else r)"

text \<open>How many samples to take, and whether to resample them.\<close>

definition rate_count :: "u32 \<Rightarrow> u32 \<Rightarrow> int \<Rightarrow> (int \<times> bool) res" where
  "rate_count freq rate n =
    (if rate < freq - 50 then bindE (udiv (word_of_int n * rate) freq) (\<lambda>u.
       Inr (sint (max (word_of_int (min 2 n)) u), True))
     else if freq + 50 < rate then bindE (udiv (word_of_int n * rate) freq) (\<lambda>u. Inr (sint u, True))
     else Inr (n, False))"

definition block_count :: "int \<Rightarrow> int \<Rightarrow> int \<Rightarrow> digital \<Rightarrow> int \<Rightarrow> int res" where
  "block_count bits samplesize channels d n =
    (let n = min n (max 1 (cdiv (cdiv (d_DMA_Count d) samplesize) channels));
         u = max 1 ((d_SB_Bytes d - d_SB_Pos d) div word_of_int samplesize div word_of_int channels);
         n = sint (min (word_of_int n) u)
     in if bits < 8 then
          (if bits = 0 \<or> cdiv 9 bits = 0 then Inl Div_zero else Inr (max 1 (cdiv n (cdiv 9 bits))))
        else Inr n)"

text \<open>The bytes of the guest at the mapped address, or silence when the mapping failed.\<close>

definition dma_bytes :: "'h main_env \<Rightarrow> digital \<Rightarrow> 'h main \<Rightarrow> int \<Rightarrow> u8" where
  "dma_bytes env d r j = (if MAIN_DMA_MappedAddr r = 0 then 0
    else e_peek env (MAIN_DMA_MappedAddr r + (d_DMA_Addr d - MAIN_DMA_Addr r) + word_of_int (d_DMA_Index d) + word_of_int j) (hw r))"

definition in_buffer :: "int \<Rightarrow> int \<Rightarrow> unit res" where
  "in_buffer off n = guardE Out_of_bounds (0 \<le> off \<and> 0 \<le> n \<and> off + n \<le> 2 * MAIN_PCM_SAMPLESIZE)"

text \<open>Loading a block at byte offset \<open>off\<close> of a buffer as 16-bit samples: the copy and the ADPCM decoder, then the change of
  width. The result is the number of samples, the buffer and the Sound Blaster.\<close>

definition decode_block :: "(int \<Rightarrow> u8) \<Rightarrow> int \<Rightarrow> int \<Rightarrow> int \<Rightarrow> buf \<Rightarrow> sbemu \<Rightarrow> (int \<times> buf \<times> sbemu) res" where
  "decode_block data off bytes count m s =
    bindE (in_buffer off bytes) (\<lambda>_.
    let m = fill_bytes off bytes data m in
    if SBEMU_GetBits s < 8 then
      bindE (SBEMU_DecodeADPCM (map (\<lambda>j. m (off + int j)) [0..<nat bytes]) s) (\<lambda>(pcm, s).
      bindE (in_buffer off (int (length pcm))) (\<lambda>_.
      Inr (int (length pcm), fill_bytes off (int (length pcm)) (\<lambda>j. pcm ! nat j) m, s)))
    else Inr (count, m, s))"

definition widen_block :: "int \<Rightarrow> int \<Rightarrow> int \<Rightarrow> buf \<Rightarrow> buf res" where
  "widen_block off n samplesize m =
    (if samplesize \<noteq> 2 then
       bindE (guardE Out_of_bounds (0 < n)) (\<lambda>_.
       bindE (in_buffer off (2 * n)) (\<lambda>_.
       Inr (at_off off (cv_bits_n_to_m (word_of_int n) (word_of_int samplesize) 2) m)))
     else Inr m)"

definition load_block :: "(int \<Rightarrow> u8) \<Rightarrow> int \<Rightarrow> int \<Rightarrow> int \<Rightarrow> int \<Rightarrow> int \<Rightarrow> buf \<Rightarrow> sbemu \<Rightarrow> (int \<times> buf \<times> sbemu) res" where
  "load_block data off bytes count samplesize channels m s =
    bindE (decode_block data off bytes count m s) (\<lambda>(count, m, s).
    bindE (widen_block off (count * channels) samplesize m) (\<lambda>m. Inr (count, m, s)))"

text \<open>Resampling: the last sample of the previous block goes before the new samples, the last new one is kept for the next.\<close>

definition resample_block :: "int \<Rightarrow> int \<Rightarrow> int \<Rightarrow> u32 \<Rightarrow> u32 \<Rightarrow> 'h main \<Rightarrow> (int \<times> 'h main) res" where
  "resample_block pos count channels rate freq r =
    bindE (in_buffer 0 (2 * (count * channels + channels))) (\<lambda>_.
    let old = MAIN_LastResample r; m = MAIN_PCMResample r;
        lst = (\<lambda>i. if 0 \<le> i \<and> i < channels then get16 m (channels + (count - 1) * channels + i) else old i);
        m = store_samples 0 (map (\<lambda>i. old (int i)) [0..<nat channels]) m
    in bindE (mixer_speed_lq (w32 (MAIN_PCM_SAMPLESIZE - pos * 2)) MAIN_PCM_SAMPLESIZE (get16 m) (count * channels) channels (uint rate) (uint freq)) (\<lambda>out.
    bindE (in_buffer (4 * pos) (2 * int (length out))) (\<lambda>_.
    Inr (int (length out) div channels,
      r\<lparr>MAIN_PCMResample := m, MAIN_LastResample := lst, MAIN_PCM := store_samples (2 * pos) out (MAIN_PCM r)\<rparr>))))"

text \<open>A mono stream is doubled to two channels last.\<close>

definition stereo_block :: "int \<Rightarrow> int \<Rightarrow> int \<Rightarrow> 'h main \<Rightarrow> 'h main res" where
  "stereo_block pos count channels r =
    (if channels = 1 then
       bindE (in_buffer (4 * pos) (4 * count)) (\<lambda>_.
       Inr (r\<lparr>MAIN_PCM := at_off (4 * pos) (\<lambda>m. snd (cv_channels_1_to_n (word_of_int count) 2 2 m)) (MAIN_PCM r)\<rparr>))
     else Inr r)"

text \<open>\<open>count\<close> samples of the guest into the output buffer: the number of frames there, and the state.\<close>

definition convert_block :: "'h main_env \<Rightarrow> bool \<Rightarrow> int \<Rightarrow> int \<Rightarrow> int \<Rightarrow> int \<Rightarrow> digital \<Rightarrow> 'h main \<Rightarrow> (int \<times> 'h main) res" where
  "convert_block env resample bytes count samplesize channels d r =
    (let pos = d_pos d in
     bindE (load_block (dma_bytes env d r) (if resample then 2 * channels else 4 * pos) bytes count samplesize channels
         (if resample then MAIN_PCMResample r else MAIN_PCM r) (m_sb r)) (\<lambda>(count, m, s).
     let r = r\<lparr>m_sb := s\<rparr> in
     bindE (if resample then resample_block pos count channels (d_SB_Rate d) (freq_card (m_aui r)) (r\<lparr>MAIN_PCMResample := m\<rparr>)
         else Inr (count, r\<lparr>MAIN_PCM := m\<rparr>)) (\<lambda>(count, r).
     bindE (stereo_block pos count channels r) (\<lambda>r. Inr (count, r)))))"

text \<open>The number of frames, the bytes consumed, and the state.\<close>

definition MAIN_block :: "'h main_env \<Rightarrow> int \<Rightarrow> int \<Rightarrow> int \<Rightarrow> digital \<Rightarrow> 'h main \<Rightarrow> (int \<times> int \<times> 'h main) res" where
  "MAIN_block env samples samplesize channels d r =
    bindE (rate_count (freq_card (m_aui r)) (d_SB_Rate d) (samples - d_pos d)) (\<lambda>(count, resample).
    bindE (block_count (SBEMU_GetBits (m_sb r)) samplesize channels d count) (\<lambda>count.
    bindE (i32 (count * samplesize * channels)) (\<lambda>bytes.
    bindE (convert_block env resample bytes count samplesize channels d r) (\<lambda>(count, r). Inr (count, bytes, r)))))"

text \<open>The end of a block of the transfer: the position starts over, a single-cycle transfer stops, the guest is interrupted. The first
  component says that the loop is left.\<close>

definition MAIN_block_end :: "'h main_env \<Rightarrow> int \<Rightarrow> digital \<Rightarrow> 'h world \<Rightarrow> (bool \<times> digital \<times> 'h world) res" where
  "MAIN_block_end env dma d = (\<lambda>(q, r).
    let s = m_sb r;
        s = (if \<not> SBEMU_GetAuto s then SBEMU_Stop s else s);
        (p, s) = SBEMU_SetPos 0 s
    in bindE (MAIN_InvokeSBIRQ env (q, r\<lparr>m_sb := s\<rparr>)) (\<lambda>(q, r).
       if d_SB_Bytes d \<le> 32 then
         (let c = SBEMU_GetDetectionCounter (m_sb r) + 1;
              s = (if 256 \<le> c then SBEMU_Stop (m_sb r) else m_sb r)
          in Inr (True, d, q, r\<lparr>m_sb := SBEMU_SetDetectionCounter c s\<rparr>))
       else
         bindE (VDMA_GetIndex dma (m_vd r)) (\<lambda>i.
         bindE (VDMA_GetCounter dma (m_vd r)) (\<lambda>c.
         bindE (VDMA_GetAddress dma (m_vd r)) (\<lambda>a.
         Inr (False, d\<lparr>d_SB_Bytes := word_of_int (SBEMU_GetSampleBytes (m_sb r)), d_SB_Pos := word_of_int (SBEMU_GetPos (m_sb r)),
           d_SB_Rate := word_of_int (SBEMU_GetSampleRate (m_sb r)), d_DMA_Index := i, d_DMA_Count := sint c, d_DMA_Addr := a\<rparr>,
           q, r))))))"

text \<open>One round; the first component says whether there is another.\<close>

definition digital_step :: "'h main_env \<Rightarrow> int \<Rightarrow> int \<Rightarrow> int \<Rightarrow> int \<Rightarrow> digital \<Rightarrow> 'h world \<Rightarrow> (bool \<times> digital \<times> 'h world) res" where
  "digital_step env dma samples samplesize channels d = (\<lambda>(q, r).
    let r = MAIN_map_dma (e_mem env) d r in
    bindE (MAIN_block env samples samplesize channels d r) (\<lambda>(count, bytes, r).
    bindE (VDMA_SetIndexCounter dma (d_DMA_Index d + bytes) (d_DMA_Count d - bytes) (m_vd r)) (\<lambda>(index, vd).
    bindE (VDMA_GetCounter dma vd) (\<lambda>c.
    let (p, s) = SBEMU_SetPos (sint (d_SB_Pos d + word_of_int bytes)) (m_sb r);
        d = d\<lparr>d_pos := d_pos d + count, d_DMA_Index := index, d_DMA_Count := sint c, d_SB_Pos := word_of_int p\<rparr>;
        r = r\<lparr>m_vd := vd, m_sb := s\<rparr>
    in bindE (if d_SB_Bytes d \<le> d_SB_Pos d then MAIN_block_end env dma d (q, r) else Inr (False, d, q, r)) (\<lambda>(left, d, q, r).
       bindE (VDMA_GetAuto dma (m_vd r)) (\<lambda>auto.
       Inr (\<not> left \<and> auto \<and> d_pos d < samples \<and> SBEMU_HasStarted (m_sb r), d, q, r)))))))"

partial_function (option) digital_loop :: "'h main_env \<Rightarrow> int \<Rightarrow> int \<Rightarrow> int \<Rightarrow> int \<Rightarrow> digital \<Rightarrow> 'h world \<Rightarrow> (int \<times> 'h world) res option" where
  "digital_loop env dma samples samplesize channels d w = (case digital_step env dma samples samplesize channels d w of
      Inl e \<Rightarrow> Some (Inl e)
    | Inr (again, d, w) \<Rightarrow> if again then digital_loop env dma samples samplesize channels d w else Some (Inr (d_pos d, w)))"

text \<open>At most \<open>n\<close> rounds of it: the bound on the loop is stated with this one.\<close>

fun digital_rounds :: "'h main_env \<Rightarrow> int \<Rightarrow> int \<Rightarrow> int \<Rightarrow> int \<Rightarrow> nat \<Rightarrow> digital \<Rightarrow> 'h world \<Rightarrow> (int \<times> 'h world) res option" where
  "digital_rounds env dma samples samplesize channels 0 d w = None"
| "digital_rounds env dma samples samplesize channels (Suc n) d w = (case digital_step env dma samples samplesize channels d w of
      Inl e \<Rightarrow> Some (Inl e)
    | Inr (again, d, w) \<Rightarrow> if again then digital_rounds env dma samples samplesize channels n d w else Some (Inr (d_pos d, w)))"

definition MAIN_digital :: "'h main_env \<Rightarrow> int \<Rightarrow> int \<Rightarrow> u32 \<Rightarrow> 'h world \<Rightarrow> (int \<times> 'h world) res option" where
  "MAIN_digital env dma samples dma_count = (\<lambda>(q, r).
    let s = m_sb r; rate = word_of_int (SBEMU_GetSampleRate s);
        r = (if word_of_int (MAIN_LastSBRate r) \<noteq> rate
             then r\<lparr>MAIN_LastResample := (\<lambda>i. if 0 \<le> i \<and> i < SBEMU_CHANNELS then 0 else MAIN_LastResample r i), MAIN_LastSBRate := sint rate\<rparr>
             else r)
    in case (VDMA_GetAddress dma (m_vd r), VDMA_GetIndex dma (m_vd r)) of
      (Inr a, Inr i) \<Rightarrow> digital_loop env dma samples (max 1 (cdiv (SBEMU_GetBits s) 8)) (SBEMU_GetChannels s)
        \<lparr>d_pos = 0, d_DMA_Addr = a, d_DMA_Index = i, d_DMA_Count = sint dma_count,
          d_SB_Bytes = word_of_int (SBEMU_GetSampleBytes s), d_SB_Pos = word_of_int (SBEMU_GetPos s), d_SB_Rate = rate\<rparr> (q, r)
    | (Inl e, _) \<Rightarrow> Some (Inl e)
    | (_, Inl e) \<Rightarrow> Some (Inl e))"

text \<open>Samples written to the DSP one at a time, at the rate they arrived with.\<close>

definition MAIN_direct :: "'h main \<Rightarrow> (int \<times> 'h main) res" where
  "MAIN_direct r =
    (let n = SBEMU_GetDirectCount (m_sb r); freq = freq_card (m_aui r) in
     bindE (guardE Out_of_bounds (n \<le> SBEMU_DIRECT_BUFFER_SIZE)) (\<lambda>_.
     bindE (in_buffer 0 (2 * n)) (\<lambda>_.
     let m = cv_bits_n_to_m (word_of_int n) 1 2 (fill_bytes 0 n (SBEMU_GetDirectPCM8 (m_sb r)) (MAIN_PCMResample r));
         r = r\<lparr>m_sb := SBEMU_ResetDirect (m_sb r), MAIN_PCMResample := m\<rparr>
     in bindE (udiv (word_of_int n * freq) (word_of_int (card_samples_per_int (m_aui r)))) (\<lambda>rate.
        bindE (mixer_speed_lq MAIN_PCM_SAMPLESIZE MAIN_PCM_SAMPLESIZE (get16 m) n 1 (uint rate) (uint freq)) (\<lambda>out.
        bindE (in_buffer 0 (4 * int (length out))) (\<lambda>_.
        Inr (int (length out), r\<lparr>MAIN_PCM := snd (cv_channels_1_to_n (word_of_int (int (length out))) 2 2
          (store_samples 0 out (MAIN_PCM r)))\<rparr>)))))))"

text \<open>The output muted when neither digital sound nor FM is on.\<close>

definition MAIN_silence :: "int \<Rightarrow> 'h main \<Rightarrow> 'h main res" where
  "MAIN_silence samples r = bindE (in_buffer 0 (4 * samples)) (\<lambda>_.
    Inr (r\<lparr>MAIN_PCM := fill_bytes 0 (4 * samples) (\<lambda>_. 0) (MAIN_PCM r)\<rparr>))"

definition MAIN_sound :: "'h main_env \<Rightarrow> int \<Rightarrow> 'h world \<Rightarrow> ((int \<times> bool) \<times> 'h world) res option" where
  "MAIN_sound env samples = (\<lambda>(q, r).
    let s = m_sb r in
    case bindE (if SBEMU_GetBits s \<le> 8 \<or> opt_value (m_options r) OPT_TYPE < 6 then SBEMU_GetDMA s else SBEMU_GetHDMA s) (\<lambda>dma.
         bindE (VDMA_GetCounter (uint dma) (m_vd r)) (\<lambda>c. Inr (uint dma, c))) of
      Inl e \<Rightarrow> Some (Inl e)
    | Inr (dma, c) \<Rightarrow>
       if SBEMU_HasStarted s then
         map_option (\<lambda>x. bindE x (\<lambda>(pos, w). Inr ((min samples pos, True), w))) (MAIN_digital env dma samples c (q, r))
       else (let r = r\<lparr>MAIN_LastSBRate := 0\<rparr> in
         Some (if 3 \<le> SBEMU_GetDirectCount s then bindE (MAIN_direct r) (\<lambda>(n, r). Inr ((n, True), q, r))
           else if opt_value (m_options r) OPT_OPL = 0 then bindE (MAIN_silence samples r) (\<lambda>r. Inr ((samples, False), q, r))
           else Inr ((samples, False), q, r))))"

section \<open>The interrupt\<close>

text \<open>An audio call on the state of the main card.\<close>

definition with_au :: "('h au \<Rightarrow> ('a \<times> 'h au) res) \<Rightarrow> 'h main \<Rightarrow> ('a \<times> 'h main) res" where
  "with_au f r = bindE (f (m_aui r, m_glb r)) (\<lambda>(x, a, g). Inr (x, r\<lparr>m_aui := a, m_glb := g\<rparr>))"

definition MAIN_cd_volume :: "'h main_env \<Rightarrow> int \<Rightarrow> 'h main \<Rightarrow> 'h main res" where
  "MAIN_cd_volume env cdvol r = (if cdvol = last_cdvol r then Inr r
    else bindE (with_au (\<lambda>s. bindE (AU_setmixer_one (e_card env) AU_MIXCHAN_CDIN MIXER_SETMODE_ABSOLUTE cdvol s) (\<lambda>s. Inr ((), s))) r)
      (\<lambda>(_, r). Inr (r\<lparr>last_cdvol := cdvol\<rparr>)))"

definition pcm_bytes :: "buf \<Rightarrow> u8 list" where "pcm_bytes m = map (\<lambda>i. m (int i)) [0..<32768]"

text \<open>Everything before the sound: the interrupt the guest triggered itself, the volumes and the room in the card's
  buffer. The result is the volumes and the room in frames.\<close>

definition MAIN_prepare :: "'h main_env \<Rightarrow> 'h world \<Rightarrow> (((int \<times> int \<times> int) \<times> int) \<times> 'h world) res" where
  "MAIN_prepare env w =
    bindE (if SBEMU_IRQTriggered (m_sb (snd w)) \<noteq> 0 then
        bindE (MAIN_InvokeSBIRQ env w) (\<lambda>(q, r). Inr (q, r\<lparr>m_sb := SBEMU_SetIRQTriggered 0 (m_sb r)\<rparr>))
      else Inr w) (\<lambda>(q, r).
    let (vol, voicevol, midivol, cdvol) = MAIN_volumes (opt_value (m_options r) OPT_TYPE) (m_sb r) in
    bindE (MAIN_cd_volume env cdvol r) (\<lambda>r.
    bindE (with_au (AU_cardbuf_space (e_card env)) (r\<lparr>m_aui := m_aui r\<lparr>card_outbytes := card_dmasize (m_aui r)\<rparr>\<rparr>)) (\<lambda>(space, r).
    Inr (((vol, voicevol, midivol), uint (space div 2 div 2)), q, r))))"

definition MAIN_finish :: "'h main_env \<Rightarrow> int \<times> int \<times> int \<Rightarrow> int \<Rightarrow> bool \<Rightarrow> 'h world \<Rightarrow> 'h world res option" where
  "MAIN_finish env vols samples digital = (\<lambda>(q, r).
    if opt_value (m_options r) OPT_OPL \<noteq> 0 \<and> \<not> m_OPL3EMU_Chip r then Some (Inl Null_pointer)
    else case MAIN_mix (e_chip env) (opt_value (m_options r) OPT_OPL \<noteq> 0) digital samples vols (MAIN_PCM r) (MAIN_OPLPCM r) (hw r) of
      Inl e \<Rightarrow> Some (Inl e)
    | Inr (pcm, oplpcm, h) \<Rightarrow>
       (let r = set_hw h (r\<lparr>MAIN_PCM := pcm, MAIN_OPLPCM := oplpcm\<rparr>);
            a = m_aui r\<lparr>samplenum := word_of_int (samples * 2), pcm_sample := pcm_bytes pcm\<rparr>
        in map_option (\<lambda>x. bindE x (\<lambda>(_, a, g). Inr (q, r\<lparr>m_aui := a, m_glb := g\<rparr>)))
             (AU_writedata (AU_ini_interrupts intsoundconfig (e_card env)) (a, m_glb r))))"

definition MAIN_Interrupt :: "'h main_env \<Rightarrow> 'h world \<Rightarrow> 'h world res option" where
  "MAIN_Interrupt env w =
    (if \<not> funcbit_test (card_infobits (m_aui (snd w))) AUINFOS_CARDINFOBIT_PLAYING then Some (Inr w)
     else case MAIN_prepare env w of
       Inl e \<Rightarrow> Some (Inl e)
     | Inr ((vols, samples), w) \<Rightarrow>
        if samples = 0 then Some (Inr w)
        else (case MAIN_sound env samples w of
            None \<Rightarrow> None
          | Some (Inl e) \<Rightarrow> Some (Inl e)
          | Some (Inr ((samples, digital), w)) \<Rightarrow> MAIN_finish env vols samples digital w))"

section \<open>The handlers\<close>

definition with_pic :: "('h \<Rightarrow> 'h res) \<Rightarrow> 'h world \<Rightarrow> 'h world res" where
  "with_pic f = (\<lambda>(q, r). bindE (f (hw r)) (\<lambda>h. Inr (q, set_hw h r)))"

definition card_interrupted :: "'h main_env \<Rightarrow> 'h world \<Rightarrow> (bool \<times> 'h world) res" where
  "card_interrupted env = (\<lambda>(q, r). bindE (Aucards.deref (e_card env)) (\<lambda>c. case irq_routine c of
      None \<Rightarrow> Inr (False, q, r)
    | Some f \<Rightarrow> bindE (with_au f r) (\<lambda>(mine, r). Inr (mine, q, r))))"

text \<open>The interrupt belongs to the card: the sound is served and the controller told. Otherwise it is passed on and unmasked.\<close>

definition MAIN_serve :: "'h main_env \<Rightarrow> ('h main \<Rightarrow> 'h main) \<Rightarrow> ('h main \<Rightarrow> 'h main) \<Rightarrow> 'h world \<Rightarrow> 'h world res option" where
  "MAIN_serve env context pass_on w =
    (case card_interrupted env w of
      Inl e \<Rightarrow> Some (Inl e)
    | Inr (mine, q, r) \<Rightarrow>
       (let irq = card_irq (m_aui r) in
        if mine then map_option (\<lambda>x. bindE x (\<lambda>w. with_pic (PIC_SendEOIWithIRQ (e_io env) (card_irq (m_aui (snd w)))) w))
            (MAIN_Interrupt env (q, context r))
        else Some (with_pic (PIC_UnmaskIRQ (e_io env) irq) (q, pass_on r))))"

definition MAIN_enter :: "'h main_env \<Rightarrow> u8 \<Rightarrow> ('h world \<Rightarrow> 'h world res option) \<Rightarrow> 'h world \<Rightarrow> 'h world res option" where
  "MAIN_enter env flag serve = (\<lambda>(q, r).
    case PIC_GetIRQ (e_io env) (hw r) of
      Inl e \<Rightarrow> Some (Inl e)
    | Inr (irq, h) \<Rightarrow>
       (let r = set_hw h r in
        if irq \<noteq> card_irq (m_aui r) then Some (Inr (q, r))
        else map_option (\<lambda>x. bindE x (\<lambda>(q, r). Inr (q, r\<lparr>MAIN_InINT := MAIN_InINT r AND NOT flag\<rparr>)))
          (serve (q, r\<lparr>MAIN_InINT := MAIN_InINT r OR flag\<rparr>))))"

definition MAIN_InterruptPM :: "'h main_env \<Rightarrow> 'h world \<Rightarrow> 'h world res option" where
  "MAIN_InterruptPM env = MAIN_enter env 0x01 (\<lambda>(q, r).
    let ((regs, fl), h) = e_context env (hw r);
        r = (set_hw h r)\<lparr>int_regs := regs, int_eflags := fl\<rparr>
    in MAIN_serve env id (\<lambda>r. on_hw (e_old_isr env (int_eflags r AND CPU_VMFLAG \<noteq> 0)) r) (q, r))"

text \<open>The real-mode handler takes the registers of its own block.\<close>

definition MAIN_InterruptRM :: "'h main_env \<Rightarrow> DPMI_REG \<Rightarrow> 'h world \<Rightarrow> 'h world res option" where
  "MAIN_InterruptRM env regs = MAIN_enter env 0x02 (MAIN_serve env
    (\<lambda>r. r\<lparr>int_regs := regs, int_eflags := ucast (r_flags regs) OR CPU_VMFLAG\<rparr>) (on_hw (e_old_isr env True)))"

section \<open>Every interrupt ends\<close>

text \<open>The guest's handler reaches the Sound Blaster through its ports, whose handlers keep it well-formed.\<close>

definition guest_keeps_wf :: "'h main guest_calls \<Rightarrow> bool" where
  "guest_keeps_wf g = (\<forall>v regs q r. sbemu_wf (m_sb r) \<longrightarrow>
     sbemu_wf (m_sb (snd (CallRealModeINT g v regs (q, r)))) \<and> sbemu_wf (m_sb (snd (CallProtectedModeINT g v regs (q, r)))))"

lemma on_hw_sb [simp]: "m_sb (on_hw f r) = m_sb r" "m_vd (on_hw f r) = m_vd r"
  by (simp_all add: on_hw_def)

lemma lift_io_sb [simp]:
  "m_sb (UntrappedIO_OUT (lift_io io) p v r) = m_sb r" "m_sb (snd (UntrappedIO_IN (lift_io io) p r)) = m_sb r"
  by (simp_all add: UntrappedIO_OUT_def UntrappedIO_IN_def lift_io_def split_beta)

lemma PIC_mask_sb [simp]:
  "m_sb (PIC_SetIRQMask (lift_io io) v r) = m_sb r" "m_sb (snd (PIC_GetIRQMask (lift_io io) r)) = m_sb r"
  by (simp_all add: PIC_SetIRQMask_def PIC_GetIRQMask_def Let_def split_beta)

lemma run_guest_wf:
  assumes "guest_keeps_wf g" "sbemu_wf (m_sb r)"
  shows "sbemu_wf (m_sb (snd (VIRQ_run_guest g irq regs VM (q, r))))"
  using assms by (simp add: VIRQ_run_guest_def guest_keeps_wf_def)

lemma VIRQ_Invoke_wf:
  assumes "guest_keeps_wf g" "sbemu_wf (m_sb r)" "VIRQ_Invoke (lift_io io) g irq regs VM (q, r) = Inr (q2, r2)"
  shows "sbemu_wf (m_sb r2)"
proof -
  let ?r1 = "PIC_SetIRQMask (lift_io io) 0xFFFF (snd (PIC_GetIRQMask (lift_io io) r))"
  have "sbemu_wf (m_sb ?r1)" using assms(2) by simp
  from run_guest_wf [OF assms(1) this] show ?thesis
    using assms(3) by (auto simp: VIRQ_Invoke_def Let_def split_beta)
qed

lemma MAIN_InvokeIRQ_wf:
  assumes "guest_keeps_wf (e_guest env)" "sbemu_wf (m_sb r)" "MAIN_InvokeIRQ env irq (q, r) = Inr (q2, r2)"
  shows "sbemu_wf (m_sb r2)"
  using assms(3) unfolding MAIN_InvokeIRQ_def Let_def prod.case bindE_eq_Inr
  by (auto simp: assms(2) dest!: VIRQ_Invoke_wf [OF assms(1), rotated])

lemma MAIN_InvokeSBIRQ_wf:
  "guest_keeps_wf (e_guest env) \<Longrightarrow> sbemu_wf (m_sb r) \<Longrightarrow> MAIN_InvokeSBIRQ env (q, r) = Inr (q2, r2) \<Longrightarrow> sbemu_wf (m_sb r2)"
  by (auto simp: MAIN_InvokeSBIRQ_def dest: MAIN_InvokeIRQ_wf)

lemma lq_loop_length:
  "lq_loop d z src ch instep inend p out = Inr out' \<Longrightarrow> length out + nat ch \<le> length out'"
proof (induction d z src ch instep inend p out rule: lq_loop.induct)
  case (1 d z src ch instep inend p out)
  then obtain out1 where f: "lq_frame d z src p ch (nat ch) out = Inr out1" "\<not> ch \<le> 0"
    by (subst (asm) lq_loop.simps) (auto split: if_splits sum.splits)
  let ?p = "w32 (p + instep)"
  have len: "length out1 = length out + nat ch" by (rule lq_frame_length [OF f(1)])
  have "out' = out1 \<or> \<not> d \<le> int (length out1) \<and> ?p < inend \<and> lq_loop d z src ch instep inend ?p out1 = Inr out'"
    using 1(2) f by (subst (asm) lq_loop.simps) (simp add: Let_def split: if_splits)
  then show ?case using len 1(1) [OF f(2, 1) refl] by auto
qed

lemma mixer_speed_lq_length:
  "mixer_speed_lq d z src n ch sr nr = Inr out \<Longrightarrow> n \<noteq> 0 \<Longrightarrow> nat ch \<le> length out"
  by (auto simp: mixer_speed_lq_def Let_def simp del: lq_loop.simps split: if_splits dest: lq_loop_length)


lemma sint_u32: "sint (w :: u32) = 0 \<longleftrightarrow> w = 0" "- 2147483648 \<le> sint w" "sint w < 2147483648"
  using sint_range_size [of w] by (simp_all add: word_size signed_eq_0_iff)

lemma word_of_int_u32_0:
  assumes "- 2147483648 \<le> n" "n < 2147483648"
  shows "(word_of_int n :: u32) = 0 \<longleftrightarrow> n = 0"
  using sint_u32(1) [of "word_of_int n"] sint_of_int_u32 [of n] assms by simp

lemma max_word_0: "max a b = (0 :: u32) \<longleftrightarrow> a = 0 \<and> b = 0"
  by (auto simp: max_def)

lemma min_word_0: "min a b = (0 :: u32) \<longleftrightarrow> a = 0 \<or> b = 0"
  by (auto simp: min_def)

lemma udiv_nonzero:
  assumes "0 < n" "n \<le> 65535" "uint rate \<le> 65535" "freq \<le> rate" "udiv (word_of_int n * rate) freq = Inr u"
  shows "u \<noteq> 0"
proof -
  have p: "n * uint rate \<le> 65535 * 65535" "0 \<le> n * uint rate" using assms by (intro mult_mono, simp_all)
  have f: "freq \<noteq> 0" "u = word_of_int n * rate div freq" using assms(5) by (simp_all add: udiv_def split: if_splits)
  have "uint (word_of_int n * rate :: u32) = n * uint rate"
    using p assms by (simp add: uint_word_ariths uint_word_of_int)
  then have "uint u = n * uint rate div uint freq" using f by (simp add: uint_div_distrib)
  moreover have "uint freq \<le> n * uint rate"
  proof -
    have "uint freq \<le> uint rate" using assms(4) by (simp add: word_le_def)
    also have "\<dots> \<le> n * uint rate" using assms(1) mult_right_mono [of 1 n "uint rate"] by simp
    finally show ?thesis .
  qed
  moreover have "0 < uint freq" using f(1) uint_ge_0 [of freq] by (simp add: order_less_le unsigned_eq_0_iff)
  ultimately have "0 < uint u" by (simp add: pos_imp_zdiv_pos_iff)
  then show ?thesis by auto
qed

lemma rate_above:
  fixes freq rate :: u32
  assumes "uint rate \<le> 65535" "freq + 50 < rate" "\<not> rate < freq - 50"
  shows "freq \<le> rate"
proof (cases "uint freq + 50 < 4294967296")
  case True
  then have "uint (freq + 50) = uint freq + 50" by (simp add: uint_word_ariths)
  then show ?thesis using assms(2) by (simp add: word_less_def word_le_def)
next
  case False
  have "0 \<le> uint freq" "uint freq < 4294967296" using uint_bounded [of freq] by simp_all
  then have "uint (freq - 50) = uint freq - 50" using False by (simp add: uint_word_ariths)
  then show ?thesis using False assms(1, 3) by (simp add: word_less_def)
qed

lemma rate_count_nonzero:
  assumes "0 < n" "n \<le> 65535" "uint rate \<le> 65535" "rate_count freq rate n = Inr (c, b)"
  shows "c \<noteq> 0" "- 2147483648 \<le> c" "c < 2147483648"
proof -
  have m: "(word_of_int (min 2 n) :: u32) \<noteq> 0" using assms(1) by (subst word_of_int_u32_0) auto
  have "c \<noteq> 0 \<and> - 2147483648 \<le> c \<and> c < 2147483648"
  proof (cases "rate < freq - 50")
    case True
    then show ?thesis using assms m sint_u32 by (auto simp: rate_count_def max_word_0)
  next
    case False
    show ?thesis
    proof (cases "freq + 50 < rate")
      case True
      then show ?thesis using assms False sint_u32 udiv_nonzero [OF assms(1-3) rate_above [OF assms(3) True False]]
        by (auto simp: rate_count_def)
    next
      case f2: False
      then show ?thesis using assms False by (auto simp: rate_count_def)
    qed
  qed
  then show "c \<noteq> 0" "- 2147483648 \<le> c" "c < 2147483648" by auto
qed

lemma block_count_nonzero:
  assumes "n \<noteq> 0" "- 2147483648 \<le> n" "n < 2147483648" "block_count bits ss ch d n = Inr c"
  shows "c \<noteq> 0"
proof (cases "bits < 8")
  case True
  then show ?thesis using assms(4) by (auto simp: block_count_def Let_def split: if_splits)
next
  case False
  define k u where "k = max 1 (cdiv (cdiv (d_DMA_Count d) ss) ch)"
    and "u = max 1 ((d_SB_Bytes d - d_SB_Pos d) div word_of_int ss div word_of_int ch)"
  have k: "1 \<le> k" and u: "u \<noteq> 0" by (simp_all add: k_def u_def max_word_0)
  have "min n k \<noteq> 0" "- 2147483648 \<le> min n k" "min n k < 2147483648" using assms(1-3) k by auto
  then have "(word_of_int (min n k) :: u32) \<noteq> 0" by (simp add: word_of_int_u32_0)
  then have "sint (min (word_of_int (min n k)) u) \<noteq> 0" using u by (simp add: sint_u32(1) min_word_0)
  then show ?thesis using False assms(4) by (simp add: block_count_def k_def u_def)
qed


lemma in_buffer_Inr [simp]: "in_buffer off n = Inr u \<longleftrightarrow> 0 \<le> off \<and> 0 \<le> n \<and> off + n \<le> 32768"
  by (simp add: in_buffer_def MAIN_PCM_SAMPLESIZE_def guardE_eq_Inr)

lemma DecodeADPCM_length:
  assumes "sbemu_wf s" "SBEMU_Bits s < 8" "2 \<le> length adpcm" "SBEMU_DecodeADPCM adpcm s = Inr (pcm, s2)"
  shows "pcm \<noteq> []" "sbemu_wf s2"
proof -
  have ne: "adpcm \<noteq> []" using assms(3) by auto
  obtain p t where r: "SBEMU_DecodeADPCM adpcm s = Inr (p, t)" "sbemu_wf t"
    "length p = (length adpcm - (if adpcm_useRef (SBEMU_ADPCM s) then 1 else 0)) * adpcm_per_byte (SBEMU_Bits s)"
    using DecodeADPCM_result [OF assms(1), of adpcm] ne by auto
  have "0 < adpcm_per_byte (SBEMU_Bits s)" using assms(1, 2) by (auto simp: sbemu_wf_defs adpcm_per_byte_def)
  moreover have "0 < length adpcm - (if adpcm_useRef (SBEMU_ADPCM s) then 1 else 0)" using assms(3) by auto
  ultimately have "0 < length p" unfolding r(3) by simp
  then show "pcm \<noteq> []" "sbemu_wf s2" using r assms(4) by auto
qed

lemma DecodeADPCM_Inr_wf: "sbemu_wf s \<Longrightarrow> SBEMU_DecodeADPCM adpcm s = Inr (pcm, s2) \<Longrightarrow> sbemu_wf s2"
  using DecodeADPCM_wf [of s adpcm] by simp

lemma decode_block_result:
  assumes "decode_block data off bytes n m s = Inr (n2, m2, s2)" and wf: "sbemu_wf s"
  shows "sbemu_wf s2" "0 \<le> bytes" "0 < n \<Longrightarrow> 2 \<le> bytes \<Longrightarrow> 0 < n2"
proof -
  let ?in = "map (\<lambda>j. fill_bytes off bytes data m (off + int j)) [0..<nat bytes]"
  show "sbemu_wf s2" "0 \<le> bytes"
    using assms by (auto simp: decode_block_def Let_def bindE_eq_Inr split: if_splits dest: DecodeADPCM_Inr_wf)
  assume "0 < n" "2 \<le> bytes"
  then have "2 \<le> length ?in" by simp
  then show "0 < n2" using assms \<open>0 < n\<close> DecodeADPCM_length(1) [OF wf, of ?in]
    by (auto simp: decode_block_def Let_def bindE_eq_Inr SBEMU_GetBits_def split: if_splits)
qed

lemma load_block_result:
  assumes "load_block data off bytes n ss ch m s = Inr (n2, m2, s2)" and wf: "sbemu_wf s"
    and n: "n \<noteq> 0" "bytes = n * ss * ch" and c: "1 \<le> ss" "1 \<le> ch"
  shows "0 < n2" "sbemu_wf s2" "0 \<le> bytes"
proof -
  obtain m1 where d: "decode_block data off bytes n m s = Inr (n2, m1, s2)" and w: "widen_block off (n2 * ch) ss m1 = Inr m2"
    using assms(1) by (auto simp: load_block_def bindE_eq_Inr)
  show "sbemu_wf s2" "0 \<le> bytes" using decode_block_result [OF d wf] by simp_all
  have "0 < ss * ch" using c by simp
  then have n0: "0 < n" using \<open>0 \<le> bytes\<close> n zero_le_mult_iff [of n "ss * ch"] by (simp add: mult.assoc)
  show "0 < n2"
  proof (cases "ss = 2")
    case False
    then show ?thesis using w c by (auto simp: widen_block_def bindE_eq_Inr guardE_eq_Inr zero_less_mult_iff)
  next
    case True
    have "1 * 2 * 1 \<le> n * ss * ch" using n0 True c by (intro mult_mono) simp_all
    then show ?thesis using decode_block_result(3) [OF d wf n0] n(2) by simp
  qed
qed

lemma resample_block_result:
  assumes "resample_block pos n ch rate freq r = Inr (n2, r2)" "0 < n" "1 \<le> ch"
  shows "0 < n2" "m_sb r2 = m_sb r" "m_vd r2 = m_vd r" "m_options r2 = m_options r"
proof -
  obtain out m where o: "mixer_speed_lq (w32 (MAIN_PCM_SAMPLESIZE - pos * 2)) MAIN_PCM_SAMPLESIZE m (n * ch) ch (uint rate) (uint freq) = Inr out"
      "n2 = int (length out) div ch" "m_sb r2 = m_sb r" "m_vd r2 = m_vd r" "m_options r2 = m_options r"
    using assms(1) by (auto simp: resample_block_def Let_def bindE_eq_Inr)
  have "n * ch \<noteq> 0" using assms(2, 3) by simp
  then have "nat ch \<le> length out" using mixer_speed_lq_length [OF o(1)] by simp
  then show "0 < n2" using o(2) assms(3) by (simp add: pos_imp_zdiv_pos_iff)
qed (use assms(1) in \<open>auto simp: resample_block_def Let_def bindE_eq_Inr\<close>)

lemma stereo_block_keeps: "stereo_block pos n ch r = Inr r2 \<Longrightarrow> m_sb r2 = m_sb r \<and> m_vd r2 = m_vd r"
  by (auto simp: stereo_block_def bindE_eq_Inr split: if_splits)

lemma convert_block_result:
  assumes "convert_block env resample bytes n ss ch d r = Inr (n2, r2)" and wf: "sbemu_wf (m_sb r)"
    and n: "n \<noteq> 0" "bytes = n * ss * ch" and c: "1 \<le> ss" "1 \<le> ch"
  shows "0 < n2" "sbemu_wf (m_sb r2)"
proof -
  let ?off = "if resample then 2 * ch else 4 * d_pos d" and ?m = "if resample then MAIN_PCMResample r else MAIN_PCM r"
  obtain n1 m s r1 where l: "load_block (dma_bytes env d r) ?off bytes n ss ch ?m (m_sb r) = Inr (n1, m, s)"
    and x: "(if resample then resample_block (d_pos d) n1 ch (d_SB_Rate d) (freq_card (m_aui (r\<lparr>m_sb := s\<rparr>))) (r\<lparr>m_sb := s, MAIN_PCMResample := m\<rparr>)
       else Inr (n1, r\<lparr>m_sb := s, MAIN_PCM := m\<rparr>)) = Inr (n2, r1)" and st: "stereo_block (d_pos d) n2 ch r1 = Inr r2"
    using assms(1) unfolding convert_block_def Let_def by (auto simp: bindE_eq_Inr)
  note lr = load_block_result [OF l wf n c]
  have "0 < n2 \<and> m_sb r1 = s" using x lr(1) resample_block_result [OF _ lr(1) c(2)] by (fastforce split: if_splits)
  then show "0 < n2" "sbemu_wf (m_sb r2)" using lr(2) stereo_block_keeps [OF st] by simp_all
qed

lemma MAIN_block_result:
  assumes "MAIN_block env samples ss ch d r = Inr (n, bytes, r2)" and wf: "sbemu_wf (m_sb r)"
    and p: "d_pos d < samples" "0 \<le> d_pos d" "samples \<le> 65535" "uint (d_SB_Rate d) \<le> 65535" and c: "1 \<le> ss" "1 \<le> ch"
  shows "0 < n" "sbemu_wf (m_sb r2)"
proof -
  obtain n1 resample n2 where r: "rate_count (freq_card (m_aui r)) (d_SB_Rate d) (samples - d_pos d) = Inr (n1, resample)"
    and b: "block_count (SBEMU_GetBits (m_sb r)) ss ch d n1 = Inr n2" "i32 (n2 * ss * ch) = Inr bytes"
    and cv: "convert_block env resample bytes n2 ss ch d r = Inr (n, r2)"
    using assms(1) unfolding MAIN_block_def by (auto simp: bindE_eq_Inr)
  have "n1 \<noteq> 0" "- 2147483648 \<le> n1" "n1 < 2147483648"
    using rate_count_nonzero [OF _ _ p(4) r] p by simp_all
  then have "n2 \<noteq> 0" by (rule block_count_nonzero [OF _ _ _ b(1)])
  moreover have "bytes = n2 * ss * ch" using b(2) by (simp add: i32_def split: if_splits)
  ultimately show "0 < n" "sbemu_wf (m_sb r2)" using convert_block_result [OF cv wf _ _ c] by simp_all
qed


lemma MAIN_map_dma_sb [simp]: "m_sb (MAIN_map_dma dm d r) = m_sb r"
  by (simp add: MAIN_map_dma_def Let_def split_beta set_hw_def)

lemma stop_pos_wf [simp]: "sbemu_wf (SBEMU_Stop s) = sbemu_wf s" "sbemu_wf (snd (SBEMU_SetPos p s)) = sbemu_wf s"
    "sbemu_wf (SBEMU_SetDetectionCounter c s) = sbemu_wf s"
  by (simp_all add: SBEMU_Stop_def SBEMU_SetPos_def SBEMU_SetDetectionCounter_def Let_def)

lemma sample_rate_u32: "sbemu_wf s \<Longrightarrow> uint (word_of_int (SBEMU_GetSampleRate s) :: u32) \<le> 65535"
  by (simp add: sbemu_wf_defs SBEMU_GetSampleRate_def uint_word_of_int)

text \<open>What the end of a block does: the interrupt, then the decision and the new values of the loop's variables.\<close>

lemma MAIN_block_end_cases:
  assumes "MAIN_block_end env dma d (q, r) = Inr (left, d2, q2, r2)"
  obtains q1 r1 s where "MAIN_InvokeSBIRQ env (q, r\<lparr>m_sb := s\<rparr>) = Inr (q1, r1)" "sbemu_wf s = sbemu_wf (m_sb r)"
    "sbemu_wf (m_sb r2) = sbemu_wf (m_sb r1)" "d_pos d2 = d_pos d"
    "d_SB_Rate d2 = d_SB_Rate d \<or> d_SB_Rate d2 = word_of_int (SBEMU_GetSampleRate (m_sb r1))"
proof -
  let ?s = "snd (SBEMU_SetPos 0 (if \<not> SBEMU_GetAuto (m_sb r) then SBEMU_Stop (m_sb r) else m_sb r))"
  have w: "sbemu_wf ?s = sbemu_wf (m_sb r)" by simp
  obtain w1 where "MAIN_InvokeSBIRQ env (q, r\<lparr>m_sb := ?s\<rparr>) = Inr w1"
    using assms unfolding MAIN_block_end_def Let_def prod.case split_beta fst_conv snd_conv
    by (cases "MAIN_InvokeSBIRQ env (q, r\<lparr>m_sb := ?s\<rparr>)") simp_all
  then obtain q1 r1 where i: "MAIN_InvokeSBIRQ env (q, r\<lparr>m_sb := ?s\<rparr>) = Inr (q1, r1)" by (cases w1) simp
  show thesis
  proof (rule that [OF i w])
    note x = assms [unfolded MAIN_block_end_def Let_def prod.case split_beta fst_conv snd_conv i bindE_simps]
    have y: "if d_SB_Bytes d \<le> 32 then sbemu_wf (m_sb r2) = sbemu_wf (m_sb r1) \<and> d2 = d
      else m_sb r2 = m_sb r1 \<and> d_pos d2 = d_pos d \<and> d_SB_Rate d2 = word_of_int (SBEMU_GetSampleRate (m_sb r1))"
    proof (cases "d_SB_Bytes d \<le> 32")
      case True then show ?thesis using x by (auto split: if_splits)
    next
      case False then show ?thesis using x by (auto simp: bindE_eq_Inr)
    qed
    then show "sbemu_wf (m_sb r2) = sbemu_wf (m_sb r1)" "d_pos d2 = d_pos d"
      "d_SB_Rate d2 = d_SB_Rate d \<or> d_SB_Rate d2 = word_of_int (SBEMU_GetSampleRate (m_sb r1))"
      by (simp_all split: if_splits)
  qed
qed


text \<open>Where a round can start: the card is well-formed, the output is not complete and the rate is one a card can have.\<close>

definition round_ok :: "int \<Rightarrow> digital \<Rightarrow> sbemu \<Rightarrow> bool" where
  "round_ok samples d s = (sbemu_wf s \<and> 0 \<le> d_pos d \<and> d_pos d < samples \<and> uint (d_SB_Rate d) \<le> 65535)"

lemma digital_step_next:
  assumes "digital_step env dma samples ss ch d (q, r) = Inr (again, d2, q2, r2)" and g: "guest_keeps_wf (e_guest env)"
    and wf: "sbemu_wf (m_sb r)" and p: "d_pos d < samples" "0 \<le> d_pos d" "samples \<le> 65535" "uint (d_SB_Rate d) \<le> 65535"
    and c: "1 \<le> ss" "1 \<le> ch"
  shows "d_pos d < d_pos d2 \<and> sbemu_wf (m_sb r2) \<and> (again \<longrightarrow> round_ok samples d2 (m_sb r2))"
proof -
  obtain n bytes r1 where b: "MAIN_block env samples ss ch d (MAIN_map_dma (e_mem env) d r) = Inr (n, bytes, r1)"
    using assms(1) unfolding digital_step_def Let_def prod.case
    by (cases "MAIN_block env samples ss ch d (MAIN_map_dma (e_mem env) d r)") auto
  obtain i vd where v: "VDMA_SetIndexCounter dma (d_DMA_Index d + bytes) (d_DMA_Count d - bytes) (m_vd r1) = Inr (i, vd)"
    using assms(1) unfolding digital_step_def Let_def prod.case b bindE_simps
    by (cases "VDMA_SetIndexCounter dma (d_DMA_Index d + bytes) (d_DMA_Count d - bytes) (m_vd r1)") auto
  obtain k where k: "VDMA_GetCounter dma vd = Inr k"
    using assms(1) unfolding digital_step_def Let_def prod.case b v bindE_simps by (cases "VDMA_GetCounter dma vd") auto
  let ?ps = "SBEMU_SetPos (sint (d_SB_Pos d + word_of_int bytes)) (m_sb r1)"
  let ?d = "d\<lparr>d_pos := d_pos d + n, d_DMA_Index := i, d_DMA_Count := sint k, d_SB_Pos := word_of_int (fst ?ps)\<rparr>"
  let ?r = "r1\<lparr>m_vd := vd, m_sb := snd ?ps\<rparr>"
  note br = MAIN_block_result [OF b _ p c, simplified, OF wf]
  have w: "sbemu_wf (m_sb ?r)" using br(2) by simp
  obtain left q3 where e: "(if d_SB_Bytes ?d \<le> d_SB_Pos ?d then MAIN_block_end env dma ?d (q, ?r) else Inr (False, ?d, q, ?r))
      = Inr (left, d2, q3, r2)" and lt: "again \<Longrightarrow> d_pos d2 < samples"
    using assms(1) unfolding digital_step_def Let_def prod.case split_beta b v k bindE_simps fst_conv snd_conv
    by (cases "if d_SB_Bytes ?d \<le> d_SB_Pos ?d then MAIN_block_end env dma ?d (q, ?r) else Inr (False, ?d, q, ?r)")
      (auto simp del: digital.simps)
  have "d_pos d2 = d_pos d + n \<and> uint (d_SB_Rate d2) \<le> 65535 \<and> sbemu_wf (m_sb r2)"
  proof (cases "d_SB_Bytes ?d \<le> d_SB_Pos ?d")
    case True
    then have "MAIN_block_end env dma ?d (q, ?r) = Inr (left, d2, q3, r2)" using e by simp
    then show ?thesis
    proof (rule MAIN_block_end_cases)
      fix q4 r4 s
      assume x: "MAIN_InvokeSBIRQ env (q, ?r\<lparr>m_sb := s\<rparr>) = Inr (q4, r4)" "sbemu_wf s = sbemu_wf (m_sb ?r)"
        "sbemu_wf (m_sb r2) = sbemu_wf (m_sb r4)" "d_pos d2 = d_pos ?d"
        "d_SB_Rate d2 = d_SB_Rate ?d \<or> d_SB_Rate d2 = word_of_int (SBEMU_GetSampleRate (m_sb r4))"
      have "sbemu_wf (m_sb r4)" using MAIN_InvokeSBIRQ_wf [OF g _ x(1)] x(2) w by simp
      then show ?thesis using x(3-5) p(4) sample_rate_u32 by auto
    qed
  next
    case False
    then show ?thesis using e w p(4) by auto
  qed
  then show ?thesis using lt br(1) p(2) by (simp add: round_ok_def)
qed


lemma digital_loop_ends:
  assumes g: "guest_keeps_wf (e_guest env)" and s: "samples \<le> 65535" and c: "1 \<le> ss" "1 \<le> ch"
  shows "round_ok samples d (m_sb (snd w)) \<Longrightarrow> samples - d_pos d \<le> int n
    \<Longrightarrow> \<exists>x. digital_rounds env dma samples ss ch n d w = Some x \<and> digital_loop env dma samples ss ch d w = Some x"
proof (induction n arbitrary: d w)
  case 0
  then show ?case by (simp add: round_ok_def)
next
  case (Suc n)
  obtain q r where w: "w = (q, r)" by (cases w)
  show ?case
  proof (cases "digital_step env dma samples ss ch d w")
    case (Inl e)
    then show ?thesis by (simp add: digital_loop.simps)
  next
    case (Inr x)
    obtain again d2 q2 r2 where x: "x = (again, d2, q2, r2)" by (cases x)
    have "digital_step env dma samples ss ch d (q, r) = Inr (again, d2, q2, r2)" using Inr x w by simp
    from digital_step_next [OF this g _ _ _ s _ c] Suc.prems(1) w
    have p: "d_pos d < d_pos d2" "again \<Longrightarrow> round_ok samples d2 (m_sb r2)" by (auto simp: round_ok_def)
    show ?thesis
    proof (cases again)
      case True
      have "\<exists>x. digital_rounds env dma samples ss ch n d2 (q2, r2) = Some x
          \<and> digital_loop env dma samples ss ch d2 (q2, r2) = Some x"
        using p True Suc.prems(2) by (intro Suc.IH) simp_all
      then show ?thesis using Inr x True by (simp add: digital_loop.simps [of _ _ _ _ _ d])
    next
      case False
      then show ?thesis using Inr x by (simp add: digital_loop.simps)
    qed
  qed
qed

lemma MAIN_digital_ends:
  assumes "guest_keeps_wf (e_guest env)" "sbemu_wf (m_sb (snd w))" "0 < samples" "samples \<le> 65535"
  shows "\<exists>x. MAIN_digital env dma samples c w = Some x"
proof -
  obtain q r where w: "w = (q, r)" by (cases w)
  have ch: "1 \<le> SBEMU_GetChannels (m_sb r)" by (simp add: SBEMU_GetChannels_def)
  have rt: "uint (word_of_int (SBEMU_GetSampleRate (m_sb r)) :: u32) \<le> 65535" using assms(2) w sample_rate_u32 by simp
  have "\<exists>x. digital_loop env dma samples ss (SBEMU_GetChannels (m_sb r)) d (q, r2) = Some x"
    if "1 \<le> ss" "round_ok samples d (m_sb r2)" for ss d r2
    using digital_loop_ends [OF assms(1, 4) that(1) ch, of d "(q, r2)" "nat (samples - d_pos d)"] that(2) by (auto simp: round_ok_def)
  then show ?thesis unfolding MAIN_digital_def w Let_def prod.case
    using assms(2, 3) w rt by (auto simp: round_ok_def split: sum.split)
qed

text \<open>An 8-bit mono block at the rate of the card.\<close>

lemma at_off_at_off:
  assumes "\<And>m j. j < 0 \<Longrightarrow> f m j = m j"
  shows "at_off off g (at_off off f m) = at_off off (\<lambda>m. g (f m)) m"
proof -
  have "(\<lambda>j. at_off off f m (j + off)) = f (\<lambda>j. m (j + off))" using assms by (auto simp: at_off_def fun_eq_iff)
  then show ?thesis unfolding at_off_def [of off g] by (auto simp: at_off_def fun_eq_iff)
qed

lemma get16_at_off: "0 \<le> k \<Longrightarrow> get16 (at_off (4 * p) f m) (2 * p + k) = get16 (f (\<lambda>j. m (j + 4 * p))) k"
  by (simp add: get16_def at_off_def algebra_simps)

definition mono8 :: "nat \<Rightarrow> buf \<Rightarrow> buf" where
  "mono8 n = (\<lambda>m. doubled n (widened n (\<lambda>j. if 0 \<le> j \<and> j < int n then m j - 128 else m j)))"

lemma widened_neg: "j < 0 \<Longrightarrow> widened n m j = m j"
  by (simp add: widened_def)

lemma mono8_outside: "j < 0 \<or> 4 * int n \<le> j \<Longrightarrow> mono8 n m j = m j"
proof -
  assume "j < 0 \<or> 4 * int n \<le> j"
  then have "\<not> (0 \<le> j \<and> j < 4 * int n)" "\<not> (0 \<le> j \<and> j < 2 * int n)" "\<not> (0 \<le> j \<and> j < int n)" by linarith+
  then show ?thesis unfolding mono8_def doubled_def widened_def by (simp only: if_False)
qed

lemma convert_mono8:
  assumes n: "0 < n" and p: "0 \<le> d_pos d" "2 * d_pos d + 2 * n \<le> MAIN_PCM_SAMPLESIZE" and b: "SBEMU_Bits (m_sb r) = 8"
  shows "convert_block env False n n 1 1 d r = Inr (n, r\<lparr>MAIN_PCM :=
    at_off (4 * d_pos d) (mono8 (nat n)) (fill_bytes (4 * d_pos d) n (dma_bytes env d r) (MAIN_PCM r))\<rparr>)"
proof -
  have s: "n < 1073741824" using n p by (simp add: MAIN_PCM_SAMPLESIZE_def)
  then have "uint (word_of_int n :: u32) = n" using n by (simp add: uint_word_of_int)
  then have "(word_of_int n :: u32) \<noteq> 0" "unat (word_of_int n :: u32) = nat n"
    using n s by (auto simp: word_of_int_u32_0 unat_eq_nat_uint)
  then have c: "cv_bits_n_to_m (word_of_int n) 1 2 m = widened (nat n) (\<lambda>j. if 0 \<le> j \<and> j < n then m j - 128 else m j)"
    "cv_channels_1_to_n (word_of_int n) 2 2 m = (word_of_int n * 2, doubled (nat n) m)" for m
    using cv_bits_1_to_2 [of "word_of_int n" m] cv_channels_1_to_2 [of "word_of_int n" m] n s by simp_all
  have i: "in_buffer (4 * d_pos d) n = Inr ()" "in_buffer (4 * d_pos d) (2 * n) = Inr ()" "in_buffer (4 * d_pos d) (4 * n) = Inr ()"
    using n p by (simp_all add: in_buffer_def guardE_def)
  have "load_block (dma_bytes env d r) (4 * d_pos d) n n 1 1 (MAIN_PCM r) (m_sb r) = Inr (n,
      at_off (4 * d_pos d) (cv_bits_n_to_m (word_of_int n) 1 2) (fill_bytes (4 * d_pos d) n (dma_bytes env d r) (MAIN_PCM r)), m_sb r)"
    using b n by (simp add: load_block_def decode_block_def widen_block_def i SBEMU_GetBits_def guardE_def)
  moreover have "at_off off (\<lambda>m. snd (cv_channels_1_to_n (word_of_int n) 2 2 m)) (at_off off (cv_bits_n_to_m (word_of_int n) 1 2) m)
      = at_off off (mono8 (nat n)) m" for off m
    using n at_off_at_off [of "cv_bits_n_to_m (word_of_int n) 1 2" off "\<lambda>m. snd (cv_channels_1_to_n (word_of_int n) 2 2 m)" m]
    by (simp add: c widened_neg mono8_def)
  ultimately show ?thesis
    by (simp add: convert_block_def Let_def stereo_block_def i)
qed

text \<open>C7: An 8-bit mono block played at the rate of the card reaches the output unchanged: although the copy, the widening and
  the doubling of the channels all work in place in the output buffer, both channels of frame \<open>pos + i\<close> are
  256 times the difference of byte \<open>i\<close> of the guest's buffer to 128, and no byte outside the block's
  frames changes.\<close>

theorem mono8_block:
  assumes "0 < n" "0 \<le> d_pos d" "2 * d_pos d + 2 * n \<le> MAIN_PCM_SAMPLESIZE" "SBEMU_Bits (m_sb r) = 8"
  shows "\<exists>pcm. convert_block env False n n 1 1 d r = Inr (n, r\<lparr>MAIN_PCM := pcm\<rparr>)
    \<and> (\<forall>i c. 0 \<le> i \<and> i < n \<and> c \<in> {0, 1} \<longrightarrow> get16 pcm (2 * (d_pos d + i) + c) = 256 * (uint (dma_bytes env d r i) - 128))
    \<and> (\<forall>j. j < 4 * d_pos d \<or> 4 * (d_pos d + n) \<le> j \<longrightarrow> pcm j = MAIN_PCM r j)"
proof (intro exI conjI allI impI, rule convert_mono8 [OF assms])
  fix i c :: int
  assume i: "0 \<le> i \<and> i < n \<and> c \<in> {0, 1}"
  let ?m = "fill_bytes (4 * d_pos d) n (dma_bytes env d r) (MAIN_PCM r)"
  have "get16 (at_off (4 * d_pos d) (mono8 (nat n)) ?m) (2 * (d_pos d + i) + c) = get16 (mono8 (nat n) (\<lambda>j. ?m (j + 4 * d_pos d))) (2 * i + c)"
    using i get16_at_off [of "2 * i + c" "d_pos d"] by (auto simp: algebra_simps)
  also have "\<dots> = 256 * (uint (?m (i + 4 * d_pos d)) - 128)"
    unfolding mono8_def using i by (intro get16_stereo_of_mono8) auto
  finally show "get16 (at_off (4 * d_pos d) (mono8 (nat n)) ?m) (2 * (d_pos d + i) + c) = 256 * (uint (dma_bytes env d r i) - 128)"
    using i by (simp add: fill_bytes_def)
next
  fix j
  assume "j < 4 * d_pos d \<or> 4 * (d_pos d + n) \<le> j"
  then show "at_off (4 * d_pos d) (mono8 (nat n)) (fill_bytes (4 * d_pos d) n (dma_bytes env d r) (MAIN_PCM r)) j = MAIN_PCM r j"
    using assms(1) mono8_outside [of "j - 4 * d_pos d" "nat n"] by (auto simp: at_off_def fill_bytes_def)
qed

text \<open>How much of the guest's buffer one round takes.\<close>

lemma rate_count_pos:
  assumes "0 < n" "n \<le> 65535" "uint rate \<le> 65535" "2 \<le> freq" "rate_count freq rate n = Inr (c, b)"
  shows "1 \<le> c" "c < 2147483648"
proof -
  have n0: "c \<noteq> 0" using rate_count_nonzero(1) [OF assms(1-3,5)] .
  have u: "uint x < 2147483648" if "udiv (word_of_int n * rate) freq = Inr x" for x
  proof -
    have "uint x = uint (word_of_int n * rate :: u32) div uint freq" using that by (auto simp: udiv_def uint_div_distrib split: if_splits)
    moreover have "2 \<le> uint freq" using assms(4) by (simp add: word_le_def)
    moreover have "uint (word_of_int n * rate :: u32) < 4294967296" "0 \<le> uint (word_of_int n * rate :: u32)"
      using uint_bounded [of "word_of_int n * rate :: u32"] by simp_all
    ultimately show ?thesis
      using zdiv_mono2 [of "uint (word_of_int n * rate :: u32)" 2 "uint freq"] by linarith
  qed
  have s: "sint x = uint x" if "uint x < 2147483648" for x :: u32
    using that sint_of_int_u32 [of "uint x"] uint_ge_0 [of x] by simp
  have m: "uint (max (word_of_int (min 2 n)) x) < 2147483648" if "uint x < 2147483648" for x :: u32
    using that assms(1) by (auto simp: max_def uint_word_of_int min_def)
  have "0 \<le> c \<and> c < 2147483648"
    using assms(5) u s m uint_ge_0 assms(1, 2)
    by (auto simp: rate_count_def split: if_splits)
  then show "1 \<le> c" "c < 2147483648" using n0 by simp_all
qed

lemma frames_within:
  assumes "0 < f" "k \<le> max 1 (b div f)" "0 \<le> b"
  shows "k * f \<le> max f (b :: int)"
proof (cases "1 \<le> b div f")
  case True
  then have "k * f \<le> b div f * f" using assms by (intro mult_right_mono) simp_all
  also have "\<dots> \<le> b" using assms by (simp add: div_mult_mod_eq minus_mod_eq_div_mult [symmetric])
  finally show ?thesis by simp
next
  case False
  then have "k * f \<le> 1 * f" using assms by (intro mult_right_mono) simp_all
  then show ?thesis by simp
qed

lemma block_count_bounds:
  assumes "block_count bits ss ch d n = Inr k" "1 \<le> n" "n < 2147483648" "ss \<in> {1, 2}" "ch \<in> {1, 2}" "0 < bits" "0 \<le> d_DMA_Count d"
  shows "1 \<le> k" "k \<le> n" "k \<le> max 1 (d_DMA_Count d div (ss * ch))" "k \<le> max 1 (uint (d_SB_Bytes d - d_SB_Pos d) div (ss * ch))"
proof -
  define u where "u = max 1 ((d_SB_Bytes d - d_SB_Pos d) div word_of_int ss div word_of_int ch)"
  define n1 where "n1 = min n (max 1 (cdiv (cdiv (d_DMA_Count d) ss) ch))"
  define n2 where "n2 = sint (min (word_of_int n1) u)"
  have w: "uint (word_of_int ss :: u32) = ss" "uint (word_of_int ch :: u32) = ch" using assms(4, 5) by auto
  have pos: "0 < ss" "0 < ch" using assms(4, 5) by auto
  have u: "uint u = max 1 (uint (d_SB_Bytes d - d_SB_Pos d) div (ss * ch))"
    using pos by (simp add: u_def max_def word_le_def uint_div_distrib w zdiv_zmult2_eq)
  have n1: "1 \<le> n1" "n1 \<le> n" "n1 \<le> max 1 (d_DMA_Count d div (ss * ch))"
    using assms(2, 7) pos by (auto simp: n1_def pos_imp_zdiv_nonneg_iff zdiv_zmult2_eq)
  have "uint (word_of_int n1 :: u32) = n1" using n1 assms(3) by (simp add: uint_word_of_int)
  then have m: "uint (min (word_of_int n1) u) = min n1 (uint u)" by (simp add: min_def word_le_def)
  have "0 \<le> min n1 (uint u)" "min n1 (uint u) < 2147483648" using n1(1, 2) assms(3) uint_ge_0 [of u] by simp_all
  then have "sint (word_of_int (min n1 (uint u)) :: u32) = min n1 (uint u)" by (intro sint_of_int_u32) linarith+
  moreover have "word_of_int (min n1 (uint u)) = min (word_of_int n1) u" unfolding m [symmetric] by simp
  ultimately have n2: "n2 = min n1 (uint u)" by (simp add: n2_def)
  have "block_count bits ss ch d n = (if bits < 8 then (if bits = 0 \<or> cdiv 9 bits = 0 then Inl Div_zero
      else Inr (max 1 (cdiv n2 (cdiv 9 bits)))) else Inr n2)"
    by (simp only: block_count_def Let_def n2_def n1_def u_def)
  moreover have "0 \<le> cdiv 9 bits" using assms(6) by (simp add: pos_imp_zdiv_nonneg_iff)
  ultimately have k: "k = n2 \<or> 0 < cdiv 9 bits \<and> k = max 1 (cdiv n2 (cdiv 9 bits))"
    using assms(1) by (simp split: if_splits)
  have p2: "1 \<le> n2" using n1(1) n2 u by simp
  have "1 \<le> k \<and> k \<le> n2" using k p2 zdiv_mono2 [of n2 1 "cdiv 9 bits"] by auto
  then show "1 \<le> k" "k \<le> n" "k \<le> max 1 (d_DMA_Count d div (ss * ch))" "k \<le> max 1 (uint (d_SB_Bytes d - d_SB_Pos d) div (ss * ch))"
    using n1 n2 u by auto
qed

text \<open>C5: A round of the sound interrupt never takes more from the guest's buffer than there is: for a well-formed card of
  one or two bytes and channels, an output position from 0 to below \<open>samples\<close>, at most 65535 samples, a sample rate of at most 65535, a card
  frequency of at least 2 and a DMA count that is not negative, the bytes it consumes are a positive number of whole frames, and not
  more than the DMA count or than what is left of the block of the Sound Blaster, unless less than one frame is left there, when a
  single frame is taken. It produces at least one frame. The block bounds only while the position has not passed its end: after it (a guest that has programmed a
  shorter block under a running one) the code's unsigned difference wraps, and the DMA count is the only bound.\<close>

theorem guest_block_bounds:
  assumes "MAIN_block env samples ss ch d r = Inr (n, bytes, r2)" "sbemu_wf (m_sb r)" "ss \<in> {1, 2}" "ch \<in> {1, 2}"
    "0 \<le> d_pos d" "d_pos d < samples" "samples \<le> 65535" "uint (d_SB_Rate d) \<le> 65535" "2 \<le> freq_card (m_aui r)" "0 \<le> d_DMA_Count d"
  shows "0 < n \<and> 0 < bytes \<and> bytes mod (ss * ch) = 0 \<and> bytes \<le> max (ss * ch) (d_DMA_Count d)
    \<and> (uint (d_SB_Pos d) \<le> uint (d_SB_Bytes d) \<longrightarrow> bytes \<le> max (ss * ch) (uint (d_SB_Bytes d) - uint (d_SB_Pos d)))"
proof -
  obtain n1 resample n2 where r: "rate_count (freq_card (m_aui r)) (d_SB_Rate d) (samples - d_pos d) = Inr (n1, resample)"
    and b: "block_count (SBEMU_GetBits (m_sb r)) ss ch d n1 = Inr n2" and bt: "bytes = n2 * ss * ch"
    using assms(1) unfolding MAIN_block_def by (auto simp: i32_def split: if_splits)
  have n1: "1 \<le> n1" "n1 < 2147483648" using rate_count_pos [OF _ _ _ _ r] assms by simp_all
  have bits: "0 < SBEMU_GetBits (m_sb r)" using assms(2) by (auto simp: sbemu_wf_defs SBEMU_GetBits_def)
  have f: "0 < ss * ch" using assms(3, 4) by auto
  note bc = block_count_bounds [OF b n1 assms(3, 4) bits assms(10)]
  have "0 < n" using MAIN_block_result(1) [OF assms(1, 2)] assms by auto
  moreover have "0 < bytes" "bytes mod (ss * ch) = 0" using bc(1) assms(3, 4) by (auto simp: bt)
  moreover have "bytes \<le> max (ss * ch) (d_DMA_Count d)" "bytes \<le> max (ss * ch) (uint (d_SB_Bytes d - d_SB_Pos d))"
    using frames_within [OF f bc(3) assms(10)] frames_within [OF f bc(4)] by (simp_all add: bt mult.assoc)
  moreover have "bytes \<le> max (ss * ch) (uint (d_SB_Bytes d) - uint (d_SB_Pos d))" if "uint (d_SB_Pos d) \<le> uint (d_SB_Bytes d)"
    using calculation(5) that by (simp only: uint_sub_if' if_True)
  ultimately show ?thesis by blast
qed

definition digital_demo :: digital where
  "digital_demo = \<lparr>d_pos = 0, d_DMA_Addr = 0x10000, d_DMA_Index = 0, d_DMA_Count = 100, d_SB_Bytes = 100, d_SB_Pos = 0, d_SB_Rate = 22050\<rparr>"

definition main_22k :: "unit main" where
  "main_22k = main_demo\<lparr>m_aui := aui0\<lparr>freq_card := 22050\<rparr>\<rparr>"

lemma main_22k_simps [simp]: "sbemu_wf (m_sb main_22k)" "SBEMU_Bits (m_sb main_22k) = 8" "freq_card (m_aui main_22k) = 22050"
  using sb_demo_serviceable by (simp_all add: main_22k_def main_demo_def sb_serviceable_def sb_demo_def sbemu_initial_def)

lemma MAIN_block_demo: "\<exists>r2. MAIN_block env_demo 4 1 1 digital_demo main_22k = Inr (4, 4, r2)"
  using convert_mono8 [of 4 digital_demo main_22k env_demo]
  by (simp add: MAIN_block_def rate_count_def block_count_def digital_demo_def MAIN_PCM_SAMPLESIZE_def SBEMU_GetBits_def i32_def i32_ok_def)

theorem guest_block_bounds_witness:
  "\<exists>r2. MAIN_block env_demo 4 1 1 digital_demo main_22k = Inr (4, 4, r2) \<and> (4 :: int) \<le> max (1 * 1) (d_DMA_Count digital_demo)
    \<and> (4 :: int) \<le> max (1 * 1) (uint (d_SB_Bytes digital_demo) - uint (d_SB_Pos digital_demo))"
proof -
  obtain r2 where "MAIN_block env_demo 4 1 1 digital_demo main_22k = Inr (4, 4, r2)" using MAIN_block_demo by blast
  moreover from guest_block_bounds [OF this] have "(4 :: int) \<le> max (1 * 1) (d_DMA_Count digital_demo)
      \<and> (4 :: int) \<le> max (1 * 1) (uint (d_SB_Bytes digital_demo) - uint (d_SB_Pos digital_demo))"
    by (simp add: digital_demo_def)
  ultimately show ?thesis by blast
qed


section \<open>Properties\<close>

text \<open>C6: The sound of the interrupt always ends: whatever the guest's memory, its interrupt handler (as long as it reaches
  the card through the trapped ports, which keep the card well-formed) and the DMA controller hold, with between 1 and 65535 samples
  asked for, \<open>MAIN_sound\<close> returns, with a result or one of the model's errors. Every round of the digital loop that succeeds moves
  the output position forward and keeps the card well-formed, and another round follows only while samples are missing; so the loop
  is left after at most as many rounds as samples were missing, whichever way the guest reprograms the card between two rounds.\<close>

theorem sound_ends:
  assumes "guest_keeps_wf (e_guest env)" "sbemu_wf (m_sb r)" "0 < samples" "samples \<le> 65535" "1 \<le> ss" "1 \<le> ch"
  shows "(\<exists>x. MAIN_sound env samples (q, r) = Some x)
    \<and> (\<forall>d w again d2 q2 r2. round_ok samples d (m_sb (snd w)) \<and> digital_step env dma samples ss ch d w = Inr (again, d2, q2, r2)
        \<longrightarrow> d_pos d < d_pos d2 \<and> sbemu_wf (m_sb r2) \<and> (again \<longrightarrow> round_ok samples d2 (m_sb r2)))
    \<and> (\<forall>d w. round_ok samples d (m_sb (snd w)) \<longrightarrow>
        (\<exists>x. digital_rounds env dma samples ss ch (nat (samples - d_pos d)) d w = Some x \<and> digital_loop env dma samples ss ch d w = Some x))"
proof (intro conjI allI impI)
  show "\<exists>x. MAIN_sound env samples (q, r) = Some x"
    using MAIN_digital_ends [OF assms(1) _ assms(3, 4), of "(q, r)"] assms(2)
    by (auto simp: MAIN_sound_def Let_def split: sum.split)
next
  fix d w again d2 q2 r2
  assume a: "round_ok samples d (m_sb (snd w)) \<and> digital_step env dma samples ss ch d w = Inr (again, d2, q2, r2)"
  obtain q0 r0 where w: "w = (q0, r0)" by (cases w)
  note x = a [unfolded w round_ok_def snd_conv]
  note n = digital_step_next [OF conjunct2 [OF x] assms(1) _ _ _ assms(4) _ assms(5, 6)]
  show "d_pos d < d_pos d2" "sbemu_wf (m_sb r2)" using n x by blast+
  show "round_ok samples d2 (m_sb r2)" if again using n x that by blast
next
  fix d and w :: "'a world"
  assume "round_ok samples d (m_sb (snd w))"
  then show "\<exists>x. digital_rounds env dma samples ss ch (nat (samples - d_pos d)) d w = Some x \<and> digital_loop env dma samples ss ch d w = Some x"
    using digital_loop_ends [OF assms(1, 4-6), of d w "nat (samples - d_pos d)"] by (simp add: round_ok_def)
qed

lemma guest_idle_wf: "guest_keeps_wf guest_idle"
  by (simp add: guest_keeps_wf_def guest_idle_def)

theorem sound_ends_witness: "(\<exists>x. MAIN_sound env_demo 441 (virq_initial, main_22k) = Some x)
    \<and> (\<exists>x. digital_rounds env_demo 1 441 1 1 441 digital_demo (virq_initial, main_22k) = Some x)"
proof -
  have "guest_keeps_wf (e_guest env_demo)" using guest_idle_wf by (simp add: env_demo_def)
  note s = sound_ends [OF this, of main_22k 441 1 1 virq_initial 1]
  have "round_ok 441 digital_demo (m_sb (snd (virq_initial, main_22k)))" by (simp add: round_ok_def digital_demo_def)
  with s have "\<exists>x. digital_rounds env_demo 1 441 1 1 (nat (441 - d_pos digital_demo)) digital_demo (virq_initial, main_22k) = Some x"
    by (simp only: main_22k_simps) fastforce
  moreover have "nat (441 - d_pos digital_demo) = 441" by (simp add: digital_demo_def)
  ultimately show ?thesis using s by simp
qed


theorem mono8_block_witness:
  "\<exists>pcm. convert_block env_demo False 4 4 1 1 digital_demo main_22k = Inr (4, main_22k\<lparr>MAIN_PCM := pcm\<rparr>)
    \<and> get16 pcm 7 = 256 * (uint (dma_bytes env_demo digital_demo main_22k 3) - 128)"
proof -
  obtain pcm where p: "convert_block env_demo False 4 4 1 1 digital_demo main_22k = Inr (4, main_22k\<lparr>MAIN_PCM := pcm\<rparr>)"
    "\<forall>i c. 0 \<le> i \<and> i < 4 \<and> c \<in> {0, 1} \<longrightarrow> get16 pcm (2 * (d_pos digital_demo + i) + c)
      = 256 * (uint (dma_bytes env_demo digital_demo main_22k i) - 128)"
    using mono8_block [of 4 digital_demo main_22k env_demo]
    by (auto simp: digital_demo_def MAIN_PCM_SAMPLESIZE_def)
  from p(2) [rule_format, of 3 1] have "get16 pcm 7 = 256 * (uint (dma_bytes env_demo digital_demo main_22k 3) - 128)"
    by (simp add: digital_demo_def)
  with p(1) show ?thesis by blast
qed

text \<open>The resampler asks for room for 512 input samples, twice over: with a card at 48000 Hz, a block at the lowest rate of the
  time constant fails the assertion, however short it is.\<close>

lemma resampler_low_rate: "mixer_speed_lq MAIN_PCM_SAMPLESIZE MAIN_PCM_SAMPLESIZE src 100 1 1953 48000 = Inl Assert_failed"
  by (simp add: mixer_speed_lq_def lq_buffcount_def w32_def MAIN_PCM_SAMPLESIZE_def and_fff_int)

end
