(* ===== verification/Tsr.thy ===== *)
theory Tsr
  imports Isr
begin

text \<open>
  The resident copy and the program that changes its settings (\<open>main.c\<close>): the trap tables that are installed at the start, the
  multiplex interrupt by which a second run finds the resident copy, reads its options and sends it new ones, and
  what the resident copy does with them: audio output, DMA channels, the Sound Blaster and the trap tables. The calls
  that install and remove trap tables are a list; what a list of calls makes of the tables is given by the
  contract of the trap lists in theory Traps. Finding a card, the interrupt guard and the lock on interrupt
  routing are parameters.
\<close>

section \<open>Trap tables\<close>

datatype iopt = OPL3IOPT | OPL3IOPT_PM | MPUIOPT | MPUIOPT_PM | MAIN_VDMA_IOPT | MAIN_SB_IOPT
  | MAIN_VDMA_IOPT_PM1 | MAIN_VDMA_IOPT_PM2 | MAIN_VDMA_IOPT_PM3
  | MAIN_VHDMA_IOPT_PM1 | MAIN_VHDMA_IOPT_PM2 | MAIN_VHDMA_IOPT_PM3 | MAIN_VIRQ_IOPT_PM1 | MAIN_VIRQ_IOPT_PM2 | MAIN_SB_IOPT_PM

datatype 'h trap_call = QEMM_Install "'h port_table" iopt | QEMM_Uninstall iopt
  | HDPMI_Install u32 u32 "'h port_table" iopt | HDPMI_Uninstall iopt

text \<open>A list is installed once and removed while it is installed; anything else is outside what the lists support.\<close>

fun trap_call_do :: "'h trap_call \<Rightarrow> (iopt \<times> 'h port_table) list \<Rightarrow> (iopt \<times> 'h port_table) list option" where
  "trap_call_do (QEMM_Install t p) ts = (if p \<in> fst ` set ts then None else Some (ts @ [(p, t)]))"
| "trap_call_do (HDPMI_Install a b t p) ts = (if p \<in> fst ` set ts then None else Some (ts @ [(p, t)]))"
| "trap_call_do (QEMM_Uninstall p) ts = (if p \<in> fst ` set ts then Some (filter (\<lambda>x. fst x \<noteq> p) ts) else None)"
| "trap_call_do (HDPMI_Uninstall p) ts = (if p \<in> fst ` set ts then Some (filter (\<lambda>x. fst x \<noteq> p) ts) else None)"

fun trap_calls_do :: "'h trap_call list \<Rightarrow> (iopt \<times> 'h port_table) list \<Rightarrow> (iopt \<times> 'h port_table) list option" where
  "trap_calls_do [] ts = Some ts"
| "trap_calls_do (c # cs) ts = (case trap_call_do c ts of None \<Rightarrow> None | Some ts \<Rightarrow> trap_calls_do cs ts)"

definition opt_on :: "options \<Rightarrow> opt \<Rightarrow> bool" where "opt_on os i = (opt_value os i \<noteq> 0)"

definition opt_u32 :: "options \<Rightarrow> opt \<Rightarrow> u32" where "opt_u32 os i = word_of_int (opt_value os i)"

text \<open>The installation, at the start and after a change: \<open>opl\<close> is the table for FM when its ports are trapped.\<close>

definition install_opl :: "bool \<Rightarrow> bool \<Rightarrow> 'h port_table \<Rightarrow> 'h trap_call list" where
  "install_opl rm pm iodt = (if rm then [QEMM_Install iodt OPL3IOPT] else [])
     @ (if pm then [HDPMI_Install 0x388 0x38B iodt OPL3IOPT_PM] else [])"

definition install_mpu :: "bool \<Rightarrow> bool \<Rightarrow> u32 \<Rightarrow> 'h port_table \<Rightarrow> 'h trap_call list" where
  "install_mpu rm pm addr iodt = (if rm then [QEMM_Install iodt MPUIOPT] else [])
     @ (if pm then [HDPMI_Install addr (addr + 1) iodt MPUIOPT_PM] else [])"

definition install_sb :: "'h main_env \<Rightarrow> bool \<Rightarrow> bool \<Rightarrow> u32 \<Rightarrow> 'h port_table \<Rightarrow> 'h trap_call list" where
  "install_sb env rm pm addr sb_iodt =
    (let vdma = MAIN_VDMA_IODT env; virq = MAIN_VIRQ_IODT env in
     (if rm then [QEMM_Install vdma MAIN_VDMA_IOPT, QEMM_Install sb_iodt MAIN_SB_IOPT] else [])
     @ (if pm then
          [HDPMI_Install 0x0 0xF (take 16 vdma) MAIN_VDMA_IOPT_PM1,
           HDPMI_Install 0x81 0x83 (take 3 (drop 16 vdma)) MAIN_VDMA_IOPT_PM2,
           HDPMI_Install 0x87 0x87 (take 1 (drop 19 vdma)) MAIN_VDMA_IOPT_PM3,
           HDPMI_Install 0xC0 0xDE (take 16 (drop 20 vdma)) MAIN_VHDMA_IOPT_PM1,
           HDPMI_Install 0x89 0x8B (take 3 (drop 36 vdma)) MAIN_VHDMA_IOPT_PM2,
           HDPMI_Install 0x8F 0x8F (take 1 (drop 39 vdma)) MAIN_VHDMA_IOPT_PM3,
           HDPMI_Install 0x20 0x21 (take 2 virq) MAIN_VIRQ_IOPT_PM1,
           HDPMI_Install 0xA0 0xA1 (take 2 (drop 2 virq)) MAIN_VIRQ_IOPT_PM2,
           HDPMI_Install addr (addr + 0x0F) sb_iodt MAIN_SB_IOPT_PM]
        else []))"

text \<open>\<open>fm388\<close>: the card has its own FM chip at port 0x388.\<close>

definition opl_table :: "'h main_env \<Rightarrow> bool \<Rightarrow> 'h port_table" where
  "opl_table env hwfm = (if hwfm then MAIN_HW_OPL3IODT env else MAIN_OPL3IODT env)"

definition mpu_on :: "options \<Rightarrow> bool" where "mpu_on os = (opt_on os OPT_MPUADDR \<and> opt_on os OPT_MPUCOMPORT)"

definition opl_trapped :: "bool \<Rightarrow> bool \<Rightarrow> options \<Rightarrow> bool" where
  "opl_trapped hwfm fm388 os = (opt_on os OPT_OPL \<and> \<not> (hwfm \<and> fm388))"

definition install_all :: "'h main_env \<Rightarrow> bool \<Rightarrow> bool \<Rightarrow> options \<Rightarrow> 'h port_table \<Rightarrow> 'h trap_call list" where
  "install_all env hwfm fm388 os sb_iodt =
    (let rm = opt_on os OPT_RM; pm = opt_on os OPT_PM; mpu = opt_u32 os OPT_MPUADDR in
     (if opl_trapped hwfm fm388 os then install_opl rm pm (opl_table env hwfm) else [])
     @ (if mpu_on os then install_mpu rm pm mpu (MAIN_MPUIODT env mpu) else [])
     @ install_sb env rm pm (opt_u32 os OPT_ADDR) (if opt_on os OPT_OPL then sb_iodt else drop 4 sb_iodt))"

text \<open>What \<open>main\<close> installs, when every call succeeds.\<close>

definition MAIN_install :: "'h main_env \<Rightarrow> bool \<Rightarrow> bool \<Rightarrow> options \<Rightarrow> 'h trap_call list" where
  "MAIN_install env hwfm fm388 os = install_all env hwfm fm388 os (MAIN_SB_IODT env (opt_u32 os OPT_ADDR))"

section \<open>The resident copy\<close>

record 'h tsr =
  t_main :: "'h main"
  MAIN_TSRREG :: DPMI_REG
  t_sb_iodt :: "'h port_table"
  OPLRMInstalled :: bool
  OPLPMInstalled :: bool
  t_qemm_present :: bool
  t_hdpmi_present :: bool
  t_fm388 :: bool
  t_untrapped_qemm :: bool
  t_mpu_debug :: int

record 'h tsr_env =
  t_env :: "'h main_env"
  t_bda :: "int \<Rightarrow> u16"
  t_lfn :: lfn_config
  t_AU_init :: "'h main \<Rightarrow> 'h main"
  t_OPL3EMU_Init :: "u32 \<Rightarrow> 'h \<Rightarrow> 'h"
  t_LockIRQRouting :: "bool \<Rightarrow> 'h \<Rightarrow> 'h"
  t_IRQGUARD_Install :: "u8 \<Rightarrow> 'h \<Rightarrow> 'h"

abbreviation AUINFOS_CARDCNTRLBIT_SILENT :: u32 where "AUINFOS_CARDCNTRLBIT_SILENT \<equiv> 2048"

abbreviation set_opt :: "opt \<Rightarrow> int \<Rightarrow> 'h main \<Rightarrow> 'h main" where
  "set_opt i v r \<equiv> r\<lparr>m_options := set_value i v (m_options r)\<rparr>"

abbreviation optv :: "'h main \<Rightarrow> opt \<Rightarrow> int" where "optv r i \<equiv> opt_value (m_options r) i"

definition with_serial :: "('h serial \<Rightarrow> int \<times> 'h serial) \<Rightarrow> 'h main \<Rightarrow> 'h main" where
  "with_serial f r = (let (e, s) = f (serial_of r) in
     (set_hw (ser_ports s) r)\<lparr>m_dbg_iobase := dbg_iobase s, m_midi_iobase := midi_iobase s\<rparr>)"

text \<open>The serial ports. The MIDI port is set up for the new setting, which is stored only at the end.\<close>

definition TSR_serial :: "'h tsr_env \<Rightarrow> options \<Rightarrow> 'h main \<Rightarrow> 'h main" where
  "TSR_serial te new r =
    (let io = e_io (t_env te);
         r = set_opt OPT_MDBG (opt_value new OPT_MDBG) r;
         r = (if optv r OPT_DEBUG_OUTPUT \<noteq> opt_value new OPT_DEBUG_OUTPUT then
                (let r = set_opt OPT_DEBUG_OUTPUT (opt_value new OPT_DEBUG_OUTPUT) r
                 in with_serial (update_serial_debug_output io (t_bda te) (m_options r)) r)
              else r)
     in if optv r OPT_MPUCOMPORT \<noteq> opt_value new OPT_MPUCOMPORT then
          (let curval = optv r OPT_MPUCOMPORT;
               r = set_opt OPT_MPUCOMPORT (opt_value new OPT_MPUCOMPORT) r;
               r = with_serial (update_serial_mpu_output io (t_bda te) (m_options r)) r
           in set_opt OPT_MPUCOMPORT curval r)
        else r)"

text \<open>The three audio states of the program, closed and set up again.\<close>

definition aui_zero :: mpxplay_audioout_info where
  "aui_zero = \<lparr>pcm_sample = [], samplenum = 0, bytespersample_card = 0, freq_set = 0, freq_song = 0, freq_card = 0,
    chan_set = 0, chan_song = 0, chan_card = 0, bits_set = 0, bits_song = 0, bits_card = 0, card_wave_id = 0,
    card_controlbits = 0, card_infobits = 0, card_outbytes = 0, card_dmasize = 0, card_dmalastput = 0, card_dmaspace = 0,
    card_dmafilled = 0, card_dma_lastgoodpos = 0, card_bytespersign = 0, card_dmaout_under_int08 = 0, card_DMABUFF = None,
    card_irq = 0, card_master_volume = 0, card_mixer_values = (\<lambda>_. 0), card_samples_per_int = 0, fm = False,
    mpu401 = False, mpu401_softread = False\<rparr>"

definition TSR_close :: "'h tsr_env \<Rightarrow> 'h main \<Rightarrow> 'h main res" where
  "TSR_close te r =
    (let env = t_env te in
     bindE (AU_close (Some (e_card env, m_aui r)) (Some (e_fm_card env, m_fm_aui r)) (Some (e_mpu_card env, m_mpu401_aui r)) (m_glb r))
       (\<lambda>(a, f, m, g). Inr (r\<lparr>m_glb := g\<rparr>)))"

definition TSR_reset_card :: "'h tsr_env \<Rightarrow> options \<Rightarrow> 'h main \<Rightarrow> 'h main res" where
  "TSR_reset_card te new r =
    bindE (TSR_close te r) (\<lambda>r.
    let r = r\<lparr>m_aui := aui_zero, m_fm_aui := aui_zero, m_mpu401_aui := aui_zero\<rparr>;
        r = set_opt OPT_OUTPUT (opt_value new OPT_OUTPUT) r;
        r = r\<lparr>m_aui := m_aui r\<lparr>card_controlbits := card_controlbits (m_aui r) OR AUINFOS_CARDCNTRLBIT_SILENT\<rparr>\<rparr>;
        r = t_AU_init te r;
        r = r\<lparr>m_aui := AU_setmixer_init (m_aui r)\<rparr>
    in bindE (AU_setmixer_outs (e_card (t_env te)) MIXER_SETMODE_ABSOLUTE 100 (m_aui r, m_glb r)) (\<lambda>(a, g).
       Inr (set_opt OPT_VOL (- opt_value new OPT_VOL - 1) (r\<lparr>m_aui := a, m_glb := g\<rparr>))))"

definition TSR_rate :: "'h tsr_env \<Rightarrow> options \<Rightarrow> 'h main \<Rightarrow> 'h main res" where
  "TSR_rate te new r =
    (let h = e_card (t_env te);
         adi = \<lparr>adi_infobits = 0, adi_wave_id = 1, adi_freq = opt_u32 new OPT_RATE, adi_outchannels = 2, adi_bits = 16\<rparr> in
     bindE (AU_setrate (t_lfn te) h adi (m_aui r, m_glb r)) (\<lambda>(_, a, g).
     let r = r\<lparr>m_aui := a, m_glb := g\<rparr>;
         r = (if optv r OPT_RATE \<noteq> opt_value new OPT_RATE then (on_hw (t_OPL3EMU_Init te (freq_card (m_aui r))) r)\<lparr>m_OPL3EMU_Chip := True\<rparr> else r)
     in bindE (AU_prestart h (m_aui r, m_glb r)) (\<lambda>(a, g).
        bindE (AU_start h (a, g)) (\<lambda>(a, g).
        Inr (set_opt OPT_RATE (opt_value new OPT_RATE) (r\<lparr>m_aui := a, m_glb := g\<rparr>))))))"

definition TSR_audio :: "'h tsr_env \<Rightarrow> options \<Rightarrow> 'h main \<Rightarrow> 'h main res" where
  "TSR_audio te new r =
    bindE (if optv r OPT_OUTPUT \<noteq> opt_value new OPT_OUTPUT \<or> optv r OPT_RATE \<noteq> opt_value new OPT_RATE \<or> opt_on new OPT_RESET then
       bindE (if opt_value new OPT_OUTPUT \<noteq> optv r OPT_OUTPUT \<or> opt_on new OPT_RESET then TSR_reset_card te new r else Inr r)
         (TSR_rate te new)
     else Inr r) (\<lambda>r.
    if optv r OPT_VOL \<noteq> opt_value new OPT_VOL then
      (let r = set_opt OPT_VOL (opt_value new OPT_VOL) r in
       bindE (AU_setmixer_one (e_card (t_env te)) AU_MIXCHAN_MASTER MIXER_SETMODE_ABSOLUTE (cdiv (optv r OPT_VOL * 100) 9) (m_aui r, m_glb r))
         (\<lambda>(a, g). Inr (r\<lparr>m_aui := a, m_glb := g\<rparr>)))
    else Inr r)"

text \<open>DMA channels and the Sound Blaster.\<close>

definition TSR_dma :: "options \<Rightarrow> 'h main \<Rightarrow> 'h main" where
  "TSR_dma new r =
    (let r = (if optv r OPT_DMA \<noteq> opt_value new OPT_DMA then
           r\<lparr>m_vd := VDMA_Virtualize (opt_value new OPT_DMA) True (VDMA_Virtualize (optv r OPT_DMA) False (m_vd r))\<rparr> else r)
     in if optv r OPT_HDMA \<noteq> opt_value new OPT_HDMA then
           r\<lparr>m_vd := VDMA_Virtualize (opt_value new OPT_HDMA) True (VDMA_Virtualize (optv r OPT_HDMA) False (m_vd r))\<rparr> else r)"

definition TSR_sb :: "'h tsr_env \<Rightarrow> options \<Rightarrow> 'h main \<Rightarrow> 'h main res" where
  "TSR_sb te new r =
    (if \<exists>i\<in>set [OPT_DMA, OPT_HDMA, OPT_IRQ, OPT_TYPE, OPT_FIX_TC]. optv r i \<noteq> opt_value new i then
      (let r = fold (\<lambda>i. set_opt i (opt_value new i)) [OPT_DMA, OPT_HDMA, OPT_IRQ, OPT_TYPE, OPT_FIX_TC] r;
           r = on_hw (t_LockIRQRouting te False) r;
           r = on_hw (t_IRQGUARD_Install te (word_of_int (optv r OPT_IRQ))) r;
           r = on_hw (t_LockIRQRouting te True) r
       in bindE (arr_get (int (length MAIN_SB_DSPVersion)) (\<lambda>i. MAIN_SB_DSPVersion ! nat i) (optv r OPT_TYPE)) (\<lambda>ver.
          Inr (r\<lparr>m_sb := SBEMU_Init (optv r OPT_IRQ) (optv r OPT_DMA) (optv r OPT_HDMA) ver (optv r OPT_FIX_TC) (m_sb r)\<rparr>)))
     else Inr r)"

text \<open>The trap tables: removed as the old options say, and installed for the new ones.\<close>

definition TSR_uninstall :: "'h tsr \<Rightarrow> options \<Rightarrow> 'h trap_call list" where
  "TSR_uninstall t os =
    (if opt_on os OPT_RM then
       (if opt_on os OPT_OPL \<and> OPLRMInstalled t then [QEMM_Uninstall OPL3IOPT] else [])
       @ (if mpu_on os then [QEMM_Uninstall MPUIOPT] else []) @ [QEMM_Uninstall MAIN_VDMA_IOPT, QEMM_Uninstall MAIN_SB_IOPT]
     else [])
    @ (if opt_on os OPT_PM then
       (if opt_on os OPT_OPL \<and> OPLPMInstalled t then [HDPMI_Uninstall OPL3IOPT_PM] else [])
       @ (if mpu_on os then [HDPMI_Uninstall MPUIOPT_PM] else [])
       @ map HDPMI_Uninstall [MAIN_VDMA_IOPT_PM1, MAIN_VDMA_IOPT_PM2, MAIN_VDMA_IOPT_PM3, MAIN_VHDMA_IOPT_PM1,
           MAIN_VHDMA_IOPT_PM2, MAIN_VHDMA_IOPT_PM3, MAIN_VIRQ_IOPT_PM1, MAIN_VIRQ_IOPT_PM2, MAIN_SB_IOPT_PM]
     else [])"

definition TSR_limit :: "'h tsr \<Rightarrow> options \<Rightarrow> options" where
  "TSR_limit t new =
    (let new = set_value OPT_PM (if opt_on new OPT_PM \<and> t_hdpmi_present t then 1 else 0) new
     in set_value OPT_RM (if opt_on new OPT_RM \<and> t_qemm_present t then 1 else 0) new)"

definition TSR_move :: "u32 \<Rightarrow> u32 \<Rightarrow> 'h port_table \<Rightarrow> 'h port_table" where
  "TSR_move old addr = map (\<lambda>(p, f). (p - old + addr, f))"

definition TSR_traps :: "'h tsr_env \<Rightarrow> options \<Rightarrow> 'h tsr \<Rightarrow> 'h trap_call list \<times> 'h tsr" where
  "TSR_traps te new t =
    (let r = t_main t;
         un = TSR_uninstall t (m_options r);
         new = TSR_limit t new;
         sb = (if opt_value new OPT_ADDR \<noteq> optv r OPT_ADDR then TSR_move (opt_u32 (m_options r) OPT_ADDR) (opt_u32 new OPT_ADDR) (t_sb_iodt t)
               else t_sb_iodt t);
         r = fold (\<lambda>i. set_opt i (opt_value new i)) [OPT_MPUADDR, OPT_MPUCOMPORT, OPT_ADDR, OPT_PM, OPT_RM, OPT_OPL] r
     in (un @ install_all (t_env te) (fm (m_fm_aui r)) (t_fm388 t) new sb,
         t\<lparr>t_main := r, t_sb_iodt := sb, t_untrapped_qemm := opt_on new OPT_RM\<rparr>))"

definition TSR_same_traps :: "options \<Rightarrow> options \<Rightarrow> bool" where
  "TSR_same_traps os new = (\<forall>i\<in>set [OPT_OPL, OPT_ADDR, OPT_PM, OPT_RM, OPT_FIX_TC, OPT_MPUADDR, OPT_MPUCOMPORT].
     opt_value os i = opt_value new i)"

text \<open>The new settings \<open>new\<close> are set; the result has the calls on the trap tables.\<close>

definition TSR_set :: "'h tsr_env \<Rightarrow> options \<Rightarrow> 'h tsr \<Rightarrow> ('h trap_call list \<times> 'h tsr) res" where
  "TSR_set te new t =
    (let r = t_main t; irq = card_irq (m_aui r); io = e_io (t_env te) in
     bindE (PIC_MaskIRQ io irq (hw r)) (\<lambda>h.
     bindE (TSR_audio te new (TSR_serial te new (set_hw h r))) (\<lambda>r.
     bindE (PIC_UnmaskIRQ io irq (hw r)) (\<lambda>h.
     bindE (TSR_sb te new (TSR_dma new (set_hw h r))) (\<lambda>r.
     let t = t\<lparr>t_main := r, t_mpu_debug := opt_value new OPT_MDBG\<rparr>
     in Inr (if TSR_same_traps (m_options r) new then ([], t) else TSR_traps te new t))))))"


section \<open>The multiplex interrupt\<close>

text \<open>\<open>opt_addr\<close> is the address of the option table, \<open>dosid\<close> the segment of the identification string, \<open>read\<close> the copy of an option
  table from an address, \<open>old\<close> the previous handler.\<close>

definition TSR_Interrupt :: "'h tsr_env \<Rightarrow> u8 \<Rightarrow> u16 \<Rightarrow> u32 \<Rightarrow> (u32 \<Rightarrow> 'h tsr \<Rightarrow> options) \<Rightarrow> ('h tsr \<Rightarrow> 'h tsr) \<Rightarrow> 'h tsr
    \<Rightarrow> ('h trap_call list \<times> 'h tsr) res" where
  "TSR_Interrupt te fno dosid opt_addr read old t =
    (let g = MAIN_TSRREG t in
     if reg_ah g \<noteq> fno then Inr ([], old t)
     else if reg_al g = 0x00 then Inr ([], t\<lparr>MAIN_TSRREG := set_di 0 (set_dx dosid (set_cx 0x0100 (set_al 0xFF g)))\<rparr>)
     else if reg_al g = 0x01 then Inr ([], t\<lparr>MAIN_TSRREG := g\<lparr>r_ebx := opt_addr\<rparr>\<rparr>)
     else if reg_al g = 0x02 then TSR_set te (read (r_ebx g) t) t
     else Inr ([], t))"

text \<open>The options a second run sends: those of the resident copy, but for the ones its own command line has set, and
  the reset.\<close>

definition setcmd_is_set :: "options \<Rightarrow> main_opt \<Rightarrow> bool" where
  "setcmd_is_set os e = (opt_set os (opt_id e) \<and> \<not> opt_hidden e \<and> \<not> opt_base10 e)"

definition merge_options :: "options \<Rightarrow> options \<Rightarrow> options" where
  "merge_options own res =
    (let new = fold (\<lambda>e new. if setcmd_is_set own e \<and> opt_value own (opt_id e) \<noteq> opt_value new (opt_id e)
           then set_value (opt_id e) (opt_value own (opt_id e)) new else new) MAIN_Options res
     in if opt_on own OPT_RESET then set_value OPT_RESET (opt_value own OPT_RESET) new else new)"

section \<open>The calls on the trap tables\<close>

fun call_iopt :: "'h trap_call \<Rightarrow> iopt" where
  "call_iopt (QEMM_Install t p) = p" | "call_iopt (HDPMI_Install a b t p) = p"
| "call_iopt (QEMM_Uninstall p) = p" | "call_iopt (HDPMI_Uninstall p) = p"

fun call_table :: "'h trap_call \<Rightarrow> 'h port_table option" where
  "call_table (QEMM_Install t p) = Some t" | "call_table (HDPMI_Install a b t p) = Some t"
| "call_table (QEMM_Uninstall p) = None" | "call_table (HDPMI_Uninstall p) = None"

lemma trap_call_do_cases:
  "trap_call_do c ts = (case call_table c of
      Some t \<Rightarrow> if call_iopt c \<in> fst ` set ts then None else Some (ts @ [(call_iopt c, t)])
    | None \<Rightarrow> if call_iopt c \<in> fst ` set ts then Some (filter (\<lambda>x. fst x \<noteq> call_iopt c) ts) else None)"
  by (cases c) simp_all

lemma trap_calls_do_append:
  "trap_calls_do (xs @ ys) ts = (case trap_calls_do xs ts of None \<Rightarrow> None | Some ts \<Rightarrow> trap_calls_do ys ts)"
  by (induction xs arbitrary: ts) (simp_all split: option.split)

definition installed :: "'h trap_call list \<Rightarrow> (iopt \<times> 'h port_table) list" where
  "installed cs = map (\<lambda>c. (call_iopt c, the (call_table c))) cs"

lemma installs_do:
  assumes "\<forall>c\<in>set cs. call_table c \<noteq> None" "distinct (map call_iopt cs)" "call_iopt ` set cs \<inter> fst ` set ts = {}"
  shows "trap_calls_do cs ts = Some (ts @ installed cs)"
  using assms
proof (induction cs arbitrary: ts)
  case Nil
  show ?case by (simp add: installed_def)
next
  case (Cons c cs)
  obtain t where t: "call_table c = Some t" using Cons.prems(1) by auto
  have "trap_calls_do cs (ts @ [(call_iopt c, t)]) = Some ((ts @ [(call_iopt c, t)]) @ installed cs)"
    using Cons.prems by (intro Cons.IH) auto
  then show ?case using Cons.prems(3) t by (simp add: trap_call_do_cases installed_def)
qed

lemma uninstalls_do:
  assumes "\<forall>c\<in>set cs. call_table c = None" "distinct (map call_iopt cs)" "call_iopt ` set cs \<subseteq> fst ` set ts"
  shows "trap_calls_do cs ts = Some (filter (\<lambda>x. fst x \<notin> call_iopt ` set cs) ts)"
  using assms
proof (induction cs arbitrary: ts)
  case Nil
  show ?case by simp
next
  case (Cons c cs)
  let ?ts = "filter (\<lambda>x. fst x \<noteq> call_iopt c) ts"
  have "call_iopt ` set cs \<subseteq> fst ` set ?ts"
  proof
    fix p
    assume p: "p \<in> call_iopt ` set cs"
    then obtain x where "x \<in> set ts" "fst x = p" using Cons.prems(3) by auto
    moreover have "p \<noteq> call_iopt c" using p Cons.prems(2) by (metis distinct.simps(2) list.set_map list.simps(9))
    ultimately show "p \<in> fst ` set ?ts" by force
  qed
  then have "trap_calls_do cs ?ts = Some (filter (\<lambda>x. fst x \<notin> call_iopt ` set cs) ?ts)"
    using Cons.prems by (intro Cons.IH) auto
  moreover have "filter (\<lambda>x. fst x \<notin> call_iopt ` set cs) ?ts = filter (\<lambda>x. fst x \<notin> call_iopt ` set (c # cs)) ts"
    by (simp add: conj_commute)
  ultimately show ?case using Cons.prems(1, 3) by (simp add: trap_call_do_cases)
qed

lemmas install_defs = install_opl_def install_mpu_def install_sb_def

definition opl_iopts :: "bool \<Rightarrow> bool \<Rightarrow> iopt set" where
  "opl_iopts rm pm = (if rm then {OPL3IOPT} else {}) \<union> (if pm then {OPL3IOPT_PM} else {})"

definition mpu_iopts :: "bool \<Rightarrow> bool \<Rightarrow> iopt set" where
  "mpu_iopts rm pm = (if rm then {MPUIOPT} else {}) \<union> (if pm then {MPUIOPT_PM} else {})"

definition sb_iopts :: "bool \<Rightarrow> bool \<Rightarrow> iopt set" where
  "sb_iopts rm pm = (if rm then {MAIN_VDMA_IOPT, MAIN_SB_IOPT} else {})
     \<union> (if pm then {MAIN_VDMA_IOPT_PM1, MAIN_VDMA_IOPT_PM2, MAIN_VDMA_IOPT_PM3, MAIN_VHDMA_IOPT_PM1, MAIN_VHDMA_IOPT_PM2,
       MAIN_VHDMA_IOPT_PM3, MAIN_VIRQ_IOPT_PM1, MAIN_VIRQ_IOPT_PM2, MAIN_SB_IOPT_PM} else {})"

lemma iopts_disjoint: "opl_iopts a b \<inter> mpu_iopts c d = {}" "opl_iopts a b \<inter> sb_iopts e f = {}" "mpu_iopts c d \<inter> sb_iopts e f = {}"
  by (auto simp: opl_iopts_def mpu_iopts_def sb_iopts_def split: if_splits)

lemma install_opl_iopts:
  "map call_iopt (install_opl rm pm t) = (if rm then [OPL3IOPT] else []) @ (if pm then [OPL3IOPT_PM] else [])"
  "map call_iopt (install_mpu rm pm p t) = (if rm then [MPUIOPT] else []) @ (if pm then [MPUIOPT_PM] else [])"
  by (simp_all add: install_defs)

lemma install_sb_iopts:
  "map call_iopt (install_sb env rm pm p t) = (if rm then [MAIN_VDMA_IOPT, MAIN_SB_IOPT] else [])
     @ (if pm then [MAIN_VDMA_IOPT_PM1, MAIN_VDMA_IOPT_PM2, MAIN_VDMA_IOPT_PM3, MAIN_VHDMA_IOPT_PM1, MAIN_VHDMA_IOPT_PM2,
       MAIN_VHDMA_IOPT_PM3, MAIN_VIRQ_IOPT_PM1, MAIN_VIRQ_IOPT_PM2, MAIN_SB_IOPT_PM] else [])"
  by (simp add: install_sb_def Let_def)

lemma install_parts_tables:
  "\<forall>c\<in>set (install_opl rm pm t). call_table c \<noteq> None" "\<forall>c\<in>set (install_mpu rm pm p t). call_table c \<noteq> None"
  "\<forall>c\<in>set (install_sb env rm pm p t). call_table c \<noteq> None"
  by (cases rm; cases pm; simp add: install_defs Let_def)+

lemma install_parts_iopts:
  "call_iopt ` set (install_opl rm pm t) = opl_iopts rm pm" "call_iopt ` set (install_mpu rm pm p t) = mpu_iopts rm pm"
  "call_iopt ` set (install_sb env rm pm p t) = sb_iopts rm pm"
  unfolding set_map [symmetric] install_opl_iopts install_sb_iopts
  by (cases rm; cases pm; simp add: opl_iopts_def mpu_iopts_def sb_iopts_def insert_commute)+

lemma install_parts_distinct:
  "distinct (map call_iopt (install_opl rm pm t))" "distinct (map call_iopt (install_mpu rm pm p t))"
  "distinct (map call_iopt (install_sb env rm pm p t))"
  unfolding install_opl_iopts install_sb_iopts by (cases rm; cases pm; simp)+

lemma install_all_iopts:
  "call_iopt ` set (install_all env hwfm fm388 os sb) =
    (if opl_trapped hwfm fm388 os then opl_iopts (opt_on os OPT_RM) (opt_on os OPT_PM) else {})
    \<union> (if mpu_on os then mpu_iopts (opt_on os OPT_RM) (opt_on os OPT_PM) else {}) \<union> sb_iopts (opt_on os OPT_RM) (opt_on os OPT_PM)"
  by (cases "opl_trapped hwfm fm388 os"; cases "mpu_on os")
    (simp_all add: install_all_def Let_def image_Un install_parts_iopts Un_assoc)

lemma install_all_ok:
  "\<forall>c\<in>set (install_all env hwfm fm388 os sb). call_table c \<noteq> None"
  "distinct (map call_iopt (install_all env hwfm fm388 os sb))"
  by (cases "opl_trapped hwfm fm388 os"; cases "mpu_on os";
      simp add: install_all_def Let_def ball_Un install_parts_tables [simplified] install_parts_distinct install_parts_iopts iopts_disjoint Int_Un_distrib)+

lemma MAIN_install_do: "trap_calls_do (install_all env hwfm fm388 os sb) [] = Some (installed (install_all env hwfm fm388 os sb))"
  by (subst installs_do [OF install_all_ok]) simp_all

definition opl_flags_right :: "bool \<Rightarrow> bool \<Rightarrow> options \<Rightarrow> 'h tsr \<Rightarrow> bool" where
  "opl_flags_right hwfm fm388 os t = (opt_on os OPT_OPL \<longrightarrow>
     (opt_on os OPT_RM \<longrightarrow> OPLRMInstalled t = (\<not> (hwfm \<and> fm388))) \<and> (opt_on os OPT_PM \<longrightarrow> OPLPMInstalled t = (\<not> (hwfm \<and> fm388))))"

lemma TSR_uninstall_tables: "\<forall>c\<in>set (TSR_uninstall t os). call_table c = None"
  unfolding TSR_uninstall_def set_append ball_Un by (auto split: if_splits)

lemma TSR_uninstall_distinct: "distinct (map call_iopt (TSR_uninstall t os))"
  unfolding TSR_uninstall_def
  by (cases "opt_on os OPT_RM"; cases "opt_on os OPT_PM"; cases "mpu_on os"; cases "opt_on os OPT_OPL"; simp)

lemmas TSR_uninstall_ok = TSR_uninstall_tables TSR_uninstall_distinct

lemma TSR_uninstall_all:
  assumes "opl_flags_right hwfm fm388 os t"
  shows "call_iopt ` set (TSR_uninstall t os) = call_iopt ` set (install_all env hwfm fm388 os sb)"
  unfolding install_all_iopts
  using assms unfolding opl_flags_right_def TSR_uninstall_def opl_iopts_def mpu_iopts_def sb_iopts_def opl_trapped_def
  by (cases "opt_on os OPT_RM"; cases "opt_on os OPT_PM") (auto split: if_splits)

lemma TSR_reinstall_do:
  assumes "opl_flags_right hwfm fm388 os t" "trap_calls_do (install_all env hwfm fm388 os sb) [] = Some ts"
  shows "trap_calls_do (TSR_uninstall t os @ install_all env h2 f2 new sb2) ts = Some (installed (install_all env h2 f2 new sb2))"
proof -
  have ts: "ts = installed (install_all env hwfm fm388 os sb)" using assms(2) by (simp add: MAIN_install_do)
  have k: "fst ` set ts = call_iopt ` set (TSR_uninstall t os)"
    unfolding TSR_uninstall_all [OF assms(1), of env sb] by (simp add: ts installed_def image_image)
  have "trap_calls_do (TSR_uninstall t os) ts = Some (filter (\<lambda>x. fst x \<notin> call_iopt ` set (TSR_uninstall t os)) ts)"
    by (rule uninstalls_do [OF TSR_uninstall_ok]) (simp add: k)
  also have "filter (\<lambda>x. fst x \<notin> call_iopt ` set (TSR_uninstall t os)) ts = []"
    unfolding k [symmetric] by (simp add: filter_empty_conv)
  finally show ?thesis by (simp add: trap_calls_do_append MAIN_install_do)
qed

lemma TSR_move_sb: "TSR_move a b (MAIN_SB_IODT env a) = MAIN_SB_IODT env b"
  by (simp add: TSR_move_def MAIN_SB_IODT_def)

text \<open>C9: Changing the settings of the resident copy leaves exactly the trap tables a fresh start with the new settings (as far as the
  memory manager and the DPMI host allow them) would have installed, in real and in protected mode: no table is installed twice,
  removed while it is not installed, or left behind, and the Sound Blaster's table is at the new address. It needs the flags for the FM
  tables to tell whether these are installed, which holds after the start.\<close>

theorem tsr_traps_reinstalled:
  assumes "opl_flags_right (fm (m_fm_aui (t_main t))) (t_fm388 t) os t" "os = m_options (t_main t)"
    and "t_sb_iodt t = MAIN_SB_IODT (t_env te) (opt_u32 os OPT_ADDR)"
    and "trap_calls_do (MAIN_install (t_env te) (fm (m_fm_aui (t_main t))) (t_fm388 t) os) [] = Some ts"
    and "TSR_traps te new t = (calls, t')"
  shows "trap_calls_do calls ts = trap_calls_do (MAIN_install (t_env te) (fm (m_fm_aui (t_main t))) (t_fm388 t) (TSR_limit t new)) []
    \<and> trap_calls_do calls ts \<noteq> None \<and> t_sb_iodt t' = MAIN_SB_IODT (t_env te) (opt_u32 (m_options (t_main t')) OPT_ADDR)"
proof -
  let ?new = "TSR_limit t new"
  have a: "opt_value ?new OPT_ADDR = opt_value new OPT_ADDR" by (simp add: TSR_limit_def Let_def)
  have sb: "(if opt_value ?new OPT_ADDR \<noteq> opt_value os OPT_ADDR then TSR_move (opt_u32 os OPT_ADDR) (opt_u32 ?new OPT_ADDR) (t_sb_iodt t)
      else t_sb_iodt t) = MAIN_SB_IODT (t_env te) (opt_u32 ?new OPT_ADDR)"
    using assms(3) by (simp add: TSR_move_sb opt_u32_def)
  have c: "calls = TSR_uninstall t os @ install_all (t_env te) (fm (m_fm_aui (t_main t))) (t_fm388 t) ?new
      (MAIN_SB_IODT (t_env te) (opt_u32 ?new OPT_ADDR))"
    and t': "t_sb_iodt t' = MAIN_SB_IODT (t_env te) (opt_u32 ?new OPT_ADDR)" "opt_u32 (m_options (t_main t')) OPT_ADDR = opt_u32 ?new OPT_ADDR"
    using assms(5) unfolding TSR_traps_def Let_def assms(2) [symmetric] sb by (auto simp: opt_u32_def)
  show ?thesis
    using TSR_reinstall_do [OF assms(1) assms(4) [unfolded MAIN_install_def]] t' by (simp add: c MAIN_install_def MAIN_install_do)
qed


section \<open>The options that arrive\<close>

definition keeps_options :: "'h tsr_env \<Rightarrow> bool" where
  "keeps_options te = (\<forall>r. m_options (t_AU_init te r) = m_options r)"

lemma with_serial_options [simp]: "m_options (with_serial f r) = m_options r"
  by (simp add: with_serial_def split_beta)

lemma on_hw_options [simp]: "m_options (on_hw f r) = m_options r"
  by (simp add: on_hw_def)

text \<open>Which options a step of the change has taken over from the new settings.\<close>

definition took :: "opt set \<Rightarrow> options \<Rightarrow> options \<Rightarrow> options \<Rightarrow> bool" where
  "took A new os os' = (\<forall>i. opt_value os' i = (if i \<in> A then opt_value new i else opt_value os i))"

lemma took_trans: "took A new os os1 \<Longrightarrow> took B new os1 os2 \<Longrightarrow> took (A \<union> B) new os os2"
  by (auto simp: took_def)

lemma TSR_serial_took: "took {OPT_MDBG, OPT_DEBUG_OUTPUT} new (m_options r) (m_options (TSR_serial te new r))"
  by (simp add: took_def TSR_serial_def Let_def)

lemma TSR_reset_card_options:
  assumes "keeps_options te" "TSR_reset_card te new r = Inr r2"
  shows "opt_value (m_options r2) = (opt_value (m_options r))(OPT_OUTPUT := opt_value new OPT_OUTPUT, OPT_VOL := - opt_value new OPT_VOL - 1)"
  using assms by (auto simp: TSR_reset_card_def TSR_close_def keeps_options_def Let_def split_beta)

lemma TSR_rate_options:
  "TSR_rate te new r = Inr r2 \<Longrightarrow> opt_value (m_options r2) = (opt_value (m_options r))(OPT_RATE := opt_value new OPT_RATE)"
  by (auto simp: TSR_rate_def Let_def split_beta)

lemma tookI:
  "(\<And>i. i \<in> A \<Longrightarrow> opt_value os' i = opt_value new i) \<Longrightarrow> (\<And>i. i \<notin> A \<Longrightarrow> opt_value os' i = opt_value os i) \<Longrightarrow> took A new os os'"
  by (simp add: took_def)

lemma TSR_audio_took:
  assumes k: "keeps_options te" and a: "TSR_audio te new r = Inr r2"
  shows "took {OPT_OUTPUT, OPT_RATE, OPT_VOL} new (m_options r) (m_options r2)"
proof -
  let ?c = "optv r OPT_OUTPUT \<noteq> opt_value new OPT_OUTPUT \<or> optv r OPT_RATE \<noteq> opt_value new OPT_RATE \<or> opt_on new OPT_RESET"
  let ?d = "opt_value new OPT_OUTPUT \<noteq> optv r OPT_OUTPUT \<or> opt_on new OPT_RESET"
  obtain r1 where r1: "(if ?c then bindE (if ?d then TSR_reset_card te new r else Inr r) (TSR_rate te new) else Inr r) = Inr r1"
    and v: "(if optv r1 OPT_VOL \<noteq> opt_value new OPT_VOL then
      (let r = set_opt OPT_VOL (opt_value new OPT_VOL) r1 in
       bindE (AU_setmixer_one (e_card (t_env te)) AU_MIXCHAN_MASTER MIXER_SETMODE_ABSOLUTE (cdiv (optv r OPT_VOL * 100) 9) (m_aui r, m_glb r))
         (\<lambda>(a, g). Inr (r\<lparr>m_aui := a, m_glb := g\<rparr>)))
    else Inr r1) = Inr r2"
    using a unfolding TSR_audio_def bindE_eq_Inr by blast
  have o1: "optv r1 OPT_OUTPUT = opt_value new OPT_OUTPUT \<and> optv r1 OPT_RATE = opt_value new OPT_RATE
      \<and> (\<forall>i. i \<notin> {OPT_OUTPUT, OPT_RATE, OPT_VOL} \<longrightarrow> optv r1 i = optv r i)"
  proof (cases ?c)
    case c: True
    then obtain r0 where r0: "(if ?d then TSR_reset_card te new r else Inr r) = Inr r0" "TSR_rate te new r0 = Inr r1"
      using r1 unfolding if_P [OF c] bindE_eq_Inr by blast
    show ?thesis
    proof (cases ?d)
      case True
      then have "TSR_reset_card te new r = Inr r0" using r0(1) by (simp only: if_True)
      then show ?thesis using TSR_reset_card_options [OF k] TSR_rate_options [OF r0(2)] by simp
    next
      case False
      then have "r0 = r" using r0(1) by (simp only: if_False sum.inject)
      then show ?thesis using False TSR_rate_options [OF r0(2)] by simp
    qed
  next
    case False
    then have "r1 = r" using r1 by (simp only: if_False sum.inject)
    then show ?thesis using False by blast
  qed
  have "opt_value (m_options r2) = (opt_value (m_options r1))(OPT_VOL := opt_value new OPT_VOL)"
    using v by (auto simp: Let_def split_beta split: if_splits)
  then show ?thesis using o1 by (intro tookI) auto
qed

lemma TSR_dma_options [simp]: "m_options (TSR_dma new r) = m_options r"
  by (simp add: TSR_dma_def Let_def)

lemma TSR_sb_took:
  assumes "TSR_sb te new r = Inr r2"
  shows "took {OPT_DMA, OPT_HDMA, OPT_IRQ, OPT_TYPE, OPT_FIX_TC} new (m_options r) (m_options r2)"
proof (cases "\<exists>i\<in>set [OPT_DMA, OPT_HDMA, OPT_IRQ, OPT_TYPE, OPT_FIX_TC]. optv r i \<noteq> opt_value new i")
  case c: True
  from assms show ?thesis unfolding TSR_sb_def if_P [OF c] Let_def bindE_eq_Inr by (auto simp: took_def)
next
  case c: False
  from assms have "r2 = r" unfolding TSR_sb_def if_not_P [OF c] by simp
  then show ?thesis using c by (auto simp: took_def)
qed

lemma TSR_traps_took:
  assumes "TSR_traps te new t = (calls, t2)"
  shows "took {OPT_MPUADDR, OPT_MPUCOMPORT, OPT_ADDR, OPT_PM, OPT_RM, OPT_OPL} (TSR_limit t new) (m_options (t_main t)) (m_options (t_main t2))"
  using assms by (auto simp: TSR_traps_def Let_def took_def)

lemma TSR_limit_other: "i \<notin> {OPT_PM, OPT_RM} \<Longrightarrow> opt_value (TSR_limit t new) i = opt_value new i"
  by (simp add: TSR_limit_def Let_def)

definition tsr_settings :: "opt set" where
  "tsr_settings = {OPT_MDBG, OPT_DEBUG_OUTPUT, OPT_OUTPUT, OPT_RATE, OPT_VOL, OPT_DMA, OPT_HDMA, OPT_IRQ, OPT_TYPE, OPT_FIX_TC,
     OPT_MPUADDR, OPT_MPUCOMPORT, OPT_ADDR, OPT_PM, OPT_RM, OPT_OPL}"

text \<open>The settings the trap tables depend on.\<close>

definition tsr_trap_settings :: "opt set" where
  "tsr_trap_settings = {OPT_OPL, OPT_ADDR, OPT_PM, OPT_RM, OPT_MPUADDR, OPT_MPUCOMPORT}"

text \<open>C26: Every setting a second run sends arrives: after a change that succeeds the resident copy has the new value of each of fourteen of the sixteen
  settings it handles, in whatever combination they changed (also where a step overwrites one for a while, as the reset of the
  card does with the volume). The other two, the support for protected and real mode, are on exactly if they are asked for and HDPMI or QEMM is present, as soon
  as one of the settings that the trap tables depend on differs; where none differs they are as before, which is what was sent. Every other
  option is as before. The program's own initialisation of the audio interrupts, a parameter, keeps the options.\<close>

theorem tsr_settings_arrive:
  assumes k: "keeps_options te" and a: "TSR_set te new t = Inr (calls, t2)"
  shows "(\<forall>i. i \<notin> tsr_settings \<longrightarrow> optv (t_main t2) i = optv (t_main t) i)
    \<and> (\<forall>i\<in>tsr_settings - {OPT_PM, OPT_RM}. optv (t_main t2) i = opt_value new i)
    \<and> (if \<exists>i\<in>tsr_trap_settings. optv (t_main t) i \<noteq> opt_value new i
       then optv (t_main t2) OPT_PM = (if opt_on new OPT_PM \<and> t_hdpmi_present t then 1 else 0)
         \<and> optv (t_main t2) OPT_RM = (if opt_on new OPT_RM \<and> t_qemm_present t then 1 else 0)
       else optv (t_main t2) OPT_PM = optv (t_main t) OPT_PM \<and> optv (t_main t2) OPT_RM = optv (t_main t) OPT_RM)"
proof -
  let ?io = "e_io (t_env te)" and ?irq = "card_irq (m_aui (t_main t))"
  obtain h where h: "PIC_MaskIRQ ?io ?irq (hw (t_main t)) = Inr h"
    using a unfolding TSR_set_def Let_def bindE_eq_Inr by blast
  obtain r1 where r1: "TSR_audio te new (TSR_serial te new (set_hw h (t_main t))) = Inr r1"
    using a unfolding TSR_set_def Let_def h bindE_simps bindE_eq_Inr by blast
  obtain h2 where h2: "PIC_UnmaskIRQ ?io ?irq (hw r1) = Inr h2"
    using a unfolding TSR_set_def Let_def h r1 bindE_simps bindE_eq_Inr by blast
  obtain r2 where r2: "TSR_sb te new (TSR_dma new (set_hw h2 r1)) = Inr r2"
    using a unfolding TSR_set_def Let_def h r1 h2 bindE_simps bindE_eq_Inr by blast
  let ?t = "t\<lparr>t_main := r2, t_mpu_debug := opt_value new OPT_MDBG\<rparr>"
  have e: "(if TSR_same_traps (m_options r2) new then ([], ?t) else TSR_traps te new ?t) = (calls, t2)"
    using a unfolding TSR_set_def Let_def h r1 h2 r2 bindE_simps by (simp only: sum.inject)
  have "took {OPT_MDBG, OPT_DEBUG_OUTPUT} new (m_options (t_main t)) (m_options (TSR_serial te new (set_hw h (t_main t))))"
    using TSR_serial_took [of new "set_hw h (t_main t)" te] by simp
  moreover note TSR_audio_took [OF k r1]
  moreover have "took {OPT_DMA, OPT_HDMA, OPT_IRQ, OPT_TYPE, OPT_FIX_TC} new (m_options r1) (m_options r2)"
    using TSR_sb_took [OF r2] by simp
  ultimately have o2: "took ({OPT_MDBG, OPT_DEBUG_OUTPUT} \<union> {OPT_OUTPUT, OPT_RATE, OPT_VOL}
      \<union> {OPT_DMA, OPT_HDMA, OPT_IRQ, OPT_TYPE, OPT_FIX_TC}) new (m_options (t_main t)) (m_options r2)"
    by (intro took_trans)
  have old: "optv r2 i = optv (t_main t) i" if "i \<in> tsr_trap_settings" for i
    using o2 that by (auto simp: took_def tsr_trap_settings_def)
  have fix_tc: "optv r2 OPT_FIX_TC = opt_value new OPT_FIX_TC" using o2 by (simp add: took_def)
  have same: "TSR_same_traps (m_options r2) new = (\<not> (\<exists>i\<in>tsr_trap_settings. optv (t_main t) i \<noteq> opt_value new i))"
    using old fix_tc by (auto simp: TSR_same_traps_def tsr_trap_settings_def)
  show ?thesis
  proof (cases "TSR_same_traps (m_options r2) new")
    case True
    then have "t2 = ?t" using e by simp
    then show ?thesis using o2 True same by (auto simp: took_def TSR_same_traps_def tsr_settings_def)
  next
    case False
    have l: "TSR_limit ?t new = TSR_limit t new" by (simp add: TSR_limit_def)
    have "TSR_traps te new ?t = (calls, t2)" using e False by simp
    note x = TSR_traps_took [OF this, unfolded l]
    have "optv (t_main t2) OPT_PM = (if opt_on new OPT_PM \<and> t_hdpmi_present t then 1 else 0)"
      "optv (t_main t2) OPT_RM = (if opt_on new OPT_RM \<and> t_qemm_present t then 1 else 0)"
      using x by (simp_all add: took_def TSR_limit_def Let_def opt_on_def)
    moreover have "(\<forall>i. i \<notin> tsr_settings \<longrightarrow> optv (t_main t2) i = optv (t_main t) i)
        \<and> (\<forall>i\<in>tsr_settings - {OPT_PM, OPT_RM}. optv (t_main t2) i = opt_value new i)"
      using o2 x TSR_limit_other [of _ t new] by (auto simp: took_def tsr_settings_def)
    ultimately show ?thesis using False same by simp
  qed
qed


section \<open>The second run\<close>

text \<open>\<open>same_id\<close> compares the identification string at a segment and offset with the program's; \<open>read\<close> copies the table of options at an
  address, \<open>put\<close> stores one and gives its address; \<open>blaster\<close> writes the \<open>BLASTER\<close> variable. The result is the settings the
  resident copy has at the end, when there is one; then the second run ends.\<close>

record 'd tsr_client =
  c_ops :: "'d rm_ops"
  c_same_id :: "u16 \<Rightarrow> u16 \<Rightarrow> 'd \<Rightarrow> bool"
  c_read :: "u32 \<Rightarrow> 'd \<Rightarrow> options"
  c_put :: "options \<Rightarrow> 'd \<Rightarrow> u32 \<times> 'd"
  c_blaster :: "string \<Rightarrow> 'd \<Rightarrow> 'd"

definition tsr_call :: "'d tsr_client \<Rightarrow> u8 \<Rightarrow> u8 \<Rightarrow> DPMI_REG \<Rightarrow> 'd \<Rightarrow> DPMI_REG \<times> 'd" where
  "tsr_call c i f r d = DPMI_CallRealModeINT (c_ops c) 0x2D (set_al f (set_ah i r)) d"

definition tsr_change :: "'d tsr_client \<Rightarrow> options \<Rightarrow> u8 \<Rightarrow> DPMI_REG \<Rightarrow> 'd \<Rightarrow> options \<times> 'd" where
  "tsr_change c own i r d =
    (let (r, d) = tsr_call c i 0x01 r d;
         new = merge_options own (c_read c (r_ebx r) d);
         d = (if \<exists>j\<in>set [OPT_ADDR, OPT_IRQ, OPT_DMA, OPT_TYPE, OPT_HDMA]. opt_set own j then c_blaster c (MAIN_SetBlasterEnv new) d else d);
         (p, d) = c_put c new d;
         (r, d) = DPMI_CallRealModeINT (c_ops c) 0x2D (set_al 0x02 (set_ah i r)\<lparr>r_ebx := p\<rparr>) d;
         (r, d) = tsr_call c i 0x01 r d
     in (c_read c (r_ebx r) d, d))"

fun tsr_search :: "'d tsr_client \<Rightarrow> options \<Rightarrow> u8 list \<Rightarrow> 'd \<Rightarrow> options option \<times> 'd" where
  "tsr_search c own [] d = (None, d)"
| "tsr_search c own (i # is) d =
    (let (r, d) = DPMI_CallRealModeINT (c_ops c) 0x2D (set_ah i reg_zero) d in
     if reg_al r = 0 \<or> \<not> c_same_id c (reg_dx r) (reg_di r) d then tsr_search c own is d
     else (let (os, d) = tsr_change c own i r d in (Some os, d)))"

definition MAIN_TSR_InstallationCheck :: "'d tsr_client \<Rightarrow> options \<Rightarrow> 'd \<Rightarrow> options option \<times> 'd" where
  "MAIN_TSR_InstallationCheck c own = tsr_search c own (map of_nat [1..<256])"

text \<open>What the second run sends, option by option.\<close>

lemma fold_set_values:
  assumes "distinct (map opt_id es)"
  shows "opt_value (fold (\<lambda>e new. if P e \<and> opt_value own (opt_id e) \<noteq> opt_value new (opt_id e)
       then set_value (opt_id e) (opt_value own (opt_id e)) new else new) es res) i
    = (if \<exists>e\<in>set es. opt_id e = i \<and> P e then opt_value own i else opt_value res i)"
  using assms by (induction es arbitrary: res) (auto split: if_splits)

lemma MAIN_Options_distinct: "distinct (map opt_id MAIN_Options)"
  by (simp add: MAIN_Options_def mk_opt_def)

definition opt_sent :: "options \<Rightarrow> opt \<Rightarrow> bool" where
  "opt_sent own i = (i = OPT_RESET \<and> opt_on own OPT_RESET \<or> opt_set own i \<and>
     i \<notin> {OPT_PCI, OPT_RATE, OPT_SCLIST, OPT_SCFM, OPT_SCMPU, OPT_SC, OPT_RESET, OPT_COMPORTLIST})"

lemma plain_options:
  "map opt_id (filter (\<lambda>e. \<not> opt_hidden e \<and> \<not> opt_base10 e) MAIN_Options) =
    [OPT_Help, OPT_DEBUG_OUTPUT, OPT_ADDR, OPT_IRQ, OPT_DMA, OPT_TYPE, OPT_HDMA, OPT_OPL, OPT_PM, OPT_RM, OPT_OUTPUT, OPT_VOL,
     OPT_FIX_TC, OPT_MPUADDR, OPT_MPUCOMPORT, OPT_MDBG]"
  by (simp add: MAIN_Options_def mk_opt_def)

lemma setcmd_is_set_iff: "(\<exists>e\<in>set MAIN_Options. opt_id e = i \<and> setcmd_is_set own e) \<longleftrightarrow> opt_set own i \<and>
     i \<notin> {OPT_PCI, OPT_RATE, OPT_SCLIST, OPT_SCFM, OPT_SCMPU, OPT_SC, OPT_RESET, OPT_COMPORTLIST}"
proof -
  have "(\<exists>e\<in>set MAIN_Options. opt_id e = i \<and> setcmd_is_set own e) \<longleftrightarrow>
      opt_set own i \<and> i \<in> set (map opt_id (filter (\<lambda>e. \<not> opt_hidden e \<and> \<not> opt_base10 e) MAIN_Options))"
    by (auto simp: setcmd_is_set_def)
  then show ?thesis unfolding plain_options by (cases i) simp_all
qed

lemma merge_options_value: "opt_value (merge_options own res) i = (if opt_sent own i then opt_value own i else opt_value res i)"
  using fold_set_values [OF MAIN_Options_distinct, of "setcmd_is_set own" own res] setcmd_is_set_iff [of i own]
  by (auto simp: merge_options_def Let_def opt_sent_def)

text \<open>The option \<open>/K\<close> is never sent, although the resident copy would handle it.\<close>

lemma merge_rate_lost: "opt_value (merge_options own res) OPT_RATE = opt_value res OPT_RATE"
  by (simp add: merge_options_value opt_sent_def)

section \<open>Examples\<close>

definition tsr_env_demo :: "unit tsr_env" where
  "tsr_env_demo = \<lparr>t_env = env_demo, t_bda = (\<lambda>_. 0), t_lfn = \<lparr>is_lfn_support = False, uselfn_enabled = False\<rparr>, t_AU_init = id,
    t_OPL3EMU_Init = (\<lambda>_ h. h), t_LockIRQRouting = (\<lambda>_ h. h), t_IRQGUARD_Install = (\<lambda>_ h. h)\<rparr>"

definition tsr_demo :: "unit tsr" where
  "tsr_demo = \<lparr>t_main = main_demo, MAIN_TSRREG = reg_zero, t_sb_iodt = MAIN_SB_IODT env_demo 0x220, OPLRMInstalled = True,
    OPLPMInstalled = True, t_qemm_present = True, t_hdpmi_present = True, t_fm388 = False, t_untrapped_qemm = False, t_mpu_debug = 0\<rparr>"

lemma default_values [simp]:
  "opt_value default_options OPT_ADDR = 0x220" "opt_value default_options OPT_OPL = 1" "opt_value default_options OPT_RM = 1"
  "opt_value default_options OPT_PM = 1" "opt_value default_options OPT_DMA = 1" "opt_value default_options OPT_RESET = 0"
  "opt_value default_options OPT_TYPE = 5" "opt_value default_options OPT_IRQ = 7" "opt_value default_options OPT_HDMA = 5"
  by (simp_all add: default_options_def MAIN_Options_def mk_opt_def)

lemma tsr_demo_simps [simp]:
  "m_options (t_main tsr_demo) = default_options" "fm (m_fm_aui (t_main tsr_demo)) = False" "t_env tsr_env_demo = env_demo"
  "t_sb_iodt tsr_demo = MAIN_SB_IODT env_demo 0x220" "t_fm388 tsr_demo = False" "card_irq (m_aui (t_main tsr_demo)) = 5"
  by (simp_all add: tsr_demo_def tsr_env_demo_def main_demo_def aui0_def)

theorem tsr_traps_reinstalled_witness:
  "trap_calls_do (fst (TSR_traps tsr_env_demo (set_value OPT_ADDR 0x240 default_options) tsr_demo))
     (installed (MAIN_install env_demo False False default_options)) \<noteq> None"
proof -
  let ?new = "set_value OPT_ADDR 0x240 default_options"
  have "opl_flags_right (fm (m_fm_aui (t_main tsr_demo))) (t_fm388 tsr_demo) default_options tsr_demo"
    by (simp add: opl_flags_right_def) (simp add: tsr_demo_def)
  moreover have "trap_calls_do (MAIN_install env_demo False False default_options) [] = Some (installed (MAIN_install env_demo False False default_options))"
    by (simp add: MAIN_install_def MAIN_install_do)
  ultimately show ?thesis
    using tsr_traps_reinstalled [of tsr_demo default_options tsr_env_demo _ ?new "fst (TSR_traps tsr_env_demo ?new tsr_demo)"
      "snd (TSR_traps tsr_env_demo ?new tsr_demo)", THEN conjunct2, THEN conjunct1] by (simp add: opt_u32_def)
qed

lemma TSR_set_demo: "\<exists>t2. TSR_set tsr_env_demo (set_value OPT_DMA 3 default_options) tsr_demo = Inr ([], t2)"
proof -
  have io: "e_io env_demo = quiet_io" by (simp add: env_demo_def)
  have h: "\<exists>h. PIC_MaskIRQ quiet_io 5 g = Inr h" "\<exists>h. PIC_UnmaskIRQ quiet_io 5 g = Inr h" for g
    by (simp_all add: PIC_MaskIRQ_def PIC_UnmaskIRQ_def shl1_def Let_def split_beta)
  show ?thesis using h
    by (auto simp: TSR_set_def io TSR_audio_def TSR_serial_def TSR_dma_def TSR_sb_def TSR_same_traps_def opt_on_def Let_def
      MAIN_SB_DSPVersion_def)
qed

theorem tsr_settings_arrive_witness:
  "\<exists>t2. TSR_set tsr_env_demo (set_value OPT_DMA 3 default_options) tsr_demo = Inr ([], t2) \<and> optv (t_main t2) OPT_DMA = 3"
proof -
  obtain t2 where "TSR_set tsr_env_demo (set_value OPT_DMA 3 default_options) tsr_demo = Inr ([], t2)" using TSR_set_demo by blast
  moreover have "keeps_options tsr_env_demo" by (simp add: keeps_options_def tsr_env_demo_def)
  ultimately show ?thesis using tsr_settings_arrive by (fastforce simp: tsr_settings_def)
qed

text \<open>The flags for the FM tables are set at the start only. When FM was off then and has been switched on since, the next
  change installs the FM table a second time.\<close>

lemma tsr_opl_flag_stale:
  assumes "OPL3IOPT \<in> fst ` set ts" "\<not> OPLRMInstalled t" "opl_trapped (fm (m_fm_aui (t_main t))) (t_fm388 t) (TSR_limit t new)"
    "opt_on (TSR_limit t new) OPT_RM"
  shows "trap_calls_do (fst (TSR_traps te new t)) ts = None"
proof -
  let ?un = "TSR_uninstall t (m_options (t_main t))"
  have "OPL3IOPT \<notin> call_iopt ` set ?un" using assms(2) by (auto simp: TSR_uninstall_def split: if_splits)
  moreover have keep: "OPL3IOPT \<in> fst ` set ts2" if "trap_calls_do cs ts = Some ts2" "OPL3IOPT \<notin> call_iopt ` set cs" "OPL3IOPT \<in> fst ` set ts" for cs ts2 ts
    using that
  proof (induction cs arbitrary: ts)
    case (Cons c cs)
    then obtain ts1 where c: "trap_call_do c ts = Some ts1" "trap_calls_do cs ts1 = Some ts2" by (auto split: option.splits)
    have "OPL3IOPT \<in> fst ` set ts1"
      using c(1) Cons.prems(2,3) unfolding trap_call_do_cases by (force split: option.splits if_splits)
    then show ?case using Cons.IH c(2) Cons.prems(2) by simp
  qed simp
  moreover obtain rest t2 where "TSR_traps te new t = (?un @ QEMM_Install (opl_table (t_env te) (fm (m_fm_aui (t_main t)))) OPL3IOPT # rest, t2)"
    using assms(3, 4) by (simp add: TSR_traps_def Let_def install_all_def install_opl_def)
  ultimately show ?thesis using assms(1) keep [of ?un ts]
    by (cases "trap_calls_do ?un ts") (simp_all add: trap_calls_do_append)
qed

text \<open>On a card before the SB16 the program stores the 8-bit DMA channel as the 16-bit one too. A change to an SB16 with a 16-bit
  channel of its own then switches the virtualisation of the 8-bit channel off.\<close>

lemma tsr_hdma_unvirtualises:
  assumes "optv r OPT_DMA = 1" "optv r OPT_HDMA = 1" "opt_value new OPT_DMA = 1" "opt_value new OPT_HDMA = 5"
  shows "\<not> VDMA_VMask (m_vd (TSR_dma new r)) 1"
  using assms by (simp add: TSR_dma_def VDMA_Virtualize_def)

end
