(* ===== verification/Xms.thy ===== *)
theory Xms
  imports Regs
begin

text \<open>
  \<open>src/sbemu/dpmi/xms.c\<close>: the client of the XMS driver. The state is the register
  set \<open>XMSReg\<close>, which holds the entry point of the driver once it has been found; the
  driver itself is real-mode code, reached through \<open>rm_ops\<close>. A failing assertion ends
  the program (this file is compiled with assertions on).
\<close>

definition XMS_IsInited :: "DPMI_REG \<Rightarrow> bool" where
  "XMS_IsInited r = (r_cs r \<noteq> 0 \<or> r_ip r \<noteq> 0)"

definition XMS_Init :: "'d rm_ops \<Rightarrow> DPMI_REG \<times> 'd \<Rightarrow> bool \<times> DPMI_REG \<times> 'd" where
  "XMS_Init ops w =
     (if XMS_IsInited (fst w) then (True, w)
      else let (r, d) = DPMI_CallRealModeINT ops 0x2F (set_ax 0x4300 reg_zero) (snd w)
           in if reg_al r \<noteq> 0x80 then (False, r, d)
              else let (r, d) = DPMI_CallRealModeINT ops 0x2F (set_ax 0x4310 r) d;
                       r = r\<lparr>r_cs := r_es r\<rparr>;
                       r = r\<lparr>r_ip := reg_bx r\<rparr>;
                       r = r\<lparr>r_sp := 0, r_ss := 0\<rparr>
                   in (True, r, d))"

text \<open>The driver answers the address of a locked block in \<open>dx:bx\<close>.\<close>

definition xms_addr :: "DPMI_REG \<Rightarrow> u32" where
  "xms_addr r = push_bit 16 (ucast (reg_dx r)) OR ucast (reg_bx r)"

definition XMS_Alloc :: "'d rm_ops \<Rightarrow> u16 \<Rightarrow> DPMI_REG \<times> 'd \<Rightarrow> ((u16 \<times> u32) \<times> DPMI_REG \<times> 'd) res" where
  "XMS_Alloc ops sizeKB w =
     (if sizeKB = 0 then Inl Assert_failed
      else let (ok, xr, d) = XMS_Init ops w
      in if \<not> ok then Inl Assert_failed
      else let (r, d) = DPMI_CallRealModeRETF ops (set_dx sizeKB (set_ah 0x09 xr)) d
      in if reg_ax r \<noteq> 1 then Inr ((0, 0), xr, d)
      else let handle = reg_dx r;
               (r, d) = DPMI_CallRealModeRETF ops (set_ah 0x0C (set_dx handle xr)) d
      in if reg_ax r \<noteq> 1
         then let (r, d) = DPMI_CallRealModeRETF ops (set_ah 0x0A xr) d in Inr ((handle, 0), xr, d)
         else Inr ((handle, xms_addr r), xr, d))"

definition XMS_Realloc :: "'d rm_ops \<Rightarrow> u16 \<Rightarrow> u16 \<Rightarrow> DPMI_REG \<times> 'd \<Rightarrow> ((bool \<times> u32) \<times> DPMI_REG \<times> 'd) res" where
  "XMS_Realloc ops handle newSizeKB w =
     (let (xr, d) = w in
      if \<not> XMS_IsInited xr then Inl Assert_failed
      else let (r, d) = DPMI_CallRealModeRETF ops (set_dx handle (set_ah 0x0D xr)) d
      in if reg_ax r \<noteq> 1 then Inl Assert_failed
      else let (r, d) = DPMI_CallRealModeRETF ops (set_bx newSizeKB (set_dx handle (set_ah 0x0F xr))) d;
               result = (reg_ax r = 1);
               (r, d) = DPMI_CallRealModeRETF ops (set_ah 0x0C (set_dx handle xr)) d
      in Inr ((result, if reg_ax r \<noteq> 1 then 0 else xms_addr r), xr, d))"

definition XMS_Free :: "'d rm_ops \<Rightarrow> u16 \<Rightarrow> DPMI_REG \<times> 'd \<Rightarrow> (bool \<times> DPMI_REG \<times> 'd) res" where
  "XMS_Free ops handle w =
     (let (xr, d) = w in
      if \<not> XMS_IsInited xr then Inl Assert_failed
      else let (r, d) = DPMI_CallRealModeRETF ops (set_dx handle (set_ah 0x0D xr)) d
      in if reg_ax r \<noteq> 1 then Inl Assert_failed
      else let (r, d) = DPMI_CallRealModeRETF ops (set_dx handle (set_ah 0x0A xr)) d
      in if reg_ax r \<noteq> 1 then Inl Assert_failed
      else Inr (True, xr, d))"

definition XMS_AllocUMB :: "'d rm_ops \<Rightarrow> u16 \<Rightarrow> DPMI_REG \<times> 'd \<Rightarrow> (u16 \<times> DPMI_REG \<times> 'd) res" where
  "XMS_AllocUMB ops size16B w =
     (if size16B = 0 \<or> size16B > 0xFFF then Inl Assert_failed
      else let (ok, xr, d) = XMS_Init ops w
      in if \<not> ok then Inl Assert_failed
      else let (r, d) = DPMI_CallRealModeRETF ops (set_dx size16B (set_ah 0x10 xr)) d
      in Inr (if reg_ax r = 1 then reg_bx r else 0, xr, d))"

definition XMS_FreeUMB :: "'d rm_ops \<Rightarrow> u16 \<Rightarrow> DPMI_REG \<times> 'd \<Rightarrow> (bool \<times> DPMI_REG \<times> 'd) res" where
  "XMS_FreeUMB ops segment w =
     (let (xr, d) = w in
      if \<not> XMS_IsInited xr then Inl Assert_failed
      else if segment = 0 then Inr (False, xr, d)
      else let (r, d) = DPMI_CallRealModeRETF ops (set_dx segment (set_ah 0x11 xr)) d
      in Inr (reg_ax r = 1, xr, d))"

section \<open>The contract of the driver\<close>

text \<open>
  What the XMS specification promises of functions 09h, 0Ah, 0Ch and 0Dh, for a
  driver entered at \<open>cs:ip\<close>: \<open>blocks d h\<close> is the lock count of an allocated handle.
\<close>

definition xms_laws :: "'d rm_ops \<Rightarrow> u16 \<Rightarrow> u16 \<Rightarrow> ('d \<Rightarrow> u16 \<Rightarrow> nat option) \<Rightarrow> bool" where
  "xms_laws ops cs ip blocks \<longleftrightarrow>
     (\<forall>r d. r_cs r = cs \<longrightarrow> r_ip r = ip \<longrightarrow>
        (let (r', d') = rm_retf ops r d in
          (reg_ah r = 0x09 \<longrightarrow>
             (if reg_ax r' = 1 then blocks d (reg_dx r') = None \<and> blocks d' = (blocks d)(reg_dx r' \<mapsto> 0)
              else blocks d' = blocks d)) \<and>
          (reg_ah r = 0x0C \<longrightarrow>
             (if reg_ax r' = 1
              then (\<exists>n. blocks d (reg_dx r) = Some n \<and> blocks d' = (blocks d)(reg_dx r \<mapsto> Suc n))
              else blocks d' = blocks d)) \<and>
          (reg_ah r = 0x0D \<longrightarrow>
             (\<forall>n. blocks d (reg_dx r) = Some (Suc n) \<longrightarrow>
                reg_ax r' = 1 \<and> blocks d' = (blocks d)(reg_dx r \<mapsto> n))) \<and>
          (reg_ah r = 0x0A \<longrightarrow>
             (if blocks d (reg_dx r) = Some 0 then reg_ax r' = 1 \<and> blocks d' = (blocks d)(reg_dx r := None)
              else blocks d' = blocks d))))"

lemma xms_laws_alloc:
  assumes "xms_laws ops cs ip blocks" "r_cs r = cs" "r_ip r = ip" "reg_ah r = 0x09"
    "rm_retf ops r d = (r', d')" "reg_ax r' = 1"
  shows "blocks d (reg_dx r') = None \<and> blocks d' = (blocks d)(reg_dx r' \<mapsto> 0)"
  using assms unfolding xms_laws_def by (force split: prod.splits)

lemma xms_laws_lock:
  assumes "xms_laws ops cs ip blocks" "r_cs r = cs" "r_ip r = ip" "reg_ah r = 0x0C"
    "rm_retf ops r d = (r', d')"
  shows "if reg_ax r' = 1
         then (\<exists>n. blocks d (reg_dx r) = Some n \<and> blocks d' = (blocks d)(reg_dx r \<mapsto> Suc n))
         else blocks d' = blocks d"
  using assms unfolding xms_laws_def by (force split: prod.splits)

lemma xms_laws_unlock:
  assumes "xms_laws ops cs ip blocks" "r_cs r = cs" "r_ip r = ip" "reg_ah r = 0x0D"
    "rm_retf ops r d = (r', d')" "blocks d (reg_dx r) = Some (Suc n)"
  shows "reg_ax r' = 1 \<and> blocks d' = (blocks d)(reg_dx r \<mapsto> n)"
  using assms unfolding xms_laws_def by (force split: prod.splits)

lemma xms_laws_free:
  assumes "xms_laws ops cs ip blocks" "r_cs r = cs" "r_ip r = ip" "reg_ah r = 0x0A"
    "rm_retf ops r d = (r', d')"
  shows "if blocks d (reg_dx r) = Some 0 then reg_ax r' = 1 \<and> blocks d' = (blocks d)(reg_dx r := None)
         else blocks d' = blocks d"
  using assms unfolding xms_laws_def by (force split: prod.splits)

text \<open>The entry point survives the loading of the arguments.\<close>

lemma set_keeps_entry [simp]:
  "r_cs (set_dx w r) = r_cs r" "r_ip (set_dx w r) = r_ip r"
  "r_cs (set_ah b r) = r_cs r" "r_ip (set_ah b r) = r_ip r"
  "reg_ah (set_dx w r) = reg_ah r" "reg_dx (set_ah b r) = reg_dx r"
  "reg_ah (r\<lparr>r_reserved := z\<rparr>) = reg_ah r" "reg_dx (r\<lparr>r_reserved := z\<rparr>) = reg_dx r"
  by (simp_all add: set_dx_def set_ah_def reg_ah_def reg_dx_def)

lemma XMS_Free_ok:
  assumes laws: "xms_laws ops (r_cs xr) (r_ip xr) blocks" and i: "XMS_IsInited xr"
    and b: "blocks d h = Some (Suc 0)"
  shows "\<exists>d'. XMS_Free ops h (xr, d) = Inr (True, xr, d') \<and> blocks d' = (blocks d)(h := None)"
proof -
  obtain r1 d1 where 1: "rm_retf ops (set_dx h (set_ah 0x0D xr)\<lparr>r_reserved := 0\<rparr>) d = (r1, d1)"
    by fastforce
  obtain r2 d2 where 2: "rm_retf ops (set_dx h (set_ah 0x0A xr)\<lparr>r_reserved := 0\<rparr>) d1 = (r2, d2)"
    by fastforce
  have u: "reg_ax r1 = 1" "blocks d1 = (blocks d)(h \<mapsto> 0)"
    using xms_laws_unlock [OF laws _ _ _ 1, of 0] b by simp_all
  have "reg_ax r2 = 1 \<and> blocks d2 = (blocks d1)(h := None)"
    using xms_laws_free [OF laws _ _ _ 2] u(2) by simp
  then show ?thesis using i 1 2 u by (simp add: XMS_Free_def DPMI_CallRealModeRETF_def)
qed

text \<open>A driver with one block, whose handle is 5; it is locked at 1 MB.\<close>

definition xms_demo :: "nat option rm_ops" where
  "xms_demo = \<lparr>rm_int = (\<lambda>i r d. (r, d)),
     rm_retf = (\<lambda>r d.
       if reg_ah r = 0x09 \<and> d = None then (set_dx 5 (set_ax 1 r), Some 0)
       else if reg_ah r = 0x0C \<and> reg_dx r = 5 \<and> d \<noteq> None
         then (set_dx 0x10 (set_bx 0 (set_ax 1 r)), map_option Suc d)
       else if reg_ah r = 0x0D \<and> reg_dx r = 5 \<and> d \<noteq> None \<and> d \<noteq> Some 0
         then (set_ax 1 r, map_option (\<lambda>n. n - 1) d)
       else if reg_ah r = 0x0A \<and> reg_dx r = 5 \<and> d = Some 0 then (set_ax 1 r, None)
       else (set_ax 0 r, d)),
     rm_code = (\<lambda>r d. 0), dos_alloc = (\<lambda>n d. ((- 1, 0), d)), dos_free = (\<lambda>s d. d)\<rparr>"

definition xms_demo_blocks :: "nat option \<Rightarrow> u16 \<Rightarrow> nat option" where
  "xms_demo_blocks d h = (if h = 5 then d else None)"

lemma reg_dx_set_ax [simp]: "reg_dx (set_ax w r) = reg_dx r" "reg_dx (set_bx w r) = reg_dx r"
  by (simp_all add: reg_dx_def set_ax_def set_bx_def)

lemma reg_ax_set_dx [simp]: "reg_ax (set_dx w r) = reg_ax r" "reg_bx (set_dx w r) = reg_bx r"
  "reg_bx (set_ax w r) = reg_bx r"
  by (simp_all add: reg_ax_def reg_bx_def set_ax_def set_dx_def)

lemma xms_demo_laws: "xms_laws xms_demo cs ip xms_demo_blocks"
  unfolding xms_laws_def xms_demo_def xms_demo_blocks_def
  by (auto simp: fun_eq_iff gr0_conv_Suc split: if_splits prod.splits)

section \<open>Properties\<close>

text \<open>A block of extended memory that \<open>XMS_Alloc\<close> hands out with an address is freed
  completely by \<open>XMS_Free\<close>: with a driver that keeps the XMS specification, freeing the handle
  succeeds, and afterwards the driver's blocks are those of before the allocation.\<close>

theorem xms_alloc_free:
  assumes laws: "xms_laws ops (r_cs xr) (r_ip xr) blocks" and i: "XMS_IsInited xr"
    and a: "XMS_Alloc ops kb (xr, d) = Inr ((h, addr), xr', d')" and z: "addr \<noteq> 0"
  shows "\<exists>d''. XMS_Free ops h (xr', d') = Inr (True, xr', d'') \<and> blocks d'' = blocks d"
proof -
  obtain r1 d1 where 1: "rm_retf ops (set_dx kb (set_ah 0x09 xr)\<lparr>r_reserved := 0\<rparr>) d = (r1, d1)"
    by fastforce
  obtain r2 d2 where 2: "rm_retf ops (set_ah 0x0C (set_dx (reg_dx r1) xr)\<lparr>r_reserved := 0\<rparr>) d1 = (r2, d2)"
    by fastforce
  have c: "h = reg_dx r1" "reg_ax r1 = 1" "reg_ax r2 = 1" "d' = d2" "xr' = xr"
    using a i z 1 2 by (auto simp: XMS_Alloc_def XMS_Init_def DPMI_CallRealModeRETF_def Let_def
        split: if_splits prod.splits)
  have b: "blocks d h = None" "blocks d1 = (blocks d)(h \<mapsto> 0)"
    using xms_laws_alloc [OF laws _ _ _ 1 c(2)] c(1) by simp_all
  then have "blocks d2 = (blocks d)(h \<mapsto> Suc 0)"
    using xms_laws_lock [OF laws _ _ _ 2] c(1,3) by simp
  then obtain d'' where "XMS_Free ops h (xr, d2) = Inr (True, xr, d'')" "blocks d'' = (blocks d)(h := None)"
    using XMS_Free_ok [OF laws i, of d2 h] by auto
  then show ?thesis using b c by (auto simp: fun_upd_idem)
qed

theorem xms_alloc_free_witness:
  "\<exists>d''. XMS_Free xms_demo 5 (reg_zero\<lparr>r_cs := 1\<rparr>, Some 1) = Inr (True, reg_zero\<lparr>r_cs := 1\<rparr>, d'')
     \<and> xms_demo_blocks d'' = xms_demo_blocks None"
  by (rule xms_alloc_free [OF xms_demo_laws, where xr = "reg_zero\<lparr>r_cs := 1\<rparr>" and kb = 4 and addr = "0x100000"])
    (simp_all add: XMS_IsInited_def XMS_Alloc_def XMS_Init_def DPMI_CallRealModeRETF_def xms_demo_def
      xms_addr_def)

text \<open>When the lock fails, the block stays allocated, its handle is returned as if the
  allocation had succeeded, and the address is 0: the freeing call does not pass the handle.\<close>

lemma xms_alloc_unlocked_leaks:
  assumes laws: "xms_laws ops (r_cs xr) (r_ip xr) blocks" and i: "XMS_IsInited xr" and kb: "kb \<noteq> 0"
    and 1: "rm_retf ops (set_dx kb (set_ah 0x09 xr)\<lparr>r_reserved := 0\<rparr>) d = (r1, d1)" "reg_ax r1 = 1"
    and 2: "rm_retf ops (set_ah 0x0C (set_dx (reg_dx r1) xr)\<lparr>r_reserved := 0\<rparr>) d1 = (r2, d2)" "reg_ax r2 \<noteq> 1"
    and dx: "reg_dx xr \<noteq> reg_dx r1"
  shows "\<exists>d'. XMS_Alloc ops kb (xr, d) = Inr ((reg_dx r1, 0), xr, d') \<and> blocks d' (reg_dx r1) = Some 0"
proof -
  obtain r3 d3 where 3: "rm_retf ops (set_ah 0x0A xr\<lparr>r_reserved := 0\<rparr>) d2 = (r3, d3)" by fastforce
  have "blocks d2 (reg_dx r1) = Some 0"
    using xms_laws_alloc [OF laws _ _ _ 1] xms_laws_lock [OF laws _ _ _ 2(1)] 2(2) by simp
  then have "blocks d3 (reg_dx r1) = Some 0"
    using xms_laws_free [OF laws _ _ _ 3] dx by (simp split: if_splits)
  then show ?thesis using i kb 1 2 3
    by (simp add: XMS_Alloc_def XMS_Init_def DPMI_CallRealModeRETF_def)
qed

end
