(* ===== verification/Dpmi.thy ===== *)
theory Dpmi
  imports Xms
begin

text \<open>
  The memory services of \<open>src/sbemu/dpmi/dpmi.c\<close> and \<open>src/sbemu/dpmi/dpmi_dj2.c\<close>: the
  table of mapped physical memory and the address translations through it, the
  accesses to linear memory and the block operations built on them, the vectors
  of the real-mode interrupt table and the allocation of DOS memory. Linear
  memory is a function of the 32-bit address.
\<close>

section \<open>The table of mappings\<close>

record AddressMap =
  Handle :: u32
  LinearAddr :: u32
  PhysicalAddr :: u32
  Size :: u32

definition AddressMap_zero :: AddressMap where
  "AddressMap_zero = \<lparr>Handle = 0, LinearAddr = 0, PhysicalAddr = 0, Size = 0\<rparr>"

record dpmi_meminfo =
  mi_handle :: u32
  mi_size :: u32
  mi_address :: u32

text \<open>\<open>AddresMapTable\<close> is the list of its 16 entries.\<close>

definition ADDRMAP_TABLE_SIZE :: nat where "ADDRMAP_TABLE_SIZE = 16"

definition AddresMapTable_init :: "AddressMap list" where
  "AddresMapTable_init = replicate ADDRMAP_TABLE_SIZE AddressMap_zero"

text \<open>The loop does not stop at the first free entry: it fills all of them.\<close>

definition AddAddressMap :: "dpmi_meminfo \<Rightarrow> u32 \<Rightarrow> AddressMap list \<Rightarrow> AddressMap list" where
  "AddAddressMap info phys t =
     map (\<lambda>e. if Handle e = 0
              then \<lparr>Handle = mi_handle info, LinearAddr = mi_address info, PhysicalAddr = phys, Size = mi_size info\<rparr>
              else e) t"

definition FindAddressMap :: "u32 \<Rightarrow> AddressMap list \<Rightarrow> int" where
  "FindAddressMap linearaddr t =
     (case find (\<lambda>i. LinearAddr (t ! i) = linearaddr) [0..<length t] of Some i \<Rightarrow> int i | None \<Rightarrow> - 1)"

definition DPMI_L2P :: "AddressMap list \<Rightarrow> u32 \<Rightarrow> u32 res" where
  "DPMI_L2P t vaddr =
     (case find (\<lambda>e. Handle e \<noteq> 0 \<and> LinearAddr e \<le> vaddr \<and> vaddr \<le> LinearAddr e + Size e) t of
        Some e \<Rightarrow> Inr (PhysicalAddr e + (vaddr - LinearAddr e))
      | None \<Rightarrow> Inl Program_exit)"

definition DPMI_P2L :: "AddressMap list \<Rightarrow> u32 \<Rightarrow> u32 res" where
  "DPMI_P2L t paddr =
     (case find (\<lambda>e. Handle e \<noteq> 0 \<and> PhysicalAddr e \<le> paddr \<and> paddr \<le> PhysicalAddr e + Size e) t of
        Some e \<Rightarrow> Inr (LinearAddr e + (paddr - PhysicalAddr e))
      | None \<Rightarrow> Inl Assert_failed)"

text \<open>Pointers are offsets in the data segment, whose base is \<open>base\<close>.\<close>

definition DPMI_PTR2L :: "u32 \<Rightarrow> u32 \<Rightarrow> u32" where
  "DPMI_PTR2L base ptr = (if ptr \<noteq> 0 then base + ptr else 0)"

definition DPMI_L2PTR :: "u32 \<Rightarrow> u32 \<Rightarrow> u32" where
  "DPMI_L2PTR base addr = (if addr > base then addr - base else 0)"

text \<open>\<open>map_phys\<close> is \<open>__dpmi_physical_address_mapping\<close>, which updates the structure it is
  given or fails; the handle of that structure is not set by the source (\<open>h0\<close> is
  whatever the stack holds). \<open>DPMI_UnmappMemory\<close> answers the mapping it gives back too.\<close>

definition DPMI_MapMemory ::
  "(dpmi_meminfo \<Rightarrow> dpmi_meminfo option) \<Rightarrow> u32 \<Rightarrow> u32 \<Rightarrow> u32 \<Rightarrow> AddressMap list \<Rightarrow> u32 \<times> AddressMap list" where
  "DPMI_MapMemory map_phys h0 physicaladdr sz t =
     (case map_phys \<lparr>mi_handle = h0, mi_size = sz, mi_address = physicaladdr\<rparr> of
        Some info \<Rightarrow> (mi_address info, AddAddressMap info physicaladdr t)
      | None \<Rightarrow> (0, t))"

definition DPMI_UnmappMemory :: "u32 \<Rightarrow> AddressMap list \<Rightarrow> bool \<times> dpmi_meminfo list \<times> AddressMap list" where
  "DPMI_UnmappMemory mappedaddr t =
     (let index = FindAddressMap mappedaddr t in
      if index = - 1 then (False, [], t)
      else let e = t ! nat index in
        if Handle e = 0 \<or> Handle e = 0xFFFFFFFF then (False, [], t)
        else (True, [\<lparr>mi_handle = Handle e, mi_size = Size e, mi_address = LinearAddr e\<rparr>],
              t[nat index := AddressMap_zero]))"

text \<open>The last loop of \<open>DPMI_Shutdown\<close>: what it gives back.\<close>

definition DPMI_Shutdown_maps :: "AddressMap list \<Rightarrow> dpmi_meminfo list" where
  "DPMI_Shutdown_maps t =
     map (\<lambda>e. \<lparr>mi_handle = Handle e, mi_size = Size e, mi_address = LinearAddr e\<rparr>)
       (filter (\<lambda>e. Handle e \<noteq> 0 \<and> Handle e \<noteq> 0xFFFFFFFF) t)"

section \<open>Linear memory\<close>

type_synonym mem = "u32 \<Rightarrow> u8"

text \<open>What the block and word operations keep: the addressing mode and the table.\<close>

record dpmi =
  physical :: bool
  maps :: "AddressMap list"

definition UNMAP_ADDR :: "dpmi \<Rightarrow> u32 \<Rightarrow> u32 res" where
  "UNMAP_ADDR s addr = (if physical s then DPMI_L2P (maps s) addr else Inr addr)"

text \<open>Little-endian accesses.\<close>

definition ld16 :: "mem \<Rightarrow> u32 \<Rightarrow> u16" where
  "ld16 m a = push_bit 8 (b2w (m (a + 1))) OR b2w (m a)"

definition st16 :: "u32 \<Rightarrow> u16 \<Rightarrow> mem \<Rightarrow> mem" where
  "st16 a v m = m(a := lo8 v, a + 1 := hi8 v)"

definition ld32 :: "mem \<Rightarrow> u32 \<Rightarrow> u32" where
  "ld32 m a = push_bit 24 (ucast (m (a + 3))) OR push_bit 16 (ucast (m (a + 2)))
     OR push_bit 8 (ucast (m (a + 1))) OR ucast (m a)"

definition byte :: "nat \<Rightarrow> u32 \<Rightarrow> u8" where
  "byte k v = ucast (drop_bit (8 * k) v)"

definition st32 :: "u32 \<Rightarrow> u32 \<Rightarrow> mem \<Rightarrow> mem" where
  "st32 a v m = m(a := byte 0 v, a + 1 := byte 1 v, a + 2 := byte 2 v, a + 3 := byte 3 v)"

definition DPMI_LoadB :: "dpmi \<Rightarrow> mem \<Rightarrow> u32 \<Rightarrow> u8 res" where
  "DPMI_LoadB s m addr = bindE (UNMAP_ADDR s addr) (\<lambda>a. Inr (m a))"

definition DPMI_StoreB :: "dpmi \<Rightarrow> mem \<Rightarrow> u32 \<Rightarrow> u8 \<Rightarrow> mem res" where
  "DPMI_StoreB s m addr v = bindE (UNMAP_ADDR s addr) (\<lambda>a. Inr (m(a := v)))"

definition DPMI_MaskB :: "dpmi \<Rightarrow> mem \<Rightarrow> u32 \<Rightarrow> u8 \<Rightarrow> u8 \<Rightarrow> mem res" where
  "DPMI_MaskB s m addr mand mor =
     bindE (UNMAP_ADDR s addr) (\<lambda>a. Inr (m(a := (m a AND mand) OR mor)))"

definition DPMI_LoadW :: "dpmi \<Rightarrow> mem \<Rightarrow> u32 \<Rightarrow> u16 res" where
  "DPMI_LoadW s m addr = bindE (UNMAP_ADDR s addr) (\<lambda>a. Inr (ld16 m a))"

definition DPMI_StoreW :: "dpmi \<Rightarrow> mem \<Rightarrow> u32 \<Rightarrow> u16 \<Rightarrow> mem res" where
  "DPMI_StoreW s m addr v = bindE (UNMAP_ADDR s addr) (\<lambda>a. Inr (st16 a v m))"

definition DPMI_MaskW :: "dpmi \<Rightarrow> mem \<Rightarrow> u32 \<Rightarrow> u16 \<Rightarrow> u16 \<Rightarrow> mem res" where
  "DPMI_MaskW s m addr mand mor =
     bindE (UNMAP_ADDR s addr) (\<lambda>a. Inr (st16 a ((ld16 m a AND mand) OR mor) m))"

definition DPMI_LoadD :: "dpmi \<Rightarrow> mem \<Rightarrow> u32 \<Rightarrow> u32 res" where
  "DPMI_LoadD s m addr = bindE (UNMAP_ADDR s addr) (\<lambda>a. Inr (ld32 m a))"

definition DPMI_StoreD :: "dpmi \<Rightarrow> mem \<Rightarrow> u32 \<Rightarrow> u32 \<Rightarrow> mem res" where
  "DPMI_StoreD s m addr v = bindE (UNMAP_ADDR s addr) (\<lambda>a. Inr (st32 a v m))"

definition DPMI_MaskD :: "dpmi \<Rightarrow> mem \<Rightarrow> u32 \<Rightarrow> u32 \<Rightarrow> u32 \<Rightarrow> mem res" where
  "DPMI_MaskD s m addr mand mor =
     bindE (UNMAP_ADDR s addr) (\<lambda>a. Inr (st32 a ((ld32 m a AND mand) OR mor) m))"

section \<open>Blocks\<close>

text \<open>The loop over the 32-bit words and the loop over the bytes that are left.\<close>

definition copy32 :: "u32 \<Rightarrow> u32 \<Rightarrow> nat \<Rightarrow> mem \<Rightarrow> mem" where
  "copy32 dest src n m =
     fold (\<lambda>i m. st32 (dest + 4 * of_nat i) (ld32 m (src + 4 * of_nat i)) m) [0..<n] m"

definition copy8 :: "u32 \<Rightarrow> u32 \<Rightarrow> nat \<Rightarrow> mem \<Rightarrow> mem" where
  "copy8 dest src n m =
     fold (\<lambda>i m. m(dest + of_nat i := m (src + of_nat i))) [0..<n] m"

definition DPMI_CopyLinear :: "dpmi \<Rightarrow> mem \<Rightarrow> u32 \<Rightarrow> u32 \<Rightarrow> u32 \<Rightarrow> mem res" where
  "DPMI_CopyLinear s m dest src sz =
     (let size4 = drop_bit 2 sz; size1 = sz AND 3 in
      bindE (UNMAP_ADDR s dest) (\<lambda>dest.
      bindE (UNMAP_ADDR s src) (\<lambda>src.
        let m = copy32 dest src (unat size4) m;
            src = src + size4 * 4;
            dest = dest + size4 * 4
        in Inr (copy8 dest src (unat size1) m))))"

definition set32 :: "u32 \<Rightarrow> u32 \<Rightarrow> nat \<Rightarrow> mem \<Rightarrow> mem" where
  "set32 dest v n m = fold (\<lambda>i m. st32 (dest + 4 * of_nat i) v m) [0..<n] m"

definition set8 :: "u32 \<Rightarrow> u8 \<Rightarrow> nat \<Rightarrow> mem \<Rightarrow> mem" where
  "set8 dest v n m = fold (\<lambda>i m. m(dest + of_nat i := v)) [0..<n] m"

definition DPMI_SetLinear :: "dpmi \<Rightarrow> mem \<Rightarrow> u32 \<Rightarrow> u8 \<Rightarrow> u32 \<Rightarrow> mem res" where
  "DPMI_SetLinear s m dest val sz =
     (let size4 = drop_bit 2 sz; size1 = sz AND 3;
          val32 = ucast val OR push_bit 8 (ucast val) OR push_bit 16 (ucast val) OR push_bit 24 (ucast val)
      in bindE (UNMAP_ADDR s dest) (\<lambda>dest.
           let m = set32 dest val32 (unat size4) m;
               dest = dest + size4 * 4
           in Inr (set8 dest val (unat size1) m)))"

text \<open>The comparing loops: the index of the first different word, and the
  difference of the first different bytes.\<close>

definition cmp32 :: "mem \<Rightarrow> u32 \<Rightarrow> u32 \<Rightarrow> nat \<Rightarrow> int" where
  "cmp32 m a1 a2 n =
     (case find (\<lambda>i. ld32 m (a1 + 4 * of_nat i) \<noteq> ld32 m (a2 + 4 * of_nat i)) [0..<n] of
        Some i \<Rightarrow> int i
      | None \<Rightarrow> 0)"

primrec cmp8 :: "mem \<Rightarrow> u32 \<Rightarrow> u32 \<Rightarrow> nat list \<Rightarrow> int \<Rightarrow> int" where
  "cmp8 m a1 a2 [] result = result"
| "cmp8 m a1 a2 (i # is) result =
     (let result = uint (m (a1 + of_nat i)) - uint (m (a2 + of_nat i))
      in if result \<noteq> 0 then result else cmp8 m a1 a2 is result)"

definition DPMI_CompareLinear :: "dpmi \<Rightarrow> mem \<Rightarrow> u32 \<Rightarrow> u32 \<Rightarrow> u32 \<Rightarrow> int res" where
  "DPMI_CompareLinear s m addr1 addr2 sz =
     (let size4 = drop_bit 2 sz; size1 = sz AND 3 in
      bindE (UNMAP_ADDR s addr1) (\<lambda>addr1.
      bindE (UNMAP_ADDR s addr2) (\<lambda>addr2.
        let result = cmp32 m addr1 addr2 (unat size4) in
        if result = 0
        then Inr (cmp8 m (addr1 + size4 * 4) (addr2 + size4 * 4) [0..<unat size1] result)
        else Inr (cmp8 m (addr1 + word_of_int result * 4) (addr2 + word_of_int result * 4) [0..<4] result))))"

section \<open>The real-mode vectors\<close>

record isr_handle =
  h_old_rm_offset :: u16
  h_old_rm_cs :: u16
  h_n :: u8
  h_rawIVT :: bool

definition isr_handle_zero :: isr_handle where
  "isr_handle_zero = \<lparr>h_old_rm_offset = 0, h_old_rm_cs = 0, h_n = 0, h_rawIVT = False\<rparr>"

text \<open>\<open>get_vec\<close> and \<open>set_vec\<close> are the calls of the DPMI host, used when the table is
  not to be written directly; \<open>set_vec\<close> answers 0 when it succeeds.\<close>

definition DPMI_InstallRealModeISR_Direct ::
  "(u8 \<Rightarrow> mem \<Rightarrow> u16 \<times> u16) \<Rightarrow> (u8 \<Rightarrow> u16 \<times> u16 \<Rightarrow> mem \<Rightarrow> int \<times> mem) \<Rightarrow> dpmi \<Rightarrow> u8 \<Rightarrow> u16 \<Rightarrow> u16 \<Rightarrow> bool
    \<Rightarrow> mem \<Rightarrow> (u16 \<times> isr_handle \<times> mem) res" where
  "DPMI_InstallRealModeISR_Direct get_vec set_vec s i seg off rawIVT m =
     bindE (if rawIVT
            then bindE (DPMI_LoadW s m (ucast i * 4)) (\<lambda>o16.
                 bindE (DPMI_LoadW s m (ucast i * 4 + 2)) (\<lambda>sg. Inr (sg, o16)))
            else Inr (get_vec i m)) (\<lambda>ra.
     bindE (if rawIVT
            then bindE (DPMI_StoreW s m (ucast i * 4) off) (\<lambda>m.
                 bindE (DPMI_StoreW s m (ucast i * 4 + 2) seg) (\<lambda>m. Inr (0, m)))
            else Inr (set_vec i (seg, off) m)) (\<lambda>(result, m).
     Inr (word_of_int result,
          if result = 0
          then \<lparr>h_old_rm_offset = snd ra, h_old_rm_cs = fst ra, h_n = i, h_rawIVT = rawIVT\<rparr>
          else isr_handle_zero, m)))"

definition DPMI_UninstallRealModeISR_Direct ::
  "(u8 \<Rightarrow> u16 \<times> u16 \<Rightarrow> mem \<Rightarrow> int \<times> mem) \<Rightarrow> dpmi \<Rightarrow> isr_handle \<Rightarrow> mem \<Rightarrow> (u16 \<times> mem) res" where
  "DPMI_UninstallRealModeISR_Direct set_vec s h m =
     (if h_rawIVT h
      then bindE (DPMI_StoreW s m (ucast (h_n h) * 4) (h_old_rm_offset h)) (\<lambda>m.
           bindE (DPMI_StoreW s m (ucast (h_n h) * 4 + 2) (h_old_rm_cs h)) (\<lambda>m. Inr (0, m)))
      else let (result, m) = set_vec (h_n h) (h_old_rm_cs h, h_old_rm_offset h) m
           in Inr (word_of_int result, m))"

section \<open>DOS memory\<close>

definition dos58 :: "'d rm_ops \<Rightarrow> u8 \<Rightarrow> DPMI_REG \<times> 'd \<Rightarrow> DPMI_REG \<times> 'd" where
  "dos58 ops al w = DPMI_CallRealModeINT ops 0x21 (set_al al (set_ah 0x58 (fst w))) (snd w)"

text \<open>\<open>dos58_bx\<close> loads \<open>bx\<close> after \<open>ah\<close> and \<open>al\<close>, as every setting call of the source does.\<close>

definition dos58_bx :: "'d rm_ops \<Rightarrow> u8 \<Rightarrow> u16 \<Rightarrow> DPMI_REG \<times> 'd \<Rightarrow> DPMI_REG \<times> 'd" where
  "dos58_bx ops al bx w =
     DPMI_CallRealModeINT ops 0x21 (set_bx bx (set_al al (set_ah 0x58 (fst w)))) (snd w)"

definition DPMI_DOSUMB :: "'d rm_ops \<Rightarrow> u32 \<Rightarrow> bool \<Rightarrow> bool \<Rightarrow> 'd \<Rightarrow> u32 \<times> 'd" where
  "DPMI_DOSUMB ops inp alloc UMB d =
     (let (r, d) = dos58 ops 0x02 (reg_zero, d);
          UMBlinkstate = reg_al r;
          (r, d) = dos58_bx ops 0x03 (if UMB then 1 else 0) (r, d);
          (r, d) = dos58 ops 0x00 (r, d);
          strategy = reg_ax r;
          (r, d) = dos58_bx ops 0x01 0x82 (r, d);
          (result, d) = (if alloc then DPMI_DOSMalloc ops (ucast inp) d else (0, DPMI_DOSFree ops inp d));
          (r, d) = dos58_bx ops 0x01 strategy (r, d);
          (r, d) = dos58_bx ops 0x03 (b2w UMBlinkstate) (r, d)
      in (result, d))"

definition DPMI_HighMalloc :: "'d rm_ops \<Rightarrow> u16 \<Rightarrow> bool \<Rightarrow> DPMI_REG \<times> 'd \<Rightarrow> (u32 \<times> DPMI_REG \<times> 'd) res" where
  "DPMI_HighMalloc ops paras UMB w =
     bindE (if UMB then XMS_AllocUMB ops paras w else Inr (0, w)) (\<lambda>(segment, xr, d).
       if segment \<noteq> 0 then Inr (0xFFFF0000 OR ucast segment, xr, d)
       else let (result, d) = DPMI_DOSUMB ops (ucast paras) True UMB d in Inr (result, xr, d))"

definition DPMI_HighFree :: "'d rm_ops \<Rightarrow> u32 \<Rightarrow> DPMI_REG \<times> 'd \<Rightarrow> (DPMI_REG \<times> 'd) res" where
  "DPMI_HighFree ops segment w =
     (if segment AND 0xFFFF0000 = 0xFFFF0000
      then bindE (XMS_FreeUMB ops (ucast segment) w) (\<lambda>(b, w). Inr w)
      else Inr (fst w, snd (DPMI_DOSUMB ops segment False True (snd w))))"

section \<open>Facts on addresses\<close>

lemma off_eq: "j < 4294967296 \<Longrightarrow> a = p + of_nat j \<longleftrightarrow> unat (a - p :: u32) = j"
proof -
  assume "j < 4294967296"
  then have "unat (of_nat j :: u32) = j" by (simp add: unat_of_nat take_bit_nat_eq_self)
  then show ?thesis by (metis add_diff_cancel_left' diff_eq_eq add.commute unsigned_word_eqI)
qed

lemma unat_size4: "unat (drop_bit 2 (sz :: u32)) = unat sz div 4"
  by (simp add: drop_bit_eq_div unat_div)

lemma unat_size1: "unat (sz AND 3 :: u32) = unat sz mod 4"
proof -
  have "(3 :: u32) = mask 2" by (simp add: mask_eq_exp_minus_1)
  then have "sz AND 3 = take_bit 2 sz" by (simp add: take_bit_eq_mask)
  then show ?thesis by (simp add: unat_mod unsigned_take_bit_eq take_bit_eq_mod)
qed

lemma size4_times4: "drop_bit 2 (sz :: u32) * 4 = of_nat (4 * (unat sz div 4))"
proof -
  have "(of_nat (unat sz div 4) :: u32) = drop_bit 2 sz"
    by (simp flip: unat_size4)
  then show ?thesis by simp
qed

lemma bit_byte: "bit (byte k v) n \<longleftrightarrow> n < 8 \<and> bit v (8 * k + n)"
  by (auto simp: byte_def bit_simps)

lemma bit_ld32:
  "bit (ld32 m a) n \<longleftrightarrow>
    (if n < 8 then bit (m a) n else if n < 16 then bit (m (a + 1)) (n - 8)
     else if n < 24 then bit (m (a + 2)) (n - 16) else bit (m (a + 3)) (n - 24))"
  unfolding ld32_def
  using bit_u8_less [of "m a" n] bit_u8_less [of "m (a + 1)" "n - 8"] bit_u8_less [of "m (a + 2)" "n - 16"]
    bit_u8_less [of "m (a + 3)" "n - 24"]
  by (auto simp: bit_or_iff bit_push_bit_iff bit_ucast8_u32)

lemma byte_ld32 [simp]:
  "byte 0 (ld32 m a) = m a" "byte 1 (ld32 m a) = m (a + 1)" "byte (Suc 0) (ld32 m a) = m (a + 1)"
  "byte 2 (ld32 m a) = m (a + 2)" "byte 3 (ld32 m a) = m (a + 3)"
  by (rule bit_word_eqI, auto simp: bit_byte bit_ld32)+

lemma ld32_eq_iff:
  "ld32 m a = ld32 m' b \<longleftrightarrow> m a = m' b \<and> m (a + 1) = m' (b + 1) \<and> m (a + 2) = m' (b + 2) \<and> m (a + 3) = m' (b + 3)"
  by (metis byte_ld32 ld32_def)

lemma ld16_st16 [simp]: "ld16 (st16 a v m) a = v"
  by (simp add: ld16_def st16_def lo8_hi8_join)

lemma st16_ld16 [simp]: "st16 a (ld16 m a) m = m"
  by (simp add: ld16_def st16_def fun_eq_iff)

lemma st16_st16 [simp]: "st16 a v (st16 a w m) = st16 a v m"
  by (auto simp: st16_def fun_eq_iff)

lemma ld32_st32 [simp]: "ld32 (st32 a v m) a = v"
proof -
  have "ld32 (st32 a v m) a = ld32 (st32 a v m) a" ..
  show ?thesis
    by (rule bit_word_eqI) (auto simp: bit_ld32 st32_def bit_byte)
qed


section \<open>What the loops do\<close>

lemma st32_at:
  assumes j: "j + 3 < 4294967296"
  shows "st32 (p + of_nat j) v m a =
    (if j \<le> unat (a - p) \<and> unat (a - p) < j + 4 then byte (unat (a - p) - j) v else m a)"
proof -
  have e: "p + of_nat j + 1 = p + of_nat (j + 1)" "p + of_nat j + 2 = p + of_nat (j + 2)"
    "p + of_nat j + 3 = p + of_nat (j + 3)" by simp_all
  have o: "a = p + of_nat (j + k) \<longleftrightarrow> unat (a - p) = j + k" if "k \<le> 3" for k
    using off_eq [of "j + k" a p] that j by simp
  have c: "unat (a - p) = j \<or> unat (a - p) = j + 1 \<or> unat (a - p) = j + 2 \<or> unat (a - p) = j + 3
      \<or> \<not> (j \<le> unat (a - p) \<and> unat (a - p) < j + 4)" by arith
  show ?thesis
    unfolding st32_def fun_upd_apply e using c o [of 0] o [of 1] o [of 2] o [of 3] by (elim disjE) auto
qed

lemma byte_splat:
  "k < 4 \<Longrightarrow> byte k (ucast v OR push_bit 8 (ucast v) OR push_bit 16 (ucast v) OR push_bit 24 (ucast v)) = v"
proof -
  assume k: "k < 4"
  have "bit (byte k (ucast v OR push_bit 8 (ucast v) OR push_bit 16 (ucast v) OR push_bit 24 (ucast v))) n
      = bit v n" if n: "n < 8" for n
  proof -
    have "k = 0 \<or> k = 1 \<or> k = 2 \<or> k = 3" using k by arith
    then show ?thesis using n bit_u8_less [of v "8 + n"] bit_u8_less [of v "16 + n"] bit_u8_less [of v "24 + n"]
      by (elim disjE) (auto simp: bit_byte bit_or_iff bit_push_bit_iff bit_ucast8_u32)
  qed
  then show ?thesis by (intro bit_word_eqI) simp
qed

lemma set32_at:
  "4 * n \<le> 4294967296 \<Longrightarrow> (\<And>k. k < 4 \<Longrightarrow> byte k v32 = v) \<Longrightarrow>
   set32 p v32 n m = (\<lambda>a. if unat (a - p) < 4 * n then v else m a)"
proof (induction n)
  case (Suc n)
  have "set32 p v32 (Suc n) m a = (if unat (a - p) < 4 * Suc n then v else m a)" for a
    using Suc st32_at [of "4 * n" p v32 _ a] by (simp add: set32_def)
  then show ?case by blast
qed (simp add: set32_def)

lemma set8_at:
  "n \<le> 4294967296 \<Longrightarrow> set8 p v n m = (\<lambda>a. if unat (a - p) < n then v else m a)"
proof (induction n)
  case (Suc n)
  have "set8 p v (Suc n) m a = (if unat (a - p) < Suc n then v else m a)" for a
    using Suc off_eq [of n a p] by (auto simp: set8_def)
  then show ?case by blast
qed (simp add: set8_def)

text \<open>An offset from the end of the words.\<close>

lemma unat_diff_shift:
  fixes a p :: u32
  assumes "j < 4294967296" "j \<le> unat (a - p)"
  shows "unat (a - (p + of_nat j)) = unat (a - p) - j"
proof -
  have e: "a - (p + of_nat j) = (a - p) - of_nat j" by simp
  have "unat (of_nat j :: u32) = j" using assms by (simp add: unat_of_nat take_bit_nat_eq_self)
  then show ?thesis unfolding e using assms unat_sub [of "of_nat j" "a - p"]
    by (simp add: word_le_nat_alt)
qed

lemma unat_diff_shift_less:
  fixes a p :: u32
  assumes j: "j + r < 4294967296" and r: "unat (a - (p + of_nat j)) < r"
  shows "unat (a - p) = j + unat (a - (p + of_nat j))"
proof -
  let ?k = "unat (a - (p + of_nat j))"
  have "a = (p + of_nat j) + of_nat ?k"
    using off_eq [of ?k a "p + of_nat j"] unat_u32_less by blast
  then have "a = p + of_nat (j + ?k)" by simp
  then show ?thesis using off_eq [of "j + ?k" a p] j r by simp
qed

text \<open>The bytes of the tail.\<close>

lemma tail_iff:
  fixes a p sz :: u32
  shows "unat (a - (p + drop_bit 2 sz * 4)) < unat (sz AND 3) \<or> unat (a - p) < 4 * unat (drop_bit 2 sz)
    \<longleftrightarrow> unat (a - p) < unat sz"
proof -
  let ?j = "4 * (unat sz div 4)" and ?r = "unat sz mod 4"
  have s: "?j + ?r = unat sz" "?j \<le> unat sz" by simp_all
  have b: "?j + ?r < 4294967296" "?j < 4294967296" using s unat_u32_less [of sz] by linarith+
  have "unat (a - (p + of_nat ?j)) < ?r \<or> unat (a - p) < ?j \<longleftrightarrow> unat (a - p) < unat sz"
  proof (cases "unat (a - p) < ?j")
    case True
    then show ?thesis using s by linarith
  next
    case False
    then have "unat (a - (p + of_nat ?j)) = unat (a - p) - ?j"
      using unat_diff_shift [OF b(2), of a p] by simp
    then show ?thesis using False s by linarith
  qed
  then show ?thesis by (simp only: size4_times4 unat_size1 unat_size4)
qed


text \<open>Copying upwards is safe unless the destination starts inside the source.\<close>

definition copy_safe :: "u32 \<Rightarrow> u32 \<Rightarrow> nat \<Rightarrow> bool" where
  "copy_safe p q n = (p = q \<or> n \<le> unat (p - q))"

definition copied :: "u32 \<Rightarrow> u32 \<Rightarrow> nat \<Rightarrow> mem \<Rightarrow> mem" where
  "copied p q n m = (\<lambda>a. if unat (a - p) < n then m (q + (a - p)) else m a)"

lemma copy_safe_unread:
  assumes "copy_safe p q N" "j \<le> i" "i < N" "N < 4294967296"
  shows "copied p q j m (q + of_nat i) = m (q + of_nat i)"
proof -
  have "\<not> unat (q + of_nat i - p) < j"
  proof
    let ?k = "unat (q + of_nat i - p)"
    assume k: "?k < j"
    then have "q + of_nat i = p + of_nat ?k"
      using off_eq [of ?k "q + of_nat i" p] assms by simp
    then have "p = q + of_nat i - of_nat ?k" by simp
    moreover have "of_nat i - of_nat ?k = (of_nat (i - ?k) :: u32)"
      using k assms by (simp only: of_nat_diff)
    ultimately have "p = q + of_nat (i - ?k)" by (metis add_diff_eq)
    then have "unat (p - q) = i - ?k" using off_eq [of "i - ?k" p q] assms by simp
    then show False using assms k by (auto simp: copy_safe_def)
  qed
  then show ?thesis by (simp add: copied_def)
qed

lemma copied_prefix: "k < n \<Longrightarrow> n < 4294967296 \<Longrightarrow> copied p q n m (p + of_nat k) = m (q + of_nat k)"
  using off_eq [of k "p + of_nat k" p] by (simp add: copied_def)

lemma copied_Suc:
  assumes "j < 4294967296"
  shows "(copied p q j m)(p + of_nat j := m (q + of_nat j)) = copied p q (Suc j) m"
proof -
  have "((copied p q j m)(p + of_nat j := m (q + of_nat j))) a = copied p q (Suc j) m a" for a
    using off_eq [OF assms, of a p] by (auto simp: copied_def less_Suc_eq)
  then show ?thesis by blast
qed

lemma copy8_step:
  assumes "copy_safe p q N" "j < N" "N < 4294967296"
  shows "(copied p q j m)(p + of_nat j := copied p q j m (q + of_nat j)) = copied p q (Suc j) m"
  using copy_safe_unread [OF assms(1) order_refl assms(2,3)] copied_Suc [of j p q m] assms by simp

lemma copy8_copied:
  assumes "copy_safe p q N" "N < 4294967296"
  shows "s + r \<le> N \<Longrightarrow>
    copy8 (p + of_nat s) (q + of_nat s) r (copied p q s m) = copied p q (s + r) m"
proof (induction r)
  case (Suc r)
  have e: "p + of_nat s + of_nat r = p + of_nat (s + r)" "q + of_nat s + of_nat r = q + of_nat (s + r)" by simp_all
  show ?case
    using Suc copy8_step [OF assms(1) _ assms(2), of "s + r" m]
    unfolding copy8_def by (simp add: e del: of_nat_add)
qed (simp add: copy8_def)


lemma copy32_step:
  assumes s: "copy_safe p q N" and j: "j + 4 \<le> N" and N: "N < 4294967296"
  shows "st32 (p + of_nat j) (ld32 (copied p q j m) (q + of_nat j)) (copied p q j m) = copied p q (j + 4) m"
proof -
  have r: "copied p q j m (q + of_nat (j + k)) = m (q + of_nat (j + k))" if "k < 4" for k
    using copy_safe_unread [OF s _ _ N, of j "j + k"] that j by simp
  have e: "q + of_nat j = q + of_nat (j + 0)" "q + of_nat j + 1 = q + of_nat (j + 1)"
    "q + of_nat j + 2 = q + of_nat (j + 2)" "q + of_nat j + 3 = q + of_nat (j + 3)" by simp_all
  have b: "byte k (ld32 (copied p q j m) (q + of_nat j)) = m (q + of_nat (j + k))" if "k < 4" for k
  proof -
    have "k = 0 \<or> k = 1 \<or> k = 2 \<or> k = 3" using that by arith
    then show ?thesis using r [of 0] r [of 1] r [of 2] r [of 3] by (elim disjE) (simp_all add: algebra_simps)
  qed
  have "st32 (p + of_nat j) (ld32 (copied p q j m) (q + of_nat j)) (copied p q j m) a = copied p q (j + 4) m a" for a
  proof (cases "j \<le> unat (a - p) \<and> unat (a - p) < j + 4")
    case True
    then have "m (q + of_nat (j + (unat (a - p) - j))) = m (q + (a - p))" by simp
    moreover have "unat (a - p) - j < 4" using True by arith
    ultimately show ?thesis using True b [of "unat (a - p) - j"] st32_at [of j p] j N by (simp add: copied_def)
  next
    case False
    then show ?thesis using st32_at [of j p] j N by (auto simp: copied_def)
  qed
  then show ?thesis by blast
qed

lemma copy32_copied:
  assumes "copy_safe p q N" "N < 4294967296"
  shows "4 * n \<le> N \<Longrightarrow> copy32 p q n m = copied p q (4 * n) m"
proof (induction n)
  case (Suc n)
  then show ?case using copy32_step [OF assms(1) _ assms(2), of "4 * n" m] by (simp add: copy32_def add.commute)
qed (simp add: copy32_def copied_def)

section \<open>Properties of the blocks\<close>

lemma div_mod4: "4 * (unat (sz :: u32) div 4) + unat sz mod 4 = unat sz"
  by simp

text \<open>Filling a block of linear memory sets exactly the bytes of the block, whatever the address
  and the size, also when the block wraps around the end of the address space: every byte whose offset
  from the (translated) start is below the size becomes the value and every other byte is kept. The
  call fails only where the translation of the address does.\<close>

theorem dpmi_set_linear:
  "DPMI_SetLinear s m dest val sz =
     bindE (UNMAP_ADDR s dest) (\<lambda>p. Inr (\<lambda>a. if a - p < sz then val else m a))"
proof -
  have n: "4 * unat (drop_bit 2 sz) \<le> 4294967296" "unat (sz AND 3) \<le> 4294967296"
    using unat_u32_less [of sz] by (simp_all add: unat_size4 unat_size1)
  have w: "set32 p (ucast val OR push_bit 8 (ucast val) OR push_bit 16 (ucast val) OR push_bit 24 (ucast val))
      (unat (drop_bit 2 sz)) m = (\<lambda>a. if unat (a - p) < 4 * unat (drop_bit 2 sz) then val else m a)" for p
    by (rule set32_at [OF n(1)]) (rule byte_splat)
  have "set8 (p + drop_bit 2 sz * 4) val (unat (sz AND 3))
      (set32 p (ucast val OR push_bit 8 (ucast val) OR push_bit 16 (ucast val) OR push_bit 24 (ucast val))
        (unat (drop_bit 2 sz)) m) = (\<lambda>a. if a - p < sz then val else m a)" for p
    unfolding w set8_at [OF n(2)] word_less_nat_alt using tail_iff [of _ p sz] by meson
  then show ?thesis unfolding DPMI_SetLinear_def Let_def by simp
qed

lemma DPMI_CopyLinear_exact:
  assumes p: "UNMAP_ADDR s dest = Inr p" and q: "UNMAP_ADDR s src = Inr q"
    and safe: "p = q \<or> sz \<le> p - q"
  shows "DPMI_CopyLinear s m dest src sz = Inr (\<lambda>a. if a - p < sz then m (q + (a - p)) else m a)"
proof -
  have c: "copy_safe p q (unat sz)" using safe by (simp add: copy_safe_def word_le_nat_alt)
  have "copy32 p q (unat sz div 4) m = copied p q (4 * (unat sz div 4)) m"
    by (rule copy32_copied [OF c unat_u32_less]) simp
  then have "DPMI_CopyLinear s m dest src sz = Inr (copied p q (unat sz) m)"
    using p q copy8_copied [OF c unat_u32_less, of "4 * (unat sz div 4)" "unat sz mod 4" m]
    unfolding DPMI_CopyLinear_def Let_def size4_times4 unat_size4 unat_size1
    by (simp only: bindE_simps div_mod4 order_refl simp_thms)
  then show ?thesis by (simp add: copied_def word_less_nat_alt)
qed

text \<open>Copying a block of linear memory is exact whenever the copy can be made upwards, that is
  unless the destination starts inside the source block: each byte of the destination block becomes
  the byte that the source block held before the copy, the other bytes of memory are kept, and the
  copy by words with its tail of bytes covers exactly the size asked for.\<close>

theorem dpmi_copy_linear:
  assumes p: "UNMAP_ADDR s dest = Inr p" and q: "UNMAP_ADDR s src = Inr q"
    and safe: "p = q \<or> sz \<le> p - q"
  shows "DPMI_CopyLinear s m dest src sz = Inr (\<lambda>a. if a - p < sz then m (q + (a - p)) else m a)"
  by (rule DPMI_CopyLinear_exact [OF assms])

theorem dpmi_copy_linear_witness:
  "DPMI_CopyLinear \<lparr>physical = False, maps = []\<rparr> (\<lambda>a. ucast a) 0x100 0x203 7 =
     Inr (\<lambda>a. if a - 0x100 < 7 then ucast (0x203 + (a - 0x100)) else ucast a)"
  by (rule dpmi_copy_linear) (simp_all add: UNMAP_ADDR_def)

section \<open>Comparing blocks\<close>

text \<open>The reference: the difference of the first bytes that differ.\<close>

definition bytes :: "mem \<Rightarrow> u32 \<Rightarrow> nat \<Rightarrow> u8 list" where
  "bytes m a n = map (\<lambda>i. m (a + of_nat i)) [0..<n]"

fun lexdiff :: "u8 list \<Rightarrow> u8 list \<Rightarrow> int" where
  "lexdiff (x # xs) (y # ys) = (if x \<noteq> y then uint x - uint y else lexdiff xs ys)"
| "lexdiff _ _ = 0"

lemma length_bytes [simp]: "length (bytes m a n) = n" by (simp add: bytes_def)

lemma bytes_add: "bytes m a (i + j) = bytes m a i @ bytes m (a + of_nat i) j"
proof -
  have "[0..<i + j] = [0..<i] @ [i..<i + j]" by (rule upt_add_eq_append) simp
  also have "[i..<i + j] = map (\<lambda>k. k + i) [0..<j]" using map_add_upt [of i j] by (simp add: add.commute)
  finally show ?thesis by (simp add: bytes_def algebra_simps)
qed

lemma bytes_4: "bytes m a 4 = [m a, m (a + 1), m (a + 2), m (a + 3)]"
proof -
  have "[0..<4] = [0, 1, 2, 3]" by (simp add: upt_rec)
  then show ?thesis by (simp add: bytes_def)
qed

lemma lexdiff_same [simp]: "lexdiff xs xs = 0"
  by (induction xs) simp_all

lemma lexdiff_append:
  "length xs = length ys \<Longrightarrow>
   lexdiff (xs @ us) (ys @ vs) = (if xs = ys then lexdiff us vs else lexdiff xs ys)"
  by (induction xs ys rule: list_induct2) auto

lemma cmp8_lexdiff: "cmp8 m a b [0..<n] 0 = lexdiff (bytes m a n) (bytes m b n)"
proof -
  have "cmp8 m a b is 0 = lexdiff (map (\<lambda>i. m (a + of_nat i)) is) (map (\<lambda>i. m (b + of_nat i)) is)" for "is"
    by (induction "is") (auto simp: Let_def dest: unsigned_word_eqI)
  then show ?thesis by (simp add: bytes_def)
qed

lemma cmp8_4: "cmp8 m a b [0..<4] r = lexdiff (bytes m a 4) (bytes m b 4)"
proof -
  have "[0..<4] = 0 # [1..<4]" by (simp add: upt_conv_Cons)
  then have "cmp8 m a b [0..<4] r = cmp8 m a b [0..<4] 0" by (simp add: Let_def)
  then show ?thesis by (simp add: cmp8_lexdiff)
qed

lemma words_bytes:
  "(\<forall>i<k. ld32 m (a + 4 * of_nat i) = ld32 m (b + 4 * of_nat i)) \<longleftrightarrow> bytes m a (4 * k) = bytes m b (4 * k)"
proof (induction k)
  case (Suc k)
  have "4 * Suc k = 4 * k + 4" by simp
  then show ?case using Suc
    by (simp add: bytes_add bytes_4 All_less_Suc ld32_eq_iff conj_commute del: mult_Suc_right)
qed (simp add: bytes_def)

lemma cmp32_cases:
  "(cmp32 m a b k = 0 \<and> bytes m a (4 * k) = bytes m b (4 * k)) \<or>
   (\<exists>i<k. cmp32 m a b k = int i \<and> bytes m a (4 * i) = bytes m b (4 * i)
      \<and> bytes m (a + 4 * of_nat i) 4 \<noteq> bytes m (b + 4 * of_nat i) 4)"
proof (cases "find (\<lambda>i. ld32 m (a + 4 * of_nat i) \<noteq> ld32 m (b + 4 * of_nat i)) [0..<k]")
  case None
  then have "bytes m a (4 * k) = bytes m b (4 * k)" by (simp add: find_None_iff flip: words_bytes)
  then show ?thesis using None by (simp add: cmp32_def)
next
  case (Some i)
  then have "i < k" "\<forall>j<i. ld32 m (a + 4 * of_nat j) = ld32 m (b + 4 * of_nat j)"
    "ld32 m (a + 4 * of_nat i) \<noteq> ld32 m (b + 4 * of_nat i)"
    by (auto simp: find_Some_iff)
  then have "i < k" "bytes m a (4 * i) = bytes m b (4 * i)"
    "bytes m (a + 4 * of_nat i) 4 \<noteq> bytes m (b + 4 * of_nat i) 4"
    by (simp_all add: ld32_eq_iff bytes_4 flip: words_bytes)
  moreover have "cmp32 m a b k = int i" using Some by (simp add: cmp32_def)
  ultimately show ?thesis by blast
qed

text \<open>Comparing two blocks of linear memory by words and then by bytes gives what comparing them
  byte by byte gives, the difference of the first bytes that differ or 0, provided the blocks agree in
  their first four bytes or are shorter than that. When the first words differ, the index of the
  different word is 0, which the code takes for equality: then only the last bytes, those after
  the whole words, are compared.\<close>

theorem dpmi_compare_linear:
  assumes p: "UNMAP_ADDR s addr1 = Inr p" and q: "UNMAP_ADDR s addr2 = Inr q"
  shows "DPMI_CompareLinear s m addr1 addr2 sz =
    Inr (if 4 \<le> sz \<and> bytes m p 4 \<noteq> bytes m q 4
         then lexdiff (bytes m (p + drop_bit 2 sz * 4) (unat sz mod 4)) (bytes m (q + drop_bit 2 sz * 4) (unat sz mod 4))
         else lexdiff (bytes m p (unat sz)) (bytes m q (unat sz)))"
proof -
  let ?k = "unat sz div 4" and ?r = "unat sz mod 4"
  have le4: "4 \<le> sz \<longleftrightarrow> 0 < ?k" by (auto simp: word_le_nat_alt)
  have all: "lexdiff (bytes m p (unat sz)) (bytes m q (unat sz)) =
      (if bytes m p (4 * j) = bytes m q (4 * j)
       then lexdiff (bytes m (p + of_nat (4 * j)) (unat sz - 4 * j)) (bytes m (q + of_nat (4 * j)) (unat sz - 4 * j))
       else lexdiff (bytes m p (4 * j)) (bytes m q (4 * j)))" if "j \<le> ?k" for j
    using that bytes_add [of m _ "4 * j" "unat sz - 4 * j"] by (simp add: lexdiff_append)
  consider (same) "cmp32 m p q ?k = 0" "bytes m p (4 * ?k) = bytes m q (4 * ?k)"
    | (first) "0 < ?k" "cmp32 m p q ?k = 0" "bytes m p 4 \<noteq> bytes m q 4"
    | (later) i where "0 < i" "i < ?k" "cmp32 m p q ?k = int i" "bytes m p (4 * i) = bytes m q (4 * i)"
        "bytes m (p + 4 * of_nat i) 4 \<noteq> bytes m (q + 4 * of_nat i) 4"
  proof (cases "cmp32 m p q ?k = 0 \<and> bytes m p (4 * ?k) = bytes m q (4 * ?k)")
    case False
    then obtain i where i: "i < ?k" "cmp32 m p q ?k = int i" "bytes m p (4 * i) = bytes m q (4 * i)"
      "bytes m (p + 4 * of_nat i) 4 \<noteq> bytes m (q + 4 * of_nat i) 4"
      using cmp32_cases [of m p q ?k] by blast
    then show thesis using first later by (cases "i = 0") auto
  qed (use same in blast)
  then show ?thesis
  proof cases
    case same
    have "4 \<le> sz \<Longrightarrow> bytes m p 4 = bytes m q 4"
      using same(2) bytes_add [of m _ 4 "4 * ?k - 4"] le4 by auto
    then show ?thesis using same all [of ?k] p q
      by (auto simp: DPMI_CompareLinear_def Let_def cmp8_lexdiff size4_times4 unat_size4 unat_size1
          minus_mult_div_eq_mod)
  next
    case first
    then show ?thesis using p q le4
      by (auto simp: DPMI_CompareLinear_def Let_def cmp8_lexdiff unat_size4 unat_size1)
  next
    case later
    have "4 \<le> 4 * i" using later by simp
    then have "bytes m p 4 = bytes m q 4"
      using later(4) bytes_add [of m _ 4 "4 * i - 4"] by auto
    moreover have "lexdiff (bytes m p (unat sz)) (bytes m q (unat sz)) =
        lexdiff (bytes m (p + 4 * of_nat i) 4) (bytes m (q + 4 * of_nat i) 4)"
    proof -
      have "unat sz - 4 * i = 4 + (unat sz - 4 * i - 4)" using later by simp
      then show ?thesis using all [of i] later bytes_add [of m _ 4 "unat sz - 4 * i - 4"]
        by (simp add: lexdiff_append)
    qed
    ultimately show ?thesis using later p q
      by (auto simp: DPMI_CompareLinear_def Let_def cmp8_4 unat_size4 algebra_simps)
  qed
qed

theorem dpmi_compare_linear_witness:
  "DPMI_CompareLinear \<lparr>physical = False, maps = []\<rparr> (\<lambda>a. if a = 0x204 then 9 else 0) 0x100 0x200 6 =
     Inr (lexdiff [0, 0, 0, 0, 0, 0] [0, 0, 0, 0, 9, 0])"
  by (subst dpmi_compare_linear [of _ _ "0x100" _ "0x200"])
    (simp_all add: UNMAP_ADDR_def bytes_def upt_rec word_le_nat_alt)

text \<open>Two different blocks of four bytes compare as equal.\<close>

lemma dpmi_compare_first_word:
  "DPMI_CompareLinear \<lparr>physical = False, maps = []\<rparr> (\<lambda>a. if a = 0x100 then 1 else 0) 0x100 0x200 4 = Inr 0"
  by (subst dpmi_compare_linear [of _ _ "0x100" _ "0x200"])
    (simp_all add: UNMAP_ADDR_def bytes_def upt_rec word_le_nat_alt)

section \<open>The table of mappings\<close>

lemma AddAddressMap_init:
  "mi_handle info \<noteq> 0 \<Longrightarrow>
   AddAddressMap info phys AddresMapTable_init = replicate 16
     \<lparr>Handle = mi_handle info, LinearAddr = mi_address info, PhysicalAddr = phys, Size = mi_size info\<rparr>"
  by (simp add: AddAddressMap_def AddresMapTable_init_def ADDRMAP_TABLE_SIZE_def AddressMap_zero_def)

text \<open>Once no entry is free, adding changes nothing.\<close>

lemma AddAddressMap_full: "(\<forall>e\<in>set t. Handle e \<noteq> 0) \<Longrightarrow> AddAddressMap info phys t = t"
  by (simp add: AddAddressMap_def map_idI)

lemma offset_in_block:
  fixes base off sz :: u32
  assumes "off \<le> sz" "base \<le> base + sz"
  shows "base \<le> base + off \<and> base + off \<le> base + sz"
proof -
  have "unat (base + sz) = unat base + unat sz"
    using assms(2) by (simp add: unat_plus_simple)
  then show ?thesis using assms unat_plus_simple [of base off] unat_u32_less [of "base + sz"]
    by (simp add: word_le_nat_alt unat_word_ariths)
qed

text \<open>The first block that is mapped into an empty table is translated correctly in both
  directions, its end address included: the physical address of an offset in the block is the
  physical start plus the offset, and translating back gives the linear address. But the code that
  adds a block has no stop in its loop and fills all free entries: every later mapping
  is answered without being entered in the table.\<close>

theorem dpmi_first_mapping:
  assumes m: "map_phys \<lparr>mi_handle = h0, mi_size = sz, mi_address = phys\<rparr> = Some info"
    and h: "mi_handle info \<noteq> 0" and s: "mi_size info = sz"
    and l: "mi_address info \<le> mi_address info + sz" and p: "phys \<le> phys + sz" and off: "off \<le> sz"
    and t: "DPMI_MapMemory map_phys h0 phys sz AddresMapTable_init = (lin, t)"
  shows "DPMI_L2P t (lin + off) = Inr (phys + off) \<and> DPMI_P2L t (phys + off) = Inr (lin + off)
    \<and> snd (DPMI_MapMemory map_phys h1 phys2 sz2 t) = t"
proof -
  have lin: "lin = mi_address info" and t: "t = replicate 16
      \<lparr>Handle = mi_handle info, LinearAddr = lin, PhysicalAddr = phys, Size = sz\<rparr>"
    using t m s h by (auto simp: DPMI_MapMemory_def AddAddressMap_init)
  have r: "replicate 16 x = x # replicate 15 x" for x :: AddressMap
    by (metis eval_nat_numeral(2) numeral_eq_Suc pred_numeral_simps(2) replicate_Suc semiring_norm(26) semiring_norm(27) semiring_norm(28))
  have "\<forall>e\<in>set t. Handle e \<noteq> 0" using h by (simp add: t)
  then have "snd (DPMI_MapMemory map_phys h1 phys2 sz2 t) = t"
    by (simp add: DPMI_MapMemory_def AddAddressMap_full split: option.split)
  then show ?thesis
    using offset_in_block [OF off l] offset_in_block [OF off p] h lin
    by (simp add: t r DPMI_L2P_def DPMI_P2L_def)
qed

theorem dpmi_first_mapping_witness:
  "\<exists>lin t. DPMI_MapMemory (\<lambda>i. Some (i\<lparr>mi_address := 0x10000000\<rparr>)) 7 0xE0000000 0x1000 AddresMapTable_init = (lin, t)
    \<and> DPMI_L2P t (lin + 0x20) = Inr (0xE0000000 + 0x20) \<and> DPMI_P2L t (0xE0000000 + 0x20) = Inr (lin + 0x20)
    \<and> snd (DPMI_MapMemory (\<lambda>i. Some (i\<lparr>mi_address := 0x10000000\<rparr>)) 8 0xD0000000 0x100 t) = t"
proof -
  let ?f = "\<lambda>i. Some (i\<lparr>mi_address := 0x10000000\<rparr>) :: dpmi_meminfo option"
  obtain lin t where t: "DPMI_MapMemory ?f 7 0xE0000000 0x1000 AddresMapTable_init = (lin, t)" by fastforce
  show ?thesis
    using dpmi_first_mapping [where map_phys = ?f and ?h0.0 = 7 and phys = "0xE0000000" and sz = "0x1000"
        and off = "0x20" and ?h1.0 = 8 and ?phys2.0 = "0xD0000000" and ?sz2.0 = "0x100", OF _ _ _ _ _ _ t] t
    by simp
qed

text \<open>Giving a block back removes one of its 16 entries only, so a second call for the
  same address succeeds too and gives the same handle to the DPMI host again.\<close>

lemma dpmi_unmap_again:
  fixes info :: dpmi_meminfo and phys :: u32
  assumes h: "mi_handle info \<noteq> 0" "mi_handle info \<noteq> 0xFFFFFFFF" and a: "mi_address info \<noteq> 0"
  defines "t \<equiv> AddAddressMap info phys AddresMapTable_init"
  shows "\<exists>t1 t2. DPMI_UnmappMemory (mi_address info) t = (True, [info], t1)
    \<and> DPMI_UnmappMemory (mi_address info) t1 = (True, [info], t2)"
proof -
  let ?e = "\<lparr>Handle = mi_handle info, LinearAddr = mi_address info, PhysicalAddr = phys, Size = mi_size info\<rparr>"
  have t: "t = [?e, ?e, ?e, ?e, ?e, ?e, ?e, ?e, ?e, ?e, ?e, ?e, ?e, ?e, ?e, ?e]"
    using h by (simp add: t_def AddAddressMap_init numeral_eq_Suc)
  have u: "[0..<16] = [0, 1, 2, 3, 4, 5, 6, 7, 8, 9, 10, 11, 12, 13, 14, 15]" by (simp add: upt_rec)
  have f: "FindAddressMap (mi_address info) t = 0" unfolding t FindAddressMap_def by (simp add: u)
  have f1: "FindAddressMap (mi_address info) (t[0 := AddressMap_zero]) = 1"
    unfolding t FindAddressMap_def using a by (simp add: u AddressMap_zero_def)
  have "DPMI_UnmappMemory (mi_address info) t = (True, [info], t[0 := AddressMap_zero])"
    unfolding DPMI_UnmappMemory_def f using h by (simp add: t Let_def)
  moreover have "DPMI_UnmappMemory (mi_address info) (t[0 := AddressMap_zero])
      = (True, [info], t[0 := AddressMap_zero, 1 := AddressMap_zero])"
    unfolding DPMI_UnmappMemory_def f1 using h by (simp add: t Let_def)
  ultimately show ?thesis by blast
qed

section \<open>The real-mode vectors\<close>

lemma st16_other: "b \<noteq> a \<Longrightarrow> b \<noteq> a + 1 \<Longrightarrow> st16 a v m b = m b"
  by (simp add: st16_def)

lemma st16_commute: "st16 (a + 2) v (st16 a w m) = st16 a w (st16 (a + 2) v m)"
  by (auto simp: st16_def fun_eq_iff)

lemma ld16_st16_other [simp]: "ld16 (st16 (a + 2) v m) a = ld16 m a" "ld16 (st16 a v m) (a + 2) = ld16 m (a + 2)"
  by (simp_all add: ld16_def st16_def)

text \<open>Hooking a real-mode vector directly in the interrupt table and unhooking it leaves memory
  exactly as it was; while it is hooked the vector is the new segment and offset, and no byte outside
  the four of that vector has changed. This is for the addressing without physical translation.\<close>

theorem dpmi_ivt_roundtrip:
  assumes np: "\<not> physical s"
  shows "\<exists>h m1. DPMI_InstallRealModeISR_Direct get_vec set_vec s i seg off True m = Inr (0, h, m1)
    \<and> ld16 m1 (ucast i * 4) = off \<and> ld16 m1 (ucast i * 4 + 2) = seg
    \<and> (\<forall>a. 4 \<le> a - ucast i * 4 \<longrightarrow> m1 a = m a)
    \<and> DPMI_UninstallRealModeISR_Direct set_vec s h m1 = Inr (0, m)"
proof -
  define v :: u32 where "v = ucast i * 4"
  define m1 where "m1 = st16 (v + 2) seg (st16 v off m)"
  define h where "h = \<lparr>h_old_rm_offset = ld16 m v, h_old_rm_cs = ld16 m (v + 2), h_n = i, h_rawIVT = True\<rparr>"
  have i: "DPMI_InstallRealModeISR_Direct get_vec set_vec s i seg off True m = Inr (0, h, m1)"
    using np by (simp add: DPMI_InstallRealModeISR_Direct_def DPMI_LoadW_def DPMI_StoreW_def UNMAP_ADDR_def
        h_def m1_def v_def)
  have u: "DPMI_UninstallRealModeISR_Direct set_vec s h m1 = Inr (0, m)"
    using np by (simp add: DPMI_UninstallRealModeISR_Direct_def DPMI_StoreW_def UNMAP_ADDR_def h_def m1_def
        st16_commute flip: v_def)
  have o: "m1 a = m a" if "4 \<le> a - v" for a
  proof -
    have "a \<noteq> v + 0" "a \<noteq> v + 1" "a \<noteq> v + 2" "a \<noteq> v + 3" using that by (auto simp: word_le_nat_alt)
    moreover from this have "a \<noteq> 3 + v" by (simp add: add.commute)
    ultimately show ?thesis by (simp add: m1_def st16_def)
  qed
  have "ld16 m1 v = off" "ld16 m1 (v + 2) = seg" by (simp_all add: m1_def)
  with i u o show ?thesis unfolding v_def by blast
qed

theorem dpmi_ivt_roundtrip_witness:
  "\<exists>h m1. DPMI_InstallRealModeISR_Direct (\<lambda>i m. (0, 0)) (\<lambda>i v m. (0, m)) \<lparr>physical = False, maps = []\<rparr>
      0x2D 0xF000 0x1234 True (\<lambda>a. 7) = Inr (0, h, m1)
    \<and> ld16 m1 (ucast (0x2D :: u8) * 4) = 0x1234 \<and> ld16 m1 (ucast (0x2D :: u8) * 4 + 2) = 0xF000
    \<and> (\<forall>a. 4 \<le> a - ucast (0x2D :: u8) * 4 \<longrightarrow> m1 a = 7)
    \<and> DPMI_UninstallRealModeISR_Direct (\<lambda>i v m. (0, m)) \<lparr>physical = False, maps = []\<rparr> h m1 = Inr (0, \<lambda>a. 7)"
  using dpmi_ivt_roundtrip [of "\<lparr>physical = False, maps = []\<rparr>" "\<lambda>i m. (0, 0)" "\<lambda>i v m. (0, m)" "0x2D" "0xF000" "0x1234" "\<lambda>a. 7"]
  by simp

section \<open>Allocating DOS memory\<close>

text \<open>The DOS functions 5800h to 5803h, as documented: the allocation strategy and the
  link of upper memory are read and set; where DOS has no upper memory (\<open>umb\<close> false),
  setting the link has no effect. The allocation itself changes neither.\<close>

definition dos58_laws :: "'d rm_ops \<Rightarrow> bool \<Rightarrow> ('d \<Rightarrow> u16) \<Rightarrow> ('d \<Rightarrow> u8) \<Rightarrow> bool" where
  "dos58_laws ops umb strat link \<longleftrightarrow>
     (\<forall>r d. reg_ah r = 0x58 \<longrightarrow>
       (let (r', d') = rm_int ops 0x21 r d in
         (reg_al r = 0 \<longrightarrow> reg_ax r' = strat d \<and> strat d' = strat d \<and> link d' = link d) \<and>
         (reg_al r = 1 \<longrightarrow> strat d' = reg_bx r \<and> link d' = link d) \<and>
         (reg_al r = 2 \<longrightarrow> reg_al r' = link d \<and> strat d' = strat d \<and> link d' = link d) \<and>
         (reg_al r = 3 \<longrightarrow> strat d' = strat d \<and> link d' = (if umb then lo8 (reg_bx r) else link d)))) \<and>
     (\<forall>n d. strat (snd (dos_alloc ops n d)) = strat d \<and> link (snd (dos_alloc ops n d)) = link d) \<and>
     (\<forall>n d. strat (dos_free ops n d) = strat d \<and> link (dos_free ops n d) = link d)"

lemma reg_reserved [simp]: "reg_al (r\<lparr>r_reserved := z\<rparr>) = reg_al r" "reg_bx (r\<lparr>r_reserved := z\<rparr>) = reg_bx r"
  "reg_ax (r\<lparr>r_reserved := z\<rparr>) = reg_ax r"
  by (simp_all add: reg_al_def reg_bx_def reg_ax_def)

lemma dos58_regs [simp]:
  "reg_ah (set_al al (set_ah 0x58 r)) = 0x58" "reg_al (set_al al (set_ah 0x58 r)) = al"
  "reg_ah (set_bx bx (set_al al (set_ah 0x58 r))) = 0x58" "reg_al (set_bx bx (set_al al (set_ah 0x58 r))) = al"
  by simp_all

lemma dos58_lawsD:
  assumes "dos58_laws ops umb strat link" "reg_ah r = 0x58" "rm_int ops 0x21 r d = (r', d')"
  shows "reg_al r = 0 \<Longrightarrow> reg_ax r' = strat d \<and> strat d' = strat d \<and> link d' = link d"
    "reg_al r = 1 \<Longrightarrow> strat d' = reg_bx r \<and> link d' = link d"
    "reg_al r = 2 \<Longrightarrow> reg_al r' = link d \<and> strat d' = strat d \<and> link d' = link d"
    "reg_al r = 3 \<Longrightarrow> strat d' = strat d \<and> link d' = (if umb then lo8 (reg_bx r) else link d)"
  using spec [OF spec [OF conjunct1 [OF assms(1) [unfolded dos58_laws_def]], of r], of d] assms(2,3) by simp_all

lemma dos58_get:
  assumes "dos58_laws ops umb strat link" "dos58 ops al (r, d) = (r', d')"
  shows "al = 0 \<Longrightarrow> reg_ax r' = strat d \<and> strat d' = strat d \<and> link d' = link d"
    "al = 2 \<Longrightarrow> reg_al r' = link d \<and> strat d' = strat d \<and> link d' = link d"
  using dos58_lawsD [OF assms(1) _ assms(2) [unfolded dos58_def DPMI_CallRealModeINT_def snd_conv]] by simp_all

lemma dos58_set:
  assumes "dos58_laws ops umb strat link" "dos58_bx ops al bx (r, d) = (r', d')"
  shows "al = 1 \<Longrightarrow> strat d' = bx \<and> link d' = link d"
    "al = 3 \<Longrightarrow> strat d' = strat d \<and> link d' = (if umb then lo8 bx else link d)"
  using dos58_lawsD [OF assms(1) _ assms(2) [unfolded dos58_bx_def DPMI_CallRealModeINT_def snd_conv]] by simp_all

text \<open>Allocating or freeing DOS memory through upper memory leaves the allocation strategy and
  the link of upper memory of DOS as they were; the allocation itself happens under the strategy
  82h, high memory first, with the link set as asked for wherever DOS has upper memory.\<close>

theorem dpmi_dosumb_restores:
  assumes laws: "dos58_laws ops umb strat link" and r: "DPMI_DOSUMB ops inp alloc UMB d = (result, d')"
  shows "strat d' = strat d \<and> link d' = link d
    \<and> (\<exists>d0. strat d0 = 0x82 \<and> link d0 = (if umb then (if UMB then 1 else 0) else link d)
        \<and> result = (if alloc then fst (DPMI_DOSMalloc ops (ucast inp) d0) else 0))"
proof -
  obtain r1 d1 where 1: "dos58 ops 2 (reg_zero, d) = (r1, d1)" by fastforce
  obtain r2 d2 where 2: "dos58_bx ops 3 (if UMB then 1 else 0) (r1, d1) = (r2, d2)" by fastforce
  obtain r3 d3 where 3: "dos58 ops 0 (r2, d2) = (r3, d3)" by fastforce
  obtain r4 d4 where 4: "dos58_bx ops 1 0x82 (r3, d3) = (r4, d4)" by fastforce
  define res where "res = (if alloc then DPMI_DOSMalloc ops (ucast inp) d4 else (0, DPMI_DOSFree ops inp d4))"
  obtain x d5 where 5: "res = (x, d5)" by fastforce
  obtain r6 d6 where 6: "dos58_bx ops 1 (reg_ax r3) (r4, d5) = (r6, d6)" by fastforce
  obtain r7 d7 where 7: "dos58_bx ops 3 (b2w (reg_al r1)) (r6, d6) = (r7, d7)" by fastforce
  have eq: "result = fst res" "d' = d7"
    using r 1 2 3 4 5 6 7 by (simp_all add: DPMI_DOSUMB_def flip: res_def)
  have keep: "strat d5 = strat d4" "link d5 = link d4"
    using laws arg_cong [OF 5, of snd] unfolding dos58_laws_def res_def DPMI_DOSMalloc_def DPMI_DOSFree_def
    by (auto split: prod.splits if_splits simp: Let_def) (metis snd_conv)+
  note g = dos58_get [OF laws 1] dos58_set [OF laws 2] dos58_get [OF laws 3] dos58_set [OF laws 4]
    dos58_set [OF laws 6] dos58_set [OF laws 7]
  have "strat d4 = 0x82 \<and> link d4 = (if umb then (if UMB then 1 else 0) else link d)"
    using g by (auto simp: lo8_def)
  moreover have "strat d7 = strat d \<and> link d7 = link d" using g keep by auto
  moreover have "result = (if alloc then fst (DPMI_DOSMalloc ops (ucast inp) d4) else 0)"
    by (simp add: eq res_def)
  ultimately show ?thesis unfolding eq by blast
qed

text \<open>A DOS with just the two settings, whose memory starts at 9000h.\<close>

definition dos_demo :: "(u16 \<times> u8) rm_ops" where
  "dos_demo = \<lparr>rm_int = (\<lambda>i r d.
       if reg_al r = 0 then (set_ax (fst d) r, d) else if reg_al r = 1 then (r, (reg_bx r, snd d))
       else if reg_al r = 2 then (set_al (snd d) r, d) else (r, (fst d, lo8 (reg_bx r)))),
     rm_retf = (\<lambda>r d. (r, d)), rm_code = (\<lambda>r d. 0), dos_alloc = (\<lambda>n d. ((0x9000, 0x2F), d)), dos_free = (\<lambda>s d. d)\<rparr>"

lemma dos_demo_laws: "dos58_laws dos_demo True fst snd"
  by (auto simp: dos58_laws_def dos_demo_def)

theorem dpmi_dosumb_restores_witness:
  "\<exists>result d'. DPMI_DOSUMB dos_demo 0x40 True True (0, 0) = (result, d') \<and> fst d' = 0 \<and> snd d' = 0
     \<and> (\<exists>d0. fst d0 = 0x82 \<and> snd d0 = 1 \<and> result = fst (DPMI_DOSMalloc dos_demo 0x40 d0))"
proof -
  obtain result d' where r: "DPMI_DOSUMB dos_demo 0x40 True True (0, 0) = (result, d')"
    by (rule prod.exhaust)
  show ?thesis using dpmi_dosumb_restores [OF dos_demo_laws r] r by simp
qed

end
