(* ===== verification/Traps.thy ===== *)
theory Traps
  imports Dpmi
begin

text \<open>
  The port traps of \<open>src/qemm.c\<close> (real mode, through the memory manager) and
  \<open>src/hdpmipt.c\<close> (protected mode, through the DPMI host). Both keep their tables of
  handlers in a doubly linked list behind a static header. The list lives in a store
  of nodes indexed by address; address 0 is the null pointer and address 1 the
  static header. An access through an address without a node is an error.
\<close>

section \<open>The linked tables\<close>

type_synonym 'd io_handler = "u32 \<Rightarrow> u32 \<Rightarrow> u32 \<Rightarrow> 'd \<Rightarrow> u32 \<times> 'd"

record 'd QEMM_IODT =
  io_port :: u32
  io_handler :: "'d io_handler"

record 'd QEMM_IODT_LINK =
  l_iodt :: "'d QEMM_IODT list"
  l_prev :: nat
  l_next :: nat

type_synonym 'd store = "nat \<rightharpoonup> 'd QEMM_IODT_LINK"

definition header :: nat where "header = 1"

definition deref :: "'d store \<Rightarrow> nat \<Rightarrow> 'd QEMM_IODT_LINK res" where
  "deref h p = (case h p of Some l \<Rightarrow> Inr l | None \<Rightarrow> Inl Null_pointer)"

definition set_next :: "nat \<Rightarrow> nat \<Rightarrow> 'd store \<Rightarrow> 'd store res" where
  "set_next p q h = bindE (deref h p) (\<lambda>l. Inr (h(p \<mapsto> l\<lparr>l_next := q\<rparr>)))"

definition set_prev :: "nat \<Rightarrow> nat \<Rightarrow> 'd store \<Rightarrow> 'd store res" where
  "set_prev p q h = bindE (deref h p) (\<lambda>l. Inr (h(p \<mapsto> l\<lparr>l_prev := q\<rparr>)))"

text \<open>A new node behind the last one, and the removal of a node.\<close>

definition link_append :: "nat \<Rightarrow> 'd QEMM_IODT list \<Rightarrow> 'd store \<times> nat \<Rightarrow> ('d store \<times> nat) res" where
  "link_append new iodt w =
     (let (h, link) = w in
      bindE (set_next link new (h(new \<mapsto> \<lparr>l_iodt = iodt, l_prev = link, l_next = 0\<rparr>))) (\<lambda>h. Inr (h, new)))"

definition link_remove :: "nat \<Rightarrow> 'd store \<times> nat \<Rightarrow> ('d store \<times> nat) res" where
  "link_remove p w =
     (let (h, link) = w in
      bindE (deref h p) (\<lambda>l.
      bindE (set_next (l_prev l) (l_next l) h) (\<lambda>h.
      bindE (if l_next l \<noteq> 0 then set_prev (l_next l) (l_prev l) h else Inr h) (\<lambda>h.
      Inr (h(p := None), if link = p then l_prev l else link)))))"

text \<open>The search of the trap handlers, through the tables in their order and through the
  entries of each. \<open>key\<close> is what is compared with the port. The walk follows pointers,
  so it might not end: no result is also what an access without a node gives.\<close>

partial_function (option) link_find ::
  "('d QEMM_IODT \<Rightarrow> u32) \<Rightarrow> u32 \<Rightarrow> 'd store \<Rightarrow> nat \<Rightarrow> 'd io_handler option option" where
  "link_find key port h p =
     (if p = 0 then Some None
      else case h p of
        None \<Rightarrow> None
      | Some l \<Rightarrow>
          (case find (\<lambda>e. key e = port) (l_iodt l) of
             Some e \<Rightarrow> Some (Some (io_handler e))
           | None \<Rightarrow> link_find key port h (l_next l)))"

declare link_find.simps [code]

subsection \<open>The list that a store holds\<close>

primrec linked :: "'d store \<Rightarrow> nat \<Rightarrow> nat \<Rightarrow> nat list \<Rightarrow> nat \<Rightarrow> bool" where
  "linked h prev p [] q = (p = q)"
| "linked h prev p (x # xs) q =
     (p = x \<and> x \<noteq> 0 \<and> (\<exists>l. h x = Some l \<and> l_prev l = prev \<and> linked h x (l_next l) xs q))"

definition trap_list :: "'d store \<times> nat \<Rightarrow> nat list \<Rightarrow> bool" where
  "trap_list w xs =
     (distinct (header # xs) \<and> snd w = last (header # xs)
      \<and> (\<exists>l. fst w header = Some l \<and> linked (fst w) header (l_next l) xs 0))"

definition table_of :: "'d store \<Rightarrow> nat \<Rightarrow> 'd QEMM_IODT list" where
  "table_of h p = (case h p of Some l \<Rightarrow> l_iodt l | None \<Rightarrow> [])"

definition tables :: "'d store \<Rightarrow> nat list \<Rightarrow> 'd QEMM_IODT list" where
  "tables h xs = concat (map (table_of h) xs)"

lemma linked_cong:
  "(\<And>x. x \<in> set xs \<Longrightarrow> h' x = h x) \<Longrightarrow> linked h' prev p xs q = linked h prev p xs q"
  by (induction xs arbitrary: prev p) auto

lemma tables_cong: "(\<And>x. x \<in> set xs \<Longrightarrow> table_of h' x = table_of h x) \<Longrightarrow> tables h' xs = tables h xs"
  unfolding tables_def by (metis (mono_tags, lifting) map_eq_conv)

lemma tables_simps [simp]: "tables h [] = []" "tables h (x # xs) = table_of h x @ tables h xs"
  "tables h (xs @ ys) = tables h xs @ tables h ys"
  by (simp_all add: tables_def)

lemma linked_append:
  "linked h prev p (xs @ ys) q \<longleftrightarrow> (\<exists>r. linked h prev p xs r \<and> linked h (last (prev # xs)) r ys q)"
  by (induction xs arbitrary: prev p) auto

lemma linked_nonzero: "linked h prev p xs q \<Longrightarrow> 0 \<notin> set xs"
  by (induction xs arbitrary: prev p) auto

lemma linked_stored: "linked h prev p xs q \<Longrightarrow> x \<in> set xs \<Longrightarrow> \<exists>l. h x = Some l"
  by (induction xs arbitrary: prev p) auto

lemma find_append: "find P (xs @ ys) = (case find P xs of Some x \<Rightarrow> Some x | None \<Rightarrow> find P ys)"
  by (induction xs) auto

lemma link_find_linked:
  "linked h prev p xs 0 \<Longrightarrow>
   link_find key port h p = Some (map_option io_handler (find (\<lambda>e. key e = port) (tables h xs)))"
proof (induction xs arbitrary: prev p)
  case Nil
  then show ?case by (simp add: link_find.simps [of _ _ _ 0])
next
  case (Cons x xs)
  then obtain l where l: "p = x" "x \<noteq> 0" "h x = Some l" "linked h x (l_next l) xs 0" by auto
  then show ?case using Cons.IH [OF l(4)]
    by (subst link_find.simps) (auto simp: table_of_def find_append split: option.split)
qed

lemma link_append_list:
  assumes t: "trap_list (h, link) xs" and new: "new \<notin> set (header # xs)" "new \<noteq> 0"
  shows "\<exists>h'. link_append new iodt (h, link) = Inr (h', new) \<and> trap_list (h', new) (xs @ [new])
    \<and> table_of h' new = iodt \<and> (\<forall>p. p \<noteq> new \<longrightarrow> table_of h' p = table_of h p)"
proof -
  let ?n = "\<lparr>l_iodt = iodt, l_prev = link, l_next = 0\<rparr>"
  obtain l0 where l0: "h header = Some l0" "linked h header (l_next l0) xs 0"
    and d: "distinct (header # xs)" "link = last (header # xs)"
    using t by (auto simp: trap_list_def)
  obtain k where k: "h link = Some k" "link \<in> set (header # xs)"
    using d(2) l0(1) linked_stored [OF l0(2), of link] by (cases xs rule: rev_cases) auto
  define h' where "h' = h(new \<mapsto> ?n, link \<mapsto> k\<lparr>l_next := new\<rparr>)"
  have nl: "new \<noteq> link" using k new by auto
  have e: "link_append new iodt (h, link) = Inr (h', new)"
    using k nl by (simp add: link_append_def set_next_def deref_def h'_def)
  have tl: "trap_list (h', new) (xs @ [new])"
  proof (cases xs rule: rev_cases)
    case Nil
    then show ?thesis using new d k nl by (simp add: trap_list_def h'_def header_def)
  next
    case (snoc ys y)
    then have y: "link = y" using d by simp
    have ys: "linked h header (l_next l0) ys y" "l_prev k = last (header # ys)" "y \<noteq> 0"
      using l0(2) k y by (auto simp: snoc linked_append)
    have "linked h' header (l_next l0) ys y"
      using ys(1) d new by (subst linked_cong [of _ _ h]) (auto simp: h'_def snoc y)
    then have "linked h' header (l_next l0) (xs @ [new]) 0"
      using ys new nl y by (auto simp: snoc linked_append h'_def)
    moreover have "h' header = Some l0" using l0 new d y by (auto simp: h'_def snoc)
    ultimately show ?thesis using new d by (auto simp: trap_list_def)
  qed
  have "table_of h' new = iodt" "\<forall>p. p \<noteq> new \<longrightarrow> table_of h' p = table_of h p"
    using nl k by (simp_all add: h'_def table_of_def)
  then show ?thesis using e tl by blast
qed

text \<open>Changing the end and the start of a piece of the list.\<close>

lemma linked_set_end:
  assumes "linked h prev p xs r" "xs \<noteq> []" "distinct xs" "h (last xs) = Some k"
  shows "linked (h(last xs \<mapsto> k\<lparr>l_next := q\<rparr>)) prev p xs q"
proof -
  obtain ys y where xs: "xs = ys @ [y]" using assms(2) by (cases xs rule: rev_cases) auto
  have "linked h prev p ys y" "l_prev k = last (prev # ys)" "y \<noteq> 0" using assms(1,4) by (auto simp: xs linked_append)
  moreover have "linked (h(y \<mapsto> k\<lparr>l_next := q\<rparr>)) prev p ys y = linked h prev p ys y"
    by (rule linked_cong) (use assms(3) in \<open>auto simp: xs\<close>)
  ultimately show ?thesis by (simp add: xs linked_append)
qed

lemma linked_set_start:
  assumes "linked h prev p (y # ys) q" "distinct (y # ys)" "h y = Some k"
  shows "linked (h(y \<mapsto> k\<lparr>l_prev := pr\<rparr>)) pr p (y # ys) q"
proof -
  have "linked (h(y \<mapsto> k\<lparr>l_prev := pr\<rparr>)) y (l_next k) ys q = linked h y (l_next k) ys q"
    by (rule linked_cong) (use assms(2) in auto)
  then show ?thesis using assms by simp
qed

lemma link_remove_list:
  assumes t: "trap_list (h, link) (xs @ p # ys)"
  shows "\<exists>h'. link_remove p (h, link) = Inr (h', last (header # xs @ ys))
    \<and> trap_list (h', last (header # xs @ ys)) (xs @ ys) \<and> (\<forall>x. x \<noteq> p \<longrightarrow> table_of h' x = table_of h x)"
proof -
  obtain l0 where l0: "h header = Some l0" "linked h header (l_next l0) (xs @ p # ys) 0"
    and d: "distinct (header # xs @ p # ys)" "link = last (header # xs @ p # ys)"
    using t by (auto simp: trap_list_def)
  obtain l where l: "h p = Some l" "p \<noteq> 0" "l_prev l = last (header # xs)"
    "linked h header (l_next l0) xs p" "linked h p (l_next l) ys 0"
    using l0(2) by (auto simp: linked_append)
  define pr q where "pr = last (header # xs)" and "q = l_next l"
  obtain k where k: "h pr = Some k" "pr \<in> set (header # xs)"
    unfolding pr_def using l0(1) linked_stored [OF l(4)] by (cases xs rule: rev_cases) auto
  have pr: "pr \<noteq> p" "pr \<notin> set ys" using k d by auto
  define h1 where "h1 = h(pr \<mapsto> k\<lparr>l_next := q\<rparr>)"
  define h2 where "h2 = (case ys of [] \<Rightarrow> h1 | y # zs \<Rightarrow> h1(y \<mapsto> the (h y)\<lparr>l_prev := pr\<rparr>))"
  have y: "ys = y # zs \<Longrightarrow> q = y \<and> y \<noteq> 0 \<and> (\<exists>m. h y = Some m) \<and> y \<noteq> pr" for y zs
    using l(5) pr by (auto simp: q_def)
  have q0: "ys = [] \<Longrightarrow> q = 0" using l(5) by (simp add: q_def)
  have last: "(if link = p then pr else link) = last (header # xs @ ys)"
    using d by (cases ys rule: rev_cases) (auto simp: pr_def)
  have s3: "(if q \<noteq> 0 then set_prev q pr h1 else Inr h1) = Inr h2"
    using q0 y by (cases ys) (auto simp: h2_def h1_def set_prev_def deref_def)
  have s1: "deref h p = Inr l" "l_prev l = pr" "set_next pr q h = Inr h1"
    using l(1,3) k by (simp_all add: deref_def set_next_def h1_def pr_def)
  have e: "link_remove p (h, link) = Inr (h2(p := None), last (header # xs @ ys))"
    unfolding link_remove_def Let_def prod.case s1(1) bindE_simps s1(2) q_def [symmetric] s1(3) s3 last ..
  have keep: "table_of (h2(p := None)) x = table_of h x" if "x \<noteq> p" for x
    using that k y by (cases ys) (auto simp: table_of_def h2_def h1_def)
  have xs: "linked (h2(p := None)) header (if xs = [] then q else l_next l0) xs q"
  proof (cases "xs = []")
    case False
    then have "linked h1 header (l_next l0) xs q"
      using linked_set_end [OF l(4) False] d k by (simp add: h1_def pr_def)
    moreover have "linked (h2(p := None)) header (l_next l0) xs q = linked h1 header (l_next l0) xs q"
      by (rule linked_cong) (use d in \<open>auto simp: h2_def split: list.split\<close>)
    ultimately show ?thesis using False by simp
  qed simp
  have ys: "linked (h2(p := None)) pr q ys 0"
  proof (cases ys)
    case (Cons z zs)
    obtain m where m: "h z = Some m" using y Cons by blast
    have "linked h1 p q ys 0 = linked h p q ys 0"
      by (rule linked_cong) (use pr in \<open>auto simp: h1_def\<close>)
    then have z: "linked h1 p q (z # zs) 0" using l(5) Cons by (simp add: q_def)
    have "distinct (z # zs)" "h1 z = Some m" using d m pr Cons by (auto simp: h1_def)
    then have "linked (h1(z \<mapsto> m\<lparr>l_prev := pr\<rparr>)) pr q (z # zs) 0" by (rule linked_set_start [OF z])
    then have "linked h2 pr q ys 0" using m by (simp only: h2_def Cons list.case option.sel)
    moreover have "linked (h2(p := None)) pr q ys 0 = linked h2 pr q ys 0"
      by (rule linked_cong) (use d in auto)
    ultimately show ?thesis by simp
  qed (simp add: q0)
  have hd: "\<exists>l'. (h2(p := None)) header = Some l' \<and> l_next l' = (if xs = [] then q else l_next l0)"
  proof (cases "xs = []")
    case True
    then have "header = pr" by (simp add: pr_def)
    then show ?thesis using True d y by (cases ys) (auto simp: h2_def h1_def)
  next
    case False
    then have "pr \<in> set xs" by (simp add: pr_def)
    then have "header \<noteq> pr" using d by auto
    then show ?thesis using False d l0 by (cases ys) (auto simp: h2_def h1_def)
  qed
  have "trap_list (h2(p := None), last (header # xs @ ys)) (xs @ ys)"
    using hd xs ys d by (auto simp: trap_list_def linked_append pr_def)
  then show ?thesis using e keep by blast
qed

subsection \<open>The tables a store stands for\<close>

definition entries :: "('d QEMM_IODT \<Rightarrow> u32) \<Rightarrow> 'd QEMM_IODT list \<Rightarrow> (u32 \<times> 'd io_handler) list" where
  "entries key t = map (\<lambda>e. (key e, io_handler e)) t"

type_synonym 'd tables = "(nat \<times> (u32 \<times> 'd io_handler) list) list"

definition trap_rep :: "('d QEMM_IODT \<Rightarrow> u32) \<Rightarrow> 'd store \<times> nat \<Rightarrow> 'd tables \<Rightarrow> bool" where
  "trap_rep key w ts =
     (trap_list w (map fst ts) \<and> (\<forall>x\<in>set ts. entries key (table_of (fst w) (fst x)) = snd x))"

definition trap_look :: "('d QEMM_IODT \<Rightarrow> u32) \<Rightarrow> u32 \<Rightarrow> 'd store \<times> nat \<Rightarrow> 'd io_handler option option" where
  "trap_look key port w = (case fst w header of None \<Rightarrow> None | Some l \<Rightarrow> link_find key port (fst w) (l_next l))"

lemma map_of_entries: "map_of (entries key t) port = map_option io_handler (find (\<lambda>e. key e = port) t)"
  by (induction t) (auto simp: entries_def)

lemma entries_append [simp]: "entries key (s @ t) = entries key s @ entries key t"
  by (simp add: entries_def)

lemma entries_tables: "entries key (tables h xs) = concat (map (\<lambda>p. entries key (table_of h p)) xs)"
  by (induction xs) (simp_all add: entries_def)

lemma trap_look_rep:
  assumes "trap_rep key w ts"
  shows "trap_look key port w = Some (map_of (concat (map snd ts)) port)"
proof -
  obtain l where l: "fst w header = Some l" "linked (fst w) header (l_next l) (map fst ts) 0"
    using assms by (auto simp: trap_rep_def trap_list_def)
  have "map snd ts = map (\<lambda>x. entries key (table_of (fst w) (fst x))) ts"
    using assms by (simp add: trap_rep_def)
  then have "concat (map snd ts) = entries key (tables (fst w) (map fst ts))"
    by (simp only: entries_tables map_map comp_def)
  then show ?thesis using link_find_linked [OF l(2), of key port] l(1)
    by (simp add: trap_look_def map_of_entries)
qed

lemma trap_rep_append:
  assumes r: "trap_rep key w ts" and new: "new \<notin> set (header # map fst ts)" "new \<noteq> 0"
    and w: "link_append new iodt w = Inr w'"
  shows "trap_rep key w' (ts @ [(new, entries key iodt)])"
proof -
  have t: "trap_list (fst w, snd w) (map fst ts)" using r by (simp add: trap_rep_def)
  obtain h' where "w' = (h', new)" "trap_list (h', new) (map fst ts @ [new])" "table_of h' new = iodt"
    "\<And>p. p \<noteq> new \<Longrightarrow> table_of h' p = table_of (fst w) p"
    using link_append_list [OF t new, of iodt] w by auto
  moreover have "x \<in> set ts \<Longrightarrow> fst x \<noteq> new" for x using new by auto
  ultimately show ?thesis using r by (simp add: trap_rep_def)
qed

lemma trap_rep_remove:
  assumes r: "trap_rep key w (xs @ (p, t) # ys)" and w: "link_remove p w = Inr w'"
  shows "trap_rep key w' (xs @ ys)"
proof -
  have t: "trap_list (fst w, snd w) (map fst xs @ p # map fst ys)" using r by (simp add: trap_rep_def)
  obtain h' where "w' = (h', last (header # map fst xs @ map fst ys))"
    "trap_list w' (map fst xs @ map fst ys)" "\<And>x. x \<noteq> p \<Longrightarrow> table_of h' x = table_of (fst w) x"
    using link_remove_list [OF t] w by auto
  moreover have "x \<in> set xs \<union> set ys \<Longrightarrow> fst x \<noteq> p" for x using t by (auto simp: trap_list_def)
  ultimately show ?thesis using r by (simp add: trap_rep_def ball_Un)
qed

section \<open>The interface of a trap service\<close>

text \<open>
  \<open>ins p t s s'\<close> and \<open>del p s s'\<close> say that an installation of the table \<open>t\<close> under the
  handle \<open>p\<close> and the removal of \<open>p\<close> took the state from \<open>s\<close> to \<open>s'\<close>; \<open>rep\<close> says which
  tables a state holds, in the order of their installation. A run is a sequence of
  installations and removals, with the tables that are installed after it.
\<close>

inductive trap_run ::
  "(nat \<Rightarrow> (u32 \<times> 'd io_handler) list \<Rightarrow> 's \<Rightarrow> 's \<Rightarrow> bool) \<Rightarrow> (nat \<Rightarrow> 's \<Rightarrow> 's \<Rightarrow> bool) \<Rightarrow> 's \<Rightarrow> 's \<Rightarrow> 'd tables \<Rightarrow> bool"
  for ins del s0 where
  start: "trap_run ins del s0 s0 []"
| install: "trap_run ins del s0 s ts \<Longrightarrow> ins p t s s' \<Longrightarrow> p \<notin> set (header # map fst ts) \<Longrightarrow> p \<noteq> 0 \<Longrightarrow>
    trap_run ins del s0 s' (ts @ [(p, t)])"
| uninstall: "trap_run ins del s0 s (xs @ (p, t) # ys) \<Longrightarrow> del p s s' \<Longrightarrow> trap_run ins del s0 s' (xs @ ys)"

locale port_trap =
  fixes rep :: "'s \<Rightarrow> 'd tables \<Rightarrow> bool"
    and look :: "u32 \<Rightarrow> 's \<Rightarrow> 'd io_handler option option"
    and ins :: "nat \<Rightarrow> (u32 \<times> 'd io_handler) list \<Rightarrow> 's \<Rightarrow> 's \<Rightarrow> bool"
    and del :: "nat \<Rightarrow> 's \<Rightarrow> 's \<Rightarrow> bool"
  assumes look_rep: "rep s ts \<Longrightarrow> look port s = Some (map_of (concat (map snd ts)) port)"
    and ins_rep: "rep s ts \<Longrightarrow> ins p t s s' \<Longrightarrow> p \<notin> set (header # map fst ts) \<Longrightarrow> p \<noteq> 0 \<Longrightarrow> rep s' (ts @ [(p, t)])"
    and del_rep: "rep s (xs @ (p, t) # ys) \<Longrightarrow> del p s s' \<Longrightarrow> rep s' (xs @ ys)"
begin

lemma run_rep: "trap_run ins del s0 s ts \<Longrightarrow> rep s0 [] \<Longrightarrow> rep s ts"
  by (induction rule: trap_run.induct) (auto intro: ins_rep del_rep)

lemma first_wins:
  "rep s ts \<Longrightarrow> ins p t s s' \<Longrightarrow> p \<notin> set (header # map fst ts) \<Longrightarrow> p \<noteq> 0 \<Longrightarrow>
   look port s' = Some (case map_of (concat (map snd ts)) port of Some f \<Rightarrow> Some f | None \<Rightarrow> map_of t port)"
  by (auto simp: look_rep [OF ins_rep] map_add_def split: option.split)

lemma ins_del:
  assumes "rep s ts" "ins p t s s1" "p \<notin> set (header # map fst ts)" "p \<noteq> 0" "del p s1 s2"
  shows "rep s2 ts" "look port s2 = look port s"
proof -
  have "rep s1 (ts @ (p, t) # [])" using ins_rep assms by simp
  then show "rep s2 ts" using del_rep [of s1 ts p t "[]"] assms by simp
  then show "look port s2 = look port s" using assms by (simp add: look_rep)
qed

end

section \<open>Real mode\<close>

text \<open>
  The variables of \<open>src/qemm.c\<close>, with the state of XMS, of linear memory and of the world
  that the real-mode calls act on. What the file takes from the compiler and from the
  DPMI host is \<open>qemm_env\<close>: the machine code of the stub, the addresses of the buffers it
  is copied from, and the allocation of the real-mode callback.
\<close>

record 'd qemm =
  q_nodes :: "'d store \<times> nat"
  QEMM_EntryIP :: u16
  QEMM_EntryCS :: u16
  QEMM_InCallback :: bool
  QEMM_OldCallbackIP :: u16
  QEMM_OldCallbackCS :: u16
  QEMM_DOSMEM :: u32
  QEMM_TrapHandlerREG :: DPMI_REG
  QEMM_TrapFlags :: u32
  q_xms :: DPMI_REG
  q_mem :: mem
  q_world :: 'd

record 'd qemm_env =
  e_ops :: "'d rm_ops"
  e_dpmi :: dpmi
  e_code :: "u8 list"
  e_rmcb_lin :: u32
  e_buf_lin :: u32
  e_rmcb :: "'d \<Rightarrow> u32 \<times> 'd"

definition CPU_CFLAG :: u16 where "CPU_CFLAG = 1"
definition QEMM_TF_PM :: u32 where "QEMM_TF_PM = 1"

definition DPMI_SEGOFF2L :: "u32 \<Rightarrow> u32 \<Rightarrow> u32" where
  "DPMI_SEGOFF2L seg off = push_bit 4 (seg AND 0xFFFF) + (off AND 0xFFFF)"

definition trap_list_empty :: "'d store \<times> nat \<Rightarrow> bool res" where
  "trap_list_empty w = bindE (deref (fst w) header) (\<lambda>l. Inr (l_next l = 0))"

text \<open>A call of the memory manager: its code, its registers and the state after it.\<close>

definition q_call :: "'d qemm_env \<Rightarrow> DPMI_REG \<Rightarrow> 'd qemm \<Rightarrow> u16 \<times> DPMI_REG \<times> 'd qemm" where
  "q_call env r s =
     (let (r', d) = DPMI_CallRealModeRETF (e_ops env) r (q_world s)
      in (retf_code (e_ops env) r (q_world s), r', s\<lparr>q_world := d\<rparr>))"

definition q_entry :: "'d qemm \<Rightarrow> u16 \<Rightarrow> DPMI_REG \<Rightarrow> DPMI_REG" where
  "q_entry s ax r = set_ax ax (r\<lparr>r_cs := QEMM_EntryCS s, r_ip := QEMM_EntryIP s\<rparr>)"

definition QEMM_TrapHandler :: "'d qemm_env \<Rightarrow> 'd qemm \<Rightarrow> 'd qemm option" where
  "QEMM_TrapHandler env s =
     (let R = QEMM_TrapHandlerREG s;
          port = ucast (reg_dx R); val = ucast (reg_al R); out = ucast (reg_cl R);
          s = s\<lparr>QEMM_TrapFlags := QEMM_TrapFlags s AND NOT QEMM_TF_PM, QEMM_InCallback := True\<rparr>
      in case fst (q_nodes s) header of None \<Rightarrow> None | Some l \<Rightarrow>
      (case link_find (\<lambda>e. io_port e AND 0xFFFF) port (fst (q_nodes s)) (l_next l) of
         None \<Rightarrow> None
       | Some (Some f) \<Rightarrow>
           (let (v, d) = f port val out (q_world s)
            in Some (s\<lparr>QEMM_TrapHandlerREG := set_al (ucast v) (R\<lparr>r_flags := r_flags R AND NOT CPU_CFLAG\<rparr>),
                       q_world := d\<rparr>))
       | Some None \<Rightarrow>
           (let s = s\<lparr>QEMM_InCallback := False\<rparr>;
                r = R\<lparr>r_cs := QEMM_OldCallbackCS s, r_ip := QEMM_OldCallbackIP s, r_ss := 0, r_sp := 0\<rparr>;
                (c, r, s) = q_call env r s
            in Some (s\<lparr>QEMM_TrapHandlerREG :=
                  set_al (reg_al r) (R\<lparr>r_flags := r_flags R OR (r_flags r AND CPU_CFLAG)\<rparr>)\<rparr>))))"

definition QEMM_GetIOPrtTrap_Context :: "'d qemm \<Rightarrow> DPMI_REG option" where
  "QEMM_GetIOPrtTrap_Context s =
     (if \<not> QEMM_InCallback s then None
      else if QEMM_TrapFlags s AND QEMM_TF_PM \<noteq> 0 then None
      else Some (QEMM_TrapHandlerREG s))"

definition write_bytes :: "u32 \<Rightarrow> u8 list \<Rightarrow> mem \<Rightarrow> mem" where
  "write_bytes a bs m = fold (\<lambda>i m. m(a + of_nat i := bs ! i)) [0..<length bs] m"

text \<open>The address of the callback and the stub behind it and its two data bytes.\<close>

definition QEMM_copy_stub :: "'d qemm_env \<Rightarrow> u32 \<Rightarrow> 'd qemm \<Rightarrow> 'd qemm res" where
  "QEMM_copy_stub env rmcb s =
     bindE (DPMI_CopyLinear (e_dpmi env) (st32 (e_rmcb_lin env) rmcb (q_mem s))
              (DPMI_SEGOFF2L (QEMM_DOSMEM s) 0) (e_rmcb_lin env) 4) (\<lambda>m.
     bindE (DPMI_CopyLinear (e_dpmi env) (write_bytes (e_buf_lin env) (e_code env) m)
              (DPMI_SEGOFF2L (QEMM_DOSMEM s) 6) (e_buf_lin env) (of_nat (length (e_code env)))) (\<lambda>m.
     Inr (s\<lparr>q_mem := m\<rparr>)))"

definition QEMM_free_stub :: "'d qemm_env \<Rightarrow> 'd qemm \<Rightarrow> 'd qemm res" where
  "QEMM_free_stub env s =
     bindE (DPMI_HighFree (e_ops env) (QEMM_DOSMEM s) (q_xms s, q_world s)) (\<lambda>(x, d).
       Inr (s\<lparr>q_xms := x, q_world := d, QEMM_DOSMEM := 0\<rparr>))"

definition QEMM_alloc_stub :: "'d qemm_env \<Rightarrow> 'd qemm \<Rightarrow> (bool \<times> 'd qemm) res" where
  "QEMM_alloc_stub env s =
     bindE (DPMI_HighMalloc (e_ops env) (of_nat ((length (e_code env) + 21) div 16)) False
              (q_xms s, q_world s)) (\<lambda>(dosmem, x, d).
     let (rmcb, d) = e_rmcb env d;
         s = s\<lparr>QEMM_DOSMEM := dosmem, q_xms := x, q_world := d\<rparr>
     in if rmcb = 0 then bindE (QEMM_free_stub env s) (\<lambda>s. Inr (False, s))
        else bindE (QEMM_copy_stub env rmcb s) (\<lambda>s. Inr (True, s)))"

text \<open>What the first installation does: it keeps the old callback and sets its own.\<close>

definition QEMM_hook :: "'d qemm_env \<Rightarrow> 'd qemm \<Rightarrow> (bool \<times> 'd qemm) res" where
  "QEMM_hook env s =
     (let (c, r, s) = q_call env (q_entry s 0x1A06 reg_zero) s in
      if c \<noteq> 0 \<or> r_flags r AND CPU_CFLAG \<noteq> 0 then Inr (False, s)
      else let s = s\<lparr>QEMM_OldCallbackIP := r_es r, QEMM_OldCallbackCS := reg_di r\<rparr> in
      bindE (if QEMM_DOSMEM s = 0 then QEMM_alloc_stub env s else Inr (True, s)) (\<lambda>(ok, s).
        if \<not> ok then Inr (False, s)
        else let (c, r, s) = q_call env (set_di 6 ((q_entry s 0x1A07 r)\<lparr>r_es := ucast (QEMM_DOSMEM s AND 0xFFFF)\<rparr>)) s
        in if c \<noteq> 0 \<or> r_flags r AND CPU_CFLAG \<noteq> 0
           then bindE (QEMM_free_stub env s) (\<lambda>s. Inr (False, s))
           else Inr (True, s)))"

text \<open>For one entry: ask for its state, note it in the high half of the port, and set the trap.\<close>

definition QEMM_trap_port :: "'d qemm_env \<Rightarrow> 'd QEMM_IODT \<Rightarrow> 'd qemm \<Rightarrow> 'd QEMM_IODT \<times> 'd qemm" where
  "QEMM_trap_port env e s =
     (let (c, r, s) = q_call env (set_dx (ucast (io_port e)) (q_entry s 0x1A08 reg_zero)) s;
          e = e\<lparr>io_port := io_port e OR push_bit 16 (ucast (reg_bl r))\<rparr>;
          (c, r, s) = q_call env (set_dx (ucast (io_port e AND 0xFFFF)) (q_entry s 0x1A09 r)) s
      in (e, s))"

primrec QEMM_trap_ports :: "'d qemm_env \<Rightarrow> 'd QEMM_IODT list \<Rightarrow> 'd qemm \<Rightarrow> 'd QEMM_IODT list \<times> 'd qemm" where
  "QEMM_trap_ports env [] s = ([], s)"
| "QEMM_trap_ports env (e # es) s =
     (let (e, s) = QEMM_trap_port env e s; (es, s) = QEMM_trap_ports env es s in (e # es, s))"

text \<open>\<open>new\<close> is the address that the allocation of the node answers.\<close>

definition QEMM_Install_IOPortTrap ::
  "'d qemm_env \<Rightarrow> nat \<Rightarrow> 'd QEMM_IODT list \<Rightarrow> 'd qemm \<Rightarrow> (bool \<times> 'd qemm) res" where
  "QEMM_Install_IOPortTrap env new iodt s =
     bindE (trap_list_empty (q_nodes s)) (\<lambda>empty.
     bindE (if empty then QEMM_hook env s else Inr (True, s)) (\<lambda>(ok, s).
       if \<not> ok then Inr (False, s)
       else let (iodt, s) = QEMM_trap_ports env iodt s in
       bindE (link_append new iodt (q_nodes s)) (\<lambda>w. Inr (True, s\<lparr>q_nodes := w\<rparr>))))"

definition QEMM_untrap_port :: "'d qemm_env \<Rightarrow> 'd QEMM_IODT \<Rightarrow> 'd qemm \<Rightarrow> 'd qemm" where
  "QEMM_untrap_port env e s =
     (if io_port e AND 0xFFFF0000 = 0
      then let (c, r, s) = q_call env (set_dx (ucast (io_port e AND 0xFFFF)) (q_entry s 0x1A0A reg_zero)) s in s
      else s)"

definition QEMM_Uninstall_IOPortTrap :: "'d qemm_env \<Rightarrow> nat \<Rightarrow> 'd qemm \<Rightarrow> (bool \<times> 'd qemm) res" where
  "QEMM_Uninstall_IOPortTrap env p s =
     bindE (deref (fst (q_nodes s)) p) (\<lambda>l.
     bindE (link_remove p (q_nodes s)) (\<lambda>w.
       let s = fold (QEMM_untrap_port env) (l_iodt l) (s\<lparr>q_nodes := w\<rparr>) in
       bindE (trap_list_empty (q_nodes s)) (\<lambda>empty.
         if empty
         then let (c, r, s) = q_call env (set_di (QEMM_OldCallbackIP s)
                    ((q_entry s 0x1A07 reg_zero)\<lparr>r_es := QEMM_OldCallbackCS s\<rparr>)) s
              in Inr (c = 0, s)
         else Inr (True, s))))"

definition QEMM_UntrappedIO_Write :: "'d qemm_env \<Rightarrow> u16 \<Rightarrow> u8 \<Rightarrow> 'd qemm \<Rightarrow> 'd qemm" where
  "QEMM_UntrappedIO_Write env port v s =
     snd (snd (q_call env (set_dx port (set_bl v (q_entry s 0x1A01 reg_zero))) s))"

definition QEMM_UntrappedIO_Read :: "'d qemm_env \<Rightarrow> u16 \<Rightarrow> 'd qemm \<Rightarrow> u8 \<times> 'd qemm" where
  "QEMM_UntrappedIO_Read env port s =
     (let (c, r, s) = q_call env (set_dx port (q_entry s 0x1A00 reg_zero)) s
      in (if c = 0 \<and> r_flags r AND CPU_CFLAG = 0 then reg_bl r else 0, s))"

section \<open>Protected mode\<close>

text \<open>
  The variables of \<open>src/hdpmipt.c\<close>. The calls through the vendor entry of the DPMI host
  are inline assembly; what they do is \<open>hdpmi_host\<close>, with the registers they pass and
  read: \<open>hp_vendor\<close> answers success and the entry, \<open>hp_install\<close> the handle (0 for failure)
  for a first port and a count, \<open>hp_irq_set\<close> gets the IRQ, the protected-mode handler and
  the far pointer in \<open>ebx\<close>, \<open>hp_irq_get\<close> answers no carry with \<open>cx\<close>, \<open>edx\<close> and \<open>ebx\<close>.
\<close>

record 'd hdpmi_host =
  hp_vendor :: "'d \<Rightarrow> (bool \<times> u32 \<times> u16) \<times> 'd"
  hp_install :: "int \<Rightarrow> int \<Rightarrow> 'd \<Rightarrow> u32 \<times> 'd"
  hp_uninstall :: "u32 \<Rightarrow> 'd \<Rightarrow> bool \<times> 'd"
  hp_out :: "u16 \<Rightarrow> u8 \<Rightarrow> 'd \<Rightarrow> 'd"
  hp_in :: "u16 \<Rightarrow> 'd \<Rightarrow> u8 \<times> 'd"
  hp_irq_set :: "u8 \<Rightarrow> u16 \<Rightarrow> u32 \<Rightarrow> u32 \<Rightarrow> 'd \<Rightarrow> bool \<times> 'd"
  hp_irq_get :: "u8 \<Rightarrow> 'd \<Rightarrow> (u16 \<times> u32 \<times> u32) option \<times> 'd"
  hp_irq_lock :: "bool \<Rightarrow> 'd \<Rightarrow> bool \<times> 'd"

record HDPMIPT_IRQRoutedHandle =
  rh_offset :: u32
  rh_cs :: u16
  rh_rmoffset :: u16
  rh_rmcs :: u16
  rh_valid :: bool

record 'd hdpmi =
  h_nodes :: "'d store \<times> nat"
  h_edi :: u32
  h_es :: u16
  h_TrapFlags :: u32
  h_RoutingCache :: "nat \<Rightarrow> HDPMIPT_IRQRoutedHandle"
  h_world :: 'd

definition HDPMIPT_TrapHandler :: "u32 \<Rightarrow> u32 \<Rightarrow> u32 \<Rightarrow> 'd hdpmi \<Rightarrow> (u32 \<times> 'd hdpmi) option" where
  "HDPMIPT_TrapHandler port out value s =
     (let s = s\<lparr>h_TrapFlags := h_TrapFlags s OR QEMM_TF_PM\<rparr> in
      case fst (h_nodes s) header of None \<Rightarrow> None | Some l \<Rightarrow>
      (case link_find io_port port (fst (h_nodes s)) (l_next l) of
         None \<Rightarrow> None
       | Some None \<Rightarrow> Some (value, s)
       | Some (Some f) \<Rightarrow> let (v, d) = f port value out (h_world s) in Some (v, s\<lparr>h_world := d\<rparr>)))"

definition HDPMIPT_GetVendorEntry :: "'d hdpmi_host \<Rightarrow> 'd hdpmi \<Rightarrow> bool \<times> 'd hdpmi" where
  "HDPMIPT_GetVendorEntry host s =
     (let ((ok, edi, es), d) = hp_vendor host (h_world s)
      in (ok, s\<lparr>h_edi := edi, h_es := es, h_world := d\<rparr>))"

text \<open>The entry is fetched when one of its two halves is zero.\<close>

definition h_entry :: "'d hdpmi_host \<Rightarrow> 'd hdpmi \<Rightarrow> bool \<times> 'd hdpmi" where
  "h_entry host s = (if h_es s = 0 \<or> h_edi s = 0 then HDPMIPT_GetVendorEntry host s else (True, s))"

definition HDPMIPT_Detect :: "'d hdpmi_host \<Rightarrow> 'd \<Rightarrow> bool" where
  "HDPMIPT_Detect host d = (let ((ok, edi, es), d') = hp_vendor host d in ok \<and> (edi \<noteq> 0 \<or> es \<noteq> 0))"

definition HDPMIPT_Install_IOPortTrap ::
  "'d hdpmi_host \<Rightarrow> nat \<Rightarrow> u16 \<Rightarrow> u16 \<Rightarrow> 'd QEMM_IODT list \<Rightarrow> 'd hdpmi \<Rightarrow> ((bool \<times> u32) \<times> 'd hdpmi) res" where
  "HDPMIPT_Install_IOPortTrap host new start end' iodt s =
     bindE (trap_list_empty (h_nodes s)) (\<lambda>empty.
       let (ok, s) = (if empty then HDPMIPT_GetVendorEntry host s else (True, s)) in
       if \<not> ok then Inr ((False, 0), s\<lparr>h_es := 0, h_edi := 0\<rparr>)
       else let (handle, d) = hp_install host (uint start) (uint end' - uint start + 1) (h_world s);
                s = s\<lparr>h_world := d\<rparr>
       in if handle = 0 then Inr ((False, 0), s)
          else bindE (link_append new iodt (h_nodes s)) (\<lambda>w. Inr ((True, handle), s\<lparr>h_nodes := w\<rparr>)))"

definition HDPMIPT_Uninstall_IOPortTrap ::
  "'d hdpmi_host \<Rightarrow> nat \<Rightarrow> u32 \<Rightarrow> 'd hdpmi \<Rightarrow> (bool \<times> 'd hdpmi) res" where
  "HDPMIPT_Uninstall_IOPortTrap host p handle s =
     bindE (link_remove p (h_nodes s)) (\<lambda>w.
       let (ok, d) = hp_uninstall host handle (h_world s)
       in Inr (True, s\<lparr>h_nodes := w, h_world := d\<rparr>))"

definition HDPMIPT_UntrappedIO_Write :: "'d hdpmi_host \<Rightarrow> u16 \<Rightarrow> u8 \<Rightarrow> 'd hdpmi \<Rightarrow> 'd hdpmi" where
  "HDPMIPT_UntrappedIO_Write host port v s =
     (let (ok, s) = h_entry host s in if \<not> ok then s else s\<lparr>h_world := hp_out host port v (h_world s)\<rparr>)"

definition HDPMIPT_UntrappedIO_Read :: "'d hdpmi_host \<Rightarrow> u16 \<Rightarrow> 'd hdpmi \<Rightarrow> u8 \<times> 'd hdpmi" where
  "HDPMIPT_UntrappedIO_Read host port s =
     (let (ok, s) = h_entry host s in
      if \<not> ok then (0, s)
      else let (v, d) = hp_in host port (h_world s) in (v, s\<lparr>h_world := d\<rparr>))"

definition HDPMIPT_InstallIRQRoutedHandler ::
  "'d hdpmi_host \<Rightarrow> u8 \<Rightarrow> u16 \<Rightarrow> u32 \<Rightarrow> u16 \<Rightarrow> u16 \<Rightarrow> 'd hdpmi \<Rightarrow> bool \<times> 'd hdpmi" where
  "HDPMIPT_InstallIRQRoutedHandler host irq cs offset rmcs rmoffset s =
     (let (ok, s) = h_entry host s in
      if \<not> ok then (False, s)
      else let (r, d) = hp_irq_set host irq cs offset (push_bit 16 (ucast rmcs) OR ucast rmoffset) (h_world s)
           in (r, s\<lparr>h_world := d\<rparr>))"

text \<open>The second half of the far pointer is read from \<open>bx\<close> after shifting \<open>ebx\<close> to the left.\<close>

definition HDPMIPT_GetIRQRoutedHandler ::
  "'d hdpmi_host \<Rightarrow> u8 \<Rightarrow> HDPMIPT_IRQRoutedHandle \<Rightarrow> 'd hdpmi \<Rightarrow> bool \<times> HDPMIPT_IRQRoutedHandle \<times> 'd hdpmi" where
  "HDPMIPT_GetIRQRoutedHandler host irq h s =
     (let (ok, s) = h_entry host s in
      if \<not> ok then (False, h, s)
      else case hp_irq_get host irq (h_world s) of
        (Some (cx, edx, ebx), d) \<Rightarrow>
          (True, h\<lparr>rh_cs := cx, rh_offset := edx, rh_rmcs := ucast ebx, rh_rmoffset := ucast (push_bit 16 ebx)\<rparr>,
           s\<lparr>h_world := d\<rparr>)
      | (None, d) \<Rightarrow> (False, h\<lparr>rh_cs := 0, rh_offset := 0, rh_rmcs := 0, rh_rmoffset := 0\<rparr>, s\<lparr>h_world := d\<rparr>))"

definition rh_empty :: "HDPMIPT_IRQRoutedHandle \<Rightarrow> bool" where
  "rh_empty h = (rh_cs h = 0 \<and> rh_offset h = 0 \<and> rh_rmcs h = 0 \<and> rh_rmoffset h = 0)"

definition HDPMIPT_DisableIRQRouting :: "'d hdpmi_host \<Rightarrow> u8 \<Rightarrow> 'd hdpmi \<Rightarrow> bool \<times> 'd hdpmi" where
  "HDPMIPT_DisableIRQRouting host irq s =
     (if irq > 15 then (False, s)
      else let (valid, h, s) = HDPMIPT_GetIRQRoutedHandler host irq (h_RoutingCache s (unat irq)) s;
               h = h\<lparr>rh_valid := valid\<rparr>;
               s = s\<lparr>h_RoutingCache := (h_RoutingCache s)(unat irq := h)\<rparr>
      in if \<not> valid then (False, s)
         else if rh_empty h then (True, s)
         else HDPMIPT_InstallIRQRoutedHandler host irq 0 0 0 0 s)"

definition HDPMIPT_EnableIRQRouting :: "'d hdpmi_host \<Rightarrow> u8 \<Rightarrow> 'd hdpmi \<Rightarrow> bool \<times> 'd hdpmi" where
  "HDPMIPT_EnableIRQRouting host irq s =
     (if irq > 15 \<or> \<not> rh_valid (h_RoutingCache s (unat irq)) then (False, s)
      else let h = h_RoutingCache s (unat irq) in
        if rh_empty h then (True, s)
        else HDPMIPT_InstallIRQRoutedHandler host irq (rh_cs h) (rh_offset h) (rh_rmcs h) (rh_rmoffset h) s)"

definition HDPMIPT_LockIRQRouting :: "'d hdpmi_host \<Rightarrow> bool \<Rightarrow> 'd hdpmi \<Rightarrow> bool \<times> 'd hdpmi" where
  "HDPMIPT_LockIRQRouting host locked s =
     (let (ok, s) = h_entry host s in
      if \<not> ok then (False, s)
      else let (r, d) = hp_irq_lock host locked (h_world s) in (r, s\<lparr>h_world := d\<rparr>))"

section \<open>Both are trap services\<close>

definition qemm_key :: "'d QEMM_IODT \<Rightarrow> u32" where "qemm_key e = io_port e AND 0xFFFF"

definition qemm_ins :: "'d qemm_env \<Rightarrow> nat \<Rightarrow> (u32 \<times> 'd io_handler) list \<Rightarrow> 'd qemm \<Rightarrow> 'd qemm \<Rightarrow> bool" where
  "qemm_ins env p t s s' =
     (\<exists>iodt. t = entries qemm_key iodt \<and> QEMM_Install_IOPortTrap env p iodt s = Inr (True, s'))"

definition qemm_del :: "'d qemm_env \<Rightarrow> nat \<Rightarrow> 'd qemm \<Rightarrow> 'd qemm \<Rightarrow> bool" where
  "qemm_del env p s s' = (\<exists>ok. QEMM_Uninstall_IOPortTrap env p s = Inr (ok, s'))"

definition hdpmi_ins :: "'d hdpmi_host \<Rightarrow> nat \<Rightarrow> (u32 \<times> 'd io_handler) list \<Rightarrow> 'd hdpmi \<Rightarrow> 'd hdpmi \<Rightarrow> bool" where
  "hdpmi_ins host p t s s' =
     (\<exists>iodt a b handle. t = entries io_port iodt
        \<and> HDPMIPT_Install_IOPortTrap host p a b iodt s = Inr ((True, handle), s'))"

definition hdpmi_del :: "'d hdpmi_host \<Rightarrow> nat \<Rightarrow> 'd hdpmi \<Rightarrow> 'd hdpmi \<Rightarrow> bool" where
  "hdpmi_del host p s s' = (\<exists>handle ok. HDPMIPT_Uninstall_IOPortTrap host p handle s = Inr (ok, s'))"

text \<open>The calls of the memory manager leave the list alone.\<close>

lemma q_call_nodes [simp]: "q_call env r s = (c, r', s') \<Longrightarrow> q_nodes s' = q_nodes s"
  by (auto simp: q_call_def split: prod.splits)

lemma QEMM_trap_port_nodes:
  "QEMM_trap_port env e s = (e', s') \<Longrightarrow> q_nodes s' = q_nodes s \<and> qemm_key e' = qemm_key e \<and> io_handler e' = io_handler e"
proof -
  assume t: "QEMM_trap_port env e s = (e', s')"
  obtain c1 r1 s1 where 1: "q_call env (set_dx (ucast (io_port e)) (q_entry s 0x1A08 reg_zero)) s = (c1, r1, s1)"
    by (metis prod_cases3)
  define f where "f = e\<lparr>io_port := io_port e OR push_bit 16 (ucast (reg_bl r1))\<rparr>"
  obtain c2 r2 s2 where 2: "q_call env (set_dx (ucast (io_port f AND 0xFFFF)) (q_entry s1 0x1A09 r1)) s1 = (c2, r2, s2)"
    by (metis prod_cases3)
  have eq: "e' = f" "s' = s2" using t 1 2 by (simp_all add: QEMM_trap_port_def Let_def f_def)
  have "qemm_key f = qemm_key e"
    unfolding qemm_key_def f_def mask16_u32
    by (rule bit_word_eqI) (auto simp: bit_and_iff bit_or_iff bit_push_bit_iff bit_mask_iff)
  then show ?thesis using q_call_nodes [OF 1] q_call_nodes [OF 2] eq by (simp add: f_def)
qed

lemma QEMM_trap_ports_nodes:
  "QEMM_trap_ports env es s = (es', s') \<Longrightarrow> q_nodes s' = q_nodes s \<and> entries qemm_key es' = entries qemm_key es"
proof (induction es arbitrary: s es' s')
  case (Cons e es)
  obtain e1 s1 where 1: "QEMM_trap_port env e s = (e1, s1)" by fastforce
  obtain es2 s2 where 2: "QEMM_trap_ports env es s1 = (es2, s2)" by fastforce
  show ?case using Cons.IH [OF 2] QEMM_trap_port_nodes [OF 1] Cons.prems 1 2 by (auto simp: entries_def)
qed simp

lemma q_call_nodes_snd [simp]: "q_nodes (snd (snd (q_call env r s))) = q_nodes s"
  by (metis prod.collapse q_call_nodes)

abbreviation (input) same_nodes :: "'d qemm \<Rightarrow> 'd qemm \<Rightarrow> bool" where
  "same_nodes s s' \<equiv> q_nodes s' = q_nodes s"

lemma QEMM_free_stub_nodes: "res_all (same_nodes s) (QEMM_free_stub env s)"
  by (auto simp: QEMM_free_stub_def case_prod_unfold intro!: res_allI)

lemma QEMM_copy_stub_nodes: "res_all (same_nodes s) (QEMM_copy_stub env rmcb s)"
  by (auto simp: QEMM_copy_stub_def res_all_def bindE_def split: sum.split)

lemma QEMM_alloc_stub_nodes: "res_all (\<lambda>x. same_nodes s (snd x)) (QEMM_alloc_stub env s)"
  unfolding QEMM_alloc_stub_def case_prod_unfold Let_def res_all_simps
  by (rule res_allI)
    (auto intro: res_all_mono [OF QEMM_free_stub_nodes] res_all_mono [OF QEMM_copy_stub_nodes])

lemma QEMM_hook_nodes: "res_all (\<lambda>x. same_nodes s (snd x)) (QEMM_hook env s)"
  unfolding QEMM_hook_def case_prod_unfold Let_def
  by (auto intro!: res_allI res_all_mono [OF QEMM_free_stub_nodes] res_all_mono [OF QEMM_alloc_stub_nodes])

lemma QEMM_untrap_port_nodes [simp]: "q_nodes (QEMM_untrap_port env e s) = q_nodes s"
  by (simp add: QEMM_untrap_port_def case_prod_unfold)

lemma QEMM_untrap_nodes [simp]: "q_nodes (fold (QEMM_untrap_port env) es s) = q_nodes s"
  by (induction es arbitrary: s) simp_all

lemma QEMM_Install_nodes:
  assumes "QEMM_Install_IOPortTrap env p iodt s = Inr (True, s')"
  shows "\<exists>iodt'. link_append p iodt' (q_nodes s) = Inr (q_nodes s') \<and> entries qemm_key iodt' = entries qemm_key iodt"
proof -
  obtain em where em: "trap_list_empty (q_nodes s) = Inr em"
    using assms unfolding QEMM_Install_IOPortTrap_def bindE_eq_Inr by blast
  obtain s1 where 1: "(if em then QEMM_hook env s else Inr (True, s)) = Inr (True, s1)"
    using assms em unfolding QEMM_Install_IOPortTrap_def by (auto split: if_splits)
  obtain t s2 where 2: "QEMM_trap_ports env iodt s1 = (t, s2)" by fastforce
  have "q_nodes s1 = q_nodes s"
    using 1 res_allD [OF QEMM_hook_nodes, of env s "(True, s1)"] by (auto split: if_splits)
  moreover have "bindE (link_append p t (q_nodes s2)) (\<lambda>w. Inr (True, s2\<lparr>q_nodes := w\<rparr>)) = Inr (True, s')"
    using assms unfolding QEMM_Install_IOPortTrap_def em bindE_simps 1 by (simp add: 2)
  ultimately show ?thesis using QEMM_trap_ports_nodes [OF 2] by auto
qed

lemma QEMM_Uninstall_nodes:
  assumes "QEMM_Uninstall_IOPortTrap env p s = Inr (ok, s')"
  shows "link_remove p (q_nodes s) = Inr (q_nodes s')"
proof -
  obtain l w where l: "deref (fst (q_nodes s)) p = Inr l" and w: "link_remove p (q_nodes s) = Inr w"
    using assms unfolding QEMM_Uninstall_IOPortTrap_def bindE_eq_Inr by blast
  define s1 where "s1 = fold (QEMM_untrap_port env) (l_iodt l) (s\<lparr>q_nodes := w\<rparr>)"
  obtain em where em: "trap_list_empty (q_nodes s1) = Inr em"
    using assms unfolding QEMM_Uninstall_IOPortTrap_def l w bindE_simps Let_def bindE_eq_Inr s1_def by blast
  have "q_nodes s' = q_nodes s1"
    using assms unfolding QEMM_Uninstall_IOPortTrap_def l w bindE_simps Let_def s1_def [symmetric] em
    by (auto simp: case_prod_unfold split: if_splits)
  then show ?thesis using w by (simp add: s1_def)
qed

lemma HDPMIPT_Install_nodes:
  assumes "HDPMIPT_Install_IOPortTrap host p a b iodt s = Inr ((True, handle), s')"
  shows "link_append p iodt (h_nodes s) = Inr (h_nodes s')"
proof -
  obtain em where em: "trap_list_empty (h_nodes s) = Inr em"
    using assms unfolding HDPMIPT_Install_IOPortTrap_def bindE_eq_Inr by blast
  show ?thesis
    using assms unfolding HDPMIPT_Install_IOPortTrap_def em bindE_simps HDPMIPT_GetVendorEntry_def
    by (auto simp: case_prod_unfold Let_def split: if_splits)
qed

lemma HDPMIPT_Uninstall_nodes:
  "HDPMIPT_Uninstall_IOPortTrap host p handle s = Inr (ok, s') \<Longrightarrow> link_remove p (h_nodes s) = Inr (h_nodes s')"
  by (auto simp: HDPMIPT_Uninstall_IOPortTrap_def case_prod_unfold)

interpretation qt: port_trap "\<lambda>s. trap_rep qemm_key (q_nodes s)" "\<lambda>port s. trap_look qemm_key port (q_nodes s)"
    "qemm_ins env" "qemm_del env" for env
  by unfold_locales
    (auto simp: qemm_ins_def qemm_del_def trap_look_rep
      dest!: QEMM_Install_nodes QEMM_Uninstall_nodes intro: trap_rep_remove dest: trap_rep_append)

interpretation ht: port_trap "\<lambda>s. trap_rep io_port (h_nodes s)" "\<lambda>port s. trap_look io_port port (h_nodes s)"
    "hdpmi_ins host" "hdpmi_del host" for host
  by unfold_locales
    (auto simp: hdpmi_ins_def hdpmi_del_def trap_look_rep
      dest!: HDPMIPT_Install_nodes HDPMIPT_Uninstall_nodes intro: trap_rep_remove dest: trap_rep_append)

section \<open>Properties\<close>

definition empty_nodes :: "'d store \<times> nat" where
  "empty_nodes = ([header \<mapsto> \<lparr>l_iodt = [], l_prev = 0, l_next = 0\<rparr>], header)"

lemma trap_rep_empty [simp]: "trap_rep key empty_nodes []"
  by (simp add: trap_rep_def trap_list_def empty_nodes_def)

text \<open>C35: After any sequence of successful installations and removals of real-mode port traps, in
  any order, the search of the trap handler ends and finds for each port the handler of the first
  installed table that is still there and has the port, or none: the linked list of
  tables implements the list of the installed tables, whatever the memory manager answers.\<close>

theorem qemm_trap_lookup:
  assumes run: "trap_run (qemm_ins env) (qemm_del env) s0 s ts" and i: "q_nodes s0 = empty_nodes"
  shows "trap_look qemm_key port (q_nodes s) = Some (map_of (concat (map snd ts)) port)"
  using qt.look_rep [OF qt.run_rep [OF run]] i by simp

text \<open>A memory manager that accepts every call, and a program state before any trap; the
  stub is in place already.\<close>

definition qemm_demo_env :: "unit qemm_env" where
  "qemm_demo_env = \<lparr>e_ops = \<lparr>rm_int = (\<lambda>i r d. (r, d)), rm_retf = (\<lambda>r d. (r, d)), rm_code = (\<lambda>r d. 0),
       dos_alloc = (\<lambda>n d. ((0x9000, 1), d)), dos_free = (\<lambda>n d. d)\<rparr>,
     e_dpmi = \<lparr>physical = False, maps = []\<rparr>, e_code = [0xCB], e_rmcb_lin = 0x1000, e_buf_lin = 0x1010,
     e_rmcb = (\<lambda>d. (1, d))\<rparr>"

definition qemm_demo :: "unit qemm" where
  "qemm_demo = \<lparr>q_nodes = empty_nodes, QEMM_EntryIP = 0, QEMM_EntryCS = 0xF000, QEMM_InCallback = False,
     QEMM_OldCallbackIP = 0, QEMM_OldCallbackCS = 0, QEMM_DOSMEM = 0x9000, QEMM_TrapHandlerREG = reg_zero,
     QEMM_TrapFlags = 0, q_xms = reg_zero, q_mem = (\<lambda>a. 0), q_world = ()\<rparr>"

definition demo_table :: "unit QEMM_IODT list" where
  "demo_table = [\<lparr>io_port = 0x220, io_handler = (\<lambda>port val out d. (0xAA, d))\<rparr>]"

lemma trap_list_empty_nodes [simp]: "trap_list_empty empty_nodes = Inr True"
  by (simp add: trap_list_empty_def empty_nodes_def deref_def)

lemma link_append_empty:
  "link_append 2 iodt empty_nodes =
     Inr ([header \<mapsto> \<lparr>l_iodt = [], l_prev = 0, l_next = 2\<rparr>, 2 \<mapsto> \<lparr>l_iodt = iodt, l_prev = header, l_next = 0\<rparr>], 2)"
  by (simp add: link_append_def empty_nodes_def set_next_def deref_def header_def fun_upd_twist)

lemma qemm_demo_ins: "\<exists>s. qemm_ins qemm_demo_env 2 (entries qemm_key demo_table) qemm_demo s"
  unfolding qemm_ins_def
  by (intro exI conjI, rule refl)
    (simp add: QEMM_Install_IOPortTrap_def qemm_demo_def QEMM_hook_def q_call_def qemm_demo_env_def
      DPMI_CallRealModeRETF_def retf_code_def q_entry_def reg_zero_def set_ax_def set_di_def set_dx_def
      demo_table_def QEMM_trap_port_def link_append_empty)

theorem qemm_trap_lookup_witness:
  "\<exists>s. trap_run (qemm_ins qemm_demo_env) (qemm_del qemm_demo_env) qemm_demo s [(2, entries qemm_key demo_table)]
    \<and> trap_look qemm_key 0x220 (q_nodes s) = Some (Some (\<lambda>port val out d. (0xAA, d)))"
proof -
  obtain s where "qemm_ins qemm_demo_env 2 (entries qemm_key demo_table) qemm_demo s"
    using qemm_demo_ins by blast
  then have run: "trap_run (qemm_ins qemm_demo_env) (qemm_del qemm_demo_env) qemm_demo s ([] @ [(2, entries qemm_key demo_table)])"
    by (intro trap_run.install [OF trap_run.start]) (simp_all add: header_def)
  then show ?thesis using qemm_trap_lookup [OF run, of "0x220"]
    by (auto simp: qemm_demo_def entries_def demo_table_def qemm_key_def)
qed

text \<open>The same holds for the protected-mode traps, and removing a table that was just installed
  brings every lookup back to what it was before the installation.\<close>

theorem hdpmi_trap_lookup:
  assumes run: "trap_run (hdpmi_ins host) (hdpmi_del host) s0 s ts" and i: "h_nodes s0 = empty_nodes"
  shows "trap_look io_port port (h_nodes s) = Some (map_of (concat (map snd ts)) port)
    \<and> (\<forall>p t s1 s2. hdpmi_ins host p t s s1 \<longrightarrow> hdpmi_del host p s1 s2 \<longrightarrow>
         p \<notin> set (header # map fst ts) \<longrightarrow> p \<noteq> 0 \<longrightarrow>
         trap_look io_port port (h_nodes s2) = trap_look io_port port (h_nodes s))"
proof -
  have r: "trap_rep io_port (h_nodes s) ts" using ht.run_rep [OF run] i by simp
  show ?thesis using ht.look_rep [OF r] ht.ins_del(2) [OF r] by blast
qed

definition hdpmi_demo_host :: "(u16 \<times> u32 \<times> u32) hdpmi_host" where
  "hdpmi_demo_host = \<lparr>hp_vendor = (\<lambda>d. ((True, 0x100, 8), d)), hp_install = (\<lambda>a n d. (1, d)),
     hp_uninstall = (\<lambda>h d. (True, d)), hp_out = (\<lambda>p v d. d), hp_in = (\<lambda>p d. (0, d)),
     hp_irq_set = (\<lambda>i cs off rm d. (True, (cs, off, rm))), hp_irq_get = (\<lambda>i d. (Some d, d)),
     hp_irq_lock = (\<lambda>b d. (True, d))\<rparr>"

definition hdpmi_demo :: "(u16 \<times> u32 \<times> u32) hdpmi" where
  "hdpmi_demo = \<lparr>h_nodes = empty_nodes, h_edi = 0x100, h_es = 8, h_TrapFlags = 0,
     h_RoutingCache = (\<lambda>i. \<lparr>rh_offset = 0, rh_cs = 0, rh_rmoffset = 0, rh_rmcs = 0, rh_valid = False\<rparr>),
     h_world = (0x17, 0x4000, 0xF0001234)\<rparr>"

theorem hdpmi_trap_lookup_witness:
  "\<exists>s t. trap_run (hdpmi_ins hdpmi_demo_host) (hdpmi_del hdpmi_demo_host) hdpmi_demo s [(2, t)]
    \<and> trap_look io_port 0x224 (h_nodes s) = Some (Some (\<lambda>port val out d. (0x55, d)))"
proof -
  define iodt where "iodt = [\<lparr>io_port = 0x224, io_handler = (\<lambda>port val out (d :: u16 \<times> u32 \<times> u32). (0x55 :: u32, d))\<rparr>]"
  have "\<exists>s. HDPMIPT_Install_IOPortTrap hdpmi_demo_host 2 0x224 0x225 iodt hdpmi_demo = Inr ((True, 1), s)"
    by (simp add: HDPMIPT_Install_IOPortTrap_def hdpmi_demo_def hdpmi_demo_host_def
        HDPMIPT_GetVendorEntry_def link_append_empty)
  then obtain s where "hdpmi_ins hdpmi_demo_host 2 (entries io_port iodt) hdpmi_demo s"
    unfolding hdpmi_ins_def by blast
  then have run: "trap_run (hdpmi_ins hdpmi_demo_host) (hdpmi_del hdpmi_demo_host) hdpmi_demo s
      ([] @ [(2, entries io_port iodt)])"
    by (intro trap_run.install [OF trap_run.start]) (simp_all add: header_def)
  have "trap_look io_port 0x224 (h_nodes s) = Some (Some (\<lambda>port val out d. (0x55, d)))"
    using conjunct1 [OF hdpmi_trap_lookup [OF run, of "0x224"]]
    by (simp add: hdpmi_demo_def entries_def iodt_def)
  with run show ?thesis by auto
qed

text \<open>A trapped port access in real mode is served from the tables: the handler found for the port in
  \<open>dx\<close> gets the port, the byte in \<open>al\<close> and the direction in \<open>cl\<close>, its answer is the new \<open>al\<close> and the carry
  flag is cleared, all other registers are kept, and the context of the access is then available to
  the program. When no table has the port, the handler that was there before is called with the same
  registers, and only \<open>al\<close> and the carry flag are taken from it.\<close>

theorem qemm_trap_handler:
  fixes s :: "'d qemm"
  assumes r: "trap_rep qemm_key (q_nodes s) ts"
  defines "R \<equiv> QEMM_TrapHandlerREG s"
  shows "\<exists>s'. QEMM_TrapHandler env s = Some s' \<and> q_nodes s' = q_nodes s \<and>
    (case map_of (concat (map snd ts)) (ucast (reg_dx R)) of
       Some f \<Rightarrow>
         QEMM_TrapHandlerREG s' = set_al (ucast (fst (f (ucast (reg_dx R)) (ucast (reg_al R)) (ucast (reg_cl R)) (q_world s))))
           (R\<lparr>r_flags := r_flags R AND NOT CPU_CFLAG\<rparr>)
         \<and> q_world s' = snd (f (ucast (reg_dx R)) (ucast (reg_al R)) (ucast (reg_cl R)) (q_world s))
         \<and> QEMM_GetIOPrtTrap_Context s' = Some (QEMM_TrapHandlerREG s')
     | None \<Rightarrow>
         (let old = DPMI_CallRealModeRETF (e_ops env)
              (R\<lparr>r_cs := QEMM_OldCallbackCS s, r_ip := QEMM_OldCallbackIP s, r_ss := 0, r_sp := 0\<rparr>) (q_world s)
          in QEMM_TrapHandlerREG s' = set_al (reg_al (fst old)) (R\<lparr>r_flags := r_flags R OR (r_flags (fst old) AND CPU_CFLAG)\<rparr>)
             \<and> q_world s' = snd old \<and> QEMM_GetIOPrtTrap_Context s' = None))"
proof -
  have l: "trap_look qemm_key (ucast (reg_dx R)) (q_nodes s) = Some (map_of (concat (map snd ts)) (ucast (reg_dx R)))"
    by (rule trap_look_rep [OF r])
  then obtain n where n: "fst (q_nodes s) header = Some n"
    by (auto simp: trap_look_def split: option.splits)
  have f: "link_find (\<lambda>e. io_port e AND 0xFFFF) (ucast (reg_dx R)) (fst (q_nodes s)) (l_next n) =
      Some (map_of (concat (map snd ts)) (ucast (reg_dx R)))"
    using l n by (simp add: trap_look_def qemm_key_def [abs_def])
  have pm: "(x AND NOT QEMM_TF_PM) AND QEMM_TF_PM = 0" for x :: u32
    by (rule bit_word_eqI) (simp add: bit_simps)
  define s0 where "s0 = s\<lparr>QEMM_TrapFlags := QEMM_TrapFlags s AND NOT QEMM_TF_PM, QEMM_InCallback := True\<rparr>"
  have s0: "q_nodes s0 = q_nodes s" "q_world s0 = q_world s" "QEMM_TrapFlags s0 AND QEMM_TF_PM = 0"
    "QEMM_InCallback s0" "QEMM_OldCallbackCS s0 = QEMM_OldCallbackCS s" "QEMM_OldCallbackIP s0 = QEMM_OldCallbackIP s"
    by (simp_all add: s0_def pm)
  note step = QEMM_TrapHandler_def [of env s, folded R_def, folded s0_def, unfolded Let_def, folded s0_def,
      unfolded s0(1) n option.case f]
  show ?thesis
  proof (cases "map_of (concat (map snd ts)) (ucast (reg_dx R))")
    case (Some g)
    obtain v d where v: "g (ucast (reg_dx R)) (ucast (reg_al R)) (ucast (reg_cl R)) (q_world s) = (v, d)" by fastforce
    show ?thesis unfolding step Some option.case s0(2) v prod.case
      using s0 by (simp add: QEMM_GetIOPrtTrap_Context_def)
  next
    case None
    show ?thesis unfolding step None option.case q_call_def Let_def case_prod_unfold
      using s0 by (simp add: QEMM_GetIOPrtTrap_Context_def)
  qed
qed

theorem qemm_trap_handler_witness:
  "\<exists>s'. QEMM_TrapHandler qemm_demo_env qemm_demo = Some s' \<and> q_nodes s' = empty_nodes
     \<and> QEMM_GetIOPrtTrap_Context s' = None"
proof -
  have r: "trap_rep qemm_key (q_nodes qemm_demo) []" by (simp add: qemm_demo_def)
  have n: "q_nodes qemm_demo = empty_nodes" by (simp add: qemm_demo_def)
  show ?thesis
    using qemm_trap_handler [OF r, of qemm_demo_env]
    unfolding Let_def n list.map concat.simps map_of.simps option.case
    by (elim exE conjE) (rule exI, intro conjI, assumption+)
qed

text \<open>The far pointer of the old callback is answered in \<open>es:di\<close>, the segment in \<open>es\<close>; the source
  keeps the segment as the offset and the offset as the segment, calls the old handler
  there and sets it back that way.\<close>

lemma qemm_old_callback_swapped:
  assumes 1: "q_call env (q_entry s 0x1A06 reg_zero) s = (0, r, s1)" "r_flags r AND CPU_CFLAG = 0"
    and m: "QEMM_DOSMEM s1 \<noteq> 0"
    and 2: "q_call env (set_di 6 ((q_entry s1 0x1A07 r)\<lparr>r_es := ucast (QEMM_DOSMEM s1 AND 0xFFFF)\<rparr>))
        (s1\<lparr>QEMM_OldCallbackIP := r_es r, QEMM_OldCallbackCS := reg_di r\<rparr>) = (0, r2, s2)" "r_flags r2 AND CPU_CFLAG = 0"
  shows "\<exists>s'. QEMM_hook env s = Inr (True, s') \<and> QEMM_OldCallbackIP s' = r_es r \<and> QEMM_OldCallbackCS s' = reg_di r"
proof -
  have k: "QEMM_OldCallbackIP (snd (snd (q_call env x t))) = QEMM_OldCallbackIP t
      \<and> QEMM_OldCallbackCS (snd (snd (q_call env x t))) = QEMM_OldCallbackCS t" for x and t :: "'a qemm"
    by (simp add: q_call_def case_prod_unfold Let_def)
  have "QEMM_OldCallbackIP s2 = r_es r \<and> QEMM_OldCallbackCS s2 = reg_di r"
    using k [of "set_di 6 ((q_entry s1 0x1A07 r)\<lparr>r_es := ucast (QEMM_DOSMEM s1 AND 0xFFFF)\<rparr>)"
        "s1\<lparr>QEMM_OldCallbackIP := r_es r, QEMM_OldCallbackCS := reg_di r\<rparr>"] 2(1) by simp
  moreover have "q_entry (s1\<lparr>QEMM_OldCallbackIP := x, QEMM_OldCallbackCS := y\<rparr>) ax r = q_entry s1 ax r" for x y ax
    by (simp add: q_entry_def)
  then have "QEMM_hook env s = Inr (True, s2)"
    unfolding QEMM_hook_def 1(1) Let_def prod.case using m 1(2) 2 by simp
  ultimately show ?thesis by simp
qed

text \<open>Suspending and resuming the routing of an interrupt with the host brings back the protected-mode
  handler, segment and offset. The real-mode handler is not brought back: the offset is taken for the
  segment and the offset becomes 0, because the code shifts the far pointer to the left where it has to
  shift it to the right.\<close>

theorem hdpmi_irq_routing:
  assumes irq: "irq \<le> 15" and e: "h_es s \<noteq> 0" "h_edi s \<noteq> 0"
    and get: "hp_irq_get host irq (h_world s) = (Some (cs, off, rm), d1)" and h: "cs \<noteq> 0 \<or> off \<noteq> 0 \<or> (ucast rm :: u16) \<noteq> 0"
    and dis: "hp_irq_set host irq 0 0 0 d1 = (True, d2)"
    and en: "hp_irq_set host irq cs off (push_bit 16 (ucast (ucast rm :: u16))) d2 = (True, d3)"
  shows "\<exists>s1 s2. HDPMIPT_DisableIRQRouting host irq s = (True, s1) \<and> h_world s1 = d2
    \<and> HDPMIPT_EnableIRQRouting host irq s1 = (True, s2) \<and> h_world s2 = d3"
proof -
  have z: "(ucast (push_bit 16 rm) :: u16) = 0"
    by (rule bit_word_eqI) (simp add: bit_ucast_iff bit_push_bit_iff)
  define c where "c = (h_RoutingCache s (unat irq))\<lparr>rh_cs := cs, rh_offset := off, rh_rmcs := ucast rm,
      rh_rmoffset := 0, rh_valid := True\<rparr>"
  have h': "\<not> (cs = 0 \<and> off = 0 \<and> (ucast rm :: u16) = 0)" using h by blast
  then have c: "\<not> rh_empty c" "rh_valid c" by (auto simp: rh_empty_def c_def)
  define s1 where "s1 = s\<lparr>h_world := d2, h_RoutingCache := (h_RoutingCache s)(unat irq := c)\<rparr>"
  have "HDPMIPT_DisableIRQRouting host irq s = (True, s1)"
    using irq e get dis c(1)
    by (simp add: HDPMIPT_DisableIRQRouting_def HDPMIPT_GetIRQRoutedHandler_def h_entry_def
        HDPMIPT_InstallIRQRoutedHandler_def s1_def Let_def not_less z flip: c_def)
  moreover have "HDPMIPT_EnableIRQRouting host irq s1 = (True, s1\<lparr>h_world := d3\<rparr>)"
    using irq e en c by (simp add: HDPMIPT_EnableIRQRouting_def HDPMIPT_InstallIRQRoutedHandler_def h_entry_def
        s1_def not_less c_def z Let_def)
  ultimately show ?thesis by (simp add: s1_def)
qed

theorem hdpmi_irq_routing_witness:
  "\<exists>s1 s2. HDPMIPT_DisableIRQRouting hdpmi_demo_host 5 hdpmi_demo = (True, s1) \<and> h_world s1 = (0, 0, 0)
    \<and> HDPMIPT_EnableIRQRouting hdpmi_demo_host 5 s1 = (True, s2) \<and> h_world s2 = (0x17, 0x4000, 0x12340000)"
  by (rule hdpmi_irq_routing [of 5 hdpmi_demo hdpmi_demo_host "0x17" "0x4000" "0xF0001234" "(0x17, 0x4000, 0xF0001234)"])
    (simp_all add: hdpmi_demo_def hdpmi_demo_host_def)

end
