(* ===== verification/Isrhook.thy ===== *)
theory Isrhook
  imports Traps Pic
begin

text \<open>
  Interrupt handlers of the program (\<open>DPMI_InstallISR\<close>, \<open>DPMI_InstallRealModeISR\<close>, \<open>DPMI_UninstallISR\<close>, \<open>DPMI_GetISR\<close> in
  \<open>src/sbemu/dpmi/dpmi_dj2.c\<close>): the protected-mode vector, the vector of the real-mode table in memory, the wrappers and callbacks
  around the handlers. The library functions of the run-time system and the vectors of the DPMI host are parameters. The
  real-mode table is read and written in memory (the build has \<open>RAW_HOOK\<close>).
\<close>

section \<open>The run-time system\<close>

record seginfo =
  pm_offset :: u32
  pm_selector :: u16
  rm_offset :: u16
  rm_segment :: u16

definition seginfo_zero :: seginfo where
  "seginfo_zero = \<lparr>pm_offset = 0, pm_selector = 0, rm_offset = 0, rm_segment = 0\<rparr>"

text \<open>The functions answer 0 when they succeed. \<open>go_get_pm\<close> is selector and offset of a protected-mode vector.\<close>

record 'd go32 =
  go_cs :: u16
  go_iret_wrapper :: "seginfo \<Rightarrow> 'd \<Rightarrow> (int \<times> seginfo) \<times> 'd"
  go_free_iret :: "seginfo \<Rightarrow> 'd \<Rightarrow> int \<times> 'd"
  go_callback :: "u32 \<Rightarrow> seginfo \<Rightarrow> 'd \<Rightarrow> (int \<times> seginfo) \<times> 'd"
  go_free_callback :: "seginfo \<Rightarrow> 'd \<Rightarrow> int \<times> 'd"
  go_get_pm :: "u8 \<Rightarrow> 'd \<Rightarrow> u16 \<times> u32"
  go_set_pm :: "u8 \<Rightarrow> seginfo \<Rightarrow> 'd \<Rightarrow> int \<times> 'd"
  go_chain_pm :: "u8 \<Rightarrow> seginfo \<Rightarrow> 'd \<Rightarrow> (int \<times> seginfo) \<times> 'd"

record DPMI_ISR_HANDLE =
  old_offset :: u32
  old_cs :: u16
  old_rm_offset :: u16
  old_rm_cs :: u16
  wrapper_offset :: u32
  wrapper_cs :: u16
  isr_n :: u8
  isr_chained :: bool
  chainedDOSMem :: u32
  internal1 :: seginfo
  internal2 :: seginfo

definition isr_zero :: DPMI_ISR_HANDLE where
  "isr_zero = \<lparr>old_offset = 0, old_cs = 0, old_rm_offset = 0, old_rm_cs = 0, wrapper_offset = 0, wrapper_cs = 0, isr_n = 0,
     isr_chained = False, chainedDOSMem = 0, internal1 = seginfo_zero, internal2 = seginfo_zero\<rparr>"

text \<open>Offset and segment in the real-mode table.\<close>

definition ivt_load :: "dpmi \<Rightarrow> mem \<Rightarrow> u8 \<Rightarrow> (u16 \<times> u16) res" where
  "ivt_load s m i = bindE (DPMI_LoadW s m (ucast i * 4)) (\<lambda>off. bindE (DPMI_LoadW s m (ucast i * 4 + 2)) (\<lambda>seg. Inr (off, seg)))"

definition ivt_store :: "dpmi \<Rightarrow> u8 \<Rightarrow> u16 \<times> u16 \<Rightarrow> mem \<Rightarrow> mem res" where
  "ivt_store s i v m = bindE (DPMI_StoreW s m (ucast i * 4) (fst v)) (\<lambda>m. DPMI_StoreW s m (ucast i * 4 + 2) (snd v))"

section \<open>Protected mode\<close>

text \<open>The handle as it was when the wrapper cannot be made, and cleared when the vector cannot be set.\<close>

definition DPMI_InstallISR :: "'d go32 \<Rightarrow> dpmi \<Rightarrow> u8 \<Rightarrow> u32 \<Rightarrow> bool \<Rightarrow> DPMI_ISR_HANDLE \<Rightarrow> 'd \<times> mem \<Rightarrow> ((u16 \<times> DPMI_ISR_HANDLE) \<times> 'd \<times> mem) res" where
  "DPMI_InstallISR g s i isr chained h w =
    (let (d, m) = w in
     if isr = 0 then Inr ((0xFFFF, h), d, m)
     else
       (let si = seginfo_zero\<lparr>pm_selector := go_cs g, pm_offset := isr\<rparr>;
            ((r, si), d) = (if chained then ((0, si), d) else go_iret_wrapper g si d) in
        if r \<noteq> 0 then Inr ((0xFFFF, h), d, m)
        else bindE (ivt_load s m i) (\<lambda>(off, seg).
          (let (cs, pa) = go_get_pm g i d;
               h = \<lparr>old_offset = pa, old_cs = cs, old_rm_offset = off, old_rm_cs = seg, wrapper_offset = pm_offset si,
                 wrapper_cs = pm_selector si, isr_n = i, isr_chained = chained, chainedDOSMem = 0, internal1 = si, internal2 = seginfo_zero\<rparr>;
               (r, h, d) = (if chained then
                   (let ((r, si), d) = go_chain_pm g i si d
                    in (r, if r = 0 then h\<lparr>wrapper_offset := pm_offset si, wrapper_cs := pm_selector si\<rparr> else h, d))
                 else (let (r, d) = go_set_pm g i si d in (r, h, if r \<noteq> 0 then snd (go_free_iret g si d) else d)))
           in Inr ((word_of_int r, if r \<noteq> 0 then isr_zero else h), d, m)))))"

section \<open>Real mode\<close>

text \<open>The code in front of a chained handler, \<open>code\<close> in the program, is copied behind its data: the handler, the previous handler, the
  mask that enables the interrupt, the interrupt.\<close>

definition word_bytes :: "u16 \<Rightarrow> u8 list" where "word_bytes v = [lo8 v, hi8 v]"

definition chain_bytes :: "u16 \<times> u16 \<Rightarrow> u16 \<times> u16 \<Rightarrow> u8 \<Rightarrow> u16 \<Rightarrow> u8 list \<Rightarrow> u8 list" where
  "chain_bytes target next irq b code =
    (let unmask = NOT (if irq \<ge> 8 then b OR 0x04 else b)
     in word_bytes (fst target) @ word_bytes (snd target) @ word_bytes (fst next) @ word_bytes (snd next) @ word_bytes unmask @ [irq] @ code)"

definition put_bytes :: "u32 \<Rightarrow> u8 list \<Rightarrow> mem \<Rightarrow> mem" where
  "put_bytes a bs m = (\<lambda>x. if unat (x - a) < length bs then bs ! unat (x - a) else m x)"

text \<open>The memory of the wrapper; the second result is false when there is none. The buffer the bytes are put together in is on the heap.\<close>

definition chain_alloc :: "'d rm_ops \<Rightarrow> dpmi \<Rightarrow> u8 \<Rightarrow> u8 list \<Rightarrow> u16 \<times> u16 \<Rightarrow> seginfo \<Rightarrow> DPMI_REG \<times> 'd \<times> mem \<Rightarrow>
    (u32 \<times> seginfo \<times> DPMI_REG \<times> 'd \<times> mem) res" where
  "chain_alloc ops s i code ra si w =
    (let (x, d, m) = w in
     bindE (DPMI_HighMalloc ops (word_of_int ((int (length code) + 11 + 15) div 16)) False (x, d)) (\<lambda>(dm, x, d).
     if dm = 0 then Inr (0, si, x, d, m)
     else bindE (shl1 (uint (PIC_VEC2IRQ i))) (\<lambda>b.
       bindE (UNMAP_ADDR s (DPMI_SEGOFF2L dm 0)) (\<lambda>a.
       Inr (dm, si\<lparr>rm_segment := ucast (dm AND 0xFFFF), rm_offset := 11\<rparr>, x, d,
         put_bytes a (chain_bytes (rm_offset si, rm_segment si) ra (PIC_VEC2IRQ i) (ucast b) code) m)))))"

definition DPMI_InstallRealModeISR :: "'d go32 \<Rightarrow> 'd rm_ops \<Rightarrow> dpmi \<Rightarrow> u8 list \<Rightarrow> bool \<Rightarrow> u8 \<Rightarrow> u32 \<Rightarrow> u32 \<Rightarrow> bool \<Rightarrow> DPMI_ISR_HANDLE \<Rightarrow>
    DPMI_REG \<times> 'd \<times> mem \<Rightarrow> ((u16 \<times> DPMI_ISR_HANDLE) \<times> DPMI_REG \<times> 'd \<times> mem) res" where
  "DPMI_InstallRealModeISR g ops s code debug i isr reg chained h w =
    (let (x, d, m) = w in
     if isr = 0 \<or> reg = 0 then Inr ((0xFFFF, h), w)
     else
       (let ((r, si), d) = go_callback g reg (seginfo_zero\<lparr>pm_selector := go_cs g, pm_offset := isr\<rparr>) d in
        if r \<noteq> 0 then Inr ((0xFFFF, h), x, d, m)
        else bindE (ivt_load s m i) (\<lambda>ra.
          (let (cs, pa) = go_get_pm g i d in
           bindE (if chained then chain_alloc ops s i code ra si (x, d, m) else Inr (0, si, x, d, m)) (\<lambda>(dm, si, x, d, m).
           if chained \<and> dm = 0 then
             (let d = snd (go_free_callback g si d) in if debug then Inl Assert_failed else Inr ((0xFFFF, h\<lparr>chainedDOSMem := 0\<rparr>), x, d, m))
           else bindE (ivt_store s i (rm_offset si, rm_segment si) m) (\<lambda>m.
             Inr ((0, \<lparr>old_offset = pa, old_cs = cs, old_rm_offset = fst ra, old_rm_cs = snd ra, wrapper_offset = ucast (rm_offset si),
                   wrapper_cs = rm_segment si, isr_n = i, isr_chained = chained, chainedDOSMem = dm, internal1 = seginfo_zero, internal2 = si\<rparr>),
                  x, d, m)))))))"

section \<open>Removal\<close>

text \<open>The answers of the calls are joined bit by bit, in C integers.\<close>

definition free_callback :: "'d go32 \<Rightarrow> seginfo \<Rightarrow> int \<times> 'd \<Rightarrow> int \<times> 'd" where
  "free_callback g si w = (if pm_offset si \<noteq> 0 then (let (f, d) = go_free_callback g si (snd w) in (f OR fst w, d)) else w)"

definition DPMI_UninstallISR :: "'d go32 \<Rightarrow> 'd rm_ops \<Rightarrow> dpmi \<Rightarrow> DPMI_ISR_HANDLE \<Rightarrow> DPMI_REG \<times> 'd \<times> mem \<Rightarrow> (u16 \<times> DPMI_REG \<times> 'd \<times> mem) res" where
  "DPMI_UninstallISR g ops s h w =
    (let (x, d, m) = w; (r, d) = go_set_pm g (isr_n h) (seginfo_zero\<lparr>pm_selector := old_cs h, pm_offset := old_offset h\<rparr>) d in
     bindE (ivt_store s (isr_n h) (old_rm_offset h, old_rm_cs h) m) (\<lambda>m.
     (let (r, d) = free_callback g (internal2 h) (r, d) in
      if isr_chained h then
        bindE (if chainedDOSMem h \<noteq> 0 then DPMI_HighFree ops (chainedDOSMem h) (x, d) else Inr (x, d)) (\<lambda>(x, d).
        Inr (word_of_int r, x, d, m))
      else (let (f, d) = go_free_iret g (internal1 h) d in Inr (word_of_int (f OR r), x, d, m)))))"

definition DPMI_GetISR :: "'d go32 \<Rightarrow> dpmi \<Rightarrow> u8 \<Rightarrow> 'd \<times> mem \<Rightarrow> DPMI_ISR_HANDLE res" where
  "DPMI_GetISR g s i w =
    bindE (ivt_load s (snd w) i) (\<lambda>(off, seg).
    (let (cs, pa) = go_get_pm g i (fst w)
     in Inr (isr_zero\<lparr>old_offset := pa, old_cs := cs, old_rm_cs := seg, old_rm_offset := off\<rparr>)))"

section \<open>Installing and removing\<close>

text \<open>The vectors of a host change only when they are set, to what they are set to, and a vector that was there once can be set
  again.\<close>

definition same_vectors :: "'d go32 \<Rightarrow> 'd \<Rightarrow> 'd \<Rightarrow> bool" where
  "same_vectors g d d' \<longleftrightarrow> (\<forall>j. go_get_pm g j d' = go_get_pm g j d)"

definition vector_laws :: "'d go32 \<Rightarrow> bool" where
  "vector_laws g \<longleftrightarrow>
     (\<forall>si d. same_vectors g d (snd (go_iret_wrapper g si d)) \<and> same_vectors g d (snd (go_free_iret g si d)) \<and>
        same_vectors g d (snd (go_free_callback g si d)) \<and> (\<forall>reg. same_vectors g d (snd (go_callback g reg si d)))) \<and>
     (\<forall>i si d. fst (go_set_pm g i si d) \<in> {0, -1} \<and> fst (fst (go_chain_pm g i si d)) \<in> {0, -1}) \<and>
     (\<forall>i si d. if fst (go_set_pm g i si d) = 0
        then go_get_pm g i (snd (go_set_pm g i si d)) = (pm_selector si, pm_offset si) \<and>
          (\<forall>j. j \<noteq> i \<longrightarrow> go_get_pm g j (snd (go_set_pm g i si d)) = go_get_pm g j d)
        else same_vectors g d (snd (go_set_pm g i si d))) \<and>
     (\<forall>i si d. \<forall>j. j \<noteq> i \<or> fst (fst (go_chain_pm g i si d)) \<noteq> 0 \<longrightarrow> go_get_pm g j (snd (go_chain_pm g i si d)) = go_get_pm g j d) \<and>
     (\<forall>i si d d0. go_get_pm g i d0 = (pm_selector si, pm_offset si) \<longrightarrow> fst (go_set_pm g i si d) = 0)"

lemma ivt_load_plain: "\<not> physical s \<Longrightarrow> ivt_load s m i = Inr (ld16 m (ucast i * 4), ld16 m (ucast i * 4 + 2))"
  by (simp add: ivt_load_def DPMI_LoadW_def UNMAP_ADDR_def)

lemma ivt_store_plain: "\<not> physical s \<Longrightarrow> ivt_store s i v m = Inr (st16 (ucast i * 4 + 2) (snd v) (st16 (ucast i * 4) (fst v) m))"
  by (simp add: ivt_store_def DPMI_StoreW_def UNMAP_ADDR_def)

text \<open>What a handle has to say of its vector.\<close>

definition remembers :: "'d go32 \<Rightarrow> 'd \<Rightarrow> mem \<Rightarrow> u8 \<Rightarrow> DPMI_ISR_HANDLE \<Rightarrow> bool" where
  "remembers g d m i h \<longleftrightarrow> isr_n h = i \<and> (old_cs h, old_offset h) = go_get_pm g i d \<and>
     old_rm_offset h = ld16 m (ucast i * 4) \<and> old_rm_cs h = ld16 m (ucast i * 4 + 2)"

lemma uninstall_restores:
  assumes g: "vector_laws g" and s: "\<not> physical s" and h: "remembers g d0 m0 i h" and n: "\<not> isr_chained h \<or> chainedDOSMem h = 0"
    and d: "\<And>j. j \<noteq> i \<Longrightarrow> go_get_pm g j d = go_get_pm g j d0"
    and m: "st16 (ucast i * 4 + 2) (ld16 m0 (ucast i * 4 + 2)) (st16 (ucast i * 4) (ld16 m0 (ucast i * 4)) m) = m0"
  shows "\<exists>r d'. DPMI_UninstallISR g ops s h (x, d, m) = Inr (r, x, d', m0) \<and> same_vectors g d0 d'"
proof -
  let ?si = "seginfo_zero\<lparr>pm_selector := old_cs h, pm_offset := old_offset h\<rparr>"
  obtain r1 d1 where p: "go_set_pm g i ?si d = (r1, d1)" by fastforce
  have old: "go_get_pm g i d0 = (pm_selector ?si, pm_offset ?si)" using h by (simp add: remembers_def)
  have r1: "r1 = 0" using g old p unfolding vector_laws_def by (metis fst_conv)
  have v1: "same_vectors g d0 d1"
    using g p r1 old d unfolding vector_laws_def same_vectors_def by (metis fst_conv snd_conv)
  obtain r2 d2 where q: "free_callback g (internal2 h) (r1, d1) = (r2, d2)" by fastforce
  have v2: "same_vectors g d0 d2"
    using q v1 g unfolding vector_laws_def same_vectors_def free_callback_def by (auto simp: case_prod_beta split: if_splits)
  obtain f d3 where t: "go_free_iret g (internal1 h) d2 = (f, d3)" by fastforce
  have v3: "same_vectors g d0 d3" using t v2 g unfolding vector_laws_def same_vectors_def by (metis snd_conv)
  have i: "isr_n h = i" "old_rm_offset h = ld16 m0 (ucast i * 4)" "old_rm_cs h = ld16 m0 (ucast i * 4 + 2)"
    using h by (simp_all add: remembers_def)
  show ?thesis
    unfolding DPMI_UninstallISR_def i Let_def prod.case p ivt_store_plain [OF s] fst_conv snd_conv m bindE_simps q t
    using n v2 v3 by auto
qed

lemma install_remembers:
  assumes g: "vector_laws g" and s: "\<not> physical s"
  shows "\<exists>r h d1. DPMI_InstallISR g s i isr chained h0 (d, m) = Inr ((r, h), d1, m) \<and>
    (if r = 0 then remembers g d m i h \<and> chainedDOSMem h = 0 \<and> (\<forall>j. j \<noteq> i \<longrightarrow> go_get_pm g j d1 = go_get_pm g j d) else same_vectors g d d1)"
proof (cases "isr = 0")
  case True
  then show ?thesis by (simp add: DPMI_InstallISR_def same_vectors_def)
next
  case False
  let ?si = "seginfo_zero\<lparr>pm_selector := go_cs g, pm_offset := isr\<rparr>"
  obtain r si d1 where w: "(if chained then ((0, ?si), d) else go_iret_wrapper g ?si d) = ((r, si), d1)" by (metis prod.exhaust)
  have v: "same_vectors g d d1"
    using w g unfolding vector_laws_def same_vectors_def by (metis fst_conv snd_conv)
  obtain cs pa where c: "go_get_pm g i d1 = (cs, pa)" by fastforce
  have c0: "go_get_pm g i d = (cs, pa)" using v c by (simp add: same_vectors_def)
  obtain r2 si2 d2 where k: "go_chain_pm g i si d1 = ((r2, si2), d2)" by (metis prod.exhaust)
  obtain r3 d3 where p: "go_set_pm g i si d1 = (r3, d3)" by fastforce
  have k': "r2 \<in> {0, -1}" "\<And>j. j \<noteq> i \<or> r2 \<noteq> 0 \<Longrightarrow> go_get_pm g j d2 = go_get_pm g j d"
    using g k v unfolding vector_laws_def same_vectors_def by (metis fst_conv snd_conv)+
  have p': "r3 \<in> {0, -1}" "r3 = 0 \<Longrightarrow> j \<noteq> i \<Longrightarrow> go_get_pm g j d3 = go_get_pm g j d" "r3 \<noteq> 0 \<Longrightarrow> same_vectors g d d3" for j
    using g p v unfolding vector_laws_def same_vectors_def by (metis fst_conv snd_conv)+
  have f: "same_vectors g d3 (snd (go_free_iret g si d3))" using g unfolding vector_laws_def by blast
  show ?thesis
    unfolding DPMI_InstallISR_def Let_def prod.case if_not_P [OF False] w ivt_load_plain [OF s] bindE_simps c k p
    using v k' p' f c0 by (auto simp: remembers_def same_vectors_def isr_zero_def split: if_splits)
qed

lemma rm_install_remembers:
  assumes g: "vector_laws g" and s: "\<not> physical s"
  shows "\<exists>r h d1 m1. DPMI_InstallRealModeISR g ops s code debug i isr reg False h0 (x, d, m) = Inr ((r, h), x, d1, m1) \<and> same_vectors g d d1 \<and>
    (if r = 0 then remembers g d m i h \<and> \<not> isr_chained h \<and>
       m1 = st16 (ucast i * 4 + 2) (wrapper_cs h) (st16 (ucast i * 4) (ucast (wrapper_offset h)) m) else m1 = m)"
proof (cases "isr = 0 \<or> reg = 0")
  case True
  then show ?thesis by (simp add: DPMI_InstallRealModeISR_def same_vectors_def)
next
  case False
  let ?si = "seginfo_zero\<lparr>pm_selector := go_cs g, pm_offset := isr\<rparr>"
  obtain r si d1 where w: "go_callback g reg ?si d = ((r, si), d1)" by (metis prod.exhaust)
  have v: "same_vectors g d d1" using w g unfolding vector_laws_def by (metis snd_conv)
  obtain cs pa where c: "go_get_pm g i d1 = (cs, pa)" by fastforce
  have c0: "go_get_pm g i d = (cs, pa)" using v c by (simp add: same_vectors_def)
  have u: "ucast (ucast (rm_offset si) :: u32) = rm_offset si" by (rule bit_word_eqI) (simp add: bit_simps)
  show ?thesis
    unfolding DPMI_InstallRealModeISR_def Let_def prod.case if_not_P [OF False] w ivt_load_plain [OF s] ivt_store_plain [OF s] bindE_simps c
    using v c0 u by (auto simp: remembers_def)
qed

text \<open>C11: A handler that is installed and removed leaves every protected-mode vector and all of the memory, with the real-mode table, as they were,
  in protected mode chained or not, and in real mode for a handler that is not chained; while it is installed the real-mode table has its callback. When
  the installation fails nothing has changed.\<close>

theorem isr_hooks_undone:
  assumes "vector_laws g" and "\<not> physical s"
  shows "(\<exists>r h d1. DPMI_InstallISR g s i isr chained h0 (d, m) = Inr ((r, h), d1, m) \<and>
      (if r = 0 then \<exists>r' d2. DPMI_UninstallISR g ops s h (x, d1, m) = Inr (r', x, d2, m) \<and> same_vectors g d d2 else same_vectors g d d1)) \<and>
    (\<exists>r h d1 m1. DPMI_InstallRealModeISR g ops s code debug i isr reg False h0 (x, d, m) = Inr ((r, h), x, d1, m1) \<and>
      (if r = 0 then ld16 m1 (ucast i * 4) = ucast (wrapper_offset h) \<and> ld16 m1 (ucast i * 4 + 2) = wrapper_cs h \<and>
         (\<exists>r' d2. DPMI_UninstallISR g ops s h (x, d1, m1) = Inr (r', x, d2, m) \<and> same_vectors g d d2)
       else m1 = m \<and> same_vectors g d d1))"
proof
  obtain r h d1 where i: "DPMI_InstallISR g s i isr chained h0 (d, m) = Inr ((r, h), d1, m)"
    and c: "if r = 0 then remembers g d m i h \<and> chainedDOSMem h = 0 \<and> (\<forall>j. j \<noteq> i \<longrightarrow> go_get_pm g j d1 = go_get_pm g j d) else same_vectors g d d1"
    using install_remembers [OF assms, of i isr chained h0 d m] by blast
  have "\<exists>r' d2. DPMI_UninstallISR g ops s h (x, d1, m) = Inr (r', x, d2, m) \<and> same_vectors g d d2" if "r = 0"
    by (rule uninstall_restores [OF assms, where i = i]) (use c that in \<open>simp_all\<close>)
  then show "\<exists>r h d1. DPMI_InstallISR g s i isr chained h0 (d, m) = Inr ((r, h), d1, m) \<and>
      (if r = 0 then \<exists>r' d2. DPMI_UninstallISR g ops s h (x, d1, m) = Inr (r', x, d2, m) \<and> same_vectors g d d2 else same_vectors g d d1)"
    using i c by auto
next
  obtain r h d1 m1 where i: "DPMI_InstallRealModeISR g ops s code debug i isr reg False h0 (x, d, m) = Inr ((r, h), x, d1, m1)" "same_vectors g d d1"
    and c: "if r = 0 then remembers g d m i h \<and> \<not> isr_chained h \<and>
       m1 = st16 (ucast i * 4 + 2) (wrapper_cs h) (st16 (ucast i * 4) (ucast (wrapper_offset h)) m) else m1 = m"
    using rm_install_remembers [OF assms, of ops code debug i isr reg h0 x d m] by blast
  have "\<exists>r' d2. DPMI_UninstallISR g ops s h (x, d1, m1) = Inr (r', x, d2, m) \<and> same_vectors g d d2" if "r = 0"
    by (rule uninstall_restores [OF assms, where i = i]) (use i(2) c that in \<open>simp_all add: same_vectors_def st16_commute\<close>)
  then show "\<exists>r h d1 m1. DPMI_InstallRealModeISR g ops s code debug i isr reg False h0 (x, d, m) = Inr ((r, h), x, d1, m1) \<and>
      (if r = 0 then ld16 m1 (ucast i * 4) = ucast (wrapper_offset h) \<and> ld16 m1 (ucast i * 4 + 2) = wrapper_cs h \<and>
         (\<exists>r' d2. DPMI_UninstallISR g ops s h (x, d1, m1) = Inr (r', x, d2, m) \<and> same_vectors g d d2)
       else m1 = m \<and> same_vectors g d d1)"
    using i c by auto
qed

text \<open>A run-time system whose state is the table of protected-mode vectors.\<close>

definition go32_demo :: "(u8 \<Rightarrow> u16 \<times> u32) go32" where
  "go32_demo = \<lparr>go_cs = 0xA7, go_iret_wrapper = (\<lambda>si d. ((0, si\<lparr>pm_offset := pm_offset si + 0x100\<rparr>), d)), go_free_iret = (\<lambda>_ d. (0, d)),
     go_callback = (\<lambda>_ si d. ((0, si\<lparr>rm_offset := 0x10, rm_segment := 0xF000\<rparr>), d)), go_free_callback = (\<lambda>_ d. (0, d)),
     go_get_pm = (\<lambda>i d. d i), go_set_pm = (\<lambda>i si d. (0, d(i := (pm_selector si, pm_offset si)))),
     go_chain_pm = (\<lambda>i si d. ((0, si), d(i := (pm_selector si, pm_offset si))))\<rparr>"

theorem isr_hooks_undone_witness:
  "\<forall>ops. \<exists>r h d1 m1. DPMI_InstallRealModeISR go32_demo ops \<lparr>physical = False, maps = []\<rparr> [] True 0x2D 0x4000 0x5000 False isr_zero
      (reg_zero, \<lambda>_. (0x8F, 0x77), \<lambda>_. 7) = Inr ((r, h), reg_zero, d1, m1) \<and> r = 0 \<and> ld16 m1 0xB4 = 0x10 \<and>
    (\<exists>r' d2. DPMI_UninstallISR go32_demo ops \<lparr>physical = False, maps = []\<rparr> h (reg_zero, d1, m1) = Inr (r', reg_zero, d2, \<lambda>_. 7))"
proof
  fix ops :: "(u8 \<Rightarrow> u16 \<times> u32) rm_ops"
  have g: "vector_laws go32_demo" by (simp add: vector_laws_def same_vectors_def go32_demo_def)
  let ?s = "\<lparr>physical = False, maps = []\<rparr>"
  have r: "DPMI_InstallRealModeISR go32_demo ops ?s [] True 0x2D 0x4000 0x5000 False isr_zero (reg_zero, \<lambda>_. (0x8F, 0x77), \<lambda>_. 7) = Inr ((r, h), x, d1, m1)
      \<Longrightarrow> r = 0 \<and> wrapper_offset h = 0x10" for r h x d1 m1
    by (auto simp: DPMI_InstallRealModeISR_def go32_demo_def ivt_load_plain ivt_store_plain)
  show "\<exists>r h d1 m1. DPMI_InstallRealModeISR go32_demo ops ?s [] True 0x2D 0x4000 0x5000 False isr_zero
      (reg_zero, \<lambda>_. (0x8F, 0x77), \<lambda>_. 7) = Inr ((r, h), reg_zero, d1, m1) \<and> r = 0 \<and> ld16 m1 0xB4 = 0x10 \<and>
    (\<exists>r' d2. DPMI_UninstallISR go32_demo ops ?s h (reg_zero, d1, m1) = Inr (r', reg_zero, d2, \<lambda>_. 7))"
    using isr_hooks_undone [OF g, of ?s "0x2D" "0x4000" False isr_zero "\<lambda>_. (0x8F, 0x77)" "\<lambda>_. 7" ops reg_zero "[]" True "0x5000"] r
    by (simp split: if_splits) metis
qed

end
