(* ===== verification/Irqguard.thy ===== *)
theory Irqguard
  imports Traps Pic
begin

text \<open>
  The interrupt guard (\<open>irqguard.c\<close>): a small real-mode handler in DOS memory in front of the handler of an
  interrupt, which can be told to drop the interrupt. Its data (the far pointer to the handler behind it and
  the guard byte) lie in front of its code. Memory is sequential here: \<open>CLIS\<close> and \<open>STIL\<close> have no counterpart.
\<close>

section \<open>State and operations\<close>

type_synonym get_vec = "u8 \<Rightarrow> mem \<Rightarrow> u16 \<times> u16"
type_synonym set_vec = "u8 \<Rightarrow> u16 \<times> u16 \<Rightarrow> mem \<Rightarrow> int \<times> mem"

text \<open>\<open>g_code_lin\<close> and \<open>g_codesize\<close> are the place and the size of the code of the handler in the program, \<open>g_handle_lin\<close>
  the place of the word \<open>old_rm_offset\<close> of the structure \<open>IRQGUARD_Handle\<close>, which \<open>old_rm_cs\<close> follows.
  \<open>g_debug\<close> is the debug build, in which assertions are compiled.\<close>

record 'd guard_env =
  g_debug :: bool
  g_ops :: "'d rm_ops"
  g_dpmi :: dpmi
  g_get_vec :: get_vec
  g_set_vec :: set_vec
  g_code_lin :: u32
  g_codesize :: u32
  g_handle_lin :: u32

record 'd guard =
  IRQGUARD_Installed :: bool
  IRQGUARD_DOSMEM :: u32
  IRQGUARD_Handle :: isr_handle
  IRQGUARD_IRQ :: u8
  g_xms :: DPMI_REG
  g_world :: 'd
  g_mem :: mem

definition IRQGUARD_BYTE_LOC :: u32 where "IRQGUARD_BYTE_LOC = 4"

definition guard_datasize :: u32 where "guard_datasize = IRQGUARD_BYTE_LOC + 1"

definition assert_guard :: "'d guard_env \<Rightarrow> bool \<Rightarrow> unit res" where
  "assert_guard env b = guardE Assert_failed (g_debug env \<longrightarrow> b)"

definition guard_init :: "DPMI_REG \<Rightarrow> 'd \<Rightarrow> mem \<Rightarrow> 'd guard" where
  "guard_init xms d m = \<lparr>IRQGUARD_Installed = False, IRQGUARD_DOSMEM = 0, IRQGUARD_Handle = isr_handle_zero,
     IRQGUARD_IRQ = 0xFF, g_xms = xms, g_world = d, g_mem = m\<rparr>"

text \<open>The code of the handler at segment \<open>seg\<close>: it returns, or calls the handler behind it.\<close>

definition IRQGUARD_Handler :: "u16 \<Rightarrow> mem \<Rightarrow> (u16 \<times> u16) option" where
  "IRQGUARD_Handler seg m =
    (let cs = (\<lambda>off. push_bit 4 (ucast seg) + off :: u32) in
     if m (cs 4) = 1 then None else Some (ld16 m (cs 2), ld16 m (cs 0)))"

definition guard_store :: "'d guard_env \<Rightarrow> u8 \<Rightarrow> 'd guard \<Rightarrow> 'd guard res" where
  "guard_store env v s =
    (if IRQGUARD_Installed s then
       bindE (DPMI_StoreB (g_dpmi env) (g_mem s) (DPMI_SEGOFF2L (IRQGUARD_DOSMEM s) IRQGUARD_BYTE_LOC) v) (\<lambda>m.
       Inr (s\<lparr>g_mem := m\<rparr>))
     else Inr s)"

definition IRQGUARD_Enable :: "'d guard_env \<Rightarrow> 'd guard \<Rightarrow> 'd guard res" where
  "IRQGUARD_Enable env = guard_store env 1"

definition IRQGUARD_Disable :: "'d guard_env \<Rightarrow> 'd guard \<Rightarrow> 'd guard res" where
  "IRQGUARD_Disable env = guard_store env 0"

text \<open>The steps of the installation: the memory for the data and the code, the vector of the interrupt, the far pointer.\<close>

definition guard_alloc :: "'d guard_env \<Rightarrow> 'd guard \<Rightarrow> 'd guard res" where
  "guard_alloc env s =
     bindE (assert_guard env (IRQGUARD_DOSMEM s = 0)) (\<lambda>_.
     bindE (DPMI_HighMalloc (g_ops env) (ucast (drop_bit 4 (g_codesize env + guard_datasize + 15))) True (g_xms s, g_world s)) (\<lambda>(dm, x, d).
     bindE (assert_guard env (dm \<noteq> 0)) (\<lambda>_.
     Inr (s\<lparr>IRQGUARD_DOSMEM := dm, g_xms := x, g_world := d\<rparr>))))"

definition guard_code :: "'d guard_env \<Rightarrow> 'd guard \<Rightarrow> 'd guard res" where
  "guard_code env s =
     bindE (DPMI_CopyLinear (g_dpmi env) (g_mem s) (DPMI_SEGOFF2L (IRQGUARD_DOSMEM s) guard_datasize) (g_code_lin env) (g_codesize env)) (\<lambda>m.
     Inr (s\<lparr>g_mem := m\<rparr>))"

definition guard_restore :: "'d guard_env \<Rightarrow> 'd guard \<Rightarrow> 'd guard res" where
  "guard_restore env s =
     bindE (DPMI_UninstallRealModeISR_Direct (g_set_vec env) (g_dpmi env) (IRQGUARD_Handle s) (g_mem s)) (\<lambda>(_, m).
     Inr (s\<lparr>g_mem := m\<rparr>))"

definition guard_hook :: "'d guard_env \<Rightarrow> u8 \<Rightarrow> 'd guard \<Rightarrow> 'd guard res" where
  "guard_hook env vec s =
     bindE (DPMI_InstallRealModeISR_Direct (g_get_vec env) (g_set_vec env) (g_dpmi env) vec
              (ucast (IRQGUARD_DOSMEM s AND 0xFFFF)) (ucast guard_datasize) False (g_mem s)) (\<lambda>(_, h, m).
     let m = st16 (g_handle_lin env + 2) (h_old_rm_cs h) (st16 (g_handle_lin env) (h_old_rm_offset h) m)
     in Inr (s\<lparr>IRQGUARD_Handle := h, g_mem := m\<rparr>))"

definition guard_farptr :: "'d guard_env \<Rightarrow> 'd guard \<Rightarrow> 'd guard res" where
  "guard_farptr env s =
     bindE (DPMI_CopyLinear (g_dpmi env) (g_mem s) (DPMI_SEGOFF2L (IRQGUARD_DOSMEM s) 0) (g_handle_lin env) 2) (\<lambda>m.
     bindE (DPMI_CopyLinear (g_dpmi env) m (DPMI_SEGOFF2L (IRQGUARD_DOSMEM s) 2) (g_handle_lin env + 2) 2) (\<lambda>m.
     Inr (s\<lparr>g_mem := m\<rparr>)))"

text \<open>The answer is the value the function returns, if it returns one: after an installation it runs off its end.\<close>

definition guard_enter :: "'d guard_env \<Rightarrow> u8 \<Rightarrow> 'd guard \<Rightarrow> (bool option \<times> 'd guard) res" where
  "guard_enter env irq s =
       bindE (guard_hook env (PIC_IRQ2VEC irq) s) (\<lambda>s.
       bindE (guard_farptr env s) (\<lambda>s.
       bindE (IRQGUARD_Disable env (s\<lparr>IRQGUARD_Installed := True, IRQGUARD_IRQ := irq\<rparr>)) (\<lambda>s.
       Inr (None, s))))"

definition IRQGUARD_Install :: "'d guard_env \<Rightarrow> u8 \<Rightarrow> 'd guard \<Rightarrow> (bool option \<times> 'd guard) res" where
  "IRQGUARD_Install env irq s =
    (if IRQGUARD_Installed s \<and> irq = IRQGUARD_IRQ s then Inr (Some True, s)
     else if \<not> IRQGUARD_Installed s then
       bindE (guard_alloc env s) (\<lambda>s.
       if IRQGUARD_DOSMEM s = 0 then Inr (Some False, s)
       else bindE (guard_code env s) (guard_enter env irq))
     else bindE (guard_restore env s) (guard_enter env irq))"

definition IRQGUARD_Uninstall :: "'d guard_env \<Rightarrow> 'd guard \<Rightarrow> (bool \<times> 'd guard) res" where
  "IRQGUARD_Uninstall env s =
    (if IRQGUARD_Installed s then
       bindE (assert_guard env (h_old_rm_offset (IRQGUARD_Handle s) \<noteq> 0)) (\<lambda>_.
       bindE (assert_guard env (h_old_rm_cs (IRQGUARD_Handle s) \<noteq> 0)) (\<lambda>_.
       bindE (guard_restore env s) (\<lambda>s.
       bindE (DPMI_HighFree (g_ops env) (IRQGUARD_DOSMEM s) (g_xms s, g_world s)) (\<lambda>(x, d).
       Inr (True, s\<lparr>g_xms := x, g_world := d, IRQGUARD_Handle := isr_handle_zero, IRQGUARD_DOSMEM := 0,
              IRQGUARD_Installed := False, IRQGUARD_IRQ := 0xFF\<rparr>)))))
     else Inr (False, s))"

section \<open>The layout of the guard in memory\<close>

text \<open>The vectors of real mode, as the DPMI host keeps them: setting one changes that one only, and memory
  behind the interrupt table neither changes by it nor matters for it.\<close>

definition vec_laws :: "get_vec \<Rightarrow> set_vec \<Rightarrow> bool" where
  "vec_laws gv sv = ((\<forall>i v m. fst (sv i v m) = 0) \<and>
    (\<forall>i j v m. gv j (snd (sv i v m)) = (if j = i then v else gv j m)) \<and>
    (\<forall>i v m a. 0x400 \<le> a \<longrightarrow> snd (sv i v m) a = m a) \<and>
    (\<forall>i m m'. (\<forall>a<0x400. m a = m' a) \<longrightarrow> gv i m = gv i m'))"

lemma vec_lawsD:
  assumes "vec_laws gv sv"
  shows "sv i v m = (0, snd (sv i v m))" "gv j (snd (sv i v m)) = (if j = i then v else gv j m)"
    "0x400 \<le> a \<Longrightarrow> snd (sv i v m) a = m a" "(\<And>a. a < 0x400 \<Longrightarrow> m a = m' a) \<Longrightarrow> gv i m = gv i m'"
proof -
  note d = assms [unfolded vec_laws_def]
  have "fst (sv i v m) = 0" using d by blast
  then show "sv i v m = (0, snd (sv i v m))" by (metis prod.collapse)
  show "gv j (snd (sv i v m)) = (if j = i then v else gv j m)" using d by blast
  show "0x400 \<le> a \<Longrightarrow> snd (sv i v m) a = m a" using d by blast
  show "(\<And>a. a < 0x400 \<Longrightarrow> m a = m' a) \<Longrightarrow> gv i m = gv i m'" using d by blast
qed

abbreviation seg_lin :: "u16 \<Rightarrow> u32" where "seg_lin seg \<equiv> push_bit 4 (ucast seg)"

text \<open>The block is behind the interrupt table; the program and its data are behind the memory of real mode.\<close>

definition guard_layout :: "'d guard_env \<Rightarrow> u32 \<Rightarrow> bool" where
  "guard_layout env dm = (\<not> physical (g_dpmi env) \<and> 0x400 \<le> seg_lin (ucast dm) \<and> g_codesize env \<le> 0xFFF0
     \<and> 0x110000 \<le> g_code_lin env \<and> g_code_lin env \<le> 0xFFFE0000 \<and> 0x110000 \<le> g_handle_lin env \<and> g_handle_lin env \<le> 0xFFFE0000)"

lemma seg_lin_unat: "unat (seg_lin seg) = 16 * unat seg"
proof -
  have "unat seg < 65536" by (rule unat_u16_less)
  moreover from this have "unat (ucast seg :: u32) = unat seg"
    by (simp add: unsigned_ucast_eq take_bit_nat_eq_self)
  ultimately show ?thesis by (simp add: push_bit_eq_mult unat_mult_lem [THEN iffD1])
qed

lemma seg_lin_low: "k \<le> 0x10000 \<Longrightarrow> unat (seg_lin seg + of_nat k) = 16 * unat seg + k \<and> seg_lin seg + of_nat k < 0x110000"
proof -
  assume k: "k \<le> 0x10000"
  have s: "unat seg < 65536" by (rule unat_u16_less)
  have u: "unat (of_nat k :: u32) = k" using k by (simp add: unat_of_nat take_bit_nat_eq_self)
  have "unat (seg_lin seg + of_nat k) = 16 * unat seg + k"
    using k s u by (subst unat_add_lem [THEN iffD1]) (simp_all add: seg_lin_unat)
  then show ?thesis using k s by (simp add: word_less_nat_alt)
qed

lemma SEGOFF2L_eq: "off AND 0xFFFF = off \<Longrightarrow> DPMI_SEGOFF2L dm off = seg_lin (ucast dm) + off"
proof -
  have "dm AND 0xFFFF = ucast (ucast dm :: u16)"
    by (rule bit_word_eqI) (auto simp: mask16_u32 bit_simps)
  then show "off AND 0xFFFF = off \<Longrightarrow> ?thesis" by (simp add: DPMI_SEGOFF2L_def)
qed

lemma copy_word:
  assumes "\<not> physical s" "2 \<le> p - q"
  shows "DPMI_CopyLinear s m p q 2 = Inr (st16 p (ld16 m q) m)"
proof -
  have "(\<lambda>a. if a - p < 2 then m (q + (a - p)) else m a) = st16 p (ld16 m q) m"
  proof
    fix a
    have "a - p < 2 \<longleftrightarrow> a - p = 0 \<or> a - p = 1"
    proof -
      have "a - p < 2 \<longleftrightarrow> unat (a - p) = unat (0 :: u32) \<or> unat (a - p) = unat (1 :: u32)" by (simp add: word_less_nat_alt) arith
      then show ?thesis by (simp only: word_unat_eq_iff)
    qed
    moreover have "a - p = 0 \<longleftrightarrow> a = p" "a - p = 1 \<longleftrightarrow> a = p + 1" by (auto simp: algebra_simps)
    ultimately show "(if a - p < 2 then m (q + (a - p)) else m a) = st16 p (ld16 m q) m a"
      by (auto simp: st16_def ld16_def)
  qed
  then show ?thesis using assms DPMI_CopyLinear_exact [of s p p q q 2 m] by (simp add: UNMAP_ADDR_def)
qed

section \<open>The memory after an installation\<close>

text \<open>\<open>m\<close> is memory before the vector is set, \<open>b\<close> the start of the block and \<open>h\<close> the place of the handle.\<close>

definition guard_data :: "u32 \<Rightarrow> u32 \<Rightarrow> u16 \<times> u16 \<Rightarrow> mem \<Rightarrow> mem" where
  "guard_data b h v m = (st16 (b + 2) (fst v) (st16 b (snd v) (st16 (h + 2) (fst v) (st16 h (snd v) m))))(b + 4 := 0)"

lemma guard_apart:
  assumes "guard_layout env dm" "j \<le> 0x10000" "k \<le> 0x10000"
  shows "seg_lin (ucast dm) + of_nat j \<noteq> g_handle_lin env + of_nat k" "seg_lin (ucast dm) + of_nat j \<noteq> g_code_lin env + of_nat k"
proof -
  have k: "unat (of_nat k :: u32) = k" using assms(3) by (simp add: unat_of_nat take_bit_nat_eq_self)
  have h: "0x110000 \<le> x \<Longrightarrow> x \<le> 0xFFFE0000 \<Longrightarrow> 0x110000 \<le> x + of_nat k" for x :: u32
    using assms(3) k by (simp add: word_le_nat_alt unat_add_lem [THEN iffD1])
  have "seg_lin (ucast dm) + of_nat j < 0x110000" using seg_lin_low [OF assms(2)] by blast
  moreover have "0x110000 \<le> g_handle_lin env + of_nat k" "0x110000 \<le> g_code_lin env + of_nat k"
    using assms(1) h by (simp_all add: guard_layout_def)
  ultimately show "seg_lin (ucast dm) + of_nat j \<noteq> g_handle_lin env + of_nat k" "seg_lin (ucast dm) + of_nat j \<noteq> g_code_lin env + of_nat k"
    by (metis leD)+
qed

text \<open>\<open>h\<close> and the two words there are apart from the five bytes at \<open>b\<close>.\<close>

definition apart :: "u32 \<Rightarrow> u32 \<Rightarrow> bool" where
  "apart b h = (b \<noteq> h \<and> b \<noteq> h + 1 \<and> b \<noteq> h + 2 \<and> b \<noteq> h + 3 \<and> b + 1 \<noteq> h \<and> b + 2 \<noteq> h \<and> b + 3 \<noteq> h \<and> b + 4 \<noteq> h)"

lemma guard_layout_apart: "guard_layout env dm \<Longrightarrow> apart (seg_lin (ucast dm)) (g_handle_lin env)"
  using guard_apart(1) [of env dm 0 0] guard_apart(1) [of env dm 0 1] guard_apart(1) [of env dm 0 2] guard_apart(1) [of env dm 0 3]
    guard_apart(1) [of env dm 1 0] guard_apart(1) [of env dm 2 0] guard_apart(1) [of env dm 3 0] guard_apart(1) [of env dm 4 0]
  by (simp add: apart_def)

lemma diff_ge2: "x \<noteq> y \<Longrightarrow> x \<noteq> y + 1 \<Longrightarrow> 2 \<le> x - (y :: u32)"
proof -
  assume n: "x \<noteq> y" "x \<noteq> y + 1"
  then have "x - y \<noteq> 0" "x - y \<noteq> 1" by (auto simp: algebra_simps)
  then have "unat (x - y) \<noteq> unat (0 :: u32)" "unat (x - y) \<noteq> unat (1 :: u32)" by (simp_all only: word_unat_eq_iff simp_thms)
  then show ?thesis by (simp add: word_le_nat_alt)
qed

lemma guard_data_farptr:
  assumes "apart b h"
  shows "ld16 (guard_data b h v m) b = snd v" "ld16 (guard_data b h v m) (b + 2) = fst v" "guard_data b h v m (b + 4) = 0"
  using assms by (simp_all add: guard_data_def apart_def ld16_def st16_def lo8_hi8_join)

lemma guard_data_other:
  assumes "\<And>k. k \<le> 4 \<Longrightarrow> a \<noteq> b + of_nat k" "\<And>k. k \<le> 3 \<Longrightarrow> a \<noteq> h + of_nat k"
  shows "guard_data b h v m a = m a"
  using assms(1) [of 0] assms(1) [of 1] assms(1) [of 2] assms(1) [of 3] assms(1) [of 4]
    assms(2) [of 0] assms(2) [of 1] assms(2) [of 2] assms(2) [of 3]
  by (simp add: guard_data_def st16_def add.commute)

lemma guard_copies:
  assumes "\<not> physical s" "apart b h" and m1_def: "m1 = st16 (h + 2) (fst v) (st16 h (snd v) m)"
  shows "DPMI_CopyLinear s m1 b h 2 = Inr (st16 b (snd v) m1)"
    "DPMI_CopyLinear s (st16 b (snd v) m1) (b + 2) (h + 2) 2 = Inr (st16 (b + 2) (fst v) (st16 b (snd v) m1))"
proof -
  have "ld16 m1 h = snd v" by (simp add: m1_def)
  moreover have "2 \<le> b - h" using assms(2) by (intro diff_ge2) (simp_all add: apart_def)
  ultimately show "DPMI_CopyLinear s m1 b h 2 = Inr (st16 b (snd v) m1)" using copy_word [OF assms(1)] by simp
  have c: "b \<noteq> 1 + h" using assms(2) unfolding apart_def by (metis add.commute)
  have "ld16 (st16 b (snd v) m1) (h + 2) = fst v"
    using assms(2) not_sym [OF c] by (auto simp: m1_def apart_def ld16_def st16_def lo8_hi8_join add.commute)
  moreover have "2 \<le> (b + 2) - (h + 2)" using assms(2) c by (intro diff_ge2) (simp_all add: apart_def)
  ultimately show "DPMI_CopyLinear s (st16 b (snd v) m1) (b + 2) (h + 2) 2 = Inr (st16 (b + 2) (fst v) (st16 b (snd v) m1))"
    using copy_word [OF assms(1)] by metis
qed

lemma guard_enter_eq:
  assumes vl: "vec_laws (g_get_vec env) (g_set_vec env)" and lay: "guard_layout env (IRQGUARD_DOSMEM s)"
    and vec_def: "vec = PIC_IRQ2VEC irq" and seg_def: "seg = ucast (IRQGUARD_DOSMEM s)"
    and old_def: "old = g_get_vec env vec (g_mem s)"
  shows "guard_enter env irq s = Inr (None, s\<lparr>IRQGUARD_Handle := \<lparr>h_old_rm_offset = snd old, h_old_rm_cs = fst old, h_n = vec, h_rawIVT = False\<rparr>,
     g_mem := guard_data (seg_lin seg) (g_handle_lin env) old (snd (g_set_vec env vec (seg, 5) (g_mem s))),
     IRQGUARD_Installed := True, IRQGUARD_IRQ := irq\<rparr>)"
proof -
  define h where "h = g_handle_lin env"
  define b where "b = seg_lin seg"
  define mv where "mv = snd (g_set_vec env vec (seg, 5) (g_mem s))"
  define hd where "hd = \<lparr>h_old_rm_offset = snd old, h_old_rm_cs = fst old, h_n = vec, h_rawIVT = False\<rparr>"
  define m1 where "m1 = st16 (h + 2) (fst old) (st16 h (snd old) mv)"
  have np: "\<not> physical (g_dpmi env)" using lay by (simp add: guard_layout_def)
  have ap: "apart b h" using guard_layout_apart [OF lay] by (simp add: b_def h_def seg_def)
  have sv: "g_set_vec env vec (seg, 5) (g_mem s) = (0, mv)" using vec_lawsD(1) [OF vl] by (simp add: mv_def)
  have seg: "ucast (IRQGUARD_DOSMEM s AND 0xFFFF) = seg"
    by (rule bit_word_eqI) (auto simp: seg_def mask16_u32 bit_simps)
  have ds: "(ucast guard_datasize :: u16) = 5" by (simp add: guard_datasize_def IRQGUARD_BYTE_LOC_def)
  have hook: "guard_hook env vec s = Inr (s\<lparr>IRQGUARD_Handle := hd, g_mem := m1\<rparr>)"
    by (simp add: guard_hook_def DPMI_InstallRealModeISR_Direct_def seg ds sv Let_def hd_def m1_def old_def h_def)
  have so: "DPMI_SEGOFF2L (IRQGUARD_DOSMEM s) 0 = b" "DPMI_SEGOFF2L (IRQGUARD_DOSMEM s) 2 = b + 2"
    "DPMI_SEGOFF2L (IRQGUARD_DOSMEM s) 4 = b + 4" by (simp_all add: SEGOFF2L_eq b_def seg_def)
  have far: "guard_farptr env (s\<lparr>IRQGUARD_Handle := hd, g_mem := m1\<rparr>)
      = Inr (s\<lparr>IRQGUARD_Handle := hd, g_mem := st16 (b + 2) (fst old) (st16 b (snd old) m1)\<rparr>)"
    using guard_copies [OF np ap m1_def] by (simp add: guard_farptr_def so flip: h_def m1_def)
  show ?thesis
    unfolding guard_enter_def vec_def [symmetric] hook bindE_simps far
    by (simp add: IRQGUARD_Disable_def guard_store_def DPMI_StoreB_def UNMAP_ADDR_def np so IRQGUARD_BYTE_LOC_def guard_data_def m1_def mv_def
        hd_def b_def h_def)
qed

section \<open>What an installation does\<close>

lemma guard_mem_facts:
  assumes vl: "vec_laws (g_get_vec env) (g_set_vec env)" and lay: "guard_layout env dm"
    and m: "m' = guard_data (seg_lin (ucast dm)) (g_handle_lin env) v (snd (g_set_vec env vec (x, 5) m))"
  shows "g_get_vec env j m' = (if j = vec then (x, 5) else g_get_vec env j m)"
    and "IRQGUARD_Handler (ucast dm) m' = Some v"
    and "IRQGUARD_Handler (ucast dm) (m'(seg_lin (ucast dm) + 4 := 1)) = None"
    and "k < unat (g_codesize env) \<Longrightarrow> m' (seg_lin (ucast dm) + 5 + of_nat k) = m (seg_lin (ucast dm) + 5 + of_nat k)"
proof -
  let ?b = "seg_lin (ucast dm)" and ?h = "g_handle_lin env"
  have low: "0x400 \<le> ?b" and cs: "unat (g_codesize env) \<le> 0xFFF0" "0x110000 \<le> ?h" "?h \<le> 0xFFFE0000"
    using lay by (simp_all add: guard_layout_def word_le_nat_alt)
  have b: "0x400 \<le> ?b + of_nat j" if "j \<le> 0x10000" for j
    using seg_lin_low [OF that, of "ucast dm"] low seg_lin_unat [of "ucast dm"] by (simp add: word_le_nat_alt)
  have h: "0x400 \<le> ?h + of_nat j" if "j \<le> 3" for j
    using cs(2,3) that by (simp add: word_le_nat_alt unat_add_lem [THEN iffD1] unat_of_nat take_bit_nat_eq_self)
  have o: "m' a = snd (g_set_vec env vec (x, 5) m) a" if "a < 0x400" for a
    unfolding m
  proof (rule guard_data_other)
    show "a \<noteq> ?b + of_nat k" if "k \<le> 4" for k using b [of k] \<open>a < 0x400\<close> that by auto
    show "a \<noteq> ?h + of_nat k" if "k \<le> 3" for k using h [of k] \<open>a < 0x400\<close> that by auto
  qed
  have "g_get_vec env j m' = g_get_vec env j (snd (g_set_vec env vec (x, 5) m))"
    by (rule vec_lawsD(4) [OF vl o])
  then show "g_get_vec env j m' = (if j = vec then (x, 5) else g_get_vec env j m)" using vec_lawsD(2) [OF vl] by metis
  note d = guard_data_farptr [OF guard_layout_apart [OF lay], of v "snd (g_set_vec env vec (x, 5) m)", folded m]
  show "IRQGUARD_Handler (ucast dm) m' = Some v" using d by (simp add: IRQGUARD_Handler_def)
  show "IRQGUARD_Handler (ucast dm) (m'(?b + 4 := 1)) = None" by (simp add: IRQGUARD_Handler_def)
  show "m' (?b + 5 + of_nat k) = m (?b + 5 + of_nat k)" if k: "k < unat (g_codesize env)"
  proof -
    have e: "?b + 5 + of_nat k = ?b + of_nat (k + 5)" by simp
    have "m' (?b + of_nat (k + 5)) = snd (g_set_vec env vec (x, 5) m) (?b + of_nat (k + 5))"
      unfolding m
    proof (rule guard_data_other)
      fix j :: nat assume j: "j \<le> 4"
      have "unat (?b + of_nat (k + 5)) \<noteq> unat (?b + of_nat j)"
        using seg_lin_low [of "k + 5" "ucast dm"] seg_lin_low [of j "ucast dm"] k j cs(1) by simp
      then show "?b + of_nat (k + 5) \<noteq> ?b + of_nat j" by metis
    next
      fix j :: nat assume "j \<le> 3"
      then show "?b + of_nat (k + 5) \<noteq> ?h + of_nat j"
        using guard_apart(1) [OF lay, of "k + 5" j] k cs(1) by simp
    qed
    also have "\<dots> = m (?b + of_nat (k + 5))"
      using b [of "k + 5"] k cs(1) by (intro vec_lawsD(3) [OF vl]) simp
    finally show ?thesis by (simp only: e)
  qed
qed

lemma assert_guard_True [simp]: "assert_guard env True = Inr ()"
  by (simp add: assert_guard_def)

lemma guard_code_eq:
  assumes "guard_layout env (IRQGUARD_DOSMEM s)"
  shows "guard_code env s = Inr (s\<lparr>g_mem := (\<lambda>a. if a - (seg_lin (ucast (IRQGUARD_DOSMEM s)) + 5) < g_codesize env
      then g_mem s (g_code_lin env + (a - (seg_lin (ucast (IRQGUARD_DOSMEM s)) + 5))) else g_mem s a)\<rparr>)"
proof -
  let ?p = "seg_lin (ucast (IRQGUARD_DOSMEM s)) + 5" and ?q = "g_code_lin env"
  have np: "\<not> physical (g_dpmi env)" and cs: "g_codesize env \<le> 0xFFF0" using assms by (simp_all add: guard_layout_def)
  have "\<not> ?p - ?q < g_codesize env"
  proof
    assume l: "?p - ?q < g_codesize env"
    then have "unat (?p - ?q) \<le> 0x10000" using cs by (simp add: word_less_nat_alt word_le_nat_alt)
    then have "seg_lin (ucast (IRQGUARD_DOSMEM s)) + of_nat 5 \<noteq> ?q + of_nat (unat (?p - ?q))"
      by (intro guard_apart(2) [OF assms]) simp_all
    then show False by simp
  qed
  then have "g_codesize env \<le> ?p - ?q" by simp
  then have "DPMI_CopyLinear (g_dpmi env) (g_mem s) ?p ?q (g_codesize env)
      = Inr (\<lambda>a. if a - ?p < g_codesize env then g_mem s (?q + (a - ?p)) else g_mem s a)"
    using np by (intro DPMI_CopyLinear_exact) (simp_all add: UNMAP_ADDR_def)
  then show ?thesis by (simp add: guard_code_def SEGOFF2L_eq guard_datasize_def IRQGUARD_BYTE_LOC_def)
qed

lemma guard_code_facts:
  assumes vl: "vec_laws (g_get_vec env) (g_set_vec env)" and lay: "guard_layout env dm"
    and m: "m' = (\<lambda>a. if a - (seg_lin (ucast dm) + 5) < g_codesize env then m (g_code_lin env + (a - (seg_lin (ucast dm) + 5))) else m a)"
  shows "g_get_vec env j m' = g_get_vec env j m"
    and "k < unat (g_codesize env) \<Longrightarrow> m' (seg_lin (ucast dm) + 5 + of_nat k) = m (g_code_lin env + of_nat k)"
proof -
  let ?b = "seg_lin (ucast dm)"
  have low: "0x400 \<le> ?b" and cs: "unat (g_codesize env) \<le> 0xFFF0"
    using lay by (simp_all add: guard_layout_def word_le_nat_alt)
  have "m' a = m a" if a: "a < 0x400" for a
  proof -
    have "\<not> a - (?b + 5) < g_codesize env"
    proof
      assume "a - (?b + 5) < g_codesize env"
      then have k: "unat (a - (?b + 5)) + 5 \<le> 0x10000" using cs by (simp add: word_less_nat_alt)
      have "a = ?b + of_nat (unat (a - (?b + 5)) + 5)" by simp
      then have "unat a = 16 * unat (ucast dm :: u16) + (unat (a - (?b + 5)) + 5)"
        using seg_lin_low [OF k, of "ucast dm"] by metis
      then show False using a low seg_lin_unat [of "ucast dm"] by (simp add: word_less_nat_alt word_le_nat_alt)
    qed
    then show ?thesis by (simp add: m)
  qed
  then show "g_get_vec env j m' = g_get_vec env j m" by (rule vec_lawsD(4) [OF vl])
  show "m' (?b + 5 + of_nat k) = m (g_code_lin env + of_nat k)" if "k < unat (g_codesize env)"
    using that cs by (simp add: m word_less_nat_alt unat_of_nat take_bit_nat_eq_self)
qed

lemma guard_store_eq:
  assumes "guard_layout env (IRQGUARD_DOSMEM s)" "IRQGUARD_Installed s"
  shows "guard_store env v s = Inr (s\<lparr>g_mem := (g_mem s)(seg_lin (ucast (IRQGUARD_DOSMEM s)) + 4 := v)\<rparr>)"
  using assms by (simp add: guard_store_def DPMI_StoreB_def UNMAP_ADDR_def guard_layout_def SEGOFF2L_eq IRQGUARD_BYTE_LOC_def)

lemma guard_restore_eq:
  assumes "vec_laws (g_get_vec env) (g_set_vec env)" "\<not> h_rawIVT (IRQGUARD_Handle s)"
  shows "guard_restore env s = Inr (s\<lparr>g_mem := snd (g_set_vec env (h_n (IRQGUARD_Handle s))
    (h_old_rm_cs (IRQGUARD_Handle s), h_old_rm_offset (IRQGUARD_Handle s)) (g_mem s))\<rparr>)"
  using assms(2) by (simp add: guard_restore_def DPMI_UninstallRealModeISR_Direct_def split: prod.split)

lemma handler_after_store:
  "IRQGUARD_Handler seg (m(seg_lin seg + 4 := 1)) = None"
  "IRQGUARD_Handler seg (m(seg_lin seg + 4 := 1, seg_lin seg + 4 := 0)) = IRQGUARD_Handler seg (m(seg_lin seg + 4 := 0))"
  by (simp_all add: IRQGUARD_Handler_def)

lemma guard_data_byte: "(guard_data b h v m)(b + 4 := 0) = guard_data b h v m"
  by (simp add: guard_data_def)

text \<open>The whole life of a guard: installed, switched on and off, removed.\<close>

definition guard_life :: "'d guard_env \<Rightarrow> u8 \<Rightarrow> u16 \<Rightarrow> 'd guard \<Rightarrow> 'd guard \<Rightarrow> bool" where
  "guard_life env irq seg s t =
    (let vec = PIC_IRQ2VEC irq; old = g_get_vec env vec (g_mem s) in
     (\<forall>j. g_get_vec env j (g_mem t) = (if j = vec then (seg, 5) else g_get_vec env j (g_mem s)))
     \<and> (\<forall>k<unat (g_codesize env). g_mem t (seg_lin seg + 5 + of_nat k) = g_mem s (g_code_lin env + of_nat k))
     \<and> IRQGUARD_Handler seg (g_mem t) = Some old
     \<and> (\<exists>u w. IRQGUARD_Enable env t = Inr u \<and> IRQGUARD_Handler seg (g_mem u) = None
          \<and> IRQGUARD_Disable env u = Inr w \<and> IRQGUARD_Handler seg (g_mem w) = Some old))"

text \<open>The interrupt table itself keeps the laws.\<close>

definition ivt_get :: get_vec where
  "ivt_get i m = (ld16 m (ucast i * 4 + 2), ld16 m (ucast i * 4))"

definition ivt_set :: set_vec where
  "ivt_set i v m = (0, st16 (ucast i * 4 + 2) (fst v) (st16 (ucast i * 4) (snd v) m))"

lemma ivt_place: "k < 4 \<Longrightarrow> unat (ucast (i :: u8) * 4 + of_nat k :: u32) = 4 * unat i + k"
proof -
  assume k: "k < 4"
  have i: "unat i < 256" by (rule unat_u8_less)
  have "(ucast i * 4 + of_nat k :: u32) = of_nat (4 * unat i + k)" by (simp add: mult.commute)
  then show ?thesis using i k by (simp only: unat_of_nat) (simp add: take_bit_nat_eq_self)
qed

lemma ivt_place_eq: "k < 4 \<Longrightarrow> l < 4 \<Longrightarrow> (ucast (i :: u8) * 4 + of_nat k = (ucast j * 4 + of_nat l :: u32)) = (i = j \<and> k = l)"
proof -
  assume kl: "k < 4" "l < 4"
  have "(ucast i * 4 + of_nat k = (ucast j * 4 + of_nat l :: u32)) = (4 * unat i + k = 4 * unat j + l)"
    using ivt_place [OF kl(1), of i] ivt_place [OF kl(2), of j] by (metis unsigned_word_eqI)
  also have "\<dots> = (unat i = unat j \<and> k = l)" using kl by presburger
  finally show ?thesis by (simp add: word_unat_eq_iff)
qed

lemmas ivt_places = ivt_place_eq [of 0 0, simplified] ivt_place_eq [of 0 1, simplified] ivt_place_eq [of 0 2, simplified] ivt_place_eq [of 0 3, simplified]
  ivt_place_eq [of 1 0, simplified] ivt_place_eq [of 1 1, simplified] ivt_place_eq [of 1 2, simplified] ivt_place_eq [of 1 3, simplified]
  ivt_place_eq [of 2 0, simplified] ivt_place_eq [of 2 1, simplified] ivt_place_eq [of 2 2, simplified] ivt_place_eq [of 2 3, simplified]
  ivt_place_eq [of 3 0, simplified] ivt_place_eq [of 3 1, simplified] ivt_place_eq [of 3 2, simplified] ivt_place_eq [of 3 3, simplified]

lemma ivt_get_ivt_set: "ivt_get j (snd (ivt_set i v m)) = (if j = i then v else ivt_get j m)"
  using ivt_places [of j i]
  by (cases "j = i") (simp_all add: ivt_get_def ivt_set_def ld16_def st16_def lo8_hi8_join add.assoc)

lemma ivt_vec_laws: "vec_laws ivt_get ivt_set"
  unfolding vec_laws_def
proof (intro conjI allI impI)
  fix i v m a
  assume a: "0x400 \<le> (a :: u32)"
  have "a \<noteq> ucast (i :: u8) * 4 + of_nat k" if "k < 4" for k
    using ivt_place [OF that, of i] a unat_u8_less [of i] that by (auto simp: word_le_nat_alt)
  from this [of 0] this [of 1] this [of 2] this [of 3]
  show "snd (ivt_set i v m) a = m a" by (simp add: ivt_set_def st16_def add.assoc)
next
  fix i :: u8 and m m' :: mem
  assume e: "\<forall>a<0x400. m a = m' a"
  have "m (ucast i * 4 + of_nat k) = m' (ucast i * 4 + of_nat k)" if "k < 4" for k
    using ivt_place [OF that, of i] e unat_u8_less [of i] that by (simp add: word_less_nat_alt)
  from this [of 0] this [of 1] this [of 2] this [of 3]
  show "ivt_get i m = ivt_get i m'" by (simp add: ivt_get_def ld16_def add.assoc)
qed (simp_all add: ivt_get_ivt_set, simp add: ivt_set_def)

text \<open>C15: Installing the guard on an interrupt that has none, with a block of memory that the allocation gives,
  copies the handler behind its data and points the vector of the interrupt (and no other vector) at it; the old vector is not zero
  in either half, which the code asserts. The handler
  then passes the interrupt to the handler that was installed before; once the guard is enabled it drops the interrupt,
  and once it is disabled again it passes it on. Removing the guard gives every vector its old value, frees the block
  and leaves the guard not installed.\<close>

theorem irqguard_guards:
  assumes vl: "vec_laws (g_get_vec env) (g_set_vec env)" and lay: "guard_layout env dm"
    and fresh: "\<not> IRQGUARD_Installed s" "IRQGUARD_DOSMEM s = 0"
    and alloc: "DPMI_HighMalloc (g_ops env) (ucast (drop_bit 4 (g_codesize env + guard_datasize + 15))) True (g_xms s, g_world s) = Inr (dm, x, d)"
    and dm: "dm \<noteq> 0"
    and free: "DPMI_HighFree (g_ops env) dm (x, d) = Inr (x', d')"
    and old: "fst (g_get_vec env (PIC_IRQ2VEC irq) (g_mem s)) \<noteq> 0" "snd (g_get_vec env (PIC_IRQ2VEC irq) (g_mem s)) \<noteq> 0"
  shows "\<exists>t u. IRQGUARD_Install env irq s = Inr (None, t) \<and> guard_life env irq (ucast dm) s t
    \<and> IRQGUARD_Uninstall env t = Inr (True, u) \<and> (\<forall>j. g_get_vec env j (g_mem u) = g_get_vec env j (g_mem s))
    \<and> \<not> IRQGUARD_Installed u \<and> IRQGUARD_DOSMEM u = 0 \<and> g_world u = d'"
proof -
  let ?vec = "PIC_IRQ2VEC irq" and ?seg = "ucast dm :: u16"
  define s1 where "s1 = s\<lparr>IRQGUARD_DOSMEM := dm, g_xms := x, g_world := d\<rparr>"
  define m1 where "m1 = (\<lambda>a. if a - (seg_lin ?seg + 5) < g_codesize env then g_mem s (g_code_lin env + (a - (seg_lin ?seg + 5))) else g_mem s a)"
  define v where "v = g_get_vec env ?vec (g_mem s)"
  define m2 where "m2 = guard_data (seg_lin ?seg) (g_handle_lin env) v (snd (g_set_vec env ?vec (?seg, 5) m1))"
  define hd where "hd = \<lparr>h_old_rm_offset = snd v, h_old_rm_cs = fst v, h_n = ?vec, h_rawIVT = False\<rparr>"
  define t where "t = s1\<lparr>IRQGUARD_Handle := hd, g_mem := m2, IRQGUARD_Installed := True, IRQGUARD_IRQ := irq\<rparr>"
  have a: "guard_alloc env s = Inr s1" using fresh alloc dm by (simp add: guard_alloc_def s1_def)
  have s1f: "IRQGUARD_DOSMEM s1 = dm" "g_mem s1 = g_mem s" by (simp_all add: s1_def)
  note code = guard_code_facts [OF vl lay m1_def]
  have c: "guard_code env s1 = Inr (s1\<lparr>g_mem := m1\<rparr>)"
    unfolding m1_def s1f(2) [symmetric] by (rule guard_code_eq [of env s1, unfolded s1f(1), OF lay])
  have e: "guard_enter env irq (s1\<lparr>g_mem := m1\<rparr>) = Inr (None, t)"
    using guard_enter_eq [OF vl, of "s1\<lparr>g_mem := m1\<rparr>" ?vec irq ?seg v] lay code(1)
    by (simp add: s1_def t_def hd_def m2_def v_def)
  have i: "IRQGUARD_Install env irq s = Inr (None, t)"
    using fresh dm by (simp add: IRQGUARD_Install_def a c e) (simp add: s1_def)
  note facts = guard_mem_facts [OF vl lay m2_def]
  have lt: "guard_layout env (IRQGUARD_DOSMEM t)" "IRQGUARD_Installed t" "IRQGUARD_DOSMEM t = dm" "g_mem t = m2"
    using lay by (simp_all add: t_def s1_def)
  have "guard_life env irq ?seg s t"
    unfolding guard_life_def Let_def IRQGUARD_Enable_def IRQGUARD_Disable_def
    using facts code lt guard_store_eq [OF lt(1,2)] guard_store_eq [of env "t\<lparr>g_mem := m2(seg_lin ?seg + 4 := 1)\<rparr>"]
    by (simp add: handler_after_store v_def [symmetric]) (simp add: m2_def guard_data_byte)
  moreover have "guard_restore env t = Inr (t\<lparr>g_mem := snd (g_set_vec env ?vec v m2)\<rparr>)"
    using guard_restore_eq [OF vl, of t] by (simp add: t_def hd_def)
  then have "\<exists>u. IRQGUARD_Uninstall env t = Inr (True, u) \<and> g_mem u = snd (g_set_vec env ?vec v m2)
      \<and> \<not> IRQGUARD_Installed u \<and> IRQGUARD_DOSMEM u = 0 \<and> g_world u = d'"
    using old free by (simp add: IRQGUARD_Uninstall_def t_def s1_def hd_def v_def)
  then obtain u where u: "IRQGUARD_Uninstall env t = Inr (True, u)" "g_mem u = snd (g_set_vec env ?vec v m2)"
      "\<not> IRQGUARD_Installed u" "IRQGUARD_DOSMEM u = 0" "g_world u = d'" by blast
  moreover have "g_get_vec env j (g_mem u) = g_get_vec env j (g_mem s)" for j
    using vec_lawsD(2) [OF vl, of j ?vec v m2] facts(1) [of j] code(1) [of j] by (simp add: u(2) v_def)
  ultimately show ?thesis using i by blast
qed

text \<open>A driver that gives upper memory at D000h.\<close>

definition umb_demo :: "bool rm_ops" where
  "umb_demo = \<lparr>rm_int = (\<lambda>i r d. (r, d)),
     rm_retf = (\<lambda>r d. if reg_ah r = 0x10 then (set_bx 0xD000 (set_ax 1 r), True) else (set_ax 1 r, False)),
     rm_code = (\<lambda>r d. 0), dos_alloc = (\<lambda>n d. ((- 1, 0), d)), dos_free = (\<lambda>s d. d)\<rparr>"

definition guard_demo :: "bool guard_env" where
  "guard_demo = \<lparr>g_debug = True, g_ops = umb_demo, g_dpmi = \<lparr>physical = False, maps = []\<rparr>, g_get_vec = ivt_get, g_set_vec = ivt_set,
     g_code_lin = 0x400000, g_codesize = 20, g_handle_lin = 0x410000\<rparr>"

theorem irqguard_guards_witness:
  "\<exists>t u. IRQGUARD_Install guard_demo 5 (guard_init (reg_zero\<lparr>r_cs := 1\<rparr>) False (\<lambda>a. 0x12)) = Inr (None, t)
    \<and> guard_life guard_demo 5 0xD000 (guard_init (reg_zero\<lparr>r_cs := 1\<rparr>) False (\<lambda>a. 0x12)) t
    \<and> IRQGUARD_Uninstall guard_demo t = Inr (True, u) \<and> g_get_vec guard_demo 0x0D (g_mem u) = (0x1212, 0x1212)
    \<and> \<not> IRQGUARD_Installed u \<and> IRQGUARD_DOSMEM u = 0 \<and> g_world u = False"
proof -
  let ?x = "reg_zero\<lparr>r_cs := 1\<rparr>" and ?m = "(\<lambda>a. 0x12) :: mem"
  have v: "g_get_vec guard_demo j ?m = (0x1212, 0x1212)" for j
    by (simp add: guard_demo_def ivt_get_def ld16_def b2w_def push_bit_eq_mult)
  have "DPMI_HighMalloc (g_ops guard_demo) (ucast (drop_bit 4 (g_codesize guard_demo + guard_datasize + 15))) True
      (g_xms (guard_init ?x False ?m), g_world (guard_init ?x False ?m)) = Inr (0xFFFFD000, ?x, True)"
    by (simp add: guard_demo_def guard_init_def DPMI_HighMalloc_def XMS_AllocUMB_def XMS_Init_def XMS_IsInited_def umb_demo_def
        DPMI_CallRealModeRETF_def guard_datasize_def IRQGUARD_BYTE_LOC_def)
  moreover have "DPMI_HighFree (g_ops guard_demo) 0xFFFFD000 (?x, True) = Inr (?x, False)"
    by (simp add: guard_demo_def DPMI_HighFree_def XMS_FreeUMB_def XMS_IsInited_def umb_demo_def DPMI_CallRealModeRETF_def)
  moreover have "guard_layout guard_demo 0xFFFFD000"
    by (simp add: guard_layout_def guard_demo_def push_bit_eq_mult)
  moreover have "vec_laws (g_get_vec guard_demo) (g_set_vec guard_demo)" using ivt_vec_laws by (simp add: guard_demo_def)
  moreover have seg: "(4294955008 :: u16) = 0xD000" by simp
  ultimately show ?thesis
    using irqguard_guards [of guard_demo "0xFFFFD000" "guard_init ?x False ?m" ?x True ?x False 5] v
    by (simp add: guard_init_def seg) blast
qed

text \<open>A guard moved to another interrupt gives the first one back its vector.\<close>

lemma irqguard_moves:
  assumes vl: "vec_laws (g_get_vec env) (g_set_vec env)" and lay: "guard_layout env (IRQGUARD_DOSMEM s)"
    and s: "IRQGUARD_Installed s" "irq \<noteq> IRQGUARD_IRQ s" "\<not> h_rawIVT (IRQGUARD_Handle s)"
  shows "\<exists>t. IRQGUARD_Install env irq s = Inr (None, t) \<and> (\<forall>j. g_get_vec env j (g_mem t) =
    (if j = PIC_IRQ2VEC irq then (ucast (IRQGUARD_DOSMEM s), 5)
     else if j = h_n (IRQGUARD_Handle s) then (h_old_rm_cs (IRQGUARD_Handle s), h_old_rm_offset (IRQGUARD_Handle s))
     else g_get_vec env j (g_mem s)))"
proof -
  let ?h = "IRQGUARD_Handle s"
  define s1 where "s1 = s\<lparr>g_mem := snd (g_set_vec env (h_n ?h) (h_old_rm_cs ?h, h_old_rm_offset ?h) (g_mem s))\<rparr>"
  have "IRQGUARD_Install env irq s = guard_enter env irq s1"
    using s by (simp add: IRQGUARD_Install_def guard_restore_eq [OF vl] s1_def)
  moreover have "guard_layout env (IRQGUARD_DOSMEM s1)" using lay by (simp add: s1_def)
  note e = guard_enter_eq [OF vl this refl refl refl]
  moreover note guard_mem_facts(1) [OF vl lay refl]
  ultimately show ?thesis using vec_lawsD(2) [OF vl] by (simp add: s1_def)
qed

end
