(* ===== verification/Pci.thy ===== *)
theory Pci
  imports Dpmi Pic
begin

text \<open>
  Access to the PCI configuration space (\<open>mpxplay/au_cards/pcibios.c\<close>): the accesses through the two 32-bit ports at any width and
  alignment, the command register and the search for a device. Ports, BIOS and DOS memory are parameters. The
  32-bit BIOS entry (\<open>pcibios_CallFunction32\<close>) is compiled but never called and is left out.
\<close>

section \<open>Configuration space\<close>

record 'h pci_io =
  p_outl :: "u16 \<Rightarrow> u32 \<Rightarrow> 'h \<Rightarrow> 'h"
  p_inl :: "u16 \<Rightarrow> 'h \<Rightarrow> u32 \<times> 'h"

abbreviation (input) PCI_ADDR :: u16 where "PCI_ADDR \<equiv> 0x0CF8"
abbreviation (input) PCI_DATA :: u16 where "PCI_DATA \<equiv> 0x0CFC"
abbreviation (input) ENABLE_BIT :: u32 where "ENABLE_BIT \<equiv> 0x80000000"

definition pci_val :: "u8 \<Rightarrow> u8 \<Rightarrow> u8 \<Rightarrow> u8 \<Rightarrow> u32" where
  "pci_val bus dev func reg = ENABLE_BIT OR push_bit 16 (ucast bus) OR push_bit 11 (ucast dev) OR push_bit 8 (ucast func)
     OR (ucast reg AND 0xFC)"

definition pci_shift :: "u8 \<Rightarrow> nat" where "pci_shift reg = unat (reg AND 3) * 8"

definition PCI_ReadByte :: "'h pci_io \<Rightarrow> u8 \<Rightarrow> u8 \<Rightarrow> u8 \<Rightarrow> u8 \<Rightarrow> 'h \<Rightarrow> u8 \<times> 'h" where
  "PCI_ReadByte io bus dev func reg h =
    (let h = p_outl io PCI_ADDR (pci_val bus dev func reg) h;
         (d, h) = p_inl io PCI_DATA h
     in (ucast (drop_bit (pci_shift reg) d AND 0xFF), h))"

definition PCI_ReadWord :: "'h pci_io \<Rightarrow> u8 \<Rightarrow> u8 \<Rightarrow> u8 \<Rightarrow> u8 \<Rightarrow> 'h \<Rightarrow> u16 \<times> 'h" where
  "PCI_ReadWord io bus dev func reg h =
    (if reg AND 3 \<le> 2 then
       (let h = p_outl io PCI_ADDR (pci_val bus dev func reg) h;
            (d, h) = p_inl io PCI_DATA h
        in (ucast (drop_bit (pci_shift reg) d AND 0xFFFF), h))
     else
       (let (b1, h) = PCI_ReadByte io bus dev func (reg + 1) h;
            (b0, h) = PCI_ReadByte io bus dev func reg h
        in (push_bit 8 (ucast b1) OR ucast b0, h)))"

definition PCI_ReadDWord :: "'h pci_io \<Rightarrow> u8 \<Rightarrow> u8 \<Rightarrow> u8 \<Rightarrow> u8 \<Rightarrow> 'h \<Rightarrow> u32 \<times> 'h" where
  "PCI_ReadDWord io bus dev func reg h =
    (if reg AND 3 = 0 then
       (let h = p_outl io PCI_ADDR (pci_val bus dev func reg) h
        in p_inl io PCI_DATA h)
     else
       (let (w1, h) = PCI_ReadWord io bus dev func (reg + 2) h;
            (w0, h) = PCI_ReadWord io bus dev func reg h
        in (push_bit 16 (ucast w1) OR ucast w0, h)))"

definition PCI_WriteByte :: "'h pci_io \<Rightarrow> u8 \<Rightarrow> u8 \<Rightarrow> u8 \<Rightarrow> u8 \<Rightarrow> u8 \<Rightarrow> 'h \<Rightarrow> 'h" where
  "PCI_WriteByte io bus dev func reg value h =
    (let sh = pci_shift reg;
         h = p_outl io PCI_ADDR (pci_val bus dev func reg) h;
         (d, h) = p_inl io PCI_DATA h
     in p_outl io PCI_DATA ((d AND NOT (push_bit sh 0xFF)) OR push_bit sh (ucast value)) h)"

definition PCI_WriteWord :: "'h pci_io \<Rightarrow> u8 \<Rightarrow> u8 \<Rightarrow> u8 \<Rightarrow> u8 \<Rightarrow> u16 \<Rightarrow> 'h \<Rightarrow> 'h" where
  "PCI_WriteWord io bus dev func reg value h =
    (if reg AND 3 \<le> 2 then
       (let sh = pci_shift reg;
            h = p_outl io PCI_ADDR (pci_val bus dev func reg) h;
            (d, h) = p_inl io PCI_DATA h
        in p_outl io PCI_DATA ((d AND NOT (push_bit sh 0xFFFF)) OR push_bit sh (ucast value)) h)
     else
       (let h = PCI_WriteByte io bus dev func (reg + 0) (ucast (value AND 0xFF)) h
        in PCI_WriteByte io bus dev func (reg + 1) (ucast (drop_bit 8 value)) h))"

definition PCI_WriteDWord :: "'h pci_io \<Rightarrow> u8 \<Rightarrow> u8 \<Rightarrow> u8 \<Rightarrow> u8 \<Rightarrow> u32 \<Rightarrow> 'h \<Rightarrow> 'h" where
  "PCI_WriteDWord io bus dev func reg value h =
    (if reg AND 3 = 0 then
       (let h = p_outl io PCI_ADDR (pci_val bus dev func reg) h
        in p_outl io PCI_DATA value h)
     else
       (let h = PCI_WriteWord io bus dev func (reg + 0) (ucast (value AND 0xFFFF)) h
        in PCI_WriteWord io bus dev func (reg + 2) (ucast (drop_bit 16 value)) h))"

section \<open>Devices\<close>

record pci_device =
  pd_name :: string
  pd_vendor :: u16
  pd_device :: u16
  pd_type :: u16

record pci_config =
  bBus :: u8
  bDev :: u8
  bFunc :: u8
  vendor_id :: u16
  device_id :: u16
  device_name :: "string option"
  device_type :: u16

definition pci_config_zero :: pci_config where
  "pci_config_zero = \<lparr>bBus = 0, bDev = 0, bFunc = 0, vendor_id = 0, device_id = 0, device_name = None, device_type = 0\<rparr>"

definition pcibios_ReadConfig_Byte :: "'h pci_io \<Rightarrow> pci_config \<Rightarrow> u16 \<Rightarrow> 'h \<Rightarrow> u8 \<times> 'h" where
  "pcibios_ReadConfig_Byte io k wAdr = PCI_ReadByte io (bBus k) (bDev k) (bFunc k) (ucast wAdr)"

definition pcibios_ReadConfig_Word :: "'h pci_io \<Rightarrow> pci_config \<Rightarrow> u16 \<Rightarrow> 'h \<Rightarrow> u16 \<times> 'h" where
  "pcibios_ReadConfig_Word io k wAdr = PCI_ReadWord io (bBus k) (bDev k) (bFunc k) (ucast wAdr)"

definition pcibios_ReadConfig_Dword :: "'h pci_io \<Rightarrow> pci_config \<Rightarrow> u16 \<Rightarrow> 'h \<Rightarrow> u32 \<times> 'h" where
  "pcibios_ReadConfig_Dword io k wAdr = PCI_ReadDWord io (bBus k) (bDev k) (bFunc k) (ucast wAdr)"

definition pcibios_WriteConfig_Byte :: "'h pci_io \<Rightarrow> pci_config \<Rightarrow> u16 \<Rightarrow> u8 \<Rightarrow> 'h \<Rightarrow> 'h" where
  "pcibios_WriteConfig_Byte io k wAdr = PCI_WriteByte io (bBus k) (bDev k) (bFunc k) (ucast wAdr)"

definition pcibios_WriteConfig_Word :: "'h pci_io \<Rightarrow> pci_config \<Rightarrow> u16 \<Rightarrow> u16 \<Rightarrow> 'h \<Rightarrow> 'h" where
  "pcibios_WriteConfig_Word io k wAdr = PCI_WriteWord io (bBus k) (bDev k) (bFunc k) (ucast wAdr)"

definition pcibios_WriteConfig_Dword :: "'h pci_io \<Rightarrow> pci_config \<Rightarrow> u16 \<Rightarrow> u32 \<Rightarrow> 'h \<Rightarrow> 'h" where
  "pcibios_WriteConfig_Dword io k wAdr = PCI_WriteDWord io (bBus k) (bDev k) (bFunc k) (ucast wAdr)"

abbreviation (input) PCIR_PCICMD :: u16 where "PCIR_PCICMD \<equiv> 0x04"
abbreviation (input) PCIR_INTR_LN :: u16 where "PCIR_INTR_LN \<equiv> 0x3C"
abbreviation (input) PCIR_INTR_PIN :: u16 where "PCIR_INTR_PIN \<equiv> 0x3D"

text \<open>The command register. The word is kept in an \<open>unsigned int\<close> and cut again when it is written.\<close>

definition pci_cmd :: "(u32 \<Rightarrow> u32) \<Rightarrow> 'h pci_io \<Rightarrow> pci_config \<Rightarrow> 'h \<Rightarrow> 'h" where
  "pci_cmd f io k h =
    (let (w, h) = pcibios_ReadConfig_Word io k PCIR_PCICMD h
     in pcibios_WriteConfig_Word io k PCIR_PCICMD (ucast (f (ucast w))) h)"

definition pcibios_set_master :: "'h pci_io \<Rightarrow> pci_config \<Rightarrow> 'h \<Rightarrow> 'h" where
  "pcibios_set_master = pci_cmd (\<lambda>cmd. cmd OR (0x01 OR 0x04))"

definition pcibios_enable_memmap_set_master :: "'h pci_io \<Rightarrow> pci_config \<Rightarrow> 'h \<Rightarrow> 'h" where
  "pcibios_enable_memmap_set_master = pci_cmd (\<lambda>cmd. (cmd AND NOT 0x01) OR (0x02 OR 0x04))"

definition pcibios_enable_memmap_set_master_all :: "'h pci_io \<Rightarrow> pci_config \<Rightarrow> 'h \<Rightarrow> 'h" where
  "pcibios_enable_memmap_set_master_all = pci_cmd (\<lambda>cmd. cmd OR (0x01 OR 0x02 OR 0x04))"

definition pcibios_enable_interrupt :: "'h pci_io \<Rightarrow> pci_config \<Rightarrow> 'h \<Rightarrow> 'h" where
  "pcibios_enable_interrupt = pci_cmd (\<lambda>cmd. cmd AND NOT (push_bit 10 1))"

section \<open>The PCI BIOS\<close>

text \<open>The registers of \<open>int386\<close> that the source uses.\<close>

record REGS =
  x_ah :: u8
  x_al :: u8
  x_bh :: u8
  x_bl :: u8
  x_cx :: u16
  x_dx :: u16
  x_si :: u16
  x_cflag :: u16

definition REGS_zero :: REGS where
  "REGS_zero = \<lparr>x_ah = 0, x_al = 0, x_bh = 0, x_bl = 0, x_cx = 0, x_dx = 0, x_si = 0, x_cflag = 0\<rparr>"

text \<open>\<open>b_get\<close> and \<open>b_put\<close> are DOS memory at linear addresses (\<open>dosget\<close>, \<open>dosput\<close>); \<open>b_malloc\<close> is whether the
  heap of the program gives a block of that size. \<open>b_ops\<close> has the calls into real mode and the allocation of DOS memory.\<close>

record 'd bios_env =
  b_int386 :: "u8 \<Rightarrow> REGS \<Rightarrow> 'd \<Rightarrow> REGS \<times> 'd"
  b_ops :: "'d rm_ops"
  b_pci :: "'d pci_io"
  b_io :: "'d io_ops"
  b_get :: "'d \<Rightarrow> u32 \<Rightarrow> u8"
  b_put :: "u32 \<Rightarrow> u8 list \<Rightarrow> 'd \<Rightarrow> 'd"
  b_malloc :: "nat \<Rightarrow> bool"

abbreviation (input) PCI_SERVICE :: u8 where "PCI_SERVICE \<equiv> 0x1A"
abbreviation (input) PCI_SUCCESSFUL :: u8 where "PCI_SUCCESSFUL \<equiv> 0x00"
abbreviation (input) PCI_DEVICE_NOTFOUND :: u8 where "PCI_DEVICE_NOTFOUND \<equiv> 0x86"
abbreviation (input) PCI_BUFFER_SMALL :: u8 where "PCI_BUFFER_SMALL \<equiv> 0x89"

definition pcibios_GetBus :: "'d bios_env \<Rightarrow> 'd \<Rightarrow> bool \<times> 'd" where
  "pcibios_GetBus env d =
    (let (r, d) = b_int386 env PCI_SERVICE (REGS_zero\<lparr>x_ah := 0xB1, x_al := 0x01, x_cflag := 1\<rparr>) d
     in (x_cflag r = 0, d))"

text \<open>The configuration is stored where there is a place for it and the device was found.\<close>

definition pcibios_FindDevice :: "'d bios_env \<Rightarrow> u16 \<Rightarrow> u16 \<Rightarrow> pci_config option \<Rightarrow> 'd \<Rightarrow> u8 \<times> pci_config option \<times> 'd" where
  "pcibios_FindDevice env wVendor wDevice key d =
    (let (r, d) = b_int386 env PCI_SERVICE (REGS_zero\<lparr>x_ah := 0xB1, x_al := 0x02, x_cx := wDevice, x_dx := wVendor, x_si := 0\<rparr>) d;
         key = (if x_ah r = PCI_SUCCESSFUL then
             map_option (\<lambda>k. k\<lparr>bBus := x_bh r, bDev := drop_bit 3 (x_bl r), bFunc := x_bl r AND 0x07,
               vendor_id := wVendor, device_id := wDevice\<rparr>) key
           else key)
     in (x_ah r, key, d))"

text \<open>The list of devices ends with an entry whose vendor is 0; the loop runs out of the array without one.\<close>

fun search_loop :: "'d bios_env \<Rightarrow> pci_device list \<Rightarrow> pci_config option \<Rightarrow> 'd \<Rightarrow> (u8 \<times> pci_config option \<times> 'd) res" where
  "search_loop env [] key d = Inl Out_of_bounds"
| "search_loop env (p # ps) key d =
    (if pd_vendor p = 0 then Inr (PCI_DEVICE_NOTFOUND, key, d)
     else let (ah, key, d) = pcibios_FindDevice env (pd_vendor p) (pd_device p) key d in
       if ah = PCI_SUCCESSFUL then
         Inr (PCI_SUCCESSFUL, map_option (\<lambda>k. k\<lparr>device_name := Some (pd_name p), device_type := pd_type p\<rparr>) key, d)
       else search_loop env ps key d)"

definition pcibios_search_devices :: "'d bios_env \<Rightarrow> pci_device list \<Rightarrow> pci_config option \<Rightarrow> 'd \<Rightarrow> (u8 \<times> pci_config option \<times> 'd) res" where
  "pcibios_search_devices env devices key d =
    (let (bus, d) = pcibios_GetBus env d in
     if bus then search_loop env devices key d else Inr (PCI_DEVICE_NOTFOUND, key, d))"

section \<open>Configuration space as bytes\<close>

text \<open>The access mechanism, as the PCI specification has it: a write to the address port selects a doubleword, the data
  port reads and writes it. \<open>cfg\<close> are the doublewords by the value of the address port. What a write does is up to
  each bit of the register: the bits of \<open>rw\<close> take the value, those of \<open>wc\<close> are cleared by a 1 (the bits of a status register),
  all others are read-only; nothing else is changed by it.\<close>

definition reg_write :: "'a::len word \<Rightarrow> 'a word \<Rightarrow> 'a word \<Rightarrow> 'a word \<Rightarrow> 'a word" where
  "reg_write rw wc old v = (v AND rw) OR (old AND NOT rw AND NOT (v AND wc))"

definition pci_laws :: "'h pci_io \<Rightarrow> ('h \<Rightarrow> u32) \<Rightarrow> ('h \<Rightarrow> u32 \<Rightarrow> u32) \<Rightarrow> (u32 \<Rightarrow> u32) \<Rightarrow> (u32 \<Rightarrow> u32) \<Rightarrow> bool" where
  "pci_laws io sel cfg rw wc =
    ((\<forall>v h. sel (p_outl io PCI_ADDR v h) = v \<and> cfg (p_outl io PCI_ADDR v h) = cfg h) \<and>
     (\<forall>h. fst (p_inl io PCI_DATA h) = cfg h (sel h) \<and> cfg (snd (p_inl io PCI_DATA h)) = cfg h \<and> sel (snd (p_inl io PCI_DATA h)) = sel h) \<and>
     (\<forall>v h. cfg (p_outl io PCI_DATA v h) = (cfg h)(sel h := reg_write (rw (sel h)) (wc (sel h)) (cfg h (sel h)) v)))"

type_synonym pci_loc = "u8 \<times> u8 \<times> u8"

definition valid_loc :: "pci_loc \<Rightarrow> bool" where
  "valid_loc l = (case l of (bus, dev, func) \<Rightarrow> dev < 32 \<and> func < 8)"

definition pci_view :: "(u32 \<Rightarrow> u32) \<Rightarrow> pci_loc \<Rightarrow> u8 \<Rightarrow> u8" where
  "pci_view c l r = (case l of (bus, dev, func) \<Rightarrow> byte (unat r mod 4) (c (pci_val bus dev func r)))"

primrec put_bytes :: "u8 \<Rightarrow> u8 list \<Rightarrow> (u8 \<Rightarrow> u8) \<Rightarrow> u8 \<Rightarrow> u8" where
  "put_bytes r [] g = g"
| "put_bytes r (v # vs) g = put_bytes (r + 1) vs (g(r := v))"

lemma put_bytes_append: "put_bytes r (xs @ ys) g = put_bytes (r + of_nat (length xs)) ys (put_bytes r xs g)"
  by (induction xs arbitrary: r g) (simp_all add: add.assoc)

lemma unat_and3: "unat (r AND 3 :: u8) = unat r mod 4"
proof -
  have "r AND 3 = take_bit 2 r" by (simp add: take_bit_eq_mask mask_eq_exp_minus_1)
  then show ?thesis by (simp add: take_bit_eq_mod unat_mod)
qed

lemma pci_shift_eq: "pci_shift r = 8 * (unat r mod 4)"
  by (simp add: pci_shift_def unat_and3)

lemma bit_and_FC: "bit (ucast (r :: u8) AND 0xFC :: u32) n = (2 \<le> n \<and> bit r n)"
proof -
  have "(0xFC :: u32) = push_bit 2 (mask 6)" by (simp add: mask_eq_exp_minus_1)
  then have "bit (0xFC :: u32) n = bit (push_bit 2 (mask 6) :: u32) n" by (simp only:)
  then have m: "bit (0xFC :: u32) n = (2 \<le> n \<and> n < 8)" by (simp only: bit_push_bit_iff bit_mask_iff) auto
  show ?thesis unfolding bit_and_iff m bit_ucast8_u32 using bit_u8_less [of r n] by auto
qed

lemma bit_pci_val:
  assumes "valid_loc (bus, dev, func)"
  shows "bit (pci_val bus dev func r) n =
    (if n < 8 then 2 \<le> n \<and> bit r n else if n < 11 then bit func (n - 8) else if n < 16 then bit dev (n - 11)
     else if n < 24 then bit bus (n - 16) else n = 31)"
proof -
  have d: "bit dev k \<Longrightarrow> k < 5" for k
  proof -
    have "unat dev < 2 ^ 5" using assms by (simp add: valid_loc_def word_less_nat_alt)
    then have "take_bit 5 dev = dev" by (metis nat_take_bit_eq take_bit_nat_eq_self unsigned_take_bit_eq word_unat_eq_iff)
    then show "bit dev k \<Longrightarrow> k < 5" by (metis bit_take_bit_iff)
  qed
  have f: "bit func k \<Longrightarrow> k < 3" for k
  proof -
    have "unat func < 2 ^ 3" using assms by (simp add: valid_loc_def word_less_nat_alt)
    then have "take_bit 3 func = func" by (metis nat_take_bit_eq take_bit_nat_eq_self unsigned_take_bit_eq word_unat_eq_iff)
    then show "bit func k \<Longrightarrow> k < 3" by (metis bit_take_bit_iff)
  qed
  have e: "bit (ENABLE_BIT :: u32) n = (n = 31)"
  proof -
    have "(ENABLE_BIT :: u32) = push_bit 31 1" by simp
    then have "bit (ENABLE_BIT :: u32) n = bit (push_bit 31 1 :: u32) n" by (simp only:)
    then show ?thesis by (simp only: bit_push_bit_iff bit_1_iff) auto
  qed
  show ?thesis
    using d [of "n - 11"] f [of "n - 8"] bit_u8_less [of r n] bit_u8_less [of bus "n - 16"] e
    unfolding pci_val_def bit_or_iff bit_and_FC
    by (auto simp: bit_simps)
qed

lemma unat_u8_div4: "unat (r :: u8) div 4 = unat (s :: u8) div 4 \<longleftrightarrow> (\<forall>n. 2 \<le> n \<longrightarrow> bit r n = bit s n)"
proof -
  have "unat r div 4 = unat s div 4 \<longleftrightarrow> drop_bit 2 r = drop_bit 2 s"
    by (simp add: word_unat_eq_iff drop_bit_eq_div unat_div)
  also have "\<dots> \<longleftrightarrow> (\<forall>n. bit r (2 + n) = bit s (2 + n))"
  proof
    assume "drop_bit 2 r = drop_bit 2 s"
    then show "\<forall>n. bit r (2 + n) = bit s (2 + n)" by (metis bit_drop_bit_eq comp_apply)
  next
    assume "\<forall>n. bit r (2 + n) = bit s (2 + n)"
    then show "drop_bit 2 r = drop_bit 2 s" by (intro bit_word_eqI) (simp only: bit_drop_bit_eq comp_apply)
  qed
  also have "\<dots> \<longleftrightarrow> (\<forall>n. 2 \<le> n \<longrightarrow> bit r n = bit s n)" by (metis le_Suc_ex le_add1)
  finally show ?thesis .
qed

lemma pci_val_eq_iff:
  assumes "valid_loc (b, d, f)" "valid_loc (b', d', f')"
  shows "pci_val b d f r = pci_val b' d' f' r' \<longleftrightarrow> b = b' \<and> d = d' \<and> f = f' \<and> unat r div 4 = unat r' div 4"
proof
  assume e: "pci_val b d f r = pci_val b' d' f' r'"
  have i: "bit (pci_val b d f r) n = bit (pci_val b' d' f' r') n" for n by (simp only: e)
  have "bit f n = bit f' n" if "n < 3" for n
    using i [of "n + 8"] that unfolding bit_pci_val [OF assms(1)] bit_pci_val [OF assms(2)] by simp
  moreover have small: "valid_loc (b, d, f) \<Longrightarrow> bit f n \<Longrightarrow> n < 3" "valid_loc (b, d, f) \<Longrightarrow> bit d n \<Longrightarrow> n < 5" for b d f n
  proof -
    assume v: "valid_loc (b, d, f)"
    then have "unat f < 2 ^ 3" "unat d < 2 ^ 5" by (simp_all add: valid_loc_def word_less_nat_alt)
    then have "take_bit 3 f = f" "take_bit 5 d = d"
      by (simp_all add: word_unat_eq_iff unsigned_take_bit_eq take_bit_nat_eq_self)
    then show "bit f n \<Longrightarrow> n < 3" "bit d n \<Longrightarrow> n < 5" by (metis bit_take_bit_iff)+
  qed
  ultimately have "bit f n = bit f' n" for n
    using small(1) [OF assms(1), of n] small(1) [OF assms(2), of n] by (cases "n < 3") auto
  then have f: "f = f'" by (simp add: bit_eq_iff)
  have "bit d n = bit d' n" if "n < 5" for n
    using i [of "n + 11"] that unfolding bit_pci_val [OF assms(1)] bit_pci_val [OF assms(2)] by simp
  then have "bit d n = bit d' n" for n
    using small(2) [OF assms(1), of n] small(2) [OF assms(2), of n] by (cases "n < 5") auto
  then have d: "d = d'" by (simp add: bit_eq_iff)
  have "bit b n = bit b' n" if "n < 8" for n
    using i [of "n + 16"] that unfolding bit_pci_val [OF assms(1)] bit_pci_val [OF assms(2)] by simp
  then have b: "b = b'" by (auto simp: bit_eq_iff)
  have "bit r n = bit r' n" if "2 \<le> n" for n
    using i [of n] that bit_u8_less [of r n] bit_u8_less [of r' n]
    unfolding bit_pci_val [OF assms(1)] bit_pci_val [OF assms(2)] by (auto split: if_splits)
  then show "b = b' \<and> d = d' \<and> f = f' \<and> unat r div 4 = unat r' div 4" using f d b unat_u8_div4 by blast
next
  assume "b = b' \<and> d = d' \<and> f = f' \<and> unat r div 4 = unat r' div 4"
  then have e: "b' = b" "d' = d" "f' = f" "\<forall>n. 2 \<le> n \<longrightarrow> bit r n = bit r' n" using unat_u8_div4 [of r r'] by auto
  have "bit (pci_val b d f r) n = bit (pci_val b' d' f' r') n" for n
    unfolding e(1-3) bit_pci_val [OF assms(1)] using e(4) by auto
  then show "pci_val b d f r = pci_val b' d' f' r'" by (simp add: bit_eq_iff)
qed

lemma put_bytes_at:
  "length vs \<le> 4 \<Longrightarrow> put_bytes r vs g x = (if unat (x - r) < length vs then vs ! unat (x - r) else g x)"
proof (induction vs arbitrary: r g)
  case (Cons v vs)
  have s: "unat (x - (r + 1)) = (if x = r then 255 else unat (x - r) - 1)"
  proof (cases "x = r")
    case True
    then show ?thesis by (simp add: unsigned_minus_1_eq_mask mask_eq_exp_minus_1)
  next
    case False
    then have "x - r \<noteq> 0" by simp
    then have "unat (x - r - 1) = unat (x - r) - 1" by (simp add: unat_minus_one)
    then show ?thesis using False by (simp add: diff_diff_eq2 [symmetric] algebra_simps)
  qed
  have ne: "x \<noteq> r \<Longrightarrow> unat (x - r) \<noteq> 0" by (metis eq_iff_diff_eq_0 unsigned_eq_0_iff)
  have "put_bytes r (v # vs) g x = (if unat (x - (r + 1)) < length vs then vs ! unat (x - (r + 1)) else (g(r := v)) x)"
    using Cons by simp
  then show ?case using ne Cons.prems by (cases "x = r") (auto simp: s nth_Cons' unsigned_minus_1_eq_mask mask_eq_exp_minus_1)
qed simp

lemma unat_diff_same_dword:
  assumes "unat r mod 4 + n \<le> 4" "0 < n"
  shows "unat (x - r :: u8) < n \<longleftrightarrow> unat x div 4 = unat r div 4 \<and> unat r mod 4 \<le> unat x mod 4 \<and> unat x mod 4 < unat r mod 4 + n"
    and "unat x div 4 = unat r div 4 \<Longrightarrow> unat r mod 4 \<le> unat x mod 4 \<Longrightarrow> unat (x - r) = unat x mod 4 - unat r mod 4"
proof -
  have l: "unat x < 256" "unat r < 256" by (rule unat_u8_less)+
  have d: "unat (x - r) = (if unat r \<le> unat x then unat x - unat r else 256 + unat x - unat r)"
  proof (cases "r \<le> x")
    case True
    then show ?thesis by (simp add: unat_sub word_le_nat_alt)
  next
    case False
    then have "\<not> unat r \<le> unat x" by (simp add: word_le_nat_alt)
    moreover have "int (unat (x - r)) = (int (unat x) - int (unat r)) mod 256"
      by (simp add: uint_word_ariths take_bit_eq_mod unsigned_of_int)
    moreover have "(int (unat x) - int (unat r)) mod 256 = int (unat x) - int (unat r) + 256"
    proof -
      have "(int (unat x) - int (unat r) + 256) mod 256 = int (unat x) - int (unat r) + 256"
        using \<open>\<not> unat r \<le> unat x\<close> l by (intro mod_pos_pos_trivial) linarith+
      then show ?thesis by (simp only: mod_add_self2)
    qed
    ultimately have "int (unat (x - r)) = int (unat x) - int (unat r) + 256" by (simp only:)
    then have "unat (x - r) = 256 + unat x - unat r" using l by linarith
    then show ?thesis using \<open>\<not> unat r \<le> unat x\<close> by simp
  qed
  define a b c e where "a = unat x div 4" and "b = unat x mod 4" and "c = unat r div 4" and "e = unat r mod 4"
  have x: "unat x = 4 * a + b" "unat r = 4 * c + e" by (simp_all add: a_def b_def c_def e_def)
  have m: "b < 4" "e < 4" "a < 64" "c < 64" using l by (simp_all add: a_def b_def c_def e_def)
  show "unat (x - r) < n \<longleftrightarrow> unat x div 4 = unat r div 4 \<and> unat r mod 4 \<le> unat x mod 4 \<and> unat x mod 4 < unat r mod 4 + n"
    unfolding d a_def [symmetric] b_def [symmetric] c_def [symmetric] e_def [symmetric] unfolding x
    using assms [folded e_def] m by (cases "a = c"; cases "4 * c + e \<le> 4 * a + b") auto
  show "unat x div 4 = unat r div 4 \<Longrightarrow> unat r mod 4 \<le> unat x mod 4 \<Longrightarrow> unat (x - r) = unat x mod 4 - unat r mod 4"
    unfolding d a_def [symmetric] b_def [symmetric] c_def [symmetric] e_def [symmetric] unfolding x by simp
qed

text \<open>A doubleword with new bytes at the place of the register shows as those bytes.\<close>

lemma pci_view_write:
  assumes l: "valid_loc l" "valid_loc l'" and n: "unat r mod 4 + length vs \<le> 4" "0 < length vs"
    and w: "\<And>k. k < 4 \<Longrightarrow> byte k w = (if unat r mod 4 \<le> k \<and> k < unat r mod 4 + length vs then vs ! (k - unat r mod 4)
      else byte k (c (case l of (b, d, f) \<Rightarrow> pci_val b d f r)))"
  shows "pci_view (c((case l of (b, d, f) \<Rightarrow> pci_val b d f r) := w)) l' x = (if l' = l then put_bytes r vs (pci_view c l) x else pci_view c l' x)"
proof -
  obtain b d f where lb: "l = (b, d, f)" by (cases l) auto
  obtain b' d' f' where lb': "l' = (b', d', f')" by (cases l') auto
  note v = l [unfolded lb lb']
  note inj = pci_val_eq_iff [OF v(2,1), of x r]
  show ?thesis
  proof (cases "l' = l \<and> unat x div 4 = unat r div 4")
    case False
    then have "pci_val b' d' f' x \<noteq> pci_val b d f r" using inj lb lb' by auto
    then have "pci_view (c((case l of (b, d, f) \<Rightarrow> pci_val b d f r) := w)) l' x = pci_view c l' x" by (simp add: pci_view_def lb lb')
    moreover have "l' = l \<Longrightarrow> put_bytes r vs (pci_view c l) x = pci_view c l x"
      using False unat_diff_same_dword(1) [OF n, of x] n(1) by (simp add: put_bytes_at)
    ultimately show ?thesis by simp
  next
    case True
    then have e: "pci_val b' d' f' x = pci_val b d f r" using inj lb lb' by auto
    have "pci_view (c((case l of (b, d, f) \<Rightarrow> pci_val b d f r) := w)) l' x = byte (unat x mod 4) w"
      by (simp add: pci_view_def lb lb' e)
    also have "\<dots> = put_bytes r vs (pci_view c l) x"
      using True n(1) e unat_diff_same_dword [OF n, of x] w [of "unat x mod 4"] lb lb'
      by (auto simp: put_bytes_at pci_view_def)
    finally show ?thesis using True by simp
  qed
qed

lemma byte_masked:
  assumes "k < 4" "s + m \<le> 4" "m \<le> 4"
  shows "byte k ((old AND NOT (push_bit (8 * s) (mask (8 * m)))) OR push_bit (8 * s) (take_bit (8 * m) v)) =
    (if s \<le> k \<and> k < s + m then byte (k - s) v else byte k (old :: u32))"
proof (rule bit_word_eqI)
  fix n assume n: "n < LENGTH(8)"
  have "8 * s \<le> 8 * k + n \<longleftrightarrow> s \<le> k" "s \<le> k \<Longrightarrow> 8 * k + n - 8 * s < 8 * m \<longleftrightarrow> k < s + m"
    "s \<le> k \<Longrightarrow> 8 * k + n - 8 * s = 8 * (k - s) + n" using n by auto
  then show "bit (byte k ((old AND NOT (push_bit (8 * s) (mask (8 * m)))) OR push_bit (8 * s) (take_bit (8 * m) v))) n =
    bit (if s \<le> k \<and> k < s + m then byte (k - s) v else byte k old) n"
    using n assms by (auto simp: bit_byte bit_or_iff bit_and_iff bit_not_iff bit_push_bit_iff bit_mask_iff bit_take_bit_iff)
qed

lemma next_reg:
  assumes "unat r mod 4 + k < 4"
  shows "unat (r + of_nat k :: u8) mod 4 = unat r mod 4 + k" "unat (r + of_nat k) div 4 = unat r div 4"
proof -
  have k: "unat (of_nat k :: u8) = k" using assms by (simp add: unat_of_nat take_bit_nat_eq_self)
  have n: "unat r mod 4 + Suc k \<le> 4" "0 < Suc k" using assms by simp_all
  have "unat (r + of_nat k - r) < Suc k" using k by simp
  then have d: "unat (r + of_nat k) div 4 = unat r div 4" "unat r mod 4 \<le> unat (r + of_nat k) mod 4"
    using unat_diff_same_dword(1) [OF n, of "r + of_nat k"] by blast+
  then show "unat (r + of_nat k) mod 4 = unat r mod 4 + k" "unat (r + of_nat k) div 4 = unat r div 4"
    using unat_diff_same_dword(2) [OF n d] k by simp_all
qed

definition view16 :: "(u8 \<Rightarrow> u8) \<Rightarrow> u8 \<Rightarrow> u16" where
  "view16 V r = push_bit 8 (b2w (V (r + 1))) OR b2w (V r)"

definition view32 :: "(u8 \<Rightarrow> u8) \<Rightarrow> u8 \<Rightarrow> u32" where
  "view32 V r = push_bit 16 (ucast (view16 V (r + 2))) OR ucast (view16 V r)"

lemma pci_access:
  assumes "pci_laws io sel cfg rw wc"
  shows "\<exists>g. p_inl io PCI_DATA (p_outl io PCI_ADDR v h) = (cfg h v, g) \<and> cfg g = cfg h \<and> sel g = v"
    and "sel (p_outl io PCI_ADDR v h) = v" "cfg (p_outl io PCI_ADDR v h) = cfg h"
    and "cfg (p_outl io PCI_DATA w g) = (cfg g)(sel g := reg_write (rw (sel g)) (wc (sel g)) (cfg g (sel g)) w)"
  using assms unfolding pci_laws_def by (metis prod.collapse)+

lemma pci_view_next:
  assumes "unat r mod 4 + k < 4"
  shows "pci_view c (b, d, f) (r + of_nat k) = byte (unat r mod 4 + k) (c (pci_val b d f r))"
proof -
  have "pci_val b d f (r + of_nat k) = pci_val b d f r"
  proof (rule bit_word_eqI)
    fix n assume "n < LENGTH(32)"
    have "bit (ucast (r + of_nat k) AND 0xFC :: u32) n = bit (ucast r AND 0xFC :: u32) n"
      unfolding bit_and_FC using next_reg(2) [OF assms] unat_u8_div4 by blast
    then show "bit (pci_val b d f (r + of_nat k)) n = bit (pci_val b d f r) n" by (simp only: pci_val_def bit_or_iff)
  qed
  then show ?thesis using next_reg(1) [OF assms] by (simp add: pci_view_def)
qed

lemma mask8_u32: "(0xFF :: u32) = mask 8"
  by (simp add: mask_eq_exp_minus_1)

lemma byte_of_shift: "ucast (drop_bit (8 * k) D AND 0xFF) = byte k D"
  unfolding mask8_u32 by (rule bit_word_eqI) (auto simp: bit_byte bit_simps)

lemma word_of_shift: "k \<le> 2 \<Longrightarrow> ucast (drop_bit (8 * k) D AND 0xFFFF) = push_bit 8 (b2w (byte (k + 1) D)) OR b2w (byte k D)"
proof -
  assume k: "k \<le> 2"
  have "bit (ucast (drop_bit (8 * k) D AND 0xFFFF) :: u16) n = bit (push_bit 8 (b2w (byte (k + 1) D)) OR b2w (byte k D)) n" if "n < 16" for n
    using that k unfolding mask16_u32 b2w_def by (auto simp: bit_byte bit_simps)
  then show ?thesis by (intro bit_word_eqI) simp
qed

lemma dword_of_bytes:
  "push_bit 16 (ucast (push_bit 8 (b2w (byte 3 D)) OR b2w (byte 2 D) :: u16)) OR ucast (push_bit 8 (b2w (byte 1 D)) OR b2w (byte 0 D) :: u16) = D"
proof -
  have "bit (push_bit 16 (ucast (push_bit 8 (b2w (byte 3 D)) OR b2w (byte 2 D) :: u16)) OR ucast (push_bit 8 (b2w (byte 1 D)) OR b2w (byte 0 D) :: u16) :: u32) n
    = bit D n" if "n < 32" for n
    using that unfolding b2w_def by (cases "16 \<le> n") (auto simp: bit_byte bit_simps)
  then show ?thesis by (intro bit_word_eqI) simp
qed

lemma reg3_iff: "(r AND 3 = (0 :: u8)) = (unat r mod 4 = 0)" "(r AND 3 \<le> (2 :: u8)) = (unat r mod 4 \<le> 2)"
  by (simp_all add: word_unat_eq_iff word_le_nat_alt unat_and3)

lemma ReadByte_view:
  assumes laws: "pci_laws io sel cfg rw wc"
  shows "\<exists>g. PCI_ReadByte io b d f r h = (pci_view (cfg h) (b, d, f) r, g) \<and> cfg g = cfg h"
proof -
  obtain g where "p_inl io PCI_DATA (p_outl io PCI_ADDR (pci_val b d f r) h) = (cfg h (pci_val b d f r), g)" "cfg g = cfg h"
    using pci_access(1) [OF laws] by blast
  then show ?thesis by (simp add: PCI_ReadByte_def pci_shift_eq byte_of_shift pci_view_def)
qed

lemma ReadWord_view:
  assumes laws: "pci_laws io sel cfg rw wc"
  shows "\<exists>g. PCI_ReadWord io b d f r h = (view16 (pci_view (cfg h) (b, d, f)) r, g) \<and> cfg g = cfg h"
proof (cases "unat r mod 4 \<le> 2")
  case True
  obtain g where "p_inl io PCI_DATA (p_outl io PCI_ADDR (pci_val b d f r) h) = (cfg h (pci_val b d f r), g)" "cfg g = cfg h"
    using pci_access(1) [OF laws] by blast
  then show ?thesis
    using True pci_view_next [of r 0 "cfg h" b d f] pci_view_next [of r 1 "cfg h" b d f]
    by (simp add: PCI_ReadWord_def reg3_iff pci_shift_eq word_of_shift view16_def)
next
  case False
  obtain g1 where g1: "PCI_ReadByte io b d f (r + 1) h = (pci_view (cfg h) (b, d, f) (r + 1), g1)" "cfg g1 = cfg h"
    using ReadByte_view [OF laws] by blast
  moreover obtain g2 where "PCI_ReadByte io b d f r g1 = (pci_view (cfg g1) (b, d, f) r, g2)" "cfg g2 = cfg g1"
    using ReadByte_view [OF laws] by blast
  ultimately show ?thesis using False by (simp add: PCI_ReadWord_def reg3_iff view16_def b2w_def)
qed

lemma ReadDWord_view:
  assumes laws: "pci_laws io sel cfg rw wc"
  shows "\<exists>g. PCI_ReadDWord io b d f r h = (view32 (pci_view (cfg h) (b, d, f)) r, g) \<and> cfg g = cfg h"
proof (cases "unat r mod 4 = 0")
  case True
  obtain g where "p_inl io PCI_DATA (p_outl io PCI_ADDR (pci_val b d f r) h) = (cfg h (pci_val b d f r), g)" "cfg g = cfg h"
    using pci_access(1) [OF laws] by blast
  then show ?thesis
    using True pci_view_next [of r 0 "cfg h" b d f] pci_view_next [of r 1 "cfg h" b d f] pci_view_next [of r 2 "cfg h" b d f]
      pci_view_next [of r 3 "cfg h" b d f] dword_of_bytes [of "cfg h (pci_val b d f r)"]
    by (simp add: PCI_ReadDWord_def reg3_iff view32_def view16_def add.assoc numeral_2_eq_2)
next
  case False
  obtain g1 where g1: "PCI_ReadWord io b d f (r + 2) h = (view16 (pci_view (cfg h) (b, d, f)) (r + 2), g1)" "cfg g1 = cfg h"
    using ReadWord_view [OF laws] by blast
  moreover obtain g2 where "PCI_ReadWord io b d f r g1 = (view16 (pci_view (cfg g1) (b, d, f)) r, g2)" "cfg g2 = cfg g1"
    using ReadWord_view [OF laws] by blast
  ultimately show ?thesis using False by (simp add: PCI_ReadDWord_def reg3_iff view32_def)
qed

text \<open>The bytes \<open>vs\<close> have been put at a register of a function, and nothing else.\<close>

definition pci_put :: "(u32 \<Rightarrow> u32) \<Rightarrow> (u32 \<Rightarrow> u32) \<Rightarrow> pci_loc \<Rightarrow> u8 \<Rightarrow> u8 list \<Rightarrow> bool" where
  "pci_put c c' l r vs = (\<forall>l'. valid_loc l' \<longrightarrow> pci_view c' l' = (if l' = l then put_bytes r vs (pci_view c l) else pci_view c l'))"

text \<open>A register is touched by an access to the doublewords of \<open>k\<close> bytes.\<close>

definition touched :: "u8 \<Rightarrow> nat \<Rightarrow> u8 \<Rightarrow> bool" where
  "touched r k x = (\<exists>i<k. unat x div 4 = unat (r + of_nat i) div 4)"

text \<open>What a write of the bytes \<open>vs\<close> does to each bit of the space. The doublewords are read and written back, so a
  bit that is cleared by a 1 is cleared, if it is set, wherever it is in one of them; only in bytes that are
  written with a 0 in one access it is kept.\<close>

definition bit_wrote :: "bool \<Rightarrow> bool \<Rightarrow> bool \<Rightarrow> bool \<Rightarrow> bool \<Rightarrow> bool \<Rightarrow> bool" where
  "bit_wrote t rw wc old v new =
    ((\<not> t \<longrightarrow> new = old) \<and> (rw \<longrightarrow> new = v) \<and> (\<not> rw \<and> \<not> wc \<longrightarrow> new = old) \<and> (\<not> rw \<and> wc \<longrightarrow> (new \<longrightarrow> old) \<and> (t \<and> v \<longrightarrow> \<not> new)))"

definition pci_wrote :: "(u32 \<Rightarrow> u32) \<Rightarrow> (u32 \<Rightarrow> u32) \<Rightarrow> (u32 \<Rightarrow> u32) \<Rightarrow> (u32 \<Rightarrow> u32) \<Rightarrow> pci_loc \<Rightarrow> u8 \<Rightarrow> u8 list \<Rightarrow> bool" where
  "pci_wrote rw wc c c' l r vs =
    ((\<forall>l'. valid_loc l' \<longrightarrow> l' \<noteq> l \<longrightarrow> pci_view c' l' = pci_view c l') \<and>
     (\<forall>x n. bit_wrote (touched r (length vs) x) (bit (pci_view rw l x) n) (bit (pci_view wc l x) n) (bit (pci_view c l x) n)
        (bit (put_bytes r vs (pci_view c l) x) n) (bit (pci_view c' l x) n)))"

text \<open>An access to one doubleword, exactly.\<close>

definition pci_stored :: "(u32 \<Rightarrow> u32) \<Rightarrow> (u32 \<Rightarrow> u32) \<Rightarrow> (u32 \<Rightarrow> u32) \<Rightarrow> (u32 \<Rightarrow> u32) \<Rightarrow> pci_loc \<Rightarrow> u8 \<Rightarrow> u8 list \<Rightarrow> bool" where
  "pci_stored rw wc c c' l r vs =
    (\<forall>l' x. valid_loc l' \<longrightarrow> pci_view c' l' x = (if l' = l \<and> touched r (length vs) x
       then reg_write (pci_view rw l x) (pci_view wc l x) (pci_view c l x) (put_bytes r vs (pci_view c l) x) else pci_view c l' x))"

lemma bit_reg_write: "bit (reg_write rw wc old v) n = (if bit rw n then bit v n else bit old n \<and> \<not> (bit v n \<and> bit wc n))"
  for v :: "'a::len word"
  using bit_imp_le_length [of old n] by (auto simp: reg_write_def bit_or_iff bit_and_iff bit_not_iff)

lemma byte_reg_write: "byte k (reg_write rw wc old v) = reg_write (byte k rw) (byte k wc) (byte k old) (byte k v)"
  by (rule bit_word_eqI) (auto simp: bit_byte bit_reg_write)

lemma touched_next: "x = r + of_nat i \<Longrightarrow> i < k \<Longrightarrow> touched r k x"
  by (auto simp: touched_def)

lemma written_touched: "unat (x - r) < k \<Longrightarrow> touched r k x"
  by (rule touched_next [of _ _ "unat (x - r)"]) simp_all

lemma touched_append: "touched r (k + m) x = (touched r k x \<or> touched (r + of_nat k) m x)"
proof
  assume "touched r (k + m) x"
  then obtain i where i: "i < k + m" "unat x div 4 = unat (r + of_nat i) div 4" by (auto simp: touched_def)
  show "touched r k x \<or> touched (r + of_nat k) m x"
  proof (cases "i < k")
    case False
    then have "r + of_nat i = r + of_nat k + of_nat (i - k)" "i - k < m" using i(1) by (simp_all flip: of_nat_add add: add.assoc)
    then show ?thesis using i(2) unfolding touched_def by metis
  qed (use i in \<open>auto simp: touched_def\<close>)
next
  assume "touched r k x \<or> touched (r + of_nat k) m x"
  then show "touched r (k + m) x"
  proof
    assume "touched (r + of_nat k) m x"
    then obtain i where "i < m" "unat x div 4 = unat (r + of_nat (k + i)) div 4" by (auto simp: touched_def add.assoc)
    then show ?thesis unfolding touched_def by (intro exI [of _ "k + i"]) simp
  qed (auto simp: touched_def intro: trans_less_add1)
qed

lemma touched_one: "unat r mod 4 + k \<le> 4 \<Longrightarrow> 0 < k \<Longrightarrow> touched r k x = (unat x div 4 = unat r div 4)"
proof -
  assume k: "unat r mod 4 + k \<le> 4" "0 < k"
  have "unat (r + of_nat i) div 4 = unat r div 4" if "i < k" for i using next_reg(2) [of r i] k(1) that by simp
  then show ?thesis using k(2) unfolding touched_def by auto
qed

lemma pci_stored_wrote: "valid_loc l \<Longrightarrow> pci_stored rw wc c c' l r vs \<Longrightarrow> length vs \<le> 4 \<Longrightarrow> pci_wrote rw wc c c' l r vs"
proof -
  assume l: "valid_loc l" and s: "pci_stored rw wc c c' l r vs" and v: "length vs \<le> 4"
  have "put_bytes r vs (pci_view c l) x = pci_view c l x" if "\<not> touched r (length vs) x" for x
    using written_touched that by (auto simp: put_bytes_at [OF v])
  then have "bit_wrote (touched r (length vs) x) (bit (pci_view rw l x) n) (bit (pci_view wc l x) n) (bit (pci_view c l x) n)
        (bit (put_bytes r vs (pci_view c l) x) n) (bit (pci_view c' l x) n)" for x n
    using s [unfolded pci_stored_def, rule_format, OF l, of x]
    by (cases "touched r (length vs) x") (auto simp: bit_wrote_def bit_reg_write)
  moreover have "pci_view c' l' = pci_view c l'" if "valid_loc l'" "l' \<noteq> l" for l'
    using s [unfolded pci_stored_def, rule_format, OF that(1)] that(2) by (intro ext) simp
  ultimately show ?thesis unfolding pci_wrote_def by blast
qed

text \<open>A second access that writes the bit, and one that only writes it back.\<close>

lemma bit_wrote_again:
  "bit_wrote t1 rw wc x w y \<Longrightarrow> bit_wrote True rw wc y v z \<Longrightarrow> bit_wrote True rw wc x v z"
  "bit_wrote t1 rw wc x v y \<Longrightarrow> bit_wrote t2 rw wc y y z \<Longrightarrow> t1 \<or> v = x \<Longrightarrow> bit_wrote (t1 \<or> t2) rw wc x v z"
  unfolding bit_wrote_def by argo+

lemma pci_wrote_append:
  assumes a: "pci_wrote rw wc c c1 l r xs" and b: "pci_wrote rw wc c1 c2 l (r + of_nat (length xs)) ys" and n: "length xs + length ys \<le> 4"
  shows "pci_wrote rw wc c c2 l r (xs @ ys)"
proof -
  let ?r = "r + of_nat (length xs)"
  have "bit_wrote (touched r (length (xs @ ys)) x) (bit (pci_view rw l x) n) (bit (pci_view wc l x) n) (bit (pci_view c l x) n)
        (bit (put_bytes r (xs @ ys) (pci_view c l) x) n) (bit (pci_view c2 l x) n)" for x n
  proof -
    have 1: "bit_wrote (touched r (length xs) x) (bit (pci_view rw l x) n) (bit (pci_view wc l x) n) (bit (pci_view c l x) n)
        (bit (put_bytes r xs (pci_view c l) x) n) (bit (pci_view c1 l x) n)"
      and 2: "bit_wrote (touched ?r (length ys) x) (bit (pci_view rw l x) n) (bit (pci_view wc l x) n) (bit (pci_view c1 l x) n)
        (bit (put_bytes ?r ys (pci_view c1 l) x) n) (bit (pci_view c2 l x) n)"
      using a b unfolding pci_wrote_def by blast+
    have lx: "length xs \<le> 4" "length ys \<le> 4" using n by simp_all
    have px: "put_bytes r xs (pci_view c l) x = pci_view c l x" if "\<not> touched r (length xs) x"
      using written_touched that by (auto simp: put_bytes_at [OF lx(1)])
    show ?thesis
    proof (cases "unat (x - ?r) < length ys")
      case True
      then have "touched ?r (length ys) x" by (rule written_touched)
      moreover have "put_bytes r (xs @ ys) (pci_view c l) x = put_bytes ?r ys (pci_view c1 l) x"
        using True by (simp add: put_bytes_append put_bytes_at [OF lx(2)])
      ultimately show ?thesis using bit_wrote_again(1) [OF 1] 2 by (simp add: touched_append)
    next
      case False
      have e: "put_bytes r (xs @ ys) (pci_view c l) x = put_bytes r xs (pci_view c l) x" "put_bytes ?r ys (pci_view c1 l) x = pci_view c1 l x"
        using False by (simp_all add: put_bytes_append put_bytes_at [OF lx(2)])
      have "touched r (length xs) x \<or> bit (put_bytes r xs (pci_view c l) x) n = bit (pci_view c l x) n" using px by fastforce
      then show ?thesis unfolding e length_append touched_append by (rule bit_wrote_again(2) [OF 1 2 [unfolded e]])
    qed
  qed
  moreover have "pci_view c2 l' = pci_view c l'" if "valid_loc l'" "l' \<noteq> l" for l'
    using a b that unfolding pci_wrote_def by metis
  ultimately show ?thesis unfolding pci_wrote_def by blast
qed

lemma pci_put_dword:
  assumes "valid_loc (b, d, f)" "unat r mod 4 + m \<le> 4" "0 < m" "length vs = m"
    and "\<And>k. k < m \<Longrightarrow> vs ! k = byte k v"
    and c': "c' = c(pci_val b d f r := (c (pci_val b d f r) AND NOT (push_bit (8 * (unat r mod 4)) (mask (8 * m))))
      OR push_bit (8 * (unat r mod 4)) (take_bit (8 * m) v))"
  shows "pci_put c c' (b, d, f) r vs"
  unfolding pci_put_def
proof (intro allI impI ext)
  fix l' x assume "valid_loc l'"
  have m: "m \<le> 4" using assms(2) by simp
  define w where "w = (c (pci_val b d f r) AND NOT (push_bit (8 * (unat r mod 4)) (mask (8 * m))))
      OR push_bit (8 * (unat r mod 4)) (take_bit (8 * m) v)"
  have bw: "byte k w = (if unat r mod 4 \<le> k \<and> k < unat r mod 4 + length vs then vs ! (k - unat r mod 4)
      else byte k (c (case (b, d, f) of (b, d, f) \<Rightarrow> pci_val b d f r)))" if "k < 4" for k
  proof -
    have "k - unat r mod 4 < m" if "unat r mod 4 \<le> k" "k < unat r mod 4 + m" using that by simp
    then show ?thesis using byte_masked [OF that assms(2) m, of "c (pci_val b d f r)" v] assms(4,5) unfolding w_def by simp
  qed
  have "unat r mod 4 + length vs \<le> 4" "0 < length vs" using assms(2-4) by simp_all
  from pci_view_write [of "(b, d, f)" l' r vs w c x, OF assms(1) \<open>valid_loc l'\<close> this bw]
  show "pci_view c' l' x = (if l' = (b, d, f) then put_bytes r vs (pci_view c (b, d, f)) else pci_view c l') x"
    by (simp add: c' flip: w_def)
qed

text \<open>So with the way the register takes the written doubleword.\<close>

lemma pci_stored_dword:
  assumes l: "valid_loc (b, d, f)" and k: "unat r mod 4 + m \<le> 4" "0 < m" "length vs = m"
    and vs: "\<And>k. k < m \<Longrightarrow> vs ! k = byte k v"
    and c': "c' = c(pci_val b d f r := reg_write (rw (pci_val b d f r)) (wc (pci_val b d f r)) (c (pci_val b d f r))
      ((c (pci_val b d f r) AND NOT (push_bit (8 * (unat r mod 4)) (mask (8 * m)))) OR push_bit (8 * (unat r mod 4)) (take_bit (8 * m) v)))"
  shows "pci_stored rw wc c c' (b, d, f) r vs"
  unfolding pci_stored_def
proof (intro allI impI)
  fix l' x assume l': "valid_loc l'"
  obtain b' d' f' where lb': "l' = (b', d', f')" by (cases l') auto
  define w where "w = (c (pci_val b d f r) AND NOT (push_bit (8 * (unat r mod 4)) (mask (8 * m)))) OR push_bit (8 * (unat r mod 4)) (take_bit (8 * m) v)"
  have p: "pci_put c (c(pci_val b d f r := w)) (b, d, f) r vs" by (rule pci_put_dword [OF l k vs]) (simp_all add: w_def)
  have t: "touched r (length vs) x = (unat x div 4 = unat r div 4)" using touched_one [of r m x] k by simp
  have e: "pci_val b' d' f' x = pci_val b d f r \<longleftrightarrow> l' = (b, d, f) \<and> touched r (length vs) x"
    using pci_val_eq_iff [OF l' [unfolded lb'] l, of x r] by (auto simp: lb' t)
  show "pci_view c' l' x = (if l' = (b, d, f) \<and> touched r (length vs) x
       then reg_write (pci_view rw (b, d, f) x) (pci_view wc (b, d, f) x) (pci_view c (b, d, f) x) (put_bytes r vs (pci_view c (b, d, f)) x)
       else pci_view c l' x)"
  proof (cases "l' = (b, d, f) \<and> touched r (length vs) x")
    case True
    then have a: "pci_val b d f x = pci_val b d f r" using e lb' by auto
    have "byte (unat x mod 4) w = put_bytes r vs (pci_view c (b, d, f)) x"
      using p [unfolded pci_put_def, rule_format, OF l] a by (auto simp: pci_view_def fun_eq_iff dest: spec [of _ x])
    then show ?thesis using True a by (simp add: c' pci_view_def byte_reg_write flip: w_def)
  next
    case False
    then have "pci_val b' d' f' x \<noteq> pci_val b d f r" using e by blast
    then have "pci_view c' l' x = pci_view c l' x" by (simp add: c' pci_view_def lb')
    then show ?thesis using False by (simp only: if_False)
  qed
qed

lemma mask32_take: "take_bit 32 (v :: u32) = v" by (rule take_bit_length_eq [where 'a = 32, simplified])

lemma WriteByte_stored:
  assumes laws: "pci_laws io sel cfg rw wc" and "valid_loc (b, d, f)"
  shows "pci_stored rw wc (cfg h) (cfg (PCI_WriteByte io b d f r v h)) (b, d, f) r [v]"
proof -
  obtain g where g: "p_inl io PCI_DATA (p_outl io PCI_ADDR (pci_val b d f r) h) = (cfg h (pci_val b d f r), g)" "cfg g = cfg h" "sel g = pci_val b d f r"
    using pci_access(1) [OF laws] by blast
  have t: "take_bit (8 * 1) (ucast v :: u32) = ucast v" by (rule bit_word_eqI) (auto simp: bit_simps dest: bit_u8_less)
  have b: "byte 0 (ucast v :: u32) = v" by (rule bit_word_eqI) (auto simp: bit_byte bit_simps)
  have "cfg (PCI_WriteByte io b d f r v h) = (cfg h)(pci_val b d f r := reg_write (rw (pci_val b d f r)) (wc (pci_val b d f r)) (cfg h (pci_val b d f r)) ((cfg h (pci_val b d f r)
      AND NOT (push_bit (8 * (unat r mod 4)) (mask (8 * 1)))) OR push_bit (8 * (unat r mod 4)) (take_bit (8 * 1) (ucast v))))"
    unfolding t by (simp add: PCI_WriteByte_def Let_def g pci_access(4) [OF laws] pci_shift_eq mask8_u32)
  then show ?thesis by (intro pci_stored_dword [OF assms(2), of r 1 _ "ucast v"]) (simp_all add: b)
qed

lemma WriteByte_wrote:
  "pci_laws io sel cfg rw wc \<Longrightarrow> valid_loc (b, d, f) \<Longrightarrow> pci_wrote rw wc (cfg h) (cfg (PCI_WriteByte io b d f r v h)) (b, d, f) r [v]"
  by (intro pci_stored_wrote WriteByte_stored) simp_all

lemma WriteWord_stored:
  assumes laws: "pci_laws io sel cfg rw wc" and l: "valid_loc (b, d, f)" and True: "unat r mod 4 \<le> 2"
  shows "pci_stored rw wc (cfg h) (cfg (PCI_WriteWord io b d f r v h)) (b, d, f) r [lo8 v, hi8 v]"
proof -
  obtain g where g: "p_inl io PCI_DATA (p_outl io PCI_ADDR (pci_val b d f r) h) = (cfg h (pci_val b d f r), g)" "cfg g = cfg h" "sel g = pci_val b d f r"
    using pci_access(1) [OF laws] by blast
  have t: "take_bit (8 * 2) (ucast v :: u32) = ucast v" by (rule bit_word_eqI) (auto simp: bit_simps dest: bit_u16_less)
  have "byte 0 (ucast v :: u32) = lo8 v" "byte (Suc 0) (ucast v :: u32) = hi8 v"
    by (rule bit_word_eqI, auto simp: bit_byte bit_simps lo8_def hi8_def)+
  then have "[lo8 v, hi8 v] ! k = byte k (ucast v :: u32)" if "k < 2" for k using that by (auto simp: less_2_cases_iff)
  moreover have "cfg (PCI_WriteWord io b d f r v h) = (cfg h)(pci_val b d f r := reg_write (rw (pci_val b d f r)) (wc (pci_val b d f r)) (cfg h (pci_val b d f r)) ((cfg h (pci_val b d f r)
      AND NOT (push_bit (8 * (unat r mod 4)) (mask (8 * 2)))) OR push_bit (8 * (unat r mod 4)) (take_bit (8 * 2) (ucast v))))"
    using True unfolding t by (simp add: PCI_WriteWord_def reg3_iff Let_def g pci_access(4) [OF laws] pci_shift_eq mask16_u32)
  ultimately show ?thesis using True by (intro pci_stored_dword [OF l, of r 2 _ "ucast v"]) simp_all
qed

lemma WriteWord_wrote:
  assumes laws: "pci_laws io sel cfg rw wc" and l: "valid_loc (b, d, f)"
  shows "pci_wrote rw wc (cfg h) (cfg (PCI_WriteWord io b d f r v h)) (b, d, f) r [lo8 v, hi8 v]"
proof (cases "unat r mod 4 \<le> 2")
  case True
  then show ?thesis by (intro pci_stored_wrote [OF l] WriteWord_stored [OF laws l]) simp_all
next
  case False
  have v: "ucast (v AND 0xFF) = lo8 v" "ucast (drop_bit 8 v) = hi8 v"
    unfolding mask8_u16 lo8_def hi8_def by (rule bit_word_eqI, auto simp: bit_simps)+
  have "PCI_WriteWord io b d f r v h = PCI_WriteByte io b d f (r + 1) (hi8 v) (PCI_WriteByte io b d f r (lo8 v) h)"
    using False by (simp add: PCI_WriteWord_def reg3_iff v)
  then show ?thesis
    using pci_wrote_append [OF WriteByte_wrote [OF laws, OF l, of h r "lo8 v"], of "cfg (PCI_WriteByte io b d f (r + 1) (hi8 v) (PCI_WriteByte io b d f r (lo8 v) h))" "[hi8 v]"]
      WriteByte_wrote [OF laws, OF l, of "PCI_WriteByte io b d f r (lo8 v) h" "r + 1" "hi8 v"] by simp
qed

lemma WriteDWord_stored:
  assumes laws: "pci_laws io sel cfg rw wc" and l: "valid_loc (b, d, f)" and True: "unat r mod 4 = 0"
  shows "pci_stored rw wc (cfg h) (cfg (PCI_WriteDWord io b d f r v h)) (b, d, f) r [byte 0 v, byte 1 v, byte 2 v, byte 3 v]"
proof -
  have m: "(mask (8 * 4) :: u32) = - 1" by (rule bit_word_eqI) (simp add: bit_mask_iff)
  have t: "take_bit (8 * 4) v = v" using mask32_take by simp
  have b: "[byte 0 v, byte 1 v, byte 2 v, byte 3 v] ! k = byte k v" if "k < 4" for k
  proof -
    have "k = 0 \<or> k = 1 \<or> k = 2 \<or> k = 3" using that by arith
    then show ?thesis by auto
  qed
  have "cfg (PCI_WriteDWord io b d f r v h) = (cfg h)(pci_val b d f r := reg_write (rw (pci_val b d f r)) (wc (pci_val b d f r)) (cfg h (pci_val b d f r)) ((cfg h (pci_val b d f r)
      AND NOT (push_bit (8 * (unat r mod 4)) (mask (8 * 4)))) OR push_bit (8 * (unat r mod 4)) (take_bit (8 * 4) v)))"
    using True unfolding t m by (simp add: PCI_WriteDWord_def reg3_iff Let_def pci_access [OF laws])
  then show ?thesis using True b by (intro pci_stored_dword [OF l, of r 4 _ v]) simp_all
qed

lemma WriteDWord_wrote:
  assumes laws: "pci_laws io sel cfg rw wc" and l: "valid_loc (b, d, f)"
  shows "pci_wrote rw wc (cfg h) (cfg (PCI_WriteDWord io b d f r v h)) (b, d, f) r [byte 0 v, byte 1 v, byte 2 v, byte 3 v]"
proof (cases "unat r mod 4 = 0")
  case True
  then show ?thesis by (intro pci_stored_wrote [OF l] WriteDWord_stored [OF laws l]) simp_all
next
  case False
  have v: "ucast (v AND 0xFFFF) = (ucast v :: u16)"
    unfolding mask16_u32 by (rule bit_word_eqI) (auto simp: bit_simps)
  have w: "lo8 (ucast v) = byte 0 v" "hi8 (ucast v) = byte 1 v" "lo8 (ucast (drop_bit 16 v)) = byte 2 v" "hi8 (ucast (drop_bit 16 v)) = byte 3 v"
    by (rule bit_word_eqI, auto simp: bit_byte bit_simps lo8_def hi8_def)+
  have "PCI_WriteDWord io b d f r v h = PCI_WriteWord io b d f (r + 2) (ucast (drop_bit 16 v)) (PCI_WriteWord io b d f r (ucast v) h)"
    using False by (simp add: PCI_WriteDWord_def reg3_iff v)
  then show ?thesis
    using pci_wrote_append [OF WriteWord_wrote [OF laws, OF l, of h r "ucast v"],
        of "cfg (PCI_WriteWord io b d f (r + 2) (ucast (drop_bit 16 v)) (PCI_WriteWord io b d f r (ucast v) h))" "[byte 2 v, byte 3 v]"]
      WriteWord_wrote [OF laws, OF l, of "PCI_WriteWord io b d f r (ucast v) h" "r + 2" "ucast (drop_bit 16 v)"] by (simp add: w)
qed

text \<open>C13: The accesses to the configuration space are those of an array of bytes per function, at every alignment, although the
  ports transfer aligned doublewords only: a byte, word or doubleword read at a register gives the bytes there in little-endian order
  (the register number wraps at 256) and changes nothing. After a write, every bit of the written bytes that can be
  written has the new value, every other such bit and every read-only bit is as it was, and so is all of the other functions and of the
  doublewords that hold no written byte. Bits that are cleared by a 1, as those of a status register, can only be cleared: by a 1
  written to them, but also, since the rest of a doubleword is read and written back, wherever they are set in a doubleword that holds a
  written byte; in a single access those in the written bytes keep their value for a 0.\<close>

theorem pci_config_access:
  assumes laws: "pci_laws io sel cfg rw wc" and l: "valid_loc (b, d, f)"
  shows "(\<exists>g. PCI_ReadByte io b d f r h = (pci_view (cfg h) (b, d, f) r, g) \<and> cfg g = cfg h)
    \<and> (\<exists>g. PCI_ReadWord io b d f r h = (view16 (pci_view (cfg h) (b, d, f)) r, g) \<and> cfg g = cfg h)
    \<and> (\<exists>g. PCI_ReadDWord io b d f r h = (view32 (pci_view (cfg h) (b, d, f)) r, g) \<and> cfg g = cfg h)
    \<and> pci_wrote rw wc (cfg h) (cfg (PCI_WriteByte io b d f r v8 h)) (b, d, f) r [v8]
    \<and> pci_wrote rw wc (cfg h) (cfg (PCI_WriteWord io b d f r v16 h)) (b, d, f) r [lo8 v16, hi8 v16]
    \<and> pci_wrote rw wc (cfg h) (cfg (PCI_WriteDWord io b d f r v32 h)) (b, d, f) r [byte 0 v32, byte 1 v32, byte 2 v32, byte 3 v32]
    \<and> pci_stored rw wc (cfg h) (cfg (PCI_WriteByte io b d f r v8 h)) (b, d, f) r [v8]
    \<and> (unat r mod 4 \<le> 2 \<longrightarrow> pci_stored rw wc (cfg h) (cfg (PCI_WriteWord io b d f r v16 h)) (b, d, f) r [lo8 v16, hi8 v16])
    \<and> (unat r mod 4 = 0 \<longrightarrow>
        pci_stored rw wc (cfg h) (cfg (PCI_WriteDWord io b d f r v32 h)) (b, d, f) r [byte 0 v32, byte 1 v32, byte 2 v32, byte 3 v32])"
  by (intro conjI impI WriteByte_stored [OF laws l] WriteWord_stored [OF laws l] WriteDWord_stored [OF laws l] ReadByte_view [OF laws] ReadWord_view [OF laws] ReadDWord_view [OF laws]
    WriteByte_wrote [OF laws l] WriteWord_wrote [OF laws l] WriteDWord_wrote [OF laws l])

text \<open>A bus as the specification has it: the selected doubleword and the doublewords, where every function has a command and a
  status register with bits that a 1 clears, an interrupt line to be written and read-only registers.\<close>

definition pci_rw :: "u32 \<Rightarrow> u32" where
  "pci_rw a = (if a AND 0xFC = 0x04 then 0x0000FFFF else if a AND 0xFC = 0x3C then 0x000000FF else 0)"

definition pci_wc :: "u32 \<Rightarrow> u32" where "pci_wc a = (if a AND 0xFC = 0x04 then 0xF9000000 else 0)"

definition pci_machine :: "(u32 \<times> (u32 \<Rightarrow> u32)) pci_io" where
  "pci_machine = \<lparr>p_outl = (\<lambda>p v h. if p = PCI_ADDR then (v, snd h)
       else if p = PCI_DATA then (fst h, (snd h)(fst h := reg_write (pci_rw (fst h)) (pci_wc (fst h)) (snd h (fst h)) v)) else h),
     p_inl = (\<lambda>p h. (if p = PCI_DATA then snd h (fst h) else 0xFFFFFFFF, h))\<rparr>"

lemma pci_machine_laws: "pci_laws pci_machine fst snd pci_rw pci_wc"
  by (simp add: pci_laws_def pci_machine_def)

theorem pci_config_access_witness:
  "(\<exists>g. PCI_ReadByte pci_machine 0 31 5 0x3F (0, \<lambda>a. a) = (pci_view (\<lambda>a. a) (0, 31, 5) 0x3F, g) \<and> snd g = (\<lambda>a. a))
    \<and> (\<exists>g. PCI_ReadWord pci_machine 0 31 5 0x3F (0, \<lambda>a. a) = (view16 (pci_view (\<lambda>a. a) (0, 31, 5)) 0x3F, g) \<and> snd g = (\<lambda>a. a))
    \<and> (\<exists>g. PCI_ReadDWord pci_machine 0 31 5 0x3F (0, \<lambda>a. a) = (view32 (pci_view (\<lambda>a. a) (0, 31, 5)) 0x3F, g) \<and> snd g = (\<lambda>a. a))
    \<and> pci_wrote pci_rw pci_wc (\<lambda>a. a) (snd (PCI_WriteByte pci_machine 0 31 5 0x3F 1 (0, \<lambda>a. a))) (0, 31, 5) 0x3F [1]
    \<and> pci_wrote pci_rw pci_wc (\<lambda>a. a) (snd (PCI_WriteWord pci_machine 0 31 5 0x3F 0x1234 (0, \<lambda>a. a))) (0, 31, 5) 0x3F [lo8 0x1234, hi8 0x1234]
    \<and> pci_wrote pci_rw pci_wc (\<lambda>a. a) (snd (PCI_WriteDWord pci_machine 0 31 5 0x3F 7 (0, \<lambda>a. a))) (0, 31, 5) 0x3F [byte 0 7, byte 1 7, byte 2 7, byte 3 7]"
  using pci_config_access [OF pci_machine_laws, of 0 31 5 "0x3F" "(0, \<lambda>a. a)" 1 "0x1234" 7]
  by (simp add: valid_loc_def)

text \<open>A word is written by reading and writing its doubleword: setting the command register also writes the value that was read
  from the status register next to it, and so clears every bit of it that a write can clear.\<close>

lemma command_writes_status:
  assumes "pci_laws io sel cfg rw wc" "valid_loc (b, d, f)" "\<not> bit (pci_view rw (b, d, f) 7) n" "bit (pci_view wc (b, d, f) 7) n"
  shows "\<not> bit (pci_view (cfg (PCI_WriteWord io b d f 4 v h)) (b, d, f) 7) n"
proof -
  have "touched 4 2 7" unfolding touched_def by (rule exI [of _ 0]) simp
  have "pci_stored rw wc (cfg h) (cfg (PCI_WriteWord io b d f 4 v h)) (b, d, f) 4 [lo8 v, hi8 v]"
    by (rule WriteWord_stored [OF assms(1,2)]) simp
  from this [unfolded pci_stored_def, rule_format, OF assms(2), of 7]
  have "pci_view (cfg (PCI_WriteWord io b d f 4 v h)) (b, d, f) 7 = reg_write (pci_view rw (b, d, f) 7)
      (pci_view wc (b, d, f) 7) (pci_view (cfg h) (b, d, f) 7) (put_bytes 4 [lo8 v, hi8 v] (pci_view (cfg h) (b, d, f)) 7)"
    using \<open>touched 4 2 7\<close> by (simp add: numeral_2_eq_2)
  moreover have "put_bytes 4 [lo8 v, hi8 v] (pci_view (cfg h) (b, d, f)) 7 = pci_view (cfg h) (b, d, f) 7" by simp
  ultimately show ?thesis using assms(3,4) by (simp add: bit_reg_write)
qed

end
