(* ===== verification/Pciirq.thy ===== *)
theory Pciirq
  imports Pci
begin

text \<open>
  The assignment of an interrupt to a PCI device (\<open>pcibios_AssignIRQ\<close> in \<open>mpxplay/au_cards/pcibios.c\<close>), which reads the
  routing table of the PCI BIOS, looks for a device that shares the interrupt line and otherwise chooses an
  interrupt and routes it, and the allocation of DOS memory it uses (\<open>au_base.c\<close>). This file is compiled with assertions on.
\<close>

section \<open>DOS memory\<close>

record dosmem =
  dm_selector :: u16
  dm_segment :: u16
  dm_linearptr :: u32

definition dosmem_zero :: dosmem where
  "dosmem_zero = \<lparr>dm_selector = 0, dm_segment = 0, dm_linearptr = 0\<rparr>"

definition pds_dpmi_dos_freemem :: "'d rm_ops \<Rightarrow> dosmem \<Rightarrow> 'd \<Rightarrow> dosmem \<times> 'd" where
  "pds_dpmi_dos_freemem ops dm d =
    (if dm_selector dm \<noteq> 0 then (dosmem_zero, dos_free ops (dm_selector dm) d) else (dm, d))"

definition pds_dpmi_dos_allocmem :: "'d rm_ops \<Rightarrow> dosmem \<Rightarrow> u32 \<Rightarrow> 'd \<Rightarrow> bool \<times> dosmem \<times> 'd" where
  "pds_dpmi_dos_allocmem ops dm sz d =
    (let (dm, d) = (if dm_selector dm \<noteq> 0 then
             (let (dm, d) = pds_dpmi_dos_freemem ops dm d in (dm\<lparr>dm_selector := 0\<rparr>, d)) else (dm, d));
         ((seg, sel), d) = dos_alloc ops (ucast (drop_bit 4 (sz + 15))) d
     in if seg \<noteq> - 1 then
          (True, \<lparr>dm_selector = word_of_int sel, dm_segment = word_of_int seg,
             dm_linearptr = push_bit 4 (ucast (word_of_int seg :: u16))\<rparr>, d)
        else (False, dm\<lparr>dm_selector := 0\<rparr>, d))"

section \<open>The routing table\<close>

record IRQRoutingTable =
  rt_bus :: u8
  rt_dev :: u8
  rt_intpins :: "(u8 \<times> u16) list"
  rt_slot :: u8

definition get16 :: "u8 list \<Rightarrow> nat \<Rightarrow> u16" where
  "get16 bs i = push_bit 8 (b2w (bs ! (i + 1))) OR b2w (bs ! i)"

text \<open>An entry has 16 bytes, without padding.\<close>

definition parse_route :: "u8 list \<Rightarrow> IRQRoutingTable" where
  "parse_route bs = \<lparr>rt_bus = bs ! 0, rt_dev = bs ! 1,
     rt_intpins = map (\<lambda>j. (bs ! (2 + 3 * j), get16 bs (3 + 3 * j))) [0..<4], rt_slot = bs ! 14\<rparr>"

definition parse_table :: "u8 list \<Rightarrow> nat \<Rightarrow> IRQRoutingTable list" where
  "parse_table bs count = map (\<lambda>i. parse_route (drop (16 * i) bs)) [0..<count]"

definition dosget :: "'d bios_env \<Rightarrow> u32 \<Rightarrow> nat \<Rightarrow> 'd \<Rightarrow> u8 list" where
  "dosget env a n d = map (\<lambda>i. b_get env d (a + of_nat i)) [0..<n]"

abbreviation STACK_SIZE :: u16 where "STACK_SIZE \<equiv> 1024"

definition bios_call :: "'d bios_env \<Rightarrow> dosmem \<Rightarrow> DPMI_REG \<Rightarrow> 'd \<Rightarrow> DPMI_REG \<times> 'd" where
  "bios_call env rmstack r d = rm_int (b_ops env) PCI_SERVICE (r\<lparr>r_ds := 0xF000, r_ss := dm_segment rmstack, r_sp := STACK_SIZE\<rparr>) d"

text \<open>The first call asks for the size of the table, the second for the table. The result is empty when the
  caller is to give up; the stack and the buffer are free then, but for one path: when the BIOS answers the size 0 the
  small buffer is not freed. The segment registers of the second call are those the first one left, but for \<open>es\<close>.\<close>

definition routing_data :: "'d bios_env \<Rightarrow> dosmem \<Rightarrow> dosmem \<Rightarrow> u8 list \<Rightarrow> DPMI_REG \<Rightarrow> 'd \<Rightarrow> (DPMI_REG \<times> IRQRoutingTable list \<times> dosmem) option \<times> 'd" where
  "routing_data env rmstack dm buf r d =
    (let ops = b_ops env; bsize = unat (get16 buf 0) in
     if \<not> b_malloc env bsize then
       (None, snd (pds_dpmi_dos_freemem ops dm (snd (pds_dpmi_dos_freemem ops rmstack d))))
     else
       let d = b_put env (dm_linearptr dm) (take 2 buf @ [8, 0, lo8 (dm_segment dm), hi8 (dm_segment dm)] @ drop 6 buf) d;
           (r, d) = rm_int ops PCI_SERVICE (r\<lparr>r_eax := 0xB10E, r_ebx := 0, r_es := dm_segment dm\<rparr>) d;
           bs = dosget env (dm_linearptr dm + 8) bsize d
       in if reg_ah r = PCI_SUCCESSFUL then (Some (r, parse_table bs (bsize div 16), dm), d)
          else (None, snd (pds_dpmi_dos_freemem ops dm (snd (pds_dpmi_dos_freemem ops rmstack d)))))"

definition routing_table :: "'d bios_env \<Rightarrow> dosmem \<Rightarrow> dosmem \<Rightarrow> 'd \<Rightarrow> (DPMI_REG \<times> IRQRoutingTable list \<times> dosmem) option \<times> 'd" where
  "routing_table env rmstack dm d =
    (let ops = b_ops env;
         d = b_put env (dm_linearptr dm) (replicate 8 0) d;
         (r, d) = bios_call env rmstack (reg_zero\<lparr>r_eax := 0xB10E, r_ebx := 0, r_es := dm_segment dm, r_edi := 0\<rparr>) d;
         buf = dosget env (dm_linearptr dm) 8 d
     in if reg_ah r = PCI_BUFFER_SMALL then
          (if get16 buf 0 = 0 then (None, snd (pds_dpmi_dos_freemem ops rmstack d))
           else let (ok, dm, d) = pds_dpmi_dos_allocmem ops dm (8 + ucast (get16 buf 0)) d in
             if \<not> ok then (None, snd (pds_dpmi_dos_freemem ops rmstack d))
             else routing_data env rmstack dm buf r d)
        else (None, snd (pds_dpmi_dos_freemem ops dm (snd (pds_dpmi_dos_freemem ops rmstack d)))))"

section \<open>Choosing an interrupt\<close>

definition mouseIRQ :: u16 where "mouseIRQ = push_bit 12 1"
definition ATAIRQ :: u16 where "ATAIRQ = push_bit 15 1 OR push_bit 14 1"

definition prefer_irqs :: "u16 \<Rightarrow> u16 \<Rightarrow> u16" where
  "prefer_irqs m dedicated =
    (let m = (if m AND dedicated \<noteq> 0 then m AND dedicated else m);
         m = (if m AND NOT ATAIRQ \<noteq> 0 then m AND NOT ATAIRQ else m)
     in if m AND NOT mouseIRQ \<noteq> 0 then m AND NOT mouseIRQ else m)"

function highest_irq :: "u16 \<Rightarrow> u8 \<Rightarrow> u8" where
  "highest_irq m irq = (if m \<noteq> 0 then highest_irq (drop_bit 1 m) (irq + 1) else irq)"
  by pat_completeness auto

lemma drop_bit1_less: "m \<noteq> 0 \<Longrightarrow> unat (drop_bit 1 (m :: u16)) < unat m"
  by (simp add: drop_bit_eq_div unat_div word_neq_0_conv word_less_nat_alt)

termination highest_irq
  by (relation "measure (\<lambda>(m, irq). unat m)") (simp_all add: drop_bit1_less [simplified])

declare highest_irq.simps [simp del]

text \<open>The functions of a device: the interrupt line of one that uses pin \<open>j\<close>.\<close>

definition route_key :: "IRQRoutingTable \<Rightarrow> u8 \<Rightarrow> pci_config" where
  "route_key t f = pci_config_zero\<lparr>bBus := rt_bus t, bDev := drop_bit 3 (rt_dev t), bFunc := f\<rparr>"

fun find_func :: "'d pci_io \<Rightarrow> IRQRoutingTable \<Rightarrow> nat \<Rightarrow> u8 list \<Rightarrow> u8 \<Rightarrow> 'd \<Rightarrow> (u8 \<times> 'd) res" where
  "find_func io t j [] linked d = Inr (linked, d)"
| "find_func io t j (f # fs) linked d =
    (if linked \<noteq> 0xFF then Inr (linked, d)
     else let (intpin, d) = pcibios_ReadConfig_Byte io (route_key t f) PCIR_INTR_PIN d in
       if uint intpin - 1 = int j then
         (let (linked, d) = pcibios_ReadConfig_Byte io (route_key t f) PCIR_INTR_LN d in
          bindE (if linked = 0xFF then Inr ()
             else bindE (shl1 (uint linked)) (\<lambda>b. guardE Assert_failed (b AND ucast (snd (rt_intpins t ! j)) \<noteq> 0))) (\<lambda>_.
          find_func io t j fs linked d))
       else find_func io t j fs linked d)"

fun find_pin :: "'d pci_io \<Rightarrow> IRQRoutingTable \<Rightarrow> u8 \<Rightarrow> nat list \<Rightarrow> u16 \<times> u8 \<times> 'd \<Rightarrow> (u16 \<times> u8 \<times> 'd) res" where
  "find_pin io t link [] s = Inr s"
| "find_pin io t link (j # js) (m, linked, d) =
    (if \<not> (linked = 0xFF \<and> m \<noteq> 0) then Inr (m, linked, d)
     else if fst (rt_intpins t ! j) \<noteq> link then find_pin io t link js (m, linked, d)
     else let m = m AND snd (rt_intpins t ! j) in
       if m = 0 then Inr (m, linked, d)
       else bindE (find_func io t j (map of_nat [0..<8]) linked d) (\<lambda>(linked, d). find_pin io t link js (m, linked, d)))"

fun find_linked :: "'d pci_io \<Rightarrow> IRQRoutingTable list \<Rightarrow> u8 \<Rightarrow> u16 \<times> u8 \<times> 'd \<Rightarrow> (u16 \<times> u8 \<times> 'd) res" where
  "find_linked io [] link s = Inr s"
| "find_linked io (t # ts) link s =
    (if fst s = 0 then Inr s
     else bindE (find_pin io t link [0..<4] s) (\<lambda>s. if fst (snd s) \<noteq> 0xFF then Inr s else find_linked io ts link s))"

text \<open>After the interrupt has been routed, its number is stored for every function on the same link.\<close>

fun store_func :: "'d pci_io \<Rightarrow> IRQRoutingTable \<Rightarrow> nat \<Rightarrow> u8 \<Rightarrow> u8 list \<Rightarrow> 'd \<Rightarrow> 'd res" where
  "store_func io t j irq [] d = Inr d"
| "store_func io t j irq (f # fs) d =
    (let (intpin, d) = pcibios_ReadConfig_Byte io (route_key t f) PCIR_INTR_PIN d in
     if uint intpin - 1 = int j then
       (let (ln, d) = pcibios_ReadConfig_Byte io (route_key t f) PCIR_INTR_LN d in
        bindE (guardE Assert_failed (ln = 0xFF)) (\<lambda>_.
        store_func io t j irq fs (pcibios_WriteConfig_Byte io (route_key t f) PCIR_INTR_LN irq d)))
     else store_func io t j irq fs d)"

fun store_pin :: "'d pci_io \<Rightarrow> IRQRoutingTable \<Rightarrow> u8 \<Rightarrow> u16 \<Rightarrow> u8 \<Rightarrow> nat list \<Rightarrow> 'd \<Rightarrow> 'd res" where
  "store_pin io t link irqmask irq [] d = Inr d"
| "store_pin io t link irqmask irq (j # js) d =
    (if fst (rt_intpins t ! j) \<noteq> link \<or> snd (rt_intpins t ! j) AND irqmask = 0 then store_pin io t link irqmask irq js d
     else bindE (store_func io t j irq (map of_nat [0..<8]) d) (store_pin io t link irqmask irq js))"

fun store_lines :: "'d pci_io \<Rightarrow> IRQRoutingTable list \<Rightarrow> u8 \<Rightarrow> u16 \<Rightarrow> u8 \<Rightarrow> 'd \<Rightarrow> 'd res" where
  "store_lines io [] link irqmask irq d = Inr d"
| "store_lines io (t # ts) link irqmask irq d =
    bindE (store_pin io t link irqmask irq [0..<4] d) (store_lines io ts link irqmask irq)"

definition own_route :: "pci_config \<Rightarrow> u8 \<Rightarrow> IRQRoutingTable list \<Rightarrow> u8 \<times> u16" where
  "own_route key pin table =
    (case find (\<lambda>t. rt_bus t = bBus key \<and> drop_bit 3 (rt_dev t) = bDev key) table of
       Some t \<Rightarrow> rt_intpins t ! (unat pin - 1)
     | None \<Rightarrow> (0, 0))"

text \<open>No other device shares the line: the interrupt is masked and the BIOS is asked to route it.\<close>

definition route_irq :: "'d bios_env \<Rightarrow> pci_config \<Rightarrow> u8 \<Rightarrow> DPMI_REG \<Rightarrow> IRQRoutingTable list \<Rightarrow> dosmem \<Rightarrow> u8 \<Rightarrow> u16 \<Rightarrow> 'd \<Rightarrow> (u8 \<times> 'd) res" where
  "route_irq env key pin r table rmstack link m d =
    (let irq = highest_irq (prefer_irqs m (reg_bx r)) 0xFF in
     bindE (guardE Assert_failed (2 < irq \<and> irq \<le> 15)) (\<lambda>_.
     let (msk, d) = PIC_GetIRQMask (b_io env) d in
     bindE (PIC_MaskIRQ (b_io env) irq d) (\<lambda>d.
     let (r, d) = bios_call env rmstack (reg_zero\<lparr>r_eax := 0xB10F,
            r_ecx := push_bit 8 (ucast irq) OR (0xA + ucast pin - 1),
            r_ebx := push_bit 8 (ucast (bBus key)) OR (push_bit 3 (ucast (bDev key)) AND 0xFF) OR (ucast (bFunc key) AND 0x7)\<rparr>) d
     in if reg_ah r = PCI_SUCCESSFUL then
          bindE (store_lines (b_pci env) table link (push_bit (unat irq) 1) irq d) (\<lambda>d. Inr (irq, d))
        else Inr (0xFF, PIC_SetIRQMask (b_io env) msk d))))"

text \<open>Conflicting tables: only the register of the device is set.\<close>

definition conflict_irq :: "'d bios_env \<Rightarrow> pci_config \<Rightarrow> DPMI_REG \<Rightarrow> u16 \<Rightarrow> 'd \<Rightarrow> (u8 \<times> 'd) res" where
  "conflict_irq env key r m d =
    (let irq = highest_irq (prefer_irqs m (reg_bx r)) 0xFF in
     bindE (guardE Assert_failed (2 < irq \<and> irq \<le> 15)) (\<lambda>_.
     Inr (irq, pcibios_WriteConfig_Byte (b_pci env) key PCIR_INTR_LN irq d)))"

definition assign_routed :: "'d bios_env \<Rightarrow> pci_config \<Rightarrow> u8 \<Rightarrow> DPMI_REG \<Rightarrow> IRQRoutingTable list \<Rightarrow> dosmem \<Rightarrow> 'd \<Rightarrow> (u8 \<times> 'd) res" where
  "assign_routed env key pin r table rmstack d =
    (let (link, m) = own_route key pin table; originalmap = m in
     bindE (guardE Assert_failed (m \<noteq> 0 \<and> link \<noteq> 0)) (\<lambda>_.
     bindE (find_linked (b_pci env) table link (m, 0xFF, d)) (\<lambda>(m, irq, d).
     if irq \<noteq> 0xFF then Inr (irq, pcibios_WriteConfig_Byte (b_pci env) key PCIR_INTR_LN irq d)
     else if m \<noteq> 0 then route_irq env key pin r table rmstack link m d
     else if originalmap \<noteq> 0 then conflict_irq env key r originalmap d
     else Inr (irq, d))))"

definition pcibios_AssignIRQ :: "'d bios_env \<Rightarrow> pci_config \<Rightarrow> 'd \<Rightarrow> (u8 \<times> 'd) res" where
  "pcibios_AssignIRQ env key d =
    (let ops = b_ops env; (bus, d) = pcibios_GetBus env d in
     if \<not> bus then Inr (0xFF, d)
     else let (pin, d) = pcibios_ReadConfig_Byte (b_pci env) key PCIR_INTR_PIN d in
       if pin > 4 \<or> pin < 1 then Inl Assert_failed
       else let (ok, rmstack, d) = pds_dpmi_dos_allocmem ops dosmem_zero (ucast STACK_SIZE) d in
         if \<not> ok then Inr (0xFF, d)
         else let (ok, dm, d) = pds_dpmi_dos_allocmem ops dosmem_zero 8 d in
           if \<not> ok then Inr (0xFF, snd (pds_dpmi_dos_freemem ops rmstack d))
           else case routing_table env rmstack dm d of
               (None, d) \<Rightarrow> Inr (0xFF, d)
             | (Some (r, table, dm), d) \<Rightarrow>
                 bindE (assign_routed env key pin r table rmstack d) (\<lambda>(irq, d).
                 Inr (irq, snd (pds_dpmi_dos_freemem ops dm (snd (pds_dpmi_dos_freemem ops rmstack d))))))"

section \<open>The choice\<close>

lemma highest_irq_bits:
  "\<exists>n. (\<forall>k. bit m k \<longrightarrow> k < n) \<and> (n \<noteq> 0 \<longrightarrow> bit m (n - 1)) \<and> (m \<noteq> 0 \<longrightarrow> n \<noteq> 0) \<and> highest_irq m irq = irq + of_nat n"
proof (induction m irq rule: highest_irq.induct)
  case (1 m irq)
  show ?case
  proof (cases "m = 0")
    case True
    then show ?thesis by (intro exI [of _ 0]) (simp add: highest_irq.simps)
  next
    case False
    from 1 [OF False] obtain n where n: "\<forall>k. bit (drop_bit 1 m) k \<longrightarrow> k < n" "n \<noteq> 0 \<longrightarrow> bit (drop_bit 1 m) (n - 1)"
      "highest_irq (drop_bit 1 m) (irq + 1) = irq + 1 + of_nat n" "drop_bit 1 m \<noteq> 0 \<longrightarrow> n \<noteq> 0" by blast
    have "k < Suc n" if "bit m k" for k
      using n(1) that by (cases k) (auto simp: bit_drop_bit_eq)
    moreover have "bit m n"
    proof (cases n)
      case 0
      then have z: "drop_bit 1 m = 0" using n(4) by simp
      obtain k where k: "bit m k" using False by (auto simp: bit_eq_iff)
      have n1: "\<not> bit m (Suc j)" for j
      proof -
        have "bit (drop_bit 1 m) j = bit m (Suc j)" by (simp only: bit_drop_bit_eq comp_apply plus_1_eq_Suc)
        moreover have "\<not> bit (drop_bit 1 m) j" unfolding z by simp
        ultimately show ?thesis by blast
      qed
      have "k = 0"
      proof (cases k)
        case (Suc j)
        then show ?thesis using k n1 [of j] by simp
      qed simp
      then show ?thesis using k 0 by simp
    next
      case (Suc j)
      then show ?thesis using n(2) by (simp add: bit_drop_bit_eq)
    qed
    moreover have "highest_irq m irq = irq + of_nat (Suc n)"
      using False n(3) by (simp add: highest_irq.simps [of m irq] add.assoc)
    ultimately show ?thesis by (intro exI [of _ "Suc n"]) simp
  qed
qed

lemma highest_irq_highest:
  assumes "m \<noteq> 0"
  shows "\<exists>n<16. highest_irq m 0xFF = of_nat n \<and> bit m n \<and> (\<forall>k. bit m k \<longrightarrow> k \<le> n)"
proof -
  obtain n where n: "\<forall>k. bit m k \<longrightarrow> k < n" "n \<noteq> 0 \<longrightarrow> bit m (n - 1)" "m \<noteq> 0 \<longrightarrow> n \<noteq> 0" "highest_irq m 0xFF = 0xFF + of_nat n"
    using highest_irq_bits by blast
  then obtain k where k: "n = Suc k" using assms by (cases n) auto
  have "(0xFF :: u8) + of_nat (Suc k) = of_nat k" by simp
  then show ?thesis using n k bit_u16_less [of m k] by (intro exI [of _ k]) (auto simp: less_Suc_eq_le)
qed

lemma prefer_irqs_facts:
  assumes "m \<noteq> 0"
  shows "prefer_irqs m ded \<noteq> 0" "bit (prefer_irqs m ded) n \<Longrightarrow> bit m n"
    "m AND ded \<noteq> 0 \<Longrightarrow> bit (prefer_irqs m ded) n \<Longrightarrow> bit ded n"
  using assms by (auto simp: prefer_irqs_def Let_def bit_and_iff split: if_splits)

lemma bit_ATAIRQ: "bit ATAIRQ n = (n = 14 \<or> n = 15)"
  unfolding ATAIRQ_def bit_or_iff bit_push_bit_iff bit_1_iff by auto

lemma bit_mouseIRQ: "bit mouseIRQ n = (n = 12)"
  unfolding mouseIRQ_def bit_push_bit_iff bit_1_iff by auto

text \<open>The interrupt chosen for a device from the mask of its routing entry is one of the mask. It is one of those
  reserved for PCI if the mask has any; it is not an interrupt of the disks unless the remaining mask has only those,
  and then not the one of the mouse unless only that is left; and it is the highest that is left.\<close>

theorem irq_choice:
  assumes m: "m \<noteq> 0"
  shows "\<exists>n<16. highest_irq (prefer_irqs m ded) 0xFF = of_nat n \<and> bit m n
    \<and> (m AND ded \<noteq> 0 \<longrightarrow> bit ded n)
    \<and> (\<forall>k. bit m k \<and> (m AND ded \<noteq> 0 \<longrightarrow> bit ded k) \<and> k \<notin> {12, 14, 15} \<longrightarrow> n \<notin> {12, 14, 15} \<and> k \<le> n)"
proof -
  let ?p = "prefer_irqs m ded"
  obtain n where n: "n < 16" "highest_irq ?p 0xFF = of_nat n" "bit ?p n" "\<forall>k. bit ?p k \<longrightarrow> k \<le> n"
    using highest_irq_highest [OF prefer_irqs_facts(1) [OF m]] by blast
  define q where "q = (if m AND ded \<noteq> 0 then m AND ded else m)"
  have p: "?p = (let a = (if q AND NOT ATAIRQ \<noteq> 0 then q AND NOT ATAIRQ else q) in if a AND NOT mouseIRQ \<noteq> 0 then a AND NOT mouseIRQ else a)"
    by (simp add: prefer_irqs_def q_def Let_def)
  have "n \<notin> {12, 14, 15} \<and> k \<le> n" if k: "bit m k" "m AND ded \<noteq> 0 \<longrightarrow> bit ded k" "k \<notin> {12, 14, 15}" for k
  proof -
    have qk: "bit q k" using k by (auto simp: q_def bit_and_iff)
    have a: "bit (q AND NOT ATAIRQ) k" using qk k(3) bit_u16_less [OF qk] by (simp add: bit_and_iff bit_not_iff bit_ATAIRQ)
    then have a0: "q AND NOT ATAIRQ \<noteq> 0" by (metis bit_0_eq bot_apply bot_bool_def)
    have b: "bit ((q AND NOT ATAIRQ) AND NOT mouseIRQ) k"
      using a k(3) bit_u16_less [OF qk] by (simp add: bit_and_iff bit_not_iff bit_mouseIRQ)
    then have "(q AND NOT ATAIRQ) AND NOT mouseIRQ \<noteq> 0" by (metis bit_0_eq bot_apply bot_bool_def)
    then have e: "?p = (q AND NOT ATAIRQ) AND NOT mouseIRQ" using p a0 by (simp add: Let_def)
    have "bit ?p k" using b e by simp
    then have "k \<le> n" using n(4) by blast
    moreover have "n \<notin> {12, 14, 15}" using n(3) e by (auto simp: bit_and_iff bit_not_iff bit_ATAIRQ bit_mouseIRQ)
    ultimately show ?thesis by blast
  qed
  then show ?thesis using n prefer_irqs_facts(2,3) [OF m] by blast
qed

theorem irq_choice_witness:
  "\<exists>n<16. highest_irq (prefer_irqs 0xDE00 0x0E00) 0xFF = of_nat n \<and> bit (0xDE00 :: u16) n
    \<and> (0xDE00 AND (0x0E00 :: u16) \<noteq> 0 \<longrightarrow> bit (0x0E00 :: u16) n)
    \<and> (\<forall>k. bit (0xDE00 :: u16) k \<and> (0xDE00 AND (0x0E00 :: u16) \<noteq> 0 \<longrightarrow> bit (0x0E00 :: u16) k) \<and> k \<notin> {12, 14, 15} \<longrightarrow> n \<notin> {12, 14, 15} \<and> k \<le> n)"
  by (rule irq_choice) simp

section \<open>The assignment\<close>

definition key_loc :: "pci_config \<Rightarrow> pci_loc" where "key_loc k = (bBus k, bDev k, bFunc k)"

text \<open>The interrupt registers of all functions, which is what the assignment is about.\<close>

definition irq_regs :: "(u32 \<Rightarrow> u32) \<Rightarrow> pci_loc \<Rightarrow> u8 \<times> u8" where
  "irq_regs c l = (if valid_loc l then (pci_view c l 0x3C, pci_view c l 0x3D) else (0, 0))"

text \<open>Nothing but the accesses to the configuration space changes them: the functions of the BIOS that are used (presence, 0xB101; routing options, 0xB10E;
  routing an interrupt, 0xB10F) leave the registers to the caller, as the specification of the PCI BIOS asks for; the allocation of DOS memory, the
  memory itself and the ports of the interrupt controllers have nothing to do with them.\<close>

definition keeps :: "('d \<Rightarrow> u32 \<Rightarrow> u32) \<Rightarrow> 'd \<Rightarrow> 'd \<Rightarrow> bool" where
  "keeps cfg d d' = (irq_regs (cfg d') = irq_regs (cfg d))"

definition bios_frame :: "'d bios_env \<Rightarrow> ('d \<Rightarrow> u32 \<Rightarrow> u32) \<Rightarrow> bool" where
  "bios_frame env cfg =
    ((\<forall>r d. x_ah r = 0xB1 \<and> x_al r = 0x01 \<longrightarrow> keeps cfg d (snd (b_int386 env PCI_SERVICE r d))) \<and>
     (\<forall>r d. r_eax r \<in> {0xB10E, 0xB10F} \<longrightarrow> keeps cfg d (snd (rm_int (b_ops env) PCI_SERVICE r d))) \<and>
     (\<forall>n d. keeps cfg d (snd (dos_alloc (b_ops env) n d))) \<and> (\<forall>s d. keeps cfg d (dos_free (b_ops env) s d)) \<and>
     (\<forall>a bs d. keeps cfg d (b_put env a bs d)) \<and> (\<forall>p\<in>{0x20, 0x21, 0xA0, 0xA1}. \<forall>v d. keeps cfg d (io_out (b_io env) p v d)) \<and>
     (\<forall>p\<in>{0x20, 0x21, 0xA0, 0xA1}. \<forall>d. keeps cfg d (snd (io_in (b_io env) p d))))"

lemma keeps_refl [simp]: "keeps cfg d d" by (simp add: keeps_def)
lemma keeps_trans: "keeps cfg a b \<Longrightarrow> keeps cfg b c \<Longrightarrow> keeps cfg a c" by (simp add: keeps_def)
lemma keeps_eq: "cfg b = cfg a \<Longrightarrow> keeps cfg a b" by (simp add: keeps_def)

text \<open>The pin of a function is kept, and its line if it is \<open>irq\<close> already.\<close>

definition stored :: "('d \<Rightarrow> u32 \<Rightarrow> u32) \<Rightarrow> u8 \<Rightarrow> pci_loc \<Rightarrow> 'd \<Rightarrow> 'd \<Rightarrow> bool" where
  "stored cfg irq l d d' = (pci_view (cfg d') l 0x3D = pci_view (cfg d) l 0x3D \<and> (pci_view (cfg d) l 0x3C = irq \<longrightarrow> pci_view (cfg d') l 0x3C = irq))"

lemma stored_refl [simp]: "stored cfg irq l d d" by (simp add: stored_def)
lemma stored_trans: "stored cfg irq l a b \<Longrightarrow> stored cfg irq l b c \<Longrightarrow> stored cfg irq l a c" by (simp add: stored_def)
lemma stored_eq: "cfg b = cfg a \<Longrightarrow> stored cfg irq l a b" by (simp add: stored_def)

text \<open>An interrupt number that was found in a register is in a mask of 16 bits.\<close>

definition irq_ok :: "u8 \<Rightarrow> bool" where "irq_ok i = (i = 0xFF \<or> i \<le> 15)"

lemma irq_in_map:
  assumes "shl1 (uint (i :: u8)) = Inr b" "b AND ucast (m :: u16) \<noteq> 0" shows "i \<le> 15"
proof -
  have i: "uint i < 32" using assms(1) by (metis Inl_Inr_False shl1_out)
  then have b: "b = push_bit (unat i) 1" using assms(1) shl1_in [of "uint i"] by simp
  obtain n where "bit (b AND ucast m) n" using assms(2) by (metis bit_eqI bit_0_eq bot_apply bot_bool_def)
  then have "n = unat i" "bit m n" unfolding b bit_and_iff bit_push_bit_iff bit_1_iff bit_ucast16_u32 by auto
  then have "unat i < 16" using bit_u16_less by auto
  then show ?thesis by (simp add: word_le_nat_alt)
qed

lemma ReadConfig_view:
  assumes laws: "pci_laws io sel cfg rw wc"
  shows "\<exists>g. pcibios_ReadConfig_Byte io k a d = (pci_view (cfg d) (key_loc k) (ucast a), g) \<and> cfg g = cfg d"
  using ReadByte_view [OF laws] by (simp add: pcibios_ReadConfig_Byte_def key_loc_def)

lemma find_func_keeps:
  assumes laws: "pci_laws io sel cfg rw wc"
  shows "irq_ok linked \<Longrightarrow> find_func io t j fs linked d = Inr (l', d') \<Longrightarrow> cfg d' = cfg d \<and> irq_ok l'"
proof (induction fs arbitrary: linked d)
  case (Cons f fs)
  obtain g where g: "pcibios_ReadConfig_Byte io (route_key t f) PCIR_INTR_PIN d = (pci_view (cfg d) (key_loc (route_key t f)) 0x3D, g)" "cfg g = cfg d"
    using ReadConfig_view [OF laws, of "route_key t f" PCIR_INTR_PIN d] by auto
  obtain g2 where g2: "pcibios_ReadConfig_Byte io (route_key t f) PCIR_INTR_LN g = (pci_view (cfg g) (key_loc (route_key t f)) 0x3C, g2)" "cfg g2 = cfg g"
    using ReadConfig_view [OF laws, of "route_key t f" PCIR_INTR_LN g] by auto
  define ln where "ln = pci_view (cfg g) (key_loc (route_key t f)) 0x3C"
  show ?case
  proof (cases "linked = 0xFF \<and> uint (pci_view (cfg d) (key_loc (route_key t f)) 0x3D) - 1 = int j")
    case False
    then show ?thesis using Cons g by (auto split: if_splits)
  next
    case True
    then have e: "bindE (if ln = 0xFF then Inr () else bindE (shl1 (uint ln)) (\<lambda>b. guardE Assert_failed (b AND ucast (snd (rt_intpins t ! j)) \<noteq> 0)))
        (\<lambda>_. find_func io t j fs ln g2) = Inr (l', d')"
      using Cons.prems(2) g g2 by (cases "pci_view (cfg d) (key_loc (route_key t f)) 0x3C = 0xFF") (auto simp: ln_def)
    then have "irq_ok ln" using irq_in_map [of ln] by (auto simp: irq_ok_def split: if_splits)
    moreover have "find_func io t j fs ln g2 = Inr (l', d')" using e by (auto split: if_splits)
    ultimately show ?thesis using Cons.IH g g2 by metis
  qed
qed auto

lemma find_pin_keeps:
  assumes laws: "pci_laws io sel cfg rw wc"
  shows "irq_ok linked \<Longrightarrow> find_pin io t link js (m, linked, d) = Inr (m', l', d') \<Longrightarrow> cfg d' = cfg d \<and> irq_ok l' \<and> (\<forall>n. bit m' n \<longrightarrow> bit m n)"
proof (induction js arbitrary: m linked d)
  case (Cons j js)
  show ?case
  proof (cases "linked = 0xFF \<and> m \<noteq> 0 \<and> fst (rt_intpins t ! j) = link")
    case False
    then show ?thesis using Cons by (auto split: if_splits)
  next
    case True
    define n where "n = m AND snd (rt_intpins t ! j)"
    show ?thesis
    proof (cases "n = 0")
      case z: True
      then show ?thesis using True Cons.prems by (auto simp: n_def)
    next
      case False
      then obtain l2 d2 where s: "find_func io t j (map of_nat [0..<8]) linked d = Inr (l2, d2)" "find_pin io t link js (n, l2, d2) = Inr (m', l', d')"
        using True Cons.prems(2) unfolding n_def find_pin.simps Let_def by (auto simp del: upt_rec_numeral upt.simps)
      have "cfg d2 = cfg d" "irq_ok l2" using find_func_keeps [OF laws, OF Cons.prems(1) s(1)] by simp_all
      then show ?thesis using Cons.IH [OF _ s(2)] by (auto simp: n_def bit_and_iff)
    qed
  qed
qed auto

lemma find_linked_keeps:
  assumes laws: "pci_laws io sel cfg rw wc"
  shows "irq_ok linked \<Longrightarrow> find_linked io ts link (m, linked, d) = Inr (m', l', d') \<Longrightarrow> cfg d' = cfg d \<and> irq_ok l' \<and> (\<forall>n. bit m' n \<longrightarrow> bit m n)"
proof (induction ts arbitrary: m linked d)
  case (Cons t ts)
  show ?case
  proof (cases "m = 0")
    case True
    then show ?thesis using Cons.prems by auto
  next
    case False
    then obtain m2 l2 d2 where s: "find_pin io t link [0..<4] (m, linked, d) = Inr (m2, l2, d2)"
        "(if l2 \<noteq> 0xFF then Inr (m2, l2, d2) else find_linked io ts link (m2, l2, d2)) = Inr (m', l', d')"
      using Cons.prems(2) unfolding find_linked.simps by (auto simp del: upt_rec_numeral upt.simps)
    have "cfg d2 = cfg d" "irq_ok l2" "\<forall>n. bit m2 n \<longrightarrow> bit m n" using find_pin_keeps [OF laws, OF Cons.prems(1) s(1)] by simp_all
    then show ?thesis using Cons.IH [of l2 m2 d2] s(2) by (auto split: if_splits)
  qed
qed auto

text \<open>The interrupt line register of a function can be written, its interrupt pin register cannot, as the PCI specification has it.\<close>

definition line_regs :: "(u32 \<Rightarrow> u32) \<Rightarrow> (u32 \<Rightarrow> u32) \<Rightarrow> pci_loc \<Rightarrow> bool" where
  "line_regs rw wc l = (pci_view rw l 0x3C = 0xFF \<and> pci_view rw l 0x3D = 0 \<and> pci_view wc l 0x3D = 0)"

lemma WriteConfig_regs:
  assumes laws: "pci_laws io sel cfg rw wc" and "valid_loc (key_loc k)" "valid_loc l" and lr: "line_regs rw wc l"
  shows "pci_view (cfg (pcibios_WriteConfig_Byte io k PCIR_INTR_LN v d)) l 0x3C = (if l = key_loc k then v else pci_view (cfg d) l 0x3C)"
    "pci_view (cfg (pcibios_WriteConfig_Byte io k PCIR_INTR_LN v d)) l 0x3D = pci_view (cfg d) l 0x3D"
proof -
  let ?c = "cfg (pcibios_WriteConfig_Byte io k PCIR_INTR_LN v d)"
  have s: "pci_view ?c l x = (if l = key_loc k \<and> touched 0x3C (Suc 0) x
       then reg_write (pci_view rw (key_loc k) x) (pci_view wc (key_loc k) x) (pci_view (cfg d) (key_loc k) x) (put_bytes 0x3C [v] (pci_view (cfg d) (key_loc k)) x)
       else pci_view (cfg d) l x)" for x
    using WriteByte_stored [OF laws, of "bBus k" "bDev k" "bFunc k" d "0x3C" v, unfolded pci_stored_def, rule_format, of l x] assms(2,3)
    by (simp add: pcibios_WriteConfig_Byte_def key_loc_def)
  have t: "touched 0x3C (Suc 0) 0x3C" by (rule written_touched) simp
  have ff: "reg_write 0xFF w old v = v" "reg_write 0 0 old v = old" for w old v :: u8
  proof -
    have "(0xFF :: u8) = - 1" by simp
    then show "reg_write 0xFF w old v = v" by (simp only: reg_write_def bit.conj_one_right bit.compl_one bit.conj_zero_right bit.conj_zero_left bit.disj_zero_right)
  qed (simp add: reg_write_def)
  show "pci_view ?c l 0x3C = (if l = key_loc k then v else pci_view (cfg d) l 0x3C)" "pci_view ?c l 0x3D = pci_view (cfg d) l 0x3D"
    using lr unfolding line_regs_def by (auto simp: s t ff)
qed

lemma valid_route: "f < 8 \<Longrightarrow> valid_loc (key_loc (route_key t f))"
proof -
  have "unat (drop_bit 3 (rt_dev t)) = unat (rt_dev t) div 8" by (simp add: drop_bit_eq_div unat_div)
  then have "drop_bit 3 (rt_dev t) < 32" using unat_u8_less [of "rt_dev t"] by (simp add: word_less_nat_alt)
  then show "f < 8 \<Longrightarrow> ?thesis" by (simp add: valid_loc_def key_loc_def route_key_def)
qed

lemma store_func_stored:
  assumes laws: "pci_laws io sel cfg rw wc" and lr: "line_regs rw wc l"
  shows "store_func io t j irq fs d = Inr d' \<Longrightarrow> \<forall>f\<in>set fs. f < 8 \<Longrightarrow> valid_loc l \<Longrightarrow> stored cfg irq l d d'
    \<and> (\<forall>f\<in>set fs. key_loc (route_key t f) = l \<longrightarrow> uint (pci_view (cfg d) l 0x3D) - 1 = int j \<longrightarrow> pci_view (cfg d') l 0x3C = irq)"
proof (induction fs arbitrary: d)
  case (Cons f fs)
  let ?l = "key_loc (route_key t f)"
  obtain g where g: "pcibios_ReadConfig_Byte io (route_key t f) PCIR_INTR_PIN d = (pci_view (cfg d) ?l 0x3D, g)" "cfg g = cfg d"
    using ReadConfig_view [OF laws, of "route_key t f" PCIR_INTR_PIN d] by auto
  obtain g2 where g2: "pcibios_ReadConfig_Byte io (route_key t f) PCIR_INTR_LN g = (pci_view (cfg g) ?l 0x3C, g2)" "cfg g2 = cfg g"
    using ReadConfig_view [OF laws, of "route_key t f" PCIR_INTR_LN g] by auto
  show ?case
  proof (cases "uint (pci_view (cfg d) ?l 0x3D) - 1 = int j")
    case False
    then have r: "store_func io t j irq fs g = Inr d'" using Cons.prems(1) g by simp
    then show ?thesis using Cons.IH [OF r] Cons.prems(2,3) False g(2) by (auto simp: stored_def)
  next
    case True
    define d1 where "d1 = pcibios_WriteConfig_Byte io (route_key t f) PCIR_INTR_LN irq g2"
    have r: "store_func io t j irq fs d1 = Inr d'" using Cons.prems(1) g g2 True by (simp add: d1_def)
    have v: "valid_loc ?l" using Cons.prems(2) by (simp add: valid_route)
    have w: "pci_view (cfg d1) l 0x3C = (if l = ?l then irq else pci_view (cfg d) l 0x3C)" "pci_view (cfg d1) l 0x3D = pci_view (cfg d) l 0x3D"
      using WriteConfig_regs [OF laws, OF v Cons.prems(3) lr, of irq g2] g g2 by (simp_all add: d1_def)
    then show ?thesis using Cons.IH [OF r _ Cons.prems(3)] Cons.prems(2) by (auto simp: stored_def)
  qed
qed simp

lemma store_pin_stored:
  assumes laws: "pci_laws io sel cfg rw wc" and lr: "line_regs rw wc l"
  shows "store_pin io t link irqmask irq js d = Inr d' \<Longrightarrow> valid_loc l \<Longrightarrow> stored cfg irq l d d'
    \<and> (\<forall>j\<in>set js. fst (rt_intpins t ! j) = link \<longrightarrow> snd (rt_intpins t ! j) AND irqmask \<noteq> 0 \<longrightarrow>
        (\<exists>f<8. key_loc (route_key t f) = l) \<longrightarrow> uint (pci_view (cfg d) l 0x3D) - 1 = int j \<longrightarrow> pci_view (cfg d') l 0x3C = irq)"
proof (induction js arbitrary: d)
  case (Cons j js)
  show ?case
  proof (cases "fst (rt_intpins t ! j) \<noteq> link \<or> snd (rt_intpins t ! j) AND irqmask = 0")
    case True
    then show ?thesis using Cons by auto
  next
    case False
    then obtain d1 where s: "store_func io t j irq (map of_nat [0..<8]) d = Inr d1" "store_pin io t link irqmask irq js d1 = Inr d'"
      using Cons.prems(1) unfolding store_pin.simps by (auto simp del: upt_rec_numeral upt.simps)
    have f8: "f \<in> set (map of_nat [0..<8]) \<longleftrightarrow> f < (8 :: u8)" for f
      using u8_below [of f 8] by (auto simp: word_less_nat_alt unat_of_nat take_bit_nat_eq_self simp del: upt_rec_numeral)
    have "stored cfg irq l d d1" "\<forall>f<8. key_loc (route_key t f) = l \<longrightarrow> uint (pci_view (cfg d) l 0x3D) - 1 = int j \<longrightarrow> pci_view (cfg d1) l 0x3C = irq"
      using store_func_stored [OF laws lr s(1) _ Cons.prems(2)] f8 by blast+
    then show ?thesis using Cons.IH [OF s(2) Cons.prems(2)] by (auto simp: stored_def)
  qed
qed simp

lemma store_lines_stored:
  assumes laws: "pci_laws io sel cfg rw wc" and lr: "line_regs rw wc l"
  shows "store_lines io ts link irqmask irq d = Inr d' \<Longrightarrow> valid_loc l \<Longrightarrow> stored cfg irq l d d'
    \<and> (\<forall>t\<in>set ts. \<forall>j<4. fst (rt_intpins t ! j) = link \<longrightarrow> snd (rt_intpins t ! j) AND irqmask \<noteq> 0 \<longrightarrow>
        (\<exists>f<8. key_loc (route_key t f) = l) \<longrightarrow> uint (pci_view (cfg d) l 0x3D) - 1 = int j \<longrightarrow> pci_view (cfg d') l 0x3C = irq)"
proof (induction ts arbitrary: d)
  case (Cons t ts)
  then obtain d1 where s: "store_pin io t link irqmask irq [0..<4] d = Inr d1" "store_lines io ts link irqmask irq d1 = Inr d'"
    unfolding store_lines.simps by (auto simp del: upt_rec_numeral upt.simps)
  have j4: "j \<in> set [0..<4] \<longleftrightarrow> j < 4" for j :: nat by (simp del: upt_rec_numeral upt.simps)
  have "stored cfg irq l d d1" and n: "j < 4 \<Longrightarrow> fst (rt_intpins t ! j) = link \<Longrightarrow> snd (rt_intpins t ! j) AND irqmask \<noteq> 0 \<Longrightarrow>
        (\<exists>f<8. key_loc (route_key t f) = l) \<Longrightarrow> uint (pci_view (cfg d) l 0x3D) - 1 = int j \<Longrightarrow> pci_view (cfg d1) l 0x3C = irq" for j
    using store_pin_stored [OF laws lr s(1) Cons.prems(2)] j4 by blast+
  then show ?case using Cons.IH [OF s(2) Cons.prems(2)] by (auto simp: stored_def)
qed simp

lemma keeps_stored: "keeps cfg d d' \<Longrightarrow> valid_loc l \<Longrightarrow> stored cfg irq l d d'"
proof -
  assume k: "keeps cfg d d'" and v: "valid_loc l"
  have "irq_regs (cfg d') l = irq_regs (cfg d) l" using k by (simp add: keeps_def)
  then show ?thesis using v by (simp add: stored_def irq_regs_def)
qed

lemma bios_frameD:
  assumes "bios_frame env cfg"
  shows "x_ah x = 0xB1 \<Longrightarrow> x_al x = 0x01 \<Longrightarrow> keeps cfg d (snd (b_int386 env PCI_SERVICE x d))"
    "r_eax r \<in> {0xB10E, 0xB10F} \<Longrightarrow> keeps cfg d (snd (rm_int (b_ops env) PCI_SERVICE r d))" "keeps cfg d (snd (dos_alloc (b_ops env) n d))"
    "keeps cfg d (dos_free (b_ops env) sl d)" "keeps cfg d (b_put env a bs d)" "p \<in> {0x20, 0x21, 0xA0, 0xA1} \<Longrightarrow> keeps cfg d (io_out (b_io env) p v d)"
    "p \<in> {0x20, 0x21, 0xA0, 0xA1} \<Longrightarrow> keeps cfg d (snd (io_in (b_io env) p d))"
  using assms unfolding bios_frame_def by blast+

lemma freemem_keeps: "bios_frame env cfg \<Longrightarrow> keeps cfg d (snd (pds_dpmi_dos_freemem (b_ops env) dm d))"
  by (simp add: pds_dpmi_dos_freemem_def bios_frameD)

lemma allocmem_keeps:
  assumes fr: "bios_frame env cfg" and e: "pds_dpmi_dos_allocmem (b_ops env) dm n d = (ok, dm', d')" shows "keeps cfg d d'"
proof -
  define d1 where "d1 = (if dm_selector dm \<noteq> 0 then snd (pds_dpmi_dos_freemem (b_ops env) dm d) else d)"
  have "keeps cfg d d1" by (simp add: d1_def freemem_keeps [OF fr])
  moreover have "d' = snd (dos_alloc (b_ops env) (ucast (drop_bit 4 (n + 15))) d1)"
    using e by (auto simp: pds_dpmi_dos_allocmem_def d1_def Let_def split: prod.splits if_splits)
  ultimately show ?thesis using bios_frameD(3) [OF fr] keeps_trans by metis
qed

lemma bios_call_keeps: "bios_frame env cfg \<Longrightarrow> r_eax r \<in> {0xB10E, 0xB10F} \<Longrightarrow> keeps cfg d (snd (bios_call env rmstack r d))"
  by (simp add: bios_call_def bios_frameD)

lemma io_in_keeps: "bios_frame env cfg \<Longrightarrow> p \<in> {0x20, 0x21, 0xA0, 0xA1} \<Longrightarrow> io_in (b_io env) p d = (v, d') \<Longrightarrow> keeps cfg d d'"
  using bios_frameD(7) [of env cfg p d] by simp

lemma GetIRQMask_keeps: "bios_frame env cfg \<Longrightarrow> keeps cfg d (snd (PIC_GetIRQMask (b_io env) d))"
proof -
  assume f: "bios_frame env cfg"
  define d1 where "d1 = snd (io_in (b_io env) 0xA1 d)"
  have "keeps cfg d d1" "keeps cfg d1 (snd (io_in (b_io env) 0x21 d1))"
    using bios_frameD(7) [OF f, of "0xA1" d] bios_frameD(7) [OF f, of "0x21" d1] by (simp_all add: d1_def)
  moreover have "snd (PIC_GetIRQMask (b_io env) d) = snd (io_in (b_io env) 0x21 d1)"
    by (simp add: PIC_GetIRQMask_def UntrappedIO_IN_def Let_def split_beta d1_def)
  ultimately show ?thesis using keeps_trans by simp
qed

lemma SetIRQMask_keeps: "bios_frame env cfg \<Longrightarrow> keeps cfg d (PIC_SetIRQMask (b_io env) v d)"
proof -
  assume f: "bios_frame env cfg"
  define d1 where "d1 = io_out (b_io env) 0x21 (lo8 v) d"
  have "keeps cfg d d1" "keeps cfg d1 (io_out (b_io env) 0xA1 (hi8 v) d1)"
    using bios_frameD(6) [OF f, of "0x21" d "lo8 v"] bios_frameD(6) [OF f, of "0xA1" d1 "hi8 v"] by (simp_all add: d1_def)
  moreover have "PIC_SetIRQMask (b_io env) v d = io_out (b_io env) 0xA1 (hi8 v) d1"
    by (simp add: PIC_SetIRQMask_def UntrappedIO_OUT_def Let_def d1_def)
  ultimately show ?thesis using keeps_trans by simp
qed

lemma MaskIRQ_keeps: "bios_frame env cfg \<Longrightarrow> PIC_MaskIRQ (b_io env) i d = Inr d' \<Longrightarrow> keeps cfg d d'"
proof -
  assume f: "bios_frame env cfg" and m: "PIC_MaskIRQ (b_io env) i d = Inr d'"
  obtain p w where p: "p \<in> {0x21, 0xA1}" "d' = io_out (b_io env) p w (snd (io_in (b_io env) p d))"
    using m unfolding PIC_MaskIRQ_def UntrappedIO_OUT_def UntrappedIO_IN_def Let_def
    by (auto simp: bindE_eq_Inr split_beta split: if_splits)
  have "keeps cfg d (snd (io_in (b_io env) p d))" "keeps cfg (snd (io_in (b_io env) p d)) d'"
    using bios_frameD(6,7) [OF f] p by auto
  then show ?thesis by (rule keeps_trans)
qed

lemma routing_data_keeps:
  assumes fr: "bios_frame env cfg" and e: "routing_data env rmstack dm buf r d = (Some (r', table, dm'), d')"
  shows "keeps cfg d d'"
proof -
  define d4 where "d4 = b_put env (dm_linearptr dm) (take 2 buf @ [8, 0, lo8 (dm_segment dm), hi8 (dm_segment dm)] @ drop 6 buf) d"
  obtain r5 d5 where i: "rm_int (b_ops env) PCI_SERVICE (r\<lparr>r_eax := 0xB10E, r_ebx := 0, r_es := dm_segment dm\<rparr>) d4 = (r5, d5)"
    by (rule prod.exhaust)
  have "b_malloc env (unat (get16 buf 0))"
    using e by (cases "b_malloc env (unat (get16 buf 0))") (simp_all only: routing_data_def Let_def not_False_eq_True if_True prod.inject option.distinct simp_thms)
  then have "(if reg_ah r5 = 0 then (Some (r5, parse_table (dosget env (dm_linearptr dm + 8) (unat (get16 buf 0)) d5) (unat (get16 buf 0) div 16), dm), d5)
      else (None, snd (pds_dpmi_dos_freemem (b_ops env) dm (snd (pds_dpmi_dos_freemem (b_ops env) rmstack d5))))) = (Some (r', table, dm'), d')"
    using e unfolding routing_data_def Let_def d4_def [symmetric] i prod.case by (simp only: not_True_eq_False if_False)
  then have "d' = d5" by (cases "reg_ah r5 = 0") (simp_all only: if_True if_False prod.inject option.distinct simp_thms)
  moreover have "keeps cfg d d4" unfolding d4_def by (rule bios_frameD(5) [OF fr])
  moreover have "keeps cfg d4 d5" using bios_frameD(2) [OF fr, of "r\<lparr>r_eax := 0xB10E, r_ebx := 0, r_es := dm_segment dm\<rparr>" d4] i by simp
  ultimately show ?thesis by (metis keeps_trans)
qed

lemma routing_table_keeps:
  assumes fr: "bios_frame env cfg" and e: "routing_table env rmstack dm d = (Some (r, table, dm'), d')"
  shows "keeps cfg d d'"
proof -
  define d1 where "d1 = b_put env (dm_linearptr dm) (replicate 8 0) d"
  obtain r2 d2 where c: "bios_call env rmstack (reg_zero\<lparr>r_eax := 0xB10E, r_ebx := 0, r_es := dm_segment dm, r_edi := 0\<rparr>) d1 = (r2, d2)"
    by (rule prod.exhaust)
  define buf where "buf = dosget env (dm_linearptr dm) 8 d2"
  obtain ok dm3 d3 where a: "pds_dpmi_dos_allocmem (b_ops env) dm (8 + ucast (get16 buf 0)) d2 = (ok, dm3, d3)"
    by (rule prod_cases3)
  have "routing_data env rmstack dm3 buf r2 d3 = (Some (r, table, dm'), d')"
    using e unfolding routing_table_def Let_def d1_def [symmetric] c prod.case buf_def [symmetric] a
    by (cases "reg_ah r2 = 0x89"; cases "get16 buf 0 = 0"; cases ok)
      (simp_all only: if_True if_False prod.inject option.distinct simp_thms)
  then have "keeps cfg d3 d'" by (rule routing_data_keeps [OF fr])
  moreover have "keeps cfg d d1" unfolding d1_def by (rule bios_frameD(5) [OF fr])
  moreover have "keeps cfg d1 d2" using bios_call_keeps [OF fr, of "reg_zero\<lparr>r_eax := 0xB10E, r_ebx := 0, r_es := dm_segment dm, r_edi := 0\<rparr>" d1 rmstack] c by simp
  moreover have "keeps cfg d2 d3" by (rule allocmem_keeps [OF fr a])
  ultimately show ?thesis by (metis keeps_trans)
qed

lemma route_irq_line:
  assumes fr: "bios_frame env cfg" and laws: "pci_laws (b_pci env) sel cfg rw wc" and l: "valid_loc l" and lr: "line_regs rw wc l"
    and t: "t \<in> set table" "j < 4" "fst (rt_intpins t ! j) = link" "f < 8" "key_loc (route_key t f) = l"
    and pin: "uint (pci_view (cfg d) l 0x3D) - 1 = int j" and m: "m \<noteq> 0" "\<And>n. bit m n \<Longrightarrow> bit (snd (rt_intpins t ! j)) n"
    and run: "route_irq env key pn r table rmstack link m d = Inr (irq, d')" and irq: "irq \<noteq> 0xFF"
  shows "irq \<le> 15 \<and> pci_view (cfg d') l 0x3C = irq"
proof -
  define i where "i = highest_irq (prefer_irqs m (reg_bx r)) 0xFF"
  obtain n where n: "n < 16" "i = of_nat n" "bit m n"
    using highest_irq_highest [OF prefer_irqs_facts(1) [OF m(1), of "reg_bx r"]] prefer_irqs_facts(2) [OF m(1), of "reg_bx r"] unfolding i_def by blast
  obtain msk d1 where g: "PIC_GetIRQMask (b_io env) d = (msk, d1)" by (rule prod.exhaust)
  define rr where "rr = reg_zero\<lparr>r_eax := 0xB10F, r_ecx := push_bit 8 (ucast i) OR (0xA + ucast pn - 1),
            r_ebx := push_bit 8 (ucast (bBus key)) OR (push_bit 3 (ucast (bDev key)) AND 0xFF) OR (ucast (bFunc key) AND 0x7)\<rparr>"
  obtain d2 where d2: "2 < i \<and> i \<le> 15" "PIC_MaskIRQ (b_io env) i d1 = Inr d2"
      "(let (r, d) = bios_call env rmstack rr d2 in if reg_ah r = 0 then
          bindE (store_lines (b_pci env) table link (push_bit (unat i) 1) i d) (\<lambda>d. Inr (i, d))
        else Inr (0xFF, PIC_SetIRQMask (b_io env) msk d)) = Inr (irq, d')"
    using run unfolding route_irq_def Let_def g prod.case i_def [symmetric] rr_def [symmetric] by auto
  obtain r3 d3 where c: "bios_call env rmstack rr d2 = (r3, d3)" by (rule prod.exhaust)
  have s: "irq = i" "store_lines (b_pci env) table link (push_bit (unat i) 1) i d3 = Inr d'"
    using d2(3) irq unfolding c Let_def prod.case by (auto split: if_splits)
  have "keeps cfg d d1" using GetIRQMask_keeps [OF fr, of d] g by simp
  moreover have "keeps cfg d1 d2" by (rule MaskIRQ_keeps [OF fr d2(2)])
  moreover have "keeps cfg d2 d3" using bios_call_keeps [OF fr, of rr d2 rmstack] c by (simp add: rr_def)
  ultimately have "keeps cfg d d3" by (metis keeps_trans)
  then have p: "uint (pci_view (cfg d3) l 0x3D) - 1 = int j" using pin keeps_stored [OF _ l, of cfg d d3 0] by (simp add: stored_def)
  have "unat i = n" using n by (simp add: unat_of_nat take_bit_nat_eq_self)
  have "bit (snd (rt_intpins t ! j) AND push_bit (unat i) 1) n"
    unfolding bit_and_iff bit_push_bit_iff bit_1_iff using m(2) [OF n(3)] n(1) \<open>unat i = n\<close> by simp
  then have "snd (rt_intpins t ! j) AND push_bit (unat i) 1 \<noteq> 0" by (metis bit_0_eq bot_apply bot_bool_def)
  then have "pci_view (cfg d') l 0x3C = i"
    using store_lines_stored [OF laws lr s(2) l] t p by blast
  then show ?thesis using d2(1) s(1) by simp
qed

lemma assign_routed_line:
  assumes fr: "bios_frame env cfg" and laws: "pci_laws (b_pci env) sel cfg rw wc" and l: "valid_loc (key_loc key)" and lr: "line_regs rw wc (key_loc key)"
    and pn: "pn = pci_view (cfg d) (key_loc key) 0x3D" "1 \<le> pn" "pn \<le> 4"
    and run: "assign_routed env key pn r table rmstack d = Inr (irq, d')" and irq: "irq \<noteq> 0xFF"
  shows "irq \<le> 15 \<and> pci_view (cfg d') (key_loc key) 0x3C = irq"
proof -
  obtain link m where o: "own_route key pn table = (link, m)" by (rule prod.exhaust)
  obtain m2 i d1 where f: "m \<noteq> 0 \<and> link \<noteq> 0" "find_linked (b_pci env) table link (m, 0xFF, d) = Inr (m2, i, d1)"
    "(if i \<noteq> 0xFF then Inr (i, pcibios_WriteConfig_Byte (b_pci env) key PCIR_INTR_LN i d1)
     else if m2 \<noteq> 0 then route_irq env key pn r table rmstack link m2 d1
     else if m \<noteq> 0 then conflict_irq env key r m d1
     else Inr (i, d1)) = Inr (irq, d')"
    using run unfolding assign_routed_def o Let_def prod.case by auto
  have k: "cfg d1 = cfg d" "irq_ok i" "\<And>n. bit m2 n \<Longrightarrow> bit m n"
    using find_linked_keeps [OF laws _ f(2)] by (simp_all add: irq_ok_def)
  obtain t where t: "find (\<lambda>t. rt_bus t = bBus key \<and> drop_bit 3 (rt_dev t) = bDev key) table = Some t" "rt_intpins t ! (unat pn - 1) = (link, m)"
    using o f(1) by (auto simp: own_route_def split: option.splits)
  have tt: "t \<in> set table" "key_loc (route_key t (bFunc key)) = key_loc key" "bFunc key < 8"
    using t(1) l by (auto simp: find_Some_iff key_loc_def route_key_def valid_loc_def)
  have j: "unat pn - 1 < 4" "uint pn - 1 = int (unat pn - 1)"
    using pn(2,3) by (simp_all add: word_le_nat_alt of_nat_diff)
  consider "i \<noteq> 0xFF" | "i = 0xFF" "m2 \<noteq> 0" | "i = 0xFF" "m2 = 0" by blast
  then show ?thesis
  proof cases
    case 1
    then show ?thesis using f(3) k(2) WriteConfig_regs(1) [OF laws l l lr, of i d1] by (auto simp: irq_ok_def)
  next
    case 2
    then have "route_irq env key pn r table rmstack link m2 d1 = Inr (irq, d')" using f(3) by simp
    have q: "fst (rt_intpins t ! (unat pn - 1)) = link" "snd (rt_intpins t ! (unat pn - 1)) = m" using t(2) by simp_all
    have p: "uint (pci_view (cfg d1) (key_loc key) 0x3D) - 1 = int (unat pn - 1)" using j(2) unfolding k(1) pn(1) .
    show ?thesis
      by (rule route_irq_line [OF fr laws l lr tt(1) j(1) q(1) tt(3,2) p 2(2) _ \<open>route_irq env key pn r table rmstack link m2 d1 = Inr (irq, d')\<close> irq])
        (unfold q(2), rule k(3))
  next
    case 3
    then have "conflict_irq env key r m d1 = Inr (irq, d')" using f(1,3) by simp
    then show ?thesis using WriteConfig_regs(1) [OF laws l l lr, of irq d1] by (auto simp: conflict_irq_def Let_def)
  qed
qed

text \<open>C14: When an interrupt has been assigned to a PCI device (any answer but 0xFF), it is one of the 16 of the interrupt
  controllers and the interrupt line register of the device holds it: whether it is shared with a device on the
  same wire, routed by the BIOS, or set in spite of conflicting
  routing tables. The configuration space answers as the specification has it, the device's interrupt line register can be
  written and its interrupt pin register is read-only, and the calls of the BIOS and of DOS, the memory and the ports of the interrupt controllers do not
  change these two registers of any function.\<close>

theorem assigned_irq_is_set:
  assumes laws: "pci_laws (b_pci env) sel cfg rw wc" and lr: "line_regs rw wc (key_loc key)" and fr: "bios_frame env cfg"
    and l: "valid_loc (key_loc key)" and run: "pcibios_AssignIRQ env key d = Inr (irq, d')"
  shows "irq = 0xFF \<or> irq \<le> 15 \<and> pci_view (cfg d') (key_loc key) 0x3C = irq"
proof (cases "irq = 0xFF")
  case False
  obtain bus d1 where g: "pcibios_GetBus env d = (bus, d1)" by (rule prod.exhaust)
  have k1: "keeps cfg d d1" 
  proof -
    have "d1 = snd (b_int386 env PCI_SERVICE (REGS_zero\<lparr>x_ah := 0xB1, x_al := 0x01, x_cflag := 1\<rparr>) d)"
      using g by (simp add: pcibios_GetBus_def split: prod.splits)
    then show ?thesis using bios_frameD(1) [OF fr] by simp
  qed
  obtain d2 where r: "pcibios_ReadConfig_Byte (b_pci env) key PCIR_INTR_PIN d1 = (pci_view (cfg d1) (key_loc key) 0x3D, d2)" "cfg d2 = cfg d1"
    using ReadConfig_view [OF laws, of key PCIR_INTR_PIN d1] by auto
  define pn where "pn = pci_view (cfg d1) (key_loc key) 0x3D"
  obtain ok rmstack d3 where a: "pds_dpmi_dos_allocmem (b_ops env) dosmem_zero (ucast STACK_SIZE) d2 = (ok, rmstack, d3)" by (rule prod_cases3)
  obtain ok2 dm d4 where a2: "pds_dpmi_dos_allocmem (b_ops env) dosmem_zero 8 d3 = (ok2, dm, d4)" by (rule prod_cases3)
  obtain ro d5 where ro: "routing_table env rmstack dm d4 = (ro, d5)" by (rule prod.exhaust)
  note u = run [unfolded pcibios_AssignIRQ_def Let_def g prod.case r(1) pn_def [symmetric] a a2 ro]
  have b: bus using u False by (auto split: if_splits)
  have pn: "\<not> (pn > 4 \<or> pn < 1)" using u b by (auto split: if_splits)
  obtain rr table dm2 where ro2: "ro = Some (rr, table, dm2)"
    using u False pn b by (cases ro) (auto split: if_splits)
  then obtain d6 where d6: "assign_routed env key pn rr table rmstack d5 = Inr (irq, d6)"
      "d' = snd (pds_dpmi_dos_freemem (b_ops env) dm2 (snd (pds_dpmi_dos_freemem (b_ops env) rmstack d6)))"
    using u False pn b by (auto split: if_splits)
  have "keeps cfg d1 d5"
    using allocmem_keeps [OF fr a] allocmem_keeps [OF fr a2] routing_table_keeps [OF fr ro [unfolded ro2]] keeps_eq [OF r(2)] by (metis keeps_trans)
  then have "pn = pci_view (cfg d5) (key_loc key) 0x3D" using keeps_stored [OF _ l, of cfg d1 d5 0] by (simp add: stored_def pn_def)
  then have "irq \<le> 15 \<and> pci_view (cfg d6) (key_loc key) 0x3C = irq"
    using assign_routed_line [OF fr laws l lr _ _ _ d6(1) False] pn by (simp only: not_less de_Morgan_disj)
  moreover have "keeps cfg d6 d'" unfolding d6(2) by (metis freemem_keeps [OF fr] keeps_trans)
  ultimately show ?thesis using keeps_stored [OF _ l, of cfg d6 d' irq] by (simp add: stored_def)
qed simp

text \<open>A machine whose functions all report pin A and interrupt 5, with a routing table of one entry.\<close>

definition bios_demo :: "((u32 \<times> (u32 \<Rightarrow> u32)) \<times> bool) bios_env" where
  "bios_demo = \<lparr>b_int386 = (\<lambda>i r d. (r\<lparr>x_cflag := 0\<rparr>, d)),
     b_ops = \<lparr>rm_int = (\<lambda>i r d. (if snd d then r\<lparr>r_eax := 0\<rparr> else r\<lparr>r_eax := 0x8900\<rparr>, (fst d, True))),
       rm_retf = (\<lambda>r d. (r, d)), rm_code = (\<lambda>r d. 0), dos_alloc = (\<lambda>n d. ((0x2000, 0x17), d)), dos_free = (\<lambda>s d. d)\<rparr>,
     b_pci = \<lparr>p_outl = (\<lambda>p v d. (p_outl pci_machine p v (fst d), snd d)), p_inl = (\<lambda>p d. (fst (p_inl pci_machine p (fst d)), d))\<rparr>,
     b_io = \<lparr>io_out = (\<lambda>p v d. d), io_in = (\<lambda>p d. (0, d))\<rparr>,
     b_get = (\<lambda>d a. if a = 0x20000 then 16 else if a = 0x20009 then 0x40 else if a = 0x2000A then 0x60 else if a = 0x2000B then 0x20 else 0),
     b_put = (\<lambda>a bs d. d), b_malloc = (\<lambda>n. True)\<rparr>"

definition demo_key :: pci_config where "demo_key = pci_config_zero\<lparr>bDev := 8, bFunc := 0\<rparr>"

lemma bios_demo_laws: "pci_laws (b_pci bios_demo) (fst \<circ> fst) (snd \<circ> fst) pci_rw pci_wc"
  by (simp add: pci_laws_def bios_demo_def pci_machine_def)

lemma bios_demo_frame: "bios_frame bios_demo (snd \<circ> fst)"
  by (simp add: bios_frame_def bios_demo_def keeps_def)

lemma bios_demo_run: "\<exists>d'. pcibios_AssignIRQ bios_demo demo_key ((0, \<lambda>a. 0x0105), False) = Inr (5, d')"
  by (rule exI) code_simp

theorem assigned_irq_is_set_witness:
  "\<exists>d'. pcibios_AssignIRQ bios_demo demo_key ((0, \<lambda>a. 0x0105), False) = Inr (5, d')
    \<and> pci_view ((snd \<circ> fst) d') (key_loc demo_key) 0x3C = 5"
proof -
  obtain d' where d: "pcibios_AssignIRQ bios_demo demo_key ((0, \<lambda>a. 0x0105), False) = Inr (5, d')" using bios_demo_run by blast
  have "valid_loc (key_loc demo_key)" by (simp add: valid_loc_def key_loc_def demo_key_def)
  moreover have "line_regs pci_rw pci_wc (key_loc demo_key)" by code_simp
  ultimately show ?thesis using assigned_irq_is_set [OF bios_demo_laws _ bios_demo_frame _ d] d by simp
qed

text \<open>Two cases end the program: a device without an interrupt pin, and a function on the same wire whose line register is
  0, which many machines use for a line that has not been set up.\<close>

lemma no_pin_aborts:
  assumes laws: "pci_laws (b_pci env) sel cfg rw wc" and "\<And>i r d. cfg (snd (b_int386 env i r d)) = cfg d"
    and "x_cflag (fst (b_int386 env PCI_SERVICE (REGS_zero\<lparr>x_ah := 0xB1, x_al := 0x01, x_cflag := 1\<rparr>) d)) = 0"
    and "pci_view (cfg d) (key_loc key) 0x3D = 0"
  shows "pcibios_AssignIRQ env key d = Inl Assert_failed"
proof -
  obtain r d1 where b: "b_int386 env PCI_SERVICE (REGS_zero\<lparr>x_ah := 0xB1, x_al := 0x01, x_cflag := 1\<rparr>) d = (r, d1)" by (rule prod.exhaust)
  have "cfg d1 = cfg d" using assms(2) [of _ _ d] b by (metis snd_conv)
  moreover obtain d2 where "pcibios_ReadConfig_Byte (b_pci env) key PCIR_INTR_PIN d1 = (pci_view (cfg d1) (key_loc key) 0x3D, d2)"
    using ReadConfig_view [OF laws, of key PCIR_INTR_PIN d1] by auto
  ultimately show ?thesis using assms(3,4) b by (simp add: pcibios_AssignIRQ_def pcibios_GetBus_def)
qed

lemma line_zero_aborts:
  assumes laws: "pci_laws io sel cfg rw wc" and "uint (pci_view (cfg d) (key_loc (route_key t f)) 0x3D) - 1 = int j"
    and "pci_view (cfg d) (key_loc (route_key t f)) 0x3C = 0" and "\<not> bit (snd (rt_intpins t ! j)) 0"
  shows "find_func io t j (f # fs) 0xFF d = Inl Assert_failed"
proof -
  obtain g where g: "pcibios_ReadConfig_Byte io (route_key t f) PCIR_INTR_PIN d = (pci_view (cfg d) (key_loc (route_key t f)) 0x3D, g)" "cfg g = cfg d"
    using ReadConfig_view [OF laws, of "route_key t f" PCIR_INTR_PIN d] by auto
  obtain g2 where "pcibios_ReadConfig_Byte io (route_key t f) PCIR_INTR_LN g = (pci_view (cfg g) (key_loc (route_key t f)) 0x3C, g2)"
    using ReadConfig_view [OF laws, of "route_key t f" PCIR_INTR_LN g] by auto
  moreover have "1 AND ucast (snd (rt_intpins t ! j)) = (0 :: u32)"
  proof (rule bit_word_eqI)
    fix n assume "n < LENGTH(32)"
    show "bit (1 AND ucast (snd (rt_intpins t ! j)) :: u32) n = bit (0 :: u32) n"
      unfolding bit_and_iff bit_1_iff bit_ucast16_u32 using assms(4) by auto
  qed
  ultimately show ?thesis using g assms(2,3) by (simp add: shl1_def)
qed

end
