(* ===== verification/Start.thy ===== *)
theory Start
  imports Tsr Isrhook Irqguard Pciirq
begin

text \<open>
  The start of the program (\<open>main\<close> and \<open>MAIN_Cleanup\<close> in \<open>main.c\<close>, after the checks of the options in theory Options): the memory
  managers, the search for a resident copy, the card, the trap tables, the multiplex interrupt, the audio output, the interrupt
  handlers and their routing, and what is undone when any of it fails. What installs a trap table may fail; the installed tables are those
  of the calls that have succeeded, as in theory Tsr. Messages are left out.
\<close>

section \<open>State\<close>

text \<open>The resident state of theory Tsr with the other variables of the start. The tables are lost (\<open>None\<close>) when a call does not fit
  them. The world of the components, the DOS memory and the registers of the XMS driver are shared.\<close>

record 'h start =
  s_tsr :: "'h tsr"
  s_virq :: virq
  s_iopts :: "(iopt \<times> 'h port_table) list option"
  MPURMInstalled :: bool
  MPUPMInstalled :: bool
  s_hdpmi :: "'h hdpmi"
  s_guard :: "'h guard"
  s_pci_dev :: "pci_config option"
  OldRoutedHandle :: HDPMIPT_IRQRoutedHandle
  OldRoutedHandle5 :: HDPMIPT_IRQRoutedHandle
  OldRoutedHandle7 :: HDPMIPT_IRQRoutedHandle
  OldRoutedHandle9 :: HDPMIPT_IRQRoutedHandle
  MAIN_TSR_INT_FNO :: u8
  MAIN_ISR_DOSID :: u32
  MAIN_TSRIntHandle :: DPMI_ISR_HANDLE
  MAIN_IntHandlePM :: DPMI_ISR_HANDLE

text \<open>What the start asks of its surroundings; \<open>se_AU_init\<close> is the search for the cards of theory Auinit, with whether there is an output,
  its PCI device, and whether there is an FM chip at port 0x388; addresses of functions and variables of the program are given.\<close>

record 'h start_env =
  se_tsr :: "'h tsr_env"
  se_qemm_version :: "'h \<Rightarrow> int \<times> 'h"
  se_hdpmi :: "'h hdpmi_host"
  se_trap :: "'h trap_call \<Rightarrow> 'h \<Rightarrow> bool \<times> 'h"
  se_AU_init :: "'h main \<Rightarrow> (bool \<times> pci_config option \<times> bool) \<times> 'h main"
  se_bios :: "'h bios_env"
  se_client :: "'h tsr_client"
  se_go32 :: "'h go32"
  se_guard :: "'h guard_env"
  se_debug :: bool
  se_tsr_isr :: u32
  se_tsr_reg :: u32
  se_card_isr :: u32
  se_dosid :: u32
  se_DPMI_TSR :: "'h \<Rightarrow> bool \<times> 'h"

abbreviation s_main :: "'h start \<Rightarrow> 'h main" where "s_main s \<equiv> t_main (s_tsr s)"
abbreviation s_hw :: "'h start \<Rightarrow> 'h" where "s_hw s \<equiv> hw (s_main s)"
abbreviation s_options :: "'h start \<Rightarrow> options" where "s_options s \<equiv> m_options (s_main s)"
abbreviation se_env :: "'h start_env \<Rightarrow> 'h main_env" where "se_env env \<equiv> t_env (se_tsr env)"

definition put_main :: "'h main \<Rightarrow> 'h start \<Rightarrow> 'h start" where
  "put_main r s = s\<lparr>s_tsr := (s_tsr s)\<lparr>t_main := r\<rparr>\<rparr>"

definition put_hw :: "'h \<Rightarrow> 'h start \<Rightarrow> 'h start" where "put_hw h s = put_main (set_hw h (s_main s)) s"

definition put_opt :: "opt \<Rightarrow> int \<Rightarrow> 'h start \<Rightarrow> 'h start" where "put_opt i v s = put_main (set_opt i v (s_main s)) s"

definition on_hdpmi :: "('h hdpmi \<Rightarrow> 'a \<times> 'h hdpmi) \<Rightarrow> 'h start \<Rightarrow> 'a \<times> 'h start" where
  "on_hdpmi f s = (let (x, hd) = f ((s_hdpmi s)\<lparr>h_world := s_hw s\<rparr>) in (x, put_hw (h_world hd) (s\<lparr>s_hdpmi := hd\<rparr>)))"

definition on_guard :: "('h guard \<Rightarrow> ('a \<times> 'h guard) res) \<Rightarrow> 'h start \<Rightarrow> ('a \<times> 'h start) res" where
  "on_guard f s = bindE (f ((s_guard s)\<lparr>g_world := s_hw s\<rparr>)) (\<lambda>(x, g). Inr (x, put_hw (g_world g) (s\<lparr>s_guard := g\<rparr>)))"

text \<open>A function on the registers of the XMS driver, the world and the memory.\<close>

definition on_mem :: "(DPMI_REG \<times> 'h \<times> mem \<Rightarrow> ('a \<times> DPMI_REG \<times> 'h \<times> mem) res) \<Rightarrow> 'h start \<Rightarrow> ('a \<times> 'h start) res" where
  "on_mem f = on_guard (\<lambda>g. bindE (f (g_xms g, g_world g, g_mem g)) (\<lambda>(v, x, d, m). Inr (v, g\<lparr>g_xms := x, g_world := d, g_mem := m\<rparr>)))"

text \<open>The audio output.\<close>

definition on_au :: "('h au \<Rightarrow> 'h au res) \<Rightarrow> 'h start \<Rightarrow> 'h start res" where
  "on_au f s = bindE (f (m_aui (s_main s), m_glb (s_main s))) (\<lambda>(a, g). Inr (put_main ((s_main s)\<lparr>m_aui := a, m_glb := g\<rparr>) s))"

text \<open>A step that may end the program with an exit code, and the next.\<close>

type_synonym 'h step = "'h start \<Rightarrow> (int option \<times> 'h start) res"

definition then_step :: "'h step \<Rightarrow> 'h step \<Rightarrow> 'h step" where
  "then_step f g s = bindE (f s) (\<lambda>(e, s). case e of Some c \<Rightarrow> Inr (Some c, s) | None \<Rightarrow> g s)"

section \<open>Trap tables\<close>

definition do_trap :: "'h start_env \<Rightarrow> 'h trap_call \<Rightarrow> 'h start \<Rightarrow> bool \<times> 'h start" where
  "do_trap env c s =
    (let (ok, h) = se_trap env c (s_hw s); s = put_hw h s
     in (ok, if ok \<or> call_table c = None then s\<lparr>s_iopts := Option.bind (s_iopts s) (trap_call_do c)\<rparr> else s))"

text \<open>Every call of a list, with the answers.\<close>

primrec do_traps :: "'h start_env \<Rightarrow> 'h trap_call list \<Rightarrow> 'h start \<Rightarrow> bool list \<times> 'h start" where
  "do_traps env [] s = ([], s)"
| "do_traps env (c # cs) s = (let (ok, s) = do_trap env c s; (oks, s) = do_traps env cs s in (ok # oks, s))"

section \<open>Memory managers, the resident copy, the card\<close>

definition start_hosts :: "'h start_env \<Rightarrow> 'h start \<Rightarrow> 'h start" where
  "start_hosts env s =
    (let s = s\<lparr>s_tsr := (s_tsr s)\<lparr>t_qemm_present := True\<rparr>\<rparr>;
         s = (if opt_on (s_options s) OPT_RM then
             (let s = put_opt OPT_RM 1 s; (v, h) = se_qemm_version env (s_hw s); s = put_hw h s
              in if v < 0x0703 then (let s = put_opt OPT_RM 0 s in s\<lparr>s_tsr := (s_tsr s)\<lparr>t_qemm_present := False\<rparr>\<rparr>) else s) else s);
         s = s\<lparr>s_tsr := (s_tsr s)\<lparr>t_hdpmi_present := False\<rparr>\<rparr>;
         s = (if opt_on (s_options s) OPT_PM then
             (let has = HDPMIPT_Detect (se_hdpmi env) (s_hw s); s = put_opt OPT_PM (if has then 1 else 0) s
              in s\<lparr>s_tsr := (s_tsr s)\<lparr>t_hdpmi_present := has\<rparr>\<rparr>) else s)
     in put_opt OPT_OPL (if opt_on (s_options s) OPT_OPL then 1 else 0) s)"

text \<open>A resident copy takes the settings, and the program ends.\<close>

definition start_check :: "'h start_env \<Rightarrow> 'h step" where
  "start_check env s =
    (let (found, h) = MAIN_TSR_InstallationCheck (se_client env) (s_options s) (s_hw s); s = put_hw h s in
     if found \<noteq> None then Inr (Some 0, s)
     else (let s = put_hw (c_blaster (se_client env) (MAIN_SetBlasterEnv (s_options s)) (s_hw s)) s
       in Inr (if \<not> opt_on (s_options s) OPT_PM \<and> \<not> opt_on (s_options s) OPT_RM then Some 1 else None, s)))"

text \<open>The numbers of the cards and the bit for the test are settings of the search, which is \<open>se_AU_init\<close>.\<close>

definition start_search :: "'h start_env \<Rightarrow> 'h step" where
  "start_search env s =
    (let ((found, dev, fm388), r) = se_AU_init env (s_main s); s = put_main r s
     in Inr (if found then None else Some 1, s\<lparr>s_tsr := (s_tsr s)\<lparr>t_fm388 := fm388\<rparr>, s_pci_dev := dev\<rparr>))"

text \<open>The interrupt of the card. A null PCI device is read through by the functions of \<open>pcibios.c\<close>.\<close>

definition start_irq :: "'h start_env \<Rightarrow> 'h step" where
  "start_irq env s =
    bindE (if card_irq (m_aui (s_main s)) > 15 then
        bindE (Aucards.deref (s_pci_dev s)) (\<lambda>k. bindE (pcibios_AssignIRQ (se_bios env) k (s_hw s)) (\<lambda>(irq, h).
        (let s = put_hw h s in Inr (put_main ((s_main s)\<lparr>m_aui := (m_aui (s_main s))\<lparr>card_irq := irq\<rparr>\<rparr>) s))))
      else Inr s) (\<lambda>s.
    (let irq = card_irq (m_aui (s_main s)) in
     if irq = 0xFF \<or> uint irq = opt_value (s_options s) OPT_IRQ then Inr (Some 1, s)
     else bindE (Aucards.deref (s_pci_dev s)) (\<lambda>k. Inr (None, put_hw (pcibios_enable_interrupt (b_pci (se_bios env)) k (s_hw s)) s))))"

section \<open>Trap tables and the Sound Blaster\<close>

text \<open>The installation of a table in one mode, when the mode is on: the flag is set to the answer, and a failure ends the program.\<close>

definition install_flag :: "'h start_env \<Rightarrow> bool \<Rightarrow> (bool \<Rightarrow> 'h start \<Rightarrow> 'h start) \<Rightarrow> 'h trap_call \<Rightarrow> 'h step" where
  "install_flag env on flag c s =
    (if on then (let (ok, s) = do_trap env c s in Inr (if ok then None else Some 1, flag ok s)) else Inr (None, s))"

abbreviation flag_OPLRM :: "bool \<Rightarrow> 'h start \<Rightarrow> 'h start" where "flag_OPLRM b s \<equiv> s\<lparr>s_tsr := (s_tsr s)\<lparr>OPLRMInstalled := b\<rparr>\<rparr>"
abbreviation flag_OPLPM :: "bool \<Rightarrow> 'h start \<Rightarrow> 'h start" where "flag_OPLPM b s \<equiv> s\<lparr>s_tsr := (s_tsr s)\<lparr>OPLPMInstalled := b\<rparr>\<rparr>"

definition start_opl :: "'h start_env \<Rightarrow> 'h step" where
  "start_opl env s =
    (let os = s_options s; hwfm = fm (m_fm_aui (s_main s)); iodt = opl_table (se_env env) hwfm in
     if opl_trapped hwfm (t_fm388 (s_tsr s)) os then
       then_step (install_flag env (opt_on os OPT_RM) flag_OPLRM (QEMM_Install iodt OPL3IOPT))
         (install_flag env (opt_on os OPT_PM) flag_OPLPM (HDPMI_Install 0x388 0x38B iodt OPL3IOPT_PM)) s
     else Inr (None, s))"

definition start_mpu :: "'h start_env \<Rightarrow> 'h step" where
  "start_mpu env s =
    (let os = s_options s; addr = opt_u32 os OPT_MPUADDR; iodt = MAIN_MPUIODT (se_env env) addr in
     if mpu_on os then
       then_step (install_flag env (opt_on os OPT_RM) (\<lambda>b s. s\<lparr>MPURMInstalled := b\<rparr>) (QEMM_Install iodt MPUIOPT))
         (install_flag env (opt_on os OPT_PM) (\<lambda>b s. s\<lparr>MPUPMInstalled := b\<rparr>) (HDPMI_Install addr (addr + 1) iodt MPUIOPT_PM)) s
     else Inr (None, s))"

definition start_sb :: "'h start_env \<Rightarrow> 'h start \<Rightarrow> 'h start res" where
  "start_sb env s =
    (let (q, h) = VIRQ_Init (io_in (e_io (se_env env))) (s_virq s) (s_hw s); s = put_hw h (s\<lparr>s_virq := q\<rparr>);
         r = s_main s; v = optv r in
     bindE (arr_get (int (length MAIN_SB_DSPVersion)) (\<lambda>i. MAIN_SB_DSPVersion ! nat i) (v OPT_TYPE)) (\<lambda>ver.
     (let vd = VDMA_Virtualize (v OPT_DMA) True (m_vd r);
          vd = (if v OPT_TYPE = 6 then VDMA_Virtualize (v OPT_HDMA) True vd else vd);
          s = put_main (r\<lparr>m_sb := SBEMU_Init (v OPT_IRQ) (v OPT_DMA) (v OPT_HDMA) ver (v OPT_FIX_TC) (m_sb r), m_vd := vd\<rparr>) s
      in Inr (s\<lparr>s_tsr := (s_tsr s)\<lparr>t_sb_iodt := MAIN_SB_IODT (se_env env) (opt_u32 (m_options r) OPT_ADDR)\<rparr>\<rparr>))))"

definition sb_calls :: "'h start_env \<Rightarrow> 'h start \<Rightarrow> 'h trap_call list" where
  "sb_calls env s = (let os = s_options s; sb = t_sb_iodt (s_tsr s) in
     install_sb (se_env env) (opt_on os OPT_RM) (opt_on os OPT_PM) (opt_u32 os OPT_ADDR) (if opt_on os OPT_OPL then sb else drop 4 sb))"

section \<open>The multiplex interrupt\<close>

text \<open>The first free number from 1 is taken; the copy of the identification string is not checked to have memory.\<close>

definition dosid_size :: u32 where "dosid_size = 48"

definition start_dosid :: "'h start_env \<Rightarrow> 'h start \<Rightarrow> 'h start res" where
  "start_dosid env s =
    bindE (on_mem (\<lambda>(x, d, m).
      bindE (DPMI_HighMalloc (g_ops (se_guard env)) (ucast (drop_bit 4 (dosid_size + 15))) False (x, d)) (\<lambda>(dm, x, d).
      bindE (DPMI_CopyLinear (g_dpmi (se_guard env)) m (DPMI_SEGOFF2L dm 0) (se_dosid env) dosid_size) (\<lambda>m. Inr (dm, x, d, m)))) s) (\<lambda>(dm, s).
    Inr (s\<lparr>MAIN_ISR_DOSID := dm\<rparr>))"

primrec start_mux :: "'h start_env \<Rightarrow> u8 list \<Rightarrow> 'h start \<Rightarrow> (bool \<times> 'h start) res" where
  "start_mux env [] s = Inr (False, s)"
| "start_mux env (i # is) s =
    (let (r, h) = DPMI_CallRealModeINT (c_ops (se_client env)) 0x2D (set_ah i reg_zero) (s_hw s); s = put_hw h s in
     if reg_al r \<noteq> 0 then start_mux env is s
     else bindE (on_mem (DPMI_InstallRealModeISR (se_go32 env) (g_ops (se_guard env)) (g_dpmi (se_guard env)) [] (se_debug env) 0x2D
           (se_tsr_isr env) (se_tsr_reg env) False (MAIN_TSRIntHandle s)) s) (\<lambda>((res, hd), s).
       (let s = s\<lparr>MAIN_TSR_INT_FNO := i, MAIN_TSRIntHandle := hd\<rparr> in
        if res \<noteq> 0 then Inr (False, s) else bindE (start_dosid env s) (\<lambda>s. Inr (True, s)))))"

section \<open>Audio and interrupts\<close>

definition start_audio :: "'h start_env \<Rightarrow> 'h start \<Rightarrow> 'h start res" where
  "start_audio env s =
    (let h = e_card (se_env env); os = s_options s;
         adi = \<lparr>adi_infobits = 0, adi_wave_id = 1, adi_freq = opt_u32 os OPT_RATE, adi_outchannels = 2, adi_bits = 16\<rparr> in
     bindE (on_au (\<lambda>s. bindE (AU_setrate (t_lfn (se_tsr env)) h adi s) (\<lambda>(_, a, g).
       bindE (AU_setmixer_outs h MIXER_SETMODE_ABSOLUTE 100 (AU_setmixer_init a, g)) (\<lambda>s.
       AU_setmixer_one h AU_MIXCHAN_MASTER MIXER_SETMODE_ABSOLUTE (cdiv (opt_value os OPT_VOL * 100) 9) s))) s) (\<lambda>s.
     Inr (if opt_on os OPT_OPL
       then put_main ((set_hw (t_OPL3EMU_Init (se_tsr env) (freq_card (m_aui (s_main s))) (s_hw s)) (s_main s))\<lparr>m_OPL3EMU_Chip := True\<rparr>) s
       else s)))"

text \<open>The handler of the card, and the guard of the interrupt of the Sound Blaster.\<close>

definition start_isr :: "'h start_env \<Rightarrow> 'h start \<Rightarrow> (bool \<times> 'h start) res" where
  "start_isr env s =
    bindE (on_mem (\<lambda>(x, d, m).
      bindE (DPMI_InstallISR (se_go32 env) (g_dpmi (se_guard env)) (PIC_IRQ2VEC (card_irq (m_aui (s_main s)))) (se_card_isr env) False
        (MAIN_IntHandlePM s) (d, m)) (\<lambda>(v, d, m). Inr (v, x, d, m))) s) (\<lambda>((res, hd), s).
    bindE (on_guard (IRQGUARD_Install (se_guard env) (word_of_int (opt_value (s_options s) OPT_IRQ))) (s\<lparr>MAIN_IntHandlePM := hd\<rparr>)) (\<lambda>(_, s).
    Inr (res = 0, s)))"

text \<open>The routing of an interrupt is set to the handlers of the vector with the number of the interrupt.\<close>

definition route_default :: "'h start_env \<Rightarrow> u8 \<Rightarrow> 'h start \<Rightarrow> 'h start res" where
  "route_default env irq s =
    bindE (DPMI_GetISR (se_go32 env) (g_dpmi (se_guard env)) irq (s_hw s, g_mem (s_guard s))) (\<lambda>hd.
    Inr (snd (on_hdpmi (HDPMIPT_InstallIRQRoutedHandler (se_hdpmi env) irq (old_cs hd) (old_offset hd) (old_rm_cs hd) (old_rm_offset hd)) s)))"

definition get_routed :: "'h start_env \<Rightarrow> u8 \<Rightarrow> HDPMIPT_IRQRoutedHandle \<Rightarrow> 'h start \<Rightarrow> (HDPMIPT_IRQRoutedHandle \<times> 'h start) res" where
  "get_routed env irq h s =
    (let ((valid, h), s) = on_hdpmi (\<lambda>hd. let (v, h, hd) = HDPMIPT_GetIRQRoutedHandler (se_hdpmi env) irq h hd in ((v, h), hd)) s
     in bindE (assert_guard (se_guard env) valid) (\<lambda>_. Inr (h\<lparr>rh_valid := valid\<rparr>, s)))"

definition put_routed :: "'h start_env \<Rightarrow> u8 \<Rightarrow> HDPMIPT_IRQRoutedHandle \<Rightarrow> 'h start \<Rightarrow> 'h start" where
  "put_routed env irq h s = (if rh_valid h then
     snd (on_hdpmi (HDPMIPT_InstallIRQRoutedHandler (se_hdpmi env) irq (rh_cs h) (rh_offset h) (rh_rmcs h) (rh_rmoffset h)) s) else s)"

definition start_routing :: "'h start_env \<Rightarrow> 'h start \<Rightarrow> 'h start res" where
  "start_routing env s =
    (let irq = card_irq (m_aui (s_main s)) in
     bindE (get_routed env 5 (OldRoutedHandle5 s) s) (\<lambda>(h, s).
     bindE (route_default env 5 (s\<lparr>OldRoutedHandle5 := h\<rparr>)) (\<lambda>s.
     bindE (get_routed env 7 (OldRoutedHandle7 s) s) (\<lambda>(h, s).
     bindE (route_default env 7 (s\<lparr>OldRoutedHandle7 := h\<rparr>)) (\<lambda>s.
     bindE (get_routed env 9 (OldRoutedHandle9 s) s) (\<lambda>(h, s).
     bindE (route_default env 9 (s\<lparr>OldRoutedHandle9 := h\<rparr>)) (\<lambda>s.
     bindE (get_routed env irq (OldRoutedHandle s) s) (\<lambda>(h, s).
     bindE (route_default env irq (s\<lparr>OldRoutedHandle := h\<rparr>)) (\<lambda>s.
     (let hd = MAIN_IntHandlePM s;
          s = snd (on_hdpmi (HDPMIPT_InstallIRQRoutedHandler (se_hdpmi env) irq (wrapper_cs hd) (wrapper_offset hd) 0xFFFF 0xFFFF) s)
      in Inr (snd (on_hdpmi (HDPMIPT_LockIRQRouting (se_hdpmi env) True) s))))))))))))"

section \<open>The end of the start\<close>

definition uninstall_of :: "'h trap_call \<Rightarrow> 'h trap_call" where
  "uninstall_of c = (case c of QEMM_Install _ p \<Rightarrow> QEMM_Uninstall p | HDPMI_Install _ _ _ p \<Rightarrow> HDPMI_Uninstall p | _ \<Rightarrow> c)"

text \<open>The card is switched on last. The program becomes resident when everything is there; otherwise the tables that are
  installed and the handlers are taken out again, and the program ends.\<close>

datatype start_end = Resident | Exited int

definition start_play :: "'h start_env \<Rightarrow> 'h start \<Rightarrow> 'h start res" where
  "start_play env s =
    bindE (PIC_UnmaskIRQ (e_io (se_env env)) (card_irq (m_aui (s_main s))) (s_hw s)) (\<lambda>h.
    bindE (on_au (AU_prestart (e_card (se_env env))) (put_hw h s)) (\<lambda>s.
    on_au (AU_start (e_card (se_env env))) s))"

definition remove_isr :: "'h start_env \<Rightarrow> bool \<Rightarrow> DPMI_ISR_HANDLE \<Rightarrow> 'h start \<Rightarrow> 'h start res" where
  "remove_isr env on k s = (if on then
     bindE (on_mem (DPMI_UninstallISR (se_go32 env) (g_ops (se_guard env)) (g_dpmi (se_guard env)) k) s) (\<lambda>(_, s). Inr s) else Inr s)"

definition start_rollback :: "'h start_env \<Rightarrow> ('h trap_call \<times> bool) list \<Rightarrow> bool \<Rightarrow> bool \<Rightarrow> 'h start \<Rightarrow> 'h start res" where
  "start_rollback env done pm tsr s =
    (let (_, s) = do_traps env (map (uninstall_of \<circ> fst) (filter snd done)) s in
     bindE (remove_isr env pm (MAIN_IntHandlePM s) s) (\<lambda>s. remove_isr env tsr (MAIN_TSRIntHandle s) s))"

definition start_finish :: "'h start_env \<Rightarrow> ('h trap_call \<times> bool) list \<Rightarrow> bool \<Rightarrow> bool \<Rightarrow> 'h start \<Rightarrow> (start_end \<times> 'h start) res" where
  "start_finish env done pm tsr s =
    (let (ok, s) = (if pm \<and> tsr \<and> list_all snd done then (let (ok, h) = se_DPMI_TSR env (s_hw s) in (ok, put_hw h s)) else (False, s)) in
     if ok then Inr (Resident, s)
     else bindE (start_rollback env done pm tsr s) (\<lambda>s. Inr (Exited 1, s)))"

definition start_emulation :: "'h start_env \<Rightarrow> 'h start \<Rightarrow> (start_end \<times> 'h start) res" where
  "start_emulation env s =
    bindE (start_sb env s) (\<lambda>s.
    (let calls = sb_calls env s; (oks, s) = do_traps env calls s in
     bindE (start_mux env (map of_nat [1..<256]) s) (\<lambda>(tsr, s).
     bindE (PIC_MaskIRQ (e_io (se_env env)) (card_irq (m_aui (s_main s))) (s_hw s)) (\<lambda>h.
     bindE (start_audio env (put_hw h s)) (\<lambda>s.
     bindE (start_isr env s) (\<lambda>(pm, s).
     bindE (start_routing env s) (\<lambda>s.
     bindE (start_play env s) (start_finish env (zip calls oks) pm tsr))))))))"

section \<open>What the exit undoes\<close>

definition cleanup_trap :: "'h start_env \<Rightarrow> bool \<Rightarrow> 'h trap_call \<Rightarrow> 'h start \<Rightarrow> 'h start" where
  "cleanup_trap env b c s = (if b then snd (do_trap env c s) else s)"

definition cleanup_traps :: "'h start_env \<Rightarrow> 'h start \<Rightarrow> 'h start" where
  "cleanup_traps env s =
    (let s = cleanup_trap env (OPLRMInstalled (s_tsr s)) (QEMM_Uninstall OPL3IOPT) s;
         s = cleanup_trap env (OPLPMInstalled (s_tsr s)) (HDPMI_Uninstall OPL3IOPT_PM) s;
         s = cleanup_trap env (MPURMInstalled s) (QEMM_Uninstall MPUIOPT) s
     in cleanup_trap env (MPUPMInstalled s) (HDPMI_Uninstall MPUIOPT_PM) s)"

definition MAIN_Cleanup :: "'h start_env \<Rightarrow> 'h start \<Rightarrow> 'h start res" where
  "MAIN_Cleanup env s =
    (let s = put_routed env (card_irq (m_aui (s_main s))) (OldRoutedHandle s) s;
         s = put_routed env 5 (OldRoutedHandle5 s) s;
         s = put_routed env 7 (OldRoutedHandle7 s) s;
         s = put_routed env 9 (OldRoutedHandle9 s) s in
     bindE (on_au (AU_stop (e_card (se_env env))) s) (\<lambda>s.
     bindE (TSR_close (se_tsr env) (s_main s)) (\<lambda>r.
     bindE (on_guard (IRQGUARD_Uninstall (se_guard env)) (cleanup_traps env (put_main r s))) (\<lambda>(_, s). Inr s))))"

text \<open>The steps between the search for the cards and the emulation may end the program; from the search on the exit runs the cleanup.\<close>

definition start_steps :: "'h start_env \<Rightarrow> 'h start \<Rightarrow> (start_end \<times> 'h start) res" where
  "start_steps env s =
    bindE (then_step (start_irq env) (then_step (start_opl env) (start_mpu env)) s) (\<lambda>(e, s).
    case e of Some c \<Rightarrow> Inr (Exited c, s) | None \<Rightarrow> start_emulation env s)"

definition MAIN_start :: "'h start_env \<Rightarrow> 'h start \<Rightarrow> (start_end \<times> 'h start) res" where
  "MAIN_start env s =
    bindE (then_step (start_check env) (start_search env) (start_hosts env s)) (\<lambda>(e, s).
    case e of Some c \<Rightarrow> Inr (Exited c, s)
    | None \<Rightarrow> bindE (start_steps env s) (\<lambda>(e, s).
        case e of Resident \<Rightarrow> Inr (Resident, s) | Exited c \<Rightarrow> bindE (MAIN_Cleanup env s) (\<lambda>s. Inr (Exited c, s))))"

section \<open>What the steps leave alone\<close>

text \<open>The tables, the flags, and what the tables depend on.\<close>

definition tables_of :: "'h start \<Rightarrow> _" where
  "tables_of s = (s_iopts s, OPLRMInstalled (s_tsr s), OPLPMInstalled (s_tsr s), MPURMInstalled s, MPUPMInstalled s, s_options s,
     t_sb_iodt (s_tsr s), fm (m_fm_aui (s_main s)), t_fm388 (s_tsr s))"

lemma tables_of_simps [simp]:
  "tables_of (put_hw h s) = tables_of s" "tables_of (s\<lparr>s_hdpmi := hp\<rparr>) = tables_of s" "tables_of (s\<lparr>s_guard := gd\<rparr>) = tables_of s"
  "tables_of (s\<lparr>s_virq := q\<rparr>) = tables_of s" "tables_of (s\<lparr>MAIN_TSR_INT_FNO := i, MAIN_TSRIntHandle := k\<rparr>) = tables_of s"
  "tables_of (s\<lparr>MAIN_ISR_DOSID := dm\<rparr>) = tables_of s" "tables_of (s\<lparr>MAIN_IntHandlePM := k\<rparr>) = tables_of s"
  "tables_of (s\<lparr>OldRoutedHandle := rh\<rparr>) = tables_of s" "tables_of (s\<lparr>OldRoutedHandle5 := rh\<rparr>) = tables_of s"
  "tables_of (s\<lparr>OldRoutedHandle7 := rh\<rparr>) = tables_of s" "tables_of (s\<lparr>OldRoutedHandle9 := rh\<rparr>) = tables_of s"
  "tables_of (put_main ((s_main s)\<lparr>m_aui := a\<rparr>) s) = tables_of s"
  "tables_of (put_main ((s_main s)\<lparr>m_aui := a, m_glb := glb\<rparr>) s) = tables_of s"
  "tables_of (put_main ((s_main s)\<lparr>m_glb := glb\<rparr>) s) = tables_of s"
  "tables_of (put_main ((s_main s)\<lparr>m_sb := sb, m_vd := vd\<rparr>) s) = tables_of s"
  "tables_of (put_main (set_hw h (s_main s)\<lparr>m_OPL3EMU_Chip := e\<rparr>) s) = tables_of s"
  by (simp_all add: tables_of_def put_hw_def put_main_def set_hw_def)

lemma on_hdpmi_tables [simp]: "tables_of (snd (on_hdpmi f s)) = tables_of s"
  by (simp add: on_hdpmi_def split: prod.split)

lemma on_guard_tables: "on_guard f s = Inr (x, s') \<Longrightarrow> tables_of s' = tables_of s"
  by (auto simp: on_guard_def)

lemma on_mem_tables: "on_mem f s = Inr (x, s') \<Longrightarrow> tables_of s' = tables_of s"
  unfolding on_mem_def by (rule on_guard_tables)

lemma on_au_tables: "on_au f s = Inr s' \<Longrightarrow> tables_of s' = tables_of s"
  by (auto simp: on_au_def)

lemma start_irq_tables: "start_irq env s = Inr (e, s') \<Longrightarrow> tables_of s' = tables_of s"
  by (auto simp: start_irq_def Let_def split: if_splits)

lemma start_sb_tables:
  assumes "start_sb env s = Inr s'"
  shows "tables_of s' = tables_of (s\<lparr>s_tsr := (s_tsr s)\<lparr>t_sb_iodt := MAIN_SB_IODT (se_env env) (opt_u32 (s_options s) OPT_ADDR)\<rparr>\<rparr>)"
  using assms by (auto simp: start_sb_def Let_def tables_of_def put_hw_def put_main_def set_hw_def split: prod.splits)

lemma start_dosid_tables: "start_dosid env s = Inr s' \<Longrightarrow> tables_of s' = tables_of s"
  by (auto simp: start_dosid_def dest!: on_mem_tables)

lemma start_mux_tables: "start_mux env is s = Inr (b, s') \<Longrightarrow> tables_of s' = tables_of s"
proof (induction "is" arbitrary: s)
  case (Cons i "is")
  obtain r h where m: "DPMI_CallRealModeINT (c_ops (se_client env)) 0x2D (set_ah i reg_zero) (s_hw s) = (r, h)" by fastforce
  show ?case
  proof (cases "reg_al r \<noteq> 0")
    case True
    then have "start_mux env is (put_hw h s) = Inr (b, s')" using Cons.prems m by simp
    then show ?thesis using Cons.IH by fastforce
  next
    case False
    then show ?thesis using Cons.prems m by (auto simp: Let_def split: if_splits dest!: on_mem_tables start_dosid_tables)
  qed
qed simp

lemma start_audio_tables: "start_audio env s = Inr s' \<Longrightarrow> tables_of s' = tables_of s"
  by (auto simp: start_audio_def Let_def dest!: on_au_tables)

lemma start_isr_tables: "start_isr env s = Inr (b, s') \<Longrightarrow> tables_of s' = tables_of s"
  by (auto simp: start_isr_def dest!: on_mem_tables on_guard_tables)

lemma route_default_tables: "route_default env irq s = Inr s' \<Longrightarrow> tables_of s' = tables_of s"
  by (auto simp: route_default_def)

lemma get_routed_tables: "get_routed env irq h s = Inr (h', s') \<Longrightarrow> tables_of s' = tables_of s"
  unfolding get_routed_def Let_def case_prod_beta by (auto simp: assert_guard_def)

lemma put_routed_tables [simp]: "tables_of (put_routed env irq h s) = tables_of s"
  by (simp add: put_routed_def)

lemma start_routing_tables: "start_routing env s = Inr s' \<Longrightarrow> tables_of s' = tables_of s"
  by (auto simp: start_routing_def Let_def dest!: get_routed_tables route_default_tables)

lemma start_play_tables: "start_play env s = Inr s' \<Longrightarrow> tables_of s' = tables_of s"
  by (auto simp: start_play_def dest!: on_au_tables)

lemma remove_isr_tables: "remove_isr env b k s = Inr s' \<Longrightarrow> tables_of s' = tables_of s"
  by (auto simp: remove_isr_def split: if_splits dest!: on_mem_tables)

lemmas step_tables = start_mux_tables start_audio_tables start_isr_tables start_routing_tables start_play_tables

section \<open>The tables of the start\<close>

lemma do_trap_tables:
  "do_trap env c s = (ok, s') \<Longrightarrow>
    tables_of s' = (if ok \<or> call_table c = None then Option.bind (s_iopts s) (trap_call_do c) else s_iopts s, snd (tables_of s))"
  by (auto simp: do_trap_def tables_of_def put_hw_def put_main_def set_hw_def Let_def split: prod.splits)

lemma tables_of_iopts: "s_iopts s = fst (tables_of s)"
  by (simp add: tables_of_def)

lemma do_traps_install:
  assumes "\<forall>c\<in>set cs. call_table c \<noteq> None" "distinct (map call_iopt cs)" "call_iopt ` set cs \<inter> fst ` set ts = {}"
    and "s_iopts s = Some ts" "do_traps env cs s = (oks, s')"
  shows "length oks = length cs \<and> tables_of s' = (Some (ts @ installed (map fst (filter snd (zip cs oks)))), snd (tables_of s))"
  using assms
proof (induction cs arbitrary: ts s oks)
  case Nil
  then show ?case by (simp add: installed_def tables_of_def)
next
  case (Cons c cs)
  obtain ok s1 where c: "do_trap env c s = (ok, s1)" by fastforce
  obtain oks1 where r: "do_traps env cs s1 = (oks1, s')" "oks = ok # oks1" using Cons.prems(5) c by (auto split: prod.splits)
  obtain t where t: "call_table c = Some t" using Cons.prems(1) by auto
  let ?ts = "if ok then ts @ [(call_iopt c, t)] else ts"
  have s1: "s_iopts s1 = Some ?ts" "snd (tables_of s1) = snd (tables_of s)"
    using do_trap_tables [OF c] Cons.prems(3,4) t by (simp_all add: tables_of_iopts trap_call_do_cases)
  have "length oks1 = length cs \<and> tables_of s' = (Some (?ts @ installed (map fst (filter snd (zip cs oks1)))), snd (tables_of s1))"
    by (rule Cons.IH [OF _ _ _ s1(1) r(1)]) (use Cons.prems(1,2,3) in auto)
  then show ?case using s1(2) t r(2) by (simp add: installed_def)
qed

lemma do_traps_uninstall:
  assumes "\<forall>c\<in>set cs. call_table c = None" "do_traps env cs s = (oks, s')"
  shows "tables_of s' = (Option.bind (s_iopts s) (trap_calls_do cs), snd (tables_of s))"
  using assms
proof (induction cs arbitrary: s oks)
  case Nil
  then show ?case by (simp add: tables_of_def bind_eq_Some_conv split: option.split)
next
  case (Cons c cs)
  obtain ok s1 where c: "do_trap env c s = (ok, s1)" by fastforce
  obtain oks1 where r: "do_traps env cs s1 = (oks1, s')" using Cons.prems(2) c by (auto split: prod.splits)
  have "tables_of s1 = (Option.bind (s_iopts s) (trap_call_do c), snd (tables_of s))"
    using do_trap_tables [OF c] Cons.prems(1) by simp
  then show ?case using Cons.IH [OF _ r] Cons.prems(1) by (cases "s_iopts s") (auto simp: tables_of_iopts split: option.splits)
qed

text \<open>The tables of the flags: those of FM and MIDI, when they are installed.\<close>

definition flag_tables :: "'h start_env \<Rightarrow> 'h start \<Rightarrow> (iopt \<times> 'h port_table) list" where
  "flag_tables env s =
    (let opl = opl_table (se_env env) (fm (m_fm_aui (s_main s))); mpu = MAIN_MPUIODT (se_env env) (opt_u32 (s_options s) OPT_MPUADDR) in
     (if OPLRMInstalled (s_tsr s) then [(OPL3IOPT, opl)] else []) @ (if OPLPMInstalled (s_tsr s) then [(OPL3IOPT_PM, opl)] else [])
     @ (if MPURMInstalled s then [(MPUIOPT, mpu)] else []) @ (if MPUPMInstalled s then [(MPUIOPT_PM, mpu)] else []))"

definition no_flags :: "'h start \<Rightarrow> bool" where
  "no_flags s \<longleftrightarrow> \<not> OPLRMInstalled (s_tsr s) \<and> \<not> OPLPMInstalled (s_tsr s) \<and> \<not> MPURMInstalled s \<and> \<not> MPUPMInstalled s"

lemma flag_tables_cong: "snd (tables_of s') = snd (tables_of s) \<Longrightarrow> flag_tables env s' = flag_tables env s"
  by (simp add: flag_tables_def tables_of_def)

lemma flag_tables_iopts: "fst ` set (flag_tables env s) \<subseteq> {OPL3IOPT, OPL3IOPT_PM, MPUIOPT, MPUIOPT_PM}"
  by (auto simp: flag_tables_def Let_def split: if_splits)

definition start_deps :: "'h start \<Rightarrow> _" where
  "start_deps s = (s_options s, t_sb_iodt (s_tsr s), fm (m_fm_aui (s_main s)), t_fm388 (s_tsr s))"

lemma tables_of_split:
  "tables_of s = (s_iopts s, OPLRMInstalled (s_tsr s), OPLPMInstalled (s_tsr s), MPURMInstalled s, MPUPMInstalled s, start_deps s)"
  by (simp add: tables_of_def start_deps_def)

lemma start_deps_flags [simp]:
  "start_deps (flag_OPLRM b s) = start_deps s" "start_deps (flag_OPLPM b s) = start_deps s"
  "start_deps (s\<lparr>MPURMInstalled := b\<rparr>) = start_deps s" "start_deps (s\<lparr>MPUPMInstalled := b\<rparr>) = start_deps s"
  by (simp_all add: start_deps_def)

lemma flag_tables_deps:
  assumes "start_deps s' = start_deps s"
  shows "flag_tables env s' = (let opl = opl_table (se_env env) (fm (m_fm_aui (s_main s))); mpu = MAIN_MPUIODT (se_env env) (opt_u32 (s_options s) OPT_MPUADDR) in
     (if OPLRMInstalled (s_tsr s') then [(OPL3IOPT, opl)] else []) @ (if OPLPMInstalled (s_tsr s') then [(OPL3IOPT_PM, opl)] else [])
     @ (if MPURMInstalled s' then [(MPUIOPT, mpu)] else []) @ (if MPUPMInstalled s' then [(MPUIOPT_PM, mpu)] else []))"
  using assms by (simp add: flag_tables_def start_deps_def Let_def)

lemma then_stepE:
  assumes "then_step f g s = Inr (e, s')"
  obtains e1 s1 where "f s = Inr (e1, s1)" "e1 = None \<longrightarrow> g s1 = Inr (e, s')" "e1 \<noteq> None \<longrightarrow> e = e1 \<and> s' = s1"
  using assms unfolding then_step_def by (fastforce split: option.splits)

text \<open>One installation with a flag.\<close>

lemma install_flag_off: "install_flag env False flag c s = Inr (None, s)"
  by (simp add: install_flag_def)

lemma install_flag_on:
  assumes "install_flag env True flag c s = Inr (e, s')" "call_table c = Some t" "s_iopts s = Some ts" "call_iopt c \<notin> fst ` set ts"
  obtains ok s1 where "s' = flag ok s1" "e = (if ok then None else Some 1)" "s_iopts s1 = Some (if ok then ts @ [(call_iopt c, t)] else ts)"
    "snd (tables_of s1) = snd (tables_of s)"
proof -
  obtain ok s1 where c: "do_trap env c s = (ok, s1)" by fastforce
  show ?thesis
    by (rule that [of ok s1])
      (use assms do_trap_tables [OF c] in \<open>auto simp: install_flag_def c tables_of_iopts trap_call_do_cases split: if_splits\<close>)
qed

lemma start_opl_tables:
  assumes "no_flags s" "s_iopts s = Some []" "start_opl env s = Inr (e, s')"
  shows "s_iopts s' = Some (flag_tables env s') \<and> start_deps s' = start_deps s \<and> \<not> MPURMInstalled s' \<and> \<not> MPUPMInstalled s' \<and>
    (e = None \<longrightarrow> (let t = opl_trapped (fm (m_fm_aui (s_main s))) (t_fm388 (s_tsr s)) (s_options s) in
      OPLRMInstalled (s_tsr s') = (t \<and> opt_on (s_options s) OPT_RM) \<and> OPLPMInstalled (s_tsr s') = (t \<and> opt_on (s_options s) OPT_PM)))"
proof (cases "opl_trapped (fm (m_fm_aui (s_main s))) (t_fm388 (s_tsr s)) (s_options s)")
  case False
  then show ?thesis using assms by (simp add: start_opl_def Let_def no_flags_def flag_tables_def)
next
  case True
  let ?io = "opl_table (se_env env) (fm (m_fm_aui (s_main s)))" and ?rm = "opt_on (s_options s) OPT_RM" and ?pm = "opt_on (s_options s) OPT_PM"
  have n: "\<not> OPLRMInstalled (s_tsr s)" "\<not> OPLPMInstalled (s_tsr s)" "\<not> MPURMInstalled s" "\<not> MPUPMInstalled s"
    using assms(1) by (simp_all add: no_flags_def)
  obtain e1 s1 where i: "install_flag env ?rm flag_OPLRM (QEMM_Install ?io OPL3IOPT) s = Inr (e1, s1)"
    and j: "e1 = None \<longrightarrow> install_flag env ?pm flag_OPLPM (HDPMI_Install 0x388 0x38B ?io OPL3IOPT_PM) s1 = Inr (e, s')"
      "e1 \<noteq> None \<longrightarrow> e = e1 \<and> s' = s1"
    using assms(3) True unfolding start_opl_def Let_def by (auto elim!: then_stepE)
  have a: "s_iopts s1 = Some (if OPLRMInstalled (s_tsr s1) then [(OPL3IOPT, ?io)] else [])" "start_deps s1 = start_deps s"
    "\<not> OPLPMInstalled (s_tsr s1)" "\<not> MPURMInstalled s1" "\<not> MPUPMInstalled s1" "e1 = None \<Longrightarrow> OPLRMInstalled (s_tsr s1) = ?rm"
  proof -
    have "s_iopts s1 = Some (if OPLRMInstalled (s_tsr s1) then [(OPL3IOPT, ?io)] else []) \<and> start_deps s1 = start_deps s \<and>
      \<not> OPLPMInstalled (s_tsr s1) \<and> \<not> MPURMInstalled s1 \<and> \<not> MPUPMInstalled s1 \<and> (e1 = None \<longrightarrow> OPLRMInstalled (s_tsr s1) = ?rm)"
    proof (cases ?rm)
      case True
      then have "install_flag env True flag_OPLRM (QEMM_Install ?io OPL3IOPT) s = Inr (e1, s1)" using i by simp
      then show ?thesis
        by (rule install_flag_on [OF _ _ assms(2)]) (use n True in \<open>auto simp: tables_of_split\<close>)
    next
      case False
      then show ?thesis using i n assms(2) by (simp add: install_flag_off)
    qed
    then show "s_iopts s1 = Some (if OPLRMInstalled (s_tsr s1) then [(OPL3IOPT, ?io)] else [])" "start_deps s1 = start_deps s"
      "\<not> OPLPMInstalled (s_tsr s1)" "\<not> MPURMInstalled s1" "\<not> MPUPMInstalled s1" "e1 = None \<Longrightarrow> OPLRMInstalled (s_tsr s1) = ?rm" by auto
  qed
  show ?thesis
  proof (cases "e1 = None \<and> ?pm")
    case pm: True
    then have j': "install_flag env True flag_OPLPM (HDPMI_Install 0x388 0x38B ?io OPL3IOPT_PM) s1 = Inr (e, s')" using j by simp
    show ?thesis
      by (rule install_flag_on [OF j' _ a(1)]) (use a pm True in \<open>auto simp: tables_of_split flag_tables_deps Let_def\<close>)
  next
    case False
    then have "s' = s1" "e = e1" using j by (auto simp: install_flag_off split: if_splits)
    then show ?thesis using a False True by (auto simp: flag_tables_deps Let_def)
  qed
qed

lemma start_mpu_tables:
  assumes n: "\<not> MPURMInstalled s" "\<not> MPUPMInstalled s" and t: "s_iopts s = Some (flag_tables env s)" and r: "start_mpu env s = Inr (e, s')"
  shows "s_iopts s' = Some (flag_tables env s') \<and> start_deps s' = start_deps s \<and>
    OPLRMInstalled (s_tsr s') = OPLRMInstalled (s_tsr s) \<and> OPLPMInstalled (s_tsr s') = OPLPMInstalled (s_tsr s) \<and>
    (e = None \<longrightarrow> MPURMInstalled s' = (mpu_on (s_options s) \<and> opt_on (s_options s) OPT_RM) \<and>
      MPUPMInstalled s' = (mpu_on (s_options s) \<and> opt_on (s_options s) OPT_PM))"
proof (cases "mpu_on (s_options s)")
  case False
  then show ?thesis using n t r by (simp add: start_mpu_def Let_def)
next
  case True
  let ?a = "opt_u32 (s_options s) OPT_MPUADDR" and ?rm = "opt_on (s_options s) OPT_RM" and ?pm = "opt_on (s_options s) OPT_PM"
  let ?io = "MAIN_MPUIODT (se_env env) ?a" and ?ts = "flag_tables env s"
  have o: "fst ` set ?ts \<subseteq> {OPL3IOPT, OPL3IOPT_PM}" using n by (auto simp: flag_tables_def Let_def split: if_splits)
  obtain e1 s1 where i: "install_flag env ?rm (\<lambda>b s. s\<lparr>MPURMInstalled := b\<rparr>) (QEMM_Install ?io MPUIOPT) s = Inr (e1, s1)"
    and j: "e1 = None \<longrightarrow> install_flag env ?pm (\<lambda>b s. s\<lparr>MPUPMInstalled := b\<rparr>) (HDPMI_Install ?a (?a + 1) ?io MPUIOPT_PM) s1 = Inr (e, s')"
      "e1 \<noteq> None \<longrightarrow> e = e1 \<and> s' = s1"
    using r True unfolding start_mpu_def Let_def by (auto elim!: then_stepE)
  have "s_iopts s1 = Some (?ts @ (if MPURMInstalled s1 then [(MPUIOPT, ?io)] else [])) \<and> start_deps s1 = start_deps s \<and>
      OPLRMInstalled (s_tsr s1) = OPLRMInstalled (s_tsr s) \<and> OPLPMInstalled (s_tsr s1) = OPLPMInstalled (s_tsr s) \<and>
      \<not> MPUPMInstalled s1 \<and> (e1 = None \<longrightarrow> MPURMInstalled s1 = ?rm)"
  proof (cases ?rm)
    case rm: True
    then have "install_flag env True (\<lambda>b s. s\<lparr>MPURMInstalled := b\<rparr>) (QEMM_Install ?io MPUIOPT) s = Inr (e1, s1)" using i by simp
    then show ?thesis
      by (rule install_flag_on [OF _ _ t]) (use n rm o in \<open>auto simp: tables_of_split\<close>)
  next
    case False
    then show ?thesis using i n t by (simp add: install_flag_off)
  qed
  then have a: "s_iopts s1 = Some (?ts @ (if MPURMInstalled s1 then [(MPUIOPT, ?io)] else []))" "start_deps s1 = start_deps s"
      "OPLRMInstalled (s_tsr s1) = OPLRMInstalled (s_tsr s)" "OPLPMInstalled (s_tsr s1) = OPLPMInstalled (s_tsr s)"
      "\<not> MPUPMInstalled s1" "e1 = None \<Longrightarrow> MPURMInstalled s1 = ?rm" by auto
  have f: "?ts = (let opl = opl_table (se_env env) (fm (m_fm_aui (s_main s))) in
     (if OPLRMInstalled (s_tsr s) then [(OPL3IOPT, opl)] else []) @ (if OPLPMInstalled (s_tsr s) then [(OPL3IOPT_PM, opl)] else []))"
    using n by (simp add: flag_tables_def Let_def)
  show ?thesis
  proof (cases "e1 = None \<and> ?pm")
    case pm: True
    then have j': "install_flag env True (\<lambda>b s. s\<lparr>MPUPMInstalled := b\<rparr>) (HDPMI_Install ?a (?a + 1) ?io MPUIOPT_PM) s1 = Inr (e, s')" using j by simp
    obtain ok s2 where q: "s' = s2\<lparr>MPUPMInstalled := ok\<rparr>" "e = (if ok then None else Some 1)" "snd (tables_of s2) = snd (tables_of s1)"
      and q1: "s_iopts s2 = Some (?ts @ (if MPURMInstalled s1 then [(MPUIOPT, ?io)] else []) @ (if ok then [(MPUIOPT_PM, ?io)] else []))"
      by (rule install_flag_on [OF j' _ a(1)]) (use o in auto)
    have d: "start_deps s' = start_deps s" using q(1,3) a(2) by (simp add: tables_of_split)
    show ?thesis unfolding flag_tables_deps [OF d] using q q1 a(2-6) pm True d by (simp add: tables_of_split f Let_def)
  next
    case False
    then have e: "s' = s1" "e = e1" using j by (auto simp: install_flag_off split: if_splits)
    have d: "start_deps s' = start_deps s" using e a(2) by simp
    show ?thesis unfolding flag_tables_deps [OF d] using a e False True by (auto simp: f Let_def)
  qed
qed

text \<open>The emulation: the tables of the Sound Blaster and the controllers are in behind those of the flags, all of them or none.\<close>

lemma sb_calls_tables: "\<forall>c\<in>set (sb_calls env s). call_table c \<noteq> None"
  unfolding sb_calls_def Let_def by (rule install_parts_tables)

lemma sb_calls_distinct: "distinct (map call_iopt (sb_calls env s))"
  unfolding sb_calls_def Let_def by (rule install_parts_distinct)

lemma sb_calls_apart: "call_iopt ` set (sb_calls env s) \<inter> fst ` set (flag_tables env s') = {}"
proof -
  have "sb_iopts a b \<inter> {OPL3IOPT, OPL3IOPT_PM, MPUIOPT, MPUIOPT_PM} = {}" for a b by (auto simp: sb_iopts_def)
  then show ?thesis using flag_tables_iopts [of env s'] unfolding sb_calls_def Let_def install_parts_iopts by blast
qed

lemma uninstall_of_simps:
  "call_table c \<noteq> None \<Longrightarrow> call_iopt (uninstall_of c) = call_iopt c \<and> call_table (uninstall_of c) = None"
  by (cases c) (simp_all add: uninstall_of_def)

lemma start_rollback_tables:
  assumes cs: "\<forall>c\<in>set cs. call_table c \<noteq> None" "distinct (map call_iopt cs)" "call_iopt ` set cs \<inter> fst ` set ts = {}" and l: "length oks = length cs"
    and t: "s_iopts s = Some (ts @ installed (map fst (filter snd (zip cs oks))))" and r: "start_rollback env (zip cs oks) pm tsr s = Inr s'"
  shows "tables_of s' = (Some ts, snd (tables_of s))"
proof -
  let ?un = "map (uninstall_of \<circ> fst) (filter snd (zip cs oks))"
  let ?in = "map fst (filter snd (zip cs oks))"
  have sub: "set ?in \<subseteq> set cs" by (auto dest: set_zip_leftD)
  have io: "map call_iopt ?un = map call_iopt ?in" using sub cs(1) uninstall_of_simps by (auto simp: image_subset_iff)
  have d: "distinct (map call_iopt ?in)"
    using cs(2) l by (induction cs oks rule: list_induct2') (auto dest: set_zip_leftD)
  have n: "\<forall>c\<in>set ?un. call_table c = None" using sub cs(1) uninstall_of_simps by (auto simp: image_subset_iff)
  have s: "call_iopt ` set ?un = call_iopt ` set ?in" using io by (metis set_map)
  have f: "fst ` set (installed ?in) = call_iopt ` set ?in" by (simp add: installed_def image_image)
  have "trap_calls_do ?un (ts @ installed ?in) = Some (filter (\<lambda>x. fst x \<notin> call_iopt ` set ?un) (ts @ installed ?in))"
  proof (rule uninstalls_do [OF n])
    show "distinct (map call_iopt ?un)" unfolding io by (rule d)
    show "call_iopt ` set ?un \<subseteq> fst ` set (ts @ installed ?in)" unfolding s set_append image_Un f by blast
  qed
  moreover have "filter (\<lambda>x. fst x \<notin> call_iopt ` set ?un) (ts @ installed ?in) = ts"
  proof -
    have "\<forall>x\<in>set ts. fst x \<notin> call_iopt ` set ?un" using cs(3) sub unfolding s by blast
    moreover have "\<forall>x\<in>set (installed ?in). fst x \<in> call_iopt ` set ?un" using f s by blast
    ultimately show ?thesis by (auto simp: filter_id_conv filter_empty_conv)
  qed
  ultimately have u: "trap_calls_do ?un (ts @ installed ?in) = Some ts" by simp
  obtain oks2 s2 where o: "do_traps env ?un s = (oks2, s2)" by fastforce
  have "tables_of s2 = (Some ts, snd (tables_of s))" using do_traps_uninstall [OF n o] t u by simp
  then show ?thesis using r unfolding start_rollback_def o Let_def by (auto dest!: remove_isr_tables)
qed

lemma installed_all: "length oks = length cs \<Longrightarrow> list_all snd (zip cs oks) \<Longrightarrow> map fst (filter snd (zip cs oks)) = cs"
  by (induction cs oks rule: list_induct2') auto

lemma start_finish_tables:
  assumes cs: "\<forall>c\<in>set cs. call_table c \<noteq> None" "distinct (map call_iopt cs)" "call_iopt ` set cs \<inter> fst ` set ts = {}" and l: "length oks = length cs"
    and t: "s_iopts s = Some (ts @ installed (map fst (filter snd (zip cs oks))))" and r: "start_finish env (zip cs oks) pm tsr s = Inr (e, s')"
  shows "tables_of s' = (Some (if e = Resident then ts @ installed cs else ts), snd (tables_of s)) \<and> (e \<noteq> Resident \<longrightarrow> e = Exited 1)"
proof -
  obtain ok h where d: "se_DPMI_TSR env (s_hw s) = (ok, h)" by fastforce
  let ?go = "pm \<and> tsr \<and> list_all snd (zip cs oks)"
  let ?s = "if ?go then put_hw h s else s"
  have t1: "tables_of ?s = tables_of s" by simp
  show ?thesis
  proof (cases "?go \<and> ok")
    case True
    then have "e = Resident" "s' = put_hw h s" using r d by (simp_all add: start_finish_def)
    then have "tables_of s' = tables_of s" "map fst (filter snd (zip cs oks)) = cs" using True installed_all [OF l] by simp_all
    then show ?thesis using t \<open>e = Resident\<close> by (simp add: tables_of_split)
  next
    case False
    then obtain s2 where b: "start_rollback env (zip cs oks) pm tsr ?s = Inr s2" "e = Exited 1" "s' = s2"
      using r d by (auto simp: start_finish_def split: if_splits)
    have "s_iopts ?s = Some (ts @ installed (map fst (filter snd (zip cs oks))))" using t t1 by (simp only: tables_of_iopts)
    from start_rollback_tables [OF cs l this b(1)] show ?thesis using b t1 by simp
  qed
qed

lemma start_emulation_tables:
  assumes t: "s_iopts s = Some (flag_tables env s)" and r: "start_emulation env s = Inr (e, s')"
  shows "s_iopts s' = Some (if e = Resident then flag_tables env s' @ installed (sb_calls env s') else flag_tables env s')"
    and "snd (tables_of s') = snd (tables_of (s\<lparr>s_tsr := (s_tsr s)\<lparr>t_sb_iodt := MAIN_SB_IODT (se_env env) (opt_u32 (s_options s) OPT_ADDR)\<rparr>\<rparr>))"
    and "e \<noteq> Resident \<longrightarrow> e = Exited 1"
proof -
  obtain s1 where s1: "start_sb env s = Inr s1" using r by (auto simp: start_emulation_def)
  let ?cs = "sb_calls env s1" and ?s = "s\<lparr>s_tsr := (s_tsr s)\<lparr>t_sb_iodt := MAIN_SB_IODT (se_env env) (opt_u32 (s_options s) OPT_ADDR)\<rparr>\<rparr>"
  have k1: "tables_of s1 = tables_of ?s" by (rule start_sb_tables [OF s1])
  have f1: "flag_tables env s1 = flag_tables env s" using k1 by (simp add: tables_of_def flag_tables_def)
  have t1: "s_iopts s1 = Some (flag_tables env s1)" using k1 t f1 by (simp add: tables_of_def)
  obtain oks s2 where d: "do_traps env ?cs s1 = (oks, s2)" by fastforce
  have l: "length oks = length ?cs" and k2: "tables_of s2 = (Some (flag_tables env s1 @ installed (map fst (filter snd (zip ?cs oks)))), snd (tables_of s1))"
    using do_traps_install [OF sb_calls_tables sb_calls_distinct sb_calls_apart t1 d] by simp_all
  obtain tsr s3 h s4 pm s5 s6 s7 where x: "start_mux env (map of_nat [1..<256]) s2 = Inr (tsr, s3)" "start_audio env (put_hw h s3) = Inr s4"
      "start_isr env s4 = Inr (pm, s5)" "start_routing env s5 = Inr s6" "start_play env s6 = Inr s7"
      "start_finish env (zip ?cs oks) pm tsr s7 = Inr (e, s')"
    using r s1 d by (auto simp: start_emulation_def Let_def)
  have k7: "tables_of s7 = tables_of s2" using step_tables(1) [OF x(1)] step_tables(2) [OF x(2)] step_tables(3) [OF x(3)]
      step_tables(4) [OF x(4)] step_tables(5) [OF x(5)] by simp
  have t7: "s_iopts s7 = Some (flag_tables env s1 @ installed (map fst (filter snd (zip ?cs oks))))" using k7 k2 by (simp add: tables_of_iopts)
  have k: "tables_of s' = (Some (if e = Resident then flag_tables env s1 @ installed ?cs else flag_tables env s1), snd (tables_of s7))"
    and ex: "e \<noteq> Resident \<longrightarrow> e = Exited 1"
    using start_finish_tables [OF sb_calls_tables sb_calls_distinct sb_calls_apart l t7 x(6)] by simp_all
  have k1': "snd (tables_of s') = snd (tables_of s1)" using k k7 k2 by simp
  have "flag_tables env s' = flag_tables env s1" by (rule flag_tables_cong [OF k1'])
  moreover have "sb_calls env s' = ?cs" using k1' by (simp add: tables_of_def sb_calls_def)
  ultimately show "s_iopts s' = Some (if e = Resident then flag_tables env s' @ installed (sb_calls env s') else flag_tables env s')"
    using k by (simp add: tables_of_iopts)
  show "snd (tables_of s') = snd (tables_of ?s)" using k1' k1 by simp
  show "e \<noteq> Resident \<longrightarrow> e = Exited 1" by (rule ex)
qed

lemma cleanup_trap_tables:
  assumes "s_iopts s = Some ts" "call_table c = None" "b \<longrightarrow> call_iopt c \<in> fst ` set ts"
  shows "tables_of (cleanup_trap env b c s) = (Some (if b then filter (\<lambda>x. fst x \<noteq> call_iopt c) ts else ts), snd (tables_of s))"
proof -
  obtain ok s1 where c: "do_trap env c s = (ok, s1)" by fastforce
  have "tables_of s = (Some ts, snd (tables_of s))" using assms(1) by (simp add: tables_of_def)
  then show ?thesis using do_trap_tables [OF c] assms by (cases b) (simp_all add: cleanup_trap_def c trap_call_do_cases)
qed

lemma TSR_close_tables: "TSR_close te (s_main s) = Inr r \<Longrightarrow> tables_of (put_main r s) = tables_of s"
  by (auto simp: TSR_close_def Let_def)

text \<open>The tables of the flags are what the cleanup removes.\<close>

lemma cleanup_traps_tables:
  assumes t: "s_iopts s = Some (flag_tables env s)"
  shows "s_iopts (cleanup_traps env s) = Some []"
proof -
  define opl where "opl = opl_table (se_env env) (fm (m_fm_aui (s_main s)))"
  define mpu where "mpu = MAIN_MPUIODT (se_env env) (opt_u32 (s_options s) OPT_MPUADDR)"
  let ?a = "OPLRMInstalled (s_tsr s)" and ?b = "OPLPMInstalled (s_tsr s)" and ?c = "MPURMInstalled s" and ?d = "MPUPMInstalled s"
  define s2 where "s2 = cleanup_trap env ?a (QEMM_Uninstall OPL3IOPT) s"
  define s3 where "s3 = cleanup_trap env (OPLPMInstalled (s_tsr s2)) (HDPMI_Uninstall OPL3IOPT_PM) s2"
  define s4 where "s4 = cleanup_trap env (MPURMInstalled s3) (QEMM_Uninstall MPUIOPT) s3"
  have t1: "s_iopts s = Some ((if ?a then [(OPL3IOPT, opl)] else []) @ (if ?b then [(OPL3IOPT_PM, opl)] else []) @
      (if ?c then [(MPUIOPT, mpu)] else []) @ (if ?d then [(MPUIOPT_PM, mpu)] else []))"
    using t by (simp add: flag_tables_def opl_def mpu_def Let_def)
  have t2: "s_iopts s2 = Some ((if ?b then [(OPL3IOPT_PM, opl)] else []) @ (if ?c then [(MPUIOPT, mpu)] else []) @ (if ?d then [(MPUIOPT_PM, mpu)] else []))"
      and f2: "OPLPMInstalled (s_tsr s2) = ?b" and k2: "snd (tables_of s2) = snd (tables_of s)"
    using cleanup_trap_tables [OF t1, of "QEMM_Uninstall OPL3IOPT" ?a env] unfolding s2_def by (auto simp: tables_of_def)
  have t3: "s_iopts s3 = Some ((if ?c then [(MPUIOPT, mpu)] else []) @ (if ?d then [(MPUIOPT_PM, mpu)] else []))"
      and f3: "MPURMInstalled s3 = ?c" and k3: "snd (tables_of s3) = snd (tables_of s2)"
    using cleanup_trap_tables [OF t2, of "HDPMI_Uninstall OPL3IOPT_PM" "OPLPMInstalled (s_tsr s2)" env] f2 k2 unfolding s3_def by (auto simp: tables_of_def)
  have t4: "s_iopts s4 = Some (if ?d then [(MPUIOPT_PM, mpu)] else [])" and f4: "MPUPMInstalled s4 = ?d"
    using cleanup_trap_tables [OF t3, of "QEMM_Uninstall MPUIOPT" "MPURMInstalled s3" env] f3 k3 k2 unfolding s4_def by (auto simp: tables_of_def)
  have "s_iopts (cleanup_trap env (MPUPMInstalled s4) (HDPMI_Uninstall MPUIOPT_PM) s4) = Some []"
    using cleanup_trap_tables [OF t4, of "HDPMI_Uninstall MPUIOPT_PM" "MPUPMInstalled s4" env] f4 by (auto simp: tables_of_def)
  then show ?thesis unfolding cleanup_traps_def Let_def s4_def s3_def s2_def .
qed

lemma MAIN_Cleanup_tables:
  assumes t: "s_iopts s = Some (flag_tables env s)" and r: "MAIN_Cleanup env s = Inr s'"
  shows "s_iopts s' = Some []"
proof -
  obtain s1 x where s1: "tables_of s1 = tables_of s" and x: "on_guard (IRQGUARD_Uninstall (se_guard env)) (cleanup_traps env s1) = Inr (x, s')"
    using r unfolding MAIN_Cleanup_def Let_def by (auto dest!: on_au_tables TSR_close_tables)
  have "s_iopts s1 = Some (flag_tables env s1)" using s1 t by (simp add: tables_of_def flag_tables_def)
  then show ?thesis using on_guard_tables [OF x] cleanup_traps_tables by (simp add: tables_of_def)
qed

lemma installed_append: "installed (xs @ ys) = installed xs @ installed ys"
  by (simp add: installed_def)

lemma flag_tables_installed:
  assumes "OPLRMInstalled (s_tsr s) = (opl_trapped (fm (m_fm_aui (s_main s))) (t_fm388 (s_tsr s)) (s_options s) \<and> opt_on (s_options s) OPT_RM)"
    and "OPLPMInstalled (s_tsr s) = (opl_trapped (fm (m_fm_aui (s_main s))) (t_fm388 (s_tsr s)) (s_options s) \<and> opt_on (s_options s) OPT_PM)"
    and "MPURMInstalled s = (mpu_on (s_options s) \<and> opt_on (s_options s) OPT_RM)" "MPUPMInstalled s = (mpu_on (s_options s) \<and> opt_on (s_options s) OPT_PM)"
    and "t_sb_iodt (s_tsr s) = MAIN_SB_IODT (se_env env) (opt_u32 (s_options s) OPT_ADDR)"
  shows "flag_tables env s @ installed (sb_calls env s) =
    installed (MAIN_install (se_env env) (fm (m_fm_aui (s_main s))) (t_fm388 (s_tsr s)) (s_options s))"
proof -
  let ?os = "s_options s" and ?o = "opl_trapped (fm (m_fm_aui (s_main s))) (t_fm388 (s_tsr s)) (s_options s)"
  have "flag_tables env s = installed ((if ?o then install_opl (opt_on ?os OPT_RM) (opt_on ?os OPT_PM) (opl_table (se_env env) (fm (m_fm_aui (s_main s)))) else [])
      @ (if mpu_on ?os then install_mpu (opt_on ?os OPT_RM) (opt_on ?os OPT_PM) (opt_u32 ?os OPT_MPUADDR) (MAIN_MPUIODT (se_env env) (opt_u32 ?os OPT_MPUADDR)) else []))"
    unfolding flag_tables_def Let_def assms(1-4) by (simp add: install_opl_def install_mpu_def installed_def)
  moreover have "installed (sb_calls env s) = installed (install_sb (se_env env) (opt_on ?os OPT_RM) (opt_on ?os OPT_PM) (opt_u32 ?os OPT_ADDR)
      (if opt_on ?os OPT_OPL then MAIN_SB_IODT (se_env env) (opt_u32 ?os OPT_ADDR) else drop 4 (MAIN_SB_IODT (se_env env) (opt_u32 ?os OPT_ADDR))))"
    unfolding sb_calls_def Let_def assms(5) ..
  ultimately show ?thesis unfolding MAIN_install_def install_all_def Let_def installed_append by simp
qed

text \<open>What the theorem on the resident copy (theory Tsr) asks for.\<close>

definition ready :: "'h start_env \<Rightarrow> 'h start \<Rightarrow> bool" where
  "ready env s \<longleftrightarrow> (let t = s_tsr s; os = s_options s; hwfm = fm (m_fm_aui (s_main s)) in
     opl_flags_right hwfm (t_fm388 t) os t \<and> t_sb_iodt t = MAIN_SB_IODT (se_env env) (opt_u32 os OPT_ADDR) \<and>
     s_iopts s = trap_calls_do (MAIN_install (se_env env) hwfm (t_fm388 t) os) [] \<and> s_iopts s \<noteq> None)"

lemma start_steps_tables:
  assumes n: "no_flags s" and t: "s_iopts s = Some []" and r: "start_steps env s = Inr (e, s')"
  shows "if e = Resident then ready env s' else s_iopts s' = Some (flag_tables env s')"
proof -
  obtain e1 s1 where x: "then_step (start_irq env) (then_step (start_opl env) (start_mpu env)) s = Inr (e1, s1)"
      "case e1 of Some c \<Rightarrow> e = Exited c \<and> s' = s1 | None \<Rightarrow> start_emulation env s1 = Inr (e, s')"
    using r unfolding start_steps_def by (auto split: option.splits)
  obtain ei si where i: "start_irq env s = Inr (ei, si)" "ei = None \<longrightarrow> then_step (start_opl env) (start_mpu env) si = Inr (e1, s1)"
      "ei \<noteq> None \<longrightarrow> e1 = ei \<and> s1 = si" by (rule then_stepE [OF x(1)])
  have ki: "no_flags si" "s_iopts si = Some []" using start_irq_tables [OF i(1)] n t by (simp_all add: tables_of_def no_flags_def)
  have ti: "s_iopts si = Some (flag_tables env si)" using ki by (simp add: flag_tables_def no_flags_def)
  show ?thesis
  proof (cases ei)
    case (Some c)
    then show ?thesis using i(3) x(2) ti by simp
  next
    case None
    obtain eo so where o: "start_opl env si = Inr (eo, so)" "eo = None \<longrightarrow> start_mpu env so = Inr (e1, s1)" "eo \<noteq> None \<longrightarrow> e1 = eo \<and> s1 = so"
      using i(2) None by (auto elim!: then_stepE)
    note ko = start_opl_tables [OF ki o(1)]
    show ?thesis
    proof (cases eo)
      case (Some c)
      then show ?thesis using o(3) x(2) ko by simp
    next
      case eo: None
      have km: "s_iopts s1 = Some (flag_tables env s1) \<and> start_deps s1 = start_deps so \<and>
          OPLRMInstalled (s_tsr s1) = OPLRMInstalled (s_tsr so) \<and> OPLPMInstalled (s_tsr s1) = OPLPMInstalled (s_tsr so) \<and>
          (e1 = None \<longrightarrow> MPURMInstalled s1 = (mpu_on (s_options so) \<and> opt_on (s_options so) OPT_RM) \<and>
            MPUPMInstalled s1 = (mpu_on (s_options so) \<and> opt_on (s_options so) OPT_PM))"
        by (rule start_mpu_tables) (use ko o(2) eo in auto)
      show ?thesis
      proof (cases e1)
        case (Some c)
        then show ?thesis using x(2) km by simp
      next
        case e1: None
        have em: "start_emulation env s1 = Inr (e, s')" using x(2) e1 by simp
        note ke = start_emulation_tables [OF _ em]
        have t1: "s_iopts s1 = Some (flag_tables env s1)" using km by blast
        have d: "start_deps s1 = start_deps si" using km ko by simp
        show ?thesis
        proof (cases "e = Resident")
          case False
          then show ?thesis using ke(1) [OF t1] by simp
        next
          case True
          have f: "OPLRMInstalled (s_tsr s') = OPLRMInstalled (s_tsr s1)" "OPLPMInstalled (s_tsr s') = OPLPMInstalled (s_tsr s1)"
            "MPURMInstalled s' = MPURMInstalled s1" "MPUPMInstalled s' = MPUPMInstalled s1" "s_options s' = s_options s1"
            "t_sb_iodt (s_tsr s') = MAIN_SB_IODT (se_env env) (opt_u32 (s_options s1) OPT_ADDR)" "fm (m_fm_aui (s_main s')) = fm (m_fm_aui (s_main s1))"
            "t_fm388 (s_tsr s') = t_fm388 (s_tsr s1)"
            using ke(2) [OF t1] by (simp_all add: tables_of_def)
          have g: "s_options s1 = s_options si" "fm (m_fm_aui (s_main s1)) = fm (m_fm_aui (s_main si))" "t_fm388 (s_tsr s1) = t_fm388 (s_tsr si)"
            "s_options so = s_options si"
            using d ko by (simp_all add: start_deps_def)
          have "flag_tables env s' @ installed (sb_calls env s') =
              installed (MAIN_install (se_env env) (fm (m_fm_aui (s_main s'))) (t_fm388 (s_tsr s')) (s_options s'))"
            by (rule flag_tables_installed) (use f g km ko e1 eo in \<open>simp_all add: Let_def\<close>)
          then have "s_iopts s' = trap_calls_do (MAIN_install (se_env env) (fm (m_fm_aui (s_main s'))) (t_fm388 (s_tsr s')) (s_options s')) []"
            using ke(1) [OF t1] True by (simp add: MAIN_install_def MAIN_install_do)
          moreover have "s_iopts s' \<noteq> None" using ke(1) [OF t1] by simp
          moreover have "opl_flags_right (fm (m_fm_aui (s_main s'))) (t_fm388 (s_tsr s')) (s_options s') (s_tsr s')"
            using f g km ko eo by (simp add: opl_flags_right_def opl_trapped_def Let_def)
          ultimately show ?thesis using True f by (simp add: ready_def Let_def)
        qed
      qed
    qed
  qed
qed

lemma start_hosts_tables:
  "s_iopts (start_hosts env s) = s_iopts s \<and> no_flags (start_hosts env s) = no_flags s"
  by (auto simp: start_hosts_def no_flags_def put_opt_def put_main_def put_hw_def Let_def split: prod.splits)

lemma start_check_tables: "start_check env s = Inr (e, s') \<Longrightarrow> tables_of s' = tables_of s"
  by (auto simp: start_check_def Let_def split: prod.splits if_splits)

lemma start_search_tables: "start_search env s = Inr (e, s') \<Longrightarrow> s_iopts s' = s_iopts s \<and> no_flags s' = no_flags s"
  by (auto simp: start_search_def no_flags_def put_main_def Let_def split: prod.splits)

text \<open>C10: The start is all or nothing: whichever installations fail, a program that ends has no trap table left installed, and no table was
  ever installed twice or removed while it was not there; a program that stays resident has all the tables of its options installed,
  and its flags and its table of the Sound Blaster are as the changes of the settings later rely on (theory Tsr).\<close>

theorem start_all_or_nothing:
  assumes "no_flags s" and "s_iopts s = Some []" and "MAIN_start env s = Inr (e, s')"
  shows "if e = Resident then ready env s' else s_iopts s' = Some []"
proof -
  let ?s = "start_hosts env s"
  have h: "no_flags ?s" "s_iopts ?s = Some []" using start_hosts_tables [of env s] assms(1,2) by simp_all
  obtain e1 s1 where t: "then_step (start_check env) (start_search env) ?s = Inr (e1, s1)" and c: "(case e1 of Some c \<Rightarrow> Inr (Exited c, s1)
      | None \<Rightarrow> bindE (start_steps env s1) (\<lambda>(e, s). case e of Resident \<Rightarrow> Inr (Resident, s)
          | Exited c \<Rightarrow> bindE (MAIN_Cleanup env s) (\<lambda>s. Inr (Exited c, s)))) = Inr (e, s')"
    using assms(3) unfolding MAIN_start_def by auto
  have k: "no_flags s1 \<and> s_iopts s1 = Some []"
  proof (rule then_stepE [OF t])
    fix e0 s0
    assume c: "start_check env ?s = Inr (e0, s0)" "e0 = None \<longrightarrow> start_search env s0 = Inr (e1, s1)" "e0 \<noteq> None \<longrightarrow> e1 = e0 \<and> s1 = s0"
    have "no_flags s0 \<and> s_iopts s0 = Some []" using start_check_tables [OF c(1)] h by (simp add: tables_of_def no_flags_def)
    then show ?thesis using c start_search_tables by (cases e0) auto
  qed
  show ?thesis
  proof (cases e1)
    case (Some x)
    then show ?thesis using c k by auto
  next
    case None
    then obtain e2 s2 where y: "start_steps env s1 = Inr (e2, s2)" "(case e2 of Resident \<Rightarrow> Inr (Resident, s2)
        | Exited c \<Rightarrow> bindE (MAIN_Cleanup env s2) (\<lambda>s. Inr (Exited c, s))) = Inr (e, s')" using c by auto
    note st = start_steps_tables [OF _ _ y(1)]
    show ?thesis
    proof (cases e2)
      case Resident
      then show ?thesis using st k y(2) by auto
    next
      case (Exited x)
      then show ?thesis using st k y(2) MAIN_Cleanup_tables by auto
    qed
  qed
qed

section \<open>Examples\<close>

lemma tsr_search_none:
  "(\<And>i d. i \<in> set is \<Longrightarrow> reg_al (fst (DPMI_CallRealModeINT (c_ops c) 0x2D (set_ah i reg_zero) d)) = 0 \<and>
     snd (DPMI_CallRealModeINT (c_ops c) 0x2D (set_ah i reg_zero) d) = d) \<Longrightarrow> tsr_search c own is d = (None, d)"
  by (induction "is") (auto simp: case_prod_beta Let_def)

text \<open>A machine with both memory managers, where the DPMI host refuses every trap: the table of FM is in for real mode, is refused for
  protected mode, and is out again at the end.\<close>

definition ops_unit :: "unit rm_ops" where
  "ops_unit = \<lparr>rm_int = (\<lambda>_ r d. (r, d)), rm_retf = (\<lambda>r d. (r, d)), rm_code = (\<lambda>_ _. 0), dos_alloc = (\<lambda>_ d. ((-1, 0), d)), dos_free = (\<lambda>_ d. d)\<rparr>"

definition start_env_demo :: "unit start_env" where
  "start_env_demo = \<lparr>se_tsr = tsr_env_demo, se_qemm_version = (\<lambda>h. (0x0800, h)),
     se_hdpmi = \<lparr>hp_vendor = (\<lambda>d. ((True, 1, 1), d)), hp_install = (\<lambda>_ _ d. (0, d)), hp_uninstall = (\<lambda>_ d. (True, d)), hp_out = (\<lambda>_ _ d. d),
       hp_in = (\<lambda>_ d. (0, d)), hp_irq_set = (\<lambda>_ _ _ _ d. (True, d)), hp_irq_get = (\<lambda>_ d. (None, d)), hp_irq_lock = (\<lambda>_ d. (True, d))\<rparr>,
     se_trap = (\<lambda>c h. (case c of HDPMI_Install a b t p \<Rightarrow> False | _ \<Rightarrow> True, h)),
     se_AU_init = (\<lambda>r. ((True, Some pci_config_zero, False), r)),
     se_bios = \<lparr>b_int386 = (\<lambda>_ r d. (r, d)), b_ops = ops_unit, b_pci = \<lparr>p_outl = (\<lambda>_ _ h. h), p_inl = (\<lambda>_ h. (0, h))\<rparr>,
       b_io = quiet_io, b_get = (\<lambda>_ _. 0), b_put = (\<lambda>_ _ d. d), b_malloc = (\<lambda>_. True)\<rparr>,
     se_client = \<lparr>c_ops = ops_unit, c_same_id = (\<lambda>_ _ _. False), c_read = (\<lambda>_ _. default_options), c_put = (\<lambda>_ d. (0, d)), c_blaster = (\<lambda>_ d. d)\<rparr>,
     se_go32 = \<lparr>go_cs = 0, go_iret_wrapper = (\<lambda>si d. ((0, si), d)), go_free_iret = (\<lambda>_ d. (0, d)), go_callback = (\<lambda>_ si d. ((0, si), d)),
       go_free_callback = (\<lambda>_ d. (0, d)), go_get_pm = (\<lambda>_ _. (0, 0)), go_set_pm = (\<lambda>_ _ d. (0, d)), go_chain_pm = (\<lambda>_ si d. ((0, si), d))\<rparr>,
     se_guard = \<lparr>g_debug = False, g_ops = ops_unit, g_dpmi = \<lparr>physical = False, maps = []\<rparr>, g_get_vec = (\<lambda>_ _. (0, 0)), g_set_vec = (\<lambda>_ _ m. (0, m)),
       g_code_lin = 0, g_codesize = 0, g_handle_lin = 0\<rparr>,
     se_debug = False, se_tsr_isr = 1, se_tsr_reg = 1, se_card_isr = 1, se_dosid = 0, se_DPMI_TSR = (\<lambda>h. (False, h))\<rparr>"

definition rh_zero :: HDPMIPT_IRQRoutedHandle where
  "rh_zero = \<lparr>rh_offset = 0, rh_cs = 0, rh_rmoffset = 0, rh_rmcs = 0, rh_valid = False\<rparr>"

definition start_demo :: "unit start" where
  "start_demo = \<lparr>s_tsr = tsr_demo\<lparr>OPLRMInstalled := False, OPLPMInstalled := False\<rparr>, s_virq = virq_initial, s_iopts = Some [],
     MPURMInstalled = False, MPUPMInstalled = False,
     s_hdpmi = \<lparr>h_nodes = (\<lambda>_. None, 1), h_edi = 0, h_es = 0, h_TrapFlags = 0, h_RoutingCache = (\<lambda>_. rh_zero), h_world = ()\<rparr>,
     s_guard = guard_init reg_zero () (\<lambda>_. 0), s_pci_dev = None, OldRoutedHandle = rh_zero, OldRoutedHandle5 = rh_zero,
     OldRoutedHandle7 = rh_zero, OldRoutedHandle9 = rh_zero, MAIN_TSR_INT_FNO = 1, MAIN_ISR_DOSID = 0, MAIN_TSRIntHandle = isr_zero,
     MAIN_IntHandlePM = isr_zero\<rparr>"

lemma start_demo_simps [simp]:
  "s_options start_demo = default_options" "s_tsr start_demo = tsr_demo\<lparr>OPLRMInstalled := False, OPLPMInstalled := False\<rparr>"
  "s_iopts start_demo = Some []" "s_hw start_demo = ()"
  by (simp_all add: start_demo_def)

lemma set_default:
  "opt_value default_options i = v \<Longrightarrow> set_value i v default_options = default_options"
  by (simp add: fun_upd_idem)

lemma put_unit [simp]: "put_hw () s = (s :: unit start)"
  by (simp add: put_hw_def put_main_def set_hw_def)

definition demo_state :: "unit start \<Rightarrow> bool" where
  "demo_state s \<longleftrightarrow> opt_value (s_options s) OPT_RM = 1 \<and> opt_value (s_options s) OPT_PM = 1 \<and> opt_value (s_options s) OPT_OPL = 1 \<and>
     opt_value (s_options s) OPT_IRQ = 7 \<and> m_aui (s_main s) = aui0 \<and> m_fm_aui (s_main s) = aui0 \<and> m_mpu401_aui (s_main s) = aui0 \<and>
     m_glb (s_main s) = glb0 \<and> OldRoutedHandle s = rh_zero \<and> OldRoutedHandle5 s = rh_zero \<and> OldRoutedHandle7 s = rh_zero \<and>
     OldRoutedHandle9 s = rh_zero \<and> \<not> IRQGUARD_Installed (s_guard s)"

lemma demo_main_simps: "m_options main_demo = default_options" "m_aui main_demo = aui0" "m_fm_aui main_demo = aui0" "m_mpu401_aui main_demo = aui0"
  "m_glb main_demo = glb0" "t_main tsr_demo = main_demo"
  by (simp_all add: main_demo_def tsr_demo_def)

lemma start_demo_hosts: "demo_state (start_hosts start_env_demo start_demo)"
  by (simp add: demo_state_def start_hosts_def Let_def opt_on_def put_opt_def put_main_def HDPMIPT_Detect_def start_env_demo_def demo_main_simps)
    (simp add: start_demo_def guard_init_def)

lemma start_demo_check: "demo_state s \<Longrightarrow> start_check start_env_demo s = Inr (None, s)"
proof -
  assume d: "demo_state s"
  have n: "MAIN_TSR_InstallationCheck (se_client start_env_demo) os () = (None, ())" for os
    unfolding MAIN_TSR_InstallationCheck_def
    by (rule tsr_search_none) (simp add: start_env_demo_def ops_unit_def DPMI_CallRealModeINT_def reg_al_def set_ah_def reg_zero_def)
  show ?thesis using d by (simp add: start_check_def Let_def n opt_on_def demo_state_def)
qed

lemma start_demo_search:
  "demo_state s \<Longrightarrow> \<exists>s'. start_search start_env_demo s = Inr (None, s') \<and> demo_state s' \<and> s_pci_dev s' = Some pci_config_zero \<and> \<not> t_fm388 (s_tsr s')"
  by (simp add: start_search_def start_env_demo_def put_main_def demo_state_def)

lemma start_demo_irq: "demo_state s \<Longrightarrow> s_pci_dev s = Some pci_config_zero \<Longrightarrow> start_irq start_env_demo s = Inr (None, s)"
  by (simp add: start_irq_def demo_state_def aui0_def Aucards.deref_def)

lemma start_demo_opl:
  assumes "demo_state s" "\<not> t_fm388 (s_tsr s)"
  shows "\<exists>s'. start_opl start_env_demo s = Inr (Some 1, s') \<and> demo_state s'"
proof -
  have "opl_trapped (fm (m_fm_aui (s_main s))) (t_fm388 (s_tsr s)) (s_options s)" "opt_on (s_options s) OPT_RM" "opt_on (s_options s) OPT_PM"
    using assms by (simp_all add: opl_trapped_def opt_on_def demo_state_def)
  then show ?thesis using assms(1)
    by (simp add: start_opl_def then_step_def install_flag_def do_trap_def start_env_demo_def demo_state_def)
qed

lemma start_demo_cleanup: "demo_state s \<Longrightarrow> \<exists>s'. MAIN_Cleanup start_env_demo s = Inr s'"
proof -
  assume d: "demo_state s"
  have r: "\<not> rh_valid rh_zero" by (simp add: rh_zero_def)
  have p: "put_routed start_env_demo irq rh_zero s = s" for irq s using r by (simp add: put_routed_def)
  let ?g = "glb0\<lparr>playcontrol := funcbit_disable (playcontrol glb0) PLAYC_RUNNING\<rparr>"
  have stop: "AU_stop (Some ring_card) (aui0, g) = Inr (aui0, g\<lparr>playcontrol := funcbit_disable (playcontrol g) PLAYC_RUNNING\<rparr>)" for g
    by (simp add: AU_stop_def upd_glb_def aui0_def funcbit_test_def Let_def)
  have c: "e_card (se_env start_env_demo) = Some ring_card" "e_fm_card (se_env start_env_demo) = None" "e_mpu_card (se_env start_env_demo) = None"
    by (simp_all add: start_env_demo_def tsr_env_demo_def env_demo_def)
  have a: "on_au (AU_stop (Some ring_card)) s = Inr (put_main ((s_main s)\<lparr>m_aui := aui0, m_glb := ?g\<rparr>) s)"
    using d by (simp add: on_au_def stop demo_state_def)
  have cl: "card_close ring_card = None" by (simp add: ring_card_def)
  have z: "\<exists>r. TSR_close (se_tsr start_env_demo) ((s_main s)\<lparr>m_aui := aui0, m_glb := ?g\<rparr>) = Inr r" 
    unfolding TSR_close_def Let_def AU_close_def c by (simp add: stop card_close_if_def call_if_def cl)
  then obtain r where z: "TSR_close (se_tsr start_env_demo) ((s_main s)\<lparr>m_aui := aui0, m_glb := ?g\<rparr>) = Inr r" by blast
  have g1: "s_guard (cleanup_trap start_env_demo b k s) = s_guard s" for b k s
    by (simp add: cleanup_trap_def do_trap_def Let_def case_prod_beta)
  have g: "s_guard (cleanup_traps start_env_demo s) = s_guard s" for s
    unfolding cleanup_traps_def Let_def by (simp only: g1)
  have gi: "\<exists>s'. on_guard (IRQGUARD_Uninstall (se_guard start_env_demo)) s = Inr (False, s')" if "\<not> IRQGUARD_Installed (s_guard s)" for s :: "unit start"
    using that by (simp add: on_guard_def IRQGUARD_Uninstall_def)
  have m: "s_main (put_main r s) = r" for r and s :: "unit start" by (simp add: put_main_def)
  let ?s1 = "put_main ((s_main s)\<lparr>m_aui := aui0, m_glb := ?g\<rparr>) s"
  have "\<not> IRQGUARD_Installed (s_guard (cleanup_traps start_env_demo (put_main r ?s1)))"
    using d unfolding g by (simp add: put_main_def demo_state_def)
  from gi [OF this] obtain s' where u: "on_guard (IRQGUARD_Uninstall (se_guard start_env_demo)) (cleanup_traps start_env_demo (put_main r ?s1)) = Inr (False, s')" ..
  have h: "OldRoutedHandle s = rh_zero" "OldRoutedHandle5 s = rh_zero" "OldRoutedHandle7 s = rh_zero" "OldRoutedHandle9 s = rh_zero"
    using d by (simp_all add: demo_state_def)
  show ?thesis unfolding MAIN_Cleanup_def Let_def h p c(1) a bindE_simps m z u prod.case by blast
qed

theorem start_all_or_nothing_witness:
  "\<exists>s'. MAIN_start start_env_demo start_demo = Inr (Exited 1, s') \<and> s_iopts s' = Some []"
proof -
  define s0 where "s0 = start_hosts start_env_demo start_demo"
  have s0: "demo_state s0" unfolding s0_def by (rule start_demo_hosts)
  obtain s1 where s1: "start_search start_env_demo s0 = Inr (None, s1)" "demo_state s1" "s_pci_dev s1 = Some pci_config_zero" "\<not> t_fm388 (s_tsr s1)"
    using start_demo_search [OF s0] by blast
  obtain s2 where s2: "start_opl start_env_demo s1 = Inr (Some 1, s2)" "demo_state s2" using start_demo_opl [OF s1(2,4)] by blast
  obtain s' where s': "MAIN_Cleanup start_env_demo s2 = Inr s'" using start_demo_cleanup [OF s2(2)] by blast
  have r: "MAIN_start start_env_demo start_demo = Inr (Exited 1, s')"
    unfolding MAIN_start_def s0_def [symmetric] then_step_def start_demo_check [OF s0] bindE_simps prod.case option.case s1(1)
      start_steps_def start_demo_irq [OF s1(2,3)] s2(1) start_end.case s' ..
  moreover have "no_flags start_demo" "s_iopts start_demo = Some []" by (simp_all add: start_demo_def no_flags_def)
  ultimately show ?thesis using start_all_or_nothing [of start_demo start_env_demo "Exited 1" s'] by simp
qed

text \<open>Where the copy of the identification string gets no memory, it goes over the real-mode vectors.\<close>

lemma start_dosid_no_memory:
  assumes "DPMI_HighMalloc (g_ops (se_guard env)) 3 False (g_xms (s_guard s), s_hw s) = Inr (0, x, d)"
    and "\<not> physical (g_dpmi (se_guard env))"
  shows "start_dosid env s = bindE (DPMI_CopyLinear (g_dpmi (se_guard env)) (g_mem (s_guard s)) 0 (se_dosid env) dosid_size)
    (\<lambda>m. Inr ((put_hw d (s\<lparr>s_guard := (s_guard s)\<lparr>g_xms := x, g_world := d, g_mem := m\<rparr>\<rparr>))\<lparr>MAIN_ISR_DOSID := 0\<rparr>))"
proof -
  have "ucast (drop_bit 4 (dosid_size + 15)) = (3 :: u16)" by (simp add: dosid_size_def)
  moreover have "DPMI_SEGOFF2L 0 0 = 0" by (simp add: DPMI_SEGOFF2L_def)
  ultimately show ?thesis using assms(1)
    by (cases "DPMI_CopyLinear (g_dpmi (se_guard env)) (g_mem (s_guard s)) 0 (se_dosid env) dosid_size")
      (simp_all add: start_dosid_def on_mem_def on_guard_def)
qed

text \<open>Without the option for real mode the memory manager counts as present, whatever it is.\<close>

lemma qemm_present_unchecked: "\<not> opt_on (s_options s) OPT_RM \<Longrightarrow> t_qemm_present (s_tsr (start_hosts env s))"
  by (auto simp: start_hosts_def put_opt_def put_main_def put_hw_def Let_def split: prod.splits)

text \<open>The vectors of the interrupts are not those with the same number.\<close>

lemma vector_of_irq: "irq \<in> {5, 7, 9} \<Longrightarrow> PIC_IRQ2VEC irq \<noteq> irq"
  by (auto simp: PIC_IRQ2VEC_def)

end
