(* ===== verification/Strings.thy ===== *)
theory Strings
  imports Dpmi "HOL-Library.Sublist"
begin

text \<open>
  The string routines of \<open>src/mpxplay/au_cards/au_base.c\<close>, over the byte memory: a pointer
  is an address, 0 is the null pointer, \<open>char\<close> is signed where the source compares two
  of them and unsigned where it casts. A loop that looks for the end of a string has no
  result when it does not end. Routines that write answer the new memory.
\<close>

section \<open>The loops\<close>

definition uc :: "u8 \<Rightarrow> u8" where
  "uc c = (if 0x61 \<le> c \<and> c \<le> 0x7A then c - 32 else c)"

partial_function (option) strlen_loop :: "mem \<Rightarrow> u32 \<Rightarrow> u32 option" where
  "strlen_loop m p = (if m (p + 1) \<noteq> 0 then strlen_loop m (p + 1) else Some (p + 1))"

definition pds_strlen :: "mem \<Rightarrow> u32 \<Rightarrow> u32 option" where
  "pds_strlen m strp =
     (if strp = 0 \<or> m strp = 0 then Some 0 else map_option (\<lambda>q. q - strp) (strlen_loop m strp))"

partial_function (option) strcpy_loop :: "u32 \<Rightarrow> u32 \<Rightarrow> mem \<Rightarrow> (u32 \<times> mem) option" where
  "strcpy_loop dest src m =
     (let c = m src; m = m(dest := c) in
      if c = 0 then Some (src, m) else strcpy_loop (dest + 1) (src + 1) m)"

definition pds_strcpy :: "u32 \<Rightarrow> u32 \<Rightarrow> mem \<Rightarrow> (u32 \<times> mem) option" where
  "pds_strcpy dest src m =
     (if dest = 0 then Some (0, m)
      else if src = 0 then Some (0, m(dest := 0))
      else map_option (\<lambda>(e, m). (e - src, m)) (strcpy_loop dest src m))"

text \<open>Backwards, from the ends of the two strings.\<close>

primrec strmove_loop :: "nat \<Rightarrow> u32 \<Rightarrow> u32 \<Rightarrow> mem \<Rightarrow> mem" where
  "strmove_loop 0 dest src m = m"
| "strmove_loop (Suc n) dest src m =
     strmove_loop n (dest - 1) (src - 1) (m(dest - 1 := m (src - 1)))"

definition pds_strmove :: "u32 \<Rightarrow> u32 \<Rightarrow> mem \<Rightarrow> (u32 \<times> mem) option" where
  "pds_strmove dest src m =
     (if dest = 0 then Some (0, m)
      else if src = 0 then Some (0, m(dest := 0))
      else if dest < src then pds_strcpy dest src m
      else case pds_strlen m src of None \<Rightarrow> None
        | Some n \<Rightarrow> (let len = n + 1 in Some (len, strmove_loop (unat len) (dest + len) (src + len) m)))"

primrec strncpy_loop :: "nat \<Rightarrow> u32 \<Rightarrow> u32 \<Rightarrow> mem \<Rightarrow> u32 \<times> mem" where
  "strncpy_loop 0 dest src m = (src, m)"
| "strncpy_loop (Suc n) dest src m =
     (let c = m src; m = m(dest := c) in
      if c = 0 then (src, m) else strncpy_loop n (dest + 1) (src + 1) m)"

definition pds_strncpy :: "u32 \<Rightarrow> u32 \<Rightarrow> u32 \<Rightarrow> mem \<Rightarrow> u32 \<times> mem" where
  "pds_strncpy dest src maxlen m =
     (if dest = 0 \<or> maxlen = 0 then (0, m)
      else if src = 0 then (0, m(dest := 0))
      else let (e, m) = strncpy_loop (unat maxlen) dest src m in (e - src, m))"

definition pds_strcat :: "u32 \<Rightarrow> u32 \<Rightarrow> mem \<Rightarrow> (u32 \<times> mem) option" where
  "pds_strcat strp1 strp2 m =
     (if strp1 = 0 \<or> strp2 = 0 then Some (0, m)
      else case pds_strlen m strp1 of None \<Rightarrow> None | Some n \<Rightarrow> pds_strcpy (strp1 + n) strp2 m)"

definition pds_strchknull :: "mem \<Rightarrow> u32 \<Rightarrow> u32 \<Rightarrow> int" where
  "pds_strchknull m s1 s2 =
     (if s1 = 0 \<or> m s1 = 0 then if s2 \<noteq> 0 \<and> m s2 \<noteq> 0 then - 1 else 0
      else if s2 = 0 \<or> m s2 = 0 then if s1 \<noteq> 0 \<and> m s1 \<noteq> 0 then 1 else 0
      else 2)"

text \<open>The comparing routines start with that check.\<close>

definition with_chknull :: "mem \<Rightarrow> u32 \<Rightarrow> u32 \<Rightarrow> int option \<Rightarrow> int option" where
  "with_chknull m s1 s2 r = (let retcode = pds_strchknull m s1 s2 in if retcode \<noteq> 2 then Some retcode else r)"

partial_function (option) strcmp_loop :: "mem \<Rightarrow> u32 \<Rightarrow> u32 \<Rightarrow> int option" where
  "strcmp_loop m s1 s2 =
     (let c1 = m s1; c2 = m s2 in
      if c1 = 0 \<or> c1 \<noteq> c2 then Some (uint c1 - uint c2) else strcmp_loop m (s1 + 1) (s2 + 1))"

definition pds_strcmp :: "mem \<Rightarrow> u32 \<Rightarrow> u32 \<Rightarrow> int option" where
  "pds_strcmp m strp1 strp2 = with_chknull m strp1 strp2 (strcmp_loop m strp1 strp2)"

partial_function (option) stricmp_loop :: "mem \<Rightarrow> u32 \<Rightarrow> u32 \<Rightarrow> int option" where
  "stricmp_loop m s1 s2 =
     (let c1 = m s1; c2 = m s2 in
      if c1 = 0 then Some (uint c1 - uint c2)
      else if uc c1 = uc c2 then stricmp_loop m (s1 + 1) (s2 + 1)
      else Some (uint (uc c1) - uint (uc c2)))"

definition pds_stricmp :: "mem \<Rightarrow> u32 \<Rightarrow> u32 \<Rightarrow> int option" where
  "pds_stricmp m strp1 strp2 = with_chknull m strp1 strp2 (stricmp_loop m strp1 strp2)"

partial_function (option) pds_stri_compare :: "mem \<Rightarrow> u32 \<Rightarrow> u32 \<Rightarrow> u32 option" where
  "pds_stri_compare m s1 s2 =
     (let c1 = m s1; c2 = m s2 in
      if c1 \<noteq> c2 \<and> uc c1 \<noteq> uc c2 then Some 0
      else let (d1, d2) = (if c1 \<noteq> c2 then (uc c1, uc c2) else (c1, c2)) in
        if d1 \<noteq> 0 \<and> d2 \<noteq> 0 then pds_stri_compare m (s1 + 1) (s2 + 1) else Some 1)"

text \<open>Signed comparison of two different characters.\<close>

definition char_cmp :: "u8 \<Rightarrow> u8 \<Rightarrow> int" where
  "char_cmp c1 c2 = (if sint c1 < sint c2 then - 1 else 1)"

partial_function (option) end_of :: "mem \<Rightarrow> u32 \<Rightarrow> u32 option" where
  "end_of m p = (if m p \<noteq> 0 then end_of m (p + 1) else Some p)"

partial_function (option) rtrim :: "mem \<Rightarrow> u32 \<Rightarrow> u32 option" where
  "rtrim m p = (if m p = 0 \<or> m p = 32 then rtrim m (p - 1) else Some p)"

partial_function (option) strricmp_loop :: "mem \<Rightarrow> u32 \<Rightarrow> u32 \<Rightarrow> u32 \<Rightarrow> u32 \<Rightarrow> int option" where
  "strricmp_loop m str1 str2 p1 p2 =
     (if p1 \<ge> str1 \<and> p2 \<ge> str2
      then let c1 = uc (m p1); c2 = uc (m p2) in
        if c1 \<noteq> c2 then Some (char_cmp c1 c2) else strricmp_loop m str1 str2 (p1 - 1) (p2 - 1)
      else Some 0)"

definition pds_strricmp :: "mem \<Rightarrow> u32 \<Rightarrow> u32 \<Rightarrow> int option" where
  "pds_strricmp m str1 str2 = with_chknull m str1 str2
     (case Option.bind (end_of m str1) (rtrim m) of None \<Rightarrow> None | Some p1 \<Rightarrow>
      if p1 \<le> str1 then Some 1
      else case Option.bind (end_of m str2) (rtrim m) of None \<Rightarrow> None | Some p2 \<Rightarrow>
        if p2 \<le> str2 then Some (- 1) else strricmp_loop m str1 str2 p1 p2)"

partial_function (option) strlicmp_loop :: "mem \<Rightarrow> u32 \<Rightarrow> u32 \<Rightarrow> int option" where
  "strlicmp_loop m s1 s2 =
     (let c1 = m s1; c2 = m s2 in
      if c1 = 0 \<or> c2 = 0 then Some 0
      else if c1 \<noteq> c2 \<and> uc c1 \<noteq> uc c2 then Some (char_cmp (uc c1) (uc c2))
      else strlicmp_loop m (s1 + 1) (s2 + 1))"

definition pds_strlicmp :: "mem \<Rightarrow> u32 \<Rightarrow> u32 \<Rightarrow> int option" where
  "pds_strlicmp m str1 str2 = with_chknull m str1 str2 (strlicmp_loop m str1 str2)"

primrec strncmp_loop :: "(u8 \<Rightarrow> u8) \<Rightarrow> nat \<Rightarrow> mem \<Rightarrow> u32 \<Rightarrow> u32 \<Rightarrow> int" where
  "strncmp_loop f 0 m s1 s2 = 0"
| "strncmp_loop f (Suc n) m s1 s2 =
     (let c1 = m s1; c2 = m s2 in
      if c1 \<noteq> c2 \<and> f c1 \<noteq> f c2 then char_cmp (f c1) (f c2)
      else if c1 \<noteq> 0 \<and> c2 \<noteq> 0 then strncmp_loop f n m (s1 + 1) (s2 + 1) else 0)"

definition pds_strncmp :: "mem \<Rightarrow> u32 \<Rightarrow> u32 \<Rightarrow> u32 \<Rightarrow> int option" where
  "pds_strncmp m strp1 strp2 counter =
     with_chknull m strp1 strp2 (Some (strncmp_loop (\<lambda>c. c) (unat counter) m strp1 strp2))"

definition pds_strnicmp :: "mem \<Rightarrow> u32 \<Rightarrow> u32 \<Rightarrow> u32 \<Rightarrow> int option" where
  "pds_strnicmp m strp1 strp2 counter =
     with_chknull m strp1 strp2 (Some (strncmp_loop uc (unat counter) m strp1 strp2))"

partial_function (option) strlenc_loop :: "mem \<Rightarrow> u8 \<Rightarrow> u32 \<Rightarrow> u32 \<Rightarrow> u32 option" where
  "strlenc_loop m seek lastp p =
     (let lastp = (if m p \<noteq> seek then p else lastp) in
      if m (p + 1) \<noteq> 0 then strlenc_loop m seek lastp (p + 1) else Some lastp)"

definition pds_strlenc :: "mem \<Rightarrow> u32 \<Rightarrow> u8 \<Rightarrow> u32 option" where
  "pds_strlenc m strp seek =
     (if strp = 0 \<or> m strp = 0 then Some 0
      else map_option (\<lambda>q. if q = 0 then 0 else q - strp + 1) (strlenc_loop m seek 0 strp))"

partial_function (option) strchr_loop :: "mem \<Rightarrow> u32 \<Rightarrow> u8 \<Rightarrow> u32 option" where
  "strchr_loop m p seek =
     (let c = m p in if c = seek then Some p else if c = 0 then Some 0 else strchr_loop m (p + 1) seek)"

definition pds_strchr :: "mem \<Rightarrow> u32 \<Rightarrow> u8 \<Rightarrow> u32 option" where
  "pds_strchr m strp seek = (if strp = 0 then Some 0 else strchr_loop m strp seek)"

partial_function (option) strrchr_loop :: "mem \<Rightarrow> u8 \<Rightarrow> u32 \<Rightarrow> u32 \<Rightarrow> u32 option" where
  "strrchr_loop m seek foundp p =
     (let foundp = (if m p = seek then p else foundp) in
      if m (p + 1) \<noteq> 0 then strrchr_loop m seek foundp (p + 1) else Some foundp)"

definition pds_strrchr :: "mem \<Rightarrow> u32 \<Rightarrow> u8 \<Rightarrow> u32 option" where
  "pds_strrchr m strp seek =
     (if strp = 0 \<or> m strp = 0 then Some 0 else strrchr_loop m seek 0 strp)"

primrec strnchr_loop :: "nat \<Rightarrow> mem \<Rightarrow> u8 \<Rightarrow> u32 \<Rightarrow> u32" where
  "strnchr_loop 0 m seek p = 0"
| "strnchr_loop (Suc n) m seek p =
     (if m p = seek then p else if m (p + 1) \<noteq> 0 then strnchr_loop n m seek (p + 1) else 0)"

definition pds_strnchr :: "mem \<Rightarrow> u32 \<Rightarrow> u8 \<Rightarrow> u32 \<Rightarrow> u32" where
  "pds_strnchr m strp seek len =
     (if strp = 0 \<or> m strp = 0 \<or> len = 0 then 0 else strnchr_loop (unat len) m seek strp)"

text \<open>The search for a string: the inner loop finds the pattern at this place, finds a
  difference, or meets the end of the string. \<open>f\<close> is the identity or the conversion to upper case.\<close>

datatype match = Match | Mismatch | Ended

partial_function (option) strstr_inner :: "(u8 \<Rightarrow> u8) \<Rightarrow> mem \<Rightarrow> u32 \<Rightarrow> u32 \<Rightarrow> match option" where
  "strstr_inner f m s1p s2p =
     (let c2 = m (s2p + 1) in
      if c2 = 0 then Some Match
      else let c1 = m (s1p + 1) in
        if c1 = 0 then Some Ended
        else if f c1 \<noteq> f c2 then Some Mismatch else strstr_inner f m (s1p + 1) (s2p + 1))"

partial_function (option) strstr_loop :: "(u8 \<Rightarrow> u8) \<Rightarrow> mem \<Rightarrow> u32 \<Rightarrow> u32 \<Rightarrow> u32 option" where
  "strstr_loop f m s1 s2 =
     (let c1 = m s1 in
      if c1 = 0 then Some 0
      else if f c1 = f (m s2)
        then (case strstr_inner f m s1 s2 of None \<Rightarrow> None
          | Some r \<Rightarrow> (case r of Match \<Rightarrow> Some s1 | Ended \<Rightarrow> Some 0 | Mismatch \<Rightarrow> strstr_loop f m (s1 + 1) s2))
      else strstr_loop f m (s1 + 1) s2)"

definition pds_strstr :: "mem \<Rightarrow> u32 \<Rightarrow> u32 \<Rightarrow> u32 option" where
  "pds_strstr m s1 s2 =
     (if s1 \<noteq> 0 \<and> s2 \<noteq> 0 \<and> m s2 \<noteq> 0 then strstr_loop (\<lambda>c. c) m s1 s2 else Some 0)"

definition pds_strstri :: "mem \<Rightarrow> u32 \<Rightarrow> u32 \<Rightarrow> u32 option" where
  "pds_strstri m s1 s2 =
     (if s1 \<noteq> 0 \<and> s2 \<noteq> 0 \<and> m s2 \<noteq> 0 then strstr_loop uc m s1 s2 else Some 0)"

text \<open>Cutting the spaces at both ends of a string in place.\<close>

partial_function (option) skip_spaces :: "mem \<Rightarrow> u32 \<Rightarrow> u32 option" where
  "skip_spaces m p = (if m p \<noteq> 0 \<and> m p = 32 then skip_spaces m (p + 1) else Some p)"

partial_function (option) cut_move :: "u32 \<Rightarrow> u32 \<Rightarrow> mem \<Rightarrow> (u32 \<times> mem) option" where
  "cut_move dp src m =
     (let c = m src; m = m(dp := c) in
      if c \<noteq> 0 then cut_move (dp + 1) (src + 1) m else Some (dp + 1, m))"

partial_function (option) last_of :: "mem \<Rightarrow> u32 \<Rightarrow> u32 option" where
  "last_of m p = (if m (p + 1) \<noteq> 0 then last_of m (p + 1) else Some p)"

partial_function (option) cut_tail :: "u32 \<Rightarrow> u32 \<Rightarrow> mem \<Rightarrow> (u32 \<times> mem) option" where
  "cut_tail dest dp m =
     (if m dp = 32 \<and> dp \<ge> dest then cut_tail dest (dp - 1) (m(dp := 0)) else Some (dp, m))"

definition pds_strcutspc :: "u32 \<Rightarrow> mem \<Rightarrow> (u32 \<times> mem) option" where
  "pds_strcutspc dest m =
     (if dest = 0 then Some (0, m)
      else Option.bind (skip_spaces m dest) (\<lambda>src.
        if m src = 0 then Some (0, m(dest := 0))
        else Option.bind
          (if src > dest then map_option (\<lambda>(dp, m). (dp - 2, m)) (cut_move dest src m)
           else map_option (\<lambda>dp. (dp, m)) (last_of m src)) (\<lambda>(dp, m).
        Option.bind (cut_tail dest dp m) (\<lambda>(dp, m).
        Some (if dp < dest then 0 else dp - dest + 1, m)))))"

text \<open>The file name in a path, with the separators of DOS.\<close>

definition SEP_CHAR :: u8 where "SEP_CHAR = 0x5C"
definition SEP_CHRO :: u8 where "SEP_CHRO = 0x2F"

partial_function (option) skip_seps :: "mem \<Rightarrow> u32 \<Rightarrow> u32 option" where
  "skip_seps m p = (if m p = SEP_CHAR \<or> m p = SEP_CHRO then skip_seps m (p + 1) else Some p)"

definition pds_getfilename_from_fullname_modeselect :: "mem \<Rightarrow> u32 \<Rightarrow> bool \<Rightarrow> u32 option" where
  "pds_getfilename_from_fullname_modeselect m fullname virtname =
     (if fullname = 0 then Some 0
      else Option.bind (pds_strchr m fullname 0x3A) (\<lambda>colon.
        let beginp = (if colon \<noteq> 0 then colon + 1 else fullname);
            virtual = ((m beginp = SEP_CHAR \<and> m (beginp + 1) = SEP_CHAR)
              \<or> (m beginp = SEP_CHRO \<and> m (beginp + 1) = SEP_CHRO))
        in Option.bind (if virtual then skip_seps m beginp else Some beginp) (\<lambda>beginp.
        if m beginp = 0 then Some 0
        else Option.bind (pds_strrchr m beginp SEP_CHAR) (\<lambda>fp.
        Option.bind (if fp = 0 then pds_strrchr m beginp SEP_CHRO else Some fp) (\<lambda>fp.
        Some (if fp \<noteq> 0 \<and> m (fp + 1) \<noteq> 0 then fp + 1
              else if virtual \<and> virtname then beginp
              else if virtual then 0
              else if fp \<noteq> 0 then fp + 1
              else if m (fullname + 1) = 0x3A \<and> m (fullname + 2) \<noteq> 0 then fullname + 2
              else fullname))))))"

definition pds_getfilename_from_fullname :: "mem \<Rightarrow> u32 \<Rightarrow> u32 option" where
  "pds_getfilename_from_fullname m fullname = pds_getfilename_from_fullname_modeselect m fullname False"

text \<open>Exchanging two blocks.\<close>

primrec memxch_loop :: "nat \<Rightarrow> u32 \<Rightarrow> u32 \<Rightarrow> mem \<Rightarrow> mem" where
  "memxch_loop 0 a1 a2 m = m"
| "memxch_loop (Suc n) a1 a2 m =
     (let tmp1 = m a1; tmp2 = m a2 in memxch_loop n (a1 + 1) (a2 + 1) (m(a1 := tmp2, a2 := tmp1)))"

definition pds_memxch :: "u32 \<Rightarrow> u32 \<Rightarrow> u32 \<Rightarrow> mem \<Rightarrow> mem" where
  "pds_memxch addr1 addr2 len m =
     (if addr1 = 0 \<or> addr2 = 0 \<or> len = 0 then m else memxch_loop (unat len) addr1 addr2 m)"

section \<open>Strings in memory\<close>

text \<open>\<open>cstr m p s\<close>: at \<open>p\<close> stand the characters \<open>s\<close>, none of them zero, and then a zero.\<close>

primrec cstr :: "mem \<Rightarrow> u32 \<Rightarrow> u8 list \<Rightarrow> bool" where
  "cstr m p [] = (m p = 0)"
| "cstr m p (c # s) = (m p = c \<and> c \<noteq> 0 \<and> cstr m (p + 1) s)"

lemma cstr_end: "cstr m p s \<Longrightarrow> m (p + of_nat (length s)) = 0"
  by (induction s arbitrary: p) (auto simp flip: add.assoc)

lemma cstr_nth: "cstr m p s \<Longrightarrow> i < length s \<Longrightarrow> m (p + of_nat i) = s ! i \<and> s ! i \<noteq> 0"
proof (induction s arbitrary: p i)
  case (Cons c s)
  then show ?case using Cons.IH [of "p + 1" "i - 1"] by (cases i) (auto simp: algebra_simps)
qed simp

lemma cstr_iff:
  "cstr m p s \<longleftrightarrow> (\<forall>i<length s. m (p + of_nat i) = s ! i \<and> s ! i \<noteq> 0) \<and> m (p + of_nat (length s)) = 0"
proof (induction s arbitrary: p)
  case (Cons c s)
  show ?case unfolding cstr.simps Cons.IH
    by (auto simp: less_Suc_eq_0_disj algebra_simps)
qed simp

lemma strlen_loop_cstr: "cstr m p (c # s) \<Longrightarrow> strlen_loop m p = Some (p + 1 + of_nat (length s))"
proof (induction s arbitrary: p c)
  case Nil
  then show ?case by (subst strlen_loop.simps) simp
next
  case (Cons d s)
  have "strlen_loop m (p + 1) = Some (p + 1 + 1 + of_nat (length s))"
    by (rule Cons.IH [of _ d]) (use Cons.prems in simp)
  then show ?case using Cons.prems by (subst strlen_loop.simps) (simp add: algebra_simps)
qed

lemma pds_strlen_cstr: "cstr m p s \<Longrightarrow> p \<noteq> 0 \<Longrightarrow> pds_strlen m p = Some (of_nat (length s))"
  by (cases s) (auto simp: pds_strlen_def strlen_loop_cstr algebra_simps)

text \<open>Copying a string upwards.\<close>

lemma strcpy_loop_cstr:
  assumes "copy_safe p q N" "N < 4294967296" "cstr m q s"
  shows "length s = n + k \<Longrightarrow> N = Suc (length s) \<Longrightarrow>
    strcpy_loop (p + of_nat n) (q + of_nat n) (copied p q n m) = Some (q + of_nat (length s), copied p q N m)"
proof (induction k arbitrary: n)
  case 0
  have "copied p q n m (q + of_nat n) = 0"
    using copy_safe_unread [of p q N n n m] cstr_end [OF assms(3)] assms 0 by simp
  then show ?case using copy8_step [of p q N n m] assms 0
    by (subst strcpy_loop.simps) simp
next
  case (Suc k)
  have "copied p q n m (q + of_nat n) = s ! n"
    using copy_safe_unread [of p q N n n m] cstr_nth [OF assms(3), of n] assms Suc.prems by simp
  moreover have "s ! n \<noteq> 0" using cstr_nth [OF assms(3), of n] Suc.prems by simp
  ultimately show ?case using copy8_step [of p q N n m] Suc.IH [of "Suc n"] Suc.prems assms
    by (subst strcpy_loop.simps) (simp add: algebra_simps)
qed

lemma pds_strcpy_copies:
  assumes "cstr m src s" "dest \<noteq> 0" "src \<noteq> 0" "copy_safe dest src (Suc (length s))" "Suc (length s) < 4294967296"
  shows "pds_strcpy dest src m = Some (of_nat (length s), copied dest src (Suc (length s)) m)"
proof -
  have "copied dest src 0 m = m" by (simp add: copied_def)
  then show ?thesis using strcpy_loop_cstr [OF assms(4,5,1), of 0 "length s"] assms
    by (simp add: pds_strcpy_def)
qed

text \<open>Moving it downwards from the ends.\<close>

lemma strmove_loop_at:
  assumes "n < 4294967296" and up: "unat p \<ge> unat q" "unat p + n \<le> 4294967296"
  shows "strmove_loop n (p + of_nat n) (q + of_nat n) m = copied p q n m"
  using assms(1) up(2)
proof (induction n arbitrary: m)
  case 0
  then show ?case by (simp add: copied_def)
next
  case (Suc n)
  let ?m = "m(p + of_nat n := m (q + of_nat n))"
  have q: "q + of_nat i \<noteq> p + of_nat n" if "i < n" for i
  proof
    assume e: "q + of_nat i = p + of_nat n"
    have "unat (p + of_nat n) = unat p + n"
      using Suc.prems by (simp add: unat_word_ariths unat_of_nat take_bit_nat_eq_self)
    moreover have "unat (q + of_nat i) = unat q + i"
      using Suc.prems that up(1) by (simp add: unat_word_ariths unat_of_nat take_bit_nat_eq_self)
    ultimately show False using e that up(1) by simp
  qed
  have "copied p q n ?m a = copied p q (Suc n) m a" for a
  proof (cases "unat (a - p) < n")
    case True
    then have "q + (a - p) \<noteq> p + of_nat n" using q [of "unat (a - p)"] by simp
    then show ?thesis using True by (simp add: copied_def)
  next
    case False
    then show ?thesis using off_eq [of n a p] Suc.prems by (auto simp: copied_def less_Suc_eq)
  qed
  moreover have "strmove_loop (Suc n) (p + of_nat (Suc n)) (q + of_nat (Suc n)) m = copied p q n ?m"
  proof -
    have e: "p + of_nat (Suc n) - 1 = p + of_nat n" "q + of_nat (Suc n) - 1 = q + of_nat n" by simp_all
    have "strmove_loop n (p + of_nat n) (q + of_nat n) ?m = copied p q n ?m"
      by (rule Suc.IH) (use Suc.prems in simp_all)
    then show ?thesis by (simp only: strmove_loop.simps e)
  qed
  ultimately show ?case by presburger
qed

section \<open>Properties\<close>

lemma copied_cstr:
  "cstr m q s \<Longrightarrow> Suc (length s) < 4294967296 \<Longrightarrow> cstr (copied p q (Suc (length s)) m) p s"
  unfolding cstr_iff by (auto simp: copied_prefix)

text \<open>\<open>pds_strmove\<close> moves a string correctly for every overlap of source and target that does
  not wrap around the address space: the bytes of the string and its end marker are at the target, which then holds the
  string, and every other byte is kept. The result is the length of the string when the string is moved down, but
  one more, the end marker included, when it is moved up.\<close>

theorem pds_strmove_moves:
  assumes c: "cstr m src s" and nz: "dest \<noteq> 0" "src \<noteq> 0"
    and w: "unat src + length s < 4294967295" "unat dest + length s < 4294967295"
  shows "\<exists>m'. pds_strmove dest src m = Some (if dest < src then of_nat (length s) else of_nat (length s) + 1, m')
    \<and> cstr m' dest s \<and> (\<forall>a. unat (a - dest) > length s \<longrightarrow> m' a = m a)"
proof -
  let ?n = "Suc (length s)" and ?m = "copied dest src (Suc (length s)) m"
  have n: "?n < 4294967296" using w by simp
  have "pds_strmove dest src m = Some (if dest < src then of_nat (length s) else of_nat (length s) + 1, ?m)"
  proof (cases "dest < src")
    case True
    have "copy_safe dest src ?n"
    proof -
      have "unat (dest - src) = 4294967296 - (unat src - unat dest)"
        using True unat_u32_less [of src] by (simp add: unat_sub_if_size word_less_nat_alt word_size)
      then show ?thesis using True w by (auto simp: copy_safe_def word_less_nat_alt)
    qed
    then show ?thesis using True nz pds_strcpy_copies [OF c nz _ n] by (simp add: pds_strmove_def)
  next
    case False
    have l: "unat (of_nat (length s) + 1 :: u32) = ?n"
      using n by (simp add: unat_word_ariths unat_of_nat take_bit_nat_eq_self)
    have "strmove_loop ?n (dest + of_nat ?n) (src + of_nat ?n) m = ?m"
      by (rule strmove_loop_at) (use n w False in \<open>simp_all add: word_less_nat_alt\<close>)
    then show ?thesis using False nz l pds_strlen_cstr [OF c nz(2)]
      by (simp add: pds_strmove_def Let_def add.commute)
  qed
  moreover have "cstr ?m dest s" by (rule copied_cstr [OF c n])
  ultimately show ?thesis by (auto simp: copied_def)
qed

definition demo_string :: mem where
  "demo_string = (\<lambda>a. if a = 0x100 then 0x61 else if a = 0x101 then 0x62 else 0)"

theorem pds_strmove_moves_witness:
  "\<exists>m'. pds_strmove 0x101 0x100 demo_string = Some (3, m') \<and> cstr m' 0x101 [0x61, 0x62]
    \<and> (\<forall>a. unat (a - 0x101) > length [0x61 :: u8, 0x62] \<longrightarrow> m' a = demo_string a)"
proof -
  have "cstr demo_string 0x100 [0x61, 0x62]" by (simp add: demo_string_def)
  from pds_strmove_moves [OF this, of "0x101"] show ?thesis by simp
qed

section \<open>Searching for a string\<close>

lemma strstr_inner_cstr:
  "cstr m (p + 1) t \<Longrightarrow> cstr m (q + 1) r \<Longrightarrow>
   strstr_inner f m p q = Some (if prefix (map f r) (map f t) then Match
     else if length t < length r \<and> prefix (map f t) (map f r) then Ended else Mismatch)"
proof (induction r arbitrary: t p q)
  case Nil
  then show ?case by (subst strstr_inner.simps) simp
next
  case (Cons d r)
  show ?case
  proof (cases t)
    case Nil
    then show ?thesis using Cons.prems by (subst strstr_inner.simps) simp
  next
    case t: (Cons c t')
    have "strstr_inner f m (p + 1) (q + 1) = Some (if prefix (map f r) (map f t') then Match
        else if length t' < length r \<and> prefix (map f t') (map f r) then Ended else Mismatch)"
      by (rule Cons.IH) (use Cons.prems t in simp_all)
    then show ?thesis using Cons.prems t by (subst strstr_inner.simps) (simp add: Let_def)
  qed
qed

fun occ :: "(u8 \<Rightarrow> u8) \<Rightarrow> u8 list \<Rightarrow> u8 list \<Rightarrow> nat option" where
  "occ f pat [] = None"
| "occ f pat (c # t) = (if prefix (map f pat) (map f (c # t)) then Some 0 else map_option Suc (occ f pat t))"

lemma occ_find: "occ f pat t = find (\<lambda>i. prefix (map f pat) (map f (drop i t))) [0..<length t]"
proof (induction t)
  case (Cons c t)
  have "find P (map Suc xs) = map_option Suc (find (\<lambda>i. P (Suc i)) xs)" for P and xs :: "nat list"
    by (induction xs) auto
  then show ?case using Cons by (simp add: upt_conv_Cons map_Suc_upt [symmetric] del: upt_Suc)
qed simp

lemma occ_short: "length t < length pat \<Longrightarrow> occ f pat t = None"
proof (induction t)
  case (Cons c t)
  then have "\<not> prefix (map f pat) (map f (c # t))" by (auto dest: prefix_length_le)
  then show ?case using Cons by simp
qed simp

lemma strstr_loop_cstr:
  "cstr m p t \<Longrightarrow> cstr m q (d # r) \<Longrightarrow>
   strstr_loop f m p q = Some (case occ f (d # r) t of Some i \<Rightarrow> p + of_nat i | None \<Rightarrow> 0)"
proof (induction t arbitrary: p)
  case Nil
  then show ?case by (subst strstr_loop.simps) simp
next
  case (Cons c t)
  have ih: "strstr_loop f m (p + 1) q = Some (case occ f (d # r) t of Some i \<Rightarrow> p + 1 + of_nat i | None \<Rightarrow> 0)"
    by (rule Cons.IH) (use Cons.prems in simp_all)
  have inner: "strstr_inner f m p q = Some (if prefix (map f r) (map f t) then Match
      else if length t < length r \<and> prefix (map f t) (map f r) then Ended else Mismatch)"
    by (rule strstr_inner_cstr) (use Cons.prems in simp_all)
  have short: "length t < length r \<Longrightarrow> occ f (d # r) t = None" by (rule occ_short) simp
  show ?case using Cons.prems ih inner short
    by (subst strstr_loop.simps) (auto simp: Let_def add.assoc split: option.split)
qed

text \<open>\<open>pds_strstr\<close> and \<open>pds_strstri\<close> find the first place where the pattern stands in the string, exactly
  or up to the case of letters, and answer the null pointer when there is none; searching always ends.
  The early exit at the end of the string is right: no later place could match.\<close>

theorem pds_strstr_first:
  assumes s: "cstr m p s" and t: "cstr m q pat" and nz: "p \<noteq> 0" "q \<noteq> 0" "pat \<noteq> []"
  shows "pds_strstr m p q = Some (case find (\<lambda>i. prefix pat (drop i s)) [0..<length s] of
      Some i \<Rightarrow> p + of_nat i | None \<Rightarrow> 0)
    \<and> pds_strstri m p q = Some (case find (\<lambda>i. prefix (map uc pat) (map uc (drop i s))) [0..<length s] of
      Some i \<Rightarrow> p + of_nat i | None \<Rightarrow> 0)"
proof -
  obtain d r where pat: "pat = d # r" using nz by (cases pat) auto
  have d: "m q \<noteq> 0" using t pat by simp
  show ?thesis
    using strstr_loop_cstr [OF s t [unfolded pat], of uc] strstr_loop_cstr [OF s t [unfolded pat], of "\<lambda>c. c"] nz d
    by (simp add: pds_strstr_def pds_strstri_def occ_find flip: pat)
qed

theorem pds_strstr_first_witness:
  "pds_strstr (\<lambda>a. if a = 0x200 then 0x62 else demo_string a) 0x100 0x200 = Some 0x101
   \<and> pds_strstri (\<lambda>a. if a = 0x200 then 0x62 else demo_string a) 0x100 0x200 = Some 0x101"
proof -
  let ?m = "\<lambda>a. if a = 0x200 then 0x62 else demo_string a"
  have s: "cstr ?m 0x100 [0x61, 0x62]" and t: "cstr ?m 0x200 [0x62]" by (simp_all add: demo_string_def)
  have u: "[0..<2] = [0, 1]" by (simp add: upt_rec)
  show ?thesis using pds_strstr_first [OF s t] by (simp add: u uc_def numeral_2_eq_2 [symmetric] del: upt_Suc)
qed

text \<open>The order of two strings: by unsigned characters in \<open>pds_strcmp\<close>, by signed ones in
  \<open>pds_strncmp\<close>; they disagree on characters above 7Fh.\<close>

lemma strcmp_loop_cstr:
  "cstr m p s \<Longrightarrow> cstr m q t \<Longrightarrow> strcmp_loop m p q = Some (lexdiff (s @ [0]) (t @ [0]))"
proof (induction s arbitrary: p q t)
  case Nil
  then show ?case by (cases t) (auto simp: strcmp_loop.simps [of m p q] Let_def)
next
  case (Cons c s)
  show ?case
  proof (cases t)
    case Nil
    then show ?thesis using Cons.prems by (subst strcmp_loop.simps) (simp add: Let_def)
  next
    case t: (Cons d t')
    have "strcmp_loop m (p + 1) (q + 1) = Some (lexdiff (s @ [0]) (t' @ [0]))"
      by (rule Cons.IH) (use Cons.prems t in simp_all)
    then show ?thesis using Cons.prems t by (subst strcmp_loop.simps) (simp add: Let_def)
  qed
qed

lemma pds_strcmp_cstr:
  assumes "cstr m p s" "cstr m q t" "p \<noteq> 0" "q \<noteq> 0"
  shows "\<exists>r. pds_strcmp m p q = Some r \<and> sgn r = sgn (lexdiff (s @ [0]) (t @ [0]))"
proof -
  have pos: "uint c > 0" if "c \<noteq> 0" for c :: u8 using that by (metis uint_0_iff uint_ge_0 order_le_less)
  show ?thesis using assms strcmp_loop_cstr [OF assms(1,2)]
    by (cases s; cases t) (auto simp: pds_strcmp_def with_chknull_def pds_strchknull_def pos)
qed

lemma strncmp_signed:
  "strncmp_loop (\<lambda>c. c) 1 (\<lambda>a. if a = 0x100 then 0x80 else 0x41) 0x100 0x200 = - 1"
  "lexdiff [0x80] [0x41] > 0"
  by (simp_all add: Let_def char_cmp_def)

end
