(* ===== verification/Cardmem.thy ===== *)
theory Cardmem
  imports Dpmi Aucards
begin

text \<open>
  Memory for sound cards (\<open>mpxplay/au_cards/au_base.c\<close>, \<open>dmairq.c\<close>): the table of mapped physical memory, and extended memory that
  is locked at a physical address and mapped into the program's data segment. The DPMI host is a parameter (\<open>dpmi_host\<close>), as is the XMS
  driver. Pointers of the program are offsets in its data segment.
\<close>

section \<open>The DPMI host\<close>

text \<open>\<open>h_set_limit\<close> sets the limit of the data segment or (\<open>True\<close>) of its alias, \<open>h_note_limit\<close> stores
  \<open>__djgpp_selector_limit\<close>, \<open>h_memset\<close> fills memory of the program. A mapping and an allocation answer whether they succeeded, and change
  the structure they are given.\<close>

record 'd dpmi_host =
  h_base :: "'d \<Rightarrow> u32"
  h_limit :: "'d \<Rightarrow> u32"
  h_set_limit :: "bool \<Rightarrow> u32 \<Rightarrow> 'd \<Rightarrow> 'd"
  h_note_limit :: "u32 \<Rightarrow> 'd \<Rightarrow> 'd"
  h_map_phys :: "dpmi_meminfo \<Rightarrow> 'd \<Rightarrow> bool \<times> dpmi_meminfo \<times> 'd"
  h_free_phys :: "dpmi_meminfo \<Rightarrow> 'd \<Rightarrow> 'd"
  h_alloc_linear :: "dpmi_meminfo \<Rightarrow> 'd \<Rightarrow> bool \<times> dpmi_meminfo \<times> 'd"
  h_map_device :: "dpmi_meminfo \<Rightarrow> u32 \<Rightarrow> 'd \<Rightarrow> bool \<times> 'd"
  h_free_memory :: "u32 \<Rightarrow> 'd \<Rightarrow> 'd"
  h_memset :: "u32 \<Rightarrow> u8 \<Rightarrow> u32 \<Rightarrow> 'd \<Rightarrow> 'd"

definition page_up :: "u32 \<Rightarrow> u32" where "page_up n = (n + 0xFFF) AND NOT 0xFFF"

text \<open>Raising the limit of the data segment to \<open>newlimit\<close>, at the end of a page.\<close>

definition raise_limit :: "'d dpmi_host \<Rightarrow> u32 \<Rightarrow> u32 \<Rightarrow> 'd \<Rightarrow> 'd" where
  "raise_limit h limit newlimit d =
    (let newlimit = page_up (newlimit + 1) - 1
     in h_note_limit h (max limit newlimit) (h_set_limit h True (max limit newlimit) (h_set_limit h False (max limit newlimit) d)))"

section \<open>Mapped physical memory\<close>

definition PHYSICAL_MAP_COUNT :: nat where "PHYSICAL_MAP_COUNT = 64"

definition physicalmaps_init :: "dpmi_meminfo list" where
  "physicalmaps_init = replicate PHYSICAL_MAP_COUNT \<lparr>mi_handle = 0, mi_size = 0, mi_address = 0\<rparr>"

text \<open>The index at which a search of the table ends, its length when there is no such entry.\<close>

primrec first_map :: "(dpmi_meminfo \<Rightarrow> bool) \<Rightarrow> dpmi_meminfo list \<Rightarrow> nat" where
  "first_map P [] = 0"
| "first_map P (m # ms) = (if P m then 0 else Suc (first_map P ms))"

text \<open>Memory below the data segment is mapped again in a block of linear memory above it; the size 0 marks such an entry.\<close>

definition remap_above :: "'d dpmi_host \<Rightarrow> u32 \<Rightarrow> u32 \<Rightarrow> u32 \<Rightarrow> dpmi_meminfo \<Rightarrow> 'd \<Rightarrow> dpmi_meminfo option \<times> 'd" where
  "remap_above h addr memsize limit info d =
    (let base = h_base h d; d = h_free_phys h info d;
         (ok, info, d) = h_alloc_linear h (info\<lparr>mi_address := base + limit + 1\<rparr>) d in
     if \<not> ok then (None, d)
     else let (ok, d) = h_map_device h (info\<lparr>mi_address := 0, mi_size := memsize div 4096\<rparr>) addr d in
       if \<not> ok then (None, h_free_memory h (mi_handle info) d)
       else (Some (info\<lparr>mi_size := 0\<rparr>), d))"

definition pds_dpmi_map_physical_memory :: "'d dpmi_host \<Rightarrow> u32 \<Rightarrow> u32 \<Rightarrow> dpmi_meminfo list \<times> 'd \<Rightarrow> u32 \<times> dpmi_meminfo list \<times> 'd" where
  "pds_dpmi_map_physical_memory h phys_addr memsize s =
    (let (tbl, d) = s; memsize = page_up memsize;
         i = first_map (\<lambda>m. mi_handle m = 0) tbl;
         base = h_base h d; limit = h_limit h d in
     if i < length tbl then
       (let (ok, info, d) = h_map_phys h \<lparr>mi_handle = 0, mi_size = memsize, mi_address = phys_addr\<rparr> d in
        if ok then
          (let (kept, d) = (if mi_address info < base then remap_above h phys_addr memsize limit info d else (Some info, d)) in
           case kept of None \<Rightarrow> (0, tbl, d)
           | Some info \<Rightarrow>
               (let info = info\<lparr>mi_address := mi_address info - base\<rparr>
                in (mi_address info, tbl[i := info], raise_limit h limit (mi_address info + memsize - 1) d)))
        else (0, tbl, d))
     else (0, tbl, d))"

definition pds_dpmi_unmap_physycal_memory :: "'d dpmi_host \<Rightarrow> u32 \<Rightarrow> dpmi_meminfo list \<times> 'd \<Rightarrow> dpmi_meminfo list \<times> 'd" where
  "pds_dpmi_unmap_physycal_memory h linear_addr s =
    (let (tbl, d) = s; i = first_map (\<lambda>m. mi_handle m \<noteq> 0 \<and> mi_address m = linear_addr) tbl in
     if length tbl \<le> i then (tbl, d)
     else (tbl[i := (tbl ! i)\<lparr>mi_handle := 0\<rparr>],
       if mi_size (tbl ! i) \<noteq> 0 then h_free_phys h (tbl ! i) d else h_free_memory h (mi_handle (tbl ! i)) d))"

section \<open>Extended memory\<close>

text \<open>The registers \<open>pds_xms_regs\<close> hold the entry point of the driver once it has been found.\<close>

definition pds_xms_inited :: "DPMI_REG \<Rightarrow> bool" where
  "pds_xms_inited r = (r_cs r \<noteq> 0 \<or> r_ip r \<noteq> 0)"

definition pds_xms_init :: "'d rm_ops \<Rightarrow> DPMI_REG \<times> 'd \<Rightarrow> bool \<times> DPMI_REG \<times> 'd" where
  "pds_xms_init ops w =
    (if pds_xms_inited (fst w) then (True, w)
     else let (r, d) = rm_int ops 0x2F (set_ax 0x4300 reg_zero) (snd w) in
       if reg_al r \<noteq> 0x80 then (False, r, d)
       else let (r, d) = rm_int ops 0x2F (set_ax 0x4310 r) d;
                r = r\<lparr>r_cs := r_es r\<rparr>;
                r = r\<lparr>r_ip := reg_bx r, r_ss := 0, r_sp := 0\<rparr>
            in (True, set_ax 0 (set_dx 0 r), d))"

definition pds_xms_alloc :: "'d rm_ops \<Rightarrow> u16 \<Rightarrow> DPMI_REG \<times> 'd \<Rightarrow> (u16 \<times> u32) \<times> DPMI_REG \<times> 'd" where
  "pds_xms_alloc ops sizeKB w =
    (if sizeKB = 0 then ((0, 0), w)
     else let (ok, xr, d) = pds_xms_init ops w in
       if \<not> ok then ((0, 0), xr, d)
       else let (r, d) = rm_retf ops (set_dx sizeKB (set_ah 0x09 xr)) d in
         if reg_ax r \<noteq> 1 then ((0, 0), xr, d)
         else let handle = reg_dx r;
                  (r, d) = rm_retf ops (set_ah 0x0C (set_dx handle xr)) d in
           if reg_ax r \<noteq> 1 then
             (let (r, d) = rm_retf ops (set_dx handle (set_ah 0x0A xr)) d in ((0, 0), xr, d))
           else ((handle, xms_addr r), xr, d))"

definition pds_xms_free :: "'d rm_ops \<Rightarrow> u16 \<Rightarrow> DPMI_REG \<times> 'd \<Rightarrow> bool \<times> DPMI_REG \<times> 'd" where
  "pds_xms_free ops handle w =
    (let (xr, d) = w in
     if \<not> pds_xms_inited xr then (False, xr, d)
     else let (r, d) = rm_retf ops (set_dx handle (set_ah 0x0D xr)) d in
       if reg_ax r \<noteq> 1 then (False, xr, d)
       else let (r, d) = rm_retf ops (set_dx handle (set_ah 0x0A xr)) d in (reg_ax r = 1, xr, d))"

record xmsmem =
  xm_remap :: bool
  xm_xms :: u16
  xm_handle :: u16
  physicalptr :: u32
  linearptr :: u32

definition xmsmem_zero :: xmsmem where
  "xmsmem_zero = \<lparr>xm_remap = False, xm_xms = 0, xm_handle = 0, physicalptr = 0, linearptr = 0\<rparr>"

text \<open>The mapping of a locked block: the entry of the host, whether it was mapped again above the data segment, or \<open>None\<close>. Here the
  block of linear memory is not given back when the second mapping fails.\<close>

definition xms_map :: "'d dpmi_host \<Rightarrow> u32 \<Rightarrow> u32 \<Rightarrow> 'd \<Rightarrow> (bool \<times> dpmi_meminfo) option \<times> 'd" where
  "xms_map h addr memsize d =
    (let limit = h_limit h d; base = h_base h d;
         (ok, info, d) = h_map_phys h \<lparr>mi_handle = 0, mi_size = memsize, mi_address = addr\<rparr> d in
     if \<not> ok then (None, d)
     else if mi_address info < base then
       (let d = h_free_phys h info d;
            (ok, info, d) = h_alloc_linear h (info\<lparr>mi_address := base + limit + 1\<rparr>) d in
        if \<not> ok then (None, d)
        else let (ok, d) = h_map_device h (info\<lparr>mi_address := 0, mi_size := memsize div 4096\<rparr>) addr d
          in (if ok then Some (True, info) else None, d))
     else (Some (False, info), d))"

definition pds_dpmi_xms_allocmem :: "'d dpmi_host \<Rightarrow> 'd rm_ops \<Rightarrow> xmsmem \<Rightarrow> u32 \<Rightarrow> DPMI_REG \<times> 'd \<Rightarrow> bool \<times> xmsmem \<times> DPMI_REG \<times> 'd" where
  "pds_dpmi_xms_allocmem h ops mem memsize w =
    (let memsize = page_up memsize;
         ((xms, addr), xr, d) = pds_xms_alloc ops (ucast (memsize div 1024)) w;
         mem = mem\<lparr>xm_xms := xms\<rparr> in
     if xms = 0 then (False, mem, xr, d)
     else let base = h_base h d; limit = h_limit h d;
              (kept, d) = xms_map h addr memsize d;
              mem = mem\<lparr>xm_remap := False\<rparr> in
       (case kept of
          Some (remap, info) \<Rightarrow>
            (True, mem\<lparr>xm_remap := remap, xm_handle := ucast (mi_handle info), physicalptr := addr, linearptr := mi_address info - base\<rparr>,
             xr, raise_limit h limit (mi_address info + memsize - base - 1) d)
        | None \<Rightarrow> (let (_, xr, d) = pds_xms_free ops xms (xr, d) in (False, mem\<lparr>xm_xms := 0\<rparr>, xr, d))))"

definition pds_dpmi_xms_freemem :: "'d dpmi_host \<Rightarrow> 'd rm_ops \<Rightarrow> xmsmem \<Rightarrow> DPMI_REG \<times> 'd \<Rightarrow> DPMI_REG \<times> 'd" where
  "pds_dpmi_xms_freemem h ops mem w =
    (let (xr, d) = w;
         d = (if xm_remap mem then h_free_memory h (ucast (xm_handle mem)) d
           else h_free_phys h \<lparr>mi_handle = ucast (xm_handle mem), mi_size = 0, mi_address = 0\<rparr> d)
     in snd (pds_xms_free ops (xm_xms mem) (xr, d)))"

text \<open>The address in the memory of the card that belongs to a pointer into the block.\<close>

definition pds_cardmem_physicalptr :: "xmsmem \<Rightarrow> u32 \<Rightarrow> u32" where
  "pds_cardmem_physicalptr m p = physicalptr m + (p - linearptr m)"

text \<open>\<open>heap\<close> is whether \<open>calloc\<close> finds room for the structure.\<close>

definition MDma_alloc_cardmem :: "'d dpmi_host \<Rightarrow> 'd rm_ops \<Rightarrow> bool \<Rightarrow> u32 \<Rightarrow> DPMI_REG \<times> 'd \<Rightarrow> (xmsmem \<times> DPMI_REG \<times> 'd) res" where
  "MDma_alloc_cardmem h ops heap buffsize w =
    (if \<not> heap then Inl Program_exit
     else let (ok, dm, xr, d) = pds_dpmi_xms_allocmem h ops xmsmem_zero buffsize w in
       if \<not> ok then Inl Program_exit else Inr (dm, xr, h_memset h (linearptr dm) 0 buffsize d))"

definition MDma_free_cardmem :: "'d dpmi_host \<Rightarrow> 'd rm_ops \<Rightarrow> xmsmem option \<Rightarrow> DPMI_REG \<times> 'd \<Rightarrow> DPMI_REG \<times> 'd" where
  "MDma_free_cardmem h ops dm w = (case dm of None \<Rightarrow> w | Some m \<Rightarrow> pds_dpmi_xms_freemem h ops m w)"

section \<open>What mapping takes from the host\<close>

text \<open>The DPMI host: the linear addresses at which physical memory is mapped, the handles of the blocks of linear memory, and the
  limit of the data segment. Calls that fail change nothing.\<close>

definition host_laws :: "'d dpmi_host \<Rightarrow> ('d \<Rightarrow> u32 set) \<Rightarrow> ('d \<Rightarrow> u32 set) \<Rightarrow> bool" where
  "host_laws h phys lin = (
     (\<forall>i d ok i' d'. h_map_phys h i d = (ok, i', d') \<longrightarrow> lin d' = lin d \<and> h_base h d' = h_base h d \<and> h_limit h d' = h_limit h d
       \<and> mi_size i' = mi_size i \<and> (if ok then mi_address i' \<notin> phys d \<and> phys d' = insert (mi_address i') (phys d) else phys d' = phys d)) \<and>
     (\<forall>i d. phys (h_free_phys h i d) = phys d - {mi_address i} \<and> lin (h_free_phys h i d) = lin d
       \<and> h_base h (h_free_phys h i d) = h_base h d \<and> h_limit h (h_free_phys h i d) = h_limit h d) \<and>
     (\<forall>i d ok i' d'. h_alloc_linear h i d = (ok, i', d') \<longrightarrow> phys d' = phys d \<and> h_base h d' = h_base h d \<and> h_limit h d' = h_limit h d
       \<and> (if ok then mi_handle i' \<notin> lin d \<and> lin d' = insert (mi_handle i') (lin d) else lin d' = lin d)) \<and>
     (\<forall>i p d ok d'. h_map_device h i p d = (ok, d') \<longrightarrow> phys d' = phys d \<and> lin d' = lin d \<and> h_base h d' = h_base h d \<and> h_limit h d' = h_limit h d) \<and>
     (\<forall>k d. phys (h_free_memory h k d) = phys d \<and> lin (h_free_memory h k d) = lin d - {k}
       \<and> h_base h (h_free_memory h k d) = h_base h d \<and> h_limit h (h_free_memory h k d) = h_limit h d) \<and>
     (\<forall>b v d. phys (h_set_limit h b v d) = phys d \<and> lin (h_set_limit h b v d) = lin d \<and> h_base h (h_set_limit h b v d) = h_base h d
       \<and> h_limit h (h_set_limit h b v d) = (if b then h_limit h d else v)) \<and>
     (\<forall>v d. phys (h_note_limit h v d) = phys d \<and> lin (h_note_limit h v d) = lin d \<and> h_base h (h_note_limit h v d) = h_base h d
       \<and> h_limit h (h_note_limit h v d) = h_limit h d))"

lemma host_lawsD:
  assumes "host_laws h phys lin"
  shows "h_map_phys h i d = (ok, i', d') \<Longrightarrow> lin d' = lin d \<and> h_base h d' = h_base h d \<and> h_limit h d' = h_limit h d
      \<and> mi_size i' = mi_size i \<and> (if ok then mi_address i' \<notin> phys d \<and> phys d' = insert (mi_address i') (phys d) else phys d' = phys d)"
    "phys (h_free_phys h i d) = phys d - {mi_address i} \<and> lin (h_free_phys h i d) = lin d
      \<and> h_base h (h_free_phys h i d) = h_base h d \<and> h_limit h (h_free_phys h i d) = h_limit h d"
    "h_alloc_linear h i d = (ok, i', d') \<Longrightarrow> phys d' = phys d \<and> h_base h d' = h_base h d \<and> h_limit h d' = h_limit h d
      \<and> (if ok then mi_handle i' \<notin> lin d \<and> lin d' = insert (mi_handle i') (lin d) else lin d' = lin d)"
    "h_map_device h i p d = (ok, d') \<Longrightarrow> phys d' = phys d \<and> lin d' = lin d \<and> h_base h d' = h_base h d \<and> h_limit h d' = h_limit h d"
    "phys (h_free_memory h k d) = phys d \<and> lin (h_free_memory h k d) = lin d - {k}
      \<and> h_base h (h_free_memory h k d) = h_base h d \<and> h_limit h (h_free_memory h k d) = h_limit h d"
    "phys (h_set_limit h b v d) = phys d \<and> lin (h_set_limit h b v d) = lin d \<and> h_base h (h_set_limit h b v d) = h_base h d
      \<and> h_limit h (h_set_limit h b v d) = (if b then h_limit h d else v)"
    "phys (h_note_limit h v d) = phys d \<and> lin (h_note_limit h v d) = lin d \<and> h_base h (h_note_limit h v d) = h_base h d
      \<and> h_limit h (h_note_limit h v d) = h_limit h d"
proof -
  note l = assms [unfolded host_laws_def]
  show "h_map_phys h i d = (ok, i', d') \<Longrightarrow> lin d' = lin d \<and> h_base h d' = h_base h d \<and> h_limit h d' = h_limit h d
      \<and> mi_size i' = mi_size i \<and> (if ok then mi_address i' \<notin> phys d \<and> phys d' = insert (mi_address i') (phys d) else phys d' = phys d)"
    using l [THEN conjunct1] by blast
  show "phys (h_free_phys h i d) = phys d - {mi_address i} \<and> lin (h_free_phys h i d) = lin d
      \<and> h_base h (h_free_phys h i d) = h_base h d \<and> h_limit h (h_free_phys h i d) = h_limit h d"
    using l [THEN conjunct2, THEN conjunct1] by blast
  show "h_alloc_linear h i d = (ok, i', d') \<Longrightarrow> phys d' = phys d \<and> h_base h d' = h_base h d \<and> h_limit h d' = h_limit h d
      \<and> (if ok then mi_handle i' \<notin> lin d \<and> lin d' = insert (mi_handle i') (lin d) else lin d' = lin d)"
    using l [THEN conjunct2, THEN conjunct2, THEN conjunct1] by blast
  show "h_map_device h i p d = (ok, d') \<Longrightarrow> phys d' = phys d \<and> lin d' = lin d \<and> h_base h d' = h_base h d \<and> h_limit h d' = h_limit h d"
    using l [THEN conjunct2, THEN conjunct2, THEN conjunct2, THEN conjunct1] by blast
  note m = l [THEN conjunct2, THEN conjunct2, THEN conjunct2, THEN conjunct2]
  show "phys (h_free_memory h k d) = phys d \<and> lin (h_free_memory h k d) = lin d - {k}
      \<and> h_base h (h_free_memory h k d) = h_base h d \<and> h_limit h (h_free_memory h k d) = h_limit h d"
    using m [THEN conjunct1] by blast
  show "phys (h_set_limit h b v d) = phys d \<and> lin (h_set_limit h b v d) = lin d \<and> h_base h (h_set_limit h b v d) = h_base h d
      \<and> h_limit h (h_set_limit h b v d) = (if b then h_limit h d else v)"
    using m [THEN conjunct2, THEN conjunct1] by blast
  show "phys (h_note_limit h v d) = phys d \<and> lin (h_note_limit h v d) = lin d \<and> h_base h (h_note_limit h v d) = h_base h d
      \<and> h_limit h (h_note_limit h v d) = h_limit h d"
    using m [THEN conjunct2, THEN conjunct2] by blast
qed

lemma unat_page_up:
  assumes "unat x \<le> 0xFFFFF000" shows "unat (page_up x) = 4096 * ((unat x + 4095) div 4096)"
proof -
  have m: "(0xFFF :: u32) = mask 12" by (simp add: mask_eq_exp_minus_1)
  have e: "w AND NOT (mask 12) = push_bit 12 (drop_bit 12 w)" for w :: u32
    by (rule bit_word_eqI) (auto simp: bit_simps dest: bit_u32_less)
  have "unat (x + mask 12) = unat x + 4095" using assms by (simp add: unat_word_ariths mask_eq_exp_minus_1)
  moreover have "unat (push_bit 12 (drop_bit 12 w)) = 4096 * (unat w div 4096)" for w :: u32
  proof -
    have "4096 * (unat w div 4096) < 4294967296" using unat_u32_less [of w] by linarith
    then show ?thesis by (simp add: push_bit_eq_mult drop_bit_eq_div unat_word_ariths unat_div mult.commute)
  qed
  ultimately show ?thesis unfolding page_up_def m e by simp
qed

lemma page_up_ge: "unat x \<le> 0xFFFFF000 \<Longrightarrow> unat x \<le> unat (page_up x)"
  by (simp add: unat_page_up)

lemma raise_limit_facts:
  assumes "host_laws h phys lin"
  shows "phys (raise_limit h l n d) = phys d" "lin (raise_limit h l n d) = lin d"
    "h_limit h (raise_limit h l n d) = max l (page_up (n + 1) - 1)"
  by (simp_all add: raise_limit_def Let_def host_lawsD [OF assms])

lemma remap_above_facts:
  assumes h: "host_laws h phys lin" and r: "remap_above h p m l i d = (k, d')" and n: "phys d = insert (mi_address i) ps" "mi_address i \<notin> ps"
  shows "phys d' = ps \<and> h_limit h d' = h_limit h d \<and> (case k of None \<Rightarrow> lin d' = lin d
    | Some j \<Rightarrow> mi_size j = 0 \<and> mi_handle j \<notin> lin d \<and> lin d' = insert (mi_handle j) (lin d))"
proof -
  let ?d1 = "h_free_phys h i d"
  have 1: "phys ?d1 = ps" "lin ?d1 = lin d" "h_limit h ?d1 = h_limit h d" using host_lawsD(2) [OF h, of i d] n by auto
  obtain ok2 i2 d2 where a2: "h_alloc_linear h (i\<lparr>mi_address := h_base h d + l + 1\<rparr>) ?d1 = (ok2, i2, d2)" by (rule prod_cases3)
  obtain ok3 d3 where a3: "h_map_device h (i2\<lparr>mi_address := 0, mi_size := m div 4096\<rparr>) p d2 = (ok3, d3)" by (rule prod.exhaust)
  note f2 = host_lawsD(3) [OF h a2] and f3 = host_lawsD(4) [OF h a3] and f4 = host_lawsD(5) [OF h, of "mi_handle i2" d3]
  show ?thesis
  proof (cases ok2)
    case False
    then have "k = None" "d' = d2" using r by (simp_all add: remap_above_def Let_def a2)
    then show ?thesis using False f2 1 by simp
  next
    case True
    show ?thesis
    proof (cases ok3)
      case False
      then have "k = None" "d' = h_free_memory h (mi_handle i2) d3" using True r by (simp_all add: remap_above_def Let_def a2 a3)
      then show ?thesis using True f2 f3 f4 1 by auto
    next
      case ok3: True
      then have "k = Some (i2\<lparr>mi_size := 0\<rparr>)" "d' = d3" using True r by (simp_all add: remap_above_def Let_def a2 a3)
      then show ?thesis using True f2 f3 1 by simp
    qed
  qed
qed

lemma first_map_less: "first_map P ms < length ms \<Longrightarrow> P (ms ! first_map P ms)"
  by (induction ms) (auto split: if_splits)

lemma map_physical_memory_account:
  assumes h: "host_laws h phys lin" and sz: "page_up sz \<noteq> 0"
    and run: "pds_dpmi_map_physical_memory h p sz (tbl, d) = (a, tbl', d')"
  shows "a = 0 \<and> tbl' = tbl \<and> phys d' = phys d \<and> lin d' = lin d \<and> h_limit h d' = h_limit h d
    \<or> (\<exists>i info. i < length tbl \<and> mi_handle (tbl ! i) = 0 \<and> tbl' = tbl[i := info] \<and> mi_address info = a
        \<and> (if mi_size info = 0 then phys d' = phys d \<and> mi_handle info \<notin> lin d \<and> lin d' = insert (mi_handle info) (lin d)
           else lin d' = lin d \<and> a + h_base h d \<notin> phys d \<and> phys d' = insert (a + h_base h d) (phys d))
        \<and> h_limit h d \<le> h_limit h d'
        \<and> (unat a + unat (page_up sz) \<le> 0xFFFFF000 \<longrightarrow> unat a + unat (page_up sz) - 1 \<le> unat (h_limit h d')))"
proof -
  define i where "i = first_map (\<lambda>m. mi_handle m = 0) tbl"
  obtain ok i1 d1 where m: "h_map_phys h \<lparr>mi_handle = 0, mi_size = page_up sz, mi_address = p\<rparr> d = (ok, i1, d1)" by (rule prod_cases3)
  note f1 = host_lawsD(1) [OF h m]
  show ?thesis
  proof (cases "i < length tbl \<and> ok")
    case False
    then show ?thesis using run f1 by (auto simp: pds_dpmi_map_physical_memory_def Let_def m simp flip: i_def split: if_splits)
  next
    case True
    obtain k d2 where k: "(if mi_address i1 < h_base h d then remap_above h p (page_up sz) (h_limit h d) i1 d1 else (Some i1, d1)) = (k, d2)"
      by (rule prod.exhaust)
    have r: "(case k of None \<Rightarrow> (0, tbl, d2) | Some info \<Rightarrow> (mi_address info - h_base h d, tbl[i := info\<lparr>mi_address := mi_address info - h_base h d\<rparr>],
        raise_limit h (h_limit h d) (mi_address info - h_base h d + page_up sz - 1) d2)) = (a, tbl', d')"
      using run True k by (simp add: pds_dpmi_map_physical_memory_def Let_def m flip: i_def cong: option.case_cong)
    have acc: "h_limit h d2 = h_limit h d \<and> (case k of None \<Rightarrow> phys d2 = phys d \<and> lin d2 = lin d
      | Some j \<Rightarrow> if mi_size j = 0 then phys d2 = phys d \<and> mi_handle j \<notin> lin d \<and> lin d2 = insert (mi_handle j) (lin d)
          else lin d2 = lin d \<and> mi_address j \<notin> phys d \<and> phys d2 = insert (mi_address j) (phys d))"
    proof (cases "mi_address i1 < h_base h d")
      case below: True
      have "remap_above h p (page_up sz) (h_limit h d) i1 d1 = (k, d2)" using k below by simp
      from remap_above_facts [OF h this, of "phys d"] show ?thesis using f1 True by (auto split: option.splits)
    next
      case above: False
      then show ?thesis using k f1 True sz by auto
    qed
    show ?thesis
    proof (cases k)
      case None
      then show ?thesis using r acc by simp
    next
      case (Some info)
      define lim where "lim = max (h_limit h d) (page_up (a + page_up sz) - 1)"
      have a: "a = mi_address info - h_base h d" "tbl' = tbl[i := info\<lparr>mi_address := a\<rparr>]"
          "d' = raise_limit h (h_limit h d) (a + page_up sz - 1) d2" using r Some by auto
      have d': "phys d' = phys d2" "lin d' = lin d2" "h_limit h d' = lim"
        using raise_limit_facts [OF h] by (simp_all add: a(3) lim_def)
      have "unat a + unat (page_up sz) - 1 \<le> unat lim" if le: "unat a + unat (page_up sz) \<le> 0xFFFFF000"
      proof -
        have s: "unat (a + page_up sz) = unat a + unat (page_up sz)" using le by (simp add: unat_word_ariths)
        have ge: "unat a + unat (page_up sz) \<le> unat (page_up (a + page_up sz))" using page_up_ge [of "a + page_up sz"] le s by simp
        have "unat (page_up sz) \<noteq> 0" using sz by (simp add: unat_eq_0)
        then have "page_up (a + page_up sz) \<noteq> 0" using ge by (metis add_is_0 le_zero_eq unat_0)
        then have "unat (page_up (a + page_up sz) - 1) = unat (page_up (a + page_up sz)) - 1" by (simp add: unat_minus_one)
        moreover have "unat (page_up (a + page_up sz) - 1) \<le> unat lim" by (simp add: lim_def max_def word_le_nat_alt)
        ultimately show ?thesis using ge by simp
      qed
      moreover have "h_limit h d \<le> lim" by (simp add: lim_def)
      moreover have "mi_address info = a + h_base h d" by (simp add: a(1))
      moreover have "h_limit h d2 = h_limit h d \<and> (if mi_size info = 0 then phys d2 = phys d \<and> mi_handle info \<notin> lin d \<and> lin d2 = insert (mi_handle info) (lin d)
          else lin d2 = lin d \<and> mi_address info \<notin> phys d \<and> phys d2 = insert (mi_address info) (phys d))"
        using acc Some by simp
      ultimately show ?thesis using True first_map_less [of "\<lambda>m. mi_handle m = 0" tbl] d' a(2)
        by (intro disjI2 exI [of _ i] exI [of _ "info\<lparr>mi_address := a\<rparr>"]) (simp add: i_def cong: if_cong)
    qed
  qed
qed

text \<open>C24: Mapping physical memory (the registers of a card) takes from the DPMI host exactly what it records: when it fails, with result 0, the table is
  as before and nothing stays mapped or allocated; otherwise one free entry of the table holds the new mapping or, for memory that would lie below the
  data segment, the block of linear memory above it, and the limit of the data segment, which never
  shrinks, covers the mapped pages.\<close>

theorem map_physical_accounts:
  assumes h: "host_laws h phys lin" and sz: "page_up sz \<noteq> 0"
    and run: "pds_dpmi_map_physical_memory h p sz (tbl, d) = (a, tbl', d')"
  shows "a = 0 \<and> tbl' = tbl \<and> phys d' = phys d \<and> lin d' = lin d \<and> h_limit h d' = h_limit h d
    \<or> (\<exists>i info. i < length tbl \<and> mi_handle (tbl ! i) = 0 \<and> tbl' = tbl[i := info] \<and> mi_address info = a
        \<and> (if mi_size info = 0 then phys d' = phys d \<and> mi_handle info \<notin> lin d \<and> lin d' = insert (mi_handle info) (lin d)
           else lin d' = lin d \<and> a + h_base h d \<notin> phys d \<and> phys d' = insert (a + h_base h d) (phys d))
        \<and> h_limit h d \<le> h_limit h d'
        \<and> (unat a + unat (page_up sz) \<le> 0xFFFFF000 \<longrightarrow> unat a + unat (page_up sz) - 1 \<le> unat (h_limit h d')))"
  by (rule map_physical_memory_account [OF assms])

text \<open>A host whose data segment starts at 0x400000: physical memory is mapped where it is, if it is not mapped there already.\<close>

record demo_dpmi =
  dd_phys :: "u32 set"
  dd_lin :: "u32 set"
  dd_limit :: u32

definition demo_host :: "demo_dpmi dpmi_host" where
  "demo_host = \<lparr>h_base = (\<lambda>_. 0x400000), h_limit = dd_limit, h_set_limit = (\<lambda>b v d. if b then d else d\<lparr>dd_limit := v\<rparr>), h_note_limit = (\<lambda>_ d. d),
    h_map_phys = (\<lambda>i d. if mi_address i \<in> dd_phys d then (False, i, d) else (True, i\<lparr>mi_handle := 5\<rparr>, d\<lparr>dd_phys := insert (mi_address i) (dd_phys d)\<rparr>)),
    h_free_phys = (\<lambda>i d. d\<lparr>dd_phys := dd_phys d - {mi_address i}\<rparr>),
    h_alloc_linear = (\<lambda>i d. if 7 \<in> dd_lin d then (False, i, d) else (True, i\<lparr>mi_handle := 7\<rparr>, d\<lparr>dd_lin := insert 7 (dd_lin d)\<rparr>)),
    h_map_device = (\<lambda>_ p d. (p \<noteq> 0, d)), h_free_memory = (\<lambda>k d. d\<lparr>dd_lin := dd_lin d - {k}\<rparr>), h_memset = (\<lambda>_ _ _ d. d)\<rparr>"

lemma demo_host_laws: "host_laws demo_host dd_phys dd_lin"
  by (auto simp: host_laws_def demo_host_def split: if_splits)

theorem map_physical_accounts_witness:
  "case pds_dpmi_map_physical_memory demo_host 0xE0000000 0x200 (physicalmaps_init, \<lparr>dd_phys = {}, dd_lin = {}, dd_limit = 0xFFFFF\<rparr>) of (a, tbl', d') \<Rightarrow>
    a = 0 \<and> tbl' = physicalmaps_init \<and> dd_phys d' = {} \<and> dd_lin d' = {} \<and> dd_limit d' = 0xFFFFF
    \<or> (\<exists>i info. i < 64 \<and> tbl' = physicalmaps_init[i := info] \<and> mi_address info = a \<and> 0xFFFFF \<le> dd_limit d')"
proof -
  obtain a t d' where r: "pds_dpmi_map_physical_memory demo_host 0xE0000000 0x200 (physicalmaps_init, \<lparr>dd_phys = {}, dd_lin = {}, dd_limit = 0xFFFFF\<rparr>) = (a, t, d')"
    by (rule prod_cases3)
  have "page_up 0x200 \<noteq> 0" by (simp add: page_up_def)
  from map_physical_accounts [OF demo_host_laws this r] show ?thesis
    by (auto simp: r) (auto simp: demo_host_def physicalmaps_init_def PHYSICAL_MAP_COUNT_def)
qed

section \<open>What is not given back\<close>

text \<open>The address that is given to the host is the one in the data segment: unless the segment starts at 0, the mapping stays.\<close>

lemma unmap_keeps_mapping:
  assumes h: "host_laws h phys lin" and i: "first_map (\<lambda>m. mi_handle m \<noteq> 0 \<and> mi_address m = a) tbl = i" "i < length tbl" "mi_size (tbl ! i) \<noteq> 0"
    and p: "a + h_base h d \<in> phys d" "h_base h d \<noteq> 0"
  shows "a + h_base h d \<in> phys (snd (pds_dpmi_unmap_physycal_memory h a (tbl, d)))"
proof -
  have "mi_address (tbl ! i) = a" using first_map_less [of "\<lambda>m. mi_handle m \<noteq> 0 \<and> mi_address m = a" tbl] i by simp
  then show ?thesis using i p host_lawsD(2) [OF h, of "tbl ! i" d] by (simp add: pds_dpmi_unmap_physycal_memory_def)
qed

text \<open>A mapping for which the host gives no handle is not recorded: the entry counts as free.\<close>

lemma unrecorded_mapping:
  assumes "0 < length tbl" "first_map (\<lambda>m. mi_handle m = 0) tbl = 0"
    "h_map_phys h \<lparr>mi_handle = 0, mi_size = page_up sz, mi_address = p\<rparr> d = (True, \<lparr>mi_handle = 0, mi_size = page_up sz, mi_address = l\<rparr>, d1)" "\<not> l < h_base h d"
  shows "fst (snd (pds_dpmi_map_physical_memory h p sz (tbl, d))) = tbl[0 := \<lparr>mi_handle = 0, mi_size = page_up sz, mi_address = l - h_base h d\<rparr>]"
  using assms by (simp add: pds_dpmi_map_physical_memory_def Let_def)

text \<open>A block of linear memory is lost when the memory of a card cannot be mapped into it.\<close>

lemma xms_map_leaks_block:
  assumes h: "host_laws h phys lin" and m: "h_map_phys h \<lparr>mi_handle = 0, mi_size = n, mi_address = p\<rparr> d = (True, i1, d1)" "mi_address i1 < h_base h d"
    and l: "h_alloc_linear h (i1\<lparr>mi_address := h_base h d + h_limit h d + 1\<rparr>) (h_free_phys h i1 d1) = (True, i2, d2)"
    and v: "h_map_device h (i2\<lparr>mi_address := 0, mi_size := n div 4096\<rparr>) p d2 = (False, d3)"
  shows "xms_map h p n d = (None, d3) \<and> mi_handle i2 \<notin> lin d \<and> lin d3 = insert (mi_handle i2) (lin d)"
proof -
  have "lin (h_free_phys h i1 d1) = lin d" using host_lawsD(1) [OF h m(1)] host_lawsD(2) [OF h, of i1 d1] by simp
  then show ?thesis using host_lawsD(3) [OF h l] host_lawsD(4) [OF h v] m l v by (simp add: xms_map_def Let_def)
qed

text \<open>Freeing the memory of a card passes the address 0 for a mapping, and a handle that was cut to 16 bits for a block.\<close>

lemma xms_freemem_calls:
  "snd (pds_dpmi_xms_freemem h ops mem (xr, d)) = snd (snd (pds_xms_free ops (xm_xms mem) (xr,
    if xm_remap mem then h_free_memory h (ucast (xm_handle mem)) d
    else h_free_phys h \<lparr>mi_handle = ucast (xm_handle mem), mi_size = 0, mi_address = 0\<rparr> d)))"
  by (simp add: pds_dpmi_xms_freemem_def)

end
