(* ===== verification/Mirq.thy ===== *)
theory Mirq
  imports Aucards Virq
begin

text \<open>
  The interrupt of a sound card (\<open>mpxplay/au_cards/dmairq.c\<close>): installing and removing its handler with the
  interrupt controller's mask, the handlers themselves, and the search for a free
  interrupt; also the size the drivers choose for their DMA buffer. Port accesses go through
  the same operations as those of the 8259 driver. A handler address is a value of type \<open>'v\<close>.
\<close>

section \<open>State\<close>

record ('h, 'v, 'r) mirq =
  sc_irq_controller_mask :: u8
  oldhandler_sc :: 'v
  newstack_pm_sc :: bool
  new_irq_routine_sc :: "'r option"
  vectors :: "u32 \<Rightarrow> 'v"
  irq_ports :: 'h

text \<open>What the functions use of the run-time system: the two handler addresses and whether there is memory for a stack.\<close>

record 'v irq_env =
  v_special :: 'v
  v_normal :: 'v
  stack_memory :: bool

definition irq_vector :: "u32 \<Rightarrow> u32" where
  "irq_vector irq_num = (if 7 < irq_num then irq_num + 0x68 else irq_num + 0x08)"

definition irq_controller_port :: "u32 \<Rightarrow> u16" where
  "irq_controller_port irq_num = (if 7 < irq_num then 0xA1 else 0x21)"

definition irq_bitnum :: "u32 \<Rightarrow> u8 res" where
  "irq_bitnum irq_num = bindE (shl1 (uint (if 7 < irq_num then irq_num - 8 else irq_num))) (\<lambda>b. Inr (ucast b))"

definition irq_in :: "'h io_ops \<Rightarrow> u16 \<Rightarrow> ('h, 'v, 'r) mirq \<Rightarrow> u8 \<times> ('h, 'v, 'r) mirq" where
  "irq_in io port s = (let (v, h) = io_in io port (irq_ports s) in (v, s\<lparr>irq_ports := h\<rparr>))"

definition irq_out :: "'h io_ops \<Rightarrow> u16 \<Rightarrow> u8 \<Rightarrow> ('h, 'v, 'r) mirq \<Rightarrow> ('h, 'v, 'r) mirq" where
  "irq_out io port v s = s\<lparr>irq_ports := io_out io port v (irq_ports s)\<rparr>"

section \<open>Installing the handler\<close>

definition newirq_mask :: "'h io_ops \<Rightarrow> u32 \<Rightarrow> u32 \<Rightarrow> ('h, 'v, 'r) mirq \<Rightarrow> ('h, 'v, 'r) mirq res" where
  "newirq_mask io bits irq_num s = bindE (irq_bitnum irq_num) (\<lambda>b.
    if funcbit_test bits SNDCARD_LOWLEVELHAND then
      (let (m, s) = irq_in io (irq_controller_port irq_num) s
       in Inr (irq_out io (irq_controller_port irq_num) (m AND NOT b) (s\<lparr>sc_irq_controller_mask := m\<rparr>)))
    else Inr s)"

definition newirq_vector :: "'v irq_env \<Rightarrow> u32 \<Rightarrow> u32 \<Rightarrow> ('h, 'v, 'r) mirq \<Rightarrow> ('h, 'v, 'r) mirq" where
  "newirq_vector env bits irq_num s = (let v = irq_vector irq_num in
    s\<lparr>oldhandler_sc := vectors s v, vectors := (vectors s)(v :=
      (if funcbit_test bits SNDCARD_SPECIAL_IRQ then v_special env else v_normal env))\<rparr>)"

definition setvect_soundcard_newirq :: "'h io_ops \<Rightarrow> 'v irq_env \<Rightarrow> u32 \<Rightarrow> 'r option \<Rightarrow> u32 \<times> ('h, 'v, 'r) mirq \<Rightarrow>
    (bool \<times> u32 \<times> ('h, 'v, 'r) mirq) res" where
  "setvect_soundcard_newirq io env irq_num routine st =
    (let bits = funcbit_enable (fst st) AUINFOS_CARDINFOBIT_IRQSTACKBUSY;
         special = funcbit_test bits SNDCARD_SPECIAL_IRQ;
         s = (if special then (snd st)\<lparr>newstack_pm_sc := stack_memory env\<rparr> else snd st) in
     if special \<and> \<not> stack_memory env then Inr (False, bits, s)
     else bindE (newirq_mask io bits irq_num (s\<lparr>new_irq_routine_sc := routine\<rparr>)) (\<lambda>s.
       Inr (True, funcbit_disable bits AUINFOS_CARDINFOBIT_IRQSTACKBUSY, newirq_vector env bits irq_num s)))"

definition setvect_soundcard_oldirq :: "'h io_ops \<Rightarrow> u32 \<Rightarrow> u32 \<Rightarrow> ('h, 'v, 'r) mirq \<Rightarrow> ('h, 'v, 'r) mirq res" where
  "setvect_soundcard_oldirq io irq_num bits s = bindE (irq_bitnum irq_num) (\<lambda>b.
    (let s = (if funcbit_test bits SNDCARD_LOWLEVELHAND then
          (let (m, s) = irq_in io (irq_controller_port irq_num) s
           in irq_out io (irq_controller_port irq_num) ((m AND NOT b) OR (sc_irq_controller_mask s AND b)) s)
        else s)
     in Inr (s\<lparr>vectors := (vectors s)(irq_vector irq_num := oldhandler_sc s), newstack_pm_sc := False\<rparr>)))"

definition irq_unmask :: "'h io_ops \<Rightarrow> u16 \<Rightarrow> u16 \<Rightarrow> u8 \<Rightarrow> u8 \<Rightarrow> ('h, 'v, 'r) mirq \<Rightarrow> ('h, 'v, 'r) mirq" where
  "irq_unmask io imr ocr msk eoi s = (let (m, s) = irq_in io imr s
    in irq_out io ocr eoi (irq_out io imr (m AND NOT msk) s))"

definition MIrq_OnOff :: "'h io_ops \<Rightarrow> u32 \<Rightarrow> bool \<Rightarrow> ('h, 'v, 'r) mirq \<Rightarrow> ('h, 'v, 'r) mirq" where
  "MIrq_OnOff io irqnum start s =
    (let imr = (if 7 < irqnum then 0xA1 else 0x21); ocr = (if 7 < irqnum then 0xA0 else 0x20);
         msk = push_bit (unat (irqnum AND 7)) 1; eoi = 0x60 OR ucast (irqnum AND 7) in
     if start then
       (let s = irq_unmask io imr ocr msk eoi s
        in if 7 < irqnum then irq_unmask io 0x21 0x20 (push_bit 2 1) (0x60 OR 2) s else s)
     else (let (m, s) = irq_in io imr s in irq_out io imr (m OR msk) s))"

definition MIrq_Start :: "'h io_ops \<Rightarrow> 'v irq_env \<Rightarrow> u32 \<Rightarrow> 'r option \<Rightarrow> u32 \<times> ('h, 'v, 'r) mirq \<Rightarrow>
    (bool \<times> u32 \<times> ('h, 'v, 'r) mirq) res" where
  "MIrq_Start io env irq_num routine st = (if routine \<noteq> None \<and> 2 \<le> irq_num \<and> irq_num \<le> 13 then
      bindE (setvect_soundcard_newirq io env irq_num routine st) (\<lambda>(done_ok, bits, s).
      Inr (if done_ok then (True, bits, MIrq_OnOff io irq_num True s) else (False, bits, s)))
    else Inr (False, st))"

definition MIrq_Stop :: "'h io_ops \<Rightarrow> u32 \<Rightarrow> u32 \<Rightarrow> ('h, 'v, 'r) mirq \<Rightarrow> ('h, 'v, 'r) mirq res" where
  "MIrq_Stop io irq_num bits s = (if 2 \<le> irq_num \<and> irq_num \<le> 13 then
      bindE (setvect_soundcard_oldirq io irq_num bits s) (\<lambda>s. Inr (MIrq_OnOff io irq_num False s))
    else Inr s)"

section \<open>Handling and detection\<close>

definition irq_eoi :: "'d io_ops \<Rightarrow> 'd au \<Rightarrow> 'd au" where
  "irq_eoi io s = upd_glb (\<lambda>g. g\<lparr>device := io_out io 0x20 0x20
    (if card_irq (fst s) AND 8 \<noteq> 0 then io_out io 0xA0 0x20 (device g) else device g)\<rparr>) s"

definition newhandler_sc_normal :: "'d io_ops \<Rightarrow> ('d au \<Rightarrow> 'd au res) \<Rightarrow> 'd au \<Rightarrow> 'd au res" where
  "newhandler_sc_normal io routine s = (let (save, s) = DISALLOW_INTSOUNDDECODER s in
    bindE (routine (info_on AUINFOS_CARDINFOBIT_IRQRUN s)) (\<lambda>s. Inr (ALLOW_INTSOUNDDECODER save (irq_eoi io s))))"

definition newhandler_sc_special :: "'d io_ops \<Rightarrow> ('d au \<Rightarrow> 'd au res) \<Rightarrow> 'd au \<Rightarrow> 'd au res" where
  "newhandler_sc_special io routine s = (let (save, s) = DISALLOW_INTSOUNDDECODER s in
    bindE (if \<not> info_has AUINFOS_CARDINFOBIT_IRQSTACKBUSY s then
        bindE (routine (info_on (AUINFOS_CARDINFOBIT_IRQSTACKBUSY OR AUINFOS_CARDINFOBIT_IRQRUN) s)) (\<lambda>s.
        Inr (info_off AUINFOS_CARDINFOBIT_IRQSTACKBUSY s))
      else Inr s) (\<lambda>s. Inr (ALLOW_INTSOUNDDECODER save (irq_eoi io s))))"

definition MIrq_is_used :: "'d io_ops \<Rightarrow> u32 \<Rightarrow> 'd au \<Rightarrow> (bool \<times> 'd au) res" where
  "MIrq_is_used io irqnum s = bindE (irq_bitnum irqnum) (\<lambda>b.
    (let (m, d) = io_in io (irq_controller_port irqnum) (device (snd s))
     in Inr (m AND b = 0, upd_glb (\<lambda>g. g\<lparr>device := d\<rparr>) s)))"

text \<open>Waiting: \<open>wait\<close> is what happens, interrupts included, during one delay of 10 milliseconds.\<close>

primrec irq_wait :: "('d au \<Rightarrow> 'd au) \<Rightarrow> nat \<Rightarrow> 'd au \<Rightarrow> bool \<times> 'd au" where
  "irq_wait wait 0 s = (False, s)"
| "irq_wait wait (Suc n) s = (if info_has AUINFOS_CARDINFOBIT_IRQRUN s then (True, s) else irq_wait wait n (wait s))"

definition MIrq_test :: "('d au \<Rightarrow> 'd au) \<Rightarrow> 'd one_sndcard_info \<Rightarrow> 'd au \<Rightarrow> (bool \<times> 'd au) res" where
  "MIrq_test wait c s = bindE (deref (card_start c)) (\<lambda>start.
    bindE (start (info_off AUINFOS_CARDINFOBIT_IRQRUN s)) (\<lambda>s.
    (let (ran, s) = irq_wait wait 500 s in
     bindE (deref (card_stop c)) (\<lambda>stop. bindE (stop s) (\<lambda>s. Inr (ran, s))))))"

fun autodetect_loop :: "'d io_ops \<Rightarrow> ('d au \<Rightarrow> 'd au) \<Rightarrow> 'd one_sndcard_info \<Rightarrow> nat list \<Rightarrow> 'd au \<Rightarrow> (bool \<times> 'd au) res" where
  "autodetect_loop io wait c [] s = Inr (False, upd_aui (\<lambda>a. a\<lparr>card_irq := 0\<rparr>) s)"
| "autodetect_loop io wait c (i # is) s =
     bindE (MIrq_is_used io (of_nat i) s) (\<lambda>(used, s).
     if used then autodetect_loop io wait c is s
     else bindE (MIrq_test wait c (upd_aui (\<lambda>a. a\<lparr>card_irq := of_nat i\<rparr>) s)) (\<lambda>(ran, s).
       if ran then Inr (True, s) else autodetect_loop io wait c is s))"

definition MIrq_autodetect :: "'d io_ops \<Rightarrow> ('d au \<Rightarrow> 'd au) \<Rightarrow> 'd one_sndcard_info option \<Rightarrow> 'd au \<Rightarrow> (bool \<times> 'd au) res" where
  "MIrq_autodetect io wait h s = (case h of None \<Rightarrow> Inr (False, s)
    | Some c \<Rightarrow> bindE (call_if (card_setrate c) s) (autodetect_loop io wait c [2..<14]))"

section \<open>Buffer size\<close>

text \<open>The product with the configured frequency is taken in floating point and cut down to an integer,
  exactly for frequencies below 2 to the power 24.\<close>

definition round_to :: "u32 \<Rightarrow> u32 \<Rightarrow> u32 res" where
  "round_to n page = (let n = n + (page - 1) in bindE (umod n page) (\<lambda>r. Inr (n - r)))"

definition MDma_get_max_pcmoutbufsize :: "u32 \<Rightarrow> u32 \<Rightarrow> u32 \<Rightarrow> u32 \<Rightarrow> u32 \<Rightarrow> u32 res" where
  "MDma_get_max_pcmoutbufsize controlbits max_bufsize pagesize samplesize freq_config =
    (let max_bufsize = (if max_bufsize = 0 then 131072 else max_bufsize);
         pagesize = (if pagesize = 0 then 512 else pagesize);
         samplesize = (if samplesize < 2 then 2 else samplesize);
         bufsize = (if freq_config \<noteq> 0 then word_of_int (2048 * uint freq_config div 44100) else 2048 :: u32);
         bufsize = (if funcbit_test controlbits 2 then bufsize * 2 else bufsize) in
     bindE (round_to (bufsize * samplesize) pagesize) (\<lambda>bufsize.
     if max_bufsize < bufsize then bindE (umod max_bufsize pagesize) (\<lambda>r. Inr (max_bufsize - r))
     else Inr bufsize))"

section \<open>Starting and stopping\<close>

text \<open>Interrupt controllers whose mask registers keep what is written and are not changed by commands.\<close>

definition mask_laws :: "'h io_ops \<Rightarrow> ('h \<Rightarrow> u8) \<Rightarrow> ('h \<Rightarrow> u8) \<Rightarrow> bool" where
  "mask_laws io imr1 imr2 \<longleftrightarrow> pic_imr_laws io imr1 imr2 \<and> (\<forall>h v. \<forall>p\<in>{0x20, 0xA0}.
    imr1 (io_out io p v h) = imr1 h \<and> imr2 (io_out io p v h) = imr2 h)"

definition irq_bit :: "u32 \<Rightarrow> u8" where
  "irq_bit n = push_bit (unat (n AND 7)) 1"

lemma irq_cases:
  assumes "(2 :: u32) \<le> n" "n \<le> 13"
  obtains "n = 2" | "n = 3" | "n = 4" | "n = 5" | "n = 6" | "n = 7" | "n = 8" | "n = 9" | "n = 10" | "n = 11"
    | "n = 12" | "n = 13"
proof -
  have "2 \<le> unat n" "unat n \<le> 13" using assms by (auto simp: word_le_nat_alt)
  then have "unat n = 2 \<or> unat n = 3 \<or> unat n = 4 \<or> unat n = 5 \<or> unat n = 6 \<or> unat n = 7 \<or> unat n = 8
    \<or> unat n = 9 \<or> unat n = 10 \<or> unat n = 11 \<or> unat n = 12 \<or> unat n = 13" by presburger
  then show thesis using that by (elim disjE) (simp_all add: word_unat_eq_iff)
qed

lemma irq_bitnum_ok:
  assumes "2 \<le> n" "n \<le> 13" shows "irq_bitnum n = Inr (irq_bit n)"
  using assms by (cases rule: irq_cases) (simp_all add: irq_bitnum_def irq_bit_def)

lemma mask_lawsD:
  assumes "mask_laws io imr1 imr2"
  shows "io_in io 0x21 h = (imr1 h, h)" "io_in io 0xA1 h = (imr2 h, h)"
    "imr1 (io_out io 0x21 v h) = v" "imr2 (io_out io 0x21 v h) = imr2 h"
    "imr1 (io_out io 0xA1 v h) = imr1 h" "imr2 (io_out io 0xA1 v h) = v"
    "imr1 (io_out io 0x20 v h) = imr1 h" "imr2 (io_out io 0x20 v h) = imr2 h"
    "imr1 (io_out io 0xA0 v h) = imr1 h" "imr2 (io_out io 0xA0 v h) = imr2 h"
  using assms by (auto simp: mask_laws_def pic_imr_laws_def)

lemma irq_bit_masked: "(m AND NOT b AND NOT b OR (m AND b)) OR b = m OR b" "(m AND NOT b) OR b = m OR (b :: u8)"
  "((m AND NOT b) AND NOT b) OR b = m OR b" "((m AND NOT b) OR (m AND b)) OR b = m OR b"
  by (rule bit_word_eqI, auto simp: bit_simps)+

lemma MIrq_OnOff_on:
  assumes "mask_laws io imr1 imr2" "s' = MIrq_OnOff io n True s"
  shows "vectors s' = vectors s" "oldhandler_sc s' = oldhandler_sc s"
    "sc_irq_controller_mask s' = sc_irq_controller_mask s"
    "imr1 (irq_ports s') = imr1 (irq_ports s) AND NOT (if 7 < n then 4 else irq_bit n)"
    "imr2 (irq_ports s') = imr2 (irq_ports s) AND NOT (if 7 < n then irq_bit n else 0)"
  using assms(2)
  by (simp_all add: MIrq_OnOff_def irq_unmask_def irq_in_def irq_out_def Let_def mask_lawsD [OF assms(1)] irq_bit_def)

lemma MIrq_OnOff_off:
  assumes "mask_laws io imr1 imr2" "s' = MIrq_OnOff io n False s"
  shows "vectors s' = vectors s"
    "imr1 (irq_ports s') = imr1 (irq_ports s) OR (if 7 < n then 0 else irq_bit n)"
    "imr2 (irq_ports s') = imr2 (irq_ports s) OR (if 7 < n then irq_bit n else 0)"
  using assms(2)
  by (simp_all add: MIrq_OnOff_def irq_in_def irq_out_def Let_def mask_lawsD [OF assms(1)] irq_bit_def)

lemma newirq_result:
  assumes "mask_laws io imr1 imr2" "2 \<le> n" "n \<le> 13"
    and "setvect_soundcard_newirq io env n r (bits, s) = Inr (True, bits1, s')"
  defines "low \<equiv> funcbit_test (funcbit_enable bits AUINFOS_CARDINFOBIT_IRQSTACKBUSY) SNDCARD_LOWLEVELHAND"
  shows "bits1 = funcbit_disable (funcbit_enable bits AUINFOS_CARDINFOBIT_IRQSTACKBUSY) AUINFOS_CARDINFOBIT_IRQSTACKBUSY"
    "oldhandler_sc s' = vectors s (irq_vector n)"
    "\<exists>v. vectors s' = (vectors s)(irq_vector n := v)"
    "low \<Longrightarrow> sc_irq_controller_mask s' = (if 7 < n then imr2 else imr1) (irq_ports s)"
    "imr1 (irq_ports s') = imr1 (irq_ports s) AND NOT (if low \<and> \<not> 7 < n then irq_bit n else 0)"
    "imr2 (irq_ports s') = imr2 (irq_ports s) AND NOT (if low \<and> 7 < n then irq_bit n else 0)"
  using assms(4)
  by (auto simp: setvect_soundcard_newirq_def newirq_mask_def newirq_vector_def irq_in_def irq_out_def Let_def
      irq_controller_port_def mask_lawsD [OF assms(1)] irq_bitnum_ok [OF assms(2,3)] low_def split: if_splits)

lemma oldirq_result:
  assumes "mask_laws io imr1 imr2" "2 \<le> n" "n \<le> 13"
    and "setvect_soundcard_oldirq io n bits s = Inr s'"
  defines "low \<equiv> funcbit_test bits SNDCARD_LOWLEVELHAND"
  shows "vectors s' = (vectors s)(irq_vector n := oldhandler_sc s)"
    "imr1 (irq_ports s') = (if low \<and> \<not> 7 < n then (imr1 (irq_ports s) AND NOT (irq_bit n)) OR (sc_irq_controller_mask s AND irq_bit n)
      else imr1 (irq_ports s))"
    "imr2 (irq_ports s') = (if low \<and> 7 < n then (imr2 (irq_ports s) AND NOT (irq_bit n)) OR (sc_irq_controller_mask s AND irq_bit n)
      else imr2 (irq_ports s))"
  using assms(4)
  by (auto simp: setvect_soundcard_oldirq_def irq_in_def irq_out_def Let_def
      irq_controller_port_def mask_lawsD [OF assms(1)] irq_bitnum_ok [OF assms(2,3)] low_def)

lemma low_kept: "funcbit_test (funcbit_disable (funcbit_enable bits AUINFOS_CARDINFOBIT_IRQSTACKBUSY)
    AUINFOS_CARDINFOBIT_IRQSTACKBUSY) SNDCARD_LOWLEVELHAND
  = funcbit_test (funcbit_enable bits AUINFOS_CARDINFOBIT_IRQSTACKBUSY) SNDCARD_LOWLEVELHAND"
proof -
  have "((bits OR 4) AND NOT 4) AND 32 = (bits OR 4) AND (32 :: u32)"
    by (simp add: and.assoc)
  then show ?thesis
    by (simp add: funcbit_test_def funcbit_disable_def funcbit_enable_def au_bits SNDCARD_LOWLEVELHAND_def)
qed

text \<open>Starting and then stopping a card's interrupt puts the old handler back. But the interrupt is
  masked afterwards whatever its mask bit was before: \<open>setvect_soundcard_oldirq\<close> restores the saved bit and
  \<open>MIrq_OnOff\<close> then sets it. All other bits of its controller are as before; for an
  interrupt of the second controller the cascade stays unmasked on the first.\<close>

theorem mirq_start_stop:
  assumes laws: "mask_laws io imr1 imr2" and n: "2 \<le> n" "n \<le> 13"
    and start: "MIrq_Start io env n (Some r) (bits, s) = Inr (True, bits1, s1)"
    and stop: "MIrq_Stop io n bits1 s1 = Inr s2"
  shows "vectors s2 = vectors s
    \<and> imr1 (irq_ports s2) = (if 7 < n then imr1 (irq_ports s) AND NOT 4 else imr1 (irq_ports s) OR irq_bit n)
    \<and> imr2 (irq_ports s2) = (if 7 < n then imr2 (irq_ports s) OR irq_bit n else imr2 (irq_ports s))"
proof -
  obtain t where t: "setvect_soundcard_newirq io env n (Some r) (bits, s) = Inr (True, bits1, t)"
    and s1: "s1 = MIrq_OnOff io n True t"
    using start n by (auto simp: MIrq_Start_def split: if_splits)
  obtain u where u: "setvect_soundcard_oldirq io n bits1 s1 = Inr u" and s2: "s2 = MIrq_OnOff io n False u"
    using stop n by (auto simp: MIrq_Stop_def)
  note r1 = newirq_result [OF laws n t] and r2 = MIrq_OnOff_on [OF laws s1]
    and r3 = oldirq_result [OF laws n u] and r4 = MIrq_OnOff_off [OF laws s2]
  have "vectors s2 = vectors s" using r1(2,3) r2(1,2) r3(1) r4(1) by auto
  moreover have "imr1 (irq_ports s2) = (if 7 < n then imr1 (irq_ports s) AND NOT 4 else imr1 (irq_ports s) OR irq_bit n)"
    using r1(4,5) r2(3,4) r3(2) r4(2)
    by (simp add: r1(1) low_kept irq_bit_masked split: if_splits)
  moreover have "imr2 (irq_ports s2) = (if 7 < n then imr2 (irq_ports s) OR irq_bit n else imr2 (irq_ports s))"
    using r1(4,6) r2(3,5) r3(3) r4(3)
    by (simp add: r1(1) low_kept irq_bit_masked split: if_splits)
  ultimately show ?thesis by blast
qed

definition irq_demo :: "(u8 \<times> u8, nat, unit) mirq" where
  "irq_demo = \<lparr>sc_irq_controller_mask = 0, oldhandler_sc = 0, newstack_pm_sc = False, new_irq_routine_sc = None,
    vectors = (\<lambda>v. unat v), irq_ports = (0x10, 0)\<rparr>"

theorem mirq_start_stop_witness:
  "\<exists>bits1 s1 s2. MIrq_Start pic_demo \<lparr>v_special = 1, v_normal = 2, stack_memory = True\<rparr> 11 (Some ()) (32, irq_demo)
      = Inr (True, bits1, s1)
    \<and> MIrq_Stop pic_demo 11 bits1 s1 = Inr s2
    \<and> vectors s2 = vectors irq_demo \<and> fst (irq_ports s2) = 0x10 AND NOT 4 \<and> snd (irq_ports s2) = 0x00 OR irq_bit 11"
proof -
  have laws: "mask_laws pic_demo fst snd" by (simp add: mask_laws_def pic_imr_laws_def pic_demo_def)
  note s = setvect_soundcard_newirq_def setvect_soundcard_oldirq_def newirq_mask_def irq_bitnum_ok Let_def
    funcbit_test_def funcbit_enable_def SNDCARD_SPECIAL_IRQ_def SNDCARD_LOWLEVELHAND_def au_bits
  have "\<exists>bits1 s1. MIrq_Start pic_demo \<lparr>v_special = 1, v_normal = 2, stack_memory = True\<rparr> 11 (Some ())
      (32, irq_demo) = Inr (True, bits1, s1)"
    by (simp add: MIrq_Start_def s split_beta)
  then obtain bits1 s1 where start: "MIrq_Start pic_demo \<lparr>v_special = 1, v_normal = 2, stack_memory = True\<rparr> 11 (Some ())
      (32, irq_demo) = Inr (True, bits1, s1)" by blast
  obtain s2 where stop: "MIrq_Stop pic_demo 11 bits1 s1 = Inr s2"
    by (simp add: MIrq_Stop_def s split_beta)
  from mirq_start_stop [OF laws _ _ start stop] start stop show ?thesis
    by (simp add: irq_demo_def)
qed

end
