(* ===== verification/Cardbuf.thy ===== *)
theory Cardbuf
  imports Cardmem DmaRing Mirq Mixer
begin

text \<open>
  What the drivers of sound cards share: the set-up of the DMA buffer (\<open>MDma_init_pcmoutbuf\<close>, \<open>dmairq.c\<close>), the delays on the timer
  (\<open>pds_delay_10us\<close>, \<open>pds_delay_1695ns\<close>, \<open>au_base.c\<close>), the access to the registers of a card through ports or memory, and the
  waits with a bounded number of retries. What the hardware does on an access is a parameter. The field \<open>int08_decoder_cycles\<close>
  is read by code outside this build only and is left out.
\<close>

section \<open>Delays\<close>

text \<open>The counter of the timer, latched and read byte by byte.\<close>

definition timer_read :: "'h io_ops \<Rightarrow> 'h \<Rightarrow> u32 \<times> 'h" where
  "timer_read io h =
    (let h = io_out io 0x43 0x04 h; (l, h) = io_in io 0x40 h; (u, h) = io_in io 0x40 h
     in (ucast l + push_bit 8 (ucast u), h))"

abbreviation (input) INT08_DIVISOR_DEFAULT :: u32 where "INT08_DIVISOR_DEFAULT \<equiv> 65536"

definition timer_moved :: "u32 \<Rightarrow> u32 \<Rightarrow> u32" where
  "timer_moved oldtsc tsc = (if tsc \<le> oldtsc then oldtsc - tsc else INT08_DIVISOR_DEFAULT + oldtsc - tsc)"

partial_function (option) timer_wait :: "'h io_ops \<Rightarrow> u32 \<Rightarrow> u32 \<Rightarrow> 'h \<Rightarrow> 'h option" where
  "timer_wait io n oldtsc h =
    (let (tsc, h) = timer_read io h in if timer_moved oldtsc tsc < n then timer_wait io n oldtsc h else Some h)"

primrec timer_ticks :: "'h io_ops \<Rightarrow> u32 \<Rightarrow> nat \<Rightarrow> 'h \<Rightarrow> 'h res" where
  "timer_ticks io n 0 h = Inr h"
| "timer_ticks io n (Suc k) h =
    (let (oldtsc, h) = timer_read io h in
     case timer_wait io n oldtsc h of None \<Rightarrow> Inl No_return | Some h \<Rightarrow> timer_ticks io n k h)"

definition pds_delay_10us :: "'h io_ops \<Rightarrow> u32 \<Rightarrow> 'h \<Rightarrow> 'h res" where
  "pds_delay_10us io ticks h = timer_ticks io 12 (unat ticks) h"

definition pds_delay_1695ns :: "'h io_ops \<Rightarrow> u32 \<Rightarrow> 'h \<Rightarrow> 'h res" where
  "pds_delay_1695ns io ticks h = timer_ticks io 2 (unat ticks) h"

section \<open>Access to a card\<close>

text \<open>Ports, memory (registers mapped into memory and memory of the program), delays.\<close>

record 'h card_hw =
  hw_outb :: "u16 \<Rightarrow> u8 \<Rightarrow> 'h \<Rightarrow> 'h"
  hw_outw :: "u16 \<Rightarrow> u16 \<Rightarrow> 'h \<Rightarrow> 'h"
  hw_outl :: "u16 \<Rightarrow> u32 \<Rightarrow> 'h \<Rightarrow> 'h"
  hw_inb :: "u16 \<Rightarrow> 'h \<Rightarrow> u8 \<times> 'h"
  hw_inw :: "u16 \<Rightarrow> 'h \<Rightarrow> u16 \<times> 'h"
  hw_inl :: "u16 \<Rightarrow> 'h \<Rightarrow> u32 \<times> 'h"
  hw_writeb :: "u32 \<Rightarrow> u8 \<Rightarrow> 'h \<Rightarrow> 'h"
  hw_writew :: "u32 \<Rightarrow> u16 \<Rightarrow> 'h \<Rightarrow> 'h"
  hw_writel :: "u32 \<Rightarrow> u32 \<Rightarrow> 'h \<Rightarrow> 'h"
  hw_readb :: "u32 \<Rightarrow> 'h \<Rightarrow> u8 \<times> 'h"
  hw_readw :: "u32 \<Rightarrow> 'h \<Rightarrow> u16 \<times> 'h"
  hw_readl :: "u32 \<Rightarrow> 'h \<Rightarrow> u32 \<times> 'h"
  hw_gettimeu :: "'h \<Rightarrow> int \<times> 'h"

text \<open>The ports of single bytes, as the timer uses them.\<close>

definition hw_io :: "'h card_hw \<Rightarrow> 'h io_ops" where
  "hw_io hw = \<lparr>io_out = hw_outb hw, io_in = hw_inb hw\<rparr>"

text \<open>A wait of at most \<open>n\<close> rounds, with a delay between the tests; the result is the number of rounds that are left, 0 when
  the last test has failed too.\<close>

primrec retry_wait :: "('h \<Rightarrow> bool \<times> 'h) \<Rightarrow> ('h \<Rightarrow> 'h res) \<Rightarrow> nat \<Rightarrow> 'h \<Rightarrow> (nat \<times> 'h) res" where
  "retry_wait test delay 0 h = Inr (0, h)"
| "retry_wait test delay (Suc n) h =
    (let (ok, h) = test h in if ok then Inr (Suc n, h) else bindE (delay h) (retry_wait test delay n))"

section \<open>The DMA buffer\<close>

text \<open>What the code computes in floating point: the bytes played during an interval of the timer, which depends on the
  precision of constants, and in the drivers the correction of a clock. A value of type \<open>float\<close> is its bit pattern.\<close>

record float_ops =
  fl_share :: "u32 \<Rightarrow> u32 \<Rightarrow> u32"
  fl_corrector :: "u32 \<Rightarrow> u8 \<Rightarrow> u8 \<Rightarrow> int \<Rightarrow> int \<Rightarrow> u32"
  fl_near1 :: "u32 \<Rightarrow> bool"
  fl_implausible :: "u32 \<Rightarrow> bool"
  fl_times :: "u32 \<Rightarrow> u32 \<Rightarrow> u32"
  fl_over :: "u32 \<Rightarrow> u32 \<Rightarrow> u32"

definition fl_nonzero :: "u32 \<Rightarrow> bool" where "fl_nonzero c = (c AND 0x7FFFFFFF \<noteq> 0)"

abbreviation (input) PCM_OUTSAMPLES :: u32 where "PCM_OUTSAMPLES \<equiv> 1152"

text \<open>The size. The product and the quotient are computed with more than 48 bits, so that the integer part is exact for sizes and
  rates below 2 to the power 24.\<close>

definition init_dmasize :: "u32 \<Rightarrow> u32 \<Rightarrow> u32 \<Rightarrow> u32 \<Rightarrow> u32 res" where
  "init_dmasize maxbufsize pagesize rate freq =
    bindE (round_to (word_of_int (uint maxbufsize * uint rate div uint freq)) pagesize) (\<lambda>n.
    (let n = (if n < pagesize * 2 then pagesize * 2 else n) in
     if maxbufsize < n then bindE (umod maxbufsize pagesize) (\<lambda>r. Inr (maxbufsize - r)) else Inr n))"

definition card_framesize :: "mpxplay_audioout_info \<Rightarrow> u32" where
  "card_framesize a = ucast (chan_card a) * (((if card_wave_id a = MPXPLAY_WAVEID_PCM_FLOAT then 32 else ucast (bits_card a)) + 7) div 8)"

text \<open>The two values that are to be rounded to whole frames are rounded by the remainders of the values they replace.\<close>

definition MDma_init_pcmoutbuf :: "float_ops \<Rightarrow> u32 \<Rightarrow> u32 \<Rightarrow> u32 \<Rightarrow> mpxplay_audioout_info \<Rightarrow> (u32 \<times> mpxplay_audioout_info) res" where
  "MDma_init_pcmoutbuf fl maxbufsize pagesize freq_config a =
    bindE (init_dmasize maxbufsize pagesize (freq_card a) (if freq_config \<noteq> 0 then freq_config else 44100)) (\<lambda>n.
    (let bps = card_framesize a; a = a\<lparr>card_bytespersign := bps, card_dmasize := n\<rparr>;
         a = (if card_outbytes a = 0 then a\<lparr>card_outbytes := PCM_OUTSAMPLES * bps\<rparr> else a) in
     bindE (umod (card_dmaout_under_int08 a) bps) (\<lambda>r.
     (let a = a\<lparr>card_dmaout_under_int08 := fl_share fl (freq_card a) bps + (bps - 1) - r, card_dma_lastgoodpos := 0\<rparr> in
     bindE (umod (card_dmalastput a) bps) (\<lambda>r.
     (let a = a\<lparr>card_dmalastput := card_dmasize a div 2 - r\<rparr>;
          a = a\<lparr>card_dmafilled := card_dmalastput a\<rparr>
      in Inr (n, a\<lparr>card_dmaspace := card_dmasize a - card_dmafilled a\<rparr>)))))))"

section \<open>The size of the buffer\<close>

lemma sub_mod_unat: "unat (m - m mod p :: u32) = unat m - unat m mod unat p"
  by (simp add: unat_sub unat_mod word_le_nat_alt)

lemma init_dmasize_ok:
  assumes p: "page \<noteq> 0" and m: "2 * unat page \<le> unat maxb"
  shows "\<exists>n. init_dmasize maxb page rate freq = Inr n \<and> unat page dvd unat n \<and> n \<le> maxb \<and> 2 * unat page \<le> unat n"
proof -
  define k :: u32 where "k = word_of_int (uint maxb * uint rate div uint freq) + (page - 1)"
  define n where "n = k - k mod page"
  have n: "unat page dvd unat n" unfolding n_def sub_mod_unat by (metis dvd_minus_mod)
  have p2: "unat (page * 2) = 2 * unat page" using m unat_u32_less [of maxb] by (simp add: unat_word_ariths)
  have p0: "unat page \<noteq> 0" using p by (simp add: unat_eq_0)
  define r where "r = (if n < page * 2 then page * 2 else n)"
  have r: "unat page dvd unat r" "2 * unat page \<le> unat r" using n p2 by (auto simp: r_def word_less_nat_alt)
  have i: "init_dmasize maxb page rate freq = (if maxb < r then Inr (maxb - maxb mod page) else Inr r)"
    using p by (simp add: init_dmasize_def round_to_def umod_def Let_def r_def n_def k_def)
  show ?thesis
  proof (cases "maxb < r")
    case True
    have "2 * unat page \<le> unat maxb - unat maxb mod unat page"
      by (metis m minus_mod_eq_mult_div mult.commute mult_le_mono1 p0 div_le_mono nonzero_mult_div_cancel_right)
    then show ?thesis using True i by (auto simp: sub_mod_unat word_le_nat_alt dvd_minus_mod)
  qed (use i r in \<open>auto simp: not_less\<close>)
qed

lemma init_pcmoutbuf_ok:
  assumes p: "page \<noteq> 0" and m: "2 * unat page \<le> unat maxb" and f: "card_framesize a \<noteq> 0" "card_framesize a \<le> page"
    and buf: "card_DMABUFF a = Some buf" "unat maxb \<le> length buf"
  shows "\<exists>n a'. MDma_init_pcmoutbuf fl maxb page freq_config a = Inr (n, a') \<and> unat page dvd unat n \<and> 2 * unat page \<le> unat n
    \<and> n \<le> maxb \<and> card_dmasize a' = n \<and> dma_wf a' \<and> card_dmalastput a' \<le> n div 2 \<and> card_dmafilled a' = card_dmalastput a'
    \<and> unat (card_dmafilled a') + unat (card_dmaspace a') = unat n \<and> card_dma_lastgoodpos a' = 0 \<and> card_bytespersign a' = card_framesize a
    \<and> bits_card a' = bits_card a"
proof -
  obtain n where n: "init_dmasize maxb page (freq_card a) (if freq_config \<noteq> 0 then freq_config else 44100) = Inr n"
      "unat page dvd unat n" "n \<le> maxb" "2 * unat page \<le> unat n"
    using init_dmasize_ok [OF p m] by blast
  define l where "l = n div 2 - card_dmalastput a mod card_framesize a"
  have "unat (card_dmalastput a mod card_framesize a) < unat (card_framesize a)"
    using f(1) by (simp add: unat_mod unat_gt_0)
  then have r: "unat (card_dmalastput a mod card_framesize a) < unat page" using f(2) by (simp add: word_le_nat_alt)
  have d: "unat (n div 2) = unat n div 2" by (simp add: unat_div)
  have l: "unat l = unat n div 2 - unat (card_dmalastput a mod card_framesize a)"
    using r n(4) d by (simp add: l_def unat_sub word_le_nat_alt)
  obtain a' where a': "MDma_init_pcmoutbuf fl maxb page freq_config a = Inr (n, a')" "card_dmasize a' = n" "card_dmalastput a' = l"
      "card_dmafilled a' = l" "card_dmaspace a' = n - l" "card_dma_lastgoodpos a' = 0" "card_bytespersign a' = card_framesize a"
      "card_DMABUFF a' = Some buf" "bits_card a' = bits_card a"
    using n(1) f(1) buf(1) by (simp add: MDma_init_pcmoutbuf_def umod_def Let_def l_def)
  have "0 < unat page" using p by (simp add: unat_gt_0)
  then have "unat l < unat n" using l n(4) by linarith
  moreover have "unat (n - l) = unat n - unat l" using calculation by (simp add: unat_sub word_le_nat_alt)
  ultimately show ?thesis using a' n buf l d
    by (intro exI [of _ n] exI [of _ a']) (auto simp: dma_wf_def word_less_nat_alt word_le_nat_alt)
qed

text \<open>C23: \<open>MDma_init_pcmoutbuf\<close> leaves a consistent ring buffer whatever the rate: its size is a multiple of the page (for
  the drivers, the alignment of their descriptors), at least two pages and no more than the memory that was allocated; the put position is
  inside the buffer and not beyond its middle, and the filled part and the free part make up the whole.\<close>

theorem dma_buffer_initialised:
  assumes p: "page \<noteq> 0" and m: "2 * unat page \<le> unat maxb" and f: "card_framesize a \<noteq> 0" "card_framesize a \<le> page"
    and buf: "card_DMABUFF a = Some buf" "unat maxb \<le> length buf"
  shows "\<exists>n a'. MDma_init_pcmoutbuf fl maxb page freq_config a = Inr (n, a') \<and> unat page dvd unat n \<and> 2 * unat page \<le> unat n
    \<and> n \<le> maxb \<and> card_dmasize a' = n \<and> dma_wf a' \<and> card_dmalastput a' \<le> n div 2 \<and> card_dmafilled a' = card_dmalastput a'
    \<and> unat (card_dmafilled a') + unat (card_dmaspace a') = unat n \<and> card_dma_lastgoodpos a' = 0 \<and> card_bytespersign a' = card_framesize a"
  using init_pcmoutbuf_ok [OF p m f buf] by meson

definition demo_fl :: float_ops where
  "demo_fl = \<lparr>fl_share = (\<lambda>f b. f * b div 115), fl_corrector = (\<lambda>_ _ _ _ _. 0), fl_near1 = (\<lambda>_. True), fl_implausible = (\<lambda>_. False),
    fl_times = (\<lambda>f _. f), fl_over = (\<lambda>f _. f)\<rparr>"

theorem dma_buffer_initialised_witness:
  "\<exists>n a'. MDma_init_pcmoutbuf demo_fl 8 4 0 aui0 = Inr (n, a') \<and> unat (4 :: u32) dvd unat n \<and> 2 * unat (4 :: u32) \<le> unat n
    \<and> n \<le> 8 \<and> card_dmasize a' = n \<and> dma_wf a' \<and> card_dmalastput a' \<le> n div 2 \<and> card_dmafilled a' = card_dmalastput a'
    \<and> unat (card_dmafilled a') + unat (card_dmaspace a') = unat n \<and> card_dma_lastgoodpos a' = 0 \<and> card_bytespersign a' = card_framesize aui0"
  by (rule dma_buffer_initialised [where buf = "[0, 0, 0, 0, 0, 0, 0, 0]"])
    (simp_all add: card_framesize_def aui0_def MPXPLAY_WAVEID_PCM_FLOAT_def)

text \<open>The put position is rounded by the remainder of the old one: after a start at an odd byte it is not on a frame
  boundary, although half of the buffer is.\<close>

lemma lastput_rounded_by_old_value:
  "\<exists>a. MDma_init_pcmoutbuf fl 8 4 44100 (aui0\<lparr>freq_card := 44100, card_dmalastput := 1\<rparr>) = Inr (8, a)
    \<and> card_bytespersign a = 4 \<and> card_dmalastput a = 3"
  by (simp add: MDma_init_pcmoutbuf_def init_dmasize_def round_to_def umod_def card_framesize_def aui0_def Let_def MPXPLAY_WAVEID_PCM_FLOAT_def)

section \<open>Delays end\<close>

text \<open>A timer whose 16-bit counter counts down, by at least one step and at most 60000 steps between two readings.\<close>

definition timer_runs :: "'h io_ops \<Rightarrow> ('h \<Rightarrow> u16) \<Rightarrow> bool" where
  "timer_runs io cnt = (\<forall>h. \<exists>k. 1 \<le> k \<and> k \<le> 60000 \<and> fst (timer_read io h) = ucast (cnt h) \<and> cnt (snd (timer_read io h)) = cnt h - of_nat k)"

lemma timer_moved_mod: "timer_moved (ucast a) (ucast (b :: u16)) = ucast (a - b :: u16)"
proof -
  have u: "unat (ucast x :: u32) = unat x" for x :: u16
    using unsigned_less [of x, where 'a = nat] by (simp add: unsigned_ucast_eq take_bit_nat_eq_self_iff)
  have b: "unat a < 65536" "unat b < 65536" by (rule unat_u16_less)+
  define m where "m = (if unat b \<le> unat a then unat a - unat b else unat a + 65536 - unat b)"
  have "unat (timer_moved (ucast a) (ucast b)) = m"
    using b by (auto simp: m_def timer_moved_def word_le_nat_alt u unat_sub unat_word_ariths not_le)
  moreover have "unat (a - b) = m" using b by (simp add: unat_sub_if' m_def)
  ultimately show ?thesis by (simp add: word_unat_eq_iff u)
qed

text \<open>The wait ends: every reading moves the counter on, and it cannot run past the mark into its next round.\<close>

lemma unat_ucast16_u32: "unat (ucast (x :: u16) :: u32) = unat x"
  using unat_u16_less [of x] by (simp add: unsigned_ucast_eq take_bit_nat_eq_self_iff)

lemma timer_wait_returns:
  assumes io: "timer_runs io cnt" and n: "unat n \<le> 5000"
  shows "\<exists>g. timer_wait io n (ucast t0) h = Some (snd (timer_read io g)) \<and> unat n \<le> unat (t0 - cnt g)"
proof (induction "unat n - unat (t0 - cnt h)" arbitrary: h rule: less_induct)
  case less
  obtain k where k: "1 \<le> k" "k \<le> 60000" "fst (timer_read io h) = ucast (cnt h)" "cnt (snd (timer_read io h)) = cnt h - of_nat k"
    using io unfolding timer_runs_def by blast
  obtain h1 where h1: "timer_read io h = (ucast (cnt h), h1)" "cnt h1 = cnt h - of_nat k" using k(3,4) by (metis prod.collapse)
  have e: "t0 - cnt h1 = (t0 - cnt h) + of_nat k" by (simp add: h1(2))
  have moved: "timer_moved (ucast t0) (ucast (cnt h)) < n \<longleftrightarrow> unat (t0 - cnt h) < unat n"
    by (simp add: timer_moved_mod word_less_nat_alt unat_ucast16_u32)
  show ?case
  proof (cases "unat (t0 - cnt h) < unat n")
    case True
    have "unat (t0 - cnt h1) = unat (t0 - cnt h) + k"
      unfolding e using True n k(2) by (simp add: unat_word_ariths unat_of_nat)
    then have "unat n - unat (t0 - cnt h1) < unat n - unat (t0 - cnt h)" using True k(1) by simp
    from less [OF this] show ?thesis using True moved h1 by (simp add: timer_wait.simps [of io n _ h])
  next
    case False
    then have "timer_wait io n (ucast t0) h = Some h1" using moved h1 by (simp add: timer_wait.simps [of io n _ h])
    then show ?thesis using False h1 by (intro exI [of _ h]) simp
  qed
qed

lemma timer_ticks_returns:
  assumes io: "timer_runs io cnt" and n: "unat n \<le> 5000"
  shows "\<exists>h'. timer_ticks io n k h = Inr h'"
proof (induction k arbitrary: h)
  case (Suc k)
  obtain h1 where h1: "timer_read io h = (ucast (cnt h), h1)" using io unfolding timer_runs_def by (metis prod.collapse)
  obtain h2 where "timer_wait io n (ucast (cnt h)) h1 = Some h2" using timer_wait_returns [OF io n] by blast
  then show ?case using Suc h1 by simp
qed simp

lemma delays_return:
  assumes "timer_runs io cnt"
  shows "\<exists>h'. pds_delay_10us io t h = Inr h'" "\<exists>h'. pds_delay_1695ns io t h = Inr h'"
  unfolding pds_delay_10us_def pds_delay_1695ns_def by (rule timer_ticks_returns [OF assms], simp)+

lemma retry_wait_returns: "(\<And>h. \<exists>h'. delay h = Inr h') \<Longrightarrow> \<exists>k h'. retry_wait test delay n h = Inr (k, h')"
proof (induction n arbitrary: h)
  case (Suc n)
  obtain ok h1 where h1: "test h = (ok, h1)" by (rule prod.exhaust)
  obtain h2 where "delay h1 = Inr h2" using Suc.prems by blast
  then show ?case using Suc.IH [OF Suc.prems, of h2] h1 by simp
qed simp

section \<open>Cards that know their position\<close>

text \<open>What asking a card for its position may change of the audio state: the bytes of the buffer (but not their number), the flags, and the last good
  position, which stays inside the buffer.\<close>

definition pos_same :: "mpxplay_audioout_info \<Rightarrow> mpxplay_audioout_info \<Rightarrow> bool" where
  "pos_same a a' = (\<exists>b i p. a' = a\<lparr>card_DMABUFF := b, card_infobits := i, card_dma_lastgoodpos := p\<rparr>
     \<and> map_option length b = map_option length (card_DMABUFF a) \<and> p < card_dmasize a)"

definition good_position :: "mpxplay_audioout_info \<Rightarrow> bool" where
  "good_position a = (dma_wf a \<and> card_dma_lastgoodpos a < card_dmasize a)"

lemma pos_same_good: "good_position a \<Longrightarrow> pos_same a a' \<Longrightarrow> good_position a'"
  by (auto simp: pos_same_def good_position_def dma_wf_def)

lemma pos_same_refl: "good_position a \<Longrightarrow> pos_same a a"
  unfolding pos_same_def good_position_def
  by (rule exI [of _ "card_DMABUFF a"], rule exI [of _ "card_infobits a"], rule exI [of _ "card_dma_lastgoodpos a"]) simp

lemma pos_same_trans: "pos_same a b \<Longrightarrow> pos_same b c \<Longrightarrow> pos_same a c"
  unfolding pos_same_def by fastforce

text \<open>The contract between the output layer and such a card. \<open>ready\<close> is what a driver needs of its own state.\<close>

locale card_position =
  fixes pos :: "'d au \<Rightarrow> (u32 \<times> 'd au) res" and ready :: "'d au_globals \<Rightarrow> bool"
  assumes pos_ok: "good_position a \<Longrightarrow> ready g \<Longrightarrow>
    \<exists>p a' g'. pos (a, g) = Inr (p, a', g') \<and> p < card_dmasize a \<and> pos_same a a' \<and> ready g'"
begin

lemma position:
  assumes good: "good_position a" "ready g" and b: "card_bytespersign a \<noteq> 0" and o: "card_outbytes a \<le> card_dmasize a"
    and i: "funcbit_test (card_infobits a) AUINFOS_CARDINFOBIT_PLAYING"
  shows "\<exists>p a' g'. space_from_pos pos (a, g) = Inr (a'\<lparr>card_dmaspace := ring_room p a'\<rparr>, g') \<and> p < card_dmasize a'
    \<and> good_position a' \<and> card_dmasize a' = card_dmasize a \<and> card_bytespersign a' = card_bytespersign a \<and> ready g'"
proof -
  obtain q a1 g1 where q: "pos (a, g) = Inr (q, a1, g1)" "q < card_dmasize a" "pos_same a a1" "ready g1"
    using pos_ok [OF good] by blast
  have same: "card_dmasize a1 = card_dmasize a" "card_bytespersign a1 = card_bytespersign a" "card_outbytes a1 = card_outbytes a"
    using q(3) by (auto simp: pos_same_def)
  define p where "p = q - q mod card_bytespersign a"
  have p: "p < card_dmasize a" using q(2)
    by (simp add: p_def word_less_nat_alt unat_sub word_le_nat_alt unat_mod mod_less_eq_dividend less_imp_diff_less)
  define a' where "a' = fst (put_after_underrun p (a1, g1))"
  have g1: "good_position a1" by (rule pos_same_good [OF good(1) q(3)])
  have lp: "(if card_outbytes a \<le> p then p - card_outbytes a else card_dmasize a + p - card_outbytes a) < card_dmasize a"
  proof (cases "card_outbytes a \<le> p")
    case True
    then show ?thesis using p by (simp add: word_less_nat_alt word_le_nat_alt unat_sub)
  next
    case False
    have eq: "card_dmasize a + p - card_outbytes a = card_dmasize a - (card_outbytes a - p)" by simp
    have "unat (card_dmasize a - (card_outbytes a - p)) = unat (card_dmasize a) - unat (card_outbytes a - p)"
      using False o by (intro unat_sub) (simp add: word_le_nat_alt unat_sub)
    moreover have "unat (card_outbytes a - p) = unat (card_outbytes a) - unat p" using False by (simp add: unat_sub)
    ultimately have "unat (card_dmasize a + p - card_outbytes a) < unat (card_dmasize a)"
      using False o unfolding eq word_le_nat_alt by linarith
    then show ?thesis using False by (simp add: word_less_nat_alt)
  qed
  have "good_position a'"
    using g1 lp same by (auto simp: a'_def put_after_underrun_def good_position_def dma_wf_def upd_aui_def)
  moreover have "put_after_underrun p (a1, g1) = (a', g1)" by (simp add: a'_def put_after_underrun_def upd_aui_def)
  moreover have "card_dmasize a' = card_dmasize a" "card_bytespersign a' = card_bytespersign a"
    using same by (simp_all add: a'_def put_after_underrun_def upd_aui_def)
  moreover have "space_from_pos pos (a, g) = Inr (a'\<lparr>card_dmaspace := ring_room p a'\<rparr>, g1)"
    using i b q(1,2) same calculation(2,3) unfolding space_from_pos_def
    by (simp add: umod_def leD ring_room_def upd_aui_def flip: p_def)
  ultimately show ?thesis using p q(4) by (intro exI [of _ p] exI [of _ a'] exI [of _ g1]) simp
qed

text \<open>The room that the output layer finds is the distance from the put position to the play position; with what has yet to
  be played it makes up the whole buffer, and a margin is kept back.\<close>

lemma room:
  assumes good: "good_position a" "ready g" and b: "card_bytespersign a \<noteq> 0" and o: "card_outbytes a \<le> card_dmasize a"
    and i: "funcbit_test (card_infobits a) AUINFOS_CARDINFOBIT_PLAYING"
    and c: "cardbuf_pos c = Some pos" "\<not> funcbit_test (infobits c) SNDCARD_CARDBUF_SPACE"
    and prot: "buffer_protection (card_bytespersign a) = Inr prot"
  shows "\<exists>r a' g' p. AU_cardbuf_space (Some c) (a, g) = Inr (r, a', g') \<and> good_position a' \<and> ready g' \<and> p < card_dmasize a
    \<and> card_dmasize a' = card_dmasize a \<and> card_dmaspace a' = ring_room p a' \<and> card_dmaspace a' \<le> card_dmasize a
    \<and> card_dmafilled a' = card_dmasize a - card_dmaspace a'
    \<and> r = (if prot < card_dmaspace a' then card_dmaspace a' - prot else 0)"
proof -
  obtain p a1 g1 where s: "space_from_pos pos (a, g) = Inr (a1\<lparr>card_dmaspace := ring_room p a1\<rparr>, g1)" "p < card_dmasize a1"
      "good_position a1" "card_dmasize a1 = card_dmasize a" "ready g1"
    using position [OF good b o i] by blast
  have l: "card_dmalastput a < card_dmasize a" "card_dmalastput a1 < card_dmasize a1"
    using good(1) s(3) by (simp_all add: good_position_def dma_wf_def)
  define d where "d = ring_room p a1"
  have d: "d \<le> card_dmasize a"
    using ring_room_nat [OF l(2) s(2)] s(2,4) l by (auto simp: d_def word_le_nat_alt word_less_nat_alt)
  let ?a = "a1\<lparr>card_dmaspace := d, card_dmafilled := card_dmasize a - d\<rparr>"
  have 1: "space_from_pos pos (a, g) = Inr (a1\<lparr>card_dmaspace := d\<rparr>, g1)" using s(1) by (simp add: d_def)
  have 2: "upd_aui (\<lambda>a. if card_dmasize a \<le> card_dmalastput a then a\<lparr>card_dmalastput := 0\<rparr> else a) (a, g) = (a, g)"
    using l(1) by (simp add: upd_aui_def not_le)
  have 3: "upd_aui (\<lambda>a. if card_dmasize a < card_dmaspace a then a\<lparr>card_dmaspace := card_dmasize a\<rparr> else a) (a1\<lparr>card_dmaspace := d\<rparr>, g1)
      = (a1\<lparr>card_dmaspace := d\<rparr>, g1)"
    using d s(4) by (simp add: upd_aui_def not_less)
  have 4: "upd_aui (\<lambda>a. a\<lparr>card_dmafilled := card_dmasize a - card_dmaspace a\<rparr>) (a1\<lparr>card_dmaspace := d\<rparr>, g1) = (?a, g1)"
    using s(4) by (simp add: upd_aui_def)
  have "AU_cardbuf_space (Some c) (a, g) = Inr (if prot < d then d - prot else 0, ?a, g1)"
    unfolding AU_cardbuf_space_def fst_conv prot bindE_simps Let_def 2 deref_def option.case c(1) using c(2)
    by (simp only: if_False 1 bindE_simps 3 4 fst_conv) simp
  moreover have "good_position ?a" using s(3) by (simp add: good_position_def dma_wf_def)
  moreover have "ring_room p ?a = d" by (simp add: d_def ring_room_def)
  ultimately show ?thesis using s(2,4,5) d by (intro exI [of _ "if prot < d then d - prot else 0"] exI [of _ ?a] exI [of _ g1] exI [of _ p]) simp
qed

end

end
