(* ===== verification/Ac97.thy ===== *)
theory Ac97
  imports Cardbuf Pci
begin

text \<open>
  What the drivers of PCI cards with an AC97 codec share: the mixer channels (\<open>ac97_def.c\<close>), the environment of a driver and the state of a
  device behind the audio output, operations on a playing card, tables of doublewords in memory, and a small machine on which the
  drivers' theorems are tried.
\<close>

section \<open>AC97 mixer channels\<close>

abbreviation (input) AC97_MASTER_VOL_STEREO :: u32 where "AC97_MASTER_VOL_STEREO \<equiv> 0x02"
abbreviation (input) AC97_HEADPHONE_VOL :: u32 where "AC97_HEADPHONE_VOL \<equiv> 0x04"
abbreviation (input) AC97_CD_VOL :: u32 where "AC97_CD_VOL \<equiv> 0x12"
abbreviation (input) AC97_PCMOUT_VOL :: u32 where "AC97_PCMOUT_VOL \<equiv> 0x18"
abbreviation (input) AC97_EXTENDED_STATUS :: u32 where "AC97_EXTENDED_STATUS \<equiv> 0x2A"
abbreviation (input) AC97_PCM_FRONT_DAC_RATE :: u32 where "AC97_PCM_FRONT_DAC_RATE \<equiv> 0x2C"
abbreviation (input) AC97_SPDIF_CONTROL :: u32 where "AC97_SPDIF_CONTROL \<equiv> 0x3A"
abbreviation (input) AC97_VENDOR_ID1 :: u32 where "AC97_VENDOR_ID1 \<equiv> 0x7C"
abbreviation (input) AC97_VENDOR_ID2 :: u32 where "AC97_VENDOR_ID2 \<equiv> 0x7E"
abbreviation (input) AC97_AD_MISC :: u32 where "AC97_AD_MISC \<equiv> 0x76"

definition ac97_field :: "u32 \<Rightarrow> u32 \<Rightarrow> submixerchan" where
  "ac97_field reg shift = \<lparr>submixch_register = reg, submixch_max = 0x3F, submixch_shift = shift,
    submixch_infobits = SUBMIXCH_INFOBIT_REVERSEDVALUE\<rparr>"

definition ac97_stereo :: "u32 \<Rightarrow> u32 \<Rightarrow> onemixerchan" where
  "ac97_stereo chan reg = \<lparr>mixchan = AU_MIXCHANFUNCS_PACK chan AU_MIXCHANFUNC_VOLUME, subchannelnum = 2,
    submixerchans = [ac97_field reg 8, ac97_field reg 0]\<rparr>"

definition mpxplay_aucards_ac97chan_master_vol :: onemixerchan where
  "mpxplay_aucards_ac97chan_master_vol = \<lparr>mixchan = AU_MIXCHANFUNCS_PACK AU_MIXCHAN_MASTER AU_MIXCHANFUNC_VOLUME, subchannelnum = 2,
    submixerchans = [ac97_field AC97_MASTER_VOL_STEREO 8, ac97_field AC97_MASTER_VOL_STEREO 0, ac97_field 0x38 8, ac97_field 0x38 0]\<rparr>"

definition mpxplay_aucards_ac97chan_micin_vol :: onemixerchan where
  "mpxplay_aucards_ac97chan_micin_vol = \<lparr>mixchan = AU_MIXCHANFUNCS_PACK 5 AU_MIXCHANFUNC_VOLUME, subchannelnum = 1,
    submixerchans = [ac97_field 0x0E 0]\<rparr>"

definition mpxplay_aucards_ac97chan_mixerset :: "onemixerchan list" where
  "mpxplay_aucards_ac97chan_mixerset = [mpxplay_aucards_ac97chan_master_vol, ac97_stereo 1 AC97_PCMOUT_VOL, ac97_stereo 2 AC97_HEADPHONE_VOL,
    mpxplay_aucards_ac97chan_micin_vol, ac97_stereo 6 0x10, ac97_stereo 7 AC97_CD_VOL, ac97_stereo 8 0x16]"

section \<open>Drivers\<close>

text \<open>What a driver uses of the rest: the hardware, floating point, the DPMI host, the BIOS, and whether the heap has room for a structure.\<close>

record 'h card_env =
  ce_hw :: "'h card_hw"
  ce_fl :: float_ops
  ce_host :: "'h dpmi_host"
  ce_bios :: "'h bios_env"
  ce_calloc :: "string \<Rightarrow> bool"

text \<open>The device behind the audio output: \<open>card_private_data\<close> and \<open>card_pci_dev\<close> of the audio state, the machine, and the static
  variables of \<open>au_base.c\<close> (registers of the XMS driver, table of mappings).\<close>

record ('c, 'h) card_dev =
  private_data :: "'c option"
  aui_pci_dev :: "pci_config option"
  machine :: 'h
  xms_regs :: DPMI_REG
  physicalmaps :: "dpmi_meminfo list"

definition hw_delay :: "'h card_hw \<Rightarrow> u32 \<Rightarrow> 'h \<Rightarrow> 'h res" where
  "hw_delay hw t h = pds_delay_10us (hw_io hw) t h"

lemma hw_delay_returns: "timer_runs (hw_io hw) cnt \<Longrightarrow> \<exists>h'. hw_delay hw t h = Inr h'"
  unfolding hw_delay_def by (rule delays_return)

definition udiv :: "u32 \<Rightarrow> u32 \<Rightarrow> u32 res" where
  "udiv a b = (if b = 0 then Inl Div_zero else Inr (a div b))"

text \<open>The state of a playing card.\<close>

type_synonym ('c, 'h) play = "mpxplay_audioout_info \<times> 'c \<times> 'h"

text \<open>An operation on a playing card, on the state of the audio output.\<close>

definition on_play :: "(('c, 'h) play \<Rightarrow> ('c, 'h) play res) \<Rightarrow> ('c, 'h, 'z) card_dev_scheme au \<Rightarrow> ('c, 'h, 'z) card_dev_scheme au res" where
  "on_play f s = bindE (deref (private_data (device (snd s)))) (\<lambda>ic.
    bindE (f (fst s, ic, machine (device (snd s)))) (\<lambda>(a, ic, h).
    Inr (a, (snd s)\<lparr>device := (device (snd s))\<lparr>private_data := Some ic, machine := h\<rparr>\<rparr>)))"

text \<open>The same with a result.\<close>

definition ask_play :: "(('c, 'h) play \<Rightarrow> ('v \<times> ('c, 'h) play) res) \<Rightarrow> ('c, 'h, 'z) card_dev_scheme au \<Rightarrow> ('v \<times> ('c, 'h, 'z) card_dev_scheme au) res" where
  "ask_play f s = bindE (deref (private_data (device (snd s)))) (\<lambda>ic.
    bindE (f (fst s, ic, machine (device (snd s)))) (\<lambda>(v, a, ic, h).
    Inr (v, a, (snd s)\<lparr>device := (device (snd s))\<lparr>private_data := Some ic, machine := h\<rparr>\<rparr>)))"

text \<open>An operation on the audio state alone.\<close>

definition on_aui :: "(mpxplay_audioout_info \<Rightarrow> mpxplay_audioout_info res) \<Rightarrow> 'd au \<Rightarrow> 'd au res" where
  "on_aui f s = bindE (f (fst s)) (\<lambda>a. Inr (a, snd s))"

section \<open>Tables in memory\<close>

text \<open>A table of pairs of doublewords, written entry by entry.\<close>

primrec bd_write :: "'h card_hw \<Rightarrow> u32 \<Rightarrow> (u32 \<Rightarrow> u32 \<times> u32) \<Rightarrow> nat list \<Rightarrow> 'h \<Rightarrow> 'h" where
  "bd_write hw base e [] h = h"
| "bd_write hw base e (i # is) h =
    bd_write hw base e is (hw_writel hw (base + 8 * of_nat i + 4) (snd (e (of_nat i))) (hw_writel hw (base + 8 * of_nat i) (fst (e (of_nat i))) h))"

text \<open>The memory of a table as doublewords \<open>tab h\<close>.\<close>

definition mem_table :: "'h card_hw \<Rightarrow> u32 \<Rightarrow> nat \<Rightarrow> ('h \<Rightarrow> nat \<Rightarrow> u32) \<Rightarrow> bool" where
  "mem_table hw b n tab = (\<forall>k v h. k < n \<longrightarrow> tab (hw_writel hw (b + 4 * of_nat k) v h) = (tab h)(k := v))"

lemma bd_write_tab:
  assumes tab: "mem_table hw b (2 * n) tab"
  shows "\<forall>i\<in>set is. i < n \<Longrightarrow> tab (bd_write hw b e is h) =
    (\<lambda>k. if k div 2 \<in> set is then (if even k then fst (e (of_nat (k div 2))) else snd (e (of_nat (k div 2)))) else tab h k)"
proof (induction "is" arbitrary: h)
  case (Cons i "is")
  have a: "b + 8 * of_nat i = b + 4 * of_nat (2 * i)" "b + 8 * of_nat i + 4 = b + 4 * of_nat (2 * i + 1)"
    by (simp_all add: algebra_simps)
  define h1 where "h1 = hw_writel hw (b + 8 * of_nat i + 4) (snd (e (of_nat i))) (hw_writel hw (b + 8 * of_nat i) (fst (e (of_nat i))) h)"
  have w: "k < 2 * n \<Longrightarrow> tab (hw_writel hw (b + 4 * of_nat k) v g) = (tab g)(k := v)" for k v g
    using tab unfolding mem_table_def by blast
  have w1: "tab (hw_writel hw (b + 4 * of_nat (2 * i)) v g) = (tab g)(2 * i := v)" for v g by (rule w) (use Cons.prems in simp)
  have w2: "tab (hw_writel hw (b + 4 * of_nat (2 * i + 1)) v g) = (tab g)(2 * i + 1 := v)" for v g by (rule w) (use Cons.prems in simp)
  have h1: "tab h1 = (tab h)(2 * i := fst (e (of_nat i)), 2 * i + 1 := snd (e (of_nat i)))"
    unfolding h1_def a(2) unfolding a(1) w1 w2 ..
  have e: "k div 2 = i \<longleftrightarrow> k = 2 * i \<or> k = 2 * i + 1" for k by arith
  have "tab (bd_write hw b e is h1) = (\<lambda>k. if k div 2 \<in> set is then (if even k then fst (e (of_nat (k div 2))) else snd (e (of_nat (k div 2)))) else tab h1 k)"
    by (rule Cons.IH) (use Cons.prems in simp)
  then show ?case unfolding h1 by (auto simp: fun_eq_iff e simp flip: h1_def)
qed simp

text \<open>What no access to a port changes.\<close>

definition ports_keep :: "'h card_hw \<Rightarrow> ('h \<Rightarrow> 'v) \<Rightarrow> bool" where
  "ports_keep hw f = (\<forall>p h. (\<forall>v. f (hw_outb hw p v h) = f h) \<and> (\<forall>v. f (hw_outw hw p v h) = f h) \<and> (\<forall>v. f (hw_outl hw p v h) = f h) \<and>
     f (snd (hw_inb hw p h)) = f h \<and> f (snd (hw_inw hw p h)) = f h \<and> f (snd (hw_inl hw p h)) = f h)"

lemma ports_keepD:
  assumes "ports_keep hw f"
  shows "f (hw_outb hw p b h) = f h" "f (hw_outl hw p d h) = f h" "f (snd (hw_inb hw p h)) = f h" "f (snd (hw_inl hw p h)) = f h"
  using assms unfolding ports_keep_def by blast+

text \<open>What no access to a port of bytes changes: the timer uses no other.\<close>

definition bytes_keep :: "'h card_hw \<Rightarrow> ('h \<Rightarrow> 'v) \<Rightarrow> bool" where
  "bytes_keep hw f = (\<forall>p h. (\<forall>v. f (hw_outb hw p v h) = f h) \<and> f (snd (hw_inb hw p h)) = f h)"

lemma bytes_keepD: "bytes_keep hw f \<Longrightarrow> f (hw_outb hw p b h) = f h" "bytes_keep hw f \<Longrightarrow> f (snd (hw_inb hw p h)) = f h"
  unfolding bytes_keep_def by blast+

lemma ports_bytes: "ports_keep hw f \<Longrightarrow> bytes_keep hw f"
  unfolding ports_keep_def bytes_keep_def by blast

lemma timer_read_keeps: "bytes_keep hw f \<Longrightarrow> f (snd (timer_read (hw_io hw) h)) = f h"
  by (simp add: timer_read_def hw_io_def case_prod_beta Let_def bytes_keepD)

lemma timer_wait_keeps:
  assumes k: "bytes_keep hw f"
  shows "timer_wait io n t h = Some h' \<Longrightarrow> io = hw_io hw \<Longrightarrow> f h' = f h"
proof (induction rule: timer_wait.raw_induct [rotated, consumes 1, case_names step])
  case (step wait io n t h h')
  obtain tsc h1 where 1: "timer_read io h = (tsc, h1)" by (rule prod.exhaust)
  have "f h1 = f h" using timer_read_keeps [OF k, of h] step(3) 1 by simp
  then show ?case using 1 step by (auto split: if_splits)
qed

lemma timer_ticks_keeps:
  assumes k: "bytes_keep hw f"
  shows "timer_ticks (hw_io hw) n j h = Inr h' \<Longrightarrow> f h' = f h"
proof (induction j arbitrary: h)
  case (Suc j)
  obtain tsc h1 where 1: "timer_read (hw_io hw) h = (tsc, h1)" by (rule prod.exhaust)
  then obtain h2 where 2: "timer_wait (hw_io hw) n tsc h1 = Some h2" using Suc.prems by (auto split: option.splits)
  have "f h1 = f h" using timer_read_keeps [OF k, of h] 1 by simp
  then show ?case using Suc.IH [of h2] Suc.prems timer_wait_keeps [OF k 2 refl] 1 2 by simp
qed simp

lemma hw_delay_keeps_bytes: "bytes_keep hw f \<Longrightarrow> hw_delay hw t h = Inr h' \<Longrightarrow> f h' = f h"
  unfolding hw_delay_def pds_delay_10us_def by (rule timer_ticks_keeps)

lemma hw_delay_keeps: "ports_keep hw f \<Longrightarrow> hw_delay hw t h = Inr h' \<Longrightarrow> f h' = f h"
  by (rule hw_delay_keeps_bytes [OF ports_bytes])

lemma retry_wait_keeps:
  assumes "\<And>h. f (snd (test h)) = f h" "\<And>h h'. delay h = Inr h' \<Longrightarrow> f h' = f h"
  shows "retry_wait test delay n h = Inr (k, h') \<Longrightarrow> f h' = f h"
proof (induction n arbitrary: h)
  case (Suc n)
  obtain ok h1 where 1: "test h = (ok, h1)" by (rule prod.exhaust)
  have "f h1 = f h" using assms(1) [of h] 1 by simp
  then show ?case using Suc 1 assms(2) by (cases "delay h1") (auto split: if_splits)
qed simp

text \<open>A timer that runs, and memory that ports do not change: a delay returns and keeps the memory.\<close>

lemma hw_delay_ok:
  assumes "timer_runs (hw_io hw) cnt" "ports_keep hw f" shows "\<exists>h'. hw_delay hw t h = Inr h' \<and> f h' = f h"
  using hw_delay_returns [OF assms(1)] hw_delay_keeps [OF assms(2)] by blast

lemma retry_hw_ok:
  assumes "timer_runs (hw_io hw) cnt" "ports_keep hw f" "\<And>h. f (snd (test h)) = f h"
  shows "\<exists>j h'. retry_wait test (hw_delay hw t) n h = Inr (j, h') \<and> f h' = f h"
proof -
  obtain j h' where r: "retry_wait test (hw_delay hw t) n h = Inr (j, h')"
    using retry_wait_returns [of "hw_delay hw t", OF hw_delay_returns [OF assms(1)]] by blast
  have "f h' = f h" by (rule retry_wait_keeps [of f test "hw_delay hw t", OF assms(3) _ r]) (rule hw_delay_keeps [OF assms(2)])
  with r show ?thesis by (intro exI conjI)
qed

lemma bit_bound: "unat (x :: u32) < 2 ^ k \<Longrightarrow> bit x n \<Longrightarrow> n < k"
proof -
  assume "unat x < 2 ^ k" "bit x n"
  then have "take_bit k x = x" by (simp add: word_unat_eq_iff unsigned_take_bit_eq take_bit_nat_eq_self)
  then show "n < k" using \<open>bit x n\<close> by (metis bit_take_bit_iff)
qed

section \<open>A small machine\<close>

text \<open>A machine with a page of memory at 0x2000, a timer that moves by 100 and a clock that moves by 1 at every reading, and nothing else.\<close>

record demo_machine =
  dm_tab :: "nat \<Rightarrow> u32"
  dm_cnt :: u16
  dm_hi :: bool
  dm_clock :: int

definition demo_hw :: "demo_machine card_hw" where
  "demo_hw = \<lparr>hw_outb = (\<lambda>p v h. if p = 0x43 then h\<lparr>dm_hi := False\<rparr> else h), hw_outw = (\<lambda>_ _ h. h), hw_outl = (\<lambda>_ _ h. h),
    hw_inb = (\<lambda>p h. if p = 0x40 then (if dm_hi h then (hi8 (dm_cnt h), h\<lparr>dm_cnt := dm_cnt h - 100\<rparr>)
      else (lo8 (dm_cnt h), h\<lparr>dm_hi := True\<rparr>)) else (0, h)),
    hw_inw = (\<lambda>_ h. (0, h)), hw_inl = (\<lambda>_ h. (0, h)), hw_writeb = (\<lambda>_ _ h. h), hw_writew = (\<lambda>_ _ h. h),
    hw_writel = (\<lambda>a v h. if 0x2000 \<le> a \<and> a < 0x3000 then h\<lparr>dm_tab := (dm_tab h)(unat ((a - 0x2000) div 4) := v)\<rparr> else h),
    hw_readb = (\<lambda>_ h. (0, h)), hw_readw = (\<lambda>_ h. (0, h)), hw_readl = (\<lambda>_ h. (0, h)),
    hw_gettimeu = (\<lambda>h. (dm_clock h + 1, h\<lparr>dm_clock := dm_clock h + 1\<rparr>))\<rparr>"

lemma lo_hi_join: "(ucast (lo8 x) :: u32) + push_bit 8 (ucast (hi8 x)) = ucast (x :: u16)"
proof -
  have "(ucast (lo8 x) :: u32) AND push_bit 8 (ucast (hi8 x)) = 0"
    by (rule bit_word_eqI) (auto simp: bit_simps lo8_def dest: bit_u8_less)
  then have "(ucast (lo8 x) :: u32) + push_bit 8 (ucast (hi8 x)) = ucast (lo8 x) OR push_bit 8 (ucast (hi8 x))"
    by (rule disjunctive_add_eq_or [symmetric, THEN sym])
  also have "\<dots> = ucast x" by (rule bit_word_eqI) (auto simp: bit_simps lo8_def hi8_def dest: bit_u16_less)
  finally show ?thesis .
qed

lemma demo_timer: "timer_runs (hw_io demo_hw) dm_cnt"
  unfolding timer_runs_def
proof
  fix h
  show "\<exists>k. 1 \<le> k \<and> k \<le> 60000 \<and> fst (timer_read (hw_io demo_hw) h) = ucast (dm_cnt h) \<and>
      dm_cnt (snd (timer_read (hw_io demo_hw) h)) = dm_cnt h - of_nat k"
    by (rule exI [of _ 100]) (simp add: timer_read_def hw_io_def demo_hw_def lo_hi_join)
qed

end
