(* ===== verification/Auinit.thy ===== *)
theory Auinit
  imports Ac97
begin

text \<open>
  The search for sound cards (\<open>AU_init\<close>, \<open>carddetect\<close> in \<open>mpxplay/au_cards/au_cards.c\<close>): every driver of the list is asked in turn
  whether it finds its card; the options select a card for the samples, one for FM and one for MIDI by their numbers among the cards that are
  found. A driver is a record of the functions that the search calls. Pointers to the structures that drivers allocate are the type
  \<open>'p\<close>. The code for a card that is selected by name and for loadable drivers is not compiled; messages are left out.
\<close>

section \<open>State\<close>

text \<open>An entry of the list of drivers, or the null driver (\<open>sc_null.c\<close>), which is not in the list.\<close>

datatype card_ref = Sndcard nat | NON_sndcard

text \<open>The audio state with the fields that only the search uses.\<close>

record 'p aui_card = mpxplay_audioout_info +
  pcm :: bool
  fm_port :: u16
  mpu401_port :: u16
  card_pci_dev :: "pci_config option"
  card_private_data :: "'p option"
  card_handler :: "card_ref option"
  card_dma_buffer_size :: u32
  card_test_index :: int
  card_select_index :: int
  card_select_index_fm :: int
  card_select_index_mpu401 :: int

text \<open>The static variables of the module (\<open>outmode\<close>, \<open>intsoundconfig\<close>, \<open>au_cards_fallback_to_null\<close>, the field
  \<open>infobits\<close> of the drivers, which the search changes) and the machine.\<close>

record 'h au_static = 
  st_outmode :: u32
  st_intsoundconfig :: u32
  st_fallback :: bool
  st_infobits :: "card_ref \<Rightarrow> u32"
  st_machine :: 'h

type_synonym ('p, 'h) init_state = "'p aui_card \<times> 'h au_static"

text \<open>The functions of a driver.\<close>

record ('p, 'h) card_ops =
  co_detect :: "('p aui_card \<times> 'h \<Rightarrow> (bool \<times> 'p aui_card \<times> 'h) res) option"
  co_close :: "('p aui_card \<times> 'h \<Rightarrow> ('p aui_card \<times> 'h) res) option"

text \<open>The null driver is found always and has nothing to close. The flag \<open>iswin9x\<close> is never set in this build.\<close>

definition NON_sndcard_info :: "('p, 'h) card_ops" where
  "NON_sndcard_info = \<lparr>co_detect = Some (\<lambda>(a, h). Inr (True, a, h)), co_close = None\<rparr>"

definition iswin9x :: bool where "iswin9x = False"

abbreviation (input) SNDCARD_SELECT_ONLY :: u32 where "SNDCARD_SELECT_ONLY \<equiv> 1"
abbreviation (input) SNDCARD_INT08_ALLOWED :: u32 where "SNDCARD_INT08_ALLOWED \<equiv> 2"
abbreviation (input) AUINFOS_CARDCNTRLBIT_TESTCARD :: u32 where "AUINFOS_CARDCNTRLBIT_TESTCARD \<equiv> 1"
abbreviation (input) AUINFOS_CARDCNTRLBIT_SILENT :: u32 where "AUINFOS_CARDCNTRLBIT_SILENT \<equiv> 2048"
abbreviation (input) OUTMODE_CONTROL_FILE_FLOATOUT :: u32 where "OUTMODE_CONTROL_FILE_FLOATOUT \<equiv> 32"
abbreviation (input) INTSOUND_FUNCTIONS :: u32 where "INTSOUND_FUNCTIONS \<equiv> 3"

section \<open>Detecting one card\<close>

definition detect_config :: "u32 \<Rightarrow> 'p aui_card \<Rightarrow> 'p aui_card" where
  "detect_config out a =
    (let a = (if funcbit_test out OUTMODE_CONTROL_FILE_FLOATOUT
       then a\<lparr>card_wave_id := MPXPLAY_WAVEID_PCM_FLOAT, bits_card := 1, bytespersample_card := 4\<rparr>
       else a\<lparr>card_wave_id := MPXPLAY_WAVEID_PCM_SLE, bits_card := 16, bytespersample_card := (16 + 7) div 8\<rparr>)
     in a\<lparr>card_irq := 0xFF, freq_card := 22050, chan_card := 2\<rparr>)"

text \<open>One attempt: the second result is false when there is nothing to try again.\<close>

definition detect_once :: "('p, 'h) card_ops \<Rightarrow> ('p, 'h) init_state \<Rightarrow> (bool \<times> ('p, 'h) init_state) res" where
  "detect_once c s =
    (let (a, g) = s; a = detect_config (st_outmode g) a in
     case co_detect c of None \<Rightarrow> Inr (False, a, g)
     | Some d \<Rightarrow>
         bindE (d (a, st_machine g)) (\<lambda>(ok, a, h).
         (let g = g\<lparr>st_machine := h\<rparr> in
          if ok then Inr (True, a, g)
          else Inr (False, a\<lparr>pcm := False\<rparr>, if fm a \<or> mpu401 a then g\<lparr>st_fallback := True\<rparr> else g))))"

definition carddetect :: "('p, 'h) card_ops \<Rightarrow> bool \<Rightarrow> ('p, 'h) init_state \<Rightarrow> (bool \<times> ('p, 'h) init_state) res" where
  "carddetect c retry s =
    bindE (detect_once c s) (\<lambda>(ok, a, g).
    if ok \<or> \<not> retry \<or> co_detect c = None then Inr (ok, a, g)
    else detect_once c (a\<lparr>freq_set := 0, bits_set := 0, chan_set := 0\<rparr>,
      g\<lparr>st_outmode := funcbit_disable (st_outmode g) OUTMODE_CONTROL_FILE_FLOATOUT\<rparr>))"

section \<open>The search\<close>

text \<open>The audio states of the three uses, the state at the start of each round (\<open>initaui\<close>), and the detected card, whose \<open>pcm\<close> is
  all that is set of it at the start.\<close>

record ('p, 'h) search =
  se_aui :: "'p aui_card"
  se_fm :: "'p aui_card"
  se_mpu401 :: "'p aui_card"
  se_init :: "'p aui_card"
  se_detected :: "'p aui_card option"
  se_static :: "'h au_static"

definition card_wanted :: "'p aui_card \<Rightarrow> bool" where
  "card_wanted a = (card_select_index a = 0 \<or> card_select_index a = card_test_index a)"

definition fm_wanted :: "'p aui_card \<Rightarrow> bool" where
  "fm_wanted a = (card_select_index_fm a = 0 \<or> card_select_index_fm a = card_test_index a)"

definition mpu401_wanted :: "'p aui_card \<Rightarrow> bool" where
  "mpu401_wanted a = (card_select_index_mpu401 a = 0 \<or> card_select_index_mpu401 a = card_test_index a)"

text \<open>FM and MIDI of a card that is not selected are not used unless they are selected on their own.\<close>

definition drop_unwanted :: "'p aui_card \<Rightarrow> 'p aui_card" where
  "drop_unwanted a =
    (let a = (if card_select_index_fm a = 0 \<and> \<not> card_wanted a then a\<lparr>fm_port := 0, fm := False\<rparr> else a)
     in if card_select_index_mpu401 a = 0 \<and> \<not> card_wanted a then a\<lparr>mpu401_port := 0, mpu401 := False\<rparr> else a)"

text \<open>What is done with a card that has been found; the first result is whether the search ends.\<close>

definition select_card :: "('p, 'h) search \<Rightarrow> bool \<times> ('p, 'h) search" where
  "select_card s =
    (let a = drop_unwanted (se_aui s); s = s\<lparr>se_aui := a\<rparr>;
         s = (if fm a \<and> fm_wanted a then s\<lparr>se_fm := a\<rparr> else s);
         s = (if mpu401 a \<and> mpu401_wanted a then s\<lparr>se_mpu401 := a\<rparr> else s)
     in if card_wanted a then
          (card_select_index_fm a = 0 \<and> card_select_index_mpu401 a = 0 \<or> pcm a \<and> fm (se_fm s) \<and> mpu401 (se_mpu401 s),
           s\<lparr>se_detected := Some a\<rparr>)
        else (False, s))"

definition close_unused :: "('p, 'h) card_ops \<Rightarrow> ('p, 'h) search \<Rightarrow> ('p, 'h) search res" where
  "close_unused c s =
    (let a = se_aui s in
     if \<not> (pcm a \<or> fm a \<or> mpu401 a) \<or> \<not> fm a \<and> \<not> mpu401 a \<and> card_select_index a < card_test_index a then
       bindE (call_if (co_close c) (a, st_machine (se_static s))) (\<lambda>(a, h).
       Inr (s\<lparr>se_aui := a\<lparr>card_private_data := None\<rparr>, se_static := (se_static s)\<lparr>st_machine := h\<rparr>\<rparr>))
     else Inr s)"

definition try_card :: "('p, 'h) card_ops \<Rightarrow> ('p, 'h) search \<Rightarrow> (bool \<times> ('p, 'h) search) res" where
  "try_card c s =
    bindE (carddetect c False (se_aui s, se_static s)) (\<lambda>(ok, a, g).
    (let s = s\<lparr>se_aui := a, se_static := g\<rparr> in
     if \<not> ok then Inr (False, s)
     else
       (let (stop, s) = (if \<not> funcbit_test (card_controlbits a) AUINFOS_CARDCNTRLBIT_TESTCARD then select_card s else (False, s)) in
        if stop then Inr (True, s)
        else bindE (close_unused c s) (\<lambda>s.
          Inr (False, s\<lparr>se_init := (se_init s)\<lparr>card_test_index := card_test_index (se_init s) + 1\<rparr>\<rparr>)))))"

definition card_skipped :: "('p, 'h) card_ops \<Rightarrow> u32 \<Rightarrow> bool" where
  "card_skipped c info = (co_detect c = None \<or> funcbit_test info SNDCARD_SELECT_ONLY \<or> funcbit_test info SNDCARD_LOWLEVELHAND \<and> iswin9x)"

text \<open>The entry after the last is a null pointer.\<close>

definition next_handler :: "nat \<Rightarrow> 'x list \<Rightarrow> card_ref option" where
  "next_handler i cs = (if cs = [] then None else Some (Sndcard i))"

primrec search_cards :: "('p, 'h) card_ops list \<Rightarrow> nat \<Rightarrow> ('p, 'h) search \<Rightarrow> ('p, 'h) search res" where
  "search_cards [] i s = Inr s"
| "search_cards (c # cs) i s =
    (let s = s\<lparr>se_aui := (se_aui s)\<lparr>pcm := True, fm := False, mpu401 := False\<rparr>\<rparr> in
     bindE (if card_skipped c (st_infobits (se_static s) (Sndcard i)) then Inr (False, s) else try_card c s) (\<lambda>(stop, s).
     if stop then Inr s
     else search_cards cs (Suc i) (s\<lparr>se_aui := (se_init s)\<lparr>card_handler := next_handler (Suc i) cs\<rparr>\<rparr>)))"

text \<open>The list starts with a driver in every build; an empty one is a null pointer.\<close>

definition search_all :: "('p, 'h) card_ops list \<Rightarrow> ('p, 'h) search \<Rightarrow> ('p, 'h) search res" where
  "search_all cards s =
    (if cards = [] then Inl Null_pointer
     else bindE (search_cards cards 0 (s\<lparr>se_init := (se_init s)\<lparr>card_test_index := 1\<rparr>,
         se_aui := (se_aui s)\<lparr>card_handler := Some (Sndcard 0), card_test_index := 1\<rparr>\<rparr>)) (\<lambda>s.
       case se_detected s of Some d \<Rightarrow> Inr (if pcm d then s\<lparr>se_aui := d\<rparr> else s) | None \<Rightarrow> Inr s))"

text \<open>The end of a successful search.\<close>

definition init_done :: "('p, 'h) init_state \<Rightarrow> ('p, 'h) init_state res" where
  "init_done s =
    (let (a, g) = s in
     bindE (deref (card_handler a)) (\<lambda>r.
     (let g = (if funcbit_test (st_intsoundconfig g) INTSOUND_NOINT08
           then g\<lparr>st_infobits := (st_infobits g)(r := funcbit_disable (st_infobits g r) SNDCARD_INT08_ALLOWED)\<rparr> else g);
          g = (if \<not> funcbit_test (st_infobits g r) SNDCARD_INT08_ALLOWED
           then g\<lparr>st_intsoundconfig := funcbit_disable (st_intsoundconfig g) INTSOUND_FUNCTIONS\<rparr> else g)
      in Inr (a\<lparr>freq_card := 0, chan_card := 0, bits_card := 0\<rparr>, g))))"

definition null_fallback :: "('p, 'h) init_state \<Rightarrow> ('p, 'h) init_state res" where
  "null_fallback s =
    bindE (carddetect NON_sndcard_info False ((fst s)\<lparr>card_handler := Some NON_sndcard, card_test_index := 1\<rparr>, snd s)) (\<lambda>(_, s). Inr s)"

text \<open>What follows the search. The result: the states of the output, of FM and of MIDI.\<close>

definition init_end :: "('p, 'h) search \<Rightarrow> ('p aui_card \<times> 'p aui_card \<times> 'p aui_card \<times> 'h au_static) res" where
  "init_end s =
    (let a = se_aui s; silent = funcbit_test (card_controlbits a) AUINFOS_CARDCNTRLBIT_SILENT; out = (\<lambda>(a, g). (a, se_fm s, se_mpu401 s, g)) in
     if funcbit_test (card_controlbits a) AUINFOS_CARDCNTRLBIT_TESTCARD then Inr (out (a, se_static s))
     else if card_handler a = None \<and> \<not> silent \<and> \<not> st_fallback (se_static s) then Inr (out (a, se_static s))
     else bindE (if card_handler a = None \<and> \<not> silent then null_fallback (a, se_static s) else Inr (a, se_static s)) (\<lambda>s.
       bindE (init_done s) (\<lambda>s. Inr (out s))))"

definition AU_init :: "('p, 'h) card_ops list \<Rightarrow> 'p aui_card \<times> 'p aui_card \<times> 'p aui_card \<times> 'h au_static \<Rightarrow>
    ('p aui_card \<times> 'p aui_card \<times> 'p aui_card \<times> 'h au_static) res" where
  "AU_init cards s =
    (let (a, f, m, g) = s in
     bindE (MDma_get_max_pcmoutbufsize (card_controlbits a) 65535 4608 2 0) (\<lambda>n.
     (let a = a\<lparr>card_dmasize := n, card_dma_buffer_size := n\<rparr>;
          s = \<lparr>se_aui = a, se_fm = f\<lparr>fm := False\<rparr>, se_mpu401 = m\<lparr>mpu401 := False\<rparr>, se_init = a, se_detected = None, se_static = g\<rparr>;
          test = funcbit_test (card_controlbits a) AUINFOS_CARDCNTRLBIT_TESTCARD in
      bindE (if card_handler a = None \<or> test then search_all cards s else Inr s) init_end)))"

section \<open>What the search relies on in a driver\<close>

text \<open>The fields of the audio state that belong to the search.\<close>

definition keeps_choice :: "'p aui_card \<Rightarrow> 'p aui_card \<Rightarrow> bool" where
  "keeps_choice a b \<longleftrightarrow> pcm b = pcm a \<and> card_handler b = card_handler a \<and> card_test_index b = card_test_index a \<and>
     card_select_index b = card_select_index a \<and> card_select_index_fm b = card_select_index_fm a \<and>
     card_select_index_mpu401 b = card_select_index_mpu401 a \<and> card_controlbits b = card_controlbits a"

locale card_driver =
  fixes c :: "('p, 'h) card_ops"
  assumes detect_keeps: "co_detect c = Some d \<Longrightarrow> d (a, h) = Inr (ok, b, h') \<Longrightarrow> keeps_choice a b"
    and detect_fails: "co_detect c = Some d \<Longrightarrow> d (a, h) = Inr (False, b, h') \<Longrightarrow> card_private_data a = None \<Longrightarrow> card_private_data b = None"
begin

lemma detect_once_keeps:
  assumes "detect_once c (a, g) = Inr (ok, b, g')"
  shows "keeps_choice (if ok then a else a\<lparr>pcm := pcm b\<rparr>) b \<and> st_infobits g' = st_infobits g"
proof (cases "co_detect c")
  case None
  then show ?thesis using assms by (auto simp: detect_once_def detect_config_def keeps_choice_def Let_def)
next
  case (Some d)
  let ?a = "detect_config (st_outmode g) a"
  obtain o' b' h' where d: "d (?a, st_machine g) = Inr (o', b', h')"
    using assms Some unfolding detect_once_def Let_def by auto
  have k: "keeps_choice ?a b'" by (rule detect_keeps[OF Some d])
  have e: "keeps_choice a b'" using k unfolding keeps_choice_def detect_config_def Let_def by (simp split: if_splits)
  show ?thesis using assms d e Some unfolding detect_once_def keeps_choice_def by (cases o') (auto simp: Let_def)
qed

lemma detect_once_fails:
  assumes "detect_once c (a, g) = Inr (False, b, g')" and "card_private_data a = None"
  shows "card_private_data b = None"
proof (cases "co_detect c")
  case None
  then show ?thesis using assms by (auto simp: detect_once_def detect_config_def Let_def)
next
  case (Some d)
  let ?a = "detect_config (st_outmode g) a"
  obtain o' b' h' where d: "d (?a, st_machine g) = Inr (o', b', h')"
    using assms Some unfolding detect_once_def Let_def by auto
  have n: "\<not> o'" and b: "b = b'\<lparr>pcm := False\<rparr>" using assms(1) d Some unfolding detect_once_def by (auto simp: Let_def split: if_splits)
  have p: "card_private_data ?a = None" using assms(2) unfolding detect_config_def Let_def by simp
  have "card_private_data b' = None" by (rule detect_fails[OF Some _ p]) (use d n in simp)
  then show ?thesis using b by simp
qed

end

interpretation null: card_driver "NON_sndcard_info :: ('p, 'h) card_ops"
  by unfold_locales (auto simp: NON_sndcard_info_def keeps_choice_def)

text \<open>A driver that finds its card, or does not, in every machine state of an invariant that it keeps.\<close>

definition detects :: "('h \<Rightarrow> bool) \<Rightarrow> ('p, 'h) card_ops \<Rightarrow> bool \<Rightarrow> bool" where
  "detects I c found \<longleftrightarrow> card_driver c \<and>
     (\<exists>d. co_detect c = Some d \<and> (\<forall>a h. I h \<longrightarrow> (\<exists>b h'. d (a, h) = Inr (found, b, h') \<and> I h'))) \<and>
     (\<forall>k a h. co_close c = Some k \<longrightarrow> I h \<longrightarrow> (\<exists>b h'. k (a, h) = Inr (b, h') \<and> I h'))"

text \<open>The numbers in the list of the cards that are found, and the one with a given number among them, from 1; number 0 is the first.\<close>

definition cards_found :: "bool list \<Rightarrow> nat list" where
  "cards_found found = map fst (filter snd (List.enumerate 0 found))"

definition chosen_card :: "int \<Rightarrow> bool list \<Rightarrow> nat option" where
  "chosen_card n found =
    (let k = (if n = 0 then 0 else nat (n - 1)) in
     if 0 \<le> n \<and> k < length (cards_found found) then Some (cards_found found ! k) else None)"

text \<open>The same as a walk through the list from position \<open>i\<close>, with \<open>t\<close> the number of the next card.\<close>

primrec pick_card :: "int \<Rightarrow> int \<Rightarrow> bool list \<Rightarrow> nat \<Rightarrow> nat option" where
  "pick_card n t [] i = None"
| "pick_card n t (b # bs) i =
    (if \<not> b then pick_card n t bs (Suc i) else if n = 0 \<or> n = t then Some i else pick_card n (t + 1) bs (Suc i))"

lemma pick_first: "pick_card 0 t bs i = (case map fst (filter snd (List.enumerate i bs)) of [] \<Rightarrow> None | j # _ \<Rightarrow> Some j)"
  by (induction bs arbitrary: i) auto

lemma pick_later: "n < t \<Longrightarrow> n \<noteq> 0 \<Longrightarrow> pick_card n t bs i = None"
  by (induction bs arbitrary: i t) auto

lemma pick_nth:
  assumes "t \<le> n" "n \<noteq> 0"
  shows "pick_card n t bs i = (let js = map fst (filter snd (List.enumerate i bs)) in
    if nat (n - t) < length js then Some (js ! nat (n - t)) else None)"
  using assms
proof (induction bs arbitrary: i t)
  case (Cons b bs)
  show ?case
  proof (cases "b \<and> n \<noteq> t")
    case True
    then have t: "t + 1 \<le> n" and s: "nat (n - t) = Suc (nat (n - (t + 1)))" using Cons.prems(1) by auto
    show ?thesis using True Cons.IH[OF t Cons.prems(2), of "Suc i"] by (simp add: s Let_def Cons.prems(2))
  next
    case False
    then show ?thesis using Cons by (auto simp: Let_def)
  qed
qed simp

lemma pick_chosen: "pick_card n 1 found 0 = chosen_card n found"
proof -
  consider "n = 0" | "1 \<le> n" | "n < 0" by linarith
  then show ?thesis
  proof cases
    case 1
    show ?thesis unfolding 1 pick_first chosen_card_def cards_found_def Let_def by (auto split: list.splits)
  qed (simp_all add: pick_nth pick_later chosen_card_def cards_found_def Let_def)
qed

section \<open>One round of the search\<close>

lemma carddetect_runs:
  assumes "detects I c found" and "I (st_machine g)"
  shows "\<exists>b g'. carddetect c False (a, g) = Inr (found, b, g') \<and> keeps_choice (if found then a else a\<lparr>pcm := pcm b\<rparr>) b \<and>
    st_infobits g' = st_infobits g \<and> I (st_machine g')"
proof -
  let ?a = "detect_config (st_outmode g) a"
  obtain d b h where d: "co_detect c = Some d" "d (?a, st_machine g) = Inr (found, b, h)" "I h"
    using assms unfolding detects_def by metis
  have r: "\<exists>b g'. detect_once c (a, g) = Inr (found, b, g') \<and> I (st_machine g')"
    unfolding detect_once_def Let_def prod.case d(1) option.case d(2) bindE_simps using d(3) by (cases found) auto
  then obtain b g' where o: "detect_once c (a, g) = Inr (found, b, g')" "I (st_machine g')" by blast
  have k: "keeps_choice (if found then a else a\<lparr>pcm := pcm b\<rparr>) b \<and> st_infobits g' = st_infobits g"
    by (rule card_driver.detect_once_keeps[OF _ o(1)]) (use assms(1) in \<open>simp add: detects_def\<close>)
  show ?thesis unfolding carddetect_def o(1) bindE_simps prod.case using k o(2) by simp
qed

lemma close_unused_runs:
  assumes "detects I c found" and "I (st_machine (se_static s))"
  shows "\<exists>b h. close_unused c s = Inr (s\<lparr>se_aui := b, se_static := (se_static s)\<lparr>st_machine := h\<rparr>\<rparr>) \<and> I h"
proof -
  have "\<exists>b h. call_if (co_close c) (se_aui s, st_machine (se_static s)) = Inr (b, h) \<and> I h"
    using assms unfolding call_if_def detects_def by (cases "co_close c") auto
  then obtain b h where k: "call_if (co_close c) (se_aui s, st_machine (se_static s)) = Inr (b, h)" "I h" by blast
  have n: "\<exists>b h. s = s\<lparr>se_aui := b, se_static := (se_static s)\<lparr>st_machine := h\<rparr>\<rparr> \<and> I h"
    by (rule exI[of _ "se_aui s"], rule exI[of _ "st_machine (se_static s)"]) (simp add: assms(2))
  show ?thesis unfolding close_unused_def Let_def k(1) bindE_simps prod.case using n k(2) by auto
qed

text \<open>The state of the search while nothing is selected: \<open>a\<close> is the audio state at the start of a round but for the number of the next
  card.\<close>

definition seeking :: "('h \<Rightarrow> bool) \<Rightarrow> (card_ref \<Rightarrow> u32) \<Rightarrow> 'p aui_card \<Rightarrow> ('p, 'h) search \<Rightarrow> bool" where
  "seeking I info a s \<longleftrightarrow> I (st_machine (se_static s)) \<and> st_infobits (se_static s) = info \<and> se_init s = a \<and> se_detected s = None \<and>
     \<not> fm (se_fm s) \<and> \<not> mpu401 (se_mpu401 s)"

lemma try_card_not_found:
  assumes "detects I c False" and "seeking I info a s"
  shows "\<exists>s'. try_card c s = Inr (False, s') \<and> seeking I info a s'"
proof -
  obtain b g where d: "carddetect c False (se_aui s, se_static s) = Inr (False, b, g)" "st_infobits g = st_infobits (se_static s)" "I (st_machine g)"
    using carddetect_runs[OF assms(1), of "se_static s" "se_aui s"] assms(2) unfolding seeking_def by auto
  show ?thesis unfolding try_card_def d(1) bindE_simps prod.case Let_def using assms(2) d(2,3) by (simp add: seeking_def)
qed

lemma drop_unwanted_keeps: "keeps_choice a b \<Longrightarrow> keeps_choice a (drop_unwanted b)"
  by (simp add: drop_unwanted_def keeps_choice_def Let_def)

lemma card_wanted_keeps: "keeps_choice a b \<Longrightarrow> card_wanted b = card_wanted a"
  by (simp add: card_wanted_def keeps_choice_def)

lemma drop_unwanted_silent:
  "card_select_index_fm a = 0 \<Longrightarrow> card_select_index_mpu401 a = 0 \<Longrightarrow> \<not> card_wanted a \<Longrightarrow> \<not> fm (drop_unwanted a) \<and> \<not> mpu401 (drop_unwanted a)"
  by (simp add: drop_unwanted_def card_wanted_def Let_def)

text \<open>The result of the search: the card of the list at \<open>i\<close> is the output, and FM and MIDI are of the same card.\<close>

definition settled :: "('h \<Rightarrow> bool) \<Rightarrow> (card_ref \<Rightarrow> u32) \<Rightarrow> 'p aui_card \<Rightarrow> ('p, 'h) search \<Rightarrow> bool" where
  "settled I info a s \<longleftrightarrow> I (st_machine (se_static s)) \<and> st_infobits (se_static s) = info \<and> keeps_choice a (se_aui s) \<and>
     se_detected s = Some (se_aui s) \<and> (fm (se_fm s) \<longrightarrow> se_fm s = se_aui s) \<and> (mpu401 (se_mpu401 s) \<longrightarrow> se_mpu401 s = se_aui s)"

definition plain_choice :: "'p aui_card \<Rightarrow> bool" where
  "plain_choice a \<longleftrightarrow> \<not> funcbit_test (card_controlbits a) AUINFOS_CARDCNTRLBIT_TESTCARD \<and> card_select_index_fm a = 0 \<and>
     card_select_index_mpu401 a = 0"

lemma plain_choice_keeps: "keeps_choice a b \<Longrightarrow> plain_choice a \<Longrightarrow> plain_choice b"
  by (simp add: plain_choice_def keeps_choice_def)

lemma try_card_selected:
  assumes c: "detects I c True" and s: "seeking I info a s" and p: "plain_choice (se_aui s)" and w: "card_wanted (se_aui s)"
  shows "\<exists>s'. try_card c s = Inr (True, s') \<and> settled I info (se_aui s) s'"
proof -
  obtain b g where d: "carddetect c False (se_aui s, se_static s) = Inr (True, b, g)" and k: "keeps_choice (se_aui s) b"
      and g: "st_infobits g = info" "I (st_machine g)"
    using carddetect_runs[OF c, of "se_static s" "se_aui s"] s unfolding seeking_def by auto
  let ?d = "drop_unwanted b"
  have kd: "keeps_choice (se_aui s) ?d" by (rule drop_unwanted_keeps[OF k])
  have t: "\<not> funcbit_test (card_controlbits b) AUINFOS_CARDCNTRLBIT_TESTCARD" using plain_choice_keeps[OF k p] by (simp add: plain_choice_def)
  have z: "card_select_index_fm ?d = 0" "card_select_index_mpu401 ?d = 0" using plain_choice_keeps[OF kd p] by (simp_all add: plain_choice_def)
  have x: "fm_wanted ?d" "mpu401_wanted ?d" using z by (simp_all add: fm_wanted_def mpu401_wanted_def)
  have wd: "card_wanted ?d" using card_wanted_keeps[OF kd] w by simp
  let ?s = "s\<lparr>se_aui := b, se_static := g\<rparr>"
  define s' where "s' = ?s\<lparr>se_aui := ?d, se_fm := if fm ?d then ?d else se_fm s, se_mpu401 := if mpu401 ?d then ?d else se_mpu401 s,
    se_detected := Some ?d\<rparr>"
  have "select_card ?s = (True, s')"
    unfolding select_card_def Let_def s'_def using z x wd by simp
  then have "try_card c s = Inr (True, s')"
    unfolding try_card_def d bindE_simps prod.case Let_def using t by simp
  moreover have "settled I info (se_aui s) s'"
    using s kd g unfolding settled_def s'_def seeking_def by (auto split: if_splits)
  ultimately show ?thesis by blast
qed

lemma try_card_passed:
  assumes c: "detects I c True" and s: "seeking I info a s" and p: "plain_choice (se_aui s)" and w: "\<not> card_wanted (se_aui s)"
  shows "\<exists>s'. try_card c s = Inr (False, s') \<and> seeking I info (a\<lparr>card_test_index := card_test_index a + 1\<rparr>) s'"
proof -
  obtain b g where d: "carddetect c False (se_aui s, se_static s) = Inr (True, b, g)" and k: "keeps_choice (se_aui s) b"
      and g: "st_infobits g = info" "I (st_machine g)"
    using carddetect_runs[OF c, of "se_static s" "se_aui s"] s unfolding seeking_def by auto
  let ?d = "drop_unwanted b"
  have pb: "plain_choice b" by (rule plain_choice_keeps[OF k p])
  have wb: "\<not> card_wanted b" using card_wanted_keeps[OF k] w by simp
  have wd: "\<not> card_wanted ?d" using card_wanted_keeps[OF drop_unwanted_keeps[OF k]] w by simp
  have x: "\<not> fm ?d" "\<not> mpu401 ?d" using drop_unwanted_silent[of b] pb wb unfolding plain_choice_def by simp_all
  let ?s = "s\<lparr>se_aui := ?d, se_static := g\<rparr>"
  have sel: "select_card (s\<lparr>se_aui := b, se_static := g\<rparr>) = (False, ?s)"
    unfolding select_card_def Let_def using x wd by simp
  have "I (st_machine (se_static ?s))" using g(2) by simp
  from close_unused_runs[OF c this] obtain b2 h where
    u: "close_unused c ?s = Inr (?s\<lparr>se_aui := b2, se_static := (se_static ?s)\<lparr>st_machine := h\<rparr>\<rparr>)" "I h" by blast
  have t: "\<not> funcbit_test (card_controlbits b) AUINFOS_CARDCNTRLBIT_TESTCARD" using pb by (simp add: plain_choice_def)
  show ?thesis unfolding try_card_def d bindE_simps prod.case Let_def
    using t s g(1) u(2) unfolding seeking_def by (simp add: sel u(1))
qed

text \<open>Every driver of the list takes part.\<close>

lemma card_not_skipped:
  "detects I c found \<Longrightarrow> \<not> funcbit_test info SNDCARD_SELECT_ONLY \<Longrightarrow> \<not> card_skipped c info"
  by (auto simp: card_skipped_def detects_def iswin9x_def)

definition search_ends :: "('h \<Rightarrow> bool) \<Rightarrow> (card_ref \<Rightarrow> u32) \<Rightarrow> u32 \<Rightarrow> nat option \<Rightarrow> ('p, 'h) search \<Rightarrow> bool" where
  "search_ends I info bits r s = (case r of
     Some j \<Rightarrow> (\<exists>b. settled I info b s \<and> card_handler b = Some (Sndcard j) \<and> pcm b \<and> card_controlbits b = bits)
   | None \<Rightarrow> (\<exists>b. seeking I info b s) \<and> card_handler (se_aui s) = None \<and> card_controlbits (se_aui s) = bits)"

lemma search_cards_runs:
  assumes "list_all2 (detects I) cs bs" and "seeking I info a s" and "se_aui s = a\<lparr>card_handler := next_handler i cs\<rparr>"
    and "plain_choice a" and "\<And>j. \<not> funcbit_test (info (Sndcard j)) SNDCARD_SELECT_ONLY"
  shows "\<exists>s'. search_cards cs i s = Inr s' \<and>
    search_ends I info (card_controlbits a) (pick_card (card_select_index a) (card_test_index a) bs i) s'"
  using assms
proof (induction cs arbitrary: bs i a s)
  case Nil
  then show ?case by (auto simp: search_ends_def next_handler_def)
next
  case (Cons c cs)
  obtain b bs' where bs: "bs = b # bs'" "detects I c b" "list_all2 (detects I) cs bs'" using Cons.prems(1) by (auto simp: list_all2_Cons1)
  let ?s = "s\<lparr>se_aui := (se_aui s)\<lparr>pcm := True, fm := False, mpu401 := False\<rparr>\<rparr>"
  have sk: "seeking I info a ?s" using Cons.prems(2) by (simp add: seeking_def)
  have pl: "plain_choice (se_aui ?s)" using Cons.prems(3,4) by (simp add: plain_choice_def)
  have nsk: "\<not> card_skipped c (st_infobits (se_static ?s) (Sndcard i))"
    using card_not_skipped[OF bs(2) Cons.prems(5), of i] Cons.prems(2) by (simp add: seeking_def)
  have w: "card_wanted (se_aui ?s) \<longleftrightarrow> card_select_index a = 0 \<or> card_select_index a = card_test_index a"
    using Cons.prems(3) by (simp add: card_wanted_def)
  have go: "\<exists>s'. search_cards (c # cs) i s = Inr s' \<and> search_ends I info (card_controlbits a) (pick_card (card_select_index a) t bs' (Suc i)) s'"
    if t: "try_card c ?s = Inr (False, s1)" and k: "seeking I info (a\<lparr>card_test_index := t\<rparr>) s1" for s1 t
  proof -
    let ?s1 = "s1\<lparr>se_aui := (se_init s1)\<lparr>card_handler := next_handler (Suc i) cs\<rparr>\<rparr>" and ?a = "a\<lparr>card_test_index := t\<rparr>"
    have "search_cards (c # cs) i s = search_cards cs (Suc i) ?s1"
      unfolding search_cards.simps Let_def if_not_P[OF nsk] t bindE_simps prod.case by simp
    moreover have "\<exists>s'. search_cards cs (Suc i) ?s1 = Inr s' \<and>
        search_ends I info (card_controlbits ?a) (pick_card (card_select_index ?a) (card_test_index ?a) bs' (Suc i)) s'"
      by (rule Cons.IH[OF bs(3)]) (use k Cons.prems(4,5) in \<open>simp_all add: seeking_def plain_choice_def\<close>)
    ultimately show ?thesis by simp
  qed
  consider "\<not> b" | "b" "card_wanted (se_aui ?s)" | "b" "\<not> card_wanted (se_aui ?s)" by blast
  then show ?case
  proof cases
    case 1
    then obtain s1 where "try_card c ?s = Inr (False, s1)" "seeking I info a s1" using try_card_not_found[OF _ sk, of c] bs(2) by auto
    then show ?thesis using go[of s1 "card_test_index a"] 1 by (simp add: bs(1))
  next
    case 2
    then obtain s1 where t: "try_card c ?s = Inr (True, s1)" "settled I info (se_aui ?s) s1"
      using try_card_selected[OF _ sk pl, of c] bs(2) by auto
    have "search_cards (c # cs) i s = Inr s1"
      unfolding search_cards.simps Let_def if_not_P[OF nsk] t(1) bindE_simps prod.case by simp
    moreover have "search_ends I info (card_controlbits a) (Some i) s1"
      unfolding search_ends_def option.case using t(2) Cons.prems(3) by (auto simp: next_handler_def)
    ultimately show ?thesis using 2 w by (simp add: bs(1))
  next
    case 3
    then obtain s1 where "try_card c ?s = Inr (False, s1)" "seeking I info (a\<lparr>card_test_index := card_test_index a + 1\<rparr>) s1"
      using try_card_passed[OF _ sk pl, of c] bs(2) by auto
    then show ?thesis using go[of s1 "card_test_index a + 1"] 3 w by (simp add: bs(1))
  qed
qed

lemma search_all_runs:
  assumes "list_all2 (detects I) cards found" and "cards \<noteq> []" and "seeking I info a s" and "se_aui s = a" and "plain_choice a"
    and "\<And>j. \<not> funcbit_test (info (Sndcard j)) SNDCARD_SELECT_ONLY"
  shows "\<exists>s'. search_all cards s = Inr s' \<and> search_ends I info (card_controlbits a) (chosen_card (card_select_index a) found) s'"
proof -
  let ?s = "s\<lparr>se_init := (se_init s)\<lparr>card_test_index := 1\<rparr>, se_aui := (se_aui s)\<lparr>card_handler := Some (Sndcard 0), card_test_index := 1\<rparr>\<rparr>"
  let ?a = "a\<lparr>card_test_index := 1\<rparr>"
  have k: "seeking I info ?a ?s" using assms(3) by (simp add: seeking_def)
  have h: "se_aui ?s = ?a\<lparr>card_handler := next_handler 0 cards\<rparr>" using assms(2,4) by (simp add: next_handler_def)
  have p: "plain_choice ?a" using assms(5) by (simp add: plain_choice_def)
  from search_cards_runs[OF assms(1) k h p assms(6)] obtain s1 where
    r: "search_cards cards 0 ?s = Inr s1" "search_ends I info (card_controlbits a) (chosen_card (card_select_index a) found) s1"
    by (auto simp: pick_chosen)
  have "(case se_detected s1 of Some d \<Rightarrow> Inr (if pcm d then s1\<lparr>se_aui := d\<rparr> else s1) | None \<Rightarrow> Inr s1) = (Inr s1 :: _ res)"
    using r(2) unfolding search_ends_def settled_def seeking_def by (auto split: option.splits)
  then show ?thesis unfolding search_all_def if_not_P[OF assms(2)] r(1) bindE_simps using r(2) by simp
qed

section \<open>The whole initialisation\<close>

lemma pcmoutbuf_returns: "\<exists>n. MDma_get_max_pcmoutbufsize bits 65535 4608 2 0 = Inr n"
  unfolding MDma_get_max_pcmoutbufsize_def round_to_def umod_def Let_def by simp

lemma null_fallback_runs:
  "\<exists>a'. null_fallback (a, g) = Inr (a', g) \<and> card_handler a' = Some NON_sndcard"
  unfolding null_fallback_def carddetect_def detect_once_def NON_sndcard_info_def detect_config_def Let_def by simp

lemma init_done_runs:
  "card_handler a = Some r \<Longrightarrow> \<exists>g'. init_done (a, g) = Inr (a\<lparr>freq_card := 0, chan_card := 0, bits_card := 0\<rparr>, g') \<and> st_fallback g' = st_fallback g"
  by (simp add: init_done_def deref_def Let_def)

lemma null_detects: "detects (\<lambda>_. True) (NON_sndcard_info :: ('p, 'h) card_ops) True"
  unfolding detects_def using null.card_driver_axioms by (simp add: NON_sndcard_info_def)

text \<open>C12: For a list of drivers that is not empty, each of which finds its card or does not and keeps the choice of the caller, none of them
  to be used on selection only, no output chosen before, no test run and no FM or MIDI card asked for: the output is the card with the selected
  number among those that are found, counted from 1 in the order of the list (number 0 is the first), and FM and MIDI, where they are used, are those
  of the same card. When there is no such card the output is the null driver where that is allowed, otherwise nothing, and FM and MIDI are off; but in
  silent mode (the resident program resetting its card) the code then goes on with the card it does not have, a null pointer.\<close>

theorem au_init_selects:
  assumes "list_all2 (detects I) cards found" and "cards \<noteq> []" and "card_handler a = None" and "plain_choice a" and "I (st_machine g)"
    and "\<And>j. \<not> funcbit_test (st_infobits g (Sndcard j)) SNDCARD_SELECT_ONLY"
  shows "case chosen_card (card_select_index a) found of
      Some i \<Rightarrow> \<exists>a' f' m' g'. AU_init cards (a, f, m, g) = Inr (a', f', m', g') \<and> card_handler a' = Some (Sndcard i) \<and> pcm a' \<and>
        (fm f' \<longrightarrow> card_handler f' = Some (Sndcard i) \<and> card_private_data f' = card_private_data a') \<and>
        (mpu401 m' \<longrightarrow> card_handler m' = Some (Sndcard i) \<and> card_private_data m' = card_private_data a')
    | None \<Rightarrow> if funcbit_test (card_controlbits a) AUINFOS_CARDCNTRLBIT_SILENT then AU_init cards (a, f, m, g) = Inl Null_pointer
        else (\<exists>a' f' m' g'. AU_init cards (a, f, m, g) = Inr (a', f', m', g') \<and>
          card_handler a' = (if st_fallback g' then Some NON_sndcard else None) \<and> \<not> fm f' \<and> \<not> mpu401 m')"
proof -
  obtain n where n: "MDma_get_max_pcmoutbufsize (card_controlbits a) 65535 4608 2 0 = Inr n" using pcmoutbuf_returns by blast
  let ?a = "a\<lparr>card_dmasize := n, card_dma_buffer_size := n\<rparr>"
  let ?s = "\<lparr>se_aui = ?a, se_fm = f\<lparr>fm := False\<rparr>, se_mpu401 = m\<lparr>mpu401 := False\<rparr>, se_init = ?a, se_detected = None, se_static = g\<rparr>"
  have k: "seeking I (st_infobits g) ?a ?s" using assms(5) by (simp add: seeking_def)
  have p: "plain_choice ?a" using assms(4) by (simp add: plain_choice_def)
  obtain s where s: "search_all cards ?s = Inr s"
    and e: "search_ends I (st_infobits g) (card_controlbits a) (chosen_card (card_select_index a) found) s"
    using search_all_runs[OF assms(1,2) k _ p assms(6)] by auto
  have t: "\<not> funcbit_test (card_controlbits a) AUINFOS_CARDCNTRLBIT_TESTCARD" using assms(4) by (simp add: plain_choice_def)
  have u: "AU_init cards (a, f, m, g) = init_end s" unfolding AU_init_def Let_def prod.case n bindE_simps using s assms(3) by simp
  show ?thesis
  proof (cases "chosen_card (card_select_index a) found")
    case (Some i)
    then have b: "settled I (st_infobits g) (se_aui s) s" "card_handler (se_aui s) = Some (Sndcard i)" "pcm (se_aui s)"
        "card_controlbits (se_aui s) = card_controlbits a"
      using e unfolding search_ends_def settled_def keeps_choice_def by auto
    obtain g' where "init_done (se_aui s, se_static s) = Inr ((se_aui s)\<lparr>freq_card := 0, chan_card := 0, bits_card := 0\<rparr>, g')"
      using init_done_runs[OF b(2)] by blast
    then show ?thesis unfolding u init_end_def Let_def Some option.case using t b by (auto simp: settled_def)
  next
    case None
    then have b: "\<not> fm (se_fm s)" "\<not> mpu401 (se_mpu401 s)" "card_handler (se_aui s) = None" "card_controlbits (se_aui s) = card_controlbits a"
      using e unfolding search_ends_def seeking_def by auto
    obtain a' g' where r: "null_fallback (se_aui s, se_static s) = Inr (a', se_static s)" "card_handler a' = Some NON_sndcard"
        "init_done (a', se_static s) = Inr (a'\<lparr>freq_card := 0, chan_card := 0, bits_card := 0\<rparr>, g')" "st_fallback g' = st_fallback (se_static s)"
      using null_fallback_runs[of "se_aui s" "se_static s"] init_done_runs by metis
    show ?thesis
    proof (cases "funcbit_test (card_controlbits a) AUINFOS_CARDCNTRLBIT_SILENT")
      case True
      then show ?thesis unfolding u init_end_def Let_def None option.case using t b by (simp add: init_done_def deref_def)
    next
      case False
      then show ?thesis unfolding u init_end_def Let_def None option.case using t b r by auto
    qed
  qed
qed

text \<open>A state as \<open>main\<close> passes it, the driver of a card that is not there, and one whose machine logs what happens: card \<open>k\<close> is opened, or
  the card of the private data is closed.\<close>

definition aui_start :: "int \<Rightarrow> int \<Rightarrow> 'p aui_card" where
  "aui_start n n_fm = mpxplay_audioout_info.extend aui0
    \<lparr>pcm = False, fm_port = 0, mpu401_port = 0, card_pci_dev = None, card_private_data = None, card_handler = None, card_dma_buffer_size = 0,
     card_test_index = 0, card_select_index = n, card_select_index_fm = n_fm, card_select_index_mpu401 = 0\<rparr>"

definition static_start :: "'h \<Rightarrow> 'h au_static" where
  "static_start h = \<lparr>st_outmode = 0, st_intsoundconfig = intsoundconfig, st_fallback = False, st_infobits = (\<lambda>_. SNDCARD_INT08_ALLOWED), st_machine = h\<rparr>"

definition absent_card :: "('p, 'h) card_ops" where
  "absent_card = \<lparr>co_detect = Some (\<lambda>(a, h). Inr (False, a, h)), co_close = None\<rparr>"

datatype card_event = Opened nat | Closed nat

definition logged_card :: "nat \<Rightarrow> (nat, card_event list) card_ops" where
  "logged_card k = \<lparr>co_detect = Some (\<lambda>(a, h). Inr (True, a\<lparr>card_private_data := Some k\<rparr>, h @ [Opened k])),
     co_close = Some (\<lambda>(a, h). Inr (case card_private_data a of None \<Rightarrow> (a, h)
       | Some k \<Rightarrow> (a\<lparr>card_private_data := None\<rparr>, h @ [Closed k])))\<rparr>"

interpretation logged: card_driver "logged_card k"
  by unfold_locales (auto simp: logged_card_def keeps_choice_def)

lemma absent_detects: "detects (\<lambda>_. True) (absent_card :: ('p, 'h) card_ops) False"
  unfolding detects_def card_driver_def by (auto simp: absent_card_def keeps_choice_def)

theorem au_init_selects_witness:
  "\<exists>a' f' m' g'. AU_init [absent_card, NON_sndcard_info, absent_card, NON_sndcard_info] (aui_start 2 0 :: nat aui_card, aui_start 2 0, aui_start 2 0, static_start ()) =
      Inr (a', f', m', g') \<and> card_handler a' = Some (Sndcard 3)"
proof -
  have c: "chosen_card 2 [False, True, False, True] = Some 3" by (simp add: chosen_card_def cards_found_def)
  have d: "list_all2 (detects (\<lambda>_. True)) [absent_card, NON_sndcard_info, absent_card, NON_sndcard_info :: (nat, unit) card_ops] [False, True, False, True]"
    by (simp add: absent_detects null_detects)
  have s: "card_select_index (aui_start 2 0 :: nat aui_card) = 2" "card_controlbits (aui_start 2 0 :: nat aui_card) = 0"
    "card_handler (aui_start 2 0 :: nat aui_card) = None" "plain_choice (aui_start 2 0 :: nat aui_card)"
    by (simp_all add: aui_start_def plain_choice_def mpxplay_audioout_info.extend_def aui0_def funcbit_test_def)
  show ?thesis
    using au_init_selects[OF d, of "aui_start 2 0" "static_start ()" "aui_start 2 0" "aui_start 2 0"] s c
    by (auto simp: static_start_def funcbit_test_def)
qed

text \<open>With a card number, the cards that are found before it stay open.\<close>

lemma earlier_cards_stay_open:
  "map_sum id (\<lambda>(a, f, m, g). (card_private_data a, st_machine g))
     (AU_init [logged_card 1, logged_card 2] (aui_start 2 0, aui_start 2 0, aui_start 2 0, static_start [])) =
   Inr (Some 2, [Opened 1, Opened 2])"
  by code_simp

text \<open>With an FM card number, a card without FM is closed although it is the output.\<close>

lemma selected_card_is_closed:
  "map_sum id (\<lambda>(a, f, m, g). (card_handler a, card_private_data a, st_machine g))
     (AU_init [logged_card 1] (aui_start 0 1, aui_start 0 1, aui_start 0 1, static_start [])) =
   Inr (Some (Sndcard 0), Some 1, [Opened 1, Closed 1])"
  by code_simp

end
