(* ===== verification/Ich.thy ===== *)
theory Ich
  imports Ac97
begin

text \<open>
  The driver of the Intel ICH audio controllers and their relatives (\<open>mpxplay/au_cards/sc_ich.c\<close>) with the AC97 mixer channels
  (\<open>ac97_def.c\<close>). The registers of the controller are behind \<open>card_hw\<close>; the descriptor list of the DMA engine is written to
  memory through it, while the bytes of the sample buffer behind it are the list \<open>card_DMABUFF\<close>. The switch between real hardware models is
  by \<open>ic_type\<close>. Messages are left out.
\<close>

section \<open>State\<close>

abbreviation (input) DEVICE_INTEL :: u8 where "DEVICE_INTEL \<equiv> 0"
abbreviation (input) DEVICE_INTEL_ICH4 :: u8 where "DEVICE_INTEL_ICH4 \<equiv> 1"
abbreviation (input) DEVICE_NFORCE :: u8 where "DEVICE_NFORCE \<equiv> 2"
abbreviation (input) DEVICE_SIS :: u8 where "DEVICE_SIS \<equiv> 3"

record intel_card =
  baseport_bm :: u32
  baseport_codec :: u32
  ic_irq :: u32
  ic_type :: u8
  use_mmio :: bool
  ic_pci_dev :: "pci_config option"
  ic_dm :: "xmsmem option"
  virtualpagetable :: u32
  pcmout_buffer :: u32
  pcmout_bufsize :: u32
  period_size_bytes :: u32
  vra :: bool
  ac97_clock_detected :: bool
  ac97_clock_corrector :: u32

definition intel_card_zero :: intel_card where
  "intel_card_zero = \<lparr>baseport_bm = 0, baseport_codec = 0, ic_irq = 0, ic_type = 0, use_mmio = False, ic_pci_dev = None, ic_dm = None,
    virtualpagetable = 0, pcmout_buffer = 0, pcmout_bufsize = 0, period_size_bytes = 0, vra = False, ac97_clock_detected = False,
    ac97_clock_corrector = 0\<rparr>"

section \<open>Registers\<close>

abbreviation (input) ICH_PO_CR_REG :: u32 where "ICH_PO_CR_REG \<equiv> 0x1B"
abbreviation (input) ICH_PO_CR_START :: u8 where "ICH_PO_CR_START \<equiv> 0x01"
abbreviation (input) ICH_PO_CR_RESET :: u8 where "ICH_PO_CR_RESET \<equiv> 0x02"
abbreviation (input) ICH_PO_CR_LVBIE :: u8 where "ICH_PO_CR_LVBIE \<equiv> 0x04"
abbreviation (input) ICH_PO_CR_IOCE :: u8 where "ICH_PO_CR_IOCE \<equiv> 0x10"
abbreviation (input) ICH_PO_SR_DCH :: u8 where "ICH_PO_SR_DCH \<equiv> 0x01"
abbreviation (input) ICH_PO_SR_LVBCI :: u8 where "ICH_PO_SR_LVBCI \<equiv> 0x04"
abbreviation (input) ICH_PO_SR_BCIS :: u8 where "ICH_PO_SR_BCIS \<equiv> 0x08"
abbreviation (input) ICH_PO_SR_FIFO :: u8 where "ICH_PO_SR_FIFO \<equiv> 0x10"
abbreviation (input) ICH_GLOB_CNT_REG :: u32 where "ICH_GLOB_CNT_REG \<equiv> 0x2C"
abbreviation (input) ICH_GLOB_STAT_REG :: u32 where "ICH_GLOB_STAT_REG \<equiv> 0x30"
abbreviation (input) ICH_GLOB_STAT_PCR :: u32 where "ICH_GLOB_STAT_PCR \<equiv> 0x100"
abbreviation (input) ICH_GLOB_STAT_RCS :: u32 where "ICH_GLOB_STAT_RCS \<equiv> 0x8000"
abbreviation (input) ICH_PO_BDBAR_REG :: u32 where "ICH_PO_BDBAR_REG \<equiv> 0x10"
abbreviation (input) ICH_PO_LVI_REG :: u32 where "ICH_PO_LVI_REG \<equiv> 0x15"
abbreviation (input) ICH_PO_CIV_REG :: u32 where "ICH_PO_CIV_REG \<equiv> 0x14"
abbreviation (input) ICH_ACC_SEMA_REG :: u32 where "ICH_ACC_SEMA_REG \<equiv> 0x34"

definition ICH_PO_SR_REG :: "intel_card \<Rightarrow> u32" where "ICH_PO_SR_REG ic = (if ic_type ic = DEVICE_SIS then 0x18 else 0x16)"
definition ICH_PO_PICB_REG :: "intel_card \<Rightarrow> u32" where "ICH_PO_PICB_REG ic = (if ic_type ic = DEVICE_SIS then 0x16 else 0x18)"

abbreviation (input) ICH_DEFAULT_RETRY :: nat where "ICH_DEFAULT_RETRY \<equiv> 1000"
abbreviation (input) ICH_DMABUF_PERIODS :: u32 where "ICH_DMABUF_PERIODS \<equiv> 4"
abbreviation (input) ICH_DMABUF_ALIGN :: u32 where "ICH_DMABUF_ALIGN \<equiv> 256"

definition snd_intel_write_8 :: "'h card_hw \<Rightarrow> intel_card \<Rightarrow> u32 \<Rightarrow> u8 \<Rightarrow> 'h \<Rightarrow> 'h" where
  "snd_intel_write_8 hw ic reg v h = (if use_mmio ic then hw_writeb hw (baseport_bm ic + reg) v h
    else hw_outb hw (ucast (baseport_bm ic + reg)) v h)"

definition snd_intel_write_16 :: "'h card_hw \<Rightarrow> intel_card \<Rightarrow> u32 \<Rightarrow> u16 \<Rightarrow> 'h \<Rightarrow> 'h" where
  "snd_intel_write_16 hw ic reg v h = (if use_mmio ic then hw_writew hw (baseport_bm ic + reg) v h
    else hw_outw hw (ucast (baseport_bm ic + reg)) v h)"

definition snd_intel_write_32 :: "'h card_hw \<Rightarrow> intel_card \<Rightarrow> u32 \<Rightarrow> u32 \<Rightarrow> 'h \<Rightarrow> 'h" where
  "snd_intel_write_32 hw ic reg v h = (if use_mmio ic then hw_writel hw (baseport_bm ic + reg) v h
    else hw_outl hw (ucast (baseport_bm ic + reg)) v h)"

definition snd_intel_read_8 :: "'h card_hw \<Rightarrow> intel_card \<Rightarrow> u32 \<Rightarrow> 'h \<Rightarrow> u8 \<times> 'h" where
  "snd_intel_read_8 hw ic reg h = (if use_mmio ic then hw_readb hw (baseport_bm ic + reg) h
    else hw_inb hw (ucast (baseport_bm ic + reg)) h)"

definition snd_intel_read_16 :: "'h card_hw \<Rightarrow> intel_card \<Rightarrow> u32 \<Rightarrow> 'h \<Rightarrow> u16 \<times> 'h" where
  "snd_intel_read_16 hw ic reg h = (if use_mmio ic then hw_readw hw (baseport_bm ic + reg) h
    else hw_inw hw (ucast (baseport_bm ic + reg)) h)"

definition snd_intel_read_32 :: "'h card_hw \<Rightarrow> intel_card \<Rightarrow> u32 \<Rightarrow> 'h \<Rightarrow> u32 \<times> 'h" where
  "snd_intel_read_32 hw ic reg h = (if use_mmio ic then hw_readl hw (baseport_bm ic + reg) h
    else hw_inl hw (ucast (baseport_bm ic + reg)) h)"

section \<open>The codec\<close>

text \<open>Tests on a register, for the waits.\<close>

definition test_8 :: "'h card_hw \<Rightarrow> intel_card \<Rightarrow> u32 \<Rightarrow> (u8 \<Rightarrow> bool) \<Rightarrow> 'h \<Rightarrow> bool \<times> 'h" where
  "test_8 hw ic reg p h = (let (v, h) = snd_intel_read_8 hw ic reg h in (p v, h))"

definition test_32 :: "'h card_hw \<Rightarrow> intel_card \<Rightarrow> u32 \<Rightarrow> (u32 \<Rightarrow> bool) \<Rightarrow> 'h \<Rightarrow> bool \<times> 'h" where
  "test_32 hw ic reg p h = (let (v, h) = snd_intel_read_32 hw ic reg h in (p v, h))"

definition snd_intel_codec_ready :: "'h card_hw \<Rightarrow> intel_card \<Rightarrow> u32 \<Rightarrow> 'h \<Rightarrow> (nat \<times> 'h) res" where
  "snd_intel_codec_ready hw ic codec h =
    (let codec = (if codec = 0 then ICH_GLOB_STAT_PCR else codec)
     in retry_wait (test_32 hw ic ICH_GLOB_STAT_REG (\<lambda>v. v AND codec \<noteq> 0)) (hw_delay hw 10) ICH_DEFAULT_RETRY h)"

definition snd_intel_codec_semaphore :: "'h card_hw \<Rightarrow> intel_card \<Rightarrow> u32 \<Rightarrow> 'h \<Rightarrow> 'h res" where
  "snd_intel_codec_semaphore hw ic codec h =
    bindE (snd_intel_codec_ready hw ic codec h) (\<lambda>(_, h).
    bindE (retry_wait (test_8 hw ic ICH_ACC_SEMA_REG (\<lambda>v. v AND 0x01 = 0)) (hw_delay hw 10) ICH_DEFAULT_RETRY h) (\<lambda>(_, h). Inr h))"

definition snd_intel_codec_write :: "'h card_hw \<Rightarrow> intel_card \<Rightarrow> u32 \<Rightarrow> u32 \<Rightarrow> 'h \<Rightarrow> 'h res" where
  "snd_intel_codec_write hw ic reg v h =
    bindE (snd_intel_codec_semaphore hw ic ICH_GLOB_STAT_PCR h) (\<lambda>h.
    Inr (if use_mmio ic then hw_writew hw (baseport_codec ic + reg) (ucast v) h
      else hw_outw hw (ucast (baseport_codec ic + reg)) (ucast v) h))"

text \<open>A word read from memory is sign-extended, one read from a port is not.\<close>

primrec codec_read_loop :: "'h card_hw \<Rightarrow> intel_card \<Rightarrow> u32 \<Rightarrow> nat \<Rightarrow> u32 \<Rightarrow> 'h \<Rightarrow> (u32 \<times> 'h) res" where
  "codec_read_loop hw ic reg 0 v h = Inr (v, h)"
| "codec_read_loop hw ic reg (Suc n) v h =
    (let (v, h) = (if use_mmio ic then (let (w, h) = hw_readw hw (baseport_codec ic + reg) h in (scast w, h))
           else (let (w, h) = hw_inw hw (ucast (baseport_codec ic + reg)) h in (ucast w, h)));
         (st, h) = snd_intel_read_32 hw ic ICH_GLOB_STAT_REG h in
     if st AND ICH_GLOB_STAT_RCS = 0 then Inr (v, h)
     else bindE (hw_delay hw 10 h) (codec_read_loop hw ic reg n v))"

definition snd_intel_codec_read :: "'h card_hw \<Rightarrow> intel_card \<Rightarrow> u32 \<Rightarrow> 'h \<Rightarrow> (u32 \<times> 'h) res" where
  "snd_intel_codec_read hw ic reg h =
    bindE (snd_intel_codec_semaphore hw ic ICH_GLOB_STAT_PCR h) (codec_read_loop hw ic reg ICH_DEFAULT_RETRY 0)"

section \<open>The controller\<close>

definition snd_intel_chip_init :: "'h card_hw \<Rightarrow> intel_card \<Rightarrow> 'h \<Rightarrow> 'h res" where
  "snd_intel_chip_init hw ic h =
    (let (cmd, h) = snd_intel_read_32 hw ic ICH_GLOB_STAT_REG h;
         h = snd_intel_write_32 hw ic ICH_GLOB_STAT_REG (cmd AND ICH_GLOB_STAT_RCS) h;
         (cmd, h) = snd_intel_read_32 hw ic ICH_GLOB_CNT_REG h;
         cmd = (if ic_type ic = DEVICE_SIS then cmd AND NOT (0x8 OR 0xC0) else cmd AND NOT (0x8 OR 0x300000));
         cmd = cmd OR (if cmd AND 0x2 = 0 then 0x2 else 0x4);
         h = snd_intel_write_32 hw ic ICH_GLOB_CNT_REG cmd h in
     bindE (retry_wait (test_32 hw ic ICH_GLOB_CNT_REG (\<lambda>v. v AND 0x4 = 0)) (hw_delay hw 10) ICH_DEFAULT_RETRY h) (\<lambda>(_, h).
     bindE (snd_intel_codec_ready hw ic ICH_GLOB_STAT_PCR h) (\<lambda>(_, h).
     (let h = snd_intel_write_8 hw ic ICH_PO_CR_REG ICH_PO_CR_RESET h in
      if ic_type ic = DEVICE_SIS then
        (let (v, h) = snd_intel_read_16 hw ic 0x4C h in Inr (snd_intel_write_16 hw ic 0x4C (v OR 1) h))
      else Inr h))))"

definition snd_intel_chip_close :: "'h card_hw \<Rightarrow> intel_card \<Rightarrow> 'h \<Rightarrow> 'h" where
  "snd_intel_chip_close hw ic h = (if baseport_bm ic \<noteq> 0 then snd_intel_write_8 hw ic ICH_PO_CR_REG ICH_PO_CR_RESET h else h)"

text \<open>A list of writes to the codec.\<close>

primrec codec_writes :: "'h card_hw \<Rightarrow> intel_card \<Rightarrow> (u32 \<times> u32) list \<Rightarrow> 'h \<Rightarrow> 'h res" where
  "codec_writes hw ic [] h = Inr h"
| "codec_writes hw ic (w # ws) h = bindE (snd_intel_codec_write hw ic (fst w) (snd w) h) (codec_writes hw ic ws)"

definition snd_intel_ac97_init :: "'h card_hw \<Rightarrow> u32 \<Rightarrow> intel_card \<times> 'h \<Rightarrow> (intel_card \<times> 'h) res" where
  "snd_intel_ac97_init hw freq s =
    (let (ic, h) = s in
     bindE (codec_writes hw ic [(AC97_MASTER_VOL_STEREO, 0x0202), (AC97_PCMOUT_VOL, 0x0202), (AC97_HEADPHONE_VOL, 0x0202),
       (AC97_CD_VOL, 0x0202), (AC97_EXTENDED_STATUS, 0x4)] h) (\<lambda>h.
     if freq \<noteq> 48000 then
       bindE (snd_intel_codec_write hw ic AC97_EXTENDED_STATUS 0x1 h) (\<lambda>h.
       bindE (snd_intel_codec_read hw ic AC97_EXTENDED_STATUS h) (\<lambda>(v, h).
       Inr (if v AND 0x1 \<noteq> 0 then ic\<lparr>vra := True\<rparr> else ic, h)))
     else Inr (ic, h)))"

section \<open>Playback\<close>

text \<open>20 and 32-bit samples where the controller has them.\<close>

definition playback_width :: "'h card_hw \<Rightarrow> (intel_card, 'h) play \<Rightarrow> (intel_card, 'h) play" where
  "playback_width hw s =
    (let (a, ic, h) = s; (cmd, h) = snd_intel_read_32 hw ic ICH_GLOB_CNT_REG h in
     if ic_type ic = DEVICE_SIS then (a, ic, snd_intel_write_32 hw ic ICH_GLOB_CNT_REG (cmd AND NOT (0xC0 OR 0x400000)) h)
     else let cmd = cmd AND NOT (0x300000 OR 0x400000) in
       if 16 < bits_set a \<and> ic_type ic = DEVICE_INTEL_ICH4 then
         (let (st, h) = snd_intel_read_32 hw ic ICH_GLOB_STAT_REG h in
          if st AND 0xC00000 = 0x400000
          then (a\<lparr>bits_card := 32\<rparr>, ic, snd_intel_write_32 hw ic ICH_GLOB_CNT_REG (cmd OR 0x400000) h)
          else (a, ic, snd_intel_write_32 hw ic ICH_GLOB_CNT_REG cmd h))
       else (a, ic, snd_intel_write_32 hw ic ICH_GLOB_CNT_REG cmd h))"

definition playback_spdif :: "'h card_hw \<Rightarrow> u32 \<Rightarrow> intel_card \<Rightarrow> 'h \<Rightarrow> 'h res" where
  "playback_spdif hw rate ic h =
    (let spdif_rate = (if rate = 32000 then 0x3000 else if rate = 44100 then 0x0000 else 0x2000) in
     bindE (snd_intel_codec_read hw ic AC97_SPDIF_CONTROL h) (\<lambda>(cmd, h).
     bindE (snd_intel_codec_write hw ic AC97_SPDIF_CONTROL ((cmd AND 0xCFFF) OR spdif_rate) h) (hw_delay hw 10)))"

definition playback_vendor :: "'h card_hw \<Rightarrow> intel_card \<Rightarrow> 'h \<Rightarrow> 'h res" where
  "playback_vendor hw ic h =
    bindE (snd_intel_codec_read hw ic AC97_VENDOR_ID1 h) (\<lambda>(v1, h).
    bindE (snd_intel_codec_read hw ic AC97_VENDOR_ID2 h) (\<lambda>(v2, h).
    if (ucast v1 :: u16) = 0x4144 \<and> (ucast v2 :: u16) = 0x5370
    then snd_intel_codec_write hw ic AC97_AD_MISC (0x4000 OR 0x0400 OR 0x0020) h else Inr h))"

definition playback_rate :: "'h card_hw \<Rightarrow> float_ops \<Rightarrow> (intel_card, 'h) play \<Rightarrow> (intel_card, 'h) play res" where
  "playback_rate hw fl s =
    (let (a, ic, h) = s in
     if fl_nonzero (ac97_clock_corrector ic) then
       (if vra ic then bindE (snd_intel_codec_write hw ic AC97_PCM_FRONT_DAC_RATE (fl_times fl (freq_card a) (ac97_clock_corrector ic)) h)
          (\<lambda>h. Inr (a, ic, h))
        else Inr (a\<lparr>freq_card := fl_over fl (freq_card a) (ac97_clock_corrector ic)\<rparr>, ic, h))
     else bindE (snd_intel_codec_write hw ic AC97_PCM_FRONT_DAC_RATE (freq_card a) h) (\<lambda>h. Inr (a, ic, h)))"

text \<open>The descriptor list: the address of each period and its length with the interrupt bit, then empty entries.\<close>

definition bd_entry :: "intel_card \<Rightarrow> xmsmem \<Rightarrow> u32 \<Rightarrow> u32 \<Rightarrow> u32 \<times> u32" where
  "bd_entry ic dm samples i = (if i < ICH_DMABUF_PERIODS then
      (pds_cardmem_physicalptr dm (pcmout_buffer ic + i * period_size_bytes ic),
       (if ic_type ic = DEVICE_SIS then period_size_bytes ic else samples) OR 0x80000000)
    else (0, 0))"

definition playback_table :: "'h card_hw \<Rightarrow> (intel_card, 'h) play \<Rightarrow> (intel_card, 'h) play res" where
  "playback_table hw s =
    (let (a, ic, h) = s in
     bindE (udiv (period_size_bytes ic) (ucast (drop_bit 3 (bits_card a)))) (\<lambda>samples.
     bindE (deref (ic_dm ic)) (\<lambda>dm.
     (let h = bd_write hw (virtualpagetable ic) (bd_entry ic dm samples) [0..<32] h;
          h = snd_intel_write_32 hw ic ICH_PO_BDBAR_REG (pds_cardmem_physicalptr dm (virtualpagetable ic)) h;
          h = snd_intel_write_8 hw ic ICH_PO_LVI_REG (ucast (ICH_DMABUF_PERIODS - 1)) h
      in Inr (a\<lparr>card_samples_per_int := uint (samples div 2)\<rparr>, ic, h)))))"

definition snd_intel_prepare_playback :: "'h card_hw \<Rightarrow> float_ops \<Rightarrow> (intel_card, 'h) play \<Rightarrow> (intel_card, 'h) play res" where
  "snd_intel_prepare_playback hw fl s =
    (let (a, ic, h) = s in
     bindE (retry_wait (test_8 hw ic (ICH_PO_SR_REG ic) (\<lambda>v. v AND ICH_PO_SR_DCH \<noteq> 0)) (hw_delay hw 1) ICH_DEFAULT_RETRY h) (\<lambda>(_, h).
     (let (cr, h) = snd_intel_read_8 hw ic ICH_PO_CR_REG h;
          h = snd_intel_write_8 hw ic ICH_PO_CR_REG (cr OR ICH_PO_CR_RESET) h;
          (a, ic, h) = playback_width hw (a, ic, h) in
      bindE (playback_spdif hw (freq_card a) ic h) (\<lambda>h.
      bindE (playback_vendor hw ic h) (\<lambda>h.
      bindE (playback_rate hw fl (a, ic, h)) (\<lambda>(a, ic, h).
      bindE (hw_delay hw 1600 h) (\<lambda>h.
      playback_table hw (a, ic, h))))))))"

definition INTELICH_start :: "'h card_hw \<Rightarrow> (intel_card, 'h) play \<Rightarrow> (intel_card, 'h) play res" where
  "INTELICH_start hw s =
    (let (a, ic, h) = s in
     bindE (snd_intel_codec_ready hw ic ICH_GLOB_STAT_PCR h) (\<lambda>(_, h).
     (let h = snd_intel_write_8 hw ic ICH_PO_CR_REG (ICH_PO_CR_LVBIE OR ICH_PO_CR_IOCE) h;
          (cmd, h) = snd_intel_read_8 hw ic ICH_PO_CR_REG h
      in Inr (a, ic, snd_intel_write_8 hw ic ICH_PO_CR_REG (cmd OR ICH_PO_CR_START) h))))"

definition INTELICH_stop :: "'h card_hw \<Rightarrow> (intel_card, 'h) play \<Rightarrow> (intel_card, 'h) play" where
  "INTELICH_stop hw s =
    (let (a, ic, h) = s; (cmd, h) = snd_intel_read_8 hw ic ICH_PO_CR_REG h
     in (a, ic, snd_intel_write_8 hw ic ICH_PO_CR_REG (cmd AND NOT ICH_PO_CR_START) h))"

section \<open>The clock of the codec\<close>

text \<open>Waiting for the last period, for a second at most by the clock of the system: it never ends when that clock stands still.\<close>

partial_function (option) clock_wait :: "'h card_hw \<Rightarrow> intel_card \<Rightarrow> int \<Rightarrow> 'h \<Rightarrow> 'h option" where
  "clock_wait hw ic starttime h =
    (let (civ, h) = snd_intel_read_8 hw ic ICH_PO_CIV_REG h;
         (civ2, h) = (if 3 \<le> civ then snd_intel_read_8 hw ic ICH_PO_CIV_REG h else (0, h)) in
     if 3 \<le> civ2 then Some h
     else let (t, h) = hw_gettimeu hw h in if t \<le> starttime + 1000000 then clock_wait hw ic starttime h else Some h)"

definition clock_result :: "float_ops \<Rightarrow> mpxplay_audioout_info \<Rightarrow> int \<Rightarrow> intel_card \<Rightarrow> intel_card" where
  "clock_result fl a timelen ic = (if timelen \<noteq> 0 \<and> timelen < 1000000 then
      (let c = fl_corrector fl (freq_card a) (chan_card a) (bits_card a div 8) (uint (period_size_bytes ic * 3)) timelen;
           c = (if fl_near1 fl c then 0 else c)
       in ic\<lparr>ac97_clock_corrector := (if fl_implausible fl c then 0 else c)\<rparr>)
    else ic)"

definition snd_intel_measure_ac97_clock :: "'h card_hw \<Rightarrow> float_ops \<Rightarrow> (intel_card, 'h) play \<Rightarrow> (intel_card, 'h) play res" where
  "snd_intel_measure_ac97_clock hw fl s =
    (let (a, ic, h) = s; freq_save = freq_card a;
         a = a\<lparr>freq_card := 48000, chan_card := 2, bits_card := 16\<rparr> in
     bindE (MDma_init_pcmoutbuf fl (min (pcmout_bufsize ic) 4096) ICH_DMABUF_ALIGN 0 a) (\<lambda>(n, a).
     bindE (snd_intel_prepare_playback hw fl (a, ic\<lparr>period_size_bytes := n div ICH_DMABUF_PERIODS\<rparr>, h)) (\<lambda>(a, ic, h).
     bindE (MDma_clearbuf a) (\<lambda>a.
     (let (cr, h) = snd_intel_read_8 hw ic ICH_PO_CR_REG h; h = snd_intel_write_8 hw ic ICH_PO_CR_REG 0 h in
      bindE (INTELICH_start hw (a, ic, h)) (\<lambda>(a, ic, h).
      (let (starttime, h) = hw_gettimeu hw h in
       case clock_wait hw ic starttime h of None \<Rightarrow> Inl No_return
       | Some h \<Rightarrow>
           (let (endtime, h) = hw_gettimeu hw h;
                timelen = (if starttime < endtime then endtime - starttime else 0);
                (a, ic, h) = INTELICH_stop hw (a, ic, h);
                h = snd_intel_write_8 hw ic ICH_PO_CR_REG cr h
            in Inr (a\<lparr>freq_card := freq_save\<rparr>, (clock_result fl a timelen ic)\<lparr>ac97_clock_detected := True\<rparr>, h)))))))))"

definition INTELICH_setrate :: "'h card_hw \<Rightarrow> float_ops \<Rightarrow> (intel_card, 'h) play \<Rightarrow> (intel_card, 'h) play res" where
  "INTELICH_setrate hw fl s =
    bindE (if ic_type (fst (snd s)) = DEVICE_INTEL \<and> \<not> ac97_clock_detected (fst (snd s))
      then snd_intel_measure_ac97_clock hw fl s else Inr s) (\<lambda>(a, ic, h).
    (let a = a\<lparr>card_wave_id := MPXPLAY_WAVEID_PCM_SLE, chan_card := 2, bits_card := 16\<rparr>;
         a = a\<lparr>freq_card := (if \<not> vra ic then 48000 else if freq_card a < 8000 then 8000
           else if 48000 < freq_card a then 48000 else freq_card a)\<rparr> in
     bindE (MDma_init_pcmoutbuf fl (pcmout_bufsize ic) ICH_DMABUF_ALIGN 0 a) (\<lambda>(n, a).
     snd_intel_prepare_playback hw fl (a, ic\<lparr>period_size_bytes := n div ICH_DMABUF_PERIODS\<rparr>, h))))"

section \<open>Position, interrupt, mixer\<close>

text \<open>An impossible rest of the period, at the last valid period, is an underrun.\<close>

definition pos_underrun :: "'h card_hw \<Rightarrow> u32 \<Rightarrow> u32 \<Rightarrow> (intel_card, 'h) play \<Rightarrow> (intel_card, 'h) play res" where
  "pos_underrun hw index pcmpos s =
    (let (a, ic, h) = s in
     if pcmpos = 0 \<or> period_size_bytes ic < pcmpos then
       (let (lvi, h) = snd_intel_read_8 hw ic ICH_PO_LVI_REG h in
        if ucast lvi = index then
          bindE (MDma_clearbuf a) (\<lambda>a. Inr (a\<lparr>card_infobits := funcbit_enable (card_infobits a) AUINFOS_CARDINFOBIT_DMAUNDERRUN\<rparr>, ic, h))
        else Inr (a, ic, h))
     else Inr s)"

primrec getbufpos_loop :: "'h card_hw \<Rightarrow> nat \<Rightarrow> (intel_card, 'h) play \<Rightarrow> (intel_card, 'h) play res" where
  "getbufpos_loop hw 0 s = Inr s"
| "getbufpos_loop hw (Suc retry) s =
    (let (a, ic, h) = s;
         (civ, h) = snd_intel_read_8 hw ic ICH_PO_CIV_REG h;
         (picb, h) = snd_intel_read_16 hw ic (ICH_PO_PICB_REG ic) h;
         pcmpos = ucast picb * (if ic_type ic \<noteq> DEVICE_SIS then ucast (drop_bit 3 (bits_card a)) else 1) in
     bindE (pos_underrun hw (ucast civ) pcmpos (a, ic, h)) (\<lambda>(a, ic, h).
     (let bufpos = ucast civ * period_size_bytes ic + (period_size_bytes ic - pcmpos) in
      if bufpos < card_dmasize a then Inr (a\<lparr>card_dma_lastgoodpos := bufpos\<rparr>, ic, h)
      else getbufpos_loop hw retry (a, ic, h))))"

definition INTELICH_getbufpos :: "'h card_hw \<Rightarrow> (intel_card, 'h) play \<Rightarrow> (u32 \<times> (intel_card, 'h) play) res" where
  "INTELICH_getbufpos hw s = bindE (getbufpos_loop hw 3 s) (\<lambda>s. Inr (card_dma_lastgoodpos (fst s), s))"

definition INTELICH_IRQRoutine :: "'h card_hw \<Rightarrow> intel_card \<Rightarrow> 'h \<Rightarrow> bool \<times> 'h" where
  "INTELICH_IRQRoutine hw ic h =
    (let (status, h) = snd_intel_read_8 hw ic (ICH_PO_SR_REG ic) h;
         h = (if status AND ICH_PO_SR_LVBCI \<noteq> 0 then
             (let h = snd_intel_write_8 hw ic ICH_PO_LVI_REG (ucast (ICH_DMABUF_PERIODS - 1)) h;
                  (cr, h) = snd_intel_read_8 hw ic ICH_PO_CR_REG h
              in snd_intel_write_8 hw ic ICH_PO_CR_REG (cr OR ICH_PO_CR_START OR ICH_PO_CR_IOCE OR ICH_PO_CR_LVBIE) h)
           else h);
         h = (if status AND ICH_PO_SR_BCIS \<noteq> 0 then
             (let (lvi, h) = snd_intel_read_8 hw ic ICH_PO_LVI_REG h
              in snd_intel_write_8 hw ic ICH_PO_LVI_REG (ucast ((ucast lvi + 1) mod ICH_DMABUF_PERIODS)) h)
           else h)
     in (status \<noteq> 0, snd_intel_write_8 hw ic (ICH_PO_SR_REG ic) (status AND (ICH_PO_SR_LVBCI OR ICH_PO_SR_BCIS OR ICH_PO_SR_FIFO)) h))"

section \<open>Detection and release\<close>

definition ich_devices :: "pci_device list" where
  "ich_devices = map (\<lambda>(n, v, d, t). \<lparr>pd_name = n, pd_vendor = v, pd_device = d, pd_type = t\<rparr>)
    [(''82801AA'', 0x8086, 0x2415, 0), (''82901AB'', 0x8086, 0x2425, 0), (''82801BA'', 0x8086, 0x2445, 0), (''ICH3'', 0x8086, 0x2485, 0),
     (''ICH4'', 0x8086, 0x24C5, 1), (''ICH5'', 0x8086, 0x24D5, 1), (''ESB'', 0x8086, 0x25A6, 1), (''ICH6'', 0x8086, 0x266E, 1),
     (''ICH7'', 0x8086, 0x27DE, 1), (''ESB2'', 0x8086, 0x2698, 1), (''440MX'', 0x8086, 0x7195, 0), (''SI7012'', 0x1039, 0x7012, 3),
     (''NFORCE'', 0x10DE, 0x01B1, 2), (''MCP04'', 0x10DE, 0x003A, 2), (''NFORCE2'', 0x10DE, 0x006A, 2), (''CK804'', 0x10DE, 0x0059, 2),
     (''CK8'', 0x10DE, 0x008A, 2), (''NFORCE3'', 0x10DE, 0x00DA, 2), (''CK8S'', 0x10DE, 0x00EA, 2), (''AMD8111'', 0x1022, 0x746D, 0),
     (''AMD768'', 0x1022, 0x7445, 0), ([], 0, 0, 0)]"

type_synonym 'h ich = "(intel_card, 'h) card_dev"
type_synonym 'h ich_au = "mpxplay_audioout_info \<times> 'h ich"

abbreviation (input) PCIR_NAMBAR :: u16 where "PCIR_NAMBAR \<equiv> 0x10"
abbreviation (input) PCIR_NABMBAR :: u16 where "PCIR_NABMBAR \<equiv> 0x14"

definition INTELICH_close :: "'h card_env \<Rightarrow> 'h ich \<Rightarrow> 'h ich" where
  "INTELICH_close env d = (case private_data d of None \<Rightarrow> d
    | Some ic \<Rightarrow>
        (let h = snd_intel_chip_close (ce_hw env) ic (machine d);
             (xr, h) = MDma_free_cardmem (ce_host env) (b_ops (ce_bios env)) (ic_dm ic) (xms_regs d, h)
         in d\<lparr>private_data := None, machine := h, xms_regs := xr\<rparr>))"

text \<open>The ports of the older controllers, with the addresses that are assigned when the BIOS has left the registers empty.\<close>

definition detect_io :: "'h card_env \<Rightarrow> pci_config \<Rightarrow> intel_card \<Rightarrow> 'h \<Rightarrow> bool \<times> intel_card \<times> 'h" where
  "detect_io env k ic h =
    (let io = b_pci (ce_bios env);
         h = pcibios_set_master io k h;
         (v, h) = pcibios_ReadConfig_Dword io k PCIR_NABMBAR h;
         bm = v AND 0xFFF0;
         (iobase, bm, h) = (if bm = 0 then
             (let h = pcibios_WriteConfig_Dword io k PCIR_NABMBAR (0xF000 AND NOT 0x3F) h;
                  (v, h) = pcibios_ReadConfig_Dword io k PCIR_NABMBAR h
              in (0xF000 AND NOT 0x3F, v AND 0xFFF0, h))
           else (0xF000 :: u32, bm, h));
         ic = ic\<lparr>baseport_bm := bm\<rparr> in
     if bm = 0 then (False, ic, h)
     else
       (let (v, h) = pcibios_ReadConfig_Dword io k PCIR_NAMBAR h;
            cd = v AND 0xFFF0;
            (cd, h) = (if cd = 0 then
                (let h = pcibios_WriteConfig_Dword io k PCIR_NAMBAR ((iobase - 256) AND NOT 0xFF) h;
                     (v, h) = pcibios_ReadConfig_Dword io k PCIR_NAMBAR h
                 in (v AND 0xFFF0, h))
              else (cd, h))
        in (cd \<noteq> 0, ic\<lparr>baseport_codec := cd\<rparr>, h)))"

text \<open>ICH4 and its successors: registers in memory, if both base registers have memory addresses; the first result is whether to go on with
  the ports.\<close>

definition detect_mmio :: "'h card_env \<Rightarrow> pci_config \<Rightarrow> intel_card \<Rightarrow> dpmi_meminfo list \<times> 'h \<Rightarrow> bool \<times> intel_card \<times> dpmi_meminfo list \<times> 'h" where
  "detect_mmio env k ic s =
    (let (maps, h) = s; io = b_pci (ce_bios env);
         (_, h) = pcibios_ReadConfig_Word io k PCIR_PCICMD h;
         h = pcibios_WriteConfig_Byte io k 0x41 1 h;
         h = pcibios_enable_memmap_set_master_all io k h;
         (_, h) = pcibios_ReadConfig_Dword io k 0x10 h;
         (_, h) = pcibios_ReadConfig_Dword io k 0x14 h;
         (bar2, h) = pcibios_ReadConfig_Dword io k 0x18 h;
         (bar3, h) = pcibios_ReadConfig_Dword io k 0x1C h in
     if bar2 \<noteq> 0 \<and> bar2 AND 1 = 0 then
       (let (cd, maps, h) = pds_dpmi_map_physical_memory (ce_host env) bar2 0x200 (maps, h);
            ic = ic\<lparr>baseport_codec := cd\<rparr> in
        if bar3 \<noteq> 0 \<and> bar3 AND 1 = 0 then
          (let (bm, maps, h) = pds_dpmi_map_physical_memory (ce_host env) bar3 0x100 (maps, h)
           in (False, ic\<lparr>baseport_bm := bm, use_mmio := True\<rparr>, maps, h))
        else (True, ic, maps, h))
     else (True, ic, maps, h))"

definition snd_intel_buffer_init :: "'h card_env \<Rightarrow> intel_card \<Rightarrow> mpxplay_audioout_info \<Rightarrow> DPMI_REG \<times> 'h \<Rightarrow>
    (intel_card \<times> mpxplay_audioout_info \<times> DPMI_REG \<times> 'h) res" where
  "snd_intel_buffer_init env ic a w =
    bindE (MDma_get_max_pcmoutbufsize (card_controlbits a) 0 ICH_DMABUF_ALIGN (if 16 < bits_set a then 4 else 2) 0) (\<lambda>n.
    bindE (MDma_alloc_cardmem (ce_host env) (b_ops (ce_bios env)) (ce_calloc env ''cardmem_t'') (256 + n) w) (\<lambda>(dm, w).
    Inr (ic\<lparr>pcmout_bufsize := n, ic_dm := Some dm, virtualpagetable := linearptr dm, pcmout_buffer := linearptr dm + 256\<rparr>,
      a\<lparr>card_DMABUFF := Some (replicate (unat n) 0)\<rparr>, w)))"

definition INTELICH_detected :: "'h card_env \<Rightarrow> pci_config \<Rightarrow> intel_card \<Rightarrow> mpxplay_audioout_info \<times> 'h ich \<Rightarrow> 'h ich_au res" where
  "INTELICH_detected env k ic s =
    (let (a, d) = s; io = b_pci (ce_bios env);
         (irq, h) = pcibios_ReadConfig_Byte io k PCIR_INTR_LN (machine d);
         (_, h) = pcibios_ReadConfig_Dword io k 0x2C h;
         (_, h) = pcibios_ReadConfig_Dword io k 0x2E h;
         ic = ic\<lparr>ic_irq := ucast irq, ic_type := ucast (device_type k)\<rparr> in
     bindE (snd_intel_buffer_init env ic (a\<lparr>card_irq := irq\<rparr>) (xms_regs d, h)) (\<lambda>(ic, a, xr, h).
     bindE (snd_intel_chip_init (ce_hw env) ic h) (\<lambda>h.
     bindE (snd_intel_ac97_init (ce_hw env) (freq_set a) (ic, h)) (\<lambda>(ic, h).
     Inr (a, d\<lparr>private_data := Some ic, aui_pci_dev := Some k, machine := h, xms_regs := xr\<rparr>)))))"

definition INTELICH_adetect :: "'h card_env \<Rightarrow> 'h ich_au \<Rightarrow> (bool \<times> 'h ich_au) res" where
  "INTELICH_adetect env s =
    (let (a, d) = s in
     if \<not> ce_calloc env ''intel_card_s'' then Inr (False, s)
     else let ic = intel_card_zero in
     if \<not> ce_calloc env ''pci_config_s'' then Inr (False, a, INTELICH_close env (d\<lparr>private_data := Some ic\<rparr>))
     else bindE (pcibios_search_devices (ce_bios env) ich_devices (Some pci_config_zero) (machine d)) (\<lambda>(ah, key, h).
       bindE (deref key) (\<lambda>k.
       (let ic = ic\<lparr>ic_pci_dev := Some k\<rparr> in
        if ah \<noteq> PCI_SUCCESSFUL then Inr (False, a, INTELICH_close env (d\<lparr>private_data := Some ic, machine := h\<rparr>))
        else
          (let (try_io, ic, maps, h) = (if device_type k = 1 then detect_mmio env k ic (physicalmaps d, h) else (True, ic, physicalmaps d, h));
               (ok, ic, h) = (if try_io then detect_io env k ic h else (True, ic, h)) in
           if \<not> ok then Inr (False, a, INTELICH_close env (d\<lparr>private_data := Some ic, machine := h, physicalmaps := maps\<rparr>))
           else bindE (INTELICH_detected env k ic (a, d\<lparr>machine := h, physicalmaps := maps\<rparr>)) (\<lambda>s. Inr (True, s)))))))"

section \<open>The functions of the card\<close>

definition ICH_sndcard_info :: "'h card_env \<Rightarrow> 'h ich one_sndcard_info" where
  "ICH_sndcard_info env = \<lparr>infobits = SNDCARD_LOWLEVELHAND OR 2,
    card_start = Some (on_play (INTELICH_start (ce_hw env))),
    card_stop = Some (on_play (\<lambda>s. Inr (INTELICH_stop (ce_hw env) s))),
    card_close = Some (\<lambda>s. Inr (upd_glb (\<lambda>g. g\<lparr>device := INTELICH_close env (device g)\<rparr>) s)),
    card_setrate = Some (on_play (INTELICH_setrate (ce_hw env) (ce_fl env))),
    cardbuf_writedata = MDma_put,
    cardbuf_pos = Some (ask_play (INTELICH_getbufpos (ce_hw env))),
    cardbuf_clear = Some (\<lambda>s. bindE (MDma_clearbuf (fst s)) (\<lambda>a. Inr (a, snd s))),
    cardbuf_int_monitor = None,
    card_writemixer = Some (\<lambda>reg v. on_play (\<lambda>(a, ic, h). bindE (snd_intel_codec_write (ce_hw env) ic reg v h) (\<lambda>h. Inr (a, ic, h)))),
    card_readmixer = Some (\<lambda>reg. ask_play (\<lambda>(a, ic, h). bindE (snd_intel_codec_read (ce_hw env) ic reg h) (\<lambda>(v, h). Inr (v, a, ic, h)))),
    card_mixerchans = Some mpxplay_aucards_ac97chan_mixerset,
    irq_routine = Some (ask_play (\<lambda>(a, ic, h). case INTELICH_IRQRoutine (ce_hw env) ic h of (v, h) \<Rightarrow> Inr (v, a, ic, h))),
    card_fm_write = None, card_fm_read = None, card_mpu401_write = None, card_mpu401_read = None\<rparr>"

section \<open>The operations return\<close>

lemma codec_ready_returns: "timer_runs (hw_io hw) cnt \<Longrightarrow> \<exists>k h'. snd_intel_codec_ready hw ic c h = Inr (k, h')"
  unfolding snd_intel_codec_ready_def Let_def by (rule retry_wait_returns) (rule hw_delay_returns)

lemma codec_semaphore_returns: "timer_runs (hw_io hw) cnt \<Longrightarrow> \<exists>h'. snd_intel_codec_semaphore hw ic c h = Inr h'"
proof -
  assume t: "timer_runs (hw_io hw) cnt"
  obtain k h1 where 1: "snd_intel_codec_ready hw ic c h = Inr (k, h1)" using codec_ready_returns [OF t] by blast
  have "\<exists>k h'. retry_wait (test_8 hw ic ICH_ACC_SEMA_REG (\<lambda>v. v AND 0x01 = 0)) (hw_delay hw 10) ICH_DEFAULT_RETRY h1 = Inr (k, h')"
    by (rule retry_wait_returns) (rule hw_delay_returns [OF t])
  then show ?thesis using 1 unfolding snd_intel_codec_semaphore_def by auto
qed

lemma codec_write_returns: "timer_runs (hw_io hw) cnt \<Longrightarrow> \<exists>h'. snd_intel_codec_write hw ic r v h = Inr h'"
  using codec_semaphore_returns [of hw cnt ic ICH_GLOB_STAT_PCR h] unfolding snd_intel_codec_write_def by auto

lemma codec_read_loop_returns: "timer_runs (hw_io hw) cnt \<Longrightarrow> \<exists>v' h'. codec_read_loop hw ic r n v h = Inr (v', h')"
proof (induction n arbitrary: v h)
  case (Suc n)
  obtain v1 h1 where 1: "(if use_mmio ic then (let (w, h) = hw_readw hw (baseport_codec ic + r) h in (scast w, h))
           else (let (w, h) = hw_inw hw (ucast (baseport_codec ic + r)) h in (ucast w, h))) = (v1 :: u32, h1)"
    by (rule prod.exhaust)
  obtain st h2 where 2: "snd_intel_read_32 hw ic ICH_GLOB_STAT_REG h1 = (st, h2)" by (rule prod.exhaust)
  obtain h3 where 3: "hw_delay hw 10 h2 = Inr h3" using hw_delay_returns [OF Suc.prems] by blast
  show ?case using Suc.IH [OF Suc.prems, of v1 h3] 3 unfolding codec_read_loop.simps Let_def [where f = "\<lambda>x. case x of (_, _) \<Rightarrow> _"] 1 2 by (simp add: Let_def 2)
qed simp

lemma codec_read_returns: "timer_runs (hw_io hw) cnt \<Longrightarrow> \<exists>v h'. snd_intel_codec_read hw ic r h = Inr (v, h')"
proof -
  assume t: "timer_runs (hw_io hw) cnt"
  obtain h1 where "snd_intel_codec_semaphore hw ic ICH_GLOB_STAT_PCR h = Inr h1" using codec_semaphore_returns [OF t] by blast
  then show ?thesis using codec_read_loop_returns [OF t] unfolding snd_intel_codec_read_def by simp
qed

text \<open>What is set before the descriptors: at most the width and the rate.\<close>

definition play_same :: "mpxplay_audioout_info \<Rightarrow> mpxplay_audioout_info \<Rightarrow> bool" where
  "play_same a a' = (\<exists>b f. (b = bits_card a \<or> b = 32) \<and> a' = a\<lparr>bits_card := b, freq_card := f\<rparr>)"

lemma play_same_refl [simp]: "play_same a a"
  unfolding play_same_def by (rule exI [of _ "bits_card a"], rule exI [of _ "freq_card a"]) simp

lemma play_same_trans: "play_same a b \<Longrightarrow> play_same b c \<Longrightarrow> play_same a c"
  unfolding play_same_def by force

lemma playback_width_same: "\<exists>a' h'. playback_width hw (a, ic, h) = (a', ic, h') \<and> play_same a a'"
proof -
  obtain cmd h1 where 1: "snd_intel_read_32 hw ic ICH_GLOB_CNT_REG h = (cmd, h1)" by (rule prod.exhaust)
  obtain st h2 where 2: "snd_intel_read_32 hw ic ICH_GLOB_STAT_REG h1 = (st, h2)" by (rule prod.exhaust)
  have "play_same a (a\<lparr>bits_card := 32\<rparr>)" unfolding play_same_def by (rule exI [of _ 32], rule exI [of _ "freq_card a"]) simp
  then show ?thesis unfolding playback_width_def Let_def prod.case 1 2 by auto
qed

lemma playback_rate_same:
  assumes t: "timer_runs (hw_io hw) cnt"
  shows "\<exists>a' h'. playback_rate hw fl (a, ic, h) = Inr (a', ic, h') \<and> play_same a a'"
proof -
  have f: "play_same a (a\<lparr>freq_card := f\<rparr>)" for f unfolding play_same_def by (rule exI [of _ "bits_card a"], rule exI [of _ f]) simp
  obtain h1 h2 where "snd_intel_codec_write hw ic AC97_PCM_FRONT_DAC_RATE (freq_card a) h = Inr h1"
      "snd_intel_codec_write hw ic AC97_PCM_FRONT_DAC_RATE (fl_times fl (freq_card a) (ac97_clock_corrector ic)) h = Inr h2"
    using codec_write_returns [OF t] by metis
  then show ?thesis using f unfolding playback_rate_def by auto
qed

lemma prepare_playback_table:
  assumes t: "timer_runs (hw_io hw) cnt"
  shows "\<exists>a1 h1. snd_intel_prepare_playback hw fl (a, ic, h) = playback_table hw (a1, ic, h1) \<and> play_same a a1"
proof -
  obtain k1 h1 where 1: "retry_wait (test_8 hw ic (ICH_PO_SR_REG ic) (\<lambda>v. v AND ICH_PO_SR_DCH \<noteq> 0)) (hw_delay hw 1) ICH_DEFAULT_RETRY h = Inr (k1, h1)"
    using retry_wait_returns [of "hw_delay hw 1", OF hw_delay_returns [OF t]] by blast
  obtain cr h2 where 2: "snd_intel_read_8 hw ic ICH_PO_CR_REG h1 = (cr, h2)" by (rule prod.exhaust)
  obtain a3 h3 where 3: "playback_width hw (a, ic, snd_intel_write_8 hw ic ICH_PO_CR_REG (cr OR ICH_PO_CR_RESET) h2) = (a3, ic, h3)" "play_same a a3"
    using playback_width_same [of hw a ic "snd_intel_write_8 hw ic ICH_PO_CR_REG (cr OR ICH_PO_CR_RESET) h2"] by blast
  obtain c4 h4 where 4: "snd_intel_codec_read hw ic AC97_SPDIF_CONTROL h3 = Inr (c4, h4)" using codec_read_returns [OF t] by blast
  obtain h5 where 5: "snd_intel_codec_write hw ic AC97_SPDIF_CONTROL ((c4 AND 0xCFFF) OR (if freq_card a3 = 32000 then 0x3000
      else if freq_card a3 = 44100 then 0x0000 else 0x2000)) h4 = Inr h5" using codec_write_returns [OF t] by blast
  obtain h6 where 6: "hw_delay hw 10 h5 = Inr h6" using hw_delay_returns [OF t] by blast
  have s: "playback_spdif hw (freq_card a3) ic h3 = Inr h6" unfolding playback_spdif_def Let_def 4 bindE_simps prod.case 5 6 ..
  obtain v7 h7 where 7: "snd_intel_codec_read hw ic AC97_VENDOR_ID1 h6 = Inr (v7, h7)" using codec_read_returns [OF t] by blast
  obtain v8 h8 where 8: "snd_intel_codec_read hw ic AC97_VENDOR_ID2 h7 = Inr (v8, h8)" using codec_read_returns [OF t] by blast
  obtain hv where v: "snd_intel_codec_write hw ic AC97_AD_MISC (0x4000 OR 0x0400 OR 0x0020) h8 = Inr hv" using codec_write_returns [OF t] by blast
  have "\<exists>h9. playback_vendor hw ic h6 = Inr h9"
    unfolding playback_vendor_def 7 8 bindE_simps prod.case v by simp
  then obtain h9 where 9: "playback_vendor hw ic h6 = Inr h9" ..
  obtain a10 h10 where 10: "playback_rate hw fl (a3, ic, h9) = Inr (a10, ic, h10)" "play_same a3 a10" using playback_rate_same [OF t] by blast
  obtain h11 where 11: "hw_delay hw 1600 h10 = Inr h11" using hw_delay_returns [OF t] by blast
  have "snd_intel_prepare_playback hw fl (a, ic, h) = playback_table hw (a10, ic, h11)"
    unfolding snd_intel_prepare_playback_def Let_def prod.case 1 bindE_simps 2 3(1) s 9 10(1) 11 ..
  then show ?thesis using play_same_trans [OF 3(2) 10(2)] by blast
qed

section \<open>The descriptors\<close>

text \<open>The memory of the list as 64 doublewords \<open>tab h\<close>, which register accesses leave alone.\<close>

definition table_laws :: "'h card_hw \<Rightarrow> intel_card \<Rightarrow> ('h \<Rightarrow> nat \<Rightarrow> u32) \<Rightarrow> bool" where
  "table_laws hw ic tab = ((\<forall>k v h. k < 64 \<longrightarrow> tab (hw_writel hw (virtualpagetable ic + 4 * of_nat k) v h) = (tab h)(k := v)) \<and>
     (\<forall>r v h. tab (snd_intel_write_32 hw ic r v h) = tab h) \<and> (\<forall>r v h. tab (snd_intel_write_8 hw ic r v h) = tab h))"

lemma setrate_table:
  assumes t: "timer_runs (hw_io hw) cnt" and clk: "ic_type ic \<noteq> DEVICE_INTEL \<or> ac97_clock_detected ic"
    and m: "512 \<le> unat (pcmout_bufsize ic)" and buf: "card_DMABUFF a = Some buf" "unat (pcmout_bufsize ic) \<le> length buf"
  shows "\<exists>a1 p h1. INTELICH_setrate hw fl (a, ic, h) = playback_table hw (a1, ic\<lparr>period_size_bytes := p\<rparr>, h1) \<and> dma_wf a1
    \<and> unat (card_dmasize a1) = 4 * unat p \<and> 4 * unat p \<le> unat (pcmout_bufsize ic) \<and> 64 dvd unat p \<and> (bits_card a1 = 16 \<or> bits_card a1 = 32)"
proof -
  define f where "f = (if \<not> vra ic then 48000 else if freq_card a < 8000 then 8000 else if 48000 < freq_card a then 48000 else freq_card a)"
  define a0 where "a0 = a\<lparr>card_wave_id := MPXPLAY_WAVEID_PCM_SLE, chan_card := 2, bits_card := 16, freq_card := f\<rparr>"
  have fs: "card_framesize a0 = 4" by (simp add: a0_def card_framesize_def MPXPLAY_WAVEID_PCM_SLE_def MPXPLAY_WAVEID_PCM_FLOAT_def)
  obtain n a1 where a1: "MDma_init_pcmoutbuf fl (pcmout_bufsize ic) ICH_DMABUF_ALIGN 0 a0 = Inr (n, a1)" "256 dvd unat n" "n \<le> pcmout_bufsize ic"
      "card_dmasize a1 = n" "dma_wf a1" "bits_card a1 = 16"
    using init_pcmoutbuf_ok [of ICH_DMABUF_ALIGN "pcmout_bufsize ic" a0 buf fl 0] m buf by (auto simp: fs) (auto simp: a0_def)
  define p where "p = n div 4"
  have p: "4 * unat p = unat n" "64 dvd unat p" using a1(2) by (auto simp: p_def unat_div elim!: dvdE)
  obtain a2 h2 where r: "snd_intel_prepare_playback hw fl (a1, ic\<lparr>period_size_bytes := p\<rparr>, h) = playback_table hw (a2, ic\<lparr>period_size_bytes := p\<rparr>, h2)" "play_same a1 a2"
    using prepare_playback_table [OF t] by blast
  have "INTELICH_setrate hw fl (a, ic, h) = playback_table hw (a2, ic\<lparr>period_size_bytes := p\<rparr>, h2)"
    using clk a1(1) r(1) unfolding a0_def f_def p_def by (auto simp: INTELICH_setrate_def Let_def cong: if_cong)
  moreover have "dma_wf a2" "card_dmasize a2 = n" "bits_card a2 = 16 \<or> bits_card a2 = 32"
    using r(2) a1 by (auto simp: play_same_def dma_wf_def)
  ultimately show ?thesis using p a1(3) by (intro exI [of _ a2] exI [of _ p] exI [of _ h2]) (simp add: word_le_nat_alt)
qed

lemma setrate_descriptors:
  assumes t: "timer_runs (hw_io hw) cnt" and clk: "ic_type ic \<noteq> DEVICE_INTEL \<or> ac97_clock_detected ic"
    and m: "512 \<le> unat (pcmout_bufsize ic)" and buf: "card_DMABUFF a = Some buf" "unat (pcmout_bufsize ic) \<le> length buf"
    and dm: "ic_dm ic = Some dm" and tab: "table_laws hw ic tab"
  shows "\<exists>a' p h'. INTELICH_setrate hw fl (a, ic, h) = Inr (a', ic\<lparr>period_size_bytes := p\<rparr>, h') \<and> dma_wf a'
    \<and> unat (card_dmasize a') = 4 * unat p \<and> 4 * unat p \<le> unat (pcmout_bufsize ic) \<and> 64 dvd unat p
    \<and> (\<forall>i<4. tab h' (2 * i) = pds_cardmem_physicalptr dm (pcmout_buffer ic + of_nat i * p)
        \<and> tab h' (2 * i + 1) = (if ic_type ic = DEVICE_SIS then p else p div ucast (drop_bit 3 (bits_card a'))) OR 0x80000000)
    \<and> (\<forall>k. 8 \<le> k \<longrightarrow> k < 64 \<longrightarrow> tab h' k = 0)"
proof -
  obtain a1 p h1 where s: "INTELICH_setrate hw fl (a, ic, h) = playback_table hw (a1, ic\<lparr>period_size_bytes := p\<rparr>, h1)" "dma_wf a1"
      "unat (card_dmasize a1) = 4 * unat p" "4 * unat p \<le> unat (pcmout_bufsize ic)" "64 dvd unat p" "bits_card a1 = 16 \<or> bits_card a1 = 32"
    using setrate_table [OF t clk m buf] by blast
  let ?ic = "ic\<lparr>period_size_bytes := p\<rparr>"
  define sm where "sm = p div ucast (drop_bit 3 (bits_card a1))"
  have nz: "(ucast (drop_bit 3 (bits_card a1)) :: u32) \<noteq> 0" using s(6) by auto
  define a' where "a' = a1\<lparr>card_samples_per_int := uint (sm div 2)\<rparr>"
  define h' where "h' = snd_intel_write_8 hw ?ic ICH_PO_LVI_REG (ucast (ICH_DMABUF_PERIODS - 1)) (snd_intel_write_32 hw ?ic ICH_PO_BDBAR_REG
      (pds_cardmem_physicalptr dm (virtualpagetable ic)) (bd_write hw (virtualpagetable ic) (bd_entry ?ic dm sm) [0..<32] h1))"
  have run: "playback_table hw (a1, ?ic, h1) = Inr (a', ?ic, h')"
    using dm nz by (simp add: playback_table_def udiv_def deref_def Let_def sm_def a'_def h'_def del: upt_rec_numeral upt.simps)
  have w: "snd_intel_write_8 hw ?ic = snd_intel_write_8 hw ic" "snd_intel_write_32 hw ?ic = snd_intel_write_32 hw ic"
    by (simp_all add: snd_intel_write_8_def snd_intel_write_32_def fun_eq_iff)
  have "tab h' = tab (bd_write hw (virtualpagetable ic) (bd_entry ?ic dm sm) [0..<32] h1)"
    using tab unfolding h'_def w by (simp only: table_laws_def)
  also have "\<dots> = (\<lambda>k. if k div 2 \<in> set [0..<32] then (if even k then fst (bd_entry ?ic dm sm (of_nat (k div 2)))
      else snd (bd_entry ?ic dm sm (of_nat (k div 2)))) else tab h1 k)"
    by (rule bd_write_tab [of _ _ 32]) (use tab in \<open>simp_all add: table_laws_def mem_table_def\<close>)
  finally have tab': "tab h' = \<dots>" .
  have h': "tab h' k = (if even k then fst (bd_entry ?ic dm sm (of_nat (k div 2))) else snd (bd_entry ?ic dm sm (of_nat (k div 2))))"
    if "k < 64" for k
  proof -
    have "k div 2 < 32" using that by simp
    then show ?thesis unfolding tab' by (simp del: upt_rec_numeral upt.simps)
  qed
  have lt: "i < 32 \<Longrightarrow> (of_nat i < (4 :: u32)) = (i < 4)" for i by (simp add: word_less_nat_alt unat_of_nat)
  have e1: "tab h' (2 * i) = pds_cardmem_physicalptr dm (pcmout_buffer ic + of_nat i * p)
      \<and> tab h' (2 * i + 1) = (if ic_type ic = DEVICE_SIS then p else sm) OR 0x80000000" if "i < 4" for i
    using h' [of "2 * i"] h' [of "2 * i + 1"] lt [of i] that by (simp add: bd_entry_def)
  have e2: "tab h' k = 0" if "8 \<le> k" "k < 64" for k
  proof -
    have "k div 2 < 32" "\<not> k div 2 < 4" using that by arith+
    then show ?thesis using h' [of k] lt [of "k div 2"] that by (simp add: bd_entry_def)
  qed
  have w: "dma_wf a'" "card_dmasize a' = card_dmasize a1" "bits_card a' = bits_card a1" using s(2) by (simp_all add: a'_def dma_wf_def)
  show ?thesis unfolding s(1) run using e1 e2 w s(3-5)
    by (intro exI [of _ a'] exI [of _ p] exI [of _ h']) (simp add: sm_def)
qed

section \<open>The measurement of the clock\<close>

text \<open>The clock of the system as the wait relies on it: \<open>now h\<close> is its value, every reading gives a later time than the one before, and reading
  a register does not set it back.\<close>

definition clock_runs :: "'h card_hw \<Rightarrow> ('h \<Rightarrow> int) \<Rightarrow> bool" where
  "clock_runs hw now = ((\<forall>h. fst (hw_gettimeu hw h) = now (snd (hw_gettimeu hw h)) \<and> now h < now (snd (hw_gettimeu hw h))) \<and>
     (\<forall>p h. now h \<le> now (snd (hw_inb hw p h))) \<and> (\<forall>q h. now h \<le> now (snd (hw_readb hw q h))))"

lemma clock_runsD:
  assumes "clock_runs hw now"
  shows "hw_gettimeu hw h = (t, h') \<Longrightarrow> t = now h' \<and> now h < now h'" "snd_intel_read_8 hw ic r h = (v, h') \<Longrightarrow> now h \<le> now h'"
  using assms unfolding clock_runs_def snd_intel_read_8_def by (metis fst_conv snd_conv)+

lemma clock_wait_returns:
  assumes c: "clock_runs hw now" shows "\<exists>h'. clock_wait hw ic start h = Some h'"
proof (induction "nat (start + 1000001 - now h)" arbitrary: h rule: less_induct)
  case less
  obtain v h1 where 1: "snd_intel_read_8 hw ic ICH_PO_CIV_REG h = (v, h1)" by (rule prod.exhaust)
  obtain w h2 where 2: "(if 3 \<le> v then snd_intel_read_8 hw ic ICH_PO_CIV_REG h1 else (0, h1)) = (w, h2)" by (rule prod.exhaust)
  obtain t h3 where 3: "hw_gettimeu hw h2 = (t, h3)" by (rule prod.exhaust)
  have n: "now h \<le> now h1" "now h1 \<le> now h2" "t = now h3" "now h2 < now h3"
    using clock_runsD [OF c] 1 2 3 by (metis, metis order_refl prod.inject, metis, metis)
  show ?case
  proof (cases "3 \<le> w \<or> \<not> t \<le> start + 1000000")
    case True
    then show ?thesis by (subst clock_wait.simps) (auto simp: 1 2 3)
  next
    case False
    then have "nat (start + 1000001 - now h3) < nat (start + 1000001 - now h)" using n by linarith
    then obtain h' where "clock_wait hw ic start h3 = Some h'" using less.hyps by blast
    then show ?thesis using False by (subst clock_wait.simps) (simp add: 1 2 3)
  qed
qed

lemma clock_result_same: "\<exists>c. clock_result fl a t ic = ic\<lparr>ac97_clock_corrector := c\<rparr>"
proof -
  have "\<exists>c. ic = ic\<lparr>ac97_clock_corrector := c\<rparr>" by (rule exI [of _ "ac97_clock_corrector ic"]) simp
  then show ?thesis unfolding clock_result_def Let_def by auto
qed

lemma init_pcmoutbuf_buffer: "MDma_init_pcmoutbuf fl m p q a = Inr (n, a') \<Longrightarrow> card_DMABUFF a' = card_DMABUFF a"
  by (auto simp: MDma_init_pcmoutbuf_def Let_def)

lemma ich_start_returns:
  assumes t: "timer_runs (hw_io hw) cnt" shows "\<exists>h'. INTELICH_start hw (a, ic, h) = Inr (a, ic, h')"
proof -
  obtain k h1 where "snd_intel_codec_ready hw ic ICH_GLOB_STAT_PCR h = Inr (k, h1)" using codec_ready_returns [OF t] by blast
  then show ?thesis unfolding INTELICH_start_def by (simp add: Let_def split: prod.split)
qed

lemma playback_table_returns:
  assumes "ic_dm ic = Some dm" "bits_card a = 16 \<or> bits_card a = 32"
  shows "\<exists>k h'. playback_table hw (a, ic, h) = Inr (a\<lparr>card_samples_per_int := k\<rparr>, ic, h')"
proof -
  have "(ucast (drop_bit 3 (bits_card a)) :: u32) \<noteq> 0" using assms(2) by auto
  then show ?thesis using assms(1) by (simp add: playback_table_def udiv_def deref_def Let_def del: upt_rec_numeral upt.simps) blast
qed

lemma clearbuf_length:
  assumes "card_DMABUFF a = Some buf" "unat (card_dmasize a) \<le> length buf"
  shows "\<exists>a' buf'. MDma_clearbuf a = Inr a' \<and> card_DMABUFF a' = Some buf' \<and> length buf' = length buf"
  using assms by (auto simp: MDma_clearbuf_def memcpy_at_def)

lemma measure_returns:
  assumes t: "timer_runs (hw_io hw) cnt" and c: "clock_runs hw now"
    and m: "512 \<le> unat (pcmout_bufsize ic)" and buf: "card_DMABUFF a = Some buf" "unat (pcmout_bufsize ic) \<le> length buf"
    and dm: "ic_dm ic = Some dm"
  shows "\<exists>a' buf' p cc h'. snd_intel_measure_ac97_clock hw fl (a, ic, h)
      = Inr (a', ic\<lparr>period_size_bytes := p, ac97_clock_corrector := cc, ac97_clock_detected := True\<rparr>, h')
    \<and> card_DMABUFF a' = Some buf' \<and> length buf' = length buf"
proof -
  define a0 where "a0 = a\<lparr>freq_card := 48000, chan_card := 2, bits_card := 16\<rparr>"
  have fs: "card_framesize a0 = 4 \<or> card_framesize a0 = 8" by (simp add: a0_def card_framesize_def)
  have mb: "unat (min (pcmout_bufsize ic) 4096) \<le> unat (pcmout_bufsize ic)" "512 \<le> unat (min (pcmout_bufsize ic) 4096)"
    using m by (auto simp: min_def word_le_nat_alt)
  have "card_framesize a0 \<noteq> 0" "card_framesize a0 \<le> ICH_DMABUF_ALIGN" using fs by auto
  then obtain n a1 where a1: "MDma_init_pcmoutbuf fl (min (pcmout_bufsize ic) 4096) ICH_DMABUF_ALIGN 0 a0 = Inr (n, a1)"
      "n \<le> min (pcmout_bufsize ic) 4096" "card_dmasize a1 = n" "bits_card a1 = bits_card a0"
    using init_pcmoutbuf_ok [of ICH_DMABUF_ALIGN "min (pcmout_bufsize ic) 4096" a0 buf fl 0] mb buf by (auto simp: a0_def)
  have b1: "card_DMABUFF a1 = Some buf" using init_pcmoutbuf_buffer [OF a1(1)] buf(1) by (simp add: a0_def)
  define i1 where "i1 = ic\<lparr>period_size_bytes := n div ICH_DMABUF_PERIODS\<rparr>"
  obtain a2 h2 where 2: "snd_intel_prepare_playback hw fl (a1, i1, h) = playback_table hw (a2, i1, h2)" "play_same a1 a2"
    using prepare_playback_table [OF t] by blast
  have a2: "bits_card a2 = 16 \<or> bits_card a2 = 32" "card_DMABUFF a2 = Some buf" "card_dmasize a2 = n"
    using 2(2) a1(3,4) b1 by (auto simp: play_same_def a0_def)
  obtain k h3 where 3: "playback_table hw (a2, i1, h2) = Inr (a2\<lparr>card_samples_per_int := k\<rparr>, i1, h3)"
    using playback_table_returns [of i1 dm a2 hw h2] dm a2(1) by (auto simp: i1_def)
  have "unat n \<le> length buf" using a1(2) mb(1) buf(2) by (simp add: word_le_nat_alt)
  then obtain a4 buf' where 4: "MDma_clearbuf (a2\<lparr>card_samples_per_int := k\<rparr>) = Inr a4" "card_DMABUFF a4 = Some buf'" "length buf' = length buf"
    using clearbuf_length [of "a2\<lparr>card_samples_per_int := k\<rparr>" buf] a2(2,3) by auto
  obtain cr h4 where 5: "snd_intel_read_8 hw i1 ICH_PO_CR_REG h3 = (cr, h4)" by (rule prod.exhaust)
  obtain h6 where 6: "INTELICH_start hw (a4, i1, snd_intel_write_8 hw i1 ICH_PO_CR_REG 0 h4) = Inr (a4, i1, h6)"
    using ich_start_returns [OF t] by blast
  obtain st h7 where 7: "hw_gettimeu hw h6 = (st, h7)" by (rule prod.exhaust)
  obtain h8 where 8: "clock_wait hw i1 st h7 = Some h8" using clock_wait_returns [OF c] by blast
  obtain en h9 where 9: "hw_gettimeu hw h8 = (en, h9)" by (rule prod.exhaust)
  obtain cmd g where g: "snd_intel_read_8 hw i1 ICH_PO_CR_REG h9 = (cmd, g)" by (rule prod.exhaust)
  obtain h10 where 10: "INTELICH_stop hw (a4, i1, h9) = (a4, i1, h10)" by (simp add: INTELICH_stop_def g)
  obtain cc where cc: "clock_result fl a4 (if st < en then en - st else 0) i1 = i1\<lparr>ac97_clock_corrector := cc\<rparr>"
    using clock_result_same by blast
  have run: "snd_intel_measure_ac97_clock hw fl (a, ic, h) = Inr (a4\<lparr>freq_card := freq_card a\<rparr>,
      i1\<lparr>ac97_clock_corrector := cc, ac97_clock_detected := True\<rparr>, snd_intel_write_8 hw i1 ICH_PO_CR_REG cr h10)"
    unfolding snd_intel_measure_ac97_clock_def Let_def prod.case a0_def [symmetric] a1(1) bindE_simps i1_def [symmetric] 2(1) 3 4(1) 5 6 7 8
      option.case 9 10 cc by simp
  have b: "card_DMABUFF (a4\<lparr>freq_card := freq_card a\<rparr>) = Some buf'" using 4(2) by simp
  show ?thesis using conjI [OF run [unfolded i1_def] conjI [OF b 4(3)]] by (intro exI)
qed

definition demo_card :: intel_card where
  "demo_card = intel_card_zero\<lparr>baseport_bm := 0xE000, baseport_codec := 0xE400, ic_type := DEVICE_NFORCE, virtualpagetable := 0x2000, pcmout_buffer := 0x2100,
    pcmout_bufsize := 512, ic_dm := Some (xmsmem_zero\<lparr>physicalptr := 0x100000, linearptr := 0x2000\<rparr>)\<rparr>"

lemma demo_table: "table_laws demo_hw demo_card dm_tab"
proof -
  have "dm_tab (hw_writel demo_hw (0x2000 + 4 * of_nat k) v h) = (dm_tab h)(k := v)" if "k < 64" for k v h
  proof -
    have "unat (0x2000 + 4 * of_nat k :: u32) = 0x2000 + 4 * k" "unat (4 * of_nat k :: u32) = 4 * k"
      using that by (simp_all add: unat_word_ariths unat_of_nat)
    then show ?thesis using that by (simp add: demo_hw_def word_le_nat_alt word_less_nat_alt unat_div)
  qed
  then show ?thesis
    by (auto simp: table_laws_def demo_card_def intel_card_zero_def snd_intel_write_32_def snd_intel_write_8_def) (simp_all add: demo_hw_def)
qed

lemma setrate_after_measure:
  assumes "ic_type ic = DEVICE_INTEL" "\<not> ac97_clock_detected ic"
    and "snd_intel_measure_ac97_clock hw fl (a, ic, h) = Inr (a2, ic2, h2)" "ac97_clock_detected ic2"
  shows "INTELICH_setrate hw fl (a, ic, h) = INTELICH_setrate hw fl (a2, ic2, h2)"
  using assms unfolding INTELICH_setrate_def by simp

lemma table_laws_same:
  "baseport_bm ic2 = baseport_bm ic \<Longrightarrow> use_mmio ic2 = use_mmio ic \<Longrightarrow> virtualpagetable ic2 = virtualpagetable ic \<Longrightarrow>
    table_laws hw ic2 tab = table_laws hw ic tab"
  by (simp add: table_laws_def snd_intel_write_32_def snd_intel_write_8_def)



section \<open>Position and room\<close>

text \<open>Two writes to the fields that \<open>pos_same\<close> leaves free.\<close>

lemma MDma_clearbuf_pos_same:
  assumes "good_position a"
  shows "\<exists>a'. MDma_clearbuf a = Inr a' \<and> pos_same a (a'\<lparr>card_infobits := i\<rparr>)"
proof -
  obtain b where b: "card_DMABUFF a = Some b" "unat (card_dmasize a) \<le> length b"
    using assms by (auto simp: good_position_def dma_wf_def)
  define b' where "b' = replicate (unat (card_dmasize a)) 0 @ drop (unat (card_dmasize a)) b"
  have l: "length b' = length b" using b(2) by (simp add: b'_def)
  show ?thesis
  proof (cases "card_dmasize a = 0")
    case True
    then show ?thesis using assms by (simp add: good_position_def dma_wf_def)
  next
    case False
    then have "MDma_clearbuf a = Inr (a\<lparr>card_DMABUFF := Some b'\<rparr>)"
      using b by (simp add: MDma_clearbuf_def memcpy_at_def b'_def)
    moreover have "pos_same a (a\<lparr>card_DMABUFF := Some b', card_infobits := i\<rparr>)"
      unfolding pos_same_def using b(1) l assms
      by (intro exI [of _ "Some b'"] exI [of _ i] exI [of _ "card_dma_lastgoodpos a"]) (simp add: good_position_def)
    ultimately show ?thesis by simp
  qed
qed

lemma pos_underrun_ok:
  assumes "good_position a" shows "\<exists>a' h'. pos_underrun hw c q (a, ic, h) = Inr (a', ic, h') \<and> pos_same a a'"
proof -
  obtain lvi h1 where 1: "snd_intel_read_8 hw ic ICH_PO_LVI_REG h = (lvi, h1)" by (rule prod.exhaust)
  obtain a1 where a1: "MDma_clearbuf a = Inr a1"
      "pos_same a (a1\<lparr>card_infobits := funcbit_enable (card_infobits a1) AUINFOS_CARDINFOBIT_DMAUNDERRUN\<rparr>)"
    using MDma_clearbuf_pos_same [OF assms] by (metis sum.sel(2))
  show ?thesis using a1 pos_same_refl [OF assms] 1 by (simp add: pos_underrun_def)
qed

lemma getbufpos_loop_ok:
  "good_position a \<Longrightarrow> \<exists>a' h'. getbufpos_loop hw n (a, ic, h) = Inr (a', ic, h') \<and> pos_same a a'"
proof (induction n arbitrary: a h)
  case (Suc n)
  obtain civ h1 where 1: "snd_intel_read_8 hw ic ICH_PO_CIV_REG h = (civ, h1)" by (rule prod.exhaust)
  obtain picb h2 where 2: "snd_intel_read_16 hw ic (ICH_PO_PICB_REG ic) h1 = (picb, h2)" by (rule prod.exhaust)
  define q :: u32 where "q = ucast picb * (if ic_type ic \<noteq> DEVICE_SIS then ucast (drop_bit 3 (bits_card a)) else 1)"
  obtain a3 h3 where 3: "pos_underrun hw (ucast civ) q (a, ic, h2) = Inr (a3, ic, h3)" "pos_same a a3"
    using pos_underrun_ok [OF Suc.prems, of hw "ucast civ" q ic h2] by blast
  define b where "b = ucast civ * period_size_bytes ic + (period_size_bytes ic - q)"
  have g3: "good_position a3" by (rule pos_same_good [OF Suc.prems 3(2)])
  have e: "getbufpos_loop hw (Suc n) (a, ic, h) = (if b < card_dmasize a3 then Inr (a3\<lparr>card_dma_lastgoodpos := b\<rparr>, ic, h3)
      else getbufpos_loop hw n (a3, ic, h3))"
    unfolding getbufpos_loop.simps Let_def prod.case 1 2 q_def [symmetric] 3(1) bindE_simps b_def ..
  show ?case
  proof (cases "b < card_dmasize a3")
    case True
    then have "pos_same a3 (a3\<lparr>card_dma_lastgoodpos := b\<rparr>)"
      unfolding pos_same_def
      by (intro exI [of _ "card_DMABUFF a3"] exI [of _ "card_infobits a3"] exI [of _ b]) simp
    then show ?thesis using e True pos_same_trans [OF 3(2)] by auto
  next
    case False
    then show ?thesis using e Suc.IH [OF g3, of h3] pos_same_trans [OF 3(2)] by auto
  qed
qed (auto intro: pos_same_refl)

definition ich_ready :: "'h ich au_globals \<Rightarrow> bool" where
  "ich_ready g = (private_data (device g) \<noteq> None)"

interpretation ich: card_position "ask_play (INTELICH_getbufpos hw)" ich_ready
proof
  fix a :: mpxplay_audioout_info and g :: "'a ich au_globals"
  assume good: "good_position a" and r: "ich_ready g"
  then obtain ic where ic: "private_data (device g) = Some ic" by (auto simp: ich_ready_def)
  obtain a' h' where l: "getbufpos_loop hw 3 (a, ic, machine (device g)) = Inr (a', ic, h')" "pos_same a a'"
    using getbufpos_loop_ok [OF good, of hw 3 ic "machine (device g)"] by blast
  have "card_dma_lastgoodpos a' < card_dmasize a" using l(2) by (auto simp: pos_same_def)
  then show "\<exists>p a' g'. ask_play (INTELICH_getbufpos hw) (a, g) = Inr (p, a', g') \<and> p < card_dmasize a \<and> pos_same a a' \<and> ich_ready g'"
    using l ic by (simp add: ask_play_def deref_def INTELICH_getbufpos_def ich_ready_def)
qed

text \<open>While an ICH card plays, the output layer gets a consistent answer whatever the registers of the controller say (an index beyond the list,
  a rest longer than a period, a register that changes between two reads): it returns, the play position is inside
  the ring, the free part of the ring is the distance from the put position to it, and the room for new samples is that less a
  margin, so that never more than the buffer is filled.\<close>

theorem ich_room:
  assumes good: "good_position a" and ic: "private_data (device g) = Some ic" and b: "card_bytespersign a \<noteq> 0"
    and o: "card_outbytes a \<le> card_dmasize a" and i: "funcbit_test (card_infobits a) AUINFOS_CARDINFOBIT_PLAYING"
    and prot: "buffer_protection (card_bytespersign a) = Inr prot"
  shows "\<exists>r a' g' p. AU_cardbuf_space (Some (ICH_sndcard_info env)) (a, g) = Inr (r, a', g') \<and> good_position a' \<and> ich_ready g'
    \<and> p < card_dmasize a \<and> card_dmasize a' = card_dmasize a \<and> card_dmaspace a' = ring_room p a' \<and> card_dmaspace a' \<le> card_dmasize a
    \<and> card_dmafilled a' = card_dmasize a - card_dmaspace a'
    \<and> r = (if prot < card_dmaspace a' then card_dmaspace a' - prot else 0)"
  by (rule ich.room [OF good _ b o i _ _ prot, where hw = "ce_hw env"])
    (simp_all add: ic ich_ready_def ICH_sndcard_info_def funcbit_test_def SNDCARD_LOWLEVELHAND_def SNDCARD_CARDBUF_SPACE_def)

definition demo_globals :: "demo_machine ich au_globals" where
  "demo_globals = \<lparr>playcontrol = 0, outmode = 0, intsoundcontrol = 0, allcpuusage = 0, allcputime = 0,
    device = \<lparr>private_data = Some demo_card, aui_pci_dev = None, machine = \<lparr>dm_tab = \<lambda>_. 0, dm_cnt = 0, dm_hi = False, dm_clock = 0\<rparr>, xms_regs = reg_zero,
      physicalmaps = physicalmaps_init\<rparr>\<rparr>"

theorem ich_room_witness:
  "\<forall>host bios heap. \<exists>r a' g' p. AU_cardbuf_space (Some (ICH_sndcard_info \<lparr>ce_hw = demo_hw, ce_fl = demo_fl, ce_host = host, ce_bios = bios, ce_calloc = heap\<rparr>))
      (aui0\<lparr>card_infobits := 1\<rparr>, demo_globals) = Inr (r, a', g') \<and> good_position a' \<and> ich_ready g'
    \<and> p < 8 \<and> card_dmasize a' = 8 \<and> card_dmaspace a' = ring_room p a' \<and> card_dmaspace a' \<le> 8
    \<and> card_dmafilled a' = 8 - card_dmaspace a' \<and> r = (if 32 < card_dmaspace a' then card_dmaspace a' - 32 else 0)"
proof (intro allI)
  fix host bios heap
  have "good_position (aui0\<lparr>card_infobits := 1\<rparr>)" by (simp add: good_position_def dma_wf_def aui0_def)
  moreover have "buffer_protection 4 = Inr 32" by (simp add: buffer_protection_def umod_def)
  ultimately show "\<exists>r a' g' p. AU_cardbuf_space (Some (ICH_sndcard_info \<lparr>ce_hw = demo_hw, ce_fl = demo_fl, ce_host = host, ce_bios = bios, ce_calloc = heap\<rparr>))
      (aui0\<lparr>card_infobits := 1\<rparr>, demo_globals) = Inr (r, a', g') \<and> good_position a' \<and> ich_ready g'
    \<and> p < 8 \<and> card_dmasize a' = 8 \<and> card_dmaspace a' = ring_room p a' \<and> card_dmaspace a' \<le> 8
    \<and> card_dmafilled a' = 8 - card_dmaspace a' \<and> r = (if 32 < card_dmaspace a' then card_dmaspace a' - 32 else 0)"
    using ich_room [of "aui0\<lparr>card_infobits := 1\<rparr>" demo_globals demo_card 32
        "\<lparr>ce_hw = demo_hw, ce_fl = demo_fl, ce_host = host, ce_bios = bios, ce_calloc = heap\<rparr>"]
    by (simp add: demo_globals_def aui0_def funcbit_test_def AUINFOS_CARDINFOBIT_PLAYING_def)
qed

section \<open>The interrupt\<close>

text \<open>Registers that keep what is written to them, with status bits that are cleared by writing ones.\<close>

definition ich_regs :: "'h card_hw \<Rightarrow> intel_card \<Rightarrow> ('h \<Rightarrow> u8 \<times> u8 \<times> u8) \<Rightarrow> bool" where
  "ich_regs hw ic rg = (\<forall>h sr lvi cr v. rg h = (sr, lvi, cr) \<longrightarrow>
     snd_intel_read_8 hw ic (ICH_PO_SR_REG ic) h = (sr, h) \<and> snd_intel_read_8 hw ic ICH_PO_LVI_REG h = (lvi, h) \<and>
     snd_intel_read_8 hw ic ICH_PO_CR_REG h = (cr, h) \<and>
     rg (snd_intel_write_8 hw ic (ICH_PO_SR_REG ic) v h) = (sr AND NOT v, lvi, cr) \<and>
     rg (snd_intel_write_8 hw ic ICH_PO_LVI_REG v h) = (sr, v, cr) \<and> rg (snd_intel_write_8 hw ic ICH_PO_CR_REG v h) = (sr, lvi, v))"

lemma irq_registers:
  assumes "ich_regs hw ic rg" "rg h = (sr, lvi, cr)"
  shows "\<exists>h'. INTELICH_IRQRoutine hw ic h = (sr \<noteq> 0, h') \<and> rg h' = (sr AND NOT (sr AND 0x1C),
    (let l = (if sr AND 0x04 \<noteq> 0 then 3 else lvi) in if sr AND 0x08 \<noteq> 0 then ucast ((ucast l + 1 :: u32) mod 4) else l),
    if sr AND 0x04 \<noteq> 0 then cr OR 0x15 else cr)"
proof -
  have r: "rg h = (sr, lvi, cr) \<Longrightarrow> snd_intel_read_8 hw ic (ICH_PO_SR_REG ic) h = (sr, h)"
    "rg h = (sr, lvi, cr) \<Longrightarrow> snd_intel_read_8 hw ic ICH_PO_LVI_REG h = (lvi, h)"
    "rg h = (sr, lvi, cr) \<Longrightarrow> snd_intel_read_8 hw ic ICH_PO_CR_REG h = (cr, h)"
    "rg h = (sr, lvi, cr) \<Longrightarrow> rg (snd_intel_write_8 hw ic (ICH_PO_SR_REG ic) v h) = (sr AND NOT v, lvi, cr)"
    "rg h = (sr, lvi, cr) \<Longrightarrow> rg (snd_intel_write_8 hw ic ICH_PO_LVI_REG v h) = (sr, v, cr)"
    "rg h = (sr, lvi, cr) \<Longrightarrow> rg (snd_intel_write_8 hw ic ICH_PO_CR_REG v h) = (sr, lvi, v)" for h sr lvi cr v
    using assms(1) unfolding ich_regs_def by blast+
  define h1 where "h1 = (if sr AND 0x04 \<noteq> 0 then snd_intel_write_8 hw ic ICH_PO_CR_REG (cr OR 0x01 OR 0x10 OR 0x04) (snd_intel_write_8 hw ic ICH_PO_LVI_REG 3 h) else h)"
  have h1: "rg h1 = (sr, if sr AND 0x04 \<noteq> 0 then 3 else lvi, if sr AND 0x04 \<noteq> 0 then cr OR 0x01 OR 0x10 OR 0x04 else cr)"
    using assms(2) r(5,6) by (simp add: h1_def)
  have e1: "(if sr AND 0x04 \<noteq> 0 then
      (let h = snd_intel_write_8 hw ic ICH_PO_LVI_REG (ucast (ICH_DMABUF_PERIODS - 1)) h; (cr, h) = snd_intel_read_8 hw ic ICH_PO_CR_REG h
       in snd_intel_write_8 hw ic ICH_PO_CR_REG (cr OR 0x01 OR 0x10 OR 0x04) h) else h) = h1"
    using r(3) [OF r(5) [OF assms(2)]] by (simp add: h1_def)
  define l where "l = (if sr AND 0x04 \<noteq> 0 then 3 else lvi)"
  define h2 where "h2 = (if sr AND 0x08 \<noteq> 0 then snd_intel_write_8 hw ic ICH_PO_LVI_REG (ucast ((ucast l + 1 :: u32) mod 4)) h1 else h1)"
  have e2: "(if sr AND 0x08 \<noteq> 0 then (let (lvi, h) = snd_intel_read_8 hw ic ICH_PO_LVI_REG h1
      in snd_intel_write_8 hw ic ICH_PO_LVI_REG (ucast ((ucast lvi + 1 :: u32) mod 4)) h) else h1) = h2"
    using r(2) [OF h1] by (simp add: h2_def l_def)
  have h2: "rg h2 = (sr, if sr AND 0x08 \<noteq> 0 then ucast ((ucast l + 1 :: u32) mod 4) else l, if sr AND 0x04 \<noteq> 0 then cr OR 0x01 OR 0x10 OR 0x04 else cr)"
    using h1 r(5) [OF h1] by (simp add: h2_def l_def)
  have "INTELICH_IRQRoutine hw ic h = (sr \<noteq> 0, snd_intel_write_8 hw ic (ICH_PO_SR_REG ic) (sr AND (0x04 OR 0x08 OR 0x10)) h2)"
    unfolding INTELICH_IRQRoutine_def r(1) [OF assms(2)] Let_def [where s = "(sr, h)"] prod.case
    using e1 e2 by (simp add: Let_def)
  moreover have "rg (snd_intel_write_8 hw ic (ICH_PO_SR_REG ic) (sr AND (0x04 OR 0x08 OR 0x10)) h2) = (sr AND NOT (sr AND 0x1C),
      if sr AND 0x08 \<noteq> 0 then ucast ((ucast l + 1 :: u32) mod 4) else l, if sr AND 0x04 \<noteq> 0 then cr OR 0x15 else cr)"
    using r(4) [OF h2] by (simp add: or.assoc)
  ultimately show ?thesis by (simp add: l_def Let_def)
qed

text \<open>An underrun sets both status bits, since every descriptor asks for an interrupt; the last valid index is then not
  the last descriptor but the first one.\<close>

lemma underrun_restarts_with_index_0:
  assumes "ich_regs hw ic rg" "rg h = (0x0C, lvi, cr)"
  shows "\<exists>h'. INTELICH_IRQRoutine hw ic h = (True, h') \<and> rg h' = (0, 0, cr OR 0x15)"
  using irq_registers [OF assms] by simp

end
