(* ===== verification/Via82.thy ===== *)
theory Via82
  imports Ac97
begin

text \<open>
  The driver of the VIA VT82C686 and VT8233 audio controllers (\<open>mpxplay/au_cards/sc_via82.c\<close>). The two families differ in the registers of the
  DMA channel and in the way the channel reports its position. The table of pages is written to memory through \<open>card_hw\<close>; the bytes of the
  sample buffer are the list \<open>card_DMABUFF\<close>. Messages are left out. The fields of type \<open>long\<close> and \<open>int\<close> hold sizes that come from, and are
  compared as, unsigned values.
\<close>

section \<open>State\<close>

abbreviation (input) PCI_DEVICE_ID_VT82C686 :: u16 where "PCI_DEVICE_ID_VT82C686 \<equiv> 0x3058"
abbreviation (input) PCMBUFFERPAGESIZE :: u32 where "PCMBUFFERPAGESIZE \<equiv> 512"
abbreviation (input) VIRTUALPAGETABLESIZE :: u32 where "VIRTUALPAGETABLESIZE \<equiv> 4096"

record via82xx_card =
  via_iobase :: u32
  via_model :: u16
  via_irq :: u32
  via_chiprev :: u8
  via_pci_dev :: "pci_config option"
  via_dm :: "xmsmem option"
  via_table :: u32
  via_buffer :: u32
  via_bufsize :: u32
  via_pages :: u32

definition via82xx_card_zero :: via82xx_card where
  "via82xx_card_zero = \<lparr>via_iobase = 0, via_model = 0, via_irq = 0, via_chiprev = 0, via_pci_dev = None, via_dm = None,
    via_table = 0, via_buffer = 0, via_bufsize = 0, via_pages = 0\<rparr>"

text \<open>The device, with the static variable of the driver (initially 2), which outlives the card's structure.\<close>

record 'h via = "(via82xx_card, 'h) card_dev" +
  via8233_dxs_volume :: u32

text \<open>\<open>card->pci_dev->device_id == PCI_DEVICE_ID_VT82C686\<close>\<close>

definition via_686 :: "via82xx_card \<Rightarrow> bool res" where
  "via_686 v = bindE (deref (via_pci_dev v)) (\<lambda>k. Inr (device_id k = PCI_DEVICE_ID_VT82C686))"

definition via_outb :: "'h card_hw \<Rightarrow> u32 \<Rightarrow> u8 \<Rightarrow> 'h \<Rightarrow> 'h" where "via_outb hw p x = hw_outb hw (ucast p) x"
definition via_outl :: "'h card_hw \<Rightarrow> u32 \<Rightarrow> u32 \<Rightarrow> 'h \<Rightarrow> 'h" where "via_outl hw p x = hw_outl hw (ucast p) x"
definition via_inb :: "'h card_hw \<Rightarrow> u32 \<Rightarrow> 'h \<Rightarrow> u8 \<times> 'h" where "via_inb hw p = hw_inb hw (ucast p)"
definition via_inl :: "'h card_hw \<Rightarrow> u32 \<Rightarrow> 'h \<Rightarrow> u32 \<times> 'h" where "via_inl hw p = hw_inl hw (ucast p)"

section \<open>The codec\<close>

abbreviation (input) VIA_REG_AC97_CTRL :: u32 where "VIA_REG_AC97_CTRL \<equiv> 0x80"
abbreviation (input) VIA_REG_AC97_PRIMARY_VALID :: u32 where "VIA_REG_AC97_PRIMARY_VALID \<equiv> 0x2000000"
abbreviation (input) VIA_REG_AC97_BUSY :: u32 where "VIA_REG_AC97_BUSY \<equiv> 0x1000000"
abbreviation (input) VIA_REG_AC97_READ :: u32 where "VIA_REG_AC97_READ \<equiv> 0x800000"

definition via_test :: "'h card_hw \<Rightarrow> u32 \<Rightarrow> (u32 \<Rightarrow> bool) \<Rightarrow> 'h \<Rightarrow> bool \<times> 'h" where
  "via_test hw p t h = (let (d, h) = via_inl hw p h in (t d, h))"

definition via82xx_AC97Codec_ready :: "'h card_hw \<Rightarrow> u32 \<Rightarrow> 'h \<Rightarrow> 'h res" where
  "via82xx_AC97Codec_ready hw base h =
    bindE (retry_wait (via_test hw (base + VIA_REG_AC97_CTRL) (\<lambda>d. d AND VIA_REG_AC97_BUSY = 0)) (hw_delay hw 1) 2048 h) (\<lambda>(_, h). Inr h)"

definition via82xx_ReadAC97Codec_sub :: "'h card_hw \<Rightarrow> u32 \<Rightarrow> 'h \<Rightarrow> (u32 \<times> 'h) res" where
  "via82xx_ReadAC97Codec_sub hw base h =
    bindE (retry_wait (via_test hw (base + VIA_REG_AC97_CTRL) (\<lambda>d. d AND VIA_REG_AC97_PRIMARY_VALID \<noteq> 0)) (hw_delay hw 1) 2048 h)
      (\<lambda>(_, h). Inr (via_inl hw (base + VIA_REG_AC97_CTRL) h))"

definition via82xx_WriteAC97Codec_sub :: "'h card_hw \<Rightarrow> u32 \<Rightarrow> u32 \<Rightarrow> 'h \<Rightarrow> 'h res" where
  "via82xx_WriteAC97Codec_sub hw base x h =
    bindE (via82xx_AC97Codec_ready hw base h) (\<lambda>h. via82xx_AC97Codec_ready hw base (via_outl hw (base + VIA_REG_AC97_CTRL) x h))"

definition via82xx_ac97_write :: "'h card_hw \<Rightarrow> u32 \<Rightarrow> u32 \<Rightarrow> u32 \<Rightarrow> 'h \<Rightarrow> 'h res" where
  "via82xx_ac97_write hw base reg x h =
    (let d0 = push_bit 16 (reg AND 0x7F) OR (x AND 0xFFFF)
     in bindE (via82xx_WriteAC97Codec_sub hw base d0 h) (via82xx_WriteAC97Codec_sub hw base d0))"

definition via82xx_ac97_read :: "'h card_hw \<Rightarrow> u32 \<Rightarrow> u32 \<Rightarrow> 'h \<Rightarrow> (u32 \<times> 'h) res" where
  "via82xx_ac97_read hw base reg h =
    (let d0 = VIA_REG_AC97_READ OR push_bit 16 (reg AND 0x7F)
     in bindE (via82xx_WriteAC97Codec_sub hw base d0 h) (\<lambda>h.
        bindE (via82xx_WriteAC97Codec_sub hw base d0 h) (via82xx_ReadAC97Codec_sub hw base)))"

text \<open>A list of writes to the codec, one after the other.\<close>

primrec via_ac97_writes :: "'h card_hw \<Rightarrow> u32 \<Rightarrow> (u32 \<times> u32) list \<Rightarrow> 'h \<Rightarrow> 'h res" where
  "via_ac97_writes hw base [] h = Inr h"
| "via_ac97_writes hw base (w # ws) h = bindE (via82xx_ac97_write hw base (fst w) (snd w) h) (via_ac97_writes hw base ws)"

text \<open>The result has the new value of the static variable.\<close>

definition via82xx_dxs_write :: "'h card_hw \<Rightarrow> u32 \<Rightarrow> u32 \<Rightarrow> u32 \<Rightarrow> 'h \<Rightarrow> u32 \<times> 'h" where
  "via82xx_dxs_write hw base reg x h = (x, via_outb hw (base + reg) (ucast x) h)"

section \<open>The controller\<close>

definition via82xx_channel_reset :: "'h card_hw \<Rightarrow> via82xx_card \<Rightarrow> 'h \<Rightarrow> 'h res" where
  "via82xx_channel_reset hw v h =
    (let base = via_iobase v; h = via_outb hw (base + 0x01) (0x08 OR 0x40) h in
     bindE (hw_delay hw 5 h) (\<lambda>h.
     (let h = via_outb hw (base + 0x00) 0xFF (via_outb hw (base + 0x01) 0x00 h) in
      bindE (via_686 v) (\<lambda>old.
      Inr (via_outl hw (base + 0x04) 0 (if old then via_outb hw (base + 0x02) 0x00 h else h))))))"

text \<open>A configuration write followed by a delay.\<close>

definition via_aclink :: "'h card_env \<Rightarrow> pci_config \<Rightarrow> u8 \<Rightarrow> u32 \<Rightarrow> 'h \<Rightarrow> 'h res" where
  "via_aclink env k x t h = hw_delay (ce_hw env) t (pcibios_WriteConfig_Byte (b_pci (ce_bios env)) k 0x41 x h)"

abbreviation (input) VIA_ACLINK_CTRL_INIT :: u8 where "VIA_ACLINK_CTRL_INIT \<equiv> 0xCC"

definition via_link_init :: "'h card_env \<Rightarrow> pci_config \<Rightarrow> 'h \<Rightarrow> 'h res" where
  "via_link_init env k h =
    bindE (via_aclink env k (0x80 OR 0x40 OR 0x20) 10 h) (\<lambda>h.
    bindE (if device_id k = PCI_DEVICE_ID_VT82C686
      then bindE (via_aclink env k 0x00 10 h) (via_aclink env k VIA_ACLINK_CTRL_INIT 10)
      else bindE (via_aclink env k (0x40 OR 0x20) 1 h) (via_aclink env k VIA_ACLINK_CTRL_INIT 10)) (\<lambda>h.
    (let (d, h) = pcibios_ReadConfig_Byte (b_pci (ce_bios env)) k 0x41 h in
     bindE (if d AND VIA_ACLINK_CTRL_INIT \<noteq> VIA_ACLINK_CTRL_INIT then via_aclink env k VIA_ACLINK_CTRL_INIT 10 h else Inr h) (\<lambda>h.
     bindE (retry_wait (\<lambda>h. let (d, h) = pcibios_ReadConfig_Byte (b_pci (ce_bios env)) k 0x40 h in (d AND 0x01 \<noteq> 0, h))
       (hw_delay (ce_hw env) 1) 65536 h) (\<lambda>(_, h). Inr h)))))"

text \<open>The workaround for a modem device that the BIOS has disabled.\<close>

definition via_mc97 :: "'h card_env \<Rightarrow> 'h \<Rightarrow> 'h res" where
  "via_mc97 env h =
    (let (ah, key, h) = pcibios_FindDevice (ce_bios env) 0x1106 0x3068 (Some pci_config_zero) h in
     if ah = PCI_SUCCESSFUL then
       bindE (deref key) (\<lambda>k.
       (let (d, h) = pcibios_ReadConfig_Byte (b_pci (ce_bios env)) k 0x44 h
        in Inr (pcibios_WriteConfig_Byte (b_pci (ce_bios env)) k 0x44 (d OR 0x40) h)))
     else Inr h)"

definition via82xx_chip_init :: "'h card_env \<Rightarrow> via82xx_card \<Rightarrow> 'h \<Rightarrow> 'h res" where
  "via82xx_chip_init env v h =
    (let hw = ce_hw env; base = via_iobase v in
     bindE (deref (via_pci_dev v)) (\<lambda>k.
     bindE (via_link_init env k h) (\<lambda>h.
     bindE (via82xx_AC97Codec_ready hw base h) (\<lambda>h.
     bindE (via82xx_ac97_write hw base 0 0 h) (\<lambda>h.
     bindE (via82xx_ac97_read hw base 0 h) (\<lambda>(_, h).
     bindE (via82xx_channel_reset hw v h) (\<lambda>h.
     bindE (if device_id k \<noteq> PCI_DEVICE_ID_VT82C686 then via_mc97 env h else Inr h)
       (via_ac97_writes hw base [(AC97_MASTER_VOL_STEREO, 0x0202), (AC97_PCMOUT_VOL, 0x0202), (AC97_HEADPHONE_VOL, 0x0202),
         (AC97_CD_VOL, 0x0202), (AC97_EXTENDED_STATUS, 0x4)]))))))))"

definition via82xx_chip_close :: "'h card_hw \<Rightarrow> via82xx_card \<Rightarrow> 'h \<Rightarrow> 'h res" where
  "via82xx_chip_close = via82xx_channel_reset"

definition via82xx_set_table_ptr :: "'h card_hw \<Rightarrow> via82xx_card \<Rightarrow> 'h \<Rightarrow> 'h res" where
  "via82xx_set_table_ptr hw v h =
    bindE (via82xx_AC97Codec_ready hw (via_iobase v) h) (\<lambda>h.
    bindE (deref (via_dm v)) (\<lambda>dm.
    bindE (hw_delay hw 2 (via_outl hw (via_iobase v + 0x04) (pds_cardmem_physicalptr dm (via_table v)) h)) (\<lambda>h.
    via82xx_AC97Codec_ready hw (via_iobase v) h)))"

section \<open>Detection and release\<close>

definition via_devices :: "pci_device list" where
  "via_devices = [\<lparr>pd_name = ''VT82C686'', pd_vendor = 0x1106, pd_device = 0x3058, pd_type = 0\<rparr>,
    \<lparr>pd_name = ''VT8233'', pd_vendor = 0x1106, pd_device = 0x3059, pd_type = 0\<rparr>,
    \<lparr>pd_name = [], pd_vendor = 0, pd_device = 0, pd_type = 0\<rparr>]"

type_synonym 'h via_au = "mpxplay_audioout_info \<times> 'h via"

definition VIA82XX_close :: "'h card_env \<Rightarrow> 'h via_au \<Rightarrow> 'h via_au res" where
  "VIA82XX_close env s =
    (case private_data (snd s) of None \<Rightarrow> Inr s
     | Some v \<Rightarrow>
         bindE (if via_iobase v \<noteq> 0 then via82xx_chip_close (ce_hw env) v (machine (snd s)) else Inr (machine (snd s))) (\<lambda>h.
         (let (xr, h) = MDma_free_cardmem (ce_host env) (b_ops (ce_bios env)) (via_dm v) (xms_regs (snd s), h)
          in Inr (fst s, (snd s)\<lparr>private_data := None, machine := h, xms_regs := xr\<rparr>))))"

text \<open>The registers of the configuration space; the buffers, the table of pages at the next multiple of 4096; the chip.\<close>

definition via_identify :: "'h pci_io \<Rightarrow> pci_config \<Rightarrow> via82xx_card \<Rightarrow> 'h \<Rightarrow> via82xx_card \<times> 'h" where
  "via_identify io k v h =
    (let (irq, h) = pcibios_ReadConfig_Byte io k PCIR_INTR_LN h;
         (rev, h) = pcibios_ReadConfig_Byte io k 0x08 h;
         (model, h) = pcibios_ReadConfig_Word io k 0x2E h
     in (v\<lparr>via_irq := ucast irq, via_chiprev := rev, via_model := model\<rparr>, h))"

definition via_buffers :: "'h card_env \<Rightarrow> via82xx_card \<Rightarrow> u32 \<Rightarrow> DPMI_REG \<times> 'h \<Rightarrow> (via82xx_card \<times> DPMI_REG \<times> 'h) res" where
  "via_buffers env v controlbits w =
    bindE (MDma_get_max_pcmoutbufsize controlbits 0 PCMBUFFERPAGESIZE 2 0) (\<lambda>n.
    bindE (MDma_alloc_cardmem (ce_host env) (b_ops (ce_bios env)) (ce_calloc env ''cardmem_t'') (VIRTUALPAGETABLESIZE + n + 4096) w) (\<lambda>(dm, w).
    (let table = (linearptr dm + 4095) AND NOT 4095
     in Inr (v\<lparr>via_bufsize := n, via_dm := Some dm, via_table := table, via_buffer := table + VIRTUALPAGETABLESIZE\<rparr>, w))))"

definition VIA82XX_detected :: "'h card_env \<Rightarrow> pci_config \<Rightarrow> via82xx_card \<Rightarrow> 'h via_au \<Rightarrow> 'h via_au res" where
  "VIA82XX_detected env k v s =
    (let (a, d) = s; (v, h) = via_identify (b_pci (ce_bios env)) k v (machine d) in
     bindE (via_buffers env v (card_controlbits a) (xms_regs d, h)) (\<lambda>(v, xr, h).
     bindE (via82xx_chip_init env v h) (\<lambda>h.
     Inr (a\<lparr>card_DMABUFF := Some (replicate (unat (via_bufsize v)) 0), card_irq := ucast (via_irq v),
         card_samples_per_int := uint (PCMBUFFERPAGESIZE div 4)\<rparr>,
       d\<lparr>private_data := Some v, aui_pci_dev := Some k, machine := h, xms_regs := xr\<rparr>))))"

definition VIA82XX_adetect :: "'h card_env \<Rightarrow> 'h via_au \<Rightarrow> (bool \<times> 'h via_au) res" where
  "VIA82XX_adetect env s =
    (let (a, d) = s; v = via82xx_card_zero; io = b_pci (ce_bios env);
         failed = (\<lambda>v h. bindE (VIA82XX_close env (a, d\<lparr>private_data := Some v, machine := h\<rparr>)) (\<lambda>s. Inr (False, s))) in
     if \<not> ce_calloc env ''via82xx_card'' then Inr (False, s)
     else if \<not> ce_calloc env ''pci_config_s'' then failed v (machine d)
     else bindE (pcibios_search_devices (ce_bios env) via_devices (Some pci_config_zero) (machine d)) (\<lambda>(ah, key, h).
       bindE (deref key) (\<lambda>k.
       (let v = v\<lparr>via_pci_dev := Some k\<rparr> in
        if ah \<noteq> PCI_SUCCESSFUL then failed v h
        else
          (let h = pcibios_set_master io k h;
               (bar, h) = pcibios_ReadConfig_Dword io k 0x10 h;
               v = v\<lparr>via_iobase := bar AND 0xFFF0\<rparr> in
           if via_iobase v = 0 then failed v h
           else bindE (VIA82XX_detected env k v (a, d\<lparr>machine := h\<rparr>)) (\<lambda>s. Inr (True, s)))))))"

section \<open>Playback\<close>

text \<open>The entry of a page: its address, and its length with an interrupt; the last page ends the list.\<close>

definition via_entry :: "via82xx_card \<Rightarrow> xmsmem \<Rightarrow> u32 \<Rightarrow> u32 \<times> u32" where
  "via_entry v dm i = (pds_cardmem_physicalptr dm (via_buffer v + i * PCMBUFFERPAGESIZE),
     (if i < via_pages v - 1 then 0x40000000 else 0x80000000) OR PCMBUFFERPAGESIZE)"

definition via_page_table :: "'h card_hw \<Rightarrow> via82xx_card \<Rightarrow> 'h \<Rightarrow> 'h res" where
  "via_page_table hw v h = (if via_pages v = 0 then Inr h
    else bindE (deref (via_dm v)) (\<lambda>dm. Inr (bd_write hw (via_table v) (via_entry v dm) [0..<unat (via_pages v)] h)))"

text \<open>The rate of the channel in units of 48 kHz divided by 2 to the power 20.\<close>

definition via_rbits :: "u32 \<Rightarrow> u32" where
  "via_rbits freq = (if freq = 48000 then 0xFFFFF
     else (0x100000 div 48000) * freq + ((0x100000 mod 48000) * freq) div 48000)"

text \<open>The channel of the old chip is set by a byte, that of the new one with volumes and rate. The writes of the volume store
  the static variable in itself.\<close>

definition via_channel_type :: "'h card_hw \<Rightarrow> u32 \<Rightarrow> u32 \<Rightarrow> via82xx_card \<Rightarrow> 'h \<Rightarrow> 'h res" where
  "via_channel_type hw vol freq v h =
    bindE (via_686 v) (\<lambda>old.
    if old then Inr (via_outb hw (via_iobase v + 0x02) (0x80 OR 0x20 OR 0x10) h)
    else
      (let (vol, h) = via82xx_dxs_write hw (via_iobase v) 0x02 vol h;
           (vol, h) = via82xx_dxs_write hw (via_iobase v) 0x03 vol h
       in Inr (via_outl hw (via_iobase v + 0x08) (0x200000 OR 0x100000 OR via_rbits freq OR 0xFF000000) h)))"

definition via_codec_rate :: "'h card_hw \<Rightarrow> u32 \<Rightarrow> via82xx_card \<Rightarrow> 'h \<Rightarrow> 'h res" where
  "via_codec_rate hw freq v h =
    bindE (via_686 v) (\<lambda>old.
    bindE (if old then via_ac97_writes hw (via_iobase v) [(AC97_EXTENDED_STATUS, 0x1), (AC97_PCM_FRONT_DAC_RATE, freq)] h else Inr h) (\<lambda>h.
    bindE (via82xx_ac97_write hw (via_iobase v) AC97_SPDIF_CONTROL
      (if freq = 32000 then 0x3000 else if freq = 44100 then 0x0000 else 0x2000) h) (hw_delay hw 10)))"

definition VIA82XX_setrate :: "'h card_hw \<Rightarrow> float_ops \<Rightarrow> u32 \<Rightarrow> (via82xx_card, 'h) play \<Rightarrow> (via82xx_card, 'h) play res" where
  "VIA82XX_setrate hw fl vol s =
    (let (a, v, h) = s;
         freq = (if freq_card a < 4000 then 4000 else if 48000 < freq_card a then 48000 else freq_card a);
         a = a\<lparr>freq_card := freq, chan_card := 2, bits_card := 16, card_wave_id := MPXPLAY_WAVEID_PCM_SLE\<rparr> in
     bindE (MDma_init_pcmoutbuf fl (via_bufsize v) PCMBUFFERPAGESIZE 0 a) (\<lambda>(n, a).
     (let v = v\<lparr>via_pages := n div PCMBUFFERPAGESIZE\<rparr> in
      bindE (via_page_table hw v h) (\<lambda>h.
      bindE (via_codec_rate hw freq v h) (\<lambda>h.
      bindE (via82xx_channel_reset hw v h) (\<lambda>h.
      bindE (via82xx_set_table_ptr hw v h) (\<lambda>h.
      bindE (via_channel_type hw vol freq v h) (\<lambda>h.
      bindE (hw_delay hw 2 h) (\<lambda>h.
      bindE (via82xx_AC97Codec_ready hw (via_iobase v) h) (\<lambda>h. Inr (a, v, h)))))))))))"

text \<open>The start also writes the interrupt line, in case the BIOS had left none.\<close>

definition VIA82XX_start :: "'h card_env \<Rightarrow> (via82xx_card, 'h) play \<Rightarrow> (via82xx_card, 'h) play res" where
  "VIA82XX_start env s =
    (let (a, v, h) = s; hw = ce_hw env; base = via_iobase v in
     bindE (deref (via_pci_dev v)) (\<lambda>k.
     (let h = (if device_id k = PCI_DEVICE_ID_VT82C686 then
           (let (t, h) = via_inb hw (base + 0x02) h
            in via_outb hw (base + 0x01) 0x80 (via_outb hw (base + 0x02) (t OR 0x02 OR 0x01) h))
         else via_outb hw (base + 0x01) (0x80 OR 0x20 OR 0x01 OR 0x02 OR 0x04) h)
      in Inr (a, v, pcibios_WriteConfig_Byte (b_pci (ce_bios env)) k PCIR_INTR_LN (card_irq a) h))))"

definition VIA82XX_stop :: "'h card_hw \<Rightarrow> (via82xx_card, 'h) play \<Rightarrow> (via82xx_card, 'h) play" where
  "VIA82XX_stop hw s = (let (a, v, h) = s in (a, v, via_outb hw (via_iobase v + 0x01) 0x08 h))"

section \<open>Position, interrupt, mixer\<close>

text \<open>The index of the page, and the register with the rest of it. The old chip reports the address of the entry after the one that
  it plays.\<close>

definition via_index :: "'h card_hw \<Rightarrow> via82xx_card \<Rightarrow> 'h \<Rightarrow> (u32 \<times> u32 \<times> 'h) res" where
  "via_index hw v h =
    bindE (via_686 v) (\<lambda>old.
    (let (count, h) = via_inl hw (via_iobase v + 0x0C) h in
     if old then
       (let (p, h) = via_inl hw (via_iobase v + 0x04) h in
        bindE (deref (via_dm v)) (\<lambda>dm.
        (let table = pds_cardmem_physicalptr dm (via_table v) in
         if p \<le> table then Inr (0, count, h)
         else bindE (umod (drop_bit 3 (p - table) - 1) (via_pages v)) (\<lambda>i. Inr (i, count, h)))))
     else Inr (drop_bit 24 count, count, h)))"

definition VIA82XX_getbufpos :: "'h card_hw \<Rightarrow> (via82xx_card, 'h) play \<Rightarrow> (u32 \<times> (via82xx_card, 'h) play) res" where
  "VIA82XX_getbufpos hw s =
    (let (a, v, h) = s in
     bindE (via_index hw v h) (\<lambda>(idx, count, h).
     bindE (via_686 v) (\<lambda>old.
     (let count = count AND 0xFFFFFF;
          bufpos = idx * PCMBUFFERPAGESIZE + PCMBUFFERPAGESIZE - count;
          a = (if (\<not> old \<or> count \<noteq> 0) \<and> count \<le> PCMBUFFERPAGESIZE \<and> bufpos < card_dmasize a then a\<lparr>card_dma_lastgoodpos := bufpos\<rparr> else a)
      in Inr (card_dma_lastgoodpos a, a, v, h)))))"

definition VIA82XX_clearbuf :: "'d au \<Rightarrow> 'd au res" where
  "VIA82XX_clearbuf = on_aui MDma_clearbuf"

definition VIA82XX_IRQRoutine :: "'h card_hw \<Rightarrow> via82xx_card \<Rightarrow> 'h \<Rightarrow> bool \<times> 'h" where
  "VIA82XX_IRQRoutine hw v h =
    (let (st, h) = via_inb hw (via_iobase v + 0x00) h; st = st AND (0x01 OR 0x02 OR 0x04)
     in (st \<noteq> 0, if st \<noteq> 0 then via_outb hw (via_iobase v + 0x00) st h else h))"

text \<open>Mixer registers from 256 on are the volumes of the channels, with the register in the upper byte.\<close>

definition VIA82XX_writeMIXER :: "'h card_hw \<Rightarrow> u32 \<Rightarrow> u32 \<Rightarrow> 'h via au \<Rightarrow> 'h via au res" where
  "VIA82XX_writeMIXER hw reg x s =
    (let d = device (snd s); put = (\<lambda>d. (fst s, (snd s)\<lparr>device := d\<rparr>)) in
     bindE (deref (private_data d)) (\<lambda>v.
     if 256 \<le> reg then
       bindE (via_686 v) (\<lambda>old. if old then Inr s
         else let (vol, h) = via82xx_dxs_write hw (via_iobase v) (drop_bit 8 reg) x (machine d)
           in Inr (put (d\<lparr>via8233_dxs_volume := vol, machine := h\<rparr>)))
     else bindE (via82xx_ac97_write hw (via_iobase v) reg x (machine d)) (\<lambda>h. Inr (put (d\<lparr>machine := h\<rparr>)))))"

definition VIA82XX_readMIXER :: "'h card_hw \<Rightarrow> u32 \<Rightarrow> 'h via au \<Rightarrow> (u32 \<times> 'h via au) res" where
  "VIA82XX_readMIXER hw reg s =
    (let d = device (snd s) in
     bindE (deref (private_data d)) (\<lambda>v.
     if 256 \<le> reg then bindE (via_686 v) (\<lambda>old. Inr (if old then 0 else via8233_dxs_volume d, s))
     else bindE (via82xx_ac97_read hw (via_iobase v) reg (machine d)) (\<lambda>(x, h).
       Inr (x, fst s, (snd s)\<lparr>device := d\<lparr>machine := h\<rparr>\<rparr>))))"

definition via82xx_pcm_vol :: onemixerchan where
  "via82xx_pcm_vol = \<lparr>mixchan = AU_MIXCHANFUNCS_PACK 1 AU_MIXCHANFUNC_VOLUME, subchannelnum = 4,
    submixerchans = [ac97_field AC97_PCMOUT_VOL 8, ac97_field AC97_PCMOUT_VOL 0,
      \<lparr>submixch_register = push_bit 8 0x02, submixch_max = 0x1F, submixch_shift = 0, submixch_infobits = SUBMIXCH_INFOBIT_REVERSEDVALUE\<rparr>,
      \<lparr>submixch_register = push_bit 8 0x03, submixch_max = 0x1F, submixch_shift = 0, submixch_infobits = SUBMIXCH_INFOBIT_REVERSEDVALUE\<rparr>]\<rparr>"

definition via82xx_mixerset :: "onemixerchan list" where
  "via82xx_mixerset = [ac97_stereo AU_MIXCHAN_MASTER AC97_MASTER_VOL_STEREO, via82xx_pcm_vol, ac97_stereo 2 AC97_HEADPHONE_VOL]"

definition VIA82XX_sndcard_info :: "'h card_env \<Rightarrow> 'h via one_sndcard_info" where
  "VIA82XX_sndcard_info env = \<lparr>infobits = SNDCARD_LOWLEVELHAND OR 2,
    card_start = Some (on_play (VIA82XX_start env)),
    card_stop = Some (on_play (\<lambda>s. Inr (VIA82XX_stop (ce_hw env) s))),
    card_close = Some (\<lambda>s. bindE (VIA82XX_close env (fst s, device (snd s))) (\<lambda>(a, d). Inr (a, (snd s)\<lparr>device := d\<rparr>))),
    card_setrate = Some (\<lambda>s. on_play (VIA82XX_setrate (ce_hw env) (ce_fl env) (via8233_dxs_volume (device (snd s)))) s),
    cardbuf_writedata = MDma_put,
    cardbuf_pos = Some (ask_play (VIA82XX_getbufpos (ce_hw env))),
    cardbuf_clear = Some VIA82XX_clearbuf,
    cardbuf_int_monitor = Some (on_aui MDma_interrupt_monitor),
    card_writemixer = Some (VIA82XX_writeMIXER (ce_hw env)),
    card_readmixer = Some (VIA82XX_readMIXER (ce_hw env)),
    card_mixerchans = Some via82xx_mixerset,
    irq_routine = Some (ask_play (\<lambda>(a, v, h). case VIA82XX_IRQRoutine (ce_hw env) v h of (x, h) \<Rightarrow> Inr (x, a, v, h))),
    card_fm_write = None, card_fm_read = None, card_mpu401_write = None, card_mpu401_read = None\<rparr>"

section \<open>The operations return\<close>

text \<open>They change nothing that the ports do not change, such as memory.\<close>

lemma via_test_keeps: "ports_keep hw f \<Longrightarrow> f (snd (via_test hw p t h)) = f h"
  by (simp add: via_test_def via_inl_def case_prod_beta Let_def ports_keepD)

lemma via_out_keeps: "ports_keep hw f \<Longrightarrow> f (via_outb hw p x h) = f h" "ports_keep hw f \<Longrightarrow> f (via_outl hw p y h) = f h"
  by (simp_all add: via_outb_def via_outl_def ports_keepD)

lemma via_ready_ok:
  assumes t: "timer_runs (hw_io hw) cnt" and k: "ports_keep hw f"
  shows "\<exists>h'. via82xx_AC97Codec_ready hw base h = Inr h' \<and> f h' = f h"
proof -
  let ?t = "via_test hw (base + VIA_REG_AC97_CTRL) (\<lambda>d. d AND VIA_REG_AC97_BUSY = 0)"
  have "\<exists>j h'. retry_wait ?t (hw_delay hw 1) 2048 h = Inr (j, h') \<and> f h' = f h"
    by (rule retry_hw_ok [OF t k]) (rule via_test_keeps [OF k])
  then show ?thesis unfolding via82xx_AC97Codec_ready_def by auto
qed

lemma via_write_sub_ok:
  assumes "timer_runs (hw_io hw) cnt" "ports_keep hw f"
  shows "\<exists>h'. via82xx_WriteAC97Codec_sub hw base x h = Inr h' \<and> f h' = f h"
proof -
  obtain h1 where 1: "via82xx_AC97Codec_ready hw base h = Inr h1" "f h1 = f h" using via_ready_ok [OF assms] by blast
  obtain h2 where "via82xx_AC97Codec_ready hw base (via_outl hw (base + VIA_REG_AC97_CTRL) x h1) = Inr h2"
      "f h2 = f (via_outl hw (base + VIA_REG_AC97_CTRL) x h1)" using via_ready_ok [OF assms] by blast
  then show ?thesis using 1 unfolding via82xx_WriteAC97Codec_sub_def by (simp add: via_out_keeps [OF assms(2)])
qed

lemma via_ac97_write_ok:
  assumes "timer_runs (hw_io hw) cnt" "ports_keep hw f"
  shows "\<exists>h'. via82xx_ac97_write hw base r x h = Inr h' \<and> f h' = f h"
proof -
  define d where "d = push_bit 16 (r AND 0x7F) OR (x AND 0xFFFF)"
  obtain h1 where "via82xx_WriteAC97Codec_sub hw base d h = Inr h1" "f h1 = f h" using via_write_sub_ok [OF assms] by blast
  moreover obtain h2 where "via82xx_WriteAC97Codec_sub hw base d h1 = Inr h2" "f h2 = f h1" using via_write_sub_ok [OF assms] by blast
  ultimately show ?thesis unfolding via82xx_ac97_write_def Let_def d_def [symmetric] by simp
qed

lemma via_ac97_writes_ok:
  assumes "timer_runs (hw_io hw) cnt" "ports_keep hw f"
  shows "\<exists>h'. via_ac97_writes hw base ws h = Inr h' \<and> f h' = f h"
proof (induction ws arbitrary: h)
  case (Cons w ws)
  obtain h1 where "via82xx_ac97_write hw base (fst w) (snd w) h = Inr h1" "f h1 = f h" using via_ac97_write_ok [OF assms] by blast
  then show ?case using Cons.IH [of h1] by simp
qed simp

lemma via_686_known: "via_pci_dev v = Some k \<Longrightarrow> via_686 v = Inr (device_id k = PCI_DEVICE_ID_VT82C686)"
  by (simp add: via_686_def deref_def)

lemma via_channel_reset_ok:
  assumes t: "timer_runs (hw_io hw) cnt" and k: "ports_keep hw f" and p: "via_pci_dev v = Some c"
  shows "\<exists>h'. via82xx_channel_reset hw v h = Inr h' \<and> f h' = f h"
proof -
  obtain h1 where 1: "hw_delay hw 5 (via_outb hw (via_iobase v + 0x01) (0x08 OR 0x40) h) = Inr h1"
      "f h1 = f (via_outb hw (via_iobase v + 0x01) (0x08 OR 0x40) h)" using hw_delay_ok [OF t k] by blast
  show ?thesis unfolding via82xx_channel_reset_def Let_def 1(1) bindE_simps via_686_known [OF p]
    using 1(2) by (simp add: via_out_keeps [OF k])
qed

lemma via_set_table_ptr_ok:
  assumes t: "timer_runs (hw_io hw) cnt" and k: "ports_keep hw f" and d: "via_dm v = Some dm"
  shows "\<exists>h'. via82xx_set_table_ptr hw v h = Inr h' \<and> f h' = f h"
proof -
  let ?w = "via_outl hw (via_iobase v + 0x04) (pds_cardmem_physicalptr dm (via_table v))"
  obtain h1 where 1: "via82xx_AC97Codec_ready hw (via_iobase v) h = Inr h1" "f h1 = f h" using via_ready_ok [OF t k] by blast
  obtain h2 where 2: "hw_delay hw 2 (?w h1) = Inr h2" "f h2 = f (?w h1)" using hw_delay_ok [OF t k] by blast
  obtain h3 where 3: "via82xx_AC97Codec_ready hw (via_iobase v) h2 = Inr h3" "f h3 = f h2" using via_ready_ok [OF t k] by blast
  show ?thesis unfolding via82xx_set_table_ptr_def 1(1) bindE_simps d deref_def option.case 2(1) 3(1)
    using 1(2) 2(2) 3(2) by (simp add: via_out_keeps [OF k])
qed

lemma via_codec_rate_ok:
  assumes t: "timer_runs (hw_io hw) cnt" and k: "ports_keep hw f" and p: "via_pci_dev v = Some c"
  shows "\<exists>h'. via_codec_rate hw freq v h = Inr h' \<and> f h' = f h"
proof -
  have "\<exists>h'. (if device_id c = PCI_DEVICE_ID_VT82C686 then via_ac97_writes hw (via_iobase v)
      [(AC97_EXTENDED_STATUS, 0x1), (AC97_PCM_FRONT_DAC_RATE, freq)] h else Inr h) = Inr h' \<and> f h' = f h"
    using via_ac97_writes_ok [OF t k] by (simp del: via_ac97_writes.simps)
  then obtain h1 where 1: "(if device_id c = PCI_DEVICE_ID_VT82C686 then via_ac97_writes hw (via_iobase v)
      [(AC97_EXTENDED_STATUS, 0x1), (AC97_PCM_FRONT_DAC_RATE, freq)] h else Inr h) = Inr h1" "f h1 = f h" by blast
  obtain h2 where 2: "via82xx_ac97_write hw (via_iobase v) AC97_SPDIF_CONTROL
      (if freq = 32000 then 0x3000 else if freq = 44100 then 0x0000 else 0x2000) h1 = Inr h2" "f h2 = f h1"
    using via_ac97_write_ok [OF t k] by blast
  obtain h3 where 3: "hw_delay hw 10 h2 = Inr h3" "f h3 = f h2" using hw_delay_ok [OF t k] by blast
  show ?thesis unfolding via_codec_rate_def via_686_known [OF p] bindE_simps 1(1) 2(1) 3(1) using 1(2) 2(2) 3(2) by simp
qed

lemma via_channel_type_ok:
  assumes k: "ports_keep hw f" and p: "via_pci_dev v = Some c"
  shows "\<exists>h'. via_channel_type hw vol freq v h = Inr h' \<and> f h' = f h"
  unfolding via_channel_type_def via_686_known [OF p] bindE_simps
  by (simp add: via82xx_dxs_write_def via_out_keeps [OF k])

section \<open>The table of pages\<close>

text \<open>The rate of the channel is exact: the integer part of the rate in its unit. It fits into the 20 bits of its field.\<close>

lemma via_rbits_exact:
  assumes "freq < 48000"
  shows "unat (via_rbits freq) = 2 ^ 20 * unat freq div 48000" "unat (via_rbits freq) < 2 ^ 20"
proof -
  have f: "unat freq < 48000" using assms by (simp add: word_less_nat_alt)
  have c: "(0x100000 :: u32) div 48000 = 21" "(0x100000 :: u32) mod 48000 = 40576" by (simp_all add: word_unat_eq_iff unat_div unat_mod)
  have "unat (40576 * freq) = 40576 * unat freq" using f by (simp add: unat_word_ariths)
  then have d: "unat ((40576 * freq) div 48000) = 40576 * unat freq div 48000" by (simp add: unat_div)
  have "unat (21 * freq + (40576 * freq) div 48000) = 21 * unat freq + 40576 * unat freq div 48000"
    using f d by (simp add: unat_word_ariths)
  then have e: "unat (via_rbits freq) = 21 * unat freq + 40576 * unat freq div 48000"
    using assms unfolding via_rbits_def c by auto
  also have "\<dots> = (40576 * unat freq + 21 * unat freq * 48000) div 48000" by simp
  finally show "unat (via_rbits freq) = 2 ^ 20 * unat freq div 48000" by (simp add: algebra_simps)
  then show "unat (via_rbits freq) < 2 ^ 20" using f by (simp add: div_less_iff_less_mult)
qed

lemma via_page_table_ok:
  assumes m: "mem_table hw (via_table v) 1024 tab" and d: "via_dm v = Some dm" and p: "0 < via_pages v" "unat (via_pages v) \<le> 512"
  shows "\<exists>h'. via_page_table hw v h = Inr h' \<and> (\<forall>i < unat (via_pages v).
    tab h' (2 * i) = pds_cardmem_physicalptr dm (via_buffer v + of_nat i * 512) \<and>
    tab h' (2 * i + 1) = (if i + 1 = unat (via_pages v) then 0x80000000 else 0x40000000) OR 512)"
proof -
  define h' where "h' = bd_write hw (via_table v) (via_entry v dm) [0..<unat (via_pages v)] h"
  have r: "via_page_table hw v h = Inr h'" using p(1) d by (simp add: via_page_table_def deref_def h'_def)
  have t: "tab h' = (\<lambda>k. if k div 2 \<in> set [0..<unat (via_pages v)] then (if even k then fst (via_entry v dm (of_nat (k div 2)))
      else snd (via_entry v dm (of_nat (k div 2)))) else tab h k)"
    unfolding h'_def by (rule bd_write_tab [of _ _ 512]) (use m p(2) in simp_all)
  have u: "unat (via_pages v - 1) = unat (via_pages v) - 1" using p(1) by (metis unat_gt_0 word_neq_0_conv unat_minus_one)
  have l: "(of_nat i < via_pages v - 1) = (i + 1 < unat (via_pages v))" if "i < unat (via_pages v)" for i
    using that p(2) u by (simp add: word_less_nat_alt unat_of_nat) arith
  show ?thesis using r t l by (intro exI [of _ h']) (auto simp: via_entry_def)
qed

lemma via_setrate_pages:
  assumes t: "timer_runs (hw_io hw) cnt" and k: "ports_keep hw tab" and m: "mem_table hw (via_table v) 1024 tab"
    and p: "via_pci_dev v = Some c" and d: "via_dm v = Some dm" and b: "1024 \<le> unat (via_bufsize v)" "unat (via_bufsize v) \<le> 262144"
    and buf: "card_DMABUFF a = Some buf" "unat (via_bufsize v) \<le> length buf"
  shows "\<exists>a' n h'. VIA82XX_setrate hw fl vol (a, v, h) = Inr (a', v\<lparr>via_pages := n\<rparr>, h') \<and> dma_wf a'
    \<and> unat (card_dmasize a') = 512 * unat n \<and> 2 \<le> unat n \<and> 512 * unat n \<le> unat (via_bufsize v)
    \<and> (\<forall>i < unat n. tab h' (2 * i) = pds_cardmem_physicalptr dm (via_buffer v + of_nat i * 512)
        \<and> tab h' (2 * i + 1) = (if i + 1 = unat n then 0x80000000 else 0x40000000) OR 512)"
proof -
  define f where "f = (if freq_card a < 4000 then 4000 else if 48000 < freq_card a then 48000 else freq_card a)"
  define a0 where "a0 = a\<lparr>freq_card := f, chan_card := 2, bits_card := 16, card_wave_id := MPXPLAY_WAVEID_PCM_SLE\<rparr>"
  have fs: "card_framesize a0 = 4" by (simp add: a0_def card_framesize_def MPXPLAY_WAVEID_PCM_SLE_def MPXPLAY_WAVEID_PCM_FLOAT_def)
  have buf0: "card_DMABUFF a0 = Some buf" using buf(1) by (simp add: a0_def)
  obtain s a1 where s: "MDma_init_pcmoutbuf fl (via_bufsize v) PCMBUFFERPAGESIZE 0 a0 = Inr (s, a1)" "512 dvd unat s" "1024 \<le> unat s"
      "s \<le> via_bufsize v" "card_dmasize a1 = s" "dma_wf a1"
    using init_pcmoutbuf_ok [of PCMBUFFERPAGESIZE "via_bufsize v" a0 buf fl 0] b(1) buf0 buf(2) by (auto simp: fs)
  define n where "n = s div PCMBUFFERPAGESIZE"
  have n: "512 * unat n = unat s" using s(2) by (simp add: n_def unat_div)
  have n2: "2 \<le> unat n" "unat n \<le> 512" "512 * unat n \<le> unat (via_bufsize v)" using n s(3,4) b(2) by (auto simp: word_le_nat_alt)
  define w where "w = v\<lparr>via_pages := n\<rparr>"
  have w: "via_pci_dev w = Some c" "via_dm w = Some dm" "via_table w = via_table v" "via_pages w = n" "via_buffer w = via_buffer v"
    using p d by (simp_all add: w_def)
  have "0 < via_pages w" using n2(1) w(4) by (simp add: word_less_nat_alt)
  then obtain h1 where 1: "via_page_table hw w h = Inr h1" "\<forall>i < unat n. tab h1 (2 * i) = pds_cardmem_physicalptr dm (via_buffer v + of_nat i * 512) \<and>
      tab h1 (2 * i + 1) = (if i + 1 = unat n then 0x80000000 else 0x40000000) OR 512"
    using via_page_table_ok [of hw w tab dm h] m w n2(2) by auto
  obtain h2 where 2: "via_codec_rate hw f w h1 = Inr h2" "tab h2 = tab h1" using via_codec_rate_ok [OF t k w(1)] by blast
  obtain h3 where 3: "via82xx_channel_reset hw w h2 = Inr h3" "tab h3 = tab h2" using via_channel_reset_ok [OF t k w(1)] by blast
  obtain h4 where 4: "via82xx_set_table_ptr hw w h3 = Inr h4" "tab h4 = tab h3" using via_set_table_ptr_ok [OF t k w(2)] by blast
  obtain h5 where 5: "via_channel_type hw vol f w h4 = Inr h5" "tab h5 = tab h4" using via_channel_type_ok [OF k w(1)] by blast
  obtain h6 where 6: "hw_delay hw 2 h5 = Inr h6" "tab h6 = tab h5" using hw_delay_ok [OF t k] by blast
  obtain h7 where 7: "via82xx_AC97Codec_ready hw (via_iobase w) h6 = Inr h7" "tab h7 = tab h6" using via_ready_ok [OF t k] by blast
  have "VIA82XX_setrate hw fl vol (a, v, h) = Inr (a1, w, h7)"
    unfolding VIA82XX_setrate_def Let_def prod.case f_def [symmetric] a0_def [symmetric] s(1) bindE_simps n_def [symmetric] w_def [symmetric]
      1(1) 2(1) 3(1) 4(1) 5(1) 6(1) 7(1) ..
  moreover have "tab h7 = tab h1" using 2(2) 3(2) 4(2) 5(2) 6(2) 7(2) by simp
  ultimately show ?thesis using 1(2) s(5,6) n n2(1,3) unfolding w_def by (intro exI [of _ a1] exI [of _ n] exI [of _ h7]) simp
qed

lemma demo_ports: "ports_keep demo_hw dm_tab"
  by (simp add: ports_keep_def demo_hw_def)

lemma demo_memory: "mem_table demo_hw 0x2000 1024 dm_tab"
  unfolding mem_table_def
proof (intro allI impI)
  fix k :: nat and v h assume k: "k < 1024"
  have "unat (0x2000 + 4 * of_nat k :: u32) = 0x2000 + 4 * k" "unat (4 * of_nat k :: u32) = 4 * k"
    using k by (simp_all add: unat_word_ariths unat_of_nat)
  then show "dm_tab (hw_writel demo_hw (0x2000 + 4 * of_nat k) v h) = (dm_tab h)(k := v)"
    using k by (simp add: demo_hw_def word_le_nat_alt word_less_nat_alt unat_div)
qed

definition demo_via :: via82xx_card where
  "demo_via = via82xx_card_zero\<lparr>via_iobase := 0xE000, via_pci_dev := Some (pci_config_zero\<lparr>device_id := 0x3059\<rparr>), via_table := 0x2000,
    via_buffer := 0x3000, via_bufsize := 4096, via_pages := 8, via_dm := Some (xmsmem_zero\<lparr>physicalptr := 0x100000, linearptr := 0x2000\<rparr>)\<rparr>"



section \<open>Position and room\<close>

text \<open>What the registers of the two families say about a channel with \<open>c\<close> bytes of page \<open>i\<close> to go.\<close>

definition via_at :: "'h card_hw \<Rightarrow> via82xx_card \<Rightarrow> bool \<Rightarrow> u32 \<Rightarrow> u32 \<Rightarrow> u32 \<Rightarrow> 'h \<Rightarrow> 'h \<Rightarrow> bool" where
  "via_at hw v old table i c h h' = (\<exists>h1 x. via_inl hw (via_iobase v + 0x0C) h = (x, h1) \<and>
     (if old then x AND 0xFFFFFF = c \<and> via_inl hw (via_iobase v + 0x04) h1 = (table + 8 * (i + 1), h')
      else x = push_bit 24 i OR c \<and> h' = h1))"

lemma via_count_bits:
  assumes "i < 256" "c \<le> 512"
  shows "drop_bit 24 (push_bit 24 i OR c) = (i :: u32)" "(push_bit 24 i OR c) AND 0xFFFFFF = (c :: u32)"
proof -
  have i: "bit i n \<Longrightarrow> n < 8" for n
    using assms(1) bit_bound [of i 8 n] by (simp add: word_less_nat_alt)
  have c: "bit c n \<Longrightarrow> n < 10" for n
    using assms(2) bit_bound [of c 10 n] by (simp add: word_less_nat_alt word_le_nat_alt)
  have m: "(0xFFFFFF :: u32) = mask 24" by (simp add: mask_eq_exp_minus_1)
  show "drop_bit 24 (push_bit 24 i OR c) = i"
    by (rule bit_word_eqI) (auto simp: bit_simps dest: i c)
  show "(push_bit 24 i OR c) AND 0xFFFFFF = c"
    unfolding m by (rule bit_word_eqI) (auto simp: bit_simps dest: c)
qed

lemma via_index_at:
  assumes p: "via_pci_dev v = Some k" and d: "via_dm v = Some dm" and i: "i < via_pages v" "unat (via_pages v) \<le> 256" and c: "c \<le> 512"
    and w: "unat (pds_cardmem_physicalptr dm (via_table v)) + 4096 < 2 ^ 32"
    and r: "via_at hw v (device_id k = PCI_DEVICE_ID_VT82C686) (pds_cardmem_physicalptr dm (via_table v)) i c h h'"
  shows "\<exists>x. via_index hw v h = Inr (i, x, h') \<and> x AND 0xFFFFFF = c"
proof -
  define t where "t = pds_cardmem_physicalptr dm (via_table v)"
  have i': "unat i < unat (via_pages v)" "unat i < 256" using i by (simp_all add: word_less_nat_alt)
  obtain h1 x where x: "via_inl hw (via_iobase v + 0x0C) h = (x, h1)"
      "if device_id k = PCI_DEVICE_ID_VT82C686 then x AND 0xFFFFFF = c \<and> via_inl hw (via_iobase v + 0x04) h1 = (t + 8 * (i + 1), h')
       else x = push_bit 24 i OR c \<and> h' = h1"
    using r unfolding via_at_def t_def by blast
  show ?thesis
  proof (cases "device_id k = PCI_DEVICE_ID_VT82C686")
    case True
    have u: "unat (8 * (i + 1)) = 8 * (unat i + 1)" using i'(2) by (simp add: unat_word_ariths)
    have "unat (t + 8 * (i + 1)) = unat t + unat (8 * (i + 1))"
      using w i'(2) u unfolding t_def [symmetric] by (intro unat_plus_if' [THEN trans]) simp
    then have "\<not> t + 8 * (i + 1) \<le> t" using u by (simp add: word_le_nat_alt)
    moreover have "drop_bit 3 (8 * (i + 1)) = i + 1"
      using u i'(2) by (simp add: word_unat_eq_iff drop_bit_eq_div unat_div unat_word_ariths)
    moreover have "umod i (via_pages v) = Inr i"
      using i'(1) by (auto simp: umod_def word_unat_eq_iff unat_mod)
    ultimately show ?thesis
      using x True d unfolding via_index_def via_686_known [OF p] by (simp add: deref_def t_def [symmetric])
  next
    case False
    have "i < 256" using i'(2) by (simp add: word_less_nat_alt)
    then show ?thesis using x False via_count_bits [of i c] c unfolding via_index_def via_686_known [OF p] by simp
  qed
qed

text \<open>C18: The position of a VIA card: whichever way the chip family reports it (the address of the next entry of the list, or an
  index in the upper byte of the count), a channel that has \<open>c\<close> bytes of page \<open>i\<close> to go is at byte
  \<open>512 * i + (512 - c)\<close> of the ring, which is also stored as the last good position. There are two exceptions, both with nothing of
  the page to go: on the old chip (VT82C686) a count of nothing is not used at all, and on the new chips the end of the last page is outside the ring.
  In both the last good position stands and is returned. The channel is taken to be on one of the ring's pages (256 at most), at most a page before its end.\<close>

theorem via_position:
  assumes p: "via_pci_dev v = Some k" and d: "via_dm v = Some dm" and i: "i < via_pages v" "unat (via_pages v) \<le> 256"
    and n: "card_dmasize a = 512 * via_pages v" and c: "c \<le> 512"
    and w: "unat (pds_cardmem_physicalptr dm (via_table v)) + 4096 < 2 ^ 32"
    and r: "via_at hw v (device_id k = PCI_DEVICE_ID_VT82C686) (pds_cardmem_physicalptr dm (via_table v)) i c h h'"
  shows "VIA82XX_getbufpos hw (a, v, h) =
    (if c = 0 \<and> (device_id k = PCI_DEVICE_ID_VT82C686 \<or> i + 1 = via_pages v) then Inr (card_dma_lastgoodpos a, a, v, h')
    else Inr (512 * i + (512 - c), a\<lparr>card_dma_lastgoodpos := 512 * i + (512 - c)\<rparr>, v, h'))"
proof -
  obtain x where x: "via_index hw v h = Inr (i, x, h')" "x AND 0xFFFFFF = c" using via_index_at [OF p d i c w r] by blast
  have i': "unat i < unat (via_pages v)" "unat (via_pages v) \<le> 256" using i by (simp_all add: word_less_nat_alt)
  have e: "i * 512 + 512 - c = 512 * i + (512 - c)" by simp
  have u: "unat (512 * i + (512 - c)) = 512 * unat i + (512 - unat c)" "unat (512 * via_pages v) = 512 * unat (via_pages v)"
    "unat (i + 1) = unat i + 1"
    using i' c by (simp_all add: unat_word_ariths unat_sub word_le_nat_alt)
  have "unat c \<le> 512" using c by (simp add: word_le_nat_alt)
  then have l: "512 * i + (512 - c) < card_dmasize a \<longleftrightarrow> \<not> (c = 0 \<and> i + 1 = via_pages v)"
    unfolding n word_less_nat_alt u(1,2) word_unat_eq_iff [of "i + 1"] u(3) word_unat_eq_iff [of c] using i' by auto
  have t: "((device_id k \<noteq> PCI_DEVICE_ID_VT82C686 \<or> c \<noteq> 0) \<and> c \<le> 512 \<and> \<not> (c = 0 \<and> i + 1 = via_pages v))
      = (\<not> (c = 0 \<and> (device_id k = PCI_DEVICE_ID_VT82C686 \<or> i + 1 = via_pages v)))" using c by argo
  show ?thesis unfolding VIA82XX_getbufpos_def Let_def prod.case x bindE_simps via_686_known [OF p] e l t
    by (simp split: if_split_asm if_split del: de_Morgan_conj)
qed

theorem via_position_witness:
  "(\<forall>h. VIA82XX_getbufpos (demo_hw\<lparr>hw_inl := \<lambda>q h. (if q = 0xE00C then 0x02000100 else 0, h)\<rparr>) (aui0\<lparr>card_dmasize := 4096\<rparr>, demo_via, h)
      = Inr (1280, (aui0\<lparr>card_dmasize := 4096\<rparr>)\<lparr>card_dma_lastgoodpos := 1280\<rparr>, demo_via, h))
    \<and> (\<forall>h. VIA82XX_getbufpos (demo_hw\<lparr>hw_inl := \<lambda>q h. (if q = 0xE004 then 0x100018 else 0, h)\<rparr>)
        (aui0\<lparr>card_dmasize := 4096\<rparr>, demo_via\<lparr>via_pci_dev := Some (pci_config_zero\<lparr>device_id := PCI_DEVICE_ID_VT82C686\<rparr>)\<rparr>, h)
      = Inr (0, aui0\<lparr>card_dmasize := 4096\<rparr>, demo_via\<lparr>via_pci_dev := Some (pci_config_zero\<lparr>device_id := PCI_DEVICE_ID_VT82C686\<rparr>)\<rparr>, h))"
proof (intro conjI allI)
  fix h :: demo_machine
  show "VIA82XX_getbufpos (demo_hw\<lparr>hw_inl := \<lambda>q h. (if q = 0xE00C then 0x02000100 else 0, h)\<rparr>) (aui0\<lparr>card_dmasize := 4096\<rparr>, demo_via, h)
      = Inr (1280, (aui0\<lparr>card_dmasize := 4096\<rparr>)\<lparr>card_dma_lastgoodpos := 1280\<rparr>, demo_via, h)"
    by (subst via_position [where k = "pci_config_zero\<lparr>device_id := 0x3059\<rparr>" and dm = "xmsmem_zero\<lparr>physicalptr := 0x100000, linearptr := 0x2000\<rparr>"
          and i = 2 and c = 256])
      (simp_all add: demo_via_def via_at_def via_inl_def pds_cardmem_physicalptr_def via82xx_card_zero_def)
next
  fix h :: demo_machine
  show "VIA82XX_getbufpos (demo_hw\<lparr>hw_inl := \<lambda>q h. (if q = 0xE004 then 0x100018 else 0, h)\<rparr>)
        (aui0\<lparr>card_dmasize := 4096\<rparr>, demo_via\<lparr>via_pci_dev := Some (pci_config_zero\<lparr>device_id := PCI_DEVICE_ID_VT82C686\<rparr>)\<rparr>, h)
      = Inr (0, aui0\<lparr>card_dmasize := 4096\<rparr>, demo_via\<lparr>via_pci_dev := Some (pci_config_zero\<lparr>device_id := PCI_DEVICE_ID_VT82C686\<rparr>)\<rparr>, h)"
    by (subst via_position [where k = "pci_config_zero\<lparr>device_id := PCI_DEVICE_ID_VT82C686\<rparr>"
          and dm = "xmsmem_zero\<lparr>physicalptr := 0x100000, linearptr := 0x2000\<rparr>" and i = 2 and c = 0])
      (simp_all add: demo_via_def via_at_def via_inl_def pds_cardmem_physicalptr_def via82xx_card_zero_def aui0_def)
qed

text \<open>Whatever the registers say, the position stays in the ring: the contract of the output layer.\<close>

definition via_ready :: "'h via au_globals \<Rightarrow> bool" where
  "via_ready g = (\<exists>v. private_data (device g) = Some v \<and> via_pci_dev v \<noteq> None \<and> via_dm v \<noteq> None \<and> via_pages v \<noteq> 0)"

lemma via_index_ok:
  assumes "via_pci_dev v \<noteq> None" "via_dm v \<noteq> None" "via_pages v \<noteq> 0"
  shows "\<exists>i x h'. via_index hw v h = Inr (i, x, h')"
proof -
  obtain k dm where k: "via_pci_dev v = Some k" "via_dm v = Some dm" using assms(1,2) by blast
  obtain x h1 where 1: "via_inl hw (via_iobase v + 0x0C) h = (x, h1)" by (rule prod.exhaust)
  obtain q h2 where 2: "via_inl hw (via_iobase v + 0x04) h1 = (q, h2)" by (rule prod.exhaust)
  show ?thesis unfolding via_index_def via_686_known [OF k(1)] bindE_simps 1 Let_def prod.case 2 k(2) deref_def option.case umod_def
    using assms(3) by simp
qed

interpretation via: card_position "ask_play (VIA82XX_getbufpos hw)" via_ready
proof
  fix a :: mpxplay_audioout_info and g :: "'a via au_globals"
  assume good: "good_position a" and r: "via_ready g"
  then obtain v where v: "private_data (device g) = Some v" "via_pci_dev v \<noteq> None" "via_dm v \<noteq> None" "via_pages v \<noteq> 0"
    by (auto simp: via_ready_def)
  obtain k where k: "via_pci_dev v = Some k" using v(2) by blast
  obtain i x h' where x: "via_index hw v (machine (device g)) = Inr (i, x, h')" using via_index_ok [OF v(2-4), of hw "machine (device g)"] by blast
  define q where "q = i * PCMBUFFERPAGESIZE + PCMBUFFERPAGESIZE - (x AND 0xFFFFFF)"
  define a' where "a' = (if (device_id k \<noteq> PCI_DEVICE_ID_VT82C686 \<or> x AND 0xFFFFFF \<noteq> 0) \<and> x AND 0xFFFFFF \<le> PCMBUFFERPAGESIZE \<and> q < card_dmasize a
    then a\<lparr>card_dma_lastgoodpos := q\<rparr> else a)"
  have l: "VIA82XX_getbufpos hw (a, v, machine (device g)) = Inr (card_dma_lastgoodpos a', a', v, h')"
    unfolding VIA82XX_getbufpos_def Let_def prod.case x bindE_simps via_686_known [OF k] q_def [symmetric] a'_def ..
  have s: "pos_same a a'"
  proof (cases "q < card_dmasize a")
    case True
    have "pos_same a (a\<lparr>card_dma_lastgoodpos := q\<rparr>)" unfolding pos_same_def
      by (intro exI [of _ "card_DMABUFF a"] exI [of _ "card_infobits a"] exI [of _ q]) (simp add: True)
    then show ?thesis using pos_same_refl [OF good] by (simp add: a'_def)
  qed (use pos_same_refl [OF good] in \<open>simp add: a'_def\<close>)
  then have "card_dma_lastgoodpos a' < card_dmasize a" by (auto simp: pos_same_def)
  then show "\<exists>p a' g'. ask_play (VIA82XX_getbufpos hw) (a, g) = Inr (p, a', g') \<and> p < card_dmasize a \<and> pos_same a a' \<and> via_ready g'"
    using l v s by (intro exI [of _ "card_dma_lastgoodpos a'"] exI [of _ a']
        exI [of _ "g\<lparr>device := (device g)\<lparr>private_data := Some v, machine := h'\<rparr>\<rparr>"])
      (simp add: ask_play_def deref_def via_ready_def)
qed

lemma via_room:
  assumes good: "good_position a" and r: "via_ready g" and b: "card_bytespersign a \<noteq> 0"
    and o: "card_outbytes a \<le> card_dmasize a" and i: "funcbit_test (card_infobits a) AUINFOS_CARDINFOBIT_PLAYING"
    and prot: "buffer_protection (card_bytespersign a) = Inr prot"
  shows "\<exists>r a' g' p. AU_cardbuf_space (Some (VIA82XX_sndcard_info env)) (a, g) = Inr (r, a', g') \<and> good_position a' \<and> via_ready g'
    \<and> p < card_dmasize a \<and> card_dmasize a' = card_dmasize a \<and> card_dmaspace a' = ring_room p a' \<and> card_dmaspace a' \<le> card_dmasize a
    \<and> card_dmafilled a' = card_dmasize a - card_dmaspace a'
    \<and> r = (if prot < card_dmaspace a' then card_dmaspace a' - prot else 0)"
  by (rule via.room [OF good r b o i _ _ prot, where hw = "ce_hw env"])
    (simp_all add: VIA82XX_sndcard_info_def funcbit_test_def SNDCARD_LOWLEVELHAND_def SNDCARD_CARDBUF_SPACE_def)

end
