(* ===== verification/Es1371.thy ===== *)
theory Es1371
  imports Ac97
begin

text \<open>
  The driver of the Ensoniq ES1371 and ES1373 (\<open>mpxplay/au_cards/sc_e1371.c\<close>). The chip has a memory of its own for the sample rate
  converter, reached through one port, and a codec that may be accessed only at certain times; all waits are bounded numbers of polls. Messages are
  left out.
\<close>

section \<open>State\<close>

record ensoniq_card =
  es_infobits :: u32
  es_port :: u32
  es_irq :: u32
  es_chiprev :: u32
  es_pci_dev :: "pci_config option"
  es_dm :: "xmsmem option"
  es_buffer :: u32
  es_bufsize :: u32
  es_ctrl :: u32
  es_sctrl :: u32
  es_cssr :: u32

definition ensoniq_card_zero :: ensoniq_card where
  "ensoniq_card_zero = \<lparr>es_infobits = 0, es_port = 0, es_irq = 0, es_chiprev = 0, es_pci_dev = None, es_dm = None, es_buffer = 0,
    es_bufsize = 0, es_ctrl = 0, es_sctrl = 0, es_cssr = 0\<rparr>"

type_synonym 'h es = "(ensoniq_card, 'h) card_dev"

abbreviation (input) ES1371_DMABUF_ALIGN :: u32 where "ES1371_DMABUF_ALIGN \<equiv> 256"
abbreviation (input) POLL_COUNT :: nat where "POLL_COUNT \<equiv> 0xF000"
abbreviation (input) ES_REG_CONTROL :: u32 where "ES_REG_CONTROL \<equiv> 0x00"
abbreviation (input) ES_REG_STATUS :: u32 where "ES_REG_STATUS \<equiv> 0x04"
abbreviation (input) ES_REG_MEM_PAGE :: u32 where "ES_REG_MEM_PAGE \<equiv> 0x0C"
abbreviation (input) ES_REG_1371_SMPRATE :: u32 where "ES_REG_1371_SMPRATE \<equiv> 0x10"
abbreviation (input) ES_REG_1371_CODEC :: u32 where "ES_REG_1371_CODEC \<equiv> 0x14"
abbreviation (input) ES_REG_SERIAL :: u32 where "ES_REG_SERIAL \<equiv> 0x20"
abbreviation (input) ES_REG_DAC1_COUNT :: u32 where "ES_REG_DAC1_COUNT \<equiv> 0x24"
abbreviation (input) ES_REG_DAC1_FRAME :: u32 where "ES_REG_DAC1_FRAME \<equiv> 0x30"
abbreviation (input) ES_REG_DAC1_SIZE :: u32 where "ES_REG_DAC1_SIZE \<equiv> 0x34"
abbreviation (input) ES_DAC1_EN :: u32 where "ES_DAC1_EN \<equiv> 0x40"
abbreviation (input) ES_1371_ST_AC97_RST :: u32 where "ES_1371_ST_AC97_RST \<equiv> 0x20000000"
abbreviation (input) ES_1371_SRC_DISABLE :: u32 where "ES_1371_SRC_DISABLE \<equiv> 0x400000"
abbreviation (input) ES_1371_DIS_P1 :: u32 where "ES_1371_DIS_P1 \<equiv> 0x200000"
abbreviation (input) ES_1371_DIS_P2 :: u32 where "ES_1371_DIS_P2 \<equiv> 0x100000"
abbreviation (input) ES_1371_DIS_R1 :: u32 where "ES_1371_DIS_R1 \<equiv> 0x80000"
abbreviation (input) ES_1371_CODEC_WIP :: u32 where "ES_1371_CODEC_WIP \<equiv> 0x40000000"
abbreviation (input) ES_1371_CODEC_RDY :: u32 where "ES_1371_CODEC_RDY \<equiv> 0x80000000"
abbreviation (input) ES_P1_PAUSE :: u32 where "ES_P1_PAUSE \<equiv> 0x800"

definition es_outl :: "'h card_hw \<Rightarrow> ensoniq_card \<Rightarrow> u32 \<Rightarrow> u32 \<Rightarrow> 'h \<Rightarrow> 'h" where "es_outl hw e r x = hw_outl hw (ucast (es_port e + r)) x"
definition es_outb :: "'h card_hw \<Rightarrow> ensoniq_card \<Rightarrow> u32 \<Rightarrow> u8 \<Rightarrow> 'h \<Rightarrow> 'h" where "es_outb hw e r x = hw_outb hw (ucast (es_port e + r)) x"
definition es_inl :: "'h card_hw \<Rightarrow> ensoniq_card \<Rightarrow> u32 \<Rightarrow> 'h \<Rightarrow> u32 \<times> 'h" where "es_inl hw e r = hw_inl hw (ucast (es_port e + r))"

section \<open>Sample rate converter\<close>

text \<open>At most \<open>n\<close> reads of a register until a condition holds: whether it did, and the last value.\<close>

primrec es_poll :: "'h card_hw \<Rightarrow> ensoniq_card \<Rightarrow> u32 \<Rightarrow> (u32 \<Rightarrow> bool) \<Rightarrow> nat \<Rightarrow> u32 \<Rightarrow> 'h \<Rightarrow> bool \<times> u32 \<times> 'h" where
  "es_poll hw e r test 0 x h = (False, x, h)"
| "es_poll hw e r test (Suc n) x h = (let (x, h) = es_inl hw e r h in if test x then (True, x, h) else es_poll hw e r test n x h)"

definition snd_es1371_wait_src_ready :: "'h card_hw \<Rightarrow> ensoniq_card \<Rightarrow> 'h \<Rightarrow> u32 \<times> 'h" where
  "snd_es1371_wait_src_ready hw e h =
    (let (ok, r, h) = es_poll hw e ES_REG_1371_SMPRATE (\<lambda>r. r AND 0x800000 = 0) POLL_COUNT 0 h in (if ok then r else 0, h))"

definition ES_1371_SRC_RAM_ADDRO :: "u32 \<Rightarrow> u32" where "ES_1371_SRC_RAM_ADDRO r = push_bit 25 (r AND 0x7F)"

abbreviation (input) SRC_KEPT :: u32 where
  "SRC_KEPT \<equiv> ES_1371_SRC_DISABLE OR ES_1371_DIS_P1 OR ES_1371_DIS_P2 OR ES_1371_DIS_R1"

definition snd_es1371_src_read :: "'h card_hw \<Rightarrow> ensoniq_card \<Rightarrow> u16 \<Rightarrow> 'h \<Rightarrow> u32 \<times> 'h" where
  "snd_es1371_src_read hw e reg h =
    (let (orig, h) = snd_es1371_wait_src_ready hw e h;
         h = es_outl hw e ES_REG_1371_SMPRATE ((orig AND SRC_KEPT) OR (ES_1371_SRC_RAM_ADDRO (ucast reg) OR 0x10000)) h;
         (temp, h) = snd_es1371_wait_src_ready hw e h;
         (temp, h) = (if temp AND 0x00870000 \<noteq> 0x00010000
           then snd (es_poll hw e ES_REG_1371_SMPRATE (\<lambda>r. r AND 0x00870000 = 0x00010000) POLL_COUNT temp h) else (temp, h))
     in (temp, es_outl hw e ES_REG_1371_SMPRATE ((orig AND SRC_KEPT) OR ES_1371_SRC_RAM_ADDRO (ucast reg)) h))"

definition snd_es1371_src_write :: "'h card_hw \<Rightarrow> ensoniq_card \<Rightarrow> u16 \<Rightarrow> u16 \<Rightarrow> 'h \<Rightarrow> 'h" where
  "snd_es1371_src_write hw e reg x h =
    (let (r, h) = snd_es1371_wait_src_ready hw e h
     in es_outl hw e ES_REG_1371_SMPRATE (((r AND SRC_KEPT) OR (ES_1371_SRC_RAM_ADDRO (ucast reg) OR ucast x)) OR 0x1000000) h)"

section \<open>The codec\<close>

text \<open>The access at a safe time: from the state of the converter, over its states 0 and 1, to the write of the codec register; then the
  register of the converter is restored.\<close>

definition es_codec_access :: "'h card_hw \<Rightarrow> ensoniq_card \<Rightarrow> u32 \<Rightarrow> 'h \<Rightarrow> 'h" where
  "es_codec_access hw e w h =
    (let (x, h) = snd_es1371_wait_src_ready hw e h;
         h = es_outl hw e ES_REG_1371_SMPRATE ((x AND SRC_KEPT) OR 0x00010000) h;
         (_, _, h) = es_poll hw e ES_REG_1371_SMPRATE (\<lambda>r. r AND 0x00870000 = 0) POLL_COUNT 0 h;
         (_, _, h) = es_poll hw e ES_REG_1371_SMPRATE (\<lambda>r. r AND 0x00870000 = 0x00010000) POLL_COUNT 0 h;
         h = es_outl hw e ES_REG_1371_CODEC w h;
         (_, h) = snd_es1371_wait_src_ready hw e h
     in es_outl hw e ES_REG_1371_SMPRATE x h)"

definition ES_1371_CODEC_WRITE :: "u16 \<Rightarrow> u16 \<Rightarrow> u32" where
  "ES_1371_CODEC_WRITE a d = push_bit 16 (ucast a AND 0x7F) OR (ucast d AND 0xFFFF)"

definition ES_1371_CODEC_READS :: "u16 \<Rightarrow> u32" where
  "ES_1371_CODEC_READS a = push_bit 16 (ucast a AND 0x7F) OR 0x800000"

definition es_codec_idle :: "'h card_hw \<Rightarrow> ensoniq_card \<Rightarrow> 'h \<Rightarrow> bool \<times> u32 \<times> 'h" where
  "es_codec_idle hw e h = es_poll hw e ES_REG_1371_CODEC (\<lambda>r. r AND ES_1371_CODEC_WIP = 0) POLL_COUNT 0 h"

definition snd_es1371_codec_write :: "'h card_hw \<Rightarrow> ensoniq_card \<Rightarrow> u16 \<Rightarrow> u16 \<Rightarrow> 'h \<Rightarrow> 'h" where
  "snd_es1371_codec_write hw e reg x h =
    (let (ok, _, h) = es_codec_idle hw e h in if ok then es_codec_access hw e (ES_1371_CODEC_WRITE reg x) h else h)"

text \<open>The attempts to read, until the codec answers: at most 11.\<close>

primrec es_codec_tries :: "'h card_hw \<Rightarrow> ensoniq_card \<Rightarrow> u16 \<Rightarrow> nat \<Rightarrow> 'h \<Rightarrow> u16 \<times> 'h" where
  "es_codec_tries hw e reg 0 h = (0, h)"
| "es_codec_tries hw e reg (Suc n) h =
    (let (ok, _, h) = es_codec_idle hw e h in
     if \<not> ok then (0, h)
     else let h = es_codec_access hw e (ES_1371_CODEC_READS reg) h;
              (_, _, h) = es_codec_idle hw e h;
              (ok, x, h) = es_poll hw e ES_REG_1371_CODEC (\<lambda>r. r AND ES_1371_CODEC_RDY \<noteq> 0) POLL_COUNT 0 h in
       if ok then (ucast (x AND 0xFFFF), h) else es_codec_tries hw e reg n h)"

definition snd_es1371_codec_read :: "'h card_hw \<Rightarrow> ensoniq_card \<Rightarrow> u16 \<Rightarrow> 'h \<Rightarrow> u16 \<times> 'h" where
  "snd_es1371_codec_read hw e reg h = es_codec_tries hw e reg 11 h"

section \<open>Rates\<close>

text \<open>The integer part of a rate is in the upper 6 bits of one word, its fraction in another.\<close>

definition es_src_rate :: "'h card_hw \<Rightarrow> ensoniq_card \<Rightarrow> u16 \<Rightarrow> u32 \<Rightarrow> 'h \<Rightarrow> 'h" where
  "es_src_rate hw e reg freq h =
    (let (x, h) = snd_es1371_src_read hw e (reg + 0x01) h;
         h = snd_es1371_src_write hw e (reg + 0x01) (ucast ((x AND 0x00FF) OR (drop_bit 5 freq AND 0xFC00))) h
     in snd_es1371_src_write hw e (reg + 0x03) (ucast (freq AND 0x7FFF)) h)"

definition snd_es1371_adc_rate :: "'h card_hw \<Rightarrow> ensoniq_card \<Rightarrow> u32 \<Rightarrow> 'h \<Rightarrow> 'h res" where
  "snd_es1371_adc_rate hw e rate h =
    (let n = rate div 3000 in
     if 32 \<le> n then Inl Bad_shift
     else
       (let n = (if push_bit (unat n) 1 AND (0x8000 OR 0x2000 OR 0x800 OR 0x200) \<noteq> (0 :: u32) then n - 1 else n);
            truncm = (21 * n - 1) OR 1 in
        bindE (udiv (push_bit 15 48000) rate) (\<lambda>q.
        (let freq = q * n in
         bindE (udiv freq n) (\<lambda>q.
         bindE (udiv (push_bit 15 48000) q) (\<lambda>_.
         (let h = (if 24000 \<le> rate
               then snd_es1371_src_write hw e 0x78 (ucast (push_bit 9 (drop_bit 1 (239 - min truncm 239)) OR push_bit 4 n)) h
               else snd_es1371_src_write hw e 0x78 (ucast (0x8000 OR push_bit 9 (drop_bit 1 (119 - min truncm 119)) OR push_bit 4 n)) h);
              h = es_src_rate hw e 0x78 freq h;
              h = snd_es1371_src_write hw e 0x6C (ucast (push_bit 8 n)) h
          in Inr (snd_es1371_src_write hw e (0x6C + 1) (ucast (push_bit 8 n)) h))))))))"

text \<open>While the rate of a playback channel changes, its accumulator is stopped.\<close>

definition es_playback_rate :: "'h card_hw \<Rightarrow> ensoniq_card \<Rightarrow> u16 \<Rightarrow> u32 \<Rightarrow> u32 \<Rightarrow> u32 \<Rightarrow> 'h \<Rightarrow> 'h" where
  "es_playback_rate hw e reg own other rate h =
    (let freq = (push_bit 15 rate + 1500) div 3000;
         (r, h) = snd_es1371_wait_src_ready hw e h;
         h = es_outl hw e ES_REG_1371_SMPRATE ((r AND (ES_1371_SRC_DISABLE OR other OR ES_1371_DIS_R1)) OR own) h;
         h = es_src_rate hw e reg freq h;
         (r, h) = snd_es1371_wait_src_ready hw e h
     in es_outl hw e ES_REG_1371_SMPRATE (r AND (ES_1371_SRC_DISABLE OR other OR ES_1371_DIS_R1)) h)"

definition snd_es1371_dac1_rate :: "'h card_hw \<Rightarrow> ensoniq_card \<Rightarrow> u32 \<Rightarrow> 'h \<Rightarrow> 'h" where
  "snd_es1371_dac1_rate hw e = es_playback_rate hw e 0x70 ES_1371_DIS_P1 ES_1371_DIS_P2"

definition snd_es1371_dac2_rate :: "'h card_hw \<Rightarrow> ensoniq_card \<Rightarrow> u32 \<Rightarrow> 'h \<Rightarrow> 'h" where
  "snd_es1371_dac2_rate hw e = es_playback_rate hw e 0x74 ES_1371_DIS_P2 ES_1371_DIS_P1"

section \<open>The chip\<close>

definition es_src_writes :: "'h card_hw \<Rightarrow> ensoniq_card \<Rightarrow> (u16 \<times> u16) list \<Rightarrow> 'h \<Rightarrow> 'h" where
  "es_src_writes hw e ws h = fold (\<lambda>w. snd_es1371_src_write hw e (fst w) (snd w)) ws h"

definition es_wait :: "'h card_hw \<Rightarrow> ensoniq_card \<Rightarrow> 'h \<Rightarrow> 'h" where
  "es_wait hw e h = snd (snd_es1371_wait_src_ready hw e h)"

text \<open>The resets of the codec link: the cold one on the newer chips, the warm one on all.\<close>

definition es_link_reset :: "'h card_hw \<Rightarrow> ensoniq_card \<Rightarrow> 'h \<Rightarrow> 'h res" where
  "es_link_reset hw e h =
    bindE (if funcbit_test (es_infobits e) 1 then
        bindE (hw_delay hw (20 * 100) (es_outl hw e ES_REG_STATUS (es_cssr e) h)) (\<lambda>h. Inr (es_wait hw e h))
      else Inr h) (\<lambda>h.
    (let h = es_outl hw e ES_REG_CONTROL (es_ctrl e OR 0x4000) h;
         (_, h) = es_inl hw e ES_REG_CONTROL h in
     bindE (hw_delay hw 3 h) (\<lambda>h. Inr (es_wait hw e (es_outl hw e ES_REG_CONTROL (es_ctrl e) h)))))"

text \<open>The memory of the converter is cleared and filled.\<close>

definition es_src_init :: "'h card_hw \<Rightarrow> ensoniq_card \<Rightarrow> 'h \<Rightarrow> 'h res" where
  "es_src_init hw e h =
    (let h = es_outl hw e ES_REG_1371_SMPRATE ES_1371_SRC_DISABLE h;
         h = es_src_writes hw e (map (\<lambda>i. (of_nat i, 0)) [0..<0x80]) h;
         h = es_src_writes hw e [(0x70, push_bit 4 16), (0x71, push_bit 10 16), (0x74, push_bit 4 16), (0x75, push_bit 10 16),
           (0x6C, 0x1000), (0x6D, 0x1000), (0x7C, 0x1000), (0x7D, 0x1000), (0x7E, 0x1000), (0x7F, 0x1000)] h in
     bindE (snd_es1371_adc_rate hw e 22050 h) (\<lambda>h.
     Inr (es_wait hw e (snd_es1371_dac2_rate hw e 22050 (snd_es1371_dac1_rate hw e 22050 h)))))"

definition snd_es1371_chip_init :: "'h card_hw \<Rightarrow> ensoniq_card \<Rightarrow> 'h \<Rightarrow> 'h res" where
  "snd_es1371_chip_init hw e h =
    (let h = es_outl hw e ES_REG_CONTROL (es_ctrl e) h;
         h = es_outl hw e ES_REG_SERIAL (es_sctrl e) h;
         h = es_outl hw e 0x18 0 h in
     bindE (es_link_reset hw e h) (\<lambda>h.
     bindE (es_src_init hw e h) (\<lambda>h.
     (let h = es_wait hw e (es_outl hw e ES_REG_1371_SMPRATE 0 h);
          h = es_wait hw e (es_outl hw e ES_REG_1371_CODEC (ES_1371_CODEC_WRITE 0 0) h);
          h = es_wait hw e (es_outb hw e 0x0A 0 (es_outb hw e 0x09 0 h))
      in Inr (es_wait hw e (es_outl hw e ES_REG_STATUS (es_cssr e) h))))))"

definition snd_es1371_chip_close :: "'h card_hw \<Rightarrow> ensoniq_card \<Rightarrow> 'h \<Rightarrow> 'h" where
  "snd_es1371_chip_close hw e h = es_outl hw e ES_REG_SERIAL 0 (es_outl hw e ES_REG_CONTROL 0 h)"

definition snd_es1371_ac97_init :: "'h card_hw \<Rightarrow> ensoniq_card \<Rightarrow> 'h \<Rightarrow> 'h" where
  "snd_es1371_ac97_init hw e h = fold (\<lambda>w. snd_es1371_codec_write hw e (fst w) (snd w))
    [(0x02, 0x3333), (0x18, 0x1F1F), (0x04, 0x0404), (0x12, 0x0404), (0x2A, 0x4)] h"

section \<open>Detection and release\<close>

definition ensoniq_devices :: "pci_device list" where
  "ensoniq_devices = [\<lparr>pd_name = ''ES1371'', pd_vendor = 0x1274, pd_device = 0x1371, pd_type = 0\<rparr>,
    \<lparr>pd_name = ''ES1373'', pd_vendor = 0x1274, pd_device = 0x5880, pd_type = 0\<rparr>,
    \<lparr>pd_name = ''EV1938'', pd_vendor = 0x1102, pd_device = 0x8938, pd_type = 0\<rparr>,
    \<lparr>pd_name = [], pd_vendor = 0, pd_device = 0, pd_type = 0\<rparr>]"

definition amplifier_hack_devices :: "pci_device list" where
  "amplifier_hack_devices = [\<lparr>pd_name = '' '', pd_vendor = 0x107B, pd_device = 0x2150, pd_type = 0\<rparr>,
    \<lparr>pd_name = '' '', pd_vendor = 0x13BD, pd_device = 0x100C, pd_type = 0\<rparr>,
    \<lparr>pd_name = '' '', pd_vendor = 0x1102, pd_device = 0x5938, pd_type = 0\<rparr>,
    \<lparr>pd_name = '' '', pd_vendor = 0x1102, pd_device = 0x8938, pd_type = 0\<rparr>,
    \<lparr>pd_name = [], pd_vendor = 0, pd_device = 0, pd_type = 0\<rparr>]"

type_synonym 'h es_au = "mpxplay_audioout_info \<times> 'h es"

definition ES1371_close :: "'h card_env \<Rightarrow> 'h es \<Rightarrow> 'h es" where
  "ES1371_close env d = (case private_data d of None \<Rightarrow> d
    | Some e \<Rightarrow>
        (let h = snd_es1371_chip_close (ce_hw env) e (machine d);
             (xr, h) = MDma_free_cardmem (ce_host env) (b_ops (ce_bios env)) (es_dm e) (xms_regs d, h)
         in d\<lparr>private_data := None, machine := h, xms_regs := xr\<rparr>))"

definition snd_es1371_buffer_init :: "'h card_env \<Rightarrow> ensoniq_card \<Rightarrow> mpxplay_audioout_info \<Rightarrow> DPMI_REG \<times> 'h \<Rightarrow>
    (ensoniq_card \<times> mpxplay_audioout_info \<times> DPMI_REG \<times> 'h) res" where
  "snd_es1371_buffer_init env e a w =
    bindE (MDma_get_max_pcmoutbufsize (card_controlbits a) 0 ES1371_DMABUF_ALIGN 2 0) (\<lambda>n.
    bindE (MDma_alloc_cardmem (ce_host env) (b_ops (ce_bios env)) (ce_calloc env ''cardmem_t'') n w) (\<lambda>(dm, w).
    Inr (e\<lparr>es_bufsize := n, es_dm := Some dm, es_buffer := linearptr dm\<rparr>, a\<lparr>card_DMABUFF := Some (replicate (unat n) 0)\<rparr>, w)))"

text \<open>The chips whose codec needs a cold reset.\<close>

definition es_reset_hack :: "pci_config \<Rightarrow> u32 \<Rightarrow> bool" where
  "es_reset_hack k chip = (vendor_id k = 0x1274 \<and>
    ((device_id k = 0x1371 \<and> (chip = 0x07 \<or> chip = 0x08)) \<or> (device_id k = 0x5880 \<and> (chip = 0x02 \<or> chip = 0x03 \<or> chip = 0x04))))"

definition es_identify :: "'h card_env \<Rightarrow> pci_config \<Rightarrow> ensoniq_card \<Rightarrow> 'h \<Rightarrow> (ensoniq_card \<times> 'h) res" where
  "es_identify env k e h =
    (let io = b_pci (ce_bios env);
         (irq, h) = pcibios_ReadConfig_Byte io k PCIR_INTR_LN h;
         (rev, h) = pcibios_ReadConfig_Byte io k 0x08 h;
         e = e\<lparr>es_irq := ucast irq, es_chiprev := ucast rev\<rparr>;
         e = (if es_reset_hack k (es_chiprev e) then e\<lparr>es_infobits := funcbit_enable (es_infobits e) 1,
             es_sctrl := funcbit_enable (es_sctrl e) ES_1371_ST_AC97_RST\<rparr> else e) in
     bindE (pcibios_search_devices (ce_bios env) amplifier_hack_devices None h) (\<lambda>(ah, _, h).
     (let e = (if ah = PCI_SUCCESSFUL then e\<lparr>es_ctrl := funcbit_enable (es_ctrl e) (push_bit 16 (1 AND 0x0F))\<rparr> else e)
      in Inr (e\<lparr>es_port := es_port e AND 0xFFF0\<rparr>, h))))"

definition ES1371_detected :: "'h card_env \<Rightarrow> pci_config \<Rightarrow> ensoniq_card \<Rightarrow> 'h es_au \<Rightarrow> 'h es_au res" where
  "ES1371_detected env k e s =
    (let (a, d) = s in
     bindE (es_identify env k e (machine d)) (\<lambda>(e, h).
     bindE (snd_es1371_buffer_init env e (a\<lparr>card_irq := ucast (es_irq e)\<rparr>) (xms_regs d, h)) (\<lambda>(e, a, xr, h).
     bindE (snd_es1371_chip_init (ce_hw env) e h) (\<lambda>h.
     Inr (a, d\<lparr>private_data := Some e, aui_pci_dev := Some k, machine := snd_es1371_ac97_init (ce_hw env) e h, xms_regs := xr\<rparr>)))))"

definition ES1371_adetect :: "'h card_env \<Rightarrow> 'h es_au \<Rightarrow> (bool \<times> 'h es_au) res" where
  "ES1371_adetect env s =
    (let (a, d) = s; e = ensoniq_card_zero; io = b_pci (ce_bios env);
         failed = (\<lambda>e h. Inr (False, a, ES1371_close env (d\<lparr>private_data := Some e, machine := h\<rparr>))) in
     if \<not> ce_calloc env ''ensoniq_card_s'' then Inr (False, s)
     else if \<not> ce_calloc env ''pci_config_s'' then failed e (machine d)
     else bindE (pcibios_search_devices (ce_bios env) ensoniq_devices (Some pci_config_zero) (machine d)) (\<lambda>(ah, key, h).
       bindE (deref key) (\<lambda>k.
       (let e = e\<lparr>es_pci_dev := Some k\<rparr> in
        if ah \<noteq> PCI_SUCCESSFUL then failed e h
        else
          (let h = pcibios_set_master io k h;
               (bar, h) = pcibios_ReadConfig_Dword io k 0x10 h;
               e = e\<lparr>es_port := bar\<rparr> in
           if bar = 0 then failed e h
           else bindE (ES1371_detected env k e (a, d\<lparr>machine := h\<rparr>)) (\<lambda>s. Inr (True, s)))))))"

section \<open>Playback\<close>

definition es_frame_registers :: "'h card_hw \<Rightarrow> ensoniq_card \<Rightarrow> xmsmem \<Rightarrow> u32 \<Rightarrow> 'h \<Rightarrow> 'h" where
  "es_frame_registers hw e dm ringsize h =
    (let h = es_outl hw e ES_REG_CONTROL (es_ctrl e) h;
         h = es_outl hw e ES_REG_MEM_PAGE 0x0C h;
         h = es_outl hw e ES_REG_DAC1_FRAME (pds_cardmem_physicalptr dm (es_buffer e)) h
     in es_outl hw e ES_REG_DAC1_SIZE (drop_bit 2 ringsize - 1) h)"

definition snd_es1371_prepare_playback :: "'h card_hw \<Rightarrow> (ensoniq_card, 'h) play \<Rightarrow> (ensoniq_card, 'h) play res" where
  "snd_es1371_prepare_playback hw s =
    (let (a, e, h) = s; e = e\<lparr>es_ctrl := funcbit_disable (es_ctrl e) ES_DAC1_EN\<rparr> in
     bindE (deref (es_dm e)) (\<lambda>dm.
     (let h = es_frame_registers hw e dm (card_dmasize a) h;
          e = e\<lparr>es_sctrl := funcbit_enable (funcbit_disable (es_sctrl e) (0x2000 OR ES_P1_PAUSE OR 0x80 OR 0x03)) 0x03\<rparr>;
          h = es_outl hw e ES_REG_SERIAL (es_sctrl e) h;
          periods = max 1 (card_dmasize a div ES1371_DMABUF_ALIGN);
          h = es_outl hw e ES_REG_DAC1_COUNT (drop_bit 2 (card_dmasize a div periods) - 1) h;
          a = a\<lparr>card_samples_per_int := uint (ES1371_DMABUF_ALIGN div 4)\<rparr>;
          h = es_outl hw e ES_REG_CONTROL (es_ctrl e) h
      in Inr (a, e, snd_es1371_dac1_rate hw e (freq_card a) h))))"

definition ES1371_setrate :: "'h card_hw \<Rightarrow> float_ops \<Rightarrow> (ensoniq_card, 'h) play \<Rightarrow> (ensoniq_card, 'h) play res" where
  "ES1371_setrate hw fl s =
    (let (a, e, h) = s; a = a\<lparr>card_wave_id := MPXPLAY_WAVEID_PCM_SLE, chan_card := 2, bits_card := 16\<rparr>;
         a = a\<lparr>freq_card := (if freq_card a < 3000 then 3000 else if 48000 < freq_card a then 48000 else freq_card a)\<rparr> in
     bindE (MDma_init_pcmoutbuf fl (es_bufsize e) ES1371_DMABUF_ALIGN 0 a) (\<lambda>(n, a). snd_es1371_prepare_playback hw (a, e, h)))"

definition ES1371_start :: "'h card_hw \<Rightarrow> (ensoniq_card, 'h) play \<Rightarrow> (ensoniq_card, 'h) play" where
  "ES1371_start hw s =
    (let (a, e, h) = s; e = e\<lparr>es_ctrl := funcbit_enable (es_ctrl e) ES_DAC1_EN\<rparr>;
         h = es_outl hw e ES_REG_CONTROL (es_ctrl e) h;
         e = e\<lparr>es_sctrl := funcbit_enable (funcbit_disable (es_sctrl e) ES_P1_PAUSE) (0x100 OR 0x200)\<rparr>
     in (a, e, es_outl hw e ES_REG_SERIAL (es_sctrl e) h))"

definition ES1371_stop :: "'h card_hw \<Rightarrow> (ensoniq_card, 'h) play \<Rightarrow> (ensoniq_card, 'h) play" where
  "ES1371_stop hw s =
    (let (a, e, h) = s; e = e\<lparr>es_sctrl := funcbit_disable (funcbit_enable (es_sctrl e) ES_P1_PAUSE) (0x100 OR 0x200)\<rparr>
     in (a, e, es_outl hw e ES_REG_SERIAL (es_sctrl e) h))"

section \<open>Position, interrupt, mixer\<close>

definition ES_REG_FCURR_COUNTI :: "u32 \<Rightarrow> u32" where "ES_REG_FCURR_COUNTI i = drop_bit 14 i AND 0x3FFFC"

definition ES1371_getbufpos :: "'h card_hw \<Rightarrow> (ensoniq_card, 'h) play \<Rightarrow> u32 \<times> (ensoniq_card, 'h) play" where
  "ES1371_getbufpos hw s =
    (let (a, e, h) = s; (ctl, h) = es_inl hw e ES_REG_CONTROL h;
         (a, h) = (if ctl AND ES_DAC1_EN \<noteq> 0 then
             (let (x, h) = es_inl hw e ES_REG_DAC1_SIZE (es_outl hw e ES_REG_MEM_PAGE 0x0C h); bufpos = ES_REG_FCURR_COUNTI x
              in (if bufpos < card_dmasize a then a\<lparr>card_dma_lastgoodpos := bufpos\<rparr> else a, h))
           else (a, h))
     in (card_dma_lastgoodpos a, a, e, h))"

text \<open>An interrupt is acknowledged by disabling and enabling it again.\<close>

definition es_acknowledge :: "'h card_hw \<Rightarrow> ensoniq_card \<Rightarrow> u32 \<Rightarrow> 'h \<Rightarrow> 'h" where
  "es_acknowledge hw e b h = es_outl hw e ES_REG_SERIAL (es_sctrl e) (es_outl hw e ES_REG_SERIAL (es_sctrl e AND NOT b) h)"

definition ES1371_IRQRoutine :: "'h card_hw \<Rightarrow> ensoniq_card \<Rightarrow> 'h \<Rightarrow> bool \<times> 'h" where
  "ES1371_IRQRoutine hw e h =
    (let (st, h) = es_inl hw e ES_REG_STATUS h;
         h = (if st AND 0x04 \<noteq> 0 then es_acknowledge hw e 0x100 h else h);
         h = (if st AND 0x02 \<noteq> 0 then es_acknowledge hw e 0x200 h else h)
     in (st AND 0x80000000 \<noteq> 0, h))"

definition ES1371_sndcard_info :: "'h card_env \<Rightarrow> 'h es one_sndcard_info" where
  "ES1371_sndcard_info env = \<lparr>infobits = SNDCARD_LOWLEVELHAND OR 2,
    card_start = Some (on_play (\<lambda>s. Inr (ES1371_start (ce_hw env) s))),
    card_stop = Some (on_play (\<lambda>s. Inr (ES1371_stop (ce_hw env) s))),
    card_close = Some (\<lambda>s. Inr (upd_glb (\<lambda>g. g\<lparr>device := ES1371_close env (device g)\<rparr>) s)),
    card_setrate = Some (on_play (ES1371_setrate (ce_hw env) (ce_fl env))),
    cardbuf_writedata = MDma_put,
    cardbuf_pos = Some (ask_play (\<lambda>s. Inr (ES1371_getbufpos (ce_hw env) s))),
    cardbuf_clear = Some (on_aui MDma_clearbuf),
    cardbuf_int_monitor = Some (on_aui MDma_interrupt_monitor),
    card_writemixer = Some (\<lambda>reg x. on_play (\<lambda>(a, e, h). Inr (a, e, snd_es1371_codec_write (ce_hw env) e (ucast reg) (ucast x) h))),
    card_readmixer = Some (\<lambda>reg. ask_play (\<lambda>(a, e, h). case snd_es1371_codec_read (ce_hw env) e (ucast reg) h of (x, h) \<Rightarrow> Inr (ucast x, a, e, h))),
    card_mixerchans = Some mpxplay_aucards_ac97chan_mixerset,
    irq_routine = Some (ask_play (\<lambda>(a, e, h). case ES1371_IRQRoutine (ce_hw env) e h of (x, h) \<Rightarrow> Inr (x, a, e, h))),
    card_fm_write = None, card_fm_read = None, card_mpu401_write = None, card_mpu401_read = None\<rparr>"

section \<open>The frame of the first channel\<close>

text \<open>The last doubleword written to each register of the chip. The ports from 0x30 to 0x3F are a window: which registers are behind them is selected
  by the page register, so that a register is its page and its port (page 0 for the ports outside the window).\<close>

definition es_place :: "ensoniq_card \<Rightarrow> (u32 \<times> u16 \<Rightarrow> u32) \<Rightarrow> u16 \<Rightarrow> u32 \<times> u16" where
  "es_place e f p = (if 0x30 \<le> p - ucast (es_port e) \<and> p - ucast (es_port e) < 0x40
    then f (0, ucast (es_port e + ES_REG_MEM_PAGE)) AND 0x0F else 0, p)"

definition last_written :: "'h card_hw \<Rightarrow> ensoniq_card \<Rightarrow> ('h \<Rightarrow> u32 \<times> u16 \<Rightarrow> u32) \<Rightarrow> bool" where
  "last_written hw e lw =
    ((\<forall>p x h. lw (hw_outl hw p x h) = (lw h)(es_place e (lw h) p := x)) \<and> (\<forall>p h. lw (snd (hw_inl hw p h)) = lw h))"

abbreviation es_reg :: "ensoniq_card \<Rightarrow> u32 \<Rightarrow> u32 \<times> u16" where "es_reg e r \<equiv> (0, ucast (es_port e + r))"
abbreviation es_paged :: "ensoniq_card \<Rightarrow> u32 \<Rightarrow> u32 \<times> u16" where "es_paged e r \<equiv> (0x0C, ucast (es_port e + r))"

lemma ucast16_add: "(ucast (x + y :: u32) :: u16) = ucast x + ucast y"
  by (simp add: word_unat_eq_iff unsigned_ucast_eq take_bit_eq_mod unat_word_ariths mod_add_eq mod_mod_cancel)

lemma es_reg_eq:
  "(ucast (es_port e + r) :: u16) = ucast (es_port e + q) \<longleftrightarrow> (ucast r :: u16) = ucast q"
  "(ucast (es_port e + r) :: u16) = ucast (es_port e) \<longleftrightarrow> (ucast r :: u16) = 0"
  "(ucast (es_port e) :: u16) = ucast (es_port e + r) \<longleftrightarrow> (ucast r :: u16) = 0"
  by (simp_all add: ucast16_add)

lemma last_writtenD:
  assumes "last_written hw e lw" "es_port e' = es_port e"
  shows "lw (es_outl hw e' r x h) = (lw h)((if 0x30 \<le> (ucast r :: u16) \<and> (ucast r :: u16) < 0x40 then lw h (es_reg e ES_REG_MEM_PAGE) AND 0x0F else 0,
      ucast (es_port e + r)) := x)" "lw (snd (es_inl hw e' r h)) = lw h"
  using assms by (simp_all add: last_written_def es_outl_def es_inl_def es_place_def ucast16_add)

text \<open>What an operation writes, apart from the registers of the converter and of the codec.\<close>

definition other_regs :: "ensoniq_card \<Rightarrow> (u32 \<times> u16 \<Rightarrow> u32) \<Rightarrow> u32 \<times> u16 \<Rightarrow> u32" where
  "other_regs e f = f(es_reg e ES_REG_1371_SMPRATE := 0)"

lemma es_poll_written:
  "last_written hw e lw \<Longrightarrow> es_poll hw e r test n x h = (ok, y, h') \<Longrightarrow> lw h' = lw h"
proof (induction n arbitrary: x h)
  case (Suc n)
  obtain z h1 where 1: "es_inl hw e r h = (z, h1)" by (rule prod.exhaust)
  then have "lw h1 = lw h" using last_writtenD(2) [OF Suc.prems(1) refl, of r h] by simp
  then show ?case using Suc.IH [OF Suc.prems(1), of z h1] Suc.prems(2) 1 by (auto split: if_splits)
qed simp

lemma wait_src_written: "last_written hw e lw \<Longrightarrow> snd_es1371_wait_src_ready hw e h = (r, h') \<Longrightarrow> lw h' = lw h"
  by (auto simp: snd_es1371_wait_src_ready_def split: prod.splits dest: es_poll_written)

lemma smprate_written:
  assumes "last_written hw e lw" shows "other_regs e (lw (es_outl hw e ES_REG_1371_SMPRATE x h)) = other_regs e (lw h)"
  by (simp add: last_writtenD [OF assms refl] other_regs_def)

lemma src_write_written:
  assumes "last_written hw e lw" shows "other_regs e (lw (snd_es1371_src_write hw e r x h)) = other_regs e (lw h)"
proof -
  obtain y h1 where 1: "snd_es1371_wait_src_ready hw e h = (y, h1)" by (rule prod.exhaust)
  show ?thesis using wait_src_written [OF assms 1] by (simp add: snd_es1371_src_write_def 1 smprate_written [OF assms])
qed

lemma src_read_written:
  assumes l: "last_written hw e lw" and r: "snd_es1371_src_read hw e r h = (x, h')"
  shows "other_regs e (lw h') = other_regs e (lw h)"
proof -
  obtain y1 h1 where 1: "snd_es1371_wait_src_ready hw e h = (y1, h1)" by (rule prod.exhaust)
  define g where "g = es_outl hw e ES_REG_1371_SMPRATE ((y1 AND SRC_KEPT) OR (ES_1371_SRC_RAM_ADDRO (ucast r) OR 0x10000)) h1"
  obtain y2 h2 where 2: "snd_es1371_wait_src_ready hw e g = (y2, h2)" by (rule prod.exhaust)
  obtain ok y3 h3 where 3: "es_poll hw e ES_REG_1371_SMPRATE (\<lambda>r. r AND 0x00870000 = 0x00010000) POLL_COUNT y2 h2 = (ok, y3, h3)"
    by (metis prod.exhaust)
  have g: "other_regs e (lw g) = other_regs e (lw h)" unfolding g_def smprate_written [OF l] wait_src_written [OF l 1] ..
  have h: "lw h2 = lw g" "lw h3 = lw h2" by (rule wait_src_written [OF l 2], rule es_poll_written [OF l 3])
  show ?thesis
    using r h g unfolding snd_es1371_src_read_def 1 Let_def prod.case g_def [symmetric] 2 3 snd_conv
    by (auto simp: smprate_written [OF l] split: if_splits)
qed

lemma src_rate_written:
  assumes l: "last_written hw e lw" shows "other_regs e (lw (es_src_rate hw e r f h)) = other_regs e (lw h)"
proof -
  obtain x h1 where 1: "snd_es1371_src_read hw e (r + 0x01) h = (x, h1)" by (rule prod.exhaust)
  show ?thesis using src_read_written [OF l 1] by (simp add: es_src_rate_def 1 src_write_written [OF l])
qed

lemma playback_rate_written:
  assumes l: "last_written hw e lw" shows "other_regs e (lw (es_playback_rate hw e r own oth rate h)) = other_regs e (lw h)"
proof -
  obtain x h1 where 1: "snd_es1371_wait_src_ready hw e h = (x, h1)" by (rule prod.exhaust)
  define g where "g = es_src_rate hw e r ((push_bit 15 rate + 1500) div 3000)
    (es_outl hw e ES_REG_1371_SMPRATE ((x AND (ES_1371_SRC_DISABLE OR oth OR ES_1371_DIS_R1)) OR own) h1)"
  obtain y h2 where 2: "snd_es1371_wait_src_ready hw e g = (y, h2)" by (rule prod.exhaust)
  have "other_regs e (lw g) = other_regs e (lw h)"
    unfolding g_def src_rate_written [OF l] smprate_written [OF l] wait_src_written [OF l 1] ..
  then show ?thesis unfolding es_playback_rate_def Let_def 1 prod.case g_def [symmetric] 2 smprate_written [OF l] wait_src_written [OF l 2] .
qed

text \<open>What \<open>es_frame_registers\<close> and the rest of the preparation leave in the registers.\<close>

lemma es_prepared:
  assumes l: "last_written hw e lw" and d: "es_dm e = Some dm"
  shows "\<exists>e' h'. snd_es1371_prepare_playback hw (a, e, h) = Inr (a\<lparr>card_samples_per_int := 64\<rparr>, e', h')
    \<and> lw h' (es_paged e ES_REG_DAC1_FRAME) = pds_cardmem_physicalptr dm (es_buffer e)
    \<and> lw h' (es_paged e ES_REG_DAC1_SIZE) = drop_bit 2 (card_dmasize a) - 1
    \<and> lw h' (es_reg e ES_REG_DAC1_COUNT) = drop_bit 2 (card_dmasize a div max 1 (card_dmasize a div 256)) - 1
    \<and> lw h' (es_reg e ES_REG_CONTROL) = es_ctrl e' \<and> es_ctrl e' = es_ctrl e AND NOT ES_DAC1_EN
    \<and> lw h' (es_reg e ES_REG_SERIAL) = es_sctrl e' \<and> es_sctrl e' = (es_sctrl e AND NOT 0x2883) OR 3"
proof -
  define e1 where "e1 = e\<lparr>es_ctrl := funcbit_disable (es_ctrl e) ES_DAC1_EN\<rparr>"
  define e2 where "e2 = e1\<lparr>es_sctrl := funcbit_enable (funcbit_disable (es_sctrl e1) (0x2000 OR ES_P1_PAUSE OR 0x80 OR 0x03)) 0x03\<rparr>"
  define n where "n = drop_bit 2 (card_dmasize a div max 1 (card_dmasize a div 256)) - 1"
  define g where "g = es_outl hw e2 ES_REG_CONTROL (es_ctrl e2) (es_outl hw e2 ES_REG_DAC1_COUNT n
    (es_outl hw e2 ES_REG_SERIAL (es_sctrl e2) (es_frame_registers hw e1 dm (card_dmasize a) h)))"
  have p: "es_port e1 = es_port e" "es_port e2 = es_port e" "es_buffer e1 = es_buffer e" "es_dm e1 = Some dm" "es_ctrl e2 = es_ctrl e1"
    using d by (simp_all add: e1_def e2_def)
  have run: "snd_es1371_prepare_playback hw (a, e, h) = Inr (a\<lparr>card_samples_per_int := 64\<rparr>, e2, snd_es1371_dac1_rate hw e2 (freq_card a) g)"
    unfolding snd_es1371_prepare_playback_def Let_def prod.case e1_def [symmetric] p(4) deref_def option.case bindE_simps
      e2_def [symmetric] n_def [symmetric] g_def by simp
  have "es_place e2 = es_place e" by (intro ext) (simp add: es_place_def p)
  then have l2: "last_written hw e2 lw" using l unfolding last_written_def by simp
  have o: "other_regs e2 (lw (snd_es1371_dac1_rate hw e2 (freq_card a) g)) = other_regs e2 (lw g)"
    unfolding snd_es1371_dac1_rate_def by (rule playback_rate_written [OF l2])
  have q: "lw (snd_es1371_dac1_rate hw e2 (freq_card a) g) (k, ucast (es_port e + r)) = lw g (k, ucast (es_port e + r))"
    if "(ucast r :: u16) \<noteq> 0x10" for k r
    using fun_cong [OF o, of "(k, ucast (es_port e + r))"] that by (simp add: other_regs_def p es_reg_eq)
  have s: "es_ctrl e2 = es_ctrl e AND NOT ES_DAC1_EN" "es_sctrl e2 = (es_sctrl e AND NOT 0x2883) OR 3"
    by (simp_all add: e2_def e1_def funcbit_disable_def funcbit_enable_def)
  show ?thesis unfolding run
    by (intro exI [of _ e2] exI conjI refl; (subst q, simp)?; (rule s)?)
      (simp_all add: g_def es_frame_registers_def last_writtenD [OF l p(1)] last_writtenD [OF l p(2)] p es_reg_eq n_def)
qed

lemma es_setrate_frame:
  assumes l: "last_written hw e lw" and d: "es_dm e = Some dm" and b: "512 \<le> unat (es_bufsize e)" "unat (es_bufsize e) \<le> 262144"
    and buf: "card_DMABUFF a = Some buf" "unat (es_bufsize e) \<le> length buf"
  shows "\<exists>a' e' h'. ES1371_setrate hw fl (a, e, h) = Inr (a', e', h') \<and> dma_wf a' \<and> unat (card_dmasize a') \<le> unat (es_bufsize e)
    \<and> lw h' (es_paged e ES_REG_DAC1_FRAME) = pds_cardmem_physicalptr dm (es_buffer e)
    \<and> 4 * (unat (lw h' (es_paged e ES_REG_DAC1_SIZE)) + 1) = unat (card_dmasize a') \<and> unat (lw h' (es_paged e ES_REG_DAC1_SIZE)) < 2 ^ 16
    \<and> unat (lw h' (es_reg e ES_REG_DAC1_COUNT)) + 1 = nat (card_samples_per_int a') \<and> 4 * nat (card_samples_per_int a') dvd unat (card_dmasize a')
    \<and> lw h' (es_reg e ES_REG_CONTROL) = es_ctrl e' \<and> es_ctrl e' AND ES_DAC1_EN = 0
    \<and> lw h' (es_reg e ES_REG_SERIAL) = es_sctrl e' \<and> es_sctrl e' AND 0x2883 = 3"
proof -
  define f where "f = (if freq_card a < 3000 then 3000 else if 48000 < freq_card a then 48000 else freq_card a)"
  define a0 where "a0 = a\<lparr>card_wave_id := MPXPLAY_WAVEID_PCM_SLE, chan_card := 2, bits_card := 16, freq_card := f\<rparr>"
  have fs: "card_framesize a0 = 4" by (simp add: a0_def card_framesize_def MPXPLAY_WAVEID_PCM_SLE_def MPXPLAY_WAVEID_PCM_FLOAT_def)
  have buf0: "card_DMABUFF a0 = Some buf" using buf(1) by (simp add: a0_def)
  obtain s a1 where s: "MDma_init_pcmoutbuf fl (es_bufsize e) ES1371_DMABUF_ALIGN 0 a0 = Inr (s, a1)" "256 dvd unat s" "512 \<le> unat s"
      "s \<le> es_bufsize e" "card_dmasize a1 = s" "dma_wf a1"
    using init_pcmoutbuf_ok [of ES1371_DMABUF_ALIGN "es_bufsize e" a0 buf fl 0] b(1) buf0 buf(2) by (auto simp: fs)
  have s2: "unat s \<le> 262144" using s(4) b(2) by (simp add: word_le_nat_alt)
  obtain e' h' where r: "snd_es1371_prepare_playback hw (a1, e, h) = Inr (a1\<lparr>card_samples_per_int := 64\<rparr>, e', h')"
      "lw h' (es_paged e ES_REG_DAC1_FRAME) = pds_cardmem_physicalptr dm (es_buffer e)"
      "lw h' (es_paged e ES_REG_DAC1_SIZE) = drop_bit 2 (card_dmasize a1) - 1"
      "lw h' (es_reg e ES_REG_DAC1_COUNT) = drop_bit 2 (card_dmasize a1 div max 1 (card_dmasize a1 div 256)) - 1"
      "lw h' (es_reg e ES_REG_CONTROL) = es_ctrl e'" "es_ctrl e' = es_ctrl e AND NOT ES_DAC1_EN"
      "lw h' (es_reg e ES_REG_SERIAL) = es_sctrl e'" "es_sctrl e' = (es_sctrl e AND NOT 0x2883) OR 3"
    using es_prepared [OF l d, of a1 h] by blast
  obtain k where k: "unat s = 256 * k" using s(2) by (elim dvdE)
  have k2: "2 \<le> k" "k \<le> 1024" using s(3) s2 k by auto
  have u4: "unat (drop_bit 2 s) = 64 * k" using k by (simp add: drop_bit_eq_div unat_div)
  have "unat (drop_bit 2 s - 1) = 64 * k - 1"
    using u4 k2 by (subst unat_minus_one) (auto simp: unat_eq_0 [symmetric])
  then have sz: "4 * (unat (lw h' (es_paged e ES_REG_DAC1_SIZE)) + 1) = unat s" "unat (lw h' (es_paged e ES_REG_DAC1_SIZE)) < 2 ^ 16"
    using k k2 unfolding r(3) s(5) by auto
  have d: "unat (s div 256) = k" using k by (simp add: unat_div)
  then have "max 1 (s div 256) = s div 256" using k2 by (simp add: max_def word_le_nat_alt)
  moreover have "s div (s div 256) = 256" using k k2 d by (simp add: word_unat_eq_iff unat_div)
  ultimately have ct: "lw h' (es_reg e ES_REG_DAC1_COUNT) = 63" unfolding r(4) s(5) by (simp add: drop_bit_eq_div)
  have run: "ES1371_setrate hw fl (a, e, h) = Inr (a1\<lparr>card_samples_per_int := 64\<rparr>, e', h')"
    unfolding ES1371_setrate_def Let_def prod.case
    using s(1) r(1) by (simp add: a0_def f_def cong: if_cong)
  have w: "dma_wf (a1\<lparr>card_samples_per_int := 64\<rparr>)" using s(6) by (simp add: dma_wf_def)
  have bits: "es_ctrl e' AND ES_DAC1_EN = 0" "es_sctrl e' AND 0x2883 = 3"
    unfolding r(6,8) by (simp_all add: bit.conj_disj_distrib2 and.assoc)
  show ?thesis
    using run w s(4,5) r(2,5,7) sz ct bits k
    by (intro exI [of _ "a1\<lparr>card_samples_per_int := 64\<rparr>"] exI [of _ e'] exI [of _ h']) (simp add: word_le_nat_alt)
qed

definition demo_es :: ensoniq_card where
  "demo_es = ensoniq_card_zero\<lparr>es_port := 0xD000, es_bufsize := 4096, es_buffer := 0x2000, es_ctrl := 0x10040, es_sctrl := 0xA80,
    es_dm := Some (xmsmem_zero\<lparr>physicalptr := 0x100000, linearptr := 0x2000\<rparr>)\<rparr>"

text \<open>A machine whose state is what was last written to each register of the card \<open>demo_es\<close>.\<close>

definition log_hw :: "(u32 \<times> u16 \<Rightarrow> u32) card_hw" where
  "log_hw = \<lparr>hw_outb = (\<lambda>_ _ h. h), hw_outw = (\<lambda>_ _ h. h), hw_outl = (\<lambda>p x h. h(es_place demo_es h p := x)), hw_inb = (\<lambda>_ h. (0, h)), hw_inw = (\<lambda>_ h. (0, h)),
    hw_inl = (\<lambda>_ h. (0, h)), hw_writeb = (\<lambda>_ _ h. h), hw_writew = (\<lambda>_ _ h. h), hw_writel = (\<lambda>_ _ h. h), hw_readb = (\<lambda>_ h. (0, h)),
    hw_readw = (\<lambda>_ h. (0, h)), hw_readl = (\<lambda>_ h. (0, h)), hw_gettimeu = (\<lambda>h. (0, h))\<rparr>"

text \<open>C19: Setting the rate of an Ensoniq card describes to the chip exactly the ring buffer of the output layer: in the page of the channel, the
  frame starts at the buffer's physical address, its length in doublewords (minus one, in a field of 16 bits) is that of the ring, which is in the memory that was allocated,
  and the chip interrupts after exactly the number of samples that the Sound Blaster's direct mode is told, a whole number of times per round.
  (The registers of the frame share their ports with those of other channels; what counts is what was written to them while
  their page was selected. The memory is the one the driver allocated, of 512 bytes to 256 KB.) The channel is left disabled, not paused, in loop mode and set to 16-bit stereo, and the driver's copies of both control
  registers agree with the chip.\<close>

theorem es_frame:
  assumes l: "last_written hw e lw" and d: "es_dm e = Some dm" and b: "512 \<le> unat (es_bufsize e)" "unat (es_bufsize e) \<le> 262144"
    and buf: "card_DMABUFF a = Some buf" "unat (es_bufsize e) \<le> length buf"
  shows "\<exists>a' e' h'. ES1371_setrate hw fl (a, e, h) = Inr (a', e', h') \<and> dma_wf a' \<and> unat (card_dmasize a') \<le> unat (es_bufsize e)
    \<and> lw h' (es_paged e ES_REG_DAC1_FRAME) = pds_cardmem_physicalptr dm (es_buffer e)
    \<and> 4 * (unat (lw h' (es_paged e ES_REG_DAC1_SIZE)) + 1) = unat (card_dmasize a') \<and> unat (lw h' (es_paged e ES_REG_DAC1_SIZE)) < 2 ^ 16
    \<and> unat (lw h' (es_reg e ES_REG_DAC1_COUNT)) + 1 = nat (card_samples_per_int a') \<and> 4 * nat (card_samples_per_int a') dvd unat (card_dmasize a')
    \<and> lw h' (es_reg e ES_REG_CONTROL) = es_ctrl e' \<and> es_ctrl e' AND ES_DAC1_EN = 0
    \<and> lw h' (es_reg e ES_REG_SERIAL) = es_sctrl e' \<and> es_sctrl e' AND 0x2883 = 3"
  by (rule es_setrate_frame [OF assms])

theorem es_frame_witness:
  "\<exists>a' e' h'. ES1371_setrate log_hw demo_fl (aui0\<lparr>card_DMABUFF := Some (replicate 4096 0)\<rparr>, demo_es, \<lambda>_. 0) = Inr (a', e', h') \<and> dma_wf a'
    \<and> unat (card_dmasize a') \<le> unat (es_bufsize demo_es)
    \<and> h' (es_paged demo_es ES_REG_DAC1_FRAME) = pds_cardmem_physicalptr (xmsmem_zero\<lparr>physicalptr := 0x100000, linearptr := 0x2000\<rparr>) (es_buffer demo_es)
    \<and> 4 * (unat (h' (es_paged demo_es ES_REG_DAC1_SIZE)) + 1) = unat (card_dmasize a') \<and> unat (h' (es_paged demo_es ES_REG_DAC1_SIZE)) < 2 ^ 16
    \<and> unat (h' (es_reg demo_es ES_REG_DAC1_COUNT)) + 1 = nat (card_samples_per_int a') \<and> 4 * nat (card_samples_per_int a') dvd unat (card_dmasize a')
    \<and> h' (es_reg demo_es ES_REG_CONTROL) = es_ctrl e' \<and> es_ctrl e' AND ES_DAC1_EN = 0
    \<and> h' (es_reg demo_es ES_REG_SERIAL) = es_sctrl e' \<and> es_sctrl e' AND 0x2883 = 3"
  by (rule es_frame [where lw = "\<lambda>h. h" and buf = "replicate 4096 0"])
    (simp_all add: last_written_def log_hw_def, simp_all add: demo_es_def)

section \<open>The rate of the first channel\<close>

text \<open>The port of the converter as the documentation has it: a register, of which bits 19 to 22 stop the accumulators, and a memory of 128 words of
  which the upper bits select one for reading or, with a bit of its own (24), for writing. The converter can be busy, which reads as bit 23; the other bits
  of such a read mean nothing, and what is written meanwhile may be lost. With bit 16 set the register shows the state of the converter in bits 16 to 18,
  and the selected word can be read only while that state is 1. How many reads it takes until the value that was waited for shows
  is bounded by \<open>left\<close>, below the number of attempts of the driver.\<close>

definition src_right :: "u32 \<Rightarrow> u32 \<Rightarrow> bool" where
  "src_right c v = (if c AND 0x10000 \<noteq> 0 then v AND 0x00870000 = 0x00010000 else v AND 0x800000 = 0)"

definition src_seen :: "('h \<Rightarrow> u32) \<Rightarrow> ('h \<Rightarrow> u32 \<Rightarrow> u16) \<Rightarrow> ('h \<Rightarrow> bool) \<Rightarrow> 'h \<Rightarrow> u32 \<Rightarrow> 'h \<Rightarrow> bool" where
  "src_seen ctl ram busy h v h' = (ctl h' = ctl h \<and> ram h' = ram h \<and>
    (v AND 0x800000 = 0 \<longrightarrow> \<not> busy h' \<and> v AND 0x780000 = ctl h AND 0x780000) \<and>
    (ctl h AND 0x10000 \<noteq> 0 \<and> v AND 0x00870000 = 0x00010000 \<longrightarrow> v AND 0xFFFF = ucast (ram h (drop_bit 25 (ctl h)))))"

definition src_laws :: "'h card_hw \<Rightarrow> ensoniq_card \<Rightarrow> ('h \<Rightarrow> u32) \<Rightarrow> ('h \<Rightarrow> u32 \<Rightarrow> u16) \<Rightarrow> ('h \<Rightarrow> bool) \<Rightarrow> ('h \<Rightarrow> nat) \<Rightarrow> bool" where
  "src_laws hw e ctl ram busy left =
    ((\<forall>h. left h < POLL_COUNT) \<and>
     (\<forall>h v h'. es_inl hw e ES_REG_1371_SMPRATE h = (v, h') \<longrightarrow> src_seen ctl ram busy h v h' \<and> (src_right (ctl h) v \<or> left h' < left h)) \<and>
     (\<forall>x h. \<not> busy h \<longrightarrow> ctl (es_outl hw e ES_REG_1371_SMPRATE x h) = x \<and>
       ram (es_outl hw e ES_REG_1371_SMPRATE x h) = (if x AND 0x1000000 \<noteq> 0 then (ram h)(drop_bit 25 x := ucast x) else ram h)))"

lemma bit_lits:
  "bit (0xFE7F0000 :: u32) n \<longleftrightarrow> 25 \<le> n \<and> n < 32 \<or> 16 \<le> n \<and> n < 23" "bit (0x780000 :: u32) n \<longleftrightarrow> 19 \<le> n \<and> n < 23"
  "bit (0x00870000 :: u32) n \<longleftrightarrow> n = 23 \<or> 16 \<le> n \<and> n < 19" "bit (0x7F :: u32) n \<longleftrightarrow> n < 7"
  "bit (0x10000 :: u32) n \<longleftrightarrow> n = 16" "bit (0x800000 :: u32) n \<longleftrightarrow> n = 23" "bit (0x1000000 :: u32) n \<longleftrightarrow> n = 24"
  "bit (0xFE000000 :: u32) n \<longleftrightarrow> 25 \<le> n \<and> n < 32"
proof -
  have e: "(0xFE7F0000 :: u32) = push_bit 25 (mask 7) OR push_bit 16 (mask 7)" "(0x780000 :: u32) = push_bit 19 (mask 4)"
    "(0x00870000 :: u32) = push_bit 23 (mask 1) OR push_bit 16 (mask 3)" "(0x7F :: u32) = mask 7"
    "(0x10000 :: u32) = push_bit 16 (mask 1)" "(0x800000 :: u32) = push_bit 23 (mask 1)" "(0x1000000 :: u32) = push_bit 24 (mask 1)"
    "(0xFE000000 :: u32) = push_bit 25 (mask 7)"
    by (simp_all add: mask_eq_exp_minus_1)
  show "bit (0xFE7F0000 :: u32) n \<longleftrightarrow> 25 \<le> n \<and> n < 32 \<or> 16 \<le> n \<and> n < 23"
    unfolding e(1) bit_or_iff bit_push_bit_iff bit_mask_iff by auto
  show "bit (0x780000 :: u32) n \<longleftrightarrow> 19 \<le> n \<and> n < 23" unfolding e(2) bit_push_bit_iff bit_mask_iff by auto
  show "bit (0x00870000 :: u32) n \<longleftrightarrow> n = 23 \<or> 16 \<le> n \<and> n < 19" unfolding e(3) bit_or_iff bit_push_bit_iff bit_mask_iff by auto
  show "bit (0x7F :: u32) n \<longleftrightarrow> n < 7" unfolding e(4) bit_mask_iff by auto
  show "bit (0x10000 :: u32) n \<longleftrightarrow> n = 16" unfolding e(5) bit_push_bit_iff bit_mask_iff by auto
  show "bit (0x800000 :: u32) n \<longleftrightarrow> n = 23" unfolding e(6) bit_push_bit_iff bit_mask_iff by auto
  show "bit (0x1000000 :: u32) n \<longleftrightarrow> n = 24" unfolding e(7) bit_push_bit_iff bit_mask_iff by auto
  show "bit (0xFE000000 :: u32) n \<longleftrightarrow> 25 \<le> n \<and> n < 32" unfolding e(8) bit_push_bit_iff bit_mask_iff by auto
qed

text \<open>The two forms of values that are written.\<close>

lemma src_write_facts:
  fixes c :: u32 and d :: u16 and reg :: u32
  defines "x \<equiv> ((c AND 0x780000) OR (ES_1371_SRC_RAM_ADDRO reg OR ucast d)) OR 0x1000000"
  shows "x AND 0x1000000 \<noteq> 0" "drop_bit 25 x = reg AND 0x7F" "ucast x = d" "x AND 0x780000 = c AND 0x780000"
proof -
  have x: "bit x n \<longleftrightarrow> bit c n \<and> 19 \<le> n \<and> n < 23 \<or> 25 \<le> n \<and> n < 32 \<and> bit reg (n - 25) \<or> bit d n \<or> n = 24" for n
    by (auto simp: x_def ES_1371_SRC_RAM_ADDRO_def bit_simps bit_lits simp del: bit_numeral_word_iff dest: bit_u16_less)
  have "bit (x AND 0x1000000) 24" unfolding bit_and_iff x bit_lits by simp
  then show "x AND 0x1000000 \<noteq> 0" by (metis bit_0_eq bot_apply bot_bool_def)
  show "drop_bit 25 x = reg AND 0x7F" by (rule bit_word_eqI) (auto simp: bit_drop_bit_eq x bit_and_iff bit_lits simp del: bit_numeral_word_iff dest: bit_u16_less)
  show "ucast x = d" by (rule bit_word_eqI) (auto simp: bit_ucast_iff x)
  show "x AND 0x780000 = c AND 0x780000" by (rule bit_word_eqI) (auto simp: x bit_and_iff bit_lits simp del: bit_numeral_word_iff dest: bit_u16_less)
qed

lemma src_select_facts:
  fixes c reg :: u32
  defines "x \<equiv> (c AND 0x780000) OR (ES_1371_SRC_RAM_ADDRO reg OR 0x10000)" and "y \<equiv> (c AND 0x780000) OR ES_1371_SRC_RAM_ADDRO reg"
  shows "x AND 0x1000000 = 0" "drop_bit 25 x = reg AND 0x7F" "x AND 0x10000 \<noteq> 0"
    "y AND 0x1000000 = 0" "y AND 0x780000 = c AND 0x780000"
proof -
  have x: "bit x n \<longleftrightarrow> bit c n \<and> 19 \<le> n \<and> n < 23 \<or> 25 \<le> n \<and> n < 32 \<and> bit reg (n - 25) \<or> n = 16" for n
    by (auto simp: x_def ES_1371_SRC_RAM_ADDRO_def bit_simps bit_lits simp del: bit_numeral_word_iff)
  have y: "bit y n \<longleftrightarrow> bit c n \<and> 19 \<le> n \<and> n < 23 \<or> 25 \<le> n \<and> n < 32 \<and> bit reg (n - 25)" for n
    by (auto simp: y_def ES_1371_SRC_RAM_ADDRO_def bit_simps bit_lits simp del: bit_numeral_word_iff)
  show "x AND 0x1000000 = 0" "y AND 0x1000000 = 0" by (rule bit_word_eqI, auto simp: x y bit_and_iff bit_lits simp del: bit_numeral_word_iff)+
  show "drop_bit 25 x = reg AND 0x7F" by (rule bit_word_eqI) (auto simp: bit_drop_bit_eq x bit_and_iff bit_lits simp del: bit_numeral_word_iff)
  have "bit (x AND 0x10000) 16" unfolding bit_and_iff x bit_lits by simp
  then show "x AND 0x10000 \<noteq> 0" by (metis bit_0_eq bot_apply bot_bool_def)
  show "y AND 0x780000 = c AND 0x780000" by (rule bit_word_eqI) (auto simp: y bit_and_iff bit_lits simp del: bit_numeral_word_iff)
qed

lemma src_seen_trans:
  "src_seen ctl ram busy h v h1 \<Longrightarrow> src_seen ctl ram busy h1 w h2 \<Longrightarrow> src_seen ctl ram busy h w h2"
  unfolding src_seen_def by simp

lemma src_poll:
  assumes "src_laws hw e ctl ram busy left" "\<And>v. src_right (ctl h) v \<Longrightarrow> test v" "left h < n"
  shows "\<exists>v h'. es_poll hw e ES_REG_1371_SMPRATE test n x h = (True, v, h') \<and> test v \<and> src_seen ctl ram busy h v h'"
  using assms(2,3)
proof (induction n arbitrary: x h)
  case (Suc n)
  obtain v h1 where 1: "es_inl hw e ES_REG_1371_SMPRATE h = (v, h1)" by (rule prod.exhaust)
  then have s: "src_seen ctl ram busy h v h1" "src_right (ctl h) v \<or> left h1 < left h"
    using assms(1) unfolding src_laws_def by blast+
  show ?case
  proof (cases "test v")
    case True
    then show ?thesis using s(1) 1 by simp
  next
    case False
    have c: "ctl h1 = ctl h" using s(1) by (simp add: src_seen_def)
    have "left h1 < n" using s(2) False Suc.prems by auto
    then obtain w h2 where "es_poll hw e ES_REG_1371_SMPRATE test n v h1 = (True, w, h2)" "test w" "src_seen ctl ram busy h1 w h2"
      using Suc.IH [of h1 v] Suc.prems(1) unfolding c by blast
    then show ?thesis using False 1 src_seen_trans [OF s(1)] by simp
  qed
qed simp

lemma src_right_ready: "src_right c v \<Longrightarrow> v AND 0x800000 = 0"
proof -
  assume r: "src_right c v"
  show ?thesis
  proof (cases "c AND 0x10000 = 0")
    case False
    then have "(v AND 0x00870000) AND 0x800000 = 0x00010000 AND 0x800000" using r by (simp add: src_right_def)
    then show ?thesis by (simp add: and.assoc)
  qed (use r in \<open>simp add: src_right_def\<close>)
qed

lemma src_wait:
  assumes l: "src_laws hw e ctl ram busy left"
  shows "\<exists>v h'. snd_es1371_wait_src_ready hw e h = (v, h') \<and> v AND 0x800000 = 0 \<and> src_seen ctl ram busy h v h'"
proof -
  have n: "left h < POLL_COUNT" using l unfolding src_laws_def by blast
  obtain v h' where "es_poll hw e ES_REG_1371_SMPRATE (\<lambda>r. r AND 0x800000 = 0) POLL_COUNT 0 h = (True, v, h')" "v AND 0x800000 = 0"
      "src_seen ctl ram busy h v h'"
    using src_poll [OF l _ n, of "\<lambda>r. r AND 0x800000 = 0" 0] src_right_ready by blast
  then show ?thesis unfolding snd_es1371_wait_src_ready_def by simp
qed

lemma src_waited:
  assumes l: "src_laws hw e ctl ram busy left"
  obtains v h' where "snd_es1371_wait_src_ready hw e h = (v, h')" "ctl h' = ctl h" "ram h' = ram h" "\<not> busy h'"
    "v AND 0x780000 = ctl h AND 0x780000" "src_seen ctl ram busy h v h'"
  using src_wait [OF l, of h] unfolding src_seen_def by blast

lemma src_out:
  assumes "src_laws hw e ctl ram busy left" "\<not> busy h"
  shows "ctl (es_outl hw e ES_REG_1371_SMPRATE x h) = x"
    "ram (es_outl hw e ES_REG_1371_SMPRATE x h) = (if x AND 0x1000000 \<noteq> 0 then (ram h)(drop_bit 25 x := ucast x) else ram h)"
  using assms unfolding src_laws_def by blast+

lemma src_kept: "SRC_KEPT = 0x780000" by simp

lemma src_write_ram:
  assumes l: "src_laws hw e ctl ram busy left"
  shows "ram (snd_es1371_src_write hw e r d h) = (ram h)(ucast r AND 0x7F := d)" "ctl (snd_es1371_src_write hw e r d h) AND 0x780000 = ctl h AND 0x780000"
proof -
  obtain v h1 where 1: "snd_es1371_wait_src_ready hw e h = (v, h1)" "ctl h1 = ctl h" "ram h1 = ram h" "\<not> busy h1"
      "v AND 0x780000 = ctl h AND 0x780000"
    using src_waited [OF l] by metis
  show "ram (snd_es1371_src_write hw e r d h) = (ram h)(ucast r AND 0x7F := d)" "ctl (snd_es1371_src_write hw e r d h) AND 0x780000 = ctl h AND 0x780000"
    unfolding snd_es1371_src_write_def 1(1) Let_def prod.case src_out [OF l 1(4)] src_kept 1(3,5)
    using src_write_facts [of "ctl h" "ucast r" d] by simp_all
qed

lemma src_read_ram:
  assumes l: "src_laws hw e ctl ram busy left"
  shows "\<exists>x h'. snd_es1371_src_read hw e r h = (x, h') \<and> x AND 0xFF = ucast (ram h (ucast r AND 0x7F)) AND 0xFF \<and> ram h' = ram h
    \<and> ctl h' AND 0x780000 = ctl h AND 0x780000"
proof -
  define c where "c = ctl h"
  define x where "x = (c AND 0x780000) OR (ES_1371_SRC_RAM_ADDRO (ucast r) OR 0x10000)"
  define y where "y = (c AND 0x780000) OR ES_1371_SRC_RAM_ADDRO (ucast r)"
  have x: "x AND 0x1000000 = 0" "drop_bit 25 x = ucast r AND 0x7F" "x AND 0x10000 \<noteq> 0" "y AND 0x1000000 = 0" "y AND 0x780000 = c AND 0x780000"
    unfolding x_def y_def by (rule src_select_facts)+
  obtain v h1 where 1: "snd_es1371_wait_src_ready hw e h = (v, h1)" "ctl h1 = c" "ram h1 = ram h" "\<not> busy h1" "v AND 0x780000 = c AND 0x780000"
    using src_waited [OF l] unfolding c_def by metis
  define g where "g = es_outl hw e ES_REG_1371_SMPRATE x h1"
  have g: "ctl g = x" "ram g = ram h" unfolding g_def src_out [OF l 1(4)] using x(1) 1(3) by simp_all
  obtain u h2 where 2: "snd_es1371_wait_src_ready hw e g = (u, h2)" "ctl h2 = x" "src_seen ctl ram busy g u h2"
    using src_waited [OF l] unfolding g(1) [symmetric] by metis
  have n: "left h2 < POLL_COUNT" using l unfolding src_laws_def by blast
  have t: "src_right (ctl h2) v \<Longrightarrow> v AND 0x00870000 = 0x00010000" for v using x(3) by (simp add: src_right_def 2(2))
  obtain w h3 where 3: "es_poll hw e ES_REG_1371_SMPRATE (\<lambda>r. r AND 0x00870000 = 0x00010000) POLL_COUNT u h2 = (True, w, h3)"
      "w AND 0x00870000 = 0x00010000" "src_seen ctl ram busy h2 w h3"
    using src_poll [OF l _ n, of "\<lambda>r. r AND 0x00870000 = 0x00010000" u] t by blast
  define z where "z = (if u AND 0x00870000 \<noteq> 0x00010000 then w else u)"
  define h4 where "h4 = (if u AND 0x00870000 \<noteq> 0x00010000 then h3 else h2)"
  have z: "z AND 0x00870000 = 0x00010000" "src_seen ctl ram busy g z h4"
    using 3(2) 2(3) src_seen_trans [OF 2(3) 3(3)] by (simp_all add: z_def h4_def)
  have "z AND 0x800000 = 0" using z(1) x(3) by (intro src_right_ready [of x]) (simp add: src_right_def)
  then have s: "\<not> busy h4" "ram h4 = ram h" "z AND 0xFFFF = ucast (ram h (ucast r AND 0x7F))"
    using z x(3) unfolding src_seen_def g x(2) by blast+
  have "snd_es1371_src_read hw e r h = (z, es_outl hw e ES_REG_1371_SMPRATE y h4)"
    unfolding snd_es1371_src_read_def 1(1) Let_def prod.case src_kept 1(5) x_def [symmetric] g_def [symmetric] 2(1) y_def [symmetric] 3(1)
    by (simp add: z_def h4_def)
  moreover have "(z AND 0xFFFF) AND 0xFF = ucast (ram h (ucast r AND 0x7F)) AND 0xFF" unfolding s(3) ..
  then have "z AND 0xFF = ucast (ram h (ucast r AND 0x7F)) AND 0xFF" by (simp add: and.assoc)
  moreover have "ram (es_outl hw e ES_REG_1371_SMPRATE y h4) = ram h" unfolding src_out [OF l s(1)] s(2) using x(4) by simp
  moreover have "ctl (es_outl hw e ES_REG_1371_SMPRATE y h4) AND 0x780000 = ctl h AND 0x780000" unfolding src_out [OF l s(1)] x(5) c_def ..
  ultimately show ?thesis by blast
qed

text \<open>The words that \<open>es_src_rate\<close> writes, for a rate with less than 6 bits before the binary point.\<close>

lemma rate_words:
  fixes f x :: u32 and w :: u16
  defines "i \<equiv> (ucast ((x AND 0x00FF) OR (drop_bit 5 f AND 0xFC00)) :: u16)"
  assumes f: "unat f < 2 ^ 21" and x: "x AND 0xFF = ucast w AND 0xFF"
  shows "unat i div 1024 = unat f div 32768" "unat i mod 256 = unat w mod 256" "unat (ucast (f AND 0x7FFF) :: u16) = unat f mod 32768"
proof -
  have m: "(0x00FF :: u32) = mask 8" "(0xFC00 :: u32) = push_bit 10 (mask 6)" "(0x7FFF :: u32) = mask 15" by (simp_all add: mask_eq_exp_minus_1)
  have b: "bit i n \<longleftrightarrow> n < 8 \<and> bit w n \<or> 10 \<le> n \<and> n < 16 \<and> bit f (n + 5)" for n
    unfolding i_def x unfolding m
    by (auto simp: bit_ucast_iff bit_or_iff bit_and_iff bit_mask_iff bit_push_bit_iff bit_drop_bit_eq add.commute dest: bit_u16_less)
  have "drop_bit 10 i = ucast (drop_bit 15 f)"
    by (rule bit_word_eqI) (auto simp: b bit_drop_bit_eq bit_ucast_iff add.commute dest: bit_bound [OF f])
  then have "unat (drop_bit 10 i) = unat (ucast (drop_bit 15 f) :: u16)" by simp
  moreover have "unat f div 32768 < 65536" using f by simp
  ultimately show "unat i div 1024 = unat f div 32768"
    by (simp add: unsigned_drop_bit_eq unsigned_ucast_eq drop_bit_eq_div unat_div take_bit_nat_eq_self)
  have "take_bit 8 i = take_bit 8 w" by (rule bit_word_eqI) (auto simp: bit_take_bit_iff b)
  then have "unat (take_bit 8 i) = unat (take_bit 8 w)" by simp
  then show "unat i mod 256 = unat w mod 256" by (simp add: unsigned_take_bit_eq take_bit_eq_mod unat_mod)
  have "(ucast (f AND 0x7FFF) :: u16) = take_bit 15 (ucast f)"
    unfolding m by (rule bit_word_eqI) (auto simp: bit_simps)
  then show "unat (ucast (f AND 0x7FFF) :: u16) = unat f mod 32768"
    by (simp add: unsigned_take_bit_eq unsigned_ucast_eq take_bit_eq_mod mod_mod_cancel unat_mod)
qed

lemma src_rate_ram:
  assumes l: "src_laws hw e ctl ram busy left" and f: "unat f < 2 ^ 21"
  shows "\<exists>i j. ram (es_src_rate hw e 0x70 f h) = (ram h)(0x71 := i, 0x73 := j) \<and> unat i div 1024 = unat f div 32768
    \<and> unat i mod 256 = unat (ram h 0x71) mod 256 \<and> unat j = unat f mod 32768
    \<and> ctl (es_src_rate hw e 0x70 f h) AND 0x780000 = ctl h AND 0x780000"
proof -
  have a: "(ucast (0x71 :: u16) :: u32) AND 0x7F = 0x71" "(ucast (0x73 :: u16) :: u32) AND 0x7F = 0x73" by simp_all
  obtain x h1 where 1: "snd_es1371_src_read hw e 0x71 h = (x, h1)" "x AND 0xFF = ucast (ram h 0x71) AND 0xFF" "ram h1 = ram h"
      "ctl h1 AND 0x780000 = ctl h AND 0x780000"
    using src_read_ram [OF l, of "0x71" h] unfolding a by blast
  define i where "i = (ucast ((x AND 0x00FF) OR (drop_bit 5 f AND 0xFC00)) :: u16)"
  define j where "j = (ucast (f AND 0x7FFF) :: u16)"
  have w: "es_src_rate hw e 0x70 f h = snd_es1371_src_write hw e 0x73 j (snd_es1371_src_write hw e 0x71 i h1)"
    unfolding es_src_rate_def i_def j_def by (simp add: 1(1))
  have r: "unat i div 1024 = unat f div 32768" "unat i mod 256 = unat (ram h 0x71) mod 256" "unat j = unat f mod 32768"
    unfolding i_def j_def by (rule rate_words [OF f 1(2)])+
  have "ram (es_src_rate hw e 0x70 f h) = (ram h)(0x71 := i, 0x73 := j)"
    unfolding w src_write_ram(1) [OF l] a 1(3) ..
  moreover have "ctl (es_src_rate hw e 0x70 f h) AND 0x780000 = ctl h AND 0x780000"
    unfolding w src_write_ram(2) [OF l] 1(4) ..
  ultimately show ?thesis using r by blast
qed

lemma kept_sub:
  "v AND 0x780000 = c AND 0x780000 \<Longrightarrow> v AND 0x580000 = c AND (0x580000 :: u32)" "(c AND 0x580000) AND 0x1000000 = (0 :: u32)"
proof -
  assume "v AND 0x780000 = c AND 0x780000"
  then have "(v AND 0x780000) AND 0x580000 = (c AND 0x780000) AND 0x580000" by (rule arg_cong)
  then show "v AND 0x580000 = c AND 0x580000" by (simp add: and.assoc)
qed (simp add: and.assoc)

lemma dac1_rate_ram:
  assumes l: "src_laws hw e ctl ram busy left" and r: "unat rate \<le> 48000"
  shows "\<exists>i j. ram (snd_es1371_dac1_rate hw e rate h) = (ram h)(0x71 := i, 0x73 := j)
    \<and> \<bar>3000 * int (32768 * (unat i div 1024) + unat j) - 32768 * int (unat rate)\<bar> \<le> 1500
    \<and> unat i mod 256 = unat (ram h 0x71) mod 256 \<and> ctl (snd_es1371_dac1_rate hw e rate h) = ctl h AND 0x580000"
proof -
  define f where "f = (push_bit 15 rate + 1500) div 3000"
  have "unat (push_bit 15 rate + 1500) = 32768 * unat rate + 1500"
    using r by (simp add: push_bit_eq_mult unat_word_ariths)
  then have f: "unat f = (32768 * unat rate + 1500) div 3000" by (simp add: f_def unat_div)
  have f2: "unat f < 2 ^ 21" using r unfolding f by simp
  have k: "ES_1371_SRC_DISABLE OR ES_1371_DIS_P2 OR ES_1371_DIS_R1 = 0x580000" by simp
  define x where "x = (ctl h AND 0x580000) OR 0x200000"
  have x0: "x AND 0x1000000 = 0" by (simp add: x_def bit.conj_disj_distrib2 and.assoc)
  obtain v1 h1 where 1: "snd_es1371_wait_src_ready hw e h = (v1, h1)" "ram h1 = ram h" "\<not> busy h1" "v1 AND 0x780000 = ctl h AND 0x780000"
    using src_waited [OF l] by metis
  define g where "g = es_outl hw e ES_REG_1371_SMPRATE x h1"
  have g: "ram g = ram h" "ctl g = x" unfolding g_def src_out [OF l 1(3)] using x0 1(2) by simp_all
  obtain i j where ij: "ram (es_src_rate hw e 0x70 f g) = (ram h)(0x71 := i, 0x73 := j)" "unat i div 1024 = unat f div 32768"
      "unat i mod 256 = unat (ram h 0x71) mod 256" "unat j = unat f mod 32768" "ctl (es_src_rate hw e 0x70 f g) AND 0x780000 = x AND 0x780000"
    using src_rate_ram [OF l f2, of g] unfolding g by blast
  define q where "q = es_src_rate hw e 0x70 f g"
  obtain v2 h2 where 2: "snd_es1371_wait_src_ready hw e q = (v2, h2)" "ram h2 = ram q" "\<not> busy h2" "v2 AND 0x780000 = ctl q AND 0x780000"
    using src_waited [OF l] by metis
  have "v2 AND 0x780000 = x AND 0x780000" using ij(5) 2(4) by (simp only: q_def)
  then have "v2 AND 0x580000 = x AND 0x580000" by (rule kept_sub(1))
  then have c: "v2 AND 0x580000 = ctl h AND 0x580000" by (simp add: and.assoc x_def bit.conj_disj_distrib2)
  have run: "snd_es1371_dac1_rate hw e rate h = es_outl hw e ES_REG_1371_SMPRATE (ctl h AND 0x580000) h2"
    unfolding snd_es1371_dac1_rate_def es_playback_rate_def Let_def 1(1) prod.case k kept_sub(1) [OF 1(4)] f_def [symmetric]
      x_def [symmetric] g_def [symmetric] q_def [symmetric] 2(1) c ..
  have "32768 * (unat i div 1024) + unat j = unat f" unfolding ij(2,4) by simp
  moreover have "\<bar>3000 * int (unat f) - 32768 * int (unat rate)\<bar> \<le> 1500" unfolding f by linarith
  ultimately have "\<bar>3000 * int (32768 * (unat i div 1024) + unat j) - 32768 * int (unat rate)\<bar> \<le> 1500" by simp
  then show ?thesis using ij(1,3) unfolding run src_out [OF l 2(3)] kept_sub(2) 2(2) q_def [symmetric] by auto
qed

text \<open>A machine with the port of the converter of the card \<open>demo_es\<close> and nothing else. It is busy for two reads after each write, and in another
  state than 1 for one more.\<close>

type_synonym src_chip = "u32 \<times> (u32 \<Rightarrow> u16) \<times> nat"

definition src_value :: "src_chip \<Rightarrow> u32" where
  "src_value c = (case c of (x, w, n) \<Rightarrow> if 2 \<le> n then 0x800000
    else (x AND 0x780000) OR (if x AND 0x10000 = 0 then 0 else if n = 1 then 0x20000 else 0x10000) OR ucast (w (drop_bit 25 x)))"

definition src_hw :: "src_chip card_hw" where
  "src_hw = \<lparr>hw_outb = (\<lambda>_ _ h. h), hw_outw = (\<lambda>_ _ h. h),
    hw_outl = (\<lambda>p x h. if p = 0xD010 \<and> snd (snd h) < 2
      then (x, if x AND 0x1000000 \<noteq> 0 then (fst (snd h))(drop_bit 25 x := ucast x) else fst (snd h), 3) else h),
    hw_inb = (\<lambda>_ h. (0, h)), hw_inw = (\<lambda>_ h. (0, h)),
    hw_inl = (\<lambda>p h. if p = 0xD010 then (src_value h, fst h, fst (snd h), min (snd (snd h)) 3 - 1) else (0, h)),
    hw_writeb = (\<lambda>_ _ h. h), hw_writew = (\<lambda>_ _ h. h), hw_writel = (\<lambda>_ _ h. h), hw_readb = (\<lambda>_ h. (0, h)),
    hw_readw = (\<lambda>_ h. (0, h)), hw_readl = (\<lambda>_ h. (0, h)), hw_gettimeu = (\<lambda>h. (0, h))\<rparr>"

lemma src_value_facts:
  fixes x :: u32 and w :: u16 and k :: u32
  defines "v \<equiv> ((x AND 0x780000) OR k) OR ucast w"
  assumes k: "k \<in> {0, 0x10000, 0x20000}"
  shows "v AND 0x800000 = 0" "v AND 0x780000 = x AND 0x780000" "v AND 0x00870000 = k" "v AND 0xFFFF = ucast w"
proof -
  have e: "(0x10000 :: u32) = push_bit 16 1" "(0x20000 :: u32) = push_bit 17 1" "(0xFFFF :: u32) = mask 16" by (simp_all add: mask_eq_exp_minus_1)
  have b: "n = 16 \<or> n = 17" if "bit k n" for n
  proof -
    consider "k = 0" | "k = push_bit 16 1" | "k = push_bit 17 1" using k unfolding e by blast
    then show ?thesis using that by cases (simp_all only: bit_push_bit_iff bit_1_iff bit_0_eq bot_apply, simp_all)
  qed
  have v: "bit v n \<longleftrightarrow> bit x n \<and> 19 \<le> n \<and> n < 23 \<or> bit k n \<or> bit w n" for n
    by (auto simp: v_def bit_or_iff bit_and_iff bit_ucast_iff bit_lits simp del: bit_numeral_word_iff dest: bit_u16_less)
  show "v AND 0x800000 = 0" "v AND 0x780000 = x AND 0x780000" "v AND 0x00870000 = k"
    by (rule bit_word_eqI, auto simp: bit_and_iff v bit_lits simp del: bit_numeral_word_iff dest: bit_u16_less b)+
  show "v AND 0xFFFF = ucast w"
    unfolding e(3) by (rule bit_word_eqI) (auto simp: bit_and_iff v bit_mask_iff bit_ucast_iff dest: bit_u16_less b)
qed

lemma src_hw_seen:
  fixes h :: src_chip
  shows "src_seen fst (\<lambda>h. fst (snd h)) (\<lambda>h. 2 \<le> snd (snd h)) h (src_value h) (fst h, fst (snd h), min (snd (snd h)) 3 - 1)"
    "src_right (fst h) (src_value h) \<or> min (min (snd (snd h)) 3 - 1) 3 < min (snd (snd h)) 3"
proof -
  obtain x w n where h: "h = (x, w, n)" by (metis prod.exhaust)
  define k :: u32 where "k = (if x AND 0x10000 = 0 then 0 else if n = 1 then 0x20000 else 0x10000)"
  have k: "k \<in> {0, 0x10000, 0x20000}" by (simp add: k_def)
  note f = src_value_facts [OF k, of x "w (drop_bit 25 x)"]
  have v: "src_value h = (if 2 \<le> n then 0x800000 else ((x AND 0x780000) OR k) OR ucast (w (drop_bit 25 x)))"
    unfolding src_value_def h prod.case k_def [symmetric] or.assoc ..
  show "src_seen fst (\<lambda>h. fst (snd h)) (\<lambda>h. 2 \<le> snd (snd h)) h (src_value h) (fst h, fst (snd h), min (snd (snd h)) 3 - 1)"
    unfolding src_seen_def v using f by (simp add: h del: bit_and_iff) (metis f(4))
  show "src_right (fst h) (src_value h) \<or> min (min (snd (snd h)) 3 - 1) 3 < min (snd (snd h)) 3"
  proof (cases "n = 0")
    case True
    have "src_right x ((x AND 0x780000 OR k) OR ucast (w (drop_bit 25 x)))"
    proof (cases "x AND 0x10000 = 0")
      case True
      then show ?thesis unfolding src_right_def using f(1) by simp
    next
      case False
      then have "k = 0x10000" using \<open>n = 0\<close> by (simp add: k_def)
      then show ?thesis unfolding src_right_def using f(3) False by simp
    qed
    then show ?thesis unfolding v using True by (simp add: h)
  next
    case False
    then have "min (min n 3 - 1) 3 < min n 3" by linarith
    then show ?thesis by (simp add: h)
  qed
qed

lemma src_hw_laws: "src_laws src_hw demo_es fst (\<lambda>h. fst (snd h)) (\<lambda>h. 2 \<le> snd (snd h)) (\<lambda>h. min (snd (snd h)) 3)"
proof -
  have i: "es_inl src_hw demo_es ES_REG_1371_SMPRATE h = (src_value h, fst h, fst (snd h), min (snd (snd h)) 3 - 1)" for h
    by (simp add: es_inl_def src_hw_def demo_es_def)
  show ?thesis unfolding src_laws_def i
    using src_hw_seen by (auto simp: es_outl_def src_hw_def demo_es_def simp del: One_nat_def)
qed

text \<open>C20: Setting the rate of the first channel of an Ensoniq card stores in the memory of the rate converter the fixed-point number with 15
  fractional bits that is closest to the rate in units of 3000 Hz: its integer part in the upper bits of one word, whose lower byte stays
  as it was, its fraction in another, and no other word changes. The channel, stopped meanwhile, runs again afterwards, and the
  stops of the other channels are as before. This holds for rates up to 48000 Hz and for a converter that is busy, or in a state in which its memory cannot be read,
  for any time that the driver's bounded waits cover (fewer than 0xF000 reads); what is read before the waits are over means nothing.\<close>

theorem es_dac1_rate:
  assumes l: "src_laws hw e ctl ram busy left" and r: "unat rate \<le> 48000"
  shows "\<exists>i j. ram (snd_es1371_dac1_rate hw e rate h) = (ram h)(0x71 := i, 0x73 := j)
    \<and> \<bar>3000 * int (32768 * (unat i div 1024) + unat j) - 32768 * int (unat rate)\<bar> \<le> 1500
    \<and> unat i mod 256 = unat (ram h 0x71) mod 256 \<and> ctl (snd_es1371_dac1_rate hw e rate h) = ctl h AND 0x580000"
  by (rule dac1_rate_ram [OF assms])

theorem es_dac1_rate_witness:
  "\<exists>i j. fst (snd (snd_es1371_dac1_rate src_hw demo_es 44100 (0x400000, \<lambda>a. ucast a, 3))) = (\<lambda>a. ucast a)(0x71 := i, 0x73 := j)
    \<and> \<bar>3000 * int (32768 * (unat i div 1024) + unat j) - 32768 * int (unat (44100 :: u32))\<bar> \<le> 1500
    \<and> unat i mod 256 = unat (ucast (0x71 :: u32) :: u16) mod 256
    \<and> fst (snd_es1371_dac1_rate src_hw demo_es 44100 (0x400000, \<lambda>a. ucast a, 3)) = 0x400000 AND 0x580000"
  using es_dac1_rate [OF src_hw_laws, of 44100 "(0x400000, \<lambda>a. ucast a, 3)"] by simp

section \<open>Position and room\<close>

definition es_ready :: "'h es au_globals \<Rightarrow> bool" where
  "es_ready g = (private_data (device g) \<noteq> None)"

lemma es_getbufpos_ok:
  assumes "good_position a"
  shows "\<exists>p a' h'. ES1371_getbufpos hw (a, e, h) = (p, a', e, h') \<and> p < card_dmasize a \<and> pos_same a a'"
proof -
  obtain c h1 where 1: "es_inl hw e ES_REG_CONTROL h = (c, h1)" by (rule prod.exhaust)
  obtain x h2 where 2: "es_inl hw e ES_REG_DAC1_SIZE (es_outl hw e ES_REG_MEM_PAGE 0x0C h1) = (x, h2)" by (rule prod.exhaust)
  have "pos_same a (a\<lparr>card_dma_lastgoodpos := q\<rparr>)" if "q < card_dmasize a" for q unfolding pos_same_def
    by (intro exI [of _ "card_DMABUFF a"] exI [of _ "card_infobits a"] exI [of _ q]) (simp add: that)
  then show ?thesis using pos_same_refl [OF assms] assms
    unfolding ES1371_getbufpos_def Let_def prod.case 1 2 by (auto simp: good_position_def)
qed

interpretation es: card_position "ask_play (\<lambda>s. Inr (ES1371_getbufpos hw s))" es_ready
proof
  fix a :: mpxplay_audioout_info and g :: "'a es au_globals"
  assume good: "good_position a" and r: "es_ready g"
  then obtain e where e: "private_data (device g) = Some e" by (auto simp: es_ready_def)
  obtain p a' h' where l: "ES1371_getbufpos hw (a, e, machine (device g)) = (p, a', e, h')" "p < card_dmasize a" "pos_same a a'"
    using es_getbufpos_ok [OF good, of hw e "machine (device g)"] by blast
  then show "\<exists>p a' g'. ask_play (\<lambda>s. Inr (ES1371_getbufpos hw s)) (a, g) = Inr (p, a', g') \<and> p < card_dmasize a \<and> pos_same a a' \<and> es_ready g'"
    using e by (simp add: ask_play_def deref_def es_ready_def)
qed

lemma es_room:
  assumes good: "good_position a" and r: "es_ready g" and b: "card_bytespersign a \<noteq> 0"
    and o: "card_outbytes a \<le> card_dmasize a" and i: "funcbit_test (card_infobits a) AUINFOS_CARDINFOBIT_PLAYING"
    and prot: "buffer_protection (card_bytespersign a) = Inr prot"
  shows "\<exists>r a' g' p. AU_cardbuf_space (Some (ES1371_sndcard_info env)) (a, g) = Inr (r, a', g') \<and> good_position a' \<and> es_ready g'
    \<and> p < card_dmasize a \<and> card_dmasize a' = card_dmasize a \<and> card_dmaspace a' = ring_room p a' \<and> card_dmaspace a' \<le> card_dmasize a
    \<and> card_dmafilled a' = card_dmasize a - card_dmaspace a'
    \<and> r = (if prot < card_dmaspace a' then card_dmaspace a' - prot else 0)"
  by (rule es.room [OF good r b o i _ _ prot, where hw = "ce_hw env"])
    (simp_all add: ES1371_sndcard_info_def funcbit_test_def SNDCARD_LOWLEVELHAND_def SNDCARD_CARDBUF_SPACE_def)

section \<open>What modelling shows\<close>

text \<open>Without such a card in the machine, the driver closes a chip at port 0: it writes doublewords of 0 to the ports 0 and 0x20 of
  the system board, which are the first DMA controller and the interrupt controller with its mask register. The other drivers test the
  port first.\<close>

lemma undetected_writes_system_ports:
  assumes "ce_calloc env ''ensoniq_card_s''" "ce_calloc env ''pci_config_s''"
    and "pcibios_search_devices (ce_bios env) ensoniq_devices (Some pci_config_zero) (machine d) = Inr (PCI_DEVICE_NOTFOUND, Some k, h)"
  shows "ES1371_adetect env (a, d) = Inr (False, a, d\<lparr>private_data := None, machine := hw_outl (ce_hw env) 0x20 0 (hw_outl (ce_hw env) 0 0 h)\<rparr>)"
  using assms by (simp add: ES1371_adetect_def Let_def deref_def ES1371_close_def snd_es1371_chip_close_def es_outl_def
    ensoniq_card_zero_def MDma_free_cardmem_def)

text \<open>The bit that resets the codec of the newer chips is put into the copy of the serial register; the copy of the status register, which is
  what the cold reset writes, stays 0.\<close>

lemma cold_reset_bit_misplaced:
  assumes "es_identify env k e h = Inr (e', h')" "es_cssr e = 0"
  shows "es_cssr e' = 0" "es_reset_hack k (es_chiprev e') \<Longrightarrow> es_sctrl e' = es_sctrl e OR ES_1371_ST_AC97_RST"
proof -
  obtain irq h1 where 1: "pcibios_ReadConfig_Byte (b_pci (ce_bios env)) k PCIR_INTR_LN h = (irq, h1)" by (rule prod.exhaust)
  obtain cr h2 where 2: "pcibios_ReadConfig_Byte (b_pci (ce_bios env)) k 0x08 h1 = (cr, h2)" by (rule prod.exhaust)
  obtain ah key h3 where 3: "pcibios_search_devices (ce_bios env) amplifier_hack_devices None h2 = Inr (ah, key, h3)"
    using assms(1) unfolding es_identify_def Let_def 1 2 prod.case bindE_eq_Inr by (metis prod.exhaust)
  define e1 where "e1 = e\<lparr>es_irq := ucast irq, es_chiprev := ucast cr\<rparr>"
  define e2 where "e2 = (if es_reset_hack k (es_chiprev e1) then e1\<lparr>es_infobits := funcbit_enable (es_infobits e1) 1,
             es_sctrl := funcbit_enable (es_sctrl e1) ES_1371_ST_AC97_RST\<rparr> else e1)"
  have e': "e' = (let e = (if ah = PCI_SUCCESSFUL then e2\<lparr>es_ctrl := funcbit_enable (es_ctrl e2) (push_bit 16 (1 AND 0x0F))\<rparr> else e2)
      in e\<lparr>es_port := es_port e AND 0xFFF0\<rparr>)"
    using assms(1) unfolding es_identify_def Let_def 1 2 3 prod.case bindE_simps e1_def [symmetric] e2_def [symmetric] by simp
  have "es_cssr e2 = 0" "es_chiprev e2 = es_chiprev e1" using assms(2) by (simp_all add: e2_def e1_def)
  then show "es_cssr e' = 0" by (simp add: e' Let_def)
  have "es_chiprev e' = es_chiprev e1" "es_sctrl e' = es_sctrl e2" using \<open>es_chiprev e2 = es_chiprev e1\<close> by (simp_all add: e' Let_def)
  then show "es_reset_hack k (es_chiprev e') \<Longrightarrow> es_sctrl e' = es_sctrl e OR ES_1371_ST_AC97_RST"
    by (simp add: e2_def e1_def funcbit_enable_def)
qed

end
