(* ===== verification/Vectors.thy ===== *)
theory Vectors
  imports Cardbuf
begin

text \<open>
  Interrupt vectors and plain ports (\<open>mpxplay/au_cards/au_base.c\<close>, \<open>ioport.c\<close>): protected-mode vectors with the wrappers that
  the run-time system allocates around handlers of the program, and the FM and MIDI ports of cards that have them at fixed addresses,
  with the search for an FM chip. The services of the DPMI host and of the run-time system are parameters.
\<close>

section \<open>Vectors\<close>

record seginfo =
  pm_offset :: u32
  pm_selector :: u16

definition seginfo_zero :: seginfo where "seginfo_zero = \<lparr>pm_offset = 0, pm_selector = 0\<rparr>"

text \<open>\<open>ve_alloc\<close> makes a wrapper for a handler and replaces its address by that of the wrapper; \<open>ve_rm_get\<close> answers \<open>None\<close> when it fails.\<close>

record 'd vector_env =
  ve_my_cs :: u16
  ve_alloc :: "seginfo \<Rightarrow> 'd \<Rightarrow> bool \<times> seginfo \<times> 'd"
  ve_free :: "seginfo \<Rightarrow> 'd \<Rightarrow> 'd"
  ve_set_wrapped :: "u32 \<Rightarrow> seginfo \<Rightarrow> 'd \<Rightarrow> 'd"
  ve_set :: "u32 \<Rightarrow> seginfo \<Rightarrow> 'd \<Rightarrow> 'd"
  ve_get :: "u32 \<Rightarrow> 'd \<Rightarrow> seginfo"
  ve_set_exc :: "u32 \<Rightarrow> seginfo \<Rightarrow> 'd \<Rightarrow> 'd"
  ve_get_exc :: "u32 \<Rightarrow> 'd \<Rightarrow> seginfo"
  ve_rm_get :: "u32 \<Rightarrow> 'd \<Rightarrow> (u16 \<times> u16) option"
  ve_rm_set :: "u32 \<Rightarrow> u16 \<times> u16 \<Rightarrow> 'd \<Rightarrow> 'd"

definition pds_dpmi_getrmvect :: "'d vector_env \<Rightarrow> u32 \<Rightarrow> 'd \<Rightarrow> u32" where
  "pds_dpmi_getrmvect env intno d = (case ve_rm_get env intno d of
      Some (segm, off) \<Rightarrow> ucast off OR push_bit 16 (ucast segm) | None \<Rightarrow> 0)"

definition pds_dpmi_setrmvect :: "'d vector_env \<Rightarrow> u32 \<Rightarrow> u32 \<Rightarrow> u32 \<Rightarrow> 'd \<Rightarrow> 'd" where
  "pds_dpmi_setrmvect env intno segm off d = ve_rm_set env intno (ucast segm, ucast off) d"

definition pds_dpmi_getexcvect :: "'d vector_env \<Rightarrow> u32 \<Rightarrow> 'd \<Rightarrow> seginfo" where
  "pds_dpmi_getexcvect env intno d = ve_get_exc env intno d"

definition pds_dpmi_setexcvect :: "'d vector_env \<Rightarrow> u32 \<Rightarrow> seginfo \<Rightarrow> 'd \<Rightarrow> 'd" where
  "pds_dpmi_setexcvect env intno vect d = ve_set_exc env intno vect d"

definition pds_dos_getvect :: "'d vector_env \<Rightarrow> u32 \<Rightarrow> 'd \<Rightarrow> seginfo" where
  "pds_dos_getvect env intno d = ve_get env intno d"

text \<open>The table \<open>intaddr_go32\<close> has the wrapper of each interrupt, zero where there is none.\<close>

type_synonym wrappers = "u32 \<Rightarrow> seginfo"

definition release_old :: "'d vector_env \<Rightarrow> u32 \<Rightarrow> seginfo \<Rightarrow> seginfo \<Rightarrow> wrappers \<times> 'd \<Rightarrow> wrappers \<times> 'd" where
  "release_old env intno vect old s = (if old \<noteq> seginfo_zero then
      (if pm_selector vect \<noteq> ve_my_cs env then (fst s)(intno := seginfo_zero) else fst s, ve_free env old (snd s))
    else s)"

definition pds_dos_setvect :: "'d vector_env \<Rightarrow> u32 \<Rightarrow> seginfo \<Rightarrow> wrappers \<times> 'd \<Rightarrow> (wrappers \<times> 'd) res" where
  "pds_dos_setvect env intno vect s =
    (let (t, d) = s in
     if 256 \<le> intno then Inl Out_of_bounds
     else if t intno = vect then Inr s
     else if pm_selector vect = ve_my_cs env then
       (let (ok, w, d) = ve_alloc env vect d in
        if \<not> ok then Inr (t(intno := w), d)
        else Inr (release_old env intno vect (t intno) (t(intno := w), ve_set_wrapped env intno w d)))
     else Inr (release_old env intno vect (t intno) (t, ve_set env intno vect d)))"

section \<open>Ports of cards\<close>

definition ioport_fm_read :: "'h card_hw \<Rightarrow> u16 \<Rightarrow> u32 \<Rightarrow> 'h \<Rightarrow> u8 \<times> 'h" where
  "ioport_fm_read hw fm_port idx h = hw_inb hw (ucast (ucast fm_port + idx)) h"

definition ioport_fm_write :: "'h card_hw \<Rightarrow> u16 \<Rightarrow> u32 \<Rightarrow> u8 \<Rightarrow> 'h \<Rightarrow> 'h" where
  "ioport_fm_write hw fm_port idx v h = hw_outb hw (ucast (ucast fm_port + idx)) v h"

definition ioport_mpu401_read :: "'h card_hw \<Rightarrow> u16 \<Rightarrow> u32 \<Rightarrow> 'h \<Rightarrow> u8 \<times> 'h" where
  "ioport_mpu401_read hw mpu_port idx h = hw_inb hw (ucast (ucast mpu_port + idx)) h"

definition ioport_mpu401_write :: "'h card_hw \<Rightarrow> u16 \<Rightarrow> u32 \<Rightarrow> u8 \<Rightarrow> 'h \<Rightarrow> 'h" where
  "ioport_mpu401_write hw mpu_port idx v h = hw_outb hw (ucast (ucast mpu_port + idx)) v h"

definition ioport_mpu401_write_when_ready :: "'h card_hw \<Rightarrow> u16 \<Rightarrow> u32 \<Rightarrow> u8 \<Rightarrow> 'h \<Rightarrow> 'h res" where
  "ioport_mpu401_write_when_ready hw mpu_port idx v h =
    bindE (if idx = 0 then
        retry_wait (\<lambda>h. let (st, h) = ioport_mpu401_read hw mpu_port 1 h in (st AND 0x40 = 0, h)) (pds_delay_10us (hw_io hw) 1) 10000 h
      else Inr (0, h)) (\<lambda>(_, h). Inr (ioport_mpu401_write hw mpu_port idx v h))"

definition OPL_write :: "'h card_hw \<Rightarrow> u16 \<Rightarrow> u8 \<Rightarrow> u8 \<Rightarrow> 'h \<Rightarrow> 'h res" where
  "OPL_write hw fmport reg v h =
    bindE (pds_delay_10us (hw_io hw) 1 (hw_outb hw fmport reg h)) (\<lambda>h.
    pds_delay_10us (hw_io hw) 3 (hw_outb hw (fmport + 1) v h))"

definition OPL_status :: "'h card_hw \<Rightarrow> u16 \<Rightarrow> 'h \<Rightarrow> u8 \<times> 'h" where
  "OPL_status hw fmport h = (let (v, h) = hw_inb hw fmport h in (v AND 0xE0, h))"

definition ioport_detect_opl :: "'h card_hw \<Rightarrow> u16 \<Rightarrow> 'h \<Rightarrow> (nat \<times> 'h) res" where
  "ioport_detect_opl hw fmport h =
    bindE (OPL_write hw fmport 0x04 0x60 h) (\<lambda>h. bindE (OPL_write hw fmport 0x04 0x80 h) (\<lambda>h.
    (let (fmsts1, h) = OPL_status hw fmport h in
     bindE (OPL_write hw fmport 0x02 0xFF h) (\<lambda>h. bindE (OPL_write hw fmport 0x04 0x21 h) (\<lambda>h.
     bindE (pds_delay_10us (hw_io hw) 8 h) (\<lambda>h.
     (let (fmsts2, h) = OPL_status hw fmport h in
      bindE (OPL_write hw fmport 0x04 0x60 h) (\<lambda>h. bindE (OPL_write hw fmport 0x04 0x80 h) (\<lambda>h.
      if \<not> (fmsts1 = 0 \<and> fmsts2 = 0xC0) then Inr (0, h)
      else (let (st, h) = hw_inb hw fmport h in Inr (if st AND 0x06 = 0 then 3 else 2, h)))))))))))"

section \<open>Wrappers are not lost\<close>

text \<open>The run-time system: the wrappers that are allocated, each with an address of its own, when there is memory for it.\<close>

definition wrapper_laws :: "'d vector_env \<Rightarrow> ('d \<Rightarrow> seginfo set) \<Rightarrow> bool" where
  "wrapper_laws env live = (
     (\<forall>v d w d'. ve_alloc env v d = (True, w, d') \<longrightarrow> w \<notin> live d \<and> w \<noteq> seginfo_zero \<and> live d' = insert w (live d)) \<and>
     (\<forall>w d. live (ve_free env w d) = live d - {w}) \<and>
     (\<forall>i w d. live (ve_set_wrapped env i w d) = live d) \<and> (\<forall>i w d. live (ve_set env i w d) = live d))"

definition wrappers_ok :: "('d \<Rightarrow> seginfo set) \<Rightarrow> wrappers \<times> 'd \<Rightarrow> bool" where
  "wrappers_ok live s = (live (snd s) = {w. w \<noteq> seginfo_zero \<and> (\<exists>i<256. fst s i = w)} \<and>
     (\<forall>i<256. \<forall>j<256. fst s i = fst s j \<longrightarrow> fst s i \<noteq> seginfo_zero \<longrightarrow> i = j))"

definition setvect_allocates :: "'d vector_env \<Rightarrow> u32 \<Rightarrow> seginfo \<Rightarrow> wrappers \<times> 'd \<Rightarrow> bool" where
  "setvect_allocates env intno vect s = (fst s intno = vect \<or> pm_selector vect \<noteq> ve_my_cs env \<or> fst (ve_alloc env vect (snd s)))"

lemma setvect_step:
  assumes l: "wrapper_laws env live" and ok: "wrappers_ok live s" and i: "intno < 256" and al: "setvect_allocates env intno vect s"
  shows "\<exists>s'. pds_dos_setvect env intno vect s = Inr s' \<and> wrappers_ok live s'"
proof -
  obtain t d where s: "s = (t, d)" by (rule prod.exhaust)
  have lv: "live d = {w. w \<noteq> seginfo_zero \<and> (\<exists>i<256. t i = w)}"
    and inj: "\<And>i j. i < 256 \<Longrightarrow> j < 256 \<Longrightarrow> t i = t j \<Longrightarrow> t i \<noteq> seginfo_zero \<Longrightarrow> i = j"
    using ok by (auto simp: wrappers_ok_def s)
  note laws = l [unfolded wrapper_laws_def]
  have f: "live (ve_free env x y) = live y - {x}" "live (ve_set_wrapped env n x y) = live y" "live (ve_set env n x y) = live y" for x y n
    using laws [THEN conjunct2, THEN conjunct1] laws [THEN conjunct2, THEN conjunct2] by simp_all
  show ?thesis
  proof (cases "t intno = vect")
    case True
    then show ?thesis using ok i by (simp add: pds_dos_setvect_def s not_le)
  next
    case False
    show ?thesis
    proof (cases "pm_selector vect = ve_my_cs env")
      case True
      obtain a w d1 where a: "ve_alloc env vect d = (a, w, d1)" by (rule prod_cases3)
      have "a" using al False True a by (simp add: setvect_allocates_def s)
      then have w: "a" "w \<notin> live d" "w \<noteq> seginfo_zero" "live d1 = insert w (live d)" using laws [THEN conjunct1] a by simp_all
      define s' where "s' = release_old env intno vect (t intno) (t(intno := w), ve_set_wrapped env intno w d1)"
      have r: "pds_dos_setvect env intno vect s = Inr s'" using False True i w(1) a by (simp add: pds_dos_setvect_def s not_le s'_def)
      have s': "fst s' = t(intno := w)" "live (snd s') = (if t intno = seginfo_zero then insert w (live d) else insert w (live d) - {t intno})"
        using True w(4) f by (auto simp: s'_def release_old_def)
      have old: "t intno \<noteq> w" using w(2,3) i lv by (cases "t intno = seginfo_zero") auto
      have mem: "x \<in> live (snd s') \<longleftrightarrow> x \<noteq> seginfo_zero \<and> (\<exists>i<256. (t(intno := w)) i = x)" for x
      proof (cases "x = w")
        case True
        then show ?thesis using old w(3) i s'(2) by auto
      next
        case False
        then have "(\<exists>i<256. (t(intno := w)) i = x) \<longleftrightarrow> (\<exists>i<256. i \<noteq> intno \<and> t i = x)" by auto
        moreover have "x \<in> live (snd s') \<longleftrightarrow> x \<in> live d \<and> (t intno = seginfo_zero \<or> x \<noteq> t intno)" using False s'(2) by auto
        moreover have "x \<in> live d \<longleftrightarrow> x \<noteq> seginfo_zero \<and> (\<exists>i<256. t i = x)" using lv by simp
        ultimately show ?thesis using inj i by metis
      qed
      have e: "live (snd s') = {x. x \<noteq> seginfo_zero \<and> (\<exists>i<256. (t(intno := w)) i = x)}"
        by (rule set_eqI) (unfold mem_Collect_eq, rule mem)
      have nw: "t k \<noteq> w" if "k < 256" for k using w(2,3) lv that by (cases "t k = seginfo_zero") auto
      have "m = k" if "m < 256" "k < 256" "(t(intno := w)) m = (t(intno := w)) k" "(t(intno := w)) m \<noteq> seginfo_zero" for m k
        using that nw [OF that(1)] nw [OF that(2)] inj [OF that(1,2)] by (cases "m = intno"; cases "k = intno") auto
      then have "wrappers_ok live s'" unfolding wrappers_ok_def s'(1) e by blast
      then show ?thesis using r by blast
    next
      case cs: False
      define s' where "s' = release_old env intno vect (t intno) (t, ve_set env intno vect d)"
      have r: "pds_dos_setvect env intno vect s = Inr s'" using False cs i by (simp add: pds_dos_setvect_def s not_le s'_def)
      have s': "fst s' = t(intno := seginfo_zero)" "live (snd s') = live d - {t intno}"
        using cs f lv by (auto simp: s'_def release_old_def fun_eq_iff)
      have "live (snd s') = {x. x \<noteq> seginfo_zero \<and> (\<exists>i<256. (t(intno := seginfo_zero)) i = x)}"
      proof (rule set_eqI)
        fix x
        have "(\<exists>i<256. i \<noteq> intno \<and> t i = x) \<longleftrightarrow> (\<exists>i<256. t i = x) \<and> x \<noteq> t intno" if "x \<noteq> seginfo_zero" using inj i that by metis
        moreover have "x \<noteq> seginfo_zero \<Longrightarrow> (\<exists>i<256. (t(intno := seginfo_zero)) i = x) \<longleftrightarrow> (\<exists>i<256. i \<noteq> intno \<and> t i = x)" by auto
        ultimately show "x \<in> live (snd s') \<longleftrightarrow> x \<in> {x. x \<noteq> seginfo_zero \<and> (\<exists>i<256. (t(intno := seginfo_zero)) i = x)}"
          unfolding s'(2) lv by blast
      qed
      moreover have "m = k" if "m < 256" "k < 256" "(t(intno := seginfo_zero)) m = (t(intno := seginfo_zero)) k" "(t(intno := seginfo_zero)) m \<noteq> seginfo_zero" for m k
        using that inj [OF that(1,2)] by (cases "m = intno"; cases "k = intno") auto
      ultimately have "wrappers_ok live s'" unfolding wrappers_ok_def s'(1) by blast
      then show ?thesis using r by blast
    qed
  qed
qed

primrec setvects :: "'d vector_env \<Rightarrow> (u32 \<times> seginfo) list \<Rightarrow> wrappers \<times> 'd \<Rightarrow> (wrappers \<times> 'd) res" where
  "setvects env [] s = Inr s"
| "setvects env (c # cs) s = bindE (pds_dos_setvect env (fst c) (snd c) s) (setvects env cs)"

primrec all_allocated :: "'d vector_env \<Rightarrow> (u32 \<times> seginfo) list \<Rightarrow> wrappers \<times> 'd \<Rightarrow> bool" where
  "all_allocated env [] s = True"
| "all_allocated env (c # cs) s = (setvect_allocates env (fst c) (snd c) s \<and>
     (case pds_dos_setvect env (fst c) (snd c) s of Inl _ \<Rightarrow> True | Inr s \<Rightarrow> all_allocated env cs s))"

text \<open>C25: Installing and restoring handlers in any order neither loses nor reuses a wrapper: after any sequence of calls for which the
  run-time system has memory, the wrappers that are allocated are exactly those in the table, a different one for each interrupt that has a
  handler of the program.\<close>

theorem setvect_wrappers:
  assumes l: "wrapper_laws env live" and ok: "wrappers_ok live s" and c: "\<forall>c\<in>set calls. fst c < 256" and al: "all_allocated env calls s"
  shows "\<exists>s'. setvects env calls s = Inr s' \<and> wrappers_ok live s'"
  using ok c al
proof (induction calls arbitrary: s)
  case (Cons c calls)
  obtain s1 where "pds_dos_setvect env (fst c) (snd c) s = Inr s1" "wrappers_ok live s1"
    using setvect_step [OF l Cons.prems(1), of "fst c" "snd c"] Cons.prems(2,3) by auto
  then show ?case using Cons.IH [of s1] Cons.prems(2,3) by simp
qed simp

text \<open>A run-time system that places the wrappers one behind the other.\<close>

definition demo_vectors :: "(u32 \<times> seginfo set) vector_env" where
  "demo_vectors = \<lparr>ve_my_cs = 0x1F, ve_alloc = (\<lambda>v (n, ws). let w = \<lparr>pm_offset = n, pm_selector = 0x1F\<rparr> in
      if w \<in> ws then (False, w, n, ws) else (True, w, n + 16, insert w ws)),
    ve_free = (\<lambda>w (n, ws). (n, ws - {w})), ve_set_wrapped = (\<lambda>_ _ d. d), ve_set = (\<lambda>_ _ d. d), ve_get = (\<lambda>_ _. seginfo_zero),
    ve_set_exc = (\<lambda>_ _ d. d), ve_get_exc = (\<lambda>_ _. seginfo_zero), ve_rm_get = (\<lambda>_ _. None), ve_rm_set = (\<lambda>_ _ d. d)\<rparr>"

lemma demo_vector_laws: "wrapper_laws demo_vectors snd"
  by (auto simp: wrapper_laws_def demo_vectors_def seginfo_zero_def Let_def split: if_splits prod.splits)

text \<open>A handler is installed for two interrupts, and the first vector is restored.\<close>

theorem setvect_wrappers_witness:
  "\<exists>s'. setvects demo_vectors [(0x0D, \<lparr>pm_offset = 0x1000, pm_selector = 0x1F\<rparr>), (0x72, \<lparr>pm_offset = 0x2000, pm_selector = 0x1F\<rparr>),
      (0x0D, \<lparr>pm_offset = 0x50, pm_selector = 0x08\<rparr>)] (\<lambda>_. seginfo_zero, 0x8000, {}) = Inr s' \<and> wrappers_ok snd s'"
  by (rule setvect_wrappers [OF demo_vector_laws])
    (simp_all add: wrappers_ok_def setvect_allocates_def pds_dos_setvect_def release_old_def demo_vectors_def seginfo_zero_def Let_def)

text \<open>When the wrapper cannot be made, the table holds the plain address of the handler and the old wrapper is forgotten.\<close>

lemma setvect_failed_alloc:
  assumes "intno < 256" "t intno \<noteq> vect" "pm_selector vect = ve_my_cs env" "ve_alloc env vect d = (False, vect, d')"
  shows "pds_dos_setvect env intno vect (t, d) = Inr (t(intno := vect), d')"
  using assms by (simp add: pds_dos_setvect_def not_le)

end
