(* ===== verification/Cmi.thy ===== *)
theory Cmi
  imports Ac97 Vectors
begin

text \<open>
  The driver of the C-Media CMI8338 and CMI8738 (\<open>mpxplay/au_cards/sc_cmi.c\<close>); the functions for its FM and MIDI ports are in theory Vectors. Reads from the older chips are not reliable, so that the driver repeats its accesses to registers
  until what it reads is plausible: without a bound, so that a chip that never answers is the error \<open>No_return\<close>. Messages are left out.
\<close>

section \<open>Loops\<close>

text \<open>A loop with the test at its end: the body gives a value, on which the test depends.\<close>

partial_function (option) do_until :: "('h \<Rightarrow> ('v \<times> 'h) res) \<Rightarrow> ('v \<Rightarrow> bool) \<Rightarrow> 'h \<Rightarrow> ('v \<times> 'h) res option" where
  "do_until body ends h = (case body h of Inl e \<Rightarrow> Some (Inl e)
     | Inr (v, h) \<Rightarrow> if ends v then Some (Inr (v, h)) else do_until body ends h)"

definition repeat_until :: "('h \<Rightarrow> ('v \<times> 'h) res) \<Rightarrow> ('v \<Rightarrow> bool) \<Rightarrow> 'h \<Rightarrow> ('v \<times> 'h) res" where
  "repeat_until body ends h = (case do_until body ends h of None \<Rightarrow> Inl No_return | Some r \<Rightarrow> r)"

lemma repeat_until_step:
  "repeat_until body ends h = (case body h of Inl e \<Rightarrow> Inl e | Inr (v, h) \<Rightarrow> if ends v then Inr (v, h) else repeat_until body ends h)"
  unfolding repeat_until_def by (subst do_until.simps) (auto split: sum.splits)

text \<open>What holds after every round holds at the end.\<close>

lemma do_until_post:
  "do_until body ends h = Some r \<Longrightarrow> r = Inr (v, h') \<Longrightarrow> Q h \<Longrightarrow>
    (\<And>h v h'. Q h \<Longrightarrow> body h = Inr (v, h') \<Longrightarrow> R h') \<Longrightarrow> (\<And>h. R h \<Longrightarrow> Q h) \<Longrightarrow> R h'"
proof (induction rule: do_until.raw_induct [rotated, consumes 1, case_names step])
  case (step f body ends h r)
  show ?case
  proof (cases "body h")
    case (Inr p)
    obtain w g where p: "p = (w, g)" by (rule prod.exhaust)
    have g: "R g" using step(4,5) Inr p by blast
    show ?thesis
    proof (cases "ends w")
      case True
      then show ?thesis using step(2,3) Inr p g by simp
    next
      case False
      then have "f body ends g = Some r" using step(2) Inr p by simp
      then show ?thesis by (rule step(1)) (use step(3,5,6) g in blast)+
    qed
  qed (use step(2,3) in simp)
qed

lemma repeat_until_post:
  assumes "repeat_until body ends h = Inr (v, h')" "Q h"
    and "\<And>h v h'. Q h \<Longrightarrow> body h = Inr (v, h') \<Longrightarrow> R h'" "\<And>h. R h \<Longrightarrow> Q h"
  shows "R h'"
proof -
  have "do_until body ends h = Some (Inr (v, h'))" using assms(1) by (simp add: repeat_until_def split: option.splits)
  then show ?thesis by (rule do_until_post [where Q = Q and R = R, OF _ refl assms(2-4)])
qed

section \<open>State\<close>

abbreviation (input) CM_REG_FUNCTRL0 :: u32 where "CM_REG_FUNCTRL0 \<equiv> 0x00"
abbreviation (input) CM_REG_FUNCTRL1 :: u32 where "CM_REG_FUNCTRL1 \<equiv> 0x04"
abbreviation (input) CM_REG_CHFORMAT :: u32 where "CM_REG_CHFORMAT \<equiv> 0x08"
abbreviation (input) CM_REG_INT_HLDCLR :: u32 where "CM_REG_INT_HLDCLR \<equiv> 0x0C"
abbreviation (input) CM_REG_INT_STATUS :: u32 where "CM_REG_INT_STATUS \<equiv> 0x10"
abbreviation (input) CM_REG_LEGACY_CTRL :: u32 where "CM_REG_LEGACY_CTRL \<equiv> 0x14"
abbreviation (input) CM_REG_MISC_CTRL :: u32 where "CM_REG_MISC_CTRL \<equiv> 0x18"
abbreviation (input) CM_REG_SB16_DATA :: u32 where "CM_REG_SB16_DATA \<equiv> 0x22"
abbreviation (input) CM_REG_SB16_ADDR :: u32 where "CM_REG_SB16_ADDR \<equiv> 0x23"
abbreviation (input) CM_REG_MPU_PCI :: u32 where "CM_REG_MPU_PCI \<equiv> 0x40"
abbreviation (input) CM_REG_FM_PCI :: u32 where "CM_REG_FM_PCI \<equiv> 0x50"
abbreviation (input) CM_REG_CH0_FRAME1 :: u32 where "CM_REG_CH0_FRAME1 \<equiv> 0x80"
abbreviation (input) CM_REG_CH0_FRAME2 :: u32 where "CM_REG_CH0_FRAME2 \<equiv> 0x84"
abbreviation (input) CM_RST_CH0 :: u32 where "CM_RST_CH0 \<equiv> 0x40000"
abbreviation (input) CM_CHEN0 :: u32 where "CM_CHEN0 \<equiv> 0x10000"
abbreviation (input) CM_PAUSE0 :: u32 where "CM_PAUSE0 \<equiv> 4"
abbreviation (input) CM_CHADC0 :: u32 where "CM_CHADC0 \<equiv> 1"
abbreviation (input) CM_DSFC_MASK :: u32 where "CM_DSFC_MASK \<equiv> 0x1C00"
abbreviation (input) CM_SPDF_0 :: u32 where "CM_SPDF_0 \<equiv> 0x100"
abbreviation (input) CM_RESET :: u32 where "CM_RESET \<equiv> 0x40000000"
abbreviation (input) CM_FM_EN :: u32 where "CM_FM_EN \<equiv> 0x80000"
abbreviation (input) CM_CH1_INT_EN :: u32 where "CM_CH1_INT_EN \<equiv> 0x20000"
abbreviation (input) CM_CH0_INT_EN :: u32 where "CM_CH0_INT_EN \<equiv> 0x10000"
abbreviation (input) CM_TDMA_INT_EN :: u32 where "CM_TDMA_INT_EN \<equiv> 0x40000"
abbreviation (input) CM_INTR :: u32 where "CM_INTR \<equiv> 0x80000000"
abbreviation (input) CM_UARTINT :: u32 where "CM_UARTINT \<equiv> 0x10000"
abbreviation (input) CM_CHINT1 :: u32 where "CM_CHINT1 \<equiv> 2"
abbreviation (input) CM_CHINT0 :: u32 where "CM_CHINT0 \<equiv> 1"
abbreviation (input) CM_INTR_MASK :: u32 where "CM_INTR_MASK \<equiv> 0x8001C003"
abbreviation (input) CM_CH_PLAY :: nat where "CM_CH_PLAY \<equiv> 0"
abbreviation (input) CM_CH_CAPT :: nat where "CM_CH_CAPT \<equiv> 1"
abbreviation (input) CM_PAGESIZE :: u32 where "CM_PAGESIZE \<equiv> 512"
abbreviation (input) ALL_ONES :: u32 where "ALL_ONES \<equiv> 0xFFFFFFFF"

record cmi8x38_card =
  cm_iobase :: u32
  cm_model :: u16
  cm_irq :: u32
  cm_chiprev :: u8
  cm_pci_dev :: "pci_config option"
  cm_dm :: "xmsmem option"
  cm_buffer :: u32
  cm_bufsize :: u32
  cm_ctrl :: u32
  cm_chip_version :: int
  cm_max_channels :: int
  cm_can_multi_ch :: u32
  cm_dma_size :: u32
  cm_period_size :: u32
  cm_fmt :: u32
  cm_shift :: nat
  cm_midi_in_data :: u8
  cm_midi_in_data_valid :: bool

definition cmi8x38_card_zero :: cmi8x38_card where
  "cmi8x38_card_zero = \<lparr>cm_iobase = 0, cm_model = 0, cm_irq = 0, cm_chiprev = 0, cm_pci_dev = None, cm_dm = None, cm_buffer = 0, cm_bufsize = 0,
    cm_ctrl = 0, cm_chip_version = 0, cm_max_channels = 0, cm_can_multi_ch = 0, cm_dma_size = 0, cm_period_size = 0, cm_fmt = 0, cm_shift = 0,
    cm_midi_in_data = 0, cm_midi_in_data_valid = False\<rparr>"

text \<open>The environment, with the C library's \<open>delay\<close> (in milliseconds). The device, with the fields of the audio state that only this
  driver uses: the ports for FM and MIDI, and the numbers of the card and of the one that is selected for FM.\<close>

record 'h cmi_env = "'h card_env" +
  ce_mdelay :: "nat \<Rightarrow> 'h \<Rightarrow> 'h"

record 'h cmi = "(cmi8x38_card, 'h) card_dev" +
  cmi_fm_port :: u16
  cmi_mpu401_port :: u16
  cmi_test_index :: int
  cmi_select_index_fm :: int

section \<open>Registers\<close>

definition cm_inb :: "'h cmi_env \<Rightarrow> cmi8x38_card \<Rightarrow> u32 \<Rightarrow> 'h \<Rightarrow> u8 \<times> 'h" where "cm_inb env c r = hw_inb (ce_hw env) (ucast (cm_iobase c + r))"
definition cm_inw :: "'h cmi_env \<Rightarrow> cmi8x38_card \<Rightarrow> u32 \<Rightarrow> 'h \<Rightarrow> u16 \<times> 'h" where "cm_inw env c r = hw_inw (ce_hw env) (ucast (cm_iobase c + r))"
definition cm_inl :: "'h cmi_env \<Rightarrow> cmi8x38_card \<Rightarrow> u32 \<Rightarrow> 'h \<Rightarrow> u32 \<times> 'h" where "cm_inl env c r = hw_inl (ce_hw env) (ucast (cm_iobase c + r))"

definition snd_cmipci_write_8nv :: "'h cmi_env \<Rightarrow> cmi8x38_card \<Rightarrow> u32 \<Rightarrow> u8 \<Rightarrow> 'h \<Rightarrow> 'h" where
  "snd_cmipci_write_8nv env c r x = hw_outb (ce_hw env) (ucast (cm_iobase c + r)) x"

definition snd_cmipci_write_16nv :: "'h cmi_env \<Rightarrow> cmi8x38_card \<Rightarrow> u32 \<Rightarrow> u16 \<Rightarrow> 'h \<Rightarrow> 'h" where
  "snd_cmipci_write_16nv env c r x = hw_outw (ce_hw env) (ucast (cm_iobase c + r)) x"

definition cm_outl :: "'h cmi_env \<Rightarrow> cmi8x38_card \<Rightarrow> u32 \<Rightarrow> u32 \<Rightarrow> 'h \<Rightarrow> 'h" where
  "cm_outl env c r x = hw_outl (ce_hw env) (ucast (cm_iobase c + r)) x"

text \<open>One write, which is right on the newer chips, and on the older ones when it reads back as it was written, in the bits of a mask.\<close>

definition cm_write_once :: "'h cmi_env \<Rightarrow> cmi8x38_card \<Rightarrow> u32 \<Rightarrow> u32 \<Rightarrow> u32 \<Rightarrow> 'h \<Rightarrow> (bool \<times> 'h) res" where
  "cm_write_once env c r x msk h =
    (let h = cm_outl env c r x h in
     if cm_chip_version c \<le> 37 then (let (y, h) = cm_inl env c r h in Inr (y AND msk = x AND msk, h)) else Inr (True, h))"

definition snd_cmipci_write_32m :: "'h cmi_env \<Rightarrow> cmi8x38_card \<Rightarrow> u32 \<Rightarrow> u32 \<Rightarrow> u32 \<Rightarrow> 'h \<Rightarrow> 'h res" where
  "snd_cmipci_write_32m env c r x msk h = bindE (repeat_until (cm_write_once env c r x msk) (\<lambda>ok. ok) h) (\<lambda>(_, h). Inr h)"

definition snd_cmipci_write_32 :: "'h cmi_env \<Rightarrow> cmi8x38_card \<Rightarrow> u32 \<Rightarrow> u32 \<Rightarrow> 'h \<Rightarrow> 'h res" where
  "snd_cmipci_write_32 env c r x = snd_cmipci_write_32m env c r x ALL_ONES"

text \<open>A read that is repeated on the older chips as long as all bits are set.\<close>

definition cm_read_sure :: "'h cmi_env \<Rightarrow> cmi8x38_card \<Rightarrow> u32 \<Rightarrow> 'h \<Rightarrow> (u32 \<times> 'h) res" where
  "cm_read_sure env c r = repeat_until (\<lambda>h. Inr (cm_inl env c r h)) (\<lambda>x. \<not> (x = ALL_ONES \<and> cm_chip_version c \<le> 37))"

definition snd_cmipci_set_bit :: "'h cmi_env \<Rightarrow> cmi8x38_card \<Rightarrow> u32 \<Rightarrow> u32 \<Rightarrow> 'h \<Rightarrow> 'h res" where
  "snd_cmipci_set_bit env c cmd flag h = bindE (cm_read_sure env c cmd h) (\<lambda>(x, h). snd_cmipci_write_32 env c cmd (x OR flag) h)"

definition snd_cmipci_clear_bit :: "'h cmi_env \<Rightarrow> cmi8x38_card \<Rightarrow> u32 \<Rightarrow> u32 \<Rightarrow> 'h \<Rightarrow> 'h res" where
  "snd_cmipci_clear_bit env c cmd flag h = bindE (cm_read_sure env c cmd h) (\<lambda>(x, h). snd_cmipci_write_32 env c cmd (x AND NOT flag) h)"

definition snd_cmipci_mixer_write :: "'h cmi_env \<Rightarrow> cmi8x38_card \<Rightarrow> u8 \<Rightarrow> u8 \<Rightarrow> 'h \<Rightarrow> 'h" where
  "snd_cmipci_mixer_write env c idx x h = snd_cmipci_write_8nv env c CM_REG_SB16_DATA x (snd_cmipci_write_8nv env c CM_REG_SB16_ADDR idx h)"

definition snd_cmipci_mixer_read :: "'h cmi_env \<Rightarrow> cmi8x38_card \<Rightarrow> u8 \<Rightarrow> 'h \<Rightarrow> u32 \<times> 'h" where
  "snd_cmipci_mixer_read env c idx h =
    (let (x, h) = cm_inb env c CM_REG_SB16_DATA (snd_cmipci_write_8nv env c CM_REG_SB16_ADDR idx h) in (ucast x, h))"

section \<open>Rates\<close>

definition cmi_rates :: "u32 list" where
  "cmi_rates = [5512, 11025, 22050, 44100, 8000, 16000, 32000, 48000]"

fun rate_index :: "u32 list \<Rightarrow> nat \<Rightarrow> u32 \<Rightarrow> nat" where
  "rate_index [] i rate = 7"
| "rate_index (r # rs) i rate = (if r = rate then i else rate_index rs (Suc i) rate)"

definition snd_cmipci_rate_freq :: "u32 \<Rightarrow> nat" where
  "snd_cmipci_rate_freq rate = rate_index cmi_rates 0 rate"

section \<open>The chip\<close>

text \<open>A wait for a bit of a register, with a delay before each read.\<close>

definition cm_wait_bit :: "'h cmi_env \<Rightarrow> cmi8x38_card \<Rightarrow> ('h \<Rightarrow> 'h) \<Rightarrow> u32 \<Rightarrow> u32 \<Rightarrow> bool \<Rightarrow> 'h \<Rightarrow> 'h res" where
  "cm_wait_bit env c before r flag on h =
    bindE (repeat_until (\<lambda>h. bindE (hw_delay (ce_hw env) 10 h) (\<lambda>h. Inr (cm_inl env c r (before h)))) (\<lambda>x. (x AND flag \<noteq> 0) = on) h) (\<lambda>(_, h). Inr h)"

text \<open>While the reset is awaited, the register is read once more in each round.\<close>

definition snd_cmipci_ch_reset :: "'h cmi_env \<Rightarrow> cmi8x38_card \<Rightarrow> nat \<Rightarrow> 'h \<Rightarrow> 'h res" where
  "snd_cmipci_ch_reset env c ch h =
    (let reset = push_bit ch CM_RST_CH0; adcch = push_bit ch CM_CHADC0 in
     bindE (snd_cmipci_write_32 env c CM_REG_FUNCTRL0 (adcch OR reset) h) (\<lambda>h.
     bindE (cm_wait_bit env c (\<lambda>h. snd (cm_inl env c CM_REG_FUNCTRL0 h)) CM_REG_FUNCTRL0 reset True h) (\<lambda>h.
     bindE (snd_cmipci_write_32 env c CM_REG_FUNCTRL0 (adcch AND NOT reset) h) (\<lambda>h.
     bindE (cm_wait_bit env c (\<lambda>h. h) CM_REG_FUNCTRL0 reset False h) (\<lambda>h. Inr (ce_mdelay env 5 h))))))"

text \<open>A list of changes of bits, one after the other.\<close>

datatype bit_change = Set_bit u32 u32 | Clear_bit u32 u32

primrec cm_change :: "'h cmi_env \<Rightarrow> cmi8x38_card \<Rightarrow> bit_change \<Rightarrow> 'h \<Rightarrow> 'h res" where
  "cm_change env c (Set_bit r b) h = snd_cmipci_set_bit env c r b h"
| "cm_change env c (Clear_bit r b) h = snd_cmipci_clear_bit env c r b h"

primrec cm_changes :: "'h cmi_env \<Rightarrow> cmi8x38_card \<Rightarrow> bit_change list \<Rightarrow> 'h \<Rightarrow> 'h res" where
  "cm_changes env c [] h = Inr h"
| "cm_changes env c (b # bs) h = bindE (cm_change env c b h) (cm_changes env c bs)"

text \<open>Only two channels are used, so that those of a chip with more are switched off. It never fails.\<close>

definition set_dac_channels :: "'h cmi_env \<Rightarrow> cmi8x38_card \<Rightarrow> 'h \<Rightarrow> 'h res" where
  "set_dac_channels env c h =
    (if cm_can_multi_ch c \<noteq> 0 then cm_changes env c [Clear_bit CM_REG_LEGACY_CTRL 0x80000000, Clear_bit CM_REG_CHFORMAT 0x20000000,
       Clear_bit CM_REG_CHFORMAT 0x80000000, Clear_bit CM_REG_LEGACY_CTRL 0x8000, Clear_bit CM_REG_MISC_CTRL 0x80] h
     else Inr h)"

text \<open>The version of the chip is in bits of two registers.\<close>

definition query_chip :: "'h cmi_env \<Rightarrow> cmi8x38_card \<Rightarrow> 'h \<Rightarrow> cmi8x38_card \<times> 'h" where
  "query_chip env c h =
    (let (x, h) = cm_inl env c CM_REG_INT_HLDCLR h; detect = x AND 0xFF000000 in
     if detect = 0 then
       (let (x, h) = cm_inl env c CM_REG_CHFORMAT h; detect = x AND 0x1F000000 in
        (c\<lparr>cm_chip_version := (if detect = 0 then 33 else if detect = 0x01000000 then 37 else 39), cm_max_channels := 2\<rparr>, h))
     else if detect AND 0x04000000 \<noteq> 0 then
       (c\<lparr>cm_chip_version := 39, cm_max_channels := (if detect AND 0x01000000 \<noteq> 0 then 6 else 4), cm_can_multi_ch := 1\<rparr>, h)
     else (c\<lparr>cm_chip_version := 55, cm_max_channels := 6, cm_can_multi_ch := 1\<rparr>, h))"

definition cm_is_8338 :: "pci_config \<Rightarrow> bool" where "cm_is_8338 k = (device_id k = 0x0100 \<or> device_id k = 0x0101)"
definition cm_is_8738 :: "pci_config \<Rightarrow> bool" where "cm_is_8738 k = (device_id k = 0x0111 \<or> device_id k = 0x0112)"

definition cm_version :: "'h cmi_env \<Rightarrow> pci_config \<Rightarrow> cmi8x38_card \<Rightarrow> 'h \<Rightarrow> cmi8x38_card \<times> 'h" where
  "cm_version env k c h =
    (let c = c\<lparr>cm_ctrl := 0, cm_chip_version := 0, cm_max_channels := 2\<rparr> in if cm_is_8338 k then (c, h) else query_chip env c h)"

definition cm_dsp_reset :: "'h cmi_env \<Rightarrow> cmi8x38_card \<Rightarrow> 'h \<Rightarrow> 'h res" where
  "cm_dsp_reset env c h =
    bindE (snd_cmipci_set_bit env c CM_REG_MISC_CTRL CM_RESET h) (\<lambda>h.
    bindE (cm_wait_bit env c (\<lambda>h. h) CM_REG_MISC_CTRL CM_RESET True h) (\<lambda>h.
    bindE (snd_cmipci_clear_bit env c CM_REG_MISC_CTRL CM_RESET h) (\<lambda>h.
    bindE (cm_wait_bit env c (\<lambda>h. h) CM_REG_MISC_CTRL CM_RESET False h) (\<lambda>h. Inr (ce_mdelay env 10 h)))))"

text \<open>Interrupts off, both channels reset and disabled: at the start and at the end.\<close>

definition cm_channels_off :: "'h cmi_env \<Rightarrow> cmi8x38_card \<Rightarrow> 'h \<Rightarrow> 'h res" where
  "cm_channels_off env c h =
    bindE (snd_cmipci_write_32 env c CM_REG_INT_HLDCLR 0 h) (\<lambda>h.
    bindE (snd_cmipci_ch_reset env c CM_CH_PLAY h) (\<lambda>h.
    bindE (snd_cmipci_ch_reset env c CM_CH_CAPT h) (\<lambda>h.
    bindE (snd_cmipci_write_32 env c CM_REG_FUNCTRL0 0 h) (snd_cmipci_write_32 env c CM_REG_FUNCTRL1 0))))"

text \<open>The bit of the chip set is not set where there is an Intel bridge.\<close>

definition cm_bus :: "'h cmi_env \<Rightarrow> pci_config \<Rightarrow> cmi8x38_card \<Rightarrow> 'h \<Rightarrow> 'h res" where
  "cm_bus env k c h =
    (if cm_is_8738 k then
       (let (ah, _, h) = pcibios_FindDevice (ce_bios env) 0x8086 0x7030 None h in
        if ah \<noteq> PCI_SUCCESSFUL then snd_cmipci_set_bit env c CM_REG_MISC_CTRL 0x08000000 h else Inr h)
     else Inr h)"

definition cmi8x38_chip_init :: "'h cmi_env \<Rightarrow> cmi8x38_card \<Rightarrow> 'h \<Rightarrow> (cmi8x38_card \<times> 'h) res" where
  "cmi8x38_chip_init env c h =
    bindE (deref (cm_pci_dev c)) (\<lambda>k.
    (let (c, h) = cm_version env k c h in
     bindE (cm_dsp_reset env c h) (\<lambda>h.
     (let h = (if cm_chip_version c \<le> 37 then pcibios_WriteConfig_Dword (b_pci (ce_bios env)) k 0x40 0 h else h) in
      bindE (cm_channels_off env c h) (\<lambda>h.
      bindE (snd_cmipci_write_32m env c CM_REG_CHFORMAT 0 0xFFFFFF h) (\<lambda>h.
      bindE (cm_changes env c [Set_bit CM_REG_MISC_CTRL 0x04800000, Clear_bit CM_REG_MISC_CTRL 0x00400000,
          Clear_bit CM_REG_MISC_CTRL 0x00240000, Set_bit CM_REG_FUNCTRL1 0x10] h) (\<lambda>h.
      bindE (cm_bus env k c h) (\<lambda>h.
      bindE (cm_changes env c [Clear_bit CM_REG_LEGACY_CTRL 0x03000000, Clear_bit CM_REG_MISC_CTRL CM_FM_EN] h) (\<lambda>h.
      Inr (c, snd_cmipci_mixer_write env c 0 0 h))))))))))"

definition cmi8x38_chip_close :: "'h cmi_env \<Rightarrow> cmi8x38_card \<Rightarrow> 'h \<Rightarrow> 'h res" where
  "cmi8x38_chip_close env c h =
    (if cm_iobase c \<noteq> 0 then
       bindE (cm_changes env c [Clear_bit CM_REG_MISC_CTRL CM_FM_EN, Clear_bit CM_REG_LEGACY_CTRL 0x00800000] h) (\<lambda>h.
       bindE (cm_channels_off env c h) (\<lambda>h. Inr (snd_cmipci_mixer_write env c 0 0 h)))
     else Inr h)"

section \<open>Detection and release\<close>

definition cmi_devices :: "pci_device list" where
  "cmi_devices = [\<lparr>pd_name = ''8338A'', pd_vendor = 0x13F6, pd_device = 0x0100, pd_type = 0\<rparr>,
    \<lparr>pd_name = ''8338B'', pd_vendor = 0x13F6, pd_device = 0x0101, pd_type = 0\<rparr>,
    \<lparr>pd_name = ''8738'', pd_vendor = 0x13F6, pd_device = 0x0111, pd_type = 0\<rparr>,
    \<lparr>pd_name = ''8738B'', pd_vendor = 0x13F6, pd_device = 0x0112, pd_type = 0\<rparr>,
    \<lparr>pd_name = [], pd_vendor = 0, pd_device = 0, pd_type = 0\<rparr>]"

type_synonym 'h cmi_au = "mpxplay_audioout_info \<times> 'h cmi"

definition CMI8X38_close :: "'h cmi_env \<Rightarrow> 'h cmi_au \<Rightarrow> 'h cmi_au res" where
  "CMI8X38_close env s =
    (case private_data (snd s) of None \<Rightarrow> Inr s
     | Some c \<Rightarrow>
         bindE (if cm_iobase c \<noteq> 0 then cmi8x38_chip_close env c (machine (snd s)) else Inr (machine (snd s))) (\<lambda>h.
         (let (xr, h) = MDma_free_cardmem (ce_host env) (b_ops (ce_bios env)) (cm_dm c) (xms_regs (snd s), h)
          in Inr (fst s, (snd s)\<lparr>private_data := None, machine := h, xms_regs := xr\<rparr>))))"

definition cm_identify :: "'h pci_io \<Rightarrow> pci_config \<Rightarrow> cmi8x38_card \<Rightarrow> 'h \<Rightarrow> cmi8x38_card \<times> 'h" where
  "cm_identify io k c h =
    (let (irq, h) = pcibios_ReadConfig_Byte io k PCIR_INTR_LN h;
         (rev, h) = pcibios_ReadConfig_Byte io k 0x08 h;
         (model, h) = pcibios_ReadConfig_Word io k 0x2E h
     in (c\<lparr>cm_irq := ucast irq, cm_chiprev := rev, cm_model := model\<rparr>, h))"

definition cm_buffers :: "'h cmi_env \<Rightarrow> cmi8x38_card \<Rightarrow> u32 \<Rightarrow> DPMI_REG \<times> 'h \<Rightarrow> (cmi8x38_card \<times> DPMI_REG \<times> 'h) res" where
  "cm_buffers env c controlbits w =
    bindE (MDma_get_max_pcmoutbufsize controlbits 0 CM_PAGESIZE 2 0) (\<lambda>n.
    bindE (MDma_alloc_cardmem (ce_host env) (b_ops (ce_bios env)) (ce_calloc env ''cardmem_t'') (n + 4096) w) (\<lambda>(dm, w).
    Inr (c\<lparr>cm_bufsize := n, cm_dm := Some dm, cm_buffer := (linearptr dm + 4095) AND NOT 4095\<rparr>, w)))"

text \<open>FM is looked for when it was asked for of this card by number, by the same accesses as in \<open>ioport_detect_opl\<close>. The MIDI port has a status.\<close>

definition cm_detect_fm :: "'h cmi_env \<Rightarrow> cmi8x38_card \<Rightarrow> 'h cmi_au \<Rightarrow> 'h cmi_au res" where
  "cm_detect_fm env c s =
    (let (a, d) = s; port = ucast (cm_iobase c + CM_REG_FM_PCI) in
     if cmi_select_index_fm d \<noteq> 0 \<and> cmi_select_index_fm d = cmi_test_index d then
       bindE (ioport_detect_opl (ce_hw env) port (machine d)) (\<lambda>(k, h).
       Inr (if k = 3 then (a\<lparr>fm := True\<rparr>, d\<lparr>cmi_fm_port := port, machine := h\<rparr>) else (a, d\<lparr>machine := h\<rparr>)))
     else Inr s)"

definition cm_detect_mpu401 :: "'h cmi_env \<Rightarrow> cmi8x38_card \<Rightarrow> 'h cmi_au \<Rightarrow> 'h cmi_au" where
  "cm_detect_mpu401 env c s =
    (let (a, d) = s in
     if 39 \<le> cm_chip_version c then
       (let (x, h) = cm_inb env c (CM_REG_MPU_PCI + 1) (machine d) in
        if x \<noteq> 0 \<and> x \<noteq> 0xFF then
          (a\<lparr>mpu401 := True, mpu401_softread := True\<rparr>, d\<lparr>cmi_mpu401_port := ucast (cm_iobase c + CM_REG_MPU_PCI), machine := h\<rparr>)
        else (a, d\<lparr>machine := h\<rparr>))
     else s)"

definition CMI8X38_detected :: "'h cmi_env \<Rightarrow> pci_config \<Rightarrow> cmi8x38_card \<Rightarrow> 'h cmi_au \<Rightarrow> 'h cmi_au res" where
  "CMI8X38_detected env k c s =
    (let (a, d) = s; (c, h) = cm_identify (b_pci (ce_bios env)) k c (machine d) in
     bindE (cm_buffers env c (card_controlbits a) (xms_regs d, h)) (\<lambda>(c, xr, h).
     bindE (cmi8x38_chip_init env c h) (\<lambda>(c, h).
     bindE (cm_detect_fm env c (a\<lparr>card_irq := ucast (cm_irq c), card_DMABUFF := Some (replicate (unat (cm_bufsize c)) 0)\<rparr>,
       d\<lparr>private_data := Some c, aui_pci_dev := Some k, machine := h, xms_regs := xr\<rparr>)) (\<lambda>s.
     Inr (cm_detect_mpu401 env c s)))))"

definition CMI8X38_adetect :: "'h cmi_env \<Rightarrow> 'h cmi_au \<Rightarrow> (bool \<times> 'h cmi_au) res" where
  "CMI8X38_adetect env s =
    (let (a, d) = s; c = cmi8x38_card_zero; io = b_pci (ce_bios env);
         failed = (\<lambda>c h. bindE (CMI8X38_close env (a, d\<lparr>private_data := Some c, machine := h\<rparr>)) (\<lambda>s. Inr (False, s))) in
     if \<not> ce_calloc env ''cmi8x38_card'' then Inr (False, s)
     else if \<not> ce_calloc env ''pci_config_s'' then failed c (machine d)
     else bindE (pcibios_search_devices (ce_bios env) cmi_devices (Some pci_config_zero) (machine d)) (\<lambda>(ah, key, h).
       bindE (deref key) (\<lambda>k.
       (let c = c\<lparr>cm_pci_dev := Some k\<rparr> in
        if ah \<noteq> PCI_SUCCESSFUL then failed c h
        else
          (let h = pcibios_set_master io k h;
               (bar, h) = pcibios_ReadConfig_Dword io k 0x10 h;
               c = c\<lparr>cm_iobase := bar AND 0xFFF0\<rparr> in
           if cm_iobase c = 0 then failed c h
           else bindE (CMI8X38_detected env k c (a, d\<lparr>machine := h\<rparr>)) (\<lambda>s. Inr (True, s)))))))"

section \<open>Playback\<close>

text \<open>The address of the buffer, its length and the number of samples between interrupts.\<close>

definition cm_frame :: "'h cmi_env \<Rightarrow> cmi8x38_card \<Rightarrow> xmsmem \<Rightarrow> 'h \<Rightarrow> 'h res" where
  "cm_frame env c dm h =
    bindE (snd_cmipci_write_32 env c CM_REG_CH0_FRAME1 (pds_cardmem_physicalptr dm (cm_buffer c)) h) (\<lambda>h.
    Inr (snd_cmipci_write_16nv env c (CM_REG_CH0_FRAME2 + 2) (ucast (cm_period_size c - 1))
      (snd_cmipci_write_16nv env c CM_REG_CH0_FRAME2 (ucast (cm_dma_size c - 1)) h)))"

definition cm_rate_and_format :: "'h cmi_env \<Rightarrow> cmi8x38_card \<Rightarrow> nat \<Rightarrow> 'h \<Rightarrow> 'h res" where
  "cm_rate_and_format env c freqnum h =
    bindE (cm_read_sure env c CM_REG_FUNCTRL1 h) (\<lambda>(x, h).
    bindE (snd_cmipci_write_32 env c CM_REG_FUNCTRL1 ((x AND NOT CM_DSFC_MASK) OR (push_bit 10 (of_nat freqnum) AND CM_DSFC_MASK)) h) (\<lambda>h.
    bindE (cm_read_sure env c CM_REG_CHFORMAT h) (\<lambda>(x, h).
    bindE (snd_cmipci_write_32m env c CM_REG_CHFORMAT ((x AND NOT 3) OR cm_fmt c) 0xFFFFFF h) (\<lambda>h.
    snd_cmipci_clear_bit env c CM_REG_FUNCTRL1 CM_SPDF_0 (ce_mdelay env 10 h)))))"

text \<open>Samples are 16-bit stereo: 4 bytes.\<close>

definition cm_sizes :: "u32 \<Rightarrow> mpxplay_audioout_info \<Rightarrow> cmi8x38_card \<Rightarrow> cmi8x38_card" where
  "cm_sizes n a c =
    (let c = c\<lparr>cm_fmt := 0, cm_shift := 0\<rparr>;
         c = (if 16 \<le> bits_card a then c\<lparr>cm_fmt := cm_fmt c OR 2, cm_shift := cm_shift c + 1\<rparr> else c);
         c = (if 1 < chan_card a then c\<lparr>cm_fmt := cm_fmt c OR 1, cm_shift := cm_shift c + 1\<rparr> else c)
     in c\<lparr>cm_dma_size := drop_bit (cm_shift c) n, cm_period_size := drop_bit (cm_shift c) (n div max 1 (n div CM_PAGESIZE))\<rparr>)"

definition CMI8X38_setrate :: "'h cmi_env \<Rightarrow> (cmi8x38_card, 'h) play \<Rightarrow> (cmi8x38_card, 'h) play res" where
  "CMI8X38_setrate env s =
    (let (a, c, h) = s;
         a = a\<lparr>freq_card := (if freq_card a < 5512 then 5512 else if 48000 < freq_card a then 48000 else freq_card a),
           chan_card := 2, bits_card := 16, card_wave_id := MPXPLAY_WAVEID_PCM_SLE\<rparr> in
     bindE (MDma_init_pcmoutbuf (ce_fl env) (cm_bufsize c) CM_PAGESIZE 0 a) (\<lambda>(n, a).
     (let c = cm_sizes n a c in
      bindE (set_dac_channels env c h) (\<lambda>h.
      bindE (deref (cm_dm c)) (\<lambda>dm.
      bindE (cm_frame env c dm h) (\<lambda>h.
      (let freqnum = snd_cmipci_rate_freq (freq_card a);
           a = a\<lparr>card_samples_per_int := uint (cm_period_size c), freq_card := cmi_rates ! freqnum\<rparr> in
       bindE (cm_rate_and_format env c freqnum h) (\<lambda>h. Inr (a, c, h)))))))))"

definition CMI8X38_start :: "'h cmi_env \<Rightarrow> (cmi8x38_card, 'h) play \<Rightarrow> (cmi8x38_card, 'h) play res" where
  "CMI8X38_start env s =
    (let (a, c, h) = s in
     bindE (snd_cmipci_write_32 env c CM_REG_INT_HLDCLR CM_CH0_INT_EN h) (\<lambda>h.
     (let c = c\<lparr>cm_ctrl := ((cm_ctrl c OR CM_CHEN0) AND NOT CM_PAUSE0) AND NOT CM_CHADC0\<rparr> in
      bindE (snd_cmipci_write_32 env c CM_REG_FUNCTRL0 (cm_ctrl c) h) (\<lambda>h. Inr (a, c, h)))))"

definition CMI8X38_stop :: "'h cmi_env \<Rightarrow> (cmi8x38_card, 'h) play \<Rightarrow> (cmi8x38_card, 'h) play res" where
  "CMI8X38_stop env s =
    (let (a, c, h) = s in
     bindE (snd_cmipci_write_32 env c CM_REG_INT_HLDCLR 0 h) (\<lambda>h.
     (let c = c\<lparr>cm_ctrl := (cm_ctrl c AND NOT CM_CHEN0) OR CM_PAUSE0\<rparr> in
      bindE (snd_cmipci_write_32 env c CM_REG_FUNCTRL0 (cm_ctrl c) h) (\<lambda>h.
      bindE (snd_cmipci_write_32 env c CM_REG_FUNCTRL0 (cm_ctrl c OR CM_RST_CH0) h) (\<lambda>h.
      bindE (snd_cmipci_write_32 env c CM_REG_FUNCTRL0 (cm_ctrl c AND NOT CM_RST_CH0) h) (\<lambda>h. Inr (a, c, h)))))))"

section \<open>Position, interrupt, MIDI input, mixer\<close>

text \<open>The samples that are left of the ring: three attempts at a value that is less than its length; a value with all bits set is read again
  as long as it cannot be right.\<close>

definition cm_read_rem :: "'h cmi_env \<Rightarrow> cmi8x38_card \<Rightarrow> 'h \<Rightarrow> (u16 \<times> 'h) res" where
  "cm_read_rem env c = repeat_until (\<lambda>h. Inr (cm_inw env c CM_REG_CH0_FRAME2 h)) (\<lambda>x. \<not> (x = 0xFFFF \<and> cm_dma_size c - 1 \<noteq> 0xFFFF))"

primrec cm_tries :: "'h cmi_env \<Rightarrow> cmi8x38_card \<Rightarrow> nat \<Rightarrow> 'h \<Rightarrow> (u32 option \<times> 'h) res" where
  "cm_tries env c 0 h = Inr (None, h)"
| "cm_tries env c (Suc n) h = bindE (cm_read_rem env c h) (\<lambda>(x, h). if ucast x < cm_dma_size c then Inr (Some (ucast x), h) else cm_tries env c n h)"

definition CMI8X38_getbufpos :: "'h cmi_env \<Rightarrow> (cmi8x38_card, 'h) play \<Rightarrow> (u32 \<times> (cmi8x38_card, 'h) play) res" where
  "CMI8X38_getbufpos env s =
    (let (a, c, h) = s in
     bindE (cm_tries env c 3 h) (\<lambda>(rem, h). case rem of
       None \<Rightarrow> Inr (card_dma_lastgoodpos a, a, c, h)
     | Some rem \<Rightarrow>
        (let bufpos = push_bit (cm_shift c) (cm_dma_size c - (rem + 1));
             a = (if bufpos < card_dmasize a then a\<lparr>card_dma_lastgoodpos := bufpos\<rparr> else a)
         in Inr (card_dma_lastgoodpos a, a, c, h))))"

text \<open>A status with all bits set is read again, up to 2000 times.\<close>

primrec cm_status_again :: "'h cmi_env \<Rightarrow> cmi8x38_card \<Rightarrow> nat \<Rightarrow> 'h \<Rightarrow> u32 \<times> 'h" where
  "cm_status_again env c 0 h = (ALL_ONES, h)"
| "cm_status_again env c (Suc n) h = (let (x, h) = cm_inl env c CM_REG_INT_STATUS h in if x \<noteq> ALL_ONES then (x, h) else cm_status_again env c n h)"

definition cm_status :: "'h cmi_env \<Rightarrow> cmi8x38_card \<Rightarrow> 'h \<Rightarrow> u32 \<times> 'h" where
  "cm_status env c h = (let (x, h) = cm_inl env c CM_REG_INT_STATUS h in if x = ALL_ONES then cm_status_again env c 2000 h else (x, h))"

text \<open>Whether the interrupt is the card's: the summary bit is not right on the older chips.\<close>

definition cm_pending :: "cmi8x38_card \<Rightarrow> u32 \<Rightarrow> bool" where
  "cm_pending c st = (if 37 < cm_chip_version c then st AND CM_INTR \<noteq> 0 else st AND CM_INTR_MASK \<noteq> 0)"

definition cm_int_enables :: "u32 \<Rightarrow> u32" where
  "cm_int_enables st = (if st AND CM_CHINT0 \<noteq> 0 then CM_CH0_INT_EN else 0) OR (if st AND CM_CHINT1 \<noteq> 0 then CM_CH1_INT_EN else 0)"

definition CMI8X38_IRQRoutine :: "'h cmi_env \<Rightarrow> u16 \<Rightarrow> cmi8x38_card \<Rightarrow> 'h \<Rightarrow> (bool \<times> cmi8x38_card \<times> 'h) res" where
  "CMI8X38_IRQRoutine env port c h =
    (let (st, h) = cm_status env c h in
     if \<not> cm_pending c st then Inr (False, c, h)
     else
       (let (c, h) = (if st AND CM_UARTINT \<noteq> 0 \<and> port \<noteq> 0 then
             (let (x, h) = hw_inb (ce_hw env) port h in (c\<lparr>cm_midi_in_data := x, cm_midi_in_data_valid := True\<rparr>, h))
           else (c, h)) in
        bindE (snd_cmipci_clear_bit env c CM_REG_INT_HLDCLR (cm_int_enables st OR CM_TDMA_INT_EN) h) (\<lambda>h.
        bindE (snd_cmipci_set_bit env c CM_REG_INT_HLDCLR (cm_int_enables st) h) (\<lambda>h. Inr (True, c, h)))))"

text \<open>A byte that the interrupt has taken from the MIDI port is read once.\<close>

definition cmi8x38_mpu401_read :: "'h cmi_env \<Rightarrow> u16 \<Rightarrow> u32 \<Rightarrow> cmi8x38_card \<Rightarrow> 'h \<Rightarrow> u8 \<times> cmi8x38_card \<times> 'h" where
  "cmi8x38_mpu401_read env port idx c h =
    (if idx = 0 then
       (let (x, h) = (if cm_midi_in_data_valid c then (cm_midi_in_data c, h) else hw_inb (ce_hw env) port h)
        in (x, c\<lparr>cm_midi_in_data_valid := False\<rparr>, h))
     else (let (x, h) = hw_inb (ce_hw env) (ucast (ucast port + idx)) h in (x, c, h)))"

definition cmi_field :: "u32 \<Rightarrow> submixerchan" where
  "cmi_field reg = \<lparr>submixch_register = reg, submixch_max = 31, submixch_shift = 3, submixch_infobits = 0\<rparr>"

definition cmi_channel :: "u32 \<Rightarrow> u32 list \<Rightarrow> onemixerchan" where
  "cmi_channel chan regs = \<lparr>mixchan = AU_MIXCHANFUNCS_PACK chan AU_MIXCHANFUNC_VOLUME, subchannelnum = of_nat (length regs),
    submixerchans = map cmi_field regs\<rparr>"

definition cmi8x38_mixerset :: "onemixerchan list" where
  "cmi8x38_mixerset = [cmi_channel AU_MIXCHAN_MASTER [0x30, 0x31], cmi_channel 1 [0x32, 0x33], cmi_channel 4 [0x34, 0x35],
    cmi_channel 7 [0x36, 0x37], cmi_channel 6 [0x38, 0x39], cmi_channel 5 [0x3A]]"

definition CMI8X38_sndcard_info :: "'h cmi_env \<Rightarrow> 'h cmi one_sndcard_info" where
  "CMI8X38_sndcard_info env = (let port = (\<lambda>s :: 'h cmi au. cmi_mpu401_port (device (snd s))); hw = ce_hw env;
      on_machine = (\<lambda>f s :: 'h cmi au. bindE (f (machine (device (snd s)))) (\<lambda>h. Inr (upd_glb (\<lambda>g. g\<lparr>device := (device g)\<lparr>machine := h\<rparr>\<rparr>) s))) in
    \<lparr>infobits = SNDCARD_LOWLEVELHAND OR 2,
    card_start = Some (on_play (CMI8X38_start env)),
    card_stop = Some (on_play (CMI8X38_stop env)),
    card_close = Some (\<lambda>s. bindE (CMI8X38_close env (fst s, device (snd s))) (\<lambda>(a, d). Inr (a, (snd s)\<lparr>device := d\<rparr>))),
    card_setrate = Some (on_play (CMI8X38_setrate env)),
    cardbuf_writedata = MDma_put,
    cardbuf_pos = Some (ask_play (CMI8X38_getbufpos env)),
    cardbuf_clear = Some (on_aui MDma_clearbuf),
    cardbuf_int_monitor = Some (on_aui MDma_interrupt_monitor),
    card_writemixer = Some (\<lambda>reg x. on_play (\<lambda>(a, c, h). Inr (a, c, snd_cmipci_mixer_write env c (ucast reg) (ucast x) h))),
    card_readmixer = Some (\<lambda>reg. ask_play (\<lambda>(a, c, h). case snd_cmipci_mixer_read env c (ucast reg) h of (x, h) \<Rightarrow> Inr (x, a, c, h))),
    card_mixerchans = Some cmi8x38_mixerset,
    irq_routine = Some (\<lambda>s. ask_play (\<lambda>(a, c, h). bindE (CMI8X38_IRQRoutine env (port s) c h) (\<lambda>(x, c, h). Inr (x, a, c, h))) s),
    card_fm_write = Some (\<lambda>idx x s. on_machine (\<lambda>h. Inr (ioport_fm_write hw (cmi_fm_port (device (snd s))) idx x h)) s),
    card_fm_read = Some (\<lambda>idx s. case ioport_fm_read hw (cmi_fm_port (device (snd s))) idx (machine (device (snd s))) of
      (x, h) \<Rightarrow> Inr (x, upd_glb (\<lambda>g. g\<lparr>device := (device g)\<lparr>machine := h\<rparr>\<rparr>) s)),
    card_mpu401_write = Some (\<lambda>idx x s. on_machine (ioport_mpu401_write_when_ready hw (port s) idx x) s),
    card_mpu401_read = Some (\<lambda>idx s. ask_play (\<lambda>(a, c, h). case cmi8x38_mpu401_read env (port s) idx c h of (x, c, h) \<Rightarrow> Inr (x, a, c, h)) s)\<rparr>)"

section \<open>A chip whose reads may fail\<close>

text \<open>What the driver relies on. \<open>reg\<close> are the registers of 32 bits, \<open>frm\<close> the two halves of the frame register. The next \<open>bad h\<close> reads have all
  bits set, as on the chips for which the driver repeats its accesses. The upper bytes of two registers have bits of the version, which a
  write may leave; the older chips have none in the second. Neither ports of bytes nor delays change any of this.\<close>

definition cm_registers :: "u32 set" where
  "cm_registers = {CM_REG_FUNCTRL0, CM_REG_FUNCTRL1, CM_REG_CHFORMAT, CM_REG_INT_HLDCLR, CM_REG_LEGACY_CTRL, CM_REG_MISC_CTRL, CM_REG_CH0_FRAME1}"

definition cm_stored :: "int \<Rightarrow> u32 \<Rightarrow> u32 \<Rightarrow> u32 \<Rightarrow> bool" where
  "cm_stored version r x y \<longleftrightarrow> y AND 0xFFFFFF = x AND 0xFFFFFF \<and> (y = x \<or> r = CM_REG_CHFORMAT \<or> r = CM_REG_INT_HLDCLR \<and> 37 < version)"

definition cm_chip :: "'h cmi_env \<Rightarrow> cmi8x38_card \<Rightarrow> ('h \<Rightarrow> u32 \<Rightarrow> u32) \<Rightarrow> ('h \<Rightarrow> u32 \<Rightarrow> u16) \<Rightarrow> ('h \<Rightarrow> nat) \<Rightarrow> bool" where
  "cm_chip env c reg frm bad \<longleftrightarrow>
     (\<forall>r x h. r \<in> cm_registers \<longrightarrow> frm (cm_outl env c r x h) = frm h \<and> bad (cm_outl env c r x h) = bad h \<and>
        (\<exists>y. reg (cm_outl env c r x h) = (reg h)(r := y) \<and> cm_stored (cm_chip_version c) r x y)) \<and>
     (\<forall>r h. r \<in> cm_registers \<longrightarrow> reg (snd (cm_inl env c r h)) = reg h \<and> frm (snd (cm_inl env c r h)) = frm h \<and>
        bad (snd (cm_inl env c r h)) = bad h - 1 \<and> fst (cm_inl env c r h) = (if bad h = 0 then reg h r else ALL_ONES)) \<and>
     (\<forall>x h. \<forall>r \<in> {CM_REG_CH0_FRAME2, CM_REG_CH0_FRAME2 + 2}. reg (snd_cmipci_write_16nv env c r x h) = reg h \<and>
        bad (snd_cmipci_write_16nv env c r x h) = bad h \<and> frm (snd_cmipci_write_16nv env c r x h) = (frm h)(r := x)) \<and>
     bytes_keep (ce_hw env) (\<lambda>h. (reg h, frm h, bad h)) \<and>
     (\<forall>t h. reg (ce_mdelay env t h) = reg h \<and> frm (ce_mdelay env t h) = frm h \<and> bad (ce_mdelay env t h) = bad h)"

text \<open>On the newer chips there are no bad reads.\<close>

definition cm_steady :: "cmi8x38_card \<Rightarrow> nat \<Rightarrow> bool" where
  "cm_steady c n \<longleftrightarrow> (37 < cm_chip_version c \<longrightarrow> n = 0)"

lemma cm_steady_le: "cm_steady c n \<Longrightarrow> k \<le> n \<Longrightarrow> cm_steady c k"
  by (auto simp: cm_steady_def)

lemma cm_outD:
  assumes "cm_chip env c reg frm bad" "r \<in> cm_registers"
  shows "frm (cm_outl env c r x h) = frm h" "bad (cm_outl env c r x h) = bad h"
    "\<exists>y. reg (cm_outl env c r x h) = (reg h)(r := y) \<and> cm_stored (cm_chip_version c) r x y"
  using assms unfolding cm_chip_def by blast+

lemma cm_inD:
  assumes "cm_chip env c reg frm bad" "r \<in> cm_registers" "cm_inl env c r h = (x, h')"
  shows "reg h' = reg h" "frm h' = frm h" "bad h' = bad h - 1" "x = (if bad h = 0 then reg h r else ALL_ONES)"
proof -
  have e: "h' = snd (cm_inl env c r h)" "x = fst (cm_inl env c r h)" using assms(3) by simp_all
  show "reg h' = reg h" "frm h' = frm h" "bad h' = bad h - 1" "x = (if bad h = 0 then reg h r else ALL_ONES)"
    unfolding e using assms(1,2) unfolding cm_chip_def by blast+
qed

lemma masked_eq: "(y :: u32) AND 0xFFFFFF = x AND 0xFFFFFF \<Longrightarrow> m AND 0xFF000000 = 0 \<Longrightarrow> y AND m = x AND m"
proof -
  assume e: "y AND 0xFFFFFF = x AND 0xFFFFFF" and m: "m AND 0xFF000000 = 0"
  have k: "m = 0xFFFFFF AND m"
  proof -
    have "(0xFF000000 OR 0xFFFFFF :: u32) = -1" by simp
    then have "m = m AND (0xFF000000 OR 0xFFFFFF)" by (simp only: and.right_neutral)
    also have "\<dots> = 0xFFFFFF AND m" unfolding bit.conj_disj_distrib m by (simp only: or.left_neutral and.commute)
    finally show ?thesis .
  qed
  have "y AND (0xFFFFFF AND m) = x AND (0xFFFFFF AND m)" unfolding and.assoc [symmetric] e ..
  then show ?thesis unfolding k [symmetric] .
qed

lemma cm_stored_reads_back:
  assumes "cm_stored v r x y" "v \<le> 37" "r = CM_REG_CHFORMAT \<longrightarrow> m AND 0xFF000000 = 0"
  shows "y AND m = x AND m"
proof (cases "y = x")
  case False
  then have "r = CM_REG_CHFORMAT" "y AND 0xFFFFFF = x AND 0xFFFFFF" using assms(1,2) unfolding cm_stored_def by auto
  then show ?thesis using assms(3) masked_eq by blast
qed simp

text \<open>A write returns, however many bad reads there are, with the register written.\<close>

lemma cm_write_ok:
  assumes chip: "cm_chip env c reg frm bad" and r: "r \<in> cm_registers"
    and m: "r = CM_REG_CHFORMAT \<and> cm_chip_version c \<le> 37 \<longrightarrow> m AND 0xFF000000 = 0"
  shows "\<exists>h' y. snd_cmipci_write_32m env c r x m h = Inr h' \<and> reg h' = (reg h)(r := y) \<and> cm_stored (cm_chip_version c) r x y
    \<and> frm h' = frm h \<and> bad h' \<le> bad h"
proof (induction "bad h" arbitrary: h rule: less_induct)
  case less
  define h1 where "h1 = cm_outl env c r x h"
  obtain y where y: "reg h1 = (reg h)(r := y)" "cm_stored (cm_chip_version c) r x y"
    using cm_outD(3) [OF chip r] unfolding h1_def by blast
  have h1: "frm h1 = frm h" "bad h1 = bad h" unfolding h1_def by (rule cm_outD [OF chip r])+
  obtain z h2 where z: "cm_inl env c r h1 = (z, h2)" by (rule prod.exhaust)
  have h2: "reg h2 = (reg h)(r := y)" "frm h2 = frm h" "bad h2 = bad h - 1" "z = (if bad h = 0 then y else ALL_ONES)"
    unfolding cm_inD [OF chip r z] y(1) h1 fun_upd_same by (rule refl)+
  show ?case
  proof (cases "cm_chip_version c \<le> 37")
    case False
    then have once: "cm_write_once env c r x m h = Inr (True, h1)" by (simp add: cm_write_once_def Let_def h1_def [symmetric])
    have "snd_cmipci_write_32m env c r x m h = Inr h1"
      unfolding snd_cmipci_write_32m_def repeat_until_step [of _ _ h] once by simp
    then show ?thesis using y h1 by (intro exI [of _ h1] exI [of _ y]) simp
  next
    case True
    have once: "cm_write_once env c r x m h = Inr (z AND m = x AND m, h2)"
      using True by (simp add: cm_write_once_def h1_def [symmetric] z)
    show ?thesis
    proof (cases "z AND m = x AND m")
      case ok: True
      have "snd_cmipci_write_32m env c r x m h = Inr h2"
        unfolding snd_cmipci_write_32m_def repeat_until_step [of _ _ h] once by (simp add: ok)
      then show ?thesis using y h2 by auto
    next
      case no: False
      have "y AND m = x AND m" by (rule cm_stored_reads_back [OF y(2) True]) (use m True in blast)
      then have "bad h \<noteq> 0" using no h2(4) by (cases "bad h = 0") simp_all
      then have "bad h2 < bad h" using h2(3) by simp
      from less [OF this] obtain h' w where w: "snd_cmipci_write_32m env c r x m h2 = Inr h'" "reg h' = (reg h2)(r := w)"
          "cm_stored (cm_chip_version c) r x w" "frm h' = frm h2" "bad h' \<le> bad h2" by blast
      have "snd_cmipci_write_32m env c r x m h = snd_cmipci_write_32m env c r x m h2"
        unfolding snd_cmipci_write_32m_def by (subst repeat_until_step [of _ _ h]) (simp add: once no)
      then show ?thesis using w h2 by (intro exI [of _ h'] exI [of _ w]) simp
    qed
  qed
qed

lemma cm_write32_ok:
  assumes "cm_chip env c reg frm bad" "r \<in> cm_registers" "r = CM_REG_CHFORMAT \<longrightarrow> 37 < cm_chip_version c"
  shows "\<exists>h' y. snd_cmipci_write_32 env c r x h = Inr h' \<and> reg h' = (reg h)(r := y) \<and> cm_stored (cm_chip_version c) r x y
    \<and> frm h' = frm h \<and> bad h' \<le> bad h"
  unfolding snd_cmipci_write_32_def by (rule cm_write_ok) (use assms in auto)

text \<open>A read returns what the register holds.\<close>

lemma cm_read_ok:
  assumes chip: "cm_chip env c reg frm bad" and r: "r \<in> cm_registers"
  shows "cm_steady c (bad h) \<Longrightarrow> cm_chip_version c \<le> 37 \<longrightarrow> reg h r \<noteq> ALL_ONES \<Longrightarrow>
    \<exists>h'. cm_read_sure env c r h = Inr (reg h r, h') \<and> reg h' = reg h \<and> frm h' = frm h \<and> bad h' \<le> bad h"
proof (induction "bad h" arbitrary: h rule: less_induct)
  case less
  obtain z h1 where z: "cm_inl env c r h = (z, h1)" by (rule prod.exhaust)
  have h1: "reg h1 = reg h" "frm h1 = frm h" "bad h1 = bad h - 1" "z = (if bad h = 0 then reg h r else ALL_ONES)"
    using cm_inD [OF chip r z] by auto
  have step: "cm_read_sure env c r h = (if \<not> (z = ALL_ONES \<and> cm_chip_version c \<le> 37) then Inr (z, h1) else cm_read_sure env c r h1)"
    unfolding cm_read_sure_def by (subst repeat_until_step) (simp add: z)
  show ?case
  proof (cases "bad h = 0")
    case True
    then show ?thesis using step h1 less.prems(2) by auto
  next
    case False
    then have old: "cm_chip_version c \<le> 37" using less.prems(1) by (auto simp: cm_steady_def)
    have "bad h1 < bad h" "cm_steady c (bad h1)" "cm_chip_version c \<le> 37 \<longrightarrow> reg h1 r \<noteq> ALL_ONES"
      using False h1 less.prems by (auto simp: cm_steady_def)
    from less.hyps [OF this] obtain h' where "cm_read_sure env c r h1 = Inr (reg h1 r, h')" "reg h' = reg h1" "frm h' = frm h1" "bad h' \<le> bad h1"
      by blast
    then show ?thesis using step False old h1 by auto
  qed
qed

text \<open>A change of bits reads, and writes what it has read with the change.\<close>

primrec cm_changed :: "bit_change \<Rightarrow> (u32 \<Rightarrow> u32) \<Rightarrow> u32 \<times> u32" where
  "cm_changed (Set_bit r b) f = (r, f r OR b)"
| "cm_changed (Clear_bit r b) f = (r, f r AND NOT b)"

lemma cm_change_ok:
  assumes chip: "cm_chip env c reg frm bad" and s: "cm_steady c (bad h)" and b: "cm_changed b (reg h) = (r, x)" and r: "r \<in> cm_registers"
    and o: "cm_chip_version c \<le> 37 \<longrightarrow> reg h r \<noteq> ALL_ONES" "r = CM_REG_CHFORMAT \<longrightarrow> 37 < cm_chip_version c"
  shows "\<exists>h' y. cm_change env c b h = Inr h' \<and> reg h' = (reg h)(r := y) \<and> cm_stored (cm_chip_version c) r x y \<and> frm h' = frm h \<and> bad h' \<le> bad h"
proof -
  obtain h1 where 1: "cm_read_sure env c r h = Inr (reg h r, h1)" "reg h1 = reg h" "frm h1 = frm h" "bad h1 \<le> bad h"
    using cm_read_ok [OF chip r s o(1)] by blast
  obtain h2 y where 2: "snd_cmipci_write_32 env c r x h1 = Inr h2" "reg h2 = (reg h1)(r := y)" "cm_stored (cm_chip_version c) r x y"
      "frm h2 = frm h1" "bad h2 \<le> bad h1"
    using cm_write32_ok [OF chip r o(2)] by blast
  have "cm_change env c b h = Inr h2"
    using b 1(1) 2(1) by (cases b) (auto simp: snd_cmipci_set_bit_def snd_cmipci_clear_bit_def)
  then show ?thesis using 1 2 by auto
qed

section \<open>The frame of the first channel\<close>

lemma cm_regs [simp]: "0 \<in> cm_registers" "4 \<in> cm_registers" "8 \<in> cm_registers" "12 \<in> cm_registers" "20 \<in> cm_registers" "24 \<in> cm_registers"
    "128 \<in> cm_registers"
  by (simp_all add: cm_registers_def)

lemma cm_frame_ok:
  assumes chip: "cm_chip env c reg frm bad"
  shows "\<exists>h'. cm_frame env c dm h = Inr h' \<and> reg h' = (reg h)(CM_REG_CH0_FRAME1 := pds_cardmem_physicalptr dm (cm_buffer c))
    \<and> frm h' = (frm h)(CM_REG_CH0_FRAME2 := ucast (cm_dma_size c - 1), CM_REG_CH0_FRAME2 + 2 := ucast (cm_period_size c - 1)) \<and> bad h' \<le> bad h"
proof -
  obtain h1 y where 1: "snd_cmipci_write_32 env c CM_REG_CH0_FRAME1 (pds_cardmem_physicalptr dm (cm_buffer c)) h = Inr h1"
      "reg h1 = (reg h)(CM_REG_CH0_FRAME1 := y)" "cm_stored (cm_chip_version c) CM_REG_CH0_FRAME1 (pds_cardmem_physicalptr dm (cm_buffer c)) y"
      "frm h1 = frm h" "bad h1 \<le> bad h"
    using cm_write32_ok [OF chip, of CM_REG_CH0_FRAME1 "pds_cardmem_physicalptr dm (cm_buffer c)" h] by auto
  have y: "y = pds_cardmem_physicalptr dm (cm_buffer c)" using 1(3) by (simp add: cm_stored_def)
  have w: "reg (snd_cmipci_write_16nv env c r x h) = reg h" "bad (snd_cmipci_write_16nv env c r x h) = bad h"
      "frm (snd_cmipci_write_16nv env c r x h) = (frm h)(r := x)" if "r \<in> {CM_REG_CH0_FRAME2, CM_REG_CH0_FRAME2 + 2}" for r x h
    using chip that unfolding cm_chip_def by blast+
  show ?thesis unfolding cm_frame_def 1(1) bindE_simps by (intro exI conjI, rule refl) (simp_all add: w 1 y)
qed

text \<open>The two changes of the rate and the format.\<close>

lemma cm_rate_and_format_ok:
  assumes chip: "cm_chip env c reg frm bad" and s: "cm_steady c (bad h)" and f: "cm_fmt c = 3" and i: "i < 8"
    and o: "cm_chip_version c \<le> 37 \<longrightarrow> \<not> bit (reg h CM_REG_FUNCTRL1) 31 \<and> reg h CM_REG_CHFORMAT \<noteq> ALL_ONES"
  shows "\<exists>h' y. cm_rate_and_format env c i h = Inr h' \<and> frm h' = frm h \<and> bad h' \<le> bad h
    \<and> reg h' = (reg h)(CM_REG_FUNCTRL1 := (reg h CM_REG_FUNCTRL1 AND NOT (CM_DSFC_MASK OR CM_SPDF_0)) OR push_bit 10 (of_nat i), CM_REG_CHFORMAT := y)
    \<and> y AND 0xFFFFFF = (reg h CM_REG_CHFORMAT AND 0xFFFFFF) OR 3"
proof -
  let ?x = "reg h CM_REG_FUNCTRL1" and ?z = "reg h CM_REG_CHFORMAT"
  define p where "p = (push_bit 10 (of_nat i) :: u32)"
  have "i \<in> {0, 1, 2, 3, 4, 5, 6, 7}" using i by auto
  then have p: "p AND CM_DSFC_MASK = p" "p AND NOT CM_SPDF_0 = p" "\<not> bit p 31" unfolding p_def by auto
  define w where "w = (?x AND NOT CM_DSFC_MASK) OR p"
  have w31: "\<not> bit ?x 31 \<Longrightarrow> \<not> bit w 31" using p(3) by (simp add: w_def bit_or_iff bit_and_iff)
  have ones: "bit ALL_ONES 31" by simp
  have x1: "cm_chip_version c \<le> 37 \<longrightarrow> ?x \<noteq> ALL_ONES" using o ones by metis
  obtain h1 where 1: "cm_read_sure env c CM_REG_FUNCTRL1 h = Inr (?x, h1)" "reg h1 = reg h" "frm h1 = frm h" "bad h1 \<le> bad h"
    using cm_read_ok [OF chip, of CM_REG_FUNCTRL1 h] s x1 by auto
  obtain h2 y2 where 2: "snd_cmipci_write_32 env c CM_REG_FUNCTRL1 w h1 = Inr h2" "reg h2 = (reg h1)(CM_REG_FUNCTRL1 := y2)"
      "cm_stored (cm_chip_version c) CM_REG_FUNCTRL1 w y2" "frm h2 = frm h1" "bad h2 \<le> bad h1"
    using cm_write32_ok [OF chip, of CM_REG_FUNCTRL1 w h1] by auto
  have y2: "y2 = w" using 2(3) by (simp add: cm_stored_def)
  have s2: "cm_steady c (bad h2)" using s 1(4) 2(5) by (blast intro: cm_steady_le order_trans)
  obtain h3 where 3: "cm_read_sure env c CM_REG_CHFORMAT h2 = Inr (?z, h3)" "reg h3 = reg h2" "frm h3 = frm h2" "bad h3 \<le> bad h2"
    using cm_read_ok [OF chip, of CM_REG_CHFORMAT h2] s2 o 1(2) 2(2) by auto
  obtain h4 y where 4: "snd_cmipci_write_32m env c CM_REG_CHFORMAT ((?z AND NOT 3) OR cm_fmt c) 0xFFFFFF h3 = Inr h4"
      "reg h4 = (reg h3)(CM_REG_CHFORMAT := y)" "cm_stored (cm_chip_version c) CM_REG_CHFORMAT ((?z AND NOT 3) OR cm_fmt c) y"
      "frm h4 = frm h3" "bad h4 \<le> bad h3"
    using cm_write_ok [OF chip, of CM_REG_CHFORMAT "0xFFFFFF" "(?z AND NOT 3) OR cm_fmt c" h3] by auto
  define h5 where "h5 = ce_mdelay env 10 h4"
  have 5: "reg h5 = reg h4" "frm h5 = frm h4" "bad h5 = bad h4" using chip unfolding cm_chip_def h5_def by blast+
  have s5: "cm_steady c (bad h5)" using s2 3(4) 4(5) 5(3) by (auto intro: cm_steady_le)
  have r5: "reg h5 CM_REG_FUNCTRL1 = w" unfolding 5 4(2) 3(2) 2(2) 1(2) y2 by simp
  have w1: "cm_chip_version c \<le> 37 \<longrightarrow> w \<noteq> ALL_ONES" using o w31 ones by metis
  obtain h6 y6 where 6: "cm_change env c (Clear_bit CM_REG_FUNCTRL1 CM_SPDF_0) h5 = Inr h6" "reg h6 = (reg h5)(CM_REG_FUNCTRL1 := y6)"
      "cm_stored (cm_chip_version c) CM_REG_FUNCTRL1 (w AND NOT CM_SPDF_0) y6" "frm h6 = frm h5" "bad h6 \<le> bad h5"
    using cm_change_ok [OF chip s5, of "Clear_bit CM_REG_FUNCTRL1 CM_SPDF_0" CM_REG_FUNCTRL1] r5 w1 by auto
  have y6: "y6 = w AND NOT CM_SPDF_0" using 6(3) by (simp add: cm_stored_def)
  have "y6 = (?x AND NOT (CM_DSFC_MASK OR CM_SPDF_0)) OR p"
    unfolding y6 w_def bit.conj_disj_distrib2 p(2) and.assoc by simp
  moreover have "y AND 0xFFFFFF = (?z AND 0xFFFFFF) OR 3"
  proof -
    have "y AND 0xFFFFFF = ((?z AND NOT 3) OR 3) AND 0xFFFFFF" using 4(3) f by (simp add: cm_stored_def)
    also have "(?z AND NOT 3) OR 3 = ?z OR 3" by (rule bit_word_eqI) (auto simp: bit_simps)
    also have "(?z OR 3) AND 0xFFFFFF = (?z AND 0xFFFFFF) OR 3" by (simp add: bit.conj_disj_distrib2)
    finally show ?thesis .
  qed
  moreover have "reg h6 = (reg h)(CM_REG_FUNCTRL1 := y6, CM_REG_CHFORMAT := y)"
    unfolding 6(2) 5 4(2) 3(2) 2(2) 1(2) by (auto simp: fun_eq_iff)
  moreover have "cm_rate_and_format env c i h = Inr h6"
    using 6(1) unfolding cm_rate_and_format_def 1(1) bindE_simps prod.case p_def [symmetric] p(1) w_def [symmetric] 2(1) 3(1) 4(1) h5_def [symmetric]
    by simp
  moreover have "frm h6 = frm h" "bad h6 \<le> bad h" using 1 2 3 4 5 6 by simp_all
  ultimately show ?thesis unfolding p_def by blast
qed

lemma cm_chip_same: "cm_iobase c' = cm_iobase c \<Longrightarrow> cm_chip_version c' = cm_chip_version c \<Longrightarrow> cm_chip env c' reg frm bad = cm_chip env c reg frm bad"
  by (simp add: cm_chip_def cm_outl_def cm_inl_def snd_cmipci_write_16nv_def)

text \<open>Changes in the newer chips leave other registers alone, and the lower bits of the format when they are in its upper byte.\<close>

primrec upper_change :: "bit_change \<Rightarrow> bool" where
  "upper_change (Set_bit r b) = (r \<in> cm_registers \<and> (r = CM_REG_CHFORMAT \<longrightarrow> b AND 0xFFFFFF = 0))"
| "upper_change (Clear_bit r b) = (r \<in> cm_registers \<and> (r = CM_REG_CHFORMAT \<longrightarrow> b AND 0xFFFFFF = 0))"

primrec changed_reg :: "bit_change \<Rightarrow> u32" where
  "changed_reg (Set_bit r b) = r"
| "changed_reg (Clear_bit r b) = r"

lemma lower_bits:
  assumes "b AND 0xFFFFFF = 0"
  shows "(x OR b) AND 0xFFFFFF = x AND (0xFFFFFF :: u32)" "(x AND NOT b) AND 0xFFFFFF = x AND (0xFFFFFF :: u32)"
proof -
  show "(x OR b) AND 0xFFFFFF = x AND 0xFFFFFF" by (simp add: bit.conj_disj_distrib2 assms)
  have "(x AND NOT b) AND 0xFFFFFF = x AND (0xFFFFFF AND NOT (b AND 0xFFFFFF))" by (rule bit_word_eqI) (auto simp: bit_simps)
  then show "(x AND NOT b) AND 0xFFFFFF = x AND 0xFFFFFF" by (simp add: assms)
qed

lemma cm_changes_ok:
  assumes chip: "cm_chip env c reg frm bad" and v: "37 < cm_chip_version c"
  shows "cm_steady c (bad h) \<Longrightarrow> \<forall>b \<in> set bs. upper_change b \<Longrightarrow>
    \<exists>h'. cm_changes env c bs h = Inr h' \<and> frm h' = frm h \<and> bad h' \<le> bad h
      \<and> (\<forall>r. r \<notin> changed_reg ` set bs \<longrightarrow> reg h' r = reg h r) \<and> reg h' CM_REG_CHFORMAT AND 0xFFFFFF = reg h CM_REG_CHFORMAT AND 0xFFFFFF"
proof (induction bs arbitrary: h)
  case (Cons b bs)
  obtain x where x: "cm_changed b (reg h) = (changed_reg b, x)" by (cases b) auto
  have u: "upper_change b" using Cons.prems(2) by simp
  have r: "changed_reg b \<in> cm_registers" using u by (cases b) auto
  obtain h1 y where 1: "cm_change env c b h = Inr h1" "reg h1 = (reg h)(changed_reg b := y)" "cm_stored (cm_chip_version c) (changed_reg b) x y"
      "frm h1 = frm h" "bad h1 \<le> bad h"
    using cm_change_ok [OF chip Cons.prems(1) x r] v by auto
  have "changed_reg b = CM_REG_CHFORMAT \<Longrightarrow> x AND 0xFFFFFF = reg h CM_REG_CHFORMAT AND 0xFFFFFF"
    using x u by (cases b) (auto simp: lower_bits)
  then have l: "reg h1 CM_REG_CHFORMAT AND 0xFFFFFF = reg h CM_REG_CHFORMAT AND 0xFFFFFF"
    using 1(2,3) by (simp add: cm_stored_def)
  obtain h2 where 2: "cm_changes env c bs h1 = Inr h2" "frm h2 = frm h1" "bad h2 \<le> bad h1"
      "\<forall>r. r \<notin> changed_reg ` set bs \<longrightarrow> reg h2 r = reg h1 r" "reg h2 CM_REG_CHFORMAT AND 0xFFFFFF = reg h1 CM_REG_CHFORMAT AND 0xFFFFFF"
    using Cons.IH [OF cm_steady_le [OF Cons.prems(1) 1(5)]] Cons.prems(2) by auto
  show ?case using 1 2 l by (intro exI [of _ h2]) auto
qed simp

lemma set_dac_channels_ok:
  assumes chip: "cm_chip env c reg frm bad" and s: "cm_steady c (bad h)" and m: "cm_can_multi_ch c \<noteq> 0 \<longrightarrow> 37 < cm_chip_version c"
  shows "\<exists>h'. set_dac_channels env c h = Inr h' \<and> frm h' = frm h \<and> bad h' \<le> bad h \<and> reg h' CM_REG_FUNCTRL1 = reg h CM_REG_FUNCTRL1
    \<and> reg h' CM_REG_CHFORMAT AND 0xFFFFFF = reg h CM_REG_CHFORMAT AND 0xFFFFFF
    \<and> (cm_chip_version c \<le> 37 \<longrightarrow> reg h' CM_REG_CHFORMAT = reg h CM_REG_CHFORMAT)"
proof (cases "cm_can_multi_ch c = 0")
  case True
  then show ?thesis by (simp add: set_dac_channels_def)
next
  case False
  then have v: "37 < cm_chip_version c" using m by simp
  then show ?thesis
    using cm_changes_ok [OF chip v s, of "[Clear_bit CM_REG_LEGACY_CTRL 0x80000000, Clear_bit CM_REG_CHFORMAT 0x20000000,
       Clear_bit CM_REG_CHFORMAT 0x80000000, Clear_bit CM_REG_LEGACY_CTRL 0x8000, Clear_bit CM_REG_MISC_CTRL 0x80]"] False
    unfolding set_dac_channels_def by auto
qed

lemma rate_index_range: "i + length rs \<le> 8 \<Longrightarrow> rate_index rs i r < 8"
  by (induction rs arbitrary: i) auto

lemma snd_cmipci_rate_freq_range: "snd_cmipci_rate_freq r < 8"
  unfolding snd_cmipci_rate_freq_def by (rule rate_index_range) (simp add: cmi_rates_def)

text \<open>The sizes for 16-bit stereo, in samples.\<close>

lemma cm_sizes_16:
  assumes "bits_card a = 16" "chan_card a = 2" "512 dvd unat n" "1024 \<le> unat n" "unat n \<le> 262144"
  shows "cm_sizes n a c = c\<lparr>cm_fmt := 3, cm_shift := 2, cm_dma_size := drop_bit 2 n, cm_period_size := 128\<rparr>"
    "4 * (unat (ucast (drop_bit 2 n - 1 :: u32) :: u16) + 1) = unat n"
proof -
  obtain k where k: "unat n = 512 * k" using assms(3) by (elim dvdE)
  have k2: "2 \<le> k" "k \<le> 512" using assms(4,5) k by auto
  have d: "unat (n div 512) = k" using k by (simp add: unat_div)
  then have "max 1 (n div 512) = n div 512" using k2 by (simp add: max_def word_le_nat_alt)
  moreover have "n div (n div 512) = 512" using k k2 d by (simp add: word_unat_eq_iff unat_div)
  ultimately have m: "n div max 1 (n div 512) = 512" by simp
  show "cm_sizes n a c = c\<lparr>cm_fmt := 3, cm_shift := 2, cm_dma_size := drop_bit 2 n, cm_period_size := 128\<rparr>"
    unfolding cm_sizes_def Let_def assms(1,2) m by (simp, simp only: numeral_2_eq_2)
  have "unat (drop_bit 2 n) = 128 * k" using k by (simp add: drop_bit_eq_div unat_div)
  then have "unat (drop_bit 2 n - 1) = 128 * k - 1" using k2 by (subst unat_minus_one) (auto simp: unat_eq_0 [symmetric])
  then have "unat (ucast (drop_bit 2 n - 1 :: u32) :: u16) = 128 * k - 1"
    using k2 by (simp add: unsigned_ucast_eq take_bit_nat_eq_self_iff)
  then show "4 * (unat (ucast (drop_bit 2 n - 1 :: u32) :: u16) + 1) = unat n" using k k2 by simp
qed

lemma init_pcmoutbuf_chan: "MDma_init_pcmoutbuf fl m p f a = Inr (n, a') \<Longrightarrow> chan_card a' = chan_card a"
  by (auto simp: MDma_init_pcmoutbuf_def Let_def)

lemma cmi_setrate_frame:
  assumes chip: "cm_chip env c reg frm bad" and s: "cm_steady c (bad h)"
    and o: "cm_chip_version c \<le> 37 \<longrightarrow> \<not> bit (reg h CM_REG_FUNCTRL1) 31 \<and> reg h CM_REG_CHFORMAT \<noteq> ALL_ONES"
    and m: "cm_can_multi_ch c \<noteq> 0 \<longrightarrow> 37 < cm_chip_version c" and d: "cm_dm c = Some dm"
    and b: "1024 \<le> unat (cm_bufsize c)" "unat (cm_bufsize c) \<le> 262144"
    and buf: "card_DMABUFF a = Some buf" "unat (cm_bufsize c) \<le> length buf"
  shows "\<exists>a' c' h' i. CMI8X38_setrate env (a, c, h) = Inr (a', c', h') \<and> dma_wf a' \<and> card_dmasize a' \<le> cm_bufsize c
    \<and> reg h' CM_REG_CH0_FRAME1 = pds_cardmem_physicalptr dm (cm_buffer c)
    \<and> 4 * (unat (frm h' CM_REG_CH0_FRAME2) + 1) = unat (card_dmasize a') \<and> unat (frm h' (CM_REG_CH0_FRAME2 + 2)) + 1 = nat (card_samples_per_int a')
    \<and> 4 * nat (card_samples_per_int a') dvd unat (card_dmasize a') \<and> cm_dma_size c' = drop_bit 2 (card_dmasize a') \<and> cm_shift c' = 2
    \<and> i < 8 \<and> freq_card a' = cmi_rates ! i
    \<and> reg h' CM_REG_FUNCTRL1 = (reg h CM_REG_FUNCTRL1 AND NOT (CM_DSFC_MASK OR CM_SPDF_0)) OR push_bit 10 (of_nat i)
    \<and> reg h' CM_REG_CHFORMAT AND 0xFFFFFF = (reg h CM_REG_CHFORMAT AND 0xFFFFFF) OR 3"
proof -
  define f where "f = (if freq_card a < 5512 then 5512 else if 48000 < freq_card a then 48000 else freq_card a)"
  define a0 where "a0 = a\<lparr>freq_card := f, chan_card := 2, bits_card := 16, card_wave_id := MPXPLAY_WAVEID_PCM_SLE\<rparr>"
  have fs: "card_framesize a0 = 4" by (simp add: a0_def card_framesize_def MPXPLAY_WAVEID_PCM_SLE_def MPXPLAY_WAVEID_PCM_FLOAT_def)
  have buf0: "card_DMABUFF a0 = Some buf" using buf(1) by (simp add: a0_def)
  have b16: "bits_card a0 = 16" by (simp add: a0_def)
  obtain n a1 where n: "MDma_init_pcmoutbuf (ce_fl env) (cm_bufsize c) CM_PAGESIZE 0 a0 = Inr (n, a1)" "512 dvd unat n" "1024 \<le> unat n"
      "n \<le> cm_bufsize c" "card_dmasize a1 = n" "dma_wf a1" "bits_card a1 = 16"
    using init_pcmoutbuf_ok [of CM_PAGESIZE "cm_bufsize c" a0 buf "ce_fl env" 0] b(1) buf0 buf(2) b16 by (auto simp: fs)
  have ch: "chan_card a1 = 2" using init_pcmoutbuf_chan [OF n(1)] by (simp add: a0_def)
  have n2: "unat n \<le> 262144" using n(4) b(2) by (simp add: word_le_nat_alt)
  define c' where "c' = cm_sizes n a1 c"
  have c': "c' = c\<lparr>cm_fmt := 3, cm_shift := 2, cm_dma_size := drop_bit 2 n, cm_period_size := 128\<rparr>"
    "4 * (unat (ucast (drop_bit 2 n - 1) :: u16) + 1) = unat n"
    unfolding c'_def using cm_sizes_16 [OF n(7) ch n(2,3) n2] by auto
  have p: "cm_fmt c' = 3" "cm_iobase c' = cm_iobase c" "cm_chip_version c' = cm_chip_version c" "cm_can_multi_ch c' = cm_can_multi_ch c"
      "cm_dm c' = Some dm" "cm_buffer c' = cm_buffer c" "cm_dma_size c' = drop_bit 2 n" "cm_period_size c' = 128" "cm_shift c' = 2"
    using d by (simp_all add: c'(1))
  have chip': "cm_chip env c' reg frm bad" using chip cm_chip_same [OF p(2,3)] by blast
  have s': "cm_steady c' k = cm_steady c k" for k by (simp add: cm_steady_def p(3))
  define i where "i = snd_cmipci_rate_freq (freq_card a1)"
  have i: "i < 8" unfolding i_def by (rule snd_cmipci_rate_freq_range)
  obtain h1 where 1: "set_dac_channels env c' h = Inr h1" "frm h1 = frm h" "bad h1 \<le> bad h" "reg h1 CM_REG_FUNCTRL1 = reg h CM_REG_FUNCTRL1"
      "reg h1 CM_REG_CHFORMAT AND 0xFFFFFF = reg h CM_REG_CHFORMAT AND 0xFFFFFF"
      "cm_chip_version c \<le> 37 \<longrightarrow> reg h1 CM_REG_CHFORMAT = reg h CM_REG_CHFORMAT"
    using set_dac_channels_ok [OF chip', of h] s s' m p(3,4) by auto
  obtain h2 where 2: "cm_frame env c' dm h1 = Inr h2" "reg h2 = (reg h1)(CM_REG_CH0_FRAME1 := pds_cardmem_physicalptr dm (cm_buffer c))"
      "frm h2 = (frm h1)(CM_REG_CH0_FRAME2 := ucast (drop_bit 2 n - 1), CM_REG_CH0_FRAME2 + 2 := ucast (128 - 1 :: u32))" "bad h2 \<le> bad h1"
    using cm_frame_ok [OF chip', of dm h1] unfolding p by blast
  have s2: "cm_steady c' (bad h2)" unfolding s' by (rule cm_steady_le [OF s]) (use 1(3) 2(4) in simp)
  have o2: "cm_chip_version c' \<le> 37 \<longrightarrow> \<not> bit (reg h2 CM_REG_FUNCTRL1) 31 \<and> reg h2 CM_REG_CHFORMAT \<noteq> ALL_ONES"
    using o 1(4,6) unfolding 2(2) p(3) by simp
  obtain h3 y where 3: "cm_rate_and_format env c' i h2 = Inr h3" "frm h3 = frm h2" "bad h3 \<le> bad h2"
      "reg h3 = (reg h2)(CM_REG_FUNCTRL1 := (reg h2 CM_REG_FUNCTRL1 AND NOT (CM_DSFC_MASK OR CM_SPDF_0)) OR push_bit 10 (of_nat i), CM_REG_CHFORMAT := y)"
      "y AND 0xFFFFFF = (reg h2 CM_REG_CHFORMAT AND 0xFFFFFF) OR 3"
    using cm_rate_and_format_ok [OF chip' s2 p(1) i o2] by blast
  define a2 where "a2 = a1\<lparr>card_samples_per_int := 128, freq_card := cmi_rates ! i\<rparr>"
  have run: "CMI8X38_setrate env (a, c, h) = Inr (a2, c', h3)"
    unfolding CMI8X38_setrate_def Let_def prod.case f_def [symmetric] a0_def [symmetric] n(1) bindE_simps c'_def [symmetric] 1(1) p(5) deref_def
      option.case 2(1) i_def [symmetric] 3(1) p(8) a2_def by simp
  have w: "dma_wf a2" "card_dmasize a2 = n" "card_samples_per_int a2 = 128" "freq_card a2 = cmi_rates ! i"
    using n(5,6) by (simp_all add: a2_def dma_wf_def)
  have r: "reg h3 CM_REG_CH0_FRAME1 = pds_cardmem_physicalptr dm (cm_buffer c)"
      "reg h3 CM_REG_FUNCTRL1 = (reg h CM_REG_FUNCTRL1 AND NOT (CM_DSFC_MASK OR CM_SPDF_0)) OR push_bit 10 (of_nat i)"
      "reg h3 CM_REG_CHFORMAT AND 0xFFFFFF = (reg h CM_REG_CHFORMAT AND 0xFFFFFF) OR 3"
      "frm h3 CM_REG_CH0_FRAME2 = ucast (drop_bit 2 n - 1)" "frm h3 (CM_REG_CH0_FRAME2 + 2) = 127"
    using 3(5) 1(4,5) unfolding 3(2,4) 2(2,3) by simp_all
  show ?thesis
    by (intro exI [of _ a2] exI [of _ c'] exI [of _ h3] exI [of _ i] conjI)
      (use run w r n c'(2) p(7,9) i in \<open>simp_all\<close>)
qed

section \<open>The interrupt\<close>

text \<open>What the routine relies on besides the registers. \<open>stat\<close> is the status of the interrupts, which is read like the other registers. A channel's
  interrupt is held until a write to the register of enabled interrupts has the bit of that channel off; no new one arises meanwhile.
  \<open>midi\<close> is the queue of MIDI bytes: the status says that there is one, and each reading of the port takes the first.\<close>

definition cm_int_off :: "u32 \<Rightarrow> u32" where
  "cm_int_off x = (if x AND CM_CH0_INT_EN = 0 then CM_CHINT0 else 0) OR (if x AND CM_CH1_INT_EN = 0 then CM_CHINT1 else 0)"

definition cm_int_chip :: "'h cmi_env \<Rightarrow> cmi8x38_card \<Rightarrow> u16 \<Rightarrow> ('h \<Rightarrow> u32 \<Rightarrow> u32) \<Rightarrow> ('h \<Rightarrow> u32 \<Rightarrow> u16) \<Rightarrow> ('h \<Rightarrow> nat) \<Rightarrow>
    ('h \<Rightarrow> u32) \<Rightarrow> ('h \<Rightarrow> u8 list) \<Rightarrow> bool" where
  "cm_int_chip env c port reg frm bad stat midi \<longleftrightarrow>
     (\<forall>h. reg (snd (cm_inl env c CM_REG_INT_STATUS h)) = reg h \<and> frm (snd (cm_inl env c CM_REG_INT_STATUS h)) = frm h \<and>
        bad (snd (cm_inl env c CM_REG_INT_STATUS h)) = bad h - 1 \<and> fst (cm_inl env c CM_REG_INT_STATUS h) = (if bad h = 0 then stat h else ALL_ONES)) \<and>
     (\<forall>h. \<forall>r \<in> {CM_REG_INT_STATUS, CM_REG_INT_HLDCLR}. stat (snd (cm_inl env c r h)) = stat h \<and> midi (snd (cm_inl env c r h)) = midi h) \<and>
     (\<forall>x h. stat (cm_outl env c CM_REG_INT_HLDCLR x h) AND 3 = (stat h AND 3) AND NOT (cm_int_off x) \<and> midi (cm_outl env c CM_REG_INT_HLDCLR x h) = midi h) \<and>
     (\<forall>h. (stat h AND CM_UARTINT \<noteq> 0) = (midi h \<noteq> [])) \<and>
     (\<forall>h. midi h \<noteq> [] \<longrightarrow> fst (hw_inb (ce_hw env) port h) = hd (midi h) \<and> midi (snd (hw_inb (ce_hw env) port h)) = tl (midi h) \<and>
        stat (snd (hw_inb (ce_hw env) port h)) AND 3 = stat h AND 3)"

lemma cm_int_chip_same:
  "cm_iobase c' = cm_iobase c \<Longrightarrow> cm_int_chip env c' port reg frm bad stat midi = cm_int_chip env c port reg frm bad stat midi"
  by (simp add: cm_int_chip_def cm_outl_def cm_inl_def)

lemma cm_statusD:
  assumes "cm_int_chip env c port reg frm bad stat midi" "cm_inl env c CM_REG_INT_STATUS h = (x, h')"
  shows "reg h' = reg h" "frm h' = frm h" "bad h' = bad h - 1" "x = (if bad h = 0 then stat h else ALL_ONES)" "stat h' = stat h" "midi h' = midi h"
proof -
  have e: "h' = snd (cm_inl env c CM_REG_INT_STATUS h)" "x = fst (cm_inl env c CM_REG_INT_STATUS h)" using assms(2) by simp_all
  show "reg h' = reg h" "frm h' = frm h" "bad h' = bad h - 1" "x = (if bad h = 0 then stat h else ALL_ONES)" "stat h' = stat h" "midi h' = midi h"
    unfolding e using assms(1) unfolding cm_int_chip_def by blast+
qed

lemma cm_status_again_ok:
  assumes chip: "cm_int_chip env c port reg frm bad stat midi"
  shows "bad h < n \<Longrightarrow> stat h \<noteq> ALL_ONES \<Longrightarrow>
    \<exists>h'. cm_status_again env c n h = (stat h, h') \<and> reg h' = reg h \<and> frm h' = frm h \<and> bad h' \<le> bad h \<and> stat h' = stat h \<and> midi h' = midi h"
proof (induction n arbitrary: h)
  case (Suc n)
  obtain x h1 where x: "cm_inl env c CM_REG_INT_STATUS h = (x, h1)" by (rule prod.exhaust)
  have h1: "stat h1 = stat h" "midi h1 = midi h" "reg h1 = reg h" "frm h1 = frm h" "bad h1 = bad h - 1" "x = (if bad h = 0 then stat h else ALL_ONES)"
    using cm_statusD [OF chip x] by auto
  show ?case
  proof (cases "bad h = 0")
    case True
    then show ?thesis using x h1 Suc.prems(2) by simp
  next
    case False
    then have "bad h1 < n" "stat h1 \<noteq> ALL_ONES" using Suc.prems h1 by auto
    from Suc.IH [OF this] obtain h' where h': "cm_status_again env c n h1 = (stat h1, h')" "reg h' = reg h1" "frm h' = frm h1"
        "bad h' \<le> bad h1" "stat h' = stat h1" "midi h' = midi h1" by blast
    then have "cm_status_again env c (Suc n) h = (stat h, h')" using False x h1 by simp
    then show ?thesis using h' h1 by (intro exI [of _ h']) simp
  qed
qed simp

lemma cm_status_ok:
  assumes chip: "cm_int_chip env c port reg frm bad stat midi" and b: "bad h \<le> 2000" and r: "stat h \<noteq> ALL_ONES"
  shows "\<exists>h'. cm_status env c h = (stat h, h') \<and> reg h' = reg h \<and> frm h' = frm h \<and> bad h' \<le> bad h \<and> stat h' = stat h \<and> midi h' = midi h"
proof -
  obtain x h1 where x: "cm_inl env c CM_REG_INT_STATUS h = (x, h1)" by (rule prod.exhaust)
  have h1: "stat h1 = stat h" "midi h1 = midi h" "reg h1 = reg h" "frm h1 = frm h" "bad h1 = bad h - 1" "x = (if bad h = 0 then stat h else ALL_ONES)"
    using cm_statusD [OF chip x] by auto
  show ?thesis
  proof (cases "bad h = 0")
    case True
    then show ?thesis using x h1 r by (simp add: cm_status_def)
  next
    case False
    then have "bad h1 < 2000" using b h1(5) by simp
    then obtain h' where h': "cm_status_again env c 2000 h1 = (stat h1, h')" "reg h' = reg h1" "frm h' = frm h1" "bad h' \<le> bad h1" "stat h' = stat h1" "midi h' = midi h1"
      using cm_status_again_ok [OF chip, of h1 2000] r h1(1) by auto
    have "cm_status env c h = (stat h1, h')"
      unfolding cm_status_def x Let_def prod.case h'(1) using False h1(6) by simp
    then show ?thesis using h' h1 by auto
  qed
qed

text \<open>The acknowledgement: the interrupts that are handled are switched off and on again.\<close>

lemma cm_int_outD:
  assumes "cm_int_chip env c port reg frm bad stat midi"
  shows "stat (cm_outl env c CM_REG_INT_HLDCLR x h) AND 3 = (stat h AND 3) AND NOT (cm_int_off x)" "midi (cm_outl env c CM_REG_INT_HLDCLR x h) = midi h"
    "stat (snd (cm_inl env c CM_REG_INT_HLDCLR h)) = stat h" "midi (snd (cm_inl env c CM_REG_INT_HLDCLR h)) = midi h"
  using assms unfolding cm_int_chip_def by blast+

lemma cm_write_int:
  assumes i: "cm_int_chip env c port reg frm bad stat midi" and w: "snd_cmipci_write_32 env c CM_REG_INT_HLDCLR x h = Inr h'"
  shows "stat h' AND 3 = (stat h AND 3) AND NOT (cm_int_off x) \<and> midi h' = midi h"
proof -
  let ?s = "stat h AND 3" and ?n = "NOT (cm_int_off x)"
  obtain ok where "repeat_until (cm_write_once env c CM_REG_INT_HLDCLR x ALL_ONES) (\<lambda>ok. ok) h = Inr (ok, h')"
    using w unfolding snd_cmipci_write_32_def snd_cmipci_write_32m_def by auto
  then show ?thesis
  proof (rule repeat_until_post [where Q = "\<lambda>g. (stat g AND 3 = ?s \<or> stat g AND 3 = ?s AND ?n) \<and> midi g = midi h"])
    fix g v g' assume q: "(stat g AND 3 = ?s \<or> stat g AND 3 = ?s AND ?n) \<and> midi g = midi h"
      and b: "cm_write_once env c CM_REG_INT_HLDCLR x ALL_ONES g = Inr (v, g')"
    define g1 where "g1 = cm_outl env c CM_REG_INT_HLDCLR x g"
    have "(stat g AND 3) AND ?n = ?s AND ?n" using q by (elim conjE disjE) (simp_all only: and.assoc and.idem)
    then have 1: "stat g1 AND 3 = ?s AND ?n" "midi g1 = midi h"
      using cm_int_outD(1,2) [OF i, of x g] q by (simp_all add: g1_def)
    have "g' = g1 \<or> g' = snd (cm_inl env c CM_REG_INT_HLDCLR g1)"
      using b by (auto simp: cm_write_once_def g1_def Let_def case_prod_beta split: if_splits)
    then show "stat g' AND 3 = ?s AND ?n \<and> midi g' = midi h"
      using 1 cm_int_outD(3,4) [OF i, of g1] by metis
  qed auto
qed

lemma cm_change_int:
  assumes chip: "cm_chip env c reg frm bad" and i: "cm_int_chip env c port reg frm bad stat midi" and s: "cm_steady c (bad h)"
    and b: "cm_changed b (reg h) = (CM_REG_INT_HLDCLR, x)" and o: "cm_chip_version c \<le> 37 \<longrightarrow> reg h CM_REG_INT_HLDCLR \<noteq> ALL_ONES"
    and r: "cm_change env c b h = Inr h'"
  shows "stat h' AND 3 = (stat h AND 3) AND NOT (cm_int_off x) \<and> midi h' = midi h"
proof -
  obtain h1 where 1: "cm_read_sure env c CM_REG_INT_HLDCLR h = Inr (reg h CM_REG_INT_HLDCLR, h1)"
    using cm_read_ok [OF chip _ s o] by auto
  have "stat h1 = stat h \<and> midi h1 = midi h"
    by (rule repeat_until_post [OF 1 [unfolded cm_read_sure_def], where Q = "\<lambda>g. stat g = stat h \<and> midi g = midi h"])
      (use cm_int_outD(3,4) [OF i] in \<open>auto simp: prod_eq_iff dest: sym\<close>)
  moreover have "snd_cmipci_write_32 env c CM_REG_INT_HLDCLR x h1 = Inr h'"
    using b r 1 by (cases b) (auto simp: snd_cmipci_set_bit_def snd_cmipci_clear_bit_def)
  ultimately show ?thesis using cm_write_int [OF i] by metis
qed

lemma cm_acknowledge_ok:
  assumes chip: "cm_chip env c reg frm bad" and int: "cm_int_chip env c port reg frm bad stat midi" and s: "cm_steady c (bad h)"
    and o: "cm_chip_version c \<le> 37 \<longrightarrow> \<not> bit (reg h CM_REG_INT_HLDCLR) 31"
  shows "\<exists>h1 h2 y. snd_cmipci_clear_bit env c CM_REG_INT_HLDCLR (e OR CM_TDMA_INT_EN) h = Inr h1
    \<and> snd_cmipci_set_bit env c CM_REG_INT_HLDCLR e h1 = Inr h2 \<and> frm h2 = frm h \<and> bad h2 \<le> bad h \<and> reg h2 = (reg h)(CM_REG_INT_HLDCLR := y)
    \<and> y AND 0xFFFFFF = ((reg h CM_REG_INT_HLDCLR AND NOT CM_TDMA_INT_EN) OR e) AND 0xFFFFFF
    \<and> midi h2 = midi h \<and> (\<exists>k. stat h2 AND 3 = ((stat h AND 3) AND NOT (cm_int_off (reg h CM_REG_INT_HLDCLR AND NOT (e OR CM_TDMA_INT_EN)))) AND k)"
proof -
  let ?x = "reg h CM_REG_INT_HLDCLR" and ?m = "e OR CM_TDMA_INT_EN"
  have ones: "bit ALL_ONES 31" by simp
  have x1: "cm_chip_version c \<le> 37 \<longrightarrow> ?x \<noteq> ALL_ONES" using o ones by metis
  obtain h1 y1 where 1: "cm_change env c (Clear_bit CM_REG_INT_HLDCLR ?m) h = Inr h1" "reg h1 = (reg h)(CM_REG_INT_HLDCLR := y1)"
      "cm_stored (cm_chip_version c) CM_REG_INT_HLDCLR (?x AND NOT ?m) y1" "frm h1 = frm h" "bad h1 \<le> bad h"
    using cm_change_ok [OF chip s, of "Clear_bit CM_REG_INT_HLDCLR ?m" CM_REG_INT_HLDCLR] x1 by auto
  have "cm_chip_version c \<le> 37 \<longrightarrow> \<not> bit y1 31" using o 1(3) by (auto simp: cm_stored_def bit_and_iff)
  then have y1: "cm_chip_version c \<le> 37 \<longrightarrow> reg h1 CM_REG_INT_HLDCLR \<noteq> ALL_ONES" unfolding 1(2) fun_upd_same using ones by metis
  note s1 = cm_steady_le [OF s 1(5)]
  obtain h2 y2 where 2: "cm_change env c (Set_bit CM_REG_INT_HLDCLR e) h1 = Inr h2" "reg h2 = (reg h1)(CM_REG_INT_HLDCLR := y2)"
      "cm_stored (cm_chip_version c) CM_REG_INT_HLDCLR (y1 OR e) y2" "frm h2 = frm h1" "bad h2 \<le> bad h1"
    using cm_change_ok [OF chip s1, of "Set_bit CM_REG_INT_HLDCLR e" CM_REG_INT_HLDCLR] y1 1(2) by auto
  have "y2 AND 0xFFFFFF = (y1 AND 0xFFFFFF) OR (e AND 0xFFFFFF)" using 2(3) by (simp add: cm_stored_def bit.conj_disj_distrib2)
  also have "\<dots> = ((?x AND NOT ?m) AND 0xFFFFFF) OR (e AND 0xFFFFFF)" using 1(3) by (simp add: cm_stored_def)
  also have "\<dots> = ((?x AND NOT CM_TDMA_INT_EN) OR e) AND 0xFFFFFF" by (rule bit_word_eqI) (auto simp: bit_simps)
  finally have y2: "y2 AND 0xFFFFFF = ((?x AND NOT CM_TDMA_INT_EN) OR e) AND 0xFFFFFF" .
  have i1: "stat h1 AND 3 = (stat h AND 3) AND NOT (cm_int_off (?x AND NOT ?m)) \<and> midi h1 = midi h"
    by (rule cm_change_int [OF chip int s _ x1 1(1)]) simp
  have i2: "stat h2 AND 3 = (stat h1 AND 3) AND NOT (cm_int_off (y1 OR e)) \<and> midi h2 = midi h1"
    by (rule cm_change_int [OF chip int s1 _ y1 2(1)]) (simp add: 1(2))
  have run: "snd_cmipci_clear_bit env c CM_REG_INT_HLDCLR ?m h = Inr h1" "snd_cmipci_set_bit env c CM_REG_INT_HLDCLR e h1 = Inr h2"
    using 1(1) 2(1) by simp_all
  have k: "stat h2 AND 3 = ((stat h AND 3) AND NOT (cm_int_off (?x AND NOT ?m))) AND NOT (cm_int_off (y1 OR e))" using i1 i2 by simp
  have m: "midi h2 = midi h" "frm h2 = frm h" "bad h2 \<le> bad h" "reg h2 = (reg h)(CM_REG_INT_HLDCLR := y2)" using i1 i2 1 2 by auto
  show ?thesis using run y2 k m by blast
qed

text \<open>The bits of the channels that were pending are off in what is written first, which ends their interrupts.\<close>

lemma cm_acknowledged: "(st AND 3) AND NOT (cm_int_off (x AND NOT (cm_int_enables st OR CM_TDMA_INT_EN))) = 0"
proof -
  define z where "z = x AND NOT (cm_int_enables st OR CM_TDMA_INT_EN)"
  have 0: "st AND CM_CHINT0 \<noteq> 0 \<Longrightarrow> z AND CM_CH0_INT_EN = 0" "st AND CM_CHINT1 \<noteq> 0 \<Longrightarrow> z AND CM_CH1_INT_EN = 0"
    unfolding z_def cm_int_enables_def by (simp_all add: and.assoc bit.conj_disj_distrib)
  have 3: "(3 :: u32) = CM_CHINT0 OR CM_CHINT1" by simp
  have "(st AND CM_CHINT0) AND NOT (cm_int_off z) = 0"
  proof (cases "st AND CM_CHINT0 = 0")
    case False
    then show ?thesis using 0(1) by (simp add: cm_int_off_def and.assoc bit.conj_disj_distrib)
  qed simp
  moreover have "(st AND CM_CHINT1) AND NOT (cm_int_off z) = 0"
  proof (cases "st AND CM_CHINT1 = 0")
    case False
    then show ?thesis using 0(2) by (simp add: cm_int_off_def and.assoc bit.conj_disj_distrib)
  qed simp
  ultimately show ?thesis unfolding z_def [symmetric] 3 bit.conj_disj_distrib bit.conj_disj_distrib2 by simp
qed

text \<open>What the routine has done when it is over.\<close>

definition cm_irq_done :: "cmi8x38_card \<Rightarrow> u16 \<Rightarrow> u32 \<Rightarrow> u8 list \<Rightarrow> u32 \<Rightarrow> u8 list \<Rightarrow> cmi8x38_card \<Rightarrow> bool" where
  "cm_irq_done c port st q st' q' c' =
    (if cm_pending c st then st' AND (CM_CHINT0 OR CM_CHINT1) = 0 \<and> q' = (if port \<noteq> 0 then tl q else q) \<and>
       c' = (if q \<noteq> [] \<and> port \<noteq> 0 then c\<lparr>cm_midi_in_data := hd q, cm_midi_in_data_valid := True\<rparr> else c)
     else st' = st \<and> q' = q \<and> c' = c)"

lemma cmi_irq_ok:
  assumes chip: "cm_chip env c reg frm bad" and int: "cm_int_chip env c port reg frm bad stat midi" and s: "cm_steady c (bad h)" "bad h \<le> 2000"
    and st: "stat h = st" "st \<noteq> ALL_ONES"
    and o: "cm_chip_version c \<le> 37 \<longrightarrow> \<not> bit (reg h CM_REG_INT_HLDCLR) 31"
  shows "\<exists>c' h' y. CMI8X38_IRQRoutine env port c h = Inr (cm_pending c st, c', h') \<and> frm h' = frm h \<and> reg h' = (reg h)(CM_REG_INT_HLDCLR := y)
    \<and> (if cm_pending c st then y AND 0xFFFFFF = ((reg h CM_REG_INT_HLDCLR AND NOT CM_TDMA_INT_EN) OR cm_int_enables st) AND 0xFFFFFF
       else y = reg h CM_REG_INT_HLDCLR)
    \<and> cm_irq_done c port st (midi h) (stat h') (midi h') c'"
proof -
  obtain h1 where 1: "cm_status env c h = (st, h1)" "reg h1 = reg h" "frm h1 = frm h" "bad h1 \<le> bad h" "stat h1 = st" "midi h1 = midi h"
    using cm_status_ok [OF int s(2)] st by auto
  have q: "(st AND CM_UARTINT \<noteq> 0) = (midi h \<noteq> [])" using int st(1) unfolding cm_int_chip_def by metis
  show ?thesis
  proof (cases "cm_pending c st")
    case False
    then have "CMI8X38_IRQRoutine env port c h = Inr (False, c, h1)" unfolding CMI8X38_IRQRoutine_def 1(1) by simp
    then show ?thesis using 1 False
      by (intro exI [of _ c] exI [of _ h1] exI [of _ "reg h CM_REG_INT_HLDCLR"]) (simp add: cm_irq_done_def)
  next
    case p: True
    define u where "u \<longleftrightarrow> st AND CM_UARTINT \<noteq> 0 \<and> port \<noteq> 0"
    define x where "x = fst (hw_inb (ce_hw env) port h1)"
    define h2 where "h2 = (if u then snd (hw_inb (ce_hw env) port h1) else h1)"
    define c' where "c' = (if u then c\<lparr>cm_midi_in_data := x, cm_midi_in_data_valid := True\<rparr> else c)"
    have "bytes_keep (ce_hw env) (\<lambda>h. (reg h, frm h, bad h))" using chip unfolding cm_chip_def by blast
    then have k: "reg h2 = reg h1" "frm h2 = frm h1" "bad h2 = bad h1" unfolding h2_def using bytes_keepD(2) by fastforce+
    have m: "u \<Longrightarrow> x = hd (midi h) \<and> midi h2 = tl (midi h)" "stat h2 AND 3 = st AND 3" "\<not> u \<Longrightarrow> midi h2 = midi h"
      using int q 1(5,6) unfolding cm_int_chip_def h2_def x_def u_def by auto
    have same: "cm_iobase c' = cm_iobase c" "cm_chip_version c' = cm_chip_version c" by (simp_all add: c'_def)
    have "cm_int_chip env c' port reg frm bad stat midi = cm_int_chip env c port reg frm bad stat midi" by (rule cm_int_chip_same [OF same(1)])
    then have chip': "cm_chip env c' reg frm bad" "cm_int_chip env c' port reg frm bad stat midi" "cm_steady c' (bad h2)"
      using chip int cm_chip_same [of c' c env reg frm bad] cm_steady_le [OF s(1), of "bad h2"] 1(4) k(3) same
      by (auto simp: cm_steady_def)
    obtain h3 h4 y k' where 2: "snd_cmipci_clear_bit env c' CM_REG_INT_HLDCLR (cm_int_enables st OR CM_TDMA_INT_EN) h2 = Inr h3"
        "snd_cmipci_set_bit env c' CM_REG_INT_HLDCLR (cm_int_enables st) h3 = Inr h4" "frm h4 = frm h2" "reg h4 = (reg h2)(CM_REG_INT_HLDCLR := y)"
        "y AND 0xFFFFFF = ((reg h2 CM_REG_INT_HLDCLR AND NOT CM_TDMA_INT_EN) OR cm_int_enables st) AND 0xFFFFFF" "midi h4 = midi h2"
        "stat h4 AND 3 = ((st AND 3) AND NOT (cm_int_off (reg h2 CM_REG_INT_HLDCLR AND NOT (cm_int_enables st OR CM_TDMA_INT_EN)))) AND k'"
      using cm_acknowledge_ok [OF chip', of "cm_int_enables st"] o 1(2) k(1) same(2) unfolding m(2) by auto
    have e: "(if st AND CM_UARTINT \<noteq> 0 \<and> port \<noteq> 0 then
             (case hw_inb (ce_hw env) port h1 of (x, h) \<Rightarrow> (c\<lparr>cm_midi_in_data := x, cm_midi_in_data_valid := True\<rparr>, h))
           else (c, h1)) = (c', h2)"
      by (simp add: c'_def h2_def x_def u_def case_prod_beta)
    have run: "CMI8X38_IRQRoutine env port c h = Inr (True, c', h4)"
      unfolding CMI8X38_IRQRoutine_def Let_def 1(1) prod.case e using p 2(1,2) by simp
    have "stat h4 AND 3 = 0" unfolding 2(7) cm_acknowledged by simp
    then have "cm_irq_done c port st (midi h) (stat h4) (midi h4) c'"
      using p m 2(6) q by (auto simp: cm_irq_done_def c'_def u_def)
    then show ?thesis using run p 2(3-5) 1(2,3) k(1,2) by (intro exI [of _ c'] exI [of _ h4] exI [of _ y]) simp
  qed
qed

section \<open>MIDI input\<close>

text \<open>The byte that an interrupt has taken is read once, without another access to the port; then the port is read again.\<close>

lemma midi_byte_read_once:
  assumes "cm_midi_in_data_valid c" "cm_midi_in_data c = x" "hw_inb (ce_hw env) port h = (y, h')"
  shows "cmi8x38_mpu401_read env port 0 c h = (x, c\<lparr>cm_midi_in_data_valid := False\<rparr>, h)"
    "cmi8x38_mpu401_read env port 0 (c\<lparr>cm_midi_in_data_valid := False\<rparr>) h = (y, c\<lparr>cm_midi_in_data_valid := False\<rparr>, h')"
  using assms by (simp_all add: cmi8x38_mpu401_read_def)

text \<open>A second interrupt before the program has read takes the place of the first one's byte, which is lost.\<close>

definition midi_demo_hw :: "u8 list card_hw" where
  "midi_demo_hw = \<lparr>hw_outb = (\<lambda>_ _ h. h), hw_outw = (\<lambda>_ _ h. h), hw_outl = (\<lambda>_ _ h. h), hw_inb = (\<lambda>_ h. case h of [] \<Rightarrow> (0, []) | x # h \<Rightarrow> (x, h)),
    hw_inw = (\<lambda>_ h. (0, h)), hw_inl = (\<lambda>p h. (if p = 0xD010 then 0x80010000 else 0, h)), hw_writeb = (\<lambda>_ _ h. h), hw_writew = (\<lambda>_ _ h. h),
    hw_writel = (\<lambda>_ _ h. h), hw_readb = (\<lambda>_ h. (0, h)), hw_readw = (\<lambda>_ h. (0, h)), hw_readl = (\<lambda>_ h. (0, h)), hw_gettimeu = (\<lambda>h. (0, h))\<rparr>"

lemma midi_byte_overwritten:
  assumes "ce_hw env = midi_demo_hw"
  defines "c \<equiv> cmi8x38_card_zero\<lparr>cm_iobase := 0xD000, cm_chip_version := 55\<rparr>"
  shows "bindE (CMI8X38_IRQRoutine env 0xD040 c [0x90, 0x40, 0x7F]) (\<lambda>(_, c, h). bindE (CMI8X38_IRQRoutine env 0xD040 c h) (\<lambda>(_, c, h).
      Inr (fst (cmi8x38_mpu401_read env 0xD040 0 c h)))) = Inr 0x40"
  by (simp add: CMI8X38_IRQRoutine_def cm_status_def cm_pending_def c_def assms(1) cm_inl_def midi_demo_hw_def cmi8x38_card_zero_def Let_def
      snd_cmipci_clear_bit_def snd_cmipci_set_bit_def cm_read_sure_def snd_cmipci_write_32_def snd_cmipci_write_32m_def cm_write_once_def cm_outl_def
      repeat_until_step cmi8x38_mpu401_read_def)

section \<open>Version, position and room\<close>

text \<open>Chips with more than two channels are newer ones.\<close>

lemma cm_version_multi:
  assumes "cm_can_multi_ch c = 0" "cm_version env k c h = (c', h')"
  shows "cm_can_multi_ch c' \<noteq> 0 \<longrightarrow> 37 < cm_chip_version c'"
  using assms by (auto simp: cm_version_def query_chip_def Let_def case_prod_beta split: if_splits)

text \<open>With \<open>x + 1\<close> samples to go, the position is that many before the end of the ring; the largest value is right only for the largest ring.\<close>

lemma cmi_position:
  assumes r: "cm_inw env c CM_REG_CH0_FRAME2 h = (x, h')" "ucast x < cm_dma_size c" and s: "cm_shift c = 2"
    and n: "unat (card_dmasize a) = 4 * unat (cm_dma_size c)" "unat (cm_dma_size c) \<le> 65536"
  shows "CMI8X38_getbufpos env (a, c, h) = (let p = push_bit 2 (cm_dma_size c - (ucast x + 1)) in Inr (p, a\<lparr>card_dma_lastgoodpos := p\<rparr>, c, h'))"
    "unat (push_bit 2 (cm_dma_size c - (ucast x + 1))) + 4 * (unat x + 1) = unat (card_dmasize a)"
proof -
  have x: "unat x < unat (cm_dma_size c)" using r(2) by (simp add: word_less_nat_alt unat_ucast16_u32)
  have last: "cm_dma_size c - 1 = 0xFFFF" if "x = 0xFFFF"
  proof -
    have "unat (cm_dma_size c) = 65536" using x n(2) that by simp
    then have "cm_dma_size c = 0x10000" by (simp add: word_unat_eq_iff)
    then show ?thesis by simp
  qed
  have m: "cm_read_rem env c h = Inr (x, h')"
    unfolding cm_read_rem_def by (subst repeat_until_step) (use r(1) last in auto)
  have u: "unat (ucast x + 1 :: u32) = unat x + 1" using x n(2) by (simp add: unat_word_ariths unat_ucast16_u32)
  have d: "unat (cm_dma_size c - (ucast x + 1)) = unat (cm_dma_size c) - (unat x + 1)"
    using x u by (simp add: unat_sub_if')
  have "unat (push_bit 2 z :: u32) = 4 * unat z" if "unat z \<le> 65536" for z :: u32 using that by (simp add: push_bit_eq_mult unat_word_ariths)
  then have p: "unat (push_bit 2 (cm_dma_size c - (ucast x + 1))) = 4 * (unat (cm_dma_size c) - (unat x + 1))" using d n(2) by simp
  show "unat (push_bit 2 (cm_dma_size c - (ucast x + 1))) + 4 * (unat x + 1) = unat (card_dmasize a)" using p x n(1) by simp
  then have "push_bit 2 (cm_dma_size c - (ucast x + 1)) < card_dmasize a" by (simp add: word_less_nat_alt)
  moreover have "cm_tries env c 3 h = Inr (Some (ucast x), h')" using m r(2) by (simp add: numeral_3_eq_3)
  ultimately show "CMI8X38_getbufpos env (a, c, h) = (let p = push_bit 2 (cm_dma_size c - (ucast x + 1)) in Inr (p, a\<lparr>card_dma_lastgoodpos := p\<rparr>, c, h'))"
    by (simp add: CMI8X38_getbufpos_def s Let_def)
qed

text \<open>Whatever the chip says, the position stays in the ring, as the output layer demands, if the chip does not say the same impossible value for ever.\<close>

definition cmi_ready :: "'h cmi_env \<Rightarrow> 'h cmi au_globals \<Rightarrow> bool" where
  "cmi_ready env g = (\<exists>c. private_data (device g) = Some c \<and> (\<forall>h. \<exists>r. cm_read_rem env c h = Inr r))"

lemma cm_tries_return: "\<forall>h. \<exists>r. cm_read_rem env c h = Inr r \<Longrightarrow> \<exists>m h'. cm_tries env c n h = Inr (m, h')"
proof (induction n arbitrary: h)
  case (Suc n)
  obtain x h1 where 1: "cm_read_rem env c h = Inr (x, h1)" using Suc.prems by (metis prod.exhaust)
  then show ?case using Suc.IH [OF Suc.prems, of h1] by simp
qed simp

interpretation cmi_card: card_position "ask_play (CMI8X38_getbufpos env)" "cmi_ready env"
proof
  fix a :: mpxplay_audioout_info and g :: "'a cmi au_globals"
  assume good: "good_position a" and r: "cmi_ready env g"
  then obtain c where c: "private_data (device g) = Some c" "\<forall>h. \<exists>r. cm_read_rem env c h = Inr r" by (auto simp: cmi_ready_def)
  obtain m h' where m: "cm_tries env c 3 (machine (device g)) = Inr (m, h')" using cm_tries_return [OF c(2)] by blast
  define q where "q = push_bit (cm_shift c) (cm_dma_size c - (the m + 1))"
  define a' where "a' = (if m \<noteq> None \<and> q < card_dmasize a then a\<lparr>card_dma_lastgoodpos := q\<rparr> else a)"
  have l: "CMI8X38_getbufpos env (a, c, machine (device g)) = Inr (card_dma_lastgoodpos a', a', c, h')"
    using m by (cases m) (simp_all add: CMI8X38_getbufpos_def Let_def q_def a'_def)
  have s: "pos_same a a'"
  proof (cases "q < card_dmasize a")
    case True
    have "pos_same a (a\<lparr>card_dma_lastgoodpos := q\<rparr>)" unfolding pos_same_def
      by (intro exI [of _ "card_DMABUFF a"] exI [of _ "card_infobits a"] exI [of _ q]) (simp add: True)
    then show ?thesis using pos_same_refl [OF good] by (simp add: a'_def)
  qed (use pos_same_refl [OF good] in \<open>simp add: a'_def\<close>)
  then have "card_dma_lastgoodpos a' < card_dmasize a" by (auto simp: pos_same_def)
  then show "\<exists>p a' g'. ask_play (CMI8X38_getbufpos env) (a, g) = Inr (p, a', g') \<and> p < card_dmasize a \<and> pos_same a a' \<and> cmi_ready env g'"
    using l c s by (intro exI [of _ "card_dma_lastgoodpos a'"] exI [of _ a']
        exI [of _ "g\<lparr>device := (device g)\<lparr>private_data := Some c, machine := h'\<rparr>\<rparr>"])
      (simp add: ask_play_def deref_def cmi_ready_def)
qed

section \<open>A chip with bad reads\<close>

text \<open>The registers by their offsets, the channels whose interrupts are pending, the MIDI bytes, and the number of bad reads ahead.\<close>

record cmi_demo =
  cd_reg :: "u32 \<Rightarrow> u32"
  cd_frm :: "u32 \<Rightarrow> u16"
  cd_channels :: u32
  cd_midi :: "u8 list"
  cd_bad :: nat

definition cd_stat :: "cmi_demo \<Rightarrow> u32" where
  "cd_stat h = (cd_channels h AND 3) OR (if cd_midi h = [] then 0 else CM_UARTINT)"

definition cmi_demo_hw :: "cmi_demo card_hw" where
  "cmi_demo_hw = (let off = (\<lambda>p :: u16. ucast p - 0xD000 :: u32) in
    \<lparr>hw_outb = (\<lambda>_ _ h. h), hw_outw = (\<lambda>p x h. h\<lparr>cd_frm := (cd_frm h)(off p := x)\<rparr>),
     hw_outl = (\<lambda>p x h. h\<lparr>cd_reg := (cd_reg h)(off p := x),
       cd_channels := (if off p = CM_REG_INT_HLDCLR then cd_channels h AND NOT (cm_int_off x) else cd_channels h)\<rparr>),
     hw_inb = (\<lambda>p h. if p = 0xD040 \<and> cd_midi h \<noteq> [] then (hd (cd_midi h), h\<lparr>cd_midi := tl (cd_midi h)\<rparr>) else (0xFF, h)),
     hw_inw = (\<lambda>p h. (cd_frm h (off p), h)),
     hw_inl = (\<lambda>p h. (if cd_bad h \<noteq> 0 then ALL_ONES else if off p = CM_REG_INT_STATUS then cd_stat h else cd_reg h (off p),
       h\<lparr>cd_bad := cd_bad h - 1\<rparr>)), hw_writeb = (\<lambda>_ _ h. h), hw_writew = (\<lambda>_ _ h. h),
     hw_writel = (\<lambda>_ _ h. h), hw_readb = (\<lambda>_ h. (0, h)), hw_readw = (\<lambda>_ h. (0, h)), hw_readl = (\<lambda>_ h. (0, h)), hw_gettimeu = (\<lambda>h. (0, h))\<rparr>)"

definition demo_cmi :: cmi8x38_card where
  "demo_cmi = cmi8x38_card_zero\<lparr>cm_iobase := 0xD000, cm_chip_version := 37, cm_bufsize := 4096, cm_buffer := 0x3000,
    cm_dm := Some (xmsmem_zero\<lparr>physicalptr := 0x100000, linearptr := 0x2800\<rparr>)\<rparr>"

lemma cmi_demo_chip:
  assumes "ce_hw env = cmi_demo_hw" "\<forall>t h. ce_mdelay env t h = h"
  shows "cm_chip env demo_cmi cd_reg cd_frm cd_bad"
  by (auto simp: cm_chip_def cm_registers_def cm_outl_def cm_inl_def snd_cmipci_write_16nv_def assms cmi_demo_hw_def Let_def bytes_keep_def
      demo_cmi_def cm_stored_def)

lemma cd_stat_bits: "cd_stat h AND 3 = cd_channels h AND 3" "(cd_stat h AND CM_UARTINT \<noteq> 0) = (cd_midi h \<noteq> [])"
  by (simp_all add: cd_stat_def bit.conj_disj_distrib2 and.assoc)

lemma cmi_demo_int_chip:
  assumes "ce_hw env = cmi_demo_hw" shows "cm_int_chip env demo_cmi 0xD040 cd_reg cd_frm cd_bad cd_stat cd_midi"
proof -
  have s: "cd_stat (h\<lparr>cd_bad := n\<rparr>) = cd_stat h" for h n by (simp add: cd_stat_def)
  have x: "cm_outl env demo_cmi CM_REG_INT_HLDCLR x h = h\<lparr>cd_reg := (cd_reg h)(0x0C := x), cd_channels := cd_channels h AND NOT (cm_int_off x)\<rparr>" for x h
    by (simp add: cm_outl_def assms cmi_demo_hw_def demo_cmi_def)
  have i: "cm_inl env demo_cmi CM_REG_INT_STATUS h = (if cd_bad h \<noteq> 0 then ALL_ONES else cd_stat h, h\<lparr>cd_bad := cd_bad h - 1\<rparr>)"
    "snd (cm_inl env demo_cmi CM_REG_INT_HLDCLR h) = h\<lparr>cd_bad := cd_bad h - 1\<rparr>" for h
    by (simp_all add: cm_inl_def assms cmi_demo_hw_def demo_cmi_def)
  have b: "cd_midi h \<noteq> [] \<Longrightarrow> hw_inb (ce_hw env) 0xD040 h = (hd (cd_midi h), h\<lparr>cd_midi := tl (cd_midi h)\<rparr>)" for h
    by (simp add: assms cmi_demo_hw_def)
  show ?thesis unfolding cm_int_chip_def x i cd_stat_bits by (auto simp: i s b and.assoc and.commute and.left_commute)
qed

section \<open>Properties of the driver\<close>

text \<open>C21: On an older C-Media chip, whose reads give all bits set any number of times before they are right, and on a newer one without such reads, setting the
  rate returns: every loop that waits for a register ends. The chip then has the ring buffer of the output layer exactly: its physical
  address, its length in samples minus one without overflow of the 16 bits, the number of samples between interrupts that the direct mode is
  told, a whole number of times per round. The rate is one of the eight of the chip, the same in its register and in the audio state, the format is 16-bit
  stereo, digital output is off, and every other bit of the two registers (but the version bits) is kept. On the older chips the highest bit of the first of these
  registers is off and the second is not all ones before (a value of all ones would be taken for a bad read), chips with more than two channels are newer ones,
  and the memory for samples is the one that was allocated, of 1 KB to 256 KB.\<close>

theorem cmi_frame:
  assumes chip: "cm_chip env c reg frm bad" and s: "cm_steady c (bad h)"
    and o: "cm_chip_version c \<le> 37 \<longrightarrow> \<not> bit (reg h CM_REG_FUNCTRL1) 31 \<and> reg h CM_REG_CHFORMAT \<noteq> ALL_ONES"
    and m: "cm_can_multi_ch c \<noteq> 0 \<longrightarrow> 37 < cm_chip_version c" and d: "cm_dm c = Some dm"
    and b: "1024 \<le> unat (cm_bufsize c)" "unat (cm_bufsize c) \<le> 262144"
    and buf: "card_DMABUFF a = Some buf" "unat (cm_bufsize c) \<le> length buf"
  shows "\<exists>a' c' h' i. CMI8X38_setrate env (a, c, h) = Inr (a', c', h') \<and> dma_wf a' \<and> card_dmasize a' \<le> cm_bufsize c
    \<and> reg h' CM_REG_CH0_FRAME1 = pds_cardmem_physicalptr dm (cm_buffer c)
    \<and> 4 * (unat (frm h' CM_REG_CH0_FRAME2) + 1) = unat (card_dmasize a') \<and> unat (frm h' (CM_REG_CH0_FRAME2 + 2)) + 1 = nat (card_samples_per_int a')
    \<and> 4 * nat (card_samples_per_int a') dvd unat (card_dmasize a') \<and> cm_dma_size c' = drop_bit 2 (card_dmasize a') \<and> cm_shift c' = 2
    \<and> i < 8 \<and> freq_card a' = cmi_rates ! i
    \<and> reg h' CM_REG_FUNCTRL1 = (reg h CM_REG_FUNCTRL1 AND NOT (CM_DSFC_MASK OR CM_SPDF_0)) OR push_bit 10 (of_nat i)
    \<and> reg h' CM_REG_CHFORMAT AND 0xFFFFFF = (reg h CM_REG_CHFORMAT AND 0xFFFFFF) OR 3"
  by (rule cmi_setrate_frame [OF assms])

definition cmi_demo_env :: "cmi_demo card_env \<Rightarrow> cmi_demo cmi_env" where
  "cmi_demo_env e = card_env.extend (e\<lparr>ce_hw := cmi_demo_hw\<rparr>) (cmi_env.fields (\<lambda>_ h. h))"

lemma cmi_demo_env_simps: "ce_hw (cmi_demo_env e) = cmi_demo_hw" "\<forall>t h. ce_mdelay (cmi_demo_env e) t h = h"
  by (simp_all add: cmi_demo_env_def card_env.defs cmi_env.defs)

theorem cmi_frame_witness:
  "\<forall>e. \<exists>a' c' h' i. CMI8X38_setrate (cmi_demo_env e) (aui0\<lparr>card_DMABUFF := Some (replicate 4096 0)\<rparr>, demo_cmi,
      \<lparr>cd_reg = (\<lambda>_. 0x01001DF4), cd_frm = (\<lambda>_. 0), cd_channels = 0, cd_midi = [], cd_bad = 1000\<rparr>) = Inr (a', c', h') \<and> dma_wf a' \<and> card_dmasize a' \<le> cm_bufsize demo_cmi
    \<and> cd_reg h' CM_REG_CH0_FRAME1 = pds_cardmem_physicalptr (xmsmem_zero\<lparr>physicalptr := 0x100000, linearptr := 0x2800\<rparr>) (cm_buffer demo_cmi)
    \<and> 4 * (unat (cd_frm h' CM_REG_CH0_FRAME2) + 1) = unat (card_dmasize a') \<and> unat (cd_frm h' (CM_REG_CH0_FRAME2 + 2)) + 1 = nat (card_samples_per_int a')
    \<and> 4 * nat (card_samples_per_int a') dvd unat (card_dmasize a') \<and> cm_dma_size c' = drop_bit 2 (card_dmasize a') \<and> cm_shift c' = 2
    \<and> i < 8 \<and> freq_card a' = cmi_rates ! i
    \<and> cd_reg h' CM_REG_FUNCTRL1 = (0x01001DF4 AND NOT (CM_DSFC_MASK OR CM_SPDF_0)) OR push_bit 10 (of_nat i)
    \<and> cd_reg h' CM_REG_CHFORMAT AND 0xFFFFFF = (0x01001DF4 AND 0xFFFFFF) OR 3"
  using cmi_frame [OF cmi_demo_chip [OF cmi_demo_env_simps], of "\<lparr>cd_reg = (\<lambda>_. 0x01001DF4), cd_frm = (\<lambda>_. 0), cd_channels = 0, cd_midi = [], cd_bad = 1000\<rparr>"
      "xmsmem_zero\<lparr>physicalptr := 0x100000, linearptr := 0x2800\<rparr>" "aui0\<lparr>card_DMABUFF := Some (replicate 4096 0)\<rparr>" "replicate 4096 0"]
  by (intro allI) (simp add: cm_steady_def demo_cmi_def cmi8x38_card_zero_def)

definition demo_cmi_chip :: cmi_demo where
  "demo_cmi_chip = \<lparr>cd_reg = (\<lambda>_. 0x70000), cd_frm = (\<lambda>_. 0), cd_channels = 1, cd_midi = [0x90, 0x40], cd_bad = 5\<rparr>"

text \<open>C22: The interrupt of a C-Media card, with up to 2000 bad reads of the status: the routine says that the interrupt is the card's exactly when the status
  has a pending interrupt (the summary bit on newer chips, any of the sources on older ones), and touches nothing otherwise. Otherwise the interrupts of
  both channels, which the chip holds until their bit in the register of enabled interrupts is written as off, are ended; the register is left with those of the
  channels that were pending enabled, the one of TDMA off and every other bit (but the version bits) as it was. When the card's MIDI
  port is in use and a byte has come in, exactly one byte is taken from the port, and it is this byte that is kept for the program; otherwise the port is
  left alone. The status itself is not all ones, and on the older chips the highest bit of the register is off (a value of all ones would be taken for a bad read).\<close>

theorem cmi_interrupt:
  assumes chip: "cm_chip env c reg frm bad" and int: "cm_int_chip env c port reg frm bad stat midi" and s: "cm_steady c (bad h)" "bad h \<le> 2000"
    and st: "stat h = st" "st \<noteq> ALL_ONES"
    and o: "cm_chip_version c \<le> 37 \<longrightarrow> \<not> bit (reg h CM_REG_INT_HLDCLR) 31"
  shows "\<exists>c' h' y. CMI8X38_IRQRoutine env port c h = Inr (cm_pending c st, c', h') \<and> frm h' = frm h \<and> reg h' = (reg h)(CM_REG_INT_HLDCLR := y)
    \<and> (if cm_pending c st then y AND 0xFFFFFF = ((reg h CM_REG_INT_HLDCLR AND NOT CM_TDMA_INT_EN) OR cm_int_enables st) AND 0xFFFFFF
       else y = reg h CM_REG_INT_HLDCLR)
    \<and> cm_irq_done c port st (midi h) (stat h') (midi h') c'"
  by (rule cmi_irq_ok [OF assms])

theorem cmi_interrupt_witness:
  "\<forall>e. \<exists>c' h'. CMI8X38_IRQRoutine (cmi_demo_env e) 0xD040 demo_cmi demo_cmi_chip = Inr (True, c', h') \<and> cd_stat h' AND 3 = 0
    \<and> cd_midi h' = [0x40] \<and> c' = demo_cmi\<lparr>cm_midi_in_data := 0x90, cm_midi_in_data_valid := True\<rparr>"
proof
  fix e
  have p: "cm_pending demo_cmi 0x10001" by (simp add: cm_pending_def demo_cmi_def cmi8x38_card_zero_def)
  have "\<exists>c' h' y. CMI8X38_IRQRoutine (cmi_demo_env e) 0xD040 demo_cmi demo_cmi_chip = Inr (cm_pending demo_cmi 0x10001, c', h') \<and> cd_frm h' = cd_frm demo_cmi_chip
    \<and> cd_reg h' = (cd_reg demo_cmi_chip)(CM_REG_INT_HLDCLR := y)
    \<and> (if cm_pending demo_cmi 0x10001 then y AND 0xFFFFFF = ((cd_reg demo_cmi_chip CM_REG_INT_HLDCLR AND NOT CM_TDMA_INT_EN) OR cm_int_enables 0x10001) AND 0xFFFFFF
       else y = cd_reg demo_cmi_chip CM_REG_INT_HLDCLR)
    \<and> cm_irq_done demo_cmi 0xD040 0x10001 (cd_midi demo_cmi_chip) (cd_stat h') (cd_midi h') c'"
    by (rule cmi_interrupt [OF cmi_demo_chip [OF cmi_demo_env_simps] cmi_demo_int_chip [OF cmi_demo_env_simps(1)]])
      (simp_all add: cm_steady_def demo_cmi_def cmi8x38_card_zero_def demo_cmi_chip_def cd_stat_def)
  then obtain c' h' where "CMI8X38_IRQRoutine (cmi_demo_env e) 0xD040 demo_cmi demo_cmi_chip = Inr (True, c', h')"
      "cm_irq_done demo_cmi 0xD040 0x10001 [0x90, 0x40] (cd_stat h') (cd_midi h') c'"
    using p by (auto simp: demo_cmi_chip_def)
  then show "\<exists>c' h'. CMI8X38_IRQRoutine (cmi_demo_env e) 0xD040 demo_cmi demo_cmi_chip = Inr (True, c', h') \<and> cd_stat h' AND 3 = 0
    \<and> cd_midi h' = [0x40] \<and> c' = demo_cmi\<lparr>cm_midi_in_data := 0x90, cm_midi_in_data_valid := True\<rparr>"
    using p by (auto simp: cm_irq_done_def)
qed

end
