(* ===== verification/Cards.thy ===== *)
theory Cards
  imports Auinit Ich Via82 Es1371 Cmi
begin

text \<open>
  The drivers of the library in the list of the search: the functions of \<open>sc_cmi.c\<close>, \<open>sc_e1371.c\<close>, \<open>sc_ich.c\<close>
  and \<open>sc_via82.c\<close> as the search calls them, in the order of \<open>all_sndcard_info\<close>. The search keeps one audio state with a
  pointer to the private structure of whichever driver is asked; the models of the drivers keep their own type there.
\<close>

section \<open>The structures behind the private pointer, and what the drivers share\<close>

datatype card_ptr = Cmi_card cmi8x38_card | Ensoniq_card ensoniq_card | Intel_card intel_card | Via_card via82xx_card

fun cmi_of :: "card_ptr \<Rightarrow> cmi8x38_card option" where
  "cmi_of (Cmi_card c) = Some c"
| "cmi_of _ = None"

fun ensoniq_of :: "card_ptr \<Rightarrow> ensoniq_card option" where
  "ensoniq_of (Ensoniq_card c) = Some c"
| "ensoniq_of _ = None"

fun intel_of :: "card_ptr \<Rightarrow> intel_card option" where
  "intel_of (Intel_card c) = Some c"
| "intel_of _ = None"

fun via_of :: "card_ptr \<Rightarrow> via82xx_card option" where
  "via_of (Via_card c) = Some c"
| "via_of _ = None"

record 'h card_sys =
  sys_machine :: 'h
  sys_xms :: DPMI_REG
  sys_maps :: "dpmi_meminfo list"
  sys_dxs_volume :: u32

text \<open>A state of the search as the state of a driver, with what the driver has more than others (\<open>ext\<close>), and back (\<open>save\<close>).\<close>

type_synonym 'h search_state = "card_ptr aui_card \<times> 'h card_sys"

definition driver_view :: "('h search_state \<Rightarrow> 'z) \<Rightarrow> (card_ptr \<Rightarrow> 'c option) \<Rightarrow> 'h search_state \<Rightarrow> mpxplay_audioout_info \<times> ('c, 'h, 'z) card_dev_scheme" where
  "driver_view ext prj s = (mpxplay_audioout_info.truncate (fst s),
     \<lparr>private_data = Option.bind (card_private_data (fst s)) prj, aui_pci_dev = card_pci_dev (fst s), machine = sys_machine (snd s),
      xms_regs = sys_xms (snd s), physicalmaps = sys_maps (snd s), \<dots> = ext s\<rparr>)"

definition driver_put :: "(('c, 'h, 'z) card_dev_scheme \<Rightarrow> 'h search_state \<Rightarrow> 'h search_state) \<Rightarrow> ('c \<Rightarrow> card_ptr) \<Rightarrow>
    mpxplay_audioout_info \<times> ('c, 'h, 'z) card_dev_scheme \<Rightarrow> 'h search_state \<Rightarrow> 'h search_state" where
  "driver_put save ptr r s = (let (m, d) = r in save d
     ((mpxplay_audioout_info.extend m (mpxplay_audioout_info.more (fst s)))
        \<lparr>card_private_data := map_option ptr (private_data d), card_pci_dev := aui_pci_dev d\<rparr>,
      (snd s)\<lparr>sys_machine := machine d, sys_xms := xms_regs d, sys_maps := physicalmaps d\<rparr>))"

definition driver_detect :: "('h search_state \<Rightarrow> 'z) \<Rightarrow> (('c, 'h, 'z) card_dev_scheme \<Rightarrow> 'h search_state \<Rightarrow> 'h search_state) \<Rightarrow> ('c \<Rightarrow> card_ptr) \<Rightarrow> (card_ptr \<Rightarrow> 'c option) \<Rightarrow>
    (mpxplay_audioout_info \<times> ('c, 'h, 'z) card_dev_scheme \<Rightarrow> (bool \<times> mpxplay_audioout_info \<times> ('c, 'h, 'z) card_dev_scheme) res) \<Rightarrow>
    'h search_state \<Rightarrow> (bool \<times> 'h search_state) res" where
  "driver_detect ext save ptr prj f s = bindE (f (driver_view ext prj s)) (\<lambda>(ok, r). Inr (ok, driver_put save ptr r s))"

definition driver_close :: "('h search_state \<Rightarrow> 'z) \<Rightarrow> (('c, 'h, 'z) card_dev_scheme \<Rightarrow> 'h search_state \<Rightarrow> 'h search_state) \<Rightarrow> ('c \<Rightarrow> card_ptr) \<Rightarrow> (card_ptr \<Rightarrow> 'c option) \<Rightarrow>
    (mpxplay_audioout_info \<times> ('c, 'h, 'z) card_dev_scheme \<Rightarrow> (mpxplay_audioout_info \<times> ('c, 'h, 'z) card_dev_scheme) res) \<Rightarrow>
    'h search_state \<Rightarrow> 'h search_state res" where
  "driver_close ext save ptr prj f s = bindE (f (driver_view ext prj s)) (\<lambda>r. Inr (driver_put save ptr r s))"

definition plain_ext :: "'h search_state \<Rightarrow> unit" where "plain_ext s = ()"

definition plain_save :: "('c, 'h) card_dev \<Rightarrow> 'h search_state \<Rightarrow> 'h search_state" where "plain_save d s = s"

definition via_ext :: "'h search_state \<Rightarrow> unit via_ext" where "via_ext s = via.fields (sys_dxs_volume (snd s))"

definition via_save :: "'h via \<Rightarrow> 'h search_state \<Rightarrow> 'h search_state" where
  "via_save d s = (fst s, (snd s)\<lparr>sys_dxs_volume := via8233_dxs_volume d\<rparr>)"

definition cmi_ext :: "'h search_state \<Rightarrow> unit cmi_ext" where
  "cmi_ext s = cmi.fields (fm_port (fst s)) (mpu401_port (fst s)) (card_test_index (fst s)) (card_select_index_fm (fst s))"

definition cmi_save :: "'h cmi \<Rightarrow> 'h search_state \<Rightarrow> 'h search_state" where
  "cmi_save d s = ((fst s)\<lparr>fm_port := cmi_fm_port d, mpu401_port := cmi_mpu401_port d\<rparr>, snd s)"

definition CMI8X38_ops :: "'h cmi_env \<Rightarrow> (card_ptr, 'h card_sys) card_ops" where
  "CMI8X38_ops env = \<lparr>co_detect = Some (driver_detect cmi_ext cmi_save Cmi_card cmi_of (CMI8X38_adetect env)),
     co_close = Some (driver_close cmi_ext cmi_save Cmi_card cmi_of (CMI8X38_close env))\<rparr>"

definition ES1371_ops :: "'h card_env \<Rightarrow> (card_ptr, 'h card_sys) card_ops" where
  "ES1371_ops env = \<lparr>co_detect = Some (driver_detect plain_ext plain_save Ensoniq_card ensoniq_of (ES1371_adetect env)),
     co_close = Some (driver_close plain_ext plain_save Ensoniq_card ensoniq_of (\<lambda>(a, d). Inr (a, ES1371_close env d)))\<rparr>"

definition ICH_ops :: "'h card_env \<Rightarrow> (card_ptr, 'h card_sys) card_ops" where
  "ICH_ops env = \<lparr>co_detect = Some (driver_detect plain_ext plain_save Intel_card intel_of (INTELICH_adetect env)),
     co_close = Some (driver_close plain_ext plain_save Intel_card intel_of (\<lambda>(a, d). Inr (a, INTELICH_close env d)))\<rparr>"

definition VIA82XX_ops :: "'h card_env \<Rightarrow> (card_ptr, 'h card_sys) card_ops" where
  "VIA82XX_ops env = \<lparr>co_detect = Some (driver_detect via_ext via_save Via_card via_of (VIA82XX_adetect env)),
     co_close = Some (driver_close via_ext via_save Via_card via_of (VIA82XX_close env))\<rparr>"

section \<open>What detection keeps\<close>

text \<open>The control bits, and a null pointer when the card is not found.\<close>

definition sound_detect :: "(mpxplay_audioout_info \<times> ('c, 'h, 'z) card_dev_scheme \<Rightarrow> (bool \<times> mpxplay_audioout_info \<times> ('c, 'h, 'z) card_dev_scheme) res) \<Rightarrow> bool" where
  "sound_detect f \<longleftrightarrow> (\<forall>a d ok b d'. f (a, d) = Inr (ok, b, d') \<longrightarrow>
     card_controlbits b = card_controlbits a \<and> (\<not> ok \<longrightarrow> private_data d = None \<longrightarrow> private_data d' = None))"

text \<open>What a driver writes back beside that is not of the search.\<close>

definition sound_save :: "(('c, 'h, 'z) card_dev_scheme \<Rightarrow> 'h search_state \<Rightarrow> 'h search_state) \<Rightarrow> bool" where
  "sound_save save \<longleftrightarrow> (\<forall>d s. keeps_choice (fst s) (fst (save d s)) \<and> card_private_data (fst (save d s)) = card_private_data (fst s))"

lemma sound_saves: "sound_save plain_save" "sound_save via_save" "sound_save cmi_save"
  by (simp_all add: sound_save_def plain_save_def via_save_def cmi_save_def keeps_choice_def)

lemma driver_put_keeps:
  assumes w: "sound_save save" and m: "card_controlbits m = card_controlbits a" and p: "driver_put save ptr (m, d) (a, h) = (b, h')"
  shows "keeps_choice a b" and "private_data d = None \<Longrightarrow> card_private_data b = None"
proof -
  define s where "s = ((mpxplay_audioout_info.extend m (mpxplay_audioout_info.more a))\<lparr>card_private_data := map_option ptr (private_data d), card_pci_dev := aui_pci_dev d\<rparr>,
      h\<lparr>sys_machine := machine d, sys_xms := xms_regs d, sys_maps := physicalmaps d\<rparr>)"
  have b: "b = fst (save d s)" using p by (simp add: driver_put_def s_def)
  have k: "keeps_choice (fst s) b" "card_private_data b = card_private_data (fst s)" using w unfolding b sound_save_def by blast+
  have a: "keeps_choice a (fst s)" using m by (cases a) (simp add: s_def keeps_choice_def mpxplay_audioout_info.extend_def mpxplay_audioout_info.defs)
  show "keeps_choice a b" using a k(1) by (simp add: keeps_choice_def)
  have "card_private_data (fst s) = map_option ptr (private_data d)" by (simp add: s_def)
  then show "private_data d = None \<Longrightarrow> card_private_data b = None" using k(2) by simp
qed

lemma driver_is_sound:
  assumes f: "sound_detect f" and w: "sound_save save" and c: "co_detect c = Some (driver_detect ext save ptr prj f)"
  shows "card_driver c"
proof -
  have k: "keeps_choice a b \<and> (\<not> ok \<longrightarrow> card_private_data a = None \<longrightarrow> card_private_data b = None)"
    if r: "driver_detect ext save ptr prj f (a, h) = Inr (ok, b, h')" for a h ok b h'
  proof -
    obtain m e where o: "f (driver_view ext prj (a, h)) = Inr (ok, m, e)" "driver_put save ptr (m, e) (a, h) = (b, h')"
      using r unfolding driver_detect_def by auto
    have k: "card_controlbits m = card_controlbits a" "\<not> ok \<Longrightarrow> card_private_data a = None \<Longrightarrow> private_data e = None"
      using f o(1) unfolding sound_detect_def driver_view_def by (auto simp: mpxplay_audioout_info.truncate_def)
    show ?thesis using driver_put_keeps[OF w k(1) o(2)] k(2) by auto
  qed
  show ?thesis by unfold_locales (use c k in auto)
qed

section \<open>The drivers\<close>

lemma ES1371_detected_bits: "ES1371_detected env k e (a, d) = Inr (b, d') \<Longrightarrow> card_controlbits b = card_controlbits a"
  by (auto simp: ES1371_detected_def snd_es1371_buffer_init_def Let_def)

lemma ES1371_sound: "sound_detect (ES1371_adetect env)"
  unfolding sound_detect_def ES1371_adetect_def Let_def
  by (auto simp: ES1371_close_def Let_def case_prod_beta split: if_splits dest!: ES1371_detected_bits)

lemma VIA82XX_detected_bits: "VIA82XX_detected env k v (a, d) = Inr (b, d') \<Longrightarrow> card_controlbits b = card_controlbits a"
  by (auto simp: VIA82XX_detected_def Let_def case_prod_beta)

lemma VIA82XX_sound: "sound_detect (VIA82XX_adetect env)"
  unfolding sound_detect_def VIA82XX_adetect_def Let_def
  by (auto simp: VIA82XX_close_def Let_def case_prod_beta split: if_splits dest!: VIA82XX_detected_bits)

lemma ICH_detected_bits: "INTELICH_detected env k ic (a, d) = Inr (b, d') \<Longrightarrow> card_controlbits b = card_controlbits a"
  by (auto simp: INTELICH_detected_def snd_intel_buffer_init_def Let_def case_prod_beta)

lemma ICH_closed: "private_data (INTELICH_close env d) = None"
  by (cases "private_data d") (simp_all add: INTELICH_close_def Let_def case_prod_beta)

definition sound_result :: "mpxplay_audioout_info \<Rightarrow> (bool \<times> mpxplay_audioout_info \<times> ('c, 'h, 'z) card_dev_scheme) res \<Rightarrow> bool" where
  "sound_result a r \<longleftrightarrow> (\<forall>ok b d. r = Inr (ok, b, d) \<longrightarrow> card_controlbits b = card_controlbits a \<and> (\<not> ok \<longrightarrow> private_data d = None))"

lemma sound_bind: "(\<And>x. m = Inr x \<Longrightarrow> sound_result a (f x)) \<Longrightarrow> sound_result a (bindE m f)"
  by (auto simp: sound_result_def)

lemma sound_pair: "(\<And>x y. p = (x, y) \<Longrightarrow> sound_result a (f x y)) \<Longrightarrow> sound_result a (case p of (x, y) \<Rightarrow> f x y)"
  by (cases p) simp

lemma sound_if: "(b \<Longrightarrow> sound_result a r) \<Longrightarrow> (\<not> b \<Longrightarrow> sound_result a r') \<Longrightarrow> sound_result a (if b then r else r')"
  by simp

lemma ICH_sound_closed: "sound_result a (Inr (False, a, INTELICH_close env d))"
  by (simp add: sound_result_def ICH_closed)

lemma ICH_sound_detected: "INTELICH_detected env k ic (a, d) = Inr s \<Longrightarrow> sound_result a (Inr (True, s))"
  by (cases s) (simp add: sound_result_def ICH_detected_bits)

lemma ICH_sound: "sound_detect (INTELICH_adetect env)"
proof -
  have y: "sound_result a (INTELICH_adetect env (a, d))" if "ce_calloc env ''intel_card_s''" for a d
    unfolding INTELICH_adetect_def Let_def prod.case using that
    by (simp only: not_True_eq_False if_False) (intro sound_if sound_bind sound_pair ICH_sound_closed; rule ICH_sound_detected; assumption)
  have n: "INTELICH_adetect env (a, d) = Inr (False, a, d)" if "\<not> ce_calloc env ''intel_card_s''" for a d
    using that by (simp add: INTELICH_adetect_def)
  show ?thesis
  proof (cases "ce_calloc env ''intel_card_s''")
    case True
    then show ?thesis using y unfolding sound_detect_def sound_result_def by blast
  next
    case False
    then show ?thesis unfolding sound_detect_def n[OF False] by simp
  qed
qed

lemma cm_detect_mpu401_bits: "cm_detect_mpu401 env c (a, d) = (b, d') \<Longrightarrow> card_controlbits b = card_controlbits a"
  by (auto simp: cm_detect_mpu401_def Let_def case_prod_beta split: if_splits)

lemma cm_detect_fm_bits: "cm_detect_fm env c (a, d) = Inr (b, d') \<Longrightarrow> card_controlbits b = card_controlbits a"
  by (auto simp: cm_detect_fm_def Let_def split: if_splits)

lemma CMI8X38_detected_bits: "CMI8X38_detected env k c (a, d) = Inr (b, d') \<Longrightarrow> card_controlbits b = card_controlbits a"
  by (auto simp: CMI8X38_detected_def Let_def case_prod_beta dest!: cm_detect_fm_bits cm_detect_mpu401_bits)

lemma CMI8X38_sound: "sound_detect (CMI8X38_adetect env)"
  unfolding sound_detect_def CMI8X38_adetect_def Let_def
  by (auto simp: CMI8X38_close_def Let_def case_prod_beta split: if_splits dest!: CMI8X38_detected_bits)

interpretation cmi8x38: card_driver "CMI8X38_ops env"
  by (rule driver_is_sound[OF CMI8X38_sound sound_saves(3)]) (simp add: CMI8X38_ops_def)

interpretation es1371: card_driver "ES1371_ops env"
  by (rule driver_is_sound[OF ES1371_sound sound_saves(1)]) (simp add: ES1371_ops_def)

interpretation via82: card_driver "VIA82XX_ops env"
  by (rule driver_is_sound[OF VIA82XX_sound sound_saves(2)]) (simp add: VIA82XX_ops_def)

interpretation ich_driver: card_driver "ICH_ops env"
  by (rule driver_is_sound[OF ICH_sound sound_saves(1)]) (simp add: ICH_ops_def)

end
