(* ===== verification/Spec2Isabelle.thy ===== *)
theory Spec2Isabelle
  imports Start Xms Strings Cards Vectors
begin

text \<open>
  SBEMU: a resident DOS program that makes a PCI sound card look like a Sound Blaster to DOS games, in real and
  in protected mode. This development models the program's own code; the theories follow its files.

  How the parts interact. The guest's accesses to the ports of a Sound Blaster, an FM chip, a MIDI interface, the
  DMA controllers and (while an interrupt is injected) the interrupt controllers are trapped by the
  memory manager or the DPMI host, which look the port up in lists of handlers (theory Traps, \<open>qemm.c\<close> and
  \<open>hdpmipt.c\<close>). The handlers are those of \<open>main.c\<close> (theory Ports); they change the state of the
  Sound Blaster (Sbemu), the virtual DMA controllers (Vdma), the virtual interrupt controllers (Virq) and the FM
  front end (Opl3). Whenever the sound card needs data it raises an interrupt, whose handler (theory Isr) asks the output
  layer (Aucards) for the room in the card's buffer, takes the guest's samples from the memory the virtual DMA controller
  points at, converts them (Pcm, Adpcm, Mixing), advances the DMA channel, injects the Sound Blaster's interrupt
  when a block has ended, mixes FM in and writes the result to the card.

  Conventions (theory Prelude). A word of \<open>w\<close> bits is a machine integer where the code computes with unsigned or
  wrapping values; a C \<open>int\<close> is an integer, and a conversion or an overflow that can occur is written out. An
  access out of bounds, a shift by a bad amount, a division by zero, an undefined bit scan and a failing assertion
  are the left values of the result type \<open>res\<close>, so a theorem that a call gives \<open>Inr\<close> says that none of them
  happens. A routine that may never return has an option result, defined as a least fixed point, and
  the theorems that it returns prove that the result is not \<open>None\<close>.

  The theories, by the source they model:

  \<^item> \<open>sbemu/untrapio.c\<close>, \<open>sbemu/pic.c\<close>: Untrapio (the two function pointers behind every port access), Pic (the 8259 driver, with
    the locale \<open>pic_controller\<close>: what the driver relies on, instantiated by the virtual controller in Virq).
  \<^item> \<open>sbemu/virq.c\<close>: Virq. A guest handler that runs during an injection sees exactly the injected interrupt in
    service, and an injection that ends restores the masks.
  \<^item> \<open>sbemu/vdma.c\<close>: Vdma. Atomicity of two-byte reads, the programming of a channel, the progress of a transfer, and exactly which
    ports are written to in bounds.
  \<^item> \<open>sbemu/ctadpcm.h\<close>: Adpcm, with the locale \<open>adpcm_codec\<close> (the scales that occur keep all table indices in
    range), interpreted for the 2, 3 and 4-bit decoders.
  \<^item> \<open>sbemu/sbemu.c\<close>: Sbemu (every function), SbemuProps (the invariant of the DSP over any interleaving of guest and
    mixer operations, the reset handshake, the queries), SbemuXfer (transfers, rates, the block decoder, the status bits, the
    mixer; the locale \<open>dma_provider\<close> is what the DSP asks of the DMA controller, interpreted on Vdma in Ports).
  \<^item> \<open>sbemu/dpmi/\<close>: Regs (the register block), Xms (\<open>xms.c\<close>), Dpmi (\<open>dpmi.c\<close> and \<open>dpmi_dj2.c\<close>: address maps, linear memory, real-mode vectors,
    DOS memory), Isrhook (interrupt handlers of both modes, which are installed and removed without a trace).
  \<^item> \<open>irqguard.c\<close>: Irqguard (the real-mode stub in front of an interrupt handler: its bytes, its installation and removal).
    Its assertions are compiled in a debug build only, which is a parameter.
  \<^item> \<open>tsr.c\<close> and the resident part of \<open>main.c\<close>: Tsr (the search for a resident copy and the exchange of options with it).
  \<^item> \<open>mpxplay/au_cards/pcibios.c\<close>: Pci (accesses to the configuration space, the search for devices), Pciirq (the choice
    and the assignment of an interrupt line to a card).
  \<^item> \<open>qemm.c\<close>, \<open>hdpmipt.c\<close>: Traps. The linked lists of trap tables on a store of nodes, refined by lists of tables; the locale
    \<open>port_trap\<close> is interpreted for both.
  \<^item> \<open>mpxplay/au_cards/au_base.c\<close>: Strings (the string routines on byte memory), Pcm (width, channels, resampling), Cardmem (physical and
    extended memory mapped for cards, with an account of what the DPMI host has given), Vectors (protected-mode vectors and their
    wrappers; the ports of \<open>ioport.c\<close>), Cardbuf (delays, and from \<open>dmairq.c\<close> the set-up of the DMA buffer; the locale
    \<open>card_position\<close> is what the output layer asks of a card that knows its position).
  \<^item> \<open>mpxplay/au_cards/ac97_def.c\<close> and what drivers share: Ac97 (mixer channels, the environment and the device of a driver, tables in memory, what
    waits leave alone).
  \<^item> \<open>mpxplay/au_cards/sc_ich.c\<close>, \<open>sc_via82.c\<close>, \<open>sc_e1371.c\<close>, \<open>sc_cmi.c\<close>: Ich, Via82, Es1371, Cmi, four whole drivers: detection, codec, rates, descriptors or
    frames of the DMA engine, position, interrupt, mixer. Cmi proves that its unbounded waits end on a chip whose reads fail any number of times.
    Each is an interpretation of \<open>card_position\<close>, so the output layer's room is
    right for each whatever the hardware answers.
  \<^item> \<open>mpxplay/au_cards/au_cards.c\<close>, \<open>dmairq.c\<close>: Aucards (state and operations of the output), DmaRing (the locale \<open>card_ring\<close>: the DMA buffer as
    a ring buffer whose unplayed bytes survive), Mixer (rates and mixer channels), Mirq (interrupt installation), Auinit (the search for the
    cards over a list of drivers; the locale \<open>card_driver\<close> is what it relies on in a driver, interpreted in Cards on the four drivers
    and in Auinit on the null driver of \<open>sc_null.c\<close>).
  \<^item> \<open>sbemu/serial.c\<close>: Serial. \<open>sbemu/opl3emu.cpp\<close>: Opl3.
  \<^item> \<open>main.c\<close>: Options (option table, command line, the \<open>BLASTER\<close> variable), Ports (state, port handlers, tables), Mixing (volumes and
    mixing), Isr (the interrupt), Start (\<open>main\<close> from the memory managers on, as steps that may end the program, with the exit that undoes them; a
    start that stays resident meets what Tsr assumes).

  What the groups of lemmas show. Invariants and safety: the well-formedness of the DSP (\<open>sbemu_wf\<close>) holds in every reachable
  state; every handler that is installed returns without an error from such a state (with a configuration of the Sound Blaster that the code handles, and for
  writes to FM ports with a synthesiser, which without FM there is not); a round of the interrupt
  takes no more of the guest's buffer than there is; what is written to the card never overwrites what it has yet to
  play. Refinement and equivalence: trap lists against lists of tables, the block ADPCM decoder against the sample
  decoder, ring copies against a byte-wise ring, block comparison against byte comparison, string search against its
  specification, the search for the cards against their numbers in the list. The block decoder is also compared with an independent reference for one sample (\<open>adpcm_reference\<close>). Termination: the loops of the interrupt end whatever the guest does, because every round
  yields at least one frame. Round trips: DMA programming, vectors, extended memory, the \<open>BLASTER\<close> value.
  Where the code does something else than it means to, a lemma computes it (for instance
  \<open>mix_sample_overflow\<close>, \<open>adpcm_command_bits\<close>, \<open>resampler_low_rate\<close>).

  Bounds. No fuel is used. The loops that end by a counter are recursive on it; a \<open>do ... while\<close> on an unsigned counter that
  is 0 makes 2 to the power of 32 rounds (\<open>do_count\<close>). The resampler's loop is a function that ends because its output
  list is bounded by the target; the loop over the DMA buffer, the waits for the serial port and for registers of the C-Media chip, and the output loop are least
  fixed points. The termination of the interrupt assumes at most 65535 frames of room in the card's buffer, far more than
  the 16384 samples the sample buffers hold, and a guest that changes the Sound Blaster through its ports only.

  Parameters. What is not in the sources is an argument: the effect of port instructions on the machine, the guest's interrupt
  handlers, the DPMI and XMS services, the drivers of the sound cards (records of functions as in
  \<open>one_sndcard_info\<close>), the FM synthesiser and the guest's memory. What a theorem relies on in a device is a predicate on these functions, met by a small
  machine in its witness: a timer and a clock that run (\<open>timer_runs\<close>, \<open>clock_runs\<close>), configuration space with read-only and write-1-to-clear bits
  (\<open>pci_laws\<close>), registers behind a page (\<open>last_written\<close>), a rate converter that is busy or in the wrong state for a time (\<open>src_laws\<close>), a chip
  whose reads fail and that holds its interrupts until they are acknowledged (\<open>cm_chip\<close>, \<open>cm_int_chip\<close>).

  Not modelled. The other drivers of sound cards under \<open>mpxplay/au_cards/sc_*\<close>, and \<open>drivers/\<close>: register programming of physical
  hardware, most of it vendored from Linux and mpxplay. The FM
  core \<open>dbopl.cpp\<close> and the allocator \<open>dlmalloc.h\<close>: third-party code. Inline assembly: the entry stubs of
  interrupts and traps. The move of the program's memory when it becomes resident. Debug output, and \<open>printf\<close> everywhere. The percent conversions of the card mixer are
  floating-point in the code; they are modelled by the integer division they round to.
\<close>

end
